(* ===== verification/Prelude.thy ===== *)
theory Prelude
  imports Main "HOL-Library.Word" "HOL-Library.Char_ord" "HOL-Library.List_Lexorder"
begin

text \<open>
  Shared vocabulary of the development: the Go types the services use (byte strings, UUIDs,
  instants and durations in nanoseconds), results (\<open>Inl\<close> an error, \<open>Inr\<close> a value), the
  outcome of calls to the database and to Redis, tables as lists of rows with the SQL
  statements the repositories issue on them, and the generic lemmas the components use.
\<close>

section \<open>Types\<close>

text \<open>
  A Go \<open>string\<close> and a Go \<open>[]byte\<close> are both sequences of bytes; an Isabelle \<open>char\<close> is
  one byte. A UUID is 16 bytes, \<open>uuid.Nil\<close> the one with all bits zero. A \<open>time.Time\<close> is
  the number of nanoseconds since the Unix epoch, a \<open>time.Duration\<close> a number of
  nanoseconds.
\<close>

type_synonym bytes = string
type_synonym uuid = "128 word"
type_synonym instant = int
type_synonym duration = int

abbreviation Nil_uuid :: uuid where
  "Nil_uuid \<equiv> 0"

abbreviation second :: duration where
  "second \<equiv> 1000000000"

abbreviation minute :: duration where
  "minute \<equiv> 60000000000"

abbreviation hour :: duration where
  "hour \<equiv> 3600000000000"

abbreviation millisecond :: duration where
  "millisecond \<equiv> 1000000"

text \<open>
  \<open>time.Time.Truncate(time.Second)\<close>, \<open>Unix\<close> and \<open>time.Unix(s, 0)\<close>; \<open>Sub\<close> saturates at
  the limits of an \<open>int64\<close> number of nanoseconds.
\<close>

definition truncate_second :: "instant \<Rightarrow> instant" where
  "truncate_second t = t - t mod second"

definition unix_of :: "instant \<Rightarrow> int" where
  "unix_of t = t div second"

definition of_unix :: "int \<Rightarrow> instant" where
  "of_unix s = s * second"

definition max_duration :: duration where
  "max_duration = 2 ^ 63 - 1"

definition time_sub :: "instant \<Rightarrow> instant \<Rightarrow> duration" where
  "time_sub a b = max (- (2 ^ 63)) (min max_duration (a - b))"

lemma of_unix_truncate: "of_unix (unix_of (truncate_second t)) = truncate_second t"
proof -
  have "truncate_second t mod second = 0"
    by (simp add: truncate_second_def mod_diff_left_eq [symmetric])
  then show ?thesis
    by (simp add: of_unix_def unix_of_def minus_mod_eq_mult_div [symmetric] mult.commute)
qed

lemma truncate_second_bounds: "truncate_second t \<le> t" "t < truncate_second t + second"
proof -
  have "0 \<le> t mod second" "t mod second < second" by simp_all
  then show "truncate_second t \<le> t" "t < truncate_second t + second"
    by (simp_all add: truncate_second_def)
qed

lemma unix_of_add: "unix_of (t + k * second) = unix_of t + k"
  by (simp add: unix_of_def)

lemma of_unix_add: "of_unix (s + k) = of_unix s + k * second"
  by (simp add: of_unix_def algebra_simps)

lemma time_sub_exact:
  "0 \<le> d \<Longrightarrow> d < max_duration \<Longrightarrow> time_sub a b = d \<longleftrightarrow> a - b = d"
  by (auto simp: time_sub_def max_duration_def min_def max_def)

section \<open>Outcomes of external calls\<close>

text \<open>
  A call to PostgreSQL or Redis may fail at any point. An operation takes a schedule: entry
  \<open>k\<close> says whether its \<open>k\<close>-th external call, in source order, fails. A sub-operation gets
  the schedule shifted by the number of calls made before it. A failed statement or a failed
  commit leaves the tables as they were, because the deferred rollback discards the
  transaction; each operation returns its result with the new tables.
\<close>

type_synonym schedule = "nat \<Rightarrow> bool"

definition later :: "nat \<Rightarrow> schedule \<Rightarrow> schedule" where
  "later n f = (\<lambda>k. f (n + k))"

abbreviation no_fault :: schedule where
  "no_fault \<equiv> \<lambda>_. False"

lemma later_apply [simp]: "later n f k = f (n + k)"
  by (simp add: later_def)

lemma later_no_fault [simp]: "later n no_fault = no_fault"
  by (simp add: later_def)

text \<open>Draws from the random source: the \<open>k\<close>-th draw of an operation, or \<open>None\<close> on failure.\<close>

type_synonym 'a draws = "nat \<Rightarrow> 'a option"

section \<open>Tables\<close>

text \<open>
  A table is the list of its rows. \<open>UPDATE t SET f WHERE P\<close>, \<open>DELETE FROM t WHERE P\<close>,
  \<open>SELECT EXISTS\<close>, the unique row of a key, and the newest row of a query ordered by two
  descending columns.
\<close>

definition update_where :: "('r \<Rightarrow> bool) \<Rightarrow> ('r \<Rightarrow> 'r) \<Rightarrow> 'r list \<Rightarrow> 'r list" where
  "update_where P f t = map (\<lambda>r. if P r then f r else r) t"

definition delete_where :: "('r \<Rightarrow> bool) \<Rightarrow> 'r list \<Rightarrow> 'r list" where
  "delete_where P t = filter (\<lambda>r. \<not> P r) t"

definition exists_row :: "('r \<Rightarrow> bool) \<Rightarrow> 'r list \<Rightarrow> bool" where
  "exists_row P t \<longleftrightarrow> list_ex P t"

definition coalesce :: "'a option \<Rightarrow> 'a \<Rightarrow> 'a option" where
  "coalesce x d = (case x of None \<Rightarrow> Some d | Some v \<Rightarrow> Some v)"

fun newest :: "('r \<Rightarrow> 'a::linorder) \<Rightarrow> ('r \<Rightarrow> 'b::linorder) \<Rightarrow> 'r list \<Rightarrow> 'r option" where
  "newest k1 k2 [] = None"
| "newest k1 k2 (r # rs) =
     (case newest k1 k2 rs of
        None \<Rightarrow> Some r
      | Some q \<Rightarrow> if k1 r < k1 q \<or> k1 r = k1 q \<and> k2 r < k2 q then Some q else Some r)"

named_theorems table_simps \<open>rewriting of the SQL statements\<close>

lemma set_update_where [table_simps]:
  "set (update_where P f t) = {r'. \<exists>r\<in>set t. r' = (if P r then f r else r)}"
  by (auto simp: update_where_def)

lemma set_delete_where [table_simps]: "set (delete_where P t) = {r\<in>set t. \<not> P r}"
  by (auto simp: delete_where_def)

lemma exists_row_iff [table_simps]: "exists_row P t \<longleftrightarrow> (\<exists>r\<in>set t. P r)"
  by (auto simp: exists_row_def list_ex_iff)

lemma exists_key_iff: "exists_row (\<lambda>r. k r = v) t \<longleftrightarrow> v \<in> k ` set t"
  by (auto simp: exists_row_iff image_iff)

lemma coalesce_Some [simp]: "coalesce (Some v) d = Some v"
  by (simp add: coalesce_def)

lemma coalesce_None [simp]: "coalesce None d = Some d"
  by (simp add: coalesce_def)

lemma coalesce_not_None [simp]: "coalesce x d \<noteq> None"
  by (cases x) simp_all

lemma coalesce_ex [simp]: "\<exists>y. coalesce x d = Some y"
  by (cases x) simp_all

lemma length_update_where [simp]: "length (update_where P f t) = length t"
  by (simp add: update_where_def)

lemma update_where_Nil [simp]: "update_where P f [] = []"
  by (simp add: update_where_def)

lemma update_where_Cons [simp]:
  "update_where P f (r # t) = (if P r then f r else r) # update_where P f t"
  by (simp add: update_where_def)

lemma update_where_append [simp]:
  "update_where P f (t @ u) = update_where P f t @ update_where P f u"
  by (simp add: update_where_def)

lemma update_where_none: "(\<And>r. r \<in> set t \<Longrightarrow> \<not> P r) \<Longrightarrow> update_where P f t = t"
  by (induction t) auto

lemma map_update_where:
  "(\<And>r. P r \<Longrightarrow> g (f r) = g r) \<Longrightarrow> map g (update_where P f t) = map g t"
  by (simp add: update_where_def)

lemma newest_None_iff [simp]: "newest k1 k2 rs = None \<longleftrightarrow> rs = []"
  by (cases rs) (auto split: option.splits)

lemma newest_in: "newest k1 k2 rs = Some r \<Longrightarrow> r \<in> set rs"
  by (induction rs arbitrary: r) (auto split: option.splits if_splits)

lemma newest_max:
  "newest k1 k2 rs = Some r \<Longrightarrow> q \<in> set rs \<Longrightarrow> k1 q < k1 r \<or> k1 q = k1 r \<and> k2 q \<le> k2 r"
proof (induction rs arbitrary: r)
  case Nil
  then show ?case by simp
next
  case (Cons a rs)
  show ?case
  proof (cases "newest k1 k2 rs")
    case None
    then have "rs = []" by simp
    with Cons.prems show ?thesis by simp
  next
    case (Some b)
    have below: "q \<in> set rs \<Longrightarrow> k1 q < k1 b \<or> k1 q = k1 b \<and> k2 q \<le> k2 b"
      using Cons.IH [OF Some] .
    from Cons.prems Some show ?thesis
      using below by (auto split: if_splits)
  qed
qed

lemma find_Some_in: "find P xs = Some x \<Longrightarrow> x \<in> set xs \<and> P x"
  by (induction xs) (auto split: if_splits)

lemma find_None: "find P xs = None \<longleftrightarrow> (\<forall>x\<in>set xs. \<not> P x)"
  by (auto simp: find_None_iff)

text \<open>A key column: two rows of the table with the same key are the same row.\<close>

lemma distinct_key_eq:
  "distinct (map k t) \<Longrightarrow> r \<in> set t \<Longrightarrow> q \<in> set t \<Longrightarrow> k r = k q \<Longrightarrow> r = q"
  by (auto simp: distinct_map dest: inj_onD)

lemma find_key:
  "distinct (map k t) \<Longrightarrow> r \<in> set t \<Longrightarrow> k r = v \<Longrightarrow> find (\<lambda>x. k x = v) t = Some r"
  by (induction t) (auto simp: image_iff)

lemma distinct_map_filter_key: "distinct (map k t) \<Longrightarrow> distinct (map k (filter P t))"
  by (induction t) auto

lemma update_where_key:
  assumes "distinct (map k t)" "v \<in> set t"
  obtains a b where "t = a @ v # b" "update_where (\<lambda>x. k x = k v) g t = a @ g v # b"
proof -
  obtain a b where t: "t = a @ v # b" using assms(2) by (auto dest: split_list)
  have "\<forall>x\<in>set a \<union> set b. k x \<noteq> k v" using assms(1) by (auto simp: t image_iff)
  then have "update_where (\<lambda>x. k x = k v) g t = a @ g v # b"
    by (simp add: t update_where_none)
  with t that show thesis by blast
qed

lemma filter_update_one:
  assumes "distinct (map k t)" "v \<in> set t"
  shows "length (filter P (update_where (\<lambda>x. k x = k v) g t)) + (if P v then 1 else 0)
    = length (filter P t) + (if P (g v) then 1 else 0)"
  by (rule update_where_key [OF assms, of g]) simp

lemma filter_update_other:
  assumes "\<And>r. P r \<Longrightarrow> k r = x" "\<And>r. k (g r) = k r"
  shows "filter (\<lambda>r. k r \<noteq> x) (update_where P g t) = filter (\<lambda>r. k r \<noteq> x) t"
  using assms by (induction t) auto

lemma sum_key_le_1:
  "distinct (map k t) \<Longrightarrow> sum_list (map (\<lambda>r. if k r = v \<and> P r then 1 else (0::nat)) t) \<le> 1"
proof (induction t)
  case Nil
  then show ?case by simp
next
  case (Cons a t)
  show ?case
  proof (cases "k a = v")
    case True
    then have "\<forall>r\<in>set t. k r \<noteq> v" using Cons.prems by (auto simp: image_iff)
    then have "map (\<lambda>r. if k r = v \<and> P r then 1 else (0::nat)) t = map (\<lambda>r. 0) t"
      by (intro map_cong) auto
    then have "sum_list (map (\<lambda>r. if k r = v \<and> P r then 1 else (0::nat)) t) = 0" by (simp only:) simp
    then show ?thesis by (simp del: sum_list_eq_0_iff)
  next
    case False
    with Cons show ?thesis by simp
  qed
qed

lemma sum_update_where_le:
  fixes g :: "'r \<Rightarrow> nat"
  shows "(\<And>r. r \<in> set t \<Longrightarrow> P r \<Longrightarrow> g (f r) \<le> g r) \<Longrightarrow>
    sum_list (map g (update_where P f t)) \<le> sum_list (map g t)"
  by (induction t) (auto intro: add_mono)

lemma sum_update_where_less:
  fixes g :: "'r \<Rightarrow> nat"
  assumes "\<And>r. r \<in> set t \<Longrightarrow> P r \<Longrightarrow> g (f r) \<le> g r" "r \<in> set t" "P r" "g (f r) < g r"
  shows "Suc (sum_list (map g (update_where P f t))) \<le> sum_list (map g t)"
proof -
  obtain u v where t: "t = u @ r # v" using assms(2) by (auto dest: split_list)
  have "sum_list (map g (update_where P f u)) \<le> sum_list (map g u)"
    "sum_list (map g (update_where P f v)) \<le> sum_list (map g v)"
    using assms(1) by (auto simp: t intro!: sum_update_where_le)
  with assms(3,4) show ?thesis by (simp add: t)
qed

section \<open>Transactions\<close>

text \<open>The body of a transaction stops at the first error; the tables then stay as they were. A
  transaction that only reports its error, and one that also returns a value.\<close>

definition andthen :: "'e + 'a \<Rightarrow> ('a \<Rightarrow> 'e + 'b) \<Rightarrow> 'e + 'b" where
  "andthen x k = (case x of Inl e \<Rightarrow> Inl e | Inr v \<Rightarrow> k v)"

definition transaction :: "'e + 's \<Rightarrow> 's \<Rightarrow> 'e option \<times> 's" where
  "transaction body s = (case body of Inl e \<Rightarrow> (Some e, s) | Inr s' \<Rightarrow> (None, s'))"

definition returning :: "'e + 'a \<times> 's \<Rightarrow> 's \<Rightarrow> ('e + 'a) \<times> 's" where
  "returning body s = (case body of Inl e \<Rightarrow> (Inl e, s) | Inr (v, s') \<Rightarrow> (Inr v, s'))"

text \<open>A guard with the error of its early return, and a value that must be there.\<close>

definition check :: "bool \<Rightarrow> 'e \<Rightarrow> 'e + unit" where
  "check b e = (if b then Inr () else Inl e)"

definition present :: "'e \<Rightarrow> 'a option \<Rightarrow> 'e + 'a" where
  "present e x = (case x of None \<Rightarrow> Inl e | Some v \<Rightarrow> Inr v)"

lemma check_Inr [simp]: "check b e = Inr v \<longleftrightarrow> b"
  by (simp add: check_def)

lemma present_Inr [simp]: "present e x = Inr v \<longleftrightarrow> x = Some v"
  by (cases x) (simp_all add: present_def)

lemma andthen_simps [simp]: "andthen (Inl e) k = Inl e" "andthen (Inr v) k = k v"
  by (simp_all add: andthen_def)

lemma andthen_Inr: "andthen x k = Inr y \<longleftrightarrow> (\<exists>v. x = Inr v \<and> k v = Inr y)"
  by (cases x) simp_all

lemma transaction_cases:
  assumes "transaction body s = (x, s')"
  obtains (failed) e where "x = Some e" "s' = s" | (committed) "x = None" "body = Inr s'"
  using assms that by (auto simp: transaction_def split: sum.splits)

lemma returning_cases:
  assumes "returning body s = (x, s')"
  obtains (failed) e where "x = Inl e" "s' = s" | (committed) v where "x = Inr v" "body = Inr (v, s')"
  using assms that by (auto simp: returning_def split: sum.splits)

text \<open>The methods of a service: the state goes on to the next call, and the first error ends the method.\<close>

definition proceed :: "('e + 'a) \<times> 's \<Rightarrow> ('a \<Rightarrow> 's \<Rightarrow> ('e + 'b) \<times> 's) \<Rightarrow> ('e + 'b) \<times> 's" where
  "proceed r k = (case r of (Inl e, s) \<Rightarrow> (Inl e, s) | (Inr v, s) \<Rightarrow> k v s)"

lemma proceed_simps [simp]: "proceed (Inl e, s) k = (Inl e, s)" "proceed (Inr v, s) k = k v s"
  by (simp_all add: proceed_def)

lemma proceed_cases:
  assumes "proceed r k = (x, s')"
  obtains (stopped) e where "r = (Inl e, s')" "x = Inl e" | (went) v s where "r = (Inr v, s)" "k v s = (x, s')"
  using assms that by (auto simp: proceed_def split: prod.splits sum.splits)

section \<open>Refinement\<close>

text \<open>
  A concrete system refines an abstract one if the abstraction of every step is an abstract step or
  leaves the abstract state as it is. Then every concrete run has an abstract counterpart.
\<close>

locale simulation =
  fixes cinit :: "'c \<Rightarrow> bool" and cstep :: "'c \<Rightarrow> 'c \<Rightarrow> bool"
    and astep :: "'a \<Rightarrow> 'a \<Rightarrow> bool" and view :: "'c \<Rightarrow> 'a" and inv :: "'c \<Rightarrow> bool"
  assumes begins: "cinit c \<Longrightarrow> inv c"
    and preserves: "inv c \<Longrightarrow> cstep c c' \<Longrightarrow> inv c'"
    and simulates: "inv c \<Longrightarrow> cstep c c' \<Longrightarrow> view c' = view c \<or> astep (view c) (view c')"
begin

lemma run_refines: "cstep\<^sup>*\<^sup>* c c' \<Longrightarrow> inv c \<Longrightarrow> inv c' \<and> astep\<^sup>*\<^sup>* (view c) (view c')"
proof (induction rule: rtranclp_induct)
  case base
  then show ?case by simp
next
  case (step y z)
  with preserves simulates show ?case by (metis rtranclp.rtrancl_into_rtrancl)
qed

lemma reached_inv: "cinit c \<Longrightarrow> cstep\<^sup>*\<^sup>* c c' \<Longrightarrow> inv c'"
  using run_refines begins by blast

lemma reached_refines: "cinit c \<Longrightarrow> cstep\<^sup>*\<^sup>* c c' \<Longrightarrow> astep\<^sup>*\<^sup>* (view c) (view c')"
  using run_refines begins by blast

end

section \<open>Runs and budgets\<close>

text \<open>
  A run applies an operation to a list of inputs in turn and collects the results. If the state
  carries a number that never grows and drops at every result of one kind, a run has at most that
  many results of the kind. Guess limits and single-use credentials are instances.
\<close>

fun run_all :: "('a \<Rightarrow> 's \<Rightarrow> 'r \<times> 's) \<Rightarrow> 'a list \<Rightarrow> 's \<Rightarrow> 'r list \<times> 's" where
  "run_all step [] s = ([], s)"
| "run_all step (a # as) s =
     (case step a s of (r, s') \<Rightarrow> (case run_all step as s' of (rs, s'') \<Rightarrow> (r # rs, s'')))"

locale budget =
  fixes step :: "'a \<Rightarrow> 's \<Rightarrow> 'r \<times> 's"
    and inv :: "'s \<Rightarrow> bool"
    and hit :: "'a \<Rightarrow> 'r \<Rightarrow> bool"
    and left :: "'s \<Rightarrow> nat"
  assumes keeps: "inv s \<Longrightarrow> step a s = (r, s') \<Longrightarrow> inv s'"
    and never_grows: "inv s \<Longrightarrow> step a s = (r, s') \<Longrightarrow> left s' \<le> left s"
    and spends: "inv s \<Longrightarrow> step a s = (r, s') \<Longrightarrow> hit a r \<Longrightarrow> left s' < left s"
begin

lemma hits_bounded:
  "inv s \<Longrightarrow> run_all step as s = (rs, s') \<Longrightarrow>
     length (filter (\<lambda>(a, r). hit a r) (zip as rs)) + left s' \<le> left s \<and> inv s'"
proof (induction as arbitrary: s rs)
  case Nil
  then show ?case by simp
next
  case (Cons a as)
  obtain r s1 where one: "step a s = (r, s1)" by (cases "step a s")
  obtain rs1 where rest: "run_all step as s1 = (rs1, s')" and rs: "rs = r # rs1"
    using Cons.prems(2) one by (auto split: prod.splits)
  have "inv s1" using keeps [OF Cons.prems(1) one] .
  from Cons.IH [OF this rest] never_grows [OF Cons.prems(1) one] spends [OF Cons.prems(1) one]
  show ?case by (auto simp: rs)
qed

end

section \<open>Byte strings\<close>

text \<open>\<open>strings.Cut\<close>, \<open>strings.Count\<close> of one byte, \<open>strings.Split\<close> on one byte, prefixes.\<close>

fun cut :: "char \<Rightarrow> bytes \<Rightarrow> bytes \<times> bytes" where
  "cut c [] = ([], [])"
| "cut c (x # xs) = (if x = c then ([], xs) else (let (a, b) = cut c xs in (x # a, b)))"

definition count_byte :: "char \<Rightarrow> bytes \<Rightarrow> nat" where
  "count_byte c s = length (filter (\<lambda>x. x = c) s)"

fun split_on :: "char \<Rightarrow> bytes \<Rightarrow> bytes list" where
  "split_on c [] = [[]]"
| "split_on c (x # xs) =
     (if x = c then [] # split_on c xs
      else (case split_on c xs of [] \<Rightarrow> [[x]] | p # ps \<Rightarrow> (x # p) # ps))"

fun has_prefix :: "bytes \<Rightarrow> bytes \<Rightarrow> bool" where
  "has_prefix [] s = True"
| "has_prefix (p # ps) [] = False"
| "has_prefix (p # ps) (c # s) = (p = c \<and> has_prefix ps s)"

definition has_suffix :: "bytes \<Rightarrow> bytes \<Rightarrow> bool" where
  "has_suffix p s = has_prefix (rev p) (rev s)"

fun contains :: "bytes \<Rightarrow> bytes \<Rightarrow> bool" where
  "contains p [] = (p = [])"
| "contains p (c # s) = (has_prefix p (c # s) \<or> contains p s)"

definition trim_prefix :: "bytes \<Rightarrow> bytes \<Rightarrow> bytes" where
  "trim_prefix p s = (if has_prefix p s then drop (length p) s else s)"

lemma split_on_not_Nil [simp]: "split_on c s \<noteq> []"
  by (cases s) (auto split: list.splits)

lemma split_on_plain [simp]: "c \<notin> set s \<Longrightarrow> split_on c s = [s]"
  by (induction s) auto

lemma split_on_append: "c \<notin> set s \<Longrightarrow> split_on c (s @ c # t) = s # split_on c t"
  by (induction s) auto

lemma cut_append: "c \<notin> set s \<Longrightarrow> cut c (s @ c # t) = (s, t)"
  by (induction s) auto

lemma count_byte_append [simp]: "count_byte c (s @ t) = count_byte c s + count_byte c t"
  by (simp add: count_byte_def)

lemma count_byte_Cons [simp]:
  "count_byte c (x # s) = (if x = c then Suc (count_byte c s) else count_byte c s)"
  by (simp add: count_byte_def)

lemma count_byte_Nil [simp]: "count_byte c [] = 0"
  by (simp add: count_byte_def)

lemma count_byte_0_iff: "count_byte c s = 0 \<longleftrightarrow> c \<notin> set s"
  by (induction s) auto

lemma count_byte_0 [simp]: "c \<notin> set s \<Longrightarrow> count_byte c s = 0"
  by (simp add: count_byte_0_iff)

lemma cut_count:
  "cut c s = (a, b) \<Longrightarrow> count_byte c s \<noteq> 0 \<Longrightarrow> s = a @ c # b"
  by (induction s arbitrary: a) (auto split: if_splits prod.splits)

lemma has_prefix_append [simp]: "has_prefix p (p @ s)"
  by (induction p) auto

lemma has_prefixD: "has_prefix p s \<Longrightarrow> s = p @ drop (length p) s"
  by (induction p s rule: has_prefix.induct) auto

end
