(* ===== verification/GoText.thy ===== *)
theory GoText
  imports Prelude
begin

text \<open>
  The parts of Go's text packages the sources call: UTF-8 decoding as \<open>range\<close> over a string
  performs it, \<open>utf8.ValidString\<close>, \<open>utf8.RuneCountInString\<close>, \<open>unicode.IsSpace\<close>,
  \<open>unicode.IsControl\<close>, \<open>strings.TrimSpace\<close>, \<open>strings.ToLower\<close>, decimal and hexadecimal
  output and \<open>uuid.UUID.String\<close>. The lower-case table of \<open>unicode.ToLower\<close> beyond ASCII is
  a parameter.
\<close>

section \<open>UTF-8\<close>

abbreviation rune_error :: nat where
  "rune_error \<equiv> 65533"

abbreviation code :: "char \<Rightarrow> nat" where
  "code c \<equiv> of_char c"

text \<open>The admitted second bytes depend on the first one, which excludes overlong forms,
  surrogates and values above \<open>0x10FFFF\<close>.\<close>

definition second_lo :: "nat \<Rightarrow> nat" where
  "second_lo x = (if x = 224 then 160 else if x = 240 then 144 else 128)"

definition second_hi :: "nat \<Rightarrow> nat" where
  "second_hi x = (if x = 237 then 159 else if x = 244 then 143 else 191)"

definition continuation :: "nat \<Rightarrow> bool" where
  "continuation y \<longleftrightarrow> 128 \<le> y \<and> y \<le> 191"

fun decode_rune :: "bytes \<Rightarrow> nat \<times> nat" where
  "decode_rune [] = (rune_error, 0)"
| "decode_rune (a # s) =
     (let x = code a in
      if x < 128 then (x, 1)
      else if 194 \<le> x \<and> x \<le> 223 then
        (case s of
           b # _ \<Rightarrow> if continuation (code b) then ((x - 192) * 64 + (code b - 128), 2)
                    else (rune_error, 1)
         | _ \<Rightarrow> (rune_error, 1))
      else if 224 \<le> x \<and> x \<le> 239 then
        (case s of
           b # c # _ \<Rightarrow>
             if second_lo x \<le> code b \<and> code b \<le> second_hi x \<and> continuation (code c)
             then ((x - 224) * 4096 + (code b - 128) * 64 + (code c - 128), 3)
             else (rune_error, 1)
         | _ \<Rightarrow> (rune_error, 1))
      else if 240 \<le> x \<and> x \<le> 244 then
        (case s of
           b # c # d # _ \<Rightarrow>
             if second_lo x \<le> code b \<and> code b \<le> second_hi x \<and> continuation (code c)
                \<and> continuation (code d)
             then ((x - 240) * 262144 + (code b - 128) * 4096 + (code c - 128) * 64
                     + (code d - 128), 4)
             else (rune_error, 1)
         | _ \<Rightarrow> (rune_error, 1))
      else (rune_error, 1))"

lemma decode_rune_width: "s \<noteq> [] \<Longrightarrow> 0 < snd (decode_rune s)"
  by (cases s) (auto simp: Let_def split: list.splits if_splits)

text \<open>A string as the sequence of its runes, each with the bytes it was read from.\<close>

function pieces :: "bytes \<Rightarrow> (nat \<times> bytes) list" where
  "pieces s = (if s = [] then []
     else (case decode_rune s of (r, n) \<Rightarrow> (r, take n s) # pieces (drop n s)))"
  by pat_completeness auto
termination
proof (relation "measure length")
  show "\<And>s x y. s \<noteq> [] \<Longrightarrow> (x, y) = decode_rune s \<Longrightarrow> (drop y s, s) \<in> measure length"
    by (metis decode_rune_width diff_less in_measure length_drop length_greater_0_conv snd_conv)
qed simp

declare pieces.simps [simp del]
declare decode_rune.simps(2) [simp del]

definition runes :: "bytes \<Rightarrow> nat list" where
  "runes s = map fst (pieces s)"

definition ValidString :: "bytes \<Rightarrow> bool" where
  "ValidString s \<longleftrightarrow> list_all (\<lambda>(r, b). \<not> (r = rune_error \<and> length b = 1)) (pieces s)"

definition RuneCountInString :: "bytes \<Rightarrow> nat" where
  "RuneCountInString s = length (pieces s)"

definition valid_rune :: "nat \<Rightarrow> bool" where
  "valid_rune r \<longleftrightarrow> r < 55296 \<or> 57344 \<le> r \<and> r \<le> 1114111"

definition encode_rune :: "nat \<Rightarrow> bytes" where
  "encode_rune r =
     (if r < 128 then [char_of r]
      else if r < 2048 then [char_of (192 + r div 64), char_of (128 + r mod 64)]
      else if \<not> valid_rune r then [char_of (239::nat), char_of (191::nat), char_of (189::nat)]
      else if r < 65536 then
        [char_of (224 + r div 4096), char_of (128 + r div 64 mod 64), char_of (128 + r mod 64)]
      else [char_of (240 + r div 262144), char_of (128 + r div 4096 mod 64),
            char_of (128 + r div 64 mod 64), char_of (128 + r mod 64)])"

lemma code_char_of [simp]: "n < 256 \<Longrightarrow> code (char_of n) = (n::nat)"
  by simp

lemmas char_eval = char_of_def bit_0

text \<open>The decoder on the three multi-byte shapes.\<close>

lemma decode_two:
  "194 \<le> x \<Longrightarrow> x \<le> 223 \<Longrightarrow> continuation y
    \<Longrightarrow> decode_rune (char_of x # char_of y # s) = ((x - 192) * 64 + (y - 128), 2)"
  by (simp add: decode_rune.simps(2) continuation_def Let_def)

lemma decode_three:
  "224 \<le> x \<Longrightarrow> x \<le> 239 \<Longrightarrow> second_lo x \<le> y \<Longrightarrow> y \<le> second_hi x \<Longrightarrow> y < 256 \<Longrightarrow> continuation z
    \<Longrightarrow> decode_rune (char_of x # char_of y # char_of z # s)
        = ((x - 224) * 4096 + (y - 128) * 64 + (z - 128), 3)"
  by (simp add: decode_rune.simps(2) continuation_def Let_def)

lemma decode_four:
  "240 \<le> x \<Longrightarrow> x \<le> 244 \<Longrightarrow> second_lo x \<le> y \<Longrightarrow> y \<le> second_hi x \<Longrightarrow> y < 256 \<Longrightarrow> continuation z
    \<Longrightarrow> continuation w \<Longrightarrow> decode_rune (char_of x # char_of y # char_of z # char_of w # s)
        = ((x - 240) * 262144 + (y - 128) * 4096 + (z - 128) * 64 + (w - 128), 4)"
  by (simp add: decode_rune.simps(2) continuation_def Let_def)

lemma continuation_mod [simp]: "continuation (128 + n mod 64)"
  using mod_less_divisor [of 64 n] by (simp add: continuation_def)

lemma base64_digits_three: "r div 4096 * 4096 + r div 64 mod 64 * 64 + r mod 64 = (r::nat)"
proof -
  have "r div 4096 = r div 64 div 64" by (simp add: div_mult2_eq [symmetric])
  moreover have "r div 64 div 64 * 64 + r div 64 mod 64 = r div 64" by simp
  moreover have "r div 64 * 64 + r mod 64 = r" by simp
  ultimately show ?thesis by linarith
qed

lemma base64_digits_four:
  "r div 262144 * 262144 + r div 4096 mod 64 * 4096 + r div 64 mod 64 * 64 + r mod 64 = (r::nat)"
proof -
  have "r div 262144 = r div 4096 div 64" by (simp add: div_mult2_eq [symmetric])
  moreover have "r div 4096 div 64 * 64 + r div 4096 mod 64 = r div 4096" by simp
  ultimately show ?thesis using base64_digits_three [of r] by linarith
qed

lemma decode_encode_two:
  assumes "128 \<le> r" "r < 2048"
  shows "decode_rune (encode_rune r @ s) = (r, 2)"
  using assms decode_two [of "192 + r div 64" "128 + r mod 64" s] by (simp add: encode_rune_def)

lemma decode_encode_three:
  assumes "2048 \<le> r" "r < 65536" "valid_rune r"
  shows "decode_rune (encode_rune r @ s) = (r, 3)"
proof -
  let ?x = "224 + r div 4096" and ?y = "128 + r div 64 mod 64"
  have "r div 4096 < 16" using assms by auto
  moreover have "r div 4096 = 0 \<Longrightarrow> 32 \<le> r div 64 mod 64" using assms by auto
  moreover have "r div 4096 = 13 \<Longrightarrow> r div 64 mod 64 < 32"
    using assms base64_digits_three [of r] by (auto simp: valid_rune_def)
  moreover have y: "?y < 192" by simp
  ultimately have "second_lo ?x \<le> ?y" "?y \<le> second_hi ?x" "?x \<le> 239"
    by (auto simp: second_lo_def second_hi_def)
  moreover have "?y < 256" using y by linarith
  ultimately show ?thesis
    using assms decode_three [of ?x ?y "128 + r mod 64" s] base64_digits_three [of r]
    by (simp add: encode_rune_def)
qed

lemma decode_encode_four:
  assumes "65536 \<le> r" "valid_rune r"
  shows "decode_rune (encode_rune r @ s) = (r, 4)"
proof -
  let ?x = "240 + r div 262144" and ?y = "128 + r div 4096 mod 64"
  have "r \<le> 1114111" using assms by (auto simp: valid_rune_def)
  then have "r div 262144 \<le> 4" by auto
  moreover have "r div 262144 = 0 \<Longrightarrow> 16 \<le> r div 4096 mod 64" using assms by auto
  moreover have "r div 262144 = 4 \<Longrightarrow> r div 4096 mod 64 < 16"
    using \<open>r \<le> 1114111\<close> base64_digits_four [of r] by auto
  moreover have y: "?y < 192" by simp
  ultimately have "second_lo ?x \<le> ?y" "?y \<le> second_hi ?x" "?x \<le> 244"
    by (auto simp: second_lo_def second_hi_def)
  moreover have "?y < 256" using y by linarith
  ultimately show ?thesis
    using assms decode_four [of ?x ?y "128 + r div 64 mod 64" "128 + r mod 64" s]
      base64_digits_four [of r]
    by (simp add: encode_rune_def)
qed

lemma decode_encode_rune:
  assumes "valid_rune r"
  shows "decode_rune (encode_rune r @ s) = (r, length (encode_rune r))"
proof -
  consider "r < 128" | "128 \<le> r" "r < 2048" | "2048 \<le> r" "r < 65536" | "65536 \<le> r"
    by linarith
  then show ?thesis
  proof cases
    case 1
    then show ?thesis by (simp add: encode_rune_def decode_rune.simps(2) Let_def)
  next
    case 2
    with decode_encode_two [of r s] show ?thesis by (simp add: encode_rune_def)
  next
    case 3
    with assms decode_encode_three [of r s] show ?thesis by (simp add: encode_rune_def)
  next
    case 4
    with assms decode_encode_four [of r s] show ?thesis by (simp add: encode_rune_def)
  qed
qed

lemma encode_rune_not_Nil [simp]: "encode_rune r \<noteq> []"
  by (simp add: encode_rune_def)

lemma pieces_Nil [simp]: "pieces [] = []"
  by (simp add: pieces.simps)

text \<open>Writing runes and reading them back.\<close>

lemma pieces_encode:
  "list_all valid_rune rs \<Longrightarrow> pieces (concat (map encode_rune rs)) = map (\<lambda>r. (r, encode_rune r)) rs"
proof (induction rs)
  case Nil
  then show ?case by simp
next
  case (Cons r rs)
  then show ?case
    using decode_encode_rune [of r "concat (map encode_rune rs)"]
    by (subst pieces.simps) simp
qed

lemma concat_pieces: "concat (map snd (pieces s)) = s"
proof (induction s rule: pieces.induct)
  case (1 s)
  show ?case
  proof (cases "s = []")
    case False
    obtain r n where d: "decode_rune s = (r, n)" by (cases "decode_rune s")
    with 1 [OF False d [symmetric]] False show ?thesis by (subst pieces.simps) simp
  qed simp
qed

lemma encode_rune_error: "length (encode_rune rune_error) = 3"
  by (simp add: encode_rune_def valid_rune_def)

lemma ValidString_encode: "list_all valid_rune rs \<Longrightarrow> ValidString (concat (map encode_rune rs))"
  by (auto simp: ValidString_def pieces_encode list_all_iff encode_rune_error)

text \<open>An ASCII string is its own sequence of runes.\<close>

lemma pieces_ascii: "list_all (\<lambda>c. code c < 128) s \<Longrightarrow> pieces s = map (\<lambda>c. (code c, [c])) s"
proof (induction s)
  case Nil
  then show ?case by simp
next
  case (Cons c s)
  then show ?case by (subst pieces.simps) (simp add: decode_rune.simps(2) Let_def)
qed

section \<open>Character classes and trimming\<close>

definition IsSpace :: "nat \<Rightarrow> bool" where
  "IsSpace r \<longleftrightarrow> 9 \<le> r \<and> r \<le> 13 \<or> r = 32 \<or> r = 133 \<or> r = 160 \<or> r = 5760
     \<or> 8192 \<le> r \<and> r \<le> 8202 \<or> r = 8232 \<or> r = 8233 \<or> r = 8239 \<or> r = 8287 \<or> r = 12288"

definition IsControl :: "nat \<Rightarrow> bool" where
  "IsControl r \<longleftrightarrow> r < 32 \<or> 127 \<le> r \<and> r < 160"

definition TrimSpace :: "bytes \<Rightarrow> bytes" where
  "TrimSpace s =
     concat (map snd (rev (dropWhile (\<lambda>(r, _). IsSpace r)
       (rev (dropWhile (\<lambda>(r, _). IsSpace r) (pieces s))))))"

lemma dropWhile_none: "(\<And>x. x \<in> set xs \<Longrightarrow> \<not> P x) \<Longrightarrow> dropWhile P xs = xs"
  by (cases xs) auto

lemma TrimSpace_no_space:
  assumes "\<forall>r\<in>set (runes s). \<not> IsSpace r"
  shows "TrimSpace s = s"
proof -
  have "\<And>x. x \<in> set (pieces s) \<Longrightarrow> \<not> (case x of (r, _) \<Rightarrow> IsSpace r)"
    using assms by (auto simp: runes_def)
  then have "dropWhile (\<lambda>(r, _). IsSpace r) (pieces s) = pieces s"
    "dropWhile (\<lambda>(r, _). IsSpace r) (rev (pieces s)) = rev (pieces s)"
    by (auto intro!: dropWhile_none)
  then show ?thesis by (simp add: TrimSpace_def concat_pieces)
qed

text \<open>Visible ASCII text is unchanged by trimming.\<close>

definition visible :: "bytes \<Rightarrow> bool" where
  "visible s \<longleftrightarrow> list_all (\<lambda>c. 33 \<le> code c \<and> code c < 127) s"

lemma runes_ascii: "list_all (\<lambda>c. code c < 128) s \<Longrightarrow> runes s = map code s"
  by (simp add: runes_def pieces_ascii comp_def)

lemma visible_runes: "visible s \<Longrightarrow> runes s = map code s"
  by (rule runes_ascii) (auto simp: visible_def list_all_iff)

lemma TrimSpace_visible: "visible s \<Longrightarrow> TrimSpace s = s"
  by (rule TrimSpace_no_space) (auto simp: visible_runes visible_def list_all_iff IsSpace_def)

text \<open>\<open>strings.ToLower\<close>: ASCII letters by arithmetic, other runes by the Unicode table.\<close>

definition lower_rune :: "(nat \<Rightarrow> nat) \<Rightarrow> nat \<Rightarrow> nat" where
  "lower_rune tbl r = (if r < 128 then (if 65 \<le> r \<and> r \<le> 90 then r + 32 else r) else tbl r)"

definition ToLower :: "(nat \<Rightarrow> nat) \<Rightarrow> bytes \<Rightarrow> bytes" where
  "ToLower tbl s = concat (map (\<lambda>r. encode_rune (lower_rune tbl r)) (runes s))"

text \<open>
  What the code relies on of the table: lower-casing yields Unicode scalar values and
  lower-casing twice is lower-casing once.
\<close>

definition lower_table :: "(nat \<Rightarrow> nat) \<Rightarrow> bool" where
  "lower_table tbl \<longleftrightarrow> (\<forall>r. valid_rune (lower_rune tbl r))
     \<and> (\<forall>r. lower_rune tbl (lower_rune tbl r) = lower_rune tbl r)"

lemma runes_ToLower:
  "lower_table tbl \<Longrightarrow> runes (ToLower tbl s) = map (lower_rune tbl) (runes s)"
  using pieces_encode [of "map (lower_rune tbl) (runes s)"]
  by (simp add: ToLower_def runes_def [of "concat _"] lower_table_def list_all_iff comp_def)

lemma ToLower_idem: "lower_table tbl \<Longrightarrow> ToLower tbl (ToLower tbl s) = ToLower tbl s"
  by (simp add: ToLower_def [of tbl "ToLower tbl s"] runes_ToLower comp_def)
    (simp add: lower_table_def ToLower_def)

section \<open>Output of numbers\<close>

definition hex_digit :: "nat \<Rightarrow> char" where
  "hex_digit n = ''0123456789abcdef'' ! (n mod 16)"

definition hex_encode :: "bytes \<Rightarrow> bytes" where
  "hex_encode s = concat (map (\<lambda>c. [hex_digit (code c div 16), hex_digit (code c)]) s)"

fun itoa_nat :: "nat \<Rightarrow> bytes" where
  "itoa_nat n = (if n < 10 then [char_of (48 + n)] else itoa_nat (n div 10) @ [char_of (48 + n mod 10)])"

declare itoa_nat.simps [simp del]

lemma itoa_nat_eval:
  "n < 10 \<Longrightarrow> itoa_nat n = [char_of (48 + n)]"
  "10 \<le> n \<Longrightarrow> itoa_nat n = itoa_nat (n div 10) @ [char_of (48 + n mod 10)]"
  by (subst itoa_nat.simps, simp)+

lemma itoa_nat_digits: "c \<in> set (itoa_nat n) \<Longrightarrow> 48 \<le> code c \<and> code c \<le> 57"
proof (induction n rule: itoa_nat.induct)
  case (1 n)
  then show ?case by (subst (asm) (2) itoa_nat.simps) (auto split: if_splits)
qed

definition itoa :: "int \<Rightarrow> bytes" where
  "itoa i = (if i < 0 then CHR ''-'' # itoa_nat (nat (- i)) else itoa_nat (nat i))"

text \<open>The \<open>i\<close>-th of the 32 hexadecimal digits of a UUID, and its 8-4-4-4-12 rendering.\<close>

definition uuid_digit :: "uuid \<Rightarrow> nat \<Rightarrow> char" where
  "uuid_digit u i = hex_digit (unat u div 16 ^ (31 - i))"

text \<open>\<open>int64(binary.BigEndian.Uint64(h[:8]))\<close>, the number of an advisory lock.\<close>

definition lock_id :: "bytes \<Rightarrow> 64 word" where
  "lock_id h = foldl (\<lambda>acc c. acc * 256 + of_nat (code c)) 0 (take 8 h)"

definition uuid_bytes :: "uuid \<Rightarrow> bytes" where
  "uuid_bytes u = map (\<lambda>k. char_of (unat (drop_bit (8 * (15 - k)) u))) [0..<16]"

definition uuid_string :: "uuid \<Rightarrow> bytes" where
  "uuid_string u = map (uuid_digit u) [0..<8] @ ''-'' @ map (uuid_digit u) [8..<12] @ ''-''
     @ map (uuid_digit u) [12..<16] @ ''-'' @ map (uuid_digit u) [16..<20] @ ''-''
     @ map (uuid_digit u) [20..<32]"

end
