(* ===== verification/Codec.thy ===== *)
theory Codec
  imports GoText
begin

text \<open>
  \<open>internal/secure/base64.go\<close> and \<open>random.go\<close>: unpadded base64 as the packages
  use it (RawURLEncoding in strict mode for tokens, RawStdEncoding for password hashes), the
  canonical decoder, and the draws from the random source. The locale \<open>canonical_codec\<close> is the
  contract tokens rely on: exactly one spelling per byte sequence.
\<close>

section \<open>Base64\<close>

definition url_alphabet :: bytes where
  "url_alphabet = ''ABCDEFGHIJKLMNOPQRSTUVWXYZabcdefghijklmnopqrstuvwxyz0123456789-_''"

definition std_alphabet :: bytes where
  "std_alphabet = ''ABCDEFGHIJKLMNOPQRSTUVWXYZabcdefghijklmnopqrstuvwxyz0123456789+/''"

fun b64_digits :: "nat list \<Rightarrow> nat list" where
  "b64_digits [] = []"
| "b64_digits [a] = [a div 4, a mod 4 * 16]"
| "b64_digits [a, b] = [a div 4, a mod 4 * 16 + b div 16, b mod 16 * 4]"
| "b64_digits (a # b # c # s) =
     a div 4 # (a mod 4 * 16 + b div 16) # (b mod 16 * 4 + c div 64) # c mod 64 # b64_digits s"

definition EncodeToString :: "bytes \<Rightarrow> bytes \<Rightarrow> bytes" where
  "EncodeToString alpha s = map (\<lambda>d. alpha ! d) (b64_digits (map code s))"

text \<open>
  The decoder skips carriage returns and line feeds, refuses every other byte outside the
  alphabet and a single left-over digit, and, in strict mode, left-over bits that are not zero.
\<close>

fun b64_bytes :: "bool \<Rightarrow> nat list \<Rightarrow> nat list option" where
  "b64_bytes strict [] = Some []"
| "b64_bytes strict [x] = None"
| "b64_bytes strict [x, y] =
     (if strict \<and> y mod 16 \<noteq> 0 then None else Some [x * 4 + y div 16])"
| "b64_bytes strict [x, y, z] =
     (if strict \<and> z mod 4 \<noteq> 0 then None
      else Some [x * 4 + y div 16, y mod 16 * 16 + z div 4])"
| "b64_bytes strict (x # y # z # w # s) =
     map_option (\<lambda>r. (x * 4 + y div 16) # (y mod 16 * 16 + z div 4) # (z mod 4 * 64 + w) # r)
       (b64_bytes strict s)"

fun index_of :: "char \<Rightarrow> bytes \<Rightarrow> nat option" where
  "index_of c [] = None"
| "index_of c (x # xs) = (if x = c then Some 0 else map_option Suc (index_of c xs))"

fun all_some :: "'a option list \<Rightarrow> 'a list option" where
  "all_some [] = Some []"
| "all_some (None # xs) = None"
| "all_some (Some x # xs) = map_option (\<lambda>ys. x # ys) (all_some xs)"

definition DecodeString :: "bytes \<Rightarrow> bool \<Rightarrow> bytes \<Rightarrow> bytes option" where
  "DecodeString alpha strict s =
     (case all_some (map (\<lambda>c. index_of c alpha)
             (filter (\<lambda>c. c \<noteq> CHR 0x0D \<and> c \<noteq> CHR 0x0A) s)) of
        None \<Rightarrow> None
      | Some ds \<Rightarrow> map_option (map char_of) (b64_bytes strict ds))"

abbreviation encode_url :: "bytes \<Rightarrow> bytes" where
  "encode_url \<equiv> EncodeToString url_alphabet"

definition DecodeCanonicalBase64URL :: "bytes \<Rightarrow> bytes option" where
  "DecodeCanonicalBase64URL value =
     (case DecodeString url_alphabet True value of
        None \<Rightarrow> None
      | Some decoded \<Rightarrow> if encode_url decoded \<noteq> value then None else Some decoded)"

section \<open>Random values\<close>

text \<open>
  \<open>RandomBytes\<close> refuses a size that is not positive; otherwise it is a draw of that many bytes
  from the operating system's source (\<open>read\<close>), which may fail. \<open>RandomToken\<close> is its base64url
  text.
\<close>

datatype random_error = SizeNotPositive | SourceUnavailable

definition RandomBytes :: "(nat \<Rightarrow> bytes option) \<Rightarrow> int \<Rightarrow> random_error + bytes" where
  "RandomBytes read n =
     (if n \<le> 0 then Inl SizeNotPositive
      else case read (nat n) of None \<Rightarrow> Inl SourceUnavailable | Some v \<Rightarrow> Inr v)"

definition RandomToken :: "(nat \<Rightarrow> bytes option) \<Rightarrow> int \<Rightarrow> random_error + bytes" where
  "RandomToken read n =
     (case RandomBytes read n of Inl e \<Rightarrow> Inl e | Inr v \<Rightarrow> Inr (encode_url v))"

definition RandomUUID :: "uuid option \<Rightarrow> random_error + uuid" where
  "RandomUUID draw = (case draw of None \<Rightarrow> Inl SourceUnavailable | Some u \<Rightarrow> Inr u)"

section \<open>Lemmas\<close>

lemma RandomBytes_length:
  assumes "\<And>n v. read n = Some v \<Longrightarrow> length v = n" "RandomBytes read (int n) = Inr s"
  shows "length s = n"
  using assms(2) assms(1) [of n s] by (simp add: RandomBytes_def split: if_splits option.splits)

lemma b64_digits_bound: "list_all (\<lambda>n. n < 256) s \<Longrightarrow> list_all (\<lambda>d. d < 64) (b64_digits s)"
proof (induction s rule: b64_digits.induct)
  case (2 a)
  then show ?case using mod_less_divisor [of 4 a] by auto
next
  case (3 a b)
  then show ?case using mod_less_divisor [of 4 a] mod_less_divisor [of 16 b] by auto
next
  case (4 a b c s)
  then show ?case using mod_less_divisor [of 4 a] mod_less_divisor [of 16 b] by auto
qed simp

lemma b64_bytes_digits:
  "list_all (\<lambda>n. n < 256) s \<Longrightarrow> b64_bytes strict (b64_digits s) = Some s"
proof (induction s rule: b64_digits.induct)
  case (4 a b c s)
  have "(b mod 16 * 4 + c div 64) mod 4 = c div 64" "(b mod 16 * 4 + c div 64) div 4 = b mod 16"
    "(a mod 4 * 16 + b div 16) mod 16 = b div 16" "(a mod 4 * 16 + b div 16) div 16 = a mod 4"
    using 4 by auto
  with 4 show ?case by simp
qed auto

lemma index_of_nth: "distinct xs \<Longrightarrow> i < length xs \<Longrightarrow> index_of (xs ! i) xs = Some i"
proof (induction xs arbitrary: i)
  case (Cons x xs)
  then show ?case by (cases i) auto
qed simp

lemma all_some_map: "(\<And>x. x \<in> set xs \<Longrightarrow> f x = Some (g x)) \<Longrightarrow> all_some (map f xs) = Some (map g xs)"
  by (induction xs) auto

lemma url_alphabet_distinct: "distinct url_alphabet" "length url_alphabet = 64"
  by (simp_all add: url_alphabet_def)

lemma url_alphabet_plain: "c \<in> set url_alphabet \<Longrightarrow> c \<noteq> CHR 0x0D \<and> c \<noteq> CHR 0x0A \<and> c \<noteq> CHR ''.''"
  by (auto simp: url_alphabet_def)

lemma codes_bound: "list_all (\<lambda>n. n < 256) (map code s)"
  by (induction s) (simp_all add: of_char_def)

lemma set_encode_url: "set (encode_url s) \<subseteq> set url_alphabet"
  using b64_digits_bound [OF codes_bound [of s]]
  by (auto simp: EncodeToString_def list_all_iff url_alphabet_distinct)

lemma encode_url_no_dot [simp]: "CHR ''.'' \<notin> set (encode_url s)"
  using set_encode_url [of s] url_alphabet_plain [of "CHR ''.''"] by blast

lemma char_of_code_map: "map char_of (map code s) = s"
  by (induction s) simp_all

lemma DecodeString_encode:
  assumes alpha: "distinct alpha" "length alpha = 64" "CHR 0x0D \<notin> set alpha" "CHR 0x0A \<notin> set alpha"
  shows "DecodeString alpha strict (EncodeToString alpha s) = Some s"
proof -
  let ?ds = "b64_digits (map code s)"
  have b: "d \<in> set ?ds \<Longrightarrow> d < 64" for d
    using b64_digits_bound [OF codes_bound [of s]] by (auto simp: list_all_iff)
  then have "\<forall>c\<in>set (EncodeToString alpha s). c \<noteq> CHR 0x0D \<and> c \<noteq> CHR 0x0A"
    using alpha by (auto simp: EncodeToString_def) (metis nth_mem)+
  then have plain: "filter (\<lambda>c. c \<noteq> CHR 0x0D \<and> c \<noteq> CHR 0x0A) (EncodeToString alpha s)
      = EncodeToString alpha s"
    by (simp add: filter_id_conv)
  have "all_some (map (\<lambda>c. index_of c alpha) (EncodeToString alpha s)) = Some ?ds"
    using all_some_map [of ?ds "\<lambda>d. index_of (alpha ! d) alpha" id] b alpha
    by (simp add: EncodeToString_def index_of_nth comp_def)
  then show ?thesis
    using plain b64_bytes_digits [OF codes_bound, of strict s]
    by (simp add: DecodeString_def char_of_code_map)
qed

lemma DecodeString_encode_url: "DecodeString url_alphabet strict (encode_url s) = Some s"
  using DecodeString_encode [of url_alphabet] url_alphabet_distinct url_alphabet_plain by blast

lemma DecodeString_encode_std:
  "DecodeString std_alphabet strict (EncodeToString std_alphabet s) = Some s"
  by (rule DecodeString_encode) (simp_all add: std_alphabet_def)

lemma length_b64_digits: "length (b64_digits s) = (4 * length s + 2) div 3"
  by (induction s rule: b64_digits.induct) auto

lemma length_EncodeToString: "length (EncodeToString alpha s) = (4 * length s + 2) div 3"
  by (simp add: EncodeToString_def length_b64_digits)

section \<open>One spelling per byte sequence\<close>

locale canonical_codec =
  fixes enc :: "bytes \<Rightarrow> bytes" and dec :: "bytes \<Rightarrow> bytes option"
  assumes dec_iff: "dec v = Some b \<longleftrightarrow> v = enc b"
begin

lemma dec_enc: "dec (enc b) = Some b"
  by (simp add: dec_iff)

lemma one_spelling: "dec v = Some b \<Longrightarrow> dec w = Some b \<Longrightarrow> v = w"
  by (simp add: dec_iff)

lemma enc_inj: "enc a = enc b \<longleftrightarrow> a = b"
  using dec_enc by (metis option.inject)

end

interpretation b64url: canonical_codec encode_url DecodeCanonicalBase64URL
  by unfold_locales
    (auto simp: DecodeCanonicalBase64URL_def DecodeString_encode_url split: option.splits if_splits)

end
