(* ===== verification/Crypto.thy ===== *)
theory Crypto
  imports Prelude
begin

text \<open>
  The cryptographic primitives the services call, as a parameter of the model: AES-GCM,
  HMAC-SHA256, SHA-256, Ed25519 and Argon2id. What the code relies on is stated as predicates
  on the parameter (lengths, decryption of what was encrypted under the same key, nonce and
  associated data, verification of what was signed); theorems name the ones they use.
\<close>

record crypto =
  gcm_seal :: "bytes \<Rightarrow> bytes \<Rightarrow> bytes \<Rightarrow> bytes \<Rightarrow> bytes" \<comment> \<open>key, nonce, plaintext, associated data\<close>
  gcm_open :: "bytes \<Rightarrow> bytes \<Rightarrow> bytes \<Rightarrow> bytes \<Rightarrow> bytes option"
  hmac_sha256 :: "bytes \<Rightarrow> bytes \<Rightarrow> bytes" \<comment> \<open>key, message\<close>
  sha256 :: "bytes \<Rightarrow> bytes"
  ed25519_public :: "bytes \<Rightarrow> bytes"
  ed25519_sign :: "bytes \<Rightarrow> bytes \<Rightarrow> bytes" \<comment> \<open>private key, message\<close>
  ed25519_verify :: "bytes \<Rightarrow> bytes \<Rightarrow> bytes \<Rightarrow> bool" \<comment> \<open>public key, message, signature\<close>

text \<open>\<open>aes.NewCipher\<close> accepts keys of 16, 24 and 32 bytes; a GCM nonce has 12 bytes.\<close>

definition aes_key :: "bytes \<Rightarrow> bool" where
  "aes_key k \<longleftrightarrow> length k = 16 \<or> length k = 24 \<or> length k = 32"

abbreviation nonce_size :: nat where
  "nonce_size \<equiv> 12"

definition gcm_correct :: "crypto \<Rightarrow> bool" where
  "gcm_correct c \<longleftrightarrow> (\<forall>k n p a. aes_key k \<longrightarrow> length n = nonce_size
     \<longrightarrow> gcm_open c k n (gcm_seal c k n p a) a = Some p)"

definition digest_lengths :: "crypto \<Rightarrow> bool" where
  "digest_lengths c \<longleftrightarrow> (\<forall>k m. length (hmac_sha256 c k m) = 32) \<and> (\<forall>m. length (sha256 c m) = 32)"

definition signature_correct :: "crypto \<Rightarrow> bool" where
  "signature_correct c \<longleftrightarrow> (\<forall>k. length k = 64 \<longrightarrow> length (ed25519_public c k) = 32)
     \<and> (\<forall>k m. length k = 64 \<longrightarrow> length (ed25519_sign c k m) = 64
          \<and> ed25519_verify c (ed25519_public c k) m (ed25519_sign c k m))"

lemma gcm_correctD:
  "gcm_correct c \<Longrightarrow> aes_key k \<Longrightarrow> length n = nonce_size \<Longrightarrow> gcm_open c k n (gcm_seal c k n p a) a = Some p"
  by (simp add: gcm_correct_def)

lemma hmac_length [simp]: "digest_lengths c \<Longrightarrow> length (hmac_sha256 c k m) = 32"
  by (simp add: digest_lengths_def)

lemma sha_length [simp]: "digest_lengths c \<Longrightarrow> length (sha256 c m) = 32"
  by (simp add: digest_lengths_def)

lemma signature_correctD:
  "signature_correct c \<Longrightarrow> length k = 64 \<Longrightarrow> length (ed25519_public c k) = 32"
  "signature_correct c \<Longrightarrow> length k = 64 \<Longrightarrow> length (ed25519_sign c k m) = 64"
  "signature_correct c \<Longrightarrow> length k = 64 \<Longrightarrow> ed25519_verify c (ed25519_public c k) m (ed25519_sign c k m)"
  by (auto simp: signature_correct_def)

text \<open>
  A concrete instance with which the hypotheses hold, for evaluating the model on examples. It
  has no cryptographic strength.
\<close>

definition fit :: "nat \<Rightarrow> bytes \<Rightarrow> bytes" where
  "fit n s = take n (s @ replicate n (CHR ''0''))"

lemma length_fit [simp]: "length (fit n s) = n"
  by (simp add: fit_def)

definition sample_crypto :: crypto where
  "sample_crypto =
     \<lparr>gcm_seal = (\<lambda>k n p a. fit 16 (k @ a) @ p),
      gcm_open = (\<lambda>k n ct a. if take 16 ct = fit 16 (k @ a) then Some (drop 16 ct) else None),
      hmac_sha256 = (\<lambda>k m. fit 32 (rev m @ k)),
      sha256 = (\<lambda>m. fit 32 (rev m)),
      ed25519_public = (\<lambda>k. drop 32 k),
      ed25519_sign = (\<lambda>k m. fit 64 (drop 32 k @ m)),
      ed25519_verify = (\<lambda>p m s. s = fit 64 (p @ m))\<rparr>"

lemma sample_crypto_correct:
  "gcm_correct sample_crypto" "digest_lengths sample_crypto" "signature_correct sample_crypto"
  by (simp_all add: sample_crypto_def gcm_correct_def digest_lengths_def signature_correct_def)

section \<open>Key rings\<close>

text \<open>A Go map from key identifiers to key material, as an association list; reading an absent
  key gives the empty slice.\<close>

type_synonym key_ring = "(bytes \<times> bytes) list"

definition ring_get :: "key_ring \<Rightarrow> bytes \<Rightarrow> bytes" where
  "ring_get ring k = (case map_of ring k of None \<Rightarrow> [] | Some v \<Rightarrow> v)"

lemma ring_get_Some [simp]: "map_of ring k = Some v \<Longrightarrow> ring_get ring k = v"
  by (simp add: ring_get_def)

end
