(* ===== verification/Identity.thy ===== *)
theory Identity
  imports Codec Crypto
begin

text \<open>
  \<open>internal/secure/identity.go\<close>: normalisation of e-mail addresses and mainland phone
  numbers, and the identity codec that encrypts an identity under the active key and computes
  its blind lookup indices under every lookup key. Lemmas: normal forms are fixed points, sealed
  identities open again, also after the keys were rotated, and the lookup candidates cover the
  key ring with the active key first.
\<close>

section \<open>Data\<close>

type_synonym IdentityKind = bytes

definition IdentityEmail :: IdentityKind where
  "IdentityEmail = ''email''"

definition IdentityPhone :: IdentityKind where
  "IdentityPhone = ''phone''"

datatype identity_error =
    UnsupportedKind | InvalidEmail | InvalidPhone | PhoneCountryCode | InvalidMobile
  | KeyRingEmpty | KeyRingInvalidKey | ActiveEncryptionKeyUnavailable | ActiveLookupKeyUnavailable
  | SealInputRequired | EncryptionUnavailable | RandomFailure
  | EncryptionKeyUnavailable | DecryptionUnavailable | IdentityMalformed | IdentityNotAuthenticated

record IdentityCodecConfig =
  cfg_ActiveEncryptionKeyID :: bytes
  cfg_EncryptionKeys :: key_ring
  cfg_ActiveLookupKeyID :: bytes
  cfg_LookupKeys :: key_ring

record SealedIdentity =
  si_EncryptionKeyID :: bytes
  si_Nonce :: bytes
  si_Ciphertext :: bytes
  si_LookupKeyID :: bytes
  si_LookupHMAC :: bytes

record LookupIndex =
  li_KeyID :: bytes
  li_HMAC :: bytes

record IdentityCodec =
  activeEncryptionKeyID :: bytes
  encryptionKeys :: key_ring
  activeLookupKeyID :: bytes
  lookupKeys :: key_ring
  lookupOrder :: "bytes list"

section \<open>Normalisation\<close>

definition normalizeEmail :: "(nat \<Rightarrow> nat) \<Rightarrow> bytes \<Rightarrow> identity_error + bytes" where
  "normalizeEmail tbl raw =
     (let normalized = ToLower tbl (TrimSpace raw) in
      if \<not> ValidString normalized \<or> length normalized > 254 \<or> count_byte (CHR ''@'') normalized \<noteq> 1
      then Inl InvalidEmail
      else (case cut (CHR ''@'') normalized of (local, domain) \<Rightarrow>
        if local = [] \<or> length local > 64 \<or> domain = [] \<or> \<not> contains ''.'' domain
        then Inl InvalidEmail
        else if has_prefix ''.'' domain \<or> has_suffix ''.'' domain \<or> contains ''..'' domain
        then Inl InvalidEmail
        else if list_ex (\<lambda>r. IsSpace r \<or> IsControl r) (runes normalized)
        then Inl InvalidEmail
        else Inr normalized))"

text \<open>The loop over the runes of the trimmed input; the flag says that the index is 0.\<close>

fun compact_phone :: "bool \<Rightarrow> nat list \<Rightarrow> bytes option" where
  "compact_phone first [] = Some []"
| "compact_phone first (r # rs) =
     (if 48 \<le> r \<and> r \<le> 57 then map_option (\<lambda>s. char_of r # s) (compact_phone False rs)
      else if r = 43 \<and> first then map_option (\<lambda>s. char_of r # s) (compact_phone False rs)
      else if r = 45 \<or> r = 40 \<or> r = 41 \<or> IsSpace r then compact_phone False rs
      else None)"

definition is_digit :: "char \<Rightarrow> bool" where
  "is_digit c \<longleftrightarrow> 48 \<le> code c \<and> code c \<le> 57"

definition strip_country_code :: "bytes \<Rightarrow> identity_error + bytes" where
  "strip_country_code value =
     (if has_prefix ''+'' value then
        if \<not> has_prefix ''+86'' value then Inl PhoneCountryCode
        else Inr (trim_prefix ''+86'' value)
      else if has_prefix ''00'' value then
        if \<not> has_prefix ''0086'' value then Inl PhoneCountryCode
        else Inr (trim_prefix ''0086'' value)
      else if length value = 13 \<and> has_prefix ''86'' value then Inr (trim_prefix ''86'' value)
      else Inr value)"

definition mainland_mobile :: "bytes \<Rightarrow> bool" where
  "mainland_mobile v \<longleftrightarrow> length v = 11 \<and> v ! 0 = CHR ''1''
     \<and> 51 \<le> code (v ! 1) \<and> code (v ! 1) \<le> 57 \<and> list_all is_digit v"

definition normalizeMainlandPhone :: "bytes \<Rightarrow> identity_error + bytes" where
  "normalizeMainlandPhone raw =
     (let trimmed = TrimSpace raw in
      if trimmed = [] then Inl InvalidPhone
      else (case compact_phone True (runes trimmed) of
          None \<Rightarrow> Inl InvalidPhone
        | Some compact \<Rightarrow>
            (case strip_country_code compact of
               Inl e \<Rightarrow> Inl e
             | Inr value \<Rightarrow> if \<not> mainland_mobile value then Inl InvalidMobile
                            else Inr (''+86'' @ value))))"

definition NormalizeIdentity ::
  "(nat \<Rightarrow> nat) \<Rightarrow> IdentityKind \<Rightarrow> bytes \<Rightarrow> identity_error + bytes" where
  "NormalizeIdentity tbl kind raw =
     (if kind = IdentityEmail then normalizeEmail tbl raw
      else if kind = IdentityPhone then normalizeMainlandPhone raw
      else Inl UnsupportedKind)"

section \<open>The codec\<close>

definition validIdentityKind :: "IdentityKind \<Rightarrow> bool" where
  "validIdentityKind kind \<longleftrightarrow> kind = IdentityEmail \<or> kind = IdentityPhone"

definition identityAAD :: "IdentityKind \<Rightarrow> bytes" where
  "identityAAD kind = ''agentera.identity.v1'' @ [CHR 0x00] @ kind"

definition invalid_key :: "nat \<Rightarrow> bool \<Rightarrow> bytes \<times> bytes \<Rightarrow> bool" where
  "invalid_key minimumLength exact kv =
     (case kv of (keyID, material) \<Rightarrow>
        TrimSpace keyID = [] \<or>
        (if exact then length material \<noteq> minimumLength else length material < minimumLength))"

definition copyAndValidateKeys :: "key_ring \<Rightarrow> nat \<Rightarrow> bool \<Rightarrow> identity_error + key_ring" where
  "copyAndValidateKeys keys minimumLength exact =
     (if keys = [] then Inl KeyRingEmpty
      else if list_ex (invalid_key minimumLength exact) keys then Inl KeyRingInvalidKey
      else Inr keys)"

definition NewIdentityCodec :: "IdentityCodecConfig \<Rightarrow> identity_error + IdentityCodec" where
  "NewIdentityCodec cfg =
     (case copyAndValidateKeys (cfg_EncryptionKeys cfg) 32 True of
        Inl e \<Rightarrow> Inl e
      | Inr encKeys \<Rightarrow>
          if map_of encKeys (cfg_ActiveEncryptionKeyID cfg) = None
             \<or> cfg_ActiveEncryptionKeyID cfg = []
          then Inl ActiveEncryptionKeyUnavailable
          else (case copyAndValidateKeys (cfg_LookupKeys cfg) 32 False of
              Inl e \<Rightarrow> Inl e
            | Inr lkKeys \<Rightarrow>
                if map_of lkKeys (cfg_ActiveLookupKeyID cfg) = None \<or> cfg_ActiveLookupKeyID cfg = []
                then Inl ActiveLookupKeyUnavailable
                else Inr \<lparr>activeEncryptionKeyID = cfg_ActiveEncryptionKeyID cfg,
                          encryptionKeys = encKeys,
                          activeLookupKeyID = cfg_ActiveLookupKeyID cfg,
                          lookupKeys = lkKeys,
                          lookupOrder = cfg_ActiveLookupKeyID cfg #
                            sort (filter (\<lambda>k. k \<noteq> cfg_ActiveLookupKeyID cfg) (map fst lkKeys))\<rparr>))"

definition lookup :: "crypto \<Rightarrow> IdentityCodec \<Rightarrow> IdentityKind \<Rightarrow> bytes \<Rightarrow> bytes \<Rightarrow> LookupIndex" where
  "lookup cr c kind normalized keyID =
     \<lparr>li_KeyID = keyID,
      li_HMAC = hmac_sha256 cr (ring_get (lookupKeys c) keyID) (kind @ [CHR 0x00] @ normalized)\<rparr>"

definition Seal ::
  "crypto \<Rightarrow> IdentityCodec \<Rightarrow> (nat \<Rightarrow> bytes option) \<Rightarrow> IdentityKind \<Rightarrow> bytes
     \<Rightarrow> identity_error + SealedIdentity" where
  "Seal cr c read kind normalized =
     (if \<not> validIdentityKind kind \<or> normalized = [] then Inl SealInputRequired
      else let key = ring_get (encryptionKeys c) (activeEncryptionKeyID c) in
        if \<not> aes_key key then Inl EncryptionUnavailable
        else (case RandomBytes read (int nonce_size) of
            Inl e \<Rightarrow> Inl RandomFailure
          | Inr nonce \<Rightarrow>
              let ix = lookup cr c kind normalized (activeLookupKeyID c) in
              Inr \<lparr>si_EncryptionKeyID = activeEncryptionKeyID c, si_Nonce = nonce,
                   si_Ciphertext = gcm_seal cr key nonce normalized (identityAAD kind),
                   si_LookupKeyID = li_KeyID ix, si_LookupHMAC = li_HMAC ix\<rparr>))"

definition Open_identity ::
  "crypto \<Rightarrow> IdentityCodec \<Rightarrow> IdentityKind \<Rightarrow> SealedIdentity \<Rightarrow> identity_error + bytes" where
  "Open_identity cr c kind sealed =
     (if \<not> validIdentityKind kind then Inl UnsupportedKind
      else case map_of (encryptionKeys c) (si_EncryptionKeyID sealed) of
          None \<Rightarrow> Inl EncryptionKeyUnavailable
        | Some key \<Rightarrow>
            if \<not> aes_key key then Inl DecryptionUnavailable
            else if length (si_Nonce sealed) \<noteq> nonce_size then Inl IdentityMalformed
            else (case gcm_open cr key (si_Nonce sealed) (si_Ciphertext sealed) (identityAAD kind) of
                None \<Rightarrow> Inl IdentityNotAuthenticated
              | Some plaintext \<Rightarrow> Inr plaintext))"

definition LookupCandidates ::
  "crypto \<Rightarrow> IdentityCodec \<Rightarrow> IdentityKind \<Rightarrow> bytes \<Rightarrow> LookupIndex list" where
  "LookupCandidates cr c kind normalized =
     (if \<not> validIdentityKind kind \<or> normalized = [] then []
      else map (lookup cr c kind normalized) (lookupOrder c))"

section \<open>Normal forms\<close>

lemma runes_phone:
  assumes "list_all is_digit v"
  shows "runes (''+86'' @ v) = map code (''+86'' @ v)" "TrimSpace (''+86'' @ v) = ''+86'' @ v"
proof -
  have "visible (''+86'' @ v)" using assms by (auto simp: visible_def list_all_iff is_digit_def)
  then show "runes (''+86'' @ v) = map code (''+86'' @ v)" "TrimSpace (''+86'' @ v) = ''+86'' @ v"
    by (rule visible_runes, rule TrimSpace_visible)
qed

lemma compact_phone_digits: "list_all is_digit v \<Longrightarrow> compact_phone b (map code v) = Some v"
  by (induction v arbitrary: b) (simp_all add: is_digit_def)

lemma normalizeMainlandPhone_form:
  "normalizeMainlandPhone raw = Inr n \<Longrightarrow> \<exists>v. mainland_mobile v \<and> n = ''+86'' @ v"
  by (auto simp: normalizeMainlandPhone_def Let_def split: if_splits option.splits sum.splits)

lemma normalizeMainlandPhone_fixed:
  assumes "mainland_mobile v"
  shows "normalizeMainlandPhone (''+86'' @ v) = Inr (''+86'' @ v)"
proof -
  have d: "list_all is_digit v" using assms by (simp add: mainland_mobile_def)
  then have "compact_phone True (runes (''+86'' @ v)) = Some (''+86'' @ v)"
    by (simp add: runes_phone compact_phone_digits del: append.simps)
      (simp add: compact_phone_digits char_eval)
  moreover have "strip_country_code (''+86'' @ v) = Inr v"
    by (simp add: strip_country_code_def trim_prefix_def)
  moreover have "TrimSpace (''+86'' @ v) = ''+86'' @ v" by (rule runes_phone(2) [OF d])
  ultimately show ?thesis
    using assms by (simp only: normalizeMainlandPhone_def Let_def) simp
qed

lemma normalizeEmail_fixed:
  assumes "lower_table tbl" and n: "normalizeEmail tbl raw = Inr n"
  shows "normalizeEmail tbl n = Inr n"
proof -
  have eq: "n = ToLower tbl (TrimSpace raw)" and plain: "\<forall>r\<in>set (runes n). \<not> IsSpace r"
    using n by (auto simp: normalizeEmail_def Let_def list_ex_iff split: if_splits prod.splits)
  then have "ToLower tbl (TrimSpace n) = n"
    using assms(1) by (simp add: TrimSpace_no_space ToLower_idem)
  with n eq show ?thesis by (simp add: normalizeEmail_def)
qed

section \<open>Key rings and lookups\<close>

lemma copyAndValidateKeys_Inr:
  "copyAndValidateKeys keys m exact = Inr r
    \<longleftrightarrow> r = keys \<and> keys \<noteq> [] \<and> (\<forall>kv\<in>set keys. \<not> invalid_key m exact kv)"
  by (auto simp: copyAndValidateKeys_def list_ex_iff)

lemma NewIdentityCodec_Inr:
  assumes "NewIdentityCodec cfg = Inr c"
  shows "encryptionKeys c = cfg_EncryptionKeys cfg" "lookupKeys c = cfg_LookupKeys cfg"
    "activeEncryptionKeyID c = cfg_ActiveEncryptionKeyID cfg"
    "activeLookupKeyID c = cfg_ActiveLookupKeyID cfg"
    "activeLookupKeyID c \<in> set (map fst (lookupKeys c))"
    "lookupOrder c = activeLookupKeyID c #
       sort (filter (\<lambda>k. k \<noteq> activeLookupKeyID c) (map fst (lookupKeys c)))"
    "(k, v) \<in> set (encryptionKeys c) \<Longrightarrow> length v = 32"
    "activeEncryptionKeyID c \<in> set (map fst (encryptionKeys c))"
  using assms
  by (force simp: NewIdentityCodec_def copyAndValidateKeys_Inr invalid_key_def map_of_eq_None_iff
      split: sum.splits if_splits)+

lemma NewIdentityCodec_aes:
  assumes "NewIdentityCodec cfg = Inr c" "map_of (encryptionKeys c) k = Some v"
  shows "aes_key v"
  using NewIdentityCodec_Inr(7) [OF assms(1) map_of_SomeD [OF assms(2)]] by (simp add: aes_key_def)

lemma NewIdentityCodec_active_key:
  assumes "NewIdentityCodec cfg = Inr c"
  obtains v where "map_of (encryptionKeys c) (activeEncryptionKeyID c) = Some v" "aes_key v"
proof -
  from NewIdentityCodec_Inr(8) [OF assms] obtain v
    where "map_of (encryptionKeys c) (activeEncryptionKeyID c) = Some v"
    by (metis list.set_map map_of_eq_None_iff not_None_eq)
  with NewIdentityCodec_aes [OF assms] that show thesis by blast
qed

lemma Seal_Inr:
  assumes "NewIdentityCodec cfg = Inr c" "Seal cr c read kind normalized = Inr s"
  obtains key where "validIdentityKind kind" "aes_key key"
    "map_of (encryptionKeys c) (si_EncryptionKeyID s) = Some key"
    "si_EncryptionKeyID s = activeEncryptionKeyID c"
    "read nonce_size = Some (si_Nonce s)"
    "si_Ciphertext s = gcm_seal cr key (si_Nonce s) normalized (identityAAD kind)"
proof -
  obtain key where "map_of (encryptionKeys c) (activeEncryptionKeyID c) = Some key" "aes_key key"
    using NewIdentityCodec_active_key [OF assms(1)] by blast
  with assms(2) that show thesis
    by (auto simp: Seal_def Let_def RandomBytes_def split: if_splits option.splits)
qed

section \<open>Properties\<close>

text \<open>
  Normalisation is a projection: normalising a normalised identity gives it back. The receipt
  codec and the account service compare identities in this form.
\<close>

theorem NormalizeIdentity_idempotent:
  assumes "lower_table tbl" "NormalizeIdentity tbl kind raw = Inr n"
  shows "NormalizeIdentity tbl kind n = Inr n"
proof (cases "kind = IdentityEmail")
  case True
  with assms show ?thesis by (simp add: NormalizeIdentity_def normalizeEmail_fixed)
next
  case False
  with assms have "normalizeMainlandPhone raw = Inr n" and k: "kind = IdentityPhone"
    by (auto simp: NormalizeIdentity_def split: if_splits)
  with normalizeMainlandPhone_form normalizeMainlandPhone_fixed
  have "normalizeMainlandPhone n = Inr n" by blast
  with False k show ?thesis by (simp add: NormalizeIdentity_def)
qed

lemma lower_table_id: "lower_table (\<lambda>r. if valid_rune r then r else rune_error)"
  by (auto simp: lower_table_def lower_rune_def valid_rune_def)

lemma visible_phone_input: "visible ''138-0013-8000''"
  by (simp add: visible_def)

theorem NormalizeIdentity_idempotent_witness:
  "NormalizeIdentity (\<lambda>r. if valid_rune r then r else rune_error) IdentityPhone ''138-0013-8000''
     = Inr ''+8613800138000''
   \<and> NormalizeIdentity (\<lambda>r. if valid_rune r then r else rune_error) IdentityPhone ''+8613800138000''
     = Inr ''+8613800138000''"
proof -
  have "NormalizeIdentity (\<lambda>r. if valid_rune r then r else rune_error) IdentityPhone ''138-0013-8000''
     = Inr ''+8613800138000''"
    by (simp add: NormalizeIdentity_def IdentityPhone_def IdentityEmail_def
        normalizeMainlandPhone_def TrimSpace_visible [OF visible_phone_input]
        visible_runes [OF visible_phone_input] strip_country_code_def mainland_mobile_def
        is_digit_def char_eval)
  with NormalizeIdentity_idempotent [OF lower_table_id this] show ?thesis by simp
qed

text \<open>
  An identity sealed by a codec opens to the same text with every later codec whose key ring
  still holds the key that was active when it was sealed: encryption keys can be rotated.
\<close>

theorem Open_after_Seal:
  assumes "gcm_correct cr"
    and "NewIdentityCodec cfg = Inr c" "NewIdentityCodec cfg' = Inr c'"
    and "map_of (cfg_EncryptionKeys cfg') (cfg_ActiveEncryptionKeyID cfg)
       = map_of (cfg_EncryptionKeys cfg) (cfg_ActiveEncryptionKeyID cfg)"
    and "\<And>n v. read n = Some v \<Longrightarrow> length v = n"
    and "Seal cr c read kind normalized = Inr s"
  shows "Open_identity cr c' kind s = Inr normalized"
proof -
  obtain key where k: "validIdentityKind kind" "aes_key key"
    "map_of (encryptionKeys c) (si_EncryptionKeyID s) = Some key"
    "si_EncryptionKeyID s = activeEncryptionKeyID c" "read nonce_size = Some (si_Nonce s)"
    "si_Ciphertext s = gcm_seal cr key (si_Nonce s) normalized (identityAAD kind)"
    using Seal_Inr [OF assms(2,6)] by blast
  have "map_of (encryptionKeys c') (si_EncryptionKeyID s) = Some key"
    using k(3,4) assms(4) NewIdentityCodec_Inr [OF assms(2)] NewIdentityCodec_Inr [OF assms(3)]
    by simp
  with k assms(1,5) show ?thesis by (simp add: Open_identity_def gcm_correctD)
qed

definition sample_identity_config :: IdentityCodecConfig where
  "sample_identity_config =
     \<lparr>cfg_ActiveEncryptionKeyID = ''e1'', cfg_EncryptionKeys = [(''e1'', replicate 32 (CHR ''k''))],
      cfg_ActiveLookupKeyID = ''l2'',
      cfg_LookupKeys = [(''l1'', replicate 32 (CHR ''x'')), (''l2'', replicate 40 (CHR ''y''))]\<rparr>"

definition rotated_identity_config :: IdentityCodecConfig where
  "rotated_identity_config = sample_identity_config
     \<lparr>cfg_ActiveEncryptionKeyID := ''e2'',
      cfg_EncryptionKeys := [(''e1'', replicate 32 (CHR ''k'')), (''e2'', replicate 32 (CHR ''z''))]\<rparr>"

lemma visible_sample_ids: "visible ''e1''" "visible ''e2''" "visible ''l1''" "visible ''l2''"
  by (simp_all add: visible_def)

lemmas sample_identity_simps =
  NewIdentityCodec_def copyAndValidateKeys_def invalid_key_def sample_identity_config_def
  rotated_identity_config_def visible_sample_ids [THEN TrimSpace_visible]

definition sample_identity_codec :: IdentityCodec where
  "sample_identity_codec = (case NewIdentityCodec sample_identity_config of Inr c \<Rightarrow> c)"

definition rotated_identity_codec :: IdentityCodec where
  "rotated_identity_codec = (case NewIdentityCodec rotated_identity_config of Inr c \<Rightarrow> c)"

lemma sample_identity_codecs:
  "NewIdentityCodec sample_identity_config = Inr sample_identity_codec"
  "NewIdentityCodec rotated_identity_config = Inr rotated_identity_codec"
  by (simp_all add: sample_identity_codec_def rotated_identity_codec_def sample_identity_simps)

theorem Open_after_Seal_witness:
  "\<exists>s. Seal sample_crypto sample_identity_codec (\<lambda>n. Some (replicate n (CHR ''n''))) IdentityPhone
       ''+8613800138000'' = Inr s
     \<and> Open_identity sample_crypto rotated_identity_codec IdentityPhone s = Inr ''+8613800138000''"
proof -
  let ?read = "\<lambda>n. Some (replicate n (CHR ''n''))"
  obtain s where s: "Seal sample_crypto sample_identity_codec ?read IdentityPhone
       ''+8613800138000'' = Inr s"
    by (simp add: Seal_def validIdentityKind_def RandomBytes_def ring_get_def aes_key_def Let_def
        sample_identity_codec_def sample_identity_simps)
  have "Open_identity sample_crypto rotated_identity_codec IdentityPhone s = Inr ''+8613800138000''"
    by (rule Open_after_Seal [OF sample_crypto_correct(1) sample_identity_codecs _ _ s])
      (auto simp: rotated_identity_config_def sample_identity_config_def)
  with s show ?thesis by blast
qed

text \<open>
  The lookup candidates of an identity start with the index under the active lookup key and
  contain exactly one index for every key of the ring, so an account created under any retained
  lookup key is found.
\<close>

theorem LookupCandidates_complete:
  assumes "NewIdentityCodec cfg = Inr c" "distinct (map fst (cfg_LookupKeys cfg))"
    "validIdentityKind kind" "normalized \<noteq> []"
  shows "map li_KeyID (LookupCandidates cr c kind normalized) = lookupOrder c
    \<and> hd (LookupCandidates cr c kind normalized) = lookup cr c kind normalized (activeLookupKeyID c)
    \<and> set (LookupCandidates cr c kind normalized)
        = lookup cr c kind normalized ` set (map fst (cfg_LookupKeys cfg))
    \<and> distinct (map li_KeyID (LookupCandidates cr c kind normalized))"
proof -
  note c = NewIdentityCodec_Inr [OF assms(1)]
  have ids: "map li_KeyID (LookupCandidates cr c kind normalized) = lookupOrder c"
    using assms(3,4) by (simp add: LookupCandidates_def lookup_def comp_def)
  have "set (lookupOrder c) = set (map fst (cfg_LookupKeys cfg))"
    using c(2,5) by (simp add: c(6)) auto
  moreover have "distinct (lookupOrder c)"
    using assms(2) c(2) by (simp add: c(6))
  moreover have "set (LookupCandidates cr c kind normalized)
      = lookup cr c kind normalized ` set (lookupOrder c)"
    using assms(3,4) by (simp add: LookupCandidates_def)
  moreover have "hd (LookupCandidates cr c kind normalized)
      = lookup cr c kind normalized (activeLookupKeyID c)"
    using assms(3,4) by (simp add: LookupCandidates_def c(6))
  ultimately show ?thesis using ids by simp
qed

theorem LookupCandidates_complete_witness:
  "map li_KeyID (LookupCandidates sample_crypto sample_identity_codec IdentityPhone ''+8613800138000'')
     = [''l2'', ''l1'']"
proof -
  have "map li_KeyID (LookupCandidates sample_crypto sample_identity_codec IdentityPhone ''+8613800138000'')
     = lookupOrder sample_identity_codec"
    using LookupCandidates_complete [OF sample_identity_codecs(1), of IdentityPhone
        "''+8613800138000''" sample_crypto]
    by (simp add: sample_identity_config_def validIdentityKind_def)
  then show ?thesis by (simp add: sample_identity_codec_def sample_identity_simps)
qed

end
