(* ===== verification/Store.thy ===== *)
theory Store
  imports GoText
begin

text \<open>
  The PostgreSQL tables of the identity, device and session components, as the migrations declare
  them and the Go structs read them: one record per row, one list per table. Insertions check the
  primary key, the unique keys, the foreign keys and the CHECK constraints and fail otherwise.
  Creation and update stamps, which no modelled statement reads, are left out.
\<close>

section \<open>Rows\<close>

type_synonym Purpose = bytes

record user_row =
  u_id :: uuid
  u_nickname :: "bytes option"
  u_status :: bytes
  u_password_security_version :: int
  u_deletion_requested_at :: "instant option"
  u_deletion_finalized_at :: "instant option"
  u_administratively_disabled :: bool

record space_row =
  ps_id :: uuid
  ps_owner_user_id :: uuid
  ps_display_name :: "bytes option"
  ps_status :: bytes

record device_row =
  d_id :: uuid
  d_user_id :: uuid
  d_installation_id :: uuid
  d_public_key :: bytes
  d_display_name :: bytes
  d_platform :: bytes
  d_app_version :: bytes
  d_status :: bytes
  d_last_seen_at :: instant
  d_revoked_at :: "instant option"

record session_row =
  s_id :: uuid
  s_user_id :: uuid
  s_device_id :: uuid
  s_family_id :: uuid
  s_refresh_token_hash :: bytes
  s_rotated_from :: "uuid option"
  s_issued_at :: instant
  s_expires_at :: instant
  s_replaced_at :: "instant option"
  s_revoked_at :: "instant option"
  s_revoked_reason :: "bytes option"
  s_replay_detected_at :: "instant option"

record issuance_row =
  i_jti :: uuid
  i_user_id :: uuid
  i_device_id :: uuid
  i_personal_space_id :: uuid
  i_installation_id :: uuid
  i_signing_key_id :: bytes
  i_policy_version :: int
  i_issued_at :: instant
  i_expires_at :: instant
  i_revoked_at :: "instant option"

record Challenge =
  ch_ID :: uuid
  ch_Purpose :: Purpose
  ch_IdentityKind :: bytes
  ch_TargetLookupKeyID :: bytes
  ch_TargetLookupHMAC :: bytes
  ch_CodeKeyID :: bytes
  ch_CodeHMAC :: bytes
  ch_IdempotencyKeyHash :: bytes
  ch_ExpiresAt :: instant
  ch_ResendAfter :: instant
  ch_FailedAttempts :: int
  ch_ConsumedAt :: "instant option"
  ch_InvalidatedAt :: "instant option"
  ch_CreatedAt :: instant
  ch_ReceiptConsumedAt :: "instant option" \<comment> \<open>column of migration 2, not in the Go struct\<close>

record oauth_row =
  o_ID :: uuid
  o_ClientID :: bytes
  o_RedirectURI :: bytes
  o_CodeChallenge :: bytes
  o_CodeChallengeMethod :: bytes
  o_StateEncryptionKeyID :: bytes
  o_StateNonce :: bytes
  o_StateCiphertext :: bytes
  o_StateHash :: bytes
  o_InstallationID :: uuid
  o_DevicePublicKey :: bytes
  o_DeviceKeyDigest :: bytes
  o_DeviceDisplayName :: bytes
  o_DevicePlatform :: bytes
  o_AppVersion :: bytes
  o_ExpiresAt :: instant
  o_CreatedAt :: instant
  o_approved_user_id :: "uuid option"
  o_approved_at :: "instant option"
  o_consumed_at :: "instant option"

record code_row =
  ac_id :: uuid
  ac_oauth_request_id :: uuid
  ac_code_hash :: bytes
  ac_expires_at :: instant
  ac_consumed_at :: "instant option"
  ac_created_at :: instant

record nonce_row =
  n_device_id :: uuid
  n_nonce_hash :: bytes
  n_used_at :: instant

record audit_row =
  a_id :: uuid
  a_event_type :: bytes
  a_actor_user_id :: "uuid option"
  a_device_id :: "uuid option"
  a_object_type :: "bytes option"
  a_object_id :: "uuid option"
  a_outcome :: bytes
  a_reason_code :: "bytes option"
  a_request_id :: "bytes option"
  a_ip_hmac :: "bytes option"
  a_metadata :: "(bytes \<times> bytes) list"
  a_created_at :: instant
  a_organization_id :: "uuid option"
  a_operator_identity :: "bytes option"

record organization_row =
  og_id :: uuid
  og_display_name :: bytes
  og_status :: bytes
  og_revision :: int
  og_current_policy_snapshot_id :: "uuid option"
  og_archived_at :: "instant option"
  og_dissolved_at :: "instant option"

record membership_row =
  om_organization_id :: uuid
  om_user_id :: uuid
  om_role :: bytes
  om_department_id :: "uuid option"
  om_revision :: int
  om_joined_at :: instant

record workspace_row =
  ws_id :: uuid
  ws_owner_user_id :: uuid
  ws_display_name :: bytes
  ws_status :: bytes
  ws_revision :: int
  ws_created_at :: instant
  ws_updated_at :: instant
  ws_archived_at :: "instant option"

record workspace_membership_row =
  wm_workspace_id :: uuid
  wm_user_id :: uuid
  wm_role :: bytes
  wm_revision :: int
  wm_joined_at :: instant

record workspace_invitation_row =
  wi_id :: uuid
  wi_workspace_id :: uuid
  wi_token_digest :: bytes
  wi_created_by_user_id :: "uuid option"
  wi_status :: bytes
  wi_accepted_by_user_id :: "uuid option"
  wi_created_at :: instant
  wi_expires_at :: instant
  wi_accepted_at :: "instant option"
  wi_revoked_at :: "instant option"

record workspace_idempotency_row =
  wr_actor_user_id :: uuid
  wr_workspace_id :: uuid
  wr_operation :: bytes
  wr_key_digest :: bytes
  wr_request_digest :: bytes
  wr_resource_type :: bytes
  wr_resource_id :: uuid
  wr_created_at :: instant
  wr_expires_at :: instant

record installation_row =
  in_id :: uuid
  in_owner_scope :: bytes
  in_owner_id :: uuid
  in_device_id :: uuid
  in_definition_id :: uuid
  in_selected_version_id :: uuid

record definition_row =
  ad_id :: uuid
  ad_owner_scope :: bytes
  ad_owner_id :: uuid

record version_row =
  av_id :: uuid
  av_owner_scope :: bytes
  av_owner_id :: uuid
  av_definition_id :: uuid

record backup_device_row =
  bd_id :: uuid
  bd_user_id :: uuid
  bd_device_id :: uuid
  bd_key_epoch :: int
  bd_public_key :: bytes
  bd_registration_signature :: bytes
  bd_revision :: int
  bd_status :: bytes
  bd_created_at :: instant
  bd_updated_at :: instant
  bd_revoked_at :: "instant option"

text \<open>The columns of a state or kind whose values a CHECK constraint lists are datatypes of these values.\<close>

datatype BackupState = Initiated | Uploading | Sealed | Deleting | Deleted | Expired

record backup_row =
  eb_id :: uuid
  eb_user_id :: uuid
  eb_source_device_id :: uuid
  eb_source_installation_id :: uuid
  eb_source_definition_id :: uuid
  eb_source_version_id :: uuid
  eb_profile_lineage_id :: uuid
  eb_parent_backup_id :: "uuid option"
  eb_format_version :: int
  eb_cipher_suite :: bytes
  eb_state :: BackupState
  eb_chunk_count :: int
  eb_total_ciphertext_size :: int
  eb_manifest_object_key :: "bytes option"
  eb_manifest_ciphertext_digest :: "bytes option"
  eb_manifest_ciphertext_size :: "int option"
  eb_public_envelope_digest :: bytes
  eb_public_signature :: bytes
  eb_recovery_salt :: bytes
  eb_recovery_memory_kib :: int
  eb_recovery_iterations :: int
  eb_recovery_parallelism :: int
  eb_recovery_root_key_envelope :: "bytes option"
  eb_wrapped_data_key :: "bytes option"
  eb_created_at :: instant
  eb_updated_at :: instant
  eb_upload_expires_at :: instant
  eb_sealed_at :: "instant option"
  eb_deletion_started_at :: "instant option"
  eb_deleted_at :: "instant option"

record chunk_row =
  ek_backup_id :: uuid
  ek_chunk_index :: int
  ek_object_key :: bytes
  ek_ciphertext_digest :: bytes
  ek_ciphertext_size :: int

record envelope_row =
  ee_id :: uuid
  ee_backup_id :: uuid
  ee_backup_device_id :: uuid
  ee_key_epoch :: int
  ee_root_key_envelope :: "bytes option"
  ee_root_key_envelope_digest :: bytes
  ee_created_at :: instant
  ee_destroyed_at :: "instant option"

datatype BackupOperation = Expire_upload | Delete_backup | Prune_lineage

datatype OperationState = Op_pending | Op_running | Op_completed

record operation_row =
  eo_id :: uuid
  eo_user_id :: uuid
  eo_backup_id :: uuid
  eo_operation :: BackupOperation
  eo_state :: OperationState
  eo_object_keys :: "bytes list"
  eo_attempt_count :: int
  eo_next_attempt_at :: "instant option"
  eo_last_error_code :: "bytes option"
  eo_created_at :: instant
  eo_updated_at :: instant
  eo_completed_at :: "instant option"

text \<open>States and codes that a desktop reports are texts, which the code compares with its constants: the last
  constructor is every other text.\<close>

datatype CommandState = CommandQueued | CommandClaimed | CommandRunning | CommandSucceeded | CommandFailed | CommandExpired
  | OtherCommandState bytes

datatype HealthStatus = HealthUnknown | HealthHealthy | HealthDegraded | HealthUnhealthy

datatype HealthCode = HealthCodeHealthy | HealthCodeDesktopUnhealthy | HealthCodeRuntimeUnavailable
  | HealthCodeGatewayUnavailable | HealthCodeTimeout | HealthCodeClientInterrupted | OtherHealthCode bytes

record HealthSummary =
  hs_DesktopStatus :: bytes
  hs_RuntimeStatus :: bytes
  hs_GatewayStatus :: bytes
  hs_Code :: HealthCode
  hs_DurationMS :: int

record desktop_instance_row =
  di_device_id :: uuid
  di_user_id :: uuid
  di_organization_id :: "uuid option"
  di_workspace_id :: "uuid option"
  di_display_name :: bytes
  di_instance_type :: bytes
  di_client_version :: bytes
  di_platform :: bytes
  di_arch :: bytes
  di_capabilities :: "bytes list"
  di_last_heartbeat_at :: "instant option"
  di_health_status :: HealthStatus
  di_health_summary :: "HealthSummary option"
  di_created_at :: instant
  di_updated_at :: instant

record desktop_command_row =
  dc_id :: uuid
  dc_device_id :: uuid
  dc_type :: bytes
  dc_required_capability :: bytes
  dc_idempotency_key_hash :: bytes
  dc_state :: CommandState
  dc_expires_at :: instant
  dc_claimed_at :: "instant option"
  dc_started_at :: "instant option"
  dc_completed_at :: "instant option"
  dc_result_code :: "HealthCode option"
  dc_result_summary :: "HealthSummary option"
  dc_created_by_admin_id :: uuid
  dc_request_id :: bytes
  dc_created_at :: instant
  dc_updated_at :: instant

section \<open>The database\<close>

record db =
  users :: "user_row list"
  personal_spaces :: "space_row list"
  devices :: "device_row list"
  sessions :: "session_row list"
  issuances :: "issuance_row list"
  oauth_requests :: "oauth_row list"
  authorization_codes :: "code_row list"
  self_revocation_nonces :: "nonce_row list"
  audit_events :: "audit_row list"
  organizations :: "organization_row list"
  organization_memberships :: "membership_row list"
  workspaces :: "workspace_row list"
  workspace_memberships :: "workspace_membership_row list"
  workspace_invitations :: "workspace_invitation_row list"
  workspace_idempotency_records :: "workspace_idempotency_row list"
  installations :: "installation_row list"
  agent_definitions :: "definition_row list"
  agent_versions :: "version_row list"
  backup_devices :: "backup_device_row list"
  encrypted_profile_backups :: "backup_row list"
  encrypted_backup_chunks :: "chunk_row list"
  encrypted_backup_key_envelopes :: "envelope_row list"
  encrypted_backup_operations :: "operation_row list"
  desktop_control_commands :: "desktop_command_row list"
  desktop_control_instances :: "desktop_instance_row list"

definition empty_db :: db where
  "empty_db = \<lparr>users = [], personal_spaces = [], devices = [], sessions = [], issuances = [], oauth_requests = [],
     authorization_codes = [], self_revocation_nonces = [], audit_events = [], organizations = [], organization_memberships = [],
     workspaces = [], workspace_memberships = [], workspace_invitations = [], workspace_idempotency_records = [],
     installations = [], agent_definitions = [], agent_versions = [], backup_devices = [], encrypted_profile_backups = [],
     encrypted_backup_chunks = [], encrypted_backup_key_envelopes = [], encrypted_backup_operations = [],
     desktop_control_commands = [], desktop_control_instances = []\<rparr>"

section \<open>Insertions\<close>

definition insert_session :: "session_row \<Rightarrow> db \<Rightarrow> db option" where
  "insert_session r d =
     (if exists_row (\<lambda>s. s_id s = s_id r) (sessions d)
         \<or> exists_row (\<lambda>s. s_refresh_token_hash s = s_refresh_token_hash r) (sessions d)
         \<or> length (s_refresh_token_hash r) \<noteq> 32
         \<or> \<not> s_issued_at r < s_expires_at r
         \<or> \<not> exists_row (\<lambda>u. u_id u = s_user_id r) (users d)
         \<or> \<not> exists_row (\<lambda>v. d_id v = s_device_id r) (devices d)
         \<or> (case s_rotated_from r of None \<Rightarrow> False
              | Some p \<Rightarrow> \<not> exists_row (\<lambda>s. s_id s = p) (sessions d))
      then None else Some (d\<lparr>sessions := sessions d @ [r]\<rparr>))"

datatype device_conflict = DuplicateInstallation | DuplicatePublicKey | OtherViolation

definition insert_device :: "device_row \<Rightarrow> db \<Rightarrow> device_conflict + db" where
  "insert_device r d =
     (if length (d_public_key r) \<noteq> 32 \<or> exists_row (\<lambda>v. d_id v = d_id r) (devices d) then Inl OtherViolation
      else if exists_row (\<lambda>v. d_installation_id v = d_installation_id r) (devices d)
      then Inl DuplicateInstallation
      else if exists_row (\<lambda>v. d_public_key v = d_public_key r) (devices d)
      then Inl DuplicatePublicKey
      else if \<not> exists_row (\<lambda>u. u_id u = d_user_id r) (users d)
      then Inl OtherViolation
      else Inr (d\<lparr>devices := devices d @ [r]\<rparr>))"

definition insert_issuance :: "issuance_row \<Rightarrow> db \<Rightarrow> db option" where
  "insert_issuance r d =
     (if exists_row (\<lambda>i. i_jti i = i_jti r) (issuances d)
         \<or> \<not> i_policy_version r > 0
         \<or> \<not> i_issued_at r < i_expires_at r
         \<or> \<not> exists_row (\<lambda>u. u_id u = i_user_id r) (users d)
         \<or> \<not> exists_row (\<lambda>v. d_id v = i_device_id r) (devices d)
         \<or> \<not> exists_row (\<lambda>p. ps_id p = i_personal_space_id r) (personal_spaces d)
      then None else Some (d\<lparr>issuances := issuances d @ [r]\<rparr>))"

definition insert_oauth_request :: "oauth_row \<Rightarrow> db \<Rightarrow> db option" where
  "insert_oauth_request r d =
     (if exists_row (\<lambda>q. o_ID q = o_ID r) (oauth_requests d)
         \<or> o_CodeChallengeMethod r \<noteq> ''S256''
         \<or> length (o_StateHash r) \<noteq> 32 \<or> length (o_StateNonce r) \<noteq> 12
         \<or> length (o_DevicePublicKey r) \<noteq> 32 \<or> length (o_DeviceKeyDigest r) \<noteq> 32
         \<or> \<not> o_CreatedAt r < o_ExpiresAt r
         \<or> o_DevicePlatform r \<notin> {''darwin'', ''windows'', ''linux''}
      then None else Some (d\<lparr>oauth_requests := oauth_requests d @ [r]\<rparr>))"

definition insert_code :: "code_row \<Rightarrow> db \<Rightarrow> db option" where
  "insert_code r d =
     (if exists_row (\<lambda>c. ac_id c = ac_id r) (authorization_codes d)
         \<or> exists_row (\<lambda>c. ac_oauth_request_id c = ac_oauth_request_id r) (authorization_codes d)
         \<or> exists_row (\<lambda>c. ac_code_hash c = ac_code_hash r) (authorization_codes d)
         \<or> length (ac_code_hash r) \<noteq> 32
         \<or> \<not> ac_created_at r < ac_expires_at r
         \<or> \<not> exists_row (\<lambda>q. o_ID q = ac_oauth_request_id r) (oauth_requests d)
      then None else Some (d\<lparr>authorization_codes := authorization_codes d @ [r]\<rparr>))"

definition insert_nonce :: "nonce_row \<Rightarrow> db \<Rightarrow> db option" where
  "insert_nonce r d =
     (if exists_row (\<lambda>n. n_device_id n = n_device_id r \<and> n_nonce_hash n = n_nonce_hash r)
           (self_revocation_nonces d)
         \<or> length (n_nonce_hash r) \<noteq> 32
         \<or> \<not> exists_row (\<lambda>v. d_id v = n_device_id r) (devices d)
      then None else Some (d\<lparr>self_revocation_nonces := self_revocation_nonces d @ [r]\<rparr>))"

definition insert_audit :: "audit_row \<Rightarrow> db \<Rightarrow> db option" where
  "insert_audit r d =
     (if (a_outcome r \<noteq> ''success'' \<and> a_outcome r \<noteq> ''failure'' \<and> a_outcome r \<noteq> ''denied'')
         \<or> (case a_operator_identity r of None \<Rightarrow> False | Some v \<Rightarrow> v = [] \<or> 128 < RuneCountInString v)
         \<or> (case a_ip_hmac r of None \<Rightarrow> False | Some h \<Rightarrow> length h \<noteq> 32)
         \<or> exists_row (\<lambda>a. a_id a = a_id r) (audit_events d)
         \<or> (case a_actor_user_id r of None \<Rightarrow> False | Some i \<Rightarrow> \<not> exists_row (\<lambda>u. u_id u = i) (users d))
         \<or> (case a_device_id r of None \<Rightarrow> False | Some i \<Rightarrow> \<not> exists_row (\<lambda>v. d_id v = i) (devices d))
         \<or> (case a_organization_id r of None \<Rightarrow> False | Some i \<Rightarrow> \<not> exists_row (\<lambda>g. og_id g = i) (organizations d))
      then None
      else Some (d\<lparr>audit_events := audit_events d @ [r]\<rparr>))"

section \<open>Keys of the schema\<close>

definition db_keys :: "db \<Rightarrow> bool" where
  "db_keys d \<longleftrightarrow>
     distinct (map u_id (users d)) \<and>
     distinct (map ps_id (personal_spaces d)) \<and> distinct (map ps_owner_user_id (personal_spaces d)) \<and>
     distinct (map d_id (devices d)) \<and> distinct (map d_installation_id (devices d)) \<and>
     distinct (map d_public_key (devices d)) \<and>
     distinct (map s_id (sessions d)) \<and> distinct (map s_refresh_token_hash (sessions d)) \<and>
     distinct (map i_jti (issuances d)) \<and>
     distinct (map o_ID (oauth_requests d)) \<and>
     distinct (map ac_id (authorization_codes d)) \<and>
     distinct (map ac_oauth_request_id (authorization_codes d)) \<and>
     distinct (map ac_code_hash (authorization_codes d)) \<and>
     distinct (map a_id (audit_events d))"

text \<open>What a successful insertion did, and which keys were new.\<close>

lemma insert_session_Some:
  assumes "insert_session r d = Some d'"
  shows "d' = d\<lparr>sessions := sessions d @ [r]\<rparr>" "s_id r \<notin> s_id ` set (sessions d)"
    "s_refresh_token_hash r \<notin> s_refresh_token_hash ` set (sessions d)"
    "length (s_refresh_token_hash r) = 32" "s_issued_at r < s_expires_at r"
  using assms by (auto simp: insert_session_def exists_row_iff split: if_splits)

lemma insert_device_Inr:
  assumes "insert_device r d = Inr d'"
  shows "d' = d\<lparr>devices := devices d @ [r]\<rparr>" "d_id r \<notin> d_id ` set (devices d)"
    "d_installation_id r \<notin> d_installation_id ` set (devices d)"
    "d_public_key r \<notin> d_public_key ` set (devices d)"
  using assms by (auto simp: insert_device_def exists_row_iff split: if_splits)

lemma insert_issuance_Some:
  assumes "insert_issuance r d = Some d'"
  shows "d' = d\<lparr>issuances := issuances d @ [r]\<rparr>" "i_jti r \<notin> i_jti ` set (issuances d)"
  using assms by (auto simp: insert_issuance_def exists_row_iff split: if_splits)

lemma insert_oauth_request_Some:
  assumes "insert_oauth_request r d = Some d'"
  shows "d' = d\<lparr>oauth_requests := oauth_requests d @ [r]\<rparr>" "o_ID r \<notin> o_ID ` set (oauth_requests d)"
  using assms by (auto simp: insert_oauth_request_def exists_row_iff split: if_splits)

lemma insert_code_Some:
  assumes "insert_code r d = Some d'"
  shows "d' = d\<lparr>authorization_codes := authorization_codes d @ [r]\<rparr>"
    "ac_id r \<notin> ac_id ` set (authorization_codes d)"
    "ac_oauth_request_id r \<notin> ac_oauth_request_id ` set (authorization_codes d)"
    "ac_code_hash r \<notin> ac_code_hash ` set (authorization_codes d)"
  using assms by (auto simp: insert_code_def exists_row_iff split: if_splits)

lemma insert_nonce_Some:
  assumes "insert_nonce r d = Some d'"
  shows "d' = d\<lparr>self_revocation_nonces := self_revocation_nonces d @ [r]\<rparr>"
  using assms by (auto simp: insert_nonce_def split: if_splits)

lemma insert_audit_Some:
  assumes "insert_audit r d = Some d'"
  shows "d' = d\<lparr>audit_events := audit_events d @ [r]\<rparr>" "a_id r \<notin> a_id ` set (audit_events d)"
  using assms by (auto simp: insert_audit_def exists_row_iff split: if_splits)

lemmas insert_eqs =
  insert_session_Some(1) insert_device_Inr(1) insert_issuance_Some(1) insert_oauth_request_Some(1)
  insert_code_Some(1) insert_nonce_Some(1) insert_audit_Some(1)

text \<open>Every insertion keeps the keys unique.\<close>

lemma insert_session_keys: "db_keys d \<Longrightarrow> insert_session r d = Some d' \<Longrightarrow> db_keys d'"
  using insert_session_Some [of r d d'] by (simp add: db_keys_def)

lemma insert_device_keys: "db_keys d \<Longrightarrow> insert_device r d = Inr d' \<Longrightarrow> db_keys d'"
  using insert_device_Inr [of r d d'] by (simp add: db_keys_def)

lemma insert_issuance_keys: "db_keys d \<Longrightarrow> insert_issuance r d = Some d' \<Longrightarrow> db_keys d'"
  using insert_issuance_Some [of r d d'] by (simp add: db_keys_def)

lemma insert_oauth_request_keys: "db_keys d \<Longrightarrow> insert_oauth_request r d = Some d' \<Longrightarrow> db_keys d'"
  using insert_oauth_request_Some [of r d d'] by (simp add: db_keys_def)

lemma insert_code_keys: "db_keys d \<Longrightarrow> insert_code r d = Some d' \<Longrightarrow> db_keys d'"
  using insert_code_Some [of r d d'] by (simp add: db_keys_def)

lemma insert_nonce_keys: "db_keys d \<Longrightarrow> insert_nonce r d = Some d' \<Longrightarrow> db_keys d'"
  using insert_nonce_Some [of r d d'] by (simp add: db_keys_def)

lemma insert_audit_keys: "db_keys d \<Longrightarrow> insert_audit r d = Some d' \<Longrightarrow> db_keys d'"
  using insert_audit_Some [of r d d'] by (simp add: db_keys_def)

lemmas insert_keeps_keys =
  insert_session_keys insert_device_keys insert_issuance_keys insert_oauth_request_keys
  insert_code_keys insert_nonce_keys insert_audit_keys

end
