(* ===== verification/Receipt.thy ===== *)
theory Receipt
  imports Identity Store
begin

text \<open>
  \<open>internal/verification/receipt.go\<close> and the purposes of \<open>model.go\<close>: the
  signed, encrypted proof that a challenge was solved. The JSON encoder and decoder of the payload
  are the parameters \<open>jenc\<close> and \<open>jdec\<close>. Lemmas: a receipt parses back to what was issued for its
  whole lifetime and only for its purpose, and nothing parses that is not signed by a ring key,
  fresh and addressed to the expected purpose.
\<close>

section \<open>Purposes\<close>

definition PurposeRegistration :: Purpose where "PurposeRegistration = ''registration''"
definition PurposeLogin :: Purpose where "PurposeLogin = ''login''"
definition PurposePasswordReset :: Purpose where "PurposePasswordReset = ''password_reset''"
definition PurposeBindIdentity :: Purpose where "PurposeBindIdentity = ''bind_identity''"
definition PurposeAccountDeletion :: Purpose where "PurposeAccountDeletion = ''account_deletion''"
definition PurposeDeletionRecovery :: Purpose where "PurposeDeletionRecovery = ''deletion_recovery''"

definition validPurpose :: "Purpose \<Rightarrow> bool" where
  "validPurpose p \<longleftrightarrow> p = PurposeRegistration \<or> p = PurposeLogin \<or> p = PurposePasswordReset
     \<or> p = PurposeBindIdentity \<or> p = PurposeAccountDeletion \<or> p = PurposeDeletionRecovery"

section \<open>Codec\<close>

definition receiptLifetime :: duration where
  "receiptLifetime = 10 * minute"

definition maximumReceiptTokenLength :: nat where
  "maximumReceiptTokenLength = 8192"

record ReceiptClaims =
  rc_ChallengeID :: uuid
  rc_Kind :: IdentityKind
  rc_NormalizedIdentity :: bytes
  rc_Purpose :: Purpose
  rc_IssuedAt :: instant
  rc_ExpiresAt :: instant

record receiptPayload =
  rp_Version :: int
  rp_SigningKeyID :: bytes
  rp_ChallengeID :: uuid
  rp_Kind :: IdentityKind
  rp_Purpose :: Purpose
  rp_EncryptionKeyID :: bytes
  rp_Nonce :: bytes
  rp_Ciphertext :: bytes
  rp_IssuedAtUnix :: int
  rp_ExpiresAtUnix :: int

record ReceiptCodec =
  identityCodec :: IdentityCodec
  activeSigningKeyID :: bytes
  signingKeys :: key_ring

datatype receipt_error =
    ErrInvalidReceipt | ReceiptNotEncrypted | ReceiptNotEncoded
  | ReceiptKeyRingEmpty | ReceiptKeyRingInvalid | ActiveReceiptKeyUnavailable

definition copyKeyRing :: "key_ring \<Rightarrow> nat \<Rightarrow> receipt_error + key_ring" where
  "copyKeyRing keys minimumLength =
     (if keys = [] then Inl ReceiptKeyRingEmpty
      else if list_ex (\<lambda>(keyID, key). TrimSpace keyID = [] \<or> length key < minimumLength) keys
      then Inl ReceiptKeyRingInvalid
      else Inr keys)"

definition NewReceiptCodec :: "IdentityCodec \<Rightarrow> bytes \<Rightarrow> key_ring \<Rightarrow> receipt_error + ReceiptCodec" where
  "NewReceiptCodec ic active keys =
     (case copyKeyRing keys 32 of
        Inl e \<Rightarrow> Inl e
      | Inr ks \<Rightarrow>
          if map_of ks active = None \<or> TrimSpace active = [] then Inl ActiveReceiptKeyUnavailable
          else Inr \<lparr>identityCodec = ic, activeSigningKeyID = active, signingKeys = ks\<rparr>)"

definition receiptSignature :: "crypto \<Rightarrow> bytes \<Rightarrow> bytes \<Rightarrow> bytes" where
  "receiptSignature cr key encodedPayload =
     hmac_sha256 cr key (''agentera.verification-receipt.v1'' @ [CHR 0x00] @ encodedPayload)"

definition receipt_payload :: "ReceiptCodec \<Rightarrow> instant \<Rightarrow> Challenge \<Rightarrow> SealedIdentity \<Rightarrow> receiptPayload" where
  "receipt_payload c now challenge sealed =
     \<lparr>rp_Version = 1, rp_SigningKeyID = activeSigningKeyID c,
      rp_ChallengeID = ch_ID challenge, rp_Kind = ch_IdentityKind challenge,
      rp_Purpose = ch_Purpose challenge, rp_EncryptionKeyID = si_EncryptionKeyID sealed,
      rp_Nonce = si_Nonce sealed, rp_Ciphertext = si_Ciphertext sealed,
      rp_IssuedAtUnix = unix_of (truncate_second now),
      rp_ExpiresAtUnix = unix_of (truncate_second now + receiptLifetime)\<rparr>"

definition Issue ::
  "crypto \<Rightarrow> (nat \<Rightarrow> nat) \<Rightarrow> (receiptPayload \<Rightarrow> bytes option) \<Rightarrow> ReceiptCodec
     \<Rightarrow> (nat \<Rightarrow> bytes option) \<Rightarrow> instant \<Rightarrow> Challenge \<Rightarrow> bytes \<Rightarrow> receipt_error + bytes \<times> instant" where
  "Issue cr tbl jenc c read now challenge normalizedIdentity =
     (if ch_ID challenge = Nil_uuid \<or> \<not> validPurpose (ch_Purpose challenge) then Inl ErrInvalidReceipt
      else case NormalizeIdentity tbl (ch_IdentityKind challenge) normalizedIdentity of
          Inl _ \<Rightarrow> Inl ErrInvalidReceipt
        | Inr normalized \<Rightarrow>
            if normalized \<noteq> normalizedIdentity then Inl ErrInvalidReceipt
            else (case Seal cr (identityCodec c) read (ch_IdentityKind challenge) normalizedIdentity of
                Inl _ \<Rightarrow> Inl ReceiptNotEncrypted
              | Inr sealed \<Rightarrow>
                  let issuedAt = truncate_second now;
                      expiresAt = issuedAt + receiptLifetime;
                      payload = receipt_payload c now challenge sealed
                  in case jenc payload of
                      None \<Rightarrow> Inl ReceiptNotEncoded
                    | Some encodedJSON \<Rightarrow>
                        let encodedPayload = encode_url encodedJSON;
                            signature = receiptSignature cr (ring_get (signingKeys c) (activeSigningKeyID c))
                              encodedPayload
                        in Inr (encodedPayload @ ''.'' @ encode_url signature, expiresAt)))"

definition Parse ::
  "crypto \<Rightarrow> (nat \<Rightarrow> nat) \<Rightarrow> (bytes \<Rightarrow> receiptPayload option) \<Rightarrow> ReceiptCodec \<Rightarrow> instant
     \<Rightarrow> bytes \<Rightarrow> Purpose \<Rightarrow> receipt_error + ReceiptClaims" where
  "Parse cr tbl jdec c now token expectedPurpose =
     (if token = [] \<or> length token > maximumReceiptTokenLength \<or> count_byte (CHR ''.'') token \<noteq> 1
         \<or> \<not> validPurpose expectedPurpose
      then Inl ErrInvalidReceipt
      else case cut (CHR ''.'') token of (encodedPayload, encodedSignature) \<Rightarrow>
        (case DecodeCanonicalBase64URL encodedPayload of
           None \<Rightarrow> Inl ErrInvalidReceipt
         | Some payloadJSON \<Rightarrow>
           if payloadJSON = [] \<or> length payloadJSON > maximumReceiptTokenLength
           then Inl ErrInvalidReceipt
           else (case jdec payloadJSON of
               None \<Rightarrow> Inl ErrInvalidReceipt
             | Some payload \<Rightarrow>
               (case map_of (signingKeys c) (rp_SigningKeyID payload) of
                  None \<Rightarrow> Inl ErrInvalidReceipt
                | Some key \<Rightarrow>
                  (case DecodeCanonicalBase64URL encodedSignature of
                     None \<Rightarrow> Inl ErrInvalidReceipt
                   | Some signature \<Rightarrow>
                     if length signature \<noteq> 32 \<or> signature \<noteq> receiptSignature cr key encodedPayload
                     then Inl ErrInvalidReceipt
                     else
                       let issuedAt = of_unix (rp_IssuedAtUnix payload);
                           expiresAt = of_unix (rp_ExpiresAtUnix payload) in
                       if rp_Version payload \<noteq> 1 \<or> rp_ChallengeID payload = Nil_uuid
                          \<or> rp_Purpose payload \<noteq> expectedPurpose \<or> \<not> validPurpose (rp_Purpose payload)
                          \<or> time_sub expiresAt issuedAt \<noteq> receiptLifetime
                          \<or> now < issuedAt - minute \<or> \<not> now < expiresAt
                       then Inl ErrInvalidReceipt
                       else (case Open_identity cr (identityCodec c) (rp_Kind payload)
                             \<lparr>si_EncryptionKeyID = rp_EncryptionKeyID payload, si_Nonce = rp_Nonce payload,
                              si_Ciphertext = rp_Ciphertext payload, si_LookupKeyID = [],
                              si_LookupHMAC = []\<rparr> of
                           Inl _ \<Rightarrow> Inl ErrInvalidReceipt
                         | Inr normalized \<Rightarrow>
                           (case NormalizeIdentity tbl (rp_Kind payload) normalized of
                              Inl _ \<Rightarrow> Inl ErrInvalidReceipt
                            | Inr validated \<Rightarrow>
                              if validated \<noteq> normalized then Inl ErrInvalidReceipt
                              else Inr \<lparr>rc_ChallengeID = rp_ChallengeID payload, rc_Kind = rp_Kind payload,
                                rc_NormalizedIdentity = normalized, rc_Purpose = rp_Purpose payload,
                                rc_IssuedAt = issuedAt, rc_ExpiresAt = expiresAt\<rparr>)))))))"

text \<open>
  What is relied on of the JSON package: a payload whose strings are valid UTF-8 is read back as it
  was written, and its text is not empty.
\<close>

definition receipt_utf8 :: "receiptPayload \<Rightarrow> bool" where
  "receipt_utf8 p \<longleftrightarrow> ValidString (rp_SigningKeyID p) \<and> ValidString (rp_Kind p)
     \<and> ValidString (rp_Purpose p) \<and> ValidString (rp_EncryptionKeyID p)"

definition receipt_json :: "(receiptPayload \<Rightarrow> bytes option) \<Rightarrow> (bytes \<Rightarrow> receiptPayload option) \<Rightarrow> bool" where
  "receipt_json jenc jdec \<longleftrightarrow>
     (\<forall>p t. receipt_utf8 p \<longrightarrow> jenc p = Some t \<longrightarrow> t \<noteq> [] \<and> jdec t = Some p)"

section \<open>Lemmas\<close>

lemma ValidString_visible: "visible s \<Longrightarrow> ValidString s"
  by (subst ValidString_def, subst pieces_ascii) (auto simp: visible_def list_all_iff)

lemma visible_purpose: "validPurpose p \<Longrightarrow> visible p"
  by (auto simp: validPurpose_def PurposeRegistration_def PurposeLogin_def PurposePasswordReset_def
      PurposeBindIdentity_def PurposeAccountDeletion_def PurposeDeletionRecovery_def visible_def)

lemma visible_kind: "validIdentityKind k \<Longrightarrow> visible k"
  by (auto simp: validIdentityKind_def IdentityEmail_def IdentityPhone_def visible_def)

lemma unix_expiry:
  "of_unix (unix_of (truncate_second t + receiptLifetime)) = truncate_second t + receiptLifetime"
  using unix_of_add [of "truncate_second t" 600] of_unix_add [of "unix_of (truncate_second t)" 600]
  by (simp add: receiptLifetime_def of_unix_truncate)

lemma receipt_lifetime_exact: "time_sub a b = receiptLifetime \<longleftrightarrow> a = b + receiptLifetime"
  using time_sub_exact [of receiptLifetime a b] by (auto simp: receiptLifetime_def max_duration_def)

lemma length_le_encode: "length s \<le> length (encode_url s)"
  by (simp add: length_EncodeToString)

lemma NewReceiptCodec_Inr:
  assumes "NewReceiptCodec ic active keys = Inr c"
  obtains key where "identityCodec c = ic" "activeSigningKeyID c = active" "signingKeys c = keys"
    "map_of keys active = Some key"
  using assms by (auto simp: NewReceiptCodec_def copyKeyRing_def split: if_splits)

lemma Open_sealed:
  assumes "gcm_correct cr" "NewIdentityCodec cfg = Inr ic"
    "\<And>n v. read n = Some v \<Longrightarrow> length v = n" "Seal cr ic read kind normalized = Inr s"
  shows "Open_identity cr ic kind \<lparr>si_EncryptionKeyID = si_EncryptionKeyID s, si_Nonce = si_Nonce s,
    si_Ciphertext = si_Ciphertext s, si_LookupKeyID = [], si_LookupHMAC = []\<rparr> = Inr normalized"
proof -
  obtain key where k: "validIdentityKind kind" "aes_key key"
    "map_of (encryptionKeys ic) (si_EncryptionKeyID s) = Some key"
    "si_EncryptionKeyID s = activeEncryptionKeyID ic" "read nonce_size = Some (si_Nonce s)"
    "si_Ciphertext s = gcm_seal cr key (si_Nonce s) normalized (identityAAD kind)"
    by (rule Seal_Inr [OF assms(2,4)])
  with assms(1,3) show ?thesis by (simp add: Open_identity_def gcm_correctD)
qed

lemma Issue_Inr:
  assumes "Issue cr tbl jenc c read now challenge n = Inr (token, expiresAt)"
  obtains sealed j where "ch_ID challenge \<noteq> Nil_uuid" "validPurpose (ch_Purpose challenge)"
    "NormalizeIdentity tbl (ch_IdentityKind challenge) n = Inr n"
    "Seal cr (identityCodec c) read (ch_IdentityKind challenge) n = Inr sealed"
    "jenc (receipt_payload c now challenge sealed) = Some j"
    "token = encode_url j @ ''.'' @ encode_url (receiptSignature cr
       (ring_get (signingKeys c) (activeSigningKeyID c)) (encode_url j))"
    "expiresAt = truncate_second now + receiptLifetime"
proof (cases "NormalizeIdentity tbl (ch_IdentityKind challenge) n")
  case (Inl e)
  with assms show thesis by (simp add: Issue_def split: if_splits)
next
  case (Inr m)
  show thesis
  proof (cases "Seal cr (identityCodec c) read (ch_IdentityKind challenge) n")
    case (Inl e)
    with assms Inr show thesis by (simp add: Issue_def split: if_splits)
  next
    case sealed: (Inr s)
    show thesis
    proof (cases "jenc (receipt_payload c now challenge s)")
      case None
      with assms Inr sealed show thesis by (simp add: Issue_def Let_def split: if_splits)
    next
      case (Some j)
      with assms Inr sealed show thesis
        by (intro that [of s j]) (auto simp: Issue_def Let_def split: if_splits)
    qed
  qed
qed

section \<open>Properties\<close>

text \<open>
  A receipt, from one minute before it was issued until it expires ten minutes after, parses for
  its purpose to exactly the challenge, kind and identity it was issued for.
\<close>

theorem Parse_after_Issue:
  assumes "gcm_correct cr" "digest_lengths cr" "receipt_json jenc jdec"
    and "NewIdentityCodec cfg = Inr ic" "NewReceiptCodec ic active keys = Inr c"
    and "ValidString active" "ValidString (cfg_ActiveEncryptionKeyID cfg)"
    and "\<And>n v. read n = Some v \<Longrightarrow> length v = n"
    and "Issue cr tbl jenc c read now challenge n = Inr (token, expiresAt)"
    and "length token \<le> maximumReceiptTokenLength"
    and "truncate_second now - minute \<le> t" "t < expiresAt"
  shows "Parse cr tbl jdec c t token (ch_Purpose challenge)
    = Inr \<lparr>rc_ChallengeID = ch_ID challenge, rc_Kind = ch_IdentityKind challenge,
           rc_NormalizedIdentity = n, rc_Purpose = ch_Purpose challenge,
           rc_IssuedAt = truncate_second now, rc_ExpiresAt = expiresAt\<rparr>"
proof -
  obtain key where c: "identityCodec c = ic" "activeSigningKeyID c = active" "signingKeys c = keys"
    "map_of keys active = Some key"
    by (rule NewReceiptCodec_Inr [OF assms(5)])
  obtain s j where i: "ch_ID challenge \<noteq> Nil_uuid" "validPurpose (ch_Purpose challenge)"
    "NormalizeIdentity tbl (ch_IdentityKind challenge) n = Inr n"
    "Seal cr ic read (ch_IdentityKind challenge) n = Inr s"
    "jenc (receipt_payload c now challenge s) = Some j"
    "token = encode_url j @ ''.'' @ encode_url (receiptSignature cr key (encode_url j))"
    "expiresAt = truncate_second now + receiptLifetime"
    using Issue_Inr [OF assms(9)] c by (metis ring_get_Some)
  have k: "validIdentityKind (ch_IdentityKind challenge)"
    "si_EncryptionKeyID s = cfg_ActiveEncryptionKeyID cfg"
    by (rule Seal_Inr [OF assms(4) i(4)], assumption)
      (rule Seal_Inr [OF assms(4) i(4)], simp add: NewIdentityCodec_Inr(3) [OF assms(4)])
  have "receipt_utf8 (receipt_payload c now challenge s)"
    using i(2) k assms(6,7) c(2)
    by (simp add: receipt_utf8_def receipt_payload_def ValidString_visible visible_purpose visible_kind)
  with assms(3) i(5) have j: "j \<noteq> []" "jdec j = Some (receipt_payload c now challenge s)"
    by (auto simp: receipt_json_def)
  have len: "length j \<le> maximumReceiptTokenLength"
    using assms(10) i(6) length_le_encode [of j] by simp
  have sig: "length (receiptSignature cr key x) = 32" for x
    using assms(2) by (simp add: receiptSignature_def)
  note opened = Open_sealed [OF assms(1,4) assms(8) i(4)]
  show ?thesis
    unfolding i(6,7)
    using i(1-3) i(6,7) j len c assms(10-12) sig opened
    by (simp add: Parse_def cut_append b64url.dec_enc receipt_payload_def unix_expiry
        of_unix_truncate receipt_lifetime_exact Let_def)
qed

definition sample_challenge :: Challenge where
  "sample_challenge =
     \<lparr>ch_ID = 7, ch_Purpose = PurposeLogin, ch_IdentityKind = IdentityPhone,
      ch_TargetLookupKeyID = ''l2'', ch_TargetLookupHMAC = replicate 32 (CHR ''t''),
      ch_CodeKeyID = ''c1'', ch_CodeHMAC = replicate 32 (CHR ''h''),
      ch_IdempotencyKeyHash = replicate 32 (CHR ''i''), ch_ExpiresAt = 300 * second,
      ch_ResendAfter = 60 * second, ch_FailedAttempts = 0, ch_ConsumedAt = None,
      ch_InvalidatedAt = None, ch_CreatedAt = 0, ch_ReceiptConsumedAt = None\<rparr>"

definition sample_receipt_codec :: ReceiptCodec where
  "sample_receipt_codec = \<lparr>identityCodec = sample_identity_codec, activeSigningKeyID = ''r1'',
     signingKeys = [(''r1'', replicate 32 (CHR ''q''))]\<rparr>"

definition sample_read :: "nat \<Rightarrow> bytes option" where
  "sample_read n = Some (replicate n (CHR ''n''))"

definition sample_sealed :: SealedIdentity where
  "sample_sealed = (case Seal sample_crypto sample_identity_codec sample_read IdentityPhone
     ''+8613800138000'' of Inr s \<Rightarrow> s)"

definition sample_payload :: receiptPayload where
  "sample_payload = receipt_payload sample_receipt_codec 0 sample_challenge sample_sealed"

definition sample_jenc :: "receiptPayload \<Rightarrow> bytes option" where
  "sample_jenc p = (if p = sample_payload then Some ''{}'' else None)"

definition sample_jdec :: "bytes \<Rightarrow> receiptPayload option" where
  "sample_jdec t = (if t = ''{}'' then Some sample_payload else None)"

definition sample_tbl :: "nat \<Rightarrow> nat" where
  "sample_tbl r = (if valid_rune r then r else rune_error)"

lemma visible_sample_receipt: "visible ''r1''"
  by (simp add: visible_def)

lemma sample_receipt_codec_ok:
  "NewReceiptCodec sample_identity_codec ''r1'' [(''r1'', replicate 32 (CHR ''q''))] = Inr sample_receipt_codec"
  by (simp add: NewReceiptCodec_def copyKeyRing_def sample_receipt_codec_def
      TrimSpace_visible [OF visible_sample_receipt])

lemma sample_json: "receipt_json sample_jenc sample_jdec"
  by (simp add: receipt_json_def sample_jenc_def sample_jdec_def)

lemma sample_phone_normal: "NormalizeIdentity tbl IdentityPhone ''+8613800138000'' = Inr ''+8613800138000''"
  using normalizeMainlandPhone_fixed [of "''13800138000''"]
  by (simp add: NormalizeIdentity_def IdentityPhone_def IdentityEmail_def mainland_mobile_def is_digit_def)

lemma sample_seal:
  "Seal sample_crypto sample_identity_codec sample_read IdentityPhone ''+8613800138000'' = Inr sample_sealed"
  by (simp add: sample_sealed_def Seal_def validIdentityKind_def RandomBytes_def ring_get_def
      aes_key_def sample_read_def Let_def sample_identity_codec_def sample_identity_simps)

lemma sample_challenge_fields:
  "ch_ID sample_challenge = 7" "ch_Purpose sample_challenge = PurposeLogin"
  "ch_IdentityKind sample_challenge = IdentityPhone"
  "identityCodec sample_receipt_codec = sample_identity_codec"
  by (simp_all add: sample_challenge_def sample_receipt_codec_def)

lemma sample_issue:
  "\<exists>token. Issue sample_crypto sample_tbl sample_jenc sample_receipt_codec sample_read 0 sample_challenge
       ''+8613800138000'' = Inr (token, 600 * second) \<and> length token = 47"
  by (simp add: Issue_def sample_challenge_fields validPurpose_def sample_phone_normal sample_seal
      Let_def truncate_second_def receiptLifetime_def sample_jenc_def sample_payload_def [symmetric]
      length_EncodeToString receiptSignature_def sample_crypto_correct)

theorem Parse_after_Issue_witness:
  "\<exists>token. Issue sample_crypto sample_tbl sample_jenc sample_receipt_codec sample_read 0 sample_challenge
       ''+8613800138000'' = Inr (token, 600 * second)
     \<and> rc_NormalizedIdentity (case Parse sample_crypto sample_tbl sample_jdec sample_receipt_codec
          (599 * second) token PurposeLogin of Inr claims \<Rightarrow> claims) = ''+8613800138000''"
proof -
  obtain token where t: "Issue sample_crypto sample_tbl sample_jenc sample_receipt_codec sample_read 0
       sample_challenge ''+8613800138000'' = Inr (token, 600 * second)" "length token = 47"
    using sample_issue by blast
  have "ValidString ''r1''" by (rule ValidString_visible [OF visible_sample_receipt])
  moreover have "ValidString (cfg_ActiveEncryptionKeyID sample_identity_config)"
    by (simp add: sample_identity_config_def ValidString_visible visible_sample_ids)
  ultimately have "Parse sample_crypto sample_tbl sample_jdec sample_receipt_codec (599 * second) token
      (ch_Purpose sample_challenge) = Inr \<lparr>rc_ChallengeID = ch_ID sample_challenge,
        rc_Kind = ch_IdentityKind sample_challenge, rc_NormalizedIdentity = ''+8613800138000'',
        rc_Purpose = ch_Purpose sample_challenge, rc_IssuedAt = truncate_second 0,
        rc_ExpiresAt = 600 * second\<rparr>"
    using t(2)
    by (intro Parse_after_Issue [OF sample_crypto_correct(1,2) sample_json sample_identity_codecs(1)
          sample_receipt_codec_ok _ _ _ t(1)])
      (auto simp: sample_read_def maximumReceiptTokenLength_def truncate_second_def)
  with t(1) show ?thesis by (simp add: sample_challenge_def)
qed

text \<open>
  Whatever parses as a receipt carries a 32-byte HMAC under a key of the ring over exactly the
  text received, is used for the purpose it names, has the fixed lifetime, is not expired, and
  names an identity in normal form.
\<close>

theorem Parse_sound:
  assumes "Parse cr tbl jdec c now token purpose = Inr claims"
  shows "\<exists>json signature payload key. token = encode_url json @ ''.'' @ encode_url signature
    \<and> jdec json = Some payload
    \<and> map_of (signingKeys c) (rp_SigningKeyID payload) = Some key
    \<and> signature = receiptSignature cr key (encode_url json) \<and> length signature = 32
    \<and> rc_Purpose claims = purpose \<and> validPurpose purpose
    \<and> rc_ChallengeID claims = rp_ChallengeID payload \<and> rc_ChallengeID claims \<noteq> Nil_uuid
    \<and> rc_ExpiresAt claims = rc_IssuedAt claims + receiptLifetime
    \<and> rc_IssuedAt claims - minute \<le> now \<and> now < rc_ExpiresAt claims
    \<and> NormalizeIdentity tbl (rc_Kind claims) (rc_NormalizedIdentity claims)
        = Inr (rc_NormalizedIdentity claims)"
proof -
  obtain body es where cut: "cut (CHR ''.'') token = (body, es)" by (cases "cut (CHR ''.'') token")
  have "count_byte (CHR ''.'') token = 1" using assms by (simp add: Parse_def split: if_splits)
  then have tok: "token = body @ ''.'' @ es" using cut cut_count by fastforce
  have "\<exists>json signature. body = encode_url json \<and> es = encode_url signature
      \<and> (\<exists>payload key. jdec json = Some payload
        \<and> map_of (signingKeys c) (rp_SigningKeyID payload) = Some key
        \<and> signature = receiptSignature cr key (encode_url json) \<and> length signature = 32
        \<and> rc_Purpose claims = purpose \<and> validPurpose purpose
        \<and> rc_ChallengeID claims = rp_ChallengeID payload \<and> rc_ChallengeID claims \<noteq> Nil_uuid
        \<and> rc_ExpiresAt claims = rc_IssuedAt claims + receiptLifetime
        \<and> rc_IssuedAt claims - minute \<le> now \<and> now < rc_ExpiresAt claims
        \<and> NormalizeIdentity tbl (rc_Kind claims) (rc_NormalizedIdentity claims)
            = Inr (rc_NormalizedIdentity claims))"
    using assms
    by (auto simp: Parse_def cut Let_def receipt_lifetime_exact b64url.dec_iff b64url.enc_inj
        split: if_splits option.splits sum.splits)
  then show ?thesis unfolding tok by blast
qed

lemma sample_parse:
  "\<exists>token claims. Parse sample_crypto sample_tbl sample_jdec sample_receipt_codec 0 token PurposeLogin
      = Inr claims"
proof -
  let ?body = "encode_url ''{}''"
  let ?sig = "receiptSignature sample_crypto (replicate 32 (CHR ''q'')) ?body"
  let ?token = "?body @ ''.'' @ encode_url ?sig"
  have "length ?sig = 32" by (simp add: receiptSignature_def sample_crypto_correct)
  moreover have "length ?token \<le> maximumReceiptTokenLength"
    using \<open>length ?sig = 32\<close> by (simp add: length_EncodeToString maximumReceiptTokenLength_def)
  moreover have "Open_identity sample_crypto sample_identity_codec IdentityPhone
      \<lparr>si_EncryptionKeyID = si_EncryptionKeyID sample_sealed, si_Nonce = si_Nonce sample_sealed,
       si_Ciphertext = si_Ciphertext sample_sealed, si_LookupKeyID = [], si_LookupHMAC = []\<rparr>
      = Inr ''+8613800138000''"
    by (rule Open_sealed [OF sample_crypto_correct(1) sample_identity_codecs(1) _ sample_seal])
      (auto simp: sample_read_def)
  ultimately obtain claims where p: "Parse sample_crypto sample_tbl sample_jdec sample_receipt_codec 0
      ?token PurposeLogin = Inr claims"
    using unix_expiry [of 0]
    by (simp add: Parse_def cut_append b64url.dec_enc sample_jdec_def sample_payload_def
        receipt_payload_def sample_challenge_fields sample_receipt_codec_def sample_phone_normal
        validPurpose_def maximumReceiptTokenLength_def receipt_lifetime_exact of_unix_truncate Let_def
        truncate_second_def receiptLifetime_def of_unix_def unix_of_def time_sub_def max_duration_def)
  then show ?thesis by blast
qed

theorem Parse_sound_witness:
  "\<exists>token claims. Parse sample_crypto sample_tbl sample_jdec sample_receipt_codec 0 token PurposeLogin
      = Inr claims \<and> rc_Purpose claims = PurposeLogin \<and> 0 < rc_ExpiresAt claims"
proof -
  obtain token claims where p: "Parse sample_crypto sample_tbl sample_jdec sample_receipt_codec 0 token
      PurposeLogin = Inr claims" using sample_parse by blast
  with Parse_sound [OF p] show ?thesis by blast
qed

end
