(* ===== verification/Tokens.thy ===== *)
theory Tokens
  imports Receipt "HOL-Library.Char_ord" "HOL-Library.List_Lexorder"
begin

text \<open>
  What the access token signer (\<open>internal/session/access.go\<close>) and the offline entitlement
  service (\<open>internal/entitlement/service.go\<close>) share: a token is header, payload and Ed25519
  signature, each in unpadded base64url, joined by dots. \<open>seal_token\<close> is the tail of both
  \<open>Issue\<close> operations and \<open>open_token\<close> the head of both \<open>Verify\<close> operations. The locale
  \<open>timed_token\<close> is the contract of a verifier whose answer depends on the clock only through a
  validity window; the receipt codec and both token services interpret it.
\<close>

section \<open>Three-part tokens\<close>

text \<open>Header and payload codecs: \<open>json.Marshal\<close> and the strict decoder, as parameters.\<close>

record ('h, 'p) token_json =
  marshal_header :: "'h \<Rightarrow> bytes option"
  marshal_payload :: "'p \<Rightarrow> bytes option"
  decode_header :: "bytes \<Rightarrow> 'h option"
  decode_payload :: "bytes \<Rightarrow> 'p option"

record token_header =
  th_Algorithm :: bytes
  th_KeyID :: bytes
  th_Type :: bytes

definition seal_token :: "crypto \<Rightarrow> bytes \<Rightarrow> bytes \<Rightarrow> bytes \<Rightarrow> bytes" where
  "seal_token cr key header payload =
     (let signingInput = encode_url header @ ''.'' @ encode_url payload
      in signingInput @ ''.'' @ encode_url (ed25519_sign cr key signingInput))"

definition open_token ::
  "crypto \<Rightarrow> (token_header, 'p) token_json \<Rightarrow> key_ring \<Rightarrow> bytes \<Rightarrow> nat \<Rightarrow> bytes \<Rightarrow> 'p option" where
  "open_token cr js keys typ maximumLength serialized =
     (if length serialized = 0 \<or> length serialized > maximumLength
         \<or> count_byte (CHR ''.'') serialized \<noteq> 2 then None
      else let parts = split_on (CHR ''.'') serialized in
      case DecodeCanonicalBase64URL (parts ! 0) of
        None \<Rightarrow> None
      | Some headerJSON \<Rightarrow>
          (case decode_header js headerJSON of
             None \<Rightarrow> None
           | Some header \<Rightarrow>
               if th_Algorithm header \<noteq> ''EdDSA'' \<or> th_Type header \<noteq> typ then None
               else (case map_of keys (th_KeyID header) of
                   None \<Rightarrow> None
                 | Some publicKey \<Rightarrow>
                     (case DecodeCanonicalBase64URL (parts ! 2) of
                        None \<Rightarrow> None
                      | Some signature \<Rightarrow>
                          if length signature \<noteq> 64
                             \<or> \<not> ed25519_verify cr publicKey (parts ! 0 @ ''.'' @ parts ! 1) signature
                          then None
                          else (case DecodeCanonicalBase64URL (parts ! 1) of
                              None \<Rightarrow> None
                            | Some payloadJSON \<Rightarrow> decode_payload js payloadJSON)))))"

text \<open>What JSON guarantees: a struct whose strings are valid UTF-8 decodes to itself.\<close>

definition token_json_ok ::
  "(token_header, 'p) token_json \<Rightarrow> ('p \<Rightarrow> bool) \<Rightarrow> bool" where
  "token_json_ok js utf8 \<longleftrightarrow>
     (\<forall>h j. ValidString (th_Algorithm h) \<and> ValidString (th_KeyID h) \<and> ValidString (th_Type h)
        \<and> marshal_header js h = Some j \<longrightarrow> decode_header js j = Some h)
     \<and> (\<forall>p j. utf8 p \<and> marshal_payload js p = Some j \<longrightarrow> decode_payload js j = Some p)"

lemma split_token:
  "split_on (CHR ''.'') (encode_url a @ ''.'' @ encode_url b @ ''.'' @ encode_url c)
     = [encode_url a, encode_url b, encode_url c]"
  by (simp add: split_on_append)

lemma count_token:
  "count_byte (CHR ''.'') (encode_url a @ ''.'' @ encode_url b @ ''.'' @ encode_url c) = 2"
  by simp

lemma open_seal_token:
  assumes "signature_correct cr" "length key = 64"
    "decode_header js h = Some \<lparr>th_Algorithm = ''EdDSA'', th_KeyID = kid, th_Type = typ\<rparr>"
    "decode_payload js p = Some payload"
    "map_of keys kid = Some (ed25519_public cr key)"
    "length (seal_token cr key h p) \<le> maximumLength"
  shows "open_token cr js keys typ maximumLength (seal_token cr key h p) = Some payload"
proof -
  let ?input = "encode_url h @ ''.'' @ encode_url p"
  let ?sig = "ed25519_sign cr key ?input"
  have tok: "seal_token cr key h p = encode_url h @ ''.'' @ encode_url p @ ''.'' @ encode_url ?sig"
    by (simp add: seal_token_def Let_def)
  have sig: "length ?sig = 64" "ed25519_verify cr (ed25519_public cr key) ?input ?sig"
    using assms(1,2) by (simp_all add: signature_correctD)
  show ?thesis
    using assms(3-6) sig
    unfolding open_token_def tok split_token count_token Let_def
    by (simp add: b64url.dec_enc)
qed

lemma split_on_concat: "hd (split_on c s) @ concat (map (\<lambda>p. c # p) (tl (split_on c s))) = s"
  by (induction s) (auto split: list.splits)

lemma length_split_on: "length (split_on c s) = Suc (count_byte c s)"
  by (induction s) (auto split: list.splits)

lemma split_three:
  assumes "count_byte c s = 2"
  shows "s = split_on c s ! 0 @ c # split_on c s ! 1 @ c # split_on c s ! 2"
proof -
  have "length xs = 3 \<Longrightarrow> \<exists>a b d. xs = [a, b, d]" for xs :: "bytes list"
    by (auto simp: numeral_3_eq_3 length_Suc_conv)
  moreover have "length (split_on c s) = 3" using length_split_on [of c s] assms by simp
  ultimately obtain a b d where "split_on c s = [a, b, d]" by metis
  with split_on_concat [of c s] show ?thesis by simp
qed

lemma open_token_Some:
  assumes "open_token cr js keys typ maximumLength serialized = Some payload"
  obtains h p signature header publicKey where
    "serialized = encode_url h @ ''.'' @ encode_url p @ ''.'' @ encode_url signature"
    "decode_header js h = Some header" "th_Algorithm header = ''EdDSA''" "th_Type header = typ"
    "map_of keys (th_KeyID header) = Some publicKey" "length signature = 64"
    "ed25519_verify cr publicKey (encode_url h @ ''.'' @ encode_url p) signature"
    "decode_payload js p = Some payload" "length serialized \<le> maximumLength"
proof -
  let ?parts = "split_on (CHR ''.'') serialized"
  have two: "count_byte (CHR ''.'') serialized = 2" "length serialized \<le> maximumLength"
    using assms by (auto simp: open_token_def split: if_splits)
  obtain h header publicKey signature p where x:
    "DecodeCanonicalBase64URL (?parts ! 0) = Some h" "decode_header js h = Some header"
    "th_Algorithm header = ''EdDSA''" "th_Type header = typ"
    "map_of keys (th_KeyID header) = Some publicKey"
    "DecodeCanonicalBase64URL (?parts ! 2) = Some signature" "length signature = 64"
    "ed25519_verify cr publicKey (?parts ! 0 @ ''.'' @ ?parts ! 1) signature"
    "DecodeCanonicalBase64URL (?parts ! 1) = Some p" "decode_payload js p = Some payload"
    using assms by (auto simp: open_token_def Let_def split: if_splits option.splits)
  have "?parts ! 0 = encode_url h" "?parts ! 1 = encode_url p" "?parts ! 2 = encode_url signature"
    using x(1,6,9) by (simp_all add: b64url.dec_iff)
  with split_three [OF two(1)] x two(2) show thesis
    by (intro that [of h p signature header publicKey]) simp_all
qed

section \<open>Validity windows\<close>

locale timed_token =
  fixes verify :: "instant \<Rightarrow> bytes \<Rightarrow> 'c option"
    and issued_at :: "'c \<Rightarrow> instant"
    and expires_at :: "'c \<Rightarrow> instant"
    and lifetime :: duration
  assumes window: "verify now t = Some c \<Longrightarrow> issued_at c - minute \<le> now \<and> now < expires_at c"
    and fixed_lifetime: "verify now t = Some c \<Longrightarrow> expires_at c = issued_at c + lifetime"
    and stable: "verify now t = Some c \<Longrightarrow> issued_at c - minute \<le> now' \<Longrightarrow> now' < expires_at c
      \<Longrightarrow> verify now' t = Some c"
    and same_claims: "verify now t = Some c \<Longrightarrow> verify now' t = Some c' \<Longrightarrow> c' = c"
begin

text \<open>A token that verifies once verifies exactly in its window, and always with the same claims.\<close>

lemma valid_iff:
  assumes "verify now t = Some c"
  shows "verify now' t = Some c \<longleftrightarrow> issued_at c - minute \<le> now' \<and> now' < issued_at c + lifetime"
  using window [of now' t c] stable [OF assms, of now'] fixed_lifetime [OF assms] by auto

lemma expired_for_ever:
  assumes "verify now t = Some c" "expires_at c \<le> now'"
  shows "verify now' t = None"
proof (rule ccontr)
  assume "verify now' t \<noteq> None"
  then obtain c' where c': "verify now' t = Some c'" by blast
  with same_claims [OF assms(1)] window [OF c'] assms(2) show False by auto
qed

end

text \<open>The verification receipt is the first instance.\<close>

lemma Parse_Inr:
  assumes "Parse cr tbl jdec c now token purpose = Inr r"
  obtains body es json payload key sig n where
    "token \<noteq> []" "length token \<le> maximumReceiptTokenLength" "count_byte (CHR ''.'') token = 1"
    "validPurpose purpose" "cut (CHR ''.'') token = (body, es)" "DecodeCanonicalBase64URL body = Some json"
    "json \<noteq> []" "length json \<le> maximumReceiptTokenLength" "jdec json = Some payload"
    "map_of (signingKeys c) (rp_SigningKeyID payload) = Some key" "DecodeCanonicalBase64URL es = Some sig"
    "length sig = 32" "sig = receiptSignature cr key body" "rp_Version payload = 1"
    "rp_ChallengeID payload \<noteq> Nil_uuid" "rp_Purpose payload = purpose"
    "Open_identity cr (identityCodec c) (rp_Kind payload)
       \<lparr>si_EncryptionKeyID = rp_EncryptionKeyID payload, si_Nonce = rp_Nonce payload,
        si_Ciphertext = rp_Ciphertext payload, si_LookupKeyID = [], si_LookupHMAC = []\<rparr> = Inr n"
    "NormalizeIdentity tbl (rp_Kind payload) n = Inr n"
    "r = \<lparr>rc_ChallengeID = rp_ChallengeID payload, rc_Kind = rp_Kind payload, rc_NormalizedIdentity = n,
          rc_Purpose = rp_Purpose payload, rc_IssuedAt = of_unix (rp_IssuedAtUnix payload),
          rc_ExpiresAt = of_unix (rp_ExpiresAtUnix payload)\<rparr>"
    "rc_ExpiresAt r = rc_IssuedAt r + receiptLifetime"
    "rc_IssuedAt r - minute \<le> now" "now < rc_ExpiresAt r"
proof -
  obtain body es where cut: "cut (CHR ''.'') token = (body, es)" by (cases "cut (CHR ''.'') token")
  have head: "token \<noteq> []" "length token \<le> maximumReceiptTokenLength" "count_byte (CHR ''.'') token = 1"
    "validPurpose purpose"
    using assms by (auto simp: Parse_def split: if_splits)
  obtain json payload key where j: "DecodeCanonicalBase64URL body = Some json" "json \<noteq> []"
    "length json \<le> maximumReceiptTokenLength" "jdec json = Some payload"
    "map_of (signingKeys c) (rp_SigningKeyID payload) = Some key"
    using assms head by (auto simp: Parse_def cut split: if_splits option.splits)
  obtain sig where g: "DecodeCanonicalBase64URL es = Some sig" "length sig = 32"
    "sig = receiptSignature cr key body"
    using assms head j by (auto simp: Parse_def cut split: if_splits option.splits)
  note known = head cut j g(1)
  have p: "rp_Version payload = 1" "rp_ChallengeID payload \<noteq> Nil_uuid" "rp_Purpose payload = purpose"
    "of_unix (rp_ExpiresAtUnix payload) = of_unix (rp_IssuedAtUnix payload) + receiptLifetime"
    "of_unix (rp_IssuedAtUnix payload) - minute \<le> now" "now < of_unix (rp_ExpiresAtUnix payload)"
    using assms g(2,3) by (auto simp: Parse_def known Let_def receipt_lifetime_exact split: if_splits)
  obtain n where n: "Open_identity cr (identityCodec c) (rp_Kind payload)
       \<lparr>si_EncryptionKeyID = rp_EncryptionKeyID payload, si_Nonce = rp_Nonce payload,
        si_Ciphertext = rp_Ciphertext payload, si_LookupKeyID = [], si_LookupHMAC = []\<rparr> = Inr n"
    "NormalizeIdentity tbl (rp_Kind payload) n = Inr n"
    "r = \<lparr>rc_ChallengeID = rp_ChallengeID payload, rc_Kind = rp_Kind payload, rc_NormalizedIdentity = n,
          rc_Purpose = rp_Purpose payload, rc_IssuedAt = of_unix (rp_IssuedAtUnix payload),
          rc_ExpiresAt = of_unix (rp_ExpiresAtUnix payload)\<rparr>"
    using assms g(2,3) by (auto simp: Parse_def known Let_def split: if_splits sum.splits)
  show thesis
    by (rule that [OF head cut j(1-5) g p(1-3) n]) (use p n(3) in simp_all)
qed

lemma Parse_other_time:
  assumes "Parse cr tbl jdec c now token purpose = Inr r"
    "rc_IssuedAt r - minute \<le> now'" "now' < rc_ExpiresAt r"
  shows "Parse cr tbl jdec c now' token purpose = Inr r"
  by (rule Parse_Inr [OF assms(1)])
    (use assms(2,3) in \<open>simp add: Parse_def Let_def receipt_lifetime_exact\<close>)

text \<open>The claims as a function of the token alone.\<close>

definition receipt_reading :: "crypto \<Rightarrow> (bytes \<Rightarrow> receiptPayload option) \<Rightarrow> ReceiptCodec \<Rightarrow> bytes \<Rightarrow> ReceiptClaims" where
  "receipt_reading cr jdec c token =
     (let payload = the (jdec (the (DecodeCanonicalBase64URL (fst (cut (CHR ''.'') token)))));
          n = projr (Open_identity cr (identityCodec c) (rp_Kind payload)
            \<lparr>si_EncryptionKeyID = rp_EncryptionKeyID payload, si_Nonce = rp_Nonce payload,
             si_Ciphertext = rp_Ciphertext payload, si_LookupKeyID = [], si_LookupHMAC = []\<rparr>)
      in \<lparr>rc_ChallengeID = rp_ChallengeID payload, rc_Kind = rp_Kind payload, rc_NormalizedIdentity = n,
          rc_Purpose = rp_Purpose payload, rc_IssuedAt = of_unix (rp_IssuedAtUnix payload),
          rc_ExpiresAt = of_unix (rp_ExpiresAtUnix payload)\<rparr>)"

lemma Parse_reading: "Parse cr tbl jdec c now token purpose = Inr r \<Longrightarrow> r = receipt_reading cr jdec c token"
  by (erule Parse_Inr) (simp add: receipt_reading_def Let_def)

lemma Parse_same_claims:
  "Parse cr tbl jdec c now token purpose = Inr r \<Longrightarrow> Parse cr tbl jdec c now' token purpose = Inr r' \<Longrightarrow> r' = r"
  by (drule Parse_reading)+ simp

lemma Parse_window:
  assumes "Parse cr tbl jdec c now token purpose = Inr r"
  shows "rc_IssuedAt r - minute \<le> now \<and> now < rc_ExpiresAt r \<and> rc_ExpiresAt r = rc_IssuedAt r + receiptLifetime"
  by (rule Parse_Inr [OF assms]) blast

abbreviation receipt_claims ::
  "crypto \<Rightarrow> (nat \<Rightarrow> nat) \<Rightarrow> (bytes \<Rightarrow> receiptPayload option) \<Rightarrow> ReceiptCodec \<Rightarrow> Purpose
     \<Rightarrow> instant \<Rightarrow> bytes \<Rightarrow> ReceiptClaims option" where
  "receipt_claims cr tbl jdec c purpose now t \<equiv>
     (case Parse cr tbl jdec c now t purpose of Inr r \<Rightarrow> Some r | Inl _ \<Rightarrow> None)"

lemma receipt_claims_Some:
  "receipt_claims cr tbl jdec c purpose now t = Some r \<longleftrightarrow> Parse cr tbl jdec c now t purpose = Inr r"
  by (auto split: sum.splits)

interpretation receipt: timed_token "receipt_claims cr tbl jdec c purpose"
  rc_IssuedAt rc_ExpiresAt receiptLifetime
  for cr tbl jdec c purpose
  by unfold_locales
    (unfold receipt_claims_Some, auto intro: Parse_other_time dest: Parse_window Parse_same_claims)

text \<open>
  A receipt that parses once parses exactly within its window, from one minute before its issue
  to its expiry ten minutes after it, always with the same claims.
\<close>

theorem receipt_window:
  assumes "Parse cr tbl jdec c now token purpose = Inr claims"
  shows "Parse cr tbl jdec c now' token purpose = Inr claims
    \<longleftrightarrow> rc_IssuedAt claims - minute \<le> now' \<and> now' < rc_IssuedAt claims + receiptLifetime"
proof -
  have "receipt_claims cr tbl jdec c purpose now token = Some claims"
    unfolding receipt_claims_Some by (rule assms)
  from receipt.valid_iff [OF this, of now'] show ?thesis unfolding receipt_claims_Some .
qed

theorem receipt_window_witness:
  "\<exists>token claims. Parse sample_crypto sample_tbl sample_jdec sample_receipt_codec 0 token PurposeLogin = Inr claims
     \<and> Parse sample_crypto sample_tbl sample_jdec sample_receipt_codec (hour) token PurposeLogin \<noteq> Inr claims"
proof -
  obtain token claims where t: "Parse sample_crypto sample_tbl sample_jdec sample_receipt_codec 0 token
      PurposeLogin = Inr claims" using sample_parse by blast
  then have "rc_IssuedAt claims \<le> minute"
    by (rule Parse_Inr) simp
  with receipt_window [OF t, of hour] t show ?thesis
    by (auto simp: receiptLifetime_def)
qed

end
