(* ===== verification/Access.thy ===== *)
theory Access
  imports Tokens
begin

text \<open>
  \<open>internal/session/access.go\<close>: the signer of access tokens. Lemmas: what the signer issues it
  verifies with the same claims for fifteen minutes, also after key rotation while the old public
  key is kept; what verifies carries a signature by a known key over exactly the text received.
\<close>

section \<open>Data\<close>

definition accessTokenLifetime :: duration where "accessTokenLifetime = 15 * minute"
definition maximumAccessTokenLength :: nat where "maximumAccessTokenLength = 8192"

record AccessBinding =
  ab_UserID :: uuid
  ab_SessionID :: uuid
  ab_DeviceID :: uuid
  ab_PersonalSpaceID :: uuid

record AccessClaims =
  acl_Binding :: AccessBinding
  acl_IssuedAt :: instant
  acl_ExpiresAt :: instant

record IssuedAccessToken =
  iat_Serialized :: bytes
  iat_ExpiresAt :: instant

record AccessSignerConfig =
  asc_Issuer :: bytes
  asc_Audience :: bytes
  asc_ActiveKeyID :: bytes
  asc_SigningKeys :: key_ring
  asc_VerificationKeys :: key_ring

record AccessSigner =
  as_issuer :: bytes
  as_audience :: bytes
  as_activeKeyID :: bytes
  as_signingKey :: bytes
  as_verification :: key_ring

record accessPayload =
  ap_Issuer :: bytes
  ap_Audience :: bytes
  ap_UserID :: uuid
  ap_SessionID :: uuid
  ap_DeviceID :: uuid
  ap_PersonalSpaceID :: uuid
  ap_IssuedAtUnix :: int
  ap_ExpiresAtUnix :: int

datatype access_error =
    ErrInvalidAccessToken | AccessTokenNotEncoded
  | AccessConfigInvalid | AccessSigningKeyInvalid | AccessVerificationKeyInvalid | AccessActiveKeyUnavailable

type_synonym access_json = "(token_header, accessPayload) token_json"

section \<open>Operations\<close>

text \<open>
  \<open>NewAccessSigner\<close>. \<open>parse_url\<close> stands for \<open>url.Parse\<close>: scheme and host, or \<open>None\<close> on error.
  The Go map \<open>verification\<close> is filled from the signing keys and then from the verification keys,
  so an identifier in both is read from the latter.
\<close>

definition NewAccessSigner ::
  "crypto \<Rightarrow> (bytes \<Rightarrow> (bytes \<times> bytes) option) \<Rightarrow> AccessSignerConfig \<Rightarrow> access_error + AccessSigner" where
  "NewAccessSigner cr parse_url config =
     (let url_ok = (case parse_url (asc_Issuer config) of
            None \<Rightarrow> False
          | Some (scheme, host) \<Rightarrow> host \<noteq> [] \<and> (scheme = ''https'' \<or> scheme = ''http'')) in
      if \<not> url_ok \<or> TrimSpace (asc_Audience config) = [] \<or> TrimSpace (asc_ActiveKeyID config) = []
      then Inl AccessConfigInvalid
      else if list_ex (\<lambda>(keyID, key). TrimSpace keyID = [] \<or> length key \<noteq> 64) (asc_SigningKeys config)
      then Inl AccessSigningKeyInvalid
      else if list_ex (\<lambda>(keyID, key). TrimSpace keyID = [] \<or> length key \<noteq> 32) (asc_VerificationKeys config)
      then Inl AccessVerificationKeyInvalid
      else let active = ring_get (asc_SigningKeys config) (asc_ActiveKeyID config);
               verification = asc_VerificationKeys config
                 @ map (\<lambda>(keyID, key). (keyID, ed25519_public cr key)) (asc_SigningKeys config)
           in if length active \<noteq> 64 \<or> verification = [] then Inl AccessActiveKeyUnavailable
              else Inr \<lparr>as_issuer = asc_Issuer config, as_audience = asc_Audience config,
                        as_activeKeyID = asc_ActiveKeyID config, as_signingKey = active,
                        as_verification = verification\<rparr>)"

definition validAccessBinding :: "AccessBinding \<Rightarrow> bool" where
  "validAccessBinding b \<longleftrightarrow> ab_UserID b \<noteq> Nil_uuid \<and> ab_SessionID b \<noteq> Nil_uuid
     \<and> ab_DeviceID b \<noteq> Nil_uuid \<and> ab_PersonalSpaceID b \<noteq> Nil_uuid"

definition access_header :: "AccessSigner \<Rightarrow> token_header" where
  "access_header s = \<lparr>th_Algorithm = ''EdDSA'', th_KeyID = as_activeKeyID s, th_Type = ''at+jwt''\<rparr>"

definition access_payload :: "AccessSigner \<Rightarrow> instant \<Rightarrow> AccessBinding \<Rightarrow> accessPayload" where
  "access_payload s now b =
     (let issuedAt = truncate_second now; expiresAt = issuedAt + accessTokenLifetime
      in \<lparr>ap_Issuer = as_issuer s, ap_Audience = as_audience s, ap_UserID = ab_UserID b,
          ap_SessionID = ab_SessionID b, ap_DeviceID = ab_DeviceID b,
          ap_PersonalSpaceID = ab_PersonalSpaceID b,
          ap_IssuedAtUnix = unix_of issuedAt, ap_ExpiresAtUnix = unix_of expiresAt\<rparr>)"

definition access_Issue ::
  "crypto \<Rightarrow> access_json \<Rightarrow> AccessSigner \<Rightarrow> instant \<Rightarrow> AccessBinding \<Rightarrow> access_error + IssuedAccessToken" where
  "access_Issue cr js s now b =
     (if \<not> validAccessBinding b then Inl ErrInvalidAccessToken
      else case marshal_header js (access_header s) of
          None \<Rightarrow> Inl AccessTokenNotEncoded
        | Some header \<Rightarrow>
            (case marshal_payload js (access_payload s now b) of
               None \<Rightarrow> Inl AccessTokenNotEncoded
             | Some payload \<Rightarrow>
                 Inr \<lparr>iat_Serialized = seal_token cr (as_signingKey s) header payload,
                      iat_ExpiresAt = truncate_second now + accessTokenLifetime\<rparr>))"

definition access_Verify ::
  "crypto \<Rightarrow> access_json \<Rightarrow> AccessSigner \<Rightarrow> instant \<Rightarrow> bytes \<Rightarrow> access_error + AccessClaims" where
  "access_Verify cr js s now serialized =
     (case open_token cr js (as_verification s) ''at+jwt'' maximumAccessTokenLength serialized of
        None \<Rightarrow> Inl ErrInvalidAccessToken
      | Some payload \<Rightarrow>
          let binding = \<lparr>ab_UserID = ap_UserID payload, ab_SessionID = ap_SessionID payload,
                         ab_DeviceID = ap_DeviceID payload, ab_PersonalSpaceID = ap_PersonalSpaceID payload\<rparr>;
              issuedAt = of_unix (ap_IssuedAtUnix payload);
              expiresAt = of_unix (ap_ExpiresAtUnix payload)
          in if ap_Issuer payload \<noteq> as_issuer s \<or> ap_Audience payload \<noteq> as_audience s
                \<or> \<not> validAccessBinding binding
                \<or> time_sub expiresAt issuedAt \<noteq> accessTokenLifetime
                \<or> now < issuedAt - minute \<or> \<not> now < expiresAt
             then Inl ErrInvalidAccessToken
             else Inr \<lparr>acl_Binding = binding, acl_IssuedAt = issuedAt, acl_ExpiresAt = expiresAt\<rparr>)"

record PublicSigningKey =
  pk_KeyID :: bytes
  pk_KeyType :: bytes
  pk_Curve :: bytes
  pk_Algorithm :: bytes
  pk_Use :: bytes
  pk_X :: bytes

text \<open>The published key set: the identifiers of the Go map once each, in byte order.\<close>

definition public_keys :: "key_ring \<Rightarrow> PublicSigningKey list" where
  "public_keys verification =
     map (\<lambda>keyID. \<lparr>pk_KeyID = keyID, pk_KeyType = ''OKP'', pk_Curve = ''Ed25519'',
            pk_Algorithm = ''EdDSA'', pk_Use = ''sig'', pk_X = encode_url (ring_get verification keyID)\<rparr>)
       (sort (remdups (map fst verification)))"

definition access_PublicKeys :: "AccessSigner \<Rightarrow> PublicSigningKey list" where
  "access_PublicKeys s = public_keys (as_verification s)"

section \<open>Lemmas\<close>

abbreviation access_claims :: "crypto \<Rightarrow> access_json \<Rightarrow> AccessSigner \<Rightarrow> instant \<Rightarrow> bytes \<Rightarrow> AccessClaims option" where
  "access_claims cr js s now t \<equiv> (case access_Verify cr js s now t of Inr c \<Rightarrow> Some c | Inl _ \<Rightarrow> None)"

lemma access_lifetime_exact: "time_sub a b = accessTokenLifetime \<longleftrightarrow> a = b + accessTokenLifetime"
  by (simp add: accessTokenLifetime_def time_sub_exact max_duration_def) linarith

lemma access_claims_iff:
  "access_claims cr js s now t = Some c \<longleftrightarrow>
     (\<exists>p. open_token cr js (as_verification s) ''at+jwt'' maximumAccessTokenLength t = Some p
       \<and> ap_Issuer p = as_issuer s \<and> ap_Audience p = as_audience s
       \<and> c = \<lparr>acl_Binding = \<lparr>ab_UserID = ap_UserID p, ab_SessionID = ap_SessionID p,
                ab_DeviceID = ap_DeviceID p, ab_PersonalSpaceID = ap_PersonalSpaceID p\<rparr>,
              acl_IssuedAt = of_unix (ap_IssuedAtUnix p), acl_ExpiresAt = of_unix (ap_ExpiresAtUnix p)\<rparr>
       \<and> validAccessBinding (acl_Binding c)
       \<and> acl_ExpiresAt c = acl_IssuedAt c + accessTokenLifetime
       \<and> acl_IssuedAt c - minute \<le> now \<and> now < acl_ExpiresAt c)"
  by (auto simp: access_Verify_def access_lifetime_exact Let_def split: option.splits if_splits)

lemma access_Verify_None:
  "access_claims cr js s now t = None \<Longrightarrow> access_Verify cr js s now t = Inl ErrInvalidAccessToken"
  by (auto simp: access_Verify_def Let_def split: option.splits if_splits)

interpretation access: timed_token "access_claims cr js s" acl_IssuedAt acl_ExpiresAt accessTokenLifetime
  for cr js s
  by unfold_locales (unfold access_claims_iff, auto)

lemma NewAccessSigner_Inr:
  assumes "NewAccessSigner cr parse_url config = Inr s"
  shows "length (as_signingKey s) = 64" "as_activeKeyID s = asc_ActiveKeyID config"
    "map_of (asc_SigningKeys config) (as_activeKeyID s) = Some (as_signingKey s)"
    "as_issuer s = asc_Issuer config" "as_audience s = asc_Audience config"
    "as_verification s = asc_VerificationKeys config
       @ map (\<lambda>(keyID, key). (keyID, ed25519_public cr key)) (asc_SigningKeys config)"
  using assms
  by (auto simp: NewAccessSigner_def Let_def ring_get_def split: if_splits option.splits)

lemma map_of_public:
  "map_of (map (\<lambda>(keyID, key). (keyID, f key)) ring) k = map_option f (map_of ring k)"
  by (induction ring) auto

definition access_utf8 :: "accessPayload \<Rightarrow> bool" where
  "access_utf8 p \<longleftrightarrow> ValidString (ap_Issuer p) \<and> ValidString (ap_Audience p)"

lemma access_Issue_Inr:
  assumes "access_Issue cr js s now b = Inr tok"
  obtains h p where "validAccessBinding b" "marshal_header js (access_header s) = Some h"
    "marshal_payload js (access_payload s now b) = Some p"
    "iat_Serialized tok = seal_token cr (as_signingKey s) h p"
    "iat_ExpiresAt tok = truncate_second now + accessTokenLifetime"
  using assms that by (auto simp: access_Issue_def split: if_splits option.splits)

lemma ValidString_literals: "ValidString ''EdDSA''" "ValidString ''at+jwt''"
  "ValidString ''agentera-offline-entitlement+jwt''"
  by (rule ValidString_visible; simp add: visible_def)+

lemma access_unix:
  "of_unix (unix_of (truncate_second now + accessTokenLifetime)) = truncate_second now + accessTokenLifetime"
proof -
  have "unix_of (truncate_second now + 900 * second) = unix_of (truncate_second now) + 900"
    by (rule unix_of_add)
  then show ?thesis using of_unix_truncate [of now]
    by (simp add: accessTokenLifetime_def of_unix_def algebra_simps)
qed

lemma access_verifies:
  assumes "signature_correct cr" "token_json_ok js access_utf8"
    "length (as_signingKey s) = 64"
    "map_of (as_verification s') (as_activeKeyID s) = Some (ed25519_public cr (as_signingKey s))"
    "as_issuer s' = as_issuer s" "as_audience s' = as_audience s"
    "ValidString (as_activeKeyID s)" "ValidString (as_issuer s)" "ValidString (as_audience s)"
    "access_Issue cr js s now b = Inr tok" "length (iat_Serialized tok) \<le> maximumAccessTokenLength"
    "truncate_second now - minute \<le> now'" "now' < truncate_second now + accessTokenLifetime"
  shows "access_Verify cr js s' now' (iat_Serialized tok) = Inr \<lparr>acl_Binding = b,
    acl_IssuedAt = truncate_second now, acl_ExpiresAt = iat_ExpiresAt tok\<rparr>"
proof -
  obtain h p where hp: "validAccessBinding b" "marshal_header js (access_header s) = Some h"
    "marshal_payload js (access_payload s now b) = Some p"
    "iat_Serialized tok = seal_token cr (as_signingKey s) h p"
    "iat_ExpiresAt tok = truncate_second now + accessTokenLifetime"
    by (rule access_Issue_Inr [OF assms(10)])
  have h: "decode_header js h = Some (access_header s)"
    using assms(2,7) hp(2) ValidString_literals by (simp add: token_json_ok_def access_header_def)
  have p: "decode_payload js p = Some (access_payload s now b)"
    using assms(2,8,9) hp(3)
    by (simp add: token_json_ok_def access_utf8_def access_payload_def Let_def)
  have "open_token cr js (as_verification s') ''at+jwt'' maximumAccessTokenLength (iat_Serialized tok)
      = Some (access_payload s now b)"
    unfolding hp(4)
    using h p assms(1,3,4,11) hp(4)
    by (intro open_seal_token [where kid = "as_activeKeyID s"]) (simp_all add: access_header_def)
  then show ?thesis
    using assms(5,6,12,13) hp(1,5)
    by (simp add: access_Verify_def access_payload_def access_unix of_unix_truncate
        access_lifetime_exact validAccessBinding_def Let_def)
qed

text \<open>
  Access token round trip across key rotation: what a signer issues verifies, at any signer
  with the same issuer and audience that still knows the signing key's public key, from one minute
  before to fifteen minutes after the (whole-second) issue time, and yields exactly the binding it
  was issued for; outside that window it is rejected.
\<close>

theorem access_Verify_after_Issue:
  assumes "signature_correct cr" "token_json_ok js access_utf8"
    "NewAccessSigner cr parse_url config = Inr s" "NewAccessSigner cr parse_url config' = Inr s'"
    "map_of (as_verification s') (asc_ActiveKeyID config) = Some (ed25519_public cr (as_signingKey s))"
    "asc_Issuer config' = asc_Issuer config" "asc_Audience config' = asc_Audience config"
    "ValidString (asc_ActiveKeyID config)" "ValidString (asc_Issuer config)" "ValidString (asc_Audience config)"
    "access_Issue cr js s now b = Inr tok" "length (iat_Serialized tok) \<le> maximumAccessTokenLength"
  shows "access_Verify cr js s' now' (iat_Serialized tok) =
    (if truncate_second now - minute \<le> now' \<and> now' < truncate_second now + accessTokenLifetime
     then Inr \<lparr>acl_Binding = b, acl_IssuedAt = truncate_second now, acl_ExpiresAt = iat_ExpiresAt tok\<rparr>
     else Inl ErrInvalidAccessToken)"
proof -
  note s = NewAccessSigner_Inr [OF assms(3)] and s' = NewAccessSigner_Inr [OF assms(4)]
  let ?c = "\<lparr>acl_Binding = b, acl_IssuedAt = truncate_second now, acl_ExpiresAt = iat_ExpiresAt tok\<rparr>"
  have good: "access_Verify cr js s' t (iat_Serialized tok) = Inr ?c"
    if "truncate_second now - minute \<le> t" "t < truncate_second now + accessTokenLifetime" for t
    using assms s s' that by (intro access_verifies [OF assms(1,2) s(1)]) simp_all
  have first: "access_claims cr js s' (truncate_second now) (iat_Serialized tok) = Some ?c"
    using good [of "truncate_second now"] by (simp add: accessTokenLifetime_def)
  have "access_claims cr js s' now' (iat_Serialized tok) = None"
    if "\<not> (truncate_second now - minute \<le> now' \<and> now' < truncate_second now + accessTokenLifetime)"
    using access.valid_iff [OF first, of now'] access.same_claims [OF first, of now'] that
    by (cases "access_claims cr js s' now' (iat_Serialized tok)") auto
  then show ?thesis using good [of now'] access_Verify_None [of cr js s' now' "iat_Serialized tok"] by auto
qed

text \<open>
  Whatever the verifier accepts is three canonical base64url parts whose header names EdDSA,
  the access token type and a known key, whose signature by that key covers exactly the first two
  parts as received, and whose claims are for this issuer and audience, bind four non-nil
  identifiers, live fifteen minutes and are not expired.
\<close>

theorem access_Verify_sound:
  assumes "access_Verify cr js s now t = Inr c"
  shows "\<exists>h p signature header key payload.
    t = encode_url h @ ''.'' @ encode_url p @ ''.'' @ encode_url signature
    \<and> decode_header js h = Some header \<and> th_Algorithm header = ''EdDSA'' \<and> th_Type header = ''at+jwt''
    \<and> map_of (as_verification s) (th_KeyID header) = Some key
    \<and> ed25519_verify cr key (encode_url h @ ''.'' @ encode_url p) signature
    \<and> decode_payload js p = Some payload
    \<and> ap_Issuer payload = as_issuer s \<and> ap_Audience payload = as_audience s
    \<and> acl_Binding c = \<lparr>ab_UserID = ap_UserID payload, ab_SessionID = ap_SessionID payload,
        ab_DeviceID = ap_DeviceID payload, ab_PersonalSpaceID = ap_PersonalSpaceID payload\<rparr>
    \<and> validAccessBinding (acl_Binding c)
    \<and> acl_ExpiresAt c = acl_IssuedAt c + accessTokenLifetime
    \<and> acl_IssuedAt c - minute \<le> now \<and> now < acl_ExpiresAt c"
proof -
  have "access_claims cr js s now t = Some c" using assms by simp
  then obtain payload where
    "open_token cr js (as_verification s) ''at+jwt'' maximumAccessTokenLength t = Some payload"
    and rest: "ap_Issuer payload = as_issuer s" "ap_Audience payload = as_audience s"
    "acl_Binding c = \<lparr>ab_UserID = ap_UserID payload, ab_SessionID = ap_SessionID payload,
        ab_DeviceID = ap_DeviceID payload, ab_PersonalSpaceID = ap_PersonalSpaceID payload\<rparr>"
    "validAccessBinding (acl_Binding c)" "acl_ExpiresAt c = acl_IssuedAt c + accessTokenLifetime"
    "acl_IssuedAt c - minute \<le> now" "now < acl_ExpiresAt c"
    unfolding access_claims_iff by auto
  then show ?thesis by (elim open_token_Some) (use rest in blast)
qed

section \<open>Examples\<close>

definition sample_signing_key :: bytes where
  "sample_signing_key = replicate 32 (CHR ''s'') @ replicate 32 (CHR ''p'')"

definition sample_access_config :: AccessSignerConfig where
  "sample_access_config = \<lparr>asc_Issuer = ''https://id'', asc_Audience = ''api'', asc_ActiveKeyID = ''a1'',
     asc_SigningKeys = [(''a1'', sample_signing_key)], asc_VerificationKeys = []\<rparr>"

definition sample_parse_url :: "bytes \<Rightarrow> (bytes \<times> bytes) option" where
  "sample_parse_url u = Some (''https'', ''id'')"

definition sample_signer :: AccessSigner where
  "sample_signer = (case NewAccessSigner sample_crypto sample_parse_url sample_access_config of Inr s \<Rightarrow> s)"

definition sample_binding :: AccessBinding where
  "sample_binding = \<lparr>ab_UserID = 1, ab_SessionID = 2, ab_DeviceID = 3, ab_PersonalSpaceID = 4\<rparr>"

definition one_payload :: "'p \<Rightarrow> token_header \<Rightarrow> (token_header, 'p) token_json" where
  "one_payload p h = \<lparr>marshal_header = (\<lambda>x. if x = h then Some ''h'' else None),
     marshal_payload = (\<lambda>x. if x = p then Some ''p'' else None),
     decode_header = (\<lambda>x. if x = ''h'' then Some h else None),
     decode_payload = (\<lambda>x. if x = ''p'' then Some p else None)\<rparr>"

lemma one_payload_ok: "token_json_ok (one_payload p h) utf8"
  by (simp add: one_payload_def token_json_ok_def)

definition sample_access_json :: access_json where
  "sample_access_json = one_payload (access_payload sample_signer 0 sample_binding) (access_header sample_signer)"

lemma visible_access: "visible ''a1''" "visible ''api''" "visible ''https://id''"
  by (simp_all add: visible_def)

lemma sample_signer_ok:
  "NewAccessSigner sample_crypto sample_parse_url sample_access_config = Inr sample_signer"
  by (simp add: sample_signer_def NewAccessSigner_def sample_access_config_def sample_parse_url_def
      visible_access [THEN TrimSpace_visible] sample_signing_key_def ring_get_def Let_def)

lemma sample_access_issue:
  "\<exists>tok. access_Issue sample_crypto sample_access_json sample_signer 0 sample_binding = Inr tok
     \<and> length (iat_Serialized tok) = 92 \<and> iat_ExpiresAt tok = 900 * second"
  using NewAccessSigner_Inr(1) [OF sample_signer_ok]
  by (simp add: access_Issue_def sample_access_json_def one_payload_def seal_token_def Let_def
      length_EncodeToString signature_correctD sample_crypto_correct truncate_second_def
      accessTokenLifetime_def validAccessBinding_def sample_binding_def)

lemma sample_signer_keys:
  "map_of (as_verification sample_signer) (asc_ActiveKeyID sample_access_config)
     = Some (ed25519_public sample_crypto (as_signingKey sample_signer))"
  "ValidString (asc_ActiveKeyID sample_access_config)" "ValidString (asc_Issuer sample_access_config)"
  "ValidString (asc_Audience sample_access_config)"
  using NewAccessSigner_Inr(3,6) [OF sample_signer_ok] NewAccessSigner_Inr(2) [OF sample_signer_ok]
    visible_access [THEN ValidString_visible]
  by (auto simp: sample_access_config_def)

lemma sample_json_ok: "token_json_ok sample_access_json access_utf8"
  by (simp add: sample_access_json_def one_payload_ok)

theorem access_Verify_after_Issue_witness:
  "\<exists>tok. access_Issue sample_crypto sample_access_json sample_signer 0 sample_binding = Inr tok
     \<and> access_Verify sample_crypto sample_access_json sample_signer (899 * second) (iat_Serialized tok)
         = Inr \<lparr>acl_Binding = sample_binding, acl_IssuedAt = 0, acl_ExpiresAt = 900 * second\<rparr>
     \<and> access_Verify sample_crypto sample_access_json sample_signer (900 * second) (iat_Serialized tok)
         = Inl ErrInvalidAccessToken"
proof -
  obtain tok where t: "access_Issue sample_crypto sample_access_json sample_signer 0 sample_binding = Inr tok"
    "length (iat_Serialized tok) = 92" "iat_ExpiresAt tok = 900 * second"
    using sample_access_issue by blast
  have "length (iat_Serialized tok) \<le> maximumAccessTokenLength"
    using t(2) by (simp add: maximumAccessTokenLength_def)
  note v = access_Verify_after_Issue [OF sample_crypto_correct(3) sample_json_ok sample_signer_ok
      sample_signer_ok sample_signer_keys(1) refl refl sample_signer_keys(2-4) t(1) this]
  from v [of "899 * second"] v [of "900 * second"] t(1,3) show ?thesis
    by (auto simp: truncate_second_def accessTokenLifetime_def)
qed

theorem access_Verify_sound_witness:
  "\<exists>t c. access_Verify sample_crypto sample_access_json sample_signer 0 t = Inr c
     \<and> validAccessBinding (acl_Binding c) \<and> 0 < acl_ExpiresAt c"
proof -
  obtain tok where t: "access_Issue sample_crypto sample_access_json sample_signer 0 sample_binding = Inr tok"
    "length (iat_Serialized tok) = 92" "iat_ExpiresAt tok = 900 * second"
    using sample_access_issue by blast
  note s = NewAccessSigner_Inr [OF sample_signer_ok]
  have "access_Verify sample_crypto sample_access_json sample_signer 0 (iat_Serialized tok)
      = Inr \<lparr>acl_Binding = sample_binding, acl_IssuedAt = truncate_second 0, acl_ExpiresAt = iat_ExpiresAt tok\<rparr>"
    by (rule access_verifies [OF sample_crypto_correct(3) sample_json_ok s(1) _ refl refl _ _ _ t(1)])
      (use t(2) s sample_signer_keys in \<open>simp_all add: maximumAccessTokenLength_def
        truncate_second_def accessTokenLifetime_def\<close>)
  from access_Verify_sound [OF this] this show ?thesis by blast
qed

end
