(* ===== verification/Entitlement.thy ===== *)
theory Entitlement
  imports Access Store
begin

text \<open>
  \<open>internal/entitlement/service.go\<close> and \<open>repository.go\<close>: offline entitlements, seven-day signed
  tokens whose issue is recorded before the token leaves the service. Lemmas: what is issued is
  recorded and verifies for its seven days; nothing is recorded when issuing fails.
\<close>

section \<open>Data\<close>

definition entitlementLifetime :: duration where "entitlementLifetime = 7 * 24 * hour"
definition maximumTokenLength :: nat where "maximumTokenLength = 8192"

datatype entitlement_error =
    ErrInvalidEntitlement | ErrEntitlementUnavailable
  | EntitlementConfigInvalid | EntitlementSigningKeyInvalid | EntitlementVerificationKeyInvalid
  | EntitlementActiveKeyUnavailable

record Binding =
  b_UserID :: uuid
  b_DeviceID :: uuid
  b_InstallationID :: uuid
  b_PersonalSpaceID :: uuid

record Claims =
  ec_JTI :: uuid
  ec_Binding :: Binding
  ec_PolicyVersion :: int
  ec_IssuedAt :: instant
  ec_ExpiresAt :: instant

record Issuance =
  is_JTI :: uuid
  is_Binding :: Binding
  is_SigningKeyID :: bytes
  is_PolicyVersion :: int
  is_IssuedAt :: instant
  is_ExpiresAt :: instant

record Issued =
  id_Serialized :: bytes
  id_ExpiresAt :: instant

record EntitlementConfig =
  ecf_Issuer :: bytes
  ecf_Audience :: bytes
  ecf_ActiveKeyID :: bytes
  ecf_SigningKeys :: key_ring
  ecf_VerificationKeys :: key_ring
  ecf_PolicyVersion :: int

record EntitlementService =
  es_issuer :: bytes
  es_audience :: bytes
  es_activeKeyID :: bytes
  es_signingKey :: bytes
  es_verification :: key_ring
  es_policyVersion :: int

record tokenPayload =
  tp_Issuer :: bytes
  tp_Audience :: bytes
  tp_JTI :: uuid
  tp_UserID :: uuid
  tp_DeviceID :: uuid
  tp_InstallationID :: uuid
  tp_PersonalSpaceID :: uuid
  tp_PolicyVersion :: int
  tp_IssuedAtUnix :: int
  tp_ExpiresAtUnix :: int

type_synonym entitlement_json = "(token_header, tokenPayload) token_json"

section \<open>Operations\<close>

definition validBinding :: "Binding \<Rightarrow> bool" where
  "validBinding b \<longleftrightarrow> b_UserID b \<noteq> Nil_uuid \<and> b_DeviceID b \<noteq> Nil_uuid
     \<and> b_InstallationID b \<noteq> Nil_uuid \<and> b_PersonalSpaceID b \<noteq> Nil_uuid"

definition NewEntitlementService ::
  "crypto \<Rightarrow> (bytes \<Rightarrow> (bytes \<times> bytes) option) \<Rightarrow> EntitlementConfig \<Rightarrow> entitlement_error + EntitlementService" where
  "NewEntitlementService cr parse_url config =
     (let url_ok = (case parse_url (ecf_Issuer config) of
            None \<Rightarrow> False
          | Some (scheme, host) \<Rightarrow> host \<noteq> [] \<and> (scheme = ''https'' \<or> scheme = ''http'')) in
      if \<not> url_ok \<or> TrimSpace (ecf_Audience config) = [] \<or> TrimSpace (ecf_ActiveKeyID config) = []
         \<or> ecf_PolicyVersion config \<le> 0
      then Inl EntitlementConfigInvalid
      else if list_ex (\<lambda>(keyID, key). TrimSpace keyID = [] \<or> length key \<noteq> 64) (ecf_SigningKeys config)
      then Inl EntitlementSigningKeyInvalid
      else if list_ex (\<lambda>(keyID, key). TrimSpace keyID = [] \<or> length key \<noteq> 32) (ecf_VerificationKeys config)
      then Inl EntitlementVerificationKeyInvalid
      else let active = ring_get (ecf_SigningKeys config) (ecf_ActiveKeyID config);
               verification = ecf_VerificationKeys config
                 @ map (\<lambda>(keyID, key). (keyID, ed25519_public cr key)) (ecf_SigningKeys config)
           in if length active \<noteq> 64 \<or> verification = [] then Inl EntitlementActiveKeyUnavailable
              else Inr \<lparr>es_issuer = ecf_Issuer config, es_audience = ecf_Audience config,
                        es_activeKeyID = ecf_ActiveKeyID config, es_signingKey = active,
                        es_verification = verification, es_policyVersion = ecf_PolicyVersion config\<rparr>)"

text \<open>The repository's insert, used by \<open>Record\<close> and \<open>RecordInTx\<close>.\<close>

definition issuance_of :: "Issuance \<Rightarrow> issuance_row" where
  "issuance_of i = \<lparr>i_jti = is_JTI i, i_user_id = b_UserID (is_Binding i), i_device_id = b_DeviceID (is_Binding i),
     i_personal_space_id = b_PersonalSpaceID (is_Binding i), i_installation_id = b_InstallationID (is_Binding i),
     i_signing_key_id = is_SigningKeyID i, i_policy_version = is_PolicyVersion i,
     i_issued_at = is_IssuedAt i, i_expires_at = is_ExpiresAt i, i_revoked_at = None\<rparr>"

definition recordIssuance :: "bool \<Rightarrow> Issuance \<Rightarrow> db \<Rightarrow> entitlement_error + db" where
  "recordIssuance fails i d =
     (if is_JTI i = Nil_uuid \<or> \<not> validBinding (is_Binding i) \<or> is_SigningKeyID i = []
         \<or> is_PolicyVersion i \<le> 0 \<or> \<not> is_IssuedAt i < is_ExpiresAt i
      then Inl ErrEntitlementUnavailable
      else if fails then Inl ErrEntitlementUnavailable
      else case insert_issuance (issuance_of i) d of
          None \<Rightarrow> Inl ErrEntitlementUnavailable
        | Some d' \<Rightarrow> Inr d')"

definition entitlement_header :: "EntitlementService \<Rightarrow> token_header" where
  "entitlement_header s = \<lparr>th_Algorithm = ''EdDSA'', th_KeyID = es_activeKeyID s,
     th_Type = ''agentera-offline-entitlement+jwt''\<rparr>"

definition entitlement_payload :: "EntitlementService \<Rightarrow> instant \<Rightarrow> uuid \<Rightarrow> Binding \<Rightarrow> tokenPayload" where
  "entitlement_payload s now jti b =
     (let issuedAt = truncate_second now; expiresAt = issuedAt + entitlementLifetime
      in \<lparr>tp_Issuer = es_issuer s, tp_Audience = es_audience s, tp_JTI = jti, tp_UserID = b_UserID b,
          tp_DeviceID = b_DeviceID b, tp_InstallationID = b_InstallationID b,
          tp_PersonalSpaceID = b_PersonalSpaceID b, tp_PolicyVersion = es_policyVersion s,
          tp_IssuedAtUnix = unix_of issuedAt, tp_ExpiresAtUnix = unix_of expiresAt\<rparr>)"

text \<open>\<open>issue\<close> with the insert as its only statement; \<open>Issue\<close> and \<open>IssueInTx\<close> differ only in the
  connection the insert runs on.\<close>

definition entitlement_issue ::
  "crypto \<Rightarrow> entitlement_json \<Rightarrow> EntitlementService \<Rightarrow> bool \<Rightarrow> instant \<Rightarrow> uuid option \<Rightarrow> Binding \<Rightarrow> db
     \<Rightarrow> (entitlement_error + Issued) \<times> db" where
  "entitlement_issue cr js s fails now draw b d =
     (if \<not> validBinding b then (Inl ErrInvalidEntitlement, d)
      else case RandomUUID draw of
        Inl _ \<Rightarrow> (Inl ErrEntitlementUnavailable, d)
      | Inr jti \<Rightarrow>
          (case marshal_header js (entitlement_header s) of
             None \<Rightarrow> (Inl ErrEntitlementUnavailable, d)
           | Some header \<Rightarrow>
               (case marshal_payload js (entitlement_payload s now jti b) of
                  None \<Rightarrow> (Inl ErrEntitlementUnavailable, d)
                | Some payload \<Rightarrow>
                    let issuedAt = truncate_second now; expiresAt = issuedAt + entitlementLifetime;
                        serialized = seal_token cr (es_signingKey s) header payload;
                        issuance = \<lparr>is_JTI = jti, is_Binding = b, is_SigningKeyID = es_activeKeyID s,
                          is_PolicyVersion = es_policyVersion s, is_IssuedAt = issuedAt, is_ExpiresAt = expiresAt\<rparr>
                    in (case recordIssuance fails issuance d of
                          Inl _ \<Rightarrow> (Inl ErrEntitlementUnavailable, d)
                        | Inr d' \<Rightarrow> (Inr \<lparr>id_Serialized = serialized, id_ExpiresAt = expiresAt\<rparr>, d')))))"

definition entitlement_Verify ::
  "crypto \<Rightarrow> entitlement_json \<Rightarrow> EntitlementService \<Rightarrow> instant \<Rightarrow> bytes \<Rightarrow> entitlement_error + Claims" where
  "entitlement_Verify cr js s now serialized =
     (case open_token cr js (es_verification s) ''agentera-offline-entitlement+jwt'' maximumTokenLength serialized of
        None \<Rightarrow> Inl ErrInvalidEntitlement
      | Some payload \<Rightarrow>
          let issuedAt = of_unix (tp_IssuedAtUnix payload);
              expiresAt = of_unix (tp_ExpiresAtUnix payload);
              binding = \<lparr>b_UserID = tp_UserID payload, b_DeviceID = tp_DeviceID payload,
                         b_InstallationID = tp_InstallationID payload, b_PersonalSpaceID = tp_PersonalSpaceID payload\<rparr>
          in if tp_Issuer payload \<noteq> es_issuer s \<or> tp_Audience payload \<noteq> es_audience s
                \<or> tp_JTI payload = Nil_uuid \<or> \<not> validBinding binding \<or> tp_PolicyVersion payload \<le> 0
                \<or> time_sub expiresAt issuedAt \<noteq> entitlementLifetime
                \<or> now < issuedAt - minute \<or> \<not> now < expiresAt
             then Inl ErrInvalidEntitlement
             else Inr \<lparr>ec_JTI = tp_JTI payload, ec_Binding = binding, ec_PolicyVersion = tp_PolicyVersion payload,
                       ec_IssuedAt = issuedAt, ec_ExpiresAt = expiresAt\<rparr>)"

definition entitlement_PublicKeys :: "EntitlementService \<Rightarrow> PublicSigningKey list" where
  "entitlement_PublicKeys s = public_keys (es_verification s)"

section \<open>Lemmas\<close>

abbreviation entitlement_claims ::
  "crypto \<Rightarrow> entitlement_json \<Rightarrow> EntitlementService \<Rightarrow> instant \<Rightarrow> bytes \<Rightarrow> Claims option" where
  "entitlement_claims cr js s now t \<equiv> (case entitlement_Verify cr js s now t of Inr c \<Rightarrow> Some c | Inl _ \<Rightarrow> None)"

lemma entitlement_lifetime_exact: "time_sub a b = entitlementLifetime \<longleftrightarrow> a = b + entitlementLifetime"
  by (simp add: entitlementLifetime_def time_sub_exact max_duration_def) linarith

lemma entitlement_claims_iff:
  "entitlement_claims cr js s now t = Some c \<longleftrightarrow>
     (\<exists>p. open_token cr js (es_verification s) ''agentera-offline-entitlement+jwt'' maximumTokenLength t = Some p
       \<and> tp_Issuer p = es_issuer s \<and> tp_Audience p = es_audience s \<and> tp_JTI p \<noteq> Nil_uuid \<and> 0 < tp_PolicyVersion p
       \<and> c = \<lparr>ec_JTI = tp_JTI p, ec_Binding = \<lparr>b_UserID = tp_UserID p, b_DeviceID = tp_DeviceID p,
                b_InstallationID = tp_InstallationID p, b_PersonalSpaceID = tp_PersonalSpaceID p\<rparr>,
              ec_PolicyVersion = tp_PolicyVersion p,
              ec_IssuedAt = of_unix (tp_IssuedAtUnix p), ec_ExpiresAt = of_unix (tp_ExpiresAtUnix p)\<rparr>
       \<and> validBinding (ec_Binding c)
       \<and> ec_ExpiresAt c = ec_IssuedAt c + entitlementLifetime
       \<and> ec_IssuedAt c - minute \<le> now \<and> now < ec_ExpiresAt c)"
  by (auto simp: entitlement_Verify_def entitlement_lifetime_exact Let_def split: option.splits if_splits)

lemma entitlement_Verify_None:
  "entitlement_claims cr js s now t = None \<Longrightarrow> entitlement_Verify cr js s now t = Inl ErrInvalidEntitlement"
  by (auto simp: entitlement_Verify_def Let_def split: option.splits if_splits)

interpretation offline: timed_token "entitlement_claims cr js s" ec_IssuedAt ec_ExpiresAt entitlementLifetime
  for cr js s
  by unfold_locales (unfold entitlement_claims_iff, auto)

definition entitlement_utf8 :: "tokenPayload \<Rightarrow> bool" where
  "entitlement_utf8 p \<longleftrightarrow> ValidString (tp_Issuer p) \<and> ValidString (tp_Audience p)"

lemma entitlement_unix:
  "of_unix (unix_of (truncate_second now + entitlementLifetime)) = truncate_second now + entitlementLifetime"
proof -
  have "unix_of (truncate_second now + 604800 * second) = unix_of (truncate_second now) + 604800"
    by (rule unix_of_add)
  then show ?thesis using of_unix_truncate [of now]
    by (simp add: entitlementLifetime_def of_unix_def algebra_simps)
qed

lemma recordIssuance_Inr:
  assumes "recordIssuance fails i d = Inr d'"
  shows "d' = d\<lparr>issuances := issuances d @ [issuance_of i]\<rparr>" "insert_issuance (issuance_of i) d = Some d'"
    "is_JTI i \<noteq> Nil_uuid" "0 < is_PolicyVersion i"
  using assms by (auto simp: recordIssuance_def dest: insert_issuance_Some split: if_splits option.splits)

lemma entitlement_issue_Inr:
  assumes "entitlement_issue cr js s fails now draw b d = (Inr iss, d')"
  obtains jti h p i where "draw = Some jti" "validBinding b"
    "marshal_header js (entitlement_header s) = Some h"
    "marshal_payload js (entitlement_payload s now jti b) = Some p"
    "iss = \<lparr>id_Serialized = seal_token cr (es_signingKey s) h p,
            id_ExpiresAt = truncate_second now + entitlementLifetime\<rparr>"
    "i = \<lparr>is_JTI = jti, is_Binding = b, is_SigningKeyID = es_activeKeyID s,
          is_PolicyVersion = es_policyVersion s, is_IssuedAt = truncate_second now,
          is_ExpiresAt = truncate_second now + entitlementLifetime\<rparr>"
    "recordIssuance fails i d = Inr d'"
  using assms that
  by (auto simp: entitlement_issue_def RandomUUID_def Let_def split: if_splits option.splits sum.splits)

lemma entitlement_issue_Inl:
  "entitlement_issue cr js s fails now draw b d = (Inl e, d') \<Longrightarrow> d' = d"
  by (auto simp: entitlement_issue_def Let_def split: if_splits option.splits sum.splits)

lemma NewEntitlementService_Inr:
  assumes "NewEntitlementService cr parse_url config = Inr s"
  shows "length (es_signingKey s) = 64" "es_activeKeyID s = ecf_ActiveKeyID config"
    "es_issuer s = ecf_Issuer config" "es_audience s = ecf_Audience config"
    "0 < es_policyVersion s"
  using assms by (auto simp: NewEntitlementService_def Let_def split: if_splits)

text \<open>
  Offline entitlement: an issued entitlement is recorded, with its identifier, binding, key
  and validity, in the ledger of issuances before it is returned, and it verifies at every service
  that knows the key for seven days with exactly the recorded claims and never afterwards. A
  failed issue records nothing.
\<close>

theorem entitlement_recorded_and_valid:
  assumes "signature_correct cr" "token_json_ok js entitlement_utf8"
    "NewEntitlementService cr parse_url config = Inr s" "NewEntitlementService cr parse_url config' = Inr s'"
    "map_of (es_verification s') (ecf_ActiveKeyID config) = Some (ed25519_public cr (es_signingKey s))"
    "ecf_Issuer config' = ecf_Issuer config" "ecf_Audience config' = ecf_Audience config"
    "ValidString (ecf_ActiveKeyID config)" "ValidString (ecf_Issuer config)" "ValidString (ecf_Audience config)"
    "entitlement_issue cr js s fails now draw b d = (res, d')"
    "\<And>iss. res = Inr iss \<Longrightarrow> length (id_Serialized iss) \<le> maximumTokenLength"
  shows "case res of Inl _ \<Rightarrow> d' = d
    | Inr iss \<Rightarrow> \<exists>row claims. issuances d' = issuances d @ [row] \<and> i_revoked_at row = None
        \<and> i_jti row = ec_JTI claims \<and> i_jti row \<notin> i_jti ` set (issuances d)
        \<and> ec_Binding claims = b \<and> i_user_id row = b_UserID b \<and> i_device_id row = b_DeviceID b
        \<and> i_issued_at row = ec_IssuedAt claims \<and> i_expires_at row = ec_ExpiresAt claims
        \<and> (\<forall>now'. entitlement_Verify cr js s' now' (id_Serialized iss) =
             (if ec_IssuedAt claims - minute \<le> now' \<and> now' < ec_IssuedAt claims + entitlementLifetime
              then Inr claims else Inl ErrInvalidEntitlement))"
proof (cases res)
  case (Inl e)
  with assms(11) show ?thesis by (simp add: entitlement_issue_Inl)
next
  case (Inr iss)
  note s = NewEntitlementService_Inr [OF assms(3)] and s' = NewEntitlementService_Inr [OF assms(4)]
  have run: "entitlement_issue cr js s fails now draw b d = (Inr iss, d')" using assms(11) Inr by simp
  obtain jti h p i where x: "draw = Some jti" "validBinding b"
    "marshal_header js (entitlement_header s) = Some h"
    "marshal_payload js (entitlement_payload s now jti b) = Some p"
    "iss = \<lparr>id_Serialized = seal_token cr (es_signingKey s) h p,
            id_ExpiresAt = truncate_second now + entitlementLifetime\<rparr>"
    "i = \<lparr>is_JTI = jti, is_Binding = b, is_SigningKeyID = es_activeKeyID s,
          is_PolicyVersion = es_policyVersion s, is_IssuedAt = truncate_second now,
          is_ExpiresAt = truncate_second now + entitlementLifetime\<rparr>"
    "recordIssuance fails i d = Inr d'" by (rule entitlement_issue_Inr [OF run])
  note rec = recordIssuance_Inr [OF x(7)]
  let ?c = "\<lparr>ec_JTI = jti, ec_Binding = b, ec_PolicyVersion = es_policyVersion s,
    ec_IssuedAt = truncate_second now, ec_ExpiresAt = truncate_second now + entitlementLifetime\<rparr>"
  have h: "decode_header js h = Some (entitlement_header s)"
    using assms(2,8) s(2) x(3) ValidString_literals by (simp add: token_json_ok_def entitlement_header_def)
  have p: "decode_payload js p = Some (entitlement_payload s now jti b)"
    using assms(2,9,10) s x(4)
    by (simp add: token_json_ok_def entitlement_utf8_def entitlement_payload_def Let_def)
  have "open_token cr js (es_verification s') ''agentera-offline-entitlement+jwt'' maximumTokenLength
      (id_Serialized iss) = Some (entitlement_payload s now jti b)"
    using h p assms(1,5) assms(12) [OF Inr] s(1,2) x(5)
    by (auto intro!: open_seal_token [where kid = "es_activeKeyID s"] simp: entitlement_header_def)
  then have v: "entitlement_Verify cr js s' t (id_Serialized iss) = Inr ?c"
    if "truncate_second now - minute \<le> t" "t < truncate_second now + entitlementLifetime" for t
    using that s s' assms(6,7) x(2,6) rec(3,4)
    by (simp add: entitlement_Verify_def entitlement_payload_def entitlement_unix of_unix_truncate
        entitlement_lifetime_exact validBinding_def Let_def)
  have first: "entitlement_claims cr js s' (truncate_second now) (id_Serialized iss) = Some ?c"
    using v [of "truncate_second now"] by (simp add: entitlementLifetime_def)
  have "entitlement_claims cr js s' t (id_Serialized iss) = None"
    if "\<not> (truncate_second now - minute \<le> t \<and> t < truncate_second now + entitlementLifetime)" for t
    using offline.valid_iff [OF first, of t] offline.same_claims [OF first, of t] that
    by (cases "entitlement_claims cr js s' t (id_Serialized iss)") auto
  then have out: "entitlement_Verify cr js s' t (id_Serialized iss) = Inl ErrInvalidEntitlement"
    if "\<not> (truncate_second now - minute \<le> t \<and> t < truncate_second now + entitlementLifetime)" for t
    using that by (intro entitlement_Verify_None)
  have "jti \<notin> i_jti ` set (issuances d)"
    using insert_issuance_Some(2) [OF rec(2)] x(6) by (simp add: issuance_of_def)
  then show ?thesis
    unfolding Inr sum.case
    by (intro exI [of _ "issuance_of i"] exI [of _ ?c])
      (use v out rec(1) x(6) in \<open>simp add: issuance_of_def\<close>)
qed

section \<open>Examples\<close>

definition sample_entitlement_config :: EntitlementConfig where
  "sample_entitlement_config = \<lparr>ecf_Issuer = ''https://id'', ecf_Audience = ''api'', ecf_ActiveKeyID = ''a1'',
     ecf_SigningKeys = [(''a1'', sample_signing_key)], ecf_VerificationKeys = [], ecf_PolicyVersion = 1\<rparr>"

definition sample_entitlements :: EntitlementService where
  "sample_entitlements =
     (case NewEntitlementService sample_crypto sample_parse_url sample_entitlement_config of Inr s \<Rightarrow> s)"

definition sample_device_binding :: Binding where
  "sample_device_binding = \<lparr>b_UserID = 1, b_DeviceID = 3, b_InstallationID = 5, b_PersonalSpaceID = 4\<rparr>"

text \<open>A database with one active user, device and personal space.\<close>

definition sample_db :: db where
  "sample_db = empty_db\<lparr>users := [\<lparr>u_id = 1, u_nickname = None, u_status = ''active'', u_password_security_version = 1,
       u_deletion_requested_at = None, u_deletion_finalized_at = None, u_administratively_disabled = False\<rparr>],
     personal_spaces := [\<lparr>ps_id = 4, ps_owner_user_id = 1, ps_display_name = None, ps_status = ''active''\<rparr>],
     devices := [\<lparr>d_id = 3, d_user_id = 1, d_installation_id = 5, d_public_key = replicate 32 (CHR ''k''),
       d_display_name = ''mac'', d_platform = ''darwin'', d_app_version = ''1.0.0'', d_status = ''active'',
       d_last_seen_at = 0, d_revoked_at = None\<rparr>]\<rparr>"

definition sample_entitlement_json :: entitlement_json where
  "sample_entitlement_json =
     one_payload (entitlement_payload sample_entitlements 0 9 sample_device_binding)
       (entitlement_header sample_entitlements)"

lemma sample_entitlements_ok:
  "NewEntitlementService sample_crypto sample_parse_url sample_entitlement_config = Inr sample_entitlements"
  by (simp add: sample_entitlements_def NewEntitlementService_def sample_entitlement_config_def
      sample_parse_url_def visible_access [THEN TrimSpace_visible] sample_signing_key_def ring_get_def Let_def)

lemma sample_entitlements_fields:
  "es_activeKeyID sample_entitlements = ''a1''" "es_policyVersion sample_entitlements = 1"
  "map_of (es_verification sample_entitlements) ''a1''
     = Some (ed25519_public sample_crypto (es_signingKey sample_entitlements))"
  by (simp_all add: sample_entitlements_def NewEntitlementService_def sample_entitlement_config_def
      sample_parse_url_def visible_access [THEN TrimSpace_visible] sample_signing_key_def ring_get_def Let_def)

lemma sample_entitlement_issue:
  "\<exists>iss d'. entitlement_issue sample_crypto sample_entitlement_json sample_entitlements False 0 (Some 9)
       sample_device_binding sample_db = (Inr iss, d') \<and> length (id_Serialized iss) = 92"
  using NewEntitlementService_Inr(1) [OF sample_entitlements_ok]
  by (simp add: entitlement_issue_def RandomUUID_def sample_entitlement_json_def one_payload_def
      recordIssuance_def insert_issuance_def issuance_of_def sample_entitlements_fields
      sample_device_binding_def validBinding_def sample_db_def empty_db_def table_simps entitlementLifetime_def
      seal_token_def length_EncodeToString signature_correctD sample_crypto_correct Let_def)

theorem entitlement_recorded_and_valid_witness:
  "\<exists>iss d'. entitlement_issue sample_crypto sample_entitlement_json sample_entitlements False 0 (Some 9)
       sample_device_binding sample_db = (Inr iss, d') \<and> length (issuances d') = 1
     \<and> (\<exists>c. entitlement_Verify sample_crypto sample_entitlement_json sample_entitlements 0
          (id_Serialized iss) = Inr c \<and> ec_Binding c = sample_device_binding)"
proof -
  obtain iss d' where i: "entitlement_issue sample_crypto sample_entitlement_json sample_entitlements False 0
      (Some 9) sample_device_binding sample_db = (Inr iss, d')" "length (id_Serialized iss) = 92"
    using sample_entitlement_issue by blast
  have json: "token_json_ok sample_entitlement_json entitlement_utf8"
    by (simp add: sample_entitlement_json_def one_payload_ok)
  have names: "ValidString (ecf_ActiveKeyID sample_entitlement_config)"
    "ValidString (ecf_Issuer sample_entitlement_config)" "ValidString (ecf_Audience sample_entitlement_config)"
    "ecf_ActiveKeyID sample_entitlement_config = ''a1''"
    using visible_access [THEN ValidString_visible] by (simp_all add: sample_entitlement_config_def)
  obtain row c where c: "issuances d' = issuances sample_db @ [row]" "ec_Binding c = sample_device_binding"
    "i_issued_at row = ec_IssuedAt c"
    "\<And>t. entitlement_Verify sample_crypto sample_entitlement_json sample_entitlements t (id_Serialized iss) =
       (if ec_IssuedAt c - minute \<le> t \<and> t < ec_IssuedAt c + entitlementLifetime then Inr c
        else Inl ErrInvalidEntitlement)"
    using entitlement_recorded_and_valid [OF sample_crypto_correct(3) json sample_entitlements_ok
        sample_entitlements_ok _ refl refl names(1-3) i(1)] i(2) sample_entitlements_fields(3) names(4)
    by (auto simp: maximumTokenLength_def)
  have "ec_IssuedAt c = 0"
  proof -
    have "issuances d' = [issuance_of \<lparr>is_JTI = 9, is_Binding = sample_device_binding, is_SigningKeyID = ''a1'',
        is_PolicyVersion = 1, is_IssuedAt = 0, is_ExpiresAt = entitlementLifetime\<rparr>]"
      by (rule entitlement_issue_Inr [OF i(1)], drule recordIssuance_Inr(1))
        (simp add: sample_db_def empty_db_def sample_entitlements_fields truncate_second_def)
    with c(1,3) show ?thesis by (auto simp: sample_db_def empty_db_def issuance_of_def)
  qed
  with c(4) [of 0] have "entitlement_Verify sample_crypto sample_entitlement_json sample_entitlements 0
      (id_Serialized iss) = Inr c" by (simp add: entitlementLifetime_def)
  moreover have "length (issuances d') = 1" using c(1) by (simp add: sample_db_def empty_db_def)
  ultimately show ?thesis using i(1) c(2) by blast
qed

end
