(* ===== verification/Redis.thy ===== *)
theory Redis
  imports GoText
begin

text \<open>
  The Redis keys the services use: counters of a fixed window and leases. A key holds a value and,
  if set, the instant at which it expires; an expired key reads as absent. The definitions follow
  the Lua scripts and commands in \<open>internal/verification/limiter.go\<close> and
  \<open>internal/jobs/lease.go\<close>. The locale \<open>lease\<close> is the contract the callers of \<open>Acquire\<close> and
  \<open>Release\<close> rely on; both implementations interpret it.
\<close>

section \<open>Keys with expiry\<close>

type_synonym 'v redis = "bytes \<rightharpoonup> 'v \<times> instant option"

definition live :: "instant \<Rightarrow> 'v redis \<Rightarrow> bytes \<Rightarrow> ('v \<times> instant option) option" where
  "live now r k = (case r k of
       None \<Rightarrow> None
     | Some (v, None) \<Rightarrow> Some (v, None)
     | Some (v, Some e) \<Rightarrow> if now < e then Some (v, Some e) else None)"

definition value_at :: "instant \<Rightarrow> 'v redis \<Rightarrow> bytes \<Rightarrow> 'v option" where
  "value_at now r k = map_option fst (live now r k)"

text \<open>\<open>PTTL\<close>: \<open>-2\<close> for an absent key, \<open>-1\<close> for one without expiry, else milliseconds.\<close>

definition pttl :: "instant \<Rightarrow> 'v redis \<Rightarrow> bytes \<Rightarrow> int" where
  "pttl now r k = (case live now r k of
       None \<Rightarrow> -2 | Some (_, None) \<Rightarrow> -1 | Some (_, Some e) \<Rightarrow> (e - now) div millisecond)"

text \<open>\<open>PEXPIRE\<close>: a time to live that is not positive deletes the key.\<close>

definition pexpire :: "instant \<Rightarrow> bytes \<Rightarrow> int \<Rightarrow> 'v redis \<Rightarrow> 'v redis" where
  "pexpire now k ms r = (case live now r k of
       None \<Rightarrow> r
     | Some (v, _) \<Rightarrow> if ms \<le> 0 then r(k := None) else r(k \<mapsto> (v, Some (now + ms * millisecond))))"

text \<open>The window script: \<open>INCR\<close>, \<open>PEXPIRE\<close> on the first hit, \<open>PTTL\<close>.\<close>

definition incr :: "instant \<Rightarrow> bytes \<Rightarrow> int redis \<Rightarrow> int \<times> int redis" where
  "incr now k r = (case live now r k of
       None \<Rightarrow> (1, r(k \<mapsto> (1, None)))
     | Some (c, e) \<Rightarrow> (c + 1, r(k \<mapsto> (c + 1, e))))"

definition incrementWindow ::
  "instant \<Rightarrow> bytes \<Rightarrow> int \<Rightarrow> int redis \<Rightarrow> (int \<times> int) \<times> int redis" where
  "incrementWindow now k ms r =
     (case incr now k r of (count, r1) \<Rightarrow>
        let r2 = (if count = 1 then pexpire now k ms r1 else r1)
        in ((count, pttl now r2 k), r2))"

text \<open>\<open>SET key value NX PX ttl\<close>; the client sends at least one millisecond.\<close>

definition px_ttl :: "duration \<Rightarrow> duration" where
  "px_ttl ttl = (if ttl < millisecond then millisecond else ttl div millisecond * millisecond)"

definition setnx ::
  "instant \<Rightarrow> bytes \<Rightarrow> bytes \<Rightarrow> duration \<Rightarrow> bytes redis \<Rightarrow> bool \<times> bytes redis" where
  "setnx now k v ttl r = (case live now r k of
       None \<Rightarrow> (True, r(k \<mapsto> (v, Some (now + px_ttl ttl))))
     | Some _ \<Rightarrow> (False, r))"

text \<open>The release script: delete the key only while it holds the caller's value.\<close>

definition delete_if_owner :: "instant \<Rightarrow> bytes \<Rightarrow> bytes \<Rightarrow> bytes redis \<Rightarrow> bytes redis" where
  "delete_if_owner now k owner r = (if value_at now r k = Some owner then r(k := None) else r)"

lemma px_ttl_bounds: "0 < ttl \<Longrightarrow> 0 < px_ttl ttl"
  using pos_imp_zdiv_pos_iff [of millisecond ttl] by (auto simp: px_ttl_def)

lemma px_ttl_whole: "0 < n \<Longrightarrow> px_ttl (n * millisecond) = n * millisecond"
  by (auto simp: px_ttl_def)

lemma px_ttl_exact:
  assumes "0 < ttl" "ttl mod millisecond = 0"
  shows "px_ttl ttl = ttl"
proof -
  from assms(2) obtain n where n: "ttl = n * millisecond" by (metis mod_0_imp_dvd dvdE mult.commute)
  with assms(1) have "0 < n" by simp
  then show ?thesis unfolding n by (rule px_ttl_whole)
qed

lemma value_at_other:
  "j \<noteq> k \<Longrightarrow> value_at t (r(k := x)) j = value_at t r j"
  by (simp add: value_at_def live_def)

lemma value_at_set:
  "value_at t (r(k \<mapsto> (v, Some e))) k = (if t < e then Some v else None)"
  by (simp add: value_at_def live_def)

lemma value_at_deleted [simp]: "value_at t (r(k := None)) k = None"
  by (simp add: value_at_def live_def)

section \<open>Leases\<close>

locale lease =
  fixes acquire :: "instant \<Rightarrow> bytes \<Rightarrow> bytes \<Rightarrow> duration \<Rightarrow> 'r \<Rightarrow> bool \<times> 'r"
    and release :: "instant \<Rightarrow> bytes \<Rightarrow> bytes \<Rightarrow> 'r \<Rightarrow> 'r"
    and holder :: "instant \<Rightarrow> 'r \<Rightarrow> bytes \<Rightarrow> bytes option"
  assumes acquire_held: "holder now r k = Some h \<Longrightarrow> acquire now k owner ttl r = (False, r)"
    and acquire_free: "holder now r k = None \<Longrightarrow> fst (acquire now k owner ttl r)"
    and acquired_holds: "holder now r k = None \<Longrightarrow> now \<le> t \<Longrightarrow> t < now + ttl
      \<Longrightarrow> ttl mod millisecond = 0 \<Longrightarrow> holder t (snd (acquire now k owner ttl r)) k = Some owner"
    and acquire_other: "j \<noteq> k \<Longrightarrow> holder t (snd (acquire now k owner ttl r)) j = holder t r j"
    and release_own: "holder now r k = Some owner \<Longrightarrow> holder t (release now k owner r) k = None"
    and release_not_own: "holder now r k \<noteq> Some owner \<Longrightarrow> release now k owner r = r"
begin

text \<open>While a lease runs nobody else acquires it, and only its owner can end it.\<close>

lemma exclusive:
  assumes "fst (acquire now k o1 ttl r)" "now \<le> t" "t < now + ttl" "ttl mod millisecond = 0"
  shows "acquire t k o2 ttl' (snd (acquire now k o1 ttl r)) = (False, snd (acquire now k o1 ttl r))"
proof -
  have "holder now r k = None" using assms(1) acquire_held by (cases "holder now r k") auto
  then have "holder t (snd (acquire now k o1 ttl r)) k = Some o1"
    using assms(2-4) by (rule acquired_holds)
  then show ?thesis by (rule acquire_held)
qed

lemma foreign_release:
  assumes "fst (acquire now k o1 ttl r)" "now \<le> t" "t < now + ttl" "ttl mod millisecond = 0" "o2 \<noteq> o1"
  shows "release t k o2 (snd (acquire now k o1 ttl r)) = snd (acquire now k o1 ttl r)"
proof -
  have "holder now r k = None" using assms(1) acquire_held by (cases "holder now r k") auto
  with assms(2-5) acquired_holds show ?thesis by (intro release_not_own) auto
qed

lemma reacquire_after_release:
  assumes "fst (acquire now k o1 ttl r)" "now \<le> t" "t < now + ttl" "ttl mod millisecond = 0"
  shows "fst (acquire t' k o2 ttl' (release t k o1 (snd (acquire now k o1 ttl r))))"
proof -
  have "holder now r k = None" using assms(1) acquire_held by (cases "holder now r k") auto
  then have "holder t (snd (acquire now k o1 ttl r)) k = Some o1"
    using assms(2-4) by (rule acquired_holds)
  then show ?thesis by (intro acquire_free release_own)
qed

lemma free_after_release:
  assumes "holder now r k = None" "now \<le> t" "t < now + ttl" "ttl mod millisecond = 0"
  shows "holder t' (release t k owner (snd (acquire now k owner ttl r))) k = None"
  by (intro release_own acquired_holds assms)

end

text \<open>The pair \<open>setnx\<close>/\<open>delete_if_owner\<close> under a key prefix satisfies the laws.\<close>

lemma prefixed_lease_laws:
  "value_at now r (p @ k) = Some h \<Longrightarrow> setnx now (p @ k) owner ttl r = (False, r)"
  "value_at now r (p @ k) = None \<Longrightarrow> fst (setnx now (p @ k) owner ttl r)"
  "value_at now r (p @ k) = None \<Longrightarrow> now \<le> t \<Longrightarrow> t < now + ttl \<Longrightarrow> ttl mod millisecond = 0
    \<Longrightarrow> value_at t (snd (setnx now (p @ k) owner ttl r)) (p @ k) = Some owner"
  "j \<noteq> k \<Longrightarrow> value_at t (snd (setnx now (p @ k) owner ttl r)) (p @ j) = value_at t r (p @ j)"
  "value_at now r (p @ k) = Some owner
    \<Longrightarrow> value_at t (delete_if_owner now (p @ k) owner r) (p @ k) = None"
  "value_at now r (p @ k) \<noteq> Some owner \<Longrightarrow> delete_if_owner now (p @ k) owner r = r"
proof -
  assume free: "value_at now r (p @ k) = None" and t: "now \<le> t" "t < now + ttl" "ttl mod millisecond = 0"
  from t have "px_ttl ttl = ttl" by (intro px_ttl_exact) auto
  with free t show "value_at t (snd (setnx now (p @ k) owner ttl r)) (p @ k) = Some owner"
    by (auto simp: setnx_def value_at_def live_def split: option.splits)
qed (auto simp: setnx_def delete_if_owner_def value_at_other value_at_def [of now] split: option.splits)

end
