(* ===== verification/Session.thy ===== *)
theory Session
  imports Entitlement Redis
begin

text \<open>
  \<open>internal/session/repository.go\<close>, \<open>service.go\<close> and \<open>revocation.go\<close>: sessions with rotating
  refresh tokens, grouped in families, and the authenticator of access tokens with its Redis view
  of revocation. Lemmas: a refresh token is exchanged at most once, presenting a replaced token
  revokes the whole family, a dead family stays dead, an access token is accepted only while the
  database says its session, user, device and space are active.
\<close>

section \<open>Data\<close>

definition refreshLifetime :: duration where "refreshLifetime = 30 * 24 * hour"

datatype session_error =
  ErrSessionRevoked | ErrAccountPendingDeletion | ErrAccountDisabled | ErrUnavailable | ErrInvalidToken

record TokenSet =
  ts_AccessToken :: bytes
  ts_AccessExpiresAt :: instant
  ts_RefreshToken :: bytes
  ts_RefreshExpiresAt :: instant
  ts_OfflineEntitlement :: bytes
  ts_OfflineExpiresAt :: instant
  ts_UserID :: uuid
  ts_PersonalSpaceID :: uuid
  ts_DeviceID :: uuid
  ts_SessionID :: uuid

record CreateRecord =
  cr_SessionID :: uuid
  cr_FamilyID :: uuid
  cr_Binding :: Binding
  cr_RefreshTokenHash :: bytes
  cr_IssuedAt :: instant
  cr_ExpiresAt :: instant

record SuccessorRecord =
  sc_SessionID :: uuid
  sc_RefreshTokenHash :: bytes
  sc_IssuedAt :: instant
  sc_ExpiresAt :: instant

record Rotation =
  ro_SessionID :: uuid
  ro_FamilyID :: uuid
  ro_Binding :: Binding

section \<open>Repository\<close>

definition access_row :: "AccessBinding \<Rightarrow> instant \<Rightarrow> db \<Rightarrow> bool" where
  "access_row b now d \<longleftrightarrow>
     exists_row (\<lambda>s. s_id s = ab_SessionID b \<and> s_user_id s = ab_UserID b \<and> s_device_id s = ab_DeviceID b
       \<and> s_revoked_at s = None \<and> s_expires_at s > now
       \<and> exists_row (\<lambda>u. u_id u = s_user_id s \<and> u_status u = ''active'') (users d)
       \<and> exists_row (\<lambda>v. d_id v = s_device_id s \<and> d_user_id v = s_user_id s \<and> d_status v = ''active'') (devices d)
       \<and> exists_row (\<lambda>p. ps_id p = ab_PersonalSpaceID b \<and> ps_owner_user_id p = s_user_id s
           \<and> ps_status p = ''active'') (personal_spaces d)) (sessions d)"

definition AccessActive :: "bool \<Rightarrow> AccessBinding \<Rightarrow> instant \<Rightarrow> db \<Rightarrow> bool option" where
  "AccessActive fails b now d =
     (if \<not> validAccessBinding b \<or> fails then None else Some (access_row b now d))"

definition binding_active :: "Binding \<Rightarrow> db \<Rightarrow> bool" where
  "binding_active b d \<longleftrightarrow>
     exists_row (\<lambda>u. u_id u = b_UserID b \<and> u_status u = ''active''
       \<and> exists_row (\<lambda>v. d_user_id v = u_id u \<and> d_id v = b_DeviceID b \<and> d_installation_id v = b_InstallationID b
           \<and> d_status v = ''active'') (devices d)
       \<and> exists_row (\<lambda>p. ps_owner_user_id p = u_id u \<and> ps_id p = b_PersonalSpaceID b
           \<and> ps_status p = ''active'') (personal_spaces d)) (users d)"

definition new_session :: "CreateRecord \<Rightarrow> session_row" where
  "new_session r = \<lparr>s_id = cr_SessionID r, s_user_id = b_UserID (cr_Binding r), s_device_id = b_DeviceID (cr_Binding r),
     s_family_id = cr_FamilyID r, s_refresh_token_hash = cr_RefreshTokenHash r, s_rotated_from = None,
     s_issued_at = cr_IssuedAt r, s_expires_at = cr_ExpiresAt r, s_replaced_at = None, s_revoked_at = None,
     s_revoked_reason = None, s_replay_detected_at = None\<rparr>"

text \<open>\<open>createSession\<close>, used by \<open>Create\<close> and \<open>CreateInTx\<close>; calls: select, insert.\<close>

definition createSession :: "schedule \<Rightarrow> CreateRecord \<Rightarrow> db \<Rightarrow> session_error option \<times> db" where
  "createSession f r d =
     (if \<not> validBinding (cr_Binding r) \<or> cr_SessionID r = Nil_uuid \<or> cr_FamilyID r = Nil_uuid
         \<or> length (cr_RefreshTokenHash r) \<noteq> 32 \<or> \<not> cr_IssuedAt r < cr_ExpiresAt r
      then (Some ErrSessionRevoked, d)
      else if f 0 then (Some ErrUnavailable, d)
      else if \<not> binding_active (cr_Binding r) d then (Some ErrSessionRevoked, d)
      else if f 1 then (Some ErrUnavailable, d)
      else case insert_session (new_session r) d of
          None \<Rightarrow> (Some ErrUnavailable, d)
        | Some d' \<Rightarrow> (None, d'))"

text \<open>The join of \<open>Rotate\<close>: a session by its hash, with its user, device and personal space.\<close>

definition rotate_join :: "bytes \<Rightarrow> db \<Rightarrow> (session_row \<times> user_row \<times> device_row \<times> space_row) option" where
  "rotate_join hash d =
     (case find (\<lambda>s. s_refresh_token_hash s = hash) (sessions d) of
        None \<Rightarrow> None
      | Some s \<Rightarrow>
          (case (find (\<lambda>u. u_id u = s_user_id s) (users d), find (\<lambda>v. d_id v = s_device_id s) (devices d),
                 find (\<lambda>p. ps_owner_user_id p = s_user_id s) (personal_spaces d)) of
             (Some u, Some v, Some p) \<Rightarrow> Some (s, u, v, p)
           | _ \<Rightarrow> None))"

definition successor_session :: "session_row \<Rightarrow> SuccessorRecord \<Rightarrow> session_row" where
  "successor_session s n = \<lparr>s_id = sc_SessionID n, s_user_id = s_user_id s, s_device_id = s_device_id s,
     s_family_id = s_family_id s, s_refresh_token_hash = sc_RefreshTokenHash n, s_rotated_from = Some (s_id s),
     s_issued_at = sc_IssuedAt n, s_expires_at = sc_ExpiresAt n, s_replaced_at = None, s_revoked_at = None,
     s_revoked_reason = None, s_replay_detected_at = None\<rparr>"

definition replay_family :: "session_row \<Rightarrow> instant \<Rightarrow> db \<Rightarrow> db" where
  "replay_family s now d = d\<lparr>sessions := update_where (\<lambda>r. s_family_id r = s_family_id s)
     (\<lambda>r. r\<lparr>s_revoked_at := coalesce (s_revoked_at r) now, s_revoked_reason := Some ''refresh_replay'',
            s_replay_detected_at := (if s_id r = s_id s then Some now else s_replay_detected_at r)\<rparr>) (sessions d)\<rparr>"

definition revoke_family :: "uuid \<Rightarrow> bytes \<Rightarrow> instant \<Rightarrow> db \<Rightarrow> db" where
  "revoke_family fam reason now d = d\<lparr>sessions := update_where (\<lambda>r. s_family_id r = fam)
     (\<lambda>r. r\<lparr>s_revoked_at := coalesce (s_revoked_at r) now,
            s_revoked_reason := coalesce (s_revoked_reason r) reason\<rparr>) (sessions d)\<rparr>"

definition account_state_error :: "bytes \<Rightarrow> session_error" where
  "account_state_error status =
     (if status = ''pending_deletion'' then ErrAccountPendingDeletion
      else if status = ''disabled'' then ErrAccountDisabled else ErrSessionRevoked)"

text \<open>Calls: begin, select, then update and commit, or insert, update and commit.\<close>

definition Rotate ::
  "schedule \<Rightarrow> bytes \<Rightarrow> SuccessorRecord \<Rightarrow> instant \<Rightarrow> db \<Rightarrow> (session_error + Rotation) \<times> db" where
  "Rotate f hash n now d =
     (if length hash \<noteq> 32 \<or> sc_SessionID n = Nil_uuid \<or> length (sc_RefreshTokenHash n) \<noteq> 32
         \<or> \<not> sc_IssuedAt n < sc_ExpiresAt n
      then (Inl ErrSessionRevoked, d)
      else if f 0 \<or> f 1 then (Inl ErrUnavailable, d)
      else case rotate_join hash d of
        None \<Rightarrow> (Inl ErrSessionRevoked, d)
      | Some (s, u, v, p) \<Rightarrow>
          if s_replaced_at s \<noteq> None
          then (if f 2 \<or> f 3 then (Inl ErrUnavailable, d)
                else (Inl ErrSessionRevoked, replay_family s now d))
          else if s_revoked_at s \<noteq> None \<or> \<not> now < s_expires_at s
               \<or> u_status u \<noteq> ''active'' \<or> d_status v \<noteq> ''active''
          then (if f 2 \<or> f 3 then (Inl ErrUnavailable, d)
                else (Inl (account_state_error (u_status u)),
                      revoke_family (s_family_id s) ''session_invalid'' now d))
          else if f 2 then (Inl ErrUnavailable, d)
          else (case insert_session (successor_session s n) d of
              None \<Rightarrow> (Inl ErrUnavailable, d)
            | Some d' \<Rightarrow>
                if f 3 \<or> f 4 then (Inl ErrUnavailable, d)
                else (Inr \<lparr>ro_SessionID = sc_SessionID n, ro_FamilyID = s_family_id s,
                           ro_Binding = \<lparr>b_UserID = s_user_id s, b_DeviceID = s_device_id s,
                             b_InstallationID = d_installation_id v, b_PersonalSpaceID = ps_id p\<rparr>\<rparr>,
                      d'\<lparr>sessions := update_where (\<lambda>r. s_id r = s_id s)
                        (\<lambda>r. r\<lparr>s_replaced_at := Some now\<rparr>) (sessions d')\<rparr>)))"

definition RevokeFamily :: "bool \<Rightarrow> uuid \<Rightarrow> bytes \<Rightarrow> instant \<Rightarrow> db \<Rightarrow> session_error option \<times> db" where
  "RevokeFamily fails fam reason now d =
     (if fam = Nil_uuid \<or> reason = [] \<or> fails then (Some ErrUnavailable, d)
      else (None, revoke_family fam reason now d))"

definition RevokeByToken :: "schedule \<Rightarrow> bytes \<Rightarrow> instant \<Rightarrow> db \<Rightarrow> session_error option \<times> db" where
  "RevokeByToken f hash now d =
     (if length hash \<noteq> 32 then (Some ErrSessionRevoked, d)
      else if f 0 \<or> f 1 then (Some ErrUnavailable, d)
      else case find (\<lambda>s. s_refresh_token_hash s = hash) (sessions d) of
          None \<Rightarrow> (Some ErrSessionRevoked, d)
        | Some s \<Rightarrow>
            if f 2 \<or> f 3 then (Some ErrUnavailable, d)
            else (None, revoke_family (s_family_id s) ''user_logout'' now d))"

section \<open>Service\<close>

record SessionService =
  ss_accessTokens :: AccessSigner
  ss_offlineEntitlements :: EntitlementService
  ss_refreshHMACKey :: bytes

text \<open>What one call draws from outside.\<close>

record session_env =
  se_now :: instant
  se_issue_now :: instant
  se_revoke_now :: instant
  se_uuid :: "nat \<Rightarrow> uuid option"
  se_read :: "nat \<Rightarrow> bytes option"
  se_fails :: schedule

record codecs =
  c_access :: access_json
  c_offline :: entitlement_json

definition NewSessionService ::
  "AccessSigner \<Rightarrow> EntitlementService \<Rightarrow> bytes \<Rightarrow> SessionService option" where
  "NewSessionService access offline key =
     (if length key < 32 then None
      else Some \<lparr>ss_accessTokens = access, ss_offlineEntitlements = offline, ss_refreshHMACKey = key\<rparr>)"

definition refreshHash :: "crypto \<Rightarrow> SessionService \<Rightarrow> bytes \<Rightarrow> bytes" where
  "refreshHash cr s secret =
     hmac_sha256 cr (ss_refreshHMACKey s) (''agentera.refresh-token.v1'' @ [CHR 0x00] @ secret)"

definition newRefreshToken ::
  "crypto \<Rightarrow> SessionService \<Rightarrow> (nat \<Rightarrow> bytes option) \<Rightarrow> (bytes \<times> bytes) option" where
  "newRefreshToken cr s read =
     (case RandomBytes read 32 of
        Inl _ \<Rightarrow> None
      | Inr secret \<Rightarrow> Some (encode_url secret, refreshHash cr s secret))"

definition prepareStart ::
  "crypto \<Rightarrow> SessionService \<Rightarrow> session_env \<Rightarrow> Binding
     \<Rightarrow> session_error + Rotation \<times> bytes \<times> instant \<times> CreateRecord" where
  "prepareStart cr s e b =
     (if \<not> validBinding b then Inl ErrSessionRevoked
      else case RandomUUID (se_uuid e 0) of
        Inl _ \<Rightarrow> Inl ErrUnavailable
      | Inr sessionID \<Rightarrow>
          (case RandomUUID (se_uuid e 1) of
             Inl _ \<Rightarrow> Inl ErrUnavailable
           | Inr familyID \<Rightarrow>
               (case newRefreshToken cr s (se_read e) of
                  None \<Rightarrow> Inl ErrUnavailable
                | Some (refreshToken, hash) \<Rightarrow>
                    let issuedAt = se_now e; expiresAt = issuedAt + refreshLifetime
                    in Inr (\<lparr>ro_SessionID = sessionID, ro_FamilyID = familyID, ro_Binding = b\<rparr>,
                            refreshToken, expiresAt,
                            \<lparr>cr_SessionID = sessionID, cr_FamilyID = familyID, cr_Binding = b,
                             cr_RefreshTokenHash = hash, cr_IssuedAt = issuedAt,
                             cr_ExpiresAt = expiresAt\<rparr>))))"

text \<open>
  \<open>issueTokenSet\<close>. On failure the family is revoked if the caller asks for it; the result of that
  revocation is ignored, as in the code. Calls: the ledger insert (0) and the revocation (1).
\<close>

definition issueTokenSet ::
  "crypto \<Rightarrow> codecs \<Rightarrow> SessionService \<Rightarrow> session_env \<Rightarrow> schedule \<Rightarrow> bool \<Rightarrow> Rotation \<Rightarrow> bytes \<Rightarrow> instant \<Rightarrow> db
     \<Rightarrow> (session_error + TokenSet) \<times> db" where
  "issueTokenSet cr js s e f revokeOnFailure rotation refreshToken refreshExpiresAt d =
     (let b = ro_Binding rotation;
          failed = (\<lambda>d. (Inl ErrUnavailable,
            if revokeOnFailure
            then snd (RevokeFamily (f 1) (ro_FamilyID rotation) ''token_issuance_failed'' (se_revoke_now e) d)
            else d))
      in case access_Issue cr (c_access js) (ss_accessTokens s) (se_issue_now e)
             \<lparr>ab_UserID = b_UserID b, ab_SessionID = ro_SessionID rotation,
              ab_DeviceID = b_DeviceID b, ab_PersonalSpaceID = b_PersonalSpaceID b\<rparr> of
          Inl _ \<Rightarrow> failed d
        | Inr access \<Rightarrow>
            (case entitlement_issue cr (c_offline js) (ss_offlineEntitlements s) (f 0) (se_issue_now e)
                    (se_uuid e 2) b d of
               (Inl _, d') \<Rightarrow> failed d'
             | (Inr offline, d') \<Rightarrow>
                 (Inr \<lparr>ts_AccessToken = iat_Serialized access, ts_AccessExpiresAt = iat_ExpiresAt access,
                       ts_RefreshToken = refreshToken, ts_RefreshExpiresAt = refreshExpiresAt,
                       ts_OfflineEntitlement = id_Serialized offline, ts_OfflineExpiresAt = id_ExpiresAt offline,
                       ts_UserID = b_UserID b, ts_PersonalSpaceID = b_PersonalSpaceID b,
                       ts_DeviceID = b_DeviceID b, ts_SessionID = ro_SessionID rotation\<rparr>, d')))"

definition start_with ::
  "bool \<Rightarrow> crypto \<Rightarrow> codecs \<Rightarrow> SessionService \<Rightarrow> session_env \<Rightarrow> Binding \<Rightarrow> db \<Rightarrow> (session_error + TokenSet) \<times> db" where
  "start_with revokeOnFailure cr js s e b d =
     (case prepareStart cr s e b of
        Inl err \<Rightarrow> (Inl err, d)
      | Inr (rotation, refreshToken, expiresAt, record) \<Rightarrow>
          (case createSession (se_fails e) record d of
             (Some err, d') \<Rightarrow> (Inl err, d')
           | (None, d') \<Rightarrow>
               issueTokenSet cr js s e (later 2 (se_fails e)) revokeOnFailure rotation refreshToken expiresAt d'))"

definition Start :: "crypto \<Rightarrow> codecs \<Rightarrow> SessionService \<Rightarrow> session_env \<Rightarrow> Binding \<Rightarrow> db \<Rightarrow> (session_error + TokenSet) \<times> db" where
  "Start = start_with True"

text \<open>Inside the caller's transaction: the tables as the transaction sees them; on failure the
  caller rolls back.\<close>

definition StartInTx :: "crypto \<Rightarrow> codecs \<Rightarrow> SessionService \<Rightarrow> session_env \<Rightarrow> Binding \<Rightarrow> db \<Rightarrow> (session_error + TokenSet) \<times> db" where
  "StartInTx = start_with False"

definition Refresh ::
  "crypto \<Rightarrow> codecs \<Rightarrow> SessionService \<Rightarrow> session_env \<Rightarrow> bytes \<Rightarrow> db \<Rightarrow> (session_error + TokenSet) \<times> db" where
  "Refresh cr js s e refreshToken d =
     (case DecodeCanonicalBase64URL refreshToken of
        None \<Rightarrow> (Inl ErrSessionRevoked, d)
      | Some secret \<Rightarrow>
     if length secret \<noteq> 32 then (Inl ErrSessionRevoked, d)
     else (case newRefreshToken cr s (se_read e) of
        None \<Rightarrow> (Inl ErrUnavailable, d)
      | Some (successorToken, successorHash) \<Rightarrow>
     (case RandomUUID (se_uuid e 0) of
        Inl _ \<Rightarrow> (Inl ErrUnavailable, d)
      | Inr sessionID \<Rightarrow>
     let now = se_now e; expiresAt = now + refreshLifetime in
     (case Rotate (se_fails e) (refreshHash cr s secret)
             \<lparr>sc_SessionID = sessionID, sc_RefreshTokenHash = successorHash, sc_IssuedAt = now, sc_ExpiresAt = expiresAt\<rparr>
             now d of
        (Inl err, d') \<Rightarrow> (Inl err, d')
      | (Inr rotation, d') \<Rightarrow>
          issueTokenSet cr js s e (later 5 (se_fails e)) True rotation successorToken expiresAt d'))))"

definition Revoke_session :: "crypto \<Rightarrow> SessionService \<Rightarrow> session_env \<Rightarrow> bytes \<Rightarrow> db \<Rightarrow> session_error option \<times> db" where
  "Revoke_session cr s e refreshToken d =
     (case DecodeCanonicalBase64URL refreshToken of
        None \<Rightarrow> (Some ErrSessionRevoked, d)
      | Some secret \<Rightarrow>
          if length secret \<noteq> 32 then (Some ErrSessionRevoked, d)
          else RevokeByToken (se_fails e) (refreshHash cr s secret) (se_now e) d)"

section \<open>Access authentication\<close>

definition redisAccessStatusPrefix :: bytes where
  "redisAccessStatusPrefix = ''aera-cloud:session-status:''"

datatype AccessStatus = AccessStatusUnknown | AccessStatusActive | AccessStatusRevoked

definition status_text :: "AccessStatus \<Rightarrow> bytes" where
  "status_text st = (case st of AccessStatusUnknown \<Rightarrow> [] | AccessStatusActive \<Rightarrow> ''active''
     | AccessStatusRevoked \<Rightarrow> ''revoked'')"

definition status_key :: "uuid \<Rightarrow> bytes" where
  "status_key sessionID = redisAccessStatusPrefix @ uuid_string sessionID"

definition Cache_Read :: "bool \<Rightarrow> instant \<Rightarrow> uuid \<Rightarrow> bytes redis \<Rightarrow> AccessStatus option" where
  "Cache_Read fails now sessionID r =
     (if sessionID = Nil_uuid \<or> fails then None
      else case value_at now r (status_key sessionID) of
          None \<Rightarrow> Some AccessStatusUnknown
        | Some v \<Rightarrow>
            if v = status_text AccessStatusActive then Some AccessStatusActive
            else if v = status_text AccessStatusRevoked then Some AccessStatusRevoked
            else None)"

text \<open>\<open>SET key value PX ttl\<close>.\<close>

definition Cache_Write ::
  "bool \<Rightarrow> instant \<Rightarrow> uuid \<Rightarrow> AccessStatus \<Rightarrow> duration \<Rightarrow> bytes redis \<Rightarrow> bytes redis option" where
  "Cache_Write fails now sessionID st ttl r =
     (if sessionID = Nil_uuid \<or> ttl \<le> 0 \<or> (st \<noteq> AccessStatusActive \<and> st \<noteq> AccessStatusRevoked) \<or> fails
      then None
      else Some (r(status_key sessionID \<mapsto> (status_text st, Some (now + px_ttl ttl)))))"

text \<open>\<open>Authenticate\<close>; calls: cache read, database query, cache write. \<open>verify_now\<close> is the clock the
  signer reads, \<open>now\<close> the authenticator's, \<open>redis_now\<close> that of Redis.\<close>

definition Authenticate ::
  "crypto \<Rightarrow> access_json \<Rightarrow> AccessSigner \<Rightarrow> schedule \<Rightarrow> instant \<Rightarrow> instant \<Rightarrow> instant \<Rightarrow> bytes \<Rightarrow> db \<Rightarrow> bytes redis
     \<Rightarrow> (session_error + AccessClaims) \<times> bytes redis" where
  "Authenticate cr js signer f verify_now now redis_now serialized d r =
     (case access_Verify cr js signer verify_now serialized of
        Inl _ \<Rightarrow> (Inl ErrInvalidToken, r)
      | Inr claims \<Rightarrow>
     if \<not> now < acl_ExpiresAt claims then (Inl ErrInvalidToken, r)
     else (case Cache_Read (f 0) redis_now (ab_SessionID (acl_Binding claims)) r of
        None \<Rightarrow> (Inl ErrUnavailable, r)
      | Some status \<Rightarrow>
     if status = AccessStatusRevoked then (Inl ErrSessionRevoked, r)
     else (case AccessActive (f 1) (acl_Binding claims) now d of
        None \<Rightarrow> (Inl ErrUnavailable, r)
      | Some active \<Rightarrow>
     (case Cache_Write (f 2) redis_now (ab_SessionID (acl_Binding claims))
             (if active then AccessStatusActive else AccessStatusRevoked)
             (time_sub (acl_ExpiresAt claims) now) r of
        None \<Rightarrow> (Inl ErrUnavailable, r)
      | Some r' \<Rightarrow> if \<not> active then (Inl ErrSessionRevoked, r') else (Inr claims, r')))))"

end
