(* ===== verification/Device.thy ===== *)
theory Device
  imports Session "HOL-Library.Product_Lexorder"
begin

text \<open>
  \<open>internal/device/service.go\<close> and \<open>repository.go\<close>: devices of an account. An installation is
  pinned to its public key, and to its owner until the owner revokes it; an account has a bounded
  number of active devices; revoking a device ends its sessions and offline entitlements. Within a
  transaction the tables are those the transaction sees, and an error returns the tables the
  rollback restores.
\<close>

section \<open>Data\<close>

datatype device_error =
    ErrInvalidDevice | ErrDeviceLimitReached | ErrDeviceConflict | ErrDeviceNotFound
  | ErrAccountUnavailable | ErrDeviceUnavailable | ErrSelfRevokeReplay

record Device =
  dv_ID :: uuid
  dv_UserID :: uuid
  dv_InstallationID :: uuid
  dv_PublicKey :: bytes
  dv_DisplayName :: bytes
  dv_Platform :: bytes
  dv_AppVersion :: bytes
  dv_Status :: bytes
  dv_LastSeenAt :: instant

record PublicDevice =
  pd_ID :: uuid
  pd_DisplayName :: bytes
  pd_Platform :: bytes
  pd_AppVersion :: bytes
  pd_Status :: bytes
  pd_LastSeenAt :: instant
  pd_Current :: bool

record SelfRevokeCommand =
  src_DeviceID :: uuid
  src_InstallationID :: uuid
  src_Timestamp :: int
  src_Nonce :: bytes
  src_Signature :: bytes

record SelfRevocationRecord =
  srr_UserID :: uuid
  srr_DeviceID :: uuid
  srr_InstallationID :: uuid
  srr_NonceHash :: bytes
  srr_AuditEventID :: uuid
  srr_RevokedAt :: instant

record AuthorizeCommand =
  ac_UserID :: uuid
  ac_InstallationID :: uuid
  ac_PublicKey :: bytes
  ac_DisplayName :: bytes
  ac_Platform :: bytes
  ac_AppVersion :: bytes

record AuthorizationRecord =
  ar_DeviceID :: uuid
  ar_AuditEventID :: uuid
  ar_UserID :: uuid
  ar_InstallationID :: uuid
  ar_PublicKey :: bytes
  ar_DisplayName :: bytes
  ar_Platform :: bytes
  ar_AppVersion :: bytes
  ar_AuthorizedAt :: instant

section \<open>Validation\<close>

definition cleanDisplayName :: "bytes \<Rightarrow> bytes option" where
  "cleanDisplayName raw =
     (let v = TrimSpace raw in
      if v = [] \<or> \<not> ValidString v \<or> RuneCountInString v > 100 then None
      else if list_ex IsControl (runes v) then None else Some v)"

definition validPlatform :: "bytes \<Rightarrow> bool" where
  "validPlatform p \<longleftrightarrow> p = ''darwin'' \<or> p = ''windows'' \<or> p = ''linux''"

definition alphanumeric :: "char \<Rightarrow> bool" where
  "alphanumeric c \<longleftrightarrow> 65 \<le> code c \<and> code c \<le> 90 \<or> 97 \<le> code c \<and> code c \<le> 122 \<or> 48 \<le> code c \<and> code c \<le> 57"

text \<open>The regular expression \<open>^[A-Za-z0-9][A-Za-z0-9._+-]{0,63}$\<close>.\<close>

fun versionPattern :: "bytes \<Rightarrow> bool" where
  "versionPattern [] = False"
| "versionPattern (c # s) \<longleftrightarrow> alphanumeric c \<and> length s \<le> 63
     \<and> list_all (\<lambda>x. alphanumeric x \<or> x \<in> set ''._+-'') s"

section \<open>Repository\<close>

definition device_of :: "device_row \<Rightarrow> Device" where
  "device_of v = \<lparr>dv_ID = d_id v, dv_UserID = d_user_id v, dv_InstallationID = d_installation_id v,
     dv_PublicKey = d_public_key v, dv_DisplayName = d_display_name v, dv_Platform = d_platform v,
     dv_AppVersion = d_app_version v, dv_Status = d_status v, dv_LastSeenAt = d_last_seen_at v\<rparr>"

definition active_count :: "uuid \<Rightarrow> db \<Rightarrow> nat" where
  "active_count userID d = length (filter (\<lambda>v. d_user_id v = userID \<and> d_status v = ''active'') (devices d))"

definition hasCapacity :: "bool \<Rightarrow> uuid \<Rightarrow> int \<Rightarrow> db \<Rightarrow> device_error + bool" where
  "hasCapacity fails userID activeLimit d =
     (if fails then Inl ErrDeviceUnavailable else Inr (int (active_count userID d) < activeLimit))"

definition findByInstallationForUpdate :: "bool \<Rightarrow> uuid \<Rightarrow> db \<Rightarrow> device_error + device_row option" where
  "findByInstallationForUpdate fails installationID d =
     (if fails then Inl ErrDeviceUnavailable
      else Inr (find (\<lambda>v. d_installation_id v = installationID) (devices d)))"

definition hasOwnerBoundBackupState :: "bool \<Rightarrow> uuid \<Rightarrow> db \<Rightarrow> device_error + bool" where
  "hasOwnerBoundBackupState fails deviceID d =
     (if fails then Inl ErrDeviceUnavailable
      else Inr (exists_row (\<lambda>x. bd_device_id x = deviceID) (backup_devices d)
              \<or> exists_row (\<lambda>x. eb_source_device_id x = deviceID) (encrypted_profile_backups d)))"

definition clearDesktopControlState :: "schedule \<Rightarrow> uuid \<Rightarrow> db \<Rightarrow> device_error + db" where
  "clearDesktopControlState f deviceID d =
     (if f 0 \<or> f 1 then Inl ErrDeviceUnavailable
      else Inr (d\<lparr>desktop_control_commands := delete_where (\<lambda>x. dc_device_id x = deviceID) (desktop_control_commands d),
                  desktop_control_instances := delete_where (\<lambda>x. di_device_id x = deviceID) (desktop_control_instances d)\<rparr>))"

definition insertDeviceAudit ::
  "bool \<Rightarrow> uuid \<Rightarrow> bytes \<Rightarrow> uuid \<Rightarrow> uuid \<Rightarrow> instant \<Rightarrow> db \<Rightarrow> db option" where
  "insertDeviceAudit fails eventID eventType userID deviceID createdAt d =
     (if fails then None
      else insert_audit \<lparr>a_id = eventID, a_event_type = eventType, a_actor_user_id = Some userID,
             a_device_id = Some deviceID, a_object_type = Some ''device'', a_object_id = Some deviceID,
             a_outcome = ''success'', a_reason_code = None,
             a_request_id = None, a_ip_hmac = None, a_metadata = [], a_created_at = createdAt, a_organization_id = None, a_operator_identity = None\<rparr> d)"

definition classifyDeviceWriteError :: "device_conflict \<Rightarrow> device_error" where
  "classifyDeviceWriteError e = (case e of DuplicateInstallation \<Rightarrow> ErrDeviceConflict
     | DuplicatePublicKey \<Rightarrow> ErrDeviceConflict | OtherViolation \<Rightarrow> ErrDeviceUnavailable)"

text \<open>The flag says whether the violated constraint is the primary key of the nonces.\<close>

definition classifySelfRevokeWriteError :: "bool \<Rightarrow> device_error" where
  "classifySelfRevokeWriteError duplicate = (if duplicate then ErrSelfRevokeReplay else ErrDeviceUnavailable)"

text \<open>The lock and the account check \<open>AuthorizeInTx\<close> and \<open>Revoke\<close> begin with; calls 0 and 1.\<close>

definition lock_active_account :: "schedule \<Rightarrow> uuid \<Rightarrow> db \<Rightarrow> device_error option" where
  "lock_active_account f userID d =
     (if f 0 then Some ErrDeviceUnavailable
      else if f 1 then Some ErrDeviceUnavailable
      else case find (\<lambda>u. u_id u = userID) (users d) of
          None \<Rightarrow> Some ErrAccountUnavailable
        | Some u \<Rightarrow> if u_status u \<noteq> ''active'' then Some ErrAccountUnavailable else None)"

definition reauthorized :: "AuthorizationRecord \<Rightarrow> device_row \<Rightarrow> device_row" where
  "reauthorized r v = v\<lparr>d_user_id := ar_UserID r, d_display_name := ar_DisplayName r, d_platform := ar_Platform r,
     d_app_version := ar_AppVersion r, d_status := ''active'', d_last_seen_at := ar_AuthorizedAt r,
     d_revoked_at := None\<rparr>"

definition new_device :: "AuthorizationRecord \<Rightarrow> device_row" where
  "new_device r = \<lparr>d_id = ar_DeviceID r, d_user_id = ar_UserID r, d_installation_id = ar_InstallationID r,
     d_public_key = ar_PublicKey r, d_display_name = ar_DisplayName r, d_platform = ar_Platform r,
     d_app_version = ar_AppVersion r, d_status = ''active'', d_last_seen_at = ar_AuthorizedAt r,
     d_revoked_at = None\<rparr>"

text \<open>Moving a device between accounts: no backup state may remain and the desktop control state of
  the former owner is deleted.\<close>

definition release_former_owner ::
  "schedule \<Rightarrow> AuthorizationRecord \<Rightarrow> device_row \<Rightarrow> db \<Rightarrow> device_error + db" where
  "release_former_owner f r existing d =
     (if d_user_id existing = ar_UserID r then Inr d
      else case hasOwnerBoundBackupState (f 0) (d_id existing) d of
          Inl e \<Rightarrow> Inl e
        | Inr hasBackupState \<Rightarrow>
            if hasBackupState then Inl ErrDeviceConflict
            else clearDesktopControlState (later 1 f) (d_id existing) d)"

definition reauthorize ::
  "schedule \<Rightarrow> AuthorizationRecord \<Rightarrow> int \<Rightarrow> device_row \<Rightarrow> db \<Rightarrow> (device_error + Device) \<times> db" where
  "reauthorize f r activeLimit existing d =
     (if d_public_key existing \<noteq> ar_PublicKey r then (Inl ErrDeviceConflict, d)
      else if d_user_id existing \<noteq> ar_UserID r \<and> d_status existing \<noteq> ''revoked'' then (Inl ErrDeviceConflict, d)
      else case (if d_status existing \<noteq> ''active'' then hasCapacity (f 0) (ar_UserID r) activeLimit d
                 else Inr True) of
        Inl e \<Rightarrow> (Inl e, d)
      | Inr allowed \<Rightarrow>
          if \<not> allowed then (Inl ErrDeviceLimitReached, d)
          else (case release_former_owner (later 1 f) r existing d of
              Inl e \<Rightarrow> (Inl e, d)
            | Inr d1 \<Rightarrow>
                if f 4 then (Inl ErrDeviceUnavailable, d)
                else let d2 = d1\<lparr>devices := update_where (\<lambda>v. d_id v = d_id existing) (reauthorized r) (devices d1)\<rparr>
                     in (case insertDeviceAudit (f 5) (ar_AuditEventID r) ''device_authorized'' (ar_UserID r)
                               (d_id existing) (ar_AuthorizedAt r) d2 of
                           None \<Rightarrow> (Inl ErrDeviceUnavailable, d)
                         | Some d3 \<Rightarrow> (Inr (device_of (reauthorized r existing)), d3))))"

definition AuthorizeInTx ::
  "schedule \<Rightarrow> AuthorizationRecord \<Rightarrow> int \<Rightarrow> db \<Rightarrow> (device_error + Device) \<times> db" where
  "AuthorizeInTx f r activeLimit d =
     (case lock_active_account f (ar_UserID r) d of
        Some e \<Rightarrow> (Inl e, d)
      | None \<Rightarrow>
          (case findByInstallationForUpdate (f 2) (ar_InstallationID r) d of
             Inl e \<Rightarrow> (Inl e, d)
           | Inr (Some existing) \<Rightarrow> reauthorize (later 3 f) r activeLimit existing d
           | Inr None \<Rightarrow>
               (case hasCapacity (f 3) (ar_UserID r) activeLimit d of
                  Inl e \<Rightarrow> (Inl e, d)
                | Inr allowed \<Rightarrow>
                    if \<not> allowed then (Inl ErrDeviceLimitReached, d)
                    else if f 4 then (Inl ErrDeviceUnavailable, d)
                    else (case insert_device (new_device r) d of
                        Inl e \<Rightarrow> (Inl (classifyDeviceWriteError e), d)
                      | Inr d1 \<Rightarrow>
                          (case insertDeviceAudit (f 5) (ar_AuditEventID r) ''device_authorized'' (ar_UserID r)
                                  (ar_DeviceID r) (ar_AuthorizedAt r) d1 of
                             None \<Rightarrow> (Inl ErrDeviceUnavailable, d)
                           | Some d2 \<Rightarrow> (Inr (device_of (new_device r)), d2))))))"

definition Authorize ::
  "schedule \<Rightarrow> AuthorizationRecord \<Rightarrow> int \<Rightarrow> db \<Rightarrow> (device_error + Device) \<times> db" where
  "Authorize f r activeLimit d =
     (if f 0 then (Inl ErrDeviceUnavailable, d)
      else case AuthorizeInTx (later 2 f) r activeLimit d of
          (Inl e, _) \<Rightarrow> (Inl e, d)
        | (Inr created, d') \<Rightarrow> if f 1 then (Inl ErrDeviceUnavailable, d) else (Inr created, d'))"

definition mark_revoked :: "instant \<Rightarrow> device_row \<Rightarrow> device_row" where
  "mark_revoked at v = v\<lparr>d_status := ''revoked'', d_revoked_at := Some at\<rparr>"

definition Revoke_device :: "schedule \<Rightarrow> uuid \<Rightarrow> uuid \<Rightarrow> uuid \<Rightarrow> instant \<Rightarrow> db \<Rightarrow> device_error option \<times> db" where
  "Revoke_device f userID deviceID auditEventID at d =
     (if f 0 then (Some ErrDeviceUnavailable, d)
      else case lock_active_account (later 1 f) userID d of
        Some e \<Rightarrow> (Some e, d)
      | None \<Rightarrow>
          let target = (\<lambda>v. d_id v = deviceID \<and> d_user_id v = userID \<and> d_status v \<noteq> ''revoked'') in
          if f 3 then (Some ErrDeviceUnavailable, d)
          else if length (filter target (devices d)) \<noteq> 1 then (Some ErrDeviceNotFound, d)
          else if f 4 \<or> f 5 then (Some ErrDeviceUnavailable, d)
          else let d1 = d\<lparr>devices := update_where target (mark_revoked at) (devices d),
                 sessions := update_where (\<lambda>s. s_device_id s = deviceID \<and> s_revoked_at s = None)
                   (\<lambda>s. s\<lparr>s_revoked_at := Some at, s_revoked_reason := Some ''device_revoked''\<rparr>) (sessions d),
                 issuances := update_where (\<lambda>i. i_device_id i = deviceID)
                   (\<lambda>i. i\<lparr>i_revoked_at := coalesce (i_revoked_at i) at\<rparr>) (issuances d)\<rparr>
               in (case insertDeviceAudit (f 6) auditEventID ''device_revoked'' userID deviceID at d1 of
                     None \<Rightarrow> (Some ErrDeviceUnavailable, d)
                   | Some d2 \<Rightarrow> if f 7 then (Some ErrDeviceUnavailable, d) else (None, d2)))"

definition List_devices :: "schedule \<Rightarrow> uuid \<Rightarrow> db \<Rightarrow> device_error + Device list" where
  "List_devices f userID d =
     (if userID = Nil_uuid then Inl ErrInvalidDevice
      else if f 0 \<or> f 1 then Inl ErrDeviceUnavailable
      else case find (\<lambda>u. u_id u = userID) (users d) of
          None \<Rightarrow> Inl ErrAccountUnavailable
        | Some u \<Rightarrow>
            if u_status u \<noteq> ''active'' then Inl ErrAccountUnavailable
            else if f 2 \<or> f 3 \<or> f 4 then Inl ErrDeviceUnavailable
            else Inr (map device_of (sort_key (\<lambda>v. (- d_last_seen_at v, d_id v))
                   (filter (\<lambda>v. d_user_id v = userID \<and> d_status v = ''active'') (devices d)))))"

definition FindForSelfRevoke :: "bool \<Rightarrow> uuid \<Rightarrow> db \<Rightarrow> device_error + Device" where
  "FindForSelfRevoke fails deviceID d =
     (if deviceID = Nil_uuid then Inl ErrInvalidDevice
      else if fails then Inl ErrDeviceUnavailable
      else case find (\<lambda>v. d_id v = deviceID) (devices d) of
          None \<Rightarrow> Inl ErrDeviceNotFound
        | Some v \<Rightarrow> Inr (device_of v))"

text \<open>\<open>time.Time{}\<close>, the instant whose \<open>IsZero\<close> holds.\<close>

definition zero_time :: instant where
  "zero_time = -62135596800 * second"

definition SelfRevoke_record :: "schedule \<Rightarrow> SelfRevocationRecord \<Rightarrow> db \<Rightarrow> device_error option \<times> db" where
  "SelfRevoke_record f r d =
     (if srr_UserID r = Nil_uuid \<or> srr_DeviceID r = Nil_uuid \<or> srr_InstallationID r = Nil_uuid
         \<or> length (srr_NonceHash r) \<noteq> 32 \<or> srr_AuditEventID r = Nil_uuid \<or> srr_RevokedAt r = zero_time
      then (Some ErrInvalidDevice, d)
      else if f 0 \<or> f 1 then (Some ErrDeviceUnavailable, d)
      else case find (\<lambda>v. d_id v = srr_DeviceID r) (devices d) of
        None \<Rightarrow> (Some ErrDeviceNotFound, d)
      | Some v \<Rightarrow>
          if f 2 then (Some ErrDeviceUnavailable, d)
          else if exists_row (\<lambda>n. n_device_id n = srr_DeviceID r \<and> n_nonce_hash n = srr_NonceHash r)
                    (self_revocation_nonces d)
          then (Some ErrSelfRevokeReplay, d)
          else if d_user_id v \<noteq> srr_UserID r \<or> d_installation_id v \<noteq> srr_InstallationID r \<or> d_status v \<noteq> ''active''
          then (Some ErrDeviceNotFound, d)
          else if f 3 then (Some ErrDeviceUnavailable, d)
          else (case insert_nonce \<lparr>n_device_id = srr_DeviceID r, n_nonce_hash = srr_NonceHash r,
                       n_used_at = srr_RevokedAt r\<rparr> d of
              None \<Rightarrow> (Some (classifySelfRevokeWriteError (exists_row (\<lambda>n. n_device_id n = srr_DeviceID r
                       \<and> n_nonce_hash n = srr_NonceHash r) (self_revocation_nonces d))), d)
            | Some d1 \<Rightarrow>
                if f 4 \<or> f 5 \<or> f 6 then (Some ErrDeviceUnavailable, d)
                else let at = srr_RevokedAt r;
                  d2 = d1\<lparr>devices := update_where (\<lambda>v. d_id v = srr_DeviceID r) (mark_revoked at) (devices d1),
                    sessions := update_where (\<lambda>s. s_device_id s = srr_DeviceID r)
                      (\<lambda>s. s\<lparr>s_revoked_at := coalesce (s_revoked_at s) at,
                             s_revoked_reason := coalesce (s_revoked_reason s) ''device_self_revoked''\<rparr>) (sessions d1),
                    issuances := update_where (\<lambda>i. i_device_id i = srr_DeviceID r)
                      (\<lambda>i. i\<lparr>i_revoked_at := coalesce (i_revoked_at i) at\<rparr>) (issuances d1)\<rparr>
                in (case insertDeviceAudit (f 7) (srr_AuditEventID r) ''device_self_revoked'' (srr_UserID r)
                          (srr_DeviceID r) at d2 of
                      None \<Rightarrow> (Some ErrDeviceUnavailable, d)
                    | Some d3 \<Rightarrow> if f 8 then (Some ErrDeviceUnavailable, d) else (None, d3))))"

section \<open>Service\<close>

record DeviceService =
  ds_activeLimit :: int

definition NewDeviceService :: "int \<Rightarrow> DeviceService option" where
  "NewDeviceService activeLimit =
     (if activeLimit \<le> 0 \<or> activeLimit > 20 then None else Some \<lparr>ds_activeLimit = activeLimit\<rparr>)"

text \<open>Random identifiers are draws 0 (device) and 1 (audit event).\<close>

definition authorizationRecord ::
  "(nat \<Rightarrow> uuid option) \<Rightarrow> instant \<Rightarrow> AuthorizeCommand \<Rightarrow> device_error + AuthorizationRecord" where
  "authorizationRecord draw now c =
     (case cleanDisplayName (ac_DisplayName c) of
        None \<Rightarrow> Inl ErrInvalidDevice
      | Some displayName \<Rightarrow>
          if ac_UserID c = Nil_uuid \<or> ac_InstallationID c = Nil_uuid \<or> length (ac_PublicKey c) \<noteq> 32
             \<or> \<not> validPlatform (ac_Platform c) \<or> \<not> versionPattern (ac_AppVersion c)
          then Inl ErrInvalidDevice
          else (case RandomUUID (draw 0) of
              Inl _ \<Rightarrow> Inl ErrDeviceUnavailable
            | Inr deviceID \<Rightarrow>
                (case RandomUUID (draw 1) of
                   Inl _ \<Rightarrow> Inl ErrDeviceUnavailable
                 | Inr auditEventID \<Rightarrow>
                     Inr \<lparr>ar_DeviceID = deviceID, ar_AuditEventID = auditEventID, ar_UserID = ac_UserID c,
                          ar_InstallationID = ac_InstallationID c, ar_PublicKey = ac_PublicKey c,
                          ar_DisplayName = displayName, ar_Platform = ac_Platform c,
                          ar_AppVersion = ac_AppVersion c, ar_AuthorizedAt = now\<rparr>)))"

definition service_Authorize ::
  "DeviceService \<Rightarrow> (nat \<Rightarrow> uuid option) \<Rightarrow> schedule \<Rightarrow> instant \<Rightarrow> AuthorizeCommand \<Rightarrow> db
     \<Rightarrow> (device_error + Device) \<times> db" where
  "service_Authorize s draw f now c d =
     (case authorizationRecord draw now c of
        Inl e \<Rightarrow> (Inl e, d)
      | Inr r \<Rightarrow> Authorize f r (ds_activeLimit s) d)"

definition service_AuthorizeInTx ::
  "DeviceService \<Rightarrow> (nat \<Rightarrow> uuid option) \<Rightarrow> schedule \<Rightarrow> instant \<Rightarrow> AuthorizeCommand \<Rightarrow> db
     \<Rightarrow> (device_error + Device) \<times> db" where
  "service_AuthorizeInTx s draw f now c d =
     (case authorizationRecord draw now c of
        Inl e \<Rightarrow> (Inl e, d)
      | Inr r \<Rightarrow> AuthorizeInTx f r (ds_activeLimit s) d)"

definition service_Revoke ::
  "uuid option \<Rightarrow> schedule \<Rightarrow> instant \<Rightarrow> uuid \<Rightarrow> uuid \<Rightarrow> db \<Rightarrow> device_error option \<times> db" where
  "service_Revoke draw f now userID deviceID d =
     (if userID = Nil_uuid \<or> deviceID = Nil_uuid then (Some ErrInvalidDevice, d)
      else case RandomUUID draw of
          Inl _ \<Rightarrow> (Some ErrDeviceUnavailable, d)
        | Inr auditEventID \<Rightarrow> Revoke_device f userID deviceID auditEventID now d)"

definition service_List :: "schedule \<Rightarrow> uuid \<Rightarrow> uuid \<Rightarrow> db \<Rightarrow> device_error + PublicDevice list" where
  "service_List f userID currentDeviceID d =
     (if userID = Nil_uuid then Inl ErrInvalidDevice
      else case List_devices f userID d of
          Inl e \<Rightarrow> Inl e
        | Inr found \<Rightarrow> Inr (map (\<lambda>v. \<lparr>pd_ID = dv_ID v, pd_DisplayName = dv_DisplayName v,
            pd_Platform = dv_Platform v, pd_AppVersion = dv_AppVersion v, pd_Status = dv_Status v,
            pd_LastSeenAt = dv_LastSeenAt v, pd_Current = (dv_ID v = currentDeviceID)\<rparr>)
            (filter (\<lambda>v. dv_Status v = ''active'') found)))"

definition selfRevokeDigest :: "crypto \<Rightarrow> SelfRevokeCommand \<Rightarrow> bytes" where
  "selfRevokeDigest cr c =
     sha256 cr (''agentera-self-revoke'' @ [CHR 0x00] @ uuid_string (src_DeviceID c) @ [CHR 0x00]
       @ uuid_string (src_InstallationID c) @ [CHR 0x00] @ itoa (src_Timestamp c) @ [CHR 0x00] @ src_Nonce c)"

definition selfRevokeNonceHash :: "crypto \<Rightarrow> bytes \<Rightarrow> bytes" where
  "selfRevokeNonceHash cr nonce = sha256 cr (''agentera-self-revoke-nonce.v1'' @ [CHR 0x00] @ nonce)"

definition SelfRevoke ::
  "crypto \<Rightarrow> uuid option \<Rightarrow> schedule \<Rightarrow> instant \<Rightarrow> SelfRevokeCommand \<Rightarrow> db \<Rightarrow> device_error option \<times> db" where
  "SelfRevoke cr draw f now c d =
     (if src_DeviceID c = Nil_uuid \<or> src_InstallationID c = Nil_uuid \<or> src_Timestamp c \<le> 0
         \<or> length (src_Nonce c) \<noteq> 32 \<or> length (src_Signature c) \<noteq> 64
      then (Some ErrInvalidDevice, d)
      else let delta = time_sub now (of_unix (src_Timestamp c)) in
      if delta < -2 * minute \<or> delta > 2 * minute then (Some ErrInvalidDevice, d)
      else case FindForSelfRevoke (f 0) (src_DeviceID c) d of
        Inl e \<Rightarrow> (Some e, d)
      | Inr found \<Rightarrow>
          if dv_ID found \<noteq> src_DeviceID c \<or> dv_InstallationID found \<noteq> src_InstallationID c
             \<or> length (dv_PublicKey found) \<noteq> 32
             \<or> \<not> ed25519_verify cr (dv_PublicKey found) (selfRevokeDigest cr c) (src_Signature c)
          then (Some ErrInvalidDevice, d)
          else (case RandomUUID draw of
              Inl _ \<Rightarrow> (Some ErrDeviceUnavailable, d)
            | Inr auditEventID \<Rightarrow>
                SelfRevoke_record (later 1 f)
                  \<lparr>srr_UserID = dv_UserID found, srr_DeviceID = dv_ID found,
                   srr_InstallationID = dv_InstallationID found,
                   srr_NonceHash = selfRevokeNonceHash cr (src_Nonce c), srr_AuditEventID = auditEventID,
                   srr_RevokedAt = now\<rparr> d))"

end
