(* ===== verification/SessionSafety.thy ===== *)
theory SessionSafety
  imports Session
begin

text \<open>
  The properties of \<open>internal/session\<close>. \<open>session_step\<close> runs one repository operation; runs of it
  are arbitrary interleavings of session creation, token rotation and revocation.
\<close>

section \<open>Rotation\<close>

lemma rotate_join_Some:
  assumes "rotate_join hash d = Some (s, u, v, p)"
  shows "s \<in> set (sessions d)" "s_refresh_token_hash s = hash" "u \<in> set (users d)" "u_id u = s_user_id s"
    "v \<in> set (devices d)" "d_id v = s_device_id s" "p \<in> set (personal_spaces d)" "ps_owner_user_id p = s_user_id s"
  using assms by (auto simp: rotate_join_def split: option.splits dest!: find_Some_in)

lemma Rotate_cases:
  assumes "Rotate f hash n now d = (r, d')"
  obtains (refused) err where "r = Inl err" "d' = d"
  | (replay) s where "s \<in> set (sessions d)" "s_refresh_token_hash s = hash" "s_replaced_at s \<noteq> None"
      "r = Inl ErrSessionRevoked" "d' = replay_family s now d"
  | (invalid) s u v p where "rotate_join hash d = Some (s, u, v, p)" "s_replaced_at s = None"
      "s_revoked_at s \<noteq> None \<or> \<not> now < s_expires_at s \<or> u_status u \<noteq> ''active'' \<or> d_status v \<noteq> ''active''"
      "r = Inl (account_state_error (u_status u))" "d' = revoke_family (s_family_id s) ''session_invalid'' now d"
  | (rotated) s u v p d1 where "rotate_join hash d = Some (s, u, v, p)" "s_replaced_at s = None"
      "s_revoked_at s = None" "now < s_expires_at s" "u_status u = ''active''" "d_status v = ''active''"
      "insert_session (successor_session s n) d = Some d1"
      "d' = d1\<lparr>sessions := update_where (\<lambda>r. s_id r = s_id s) (\<lambda>r. r\<lparr>s_replaced_at := Some now\<rparr>) (sessions d1)\<rparr>"
      "r = Inr \<lparr>ro_SessionID = sc_SessionID n, ro_FamilyID = s_family_id s,
        ro_Binding = \<lparr>b_UserID = s_user_id s, b_DeviceID = s_device_id s,
          b_InstallationID = d_installation_id v, b_PersonalSpaceID = ps_id p\<rparr>\<rparr>"
proof (cases "rotate_join hash d")
  case None
  with assms have "d' = d \<and> isl r" by (auto simp: Rotate_def split: if_splits)
  then show thesis using refused by (cases r) auto
next
  case (Some x)
  obtain s u v p where x: "x = (s, u, v, p)" by (cases x)
  note join = Some [unfolded x]
  show thesis
  proof (cases "d' = d \<and> isl r")
    case True
    then show thesis using refused by (cases r) auto
  next
    case False
    with assms join have ok: "\<not> f 0 \<and> \<not> f 1 \<and> \<not> f 2"
      by (auto simp: Rotate_def split: if_splits)
    show thesis
    proof (cases "s_replaced_at s")
      case (Some t)
      with assms join ok False show thesis
        by (intro replay [of s]) (auto simp: Rotate_def rotate_join_Some [OF join] split: if_splits)
    next
      case None
      show thesis
      proof (cases "s_revoked_at s \<noteq> None \<or> \<not> now < s_expires_at s \<or> u_status u \<noteq> ''active''
          \<or> d_status v \<noteq> ''active''")
        case True
        with assms join ok False None show thesis
          by (intro invalid [OF join]) (auto simp: Rotate_def split: if_splits)
      next
        case live: False
        then have live': "s_revoked_at s = None" "now < s_expires_at s" "u_status u = ''active''"
          "d_status v = ''active''" by auto
        obtain d1 where d1: "insert_session (successor_session s n) d = Some d1"
          using assms join ok False None live' by (auto simp: Rotate_def split: if_splits option.splits)
        show thesis
          using assms join ok False None live' d1
          by (intro rotated [OF join None live' d1]) (auto simp: Rotate_def split: if_splits)
      qed
    qed
  qed
qed

section \<open>Keys\<close>

lemma sessions_update_keys:
  assumes "\<And>r. P r \<Longrightarrow> s_id (g r) = s_id r" "\<And>r. P r \<Longrightarrow> s_refresh_token_hash (g r) = s_refresh_token_hash r"
  shows "db_keys (d\<lparr>sessions := update_where P g (sessions d)\<rparr>) = db_keys d"
  using map_update_where [of P s_id g "sessions d"] map_update_where [of P s_refresh_token_hash g "sessions d"] assms
  by (simp add: db_keys_def)

lemma revocations_keys [simp]:
  "db_keys (replay_family s now d) = db_keys d" "db_keys (revoke_family fam reason now d) = db_keys d"
  unfolding replay_family_def revoke_family_def by (rule sessions_update_keys; simp)+

lemma Rotate_keys:
  assumes "db_keys d" "Rotate f hash n now d = (r, d')"
  shows "db_keys d'"
  using assms(2)
proof (cases rule: Rotate_cases)
  case (rotated s u v p d1)
  have "db_keys d1" by (rule insert_session_keys [OF assms(1) rotated(7)])
  then show ?thesis unfolding rotated(8) by (subst sessions_update_keys) simp_all
qed (use assms(1) in simp_all)

lemma createSession_cases:
  assumes "createSession f r d = (x, d')"
  obtains (refused) err where "x = Some err" "d' = d"
  | (created) "x = None" "insert_session (new_session r) d = Some d'" "binding_active (cr_Binding r) d"
  using assms that by (auto simp: createSession_def split: if_splits option.splits)

section \<open>Runs\<close>

datatype session_op =
    Op_Create schedule CreateRecord
  | Op_Rotate schedule bytes SuccessorRecord instant
  | Op_RevokeFamily bool uuid bytes instant
  | Op_Logout schedule bytes instant

text \<open>The result is \<open>None\<close> on success.\<close>

fun session_step :: "session_op \<Rightarrow> db \<Rightarrow> session_error option \<times> db" where
  "session_step (Op_Create f r) d = createSession f r d"
| "session_step (Op_Rotate f hash n now) d =
     (case Rotate f hash n now d of (Inl e, d') \<Rightarrow> (Some e, d') | (Inr _, d') \<Rightarrow> (None, d'))"
| "session_step (Op_RevokeFamily fails fam reason now) d = RevokeFamily fails fam reason now d"
| "session_step (Op_Logout f hash now) d = RevokeByToken f hash now d"

text \<open>What a step does to the rows that exist: only the revocation and replacement columns move, and
  they move only from absent to present.\<close>

definition row_follows :: "session_row \<Rightarrow> session_row \<Rightarrow> bool" where
  "row_follows r r' \<longleftrightarrow> s_id r' = s_id r \<and> s_user_id r' = s_user_id r \<and> s_device_id r' = s_device_id r
     \<and> s_family_id r' = s_family_id r \<and> s_refresh_token_hash r' = s_refresh_token_hash r
     \<and> s_expires_at r' = s_expires_at r
     \<and> (s_replaced_at r \<noteq> None \<longrightarrow> s_replaced_at r' \<noteq> None)
     \<and> (s_revoked_at r \<noteq> None \<longrightarrow> s_revoked_at r' \<noteq> None)"

definition db_follows :: "db \<Rightarrow> db \<Rightarrow> bool" where
  "db_follows d d' \<longleftrightarrow> users d' = users d \<and> devices d' = devices d \<and> personal_spaces d' = personal_spaces d
     \<and> (\<forall>r\<in>set (sessions d). \<exists>r'\<in>set (sessions d'). row_follows r r')"

lemma row_follows_refl [simp]: "row_follows r r"
  by (simp add: row_follows_def)

lemma db_follows_refl [simp]: "db_follows d d"
  by (auto simp: db_follows_def intro: row_follows_refl)

lemma row_follows_trans: "row_follows a b \<Longrightarrow> row_follows b c \<Longrightarrow> row_follows a c"
  by (auto simp: row_follows_def)

lemma db_follows_trans: "db_follows a b \<Longrightarrow> db_follows b c \<Longrightarrow> db_follows a c"
  unfolding db_follows_def by (simp, meson row_follows_trans)

lemma update_fwd:
  assumes "\<And>r. P r \<Longrightarrow> row_follows r (g r)" "r \<in> set t"
  shows "\<exists>r'\<in>set (update_where P g t). row_follows r r'"
  by (rule bexI [of _ "if P r then g r else r"]) (use assms in \<open>auto simp: update_where_def\<close>)

lemma update_bwd:
  assumes "\<And>r. P r \<Longrightarrow> row_follows r (g r)" "r' \<in> set (update_where P g t)"
  shows "\<exists>r\<in>set t. row_follows r r'"
proof -
  obtain r where "r \<in> set t" "r' = (if P r then g r else r)" using assms(2) by (auto simp: update_where_def)
  then show ?thesis using assms(1) by (intro bexI [of _ r]) auto
qed

lemma replay_rows: "row_follows r (r\<lparr>s_revoked_at := coalesce (s_revoked_at r) now,
    s_revoked_reason := x, s_replay_detected_at := y\<rparr>)"
  "row_follows r (r\<lparr>s_revoked_at := coalesce (s_revoked_at r) now, s_revoked_reason := x\<rparr>)"
  "row_follows r (r\<lparr>s_replaced_at := Some now\<rparr>)"
  by (simp_all add: row_follows_def)

lemmas family_defs = replay_family_def revoke_family_def

lemma family_follows: "db_follows d (replay_family s now d)" "db_follows d (revoke_family fam reason now d)"
  unfolding family_defs db_follows_def by (auto intro!: update_fwd simp: replay_rows)

lemma family_rows:
  "r' \<in> set (sessions (replay_family s now d)) \<Longrightarrow> \<exists>r\<in>set (sessions d). row_follows r r'"
  "r' \<in> set (sessions (revoke_family fam reason now d)) \<Longrightarrow> \<exists>r\<in>set (sessions d). row_follows r r'"
  unfolding family_defs by (simp, erule update_bwd [rotated], simp add: replay_rows)+

lemma update_hits:
  assumes "r' \<in> set (update_where P g t)" "\<And>r. s_family_id (g r) = s_family_id r" "\<And>r. P r \<longleftrightarrow> s_family_id r = fam"
    "s_family_id r' = fam"
  obtains r where "r' = g r"
proof -
  obtain r where "r' = (if P r then g r else r)" using assms(1) unfolding set_update_where by blast
  with assms(2-4) that show thesis by (cases "P r") auto
qed

lemma family_revoked:
  "r \<in> set (sessions (replay_family s now d)) \<Longrightarrow> s_family_id r = s_family_id s \<Longrightarrow> s_revoked_at r \<noteq> None"
  "r \<in> set (sessions (revoke_family fam reason now d)) \<Longrightarrow> s_family_id r = fam \<Longrightarrow> s_revoked_at r \<noteq> None"
  unfolding family_defs by (simp, erule update_hits; simp)+

text \<open>
  One step: the rows that existed follow on, and a row that did not exist comes from a creation or
  from the rotation of a live session of the same family.
\<close>

lemma rotated_rows:
  assumes "insert_session (successor_session s n) d = Some d1"
    "d' = d1\<lparr>sessions := update_where (\<lambda>r. s_id r = s_id s) (\<lambda>r. r\<lparr>s_replaced_at := Some now\<rparr>) (sessions d1)\<rparr>"
  shows "db_follows d d'"
    and "r' \<in> set (sessions d') \<Longrightarrow> (\<exists>r\<in>set (sessions d). row_follows r r') \<or> s_family_id r' = s_family_id s"
proof -
  note d1 = insert_session_Some(1) [OF assms(1)]
  have rows: "sessions d' = update_where (\<lambda>r. s_id r = s_id s) (\<lambda>r. r\<lparr>s_replaced_at := Some now\<rparr>)
      (sessions d @ [successor_session s n])" using assms(2) d1 by simp
  have "\<exists>r'\<in>set (sessions d'). row_follows r r'" if "r \<in> set (sessions d)" for r
    unfolding rows by (rule update_fwd) (use that in \<open>simp_all add: replay_rows\<close>)
  then show "db_follows d d'" using assms(2) d1 by (simp add: db_follows_def)
  assume "r' \<in> set (sessions d')"
  then show "(\<exists>r\<in>set (sessions d). row_follows r r') \<or> s_family_id r' = s_family_id s"
    by (auto simp: rows successor_session_def replay_rows dest!: update_bwd [rotated] split: if_splits)
qed

lemma session_step_follows:
  assumes "session_step op d = (x, d')"
  shows "db_follows d d'"
proof (cases op)
  case (Op_Create f r)
  with assms have "createSession f r d = (x, d')" by simp
  then show ?thesis
  proof (cases rule: createSession_cases)
    case created
    show ?thesis using insert_session_Some(1) [OF created(2)]
      by (auto simp: db_follows_def intro: row_follows_refl)
  qed simp
next
  case (Op_Rotate f hash n now)
  obtain r where "Rotate f hash n now d = (r, d')"
    using assms Op_Rotate by (auto split: prod.splits sum.splits)
  then show ?thesis
    by (cases rule: Rotate_cases) (auto intro: family_follows rotated_rows(1))
next
  case (Op_RevokeFamily fails fam reason now)
  with assms show ?thesis by (auto simp: RevokeFamily_def family_follows split: if_splits)
next
  case (Op_Logout f hash now)
  with assms show ?thesis by (auto simp: RevokeByToken_def family_follows split: if_splits option.splits)
qed

lemma run_follows:
  "run_all session_step ops d = (rs, d') \<Longrightarrow> db_follows d d'"
proof (induction ops arbitrary: d rs)
  case Nil
  then show ?case by simp
next
  case (Cons op ops)
  then obtain x d1 rs1 where "session_step op d = (x, d1)" "run_all session_step ops d1 = (rs1, d')"
    by (auto split: prod.splits)
  with Cons.IH session_step_follows db_follows_trans show ?case by blast
qed

lemma session_step_keys:
  assumes "db_keys d" "session_step op d = (x, d')"
  shows "db_keys d'"
proof (cases op)
  case (Op_Create f r)
  with assms have "createSession f r d = (x, d')" by simp
  then show ?thesis
    by (cases rule: createSession_cases) (use assms(1) in \<open>auto intro: insert_session_keys\<close>)
next
  case (Op_Rotate f hash n now)
  then show ?thesis using assms by (auto split: prod.splits sum.splits dest: Rotate_keys)
next
  case (Op_RevokeFamily fails fam reason now)
  with assms show ?thesis by (auto simp: RevokeFamily_def split: if_splits)
next
  case (Op_Logout f hash now)
  with assms show ?thesis by (auto simp: RevokeByToken_def split: if_splits option.splits)
qed

section \<open>Refresh tokens are exchanged once\<close>

definition unexchanged :: "bytes \<Rightarrow> db \<Rightarrow> nat" where
  "unexchanged h d =
     sum_list (map (\<lambda>s. if s_refresh_token_hash s = h \<and> s_replaced_at s = None then 1 else 0) (sessions d))"

definition token_known :: "bytes \<Rightarrow> db \<Rightarrow> bool" where
  "token_known h d \<longleftrightarrow> db_keys d \<and> h \<in> s_refresh_token_hash ` set (sessions d)"

fun exchanges :: "bytes \<Rightarrow> session_op \<Rightarrow> bool" where
  "exchanges h (Op_Rotate f hash n now) = (hash = h)"
| "exchanges h _ = False"

lemma unexchanged_families [simp]:
  "unexchanged h (replay_family s now d) = unexchanged h d"
  "unexchanged h (revoke_family fam reason now d) = unexchanged h d"
  unfolding unexchanged_def family_defs
  by (simp_all add: update_where_def comp_def if_distrib cong: if_cong)

lemma unexchanged_insert:
  assumes "token_known h d" "insert_session r d = Some d'"
  shows "unexchanged h d' = unexchanged h d"
  using insert_session_Some [OF assms(2)] assms(1) by (auto simp: token_known_def unexchanged_def)

lemma unexchanged_rotated:
  assumes "token_known h d" "insert_session (successor_session s n) d = Some d1" "s \<in> set (sessions d)"
    "s_replaced_at s = None"
    "d' = d1\<lparr>sessions := update_where (\<lambda>r. s_id r = s_id s) (\<lambda>r. r\<lparr>s_replaced_at := Some now\<rparr>) (sessions d1)\<rparr>"
  shows "unexchanged h d' \<le> unexchanged h d"
    and "s_refresh_token_hash s = h \<Longrightarrow> unexchanged h d' < unexchanged h d"
proof -
  let ?g = "\<lambda>s. if s_refresh_token_hash s = h \<and> s_replaced_at s = None then 1 else (0::nat)"
  have same: "unexchanged h d1 = unexchanged h d" by (rule unexchanged_insert [OF assms(1,2)])
  have "sum_list (map ?g (sessions d')) \<le> sum_list (map ?g (sessions d1))"
    unfolding assms(5) by (simp, rule sum_update_where_le) simp
  with same show "unexchanged h d' \<le> unexchanged h d" by (simp add: unexchanged_def)
  assume "s_refresh_token_hash s = h"
  then have "Suc (sum_list (map ?g (sessions d'))) \<le> sum_list (map ?g (sessions d1))"
    unfolding assms(5) using assms(3,4) insert_session_Some(1) [OF assms(2)]
    by (simp del: update_where_append map_append, intro sum_update_where_less [of _ _ _ _ s]) auto
  with same show "unexchanged h d' < unexchanged h d" by (simp add: unexchanged_def)
qed

lemma step_token_known:
  assumes "token_known h d" "session_step op d = (x, d')"
  shows "token_known h d'"
proof -
  obtain r where "r \<in> set (sessions d)" "s_refresh_token_hash r = h"
    using assms(1) by (auto simp: token_known_def)
  then obtain r' where "r' \<in> set (sessions d')" "s_refresh_token_hash r' = h"
    using session_step_follows [OF assms(2)] unfolding db_follows_def row_follows_def by metis
  with assms session_step_keys show ?thesis by (auto simp: token_known_def)
qed

lemma step_unexchanged:
  assumes "token_known h d" "session_step op d = (x, d')"
  shows "unexchanged h d' \<le> unexchanged h d \<and> (exchanges h op \<and> x = None \<longrightarrow> unexchanged h d' < unexchanged h d)"
proof (cases op)
  case (Op_Create f r)
  with assms have "createSession f r d = (x, d')" by simp
  then show ?thesis
    by (cases rule: createSession_cases) (simp_all add: Op_Create unexchanged_insert [OF assms(1)])
next
  case (Op_Rotate f hash n now)
  obtain r where r: "Rotate f hash n now d = (r, d')" "x = None \<longleftrightarrow> (\<exists>y. r = Inr y)"
    using assms(2) Op_Rotate by (auto split: prod.splits sum.splits)
  from r(1) show ?thesis
  proof (cases rule: Rotate_cases)
    case (rotated s u v p d1)
    note s = rotate_join_Some(1,2) [OF rotated(1)]
    note ex = unexchanged_rotated [OF assms(1) rotated(7) s(1) rotated(2,8)]
    with s(2) show ?thesis by (auto simp: Op_Rotate)
  qed (use r(2) in auto)
next
  case (Op_RevokeFamily fails fam reason now)
  with assms(2) show ?thesis by (auto simp: RevokeFamily_def split: if_splits)
next
  case (Op_Logout f hash now)
  with assms(2) show ?thesis by (auto simp: RevokeByToken_def split: if_splits option.splits)
qed

interpretation exchange: budget session_step "token_known h" "\<lambda>op x. exchanges h op \<and> x = None" "unexchanged h"
  for h
  by unfold_locales (auto dest: step_token_known step_unexchanged)

lemma unexchanged_one: "db_keys d \<Longrightarrow> unexchanged h d \<le> 1"
  unfolding unexchanged_def by (rule sum_key_le_1) (simp add: db_keys_def)

text \<open>
  C5. A refresh token is exchanged at most once, whatever creations, rotations, revocations and
  failures happen in between and in whatever order.
\<close>

theorem refresh_token_single_use:
  assumes "db_keys d" "h \<in> s_refresh_token_hash ` set (sessions d)" "run_all session_step ops d = (rs, d')"
  shows "length (filter (\<lambda>(op, x). exchanges h op \<and> x = None) (zip ops rs)) \<le> 1"
proof -
  have "token_known h d" using assms(1,2) by (simp add: token_known_def)
  from exchange.hits_bounded [OF this assms(3)] unexchanged_one [OF assms(1), of h] show ?thesis by linarith
qed

section \<open>Replay and dead families\<close>

lemma join_follows:
  assumes "db_follows d d'" "rotate_join h d = Some (s, u, v, p)" "db_keys d'"
  obtains s' where "rotate_join h d' = Some (s', u, v, p)" "row_follows s s'"
proof -
  note j = rotate_join_Some [OF assms(2)]
  obtain s' where s': "s' \<in> set (sessions d')" "row_follows s s'"
    using assms(1) j(1) unfolding db_follows_def by blast
  have "find (\<lambda>s. s_refresh_token_hash s = h) (sessions d') = Some s'"
    using s' j(2) assms(3) by (intro find_key) (auto simp: db_keys_def row_follows_def)
  moreover have "find (\<lambda>x. u_id x = s_user_id s) (users d) = Some u" "find (\<lambda>x. d_id x = s_device_id s) (devices d) = Some v"
    "find (\<lambda>x. ps_owner_user_id x = s_user_id s) (personal_spaces d) = Some p"
    using assms(2) by (auto simp: rotate_join_def split: option.splits)
  ultimately show thesis using that [of s'] s'(2) assms(1)
    by (auto simp: rotate_join_def db_follows_def row_follows_def)
qed

definition valid_successor :: "SuccessorRecord \<Rightarrow> bool" where
  "valid_successor n \<longleftrightarrow> sc_SessionID n \<noteq> Nil_uuid \<and> length (sc_RefreshTokenHash n) = 32 \<and> sc_IssuedAt n < sc_ExpiresAt n"

lemma run_keys: "db_keys d \<Longrightarrow> run_all session_step ops d = (rs, d') \<Longrightarrow> db_keys d'"
  by (induction ops arbitrary: d rs) (auto split: prod.splits dest: session_step_keys)

text \<open>
  C32. Replay detection: once a refresh token has been exchanged, presenting it again, however much
  later and after whatever other operations, is answered with "session revoked" and revokes every
  session of its family, the successors included, so none of their access bindings is active.
\<close>

theorem replay_revokes_family:
  assumes "db_keys d" "Rotate f h n now d = (Inr rot, d1)" "run_all session_step ops d1 = (rs, d2)"
    "valid_successor n2" "Rotate no_fault h n2 now2 d2 = (r, d3)"
  shows "r = Inl ErrSessionRevoked
    \<and> (\<forall>s\<in>set (sessions d3). s_family_id s = ro_FamilyID rot \<longrightarrow> s_revoked_at s \<noteq> None)
    \<and> (\<exists>s\<in>set (sessions d3). s_refresh_token_hash s = h \<and> s_replay_detected_at s = Some now2)"
  using assms(2)
proof (cases rule: Rotate_cases)
  case (rotated s u v p e)
  note j = rotate_join_Some [OF rotated(1)] and e = insert_session_Some [OF rotated(7)]
  have keys: "db_keys d1" "db_keys d2" using Rotate_keys [OF assms(1,2)] run_keys assms(3) by blast+
  have "db_follows d d1" by (rule rotated_rows(1) [OF rotated(7,8)])
  obtain s1 where s1: "rotate_join h d1 = Some (s1, u, v, p)" "row_follows s s1"
    by (rule join_follows [OF \<open>db_follows d d1\<close> rotated(1) keys(1)])
  have "s\<lparr>s_replaced_at := Some now\<rparr> \<in> set (sessions d1)"
    using j(1) e(1) by (force simp: rotated(8) update_where_def)
  moreover have "s1 \<in> set (sessions d1)" "s_id s1 = s_id s"
    using rotate_join_Some(1) [OF s1(1)] s1(2) by (simp_all add: row_follows_def)
  ultimately have "s1 = s\<lparr>s_replaced_at := Some now\<rparr>"
    using keys(1) by (intro distinct_key_eq [of s_id "sessions d1"]) (simp_all add: db_keys_def)
  then have "s_replaced_at s1 \<noteq> None" by simp
  obtain s2 where s2: "rotate_join h d2 = Some (s2, u, v, p)" "row_follows s1 s2"
    by (rule join_follows [OF run_follows [OF assms(3)] s1(1) keys(2)])
  have s2r: "s_replaced_at s2 \<noteq> None" "s_family_id s2 = ro_FamilyID rot" "length h = 32"
    using s2(2) s1(2) \<open>s_replaced_at s1 \<noteq> None\<close> rotated(9) assms(2)
    by (auto simp: row_follows_def Rotate_def split: if_splits)
  then have out: "r = Inl ErrSessionRevoked" "d3 = replay_family s2 now2 d2"
    using assms(4,5) s2(1) by (simp_all add: Rotate_def valid_successor_def)
  note in2 = rotate_join_Some(1,2) [OF s2(1)]
  have "\<exists>s\<in>set (sessions d3). s_refresh_token_hash s = h \<and> s_replay_detected_at s = Some now2"
  proof
    let ?s = "s2\<lparr>s_revoked_at := coalesce (s_revoked_at s2) now2, s_revoked_reason := Some ''refresh_replay'',
      s_replay_detected_at := Some now2\<rparr>"
    show "?s \<in> set (sessions d3)"
      using in2(1) unfolding out(2) by (auto simp: replay_family_def set_update_where intro!: bexI [of _ s2])
    show "s_refresh_token_hash ?s = h \<and> s_replay_detected_at ?s = Some now2" using in2(2) by simp
  qed
  with out s2r(2) family_revoked(1) [of _ s2 now2 d2] show ?thesis by simp
qed simp_all

definition family_dead :: "uuid \<Rightarrow> db \<Rightarrow> bool" where
  "family_dead fam d \<longleftrightarrow> (\<forall>s\<in>set (sessions d). s_family_id s = fam \<longrightarrow> s_revoked_at s \<noteq> None)"

lemma family_deadD: "family_dead fam d \<Longrightarrow> s \<in> set (sessions d) \<Longrightarrow> s_family_id s = fam \<Longrightarrow> s_revoked_at s \<noteq> None"
  unfolding family_dead_def by blast

lemma dead_follows:
  assumes "family_dead fam d" "\<And>r'. r' \<in> set (sessions d') \<Longrightarrow> s_family_id r' = fam \<Longrightarrow>
    \<exists>r\<in>set (sessions d). row_follows r r'"
  shows "family_dead fam d'"
  unfolding family_dead_def
proof (intro ballI impI)
  fix r' assume r': "r' \<in> set (sessions d')" "s_family_id r' = fam"
  then obtain r where "r \<in> set (sessions d)" "row_follows r r'" using assms(2) by blast
  with assms(1) r'(2) show "s_revoked_at r' \<noteq> None" by (auto simp: family_dead_def row_follows_def)
qed

lemma step_dead:
  assumes "family_dead fam d" "session_step op d = (x, d')" "\<And>f r. op = Op_Create f r \<Longrightarrow> cr_FamilyID r \<noteq> fam"
  shows "family_dead fam d'"
proof (cases op)
  case (Op_Create f r)
  with assms have "createSession f r d = (x, d')" "cr_FamilyID r \<noteq> fam" by simp_all
  then show ?thesis
    by (cases rule: createSession_cases)
      (use assms(1) in \<open>auto simp: family_dead_def new_session_def dest!: insert_session_Some(1)\<close>)
next
  case (Op_Rotate f hash n now)
  obtain r where "Rotate f hash n now d = (r, d')"
    using assms(2) Op_Rotate by (auto split: prod.splits sum.splits)
  then show ?thesis
  proof (cases rule: Rotate_cases)
    case (rotated s u v p d1)
    have "s_family_id s \<noteq> fam"
      using rotated(3) rotate_join_Some(1) [OF rotated(1)] assms(1) by (auto simp: family_dead_def)
    show ?thesis
    proof (rule dead_follows [OF assms(1)])
      fix r' assume "r' \<in> set (sessions d')" "s_family_id r' = fam"
      with rotated_rows(2) [OF rotated(7,8) this(1)] \<open>s_family_id s \<noteq> fam\<close>
      show "\<exists>r\<in>set (sessions d). row_follows r r'" by auto
    qed
  next
    case (replay s)
    then show ?thesis using family_rows(1) by (intro dead_follows [OF assms(1)]) blast
  next
    case (invalid s u v p)
    then show ?thesis using family_rows(2) by (intro dead_follows [OF assms(1)]) blast
  qed (use assms(1) in simp)
next
  case (Op_RevokeFamily fails fm reason now)
  with assms(1,2) show ?thesis
    by (auto simp: RevokeFamily_def split: if_splits intro!: dead_follows [OF assms(1)] family_rows(2))
next
  case (Op_Logout f hash now)
  with assms(1,2) show ?thesis
    by (auto simp: RevokeByToken_def split: if_splits option.splits
        intro!: dead_follows [OF assms(1)] family_rows(2))
qed

lemma run_dead:
  "family_dead fam d \<Longrightarrow> run_all session_step ops d = (rs, d') \<Longrightarrow>
     (\<And>f r. Op_Create f r \<in> set ops \<Longrightarrow> cr_FamilyID r \<noteq> fam) \<Longrightarrow> family_dead fam d'"
proof (induction ops arbitrary: d rs)
  case Nil
  then show ?case by simp
next
  case (Cons op ops)
  then obtain x d1 rs1 where run: "session_step op d = (x, d1)" "run_all session_step ops d1 = (rs1, d')"
    by (auto split: prod.splits)
  have "family_dead fam d1" by (rule step_dead [OF Cons.prems(1) run(1)]) (use Cons.prems(3) in auto)
  then show ?case by (rule Cons.IH [OF _ run(2)]) (erule Cons.prems(3) [OF list.set_intros(2)])
qed

lemma dead_inactive:
  assumes "db_keys d" "family_dead fam d" "s \<in> set (sessions d)" "s_family_id s = fam" "ab_SessionID b = s_id s"
  shows "\<not> access_row b now d"
proof
  assume "access_row b now d"
  then obtain q where "q \<in> set (sessions d)" "s_id q = s_id s" "s_revoked_at q = None"
    using assms(5) by (auto simp: access_row_def table_simps)
  moreover from this have "q = s"
    using assms(1,3) by (intro distinct_key_eq [of s_id "sessions d"]) (simp_all add: db_keys_def)
  ultimately show False using family_deadD [OF assms(2-4)] by simp
qed

text \<open>
  Logout is final: after a token has been revoked, every session of its family, existing then
  or added by any later operations, is revoked, no access binding of these sessions is active at
  any time, and no token of the family can be exchanged.
\<close>

theorem logout_is_final:
  assumes "db_keys d" "RevokeByToken f h now d = (None, d1)" "s \<in> set (sessions d)" "s_refresh_token_hash s = h"
    "run_all session_step ops d1 = (rs, d2)"
    "\<And>f r. Op_Create f r \<in> set ops \<Longrightarrow> cr_FamilyID r \<noteq> s_family_id s"
    "q \<in> set (sessions d2)" "s_family_id q = s_family_id s"
  shows "s_revoked_at q \<noteq> None \<and> (\<forall>b t. ab_SessionID b = s_id q \<longrightarrow> \<not> access_row b t d2)
    \<and> (\<exists>e. fst (Rotate g (s_refresh_token_hash q) n t d2) = Inl e)"
proof -
  have "find (\<lambda>x. s_refresh_token_hash x = h) (sessions d) = Some s"
    using assms(1,3,4) by (intro find_key) (simp_all add: db_keys_def)
  then have d1: "d1 = revoke_family (s_family_id s) ''user_logout'' now d"
    using assms(2) by (auto simp: RevokeByToken_def split: if_splits)
  have "family_dead (s_family_id s) d1" unfolding d1 family_dead_def using family_revoked(2) by blast
  then have dead: "family_dead (s_family_id s) d2" using run_dead assms(5,6) by blast
  have keys: "db_keys d2" using run_keys [OF _ assms(5)] assms(1) d1 by simp
  have "\<exists>e. fst (Rotate g (s_refresh_token_hash q) n t d2) = Inl e"
  proof (rule ccontr)
    assume "\<not> ?thesis"
    then obtain rot d3 where "Rotate g (s_refresh_token_hash q) n t d2 = (Inr rot, d3)"
      by (metis prod.collapse old.sum.exhaust)
    then show False
    proof (cases rule: Rotate_cases)
      case (rotated x u v p e)
      note j = rotate_join_Some(1,2) [OF rotated(1)]
      have "x = q"
        using keys j assms(7) by (intro distinct_key_eq [of s_refresh_token_hash "sessions d2"])
          (simp_all add: db_keys_def)
      with rotated(3) family_deadD [OF dead assms(7,8)] show False by simp
    qed simp_all
  qed
  with dead_inactive [OF keys dead assms(7,8)] family_deadD [OF dead assms(7,8)] show ?thesis by blast
qed

section \<open>Authentication\<close>

text \<open>
  C35. The authenticator accepts a token only if it verifies, the cache does not say revoked, and
  the database says at that moment that the session is unrevoked and unexpired and that its user,
  its device (owned by that user) and its personal space are active; a cached "active" never
  suffices.
\<close>

theorem Authenticate_sound:
  assumes "Authenticate cr js signer f verify_now now redis_now token d r = (Inr claims, r')"
  shows "access_Verify cr js signer verify_now token = Inr claims \<and> now < acl_ExpiresAt claims
    \<and> value_at redis_now r (status_key (ab_SessionID (acl_Binding claims))) \<noteq> Some ''revoked''
    \<and> (\<exists>s\<in>set (sessions d). s_id s = ab_SessionID (acl_Binding claims) \<and> s_user_id s = ab_UserID (acl_Binding claims)
        \<and> s_device_id s = ab_DeviceID (acl_Binding claims) \<and> s_revoked_at s = None \<and> now < s_expires_at s
        \<and> (\<exists>u\<in>set (users d). u_id u = s_user_id s \<and> u_status u = ''active'')
        \<and> (\<exists>v\<in>set (devices d). d_id v = s_device_id s \<and> d_user_id v = s_user_id s \<and> d_status v = ''active'')
        \<and> (\<exists>p\<in>set (personal_spaces d). ps_id p = ab_PersonalSpaceID (acl_Binding claims)
            \<and> ps_owner_user_id p = s_user_id s \<and> ps_status p = ''active''))"
proof -
  have "access_Verify cr js signer verify_now token = Inr claims" "now < acl_ExpiresAt claims"
    "access_row (acl_Binding claims) now d"
    "Cache_Read (f 0) redis_now (ab_SessionID (acl_Binding claims)) r \<noteq> Some AccessStatusRevoked"
    "Cache_Read (f 0) redis_now (ab_SessionID (acl_Binding claims)) r \<noteq> None"
    using assms by (auto simp: Authenticate_def AccessActive_def split: sum.splits if_splits option.splits)
  then show ?thesis
    by (auto simp: access_row_def table_simps Cache_Read_def status_text_def split: option.splits if_splits)
qed

text \<open>
  Revocation takes effect at once and sticks: when the database no longer confirms a session, a
  token for it is refused with "session revoked", and from then until the token's expiry (to the
  millisecond Redis keeps) every further attempt is refused, even if the database would confirm it
  again or any store fails.
\<close>

theorem revocation_sticks:
  assumes "access_Verify cr js signer verify_now token = Inr claims" "now < acl_ExpiresAt claims"
    "value_at redis_now r (status_key (ab_SessionID (acl_Binding claims))) = None"
    "\<not> access_row (acl_Binding claims) now d"
    "Authenticate cr js signer no_fault verify_now now redis_now token d r = (res, r')"
    "redis_now \<le> redis_now'" "redis_now' < redis_now + px_ttl (time_sub (acl_ExpiresAt claims) now)"
  shows "res = Inl ErrSessionRevoked
    \<and> (\<exists>e. Authenticate cr js signer f' verify_now' now' redis_now' token d' r' = (Inl e, r'))"
proof -
  let ?sid = "ab_SessionID (acl_Binding claims)"
  have valid: "validAccessBinding (acl_Binding claims)"
    using assms(1) by (auto simp: access_Verify_def Let_def split: option.splits if_splits)
  then have sid: "?sid \<noteq> Nil_uuid" by (simp add: validAccessBinding_def)
  have ttl: "0 < time_sub (acl_ExpiresAt claims) now"
    using assms(2) by (simp add: time_sub_def max_duration_def min_def max_def)
  have r': "res = Inl ErrSessionRevoked"
    "r' = r(status_key ?sid \<mapsto> (''revoked'', Some (redis_now + px_ttl (time_sub (acl_ExpiresAt claims) now))))"
    using assms(1-5) valid sid ttl
    by (auto simp: Authenticate_def AccessActive_def Cache_Read_def Cache_Write_def status_text_def)
  have "value_at redis_now' r' (status_key ?sid) = Some ''revoked''"
    using assms(7) by (simp add: r'(2) value_at_set)
  then have read: "Cache_Read b redis_now' ?sid r' \<in> {None, Some AccessStatusRevoked}" for b
    by (simp add: Cache_Read_def status_text_def)
  have "\<exists>e. Authenticate cr js signer f' verify_now' now' redis_now' token d' r' = (Inl e, r')"
  proof (cases "access_Verify cr js signer verify_now' token")
    case (Inl e)
    then show ?thesis by (simp add: Authenticate_def)
  next
    case (Inr c)
    have "access_claims cr js signer verify_now token = Some claims"
      "access_claims cr js signer verify_now' token = Some c" using assms(1) Inr by simp_all
    then have "c = claims" by (rule access.same_claims)
    with Inr read [of "f' 0"] show ?thesis by (auto simp: Authenticate_def)
  qed
  with r'(1) show ?thesis by simp
qed

section \<open>Starting a session\<close>

lemma issueTokenSet_Inr:
  assumes "issueTokenSet cr js s e f rof rot tok ex d = (Inr ts, d')"
  shows "sessions d' = sessions d" "users d' = users d" "devices d' = devices d"
    "personal_spaces d' = personal_spaces d" "ts_RefreshToken ts = tok" "ts_SessionID ts = ro_SessionID rot"
    "ts_UserID ts = b_UserID (ro_Binding rot)" "ts_DeviceID ts = b_DeviceID (ro_Binding rot)"
    "ts_PersonalSpaceID ts = b_PersonalSpaceID (ro_Binding rot)"
    "db_keys d \<Longrightarrow> db_keys d'"
proof -
  obtain acc iss where a: "access_Issue cr (c_access js) (ss_accessTokens s) (se_issue_now e)
       \<lparr>ab_UserID = b_UserID (ro_Binding rot), ab_SessionID = ro_SessionID rot,
        ab_DeviceID = b_DeviceID (ro_Binding rot), ab_PersonalSpaceID = b_PersonalSpaceID (ro_Binding rot)\<rparr> = Inr acc"
    "entitlement_issue cr (c_offline js) (ss_offlineEntitlements s) (f 0) (se_issue_now e) (se_uuid e 2)
       (ro_Binding rot) d = (Inr iss, d')"
    and ts: "ts_RefreshToken ts = tok" "ts_SessionID ts = ro_SessionID rot"
    "ts_UserID ts = b_UserID (ro_Binding rot)" "ts_DeviceID ts = b_DeviceID (ro_Binding rot)"
    "ts_PersonalSpaceID ts = b_PersonalSpaceID (ro_Binding rot)"
    using assms by (auto simp: issueTokenSet_def Let_def split: sum.splits prod.splits)
  obtain i where "recordIssuance (f 0) i d = Inr d'" by (rule entitlement_issue_Inr [OF a(2)])
  note r = recordIssuance_Inr(1,2) [OF this]
  show "sessions d' = sessions d" "users d' = users d" "devices d' = devices d"
    "personal_spaces d' = personal_spaces d" using r(1) by simp_all
  show "db_keys d \<Longrightarrow> db_keys d'" using insert_issuance_keys r(2) by blast
  show "ts_RefreshToken ts = tok" "ts_SessionID ts = ro_SessionID rot"
    "ts_UserID ts = b_UserID (ro_Binding rot)" "ts_DeviceID ts = b_DeviceID (ro_Binding rot)"
    "ts_PersonalSpaceID ts = b_PersonalSpaceID (ro_Binding rot)" by (rule ts)+
qed

lemma issueTokenSet_Inl:
  assumes "issueTokenSet cr js s e f rof rot tok ex d = (Inl err, d')"
  shows "d' = (if rof then snd (RevokeFamily (f 1) (ro_FamilyID rot) ''token_issuance_failed'' (se_revoke_now e) d) else d)"
  using assms by (auto simp: issueTokenSet_def Let_def split: sum.splits prod.splits dest: entitlement_issue_Inl)

lemma prepareStart_Inr:
  assumes "prepareStart cr s e b = Inr (rot, tok, ex, rec)"
  shows "\<exists>secret. se_read e 32 = Some secret \<and> rec = \<lparr>cr_SessionID = ro_SessionID rot,
        cr_FamilyID = ro_FamilyID rot, cr_Binding = b, cr_RefreshTokenHash = refreshHash cr s secret,
        cr_IssuedAt = se_now e, cr_ExpiresAt = se_now e + refreshLifetime\<rparr> \<and> ro_Binding rot = b
    \<and> tok = encode_url secret \<and> ex = se_now e + refreshLifetime"
proof -
  obtain sid fam secret where "se_uuid e 0 = Some sid" "se_uuid e 1 = Some fam" "se_read e 32 = Some secret"
    "validBinding b"
    using assms
    by (cases "se_uuid e 0"; cases "se_uuid e 1"; cases "se_read e 32")
      (simp_all add: prepareStart_def newRefreshToken_def RandomBytes_def RandomUUID_def split: if_splits)
  with assms show ?thesis
    by (auto simp: prepareStart_def newRefreshToken_def RandomBytes_def RandomUUID_def Let_def)
qed

lemma start_with_cases:
  assumes "start_with rof cr js s e b d = (res, d')"
  obtains (refused) err where "res = Inl err" "d' = d"
  | (created) secret rec rot d1 where
      "se_read e 32 = Some secret" "rec = \<lparr>cr_SessionID = ro_SessionID rot, cr_FamilyID = ro_FamilyID rot,
        cr_Binding = b, cr_RefreshTokenHash = refreshHash cr s secret, cr_IssuedAt = se_now e,
        cr_ExpiresAt = se_now e + refreshLifetime\<rparr>" "ro_Binding rot = b"
      "insert_session (new_session rec) d = Some d1" "binding_active b d" "ro_FamilyID rot \<noteq> Nil_uuid"
      "issueTokenSet cr js s e (later 2 (se_fails e)) rof rot (encode_url secret) (se_now e + refreshLifetime) d1 = (res, d')"
proof (cases "prepareStart cr s e b")
  case (Inl err)
  with assms show thesis by (intro refused [of err]) (auto simp: start_with_def)
next
  case (Inr x)
  obtain rot tok ex rec where x: "x = (rot, tok, ex, rec)" by (cases x)
  obtain secret where p: "se_read e 32 = Some secret" "rec = \<lparr>cr_SessionID = ro_SessionID rot,
        cr_FamilyID = ro_FamilyID rot, cr_Binding = b, cr_RefreshTokenHash = refreshHash cr s secret,
        cr_IssuedAt = se_now e, cr_ExpiresAt = se_now e + refreshLifetime\<rparr>" "ro_Binding rot = b"
    "tok = encode_url secret" "ex = se_now e + refreshLifetime"
    using prepareStart_Inr [OF Inr [unfolded x]] by blast
  obtain y d1 where c: "createSession (se_fails e) rec d = (y, d1)" by fastforce
  from c show thesis
  proof (cases rule: createSession_cases)
    case (refused err)
    with assms Inr x c show thesis by (intro that(1) [of err]) (auto simp: start_with_def)
  next
    case created
    with assms Inr x c p show thesis
      by (intro that(2) [of secret rec rot d1])
        (auto simp: start_with_def createSession_def split: if_splits)
  qed
qed

lemma binding_activeE:
  assumes "binding_active b d"
  obtains u v p where "u \<in> set (users d)" "u_id u = b_UserID b" "u_status u = ''active''"
    "v \<in> set (devices d)" "d_user_id v = b_UserID b" "d_id v = b_DeviceID b" "d_installation_id v = b_InstallationID b"
    "d_status v = ''active''" "p \<in> set (personal_spaces d)" "ps_owner_user_id p = b_UserID b"
    "ps_id p = b_PersonalSpaceID b" "ps_status p = ''active''"
  using assms that by (auto simp: binding_active_def table_simps)

lemma issueTokenSet_frame:
  assumes "issueTokenSet cr js s e f rof rot tok ex d = (res, d')"
  shows "oauth_requests d' = oauth_requests d" "authorization_codes d' = authorization_codes d"
    "devices d' = devices d" "users d' = users d" "personal_spaces d' = personal_spaces d"
proof -
  have "\<exists>ss is. d' = d\<lparr>sessions := ss, issuances := is\<rparr>"
  proof (cases res)
    case (Inl err)
    with issueTokenSet_Inl assms have "d' = (if rof then snd (RevokeFamily (f 1) (ro_FamilyID rot)
        ''token_issuance_failed'' (se_revoke_now e) d) else d)" by blast
    then show ?thesis
      by (intro exI [of _ "sessions d'"] exI [of _ "issuances d'"])
        (auto simp: RevokeFamily_def revoke_family_def)
  next
    case (Inr ts)
    then obtain iss where a: "entitlement_issue cr (c_offline js) (ss_offlineEntitlements s) (f 0) (se_issue_now e)
        (se_uuid e 2) (ro_Binding rot) d = (Inr iss, d')"
      using assms by (auto simp: issueTokenSet_def Let_def split: sum.splits prod.splits)
    obtain i where "recordIssuance (f 0) i d = Inr d'" by (rule entitlement_issue_Inr [OF a])
    from recordIssuance_Inr(1) [OF this] show ?thesis
      by (intro exI [of _ "sessions d'"] exI [of _ "issuances d'"]) simp
  qed
  then show "oauth_requests d' = oauth_requests d" "authorization_codes d' = authorization_codes d"
    "devices d' = devices d" "users d' = users d" "personal_spaces d' = personal_spaces d" by auto
qed

text \<open>What a successful start leaves behind: one more session row, bound as the token set says.\<close>

lemma start_with_Inr:
  assumes "start_with rof cr js s e b d = (Inr ts, d')"
  obtains r secret where "se_read e 32 = Some secret" "sessions d' = sessions d @ [r]"
    "s_refresh_token_hash r = refreshHash cr s secret" "s_id r = ts_SessionID ts" "s_user_id r = b_UserID b"
    "s_device_id r = b_DeviceID b" "s_revoked_at r = None" "s_replaced_at r = None"
    "s_expires_at r = se_now e + refreshLifetime" "binding_active b d" "ts_RefreshToken ts = encode_url secret"
    "ts_UserID ts = b_UserID b" "ts_DeviceID ts = b_DeviceID b" "ts_PersonalSpaceID ts = b_PersonalSpaceID b"
    "users d' = users d" "devices d' = devices d" "personal_spaces d' = personal_spaces d"
    "db_keys d \<Longrightarrow> db_keys d'"
  using assms
proof (cases rule: start_with_cases)
  case (created secret rec rot d1)
  note i = issueTokenSet_Inr [OF created(7)] and ins = insert_session_Some [OF created(4)]
  show thesis
    by (rule that [of secret "new_session rec"])
      (use created(1-5) i ins insert_session_keys [OF _ created(4)] in \<open>simp_all add: new_session_def\<close>)
qed simp

lemma start_access:
  assumes "start_with rof cr js s e b d = (Inr ts, d')" "now < se_now e + refreshLifetime"
  shows "access_row \<lparr>ab_UserID = ts_UserID ts, ab_SessionID = ts_SessionID ts, ab_DeviceID = ts_DeviceID ts,
        ab_PersonalSpaceID = ts_PersonalSpaceID ts\<rparr> now d'"
  using assms(1)
proof (rule start_with_Inr)
  fix r assume r: "sessions d' = sessions d @ [r]" "s_id r = ts_SessionID ts" "s_user_id r = b_UserID b"
    "s_device_id r = b_DeviceID b" "s_revoked_at r = None" "s_expires_at r = se_now e + refreshLifetime"
    and b: "binding_active b d"
    and t: "ts_UserID ts = b_UserID b" "ts_DeviceID ts = b_DeviceID b" "ts_PersonalSpaceID ts = b_PersonalSpaceID b"
      "users d' = users d" "devices d' = devices d" "personal_spaces d' = personal_spaces d"
  from b show ?thesis
    by (rule binding_activeE)
      (use r t assms(2) in \<open>auto simp: access_row_def exists_row_iff intro!: bexI [of _ r]\<close>)
qed


text \<open>
  A started session works: after \<open>Start\<close> returns a token set, the access binding it names is
  active for thirty days, the refresh token in it decodes to a 32-byte secret, and exchanging that
  secret within the thirty days, with a fresh successor and answering stores, succeeds and gives
  back the same user, device, installation and personal space.
\<close>

theorem started_session_refreshes:
  assumes "db_keys d" "digest_lengths cr" "\<And>n v. se_read e n = Some v \<Longrightarrow> length v = n"
    "Start cr js s e b d = (Inr ts, d')" "now < se_now e + refreshLifetime"
    "valid_successor n" "sc_SessionID n \<notin> s_id ` set (sessions d')"
    "sc_RefreshTokenHash n \<notin> s_refresh_token_hash ` set (sessions d')"
  shows "\<exists>secret rot d2. DecodeCanonicalBase64URL (ts_RefreshToken ts) = Some secret \<and> length secret = 32
    \<and> access_row \<lparr>ab_UserID = ts_UserID ts, ab_SessionID = ts_SessionID ts, ab_DeviceID = ts_DeviceID ts,
        ab_PersonalSpaceID = ts_PersonalSpaceID ts\<rparr> now d'
    \<and> Rotate no_fault (refreshHash cr s secret) n now d' = (Inr rot, d2) \<and> ro_Binding rot = b"
  using assms(4) unfolding Start_def
proof (cases rule: start_with_cases)
  case (created secret rec rot d1)
  note i = issueTokenSet_Inr [OF created(7)] and ins = insert_session_Some [OF created(4)]
  let ?s = "new_session rec"
  have rows: "sessions d' = sessions d @ [?s]" "users d' = users d" "devices d' = devices d"
    "personal_spaces d' = personal_spaces d" using i(1-4) ins(1) by simp_all
  have keys: "db_keys d'" using i(10) insert_session_keys [OF assms(1) created(4)] by blast
  have s: "s_refresh_token_hash ?s = refreshHash cr s secret" "s_id ?s = ro_SessionID rot"
    "s_user_id ?s = b_UserID b" "s_device_id ?s = b_DeviceID b" "s_revoked_at ?s = None"
    "s_replaced_at ?s = None" "s_expires_at ?s = se_now e + refreshLifetime"
    by (simp_all add: new_session_def created(2))
  obtain u v p where act: "u \<in> set (users d)" "u_id u = b_UserID b" "u_status u = ''active''"
    "v \<in> set (devices d)" "d_user_id v = b_UserID b" "d_id v = b_DeviceID b" "d_installation_id v = b_InstallationID b"
    "d_status v = ''active''" "p \<in> set (personal_spaces d)" "ps_owner_user_id p = b_UserID b"
    "ps_id p = b_PersonalSpaceID b" "ps_status p = ''active''"
    by (rule binding_activeE [OF created(5)])
  have "access_row \<lparr>ab_UserID = ts_UserID ts, ab_SessionID = ts_SessionID ts, ab_DeviceID = ts_DeviceID ts,
        ab_PersonalSpaceID = ts_PersonalSpaceID ts\<rparr> now d'"
    using start_access [OF assms(4) [unfolded Start_def] assms(5)] .
  moreover have "rotate_join (refreshHash cr s secret) d' = Some (?s, u, v, p)"
  proof -
    have "find (\<lambda>x. s_refresh_token_hash x = refreshHash cr s secret) (sessions d') = Some ?s"
      using keys s(1) rows(1) by (intro find_key) (simp_all add: db_keys_def)
    moreover have "find (\<lambda>x. u_id x = b_UserID b) (users d') = Some u"
      using assms(1) act(1,2) rows(2) by (intro find_key) (simp_all add: db_keys_def)
    moreover have "find (\<lambda>x. d_id x = b_DeviceID b) (devices d') = Some v"
      using assms(1) act(4,6) rows(3) by (intro find_key) (simp_all add: db_keys_def)
    moreover have "find (\<lambda>x. ps_owner_user_id x = b_UserID b) (personal_spaces d') = Some p"
      using assms(1) act(9,10) rows(4) by (intro find_key) (simp_all add: db_keys_def)
    ultimately show ?thesis using s(3,4) by (simp add: rotate_join_def)
  qed
  moreover have "\<exists>d1. insert_session (successor_session ?s n) d' = Some d1"
  proof -
    have "b_UserID b \<in> u_id ` set (users d')" "b_DeviceID b \<in> d_id ` set (devices d')"
      "s_id ?s \<in> s_id ` set (sessions d')"
      using act(1,2,4,6) rows by (simp_all add: image_iff) (metis, metis)
    with assms(6-8) s(3,4) show ?thesis
      by (simp add: insert_session_def successor_session_def valid_successor_def exists_key_iff)
  qed
  moreover have "length (refreshHash cr s secret) = 32" using assms(2) by (simp add: refreshHash_def)
  ultimately obtain d2 rot2 where "Rotate no_fault (refreshHash cr s secret) n now d' = (Inr rot2, d2)"
    "ro_Binding rot2 = b"
    using s(3-7) assms(5,6) act by (auto simp: Rotate_def valid_successor_def)
  moreover have "length secret = 32" using assms(3) created(1) by simp
  ultimately show ?thesis
    using i(5) b64url.dec_enc [of secret] \<open>access_row _ _ _\<close> by auto
qed simp

text \<open>
  No orphan sessions: when \<open>Start\<close> fails, every session it left behind is revoked, provided the
  revocation statement it issues on that path does not itself fail.
\<close>

theorem failed_start_leaves_nothing_usable:
  assumes "Start cr js s e b d = (Inl err, d')" "\<not> se_fails e 3" "x \<in> set (sessions d')"
  shows "x \<in> set (sessions d) \<or> s_revoked_at x \<noteq> None"
  using assms(1) unfolding Start_def
proof (cases rule: start_with_cases)
  case (refused err)
  with assms(3) show ?thesis by simp
next
  case (created secret rec rot d1)
  have d': "d' = revoke_family (ro_FamilyID rot) ''token_issuance_failed'' (se_revoke_now e) d1"
    using issueTokenSet_Inl [OF created(7)] created(6) assms(2) by (simp add: RevokeFamily_def)
  have fam: "s_family_id (new_session rec) = ro_FamilyID rot" by (simp add: new_session_def created(2))
  show ?thesis
  proof (cases "s_family_id x = ro_FamilyID rot")
    case True
    then show ?thesis using family_revoked(2) assms(3) d' by blast
  next
    case False
    obtain y where "y \<in> set (sessions d1)" "x = (if s_family_id y = ro_FamilyID rot then y\<lparr>s_revoked_at :=
        coalesce (s_revoked_at y) (se_revoke_now e), s_revoked_reason := coalesce (s_revoked_reason y) ''token_issuance_failed''\<rparr> else y)"
      using assms(3) unfolding d' revoke_family_def by (auto simp: set_update_where)
    with False fam insert_session_Some(1) [OF created(4)] show ?thesis by (auto split: if_splits)
  qed
qed

section \<open>Examples\<close>

definition sample_hash :: bytes where "sample_hash = replicate 32 (CHR ''h'')"

definition sample_session :: session_row where
  "sample_session = \<lparr>s_id = 2, s_user_id = 1, s_device_id = 3, s_family_id = 6, s_refresh_token_hash = sample_hash,
     s_rotated_from = None, s_issued_at = 0, s_expires_at = 1000 * second, s_replaced_at = None,
     s_revoked_at = None, s_revoked_reason = None, s_replay_detected_at = None\<rparr>"

definition live_db :: db where "live_db = sample_db\<lparr>sessions := [sample_session]\<rparr>"

definition sample_successor :: SuccessorRecord where
  "sample_successor = \<lparr>sc_SessionID = 20, sc_RefreshTokenHash = replicate 32 (CHR ''n''),
     sc_IssuedAt = 10 * second, sc_ExpiresAt = 2000 * second\<rparr>"

lemma live_db_keys: "db_keys live_db" "db_keys sample_db"
  by (simp_all add: db_keys_def live_db_def sample_db_def empty_db_def)

lemma sample_hash_known: "sample_hash \<in> s_refresh_token_hash ` set (sessions live_db)"
  "sample_session \<in> set (sessions live_db)" "s_refresh_token_hash sample_session = sample_hash"
  "s_family_id sample_session = 6" "s_id sample_session = 2"
  by (simp_all add: live_db_def sample_session_def)

lemma sample_rotation:
  "\<exists>d1. Rotate no_fault sample_hash sample_successor (10 * second) live_db =
     (Inr \<lparr>ro_SessionID = 20, ro_FamilyID = 6, ro_Binding = sample_device_binding\<rparr>, d1)"
  by (simp add: Rotate_def rotate_join_def live_db_def sample_db_def empty_db_def sample_session_def sample_hash_def
      sample_successor_def insert_session_def successor_session_def sample_device_binding_def table_simps)

lemma sample_successor_valid: "valid_successor sample_successor"
  by (simp add: valid_successor_def sample_successor_def)

theorem refresh_token_single_use_witness:
  "let ops = [Op_Rotate no_fault sample_hash sample_successor (10 * second),
              Op_Rotate no_fault sample_hash sample_successor (11 * second)];
       rs = fst (run_all session_step ops live_db)
   in length (filter (\<lambda>(op, x). exchanges sample_hash op \<and> x = None) (zip ops rs)) \<le> 1"
proof -
  let ?ops = "[Op_Rotate no_fault sample_hash sample_successor (10 * second),
              Op_Rotate no_fault sample_hash sample_successor (11 * second)]"
  obtain rs d' where run: "run_all session_step ?ops live_db = (rs, d')" by fastforce
  from refresh_token_single_use [OF live_db_keys(1) sample_hash_known(1) run] show ?thesis
    unfolding Let_def run fst_conv .
qed

theorem replay_revokes_family_witness:
  "\<exists>d1 d3. Rotate no_fault sample_hash sample_successor (10 * second) live_db =
       (Inr \<lparr>ro_SessionID = 20, ro_FamilyID = 6, ro_Binding = sample_device_binding\<rparr>, d1)
     \<and> Rotate no_fault sample_hash sample_successor (20 * second) d1 = (Inl ErrSessionRevoked, d3)
     \<and> (\<forall>s\<in>set (sessions d3). s_family_id s = 6 \<longrightarrow> s_revoked_at s \<noteq> None)"
proof -
  obtain d1 where r: "Rotate no_fault sample_hash sample_successor (10 * second) live_db =
      (Inr \<lparr>ro_SessionID = 20, ro_FamilyID = 6, ro_Binding = sample_device_binding\<rparr>, d1)"
    using sample_rotation by blast
  obtain x d3 where x: "Rotate no_fault sample_hash sample_successor (20 * second) d1 = (x, d3)" by fastforce
  have "run_all session_step [] d1 = ([], d1)" by simp
  from replay_revokes_family [OF live_db_keys(1) r this sample_successor_valid x] r x show ?thesis by simp
qed

theorem logout_is_final_witness:
  "\<exists>d1. RevokeByToken no_fault sample_hash (5 * second) live_db = (None, d1)
     \<and> (\<forall>q\<in>set (sessions d1). s_family_id q = 6 \<longrightarrow> s_revoked_at q \<noteq> None)"
proof -
  obtain d1 where l: "RevokeByToken no_fault sample_hash (5 * second) live_db = (None, d1)"
    by (simp add: RevokeByToken_def live_db_def sample_session_def sample_hash_def)
  have "s_revoked_at q \<noteq> None" if "q \<in> set (sessions d1)" "s_family_id q = 6" for q
    using logout_is_final [OF live_db_keys(1) l sample_hash_known(2,3), of "[]" "[]" d1 q] that
      sample_hash_known(4) by simp
  with l show ?thesis by blast
qed

lemma sample_token:
  "\<exists>token. access_Verify sample_crypto sample_access_json sample_signer 0 token
     = Inr \<lparr>acl_Binding = sample_binding, acl_IssuedAt = 0, acl_ExpiresAt = 900 * second\<rparr>"
proof -
  obtain tok where t: "access_Issue sample_crypto sample_access_json sample_signer 0 sample_binding = Inr tok"
    "length (iat_Serialized tok) = 92" "iat_ExpiresAt tok = 900 * second"
    using sample_access_issue by blast
  note s = NewAccessSigner_Inr [OF sample_signer_ok]
  have "access_Verify sample_crypto sample_access_json sample_signer 0 (iat_Serialized tok)
      = Inr \<lparr>acl_Binding = sample_binding, acl_IssuedAt = truncate_second 0, acl_ExpiresAt = iat_ExpiresAt tok\<rparr>"
    by (rule access_verifies [OF sample_crypto_correct(3) sample_json_ok s(1) _ refl refl _ _ _ t(1)])
      (use t(2) s sample_signer_keys in \<open>simp_all add: maximumAccessTokenLength_def
        truncate_second_def accessTokenLifetime_def\<close>)
  with t(3) show ?thesis by (auto simp: truncate_second_def)
qed

lemma sample_binding_fields: "ab_SessionID sample_binding = 2" "validAccessBinding sample_binding"
  "access_row sample_binding 0 live_db" "\<not> access_row sample_binding 0 sample_db"
  by (simp_all add: sample_binding_def validAccessBinding_def access_row_def live_db_def sample_db_def empty_db_def
      sample_session_def table_simps)

theorem Authenticate_sound_witness:
  "\<exists>token claims r'. Authenticate sample_crypto sample_access_json sample_signer no_fault 0 0 0 token live_db
      Map.empty = (Inr claims, r') \<and> (\<exists>s\<in>set (sessions live_db). s_revoked_at s = None)"
proof -
  obtain token where t: "access_Verify sample_crypto sample_access_json sample_signer 0 token
     = Inr \<lparr>acl_Binding = sample_binding, acl_IssuedAt = 0, acl_ExpiresAt = 900 * second\<rparr>"
    using sample_token by blast
  obtain claims r' where a: "Authenticate sample_crypto sample_access_json sample_signer no_fault 0 0 0 token
      live_db Map.empty = (Inr claims, r')"
    using t sample_binding_fields
    by (auto simp: Authenticate_def Cache_Read_def AccessActive_def Cache_Write_def value_at_def live_def
        time_sub_def max_duration_def)
  from Authenticate_sound [OF a] a show ?thesis by blast
qed

theorem revocation_sticks_witness:
  "\<exists>token r'. Authenticate sample_crypto sample_access_json sample_signer no_fault 0 0 0 token sample_db Map.empty
       = (Inl ErrSessionRevoked, r')
     \<and> (\<exists>e. Authenticate sample_crypto sample_access_json sample_signer no_fault second second second token
          live_db r' = (Inl e, r'))"
proof -
  obtain token where t: "access_Verify sample_crypto sample_access_json sample_signer 0 token
     = Inr \<lparr>acl_Binding = sample_binding, acl_IssuedAt = 0, acl_ExpiresAt = 900 * second\<rparr>"
    using sample_token by blast
  obtain res r' where a: "Authenticate sample_crypto sample_access_json sample_signer no_fault 0 0 0 token
      sample_db Map.empty = (res, r')" by fastforce
  have "second < px_ttl (time_sub (900 * second) 0)" "px_ttl (time_sub (900 * second) 0) = 900 * second"
    by (simp_all add: px_ttl_def time_sub_def max_duration_def)
  with revocation_sticks [OF t _ _ _ a, of second no_fault second second live_db] a sample_binding_fields
  show ?thesis by (auto simp: value_at_def live_def)
qed

definition sample_sessions :: SessionService where
  "sample_sessions = \<lparr>ss_accessTokens = sample_signer, ss_offlineEntitlements = sample_entitlements,
     ss_refreshHMACKey = replicate 32 (CHR ''f'')\<rparr>"

definition sample_session_env :: session_env where
  "sample_session_env = \<lparr>se_now = 0, se_issue_now = 0, se_revoke_now = 0,
     se_uuid = (\<lambda>k. if k = 0 then Some 2 else if k = 1 then Some 6 else Some 9), se_read = sample_read,
     se_fails = no_fault\<rparr>"

definition sample_codecs :: codecs where
  "sample_codecs = \<lparr>c_access = sample_access_json, c_offline = sample_entitlement_json\<rparr>"

definition started_db :: db where
  "started_db = sample_db\<lparr>sessions := [new_session \<lparr>cr_SessionID = 2, cr_FamilyID = 6,
     cr_Binding = sample_device_binding, cr_RefreshTokenHash = refreshHash sample_crypto sample_sessions (replicate 32 (CHR ''n'')),
     cr_IssuedAt = 0, cr_ExpiresAt = refreshLifetime\<rparr>]\<rparr>"

lemma sample_prepare: "createSession no_fault \<lparr>cr_SessionID = 2, cr_FamilyID = 6,
     cr_Binding = sample_device_binding, cr_RefreshTokenHash = refreshHash sample_crypto sample_sessions (replicate 32 (CHR ''n'')),
     cr_IssuedAt = 0, cr_ExpiresAt = refreshLifetime\<rparr> sample_db = (None, started_db)"
  by (simp add: createSession_def validBinding_def sample_device_binding_def binding_active_def insert_session_def
      new_session_def started_db_def sample_db_def empty_db_def table_simps refreshHash_def sample_crypto_correct refreshLifetime_def)

lemma sample_start:
  "\<exists>ts d'. Start sample_crypto sample_codecs sample_sessions sample_session_env sample_device_binding sample_db
     = (Inr ts, d') \<and> sessions d' = sessions started_db"
proof -
  have p: "prepareStart sample_crypto sample_sessions sample_session_env sample_device_binding =
    Inr (\<lparr>ro_SessionID = 2, ro_FamilyID = 6, ro_Binding = sample_device_binding\<rparr>, encode_url (replicate 32 (CHR ''n'')),
      refreshLifetime, \<lparr>cr_SessionID = 2, cr_FamilyID = 6, cr_Binding = sample_device_binding,
        cr_RefreshTokenHash = refreshHash sample_crypto sample_sessions (replicate 32 (CHR ''n'')),
        cr_IssuedAt = 0, cr_ExpiresAt = refreshLifetime\<rparr>)"
    by (simp add: prepareStart_def validBinding_def sample_device_binding_def sample_session_env_def
        RandomUUID_def newRefreshToken_def RandomBytes_def sample_read_def Let_def)
  obtain tok where a: "access_Issue sample_crypto sample_access_json sample_signer 0 sample_binding = Inr tok"
    using sample_access_issue by blast
  have "\<exists>iss d'. entitlement_issue sample_crypto sample_entitlement_json sample_entitlements False 0 (Some 9)
       sample_device_binding started_db = (Inr iss, d')"
    using NewEntitlementService_Inr(1) [OF sample_entitlements_ok]
    by (simp add: entitlement_issue_def RandomUUID_def sample_entitlement_json_def one_payload_def
        recordIssuance_def insert_issuance_def issuance_of_def sample_entitlements_fields
        sample_device_binding_def validBinding_def started_db_def sample_db_def empty_db_def table_simps entitlementLifetime_def Let_def)
  then obtain iss d' where i: "entitlement_issue sample_crypto sample_entitlement_json sample_entitlements False 0
       (Some 9) sample_device_binding started_db = (Inr iss, d')" by blast
  have "\<exists>ts. Start sample_crypto sample_codecs sample_sessions sample_session_env sample_device_binding sample_db
      = (Inr ts, d')"
    using p sample_prepare a i
    by (simp add: Start_def start_with_def issueTokenSet_def sample_session_env_def sample_codecs_def
        sample_sessions_def sample_binding_def sample_device_binding_def)
  moreover have "sessions d' = sessions started_db"
    by (rule entitlement_issue_Inr [OF i], drule recordIssuance_Inr(1)) simp
  ultimately show ?thesis by blast
qed

theorem started_session_refreshes_witness:
  "\<exists>ts d' secret rot d2.
     Start sample_crypto sample_codecs sample_sessions sample_session_env sample_device_binding sample_db = (Inr ts, d')
     \<and> Rotate no_fault (refreshHash sample_crypto sample_sessions secret)
         (sample_successor\<lparr>sc_RefreshTokenHash := replicate 32 (CHR ''?'')\<rparr>) (10 * second) d' = (Inr rot, d2)"
proof -
  obtain ts d' where st: "Start sample_crypto sample_codecs sample_sessions sample_session_env
      sample_device_binding sample_db = (Inr ts, d')" "sessions d' = sessions started_db"
    using sample_start by blast
  have "refreshHash sample_crypto sample_sessions (replicate 32 (CHR ''n'')) \<noteq> replicate 32 (CHR ''?'')"
    by (simp add: refreshHash_def sample_crypto_def fit_def)
  with started_session_refreshes [OF live_db_keys(2) sample_crypto_correct(2) _ st(1), of "10 * second"
      "sample_successor\<lparr>sc_RefreshTokenHash := replicate 32 (CHR ''?'')\<rparr>"] st
  show ?thesis
    by (auto simp: sample_session_env_def sample_read_def refreshLifetime_def valid_successor_def
        sample_successor_def started_db_def new_session_def)
qed

theorem failed_start_leaves_nothing_usable_witness:
  "\<exists>d'. Start sample_crypto sample_codecs sample_sessions
       (sample_session_env\<lparr>se_fails := (\<lambda>k. k = 2)\<rparr>) sample_device_binding sample_db = (Inl ErrUnavailable, d')
     \<and> (\<forall>x\<in>set (sessions d'). s_revoked_at x \<noteq> None)"
proof -
  let ?e = "sample_session_env\<lparr>se_fails := (\<lambda>k. k = 2)\<rparr>"
  obtain res d' where st: "Start sample_crypto sample_codecs sample_sessions ?e sample_device_binding sample_db = (res, d')"
    by fastforce
  have "prepareStart sample_crypto sample_sessions ?e sample_device_binding =
    Inr (\<lparr>ro_SessionID = 2, ro_FamilyID = 6, ro_Binding = sample_device_binding\<rparr>, encode_url (replicate 32 (CHR ''n'')),
      refreshLifetime, \<lparr>cr_SessionID = 2, cr_FamilyID = 6, cr_Binding = sample_device_binding,
        cr_RefreshTokenHash = refreshHash sample_crypto sample_sessions (replicate 32 (CHR ''n'')),
        cr_IssuedAt = 0, cr_ExpiresAt = refreshLifetime\<rparr>)"
    by (simp add: prepareStart_def validBinding_def sample_device_binding_def sample_session_env_def
        RandomUUID_def newRefreshToken_def RandomBytes_def sample_read_def Let_def)
  moreover have "createSession (\<lambda>k. k = 2) r d = createSession no_fault r d" for r d
    by (simp add: createSession_def)
  moreover obtain tok where "access_Issue sample_crypto sample_access_json sample_signer 0 sample_binding = Inr tok"
    using sample_access_issue by blast
  moreover have "fst (entitlement_issue sample_crypto sample_entitlement_json sample_entitlements True 0 (Some 9)
      sample_device_binding started_db) = Inl ErrEntitlementUnavailable"
    by (simp add: entitlement_issue_def recordIssuance_def RandomUUID_def sample_device_binding_def validBinding_def
        Let_def split: option.splits)
  ultimately have "res = Inl ErrUnavailable"
    using st sample_prepare
    by (auto simp: Start_def start_with_def issueTokenSet_def sample_session_env_def sample_codecs_def Let_def
        sample_sessions_def sample_binding_def sample_device_binding_def split: prod.splits sum.splits)
  with st have st': "Start sample_crypto sample_codecs sample_sessions ?e sample_device_binding sample_db
      = (Inl ErrUnavailable, d')" by simp
  from failed_start_leaves_nothing_usable [OF st'] st' show ?thesis by (auto simp: sample_db_def empty_db_def sample_session_env_def)
qed

end
