(* ===== verification/DeviceSafety.thy ===== *)
theory DeviceSafety
  imports Device SessionSafety
begin

text \<open>
  The properties of \<open>internal/device\<close>: the active device limit, the pinning of installations to
  keys and owners, what a revocation ends, and who can revoke a device by itself.
\<close>

section \<open>Authorization\<close>

lemma lock_active_account_None:
  assumes "lock_active_account f userID d = None"
  obtains u where "u \<in> set (users d)" "u_id u = userID" "u_status u = ''active''"
  using assms that by (auto simp: lock_active_account_def dest!: find_Some_in split: if_splits option.splits)

lemma insertDeviceAudit_Some:
  "insertDeviceAudit fails a b c e at d = Some d' \<Longrightarrow> \<exists>row. d' = d\<lparr>audit_events := audit_events d @ [row]\<rparr>
     \<and> insert_audit row d = Some d' \<and> a_device_id row = Some e \<and> a_event_type row = b"
  by (auto simp: insertDeviceAudit_def dest: insert_audit_Some split: if_splits)

lemma release_former_owner_Inr:
  assumes "release_former_owner f r v d = Inr d1"
  shows "devices d1 = devices d" "sessions d1 = sessions d" "issuances d1 = issuances d" "users d1 = users d"
    "personal_spaces d1 = personal_spaces d" "audit_events d1 = audit_events d"
    "self_revocation_nonces d1 = self_revocation_nonces d" "db_keys d1 = db_keys d"
    "d_user_id v \<noteq> ar_UserID r \<Longrightarrow> d_id v \<notin> bd_device_id ` set (backup_devices d) \<and> d_id v \<notin> eb_source_device_id ` set (encrypted_profile_backups d)
       \<and> d_id v \<notin> dc_device_id ` set (desktop_control_commands d1) \<and> d_id v \<notin> di_device_id ` set (desktop_control_instances d1)"
  using assms
  by (auto simp: release_former_owner_def hasOwnerBoundBackupState_def clearDesktopControlState_def
      table_simps db_keys_def split: if_splits sum.splits)

lemma AuthorizeInTx_cases:
  assumes "AuthorizeInTx f r limit d = (res, d')"
  obtains (refused) e where "res = Inl e" "d' = d"
  | (again) v d1 d2 g where "v \<in> set (devices d)" "d_installation_id v = ar_InstallationID r"
      "d_public_key v = ar_PublicKey r" "d_user_id v = ar_UserID r \<or> d_status v = ''revoked''"
      "d_status v = ''active'' \<or> int (active_count (ar_UserID r) d) < limit"
      "release_former_owner g r v d = Inr d1"
      "d2 = d1\<lparr>devices := update_where (\<lambda>x. d_id x = d_id v) (reauthorized r) (devices d1)\<rparr>"
      "insertDeviceAudit False (ar_AuditEventID r) ''device_authorized'' (ar_UserID r) (d_id v) (ar_AuthorizedAt r) d2
        = Some d'"
      "res = Inr (device_of (reauthorized r v))" "\<exists>u\<in>set (users d). u_id u = ar_UserID r \<and> u_status u = ''active''"
  | (fresh) d1 where "ar_InstallationID r \<notin> d_installation_id ` set (devices d)"
      "int (active_count (ar_UserID r) d) < limit" "insert_device (new_device r) d = Inr d1"
      "insertDeviceAudit False (ar_AuditEventID r) ''device_authorized'' (ar_UserID r) (ar_DeviceID r)
        (ar_AuthorizedAt r) d1 = Some d'"
      "res = Inr (device_of (new_device r))" "\<exists>u\<in>set (users d). u_id u = ar_UserID r \<and> u_status u = ''active''"
proof (cases res)
  case (Inl e)
  have "d' = d"
    using assms Inl
    by (auto simp: AuthorizeInTx_def reauthorize_def Let_def split: option.splits sum.splits if_splits)
  with Inl show thesis by (rule refused)
next
  case (Inr dev)
  have lock: "lock_active_account f (ar_UserID r) d = None"
    using assms Inr by (auto simp: AuthorizeInTx_def split: option.splits)
  have user: "\<exists>u\<in>set (users d). u_id u = ar_UserID r \<and> u_status u = ''active''"
    by (rule lock_active_account_None [OF lock]) blast
  show thesis
  proof (cases "find (\<lambda>v. d_installation_id v = ar_InstallationID r) (devices d)")
    case (Some v)
    have re: "reauthorize (later 3 f) r limit v d = (Inr dev, d')"
      using assms Inr lock Some by (simp add: AuthorizeInTx_def findByInstallationForUpdate_def split: if_splits)
    have v: "v \<in> set (devices d)" "d_installation_id v = ar_InstallationID r" using find_Some_in [OF Some] by simp_all
    obtain d1 where rel: "release_former_owner (later 1 (later 3 f)) r v d = Inr d1"
      using re by (auto simp: reauthorize_def split: if_splits sum.splits)
    show thesis
      by (rule again [OF v _ _ _ rel refl _ _ user])
        (use re rel Inr in \<open>auto simp: reauthorize_def hasCapacity_def insertDeviceAudit_def Let_def
          split: if_splits sum.splits option.splits\<close>)
  next
    case None
    have new: "ar_InstallationID r \<notin> d_installation_id ` set (devices d)" using None by (auto simp: find_None)
    obtain d1 where ins: "insert_device (new_device r) d = Inr d1"
      using assms Inr lock None
      by (auto simp: AuthorizeInTx_def findByInstallationForUpdate_def split: if_splits sum.splits)
    show thesis
      by (rule fresh [OF new _ ins _ _ user])
        (use assms Inr lock None ins in \<open>auto simp: AuthorizeInTx_def findByInstallationForUpdate_def
          hasCapacity_def insertDeviceAudit_def split: if_splits sum.splits option.splits\<close>)
  qed
qed

lemma Authorize_cases:
  assumes "Authorize f r limit d = (res, d')"
  obtains (refused) e where "res = Inl e" "d' = d"
  | (authorized) dev where "res = Inr dev" "AuthorizeInTx (later 2 f) r limit d = (res, d')"
  using assms that by (auto simp: Authorize_def split: if_splits prod.splits sum.splits)

definition within_limit :: "int \<Rightarrow> db \<Rightarrow> bool" where
  "within_limit limit d \<longleftrightarrow> (\<forall>u. int (active_count u d) \<le> limit)"

lemma AuthorizeInTx_limit:
  assumes "db_keys d" "within_limit limit d" "AuthorizeInTx f r limit d = (res, d')"
  shows "within_limit limit d'"
  using assms(3)
proof (cases rule: AuthorizeInTx_cases)
  case (refused e)
  with assms(2) show ?thesis by simp
next
  case (again v d1 d2 g)
  note rel = release_former_owner_Inr(1) [OF again(6)]
  obtain row where "d' = d2\<lparr>audit_events := audit_events d2 @ [row]\<rparr>"
    using insertDeviceAudit_Some [OF again(8)] by blast
  then have dev: "devices d' = update_where (\<lambda>x. d_id x = d_id v) (reauthorized r) (devices d)"
    using again(7) rel by simp
  have "distinct (map d_id (devices d))" using assms(1) by (simp add: db_keys_def)
  note count = filter_update_one [OF this again(1), of _ "reauthorized r"]
  have "int (active_count u d') \<le> limit" for u
    using count [of "\<lambda>x. d_user_id x = u \<and> d_status x = ''active''"] again(4,5) assms(2)
    by (cases "u = ar_UserID r")
      (auto simp: active_count_def dev reauthorized_def within_limit_def split: if_splits)
  then show ?thesis by (simp add: within_limit_def)
next
  case (fresh d1)
  obtain row where "d' = d1\<lparr>audit_events := audit_events d1 @ [row]\<rparr>"
    using insertDeviceAudit_Some [OF fresh(4)] by blast
  then have "devices d' = devices d @ [new_device r]" using insert_device_Inr(1) [OF fresh(3)] by simp
  then show ?thesis using fresh(2) assms(2)
    by (auto simp: within_limit_def active_count_def new_device_def)
qed

text \<open>
  Device limit: if no account has more than the configured number of active devices, no
  authorization, new or repeated, of whatever account and however it ends, makes one exceed it.
\<close>

theorem active_device_limit:
  assumes "db_keys d" "\<forall>u. int (active_count u d) \<le> limit" "Authorize f r limit d = (res, d')"
  shows "\<forall>u. int (active_count u d') \<le> limit"
  using assms(3)
proof (cases rule: Authorize_cases)
  case (refused e)
  with assms(2) show ?thesis by simp
next
  case (authorized dev)
  then show ?thesis using AuthorizeInTx_limit [OF assms(1)] assms(2) by (simp add: within_limit_def)
qed

lemma reauthorized_keys:
  "d_id (reauthorized r v) = d_id v" "d_installation_id (reauthorized r v) = d_installation_id v"
  "d_public_key (reauthorized r v) = d_public_key v"
  by (simp_all add: reauthorized_def)

lemma devices_update_keys:
  assumes "\<And>v. P v \<Longrightarrow> d_id (g v) = d_id v" "\<And>v. P v \<Longrightarrow> d_installation_id (g v) = d_installation_id v"
    "\<And>v. P v \<Longrightarrow> d_public_key (g v) = d_public_key v"
  shows "db_keys (d\<lparr>devices := update_where P g (devices d)\<rparr>) = db_keys d"
  using map_update_where [of P d_id g "devices d"] map_update_where [of P d_installation_id g "devices d"]
    map_update_where [of P d_public_key g "devices d"] assms
  by (simp add: db_keys_def)

lemma AuthorizeInTx_keys:
  assumes "db_keys d" "AuthorizeInTx f r limit d = (res, d')"
  shows "db_keys d'"
  using assms(2)
proof (cases rule: AuthorizeInTx_cases)
  case (again v d1 d2 g)
  have "db_keys d2" unfolding again(7)
    using assms(1) release_former_owner_Inr(8) [OF again(6)]
    by (subst devices_update_keys) (simp_all add: reauthorized_keys)
  with insertDeviceAudit_Some [OF again(8)] insert_audit_keys show ?thesis by blast
next
  case (fresh d1)
  have "db_keys d1" by (rule insert_device_keys [OF assms(1) fresh(3)])
  with insertDeviceAudit_Some [OF fresh(4)] insert_audit_keys show ?thesis by blast
qed (use assms(1) in simp)

text \<open>
  C33. Pinning: an authorization succeeds for an installation that is already known only with the
  same public key, and for another account than its owner's only after the owner revoked it, with
  no backup state of the device left and the desktop control state of the former owner removed.
  Every other device keeps its row. Afterwards the installation is an active device of the account
  with that key.
\<close>

theorem authorization_pins_installation:
  assumes "db_keys d" "Authorize f r limit d = (Inr dev, d')"
  shows "(\<forall>v\<in>set (devices d). d_installation_id v = ar_InstallationID r \<longrightarrow>
        d_public_key v = ar_PublicKey r \<and> d_id v = dv_ID dev
        \<and> (d_user_id v = ar_UserID r \<or> d_status v = ''revoked''
            \<and> d_id v \<notin> bd_device_id ` set (backup_devices d) \<and> d_id v \<notin> eb_source_device_id ` set (encrypted_profile_backups d)
            \<and> d_id v \<notin> dc_device_id ` set (desktop_control_commands d') \<and> d_id v \<notin> di_device_id ` set (desktop_control_instances d')))
    \<and> (\<forall>v\<in>set (devices d). d_installation_id v \<noteq> ar_InstallationID r \<longrightarrow> v \<in> set (devices d'))
    \<and> (\<exists>v\<in>set (devices d'). device_of v = dev \<and> d_installation_id v = ar_InstallationID r
        \<and> d_public_key v = ar_PublicKey r \<and> d_user_id v = ar_UserID r \<and> d_status v = ''active'')"
  using assms(2)
proof (cases rule: Authorize_cases)
  case (authorized dev')
  from authorized(2) show ?thesis
  proof (cases rule: AuthorizeInTx_cases)
    case (again v d1 d2 g)
    note rel = release_former_owner_Inr [OF again(6)]
    obtain row where d': "d' = d2\<lparr>audit_events := audit_events d2 @ [row]\<rparr>"
      using insertDeviceAudit_Some [OF again(8)] by blast
    have dev: "devices d' = update_where (\<lambda>x. d_id x = d_id v) (reauthorized r) (devices d)"
      "desktop_control_commands d' = desktop_control_commands d1" "desktop_control_instances d' = desktop_control_instances d1"
      using d' again(7) rel(1) by simp_all
    have only: "x = v" if "x \<in> set (devices d)" "d_installation_id x = ar_InstallationID r" for x
      using that again(1,2) assms(1)
      by (intro distinct_key_eq [of d_installation_id "devices d"]) (simp_all add: db_keys_def)
    have id: "dv_ID dev = d_id v" using again(9) by (simp add: device_of_def reauthorized_keys)
    have "distinct (map d_id (devices d))" using assms(1) by (simp add: db_keys_def)
    then obtain a b where ab: "devices d = a @ v # b" "devices d' = a @ reauthorized r v # b"
      unfolding dev(1) by (rule update_where_key [OF _ again(1), of d_id "reauthorized r"])
    have "\<forall>x\<in>set (devices d). d_installation_id x \<noteq> ar_InstallationID r \<longrightarrow> x \<in> set (devices d')"
      using ab again(2) by auto
    moreover have "\<exists>x\<in>set (devices d'). device_of x = dev \<and> d_installation_id x = ar_InstallationID r
        \<and> d_public_key x = ar_PublicKey r \<and> d_user_id x = ar_UserID r \<and> d_status x = ''active''"
      using ab(2) again(2,3,9) by (intro bexI [of _ "reauthorized r v"]) (simp_all add: reauthorized_def)
    moreover have "\<forall>x\<in>set (devices d). d_installation_id x = ar_InstallationID r \<longrightarrow>
        d_public_key x = ar_PublicKey r \<and> d_id x = dv_ID dev
        \<and> (d_user_id x = ar_UserID r \<or> d_status x = ''revoked''
            \<and> d_id x \<notin> bd_device_id ` set (backup_devices d) \<and> d_id x \<notin> eb_source_device_id ` set (encrypted_profile_backups d)
            \<and> d_id x \<notin> dc_device_id ` set (desktop_control_commands d') \<and> d_id x \<notin> di_device_id ` set (desktop_control_instances d'))"
      using only again(3,4) id rel(9) dev(2,3) by (auto dest!: only)
    ultimately show ?thesis by blast
  next
    case (fresh d1)
    obtain row where "d' = d1\<lparr>audit_events := audit_events d1 @ [row]\<rparr>"
      using insertDeviceAudit_Some [OF fresh(4)] by blast
    then have "devices d' = devices d @ [new_device r]" using insert_device_Inr(1) [OF fresh(3)] by simp
    moreover have "\<forall>v\<in>set (devices d). d_installation_id v \<noteq> ar_InstallationID r"
      using fresh(1) by (auto simp: image_iff)
    ultimately show ?thesis using fresh(5) by (auto simp: new_device_def)
  qed simp
qed simp

section \<open>Revocation\<close>

lemma Revoke_device_cases:
  assumes "Revoke_device f userID deviceID auditID at d = (x, d')"
  obtains (refused) e where "x = Some e" "d' = d"
  | (revoked) v row where "x = None" "v \<in> set (devices d)" "d_id v = deviceID" "d_user_id v = userID" "d_status v \<noteq> ''revoked''"
      "d' = d\<lparr>devices := update_where (\<lambda>v. d_id v = deviceID \<and> d_user_id v = userID \<and> d_status v \<noteq> ''revoked'')
                 (mark_revoked at) (devices d),
               sessions := update_where (\<lambda>s. s_device_id s = deviceID \<and> s_revoked_at s = None)
                 (\<lambda>s. s\<lparr>s_revoked_at := Some at, s_revoked_reason := Some ''device_revoked''\<rparr>) (sessions d),
               issuances := update_where (\<lambda>i. i_device_id i = deviceID)
                 (\<lambda>i. i\<lparr>i_revoked_at := coalesce (i_revoked_at i) at\<rparr>) (issuances d),
               audit_events := audit_events d @ [row]\<rparr>"
      "a_id row \<notin> a_id ` set (audit_events d)" "a_event_type row = ''device_revoked''" "a_device_id row = Some deviceID"
proof (cases x)
  case (Some e)
  with assms show thesis
    by (intro refused [of e]) (auto simp: Revoke_device_def Let_def split: if_splits option.splits)
next
  case None
  let ?target = "\<lambda>v. d_id v = deviceID \<and> d_user_id v = userID \<and> d_status v \<noteq> ''revoked''"
  let ?d1 = "d\<lparr>devices := update_where ?target (mark_revoked at) (devices d),
               sessions := update_where (\<lambda>s. s_device_id s = deviceID \<and> s_revoked_at s = None)
                 (\<lambda>s. s\<lparr>s_revoked_at := Some at, s_revoked_reason := Some ''device_revoked''\<rparr>) (sessions d),
               issuances := update_where (\<lambda>i. i_device_id i = deviceID)
                 (\<lambda>i. i\<lparr>i_revoked_at := coalesce (i_revoked_at i) at\<rparr>) (issuances d)\<rparr>"
  have one: "length (filter ?target (devices d)) = 1"
    and aud: "insertDeviceAudit (f 6) auditID ''device_revoked'' userID deviceID at ?d1 = Some d'"
    using assms None by (auto simp: Revoke_device_def Let_def split: if_splits option.splits)
  obtain v where "v \<in> set (filter ?target (devices d))" using one by (cases "filter ?target (devices d)") simp_all
  then have v: "v \<in> set (devices d)" "?target v" by simp_all
  obtain row where "insert_audit row ?d1 = Some d'" "a_device_id row = Some deviceID" "a_event_type row = ''device_revoked''"
    using insertDeviceAudit_Some [OF aud] by blast
  with insert_audit_Some [OF this(1)] v None show thesis by (intro revoked [of v row]) auto
qed

text \<open>
  Revoking a device ends everything it holds: it succeeds only for a device of the caller's
  active account that is not already revoked, and then the device is revoked, all its sessions and
  offline entitlements are revoked, no access binding on it is active, every other device, session
  and entitlement is untouched and exactly one audit event is added. When it fails nothing changes.
\<close>

theorem device_revocation_effect:
  assumes "db_keys d" "Revoke_device f userID deviceID auditID at d = (x, d')"
  shows "if x = None
    then (\<exists>v\<in>set (devices d'). d_id v = deviceID \<and> d_user_id v = userID \<and> d_status v = ''revoked'' \<and> d_revoked_at v = Some at)
      \<and> (\<forall>s\<in>set (sessions d'). s_device_id s = deviceID \<longrightarrow> s_revoked_at s \<noteq> None)
      \<and> (\<forall>i\<in>set (issuances d'). i_device_id i = deviceID \<longrightarrow> i_revoked_at i \<noteq> None)
      \<and> (\<forall>b now. ab_DeviceID b = deviceID \<longrightarrow> \<not> access_row b now d')
      \<and> filter (\<lambda>v. d_id v \<noteq> deviceID) (devices d') = filter (\<lambda>v. d_id v \<noteq> deviceID) (devices d)
      \<and> filter (\<lambda>s. s_device_id s \<noteq> deviceID) (sessions d') = filter (\<lambda>s. s_device_id s \<noteq> deviceID) (sessions d)
      \<and> filter (\<lambda>i. i_device_id i \<noteq> deviceID) (issuances d') = filter (\<lambda>i. i_device_id i \<noteq> deviceID) (issuances d)
      \<and> (\<exists>row. audit_events d' = audit_events d @ [row] \<and> a_event_type row = ''device_revoked'' \<and> a_device_id row = Some deviceID)
    else d' = d"
  using assms(2)
proof (cases rule: Revoke_device_cases)
  case (refused e)
  then show ?thesis by simp
next
  case (revoked v row)
  have "mark_revoked at v \<in> set (devices d')"
    using revoked(2-6) by (auto simp: set_update_where intro!: bexI [of _ v])
  then have dev: "\<exists>v\<in>set (devices d'). d_id v = deviceID \<and> d_user_id v = userID \<and> d_status v = ''revoked'' \<and> d_revoked_at v = Some at"
    using revoked(3,4) by (intro bexI [of _ "mark_revoked at v"]) (simp_all add: mark_revoked_def)
  have ses: "s_revoked_at s \<noteq> None" if s: "s \<in> set (sessions d')" "s_device_id s = deviceID" for s
  proof -
    obtain q where "s = (if s_device_id q = deviceID \<and> s_revoked_at q = None
        then q\<lparr>s_revoked_at := Some at, s_revoked_reason := Some ''device_revoked''\<rparr> else q)"
      using s(1) revoked(6) by (simp add: set_update_where) blast
    with s(2) show ?thesis by (auto split: if_splits)
  qed
  have iss: "i_revoked_at i \<noteq> None" if i: "i \<in> set (issuances d')" "i_device_id i = deviceID" for i
  proof -
    obtain q where "i = (if i_device_id q = deviceID then q\<lparr>i_revoked_at := coalesce (i_revoked_at q) at\<rparr> else q)"
      using i(1) revoked(6) by (simp add: set_update_where) blast
    with i(2) show ?thesis by (auto split: if_splits)
  qed
  have acc: "\<not> access_row b now d'" if "ab_DeviceID b = deviceID" for b now
    using ses that by (auto simp: access_row_def table_simps)
  have rest: "filter (\<lambda>v. d_id v \<noteq> deviceID) (devices d') = filter (\<lambda>v. d_id v \<noteq> deviceID) (devices d)"
    "filter (\<lambda>s. s_device_id s \<noteq> deviceID) (sessions d') = filter (\<lambda>s. s_device_id s \<noteq> deviceID) (sessions d)"
    "filter (\<lambda>i. i_device_id i \<noteq> deviceID) (issuances d') = filter (\<lambda>i. i_device_id i \<noteq> deviceID) (issuances d)"
    unfolding revoked(6) by (simp, rule filter_update_other; simp add: mark_revoked_def)+
  show ?thesis using dev ses iss acc rest revoked(1,6,8,9) by auto
qed

section \<open>Self-revocation\<close>

lemma SelfRevoke_record_cases:
  assumes "SelfRevoke_record f r d = (x, d')"
  obtains (refused) e where "x = Some e" "d' = d"
  | (revoked) v row where "x = None" "find (\<lambda>v. d_id v = srr_DeviceID r) (devices d) = Some v" "d_id v = srr_DeviceID r" "d_user_id v = srr_UserID r"
      "d_installation_id v = srr_InstallationID r" "d_status v = ''active''"
      "\<not> (\<exists>n\<in>set (self_revocation_nonces d). n_device_id n = srr_DeviceID r \<and> n_nonce_hash n = srr_NonceHash r)"
      "d' = d\<lparr>devices := update_where (\<lambda>v. d_id v = srr_DeviceID r) (mark_revoked (srr_RevokedAt r)) (devices d),
               sessions := update_where (\<lambda>s. s_device_id s = srr_DeviceID r)
                 (\<lambda>s. s\<lparr>s_revoked_at := coalesce (s_revoked_at s) (srr_RevokedAt r),
                        s_revoked_reason := coalesce (s_revoked_reason s) ''device_self_revoked''\<rparr>) (sessions d),
               issuances := update_where (\<lambda>i. i_device_id i = srr_DeviceID r)
                 (\<lambda>i. i\<lparr>i_revoked_at := coalesce (i_revoked_at i) (srr_RevokedAt r)\<rparr>) (issuances d),
               self_revocation_nonces := self_revocation_nonces d @ [\<lparr>n_device_id = srr_DeviceID r,
                 n_nonce_hash = srr_NonceHash r, n_used_at = srr_RevokedAt r\<rparr>],
               audit_events := audit_events d @ [row]\<rparr>"
      "a_id row \<notin> a_id ` set (audit_events d)"
proof (cases x)
  case (Some e)
  with assms show thesis
    by (intro refused [of e]) (auto simp: SelfRevoke_record_def Let_def split: if_splits option.splits)
next
  case None
  let ?nonce = "\<lparr>n_device_id = srr_DeviceID r, n_nonce_hash = srr_NonceHash r, n_used_at = srr_RevokedAt r\<rparr>"
  obtain v where v: "find (\<lambda>v. d_id v = srr_DeviceID r) (devices d) = Some v"
    using assms None by (auto simp: SelfRevoke_record_def split: if_splits option.splits)
  have checks: "d_user_id v = srr_UserID r" "d_installation_id v = srr_InstallationID r" "d_status v = ''active''"
    "\<not> (\<exists>n\<in>set (self_revocation_nonces d). n_device_id n = srr_DeviceID r \<and> n_nonce_hash n = srr_NonceHash r)"
    using assms None v by (auto simp: SelfRevoke_record_def table_simps split: if_splits option.splits)
  obtain d1 where d1: "insert_nonce ?nonce d = Some d1"
    using assms None v by (auto simp: SelfRevoke_record_def split: if_splits option.splits)
  let ?at = "srr_RevokedAt r"
  let ?d2 = "d1\<lparr>devices := update_where (\<lambda>v. d_id v = srr_DeviceID r) (mark_revoked ?at) (devices d1),
               sessions := update_where (\<lambda>s. s_device_id s = srr_DeviceID r)
                 (\<lambda>s. s\<lparr>s_revoked_at := coalesce (s_revoked_at s) ?at,
                        s_revoked_reason := coalesce (s_revoked_reason s) ''device_self_revoked''\<rparr>) (sessions d1),
               issuances := update_where (\<lambda>i. i_device_id i = srr_DeviceID r)
                 (\<lambda>i. i\<lparr>i_revoked_at := coalesce (i_revoked_at i) ?at\<rparr>) (issuances d1)\<rparr>"
  have "insertDeviceAudit (f 7) (srr_AuditEventID r) ''device_self_revoked'' (srr_UserID r) (srr_DeviceID r) ?at ?d2
      = Some d'"
    using assms None v d1 by (auto simp: SelfRevoke_record_def Let_def split: if_splits option.splits)
  then obtain row where row: "insert_audit row ?d2 = Some d'" using insertDeviceAudit_Some by blast
  show thesis
    using v find_Some_in [OF v] checks insert_audit_Some [OF row] insert_nonce_Some [OF d1] None
    by (intro revoked [of v row]) auto
qed

lemma SelfRevoke_cases:
  assumes "SelfRevoke cr draw f now c d = (x, d')"
  obtains (refused) e where "x = Some e" "d' = d"
  | (checked) v audit where "find (\<lambda>v. d_id v = src_DeviceID c) (devices d) = Some v" "d_id v = src_DeviceID c" "d_installation_id v = src_InstallationID c"
      "ed25519_verify cr (d_public_key v) (selfRevokeDigest cr c) (src_Signature c)"
      "-2 * minute \<le> time_sub now (of_unix (src_Timestamp c))" "time_sub now (of_unix (src_Timestamp c)) \<le> 2 * minute"
      "SelfRevoke_record (later 1 f) \<lparr>srr_UserID = d_user_id v, srr_DeviceID = d_id v,
         srr_InstallationID = d_installation_id v, srr_NonceHash = selfRevokeNonceHash cr (src_Nonce c),
         srr_AuditEventID = audit, srr_RevokedAt = now\<rparr> d = (x, d')"
proof (cases "\<exists>e. x = Some e \<and> d' = d")
  case True
  then show thesis using refused by blast
next
  case False
  obtain v where v: "find (\<lambda>v. d_id v = src_DeviceID c) (devices d) = Some v"
    using assms False
    by (auto simp: SelfRevoke_def FindForSelfRevoke_def Let_def split: if_splits sum.splits option.splits)
  obtain audit where "draw = Some audit"
    using assms False v
    by (cases draw) (auto simp: SelfRevoke_def FindForSelfRevoke_def RandomUUID_def Let_def split: if_splits)
  then show thesis
    using assms False v find_Some_in [OF v]
    by (intro checked [of v audit])
      (auto simp: SelfRevoke_def FindForSelfRevoke_def RandomUUID_def device_of_def Let_def split: if_splits)
qed

text \<open>
  C40. A self-revocation succeeds only with a signature by the device's own registered key over the
  device, the installation, the timestamp and the nonce, made within two minutes of the server's
  clock, for an active device and a nonce never used for it; it then records the nonce and revokes
  the device with all its sessions and entitlements. Otherwise nothing changes.
\<close>

theorem self_revocation_sound:
  assumes "SelfRevoke cr draw f now c d = (x, d')"
  shows "if x = None
    then (\<exists>v\<in>set (devices d). d_id v = src_DeviceID c \<and> d_installation_id v = src_InstallationID c
          \<and> d_status v = ''active''
          \<and> ed25519_verify cr (d_public_key v) (selfRevokeDigest cr c) (src_Signature c))
      \<and> \<bar>now - of_unix (src_Timestamp c)\<bar> \<le> 2 * minute
      \<and> (\<forall>n\<in>set (self_revocation_nonces d). n_device_id n = src_DeviceID c
            \<longrightarrow> n_nonce_hash n \<noteq> selfRevokeNonceHash cr (src_Nonce c))
      \<and> (\<exists>n\<in>set (self_revocation_nonces d'). n_device_id n = src_DeviceID c
            \<and> n_nonce_hash n = selfRevokeNonceHash cr (src_Nonce c))
      \<and> (\<forall>v\<in>set (devices d'). d_id v = src_DeviceID c \<longrightarrow> d_status v = ''revoked'')
      \<and> (\<forall>s\<in>set (sessions d'). s_device_id s = src_DeviceID c \<longrightarrow> s_revoked_at s \<noteq> None)
      \<and> (\<forall>i\<in>set (issuances d'). i_device_id i = src_DeviceID c \<longrightarrow> i_revoked_at i \<noteq> None)
    else d' = d"
  using assms
proof (cases rule: SelfRevoke_cases)
  case (refused e)
  then show ?thesis by simp
next
  case (checked v audit)
  from checked(7) show ?thesis
  proof (cases rule: SelfRevoke_record_cases)
    case (refused e)
    then show ?thesis by simp
  next
    case (revoked w row)
    note w = revoked(2-8) [simplified]
    have vw: "v = w" using w(1) checked(1,2) by simp
    have near: "\<bar>now - of_unix (src_Timestamp c)\<bar> \<le> 2 * minute"
      using checked(5,6) by (auto simp: time_sub_def max_duration_def min_def max_def split: if_splits)
    have dev: "d_status q = ''revoked''" if q: "q \<in> set (devices d')" "d_id q = src_DeviceID c" for q
    proof -
      obtain p where "q = (if d_id p = d_id v then mark_revoked now p else p)"
        using q(1) w(7) by (simp add: set_update_where) blast
      with q(2) checked(2) show ?thesis by (auto simp: mark_revoked_def split: if_splits)
    qed
    have ses: "s_revoked_at q \<noteq> None" if q: "q \<in> set (sessions d')" "s_device_id q = src_DeviceID c" for q
    proof -
      obtain p where "q = (if s_device_id p = d_id v then p\<lparr>s_revoked_at := coalesce (s_revoked_at p) now,
          s_revoked_reason := coalesce (s_revoked_reason p) ''device_self_revoked''\<rparr> else p)"
        using q(1) w(7) by (simp add: set_update_where) blast
      with q(2) checked(2) show ?thesis by (auto split: if_splits)
    qed
    have iss: "i_revoked_at q \<noteq> None" if q: "q \<in> set (issuances d')" "i_device_id q = src_DeviceID c" for q
    proof -
      obtain p where "q = (if i_device_id p = d_id v then p\<lparr>i_revoked_at := coalesce (i_revoked_at p) now\<rparr> else p)"
        using q(1) w(7) by (simp add: set_update_where) blast
      with q(2) checked(2) show ?thesis by (auto split: if_splits)
    qed
    have "\<exists>q\<in>set (devices d). d_id q = src_DeviceID c \<and> d_installation_id q = src_InstallationID c
        \<and> d_status q = ''active'' \<and> ed25519_verify cr (d_public_key q) (selfRevokeDigest cr c) (src_Signature c)"
      using find_Some_in [OF checked(1)] checked(3,4) w(5) vw by blast
    with near dev ses iss revoked(1) w(6,7) checked(2) show ?thesis by auto
  qed
qed

section \<open>Examples\<close>

definition sample_authorization :: AuthorizationRecord where
  "sample_authorization = \<lparr>ar_DeviceID = 30, ar_AuditEventID = 31, ar_UserID = 1, ar_InstallationID = 50,
     ar_PublicKey = replicate 32 (CHR ''m''), ar_DisplayName = ''pc'', ar_Platform = ''windows'',
     ar_AppVersion = ''1.0.0'', ar_AuthorizedAt = 10 * second\<rparr>"

definition sample_reauthorization :: AuthorizationRecord where
  "sample_reauthorization = sample_authorization\<lparr>ar_InstallationID := 5, ar_PublicKey := replicate 32 (CHR ''k'')\<rparr>"

definition sample_self_revoke :: SelfRevokeCommand where
  "sample_self_revoke =
     (let c = \<lparr>src_DeviceID = 3, src_InstallationID = 5, src_Timestamp = 100, src_Nonce = replicate 32 (CHR ''n''),
        src_Signature = []\<rparr>
      in c\<lparr>src_Signature := fit 64 (replicate 32 (CHR ''k'') @ selfRevokeDigest sample_crypto c)\<rparr>)"

lemma sample_limit: "\<forall>u. int (active_count u live_db) \<le> 2"
  by (simp add: active_count_def live_db_def sample_db_def empty_db_def)

lemma sample_authorize:
  "\<exists>d'. Authorize no_fault sample_authorization 2 live_db
     = (Inr (device_of (new_device sample_authorization)), d')"
  by (simp add: Authorize_def AuthorizeInTx_def lock_active_account_def findByInstallationForUpdate_def
      hasCapacity_def active_count_def insert_device_def insertDeviceAudit_def insert_audit_def
      live_db_def sample_db_def empty_db_def sample_authorization_def new_device_def table_simps)

lemma sample_reauthorize:
  "\<exists>dev d'. Authorize no_fault sample_reauthorization 2 live_db = (Inr dev, d') \<and> dv_ID dev = 3"
  by (simp add: Authorize_def AuthorizeInTx_def lock_active_account_def findByInstallationForUpdate_def
      reauthorize_def release_former_owner_def insertDeviceAudit_def insert_audit_def device_of_def
      live_db_def sample_db_def empty_db_def sample_authorization_def sample_reauthorization_def reauthorized_def table_simps)

theorem active_device_limit_witness:
  "\<exists>dev d'. Authorize no_fault sample_authorization 2 live_db = (Inr dev, d')
     \<and> (\<forall>u. int (active_count u d') \<le> 2)"
proof -
  obtain d' where a: "Authorize no_fault sample_authorization 2 live_db
      = (Inr (device_of (new_device sample_authorization)), d')" using sample_authorize by blast
  from active_device_limit [OF live_db_keys(1) sample_limit a] a show ?thesis by blast
qed

theorem authorization_pins_installation_witness:
  "\<exists>dev d'. Authorize no_fault sample_reauthorization 2 live_db = (Inr dev, d')
     \<and> (\<exists>v\<in>set (devices d'). device_of v = dev \<and> d_installation_id v = 5 \<and> d_status v = ''active'')"
proof -
  obtain dev d' where a: "Authorize no_fault sample_reauthorization 2 live_db = (Inr dev, d')"
    using sample_reauthorize by blast
  from authorization_pins_installation [OF live_db_keys(1) a] a show ?thesis
    by (auto simp: sample_reauthorization_def)
qed

theorem device_revocation_effect_witness:
  "\<exists>d'. Revoke_device no_fault 1 3 40 (10 * second) live_db = (None, d')
     \<and> (\<forall>s\<in>set (sessions d'). s_revoked_at s \<noteq> None)"
proof -
  obtain d' where r: "Revoke_device no_fault 1 3 40 (10 * second) live_db = (None, d')"
    and one: "\<forall>s\<in>set (sessions d'). s_device_id s = 3"
    by (simp add: Revoke_device_def lock_active_account_def insertDeviceAudit_def insert_audit_def
        live_db_def sample_db_def empty_db_def sample_session_def mark_revoked_def update_where_def table_simps)
  from device_revocation_effect [OF live_db_keys(1) r] r one show ?thesis by auto
qed

theorem self_revocation_sound_witness:
  "\<exists>d'. SelfRevoke sample_crypto (Some 41) no_fault (100 * second) sample_self_revoke live_db = (None, d')
     \<and> (\<forall>v\<in>set (devices d'). d_id v = 3 \<longrightarrow> d_status v = ''revoked'')"
proof -
  obtain d' where r: "SelfRevoke sample_crypto (Some 41) no_fault (100 * second) sample_self_revoke live_db = (None, d')"
    by (simp add: SelfRevoke_def SelfRevoke_record_def FindForSelfRevoke_def insertDeviceAudit_def insert_audit_def
        insert_nonce_def live_db_def sample_db_def empty_db_def sample_session_def sample_self_revoke_def RandomUUID_def
        device_of_def selfRevokeDigest_def selfRevokeNonceHash_def sample_crypto_def time_sub_def of_unix_def
        max_duration_def zero_time_def mark_revoked_def update_where_def table_simps Let_def)
  from self_revocation_sound [OF r] r show ?thesis by (auto simp: sample_self_revoke_def Let_def)
qed

end
