(* ===== verification/Password.thy ===== *)
theory Password
  imports Codec
begin

text \<open>
  \<open>internal/secure/password.go\<close>: versioned Argon2id password hashes, their textual
  form, and verification with the signal that a hash should be renewed. Argon2id itself is the
  parameter \<open>idkey\<close>. Lemmas: decimal text and the \<open>$\<close>-separated form parse back, a hash verifies
  with its password under every later set of parameter versions that still has its version, and a
  password is only accepted when its digest is the stored one.
\<close>

section \<open>Data\<close>

record Argon2Params =
  MemoryKiB :: "32 word"
  Iterations :: "32 word"
  Parallelism :: "8 word"
  SaltLength :: "32 word"
  KeyLength :: "32 word"

record PasswordHasher =
  currentVersion :: int
  versions :: "(int \<times> Argon2Params) list"

datatype password_error =
    VersionsRequired | VersionInvalid | CurrentVersionUnavailable
  | PasswordLengthInvalid | SaltUnavailable
  | HashMalformed | HashVersionMalformed | HashVersionUnsupported | HashParametersMismatch
  | HashSaltMalformed | HashDigestMalformed

type_synonym argon2 =
  "bytes \<Rightarrow> bytes \<Rightarrow> 32 word \<Rightarrow> 32 word \<Rightarrow> 8 word \<Rightarrow> 32 word \<Rightarrow> bytes"
  \<comment> \<open>password, salt, iterations, memory, parallelism, key length\<close>

section \<open>Operations\<close>

definition validArgon2Params :: "Argon2Params \<Rightarrow> bool" where
  "validArgon2Params p \<longleftrightarrow>
     0 < unat (MemoryKiB p) \<and> unat (MemoryKiB p) \<le> 1024 * 1024 \<and>
     0 < unat (Iterations p) \<and> unat (Iterations p) \<le> 10 \<and>
     0 < unat (Parallelism p) \<and> unat (Parallelism p) \<le> 16 \<and>
     16 \<le> unat (SaltLength p) \<and> unat (SaltLength p) \<le> 64 \<and>
     32 \<le> unat (KeyLength p) \<and> unat (KeyLength p) \<le> 64"

definition NewPasswordHasher ::
  "int \<Rightarrow> (int \<times> Argon2Params) list \<Rightarrow> password_error + PasswordHasher" where
  "NewPasswordHasher current vs =
     (if current \<le> 0 \<or> vs = [] then Inl VersionsRequired
      else if list_ex (\<lambda>(v, p). v \<le> 0 \<or> \<not> validArgon2Params p) vs then Inl VersionInvalid
      else if map_of vs current = None then Inl CurrentVersionUnavailable
      else Inr \<lparr>currentVersion = current, versions = vs\<rparr>)"

definition DefaultPasswordHasher :: "password_error + PasswordHasher" where
  "DefaultPasswordHasher = NewPasswordHasher 1
     [(1, \<lparr>MemoryKiB = 64 * 1024, Iterations = 3, Parallelism = 1, SaltLength = 16, KeyLength = 32\<rparr>)]"

definition minimumPasswordRunes :: nat where
  "minimumPasswordRunes = 10"

definition maximumPasswordRunes :: nat where
  "maximumPasswordRunes = 128"

definition validPasswordLength :: "bytes \<Rightarrow> bool" where
  "validPasswordLength password \<longleftrightarrow> ValidString password
     \<and> minimumPasswordRunes \<le> RuneCountInString password
     \<and> RuneCountInString password \<le> maximumPasswordRunes"

definition params_text :: "Argon2Params \<Rightarrow> bytes" where
  "params_text p = ''m='' @ itoa_nat (unat (MemoryKiB p)) @ '',t='' @ itoa_nat (unat (Iterations p))
     @ '',p='' @ itoa_nat (unat (Parallelism p))"

definition default_params :: Argon2Params where
  "default_params = \<lparr>MemoryKiB = 0, Iterations = 0, Parallelism = 0, SaltLength = 0, KeyLength = 0\<rparr>"

text \<open>A missing version reads as the zero value of the struct.\<close>

definition Params :: "PasswordHasher \<Rightarrow> int \<Rightarrow> Argon2Params" where
  "Params h v = (case map_of (versions h) v of None \<Rightarrow> default_params | Some p \<Rightarrow> p)"

definition hash_text :: "int \<Rightarrow> Argon2Params \<Rightarrow> bytes \<Rightarrow> bytes \<Rightarrow> bytes" where
  "hash_text version p salt digest =
     ''$agentera$'' @ itoa version @ ''$argon2id$v='' @ itoa 19 @ ''$'' @ params_text p @ ''$''
       @ EncodeToString std_alphabet salt @ ''$'' @ EncodeToString std_alphabet digest"

definition idkey_of :: "argon2 \<Rightarrow> bytes \<Rightarrow> bytes \<Rightarrow> Argon2Params \<Rightarrow> bytes" where
  "idkey_of idkey password salt p =
     idkey password salt (Iterations p) (MemoryKiB p) (Parallelism p) (KeyLength p)"

definition Hash ::
  "argon2 \<Rightarrow> PasswordHasher \<Rightarrow> (nat \<Rightarrow> bytes option) \<Rightarrow> bytes \<Rightarrow> password_error + bytes \<times> int" where
  "Hash idkey h read password =
     (if \<not> validPasswordLength password then Inl PasswordLengthInvalid
      else let p = Params h (currentVersion h) in
        case RandomBytes read (int (unat (SaltLength p))) of
          Inl e \<Rightarrow> Inl SaltUnavailable
        | Inr salt \<Rightarrow>
            Inr (hash_text (currentVersion h) p salt (idkey_of idkey password salt p),
                 currentVersion h))"

text \<open>\<open>strconv.Atoi\<close>: an optional sign and at least one decimal digit, within \<open>int64\<close>.\<close>

fun digits_value :: "nat \<Rightarrow> bytes \<Rightarrow> nat option" where
  "digits_value acc [] = Some acc"
| "digits_value acc (c # s) =
     (if 48 \<le> code c \<and> code c \<le> 57 then digits_value (acc * 10 + (code c - 48)) s else None)"

definition Atoi :: "bytes \<Rightarrow> int option" where
  "Atoi s =
     (let (neg, body) = (case s of
          c # t \<Rightarrow> if c = CHR ''-'' then (True, t) else if c = CHR ''+'' then (False, t) else (False, s)
        | [] \<Rightarrow> (False, [])) in
      if body = [] then None
      else case digits_value 0 body of
          None \<Rightarrow> None
        | Some n \<Rightarrow>
            if neg then (if n \<le> 2 ^ 63 then Some (- int n) else None)
            else (if n < 2 ^ 63 then Some (int n) else None))"

definition parse ::
  "PasswordHasher \<Rightarrow> bytes \<Rightarrow> password_error + int \<times> Argon2Params \<times> bytes \<times> bytes" where
  "parse h encoded =
     (let parts = split_on (CHR ''$'') encoded in
      if length parts \<noteq> 8 \<or> parts ! 0 \<noteq> [] \<or> parts ! 1 \<noteq> ''agentera'' \<or> parts ! 3 \<noteq> ''argon2id''
         \<or> parts ! 4 \<noteq> ''v=19''
      then Inl HashMalformed
      else case Atoi (parts ! 2) of
          None \<Rightarrow> Inl HashVersionMalformed
        | Some version \<Rightarrow>
            (case map_of (versions h) version of
               None \<Rightarrow> Inl HashVersionUnsupported
             | Some p \<Rightarrow>
                 if parts ! 5 \<noteq> params_text p then Inl HashParametersMismatch
                 else (case DecodeString std_alphabet False (parts ! 6) of
                     None \<Rightarrow> Inl HashSaltMalformed
                   | Some salt \<Rightarrow>
                       if length salt \<noteq> unat (SaltLength p) then Inl HashSaltMalformed
                       else (case DecodeString std_alphabet False (parts ! 7) of
                           None \<Rightarrow> Inl HashDigestMalformed
                         | Some digest \<Rightarrow>
                             if length digest \<noteq> unat (KeyLength p) then Inl HashDigestMalformed
                             else Inr (version, p, salt, digest)))))"

text \<open>The result pair is (matches, should be rehashed).\<close>

definition Verify ::
  "argon2 \<Rightarrow> PasswordHasher \<Rightarrow> bytes \<Rightarrow> bytes \<Rightarrow> password_error + bool \<times> bool" where
  "Verify idkey h password encoded =
     (if \<not> validPasswordLength password then Inr (False, False)
      else case parse h encoded of
          Inl e \<Rightarrow> Inl e
        | Inr (version, p, salt, expected) \<Rightarrow>
            if idkey_of idkey password salt p \<noteq> expected then Inr (False, False)
            else Inr (True, version \<noteq> currentVersion h))"

section \<open>Decimal text\<close>

lemma itoa_nat_not_Nil [simp]: "itoa_nat n \<noteq> []"
  by (subst itoa_nat.simps) simp

lemma digits_value_append:
  "digits_value acc s = Some m \<Longrightarrow> digits_value acc (s @ t) = digits_value m t"
  by (induction acc s rule: digits_value.induct) (auto split: if_splits)

lemma digits_value_itoa: "digits_value 0 (itoa_nat n) = Some n"
proof (induction n rule: itoa_nat.induct)
  case (1 n)
  show ?case
  proof (cases "n < 10")
    case True
    then show ?thesis by (subst itoa_nat.simps) simp
  next
    case False
    then show ?thesis using 1
      by (subst itoa_nat.simps) (simp add: digits_value_append)
  qed
qed

lemma itoa_nat_head:
  assumes "itoa_nat n = c # s" shows "c \<noteq> CHR ''-''" "c \<noteq> CHR ''+''"
  using itoa_nat_digits [of c n] assms by auto

lemma Atoi_itoa: "0 \<le> v \<Longrightarrow> v < 2 ^ 63 \<Longrightarrow> Atoi (itoa v) = Some v"
proof -
  assume v: "0 \<le> v" "v < 2 ^ 63"
  obtain c s where cs: "itoa_nat (nat v) = c # s" by (cases "itoa_nat (nat v)") auto
  have "nat v < 2 ^ 63" using v by simp
  with v cs digits_value_itoa [of "nat v"] itoa_nat_head [OF cs] show ?thesis
    by (simp add: Atoi_def itoa_def)
qed

lemma itoa_no_dollar: "0 \<le> v \<Longrightarrow> CHR ''$'' \<notin> set (itoa v)"
  using itoa_nat_digits [of "CHR ''$''" "nat v"] by (auto simp: itoa_def)

lemma params_text_no_dollar: "CHR ''$'' \<notin> set (params_text p)"
  using itoa_nat_digits [of "CHR ''$''"] by (auto simp: params_text_def)

lemma std_alphabet_length: "length std_alphabet = 64"
  by (simp add: std_alphabet_def)

lemma std_no_dollar: "CHR ''$'' \<notin> set (EncodeToString std_alphabet s)"
proof -
  have "set (EncodeToString std_alphabet s) \<subseteq> set std_alphabet"
    using b64_digits_bound [OF codes_bound [of s]]
    by (auto simp: EncodeToString_def list_all_iff std_alphabet_length)
  then show ?thesis by (auto simp: std_alphabet_def)
qed

lemma itoa_19: "itoa 19 = ''19''"
  by (simp add: itoa_def itoa_nat_eval char_eval)

lemma split_hash_text:
  assumes "0 \<le> v"
  shows "split_on (CHR ''$'') (hash_text v p salt digest) =
    [[], ''agentera'', itoa v, ''argon2id'', ''v=19'', params_text p,
     EncodeToString std_alphabet salt, EncodeToString std_alphabet digest]"
  using itoa_no_dollar [OF assms] params_text_no_dollar [of p] std_no_dollar
  by (simp add: hash_text_def itoa_19 split_on_append)

lemma parse_hash_text:
  assumes "0 \<le> v" "v < 2 ^ 63" "map_of (versions h) v = Some p"
    "length salt = unat (SaltLength p)" "length digest = unat (KeyLength p)"
  shows "parse h (hash_text v p salt digest) = Inr (v, p, salt, digest)"
  using assms by (simp add: parse_def split_hash_text Atoi_itoa DecodeString_encode_std Let_def)

lemma NewPasswordHasher_Inr:
  assumes "NewPasswordHasher current vs = Inr h"
  shows "currentVersion h = current" "versions h = vs" "0 < current" "\<exists>p. map_of vs current = Some p"
    "map_of vs v = Some p \<Longrightarrow> validArgon2Params p \<and> 0 < v"
  using assms
  by (force simp: NewPasswordHasher_def list_ex_iff split: if_splits dest: map_of_SomeD)+

lemma Hash_Inr:
  assumes "Hash idkey h read password = Inr (encoded, version)"
  obtains salt
  where "RandomBytes read (int (unat (SaltLength (Params h (currentVersion h))))) = Inr salt"
    "encoded = hash_text (currentVersion h) (Params h (currentVersion h)) salt
       (idkey_of idkey password salt (Params h (currentVersion h)))"
    "version = currentVersion h" "validPasswordLength password"
proof (cases "RandomBytes read (int (unat (SaltLength (Params h (currentVersion h)))))")
  case (Inl e)
  with assms show thesis by (simp add: Hash_def Let_def split: if_splits)
next
  case (Inr salt)
  with assms show thesis by (intro that [of salt]) (auto simp: Hash_def Let_def split: if_splits)
qed

lemma Hash_verifies:
  assumes "NewPasswordHasher current vs = Inr h" "NewPasswordHasher current' vs' = Inr h'"
    and "map_of vs' current = map_of vs current" "current < 2 ^ 63"
    and "\<And>n v. read n = Some v \<Longrightarrow> length v = n"
    and "\<And>pw salt t m l k. length (idkey pw salt t m l k) = unat k"
    and "Hash idkey h read password = Inr (encoded, version)"
  shows "version = current \<and> Verify idkey h' password encoded = Inr (True, current \<noteq> current')"
proof -
  note h = NewPasswordHasher_Inr [OF assms(1)] and h' = NewPasswordHasher_Inr [OF assms(2)]
  obtain p where p: "map_of vs current = Some p" using h(4) by blast
  have P: "Params h current = p" using h(1,2) p by (simp add: Params_def)
  obtain salt where r: "RandomBytes read (int (unat (SaltLength p))) = Inr salt"
    and s: "encoded = hash_text current p salt (idkey_of idkey password salt p)"
      "version = current" "validPasswordLength password"
    by (rule Hash_Inr [OF assms(7), unfolded h(1), unfolded P])
  have len: "length salt = unat (SaltLength p)" using RandomBytes_length [OF assms(5) r] .
  have "parse h' encoded = Inr (current, p, salt, idkey_of idkey password salt p)"
    unfolding s(1)
  proof (rule parse_hash_text)
    show "map_of (versions h') current = Some p" using h'(2) p assms(3) by simp
    show "length (idkey_of idkey password salt p) = unat (KeyLength p)"
      unfolding idkey_of_def by (rule assms(6))
  qed (use h(3) len assms(4) in auto)
  with s h'(1) show ?thesis by (simp add: Verify_def)
qed

section \<open>Properties\<close>

text \<open>
  A stored hash verifies with the password it was made from, under the hasher that made it
  and under every later hasher that still knows its parameter version; the second component asks
  for a new hash exactly when the current version has moved on.
\<close>

theorem Verify_after_Hash:
  assumes "NewPasswordHasher current vs = Inr h" "NewPasswordHasher current' vs' = Inr h'"
    and "map_of vs' current = map_of vs current" "current < 2 ^ 63"
    and "\<And>n v. read n = Some v \<Longrightarrow> length v = n"
    and "\<And>pw salt t m l k. length (idkey pw salt t m l k) = unat k"
    and "Hash idkey h read password = Inr (encoded, version)"
  shows "version = current \<and> Verify idkey h' password encoded = Inr (True, current \<noteq> current')"
  using assms by (rule Hash_verifies)

definition sample_params :: Argon2Params where
  "sample_params = \<lparr>MemoryKiB = 64 * 1024, Iterations = 3, Parallelism = 1, SaltLength = 16, KeyLength = 32\<rparr>"

definition sample_idkey :: argon2 where
  "sample_idkey pw salt t m l k = take (unat k) (pw @ salt @ replicate (unat k) (CHR ''d''))"

lemma visible_sample_password: "visible ''correct-horse''"
  by (simp add: visible_def)

lemma sample_password_valid: "validPasswordLength ''correct-horse''"
proof -
  have "pieces ''correct-horse'' = map (\<lambda>c. (code c, [c])) ''correct-horse''"
    by (rule pieces_ascii) simp
  then show ?thesis
    by (simp add: validPasswordLength_def ValidString_def RuneCountInString_def
        minimumPasswordRunes_def maximumPasswordRunes_def)
qed

theorem Verify_after_Hash_witness:
  "\<exists>encoded. Hash sample_idkey \<lparr>currentVersion = 1, versions = [(1, sample_params)]\<rparr>
       (\<lambda>n. Some (replicate n (CHR ''s''))) ''correct-horse'' = Inr (encoded, 1)
     \<and> Verify sample_idkey \<lparr>currentVersion = 2, versions = [(1, sample_params), (2, sample_params)]\<rparr>
       ''correct-horse'' encoded = Inr (True, True)"
proof -
  let ?h = "\<lparr>currentVersion = 1, versions = [(1, sample_params)]\<rparr>"
  let ?h' = "\<lparr>currentVersion = 2, versions = [(1, sample_params), (2, sample_params)]\<rparr>"
  let ?read = "\<lambda>n. Some (replicate n (CHR ''s''))"
  have "NewPasswordHasher 1 [(1, sample_params)] = Inr ?h"
    "NewPasswordHasher 2 [(1, sample_params), (2, sample_params)] = Inr ?h'"
    by (simp_all add: NewPasswordHasher_def validArgon2Params_def sample_params_def)
  moreover obtain encoded where e: "Hash sample_idkey ?h ?read ''correct-horse'' = Inr (encoded, 1)"
    by (simp add: Hash_def sample_password_valid Params_def RandomBytes_def sample_params_def Let_def)
  ultimately have "Verify sample_idkey ?h' ''correct-horse'' encoded = Inr (True, True)"
    using Verify_after_Hash [of 1 "[(1, sample_params)]" ?h 2 "[(1, sample_params), (2, sample_params)]"
        ?h' ?read sample_idkey "''correct-horse''" encoded 1]
    by (simp add: sample_idkey_def)
  with e show ?thesis by blast
qed

text \<open>
  A password is only accepted when it has an admissible length, the stored text is a
  well-formed hash of a known version with exactly the parameters of that version, and Argon2id of
  the password under the stored salt is the stored digest.
\<close>

theorem Verify_accepts_only:
  assumes "Verify idkey h password encoded = Inr (True, stale)"
  shows "validPasswordLength password \<and>
    (\<exists>v p salt. map_of (versions h) v = Some p \<and> length salt = unat (SaltLength p)
       \<and> split_on (CHR ''$'') encoded ! 5 = params_text p
       \<and> DecodeString std_alphabet False (split_on (CHR ''$'') encoded ! 7)
           = Some (idkey password salt (Iterations p) (MemoryKiB p) (Parallelism p) (KeyLength p))
       \<and> stale = (v \<noteq> currentVersion h))"
  using assms
  by (auto simp: Verify_def parse_def idkey_of_def Let_def
      split: if_splits sum.splits option.splits prod.splits)

theorem Verify_accepts_only_witness:
  "\<exists>encoded. Verify sample_idkey \<lparr>currentVersion = 1, versions = [(1, sample_params)]\<rparr>
       ''correct-horse'' encoded = Inr (True, False)
     \<and> validPasswordLength ''correct-horse''"
proof -
  let ?h = "\<lparr>currentVersion = 1, versions = [(1, sample_params)]\<rparr>"
  let ?salt = "replicate 16 (CHR ''s'')"
  let ?e = "hash_text 1 sample_params ?salt (idkey_of sample_idkey ''correct-horse'' ?salt sample_params)"
  have "parse ?h ?e = Inr (1, sample_params, ?salt, idkey_of sample_idkey ''correct-horse'' ?salt sample_params)"
    by (rule parse_hash_text) (simp_all add: idkey_of_def sample_idkey_def sample_params_def)
  then have v: "Verify sample_idkey ?h ''correct-horse'' ?e = Inr (True, False)"
    by (simp add: Verify_def sample_password_valid)
  from Verify_accepts_only [OF v] v show ?thesis by blast
qed

end
