(* ===== verification/OAuth.thy ===== *)
theory OAuth
  imports DeviceSafety Password
begin

text \<open>
  \<open>internal/oauth/service.go\<close> and \<open>repository.go\<close>: the desktop sign-in. A desktop begins a request
  with a PKCE challenge and its device key, a signed-in browser approves it and gets a code, and
  the desktop exchanges the code, in one transaction, for an authorized device and a session.
\<close>

section \<open>Data\<close>

definition DesktopClientID :: bytes where "DesktopClientID = ''agentera-studio''"
definition authorizationRequestLifetime :: duration where "authorizationRequestLifetime = 10 * minute"
definition authorizationCodeLifetime :: duration where "authorizationCodeLifetime = 2 * minute"

datatype oauth_error =
    ErrOAuthInvalidRequest | ErrInvalidAuthorization | ErrAuthorizationReplayed
  | ErrOAuthDeviceLimit | ErrOAuthDeviceConflict | ErrOAuthUnavailable
  | SessionFailure session_error

record BeginRequest =
  br_ClientID :: bytes
  br_RedirectURI :: bytes
  br_CodeChallenge :: bytes
  br_CodeChallengeMethod :: bytes
  br_State :: bytes
  br_InstallationID :: uuid
  br_DevicePublicKey :: bytes
  br_DeviceDisplayName :: bytes
  br_DevicePlatform :: bytes
  br_AppVersion :: bytes

record BeginResponse =
  bs_RequestID :: uuid
  bs_ExpiresAt :: instant

record ExchangeRequest =
  er_AuthorizationCode :: bytes
  er_CodeVerifier :: bytes
  er_InstallationID :: uuid
  er_DeviceProof :: bytes

record ApprovalRecord =
  ap_RequestID :: uuid
  ap_User :: uuid
  ap_CodeID :: uuid
  ap_CodeHash :: bytes
  ap_CodeExpiresAt :: instant
  ap_ApprovedAt :: instant

record Grant =
  g_request :: oauth_row
  g_UserID :: uuid
  g_PersonalSpaceID :: uuid

record OAuthService =
  oa_devices :: DeviceService
  oa_sessions :: SessionService
  oa_activeStateKeyID :: bytes
  oa_stateKeys :: key_ring
  oa_stateHMACKey :: bytes

text \<open>What is used of \<open>net/url\<close>: the fields of a parsed URL and the text of a URL whose query was set.\<close>

record url =
  url_Scheme :: bytes
  url_Host :: bytes
  url_Hostname :: bytes
  url_Port :: bytes
  url_Path :: bytes
  url_RawQuery :: bytes
  url_Fragment :: bytes
  url_has_user :: bool

record url_library =
  parse_url :: "bytes \<Rightarrow> url option"
  render_url :: "url \<Rightarrow> (bytes \<times> bytes) list \<Rightarrow> bytes"

section \<open>Validation\<close>

definition validRedirectURI :: "url_library \<Rightarrow> bytes \<Rightarrow> bool" where
  "validRedirectURI lib raw =
     (case parse_url lib raw of
        None \<Rightarrow> False
      | Some parsed \<Rightarrow>
          if url_Scheme parsed \<noteq> ''http'' \<or> url_Hostname parsed \<noteq> ''127.0.0.1''
             \<or> url_Path parsed \<noteq> ''/agentera/oauth/callback'' \<or> url_RawQuery parsed \<noteq> []
             \<or> url_Fragment parsed \<noteq> [] \<or> url_has_user parsed
          then False
          else (case Atoi (url_Port parsed) of
              None \<Rightarrow> False
            | Some port \<Rightarrow> 0 < port \<and> port \<le> 65535 \<and> url_Host parsed = ''127.0.0.1:'' @ itoa port))"

definition validOpaqueState :: "bytes \<Rightarrow> bool" where
  "validOpaqueState state \<longleftrightarrow> ValidString state \<and> 16 \<le> length state \<and> length state \<le> 1024
     \<and> \<not> list_ex IsControl (runes state)"

definition validCodeChallenge :: "bytes \<Rightarrow> bool" where
  "validCodeChallenge challenge =
     (case DecodeCanonicalBase64URL challenge of None \<Rightarrow> False | Some decoded \<Rightarrow> length decoded = 32)"

definition verifier_rune :: "nat \<Rightarrow> bool" where
  "verifier_rune r \<longleftrightarrow> 65 \<le> r \<and> r \<le> 90 \<or> 97 \<le> r \<and> r \<le> 122 \<or> 48 \<le> r \<and> r \<le> 57
     \<or> r = 45 \<or> r = 46 \<or> r = 95 \<or> r = 126"

definition validVerifier :: "bytes \<Rightarrow> bool" where
  "validVerifier verifier \<longleftrightarrow> 43 \<le> length verifier \<and> length verifier \<le> 128 \<and> list_all verifier_rune (runes verifier)"

definition matchesChallenge :: "crypto \<Rightarrow> bytes \<Rightarrow> bytes \<Rightarrow> bool" where
  "matchesChallenge cr verifier challenge \<longleftrightarrow> encode_url (sha256 cr verifier) = challenge"

definition validDeviceMetadata :: "bytes \<Rightarrow> bytes \<Rightarrow> bytes \<Rightarrow> bool" where
  "validDeviceMetadata displayName platform appVersion =
     (let displayName = TrimSpace displayName in
      if displayName = [] \<or> RuneCountInString displayName > 100
         \<or> (platform \<noteq> ''darwin'' \<and> platform \<noteq> ''windows'' \<and> platform \<noteq> ''linux'')
         \<or> appVersion = [] \<or> length appVersion > 64
      then False
      else \<not> list_ex IsControl (runes (displayName @ appVersion)))"

definition validBeginRequest :: "url_library \<Rightarrow> BeginRequest \<Rightarrow> bool" where
  "validBeginRequest lib r \<longleftrightarrow> \<not> (br_ClientID r \<noteq> DesktopClientID \<or> br_CodeChallengeMethod r \<noteq> ''S256''
     \<or> \<not> validRedirectURI lib (br_RedirectURI r) \<or> br_InstallationID r = Nil_uuid
     \<or> length (br_DevicePublicKey r) \<noteq> 32 \<or> \<not> validOpaqueState (br_State r)
     \<or> \<not> validCodeChallenge (br_CodeChallenge r)
     \<or> \<not> validDeviceMetadata (br_DeviceDisplayName r) (br_DevicePlatform r) (br_AppVersion r))"

definition validAuthorizationRecord :: "url_library \<Rightarrow> oauth_row \<Rightarrow> bool" where
  "validAuthorizationRecord lib r \<longleftrightarrow> o_ID r \<noteq> Nil_uuid \<and> o_ClientID r = DesktopClientID
     \<and> validRedirectURI lib (o_RedirectURI r) \<and> o_CodeChallengeMethod r = ''S256'' \<and> validCodeChallenge (o_CodeChallenge r)
     \<and> length (o_StateHash r) = 32 \<and> length (o_StateNonce r) = 12 \<and> length (o_StateCiphertext r) > 16
     \<and> o_StateEncryptionKeyID r \<noteq> [] \<and> o_InstallationID r \<noteq> Nil_uuid
     \<and> length (o_DevicePublicKey r) = 32 \<and> length (o_DeviceKeyDigest r) = 32
     \<and> o_DeviceDisplayName r \<noteq> [] \<and> o_DevicePlatform r \<noteq> [] \<and> o_AppVersion r \<noteq> []
     \<and> o_CreatedAt r < o_ExpiresAt r"

section \<open>Repository\<close>

definition Save :: "url_library \<Rightarrow> bool \<Rightarrow> oauth_row \<Rightarrow> db \<Rightarrow> oauth_error option \<times> db" where
  "Save lib fails r d =
     (if \<not> validAuthorizationRecord lib r then (Some ErrOAuthInvalidRequest, d)
      else if fails then (Some ErrOAuthUnavailable, d)
      else case insert_oauth_request r d of
          None \<Rightarrow> (Some ErrOAuthUnavailable, d)
        | Some d' \<Rightarrow> (None, d'))"

definition readAuthorizationForUpdate :: "uuid \<Rightarrow> db \<Rightarrow> oauth_row option" where
  "readAuthorizationForUpdate requestID d = find (\<lambda>r. o_ID r = requestID) (oauth_requests d)"

definition account_with_space :: "uuid \<Rightarrow> db \<Rightarrow> bool" where
  "account_with_space userID d \<longleftrightarrow>
     exists_row (\<lambda>u. u_id u = userID \<and> u_status u = ''active''
       \<and> exists_row (\<lambda>p. ps_owner_user_id p = u_id u \<and> ps_status p = ''active'') (personal_spaces d)) (users d)"

text \<open>Calls: begin, read, account check, update, insert, commit.\<close>

definition Approve_record :: "schedule \<Rightarrow> ApprovalRecord \<Rightarrow> db \<Rightarrow> (oauth_error + oauth_row) \<times> db" where
  "Approve_record f a d =
     (if ap_RequestID a = Nil_uuid \<or> ap_User a = Nil_uuid \<or> ap_CodeID a = Nil_uuid
         \<or> length (ap_CodeHash a) \<noteq> 32 \<or> \<not> ap_ApprovedAt a < ap_CodeExpiresAt a
      then (Inl ErrOAuthInvalidRequest, d)
      else if f 0 \<or> f 1 then (Inl ErrOAuthUnavailable, d)
      else case readAuthorizationForUpdate (ap_RequestID a) d of
        None \<Rightarrow> (Inl ErrInvalidAuthorization, d)
      | Some r \<Rightarrow>
          if \<not> ap_ApprovedAt a < o_ExpiresAt r \<or> o_approved_user_id r \<noteq> None \<or> o_approved_at r \<noteq> None
             \<or> o_consumed_at r \<noteq> None
          then (Inl ErrInvalidAuthorization, d)
          else if f 2 then (Inl ErrOAuthUnavailable, d)
          else if \<not> account_with_space (ap_User a) d then (Inl ErrInvalidAuthorization, d)
          else if f 3 then (Inl ErrOAuthUnavailable, d)
          else let d1 = d\<lparr>oauth_requests := update_where (\<lambda>q. o_ID q = ap_RequestID a)
                 (\<lambda>q. q\<lparr>o_approved_user_id := Some (ap_User a), o_approved_at := Some (ap_ApprovedAt a)\<rparr>)
                 (oauth_requests d)\<rparr>
               in if f 4 then (Inl ErrOAuthUnavailable, d)
                  else (case insert_code \<lparr>ac_id = ap_CodeID a, ac_oauth_request_id = ap_RequestID a,
                          ac_code_hash = ap_CodeHash a, ac_expires_at = ap_CodeExpiresAt a, ac_consumed_at = None,
                          ac_created_at = ap_ApprovedAt a\<rparr> d1 of
                      None \<Rightarrow> (Inl ErrOAuthUnavailable, d)
                    | Some d2 \<Rightarrow> if f 5 then (Inl ErrOAuthUnavailable, d) else (Inr r, d2)))"

text \<open>The join of \<open>Exchange\<close>: the code by its hash, its request, and the approving user and space,
  both active.\<close>

definition exchange_join :: "bytes \<Rightarrow> db \<Rightarrow> (code_row \<times> Grant) option" where
  "exchange_join codeHash d =
     (case find (\<lambda>c. ac_code_hash c = codeHash) (authorization_codes d) of
        None \<Rightarrow> None
      | Some c \<Rightarrow>
          (case find (\<lambda>r. o_ID r = ac_oauth_request_id c) (oauth_requests d) of
             None \<Rightarrow> None
           | Some r \<Rightarrow>
               (case o_approved_user_id r of
                  None \<Rightarrow> None
                | Some userID \<Rightarrow>
                    (case (find (\<lambda>u. u_id u = userID) (users d),
                           find (\<lambda>p. ps_owner_user_id p = userID) (personal_spaces d)) of
                       (Some u, Some p) \<Rightarrow>
                         if u_status u = ''active'' \<and> ps_status p = ''active''
                         then Some (c, \<lparr>g_request = r, g_UserID = userID, g_PersonalSpaceID = ps_id p\<rparr>)
                         else None
                     | _ \<Rightarrow> None))))"

definition consume_code :: "code_row \<Rightarrow> oauth_row \<Rightarrow> instant \<Rightarrow> db \<Rightarrow> db" where
  "consume_code c r now d = d\<lparr>authorization_codes := update_where (\<lambda>x. ac_id x = ac_id c)
       (\<lambda>x. x\<lparr>ac_consumed_at := Some now\<rparr>) (authorization_codes d),
     oauth_requests := update_where (\<lambda>q. o_ID q = o_ID r) (\<lambda>q. q\<lparr>o_consumed_at := Some now\<rparr>) (oauth_requests d)\<rparr>"

text \<open>Calls: begin, join, then \<open>finalize\<close> in the transaction, two updates and commit.\<close>

definition Exchange_record ::
  "schedule \<Rightarrow> bytes \<Rightarrow> instant \<Rightarrow> (Grant \<Rightarrow> db \<Rightarrow> (oauth_error + TokenSet) \<times> db) \<Rightarrow> db
     \<Rightarrow> (oauth_error + TokenSet) \<times> db" where
  "Exchange_record f codeHash now finalize d =
     (if length codeHash \<noteq> 32 then (Inl ErrInvalidAuthorization, d)
      else if f 0 \<or> f 1 then (Inl ErrOAuthUnavailable, d)
      else case exchange_join codeHash d of
        None \<Rightarrow> (Inl ErrInvalidAuthorization, d)
      | Some (c, grant) \<Rightarrow>
          if ac_consumed_at c \<noteq> None \<or> o_consumed_at (g_request grant) \<noteq> None
          then (Inl ErrAuthorizationReplayed, d)
          else if \<not> now < ac_expires_at c \<or> \<not> now < o_ExpiresAt (g_request grant)
          then (Inl ErrInvalidAuthorization, d)
          else (case finalize grant d of
              (Inl e, _) \<Rightarrow> (Inl e, d)
            | (Inr tokens, d1) \<Rightarrow>
                if f 2 \<or> f 3 \<or> f 4 then (Inl ErrOAuthUnavailable, d)
                else (Inr tokens, consume_code c (g_request grant) now d1)))"

section \<open>Service\<close>

definition NewOAuthService ::
  "DeviceService \<Rightarrow> SessionService \<Rightarrow> bytes \<Rightarrow> key_ring \<Rightarrow> bytes \<Rightarrow> OAuthService option" where
  "NewOAuthService devs sess activeKeyID keys hmacKey =
     (if TrimSpace activeKeyID = [] \<or> length hmacKey < 32 then None
      else if list_ex (\<lambda>(keyID, key). TrimSpace keyID = [] \<or> length key \<noteq> 32) keys then None
      else if map_of keys activeKeyID = None then None
      else Some \<lparr>oa_devices = devs, oa_sessions = sess, oa_activeStateKeyID = activeKeyID, oa_stateKeys = keys,
                 oa_stateHMACKey = hmacKey\<rparr>)"

definition stateAAD :: "uuid \<Rightarrow> bytes" where
  "stateAAD requestID = ''agentera.oauth-state.v1'' @ [CHR 0x00] @ uuid_string requestID"

definition stateHash :: "crypto \<Rightarrow> OAuthService \<Rightarrow> bytes \<Rightarrow> bytes" where
  "stateHash cr s state = hmac_sha256 cr (oa_stateHMACKey s) (''agentera.oauth-state.v1'' @ [CHR 0x00] @ state)"

definition authorizationCodeHash :: "crypto \<Rightarrow> bytes \<Rightarrow> bytes" where
  "authorizationCodeHash cr secret = sha256 cr (''agentera.authorization-code.v1'' @ [CHR 0x00] @ secret)"

definition deviceProofDigest :: "crypto \<Rightarrow> bytes \<Rightarrow> bytes \<Rightarrow> uuid \<Rightarrow> bytes" where
  "deviceProofDigest cr authCode verifier installationID =
     sha256 cr (authCode @ [CHR 0x00] @ verifier @ [CHR 0x00] @ uuid_string installationID)"

definition encryptState ::
  "crypto \<Rightarrow> OAuthService \<Rightarrow> (nat \<Rightarrow> bytes option) \<Rightarrow> uuid \<Rightarrow> bytes \<Rightarrow> (bytes \<times> bytes) option" where
  "encryptState cr s read requestID state =
     (let key = ring_get (oa_stateKeys s) (oa_activeStateKeyID s) in
      if \<not> aes_key key then None
      else case RandomBytes read (int nonce_size) of
          Inl _ \<Rightarrow> None
        | Inr nonce \<Rightarrow> Some (nonce, gcm_seal cr key nonce state (stateAAD requestID)))"

definition decryptState :: "crypto \<Rightarrow> OAuthService \<Rightarrow> oauth_row \<Rightarrow> bytes option" where
  "decryptState cr s r =
     (case map_of (oa_stateKeys s) (o_StateEncryptionKeyID r) of
        None \<Rightarrow> None
      | Some key \<Rightarrow>
          if \<not> aes_key key \<or> length (o_StateNonce r) \<noteq> nonce_size then None
          else (case gcm_open cr key (o_StateNonce r) (o_StateCiphertext r) (stateAAD (o_ID r)) of
              None \<Rightarrow> None
            | Some state \<Rightarrow>
                if \<not> validOpaqueState state \<or> stateHash cr s state \<noteq> o_StateHash r then None else Some state))"

definition begin_record ::
  "crypto \<Rightarrow> OAuthService \<Rightarrow> instant \<Rightarrow> uuid \<Rightarrow> bytes \<Rightarrow> bytes \<Rightarrow> BeginRequest \<Rightarrow> oauth_row" where
  "begin_record cr s now requestID nonce ciphertext r =
     \<lparr>o_ID = requestID, o_ClientID = br_ClientID r, o_RedirectURI = br_RedirectURI r,
      o_CodeChallenge = br_CodeChallenge r, o_CodeChallengeMethod = br_CodeChallengeMethod r,
      o_StateEncryptionKeyID = oa_activeStateKeyID s, o_StateNonce = nonce, o_StateCiphertext = ciphertext,
      o_StateHash = stateHash cr s (br_State r), o_InstallationID = br_InstallationID r,
      o_DevicePublicKey = br_DevicePublicKey r, o_DeviceKeyDigest = sha256 cr (br_DevicePublicKey r),
      o_DeviceDisplayName = TrimSpace (br_DeviceDisplayName r), o_DevicePlatform = br_DevicePlatform r,
      o_AppVersion = br_AppVersion r, o_ExpiresAt = now + authorizationRequestLifetime, o_CreatedAt = now,
      o_approved_user_id = None, o_approved_at = None, o_consumed_at = None\<rparr>"

definition Begin ::
  "crypto \<Rightarrow> url_library \<Rightarrow> OAuthService \<Rightarrow> bool \<Rightarrow> instant \<Rightarrow> uuid option \<Rightarrow> (nat \<Rightarrow> bytes option) \<Rightarrow> BeginRequest \<Rightarrow> db
     \<Rightarrow> (oauth_error + BeginResponse) \<times> db" where
  "Begin cr lib s fails now draw read r d =
     (if \<not> validBeginRequest lib r then (Inl ErrOAuthInvalidRequest, d)
      else case RandomUUID draw of
        Inl _ \<Rightarrow> (Inl ErrOAuthUnavailable, d)
      | Inr requestID \<Rightarrow>
          (case encryptState cr s read requestID (br_State r) of
             None \<Rightarrow> (Inl ErrOAuthUnavailable, d)
           | Some (nonce, ciphertext) \<Rightarrow>
               (case Save lib fails (begin_record cr s now requestID nonce ciphertext r) d of
                  (Some _, d') \<Rightarrow> (Inl ErrOAuthUnavailable, d')
                | (None, d') \<Rightarrow>
                    (Inr \<lparr>bs_RequestID = requestID, bs_ExpiresAt = now + authorizationRequestLifetime\<rparr>, d'))))"

text \<open>The approval returns the redirect URI of the request with \<open>code\<close> and \<open>state\<close> set.\<close>

definition Approve ::
  "crypto \<Rightarrow> url_library \<Rightarrow> OAuthService \<Rightarrow> schedule \<Rightarrow> instant \<Rightarrow> uuid option \<Rightarrow> (nat \<Rightarrow> bytes option) \<Rightarrow> uuid \<Rightarrow> uuid \<Rightarrow> db
     \<Rightarrow> (oauth_error + bytes) \<times> db" where
  "Approve cr lib s f now draw read requestID userID d =
     (if requestID = Nil_uuid \<or> userID = Nil_uuid then (Inl ErrOAuthInvalidRequest, d)
      else case RandomBytes read 32 of
        Inl _ \<Rightarrow> (Inl ErrOAuthUnavailable, d)
      | Inr codeSecret \<Rightarrow>
     (case RandomUUID draw of
        Inl _ \<Rightarrow> (Inl ErrOAuthUnavailable, d)
      | Inr codeID \<Rightarrow>
     (case Approve_record f \<lparr>ap_RequestID = requestID, ap_User = userID, ap_CodeID = codeID,
             ap_CodeHash = authorizationCodeHash cr codeSecret,
             ap_CodeExpiresAt = now + authorizationCodeLifetime, ap_ApprovedAt = now\<rparr> d of
        (Inl e, d') \<Rightarrow> (Inl e, d')
      | (Inr approved, d') \<Rightarrow>
          (case decryptState cr s approved of
             None \<Rightarrow> (Inl ErrOAuthUnavailable, d')
           | Some state \<Rightarrow>
               (case parse_url lib (o_RedirectURI approved) of
                  None \<Rightarrow> (Inl ErrOAuthUnavailable, d')
                | Some redirect \<Rightarrow>
                    if \<not> validRedirectURI lib (o_RedirectURI approved) then (Inl ErrOAuthUnavailable, d')
                    else (Inr (render_url lib redirect [(''code'', encode_url codeSecret), (''state'', state)]), d'))))))"

definition map_device_error :: "device_error \<Rightarrow> oauth_error" where
  "map_device_error e = (case e of ErrDeviceLimitReached \<Rightarrow> ErrOAuthDeviceLimit
     | ErrDeviceConflict \<Rightarrow> ErrOAuthDeviceConflict | ErrDeviceUnavailable \<Rightarrow> ErrOAuthUnavailable
     | _ \<Rightarrow> ErrInvalidAuthorization)"

text \<open>The function \<open>Exchange\<close> runs inside the repository's transaction. \<open>draw\<close> and \<open>fd\<close> are the
  random identifiers and failures of the device step, \<open>e\<close> what the session step draws.\<close>

definition proof_ok :: "crypto \<Rightarrow> ExchangeRequest \<Rightarrow> Grant \<Rightarrow> bool" where
  "proof_ok cr r grant \<longleftrightarrow> \<not> (\<not> validVerifier (er_CodeVerifier r) \<or> o_CodeChallengeMethod (g_request grant) \<noteq> ''S256''
     \<or> er_InstallationID r \<noteq> o_InstallationID (g_request grant)
     \<or> \<not> matchesChallenge cr (er_CodeVerifier r) (o_CodeChallenge (g_request grant))
     \<or> length (o_DevicePublicKey (g_request grant)) \<noteq> 32 \<or> length (er_DeviceProof r) \<noteq> 64
     \<or> \<not> ed25519_verify cr (o_DevicePublicKey (g_request grant))
           (deviceProofDigest cr (er_AuthorizationCode r) (er_CodeVerifier r) (er_InstallationID r)) (er_DeviceProof r))"

definition finalize ::
  "crypto \<Rightarrow> codecs \<Rightarrow> OAuthService \<Rightarrow> (nat \<Rightarrow> uuid option) \<Rightarrow> schedule \<Rightarrow> session_env \<Rightarrow> instant \<Rightarrow> ExchangeRequest
     \<Rightarrow> Grant \<Rightarrow> db \<Rightarrow> (oauth_error + TokenSet) \<times> db" where
  "finalize cr js s draw fd e now r grant d =
     (if \<not> proof_ok cr r grant then (Inl ErrInvalidAuthorization, d)
      else let q = g_request grant in
      case service_AuthorizeInTx (oa_devices s) draw fd now
             \<lparr>ac_UserID = g_UserID grant, ac_InstallationID = o_InstallationID q, ac_PublicKey = o_DevicePublicKey q,
              ac_DisplayName = o_DeviceDisplayName q, ac_Platform = o_DevicePlatform q,
              ac_AppVersion = o_AppVersion q\<rparr> d of
        (Inl err, d') \<Rightarrow> (Inl (map_device_error err), d')
      | (Inr authorized, d') \<Rightarrow>
          (case StartInTx cr js (oa_sessions s) e
                  \<lparr>b_UserID = g_UserID grant, b_DeviceID = dv_ID authorized,
                   b_InstallationID = o_InstallationID q, b_PersonalSpaceID = g_PersonalSpaceID grant\<rparr> d' of
             (Inl err, d'') \<Rightarrow> (Inl (SessionFailure err), d'')
           | (Inr tokens, d'') \<Rightarrow> (Inr tokens, d'')))"

definition Exchange ::
  "crypto \<Rightarrow> codecs \<Rightarrow> OAuthService \<Rightarrow> (nat \<Rightarrow> uuid option) \<Rightarrow> schedule \<Rightarrow> schedule \<Rightarrow> session_env \<Rightarrow> instant
     \<Rightarrow> ExchangeRequest \<Rightarrow> db \<Rightarrow> (oauth_error + TokenSet) \<times> db" where
  "Exchange cr js s draw f fd e now r d =
     (case DecodeCanonicalBase64URL (er_AuthorizationCode r) of
        None \<Rightarrow> (Inl ErrInvalidAuthorization, d)
      | Some codeSecret \<Rightarrow>
          if length codeSecret \<noteq> 32 \<or> er_InstallationID r = Nil_uuid then (Inl ErrInvalidAuthorization, d)
          else Exchange_record f (authorizationCodeHash cr codeSecret) now (finalize cr js s draw fd e now r) d)"

end
