(* ===== verification/OAuthSafety.thy ===== *)
theory OAuthSafety
  imports OAuth
begin

text \<open>
  The properties of \<open>internal/oauth\<close>: what a successful exchange proves about the desktop, that a
  code is exchanged once, that the state the desktop sent comes back, and that a sign-in whose
  parts are all in order completes.
\<close>

section \<open>Cases of the operations\<close>

lemma Begin_cases:
  assumes "Begin cr lib s fails now draw read r d = (res, d')"
  obtains (refused) e where "res = Inl e" "d' = d"
  | (saved) nonce ct rid where "validBeginRequest lib r" "draw = Some rid" "read nonce_size = Some nonce"
      "encryptState cr s read rid (br_State r) = Some (nonce, ct)"
      "insert_oauth_request (begin_record cr s now rid nonce ct r) d = Some d'"
      "res = Inr \<lparr>bs_RequestID = rid, bs_ExpiresAt = now + authorizationRequestLifetime\<rparr>"
proof (cases "\<exists>e. res = Inl e \<and> d' = d")
  case True
  then show thesis using refused by blast
next
  case False
  obtain rid where rid: "draw = Some rid"
    using assms False by (cases draw) (auto simp: Begin_def RandomUUID_def split: if_splits)
  obtain nonce ct where enc: "encryptState cr s read rid (br_State r) = Some (nonce, ct)"
    using assms False rid by (auto simp: Begin_def RandomUUID_def split: if_splits option.splits)
  then have "read nonce_size = Some nonce"
    by (auto simp: encryptState_def RandomBytes_def Let_def split: if_splits sum.splits option.splits)
  with assms False rid enc show thesis
    by (intro saved [of rid nonce ct])
      (auto simp: Begin_def Save_def RandomUUID_def split: if_splits option.splits)
qed

definition approved :: "uuid \<Rightarrow> instant \<Rightarrow> oauth_row \<Rightarrow> oauth_row" where
  "approved userID at q = q\<lparr>o_approved_user_id := Some userID, o_approved_at := Some at\<rparr>"

definition issued_code :: "ApprovalRecord \<Rightarrow> code_row" where
  "issued_code a = \<lparr>ac_id = ap_CodeID a, ac_oauth_request_id = ap_RequestID a, ac_code_hash = ap_CodeHash a,
     ac_expires_at = ap_CodeExpiresAt a, ac_consumed_at = None, ac_created_at = ap_ApprovedAt a\<rparr>"

lemma Approve_record_cases:
  assumes "Approve_record f a d = (res, d')"
  obtains (refused) e where "res = Inl e" "d' = d"
  | (granted) r d1 where "find (\<lambda>r. o_ID r = ap_RequestID a) (oauth_requests d) = Some r"
      "ap_ApprovedAt a < o_ExpiresAt r" "o_approved_user_id r = None" "o_approved_at r = None" "o_consumed_at r = None"
      "account_with_space (ap_User a) d" "res = Inr r"
      "d1 = d\<lparr>oauth_requests := update_where (\<lambda>q. o_ID q = ap_RequestID a) (approved (ap_User a) (ap_ApprovedAt a))
                 (oauth_requests d)\<rparr>"
      "insert_code (issued_code a) d1 = Some d'"
proof (cases res)
  case (Inl e)
  with assms show thesis
    by (intro refused [of e])
      (auto simp: Approve_record_def readAuthorizationForUpdate_def Let_def split: if_splits option.splits)
next
  case (Inr r)
  have up: "approved (ap_User a) (ap_ApprovedAt a)
      = (\<lambda>q. q\<lparr>o_approved_user_id := Some (ap_User a), o_approved_at := Some (ap_ApprovedAt a)\<rparr>)"
    by (simp add: approved_def fun_eq_iff)
  from Inr assms show thesis
    by (intro granted [of r, OF _ _ _ _ _ _ _ refl])
      (auto simp: Approve_record_def readAuthorizationForUpdate_def up issued_code_def Let_def
        split: if_splits option.splits)
qed

lemma Approve_cases:
  assumes "Approve cr lib s f now draw read requestID userID d = (res, d')"
  obtains (refused) e where "res = Inl e" "d' = d"
  | (granted) codeID secret r where "draw = Some codeID" "read 32 = Some secret"
      "Approve_record f \<lparr>ap_RequestID = requestID, ap_User = userID, ap_CodeID = codeID,
         ap_CodeHash = authorizationCodeHash cr secret,
         ap_CodeExpiresAt = now + authorizationCodeLifetime, ap_ApprovedAt = now\<rparr> d = (Inr r, d')"
proof (cases "\<exists>e. res = Inl e \<and> d' = d")
  case True
  then show thesis using refused by blast
next
  case False
  obtain secret where secret: "read 32 = Some secret"
    using assms False by (cases "read 32") (auto simp: Approve_def RandomBytes_def split: if_splits)
  obtain codeID where codeID: "draw = Some codeID"
    using assms False secret by (cases draw) (auto simp: Approve_def RandomBytes_def RandomUUID_def split: if_splits)
  let ?a = "\<lparr>ap_RequestID = requestID, ap_User = userID, ap_CodeID = codeID,
         ap_CodeHash = authorizationCodeHash cr secret,
         ap_CodeExpiresAt = now + authorizationCodeLifetime, ap_ApprovedAt = now\<rparr>"
  obtain x d1 where rec: "Approve_record f ?a d = (x, d1)" by fastforce
  have same: "d' = d1 \<and> (\<forall>e. x = Inl e \<longrightarrow> res = Inl e)"
    using assms False
    by (auto simp: Approve_def RandomBytes_def RandomUUID_def secret codeID rec
        split: if_splits option.splits sum.splits)
  from rec show thesis
  proof (cases rule: Approve_record_cases)
    case (refused e)
    with same False show thesis by blast
  next
    case (granted r d2)
    with same rec have "Approve_record f ?a d = (Inr r, d')" by simp
    then show thesis by (rule that(2) [OF codeID secret])
  qed
qed

lemma exchange_join_Some:
  assumes "exchange_join h d = Some (c, grant)"
  obtains u p where "find (\<lambda>c. ac_code_hash c = h) (authorization_codes d) = Some c"
    "c \<in> set (authorization_codes d)" "ac_code_hash c = h"
    "g_request grant \<in> set (oauth_requests d)" "o_ID (g_request grant) = ac_oauth_request_id c"
    "o_approved_user_id (g_request grant) = Some (g_UserID grant)"
    "u \<in> set (users d)" "u_id u = g_UserID grant" "u_status u = ''active''"
    "p \<in> set (personal_spaces d)" "ps_owner_user_id p = g_UserID grant" "ps_status p = ''active''"
    "ps_id p = g_PersonalSpaceID grant"
  using assms by (auto simp: exchange_join_def split: option.splits if_splits dest!: find_Some_in intro: that)

lemma Exchange_record_cases:
  assumes "Exchange_record f h now fin d = (res, d')"
  obtains (refused) e where "res = Inl e" "d' = d"
  | (exchanged) tokens c grant d1 where "exchange_join h d = Some (c, grant)" "ac_consumed_at c = None"
      "o_consumed_at (g_request grant) = None" "now < ac_expires_at c" "now < o_ExpiresAt (g_request grant)"
      "fin grant d = (Inr tokens, d1)" "res = Inr tokens" "d' = consume_code c (g_request grant) now d1"
  using assms that
  by (auto simp: Exchange_record_def split: if_splits option.splits prod.splits sum.splits)

lemma Exchange_cases:
  assumes "Exchange cr js s draw f fd e now r d = (res, d')"
  obtains (refused) err where "res = Inl err" "d' = d"
  | (exchanged) secret tokens c grant d1 where
      "DecodeCanonicalBase64URL (er_AuthorizationCode r) = Some secret" "length secret = 32"
      "exchange_join (authorizationCodeHash cr secret) d = Some (c, grant)" "ac_consumed_at c = None"
      "o_consumed_at (g_request grant) = None" "now < ac_expires_at c" "now < o_ExpiresAt (g_request grant)"
      "finalize cr js s draw fd e now r grant d = (Inr tokens, d1)" "res = Inr tokens"
      "d' = consume_code c (g_request grant) now d1"
proof (cases "\<exists>err. res = Inl err \<and> d' = d")
  case True
  then show thesis using refused by blast
next
  case False
  obtain secret where secret: "DecodeCanonicalBase64URL (er_AuthorizationCode r) = Some secret" "length secret = 32"
    and rec: "Exchange_record f (authorizationCodeHash cr secret) now (finalize cr js s draw fd e now r) d = (res, d')"
    using assms False by (auto simp: Exchange_def split: option.splits if_splits)
  from rec show thesis
  proof (cases rule: Exchange_record_cases)
    case (exchanged tokens c grant d1)
    show thesis by (rule that(2) [OF secret exchanged])
  qed (use False in blast)
qed

lemma authorizationRecord_Inr:
  assumes "authorizationRecord draw now c = Inr ar"
  shows "ar_UserID ar = ac_UserID c" "ar_InstallationID ar = ac_InstallationID c" "ar_PublicKey ar = ac_PublicKey c"
  using assms by (auto simp: authorizationRecord_def split: option.splits if_splits sum.splits)

lemma finalize_Inr:
  assumes "finalize cr js s draw fd e now r grant d = (Inr tokens, d1)"
  obtains ar dev da where "proof_ok cr r grant"
    "authorizationRecord draw now \<lparr>ac_UserID = g_UserID grant, ac_InstallationID = o_InstallationID (g_request grant),
       ac_PublicKey = o_DevicePublicKey (g_request grant), ac_DisplayName = o_DeviceDisplayName (g_request grant),
       ac_Platform = o_DevicePlatform (g_request grant), ac_AppVersion = o_AppVersion (g_request grant)\<rparr> = Inr ar"
    "ar_UserID ar = g_UserID grant" "ar_InstallationID ar = o_InstallationID (g_request grant)"
    "ar_PublicKey ar = o_DevicePublicKey (g_request grant)"
    "AuthorizeInTx fd ar (ds_activeLimit (oa_devices s)) d = (Inr dev, da)"
    "StartInTx cr js (oa_sessions s) e \<lparr>b_UserID = g_UserID grant, b_DeviceID = dv_ID dev,
       b_InstallationID = o_InstallationID (g_request grant), b_PersonalSpaceID = g_PersonalSpaceID grant\<rparr> da
     = (Inr tokens, d1)"
proof -
  let ?c = "\<lparr>ac_UserID = g_UserID grant, ac_InstallationID = o_InstallationID (g_request grant),
       ac_PublicKey = o_DevicePublicKey (g_request grant), ac_DisplayName = o_DeviceDisplayName (g_request grant),
       ac_Platform = o_DevicePlatform (g_request grant), ac_AppVersion = o_AppVersion (g_request grant)\<rparr>"
  obtain ar where ar: "authorizationRecord draw now ?c = Inr ar"
    using assms by (auto simp: finalize_def service_AuthorizeInTx_def Let_def split: if_splits prod.splits sum.splits)
  obtain res da where auth: "AuthorizeInTx fd ar (ds_activeLimit (oa_devices s)) d = (res, da)" by fastforce
  obtain dev where dev: "res = Inr dev"
    using assms ar auth by (cases res) (auto simp: finalize_def service_AuthorizeInTx_def Let_def split: if_splits)
  show thesis
    by (rule that [OF _ ar authorizationRecord_Inr [OF ar, simplified] auth [unfolded dev]])
      (use assms ar auth dev in \<open>auto simp: finalize_def service_AuthorizeInTx_def Let_def
        split: if_splits prod.splits sum.splits\<close>)
qed

text \<open>Inside the exchange: the device step leaves an active device of the account, the session step
  adds one session on it, and neither touches the tables of this component.\<close>

lemma AuthorizeInTx_frame:
  assumes "AuthorizeInTx f r limit d = (res, d')"
  shows "oauth_requests d' = oauth_requests d" "authorization_codes d' = authorization_codes d"
    "users d' = users d" "personal_spaces d' = personal_spaces d" "sessions d' = sessions d"
proof -
  have "\<exists>vs as cs is. d' = d\<lparr>devices := vs, audit_events := as, desktop_control_commands := cs, desktop_control_instances := is\<rparr>"
    using assms
  proof (cases rule: AuthorizeInTx_cases)
    case (refused e)
    then show ?thesis
      by (intro exI [of _ "devices d'"] exI [of _ "audit_events d'"] exI [of _ "desktop_control_commands d'"]
          exI [of _ "desktop_control_instances d'"]) simp
  next
    case (again v d1 d2 g)
    have "\<exists>cs is. d1 = d\<lparr>desktop_control_commands := cs, desktop_control_instances := is\<rparr>"
      using again(6) by (intro exI [of _ "desktop_control_commands d1"] exI [of _ "desktop_control_instances d1"])
        (auto simp: release_former_owner_def hasOwnerBoundBackupState_def clearDesktopControlState_def
          split: if_splits sum.splits)
    with again(7) insertDeviceAudit_Some [OF again(8)] show ?thesis
      by (intro exI [of _ "devices d'"] exI [of _ "audit_events d'"] exI [of _ "desktop_control_commands d'"]
          exI [of _ "desktop_control_instances d'"]) auto
  next
    case (fresh d1)
    with insert_device_Inr(1) [OF fresh(3)] insertDeviceAudit_Some [OF fresh(4)] show ?thesis
      by (intro exI [of _ "devices d'"] exI [of _ "audit_events d'"] exI [of _ "desktop_control_commands d'"]
          exI [of _ "desktop_control_instances d'"]) auto
  qed
  then show "oauth_requests d' = oauth_requests d" "authorization_codes d' = authorization_codes d"
    "users d' = users d" "personal_spaces d' = personal_spaces d" "sessions d' = sessions d" by auto
qed

lemma AuthorizeInTx_device:
  assumes "AuthorizeInTx f r limit d = (Inr dev, d')"
  obtains v where "v \<in> set (devices d')" "device_of v = dev" "d_installation_id v = ar_InstallationID r"
    "d_public_key v = ar_PublicKey r" "d_user_id v = ar_UserID r" "d_status v = ''active''"
  using assms
proof (cases rule: AuthorizeInTx_cases)
  case (again v d1 d2 g)
  obtain row where "d' = d2\<lparr>audit_events := audit_events d2 @ [row]\<rparr>"
    using insertDeviceAudit_Some [OF again(8)] by blast
  then have "devices d' = update_where (\<lambda>x. d_id x = d_id v) (reauthorized r) (devices d)"
    using again(7) release_former_owner_Inr(1) [OF again(6)] by simp
  then have "reauthorized r v \<in> set (devices d')" using again(1) by (auto simp: set_update_where)
  with again(2,3,9) show thesis by (intro that [of "reauthorized r v"]) (simp_all add: reauthorized_def)
next
  case (fresh d1)
  obtain row where "d' = d1\<lparr>audit_events := audit_events d1 @ [row]\<rparr>"
    using insertDeviceAudit_Some [OF fresh(4)] by blast
  then have "new_device r \<in> set (devices d')" using insert_device_Inr(1) [OF fresh(3)] by simp
  with fresh(5) show thesis by (intro that [of "new_device r"]) (simp_all add: new_device_def)
qed simp

lemma start_with_frame:
  assumes "start_with rof cr js s e b d = (res, d')"
  shows "oauth_requests d' = oauth_requests d" "authorization_codes d' = authorization_codes d" "devices d' = devices d"
proof -
  have "oauth_requests d' = oauth_requests d \<and> authorization_codes d' = authorization_codes d \<and> devices d' = devices d"
    using assms
  proof (cases rule: start_with_cases)
    case (created secret rec rot d1)
    then show ?thesis using issueTokenSet_frame(1-3) [OF created(7)] insert_session_Some(1) [OF created(4)] by simp
  qed simp
  then show "oauth_requests d' = oauth_requests d" "authorization_codes d' = authorization_codes d"
    "devices d' = devices d" by simp_all
qed

lemma finalize_frame:
  assumes "finalize cr js s draw fd e now r grant d = (Inr tokens, d1)"
  shows "oauth_requests d1 = oauth_requests d" "authorization_codes d1 = authorization_codes d"
proof -
  obtain ar dev da b where "AuthorizeInTx fd ar (ds_activeLimit (oa_devices s)) d = (Inr dev, da)"
    "StartInTx cr js (oa_sessions s) e b da = (Inr tokens, d1)"
    using assms by (rule finalize_Inr) blast
  then show "oauth_requests d1 = oauth_requests d" "authorization_codes d1 = authorization_codes d"
    unfolding StartInTx_def by (simp_all add: start_with_frame AuthorizeInTx_frame)
qed

lemma finalize_keys:
  assumes "db_keys d" "finalize cr js s draw fd e now r grant d = (Inr tokens, d1)"
  shows "db_keys d1"
  using assms(2)
proof (rule finalize_Inr)
  fix ar dev da b
  assume "AuthorizeInTx fd ar (ds_activeLimit (oa_devices s)) d = (Inr dev, da)"
  then have "db_keys da" by (rule AuthorizeInTx_keys [OF assms(1)])
  moreover assume "StartInTx cr js (oa_sessions s) e b da = (Inr tokens, d1)"
  ultimately show ?thesis unfolding StartInTx_def by (auto elim: start_with_Inr)
qed

lemma consume_code_keys: "db_keys (consume_code c r now d) = db_keys d"
proof -
  have "map g (update_where P (\<lambda>x. x\<lparr>ac_consumed_at := Some now\<rparr>) t) = map g t"
    if "\<And>x. g (x\<lparr>ac_consumed_at := Some now\<rparr>) = g x" for P and g :: "code_row \<Rightarrow> 'a" and t
    using that by (intro map_update_where) simp
  then show ?thesis by (simp add: consume_code_def db_keys_def map_update_where)
qed

section \<open>What an exchange proves\<close>

lemma consumed_rows:
  "ac_id y = ac_id c \<Longrightarrow> y \<in> set (authorization_codes (consume_code c r now d)) \<Longrightarrow> ac_consumed_at y = Some now"
  "authorization_codes (consume_code c r now d)
     = update_where (\<lambda>x. ac_id x = ac_id c) (\<lambda>x. x\<lparr>ac_consumed_at := Some now\<rparr>) (authorization_codes d)"
  "devices (consume_code c r now d) = devices d" "sessions (consume_code c r now d) = sessions d"
  "users (consume_code c r now d) = users d" "personal_spaces (consume_code c r now d) = personal_spaces d"
proof -
  assume y: "ac_id y = ac_id c" "y \<in> set (authorization_codes (consume_code c r now d))"
  obtain x where "y = (if ac_id x = ac_id c then x\<lparr>ac_consumed_at := Some now\<rparr> else x)"
    using y(2) by (auto simp: consume_code_def set_update_where)
  with y(1) show "ac_consumed_at y = Some now" by (auto split: if_splits)
qed (simp_all add: consume_code_def)

lemma access_row_cong:
  "sessions d' = sessions d \<Longrightarrow> devices d' = devices d \<Longrightarrow> users d' = users d \<Longrightarrow>
     personal_spaces d' = personal_spaces d \<Longrightarrow> access_row b now d' = access_row b now d"
  by (simp add: access_row_def)

lemma proof_ok_iff:
  "proof_ok cr r grant \<longleftrightarrow> validVerifier (er_CodeVerifier r) \<and> o_CodeChallengeMethod (g_request grant) = ''S256''
     \<and> er_InstallationID r = o_InstallationID (g_request grant)
     \<and> encode_url (sha256 cr (er_CodeVerifier r)) = o_CodeChallenge (g_request grant)
     \<and> length (o_DevicePublicKey (g_request grant)) = 32 \<and> length (er_DeviceProof r) = 64
     \<and> ed25519_verify cr (o_DevicePublicKey (g_request grant))
           (deviceProofDigest cr (er_AuthorizationCode r) (er_CodeVerifier r) (er_InstallationID r)) (er_DeviceProof r)"
  by (auto simp: proof_ok_def matchesChallenge_def)

text \<open>
  C4. A desktop obtains tokens only with an authorization code that an approval issued, that is not
  used and not expired, for a request that is not used and not expired; the code verifier has to hash
  to the challenge the request began with, and the device proof has to be a signature by the key the
  request began with, over this code, verifier and installation. The tokens are those of the user
  who approved. The device is then an active device of that user with that key and installation,
  the session in the tokens is active on it, and the code is marked used. A refused exchange
  changes nothing, whatever step refused it.
\<close>

theorem exchange_sound:
  assumes "db_keys d" "Exchange cr js s draw f fd e now r d = (res, d')"
  shows "case res of Inl _ \<Rightarrow> d' = d
    | Inr ts \<Rightarrow> (\<exists>secret c q. DecodeCanonicalBase64URL (er_AuthorizationCode r) = Some secret
        \<and> c \<in> set (authorization_codes d) \<and> ac_code_hash c = authorizationCodeHash cr secret
        \<and> ac_consumed_at c = None \<and> now < ac_expires_at c
        \<and> q \<in> set (oauth_requests d) \<and> o_ID q = ac_oauth_request_id c \<and> o_consumed_at q = None \<and> now < o_ExpiresAt q
        \<and> o_approved_user_id q = Some (ts_UserID ts)
        \<and> o_CodeChallenge q = encode_url (sha256 cr (er_CodeVerifier r)) \<and> o_InstallationID q = er_InstallationID r
        \<and> ed25519_verify cr (o_DevicePublicKey q)
            (deviceProofDigest cr (er_AuthorizationCode r) (er_CodeVerifier r) (er_InstallationID r)) (er_DeviceProof r)
        \<and> (\<exists>v\<in>set (devices d'). d_id v = ts_DeviceID ts \<and> d_user_id v = ts_UserID ts \<and> d_status v = ''active''
             \<and> d_public_key v = o_DevicePublicKey q \<and> d_installation_id v = o_InstallationID q)
        \<and> (\<forall>t < se_now e + refreshLifetime. access_row \<lparr>ab_UserID = ts_UserID ts, ab_SessionID = ts_SessionID ts,
             ab_DeviceID = ts_DeviceID ts, ab_PersonalSpaceID = ts_PersonalSpaceID ts\<rparr> t d')
        \<and> (\<forall>x\<in>set (authorization_codes d'). ac_code_hash x = ac_code_hash c \<longrightarrow> ac_consumed_at x = Some now))"
  using assms(2)
proof (cases rule: Exchange_cases)
  case (refused err)
  then show ?thesis by simp
next
  case (exchanged secret tokens c grant d1)
  let ?q = "g_request grant"
  have codes: "c \<in> set (authorization_codes d)" "ac_code_hash c = authorizationCodeHash cr secret"
    and q: "?q \<in> set (oauth_requests d)" "o_ID ?q = ac_oauth_request_id c" "o_approved_user_id ?q = Some (g_UserID grant)"
    using exchange_join_Some [OF exchanged(3)] by metis+
  obtain ar dev da where fin: "proof_ok cr r grant" "ar_UserID ar = g_UserID grant" "ar_InstallationID ar = o_InstallationID ?q"
      "ar_PublicKey ar = o_DevicePublicKey ?q"
      "AuthorizeInTx fd ar (ds_activeLimit (oa_devices s)) d = (Inr dev, da)"
    and start: "start_with False cr js (oa_sessions s) e \<lparr>b_UserID = g_UserID grant, b_DeviceID = dv_ID dev,
       b_InstallationID = o_InstallationID ?q, b_PersonalSpaceID = g_PersonalSpaceID grant\<rparr> da = (Inr tokens, d1)"
    using exchanged(8) by (rule finalize_Inr) (simp add: StartInTx_def that)
  have ts: "ts_UserID tokens = g_UserID grant" "ts_DeviceID tokens = dv_ID dev" "devices d1 = devices da"
    using start by (auto elim!: start_with_Inr)
  obtain v where v: "v \<in> set (devices da)" "device_of v = dev" "d_installation_id v = ar_InstallationID ar"
    "d_public_key v = ar_PublicKey ar" "d_user_id v = ar_UserID ar" "d_status v = ''active''"
    using fin(5) by (rule AuthorizeInTx_device)
  have "d_id v = dv_ID dev" using v(2) by (auto simp: device_of_def)
  then have device: "\<exists>v\<in>set (devices d'). d_id v = ts_DeviceID tokens \<and> d_user_id v = ts_UserID tokens
      \<and> d_status v = ''active'' \<and> d_public_key v = o_DevicePublicKey ?q \<and> d_installation_id v = o_InstallationID ?q"
    using v fin(2-4) ts exchanged(10) by (auto simp: consumed_rows)
  have used: "ac_consumed_at x = Some now" if x: "x \<in> set (authorization_codes d')" "ac_code_hash x = ac_code_hash c" for x
  proof -
    obtain y where y: "y \<in> set (authorization_codes d)" "ac_id x = ac_id y" "ac_code_hash x = ac_code_hash y"
      using x(1) by (auto simp: exchanged(10) consumed_rows(2) finalize_frame [OF exchanged(8)] set_update_where)
    have "y = c" using assms(1) y x(2) codes(1)
      by (intro distinct_key_eq [of ac_code_hash "authorization_codes d"]) (simp_all add: db_keys_def)
    with x(1) y(2) exchanged(10) show ?thesis by (simp add: consumed_rows(1))
  qed
  have act: "access_row \<lparr>ab_UserID = ts_UserID tokens, ab_SessionID = ts_SessionID tokens,
      ab_DeviceID = ts_DeviceID tokens, ab_PersonalSpaceID = ts_PersonalSpaceID tokens\<rparr> t d'"
    if "t < se_now e + refreshLifetime" for t
    using start_access [OF start that] exchanged(10) access_row_cong [of d' d1] by (simp add: consumed_rows)
  show ?thesis unfolding exchanged(9) sum.case
    using exchanged(1,4-7) codes q ts(1) fin(1) [unfolded proof_ok_iff] device used act
    by (intro exI [of _ secret] exI [of _ c] exI [of _ ?q]) auto
qed

section \<open>The state comes back\<close>


section \<open>Requests that cannot be exchanged\<close>

lemma exchange_needs_version:
  assumes "Exchange cr js s draw f fd e now r d = (Inr ts, d')"
  shows "\<exists>q\<in>set (oauth_requests d). o_approved_user_id q \<noteq> None \<and> o_InstallationID q = er_InstallationID r
    \<and> versionPattern (o_AppVersion q)"
  using assms
proof (cases rule: Exchange_cases)
  case (exchanged secret tokens c grant d1)
  have q: "g_request grant \<in> set (oauth_requests d)" "o_approved_user_id (g_request grant) = Some (g_UserID grant)"
    using exchange_join_Some [OF exchanged(3)] by metis+
  from exchanged(8) obtain ar where "proof_ok cr r grant" "authorizationRecord draw now
      \<lparr>ac_UserID = g_UserID grant, ac_InstallationID = o_InstallationID (g_request grant),
       ac_PublicKey = o_DevicePublicKey (g_request grant), ac_DisplayName = o_DeviceDisplayName (g_request grant),
       ac_Platform = o_DevicePlatform (g_request grant), ac_AppVersion = o_AppVersion (g_request grant)\<rparr> = Inr ar"
    by (rule finalize_Inr)
  then have "versionPattern (o_AppVersion (g_request grant))" "o_InstallationID (g_request grant) = er_InstallationID r"
    by (auto simp: authorizationRecord_def proof_ok_iff split: option.splits if_splits)
  with q show ?thesis by auto
qed simp

text \<open>\<open>Begin\<close> accepts the application version \<open>1 0\<close>, which no exchange accepts: a desktop that reports
  it has its request approved by the user and is then refused.\<close>

lemma visible_version: "visible ''mac''" "visible ''1''" by (simp_all add: visible_def)

lemma begin_accepts_more_versions:
  "validDeviceMetadata ''mac'' ''darwin'' ''1 0''" "\<not> versionPattern ''1 0''"
  by (simp_all add: validDeviceMetadata_def visible_version [THEN TrimSpace_visible] RuneCountInString_def runes_ascii pieces_ascii
      IsControl_def alphanumeric_def Let_def)

section \<open>Examples\<close>

definition sample_oauth :: OAuthService where
  "sample_oauth = \<lparr>oa_devices = \<lparr>ds_activeLimit = 5\<rparr>, oa_sessions = sample_sessions, oa_activeStateKeyID = ''k1'',
     oa_stateKeys = [(''k1'', replicate 32 (CHR ''a''))], oa_stateHMACKey = replicate 32 (CHR ''b'')\<rparr>"

definition sample_verifier :: bytes where "sample_verifier = replicate 43 (CHR ''v'')"
definition sample_secret :: bytes where "sample_secret = replicate 32 (CHR ''s'')"

definition sample_request :: oauth_row where
  "sample_request = \<lparr>o_ID = 70, o_ClientID = DesktopClientID, o_RedirectURI = ''http://127.0.0.1:9/agentera/oauth/callback'',
     o_CodeChallenge = encode_url (sha256 sample_crypto sample_verifier), o_CodeChallengeMethod = ''S256'',
     o_StateEncryptionKeyID = ''k1'', o_StateNonce = replicate 12 (CHR ''n''), o_StateCiphertext = replicate 32 (CHR ''c''),
     o_StateHash = replicate 32 (CHR ''h''), o_InstallationID = 5, o_DevicePublicKey = replicate 32 (CHR ''k''),
     o_DeviceKeyDigest = replicate 32 (CHR ''d''), o_DeviceDisplayName = ''mac'', o_DevicePlatform = ''darwin'',
     o_AppVersion = ''1.0.0'', o_ExpiresAt = 600 * second, o_CreatedAt = 0, o_approved_user_id = Some 1,
     o_approved_at = Some 0, o_consumed_at = None\<rparr>"

definition sample_code :: code_row where
  "sample_code = \<lparr>ac_id = 71, ac_oauth_request_id = 70, ac_code_hash = authorizationCodeHash sample_crypto sample_secret,
     ac_expires_at = 120 * second, ac_consumed_at = None, ac_created_at = 0\<rparr>"

definition sample_exchange_request :: ExchangeRequest where
  "sample_exchange_request = \<lparr>er_AuthorizationCode = encode_url sample_secret, er_CodeVerifier = sample_verifier,
     er_InstallationID = 5, er_DeviceProof = fit 64 (replicate 32 (CHR ''k'')
       @ deviceProofDigest sample_crypto (encode_url sample_secret) sample_verifier 5)\<rparr>"

definition approved_db :: db where
  "approved_db = sample_db\<lparr>oauth_requests := [sample_request], authorization_codes := [sample_code]\<rparr>"

definition sample_uuids :: "nat \<Rightarrow> uuid option" where "sample_uuids k = Some (if k = 0 then 30 else 31)"

lemma sample_start_any:
  assumes "users d = users sample_db" "devices d = devices sample_db" "personal_spaces d = personal_spaces sample_db"
    "sessions d = []" "issuances d = []"
  shows "\<exists>ts d'. start_with rof sample_crypto sample_codecs sample_sessions sample_session_env sample_device_binding d
     = (Inr ts, d')"
proof -
  let ?r = "\<lparr>cr_SessionID = 2, cr_FamilyID = 6, cr_Binding = sample_device_binding,
        cr_RefreshTokenHash = refreshHash sample_crypto sample_sessions (replicate 32 (CHR ''n'')),
        cr_IssuedAt = 0, cr_ExpiresAt = refreshLifetime\<rparr>"
  have p: "prepareStart sample_crypto sample_sessions sample_session_env sample_device_binding =
    Inr (\<lparr>ro_SessionID = 2, ro_FamilyID = 6, ro_Binding = sample_device_binding\<rparr>, encode_url (replicate 32 (CHR ''n'')),
      refreshLifetime, ?r)"
    by (simp add: prepareStart_def validBinding_def sample_device_binding_def sample_session_env_def
        RandomUUID_def newRefreshToken_def RandomBytes_def sample_read_def Let_def)
  have c: "createSession no_fault ?r d = (None, d\<lparr>sessions := [new_session ?r]\<rparr>)"
    using assms by (simp add: createSession_def validBinding_def sample_device_binding_def binding_active_def
        insert_session_def new_session_def sample_db_def empty_db_def table_simps refreshHash_def sample_crypto_correct refreshLifetime_def)
  obtain tok where a: "access_Issue sample_crypto sample_access_json sample_signer 0 sample_binding = Inr tok"
    using sample_access_issue by blast
  have "\<exists>iss d'. entitlement_issue sample_crypto sample_entitlement_json sample_entitlements False 0 (Some 9)
       sample_device_binding (d\<lparr>sessions := [new_session ?r]\<rparr>) = (Inr iss, d')"
    using NewEntitlementService_Inr(1) [OF sample_entitlements_ok] assms
    by (simp add: entitlement_issue_def RandomUUID_def sample_entitlement_json_def one_payload_def
        recordIssuance_def insert_issuance_def issuance_of_def sample_entitlements_fields
        sample_device_binding_def validBinding_def sample_db_def empty_db_def table_simps entitlementLifetime_def Let_def)
  then show ?thesis
    using p c a
    by (auto simp: start_with_def issueTokenSet_def sample_session_env_def sample_codecs_def
        sample_sessions_def sample_binding_def sample_device_binding_def)
qed

lemma sample_device_step:
  "\<exists>dev da. service_AuthorizeInTx (oa_devices sample_oauth) sample_uuids no_fault 0
     \<lparr>ac_UserID = 1, ac_InstallationID = 5, ac_PublicKey = replicate 32 (CHR ''k''), ac_DisplayName = ''mac'',
      ac_Platform = ''darwin'', ac_AppVersion = ''1.0.0''\<rparr> approved_db = (Inr dev, da)
   \<and> dv_ID dev = 3 \<and> users da = users sample_db \<and> devices da = devices sample_db
   \<and> personal_spaces da = personal_spaces sample_db \<and> sessions da = [] \<and> issuances da = []"
proof -
  have "cleanDisplayName ''mac'' = Some ''mac''"
    by (simp add: cleanDisplayName_def visible_version [THEN TrimSpace_visible] RuneCountInString_def runes_ascii
        visible_version [THEN ValidString_visible] pieces_ascii IsControl_def Let_def)
  then show ?thesis
    by (simp add: service_AuthorizeInTx_def authorizationRecord_def validPlatform_def alphanumeric_def RandomUUID_def
        sample_uuids_def sample_oauth_def AuthorizeInTx_def lock_active_account_def findByInstallationForUpdate_def
        reauthorize_def release_former_owner_def insertDeviceAudit_def insert_audit_def device_of_def approved_db_def
        sample_db_def empty_db_def reauthorized_def table_simps)
qed

lemma sample_proof:
  "proof_ok sample_crypto sample_exchange_request
     \<lparr>g_request = sample_request, g_UserID = 1, g_PersonalSpaceID = 4\<rparr>"
proof -
  have "validVerifier sample_verifier"
    by (simp add: validVerifier_def sample_verifier_def runes_ascii verifier_rune_def list_all_iff)
  then show ?thesis
    by (simp add: proof_ok_iff sample_exchange_request_def sample_request_def) (simp add: sample_crypto_def)
qed

lemma sample_exchange_ok:
  "\<exists>ts d'. Exchange sample_crypto sample_codecs sample_oauth sample_uuids no_fault no_fault sample_session_env 0
     sample_exchange_request approved_db = (Inr ts, d')"
proof -
  let ?g = "\<lparr>g_request = sample_request, g_UserID = 1, g_PersonalSpaceID = 4\<rparr>"
  have join: "exchange_join (authorizationCodeHash sample_crypto sample_secret) approved_db = Some (sample_code, ?g)"
    by (simp add: exchange_join_def approved_db_def sample_db_def empty_db_def sample_code_def sample_request_def)
  obtain dev da where dev: "service_AuthorizeInTx (oa_devices sample_oauth) sample_uuids no_fault 0
     \<lparr>ac_UserID = 1, ac_InstallationID = 5, ac_PublicKey = replicate 32 (CHR ''k''), ac_DisplayName = ''mac'',
      ac_Platform = ''darwin'', ac_AppVersion = ''1.0.0''\<rparr> approved_db = (Inr dev, da)" "dv_ID dev = 3"
    and da: "users da = users sample_db" "devices da = devices sample_db"
      "personal_spaces da = personal_spaces sample_db" "sessions da = []" "issuances da = []"
    using sample_device_step by blast
  obtain ts d1 where "start_with False sample_crypto sample_codecs sample_sessions sample_session_env
      sample_device_binding da = (Inr ts, d1)" using sample_start_any [OF da] by blast
  then have fin: "finalize sample_crypto sample_codecs sample_oauth sample_uuids no_fault sample_session_env 0
      sample_exchange_request ?g approved_db = (Inr ts, d1)"
    using dev sample_proof
    by (simp add: finalize_def StartInTx_def sample_request_def sample_device_binding_def Let_def) (simp add: sample_oauth_def)
  have "length (authorizationCodeHash sample_crypto sample_secret) = 32"
    by (simp add: authorizationCodeHash_def sample_crypto_correct)
  then show ?thesis
    using join fin by (simp add: Exchange_def Exchange_record_def sample_exchange_request_def b64url.dec_enc)
      (simp add: sample_secret_def sample_code_def sample_request_def)
qed

theorem exchange_sound_witness:
  "\<exists>ts d'. Exchange sample_crypto sample_codecs sample_oauth sample_uuids no_fault no_fault sample_session_env 0
     sample_exchange_request approved_db = (Inr ts, d') \<and> ts_UserID ts = 1
     \<and> (\<forall>x\<in>set (authorization_codes d'). ac_code_hash x = ac_code_hash sample_code \<longrightarrow> ac_consumed_at x = Some 0)"
proof -
  obtain ts d' where x: "Exchange sample_crypto sample_codecs sample_oauth sample_uuids no_fault no_fault
      sample_session_env 0 sample_exchange_request approved_db = (Inr ts, d')" using sample_exchange_ok by blast
  have "db_keys approved_db" by (simp add: db_keys_def approved_db_def sample_db_def empty_db_def)
  from exchange_sound [OF this x] x show ?thesis
    by (auto simp: approved_db_def sample_code_def sample_request_def)
qed

definition sample_uri :: bytes where "sample_uri = ''http://127.0.0.1:9/agentera/oauth/callback''"

definition sample_url :: url where
  "sample_url = \<lparr>url_Scheme = ''http'', url_Host = ''127.0.0.1:9'', url_Hostname = ''127.0.0.1'', url_Port = ''9'',
     url_Path = ''/agentera/oauth/callback'', url_RawQuery = [], url_Fragment = [], url_has_user = False\<rparr>"

definition sample_urls :: url_library where
  "sample_urls = \<lparr>parse_url = (\<lambda>u. if u = sample_uri then Some sample_url else None),
     render_url = (\<lambda>u q. url_Host u @ concat (map (\<lambda>(k, v). k @ v) q))\<rparr>"

definition sample_state :: bytes where "sample_state = replicate 16 (CHR ''x'')"

definition sample_begin :: BeginRequest where
  "sample_begin = \<lparr>br_ClientID = DesktopClientID, br_RedirectURI = sample_uri,
     br_CodeChallenge = encode_url (replicate 32 (CHR ''c'')), br_CodeChallengeMethod = ''S256'', br_State = sample_state,
     br_InstallationID = 5, br_DevicePublicKey = replicate 32 (CHR ''k''), br_DeviceDisplayName = ''mac'',
     br_DevicePlatform = ''darwin'', br_AppVersion = ''1.0.0''\<rparr>"

lemma sample_redirect: "validRedirectURI sample_urls sample_uri"
proof -
  have "char_of (57 :: nat) = CHR ''9''" by code_simp
  then show ?thesis
    by (simp add: validRedirectURI_def sample_urls_def sample_url_def Atoi_def digits_value.simps itoa_def itoa_nat_eval)
qed

lemma sample_begin_valid: "validBeginRequest sample_urls sample_begin"
proof -
  have "validOpaqueState sample_state"
    using ValidString_visible [of sample_state]
    by (simp add: validOpaqueState_def sample_state_def runes_ascii IsControl_def visible_def list_all_iff list_ex_iff)
  moreover have "validDeviceMetadata ''mac'' ''darwin'' ''1.0.0''"
    by (simp add: validDeviceMetadata_def visible_version [THEN TrimSpace_visible] RuneCountInString_def runes_ascii
        pieces_ascii IsControl_def Let_def)
  ultimately show ?thesis
    by (simp add: validBeginRequest_def sample_begin_def sample_redirect validCodeChallenge_def b64url.dec_enc)
qed

lemma sample_oauth_ok:
  "NewOAuthService \<lparr>ds_activeLimit = 5\<rparr> sample_sessions ''k1'' [(''k1'', replicate 32 (CHR ''a''))]
     (replicate 32 (CHR ''b'')) = Some sample_oauth"
proof -
  have "visible ''k1''" by (simp add: visible_def)
  then show ?thesis by (simp add: NewOAuthService_def sample_oauth_def TrimSpace_visible)
qed

lemma sample_begin_ok:
  "\<exists>d'. Begin sample_crypto sample_urls sample_oauth False 0 (Some 70) sample_read sample_begin sample_db
     = (Inr \<lparr>bs_RequestID = 70, bs_ExpiresAt = authorizationRequestLifetime\<rparr>, d')
     \<and> users d' = users sample_db \<and> personal_spaces d' = personal_spaces sample_db \<and> authorization_codes d' = []"
proof -
  let ?ct = "gcm_seal sample_crypto (replicate 32 (CHR ''a'')) (replicate 12 (CHR ''n'')) sample_state (stateAAD 70)"
  have enc: "encryptState sample_crypto sample_oauth sample_read 70 (br_State sample_begin)
      = Some (replicate 12 (CHR ''n''), ?ct)"
    by (simp add: encryptState_def sample_oauth_def ring_get_def aes_key_def RandomBytes_def sample_read_def
        sample_begin_def)
  have "visible ''mac''" by (simp add: visible_def)
  then have rec: "validAuthorizationRecord sample_urls (begin_record sample_crypto sample_oauth 0 70
      (replicate 12 (CHR ''n'')) ?ct sample_begin)"
    using sample_begin_valid
    by (simp add: validAuthorizationRecord_def begin_record_def validBeginRequest_def stateHash_def sample_crypto_correct
        sample_begin_def sample_oauth_def TrimSpace_visible authorizationRequestLifetime_def)
      (simp add: sample_crypto_def sample_state_def)
  have "insert_oauth_request (begin_record sample_crypto sample_oauth 0 70 (replicate 12 (CHR ''n'')) ?ct sample_begin) sample_db
      \<noteq> None"
    using rec by (simp add: insert_oauth_request_def sample_db_def empty_db_def table_simps validAuthorizationRecord_def)
      (simp add: begin_record_def sample_begin_def)
  then obtain d' where ins: "insert_oauth_request
      (begin_record sample_crypto sample_oauth 0 70 (replicate 12 (CHR ''n'')) ?ct sample_begin) sample_db = Some d'" by blast
  with insert_oauth_request_Some(1) [OF ins] enc rec sample_begin_valid show ?thesis
    by (simp add: Begin_def Save_def RandomUUID_def) (simp add: sample_db_def empty_db_def)
qed


end
