(* ===== verification/Lifecycle.thy ===== *)
theory Lifecycle
  imports OAuthSafety
begin

text \<open>
  The components together. The services for devices, sessions and the desktop sign-in share one
  database; a state is reachable if some interleaving of their calls, each with whatever faults,
  clocks and random draws, and of arbitrary changes to accounts and personal spaces by the account
  component leads to it. The theory shows what holds in every reachable state.
\<close>

section \<open>The system\<close>

record system =
  sy_crypto :: crypto
  sy_codecs :: codecs
  sy_urls :: url_library
  sy_oauth :: OAuthService

abbreviation device_limit :: "system \<Rightarrow> int" where
  "device_limit sy \<equiv> ds_activeLimit (oa_devices (sy_oauth sy))"

datatype system_op =
    Do_Begin bool instant "uuid option" "nat \<Rightarrow> bytes option" BeginRequest
  | Do_Approve schedule instant "uuid option" "nat \<Rightarrow> bytes option" uuid uuid
  | Do_Exchange "nat \<Rightarrow> uuid option" schedule schedule session_env instant ExchangeRequest
  | Do_Start session_env Binding
  | Do_Refresh session_env bytes
  | Do_Logout session_env bytes
  | Do_Authorize "nat \<Rightarrow> uuid option" schedule instant AuthorizeCommand
  | Do_Revoke "uuid option" schedule instant uuid uuid
  | Do_SelfRevoke "uuid option" schedule instant SelfRevokeCommand

text \<open>The result says whether the call succeeded.\<close>

fun system_step :: "system \<Rightarrow> system_op \<Rightarrow> db \<Rightarrow> bool \<times> db" where
  "system_step sy (Do_Begin fails now draw read r) d =
     (case Begin (sy_crypto sy) (sy_urls sy) (sy_oauth sy) fails now draw read r d of (x, d') \<Rightarrow> (\<not> isl x, d'))"
| "system_step sy (Do_Approve f now draw read requestID userID) d =
     (case Approve (sy_crypto sy) (sy_urls sy) (sy_oauth sy) f now draw read requestID userID d of (x, d') \<Rightarrow> (\<not> isl x, d'))"
| "system_step sy (Do_Exchange draw f fd e now r) d =
     (case Exchange (sy_crypto sy) (sy_codecs sy) (sy_oauth sy) draw f fd e now r d of (x, d') \<Rightarrow> (\<not> isl x, d'))"
| "system_step sy (Do_Start e b) d =
     (case Start (sy_crypto sy) (sy_codecs sy) (oa_sessions (sy_oauth sy)) e b d of (x, d') \<Rightarrow> (\<not> isl x, d'))"
| "system_step sy (Do_Refresh e token) d =
     (case Refresh (sy_crypto sy) (sy_codecs sy) (oa_sessions (sy_oauth sy)) e token d of (x, d') \<Rightarrow> (\<not> isl x, d'))"
| "system_step sy (Do_Logout e token) d =
     (case Revoke_session (sy_crypto sy) (oa_sessions (sy_oauth sy)) e token d of (x, d') \<Rightarrow> (x = None, d'))"
| "system_step sy (Do_Authorize draw f now c) d =
     (case service_Authorize (oa_devices (sy_oauth sy)) draw f now c d of (x, d') \<Rightarrow> (\<not> isl x, d'))"
| "system_step sy (Do_Revoke draw f now userID deviceID) d =
     (case service_Revoke draw f now userID deviceID d of (x, d') \<Rightarrow> (x = None, d'))"
| "system_step sy (Do_SelfRevoke draw f now c) d =
     (case SelfRevoke (sy_crypto sy) draw f now c d of (x, d') \<Rightarrow> (x = None, d'))"

definition account_keys :: "user_row list \<Rightarrow> space_row list \<Rightarrow> bool" where
  "account_keys us ps \<longleftrightarrow> distinct (map u_id us) \<and> distinct (map ps_id ps) \<and> distinct (map ps_owner_user_id ps)"

text \<open>The other components: accounts and spaces, and the rows that refer to devices, change in any
  way that keeps the keys.\<close>

inductive reachable :: "system \<Rightarrow> db \<Rightarrow> bool" for sy where
  start: "reachable sy empty_db"
| call: "reachable sy d \<Longrightarrow> system_step sy op d = (ok, d') \<Longrightarrow> reachable sy d'"
| accounts: "reachable sy d \<Longrightarrow> account_keys us ps \<Longrightarrow> reachable sy (d\<lparr>users := us, personal_spaces := ps\<rparr>)"
| references: "reachable sy d \<Longrightarrow> reachable sy (d\<lparr>installations := ins, agent_definitions := ds, agent_versions := vs,
     backup_devices := bd, encrypted_profile_backups := eb, encrypted_backup_chunks := ek,
     encrypted_backup_key_envelopes := ee, encrypted_backup_operations := eo, desktop_control_commands := dc, desktop_control_instances := di\<rparr>)"

section \<open>The invariant\<close>

text \<open>A session that is not revoked is on a device of its own user that is not revoked.\<close>

definition session_owned :: "db \<Rightarrow> session_row \<Rightarrow> bool" where
  "session_owned d s \<longleftrightarrow> (s_revoked_at s = None \<longrightarrow>
     (\<exists>v\<in>set (devices d). d_id v = s_device_id s \<and> d_user_id v = s_user_id s \<and> d_status v \<noteq> ''revoked''))"

definition system_ok :: "int \<Rightarrow> db \<Rightarrow> bool" where
  "system_ok limit d \<longleftrightarrow> db_keys d \<and> within_limit limit d \<and> (\<forall>s\<in>set (sessions d). session_owned d s)"

text \<open>A change keeps it if every live session was there, live and on the same device and user, or is
  new on an owned device, and every device that still has a live session keeps its owner.\<close>

lemma system_okI:
  assumes "system_ok limit d" "db_keys d'" "within_limit limit d'"
    and "\<And>s. s \<in> set (sessions d') \<Longrightarrow> s_revoked_at s = None \<Longrightarrow>
      (\<exists>r\<in>set (sessions d). s_revoked_at r = None \<and> s_device_id r = s_device_id s \<and> s_user_id r = s_user_id s)
      \<or> session_owned d s"
    and "\<And>s v. v \<in> set (devices d) \<Longrightarrow> d_status v \<noteq> ''revoked'' \<Longrightarrow> s \<in> set (sessions d') \<Longrightarrow>
      s_revoked_at s = None \<Longrightarrow> s_device_id s = d_id v \<Longrightarrow>
      \<exists>v'\<in>set (devices d'). d_id v' = d_id v \<and> d_user_id v' = d_user_id v \<and> d_status v' \<noteq> ''revoked''"
  shows "system_ok limit d'"
proof -
  have "session_owned d' s" if s: "s \<in> set (sessions d')" for s
  proof (cases "s_revoked_at s")
    case None
    have "session_owned d s" using assms(4) [OF s None] assms(1) None
      unfolding system_ok_def session_owned_def by metis
    then obtain v where v: "v \<in> set (devices d)" "d_id v = s_device_id s" "d_user_id v = s_user_id s"
      "d_status v \<noteq> ''revoked''" using None by (auto simp: session_owned_def)
    from assms(5) [OF v(1,4) s None] v show ?thesis by (auto simp: session_owned_def)
  qed (simp add: session_owned_def)
  with assms(2,3) show ?thesis by (simp add: system_ok_def)
qed

lemma system_ok_sessions:
  assumes "system_ok limit d" "devices d' = devices d" "db_keys d'"
    and "\<And>s. s \<in> set (sessions d') \<Longrightarrow> s_revoked_at s = None \<Longrightarrow>
      (\<exists>r\<in>set (sessions d). s_revoked_at r = None \<and> s_device_id r = s_device_id s \<and> s_user_id r = s_user_id s)
      \<or> session_owned d s"
  shows "system_ok limit d'"
proof (rule system_okI [OF assms(1,3) _ assms(4)])
  show "within_limit limit d'" using assms(1,2) by (simp add: system_ok_def within_limit_def active_count_def)
qed (use assms(2) in auto)

lemma system_ok_frame:
  assumes "system_ok limit d" "devices d' = devices d" "sessions d' = sessions d" "db_keys d'"
  shows "system_ok limit d'"
  using assms by (intro system_ok_sessions [OF assms(1,2,4)]) auto

section \<open>Every call keeps it\<close>

lemma Begin_ok:
  assumes "system_ok limit d" "Begin cr lib s fails now draw read r d = (res, d')"
  shows "system_ok limit d'"
  using assms(2)
proof (cases rule: Begin_cases)
  case (saved nonce ct rid)
  have "db_keys d'" using insert_oauth_request_keys [OF _ saved(5)] assms(1) by (simp add: system_ok_def)
  with insert_oauth_request_Some(1) [OF saved(5)] show ?thesis by (intro system_ok_frame [OF assms(1)]) simp_all
qed (use assms(1) in simp)

lemma oauth_update_keys:
  assumes "\<And>q. o_ID (g q) = o_ID q"
  shows "db_keys (d\<lparr>oauth_requests := update_where P g (oauth_requests d)\<rparr>) = db_keys d"
  using map_update_where [of P o_ID g "oauth_requests d"] assms by (simp add: db_keys_def)

lemma Approve_ok:
  assumes "system_ok limit d" "Approve cr lib s f now draw read requestID userID d = (res, d')"
  shows "system_ok limit d'"
  using assms(2)
proof (cases rule: Approve_cases)
  case (granted codeID secret r)
  from granted(3) show ?thesis
  proof (cases rule: Approve_record_cases)
    case (granted r' d1)
    have "db_keys d1" unfolding granted(8)
      using assms(1) by (subst oauth_update_keys) (simp_all add: approved_def system_ok_def)
    then have "db_keys d'" by (rule insert_code_keys [OF _ granted(9)])
    with insert_code_Some(1) [OF granted(9)] granted(8) show ?thesis by (intro system_ok_frame [OF assms(1)]) simp_all
  qed simp
qed (use assms(1) in simp)

lemma insert_session_ok:
  assumes "system_ok limit d" "insert_session r d = Some d'" "session_owned d r"
  shows "system_ok limit d'"
  using assms(1)
proof (rule system_ok_sessions)
  show "db_keys d'" using insert_session_keys [OF _ assms(2)] assms(1) by (simp add: system_ok_def)
qed (use insert_session_Some(1) [OF assms(2)] assms(3) in auto)

lemma update_sessions_ok:
  assumes "system_ok limit d"
    and "\<And>r. s_id (g r) = s_id r \<and> s_refresh_token_hash (g r) = s_refresh_token_hash r \<and> s_device_id (g r) = s_device_id r
      \<and> s_user_id (g r) = s_user_id r \<and> (s_revoked_at (g r) = None \<longrightarrow> s_revoked_at r = None)"
  shows "system_ok limit (d\<lparr>sessions := update_where P g (sessions d)\<rparr>)"
  using assms(1)
proof (rule system_ok_sessions)
  show "db_keys (d\<lparr>sessions := update_where P g (sessions d)\<rparr>)"
    using assms by (subst sessions_update_keys) (simp_all add: system_ok_def)
  fix s assume "s \<in> set (sessions (d\<lparr>sessions := update_where P g (sessions d)\<rparr>))" "s_revoked_at s = None"
  moreover then obtain r where "r \<in> set (sessions d)" "s = (if P r then g r else r)"
    by (auto simp: set_update_where)
  ultimately show "(\<exists>r\<in>set (sessions d). s_revoked_at r = None \<and> s_device_id r = s_device_id s \<and> s_user_id r = s_user_id s)
      \<or> session_owned d s"
    using assms(2) [of r] by (intro disjI1 bexI [of _ r]) (auto split: if_splits)
qed simp

lemma family_ok:
  assumes "system_ok limit d"
  shows "system_ok limit (replay_family s now d)" "system_ok limit (revoke_family fam reason now d)"
  unfolding family_defs by (intro update_sessions_ok [OF assms], simp)+

lemma issueTokenSet_ok:
  assumes "system_ok limit d" "issueTokenSet cr js s e f rof rot tok ex d = (res, d')"
  shows "system_ok limit d'"
proof (cases res)
  case (Inl err)
  with issueTokenSet_Inl assms(2) have "d' = (if rof then snd (RevokeFamily (f 1) (ro_FamilyID rot)
      ''token_issuance_failed'' (se_revoke_now e) d) else d)" by blast
  with assms(1) family_ok show ?thesis by (auto simp: RevokeFamily_def)
next
  case (Inr ts)
  note i = issueTokenSet_Inr [OF assms(2) [unfolded Inr]]
  show ?thesis by (rule system_ok_frame [OF assms(1) i(3,1)]) (use i(10) assms(1) in \<open>simp add: system_ok_def\<close>)
qed

lemma start_with_ok:
  assumes "system_ok limit d" "start_with rof cr js s e b d = (res, d')"
  shows "system_ok limit d'"
  using assms(2)
proof (cases rule: start_with_cases)
  case (created secret rec rot d1)
  have "session_owned d (new_session rec)"
    by (rule binding_activeE [OF created(5)])
      (use created(2) in \<open>auto simp: session_owned_def new_session_def intro!: bexI\<close>)
  with insert_session_ok [OF assms(1) created(4)] show ?thesis by (blast intro: issueTokenSet_ok [OF _ created(7)])
qed (use assms(1) in simp)

lemma Rotate_ok:
  assumes "system_ok limit d" "Rotate f hash n now d = (res, d')"
  shows "system_ok limit d'"
  using assms(2)
proof (cases rule: Rotate_cases)
  case (rotated s u v p d1)
  have "session_owned d s" using rotate_join_Some(1) [OF rotated(1)] assms(1) by (simp add: system_ok_def)
  then have "session_owned d (successor_session s n)"
    using rotated(3) by (simp add: session_owned_def successor_session_def)
  then have "system_ok limit d1" by (rule insert_session_ok [OF assms(1) rotated(7)])
  then show ?thesis unfolding rotated(8) by (rule update_sessions_ok) simp
qed (use assms(1) family_ok in auto)

lemma Refresh_cases:
  assumes "Refresh cr js s e token d = (res, d')"
  obtains (refused) err where "res = Inl err" "d' = d"
  | (rotated) n secret rot where "DecodeCanonicalBase64URL token = Some secret"
      "Rotate (se_fails e) (refreshHash cr s secret) n (se_now e) d = (Inl rot, d')" "res = Inl rot"
  | (issued) n secret rot tok d1 where "DecodeCanonicalBase64URL token = Some secret"
      "Rotate (se_fails e) (refreshHash cr s secret) n (se_now e) d = (Inr rot, d1)"
      "issueTokenSet cr js s e (later 5 (se_fails e)) True rot tok (se_now e + refreshLifetime) d1 = (res, d')"
  using assms
  by (auto simp: Refresh_def Let_def split: option.splits if_splits sum.splits prod.splits intro: that)

lemma Refresh_ok:
  assumes "system_ok limit d" "Refresh cr js s e token d = (res, d')"
  shows "system_ok limit d'"
  using assms(2)
proof (cases rule: Refresh_cases)
  case (issued n secret rot tok d1)
  show ?thesis by (rule issueTokenSet_ok [OF Rotate_ok [OF assms(1) issued(2)] issued(3)])
qed (use assms(1) Rotate_ok in blast)+

lemma Revoke_session_ok:
  assumes "system_ok limit d" "Revoke_session cr s e token d = (res, d')"
  shows "system_ok limit d'"
  using assms family_ok
  by (auto simp: Revoke_session_def RevokeByToken_def split: option.splits if_splits)

lemma AuthorizeInTx_ok:
  assumes "system_ok limit d" "AuthorizeInTx f r limit d = (res, d')"
  shows "system_ok limit d'"
proof (rule system_okI [OF assms(1)])
  have d: "db_keys d" "within_limit limit d" using assms(1) by (simp_all add: system_ok_def)
  show "db_keys d'" by (rule AuthorizeInTx_keys [OF d(1) assms(2)])
  show "within_limit limit d'" by (rule AuthorizeInTx_limit [OF d assms(2)])
  fix s v assume v: "v \<in> set (devices d)" "d_status v \<noteq> ''revoked''" "s_device_id s = d_id v"
  from assms(2) show "\<exists>v'\<in>set (devices d'). d_id v' = d_id v \<and> d_user_id v' = d_user_id v \<and> d_status v' \<noteq> ''revoked''"
  proof (cases rule: AuthorizeInTx_cases)
    case (again w d1 d2 g)
    obtain row where "d' = d2\<lparr>audit_events := audit_events d2 @ [row]\<rparr>"
      using insertDeviceAudit_Some [OF again(8)] by blast
    then have dev: "devices d' = update_where (\<lambda>x. d_id x = d_id w) (reauthorized r) (devices d)"
      using again(7) release_former_owner_Inr(1) [OF again(6)] by simp
    have "d_id v = d_id w \<Longrightarrow> v = w" using d(1) v(1) again(1)
      by (intro distinct_key_eq [of d_id "devices d"]) (simp_all add: db_keys_def)
    with again(4) v(2) show ?thesis unfolding dev set_update_where using v(1)
      by (intro bexI [of _ "if d_id v = d_id w then reauthorized r v else v"]) (auto simp: reauthorized_def)
  next
    case (fresh d1)
    obtain row where "d' = d1\<lparr>audit_events := audit_events d1 @ [row]\<rparr>"
      using insertDeviceAudit_Some [OF fresh(4)] by blast
    then have "devices d' = devices d @ [new_device r]" using insert_device_Inr(1) [OF fresh(3)] by simp
    with v show ?thesis by auto
  qed (use v in auto)
qed (use AuthorizeInTx_frame(5) [OF assms(2)] in auto)

lemma Authorize_ok:
  assumes "system_ok (ds_activeLimit s) d" "service_Authorize s draw f now c d = (res, d')"
  shows "system_ok (ds_activeLimit s) d'"
proof (cases "authorizationRecord draw now c")
  case (Inr r)
  with assms(2) have "Authorize f r (ds_activeLimit s) d = (res, d')" by (simp add: service_Authorize_def)
  then show ?thesis by (cases rule: Authorize_cases) (use assms(1) AuthorizeInTx_ok in auto)
qed (use assms in \<open>simp add: service_Authorize_def\<close>)

lemma consume_code_ok: "system_ok limit d \<Longrightarrow> system_ok limit (consume_code c r now d)"
  by (rule system_ok_frame) (simp_all add: consumed_rows consume_code_keys system_ok_def)

lemma Exchange_ok:
  assumes "system_ok (ds_activeLimit (oa_devices s)) d" "Exchange cr js s draw f fd e now r d = (res, d')"
  shows "system_ok (ds_activeLimit (oa_devices s)) d'"
  using assms(2)
proof (cases rule: Exchange_cases)
  case (exchanged secret tokens c grant d1)
  obtain ar dev da b where "AuthorizeInTx fd ar (ds_activeLimit (oa_devices s)) d = (Inr dev, da)"
    "start_with False cr js (oa_sessions s) e b da = (Inr tokens, d1)"
    using exchanged(8) unfolding StartInTx_def [symmetric] by (rule finalize_Inr) blast
  with AuthorizeInTx_ok [OF assms(1)] start_with_ok have "system_ok (ds_activeLimit (oa_devices s)) d1" by blast
  then show ?thesis unfolding exchanged(10) by (rule consume_code_ok)
qed (use assms(1) in simp)

lemma filter_update_le:
  "(\<And>r. P r \<Longrightarrow> \<not> Q (g r)) \<Longrightarrow> length (filter Q (update_where P g t)) \<le> length (filter Q t)"
  by (induction t) (auto intro: le_SucI)

text \<open>A revocation: the device of one identifier is marked, and no session on it stays live.\<close>

lemma revocation_ok:
  assumes "system_ok limit d" "db_keys d'"
    and "devices d' = update_where P (mark_revoked at) (devices d)" "\<And>v. P v \<Longrightarrow> d_id v = i"
    and "sessions d' = update_where (\<lambda>s. s_device_id s = i \<and> A s) g (sessions d)"
    and "\<And>s. s_device_id (g s) = s_device_id s \<and> s_user_id (g s) = s_user_id s \<and> s_revoked_at (g s) \<noteq> None"
      "\<And>s. \<not> A s \<Longrightarrow> s_revoked_at s \<noteq> None"
  shows "system_ok limit d'"
proof -
  have live: "s \<in> set (sessions d) \<and> s_device_id s \<noteq> i" if s: "s \<in> set (sessions d')" "s_revoked_at s = None" for s
  proof -
    obtain r where "r \<in> set (sessions d)" "s = (if s_device_id r = i \<and> A r then g r else r)"
      using s(1) unfolding assms(5) set_update_where by blast
    with assms(6) [of r] assms(7) [of r] s(2) show ?thesis by (auto split: if_splits)
  qed
  show ?thesis
  proof (rule system_okI [OF assms(1,2)])
    have "length (filter (\<lambda>v. d_user_id v = u \<and> d_status v = ''active'') (devices d'))
        \<le> length (filter (\<lambda>v. d_user_id v = u \<and> d_status v = ''active'') (devices d))" for u
      unfolding assms(3) by (rule filter_update_le) (simp add: mark_revoked_def)
    moreover have "within_limit limit d" using assms(1) by (simp add: system_ok_def)
    ultimately show "within_limit limit d'" unfolding within_limit_def active_count_def
      by (meson of_nat_mono order_trans)
    fix s assume s: "s \<in> set (sessions d')" "s_revoked_at s = None"
    show "(\<exists>r\<in>set (sessions d). s_revoked_at r = None \<and> s_device_id r = s_device_id s \<and> s_user_id r = s_user_id s)
        \<or> session_owned d s" using live [OF s] s(2) by blast
    fix v assume v: "v \<in> set (devices d)" "d_status v \<noteq> ''revoked''" "s_device_id s = d_id v"
    have "\<not> P v" using live [OF s] v(3) assms(4) by metis
    with v show "\<exists>v'\<in>set (devices d'). d_id v' = d_id v \<and> d_user_id v' = d_user_id v \<and> d_status v' \<noteq> ''revoked''"
      unfolding assms(3) set_update_where by (intro bexI [of _ v]) auto
  qed
qed

lemma revoked_tables_keys:
  assumes "db_keys d" "a_id row \<notin> a_id ` set (audit_events d)"
    and "\<And>s. s_id (g s) = s_id s \<and> s_refresh_token_hash (g s) = s_refresh_token_hash s" "\<And>i. i_jti (h i) = i_jti i"
    and "devices d' = update_where P (mark_revoked at) (devices d)" "sessions d' = update_where Q g (sessions d)"
      "issuances d' = update_where R h (issuances d)" "audit_events d' = audit_events d @ [row]"
      "users d' = users d" "personal_spaces d' = personal_spaces d" "oauth_requests d' = oauth_requests d"
      "authorization_codes d' = authorization_codes d"
  shows "db_keys d'"
proof -
  have "map d_id (devices d') = map d_id (devices d)" "map d_installation_id (devices d') = map d_installation_id (devices d)"
    "map d_public_key (devices d') = map d_public_key (devices d)" "map s_id (sessions d') = map s_id (sessions d)"
    "map s_refresh_token_hash (sessions d') = map s_refresh_token_hash (sessions d)"
    "map i_jti (issuances d') = map i_jti (issuances d)"
    unfolding assms(5-7) using assms(3,4) by (simp_all add: map_update_where mark_revoked_def)
  with assms(1,2,8-12) show ?thesis by (simp add: db_keys_def)
qed

lemma service_Revoke_ok:
  assumes "system_ok limit d" "service_Revoke draw f now userID deviceID d = (res, d')"
  shows "system_ok limit d'"
proof (cases "d' = d")
  case False
  then obtain auditID where "Revoke_device f userID deviceID auditID now d = (res, d')"
    using assms(2) by (auto simp: service_Revoke_def split: if_splits sum.splits)
  then show ?thesis
  proof (cases rule: Revoke_device_cases)
    case (revoked v row)
    have keys: "db_keys d'"
      by (rule revoked_tables_keys [OF _ revoked(7)]) (use assms(1) revoked(6) in \<open>simp_all add: system_ok_def\<close>)
    show ?thesis
      by (rule revocation_ok [OF assms(1) keys, where i = deviceID and at = now
            and P = "\<lambda>v. d_id v = deviceID \<and> d_user_id v = userID \<and> d_status v \<noteq> ''revoked''"
            and A = "\<lambda>s. s_revoked_at s = None"
            and g = "\<lambda>s. s\<lparr>s_revoked_at := Some now, s_revoked_reason := Some ''device_revoked''\<rparr>"])
        (use revoked(6) in simp_all)
  qed (use assms(1) in simp)
qed (use assms(1) in simp)

lemma SelfRevoke_ok:
  assumes "system_ok limit d" "SelfRevoke cr draw f now c d = (res, d')"
  shows "system_ok limit d'"
  using assms(2)
proof (cases rule: SelfRevoke_cases)
  case (checked v audit)
  from checked(7) show ?thesis
  proof (cases rule: SelfRevoke_record_cases)
    case (revoked w row)
    note d' = revoked(8) [simplified]
    have keys: "db_keys d'"
      by (rule revoked_tables_keys [OF _ revoked(9)]) (use assms(1) d' in \<open>simp_all add: system_ok_def\<close>)
    show ?thesis
      by (rule revocation_ok [OF assms(1) keys, where i = "d_id v" and A = "\<lambda>_. True" and at = now
            and P = "\<lambda>x. d_id x = d_id v" and g = "\<lambda>s. s\<lparr>s_revoked_at := coalesce (s_revoked_at s) now,
              s_revoked_reason := coalesce (s_revoked_reason s) ''device_self_revoked''\<rparr>"]) (use d' in simp_all)
  qed (use assms(1) in simp)
qed (use assms(1) in simp)

lemma system_step_ok:
  assumes "system_ok (device_limit sy) d" "system_step sy op d = (ok, d')"
  shows "system_ok (device_limit sy) d'"
  using assms
  by (cases op) (auto split: prod.splits simp: Start_def dest: Begin_ok Approve_ok Exchange_ok start_with_ok Refresh_ok
      Revoke_session_ok Authorize_ok service_Revoke_ok SelfRevoke_ok)

lemma reachable_ok:
  assumes "reachable sy d" "0 \<le> device_limit sy"
  shows "system_ok (device_limit sy) d"
  using assms(1)
proof induction
  case start
  then show ?case using assms(2)
    by (simp add: system_ok_def db_keys_def within_limit_def active_count_def empty_db_def)
next
  case (call d op ok d')
  then show ?case using system_step_ok by blast
next
  case (accounts d us ps)
  then show ?case by (intro system_ok_frame [OF accounts(3)])
      (auto simp: system_ok_def db_keys_def account_keys_def)
next
  case (references d br bs dc di)
  then show ?case by (intro system_ok_frame [OF references(2)]) (auto simp: system_ok_def db_keys_def)
qed

text \<open>
  In every state the services can reach together, whatever the interleaving, the faults, the
  clocks and the random draws, the keys of the tables are unique, no account has more active devices
  than the configured limit, and every session that is not revoked is on a device that belongs to
  the session's own user and is not revoked.
\<close>

theorem system_invariant:
  assumes "reachable sy d" "0 \<le> device_limit sy"
  shows "db_keys d \<and> (\<forall>u. int (active_count u d) \<le> device_limit sy)
    \<and> (\<forall>s\<in>set (sessions d). s_revoked_at s = None \<longrightarrow> (\<exists>v\<in>set (devices d).
         d_id v = s_device_id s \<and> d_user_id v = s_user_id s \<and> d_status v \<noteq> ''revoked''))"
  using reachable_ok [OF assms] by (simp add: system_ok_def within_limit_def session_owned_def)

lemma Rotate_owned:
  assumes "system_ok limit d" "Rotate f hash n now d = (Inr rot, d')"
  shows "\<exists>v\<in>set (devices d). d_id v = b_DeviceID (ro_Binding rot) \<and> d_user_id v = b_UserID (ro_Binding rot)
    \<and> d_installation_id v = b_InstallationID (ro_Binding rot) \<and> d_status v = ''active''"
  using assms(2)
proof (cases rule: Rotate_cases)
  case (rotated s u v p d1)
  note j = rotate_join_Some [OF rotated(1)]
  obtain w where w: "w \<in> set (devices d)" "d_id w = s_device_id s" "d_user_id w = s_user_id s"
    using assms(1) j(1) rotated(3) by (auto simp: system_ok_def session_owned_def)
  have "w = v" using assms(1) w(1,2) j(5,6)
    by (intro distinct_key_eq [of d_id "devices d"]) (simp_all add: system_ok_def db_keys_def)
  with w(3) j(5,6) rotated(6,9) show ?thesis by auto
qed simp_all

text \<open>
  A refresh never crosses accounts: the statement that exchanges a refresh token does not check
  that the session's device still belongs to the session's user, and it need not, for in every
  reachable state a successful refresh returns tokens for an active device of the very user the
  tokens are for, although a device may change its owner after a revocation.
\<close>

theorem refresh_stays_with_owner:
  assumes "reachable sy d" "0 \<le> device_limit sy"
    and "Refresh (sy_crypto sy) (sy_codecs sy) (oa_sessions (sy_oauth sy)) e token d = (Inr ts, d')"
  shows "\<exists>v\<in>set (devices d'). d_id v = ts_DeviceID ts \<and> d_user_id v = ts_UserID ts \<and> d_status v = ''active''"
  using assms(3)
proof (cases rule: Refresh_cases)
  case (issued n secret rot tok d1)
  have "devices d1 = devices d"
    using issued(2) by (cases rule: Rotate_cases) (auto dest: insert_session_Some(1))
  then have "devices d' = devices d" using issueTokenSet_frame(3) [OF issued(3)] by simp
  with Rotate_owned [OF reachable_ok [OF assms(1,2)] issued(2)] issueTokenSet_Inr(7,8) [OF issued(3)]
  show ?thesis by auto
qed simp_all

section \<open>Authorization codes are exchanged once\<close>

definition unused_code :: "bytes \<Rightarrow> db \<Rightarrow> nat" where
  "unused_code h d = (if h \<in> ac_code_hash ` set (authorization_codes d)
     then sum_list (map (\<lambda>c. if ac_code_hash c = h \<and> ac_consumed_at c = None then 1 else 0) (authorization_codes d))
     else 1)"

fun redeems :: "system \<Rightarrow> bytes \<Rightarrow> system_op \<Rightarrow> bool" where
  "redeems sy h (Do_Exchange draw f fd e now r) =
     (map_option (authorizationCodeHash (sy_crypto sy)) (DecodeCanonicalBase64URL (er_AuthorizationCode r)) = Some h)"
| "redeems sy h _ = False"

lemma unused_code_le_1: "db_keys d \<Longrightarrow> unused_code h d \<le> 1"
  using sum_key_le_1 [of ac_code_hash "authorization_codes d" h "\<lambda>c. ac_consumed_at c = None"]
  by (simp add: unused_code_def db_keys_def)

lemma unused_code_cong: "authorization_codes d' = authorization_codes d \<Longrightarrow> unused_code h d' = unused_code h d"
  by (simp add: unused_code_def)

lemma unused_code_issue:
  assumes "authorization_codes d' = authorization_codes d @ [c]" "ac_code_hash c \<notin> ac_code_hash ` set (authorization_codes d)"
  shows "unused_code h d' \<le> unused_code h d"
proof (cases "h \<in> ac_code_hash ` set (authorization_codes d)")
  case True
  then have "ac_code_hash c \<noteq> h" using assms(2) by blast
  with True assms(1) show ?thesis by (simp add: unused_code_def)
next
  case False
  then have "map (\<lambda>c. if ac_code_hash c = h \<and> ac_consumed_at c = None then 1 else (0::nat)) (authorization_codes d)
      = map (\<lambda>c. 0) (authorization_codes d)" by (intro map_cong) auto
  then have none: "sum_list (map (\<lambda>c. if ac_code_hash c = h \<and> ac_consumed_at c = None then 1 else (0::nat))
      (authorization_codes d)) = 0" by (simp only:) simp
  show ?thesis unfolding unused_code_def assms(1) map_append sum_list_append none using False by simp
qed

lemma Exchange_unused:
  assumes "db_keys d" "Exchange cr js s draw f fd e now r d = (res, d')"
  shows "unused_code h d' \<le> unused_code h d"
    and "\<not> isl res \<Longrightarrow> map_option (authorizationCodeHash cr) (DecodeCanonicalBase64URL (er_AuthorizationCode r)) = Some h \<Longrightarrow>
      unused_code h d' < unused_code h d"
proof -
  have "unused_code h d' \<le> unused_code h d \<and> (\<not> isl res
      \<and> map_option (authorizationCodeHash cr) (DecodeCanonicalBase64URL (er_AuthorizationCode r)) = Some h
      \<longrightarrow> unused_code h d' < unused_code h d)"
    using assms(2)
  proof (cases rule: Exchange_cases)
    case (exchanged secret tokens c grant d1)
    have c: "c \<in> set (authorization_codes d)" "ac_code_hash c = authorizationCodeHash cr secret"
      using exchange_join_Some [OF exchanged(3)] by metis+
    let ?g = "\<lambda>c. if ac_code_hash c = h \<and> ac_consumed_at c = None then 1 else (0::nat)"
    let ?up = "\<lambda>x. x\<lparr>ac_consumed_at := Some now\<rparr>"
    have codes: "authorization_codes d' = update_where (\<lambda>x. ac_id x = ac_id c) ?up (authorization_codes d)"
      unfolding exchanged(10) consumed_rows(2) finalize_frame(2) [OF exchanged(8)] ..
    have "map ac_code_hash (authorization_codes d') = map ac_code_hash (authorization_codes d)"
      unfolding codes by (rule map_update_where) simp
    then have known: "ac_code_hash ` set (authorization_codes d') = ac_code_hash ` set (authorization_codes d)"
      by (metis set_map)
    have "sum_list (map ?g (authorization_codes d')) \<le> sum_list (map ?g (authorization_codes d))"
      unfolding codes by (rule sum_update_where_le) simp
    moreover have "Suc (sum_list (map ?g (authorization_codes d'))) \<le> sum_list (map ?g (authorization_codes d))"
      if "ac_code_hash c = h"
      unfolding codes by (rule sum_update_where_less [of _ _ _ _ c]) (use c that exchanged(4) in auto)
    ultimately show ?thesis unfolding unused_code_def known using imageI [OF c(1), of ac_code_hash] c(2) exchanged(1) by auto
  qed simp
  then show "unused_code h d' \<le> unused_code h d"
    "\<not> isl res \<Longrightarrow> map_option (authorizationCodeHash cr) (DecodeCanonicalBase64URL (er_AuthorizationCode r)) = Some h \<Longrightarrow>
      unused_code h d' < unused_code h d" by blast+
qed

lemma Rotate_codes: "Rotate f hash n now d = (res, d') \<Longrightarrow> authorization_codes d' = authorization_codes d"
  by (erule Rotate_cases) (auto simp: family_defs dest: insert_session_Some(1))

lemma Refresh_codes:
  assumes "Refresh cr js s e token d = (res, d')"
  shows "authorization_codes d' = authorization_codes d"
  using assms
proof (cases rule: Refresh_cases)
  case (issued n secret rot tok d1)
  with Rotate_codes [OF issued(2)] issueTokenSet_frame(2) [OF issued(3)] show ?thesis by simp
qed (use Rotate_codes in auto)

lemma Authorize_codes:
  assumes "service_Authorize s draw f now c d = (res, d')"
  shows "authorization_codes d' = authorization_codes d"
proof (cases "d' = d")
  case False
  then obtain r where "Authorize f r (ds_activeLimit s) d = (res, d')"
    using assms by (auto simp: service_Authorize_def split: sum.splits)
  then show ?thesis by (cases rule: Authorize_cases) (use False AuthorizeInTx_frame(2) in auto)
qed simp

lemma Revoke_codes:
  "service_Revoke draw f now userID deviceID d = (res, d') \<Longrightarrow> authorization_codes d' = authorization_codes d"
  by (auto simp: service_Revoke_def split: if_splits sum.splits elim!: Revoke_device_cases)

lemma SelfRevoke_codes:
  assumes "SelfRevoke cr draw f now c d = (res, d')"
  shows "authorization_codes d' = authorization_codes d"
  using assms
proof (cases rule: SelfRevoke_cases)
  case (checked v audit)
  from checked(7) show ?thesis by (cases rule: SelfRevoke_record_cases) simp_all
qed simp

lemma Approve_unused:
  assumes "Approve cr lib s f now draw read requestID userID d = (res, d')"
  shows "unused_code h d' \<le> unused_code h d"
  using assms
proof (cases rule: Approve_cases)
  case (granted codeID secret r)
  from granted(3) show ?thesis
  proof (cases rule: Approve_record_cases)
    case (granted r' d1)
    note ins = insert_code_Some [OF granted(9)]
    show ?thesis using ins(1,4) granted(8) by (intro unused_code_issue) simp_all
  qed simp
qed simp

lemma step_unused:
  assumes "system_ok (device_limit sy) d" "system_step sy op d = (ok, d')"
  shows "unused_code h d' \<le> unused_code h d \<and> (redeems sy h op \<and> ok \<longrightarrow> unused_code h d' < unused_code h d)"
proof (cases "\<exists>draw f fd e now r. op = Do_Exchange draw f fd e now r")
  case True
  then obtain draw f fd e now r where op: "op = Do_Exchange draw f fd e now r" by blast
  obtain res where "Exchange (sy_crypto sy) (sy_codecs sy) (sy_oauth sy) draw f fd e now r d = (res, d')" "ok = (\<not> isl res)"
    using assms(2) by (auto simp: op split: prod.splits)
  with Exchange_unused [of d] assms(1) show ?thesis by (auto simp: op system_ok_def)
next
  case False
  have "unused_code h d' \<le> unused_code h d"
  proof (cases op)
    case (Do_Begin fails now draw read r)
    then show ?thesis using assms(2)
      by (auto split: prod.splits elim!: Begin_cases intro!: eq_imp_le unused_code_cong dest!: insert_oauth_request_Some(1))
  next
    case (Do_Approve f now draw read requestID userID)
    then show ?thesis using assms(2) by (auto split: prod.splits dest: Approve_unused)
  next
    case (Do_Start e b)
    then show ?thesis using assms(2)
      by (auto split: prod.splits simp: Start_def intro!: eq_imp_le unused_code_cong dest: start_with_frame)
  next
    case (Do_Logout e token)
    then show ?thesis using assms(2)
      by (auto split: prod.splits option.splits if_splits simp: Revoke_session_def RevokeByToken_def revoke_family_def
          intro!: eq_imp_le unused_code_cong)
  qed (use False assms(2) in \<open>auto split: prod.splits dest: Refresh_codes Authorize_codes Revoke_codes
      SelfRevoke_codes intro!: eq_imp_le unused_code_cong\<close>)
  then show ?thesis using False by (cases op) auto
qed

interpretation code_use: budget "system_step sy" "system_ok (device_limit sy)" "\<lambda>op ok. redeems sy h op \<and> ok" "unused_code h"
  for sy h
  by unfold_locales (use system_step_ok step_unused in blast)+


section \<open>Examples\<close>

definition plain_json :: "(token_header, 'p) token_json" where
  "plain_json = \<lparr>marshal_header = (\<lambda>_. Some ''h''), marshal_payload = (\<lambda>_. Some ''p''),
     decode_header = (\<lambda>_. None), decode_payload = (\<lambda>_. None)\<rparr>"

definition sample_system :: system where
  "sample_system = \<lparr>sy_crypto = sample_crypto, sy_codecs = \<lparr>c_access = plain_json, c_offline = plain_json\<rparr>,
     sy_urls = sample_urls, sy_oauth = sample_oauth\<rparr>"

definition sample_command :: AuthorizeCommand where
  "sample_command = \<lparr>ac_UserID = 1, ac_InstallationID = 5, ac_PublicKey = replicate 32 (CHR ''k''),
     ac_DisplayName = ''mac'', ac_Platform = ''darwin'', ac_AppVersion = ''1.0.0''\<rparr>"

definition later_env :: session_env where
  "later_env = \<lparr>se_now = second, se_issue_now = second, se_revoke_now = second,
     se_uuid = (\<lambda>k. Some (if k = 0 then 20 else 21)), se_read = (\<lambda>n. Some (replicate n (CHR ''m''))), se_fails = no_fault\<rparr>"

text \<open>A device is authorized for a new account, and a session is started on it.\<close>

lemma sample_authorized:
  "\<exists>d. system_step sample_system (Do_Authorize (\<lambda>k. Some (if k = 0 then 3 else 31)) no_fault 0 sample_command)
       (empty_db\<lparr>users := users sample_db, personal_spaces := personal_spaces sample_db\<rparr>) = (True, d)
     \<and> users d = users sample_db \<and> devices d = devices sample_db
     \<and> personal_spaces d = personal_spaces sample_db \<and> sessions d = [] \<and> issuances d = []"
proof -
  have "cleanDisplayName ''mac'' = Some ''mac''"
    by (simp add: cleanDisplayName_def visible_version [THEN TrimSpace_visible] RuneCountInString_def runes_ascii
        visible_version [THEN ValidString_visible] pieces_ascii IsControl_def Let_def)
  then show ?thesis
    by (simp add: service_Authorize_def authorizationRecord_def validPlatform_def alphanumeric_def RandomUUID_def
        sample_system_def sample_oauth_def sample_command_def Authorize_def AuthorizeInTx_def lock_active_account_def
        findByInstallationForUpdate_def hasCapacity_def active_count_def insert_device_def new_device_def
        insertDeviceAudit_def insert_audit_def sample_db_def empty_db_def table_simps)
qed

lemma plain_issue:
  assumes "validBinding (ro_Binding rot)" "ro_SessionID rot \<noteq> Nil_uuid" "se_uuid e 2 = Some jti" "jti \<noteq> Nil_uuid" "jti \<notin> i_jti ` set (issuances d)"
    "\<not> f 0" "b_UserID (ro_Binding rot) \<in> u_id ` set (users d)" "b_DeviceID (ro_Binding rot) \<in> d_id ` set (devices d)"
    "b_PersonalSpaceID (ro_Binding rot) \<in> ps_id ` set (personal_spaces d)"
  shows "\<exists>ts d'. issueTokenSet sample_crypto (sy_codecs sample_system) sample_sessions e f rof rot tok ex d = (Inr ts, d')
    \<and> sessions d' = sessions d \<and> users d' = users d \<and> devices d' = devices d \<and> personal_spaces d' = personal_spaces d
    \<and> i_jti ` set (issuances d') = insert jti (i_jti ` set (issuances d))"
  using assms sample_entitlements_fields(1,2)
  by (auto simp: issueTokenSet_def access_Issue_def entitlement_issue_def sample_system_def plain_json_def RandomUUID_def
      validAccessBinding_def validBinding_def sample_sessions_def recordIssuance_def insert_issuance_def issuance_of_def
      exists_key_iff entitlementLifetime_def Let_def)

lemma sample_started:
  "\<exists>d. reachable sample_system d \<and> db_keys d \<and> users d = users sample_db \<and> devices d = devices sample_db
     \<and> personal_spaces d = personal_spaces sample_db \<and> sessions d = sessions started_db
     \<and> i_jti ` set (issuances d) = {9}"
proof -
  let ?d0 = "empty_db\<lparr>users := users sample_db, personal_spaces := personal_spaces sample_db\<rparr>"
  have "account_keys (users sample_db) (personal_spaces sample_db)" by (simp add: account_keys_def sample_db_def empty_db_def)
  then have "reachable sample_system ?d0" by (rule reachable.accounts [OF reachable.start])
  moreover obtain d1 where d1: "system_step sample_system (Do_Authorize (\<lambda>k. Some (if k = 0 then 3 else 31)) no_fault 0
      sample_command) ?d0 = (True, d1)" "users d1 = users sample_db" "devices d1 = devices sample_db"
    "personal_spaces d1 = personal_spaces sample_db" "sessions d1 = []" "issuances d1 = []"
    using sample_authorized by blast
  ultimately have r1: "reachable sample_system d1" by (blast intro: reachable.call)
  let ?r = "\<lparr>cr_SessionID = 2, cr_FamilyID = 6, cr_Binding = sample_device_binding,
        cr_RefreshTokenHash = refreshHash sample_crypto sample_sessions (replicate 32 (CHR ''n'')),
        cr_IssuedAt = 0, cr_ExpiresAt = refreshLifetime\<rparr>"
  let ?rot = "\<lparr>ro_SessionID = 2, ro_FamilyID = 6, ro_Binding = sample_device_binding\<rparr>"
  have p: "prepareStart sample_crypto sample_sessions sample_session_env sample_device_binding =
    Inr (?rot, encode_url (replicate 32 (CHR ''n'')), refreshLifetime, ?r)"
    by (simp add: prepareStart_def validBinding_def sample_device_binding_def sample_session_env_def
        RandomUUID_def newRefreshToken_def RandomBytes_def sample_read_def Let_def)
  have c: "createSession no_fault ?r d1 = (None, d1\<lparr>sessions := [new_session ?r]\<rparr>)"
    using d1(2-5) by (simp add: createSession_def validBinding_def sample_device_binding_def binding_active_def
        insert_session_def new_session_def sample_db_def empty_db_def table_simps refreshHash_def sample_crypto_correct refreshLifetime_def)
  have "\<exists>ts d2. issueTokenSet sample_crypto (sy_codecs sample_system) sample_sessions sample_session_env no_fault True
      ?rot (encode_url (replicate 32 (CHR ''n''))) refreshLifetime (d1\<lparr>sessions := [new_session ?r]\<rparr>) = (Inr ts, d2)
    \<and> sessions d2 = sessions (d1\<lparr>sessions := [new_session ?r]\<rparr>) \<and> users d2 = users (d1\<lparr>sessions := [new_session ?r]\<rparr>)
    \<and> devices d2 = devices (d1\<lparr>sessions := [new_session ?r]\<rparr>)
    \<and> personal_spaces d2 = personal_spaces (d1\<lparr>sessions := [new_session ?r]\<rparr>)
    \<and> i_jti ` set (issuances d2) = insert 9 (i_jti ` set (issuances (d1\<lparr>sessions := [new_session ?r]\<rparr>)))"
    by (rule plain_issue) (use d1(2-6) in \<open>simp_all add: validBinding_def sample_device_binding_def sample_session_env_def
        sample_db_def empty_db_def\<close>)
  then obtain ts d2 where i: "issueTokenSet sample_crypto (sy_codecs sample_system) sample_sessions sample_session_env
      no_fault True ?rot (encode_url (replicate 32 (CHR ''n''))) refreshLifetime (d1\<lparr>sessions := [new_session ?r]\<rparr>) = (Inr ts, d2)"
    and d2: "sessions d2 = [new_session ?r]" "users d2 = users d1" "devices d2 = devices d1"
      "personal_spaces d2 = personal_spaces d1" "i_jti ` set (issuances d2) = {9}" using d1(6) by auto
  have "system_step sample_system (Do_Start sample_session_env sample_device_binding) d1 = (True, d2)"
    using p c i by (simp add: Start_def start_with_def sample_system_def sample_oauth_def)
      (simp add: sample_session_env_def)
  then have "reachable sample_system d2" by (rule reachable.call [OF r1])
  moreover have "0 \<le> device_limit sample_system" by (simp add: sample_system_def sample_oauth_def)
  ultimately show ?thesis using d1 d2 reachable_ok [of sample_system d2] by (auto simp: started_db_def system_ok_def)
qed

lemma sample_limit_ok: "0 \<le> device_limit sample_system"
  by (simp add: sample_system_def sample_oauth_def)

theorem system_invariant_witness:
  "\<exists>d. reachable sample_system d \<and> length (sessions d) = 1
     \<and> (\<forall>s\<in>set (sessions d). \<exists>v\<in>set (devices d). d_id v = s_device_id s \<and> d_user_id v = s_user_id s)"
proof -
  obtain d where d: "reachable sample_system d" "sessions d = sessions started_db" using sample_started by blast
  then have "length (sessions d) = 1" "\<forall>s\<in>set (sessions d). s_revoked_at s = None"
    by (simp_all add: started_db_def new_session_def)
  with system_invariant [OF d(1) sample_limit_ok] d show ?thesis by blast
qed

lemma sample_refresh:
  assumes "users d = users sample_db" "devices d = devices sample_db" "personal_spaces d = personal_spaces sample_db"
    "sessions d = sessions started_db" "i_jti ` set (issuances d) = {9}"
  shows "\<exists>ts d'. Refresh sample_crypto (sy_codecs sample_system) sample_sessions later_env
     (encode_url (replicate 32 (CHR ''n''))) d = (Inr ts, d')"
proof -
  let ?h = "refreshHash sample_crypto sample_sessions (replicate 32 (CHR ''n''))"
  let ?h' = "refreshHash sample_crypto sample_sessions (replicate 32 (CHR ''m''))"
  let ?n = "\<lparr>sc_SessionID = 20, sc_RefreshTokenHash = ?h', sc_IssuedAt = second, sc_ExpiresAt = second + refreshLifetime\<rparr>"
  let ?rot = "\<lparr>ro_SessionID = 20, ro_FamilyID = 6, ro_Binding = sample_device_binding\<rparr>"
  have hash: "length ?h = 32" "length ?h' = 32" "?h \<noteq> ?h'"
    by (simp add: refreshHash_def sample_crypto_correct) (simp add: refreshHash_def sample_crypto_correct,
      simp add: refreshHash_def sample_crypto_def fit_def)
  obtain d1 where d1: "Rotate no_fault ?h ?n second d = (Inr ?rot, d1)" "users d1 = users d" "devices d1 = devices d"
    "personal_spaces d1 = personal_spaces d" "issuances d1 = issuances d"
    using assms(1-4) hash
    by (simp add: Rotate_def rotate_join_def sample_db_def empty_db_def started_db_def new_session_def sample_device_binding_def
        insert_session_def successor_session_def table_simps refreshLifetime_def)
  have "\<exists>ts d'. issueTokenSet sample_crypto (sy_codecs sample_system) sample_sessions later_env no_fault True ?rot
      (encode_url (replicate 32 (CHR ''m''))) (second + refreshLifetime) d1 = (Inr ts, d')
    \<and> sessions d' = sessions d1 \<and> users d' = users d1 \<and> devices d' = devices d1
    \<and> personal_spaces d' = personal_spaces d1 \<and> i_jti ` set (issuances d') = insert 21 (i_jti ` set (issuances d1))"
    by (rule plain_issue) (use d1 assms in \<open>simp_all add: validBinding_def sample_device_binding_def later_env_def
        sample_db_def empty_db_def\<close>)
  with d1(1) show ?thesis
    by (auto simp: Refresh_def b64url.dec_enc newRefreshToken_def RandomBytes_def RandomUUID_def later_env_def Let_def)
qed

theorem refresh_stays_with_owner_witness:
  "\<exists>d e token ts d'. Refresh sample_crypto (sy_codecs sample_system) sample_sessions e token d = (Inr ts, d')
     \<and> (\<exists>v\<in>set (devices d'). d_id v = ts_DeviceID ts \<and> d_user_id v = ts_UserID ts \<and> d_status v = ''active'')"
proof -
  obtain d where d: "reachable sample_system d" "users d = users sample_db" "devices d = devices sample_db"
    "personal_spaces d = personal_spaces sample_db" "sessions d = sessions started_db" "i_jti ` set (issuances d) = {9}"
    using sample_started by blast
  obtain ts d' where r: "Refresh sample_crypto (sy_codecs sample_system) sample_sessions later_env
      (encode_url (replicate 32 (CHR ''n''))) d = (Inr ts, d')" using sample_refresh [OF d(2-6)] by blast
  have "sy_crypto sample_system = sample_crypto" "oa_sessions (sy_oauth sample_system) = sample_sessions"
    by (simp_all add: sample_system_def sample_oauth_def)
  with refresh_stays_with_owner [OF d(1) sample_limit_ok, of later_env "encode_url (replicate 32 (CHR ''n''))" ts d'] r
  have "\<exists>v\<in>set (devices d'). d_id v = ts_DeviceID ts \<and> d_user_id v = ts_UserID ts \<and> d_status v = ''active''" by simp
  with r show ?thesis by blast
qed


end
