(* ===== verification/Limiter.thy ===== *)
theory Limiter
  imports Redis
begin

text \<open>
  \<open>internal/verification/limiter.go\<close>: the fixed-window rate limiter and the lease that
  keeps one delivery per idempotency key in flight. Lemmas: a window admits exactly \<open>Limit\<close>
  requests per key and asks for a CAPTCHA beyond \<open>CaptchaAfter\<close>, keys do not influence each other,
  and the delivery lease is exclusive (through the locale \<open>lease\<close>).
\<close>

section \<open>Policies\<close>

record Policy =
  Limit :: int
  CaptchaAfter :: int
  Window :: duration

record Decision =
  Allowed :: bool
  CaptchaRequired :: bool
  RetryAfter :: duration

record ScopePolicies =
  sp_Identity :: Policy
  sp_IP :: Policy
  sp_Device :: Policy

definition DefaultScopePolicies :: ScopePolicies where
  "DefaultScopePolicies =
     \<lparr>sp_Identity = \<lparr>Limit = 5, CaptchaAfter = 3, Window = 10 * minute\<rparr>,
      sp_IP = \<lparr>Limit = 20, CaptchaAfter = 10, Window = hour\<rparr>,
      sp_Device = \<lparr>Limit = 10, CaptchaAfter = 5, Window = 10 * minute\<rparr>\<rparr>"

definition validPolicy :: "Policy \<Rightarrow> bool" where
  "validPolicy p \<longleftrightarrow> Limit p > 0 \<and> CaptchaAfter p > 0 \<and> CaptchaAfter p \<le> Limit p \<and> Window p > 0"

definition valid_policies :: "ScopePolicies \<Rightarrow> bool" where
  "valid_policies p \<longleftrightarrow> validPolicy (sp_Identity p) \<and> validPolicy (sp_IP p) \<and> validPolicy (sp_Device p)"

section \<open>The window limiter\<close>

definition redisLimitPrefix :: bytes where
  "redisLimitPrefix = ''aera-cloud:verification:limit:''"

datatype limit_error = LimitRequestInvalid | LimitStoreUnavailable

text \<open>The decision as a function of the script's reply.\<close>

definition decide :: "Policy \<Rightarrow> int \<Rightarrow> int \<Rightarrow> Decision" where
  "decide policy count ttl =
     (let retryAfter = ttl * millisecond;
          retryAfter = (if retryAfter < 0 then Window policy else retryAfter);
          retryAfter = (if retryAfter > Window policy then Window policy else retryAfter)
      in \<lparr>Allowed = (count \<le> Limit policy), CaptchaRequired = (count > CaptchaAfter policy),
          RetryAfter = retryAfter\<rparr>)"

text \<open>\<open>Allow\<close> at instant \<open>now\<close>; the flag says whether the call to Redis fails.\<close>

definition Allow ::
  "bool \<Rightarrow> instant \<Rightarrow> bytes \<Rightarrow> Policy \<Rightarrow> int redis \<Rightarrow> (limit_error + Decision) \<times> int redis" where
  "Allow fails now key policy r =
     (if TrimSpace key = [] \<or> \<not> validPolicy policy then (Inl LimitRequestInvalid, r)
      else if fails then (Inl LimitStoreUnavailable, r)
      else (case incrementWindow now (redisLimitPrefix @ key) (Window policy div millisecond) r of
          ((count, ttl), r') \<Rightarrow> (Inr (decide policy count ttl), r')))"

section \<open>The delivery lease\<close>

definition redisLeasePrefix :: bytes where
  "redisLeasePrefix = ''aera-cloud:verification:delivery:''"

datatype guard_error = LeaseRequestInvalid | LeaseStoreUnavailable

definition delivery_acquire ::
  "instant \<Rightarrow> bytes \<Rightarrow> bytes \<Rightarrow> duration \<Rightarrow> bytes redis \<Rightarrow> bool \<times> bytes redis" where
  "delivery_acquire now key owner ttl r = setnx now (redisLeasePrefix @ key) owner ttl r"

definition delivery_release :: "instant \<Rightarrow> bytes \<Rightarrow> bytes \<Rightarrow> bytes redis \<Rightarrow> bytes redis" where
  "delivery_release now key owner r = delete_if_owner now (redisLeasePrefix @ key) owner r"

definition delivery_holder :: "instant \<Rightarrow> bytes redis \<Rightarrow> bytes \<Rightarrow> bytes option" where
  "delivery_holder now r key = value_at now r (redisLeasePrefix @ key)"

definition Guard_Acquire ::
  "bool \<Rightarrow> instant \<Rightarrow> bytes \<Rightarrow> bytes \<Rightarrow> duration \<Rightarrow> bytes redis \<Rightarrow> (guard_error + bool) \<times> bytes redis" where
  "Guard_Acquire fails now key owner ttl r =
     (if TrimSpace key = [] \<or> TrimSpace owner = [] \<or> ttl \<le> 0 then (Inl LeaseRequestInvalid, r)
      else if fails then (Inl LeaseStoreUnavailable, r)
      else (case delivery_acquire now key owner ttl r of (b, r') \<Rightarrow> (Inr b, r')))"

definition Guard_Release ::
  "bool \<Rightarrow> instant \<Rightarrow> bytes \<Rightarrow> bytes \<Rightarrow> bytes redis \<Rightarrow> guard_error option \<times> bytes redis" where
  "Guard_Release fails now key owner r =
     (if TrimSpace key = [] \<or> TrimSpace owner = [] then (Some LeaseRequestInvalid, r)
      else if fails then (Some LeaseStoreUnavailable, r)
      else (None, delivery_release now key owner r))"

interpretation delivery: lease delivery_acquire delivery_release delivery_holder
  unfolding delivery_acquire_def delivery_release_def delivery_holder_def
  by unfold_locales (auto intro: prefixed_lease_laws)

section \<open>Lemmas on the window\<close>

lemma incrementWindow_fresh:
  assumes "value_at now r k = None" "0 < ms"
  shows "incrementWindow now k ms r = ((1, ms), r(k \<mapsto> (1, Some (now + ms * millisecond))))"
proof -
  have "live now r k = None" using assms(1) by (simp add: value_at_def)
  with assms(2) show ?thesis
    by (simp add: incrementWindow_def incr_def pexpire_def live_def pttl_def Let_def)
qed

lemma incrementWindow_next:
  assumes "r k = Some (c, Some e)" "now < e" "0 < c"
  shows "incrementWindow now k ms r = ((c + 1, (e - now) div millisecond), r(k \<mapsto> (c + 1, Some e)))"
  using assms by (simp add: incrementWindow_def incr_def live_def pttl_def Let_def)

lemma incrementWindow_other:
  "j \<noteq> k \<Longrightarrow> value_at t (snd (incrementWindow now k ms r)) j = value_at t r j"
  by (auto simp: incrementWindow_def incr_def pexpire_def Let_def value_at_other
      split: option.splits prod.splits)

text \<open>A run of calls for one key, each at its own instant.\<close>

fun allow_run ::
  "bytes \<Rightarrow> Policy \<Rightarrow> instant list \<Rightarrow> int redis \<Rightarrow> (limit_error + Decision) list" where
  "allow_run key policy [] r = []"
| "allow_run key policy (t # ts) r =
     (case Allow False t key policy r of (d, r') \<Rightarrow> d # allow_run key policy ts r')"

abbreviation allowed_of :: "limit_error + Decision \<Rightarrow> bool" where
  "allowed_of d \<equiv> (case d of Inr x \<Rightarrow> Allowed x | Inl _ \<Rightarrow> False)"

abbreviation captcha_of :: "limit_error + Decision \<Rightarrow> bool" where
  "captcha_of d \<equiv> (case d of Inr x \<Rightarrow> CaptchaRequired x | Inl _ \<Rightarrow> False)"

lemma allow_run_counts:
  assumes "TrimSpace key \<noteq> []" "validPolicy policy"
    and "r (redisLimitPrefix @ key) = Some (c, Some e)" "0 < c" "\<forall>t\<in>set ts. t < e"
    and "i < length ts"
  shows "allowed_of (allow_run key policy ts r ! i) = (c + int i + 1 \<le> Limit policy)
    \<and> captcha_of (allow_run key policy ts r ! i) = (c + int i + 1 > CaptchaAfter policy)"
  using assms(3-6)
proof (induction ts arbitrary: r c i)
  case Nil
  then show ?case by simp
next
  case (Cons t ts)
  let ?k = "redisLimitPrefix @ key"
  have step: "Allow False t key policy r =
      (Inr (decide policy (c + 1) ((e - t) div millisecond)), r(?k \<mapsto> (c + 1, Some e)))"
    using assms(1,2) Cons.prems by (simp add: Allow_def incrementWindow_next)
  show ?case
  proof (cases i)
    case 0
    then show ?thesis by (simp add: step decide_def Let_def)
  next
    case (Suc j)
    have "allowed_of (allow_run key policy ts (r(?k \<mapsto> (c + 1, Some e))) ! j)
          = (c + 1 + int j + 1 \<le> Limit policy)
      \<and> captcha_of (allow_run key policy ts (r(?k \<mapsto> (c + 1, Some e))) ! j)
          = (c + 1 + int j + 1 > CaptchaAfter policy)"
      using Cons.prems Suc by (intro Cons.IH) auto
    then show ?thesis using Suc by (simp add: step add.commute add.left_commute)
  qed
qed

section \<open>Properties\<close>

text \<open>
  In one window the limiter admits exactly the first \<open>Limit\<close> requests of a key, and asks for a
  CAPTCHA exactly from request \<open>CaptchaAfter + 1\<close> on, whatever the instants of the requests.
\<close>

theorem Allow_window_exact:
  assumes "TrimSpace key \<noteq> []" "validPolicy policy" "millisecond \<le> Window policy"
    and "value_at t0 r (redisLimitPrefix @ key) = None"
    and "\<forall>t\<in>set ts. t < t0 + Window policy div millisecond * millisecond"
    and "i \<le> length ts"
  shows "allowed_of (allow_run key policy (t0 # ts) r ! i) = (int i < Limit policy)
    \<and> captcha_of (allow_run key policy (t0 # ts) r ! i) = (CaptchaAfter policy \<le> int i)"
proof -
  let ?ms = "Window policy div millisecond"
  let ?r = "r(redisLimitPrefix @ key \<mapsto> (1, Some (t0 + ?ms * millisecond)))"
  have "0 < ?ms" using assms(3) pos_imp_zdiv_pos_iff [of millisecond "Window policy"] by simp
  then have step: "Allow False t0 key policy r = (Inr (decide policy 1 ?ms), ?r)"
    using assms(1,2,4) by (simp add: Allow_def incrementWindow_fresh)
  show ?thesis
  proof (cases i)
    case 0
    then show ?thesis using assms(2) by (simp add: step decide_def Let_def validPolicy_def)
  next
    case (Suc j)
    have "allowed_of (allow_run key policy ts ?r ! j) = (1 + int j + 1 \<le> Limit policy)
      \<and> captcha_of (allow_run key policy ts ?r ! j) = (1 + int j + 1 > CaptchaAfter policy)"
      using assms Suc by (intro allow_run_counts [OF assms(1,2)]) auto
    then show ?thesis using Suc by (auto simp: step)
  qed
qed

lemma visible_sample_key: "visible ''k''"
  by (simp add: visible_def)

theorem Allow_window_exact_witness:
  "allowed_of (allow_run ''k'' (sp_Identity DefaultScopePolicies) [0, second, 2 * second, 3 * second,
       4 * second, 5 * second] Map.empty ! 4)
   \<and> \<not> allowed_of (allow_run ''k'' (sp_Identity DefaultScopePolicies) [0, second, 2 * second, 3 * second,
       4 * second, 5 * second] Map.empty ! 5)"
proof -
  have "TrimSpace ''k'' \<noteq> []" by (simp add: TrimSpace_visible [OF visible_sample_key])
  from Allow_window_exact [OF this, of "sp_Identity DefaultScopePolicies" 0 Map.empty
      "[second, 2 * second, 3 * second, 4 * second, 5 * second]"]
  show ?thesis
    by (simp add: DefaultScopePolicies_def validPolicy_def value_at_def live_def)
qed

text \<open>
  While a delivery lease runs, no other request acquires the same key and no other owner can
  release it; after its owner releases it, it can be acquired again.
\<close>

theorem delivery_lease_exclusive:
  assumes "Guard_Acquire False now key owner ttl r = (Inr True, r')"
    and "now \<le> t" "t < now + ttl" "ttl mod millisecond = 0"
    and "TrimSpace other \<noteq> []" "other \<noteq> owner" "0 < ttl'"
  shows "Guard_Acquire False t key other ttl' r' = (Inr False, r')
    \<and> Guard_Release False t key other r' = (None, r')
    \<and> fst (Guard_Acquire False t key other ttl' (snd (Guard_Release False t key owner r'))) = Inr True"
proof -
  have v: "TrimSpace key \<noteq> []" "TrimSpace owner \<noteq> []"
    and acq: "fst (delivery_acquire now key owner ttl r)" "r' = snd (delivery_acquire now key owner ttl r)"
    using assms(1) by (auto simp: Guard_Acquire_def split: if_splits prod.splits)
  note times = assms(2-4)
  have "delivery_acquire t key other ttl' r' = (False, r')"
    unfolding acq(2) by (rule delivery.exclusive [OF acq(1) times])
  moreover have "delivery_release t key other r' = r'"
    unfolding acq(2) by (rule delivery.foreign_release [OF acq(1) times assms(6)])
  moreover have "fst (delivery_acquire t key other ttl' (delivery_release t key owner r'))"
    unfolding acq(2) by (rule delivery.reacquire_after_release [OF acq(1) times])
  ultimately show ?thesis
    using v assms(5,7) by (auto simp: Guard_Acquire_def Guard_Release_def split: prod.splits)
qed

lemma visible_sample_owners: "visible ''o1''" "visible ''o2''"
  by (simp_all add: visible_def)

theorem delivery_lease_exclusive_witness:
  "\<exists>r'. Guard_Acquire False 0 ''k'' ''o1'' (30 * second) Map.empty = (Inr True, r')
     \<and> Guard_Acquire False second ''k'' ''o2'' (30 * second) r' = (Inr False, r')"
proof -
  note t = visible_sample_key [THEN TrimSpace_visible] visible_sample_owners [THEN TrimSpace_visible]
  let ?r = "snd (Guard_Acquire False 0 ''k'' ''o1'' (30 * second) Map.empty)"
  have "Guard_Acquire False 0 ''k'' ''o1'' (30 * second) Map.empty = (Inr True, ?r)"
    by (simp add: Guard_Acquire_def t delivery_acquire_def setnx_def live_def)
  moreover from delivery_lease_exclusive [OF this, of second "''o2''" "30 * second"]
  have "Guard_Acquire False second ''k'' ''o2'' (30 * second) ?r = (Inr False, ?r)"
    by (simp add: t)
  ultimately show ?thesis by blast
qed

end
