(* ===== verification/Verification.thy ===== *)
theory Verification
  imports Receipt Limiter
begin

text \<open>
  \<open>internal/verification/repository.go\<close> and \<open>service.go\<close>: sending and checking
  one-time codes. The state is the table of challenges, the two Redis key spaces and the list of
  messages handed to the sender. Lemmas: at most five wrong codes per challenge, codes are used
  once, sending is idempotent per idempotency key, respects the cooldown, and delivers at most one
  message per call.
\<close>

section \<open>Repository\<close>

definition ExistsByIdempotency :: "bool \<Rightarrow> bytes \<Rightarrow> Challenge list \<Rightarrow> bool option" where
  "ExistsByIdempotency fails hash t =
     (if fails then None else Some (exists_row (\<lambda>c. ch_IdempotencyKeyHash c = hash) t))"

text \<open>The newest challenge of a target; \<open>None\<close> outside is a read error.\<close>

definition latestForTarget ::
  "bool \<Rightarrow> bytes \<Rightarrow> Purpose \<Rightarrow> Challenge list \<Rightarrow> Challenge option option" where
  "latestForTarget fails targetHMAC purpose t =
     (if fails then None
      else Some (newest ch_CreatedAt ch_ID
        (filter (\<lambda>c. ch_TargetLookupHMAC c = targetHMAC \<and> ch_Purpose c = purpose) t)))"

definition later_of :: "Challenge option \<Rightarrow> Challenge option \<Rightarrow> Challenge option" where
  "later_of latest candidate = (case candidate of
       None \<Rightarrow> latest
     | Some c \<Rightarrow> (case latest of None \<Rightarrow> Some c
                  | Some l \<Rightarrow> if ch_CreatedAt l < ch_CreatedAt c then Some c else Some l))"

fun Latest_loop ::
  "schedule \<Rightarrow> bytes list \<Rightarrow> Purpose \<Rightarrow> Challenge list \<Rightarrow> Challenge option \<Rightarrow> Challenge option option" where
  "Latest_loop f [] purpose t acc = Some acc"
| "Latest_loop f (h # hs) purpose t acc =
     (case latestForTarget (f 0) h purpose t of
        None \<Rightarrow> None
      | Some candidate \<Rightarrow> Latest_loop (later 1 f) hs purpose t (later_of acc candidate))"

definition Latest ::
  "schedule \<Rightarrow> bytes list \<Rightarrow> Purpose \<Rightarrow> Challenge list \<Rightarrow> Challenge option option" where
  "Latest f targetHMACs purpose t = Latest_loop f targetHMACs purpose t None"

definition SaveAfterDelivery :: "bool \<Rightarrow> Challenge \<Rightarrow> Challenge list \<Rightarrow> Challenge list option" where
  "SaveAfterDelivery fails c t =
     (if fails
         \<or> exists_row (\<lambda>x. ch_ID x = ch_ID c) t
         \<or> exists_row (\<lambda>x. ch_IdempotencyKeyHash x = ch_IdempotencyKeyHash c) t
         \<or> ch_IdentityKind c \<notin> {''email'', ''phone''}
         \<or> length (ch_TargetLookupHMAC c) \<noteq> 32 \<or> length (ch_CodeHMAC c) \<noteq> 32
         \<or> length (ch_IdempotencyKeyHash c) \<noteq> 32
         \<or> \<not> (0 \<le> ch_FailedAttempts c \<and> ch_FailedAttempts c \<le> 5)
         \<or> \<not> ch_CreatedAt c < ch_ExpiresAt c
      then None else Some (t @ [c\<lparr>ch_ReceiptConsumedAt := None\<rparr>]))"

datatype consume_error = ErrChallengeNotFound | ErrCodeMismatch | ConsumeUnavailable

definition open_challenge :: "bytes \<Rightarrow> Purpose \<Rightarrow> instant \<Rightarrow> Challenge \<Rightarrow> bool" where
  "open_challenge targetHMAC purpose now c \<longleftrightarrow>
     ch_TargetLookupHMAC c = targetHMAC \<and> ch_Purpose c = purpose \<and> ch_ConsumedAt c = None
     \<and> ch_InvalidatedAt c = None \<and> ch_ExpiresAt c > now"

definition sha256DigestSize :: nat where
  "sha256DigestSize = 32"

text \<open>\<open>None\<close> is success; the calls are begin, select, update, commit.\<close>

definition Consume ::
  "schedule \<Rightarrow> bytes \<Rightarrow> Purpose \<Rightarrow> bytes \<Rightarrow> instant \<Rightarrow> Challenge list
     \<Rightarrow> consume_error option \<times> Challenge list" where
  "Consume f targetHMAC purpose codeHMAC now t =
     (if f 0 \<or> f 1 then (Some ConsumeUnavailable, t)
      else case newest ch_CreatedAt ch_ID (filter (open_challenge targetHMAC purpose now) t) of
          None \<Rightarrow> (Some ErrChallengeNotFound, t)
        | Some c \<Rightarrow>
            if length (ch_CodeHMAC c) \<noteq> sha256DigestSize \<or> length codeHMAC \<noteq> sha256DigestSize
               \<or> ch_CodeHMAC c \<noteq> codeHMAC
            then
              let failedAttempts = ch_FailedAttempts c + 1;
                  t' = (if failedAttempts \<ge> 5
                    then update_where (\<lambda>x. ch_ID x = ch_ID c)
                      (\<lambda>x. x\<lparr>ch_FailedAttempts := failedAttempts, ch_InvalidatedAt := Some now\<rparr>) t
                    else update_where (\<lambda>x. ch_ID x = ch_ID c)
                      (\<lambda>x. x\<lparr>ch_FailedAttempts := failedAttempts\<rparr>) t)
              in if f 2 \<or> f 3 then (Some ConsumeUnavailable, t)
                 else (Some ErrCodeMismatch, t')
            else if f 2 \<or> f 3 then (Some ConsumeUnavailable, t)
            else (None, update_where (\<lambda>x. ch_ID x = ch_ID c) (\<lambda>x. x\<lparr>ch_ConsumedAt := Some now\<rparr>) t))"

section \<open>Service\<close>

definition challengeLifetime :: duration where "challengeLifetime = 5 * minute"
definition resendDelay :: duration where "resendDelay = minute"
definition deliveryLeaseTTL :: duration where "deliveryLeaseTTL = 30 * second"

definition unifiedPhoneCooldownPolicy :: Policy where
  "unifiedPhoneCooldownPolicy = \<lparr>Limit = 1, CaptchaAfter = 1, Window = resendDelay\<rparr>"

datatype verification_error =
    ErrInvalidRequest | ErrResendTooSoon | ErrRateLimited | ErrCaptchaRequired
  | ErrDeliveryUnavailable | ErrTemporarilyUnavailable | ErrRequestInProgress | ErrInvalidVerification

record SendRequest =
  sr_Kind :: IdentityKind
  sr_Destination :: bytes
  sr_Purpose :: Purpose
  sr_IdempotencyKey :: bytes
  sr_IPAddress :: bytes
  sr_DeviceID :: bytes
  sr_CaptchaToken :: bytes

record VerifyRequest =
  vr_Kind :: IdentityKind
  vr_Destination :: bytes
  vr_Purpose :: Purpose
  vr_Code :: bytes

record DeliveryFailureMetadata =
  df_Provider :: bytes
  df_Code :: bytes
  df_RequestID :: bytes
  df_RateLimited :: bool

text \<open>The sender's answer: delivered, or an error that may carry provider metadata.\<close>

datatype delivery = Delivered | NotDelivered "DeliveryFailureMetadata option"

record Service =
  v_receipts :: ReceiptCodec
  v_indexer :: IdentityCodec
  v_activeCodeKeyID :: bytes
  v_codeKeys :: key_ring
  v_requestHMACKey :: bytes
  v_policies :: ScopePolicies

record world =
  challenges :: "Challenge list"
  limits :: "int redis"
  leases :: "bytes redis"
  sent :: "(bytes \<times> bytes \<times> Purpose) list"

text \<open>What one call draws from outside: clocks, random values, the sender, the CAPTCHA service and
  the failures of the three stores.\<close>

record environment =
  clock :: instant
  redis_clock :: instant
  release_clock :: instant
  random_read :: "nat \<Rightarrow> bytes option"
  random_code :: "nat option"
  random_uuid :: "uuid option"
  sender :: "bytes \<Rightarrow> bytes \<Rightarrow> Purpose \<Rightarrow> delivery"
  captcha :: "bytes \<Rightarrow> bytes \<Rightarrow> bool option"
  repo_fails :: schedule
  lease_fails :: schedule
  limit_fails :: schedule

definition requestHMAC :: "crypto \<Rightarrow> Service \<Rightarrow> bytes list \<Rightarrow> bytes" where
  "requestHMAC cr s parts = hmac_sha256 cr (v_requestHMACKey s) (concat (map (\<lambda>p. p @ [CHR 0x00]) parts))"

definition codeHMAC :: "crypto \<Rightarrow> bytes \<Rightarrow> Purpose \<Rightarrow> bytes \<Rightarrow> bytes \<Rightarrow> bytes" where
  "codeHMAC cr key purpose targetHMAC otp =
     hmac_sha256 cr key (purpose @ [CHR 0x00] @ targetHMAC @ [CHR 0x00] @ otp)"

definition randomSixDigitCode :: "nat option \<Rightarrow> bytes option" where
  "randomSixDigitCode draw = map_option (\<lambda>n.
     let text = itoa_nat n in replicate (6 - length text) (CHR ''0'') @ text) draw"

definition validCode :: "bytes \<Rightarrow> bool" where
  "validCode otp \<longleftrightarrow> length otp = 6 \<and> list_all is_digit otp"

definition validSendMetadata :: "SendRequest \<Rightarrow> bool" where
  "validSendMetadata r \<longleftrightarrow> 8 \<le> length (sr_IdempotencyKey r) \<and> length (sr_IdempotencyKey r) \<le> 200
     \<and> TrimSpace (sr_IPAddress r) \<noteq> [] \<and> length (sr_IPAddress r) \<le> 128
     \<and> TrimSpace (sr_DeviceID r) \<noteq> [] \<and> length (sr_DeviceID r) \<le> 200"

definition lookupHMACs :: "LookupIndex list \<Rightarrow> bytes list" where
  "lookupHMACs candidates = map li_HMAC candidates"

definition prepareTarget ::
  "crypto \<Rightarrow> (nat \<Rightarrow> nat) \<Rightarrow> Service \<Rightarrow> IdentityKind \<Rightarrow> bytes \<Rightarrow> Purpose
     \<Rightarrow> verification_error + bytes \<times> LookupIndex list" where
  "prepareTarget cr tbl s kind destination purpose =
     (if \<not> validPurpose purpose then Inl ErrInvalidRequest
      else case NormalizeIdentity tbl kind destination of
          Inl _ \<Rightarrow> Inl ErrInvalidRequest
        | Inr normalized \<Rightarrow>
            let candidates = LookupCandidates cr (v_indexer s) kind normalized in
            if candidates = [] then Inl ErrTemporarilyUnavailable else Inr (normalized, candidates))"

definition phone_cooldown :: "SendRequest \<Rightarrow> bool" where
  "phone_cooldown r \<longleftrightarrow> \<not> (sr_Kind r \<noteq> IdentityPhone
     \<or> (sr_Purpose r \<noteq> PurposeRegistration \<and> sr_Purpose r \<noteq> PurposeLogin))"

definition latestForSendCooldown ::
  "schedule \<Rightarrow> SendRequest \<Rightarrow> bytes list \<Rightarrow> Challenge list \<Rightarrow> Challenge option option" where
  "latestForSendCooldown f r targetHMACs t =
     (if \<not> phone_cooldown r then Latest f targetHMACs (sr_Purpose r) t
      else case Latest f targetHMACs PurposeRegistration t of
          None \<Rightarrow> None
        | Some c1 \<Rightarrow>
            (case Latest (later (length targetHMACs) f) targetHMACs PurposeLogin t of
               None \<Rightarrow> None
             | Some c2 \<Rightarrow> Some (later_of (later_of None c1) c2)))"

fun allow_scopes ::
  "crypto \<Rightarrow> Service \<Rightarrow> schedule \<Rightarrow> instant \<Rightarrow> (bytes \<times> bytes \<times> Policy) list \<Rightarrow> bool \<Rightarrow> int redis
     \<Rightarrow> (verification_error + bool) \<times> int redis" where
  "allow_scopes cr s f now [] captchaRequired r = (Inr captchaRequired, r)"
| "allow_scopes cr s f now ((name, val, policy) # scopes) captchaRequired r =
     (case Allow (f 0) now (hex_encode (requestHMAC cr s [''limit'', name, val])) policy r of
        (Inl _, r') \<Rightarrow> (Inl ErrTemporarilyUnavailable, r')
      | (Inr d, r') \<Rightarrow>
          if \<not> Allowed d then (Inl ErrRateLimited, r')
          else allow_scopes cr s (later 1 f) now scopes (captchaRequired \<or> CaptchaRequired d) r')"

definition allowRequest ::
  "crypto \<Rightarrow> Service \<Rightarrow> schedule \<Rightarrow> instant \<Rightarrow> SendRequest \<Rightarrow> bytes \<Rightarrow> int redis
     \<Rightarrow> (verification_error + bool) \<times> int redis" where
  "allowRequest cr s f now req targetHMAC r =
     allow_scopes cr s f now
       [(''identity'', targetHMAC, sp_Identity (v_policies s)),
        (''ip'', sr_IPAddress req, sp_IP (v_policies s)),
        (''device'', sr_DeviceID req, sp_Device (v_policies s))] False r"

definition allowUnifiedPhoneCooldown ::
  "crypto \<Rightarrow> Service \<Rightarrow> bool \<Rightarrow> instant \<Rightarrow> SendRequest \<Rightarrow> bytes \<Rightarrow> int redis
     \<Rightarrow> verification_error option \<times> int redis" where
  "allowUnifiedPhoneCooldown cr s fails now req targetHMAC r =
     (if \<not> phone_cooldown req then (None, r)
      else case Allow fails now (hex_encode (requestHMAC cr s [''cooldown'', ''phone'', targetHMAC]))
             unifiedPhoneCooldownPolicy r of
          (Inl _, r') \<Rightarrow> (Some ErrTemporarilyUnavailable, r')
        | (Inr d, r') \<Rightarrow> (if \<not> Allowed d then Some ErrResendTooSoon else None, r'))"

definition safeLogToken :: "bytes \<Rightarrow> nat \<Rightarrow> bool" where
  "safeLogToken val maximumLength \<longleftrightarrow> val \<noteq> [] \<and> length val \<le> maximumLength
     \<and> list_all (\<lambda>r. 97 \<le> r \<and> r \<le> 122 \<or> 65 \<le> r \<and> r \<le> 90 \<or> 48 \<le> r \<and> r \<le> 57
         \<or> r = 46 \<or> r = 95 \<or> r = 45) (runes val)"

definition safeDeliveryFailureMetadata ::
  "DeliveryFailureMetadata option \<Rightarrow> DeliveryFailureMetadata option" where
  "safeDeliveryFailureMetadata failure = (case failure of
       None \<Rightarrow> None
     | Some m \<Rightarrow> if df_Provider m \<noteq> ''aliyun'' \<or> \<not> safeLogToken (df_Code m) 128
                   \<or> (df_RequestID m \<noteq> [] \<and> \<not> safeLogToken (df_RequestID m) 128)
                then None else Some m)"

definition idempotencyHash :: "crypto \<Rightarrow> Service \<Rightarrow> SendRequest \<Rightarrow> bytes \<Rightarrow> bytes" where
  "idempotencyHash cr s req normalized =
     requestHMAC cr s [''idempotency'', sr_Purpose req, sr_Kind req, normalized, sr_IdempotencyKey req]"

definition new_challenge ::
  "crypto \<Rightarrow> Service \<Rightarrow> SendRequest \<Rightarrow> LookupIndex \<Rightarrow> bytes \<Rightarrow> bytes \<Rightarrow> uuid \<Rightarrow> instant \<Rightarrow> Challenge" where
  "new_challenge cr s req target hash otp cid now =
     \<lparr>ch_ID = cid, ch_Purpose = sr_Purpose req, ch_IdentityKind = sr_Kind req,
      ch_TargetLookupKeyID = li_KeyID target, ch_TargetLookupHMAC = li_HMAC target,
      ch_CodeKeyID = v_activeCodeKeyID s,
      ch_CodeHMAC = codeHMAC cr (ring_get (v_codeKeys s) (v_activeCodeKeyID s)) (sr_Purpose req)
        (li_HMAC target) otp,
      ch_IdempotencyKeyHash = hash, ch_ExpiresAt = now + challengeLifetime,
      ch_ResendAfter = now + resendDelay, ch_FailedAttempts = 0, ch_ConsumedAt = None,
      ch_InvalidatedAt = None, ch_CreatedAt = now, ch_ReceiptConsumedAt = None\<rparr>"


text \<open>
  \<open>Send\<close> in three parts. \<open>admit\<close> holds the guards between the second idempotency read
  and the drawing of the code (\<open>None\<close>: go on), \<open>dispatch\<close> draws, delivers and saves, and
  \<open>deliver\<close> is everything that runs under the delivery lease.
\<close>

definition check_captcha :: "environment \<Rightarrow> SendRequest \<Rightarrow> bool \<Rightarrow> verification_error option" where
  "check_captcha e req captchaRequired =
     (if \<not> captchaRequired then None
      else if TrimSpace (sr_CaptchaToken req) = [] then Some ErrCaptchaRequired
      else case captcha e (sr_CaptchaToken req) (sr_IPAddress req) of
          None \<Rightarrow> Some ErrTemporarilyUnavailable
        | Some valid \<Rightarrow> if \<not> valid then Some ErrCaptchaRequired else None)"

definition admit ::
  "crypto \<Rightarrow> Service \<Rightarrow> environment \<Rightarrow> SendRequest \<Rightarrow> LookupIndex list \<Rightarrow> world
     \<Rightarrow> verification_error option \<times> world" where
  "admit cr s e req candidates w =
     (case latestForSendCooldown (later 2 (repo_fails e)) req (lookupHMACs candidates) (challenges w) of
        None \<Rightarrow> (Some ErrTemporarilyUnavailable, w)
      | Some latest \<Rightarrow>
          if (case latest of Some c \<Rightarrow> clock e < ch_ResendAfter c | None \<Rightarrow> False)
          then (Some ErrResendTooSoon, w)
          else (case allowRequest cr s (limit_fails e) (redis_clock e) req (li_HMAC (hd candidates))
                       (limits w) of
              (Inl err, r) \<Rightarrow> (Some err, w\<lparr>limits := r\<rparr>)
            | (Inr captchaRequired, r) \<Rightarrow>
                (case check_captcha e req captchaRequired of
                   Some err \<Rightarrow> (Some err, w\<lparr>limits := r\<rparr>)
                 | None \<Rightarrow>
                     (case allowUnifiedPhoneCooldown cr s (limit_fails e 3) (redis_clock e) req
                             (li_HMAC (hd candidates)) r of
                        (result, r') \<Rightarrow> (result, w\<lparr>limits := r'\<rparr>)))))"

definition dispatch ::
  "crypto \<Rightarrow> Service \<Rightarrow> environment \<Rightarrow> SendRequest \<Rightarrow> bytes \<Rightarrow> LookupIndex list \<Rightarrow> bytes \<Rightarrow> world
     \<Rightarrow> verification_error option \<times> world" where
  "dispatch cr s e req normalized candidates hash w =
     (case randomSixDigitCode (random_code e) of
        None \<Rightarrow> (Some ErrTemporarilyUnavailable, w)
      | Some otp \<Rightarrow>
     (case RandomUUID (random_uuid e) of
        Inl _ \<Rightarrow> (Some ErrTemporarilyUnavailable, w)
      | Inr challengeID \<Rightarrow>
     (case sender e normalized otp (sr_Purpose req) of
        NotDelivered failure \<Rightarrow>
          (case safeDeliveryFailureMetadata failure of
             Some metadata \<Rightarrow>
               (if df_RateLimited metadata then Some ErrRateLimited else Some ErrDeliveryUnavailable, w)
           | None \<Rightarrow> (Some ErrDeliveryUnavailable, w))
      | Delivered \<Rightarrow>
          (let challenge = new_challenge cr s req (hd candidates) hash otp challengeID (clock e);
               w' = w\<lparr>sent := sent w @ [(normalized, otp, sr_Purpose req)]\<rparr>
           in case SaveAfterDelivery (repo_fails e (2 + 2 * length candidates)) challenge
                     (challenges w) of
                None \<Rightarrow> (Some ErrTemporarilyUnavailable, w')
              | Some t \<Rightarrow> (None, w'\<lparr>challenges := t\<rparr>)))))"

definition deliver ::
  "crypto \<Rightarrow> Service \<Rightarrow> environment \<Rightarrow> SendRequest \<Rightarrow> bytes \<Rightarrow> LookupIndex list \<Rightarrow> bytes \<Rightarrow> world
     \<Rightarrow> verification_error option \<times> world" where
  "deliver cr s e req normalized candidates hash w =
     (case ExistsByIdempotency (repo_fails e 1) hash (challenges w) of
        None \<Rightarrow> (Some ErrTemporarilyUnavailable, w)
      | Some exists \<Rightarrow>
          if exists then (None, w)
          else (case admit cr s e req candidates w of
              (Some err, w') \<Rightarrow> (Some err, w')
            | (None, w') \<Rightarrow> dispatch cr s e req normalized candidates hash w'))"

definition Send ::
  "crypto \<Rightarrow> (nat \<Rightarrow> nat) \<Rightarrow> Service \<Rightarrow> environment \<Rightarrow> SendRequest \<Rightarrow> world
     \<Rightarrow> verification_error option \<times> world" where
  "Send cr tbl s e req w =
     (case prepareTarget cr tbl s (sr_Kind req) (sr_Destination req) (sr_Purpose req) of
        Inl _ \<Rightarrow> (Some ErrInvalidRequest, w)
      | Inr (normalized, candidates) \<Rightarrow>
     if \<not> validSendMetadata req then (Some ErrInvalidRequest, w)
     else let hash = idempotencyHash cr s req normalized; leaseKey = hex_encode hash in
     (case ExistsByIdempotency (repo_fails e 0) hash (challenges w) of
        None \<Rightarrow> (Some ErrTemporarilyUnavailable, w)
      | Some exists \<Rightarrow>
     if exists then (None, w)
     else (case RandomToken (random_read e) 32 of
        Inl _ \<Rightarrow> (Some ErrTemporarilyUnavailable, w)
      | Inr owner \<Rightarrow>
     (case Guard_Acquire (lease_fails e 0) (redis_clock e) leaseKey owner deliveryLeaseTTL (leases w) of
        (Inl _, r) \<Rightarrow> (Some ErrTemporarilyUnavailable, w\<lparr>leases := r\<rparr>)
      | (Inr acquired, r) \<Rightarrow>
     if \<not> acquired then (Some ErrRequestInProgress, w\<lparr>leases := r\<rparr>)
     else (case deliver cr s e req normalized candidates hash (w\<lparr>leases := r\<rparr>) of
        (result, w') \<Rightarrow>
          (result, w'\<lparr>leases :=
             snd (Guard_Release (lease_fails e 1) (release_clock e) leaseKey owner (leases w'))\<rparr>))))))"

record VerificationResult =
  vres_Receipt :: bytes
  vres_ExpiresAt :: instant

text \<open>\<open>Service.Verify\<close>; the receipt codec draws its own nonce and reads its own clock
  (\<open>release_clock\<close>).\<close>

definition verify_code ::
  "crypto \<Rightarrow> (nat \<Rightarrow> nat) \<Rightarrow> (receiptPayload \<Rightarrow> bytes option) \<Rightarrow> Service \<Rightarrow> environment \<Rightarrow> VerifyRequest
     \<Rightarrow> Challenge list \<Rightarrow> (verification_error + VerificationResult) \<times> Challenge list" where
  "verify_code cr tbl jenc s e req t =
     (case prepareTarget cr tbl s (vr_Kind req) (vr_Destination req) (vr_Purpose req) of
        Inl _ \<Rightarrow> (Inl ErrInvalidVerification, t)
      | Inr (normalized, candidates) \<Rightarrow>
     if \<not> validCode (vr_Code req) then (Inl ErrInvalidVerification, t)
     else (case Latest (repo_fails e) (lookupHMACs candidates) (vr_Purpose req) t of
        None \<Rightarrow> (Inl ErrTemporarilyUnavailable, t)
      | Some None \<Rightarrow> (Inl ErrInvalidVerification, t)
      | Some (Some challenge) \<Rightarrow>
     if ch_ConsumedAt challenge \<noteq> None \<or> ch_InvalidatedAt challenge \<noteq> None
        \<or> \<not> clock e < ch_ExpiresAt challenge
     then (Inl ErrInvalidVerification, t)
     else (case map_of (v_codeKeys s) (ch_CodeKeyID challenge) of
        None \<Rightarrow> (Inl ErrTemporarilyUnavailable, t)
      | Some key \<Rightarrow>
     (case Consume (later (length candidates) (repo_fails e)) (ch_TargetLookupHMAC challenge)
             (vr_Purpose req)
             (codeHMAC cr key (vr_Purpose req) (ch_TargetLookupHMAC challenge) (vr_Code req))
             (clock e) t of
        (Some err, t') \<Rightarrow>
          (Inl (if err = ErrChallengeNotFound \<or> err = ErrCodeMismatch then ErrInvalidVerification
                else ErrTemporarilyUnavailable), t')
      | (None, t') \<Rightarrow>
          (case Issue cr tbl jenc (v_receipts s) (random_read e) (release_clock e) challenge normalized of
             Inl _ \<Rightarrow> (Inl ErrTemporarilyUnavailable, t')
           | Inr (receipt, expiresAt) \<Rightarrow>
               (Inr \<lparr>vres_Receipt = receipt, vres_ExpiresAt = expiresAt\<rparr>, t'))))))"

datatype service_error = CodeKeysInvalid | ActiveCodeKeyUnavailable | RequestKeyTooShort

text \<open>\<open>NewService\<close>; interface fields are always present in a configuration of the model.\<close>

definition NewService ::
  "ReceiptCodec \<Rightarrow> IdentityCodec \<Rightarrow> bytes \<Rightarrow> key_ring \<Rightarrow> bytes \<Rightarrow> ScopePolicies \<Rightarrow> service_error + Service" where
  "NewService receipts indexer activeCodeKeyID keys requestKey policies =
     (case copyKeyRing keys 32 of
        Inl _ \<Rightarrow> Inl CodeKeysInvalid
      | Inr codeKeys \<Rightarrow>
          if map_of codeKeys activeCodeKeyID = None \<or> TrimSpace activeCodeKeyID = []
          then Inl ActiveCodeKeyUnavailable
          else if length requestKey < 32 then Inl RequestKeyTooShort
          else Inr \<lparr>v_receipts = receipts, v_indexer = indexer, v_activeCodeKeyID = activeCodeKeyID,
                    v_codeKeys = codeKeys, v_requestHMACKey = requestKey,
                    v_policies = (if valid_policies policies then policies else DefaultScopePolicies)\<rparr>)"

section \<open>Lemmas on the table\<close>

definition challenge_ok :: "Challenge \<Rightarrow> bool" where
  "challenge_ok c \<longleftrightarrow> 0 \<le> ch_FailedAttempts c \<and> ch_FailedAttempts c \<le> 5
     \<and> (ch_FailedAttempts c = 5 \<longrightarrow> ch_InvalidatedAt c \<noteq> None)
     \<and> ch_ResendAfter c = ch_CreatedAt c + resendDelay
     \<and> ch_ExpiresAt c = ch_CreatedAt c + challengeLifetime"

definition challenges_ok :: "Challenge list \<Rightarrow> bool" where
  "challenges_ok t \<longleftrightarrow> distinct (map ch_ID t) \<and> distinct (map ch_IdempotencyKeyHash t)
     \<and> (\<forall>c\<in>set t. challenge_ok c)"

text \<open>Wrong codes a table can still absorb, and codes it can still redeem.\<close>

definition guesses_left :: "Challenge list \<Rightarrow> nat" where
  "guesses_left t = sum_list (map (\<lambda>c. nat (5 - ch_FailedAttempts c)) t)"

definition unconsumed :: "Challenge list \<Rightarrow> nat" where
  "unconsumed t = sum_list (map (\<lambda>c. if ch_ConsumedAt c = None then 1 else 0) t)"

lemma Consume_cases:
  assumes "Consume f h p m now t = (r, t')"
  obtains (unchanged) "t' = t" "r = Some ConsumeUnavailable \<or> r = Some ErrChallengeNotFound"
  | (wrong) c g where "c \<in> set t" "open_challenge h p now c"
      "newest ch_CreatedAt ch_ID (filter (open_challenge h p now) t) = Some c"
      "r = Some ErrCodeMismatch" "t' = update_where (\<lambda>x. ch_ID x = ch_ID c) g t"
      "\<And>x. g x = x\<lparr>ch_FailedAttempts := ch_FailedAttempts c + 1,
          ch_InvalidatedAt := (if ch_FailedAttempts c + 1 \<ge> 5 then Some now else ch_InvalidatedAt x)\<rparr>"
  | (right) c where "c \<in> set t" "open_challenge h p now c"
      "newest ch_CreatedAt ch_ID (filter (open_challenge h p now) t) = Some c"
      "r = None" "ch_CodeHMAC c = m" "length m = 32"
      "t' = update_where (\<lambda>x. ch_ID x = ch_ID c) (\<lambda>x. x\<lparr>ch_ConsumedAt := Some now\<rparr>) t"
proof (cases "newest ch_CreatedAt ch_ID (filter (open_challenge h p now) t)")
  case None
  with assms show thesis by (intro unchanged) (auto simp: Consume_def split: if_splits)
next
  case (Some c)
  then have c: "c \<in> set t" "open_challenge h p now c" by (auto dest: newest_in)
  show thesis
  proof (cases "f 0 \<or> f 1 \<or> f 2 \<or> f 3")
    case True
    with assms Some show thesis by (intro unchanged) (auto simp: Consume_def Let_def split: if_splits)
  next
    case ok: False
    show thesis
    proof (cases "length (ch_CodeHMAC c) = 32 \<and> ch_CodeHMAC c = m")
      case True
      with assms Some ok c show thesis
        by (intro right [of c]) (auto simp: Consume_def sha256DigestSize_def)
    next
      case False
      let ?g = "\<lambda>x. x\<lparr>ch_FailedAttempts := ch_FailedAttempts c + 1,
          ch_InvalidatedAt := (if ch_FailedAttempts c + 1 \<ge> 5 then Some now else ch_InvalidatedAt x)\<rparr>"
      show thesis
        using assms Some ok c False
        by (intro wrong [of c ?g])
          (auto simp: Consume_def sha256DigestSize_def Let_def update_where_def)
    qed
  qed
qed

lemma Consume_ok:
  assumes "challenges_ok t" "Consume f h p m now t = (r, t')"
  shows "challenges_ok t'"
  using assms(2)
proof (cases rule: Consume_cases)
  case unchanged
  with assms(1) show ?thesis by simp
next
  case (wrong c g)
  have "challenge_ok x" if x: "x \<in> set t'" for x
  proof -
    obtain y where y: "y \<in> set t" "x = (if ch_ID y = ch_ID c then g y else y)"
      using x wrong(5) by (auto simp: table_simps)
    have "challenge_ok y" using y assms(1) by (simp add: challenges_ok_def)
    moreover have "y = c" if "ch_ID y = ch_ID c"
      using distinct_key_eq [of ch_ID t y c] that y wrong(1) assms(1) by (simp add: challenges_ok_def)
    ultimately show ?thesis using y wrong(2,6)
      by (auto simp: challenge_ok_def open_challenge_def)
  qed
  moreover have "map ch_ID t' = map ch_ID t" "map ch_IdempotencyKeyHash t' = map ch_IdempotencyKeyHash t"
    unfolding wrong(5) by (rule map_update_where, simp add: wrong(6))+
  ultimately show ?thesis using assms(1) by (simp add: challenges_ok_def)
next
  case (right c)
  have "map ch_ID t' = map ch_ID t" "map ch_IdempotencyKeyHash t' = map ch_IdempotencyKeyHash t"
    unfolding right(7) by (rule map_update_where, simp)+
  moreover have "\<forall>c\<in>set t'. challenge_ok c"
  proof
    fix x assume "x \<in> set t'"
    then obtain y where "y \<in> set t"
      "x = (if ch_ID y = ch_ID c then y\<lparr>ch_ConsumedAt := Some now\<rparr> else y)"
      unfolding right(7) set_update_where by blast
    moreover from this(1) have "challenge_ok y" using assms(1) by (simp add: challenges_ok_def)
    ultimately show "challenge_ok x" by (simp add: challenge_ok_def)
  qed
  ultimately show ?thesis using assms(1) by (simp add: challenges_ok_def)
qed

lemma Consume_guesses:
  assumes "challenges_ok t" "Consume f h p m now t = (r, t')"
  shows "guesses_left t' + (if r = Some ErrCodeMismatch then 1 else 0) \<le> guesses_left t"
  using assms(2)
proof (cases rule: Consume_cases)
  case unchanged
  then show ?thesis by auto
next
  case (wrong c g)
  have same: "y = c" if "y \<in> set t" "ch_ID y = ch_ID c" for y
    using distinct_key_eq [of ch_ID t y c] that wrong(1) assms(1) by (simp add: challenges_ok_def)
  have "challenge_ok c" using assms(1) wrong(1) by (simp add: challenges_ok_def)
  then have "ch_FailedAttempts c < 5" using wrong(2)
    by (auto simp: challenge_ok_def open_challenge_def)
  then have "Suc (guesses_left t') \<le> guesses_left t"
    unfolding guesses_left_def wrong(5)
    by (intro sum_update_where_less [of _ _ _ _ c]) (auto simp: wrong(1,6) dest: same)
  with wrong(4) show ?thesis by simp
next
  case (right c)
  then show ?thesis by (auto simp: guesses_left_def intro!: sum_update_where_le)
qed

lemma Consume_unconsumed:
  assumes "challenges_ok t" "Consume f h p m now t = (r, t')"
  shows "unconsumed t' + (if r = None then 1 else 0) \<le> unconsumed t"
  using assms(2)
proof (cases rule: Consume_cases)
  case unchanged
  then show ?thesis by auto
next
  case (wrong c g)
  then show ?thesis by (auto simp: unconsumed_def intro!: sum_update_where_le)
next
  case (right c)
  have "Suc (unconsumed t') \<le> unconsumed t"
    unfolding unconsumed_def right(7)
    by (intro sum_update_where_less [of _ _ _ _ c]) (use right in \<open>auto simp: open_challenge_def\<close>)
  with right(4) show ?thesis by simp
qed

text \<open>An attempt at the repository: the failures, the target, the purpose, the code's HMAC, the time.\<close>

type_synonym attempt = "schedule \<times> bytes \<times> Purpose \<times> bytes \<times> instant"

definition attempt :: "attempt \<Rightarrow> Challenge list \<Rightarrow> consume_error option \<times> Challenge list" where
  "attempt a t = (case a of (f, h, p, m, now) \<Rightarrow> Consume f h p m now t)"

interpretation wrong_codes: budget attempt challenges_ok "\<lambda>_ r. r = Some ErrCodeMismatch" guesses_left
  by unfold_locales
    (auto simp: attempt_def split: prod.splits dest: Consume_ok Consume_guesses)

interpretation redeemed: budget attempt challenges_ok "\<lambda>_ r. r = None" unconsumed
  by unfold_locales
    (auto simp: attempt_def split: prod.splits dest: Consume_ok Consume_unconsumed)

section \<open>Lemmas on the service\<close>

lemma later_of_left: "\<exists>b. later_of (Some a) n = Some b \<and> ch_CreatedAt a \<le> ch_CreatedAt b"
  by (cases n) (auto simp: later_of_def)

lemma later_of_right: "\<exists>b. later_of acc (Some n) = Some b \<and> ch_CreatedAt n \<le> ch_CreatedAt b"
  by (cases acc) (auto simp: later_of_def)

lemma Latest_loop_max:
  "Latest_loop f hs p t acc = Some r \<Longrightarrow>
     (\<forall>x\<in>set t. ch_TargetLookupHMAC x \<in> set hs \<and> ch_Purpose x = p \<longrightarrow>
        (\<exists>c. r = Some c \<and> ch_CreatedAt x \<le> ch_CreatedAt c))
     \<and> (\<forall>a. acc = Some a \<longrightarrow> (\<exists>c. r = Some c \<and> ch_CreatedAt a \<le> ch_CreatedAt c))"
proof (induction hs arbitrary: f acc)
  case Nil
  then show ?case by simp
next
  case (Cons h hs)
  let ?rows = "filter (\<lambda>c. ch_TargetLookupHMAC c = h \<and> ch_Purpose c = p) t"
  let ?new = "newest ch_CreatedAt ch_ID ?rows"
  have rest: "Latest_loop (later 1 f) hs p t (later_of acc ?new) = Some r"
    using Cons.prems by (simp add: latestForTarget_def split: if_splits)
  note IH = Cons.IH [OF rest]
  have carried: "\<exists>c. r = Some c \<and> ch_CreatedAt a \<le> ch_CreatedAt c" if "acc = Some a" for a
  proof -
    obtain b where "later_of acc ?new = Some b" "ch_CreatedAt a \<le> ch_CreatedAt b"
      using later_of_left [of a ?new] \<open>acc = Some a\<close> by auto
    with IH show ?thesis by fastforce
  qed
  have now: "\<exists>c. r = Some c \<and> ch_CreatedAt x \<le> ch_CreatedAt c" if x: "x \<in> set ?rows" for x
  proof (cases ?new)
    case None
    with x show ?thesis by (auto simp: filter_empty_conv)
  next
    case (Some n)
    have "ch_CreatedAt x \<le> ch_CreatedAt n" using newest_max [OF Some x] by auto
    moreover obtain b where "later_of acc ?new = Some b" "ch_CreatedAt n \<le> ch_CreatedAt b"
      using later_of_right [of acc n] Some by auto
    ultimately show ?thesis using IH by fastforce
  qed
  show ?case using IH carried now by auto
qed

lemma Latest_loop_in:
  "Latest_loop f hs p t acc = Some (Some c) \<Longrightarrow>
     acc = Some c \<or> c \<in> set t \<and> ch_TargetLookupHMAC c \<in> set hs \<and> ch_Purpose c = p"
proof (induction hs arbitrary: f acc)
  case Nil
  then show ?case by simp
next
  case (Cons h hs)
  let ?new = "newest ch_CreatedAt ch_ID (filter (\<lambda>c. ch_TargetLookupHMAC c = h \<and> ch_Purpose c = p) t)"
  have rest: "Latest_loop (later 1 f) hs p t (later_of acc ?new) = Some (Some c)"
    using Cons.prems by (simp add: latestForTarget_def split: if_splits)
  have "later_of acc ?new = Some c \<Longrightarrow> acc = Some c \<or> ?new = Some c"
    by (auto simp: later_of_def split: option.splits if_splits)
  moreover have "?new = Some c \<Longrightarrow> c \<in> set t \<and> ch_TargetLookupHMAC c = h \<and> ch_Purpose c = p"
    by (drule newest_in) simp
  ultimately show ?case using Cons.IH [OF rest] by auto
qed

lemma Latest_max:
  assumes "Latest f hs p t = Some r" "x \<in> set t" "ch_TargetLookupHMAC x \<in> set hs" "ch_Purpose x = p"
  obtains c where "r = Some c" "ch_CreatedAt x \<le> ch_CreatedAt c"
  using Latest_loop_max [of f hs p t None r] assms by (auto simp: Latest_def)

lemma Latest_in:
  "Latest f hs p t = Some (Some c) \<Longrightarrow>
     c \<in> set t \<and> ch_TargetLookupHMAC c \<in> set hs \<and> ch_Purpose c = p"
  using Latest_loop_in [of f hs p t None c] by (simp add: Latest_def)

text \<open>The purposes one request's cooldown looks at.\<close>

definition cooldown_purposes :: "SendRequest \<Rightarrow> Purpose set" where
  "cooldown_purposes r = (if phone_cooldown r then {PurposeRegistration, PurposeLogin} else {sr_Purpose r})"

lemma latestForSendCooldown_max:
  assumes "latestForSendCooldown f r hs t = Some latest" "x \<in> set t"
    "ch_TargetLookupHMAC x \<in> set hs" "ch_Purpose x \<in> cooldown_purposes r"
  obtains c where "latest = Some c" "ch_CreatedAt x \<le> ch_CreatedAt c"
proof (cases "phone_cooldown r")
  case False
  with assms show thesis
    by (auto simp: latestForSendCooldown_def cooldown_purposes_def intro: that elim: Latest_max)
next
  case True
  obtain c1 c2 where c: "Latest f hs PurposeRegistration t = Some c1"
    "Latest (later (length hs) f) hs PurposeLogin t = Some c2"
    "latest = later_of (later_of None c1) c2"
    using assms(1) True by (auto simp: latestForSendCooldown_def split: option.splits)
  have "(\<exists>c. c1 = Some c \<and> ch_CreatedAt x \<le> ch_CreatedAt c)
      \<or> (\<exists>c. c2 = Some c \<and> ch_CreatedAt x \<le> ch_CreatedAt c)"
    using assms(2-4) True Latest_max [OF c(1), of x] Latest_max [OF c(2), of x]
    by (auto simp: cooldown_purposes_def)
  then have "\<exists>c. latest = Some c \<and> ch_CreatedAt x \<le> ch_CreatedAt c"
    by (cases c1; cases c2) (auto simp: c(3) later_of_def)
  then show thesis using that by blast
qed

lemma latestForSendCooldown_in:
  assumes "latestForSendCooldown f r hs t = Some (Some c)"
  shows "c \<in> set t"
proof (cases "phone_cooldown r")
  case False
  with assms show ?thesis by (auto simp: latestForSendCooldown_def dest: Latest_in)
next
  case True
  with assms show ?thesis
    by (auto simp: latestForSendCooldown_def later_of_def split: option.splits if_splits dest: Latest_in)
qed

lemma admit_frame:
  "admit cr s e req cs w = (r, w') \<Longrightarrow>
     challenges w' = challenges w \<and> sent w' = sent w \<and> leases w' = leases w"
  by (auto simp: admit_def split: option.splits if_splits prod.splits sum.splits)

lemma admit_cooldown:
  assumes "admit cr s e req cs w = (None, w')" "challenges_ok (challenges w)" "x \<in> set (challenges w)"
    "ch_TargetLookupHMAC x \<in> set (lookupHMACs cs)" "ch_Purpose x \<in> cooldown_purposes req"
  shows "ch_CreatedAt x + resendDelay \<le> clock e"
proof -
  obtain latest where l: "latestForSendCooldown (later 2 (repo_fails e)) req (lookupHMACs cs) (challenges w)
      = Some latest" "\<not> (case latest of Some c \<Rightarrow> clock e < ch_ResendAfter c | None \<Rightarrow> False)"
    using assms(1) by (auto simp: admit_def split: option.splits if_splits)
  obtain c where c: "latest = Some c" "ch_CreatedAt x \<le> ch_CreatedAt c"
    by (rule latestForSendCooldown_max [OF l(1) assms(3-5)])
  have "challenge_ok c"
    using latestForSendCooldown_in l(1) c(1) assms(2) by (fastforce simp: challenges_ok_def)
  with l(2) c show ?thesis by (simp add: challenge_ok_def)
qed

lemma dispatch_cases:
  assumes "dispatch cr s e req n cs hash w = (r, w')"
  obtains (quiet) "w' = w" "r \<noteq> None"
  | (lost) otp where "randomSixDigitCode (random_code e) = Some otp"
      "w' = w\<lparr>sent := sent w @ [(n, otp, sr_Purpose req)]\<rparr>" "r = Some ErrTemporarilyUnavailable"
  | (saved) otp cid where "randomSixDigitCode (random_code e) = Some otp" "r = None"
      "w' = w\<lparr>sent := sent w @ [(n, otp, sr_Purpose req)],
         challenges := challenges w @ [new_challenge cr s req (hd cs) hash otp cid (clock e)]\<rparr>"
      "cid \<notin> ch_ID ` set (challenges w)" "hash \<notin> ch_IdempotencyKeyHash ` set (challenges w)"
proof (cases "randomSixDigitCode (random_code e)")
  case None
  with assms show thesis by (intro quiet) (auto simp: dispatch_def)
next
  case otp: (Some otp)
  show thesis
  proof (cases "random_uuid e")
    case None
    with assms otp show thesis by (intro quiet) (auto simp: dispatch_def RandomUUID_def)
  next
    case cid: (Some cid)
    show thesis
    proof (cases "sender e n otp (sr_Purpose req)")
      case (NotDelivered m)
      with assms otp cid show thesis
        by (intro quiet) (auto simp: dispatch_def RandomUUID_def split: option.splits if_splits)
    next
      case Delivered
      let ?c = "new_challenge cr s req (hd cs) hash otp cid (clock e)"
      let ?save = "SaveAfterDelivery (repo_fails e (2 + 2 * length cs)) ?c (challenges w)"
      show thesis
      proof (cases ?save)
        case None
        with assms otp cid Delivered show thesis
          by (intro lost [of otp]) (simp_all add: dispatch_def RandomUUID_def Let_def)
      next
        case (Some t)
        have new: "t = challenges w @ [?c]" "cid \<notin> ch_ID ` set (challenges w)"
          "hash \<notin> ch_IdempotencyKeyHash ` set (challenges w)"
          using Some by (auto simp: SaveAfterDelivery_def new_challenge_def exists_row_iff split: if_splits)
        from assms otp cid Delivered Some show thesis
          by (intro saved [of otp cid]) (simp_all add: dispatch_def RandomUUID_def Let_def new)
      qed
    qed
  qed
qed

lemma itoa_nat_is_digit: "list_all is_digit (itoa_nat n)"
  using itoa_nat_digits [of _ n] by (auto simp: list_all_iff is_digit_def)

lemma length_itoa_nat: "n < 10 ^ Suc k \<Longrightarrow> 1 \<le> length (itoa_nat n) \<and> length (itoa_nat n) \<le> Suc k"
proof (induction k arbitrary: n)
  case 0
  then show ?case by (simp add: itoa_nat_eval)
next
  case (Suc k)
  show ?case
  proof (cases "n < 10")
    case True
    then show ?thesis by (simp add: itoa_nat_eval)
  next
    case False
    have "n div 10 < 10 ^ Suc k" using Suc.prems by (simp add: less_mult_imp_div_less)
    from Suc.IH [OF this] False show ?thesis by (simp add: itoa_nat_eval)
  qed
qed

lemma randomSixDigitCode_valid:
  assumes "randomSixDigitCode draw = Some otp" "\<And>n. draw = Some n \<Longrightarrow> n < 1000000"
  shows "validCode otp"
proof -
  obtain n where n: "draw = Some n" "otp = replicate (6 - length (itoa_nat n)) (CHR ''0'') @ itoa_nat n"
    using assms(1) by (auto simp: randomSixDigitCode_def Let_def)
  have "length (itoa_nat n) \<le> 6" using length_itoa_nat [of n 5] assms(2) [OF n(1)] by simp
  moreover have "is_digit (CHR ''0'')" by (simp add: is_digit_def)
  ultimately show ?thesis
    using itoa_nat_is_digit [of n] by (auto simp: n(2) validCode_def list_all_iff)
qed

lemma Send_cases:
  assumes "Send cr tbl s e req w = (r, w')"
  obtains (unsent) "challenges w' = challenges w" "sent w' = sent w"
      "r = None \<Longrightarrow> \<exists>n cs. prepareTarget cr tbl s (sr_Kind req) (sr_Destination req) (sr_Purpose req) = Inr (n, cs)
         \<and> idempotencyHash cr s req n \<in> ch_IdempotencyKeyHash ` set (challenges w)"
  | (dispatched) n cs w0 w1 w2 where
      "prepareTarget cr tbl s (sr_Kind req) (sr_Destination req) (sr_Purpose req) = Inr (n, cs)"
      "validSendMetadata req" "idempotencyHash cr s req n \<notin> ch_IdempotencyKeyHash ` set (challenges w)"
      "challenges w0 = challenges w" "sent w0 = sent w"
      "admit cr s e req cs w0 = (None, w1)"
      "dispatch cr s e req n cs (idempotencyHash cr s req n) w1 = (r, w2)"
      "challenges w' = challenges w2" "sent w' = sent w2"
proof (cases "prepareTarget cr tbl s (sr_Kind req) (sr_Destination req) (sr_Purpose req)")
  case (Inl err)
  with assms show thesis by (intro unsent) (auto simp: Send_def)
next
  case target: (Inr nc)
  obtain n cs where nc: "nc = (n, cs)" by (cases nc)
  let ?hash = "idempotencyHash cr s req n"
  consider (early) "challenges w' = challenges w" "sent w' = sent w"
      "r = None \<Longrightarrow> ?hash \<in> ch_IdempotencyKeyHash ` set (challenges w)"
    | (run) leased w2 where "validSendMetadata req"
        "?hash \<notin> ch_IdempotencyKeyHash ` set (challenges w)"
        "deliver cr s e req n cs ?hash (w\<lparr>leases := leased\<rparr>) = (r, w2)"
        "challenges w' = challenges w2" "sent w' = sent w2"
  proof (cases "validSendMetadata req \<and> \<not> repo_fails e 0
      \<and> ?hash \<notin> ch_IdempotencyKeyHash ` set (challenges w)")
    case False
    with assms target show thesis
      by (intro early) (auto simp: Send_def nc ExistsByIdempotency_def exists_key_iff Let_def split: if_splits)
  next
    case True
    show thesis
    proof (cases "RandomToken (random_read e) 32")
      case (Inl err)
      with True assms target show thesis
        by (intro early) (auto simp: Send_def nc ExistsByIdempotency_def exists_key_iff Let_def)
    next
      case owner: (Inr owner)
      obtain b leased where g: "Guard_Acquire (lease_fails e 0) (redis_clock e) (hex_encode ?hash) owner
          deliveryLeaseTTL (leases w) = (b, leased)" by fastforce
      obtain r2 w2 where d: "deliver cr s e req n cs ?hash (w\<lparr>leases := leased\<rparr>) = (r2, w2)" by fastforce
      show thesis
      proof (cases "b = Inr True")
        case False
        with True assms target owner g show thesis
          by (intro early)
            (auto simp: Send_def nc ExistsByIdempotency_def exists_key_iff Let_def split: sum.splits if_splits)
      next
        case acquired: True
        with True assms target owner g d show thesis
          by (intro run [of leased w2]) (auto simp: Send_def nc ExistsByIdempotency_def exists_key_iff Let_def)
      qed
    qed
  qed
  then show thesis
  proof cases
    case early
    with target nc show thesis by (intro unsent) auto
  next
    case run
    let ?w0 = "w\<lparr>leases := leased\<rparr>"
    obtain a w1 where a: "admit cr s e req cs ?w0 = (a, w1)" by (cases "admit cr s e req cs ?w0")
    have same: "challenges w1 = challenges w" "sent w1 = sent w" using admit_frame [OF a] by simp_all
    show thesis
    proof (cases "repo_fails e 1 \<or> a \<noteq> None")
      case True
      with run(2,3) a same have "challenges w2 = challenges w" "sent w2 = sent w" "r \<noteq> None"
        by (auto simp: deliver_def ExistsByIdempotency_def exists_key_iff split: if_splits)
      with run show thesis by (intro unsent) auto
    next
      case False
      with run(2,3) a have "dispatch cr s e req n cs ?hash w1 = (r, w2)"
        by (auto simp: deliver_def ExistsByIdempotency_def exists_key_iff split: if_splits)
      moreover have "admit cr s e req cs ?w0 = (None, w1)" using a False by simp
      ultimately show thesis using run(1,2,4,5) target nc
        by (intro dispatched [of n cs ?w0 w1 w2]) simp_all
    qed
  qed
qed

end
