(* ===== verification/AuditLog.thy ===== *)
theory AuditLog
  imports Device Password
begin

text \<open>
  \<open>internal/audit/service.go\<close>: the recorder of audit events. An event is written only if its type,
  outcome, identifiers and metadata pass \<open>validEvent\<close>; the metadata is a closed set of keys with
  values that can hold neither an address nor a token. \<open>uuid.Parse\<close> is the parameter \<open>uuid_parse\<close>. A Go
  map is an association list with distinct keys; the loops over it stop at the first bad entry,
  whose position does not matter.
\<close>

section \<open>Data\<close>

type_synonym metadata = "(bytes \<times> bytes) list"

datatype audit_error = ErrInvalidEvent | AuditIdentifierUnavailable | AuditNotRecorded

record Event =
  ev_ID :: uuid
  ev_EventType :: bytes
  ev_ActorUserID :: "uuid option"
  ev_DeviceID :: "uuid option"
  ev_OrganizationID :: "uuid option"
  ev_ObjectType :: bytes
  ev_ObjectID :: "uuid option"
  ev_Outcome :: bytes
  ev_ReasonCode :: bytes
  ev_RequestID :: bytes
  ev_IPHMAC :: bytes
  ev_Metadata :: metadata
  ev_OccurredAt :: instant

definition OutcomeSuccess :: bytes where "OutcomeSuccess = ''success''"
definition OutcomeFailure :: bytes where "OutcomeFailure = ''failure''"
definition OutcomeDenied :: bytes where "OutcomeDenied = ''denied''"

section \<open>Patterns\<close>

definition lower_letter :: "char \<Rightarrow> bool" where
  "lower_letter c \<longleftrightarrow> 97 \<le> code c \<and> code c \<le> 122"

definition decimal :: "char \<Rightarrow> bool" where
  "decimal c \<longleftrightarrow> 48 \<le> code c \<and> code c \<le> 57"

text \<open>\<open>^[a-z][a-z0-9_]{0,63}$\<close>\<close>

fun namePattern :: "bytes \<Rightarrow> bool" where
  "namePattern [] = False"
| "namePattern (c # s) \<longleftrightarrow> lower_letter c \<and> length s \<le> 63
     \<and> list_all (\<lambda>x. lower_letter x \<or> decimal x \<or> x = CHR ''_'') s"

text \<open>\<open>^[A-Za-z0-9._:-]{1,128}$\<close>\<close>

definition requestPattern :: "bytes \<Rightarrow> bool" where
  "requestPattern s \<longleftrightarrow> 1 \<le> length s \<and> length s \<le> 128
     \<and> list_all (\<lambda>x. alphanumeric x \<or> x \<in> set ''._:-'') s"

text \<open>\<open>^[A-Za-z0-9_-]{8,}\.[A-Za-z0-9_-]{8,}\.[A-Za-z0-9_-]{16,}$\<close>\<close>

definition jwtPattern :: "bytes \<Rightarrow> bool" where
  "jwtPattern s \<longleftrightarrow> (case split_on (CHR ''.'') s of
       [a, b, c] \<Rightarrow> list_all (list_all (\<lambda>x. alphanumeric x \<or> x = CHR ''_'' \<or> x = CHR ''-'')) [a, b, c]
         \<and> 8 \<le> length a \<and> 8 \<le> length b \<and> 16 \<le> length c
     | _ \<Rightarrow> False)"

text \<open>\<open>hex.DecodeString\<close>.\<close>

definition hex_value :: "char \<Rightarrow> nat option" where
  "hex_value c = (if decimal c then Some (code c - 48)
     else if lower_letter c \<and> code c \<le> 102 then Some (code c - 87)
     else if 65 \<le> code c \<and> code c \<le> 70 then Some (code c - 55) else None)"

fun hex_decode :: "bytes \<Rightarrow> bytes option" where
  "hex_decode [] = Some []"
| "hex_decode [c] = None"
| "hex_decode (a # b # s) =
     (case (hex_value a, hex_value b, hex_decode s) of
        (Some x, Some y, Some t) \<Rightarrow> Some (char_of (x * 16 + y) # t) | _ \<Rightarrow> None)"

text \<open>A SHA-256 digest in lower-case hexadecimal, as two of the metadata checks demand it.\<close>

definition canonical_digest :: "(nat \<Rightarrow> nat) \<Rightarrow> bytes \<Rightarrow> bool" where
  "canonical_digest tbl v \<longleftrightarrow>
     (case hex_decode v of None \<Rightarrow> False | Some b \<Rightarrow> length b = 32) \<and> v = ToLower tbl v"

definition agentMetadataKeys :: "bytes list" where
  "agentMetadataKeys = [''tenant_id'', ''owner_scope'', ''owner_id'', ''workspace_id'', ''agent_definition_id'',
     ''agent_version_id'', ''agent_installation_id'', ''policy_snapshot_id'', ''content_digest'',
     ''source_owner_scope'', ''source_workspace_id'', ''source_organization_id'', ''platform_id'',
     ''official_release_id'', ''official_release_revision_id'', ''product_context_scope'',
     ''experience_candidate_id'', ''decision'', ''reason_code'', ''verification_status'']"

definition workspaceMetadataKeys :: "bytes list" where
  "workspaceMetadataKeys = [''workspace_id'', ''membership_user_id'', ''invitation_id'', ''role'', ''previous_role'']"

definition organizationMetadataKeys :: "bytes list" where
  "organizationMetadataKeys = [''organization_id'', ''membership_user_id'', ''department_id'', ''invitation_id'',
     ''policy_snapshot_id'', ''role'', ''previous_role'', ''policy_version'', ''revision'', ''previous_revision'',
     ''status'', ''previous_status'', ''content_digest'']"

section \<open>Validation\<close>

definition forbidden_chars :: "char list" where
  "forbidden_chars = [CHR 0x0D, CHR 0x0A, CHR 0x00, CHR ''/'', CHR ''@'', CHR 0x5C, CHR ''{'', CHR ''}'',
     CHR ''['', CHR '']'', CHR 0x22]"

definition safeMetadataValue :: "(nat \<Rightarrow> nat) \<Rightarrow> bytes \<Rightarrow> bool" where
  "safeMetadataValue tbl v \<longleftrightarrow>
     (let trimmed = TrimSpace v; lower = ToLower tbl trimmed in
      v = trimmed \<and> ValidString v \<and> length v \<le> 128 \<and> v \<noteq> []
      \<and> \<not> list_ex (\<lambda>c. c \<in> set forbidden_chars) v \<and> \<not> has_prefix ''bearer '' lower \<and> \<not> jwtPattern v)"

definition workspace_entry :: "(nat \<Rightarrow> nat) \<Rightarrow> (bytes \<Rightarrow> uuid option) \<Rightarrow> bytes \<times> bytes \<Rightarrow> bool" where
  "workspace_entry tbl uuid_parse = (\<lambda>(key, v).
     if \<not> namePattern key \<or> \<not> safeMetadataValue tbl v then False
     else if key \<notin> set workspaceMetadataKeys then False
     else if key = ''role'' \<or> key = ''previous_role'' then v = ''owner'' \<or> v = ''admin'' \<or> v = ''member''
     else uuid_parse v \<noteq> None)"

definition validWorkspaceMetadata :: "(nat \<Rightarrow> nat) \<Rightarrow> (bytes \<Rightarrow> uuid option) \<Rightarrow> metadata \<Rightarrow> bool" where
  "validWorkspaceMetadata tbl uuid_parse md \<longleftrightarrow>
     length md \<le> length workspaceMetadataKeys \<and> list_all (workspace_entry tbl uuid_parse) md"

definition organization_entry :: "(nat \<Rightarrow> nat) \<Rightarrow> (bytes \<Rightarrow> uuid option) \<Rightarrow> uuid \<Rightarrow> bytes \<times> bytes \<Rightarrow> bool" where
  "organization_entry tbl uuid_parse organizationID = (\<lambda>(key, v).
     if \<not> namePattern key \<or> \<not> safeMetadataValue tbl v then False
     else if key \<notin> set organizationMetadataKeys then False
     else if key = ''role'' \<or> key = ''previous_role''
     then v = ''owner'' \<or> v = ''admin'' \<or> v = ''auditor'' \<or> v = ''member''
     else if key = ''policy_version'' \<or> key = ''revision'' \<or> key = ''previous_revision''
     then (case Atoi v of None \<Rightarrow> False | Some n \<Rightarrow> 0 < n \<and> itoa n = v)
     else if key = ''status'' \<or> key = ''previous_status''
     then v \<in> set [''active'', ''archived'', ''dissolved'', ''pending'', ''accepted'', ''revoked'', ''expired'',
            ''approved'', ''rejected'', ''withdrawn'', ''superseded'']
     else if key = ''content_digest'' then canonical_digest tbl v
     else (case uuid_parse v of None \<Rightarrow> False | Some u \<Rightarrow> \<not> (key = ''organization_id'' \<and> u \<noteq> organizationID)))"

definition validOrganizationMetadata ::
  "(nat \<Rightarrow> nat) \<Rightarrow> (bytes \<Rightarrow> uuid option) \<Rightarrow> metadata \<Rightarrow> uuid option \<Rightarrow> bool" where
  "validOrganizationMetadata tbl uuid_parse md organizationID \<longleftrightarrow>
     (case organizationID of
        None \<Rightarrow> False
      | Some o' \<Rightarrow> length md \<le> length organizationMetadataKeys \<and> list_all (organization_entry tbl uuid_parse o') md)"

text \<open>The checks of an agent event: first the scopes, which combinations of keys they admit, then
  each entry.\<close>

definition has_key :: "metadata \<Rightarrow> bytes \<Rightarrow> bool" where
  "has_key md k \<longleftrightarrow> map_of md k \<noteq> None"

definition value_of :: "metadata \<Rightarrow> bytes \<Rightarrow> bytes" where
  "value_of md k = (case map_of md k of None \<Rightarrow> [] | Some v \<Rightarrow> v)"

definition official_provenance :: "metadata \<Rightarrow> bool" where
  "official_provenance md \<longleftrightarrow> has_key md ''platform_id'' \<or> has_key md ''official_release_id''
     \<or> has_key md ''official_release_revision_id'' \<or> has_key md ''product_context_scope''"

definition delivery_verification :: "bytes \<Rightarrow> bool" where
  "delivery_verification eventType \<longleftrightarrow> eventType = ''agent_official_delivery_verification_recorded''"

definition owner_scope_ok :: "bytes \<Rightarrow> metadata \<Rightarrow> bool" where
  "owner_scope_ok eventType md =
     (if delivery_verification eventType
         \<and> (value_of md ''owner_scope'' \<noteq> ''USER'' \<or> \<not> has_key md ''official_release_revision_id''
            \<or> has_key md ''platform_id'' \<or> has_key md ''official_release_id'' \<or> has_key md ''product_context_scope''
            \<or> has_key md ''source_owner_scope'' \<or> has_key md ''source_workspace_id''
            \<or> has_key md ''source_organization_id'')
      then False
      else if has_key md ''workspace_id''
         \<and> (\<not> has_key md ''owner_scope'' \<or> value_of md ''owner_scope'' \<noteq> ''WORKSPACE''
            \<or> has_key md ''tenant_id'' \<or> has_key md ''owner_id'')
      then False
      else if \<not> has_key md ''owner_scope'' then True
      else if value_of md ''owner_scope'' = ''USER'' then \<not> has_key md ''workspace_id''
      else if value_of md ''owner_scope'' = ''WORKSPACE''
      then \<not> (\<not> has_key md ''workspace_id'' \<or> has_key md ''tenant_id'' \<or> has_key md ''owner_id'')
         \<and> (eventType = ''agent_definition_published'' \<or> eventType = ''agent_version_published''
            \<or> has_prefix ''agent_experience_candidate_'' eventType)
      else False)"

definition source_scope_ok :: "bytes \<Rightarrow> metadata \<Rightarrow> bool" where
  "source_scope_ok eventType md =
     (let workspace = has_key md ''source_workspace_id''; organization = has_key md ''source_organization_id'';
          scope = value_of md ''source_owner_scope''; official = official_provenance md in
      if has_key md ''source_owner_scope'' \<or> workspace \<or> organization
      then (if \<not> has_key md ''source_owner_scope'' \<or> \<not> has_key md ''owner_scope'' \<or> value_of md ''owner_scope'' \<noteq> ''USER''
            then False
            else if eventType \<noteq> ''agent_installation_created''
               \<and> (eventType \<noteq> ''agent_installation_managed_version_selected'' \<or> scope \<noteq> ''PLATFORM'')
            then False
            else if scope = ''USER'' then \<not> (workspace \<or> organization \<or> official)
            else if scope = ''WORKSPACE'' then \<not> (\<not> workspace \<or> organization \<or> official)
            else if scope = ''ORGANIZATION'' then \<not> (workspace \<or> \<not> organization \<or> official)
            else if scope = ''PLATFORM''
            then \<not> (workspace \<or> organization \<or> \<not> has_key md ''platform_id'' \<or> \<not> has_key md ''official_release_id''
                  \<or> \<not> has_key md ''official_release_revision_id'' \<or> \<not> has_key md ''product_context_scope'')
            else False)
      else \<not> (official \<and> \<not> delivery_verification eventType))"

definition agent_entry ::
  "(nat \<Rightarrow> nat) \<Rightarrow> (bytes \<Rightarrow> uuid option) \<Rightarrow> bytes \<Rightarrow> metadata \<Rightarrow> bytes \<times> bytes \<Rightarrow> bool" where
  "agent_entry tbl uuid_parse eventType md = (\<lambda>(key, v).
     let candidate = has_prefix ''agent_experience_candidate_'' eventType in
     if \<not> namePattern key then False
     else if key \<notin> set agentMetadataKeys \<or> \<not> safeMetadataValue tbl v then False
     else if key = ''owner_scope'' \<or> key = ''source_owner_scope'' then True
     else if key = ''product_context_scope''
     then \<not> (value_of md ''source_owner_scope'' \<noteq> ''PLATFORM''
            \<or> (value_of md ''product_context_scope'' \<noteq> ''USER'' \<and> value_of md ''product_context_scope'' \<noteq> ''WORKSPACE''
               \<and> value_of md ''product_context_scope'' \<noteq> ''ORGANIZATION''))
     else if key = ''decision'' then \<not> (\<not> candidate \<or> (v \<noteq> ''APPROVED'' \<and> v \<noteq> ''REJECTED''))
     else if key = ''reason_code'' then \<not> (\<not> candidate \<or> \<not> namePattern v)
     else if key = ''verification_status''
     then \<not> (\<not> delivery_verification eventType
            \<or> (v \<noteq> ''catalog_visible'' \<and> v \<noteq> ''signature_verified'' \<and> v \<noteq> ''compatible'' \<and> v \<noteq> ''installed''
               \<and> v \<noteq> ''activated'' \<and> v \<noteq> ''failed''))
     else if key = ''content_digest'' then canonical_digest tbl v
     else \<not> (key = ''experience_candidate_id'' \<and> \<not> candidate) \<and> uuid_parse v \<noteq> None)"

definition validMetadata ::
  "(nat \<Rightarrow> nat) \<Rightarrow> (bytes \<Rightarrow> uuid option) \<Rightarrow> bytes \<Rightarrow> metadata \<Rightarrow> uuid option \<Rightarrow> bool" where
  "validMetadata tbl uuid_parse eventType md organizationID =
     (if md = [] then True
      else if length md > 12 then False
      else if has_prefix ''workspace_'' eventType then validWorkspaceMetadata tbl uuid_parse md
      else if has_prefix ''organization_'' eventType then validOrganizationMetadata tbl uuid_parse md organizationID
      else if \<not> has_prefix ''agent_'' eventType \<and> \<not> has_prefix ''runtime_binding_'' eventType then False
      else owner_scope_ok eventType md \<and> source_scope_ok eventType md
         \<and> list_all (agent_entry tbl uuid_parse eventType md) md)"

definition validEvent :: "(nat \<Rightarrow> nat) \<Rightarrow> (bytes \<Rightarrow> uuid option) \<Rightarrow> Event \<Rightarrow> bool" where
  "validEvent tbl uuid_parse e =
     (if \<not> namePattern (ev_EventType e)
         \<or> (ev_Outcome e \<noteq> OutcomeSuccess \<and> ev_Outcome e \<noteq> OutcomeFailure \<and> ev_Outcome e \<noteq> OutcomeDenied)
         \<or> (ev_ReasonCode e \<noteq> [] \<and> \<not> namePattern (ev_ReasonCode e))
         \<or> (ev_ObjectType e \<noteq> [] \<and> \<not> namePattern (ev_ObjectType e))
         \<or> (ev_RequestID e \<noteq> [] \<and> \<not> requestPattern (ev_RequestID e))
         \<or> (length (ev_IPHMAC e) \<noteq> 0 \<and> length (ev_IPHMAC e) \<noteq> 32)
      then False
      else if ev_ActorUserID e = Some Nil_uuid \<or> ev_DeviceID e = Some Nil_uuid
         \<or> ev_OrganizationID e = Some Nil_uuid \<or> ev_ObjectID e = Some Nil_uuid
      then False
      else if has_prefix ''organization_'' (ev_EventType e) \<noteq> (ev_OrganizationID e \<noteq> None) then False
      else validMetadata tbl uuid_parse (ev_EventType e) (ev_Metadata e) (ev_OrganizationID e))"

section \<open>The recorder\<close>

text \<open>\<open>NULLIF(v, '')\<close> and \<open>nilIfEmpty\<close>: an empty value is stored as NULL.\<close>

definition nullif :: "bytes \<Rightarrow> bytes option" where
  "nullif v = (if v = [] then None else Some v)"

definition event_row :: "uuid \<Rightarrow> instant \<Rightarrow> Event \<Rightarrow> audit_row" where
  "event_row eventID at e = \<lparr>a_id = eventID, a_event_type = ev_EventType e, a_actor_user_id = ev_ActorUserID e,
     a_device_id = ev_DeviceID e, a_object_type = nullif (ev_ObjectType e), a_object_id = ev_ObjectID e,
     a_outcome = ev_Outcome e, a_reason_code = nullif (ev_ReasonCode e), a_request_id = nullif (ev_RequestID e),
     a_ip_hmac = nullif (ev_IPHMAC e), a_metadata = ev_Metadata e, a_created_at = at,
     a_organization_id = ev_OrganizationID e, a_operator_identity = None\<rparr>"

definition Record_event ::
  "(nat \<Rightarrow> nat) \<Rightarrow> (bytes \<Rightarrow> uuid option) \<Rightarrow> bool \<Rightarrow> uuid option \<Rightarrow> instant \<Rightarrow> Event \<Rightarrow> db \<Rightarrow> audit_error option \<times> db" where
  "Record_event tbl uuid_parse fails draw now e d =
     (if \<not> validEvent tbl uuid_parse e then (Some ErrInvalidEvent, d)
      else case (if ev_ID e = Nil_uuid then draw else Some (ev_ID e)) of
          None \<Rightarrow> (Some AuditIdentifierUnavailable, d)
        | Some eventID \<Rightarrow>
            let at = (if ev_OccurredAt e = zero_time then now else ev_OccurredAt e) in
            if fails then (Some AuditNotRecorded, d)
            else (case insert_audit (event_row eventID at e) d of
                None \<Rightarrow> (Some AuditNotRecorded, d) | Some d' \<Rightarrow> (None, d')))"

section \<open>Properties\<close>

definition metadata_keys :: "bytes \<Rightarrow> bytes list" where
  "metadata_keys eventType = (if has_prefix ''workspace_'' eventType then workspaceMetadataKeys
     else if has_prefix ''organization_'' eventType then organizationMetadataKeys else agentMetadataKeys)"

text \<open>A value that passed the check can be neither an address, a path, structured text nor a token.\<close>

lemma safeMetadataValueD:
  assumes "safeMetadataValue tbl v"
  shows "v \<noteq> []" "length v \<le> 128" "set v \<inter> set forbidden_chars = {}" "\<not> jwtPattern v"
  using assms by (auto simp: safeMetadataValue_def Let_def list_ex_iff)

lemma entry_checked:
  "workspace_entry tbl uuid_parse (k, v) \<Longrightarrow> k \<in> set workspaceMetadataKeys \<and> safeMetadataValue tbl v"
  "organization_entry tbl uuid_parse g (k, v) \<Longrightarrow> k \<in> set organizationMetadataKeys \<and> safeMetadataValue tbl v"
  "agent_entry tbl uuid_parse t md (k, v) \<Longrightarrow> k \<in> set agentMetadataKeys \<and> safeMetadataValue tbl v"
  by (simp_all add: workspace_entry_def organization_entry_def agent_entry_def Let_def split: if_splits)

lemma validMetadata_entries:
  assumes "validMetadata tbl uuid_parse t md g" "(k, v) \<in> set md"
  shows "k \<in> set (metadata_keys t) \<and> safeMetadataValue tbl v"
proof -
  have "md \<noteq> []" using assms(2) by auto
  with assms show ?thesis
    unfolding validMetadata_def metadata_keys_def
    by (auto simp: validWorkspaceMetadata_def validOrganizationMetadata_def list_all_iff
        split: if_splits option.splits dest: entry_checked)
qed

lemma validEvent_organization:
  "validEvent tbl uuid_parse e \<Longrightarrow> has_prefix ''organization_'' (ev_EventType e) \<longleftrightarrow> ev_OrganizationID e \<noteq> None"
  by (simp add: validEvent_def split: if_splits)

lemma validEvent_metadata:
  "validEvent tbl uuid_parse e \<Longrightarrow> validMetadata tbl uuid_parse (ev_EventType e) (ev_Metadata e) (ev_OrganizationID e)"
  by (simp add: validEvent_def split: if_splits)

lemma Record_event_cases:
  assumes "Record_event tbl uuid_parse fails draw now e d = (x, d')"
  obtains (refused) err where "x = Some err" "d' = d"
  | (recorded) i at where "x = None" "validEvent tbl uuid_parse e" "insert_audit (event_row i at e) d = Some d'"
      "i \<in> {ev_ID e} \<union> set_option draw" "at \<in> {now, ev_OccurredAt e}"
  using assms by (auto simp: Record_event_def Let_def split: if_splits option.splits)

text \<open>
  C31. Whatever the recorder writes is one row whose metadata has only the keys of its kind of event
  and only non-empty values of at most 128 bytes without an \<open>@\<close>, a slash, a quote or a bracket, that
  do not look like a signed token; only organization events name an organization. A refused event
  leaves the log as it was.
\<close>

theorem recorded_event_safe:
  assumes "Record_event tbl uuid_parse fails draw now e d = (x, d')"
  shows "if x = None
    then \<exists>row. d' = d\<lparr>audit_events := audit_events d @ [row]\<rparr> \<and> a_id row \<notin> a_id ` set (audit_events d)
      \<and> a_event_type row = ev_EventType e \<and> a_actor_user_id row = ev_ActorUserID e
      \<and> (a_organization_id row \<noteq> None \<longleftrightarrow> has_prefix ''organization_'' (a_event_type row))
      \<and> (\<forall>(k, v) \<in> set (a_metadata row). k \<in> set (metadata_keys (a_event_type row))
           \<and> v \<noteq> [] \<and> length v \<le> 128 \<and> set v \<inter> set forbidden_chars = {} \<and> \<not> jwtPattern v)
    else d' = d"
  using assms
proof (cases rule: Record_event_cases)
  case (recorded i at)
  let ?r = "event_row i at e"
  have "k \<in> set (metadata_keys (ev_EventType e)) \<and> v \<noteq> [] \<and> length v \<le> 128
      \<and> set v \<inter> set forbidden_chars = {} \<and> \<not> jwtPattern v" if "(k, v) \<in> set (ev_Metadata e)" for k v
    using validMetadata_entries [OF validEvent_metadata [OF recorded(2)] that] safeMetadataValueD [of tbl v]
    by blast
  then have "\<forall>(k, v) \<in> set (ev_Metadata e). k \<in> set (metadata_keys (ev_EventType e)) \<and> v \<noteq> []
      \<and> length v \<le> 128 \<and> set v \<inter> set forbidden_chars = {} \<and> \<not> jwtPattern v" by blast
  with insert_audit_Some [OF recorded(3)] validEvent_organization [OF recorded(2)] show ?thesis
    unfolding if_P [OF recorded(1)] by (intro exI [of _ ?r]) (simp add: event_row_def)
qed simp

definition sample_event :: Event where
  "sample_event = \<lparr>ev_ID = Nil_uuid, ev_EventType = ''workspace_member_removed'', ev_ActorUserID = None,
     ev_DeviceID = None, ev_OrganizationID = None, ev_ObjectType = ''workspace'', ev_ObjectID = None,
     ev_Outcome = ''success'', ev_ReasonCode = [], ev_RequestID = [], ev_IPHMAC = [],
     ev_Metadata = [(''role'', ''member'')], ev_OccurredAt = 7\<rparr>"

lemma sample_value_safe: "safeMetadataValue tbl ''member''"
proof -
  have "visible ''member''" by (simp add: visible_def)
  then have "TrimSpace ''member'' = ''member''" "runes ''member'' = map code ''member''"
    by (rule TrimSpace_visible, rule visible_runes)
  moreover have "pieces ''member'' = map (\<lambda>c. (code c, [c])) ''member''" by (rule pieces_ascii) simp
  ultimately show ?thesis
    by (simp add: safeMetadataValue_def ValidString_def ToLower_def lower_rune_def encode_rune_def forbidden_chars_def
        jwtPattern_def char_eval)
qed

theorem recorded_event_safe_witness:
  "fst (Record_event id (\<lambda>_. None) False (Some 5) 9 sample_event empty_db) = None
   \<and> (\<exists>row. audit_events (snd (Record_event id (\<lambda>_. None) False (Some 5) 9 sample_event empty_db)) = [row]
        \<and> a_metadata row = [(''role'', ''member'')])"
proof -
  let ?x = "Record_event id (\<lambda>_. None) False (Some 5) 9 sample_event empty_db"
  have "validEvent id (\<lambda>_. None) sample_event"
    by (simp add: validEvent_def sample_event_def validMetadata_def validWorkspaceMetadata_def workspace_entry_def
        workspaceMetadataKeys_def lower_letter_def decimal_def OutcomeSuccess_def sample_value_safe)
  then have run: "?x = (None, empty_db\<lparr>audit_events := [event_row 5 7 sample_event]\<rparr>)"
    by (simp add: Record_event_def sample_event_def zero_time_def insert_audit_def event_row_def nullif_def
        empty_db_def exists_row_def)
  from recorded_event_safe [OF run] show ?thesis
    unfolding run by (simp add: empty_db_def event_row_def sample_event_def)
qed

end
