(* ===== verification/Account.thy ===== *)
theory Account
  imports Lifecycle Verification AuditLog
begin

text \<open>
  \<open>internal/account\<close>: registration, password and one-time-code login, password reset, identity
  binding and removal, password change, and the deletion request with its recovery window, with
  \<open>internal/legal\<close> and \<open>internal/space\<close>. The tables are those of the other components and the
  account tables; a failed transaction leaves them as they were. The arguments \<open>f\<close> and \<open>g\<close> say which
  statement and which query of a loop over lookup candidates fails.
\<close>

section \<open>Tables\<close>

record identity_row =
  idn_id :: uuid
  idn_user_id :: uuid
  idn_kind :: IdentityKind
  idn_encryption_key_id :: bytes
  idn_nonce :: bytes
  idn_ciphertext :: bytes
  idn_lookup_key_id :: bytes
  idn_lookup_hmac :: bytes
  idn_verified_at :: "instant option"

record credential_row =
  pc_user_id :: uuid
  pc_password_hash :: bytes
  pc_params_version :: int
  pc_changed_at :: instant

record acceptance_row =
  la_id :: uuid
  la_user_id :: uuid
  la_document_type :: bytes
  la_document_version :: bytes
  la_accepted_at :: instant

record account_db =
  core :: db
  identities :: "identity_row list"
  password_credentials :: "credential_row list"
  legal_acceptances :: "acceptance_row list"
  verification_challenges :: "Challenge list"

text \<open>Insertions with the constraints of the schema: checks first, then the unique indexes in the
  order of their creation, then the foreign keys.\<close>

definition insert_user :: "user_row \<Rightarrow> account_db \<Rightarrow> account_db option" where
  "insert_user r a =
     (if exists_row (\<lambda>u. u_id u = u_id r) (users (core a)) then None
      else Some (a\<lparr>core := (core a)\<lparr>users := users (core a) @ [r]\<rparr>\<rparr>))"

datatype identity_violation = DuplicateLookup | OtherIdentityViolation

definition insert_identity :: "identity_row \<Rightarrow> account_db \<Rightarrow> identity_violation + account_db" where
  "insert_identity r a =
     (if (idn_kind r \<noteq> ''email'' \<and> idn_kind r \<noteq> ''phone'') \<or> length (idn_nonce r) \<noteq> 12
         \<or> length (idn_ciphertext r) \<le> 16 \<or> length (idn_lookup_hmac r) \<noteq> 32
         \<or> exists_row (\<lambda>i. idn_id i = idn_id r) (identities a)
      then Inl OtherIdentityViolation
      else if exists_row (\<lambda>i. idn_kind i = idn_kind r \<and> idn_lookup_hmac i = idn_lookup_hmac r) (identities a)
      then Inl DuplicateLookup
      else if exists_row (\<lambda>i. idn_user_id i = idn_user_id r \<and> idn_kind i = idn_kind r) (identities a)
         \<or> \<not> exists_row (\<lambda>u. u_id u = idn_user_id r) (users (core a))
      then Inl OtherIdentityViolation
      else Inr (a\<lparr>identities := identities a @ [r]\<rparr>))"

definition insert_credential :: "credential_row \<Rightarrow> account_db \<Rightarrow> account_db option" where
  "insert_credential r a =
     (if \<not> 0 < pc_params_version r \<or> exists_row (\<lambda>c. pc_user_id c = pc_user_id r) (password_credentials a)
         \<or> \<not> exists_row (\<lambda>u. u_id u = pc_user_id r) (users (core a))
      then None else Some (a\<lparr>password_credentials := password_credentials a @ [r]\<rparr>))"

definition insert_space :: "space_row \<Rightarrow> account_db \<Rightarrow> account_db option" where
  "insert_space r a =
     (if exists_row (\<lambda>p. ps_id p = ps_id r) (personal_spaces (core a))
         \<or> exists_row (\<lambda>p. ps_owner_user_id p = ps_owner_user_id r) (personal_spaces (core a))
         \<or> \<not> exists_row (\<lambda>u. u_id u = ps_owner_user_id r) (users (core a))
      then None else Some (a\<lparr>core := (core a)\<lparr>personal_spaces := personal_spaces (core a) @ [r]\<rparr>\<rparr>))"

definition insert_acceptance :: "acceptance_row \<Rightarrow> account_db \<Rightarrow> account_db option" where
  "insert_acceptance r a =
     (if exists_row (\<lambda>l. la_id l = la_id r) (legal_acceptances a)
         \<or> exists_row (\<lambda>l. la_user_id l = la_user_id r \<and> la_document_type l = la_document_type r
              \<and> la_document_version l = la_document_version r) (legal_acceptances a)
         \<or> \<not> exists_row (\<lambda>u. u_id u = la_user_id r) (users (core a))
      then None else Some (a\<lparr>legal_acceptances := legal_acceptances a @ [r]\<rparr>))"

section \<open>Data\<close>

datatype account_error =
    InvalidRequest | VerificationRequired | IdentityConflict | InvalidCredentials
  | AccountPendingDeletion | AccountDisabled | ServiceUnavailable | ReceiptUnavailable
  | AccountNotFound | LastIdentity | DeletionWindowExpired | OwnerTransferRequired nat

record RegisterCommand =
  rg_Kind :: IdentityKind
  rg_Identity :: bytes
  rg_VerificationReceipt :: bytes
  rg_Password :: bytes
  rg_Nickname :: bytes
  rg_TermsVersion :: bytes
  rg_PrivacyVersion :: bytes

record Principal =
  pr_UserID :: uuid
  pr_PersonalSpaceID :: uuid
  pr_Nickname :: bytes

record Profile =
  pf_UserID :: uuid
  pf_PersonalSpaceID :: uuid
  pf_Nickname :: bytes
  pf_Status :: bytes
  pf_IdentityKinds :: "IdentityKind list"
  pf_OwnedWorkspaceCount :: nat

record RegistrationRecord =
  rr_Claims :: ReceiptClaims
  rr_Direct :: bool
  rr_UserID :: uuid
  rr_IdentityID :: uuid
  rr_PersonalSpaceID :: uuid
  rr_TermsAcceptanceID :: uuid
  rr_PrivacyAcceptanceID :: uuid
  rr_AuditEventID :: uuid
  rr_Nickname :: bytes
  rr_Sealed :: SealedIdentity
  rr_PasswordHash :: bytes
  rr_ParamsVersion :: int
  rr_TermsVersion :: bytes
  rr_PrivacyVersion :: bytes
  rr_CreatedAt :: instant

record Credential =
  cd_UserID :: uuid
  cd_PersonalSpaceID :: uuid
  cd_Nickname :: bytes
  cd_Status :: bytes
  cd_PasswordHash :: bytes
  cd_ParamsVersion :: int

record LoginReceiptRecord =
  lr_Claims :: ReceiptClaims
  lr_UserID :: uuid
  lr_AuditEventID :: uuid
  lr_ConsumedAt :: instant

record PasswordResetRecord =
  rs_Claims :: ReceiptClaims
  rs_PasswordHash :: bytes
  rs_ParamsVersion :: int
  rs_AuditEventID :: uuid
  rs_ChangedAt :: instant

record IdentityBindingRecord =
  ib_Claims :: ReceiptClaims
  ib_UserID :: uuid
  ib_IdentityID :: uuid
  ib_AuditEventID :: uuid
  ib_Sealed :: SealedIdentity
  ib_CreatedAt :: instant

record IdentityRemovalRecord =
  ir_UserID :: uuid
  ir_Kind :: IdentityKind
  ir_AuditEventID :: uuid
  ir_RemovedAt :: instant

record PasswordChangeRecord =
  pw_UserID :: uuid
  pw_CurrentSessionID :: uuid
  pw_PasswordHash :: bytes
  pw_ParamsVersion :: int
  pw_AuditEventID :: uuid
  pw_ChangedAt :: instant

record DeletionRequestRecord =
  dq_Claims :: ReceiptClaims
  dq_UserID :: uuid
  dq_AuditEventID :: uuid
  dq_RequestedAt :: instant

record DeletionRecoveryRecord =
  dy_Claims :: ReceiptClaims
  dy_UserID :: uuid
  dy_AuditEventID :: uuid
  dy_RecoveredAt :: instant

section \<open>Transactions\<close>

definition written :: "'a option \<Rightarrow> account_error + 'a" where
  "written x = (case x of None \<Rightarrow> Inl ServiceUnavailable | Some v \<Rightarrow> Inr v)"

definition statement :: "bool \<Rightarrow> 'a \<Rightarrow> account_error + 'a" where
  "statement fails v = (if fails then Inl ServiceUnavailable else Inr v)"

lemma written_Inr [simp]: "written x = Inr v \<longleftrightarrow> x = Some v"
  by (cases x) (simp_all add: written_def)

lemma statement_Inr [simp]: "statement fails v = Inr w \<longleftrightarrow> \<not> fails \<and> w = v"
  by (auto simp: statement_def)

section \<open>Repository\<close>

definition classifyWriteError :: "identity_violation \<Rightarrow> account_error" where
  "classifyWriteError v = (case v of DuplicateLookup \<Rightarrow> IdentityConflict | OtherIdentityViolation \<Rightarrow> ServiceUnavailable)"

definition sealedMatchesClaims :: "crypto \<Rightarrow> IdentityCodec \<Rightarrow> SealedIdentity \<Rightarrow> ReceiptClaims \<Rightarrow> bool" where
  "sealedMatchesClaims cr ic sealed claims =
     list_ex (\<lambda>c. li_KeyID c = si_LookupKeyID sealed \<and> li_HMAC c = si_LookupHMAC sealed)
       (LookupCandidates cr ic (rc_Kind claims) (rc_NormalizedIdentity claims))"

definition lockAvailableReceipt ::
  "bool \<Rightarrow> crypto \<Rightarrow> IdentityCodec \<Rightarrow> ReceiptClaims \<Rightarrow> account_db \<Rightarrow> account_error + unit" where
  "lockAvailableReceipt fails cr ic claims a =
     (if fails then Inl ServiceUnavailable
      else case find (\<lambda>c. ch_ID c = rc_ChallengeID claims \<and> ch_Purpose c = rc_Purpose claims) (verification_challenges a) of
        None \<Rightarrow> Inl ReceiptUnavailable
      | Some c \<Rightarrow>
          if ch_ConsumedAt c = None \<or> ch_ReceiptConsumedAt c \<noteq> None \<or> ch_IdentityKind c \<noteq> rc_Kind claims
          then Inl ReceiptUnavailable
          else if list_ex (\<lambda>x. li_KeyID x = ch_TargetLookupKeyID c \<and> li_HMAC x = ch_TargetLookupHMAC c)
                 (LookupCandidates cr ic (rc_Kind claims) (rc_NormalizedIdentity claims))
          then Inr () else Inl ReceiptUnavailable)"

definition matches :: "IdentityKind \<Rightarrow> LookupIndex \<Rightarrow> identity_row \<Rightarrow> bool" where
  "matches kind c i \<longleftrightarrow> idn_kind i = kind \<and> idn_lookup_key_id i = li_KeyID c \<and> idn_lookup_hmac i = li_HMAC c"

fun find_user :: "schedule \<Rightarrow> IdentityKind \<Rightarrow> LookupIndex list \<Rightarrow> identity_row list \<Rightarrow> account_error + uuid option" where
  "find_user f kind [] t = Inr None"
| "find_user f kind (c # cs) t =
     (if f 0 then Inl ServiceUnavailable
      else case find (matches kind c) t of
          None \<Rightarrow> find_user (later 1 f) kind cs t
        | Some i \<Rightarrow> Inr (Some (idn_user_id i)))"

definition findUserByClaims ::
  "schedule \<Rightarrow> crypto \<Rightarrow> IdentityCodec \<Rightarrow> ReceiptClaims \<Rightarrow> account_db \<Rightarrow> account_error + uuid option" where
  "findUserByClaims f cr ic claims a =
     find_user f (rc_Kind claims) (LookupCandidates cr ic (rc_Kind claims) (rc_NormalizedIdentity claims)) (identities a)"

fun exists_identity :: "schedule \<Rightarrow> IdentityKind \<Rightarrow> LookupIndex list \<Rightarrow> identity_row list \<Rightarrow> account_error + bool" where
  "exists_identity f kind [] t = Inr False"
| "exists_identity f kind (c # cs) t =
     (if f 0 then Inl ServiceUnavailable
      else if exists_row (matches kind c) t then Inr True
      else exists_identity (later 1 f) kind cs t)"

definition identityExists ::
  "schedule \<Rightarrow> crypto \<Rightarrow> IdentityCodec \<Rightarrow> ReceiptClaims \<Rightarrow> account_db \<Rightarrow> account_error + bool" where
  "identityExists f cr ic claims a =
     exists_identity f (rc_Kind claims) (LookupCandidates cr ic (rc_Kind claims) (rc_NormalizedIdentity claims)) (identities a)"

text \<open>The advisory lock of an identity: the candidate with the least key identifier and the first
  eight bytes of its HMAC, big-endian.\<close>

definition stable_candidate :: "LookupIndex \<Rightarrow> LookupIndex list \<Rightarrow> LookupIndex" where
  "stable_candidate c cs = foldl (\<lambda>stable c. if li_KeyID c < li_KeyID stable then c else stable) c cs"

definition identity_lock :: "crypto \<Rightarrow> IdentityCodec \<Rightarrow> ReceiptClaims \<Rightarrow> account_error + 64 word" where
  "identity_lock cr ic claims =
     (case LookupCandidates cr ic (rc_Kind claims) (rc_NormalizedIdentity claims) of
        [] \<Rightarrow> Inl ReceiptUnavailable
      | c # cs \<Rightarrow>
          let stable = stable_candidate c cs in
          if length (li_HMAC stable) < 8 then Inl ReceiptUnavailable else Inr (lock_id (li_HMAC stable)))"

definition lockIdentityScope ::
  "bool \<Rightarrow> crypto \<Rightarrow> IdentityCodec \<Rightarrow> ReceiptClaims \<Rightarrow> account_error + unit" where
  "lockIdentityScope fails cr ic claims = andthen (identity_lock cr ic claims) (\<lambda>_. statement fails ())"

definition markReceiptConsumed :: "bool \<Rightarrow> uuid \<Rightarrow> instant \<Rightarrow> account_db \<Rightarrow> account_error + account_db" where
  "markReceiptConsumed fails challengeID at a =
     (let target = (\<lambda>c. ch_ID c = challengeID \<and> ch_ConsumedAt c \<noteq> None \<and> ch_ReceiptConsumedAt c = None);
          late = (\<lambda>c. target c \<and> (case ch_ConsumedAt c of None \<Rightarrow> False | Some t \<Rightarrow> at < t)) in
      if fails \<or> exists_row late (verification_challenges a) then Inl ServiceUnavailable
      else if length (filter target (verification_challenges a)) \<noteq> 1 then Inl ReceiptUnavailable
      else Inr (a\<lparr>verification_challenges :=
             update_where target (\<lambda>c. c\<lparr>ch_ReceiptConsumedAt := Some at\<rparr>) (verification_challenges a)\<rparr>))"

definition insertAuditEvent ::
  "bool \<Rightarrow> uuid \<Rightarrow> bytes \<Rightarrow> uuid \<Rightarrow> instant \<Rightarrow> account_db \<Rightarrow> account_error + account_db" where
  "insertAuditEvent fails eventID eventType userID at a =
     andthen (statement fails ()) (\<lambda>_.
       andthen (written (insert_audit \<lparr>a_id = eventID, a_event_type = eventType, a_actor_user_id = Some userID,
             a_device_id = None, a_object_type = Some ''user'', a_object_id = Some userID, a_outcome = ''success'',
             a_reason_code = None,
             a_request_id = None, a_ip_hmac = None, a_metadata = [], a_created_at = at, a_organization_id = None, a_operator_identity = None\<rparr> (core a)))
         (\<lambda>d. Inr (a\<lparr>core := d\<rparr>)))"

definition insertBrowserLoginAudit :: "bool \<Rightarrow> uuid \<Rightarrow> uuid \<Rightarrow> instant \<Rightarrow> account_db \<Rightarrow> account_error + account_db" where
  "insertBrowserLoginAudit fails eventID userID at a =
     andthen (statement fails ()) (\<lambda>_.
       andthen (written (insert_audit \<lparr>a_id = eventID, a_event_type = ''browser_login'', a_actor_user_id = Some userID,
             a_device_id = None, a_object_type = None, a_object_id = None, a_outcome = ''success'',
             a_reason_code = None,
             a_request_id = None, a_ip_hmac = None, a_metadata = [], a_created_at = at, a_organization_id = None, a_operator_identity = None\<rparr> (core a)))
         (\<lambda>d. Inr (a\<lparr>core := d\<rparr>)))"

definition accountStatusForUpdate :: "bool \<Rightarrow> uuid \<Rightarrow> account_db \<Rightarrow> account_error + bytes" where
  "accountStatusForUpdate fails userID a =
     (if fails then Inl ServiceUnavailable
      else case find (\<lambda>u. u_id u = userID) (users (core a)) of
          None \<Rightarrow> Inl AccountNotFound | Some u \<Rightarrow> Inr (u_status u))"

text \<open>\<open>UPDATE password_credentials\<close> with its CHECK constraint: the number of rows and the new table.\<close>

definition set_credential ::
  "uuid \<Rightarrow> bytes \<Rightarrow> int \<Rightarrow> instant \<Rightarrow> account_db \<Rightarrow> account_error + nat \<times> account_db" where
  "set_credential userID hash version at a =
     (let n = length (filter (\<lambda>c. pc_user_id c = userID) (password_credentials a)) in
      if 0 < n \<and> version \<le> 0 then Inl ServiceUnavailable
      else Inr (n, a\<lparr>password_credentials := update_where (\<lambda>c. pc_user_id c = userID)
             (\<lambda>c. c\<lparr>pc_password_hash := hash, pc_params_version := version, pc_changed_at := at\<rparr>)
             (password_credentials a)\<rparr>))"

definition InsertPersonal :: "uuid \<Rightarrow> uuid \<Rightarrow> bytes \<Rightarrow> account_db \<Rightarrow> account_db option" where
  "InsertPersonal spaceID ownerID displayName a =
     insert_space \<lparr>ps_id = spaceID, ps_owner_user_id = ownerID, ps_display_name = nullif displayName,
       ps_status = ''active''\<rparr> a"

definition identity_of :: "uuid \<Rightarrow> uuid \<Rightarrow> IdentityKind \<Rightarrow> SealedIdentity \<Rightarrow> instant option \<Rightarrow> identity_row" where
  "identity_of identityID userID kind sealed verifiedAt = \<lparr>idn_id = identityID, idn_user_id = userID, idn_kind = kind,
     idn_encryption_key_id = si_EncryptionKeyID sealed, idn_nonce = si_Nonce sealed, idn_ciphertext = si_Ciphertext sealed,
     idn_lookup_key_id = si_LookupKeyID sealed, idn_lookup_hmac = si_LookupHMAC sealed, idn_verified_at = verifiedAt\<rparr>"

definition new_user :: "uuid \<Rightarrow> bytes \<Rightarrow> user_row" where
  "new_user userID nickname = \<lparr>u_id = userID, u_nickname = nullif nickname, u_status = ''active'',
     u_password_security_version = 1, u_deletion_requested_at = None, u_deletion_finalized_at = None,
     u_administratively_disabled = False\<rparr>"

definition insert_identity_row :: "bool \<Rightarrow> identity_row \<Rightarrow> account_db \<Rightarrow> account_error + account_db" where
  "insert_identity_row fails r a =
     (if fails then Inl ServiceUnavailable
      else case insert_identity r a of Inl v \<Rightarrow> Inl (classifyWriteError v) | Inr a' \<Rightarrow> Inr a')"

text \<open>The statements of a registration from the user row on; calls 3 to 8.\<close>

definition register_rows :: "schedule \<Rightarrow> RegistrationRecord \<Rightarrow> account_db \<Rightarrow> account_error + account_db" where
  "register_rows f r a =
     andthen (statement (f 3) ()) (\<lambda>_. andthen (written (insert_user (new_user (rr_UserID r) (rr_Nickname r)) a)) (\<lambda>a1.
     andthen (insert_identity_row (f 4) (identity_of (rr_IdentityID r) (rr_UserID r) (rc_Kind (rr_Claims r)) (rr_Sealed r)
        (if rr_Direct r then None else Some (rr_CreatedAt r))) a1) (\<lambda>a2.
     andthen (statement (f 5) ()) (\<lambda>_. andthen (written (insert_credential \<lparr>pc_user_id = rr_UserID r,
        pc_password_hash = rr_PasswordHash r, pc_params_version = rr_ParamsVersion r, pc_changed_at = rr_CreatedAt r\<rparr> a2)) (\<lambda>a3.
     andthen (statement (f 6) ()) (\<lambda>_. andthen (written (InsertPersonal (rr_PersonalSpaceID r) (rr_UserID r) (rr_Nickname r) a3)) (\<lambda>a4.
     andthen (statement (f 7) ()) (\<lambda>_. andthen (written (insert_acceptance \<lparr>la_id = rr_TermsAcceptanceID r, la_user_id = rr_UserID r,
        la_document_type = ''terms'', la_document_version = rr_TermsVersion r, la_accepted_at = rr_CreatedAt r\<rparr> a4)) (\<lambda>a5.
     andthen (written (insert_acceptance \<lparr>la_id = rr_PrivacyAcceptanceID r, la_user_id = rr_UserID r,
        la_document_type = ''privacy'', la_document_version = rr_PrivacyVersion r, la_accepted_at = rr_CreatedAt r\<rparr> a5)) (\<lambda>a6.
     insertAuditEvent (f 8) (rr_AuditEventID r) ''account_registered'' (rr_UserID r) (rr_CreatedAt r) a6))))))))))"

definition Register_record ::
  "crypto \<Rightarrow> IdentityCodec \<Rightarrow> schedule \<Rightarrow> schedule \<Rightarrow> RegistrationRecord \<Rightarrow> account_db
     \<Rightarrow> account_error option \<times> account_db" where
  "Register_record cr ic f g r a = transaction
     (if rc_Purpose (rr_Claims r) \<noteq> PurposeRegistration \<or> rr_UserID r = Nil_uuid \<or> rr_IdentityID r = Nil_uuid
         \<or> rr_PersonalSpaceID r = Nil_uuid \<or> rr_TermsAcceptanceID r = Nil_uuid \<or> rr_PrivacyAcceptanceID r = Nil_uuid
         \<or> rr_AuditEventID r = Nil_uuid \<or> \<not> sealedMatchesClaims cr ic (rr_Sealed r) (rr_Claims r)
      then Inl InvalidRequest
      else if rr_Direct r \<and> (rc_ChallengeID (rr_Claims r) \<noteq> Nil_uuid \<or> rc_Kind (rr_Claims r) \<noteq> IdentityEmail)
      then Inl InvalidRequest
      else if \<not> rr_Direct r \<and> rc_ChallengeID (rr_Claims r) = Nil_uuid then Inl InvalidRequest
      else if f 0 then Inl ServiceUnavailable
      else andthen (if rr_Direct r then Inr () else lockAvailableReceipt (f 1) cr ic (rr_Claims r) a) (\<lambda>_.
        andthen (lockIdentityScope (f 2) cr ic (rr_Claims r)) (\<lambda>_.
        andthen (identityExists g cr ic (rr_Claims r) a) (\<lambda>found.
        if found then Inl IdentityConflict
        else andthen (register_rows f r a) (\<lambda>a1.
          andthen (if rr_Direct r then Inr a1
                   else markReceiptConsumed (f 9) (rc_ChallengeID (rr_Claims r)) (rr_CreatedAt r) a1) (\<lambda>a2.
          statement (f 10) a2)))))) a"

definition credential_join :: "uuid \<Rightarrow> account_db \<Rightarrow> Credential option" where
  "credential_join userID a =
     (case (find (\<lambda>u. u_id u = userID) (users (core a)), find (\<lambda>c. pc_user_id c = userID) (password_credentials a),
            find (\<lambda>p. ps_owner_user_id p = userID) (personal_spaces (core a))) of
        (Some u, Some c, Some p) \<Rightarrow> Some \<lparr>cd_UserID = u_id u, cd_PersonalSpaceID = ps_id p,
          cd_Nickname = (case u_nickname u of None \<Rightarrow> [] | Some v \<Rightarrow> v), cd_Status = u_status u,
          cd_PasswordHash = pc_password_hash c, cd_ParamsVersion = pc_params_version c\<rparr>
      | _ \<Rightarrow> None)"

fun FindCredential ::
  "schedule \<Rightarrow> IdentityKind \<Rightarrow> LookupIndex list \<Rightarrow> account_db \<Rightarrow> account_error + Credential option" where
  "FindCredential f kind [] a = Inr None"
| "FindCredential f kind (c # cs) a =
     (if f 0 then Inl ServiceUnavailable
      else case (case find (matches kind c) (identities a) of
                   None \<Rightarrow> None | Some i \<Rightarrow> credential_join (idn_user_id i) a) of
          None \<Rightarrow> FindCredential (later 1 f) kind cs a
        | Some x \<Rightarrow> Inr (Some x))"

definition FindCredentialByUserID :: "bool \<Rightarrow> uuid \<Rightarrow> account_db \<Rightarrow> account_error + Credential option" where
  "FindCredentialByUserID fails userID a =
     (if userID = Nil_uuid then Inr None
      else if fails then Inl ServiceUnavailable else Inr (credential_join userID a))"

definition UpdatePasswordHash ::
  "bool \<Rightarrow> uuid \<Rightarrow> bytes \<Rightarrow> int \<Rightarrow> instant \<Rightarrow> account_db \<Rightarrow> account_error option \<times> account_db" where
  "UpdatePasswordHash fails userID hash version at a = transaction
     (andthen (statement fails ()) (\<lambda>_. andthen (set_credential userID hash version at a) (\<lambda>(n, a1).
        if n \<noteq> 1 then Inl AccountNotFound else Inr a1))) a"

text \<open>The check of the account status shared by the login and the login receipt.\<close>

definition status_error :: "bytes \<Rightarrow> account_error option" where
  "status_error status = (if status = ''active'' then None
     else if status = ''pending_deletion'' then Some AccountPendingDeletion
     else if status = ''disabled'' then Some AccountDisabled else Some ServiceUnavailable)"

definition ConsumeLoginReceipt ::
  "crypto \<Rightarrow> IdentityCodec \<Rightarrow> schedule \<Rightarrow> (nat \<Rightarrow> schedule) \<Rightarrow> LoginReceiptRecord \<Rightarrow> account_db
     \<Rightarrow> account_error option \<times> account_db" where
  "ConsumeLoginReceipt cr ic f g r a = transaction
     (if rc_Purpose (lr_Claims r) \<noteq> PurposeLogin \<or> rc_ChallengeID (lr_Claims r) = Nil_uuid \<or> lr_UserID r = Nil_uuid
         \<or> lr_AuditEventID r = Nil_uuid \<or> lr_ConsumedAt r = zero_time
      then Inl InvalidRequest
      else if f 0 then Inl ServiceUnavailable
      else andthen (findUserByClaims (g 0) cr ic (lr_Claims r) a) (\<lambda>owner.
        if owner \<noteq> Some (lr_UserID r) then Inl InvalidCredentials
        else andthen (statement (f 1) ()) (\<lambda>_.
        andthen (accountStatusForUpdate (f 2) (lr_UserID r) a) (\<lambda>status.
        case status_error status of Some e \<Rightarrow> Inl e
        | None \<Rightarrow>
        andthen (lockAvailableReceipt (f 3) cr ic (lr_Claims r) a) (\<lambda>_.
        andthen (findUserByClaims (g 1) cr ic (lr_Claims r) a) (\<lambda>again.
        if again \<noteq> Some (lr_UserID r) then Inl InvalidCredentials
        else andthen (insertBrowserLoginAudit (f 4) (lr_AuditEventID r) (lr_UserID r) (lr_ConsumedAt r) a) (\<lambda>a1.
        andthen (markReceiptConsumed (f 5) (rc_ChallengeID (lr_Claims r)) (lr_ConsumedAt r) a1) (\<lambda>a2.
        statement (f 6) a2)))))))) a"

definition bump_security :: "uuid \<Rightarrow> account_db \<Rightarrow> account_db" where
  "bump_security userID a = a\<lparr>core := (core a)\<lparr>users := update_where (\<lambda>u. u_id u = userID)
     (\<lambda>u. u\<lparr>u_password_security_version := u_password_security_version u + 1\<rparr>) (users (core a))\<rparr>\<rparr>"

text \<open>The sessions of a user, all or those that are not yet revoked.\<close>

definition revoke_live_sessions :: "uuid \<Rightarrow> bytes \<Rightarrow> instant \<Rightarrow> account_db \<Rightarrow> account_db" where
  "revoke_live_sessions userID reason at a = a\<lparr>core := (core a)\<lparr>sessions :=
     update_where (\<lambda>s. s_user_id s = userID \<and> s_revoked_at s = None)
       (\<lambda>s. s\<lparr>s_revoked_at := Some at, s_revoked_reason := Some reason\<rparr>) (sessions (core a))\<rparr>\<rparr>"

definition ResetPassword_record ::
  "crypto \<Rightarrow> IdentityCodec \<Rightarrow> schedule \<Rightarrow> (nat \<Rightarrow> schedule) \<Rightarrow> PasswordResetRecord \<Rightarrow> account_db
     \<Rightarrow> account_error option \<times> account_db" where
  "ResetPassword_record cr ic f g r a = transaction
     (if rc_Purpose (rs_Claims r) \<noteq> PurposePasswordReset \<or> rs_AuditEventID r = Nil_uuid then Inl InvalidRequest
      else if f 0 then Inl ServiceUnavailable
      else andthen (findUserByClaims (g 0) cr ic (rs_Claims r) a) (\<lambda>owner.
        case owner of None \<Rightarrow> Inl AccountNotFound
        | Some userID \<Rightarrow>
        andthen (statement (f 1) ()) (\<lambda>_.
        andthen (accountStatusForUpdate (f 2) userID a) (\<lambda>status.
        if status \<noteq> ''active'' \<and> status \<noteq> ''pending_deletion'' then Inl AccountNotFound
        else andthen (lockAvailableReceipt (f 3) cr ic (rs_Claims r) a) (\<lambda>_.
        andthen (findUserByClaims (g 1) cr ic (rs_Claims r) a) (\<lambda>again.
        if again \<noteq> Some userID then Inl AccountNotFound
        else if f 4 then Inl ServiceUnavailable
        else andthen (set_credential userID (rs_PasswordHash r) (rs_ParamsVersion r) (rs_ChangedAt r) a) (\<lambda>(n, a1).
        if n \<noteq> 1 then Inl ServiceUnavailable
        else andthen (statement (f 5 \<or> f 6) (revoke_live_sessions userID ''password_reset'' (rs_ChangedAt r) (bump_security userID a1))) (\<lambda>a2.
        andthen (insertAuditEvent (f 7) (rs_AuditEventID r) ''password_reset'' userID (rs_ChangedAt r) a2) (\<lambda>a3.
        andthen (markReceiptConsumed (f 8) (rc_ChallengeID (rs_Claims r)) (rs_ChangedAt r) a3) (\<lambda>a4.
        statement (f 9) a4)))))))))) a"

definition BindIdentity_record ::
  "crypto \<Rightarrow> IdentityCodec \<Rightarrow> schedule \<Rightarrow> schedule \<Rightarrow> IdentityBindingRecord \<Rightarrow> account_db
     \<Rightarrow> account_error option \<times> account_db" where
  "BindIdentity_record cr ic f g r a = transaction
     (if rc_Purpose (ib_Claims r) \<noteq> PurposeBindIdentity \<or> ib_UserID r = Nil_uuid \<or> ib_IdentityID r = Nil_uuid
         \<or> ib_AuditEventID r = Nil_uuid \<or> \<not> sealedMatchesClaims cr ic (ib_Sealed r) (ib_Claims r)
      then Inl InvalidRequest
      else if f 0 \<or> f 1 then Inl ServiceUnavailable
      else andthen (accountStatusForUpdate (f 2) (ib_UserID r) a) (\<lambda>status.
        if status \<noteq> ''active'' then Inl AccountNotFound
        else andthen (lockAvailableReceipt (f 3) cr ic (ib_Claims r) a) (\<lambda>_.
        andthen (lockIdentityScope (f 4) cr ic (ib_Claims r)) (\<lambda>_.
        andthen (identityExists g cr ic (ib_Claims r) a) (\<lambda>bound.
        if bound then Inl IdentityConflict
        else if f 5 then Inl ServiceUnavailable
        else if exists_row (\<lambda>i. idn_user_id i = ib_UserID r \<and> idn_kind i = rc_Kind (ib_Claims r)) (identities a)
        then Inl IdentityConflict
        else andthen (insert_identity_row (f 6) (identity_of (ib_IdentityID r) (ib_UserID r) (rc_Kind (ib_Claims r))
               (ib_Sealed r) (Some (ib_CreatedAt r))) a) (\<lambda>a1.
        andthen (insertAuditEvent (f 7) (ib_AuditEventID r) ''identity_bound'' (ib_UserID r) (ib_CreatedAt r) a1) (\<lambda>a2.
        andthen (markReceiptConsumed (f 8) (rc_ChallengeID (ib_Claims r)) (ib_CreatedAt r) a2) (\<lambda>a3.
        statement (f 9) a3)))))))) a"

definition Profile_record :: "bool \<Rightarrow> uuid \<Rightarrow> account_db \<Rightarrow> account_error + Profile option" where
  "Profile_record fails userID a =
     (if userID = Nil_uuid \<or> fails then Inl ServiceUnavailable
      else case (find (\<lambda>u. u_id u = userID) (users (core a)), find (\<lambda>p. ps_owner_user_id p = userID) (personal_spaces (core a)),
                 filter (\<lambda>i. idn_user_id i = userID) (identities a)) of
          (Some u, Some p, i # is) \<Rightarrow> Inr (Some \<lparr>pf_UserID = u_id u, pf_PersonalSpaceID = ps_id p,
             pf_Nickname = (case u_nickname u of None \<Rightarrow> [] | Some v \<Rightarrow> v), pf_Status = u_status u,
             pf_IdentityKinds = sort (map idn_kind (i # is)),
             pf_OwnedWorkspaceCount = length (filter (\<lambda>w. ws_owner_user_id w = userID) (workspaces (core a)))\<rparr>)
        | _ \<Rightarrow> Inr None)"

definition RemoveIdentity_record :: "schedule \<Rightarrow> IdentityRemovalRecord \<Rightarrow> account_db \<Rightarrow> account_error option \<times> account_db" where
  "RemoveIdentity_record f r a = transaction
     (if ir_UserID r = Nil_uuid \<or> ir_AuditEventID r = Nil_uuid
         \<or> (ir_Kind r \<noteq> IdentityEmail \<and> ir_Kind r \<noteq> IdentityPhone) \<or> ir_RemovedAt r = zero_time
      then Inl InvalidRequest
      else if f 0 \<or> f 1 then Inl ServiceUnavailable
      else andthen (accountStatusForUpdate (f 2) (ir_UserID r) a) (\<lambda>status.
        if status \<noteq> ''active'' then Inl AccountNotFound
        else if f 3 then Inl ServiceUnavailable
        else let own = filter (\<lambda>i. idn_user_id i = ir_UserID r) (identities a) in
          if \<not> list_ex (\<lambda>i. idn_kind i = ir_Kind r) own then Inl AccountNotFound
          else if length own \<le> 1 then Inl LastIdentity
          else if f 4 then Inl ServiceUnavailable
          else if length (filter (\<lambda>i. idn_user_id i = ir_UserID r \<and> idn_kind i = ir_Kind r) (identities a)) \<noteq> 1
          then Inl AccountNotFound
          else andthen (insertAuditEvent (f 5) (ir_AuditEventID r) ''identity_removed'' (ir_UserID r) (ir_RemovedAt r)
                 (a\<lparr>identities := delete_where (\<lambda>i. idn_user_id i = ir_UserID r \<and> idn_kind i = ir_Kind r) (identities a)\<rparr>)) (\<lambda>a1.
          statement (f 6) a1))) a"

text \<open>The three statements of a password change: other devices, other sessions, entitlements of
  other devices.\<close>

definition revoke_others :: "uuid \<Rightarrow> uuid \<Rightarrow> uuid \<Rightarrow> instant \<Rightarrow> account_db \<Rightarrow> account_db" where
  "revoke_others userID sessionID deviceID at a = a\<lparr>core := (core a)\<lparr>
     devices := update_where (\<lambda>v. d_user_id v = userID \<and> d_id v \<noteq> deviceID)
       (\<lambda>v. v\<lparr>d_status := ''revoked'', d_revoked_at := coalesce (d_revoked_at v) at\<rparr>) (devices (core a)),
     sessions := update_where (\<lambda>s. s_user_id s = userID \<and> s_id s \<noteq> sessionID)
       (\<lambda>s. s\<lparr>s_revoked_at := coalesce (s_revoked_at s) at,
              s_revoked_reason := coalesce (s_revoked_reason s) ''password_change''\<rparr>) (sessions (core a)),
     issuances := update_where (\<lambda>i. i_user_id i = userID \<and> i_device_id i \<noteq> deviceID)
       (\<lambda>i. i\<lparr>i_revoked_at := coalesce (i_revoked_at i) at\<rparr>) (issuances (core a))\<rparr>\<rparr>"

definition ChangePassword_record :: "schedule \<Rightarrow> PasswordChangeRecord \<Rightarrow> account_db \<Rightarrow> account_error option \<times> account_db" where
  "ChangePassword_record f r a = transaction
     (if pw_UserID r = Nil_uuid \<or> pw_CurrentSessionID r = Nil_uuid \<or> pw_PasswordHash r = [] \<or> pw_ParamsVersion r \<le> 0
         \<or> pw_AuditEventID r = Nil_uuid \<or> pw_ChangedAt r = zero_time
      then Inl InvalidRequest
      else if f 0 \<or> f 1 then Inl ServiceUnavailable
      else andthen (accountStatusForUpdate (f 2) (pw_UserID r) a) (\<lambda>status.
        if status \<noteq> ''active'' then Inl AccountNotFound
        else if f 3 then Inl ServiceUnavailable
        else case find (\<lambda>s. s_id s = pw_CurrentSessionID r \<and> s_user_id s = pw_UserID r \<and> s_revoked_at s = None
                    \<and> pw_ChangedAt r < s_expires_at s) (sessions (core a)) of
            None \<Rightarrow> Inl AccountNotFound
          | Some current \<Rightarrow>
        if f 4 then Inl ServiceUnavailable
        else andthen (set_credential (pw_UserID r) (pw_PasswordHash r) (pw_ParamsVersion r) (pw_ChangedAt r) a) (\<lambda>(n, a1).
        if n \<noteq> 1 then Inl ServiceUnavailable
        else andthen (statement (f 5 \<or> f 6 \<or> f 7 \<or> f 8) (revoke_others (pw_UserID r) (pw_CurrentSessionID r)
               (s_device_id current) (pw_ChangedAt r) (bump_security (pw_UserID r) a1))) (\<lambda>a2.
        andthen (insertAuditEvent (f 9) (pw_AuditEventID r) ''password_changed'' (pw_UserID r) (pw_ChangedAt r) a2) (\<lambda>a3.
        statement (f 10) a3))))) a"

definition lockOwnedOrganizations :: "bool \<Rightarrow> uuid \<Rightarrow> account_db \<Rightarrow> account_error + nat" where
  "lockOwnedOrganizations fails userID a =
     (let owned = filter (\<lambda>(o', m). om_organization_id m = og_id o' \<and> om_user_id m = userID \<and> om_role m = ''owner''
            \<and> (og_status o' = ''active'' \<or> og_status o' = ''archived''))
          (List.product (organizations (core a)) (organization_memberships (core a))) in
      if fails \<or> list_ex (\<lambda>(o', _). og_id o' = Nil_uuid) owned then Inl ServiceUnavailable
      else Inr (length owned))"

definition deletionRecoveryWindow :: duration where "deletionRecoveryWindow = 7 * 24 * hour"

text \<open>The statements of a deletion request on the user, the space, the devices, the sessions and the
  entitlements.\<close>

definition suspend :: "uuid \<Rightarrow> instant \<Rightarrow> account_db \<Rightarrow> account_db" where
  "suspend userID at a = a\<lparr>core := (core a)\<lparr>
     users := update_where (\<lambda>u. u_id u = userID) (\<lambda>u. u\<lparr>u_status := ''pending_deletion'',
       u_deletion_requested_at := Some at, u_deletion_finalized_at := None\<rparr>) (users (core a)),
     personal_spaces := update_where (\<lambda>p. ps_owner_user_id p = userID) (\<lambda>p. p\<lparr>ps_status := ''disabled''\<rparr>)
       (personal_spaces (core a)),
     devices := update_where (\<lambda>v. d_user_id v = userID)
       (\<lambda>v. v\<lparr>d_status := ''revoked'', d_revoked_at := coalesce (d_revoked_at v) at\<rparr>) (devices (core a)),
     sessions := update_where (\<lambda>s. s_user_id s = userID)
       (\<lambda>s. s\<lparr>s_revoked_at := coalesce (s_revoked_at s) at,
              s_revoked_reason := coalesce (s_revoked_reason s) ''account_deletion''\<rparr>) (sessions (core a)),
     issuances := update_where (\<lambda>i. i_user_id i = userID)
       (\<lambda>i. i\<lparr>i_revoked_at := coalesce (i_revoked_at i) at\<rparr>) (issuances (core a))\<rparr>\<rparr>"

definition RequestDeletion_record ::
  "crypto \<Rightarrow> IdentityCodec \<Rightarrow> schedule \<Rightarrow> schedule \<Rightarrow> DeletionRequestRecord \<Rightarrow> account_db
     \<Rightarrow> account_error option \<times> account_db" where
  "RequestDeletion_record cr ic f g r a = transaction
     (if dq_UserID r = Nil_uuid \<or> dq_AuditEventID r = Nil_uuid \<or> rc_Purpose (dq_Claims r) \<noteq> PurposeAccountDeletion
         \<or> dq_RequestedAt r = zero_time
      then Inl InvalidRequest
      else if f 0 \<or> f 1 then Inl ServiceUnavailable
      else andthen (accountStatusForUpdate (f 2) (dq_UserID r) a) (\<lambda>status.
        if status \<noteq> ''active'' then Inl AccountNotFound
        else andthen (lockAvailableReceipt (f 3) cr ic (dq_Claims r) a) (\<lambda>_.
        andthen (findUserByClaims g cr ic (dq_Claims r) a) (\<lambda>owner.
        if owner \<noteq> Some (dq_UserID r) then Inl AccountNotFound
        else andthen (lockOwnedOrganizations (f 4) (dq_UserID r) a) (\<lambda>owned.
        if 0 < owned then Inl (OwnerTransferRequired owned)
        else andthen (statement (f 5 \<or> f 6 \<or> f 7 \<or> f 8 \<or> f 9) (suspend (dq_UserID r) (dq_RequestedAt r) a)) (\<lambda>a1.
        andthen (insertAuditEvent (f 10) (dq_AuditEventID r) ''account_deletion_requested'' (dq_UserID r) (dq_RequestedAt r) a1) (\<lambda>a2.
        andthen (markReceiptConsumed (f 11) (rc_ChallengeID (dq_Claims r)) (dq_RequestedAt r) a2) (\<lambda>a3.
        statement (f 12) a3)))))))) a"

definition restore :: "uuid \<Rightarrow> account_db \<Rightarrow> account_db" where
  "restore userID a = a\<lparr>core := (core a)\<lparr>
     users := update_where (\<lambda>u. u_id u = userID) (\<lambda>u. u\<lparr>u_status := ''active'', u_deletion_requested_at := None,
       u_deletion_finalized_at := None\<rparr>) (users (core a)),
     personal_spaces := update_where (\<lambda>p. ps_owner_user_id p = userID) (\<lambda>p. p\<lparr>ps_status := ''active''\<rparr>)
       (personal_spaces (core a))\<rparr>\<rparr>"

text \<open>\<open>update users\<close> also checks that an administratively disabled account has status \<open>disabled\<close>.\<close>

definition RecoverDeletion_record ::
  "crypto \<Rightarrow> IdentityCodec \<Rightarrow> schedule \<Rightarrow> schedule \<Rightarrow> DeletionRecoveryRecord \<Rightarrow> account_db
     \<Rightarrow> account_error option \<times> account_db" where
  "RecoverDeletion_record cr ic f g r a = transaction
     (if dy_UserID r = Nil_uuid \<or> dy_AuditEventID r = Nil_uuid \<or> rc_Purpose (dy_Claims r) \<noteq> PurposeDeletionRecovery
         \<or> dy_RecoveredAt r = zero_time
      then Inl InvalidRequest
      else if f 0 \<or> f 1 \<or> f 2 then Inl ServiceUnavailable
      else case find (\<lambda>u. u_id u = dy_UserID r) (users (core a)) of
        None \<Rightarrow> Inl AccountNotFound
      | Some u \<Rightarrow>
        (case u_deletion_requested_at u of
           None \<Rightarrow> Inl AccountNotFound
         | Some requestedAt \<Rightarrow>
        if u_status u \<noteq> ''pending_deletion'' then Inl AccountNotFound
        else if \<not> dy_RecoveredAt r < requestedAt + deletionRecoveryWindow then Inl DeletionWindowExpired
        else andthen (lockAvailableReceipt (f 3) cr ic (dy_Claims r) a) (\<lambda>_.
        andthen (findUserByClaims g cr ic (dy_Claims r) a) (\<lambda>owner.
        if owner \<noteq> Some (dy_UserID r) then Inl AccountNotFound
        else andthen (statement (f 4 \<or> f 5 \<or> u_administratively_disabled u) (restore (dy_UserID r) a)) (\<lambda>a1.
        andthen (insertAuditEvent (f 6) (dy_AuditEventID r) ''account_deletion_recovered'' (dy_UserID r) (dy_RecoveredAt r) a1) (\<lambda>a2.
        andthen (markReceiptConsumed (f 7) (rc_ChallengeID (dy_Claims r)) (dy_RecoveredAt r) a2) (\<lambda>a3.
        statement (f 8) a3))))))) a"

end
