(* ===== verification/AccountService.thy ===== *)
theory AccountService
  imports Account
begin

text \<open>
  The service layer of \<open>internal/account\<close> (\<open>service.go\<close>, \<open>lifecycle.go\<close>) with its two rate limiters
  (\<open>limiter.go\<close>, \<open>direct_registration_limiter.go\<close>) and \<open>internal/legal\<close>. An operation takes the
  libraries, the service, what its external calls answer, its arguments and the state, and returns
  its result with the new state. \<open>net.ParseIP\<close> followed by \<open>String\<close> is the library function
  \<open>lb_parse_ip\<close>.
\<close>

section \<open>Legal documents\<close>

record CurrentDocuments =
  ld_TermsVersion :: bytes
  ld_PrivacyVersion :: bytes

text \<open>\<open>^[A-Za-z0-9][A-Za-z0-9._-]{0,63}$\<close>\<close>

fun legal_versionPattern :: "bytes \<Rightarrow> bool" where
  "legal_versionPattern [] = False"
| "legal_versionPattern (c # s) \<longleftrightarrow> alphanumeric c \<and> length s \<le> 63
     \<and> list_all (\<lambda>x. alphanumeric x \<or> x \<in> set ''._-'') s"

definition NewLegalService :: "bytes \<Rightarrow> bytes \<Rightarrow> CurrentDocuments option" where
  "NewLegalService termsVersion privacyVersion =
     (if \<not> legal_versionPattern termsVersion \<or> \<not> legal_versionPattern privacyVersion then None
      else Some \<lparr>ld_TermsVersion = termsVersion, ld_PrivacyVersion = privacyVersion\<rparr>)"

definition Validate_documents :: "CurrentDocuments \<Rightarrow> bytes \<Rightarrow> bytes \<Rightarrow> bool" where
  "Validate_documents current termsVersion privacyVersion \<longleftrightarrow>
     \<not> (termsVersion \<noteq> ld_TermsVersion current \<or> privacyVersion \<noteq> ld_PrivacyVersion current)"

section \<open>Rate limiters\<close>

record LoginRatePolicy =
  lp_IdentityLimit :: int
  lp_IPLimit :: int
  lp_Window :: duration

record RedisLoginLimiter =
  ll_hmacKey :: bytes
  ll_policy :: LoginRatePolicy

record DirectRegistrationRatePolicy =
  dp_IPLimit :: int
  dp_Window :: duration

record RedisDirectRegistrationLimiter =
  dl_hmacKey :: bytes
  dl_policy :: DirectRegistrationRatePolicy

definition redisLoginLimitPrefix :: bytes where
  "redisLoginLimitPrefix = ''aera-cloud:login-limit:''"

definition redisDirectRegistrationLimitPrefix :: bytes where
  "redisDirectRegistrationLimitPrefix = ''aera-cloud:direct-registration-limit:''"

definition NewRedisLoginLimiter :: "bytes \<Rightarrow> LoginRatePolicy \<Rightarrow> RedisLoginLimiter option" where
  "NewRedisLoginLimiter hmacKey policy =
     (if length hmacKey < 32 \<or> lp_IdentityLimit policy \<le> 0 \<or> lp_IPLimit policy \<le> 0
         \<or> lp_IPLimit policy < lp_IdentityLimit policy \<or> lp_Window policy < minute \<or> 24 * hour < lp_Window policy
      then None else Some \<lparr>ll_hmacKey = hmacKey, ll_policy = policy\<rparr>)"

definition login_ipHMAC :: "crypto \<Rightarrow> RedisLoginLimiter \<Rightarrow> bytes \<Rightarrow> bytes" where
  "login_ipHMAC cr l ip = hmac_sha256 cr (ll_hmacKey l) (''agentera.login-ip.v1'' @ [CHR 0x00] @ ip)"

text \<open>The script increments both counters before it returns; the result is \<open>None\<close> on an error.\<close>

definition login_Allow ::
  "crypto \<Rightarrow> (bytes \<Rightarrow> bytes option) \<Rightarrow> RedisLoginLimiter \<Rightarrow> bool \<Rightarrow> instant \<Rightarrow> bytes \<Rightarrow> bytes \<Rightarrow> int redis
     \<Rightarrow> bool option \<times> int redis" where
  "login_Allow cr parse_ip l fails now identityHMAC rawIP r =
     (if length (ll_hmacKey l) < 32 \<or> length identityHMAC \<noteq> 32 then (None, r)
      else case parse_ip rawIP of
          None \<Rightarrow> (None, r)
        | Some ip \<Rightarrow>
            let identityKey = redisLoginLimitPrefix @ ''identity:'' @ encode_url identityHMAC;
                ipKey = redisLoginLimitPrefix @ ''ip:'' @ encode_url (login_ipHMAC cr l ip);
                window = lp_Window (ll_policy l) div millisecond in
            if fails then (None, r)
            else (case incrementWindow now identityKey window r of ((identity_count, _), r1) \<Rightarrow>
              (case incrementWindow now ipKey window r1 of ((ip_count, _), r2) \<Rightarrow>
                 (Some (identity_count \<le> lp_IdentityLimit (ll_policy l) \<and> ip_count \<le> lp_IPLimit (ll_policy l)), r2))))"

definition NewRedisDirectRegistrationLimiter ::
  "bytes \<Rightarrow> DirectRegistrationRatePolicy \<Rightarrow> RedisDirectRegistrationLimiter option" where
  "NewRedisDirectRegistrationLimiter hmacKey policy =
     (if length hmacKey < 32 \<or> dp_IPLimit policy \<le> 0 \<or> dp_Window policy < second \<or> 24 * hour < dp_Window policy
      then None else Some \<lparr>dl_hmacKey = hmacKey, dl_policy = policy\<rparr>)"

definition direct_ipHMAC :: "crypto \<Rightarrow> RedisDirectRegistrationLimiter \<Rightarrow> bytes \<Rightarrow> bytes" where
  "direct_ipHMAC cr l ip = hmac_sha256 cr (dl_hmacKey l) (''agentera.direct-registration-ip.v1'' @ [CHR 0x00] @ ip)"

definition direct_Allow ::
  "crypto \<Rightarrow> (bytes \<Rightarrow> bytes option) \<Rightarrow> RedisDirectRegistrationLimiter \<Rightarrow> bool \<Rightarrow> instant \<Rightarrow> bytes \<Rightarrow> int redis
     \<Rightarrow> bool option \<times> int redis" where
  "direct_Allow cr parse_ip l fails now rawIP r =
     (if length (dl_hmacKey l) < 32 then (None, r)
      else case parse_ip rawIP of
          None \<Rightarrow> (None, r)
        | Some ip \<Rightarrow>
            if fails then (None, r)
            else (case incrementWindow now (redisDirectRegistrationLimitPrefix @ encode_url (direct_ipHMAC cr l ip))
                        (dp_Window (dl_policy l) div millisecond) r of ((n, _), r1) \<Rightarrow>
                    (Some (n \<le> dp_IPLimit (dl_policy l)), r1)))"

section \<open>The service\<close>

record libraries =
  lb_crypto :: crypto
  lb_argon2 :: argon2
  lb_lower :: "nat \<Rightarrow> nat"
  lb_receipt_json :: "bytes \<Rightarrow> receiptPayload option"
  lb_parse_ip :: "bytes \<Rightarrow> bytes option"
  lb_uuid_parse :: "bytes \<Rightarrow> uuid option"

record AccountService =
  as_identity :: IdentityCodec
  as_receipts :: ReceiptCodec
  as_passwords :: PasswordHasher
  as_legal :: CurrentDocuments
  as_limiter :: RedisLoginLimiter
  as_direct :: "RedisDirectRegistrationLimiter option" \<comment> \<open>set when direct registration is on\<close>
  as_dummyHash :: bytes

text \<open>
  What the calls of one operation answer: the readings of the clocks of the service, of the receipt
  codec, of Redis and of the audit recorder, the random draws, and which calls fail.
\<close>

record account_env =
  ae_clock :: "nat \<Rightarrow> instant"
  ae_receipt_now :: instant
  ae_redis_now :: instant
  ae_recorder_now :: instant
  ae_read :: "nat \<Rightarrow> nat \<Rightarrow> bytes option"
  ae_uuid :: "nat \<Rightarrow> uuid option"
  ae_limit_fails :: bool
  ae_lookup :: schedule \<comment> \<open>queries for the credential\<close>
  ae_audit_fails :: bool
  ae_rehash_fails :: bool
  ae_faults :: schedule \<comment> \<open>statements of the transaction\<close>
  ae_queries :: "nat \<Rightarrow> schedule" \<comment> \<open>queries of its loops over candidates\<close>

record account_state =
  st_db :: account_db
  st_limits :: "int redis"

definition dummyPassword :: bytes where
  "dummyPassword = ''AgentEra constant shape dummy password''"

definition NewAccountService ::
  "libraries \<Rightarrow> (nat \<Rightarrow> bytes option) \<Rightarrow> IdentityCodec \<Rightarrow> ReceiptCodec \<Rightarrow> PasswordHasher \<Rightarrow> CurrentDocuments
     \<Rightarrow> RedisLoginLimiter \<Rightarrow> bool \<Rightarrow> RedisDirectRegistrationLimiter option \<Rightarrow> AccountService option" where
  "NewAccountService lb read ic rc h docs l directRegistration dl =
     (if directRegistration \<and> dl = None then None
      else case Hash (lb_argon2 lb) h read dummyPassword of
          Inl _ \<Rightarrow> None
        | Inr (dummyHash, _) \<Rightarrow> Some \<lparr>as_identity = ic, as_receipts = rc, as_passwords = h, as_legal = docs,
            as_limiter = l, as_direct = (if directRegistration then dl else None), as_dummyHash = dummyHash\<rparr>)"

definition normalizeNickname :: "bytes \<Rightarrow> bytes option" where
  "normalizeNickname raw =
     (let v = TrimSpace raw in
      if \<not> ValidString v \<or> 80 < RuneCountInString v then None
      else if list_ex IsControl (runes v) then None else Some v)"

definition identityKindForLogin :: "bytes \<Rightarrow> IdentityKind" where
  "identityKindForLogin raw = (if contains ''@'' raw then IdentityEmail else IdentityPhone)"

definition invalidLoginLookupHMAC :: "crypto \<Rightarrow> bytes" where
  "invalidLoginLookupHMAC cr = sha256 cr ''agentera.invalid-login-identity.v1''"

definition randomUUIDs :: "(nat \<Rightarrow> uuid option) \<Rightarrow> nat \<Rightarrow> uuid list option" where
  "randomUUIDs draw n = all_some (map draw [0..<n])"

text \<open>The address a handler put into the context, or the empty string.\<close>

definition loginIPAddress :: "bytes option \<Rightarrow> bytes" where
  "loginIPAddress ctx = (case ctx of None \<Rightarrow> [] | Some ip \<Rightarrow> TrimSpace ip)"

definition parse_receipt :: "libraries \<Rightarrow> AccountService \<Rightarrow> account_env \<Rightarrow> bytes \<Rightarrow> Purpose \<Rightarrow> ReceiptClaims option" where
  "parse_receipt lb s e token purpose =
     (case Parse (lb_crypto lb) (lb_lower lb) (lb_receipt_json lb) (as_receipts s) (ae_receipt_now e) token purpose of
        Inl _ \<Rightarrow> None | Inr claims \<Rightarrow> Some claims)"

definition hash_password :: "libraries \<Rightarrow> AccountService \<Rightarrow> account_env \<Rightarrow> bytes \<Rightarrow> (bytes \<times> int) option" where
  "hash_password lb s e password =
     (case Hash (lb_argon2 lb) (as_passwords s) (ae_read e 0) password of Inl _ \<Rightarrow> None | Inr x \<Rightarrow> Some x)"

text \<open>A transaction of the repository on the database of the state; \<open>translate\<close> is the final switch of
  the service method.\<close>

definition run_record ::
  "(account_error \<Rightarrow> account_error) \<Rightarrow> (account_db \<Rightarrow> account_error option \<times> account_db) \<Rightarrow> account_state
     \<Rightarrow> account_error option \<times> account_state" where
  "run_record translate body st =
     (case body (st_db st) of (x, a) \<Rightarrow> (map_option translate x, st\<lparr>st_db := a\<rparr>))"

section \<open>Registration\<close>

text \<open>The claims to register: from the limiter and the normalised e-mail address, or from the receipt.\<close>

definition registration_claims ::
  "libraries \<Rightarrow> AccountService \<Rightarrow> account_env \<Rightarrow> bytes option \<Rightarrow> RegisterCommand \<Rightarrow> account_state
     \<Rightarrow> (account_error + ReceiptClaims) \<times> account_state" where
  "registration_claims lb s e ctx c st =
     (case as_direct s of
        Some dl \<Rightarrow>
          if rg_Kind c \<noteq> IdentityEmail \<or> TrimSpace (rg_Identity c) = [] \<or> rg_VerificationReceipt c \<noteq> []
          then (Inl InvalidRequest, st)
          else (case NormalizeIdentity (lb_lower lb) (rg_Kind c) (rg_Identity c) of
              Inl _ \<Rightarrow> (Inl InvalidRequest, st)
            | Inr normalized \<Rightarrow>
                (case direct_Allow (lb_crypto lb) (lb_parse_ip lb) dl (ae_limit_fails e) (ae_redis_now e)
                        (loginIPAddress ctx) (st_limits st) of (allowed, r) \<Rightarrow>
                   (if allowed \<noteq> Some True then Inl ServiceUnavailable
                    else Inr \<lparr>rc_ChallengeID = Nil_uuid, rc_Kind = rg_Kind c, rc_NormalizedIdentity = normalized,
                           rc_Purpose = PurposeRegistration, rc_IssuedAt = zero_time, rc_ExpiresAt = zero_time\<rparr>,
                    st\<lparr>st_limits := r\<rparr>)))
      | None \<Rightarrow>
          if TrimSpace (rg_Identity c) \<noteq> [] then (Inl InvalidRequest, st)
          else (case parse_receipt lb s e (rg_VerificationReceipt c) PurposeRegistration of
              None \<Rightarrow> (Inl VerificationRequired, st)
            | Some claims \<Rightarrow>
                (if rc_Kind claims \<noteq> rg_Kind c then Inl VerificationRequired else Inr claims, st)))"

definition register_error :: "account_error \<Rightarrow> account_error" where
  "register_error x = (if x = ReceiptUnavailable then VerificationRequired
     else if x = IdentityConflict then IdentityConflict else ServiceUnavailable)"

record Registration =
  re_UserID :: uuid
  re_PersonalSpaceID :: uuid

definition register_with ::
  "libraries \<Rightarrow> AccountService \<Rightarrow> account_env \<Rightarrow> RegisterCommand \<Rightarrow> ReceiptClaims \<Rightarrow> account_state
     \<Rightarrow> (account_error + Registration) \<times> account_state" where
  "register_with lb s e c claims st =
     (case normalizeNickname (rg_Nickname c) of
        None \<Rightarrow> (Inl InvalidRequest, st)
      | Some nickname \<Rightarrow>
        (case hash_password lb s e (rg_Password c) of
           None \<Rightarrow> (Inl InvalidRequest, st)
         | Some (passwordHash, paramsVersion) \<Rightarrow>
           (case Seal (lb_crypto lb) (as_identity s) (ae_read e 1) (rc_Kind claims) (rc_NormalizedIdentity claims) of
              Inl _ \<Rightarrow> (Inl ServiceUnavailable, st)
            | Inr sealed \<Rightarrow>
              (case randomUUIDs (ae_uuid e) 6 of
                 None \<Rightarrow> (Inl ServiceUnavailable, st)
               | Some ids \<Rightarrow>
                   let r = \<lparr>rr_Claims = claims, rr_Direct = as_direct s \<noteq> None, rr_UserID = ids ! 0,
                        rr_IdentityID = ids ! 1, rr_PersonalSpaceID = ids ! 2, rr_TermsAcceptanceID = ids ! 3,
                        rr_PrivacyAcceptanceID = ids ! 4, rr_AuditEventID = ids ! 5, rr_Nickname = nickname,
                        rr_Sealed = sealed, rr_PasswordHash = passwordHash, rr_ParamsVersion = paramsVersion,
                        rr_TermsVersion = rg_TermsVersion c, rr_PrivacyVersion = rg_PrivacyVersion c,
                        rr_CreatedAt = ae_clock e 0\<rparr> in
                   (case run_record register_error
                           (Register_record (lb_crypto lb) (as_identity s) (ae_faults e) (ae_queries e 0) r) st of
                      (Some x, st1) \<Rightarrow> (Inl x, st1)
                    | (None, st1) \<Rightarrow> (Inr \<lparr>re_UserID = ids ! 0, re_PersonalSpaceID = ids ! 2\<rparr>, st1))))))"

definition Register ::
  "libraries \<Rightarrow> AccountService \<Rightarrow> account_env \<Rightarrow> bytes option \<Rightarrow> RegisterCommand \<Rightarrow> account_state
     \<Rightarrow> (account_error + Registration) \<times> account_state" where
  "Register lb s e ctx c st =
     (if \<not> Validate_documents (as_legal s) (rg_TermsVersion c) (rg_PrivacyVersion c) then (Inl InvalidRequest, st)
      else case registration_claims lb s e ctx c st of
          (Inl x, st1) \<Rightarrow> (Inl x, st1)
        | (Inr claims, st1) \<Rightarrow> register_with lb s e c claims st1)"

section \<open>Login\<close>

definition principal_of :: "Credential \<Rightarrow> Principal" where
  "principal_of c = \<lparr>pr_UserID = cd_UserID c, pr_PersonalSpaceID = cd_PersonalSpaceID c, pr_Nickname = cd_Nickname c\<rparr>"

definition login_event :: "uuid option \<Rightarrow> bytes \<Rightarrow> bytes \<Rightarrow> instant \<Rightarrow> Event" where
  "login_event actor outcome reason at = \<lparr>ev_ID = Nil_uuid, ev_EventType = ''browser_login'', ev_ActorUserID = actor,
     ev_DeviceID = None, ev_OrganizationID = None, ev_ObjectType = [], ev_ObjectID = None, ev_Outcome = outcome,
     ev_ReasonCode = reason, ev_RequestID = [], ev_IPHMAC = [], ev_Metadata = [], ev_OccurredAt = at\<rparr>"

text \<open>The flag says whether the event was recorded; most callers ignore it.\<close>

definition recordLoginAudit ::
  "libraries \<Rightarrow> account_env \<Rightarrow> uuid option \<Rightarrow> bytes \<Rightarrow> bytes \<Rightarrow> account_state \<Rightarrow> bool \<times> account_state" where
  "recordLoginAudit lb e actor outcome reason st =
     (case Record_event (lb_lower lb) (lb_uuid_parse lb) (ae_audit_fails e) (ae_uuid e 0) (ae_recorder_now e)
             (login_event actor outcome reason (ae_clock e 1)) (core (st_db st)) of
        (x, d) \<Rightarrow> (x = None, st\<lparr>st_db := (st_db st)\<lparr>core := d\<rparr>\<rparr>))"

definition limiter_hmac :: "crypto \<Rightarrow> LookupIndex list \<Rightarrow> bytes" where
  "limiter_hmac cr cs = (case cs of [] \<Rightarrow> invalidLoginLookupHMAC cr | c # _ \<Rightarrow> li_HMAC c)"

definition allow_login ::
  "libraries \<Rightarrow> AccountService \<Rightarrow> account_env \<Rightarrow> bytes option \<Rightarrow> LookupIndex list \<Rightarrow> account_state
     \<Rightarrow> bool option \<times> account_state" where
  "allow_login lb s e ctx cs st =
     (case login_Allow (lb_crypto lb) (lb_parse_ip lb) (as_limiter s) (ae_limit_fails e) (ae_redis_now e)
             (limiter_hmac (lb_crypto lb) cs) (loginIPAddress ctx) (st_limits st) of
        (x, r) \<Rightarrow> (x, st\<lparr>st_limits := r\<rparr>))"

text \<open>The switch over the account status: the error, with its audit event for the two known states.\<close>

definition refuse_status ::
  "libraries \<Rightarrow> account_env \<Rightarrow> Credential \<Rightarrow> account_error \<Rightarrow> account_state
     \<Rightarrow> (account_error + Principal) \<times> account_state" where
  "refuse_status lb e c x st =
     (if x = AccountPendingDeletion
      then (Inl x, snd (recordLoginAudit lb e (Some (cd_UserID c)) OutcomeDenied ''account_pending_deletion'' st))
      else if x = AccountDisabled
      then (Inl x, snd (recordLoginAudit lb e (Some (cd_UserID c)) OutcomeDenied ''account_disabled'' st))
      else (Inl x, st))"

definition refuse_login ::
  "libraries \<Rightarrow> account_env \<Rightarrow> bytes \<Rightarrow> account_error \<Rightarrow> account_state \<Rightarrow> (account_error + Principal) \<times> account_state" where
  "refuse_login lb e reason x st = (Inl x, snd (recordLoginAudit lb e None OutcomeFailure reason st))"

text \<open>A valid password for an active account: renew the hash if its parameters are old, then record
  the login.\<close>

definition complete_login ::
  "libraries \<Rightarrow> AccountService \<Rightarrow> account_env \<Rightarrow> bytes \<Rightarrow> bool \<Rightarrow> Credential \<Rightarrow> account_state
     \<Rightarrow> (account_error + Principal) \<times> account_state" where
  "complete_login lb s e password needsRehash c st =
     (case (if \<not> needsRehash then (None, st)
            else case hash_password lb s e password of
                None \<Rightarrow> (Some ServiceUnavailable, st)
              | Some (hash, version) \<Rightarrow>
                  run_record (\<lambda>_. ServiceUnavailable)
                    (UpdatePasswordHash (ae_rehash_fails e) (cd_UserID c) hash version (ae_clock e 0)) st) of
        (Some x, st1) \<Rightarrow> (Inl x, st1)
      | (None, st1) \<Rightarrow>
          (case recordLoginAudit lb e (Some (cd_UserID c)) OutcomeSuccess [] st1 of
             (recorded, st2) \<Rightarrow> (if recorded then Inr (principal_of c) else Inl ServiceUnavailable, st2)))"

definition AuthenticatePassword ::
  "libraries \<Rightarrow> AccountService \<Rightarrow> account_env \<Rightarrow> bytes option \<Rightarrow> bytes \<Rightarrow> bytes \<Rightarrow> account_state
     \<Rightarrow> (account_error + Principal) \<times> account_state" where
  "AuthenticatePassword lb s e ctx rawIdentity password st =
     (let kind = identityKindForLogin rawIdentity;
          normalized = NormalizeIdentity (lb_lower lb) kind rawIdentity;
          candidates = LookupCandidates (lb_crypto lb) (as_identity s) kind
            (case normalized of Inl _ \<Rightarrow> [] | Inr v \<Rightarrow> v) in
      case allow_login lb s e ctx candidates st of
        (None, st1) \<Rightarrow> (Inl ServiceUnavailable, st1)
      | (Some allowed, st1) \<Rightarrow>
          let found = (if \<not> isl normalized \<and> allowed then FindCredential (ae_lookup e) kind candidates (st_db st1)
                       else Inr None);
              encodedHash = (case found of Inr (Some c) \<Rightarrow> cd_PasswordHash c | _ \<Rightarrow> as_dummyHash s) in
          (case (found, Verify (lb_argon2 lb) (as_passwords s) password encodedHash) of
             (Inr (Some c), Inr (valid, needsRehash)) \<Rightarrow>
               if \<not> valid then refuse_login lb e ''invalid_credentials'' InvalidCredentials st1
               else (case status_error (cd_Status c) of
                   Some x \<Rightarrow> refuse_status lb e c x st1
                 | None \<Rightarrow> complete_login lb s e password needsRehash c st1)
           | (Inr None, Inr _) \<Rightarrow> refuse_login lb e ''invalid_credentials'' InvalidCredentials st1
           | _ \<Rightarrow> (Inl ServiceUnavailable, st1)))"

definition AuthenticateVerification ::
  "libraries \<Rightarrow> AccountService \<Rightarrow> account_env \<Rightarrow> bytes option \<Rightarrow> bytes \<Rightarrow> account_state
     \<Rightarrow> (account_error + Principal) \<times> account_state" where
  "AuthenticateVerification lb s e ctx receipt st =
     (case parse_receipt lb s e receipt PurposeLogin of
        None \<Rightarrow> refuse_login lb e ''invalid_credentials'' VerificationRequired st
      | Some claims \<Rightarrow>
          let candidates = LookupCandidates (lb_crypto lb) (as_identity s) (rc_Kind claims) (rc_NormalizedIdentity claims) in
          (case allow_login lb s e ctx candidates st of
             (None, st1) \<Rightarrow> (Inl ServiceUnavailable, st1)
           | (Some allowed, st1) \<Rightarrow>
               if \<not> allowed then refuse_login lb e ''invalid_credentials'' InvalidCredentials st1
               else (case FindCredential (ae_lookup e) (rc_Kind claims) candidates (st_db st1) of
                   Inl _ \<Rightarrow> (Inl ServiceUnavailable, st1)
                 | Inr None \<Rightarrow> refuse_login lb e ''account_not_found'' AccountNotFound st1
                 | Inr (Some c) \<Rightarrow>
                     (case status_error (cd_Status c) of
                        Some x \<Rightarrow> refuse_status lb e c x st1
                      | None \<Rightarrow> (Inr (principal_of c), st1)))))"

definition complete_error :: "account_error \<Rightarrow> account_error" where
  "complete_error x = (if x = ReceiptUnavailable then VerificationRequired
     else if x = InvalidCredentials \<or> x = AccountPendingDeletion \<or> x = AccountDisabled then x else ServiceUnavailable)"

definition CompleteVerificationLogin ::
  "libraries \<Rightarrow> AccountService \<Rightarrow> account_env \<Rightarrow> bytes \<Rightarrow> uuid \<Rightarrow> account_state \<Rightarrow> account_error option \<times> account_state" where
  "CompleteVerificationLogin lb s e receipt userID st =
     (if userID = Nil_uuid then (Some InvalidRequest, st)
      else case parse_receipt lb s e receipt PurposeLogin of
          None \<Rightarrow> (Some VerificationRequired, st)
        | Some claims \<Rightarrow>
            (case randomUUIDs (ae_uuid e) 1 of
               None \<Rightarrow> (Some ServiceUnavailable, st)
             | Some ids \<Rightarrow> run_record complete_error
                 (ConsumeLoginReceipt (lb_crypto lb) (as_identity s) (ae_faults e) (ae_queries e)
                   \<lparr>lr_Claims = claims, lr_UserID = userID, lr_AuditEventID = ids ! 0, lr_ConsumedAt = ae_clock e 0\<rparr>) st))"

section \<open>Recovery and changes of an account\<close>

definition reset_error :: "account_error \<Rightarrow> account_error" where
  "reset_error x = (if x = ReceiptUnavailable \<or> x = AccountNotFound then VerificationRequired else ServiceUnavailable)"

definition ResetPassword ::
  "libraries \<Rightarrow> AccountService \<Rightarrow> account_env \<Rightarrow> bytes \<Rightarrow> bytes \<Rightarrow> account_state \<Rightarrow> account_error option \<times> account_state" where
  "ResetPassword lb s e receipt password st =
     (case parse_receipt lb s e receipt PurposePasswordReset of
        None \<Rightarrow> (Some VerificationRequired, st)
      | Some claims \<Rightarrow>
          (case hash_password lb s e password of
             None \<Rightarrow> (Some InvalidRequest, st)
           | Some (passwordHash, paramsVersion) \<Rightarrow>
               (case ae_uuid e 0 of
                  None \<Rightarrow> (Some ServiceUnavailable, st)
                | Some auditEventID \<Rightarrow> run_record reset_error
                    (ResetPassword_record (lb_crypto lb) (as_identity s) (ae_faults e) (ae_queries e)
                      \<lparr>rs_Claims = claims, rs_PasswordHash = passwordHash, rs_ParamsVersion = paramsVersion,
                       rs_AuditEventID = auditEventID, rs_ChangedAt = ae_clock e 0\<rparr>) st)))"

definition reauthenticateUser ::
  "libraries \<Rightarrow> AccountService \<Rightarrow> account_env \<Rightarrow> uuid \<Rightarrow> bytes \<Rightarrow> bytes \<Rightarrow> account_state \<Rightarrow> account_error + Credential" where
  "reauthenticateUser lb s e userID password requiredStatus st =
     (case FindCredentialByUserID (ae_lookup e 0) userID (st_db st) of
        Inl _ \<Rightarrow> Inl ServiceUnavailable
      | Inr found \<Rightarrow>
          (case Verify (lb_argon2 lb) (as_passwords s) password
                  (case found of None \<Rightarrow> as_dummyHash s | Some c \<Rightarrow> cd_PasswordHash c) of
             Inl _ \<Rightarrow> Inl ServiceUnavailable
           | Inr (valid, _) \<Rightarrow>
               (case found of
                  None \<Rightarrow> Inl InvalidCredentials
                | Some c \<Rightarrow>
                    if \<not> valid then Inl InvalidCredentials
                    else if cd_Status c \<noteq> requiredStatus then Inl InvalidRequest else Inr c)))"

definition bind_error :: "account_error \<Rightarrow> account_error" where
  "bind_error x = (if x = ReceiptUnavailable then VerificationRequired else if x = IdentityConflict then x
     else if x = AccountNotFound then InvalidRequest else ServiceUnavailable)"

definition BindIdentity ::
  "libraries \<Rightarrow> AccountService \<Rightarrow> account_env \<Rightarrow> uuid \<Rightarrow> bytes \<Rightarrow> bytes \<Rightarrow> account_state
     \<Rightarrow> account_error option \<times> account_state" where
  "BindIdentity lb s e userID currentPassword receipt st =
     (if userID = Nil_uuid then (Some InvalidRequest, st)
      else case reauthenticateUser lb s e userID currentPassword ''active'' st of
          Inl x \<Rightarrow> (Some x, st)
        | Inr _ \<Rightarrow>
        (case parse_receipt lb s e receipt PurposeBindIdentity of
           None \<Rightarrow> (Some VerificationRequired, st)
         | Some claims \<Rightarrow>
           (case Seal (lb_crypto lb) (as_identity s) (ae_read e 1) (rc_Kind claims) (rc_NormalizedIdentity claims) of
              Inl _ \<Rightarrow> (Some ServiceUnavailable, st)
            | Inr sealed \<Rightarrow>
              (case randomUUIDs (ae_uuid e) 2 of
                 None \<Rightarrow> (Some ServiceUnavailable, st)
               | Some ids \<Rightarrow> run_record bind_error
                   (BindIdentity_record (lb_crypto lb) (as_identity s) (ae_faults e) (ae_queries e 0)
                     \<lparr>ib_Claims = claims, ib_UserID = userID, ib_IdentityID = ids ! 0, ib_AuditEventID = ids ! 1,
                      ib_Sealed = sealed, ib_CreatedAt = ae_clock e 0\<rparr>) st))))"

definition Profile_service ::
  "bool \<Rightarrow> uuid \<Rightarrow> account_state \<Rightarrow> account_error + Profile" where
  "Profile_service fails userID st =
     (if userID = Nil_uuid then Inl InvalidRequest
      else case Profile_record fails userID (st_db st) of
          Inl _ \<Rightarrow> Inl ServiceUnavailable
        | Inr None \<Rightarrow> Inl AccountNotFound
        | Inr (Some p) \<Rightarrow> if pf_Status p \<noteq> ''active'' then Inl AccountNotFound else Inr p)"

definition remove_error :: "account_error \<Rightarrow> account_error" where
  "remove_error x = (if x = LastIdentity then x else if x = AccountNotFound then InvalidRequest else ServiceUnavailable)"

definition RemoveIdentity ::
  "libraries \<Rightarrow> AccountService \<Rightarrow> account_env \<Rightarrow> uuid \<Rightarrow> IdentityKind \<Rightarrow> bytes \<Rightarrow> account_state
     \<Rightarrow> account_error option \<times> account_state" where
  "RemoveIdentity lb s e userID kind currentPassword st =
     (if userID = Nil_uuid \<or> (kind \<noteq> IdentityEmail \<and> kind \<noteq> IdentityPhone) then (Some InvalidRequest, st)
      else case reauthenticateUser lb s e userID currentPassword ''active'' st of
          Inl x \<Rightarrow> (Some x, st)
        | Inr _ \<Rightarrow>
        (case randomUUIDs (ae_uuid e) 1 of
           None \<Rightarrow> (Some ServiceUnavailable, st)
         | Some ids \<Rightarrow> run_record remove_error (RemoveIdentity_record (ae_faults e)
             \<lparr>ir_UserID = userID, ir_Kind = kind, ir_AuditEventID = ids ! 0, ir_RemovedAt = ae_clock e 0\<rparr>) st))"

definition change_error :: "account_error \<Rightarrow> account_error" where
  "change_error x = (if x = AccountNotFound then InvalidRequest else ServiceUnavailable)"

definition ChangePassword ::
  "libraries \<Rightarrow> AccountService \<Rightarrow> account_env \<Rightarrow> uuid \<Rightarrow> uuid \<Rightarrow> bytes \<Rightarrow> bytes \<Rightarrow> account_state
     \<Rightarrow> account_error option \<times> account_state" where
  "ChangePassword lb s e userID currentSessionID currentPassword newPassword st =
     (if userID = Nil_uuid \<or> currentSessionID = Nil_uuid then (Some InvalidRequest, st)
      else case reauthenticateUser lb s e userID currentPassword ''active'' st of
          Inl x \<Rightarrow> (Some x, st)
        | Inr _ \<Rightarrow>
        (case hash_password lb s e newPassword of
           None \<Rightarrow> (Some InvalidRequest, st)
         | Some (passwordHash, paramsVersion) \<Rightarrow>
           (case randomUUIDs (ae_uuid e) 1 of
              None \<Rightarrow> (Some ServiceUnavailable, st)
            | Some ids \<Rightarrow> run_record change_error (ChangePassword_record (ae_faults e)
                \<lparr>pw_UserID = userID, pw_CurrentSessionID = currentSessionID, pw_PasswordHash = passwordHash,
                 pw_ParamsVersion = paramsVersion, pw_AuditEventID = ids ! 0, pw_ChangedAt = ae_clock e 0\<rparr>) st)))"

definition request_error :: "account_error \<Rightarrow> account_error" where
  "request_error x = (case x of OwnerTransferRequired n \<Rightarrow> x
     | ReceiptUnavailable \<Rightarrow> VerificationRequired | AccountNotFound \<Rightarrow> InvalidRequest | _ \<Rightarrow> ServiceUnavailable)"

definition RequestDeletion ::
  "libraries \<Rightarrow> AccountService \<Rightarrow> account_env \<Rightarrow> uuid \<Rightarrow> bytes \<Rightarrow> bytes \<Rightarrow> account_state
     \<Rightarrow> account_error option \<times> account_state" where
  "RequestDeletion lb s e userID currentPassword receipt st =
     (if userID = Nil_uuid then (Some InvalidRequest, st)
      else case reauthenticateUser lb s e userID currentPassword ''active'' st of
          Inl x \<Rightarrow> (Some x, st)
        | Inr _ \<Rightarrow>
        (case parse_receipt lb s e receipt PurposeAccountDeletion of
           None \<Rightarrow> (Some VerificationRequired, st)
         | Some claims \<Rightarrow>
           (case randomUUIDs (ae_uuid e) 1 of
              None \<Rightarrow> (Some ServiceUnavailable, st)
            | Some ids \<Rightarrow> run_record request_error
                (RequestDeletion_record (lb_crypto lb) (as_identity s) (ae_faults e) (ae_queries e 0)
                  \<lparr>dq_Claims = claims, dq_UserID = userID, dq_AuditEventID = ids ! 0, dq_RequestedAt = ae_clock e 0\<rparr>) st)))"

definition recover_error :: "account_error \<Rightarrow> account_error" where
  "recover_error x = (if x = ReceiptUnavailable then VerificationRequired
     else if x = DeletionWindowExpired then x else ServiceUnavailable)"

definition RecoverDeletion ::
  "libraries \<Rightarrow> AccountService \<Rightarrow> account_env \<Rightarrow> bytes \<Rightarrow> bytes \<Rightarrow> bytes \<Rightarrow> account_state
     \<Rightarrow> account_error option \<times> account_state" where
  "RecoverDeletion lb s e rawIdentity password receipt st =
     (let kind = identityKindForLogin rawIdentity in
      case NormalizeIdentity (lb_lower lb) kind rawIdentity of
        Inl _ \<Rightarrow> (Some InvalidCredentials, st)
      | Inr normalized \<Rightarrow>
        (case parse_receipt lb s e receipt PurposeDeletionRecovery of
           None \<Rightarrow> (Some VerificationRequired, st)
         | Some claims \<Rightarrow>
           if rc_Kind claims \<noteq> kind \<or> rc_NormalizedIdentity claims \<noteq> normalized then (Some VerificationRequired, st)
           else (case FindCredential (ae_lookup e) kind
                       (LookupCandidates (lb_crypto lb) (as_identity s) kind normalized) (st_db st) of
               Inl _ \<Rightarrow> (Some ServiceUnavailable, st)
             | Inr None \<Rightarrow> (Some InvalidCredentials, st)
             | Inr (Some c) \<Rightarrow>
                 (case Verify (lb_argon2 lb) (as_passwords s) password (cd_PasswordHash c) of
                    Inl _ \<Rightarrow> (Some ServiceUnavailable, st)
                  | Inr (valid, _) \<Rightarrow>
                      if \<not> valid then (Some InvalidCredentials, st)
                      else if cd_Status c \<noteq> ''pending_deletion'' then (Some InvalidRequest, st)
                      else (case randomUUIDs (ae_uuid e) 1 of
                          None \<Rightarrow> (Some ServiceUnavailable, st)
                        | Some ids \<Rightarrow> run_record recover_error
                            (RecoverDeletion_record (lb_crypto lb) (as_identity s) (ae_faults e) (ae_queries e 0)
                              \<lparr>dy_Claims = claims, dy_UserID = cd_UserID c, dy_AuditEventID = ids ! 0,
                               dy_RecoveredAt = ae_clock e 0\<rparr>) st)))))"

end
