(* ===== verification/AccountSafety.thy ===== *)
theory AccountSafety
  imports AccountService
begin

text \<open>
  Properties of the account component: what each transaction did when it committed, the invariant
  of the account tables, single use of receipts, and the life of a password and of an account.
\<close>

section \<open>What the transactions did\<close>

text \<open>A body that committed passed every check.\<close>

lemma if_Inl_Inr: "(if b then Inl e else z) = Inr y \<longleftrightarrow> \<not> b \<and> z = Inr y"
  by simp

lemma option_Inl_Inr: "(case v of None \<Rightarrow> Inl e | Some u \<Rightarrow> k u) = Inr y \<longleftrightarrow> (\<exists>u. v = Some u \<and> k u = Inr y)"
  by (cases v) simp_all

lemma option_Inr_Inl: "(case v of None \<Rightarrow> z | Some u \<Rightarrow> Inl (k u)) = Inr y \<longleftrightarrow> v = None \<and> z = Inr y"
  by (cases v) simp_all

lemma sum_Inl_Inr: "(case v of Inl x \<Rightarrow> Inl (k x) | Inr u \<Rightarrow> Inr u) = Inr y \<longleftrightarrow> v = Inr y"
  by (cases v) simp_all

lemmas tx_Inr = andthen_Inr if_Inl_Inr option_Inl_Inr option_Inr_Inl sum_Inl_Inr

lemma markReceiptConsumed_Inr:
  assumes "markReceiptConsumed fails x at a = Inr a'"
  shows "a' = a\<lparr>verification_challenges := update_where (\<lambda>c. ch_ID c = x \<and> ch_ConsumedAt c \<noteq> None \<and> ch_ReceiptConsumedAt c = None)
      (\<lambda>c. c\<lparr>ch_ReceiptConsumedAt := Some at\<rparr>) (verification_challenges a)\<rparr>"
    "\<exists>c\<in>set (verification_challenges a). ch_ID c = x \<and> ch_ConsumedAt c \<noteq> None \<and> ch_ReceiptConsumedAt c = None"
proof -
  let ?P = "\<lambda>c. ch_ID c = x \<and> ch_ConsumedAt c \<noteq> None \<and> ch_ReceiptConsumedAt c = None"
  show "a' = a\<lparr>verification_challenges := update_where ?P
      (\<lambda>c. c\<lparr>ch_ReceiptConsumedAt := Some at\<rparr>) (verification_challenges a)\<rparr>"
    using assms by (simp add: markReceiptConsumed_def Let_def split: if_splits)
  have "filter ?P (verification_challenges a) \<noteq> []"
    using assms by (auto simp: markReceiptConsumed_def Let_def split: if_splits)
  then show "\<exists>c\<in>set (verification_challenges a). ?P c" unfolding filter_empty_conv by blast
qed

lemma insertAuditEvent_Inr:
  assumes "insertAuditEvent fails i t u at a = Inr a'"
  obtains row where "a' = a\<lparr>core := (core a)\<lparr>audit_events := audit_events (core a) @ [row]\<rparr>\<rparr>"
    "a_id row \<notin> a_id ` set (audit_events (core a))" "a_actor_user_id row = Some u" "a_event_type row = t"
proof -
  obtain row d where "insert_audit row (core a) = Some d" "a' = a\<lparr>core := d\<rparr>" "a_actor_user_id row = Some u" "a_event_type row = t"
    using assms by (force simp: insertAuditEvent_def andthen_Inr)
  with insert_audit_Some [of row "core a" d] show thesis by (intro that [of row]) simp_all
qed

lemma insertBrowserLoginAudit_Inr:
  assumes "insertBrowserLoginAudit fails i u at a = Inr a'"
  obtains row where "a' = a\<lparr>core := (core a)\<lparr>audit_events := audit_events (core a) @ [row]\<rparr>\<rparr>"
    "a_id row \<notin> a_id ` set (audit_events (core a))" "a_actor_user_id row = Some u"
proof -
  obtain row d where "insert_audit row (core a) = Some d" "a' = a\<lparr>core := d\<rparr>" "a_actor_user_id row = Some u"
    using assms by (force simp: insertBrowserLoginAudit_def andthen_Inr)
  with insert_audit_Some [of row "core a" d] show thesis by (intro that [of row]) simp_all
qed

lemma set_credential_Inr:
  assumes "set_credential u h v at a = Inr (n, a')"
  shows "a' = a\<lparr>password_credentials := update_where (\<lambda>c. pc_user_id c = u)
      (\<lambda>c. c\<lparr>pc_password_hash := h, pc_params_version := v, pc_changed_at := at\<rparr>) (password_credentials a)\<rparr>"
    "n = length (filter (\<lambda>c. pc_user_id c = u) (password_credentials a))"
  using assms by (auto simp: set_credential_def Let_def split: if_splits)

lemma ResetPassword_record_cases:
  assumes "ResetPassword_record cr ic f g r a = (x, a')"
  obtains (refused) err where "x = Some err" "a' = a"
  | (changed) u status a1 a2 where "x = None" "rc_Purpose (rs_Claims r) = PurposePasswordReset"
      "lockAvailableReceipt (f 3) cr ic (rs_Claims r) a = Inr ()"
      "findUserByClaims (g 1) cr ic (rs_Claims r) a = Inr (Some u)"
      "accountStatusForUpdate (f 2) u a = Inr status" "status = ''active'' \<or> status = ''pending_deletion''"
      "set_credential u (rs_PasswordHash r) (rs_ParamsVersion r) (rs_ChangedAt r) a = Inr (1, a1)"
      "insertAuditEvent (f 7) (rs_AuditEventID r) ''password_reset'' u (rs_ChangedAt r)
         (revoke_live_sessions u ''password_reset'' (rs_ChangedAt r) (bump_security u a1)) = Inr a2"
      "markReceiptConsumed (f 8) (rc_ChallengeID (rs_Claims r)) (rs_ChangedAt r) a2 = Inr a'"
  using assms unfolding ResetPassword_record_def
proof (cases rule: transaction_cases)
  case committed
  from committed(2) show thesis
    by (auto simp: tx_Inr intro!: changed [OF committed(1)])
qed (rule refused)

lemma BindIdentity_record_cases:
  assumes "BindIdentity_record cr ic f g r a = (x, a')"
  obtains (refused) err where "x = Some err" "a' = a"
  | (bound) a1 a2 where "x = None" "rc_Purpose (ib_Claims r) = PurposeBindIdentity"
      "lockAvailableReceipt (f 3) cr ic (ib_Claims r) a = Inr ()"
      "accountStatusForUpdate (f 2) (ib_UserID r) a = Inr ''active''"
      "identityExists g cr ic (ib_Claims r) a = Inr False"
      "insert_identity (identity_of (ib_IdentityID r) (ib_UserID r) (rc_Kind (ib_Claims r)) (ib_Sealed r)
         (Some (ib_CreatedAt r))) a = Inr a1"
      "insertAuditEvent (f 7) (ib_AuditEventID r) ''identity_bound'' (ib_UserID r) (ib_CreatedAt r) a1 = Inr a2"
      "markReceiptConsumed (f 8) (rc_ChallengeID (ib_Claims r)) (ib_CreatedAt r) a2 = Inr a'"
  using assms unfolding BindIdentity_record_def
proof (cases rule: transaction_cases)
  case committed
  from committed(2) show thesis
    by (auto simp: tx_Inr insert_identity_row_def intro!: bound [OF committed(1)])
qed (rule refused)

lemma RemoveIdentity_record_cases:
  assumes "RemoveIdentity_record f r a = (x, a')"
  obtains (refused) err where "x = Some err" "a' = a"
  | (removed) "x = None" "accountStatusForUpdate (f 2) (ir_UserID r) a = Inr ''active''"
      "1 < length (filter (\<lambda>i. idn_user_id i = ir_UserID r) (identities a))"
      "length (filter (\<lambda>i. idn_user_id i = ir_UserID r \<and> idn_kind i = ir_Kind r) (identities a)) = 1"
      "insertAuditEvent (f 5) (ir_AuditEventID r) ''identity_removed'' (ir_UserID r) (ir_RemovedAt r)
         (a\<lparr>identities := delete_where (\<lambda>i. idn_user_id i = ir_UserID r \<and> idn_kind i = ir_Kind r) (identities a)\<rparr>) = Inr a'"
  using assms unfolding RemoveIdentity_record_def
proof (cases rule: transaction_cases)
  case committed
  from committed(2) show thesis
    by (auto simp: tx_Inr Let_def intro!: removed [OF committed(1)])
qed (rule refused)

lemma ChangePassword_record_cases:
  assumes "ChangePassword_record f r a = (x, a')"
  obtains (refused) err where "x = Some err" "a' = a"
  | (changed) s a1 where "x = None" "accountStatusForUpdate (f 2) (pw_UserID r) a = Inr ''active''"
      "s \<in> set (sessions (core a))" "s_id s = pw_CurrentSessionID r" "s_user_id s = pw_UserID r" "s_revoked_at s = None"
      "set_credential (pw_UserID r) (pw_PasswordHash r) (pw_ParamsVersion r) (pw_ChangedAt r) a = Inr (1, a1)"
      "insertAuditEvent (f 9) (pw_AuditEventID r) ''password_changed'' (pw_UserID r) (pw_ChangedAt r)
         (revoke_others (pw_UserID r) (pw_CurrentSessionID r) (s_device_id s) (pw_ChangedAt r) (bump_security (pw_UserID r) a1)) = Inr a'"
  using assms unfolding ChangePassword_record_def
proof (cases rule: transaction_cases)
  case committed
  from committed(2) show thesis
    by (auto simp: tx_Inr dest!: find_Some_in intro!: changed [OF committed(1)])
qed (rule refused)

lemma RequestDeletion_record_cases:
  assumes "RequestDeletion_record cr ic f g r a = (x, a')"
  obtains (refused) err where "x = Some err" "a' = a"
  | (suspended) a1 where "x = None" "rc_Purpose (dq_Claims r) = PurposeAccountDeletion"
      "accountStatusForUpdate (f 2) (dq_UserID r) a = Inr ''active''"
      "lockAvailableReceipt (f 3) cr ic (dq_Claims r) a = Inr ()"
      "findUserByClaims g cr ic (dq_Claims r) a = Inr (Some (dq_UserID r))"
      "lockOwnedOrganizations (f 4) (dq_UserID r) a = Inr 0"
      "insertAuditEvent (f 10) (dq_AuditEventID r) ''account_deletion_requested'' (dq_UserID r) (dq_RequestedAt r)
         (suspend (dq_UserID r) (dq_RequestedAt r) a) = Inr a1"
      "markReceiptConsumed (f 11) (rc_ChallengeID (dq_Claims r)) (dq_RequestedAt r) a1 = Inr a'"
  using assms unfolding RequestDeletion_record_def
proof (cases rule: transaction_cases)
  case committed
  from committed(2) show thesis
    by (auto simp: tx_Inr intro!: suspended [OF committed(1)])
qed (rule refused)

lemma RecoverDeletion_record_cases:
  assumes "RecoverDeletion_record cr ic f g r a = (x, a')"
  obtains (refused) err where "x = Some err" "a' = a"
  | (restored) u t a1 where "x = None" "rc_Purpose (dy_Claims r) = PurposeDeletionRecovery"
      "find (\<lambda>u. u_id u = dy_UserID r) (users (core a)) = Some u" "u_deletion_requested_at u = Some t"
      "u_status u = ''pending_deletion''" "dy_RecoveredAt r < t + deletionRecoveryWindow"
      "lockAvailableReceipt (f 3) cr ic (dy_Claims r) a = Inr ()"
      "findUserByClaims g cr ic (dy_Claims r) a = Inr (Some (dy_UserID r))" "\<not> u_administratively_disabled u"
      "insertAuditEvent (f 6) (dy_AuditEventID r) ''account_deletion_recovered'' (dy_UserID r) (dy_RecoveredAt r)
         (restore (dy_UserID r) a) = Inr a1"
      "markReceiptConsumed (f 7) (rc_ChallengeID (dy_Claims r)) (dy_RecoveredAt r) a1 = Inr a'"
  using assms unfolding RecoverDeletion_record_def
proof (cases rule: transaction_cases)
  case committed
  from committed(2) show thesis
    by (auto simp: tx_Inr intro!: restored [OF committed(1)])
qed (rule refused)

lemma status_error_None [simp]: "status_error v = None \<longleftrightarrow> v = ''active''"
  by (simp add: status_error_def)

lemma ConsumeLoginReceipt_cases:
  assumes "ConsumeLoginReceipt cr ic f g r a = (x, a')"
  obtains (refused) err where "x = Some err" "a' = a"
  | (consumed) a1 where "x = None" "rc_Purpose (lr_Claims r) = PurposeLogin"
      "accountStatusForUpdate (f 2) (lr_UserID r) a = Inr ''active''"
      "lockAvailableReceipt (f 3) cr ic (lr_Claims r) a = Inr ()"
      "findUserByClaims (g 1) cr ic (lr_Claims r) a = Inr (Some (lr_UserID r))"
      "insertBrowserLoginAudit (f 4) (lr_AuditEventID r) (lr_UserID r) (lr_ConsumedAt r) a = Inr a1"
      "markReceiptConsumed (f 5) (rc_ChallengeID (lr_Claims r)) (lr_ConsumedAt r) a1 = Inr a'"
  using assms unfolding ConsumeLoginReceipt_def
proof (cases rule: transaction_cases)
  case committed
  from committed(2) show thesis
    by (auto simp: tx_Inr intro!: consumed [OF committed(1)])
qed (rule refused)

text \<open>Registration.\<close>

lemma insert_user_Some:
  assumes "insert_user r a = Some a'"
  shows "a' = a\<lparr>core := (core a)\<lparr>users := users (core a) @ [r]\<rparr>\<rparr>" "u_id r \<notin> u_id ` set (users (core a))"
  using assms by (auto simp: insert_user_def exists_row_iff split: if_splits)

lemma insert_identity_Inr:
  assumes "insert_identity r a = Inr a'"
  shows "a' = a\<lparr>identities := identities a @ [r]\<rparr>" "idn_id r \<notin> idn_id ` set (identities a)"
    "(idn_kind r, idn_lookup_hmac r) \<notin> (\<lambda>i. (idn_kind i, idn_lookup_hmac i)) ` set (identities a)"
    "(idn_user_id r, idn_kind r) \<notin> (\<lambda>i. (idn_user_id i, idn_kind i)) ` set (identities a)"
    "idn_user_id r \<in> u_id ` set (users (core a))"
  using assms by (auto simp: insert_identity_def exists_row_iff split: if_splits intro: rev_image_eqI)

lemma insert_credential_Some:
  assumes "insert_credential r a = Some a'"
  shows "a' = a\<lparr>password_credentials := password_credentials a @ [r]\<rparr>"
    "pc_user_id r \<notin> pc_user_id ` set (password_credentials a)"
  using assms by (auto simp: insert_credential_def exists_row_iff split: if_splits)

lemma insert_space_Some:
  assumes "insert_space r a = Some a'"
  shows "a' = a\<lparr>core := (core a)\<lparr>personal_spaces := personal_spaces (core a) @ [r]\<rparr>\<rparr>"
    "ps_id r \<notin> ps_id ` set (personal_spaces (core a))"
    "ps_owner_user_id r \<notin> ps_owner_user_id ` set (personal_spaces (core a))"
  using assms by (auto simp: insert_space_def exists_row_iff split: if_splits)

lemma insert_acceptance_Some:
  "insert_acceptance r a = Some a' \<Longrightarrow> a' = a\<lparr>legal_acceptances := legal_acceptances a @ [r]\<rparr>"
  by (simp add: insert_acceptance_def split: if_splits)

definition registered_identity :: "RegistrationRecord \<Rightarrow> identity_row" where
  "registered_identity r = identity_of (rr_IdentityID r) (rr_UserID r) (rc_Kind (rr_Claims r)) (rr_Sealed r)
     (if rr_Direct r then None else Some (rr_CreatedAt r))"

definition registered_credential :: "RegistrationRecord \<Rightarrow> credential_row" where
  "registered_credential r = \<lparr>pc_user_id = rr_UserID r, pc_password_hash = rr_PasswordHash r,
     pc_params_version = rr_ParamsVersion r, pc_changed_at = rr_CreatedAt r\<rparr>"

definition registered_space :: "RegistrationRecord \<Rightarrow> space_row" where
  "registered_space r = \<lparr>ps_id = rr_PersonalSpaceID r, ps_owner_user_id = rr_UserID r,
     ps_display_name = nullif (rr_Nickname r), ps_status = ''active''\<rparr>"

lemma register_rows_Inr:
  assumes "register_rows f r a = Inr a'"
  obtains row las where
    "a' = a\<lparr>core := (core a)\<lparr>users := users (core a) @ [new_user (rr_UserID r) (rr_Nickname r)],
         personal_spaces := personal_spaces (core a) @ [registered_space r],
         audit_events := audit_events (core a) @ [row]\<rparr>,
       identities := identities a @ [registered_identity r],
       password_credentials := password_credentials a @ [registered_credential r],
       legal_acceptances := legal_acceptances a @ las\<rparr>"
    "rr_UserID r \<notin> u_id ` set (users (core a))" "idn_id (registered_identity r) \<notin> idn_id ` set (identities a)"
    "(rc_Kind (rr_Claims r), si_LookupHMAC (rr_Sealed r)) \<notin> (\<lambda>i. (idn_kind i, idn_lookup_hmac i)) ` set (identities a)"
    "(rr_UserID r, rc_Kind (rr_Claims r)) \<notin> (\<lambda>i. (idn_user_id i, idn_kind i)) ` set (identities a)"
    "rr_UserID r \<notin> pc_user_id ` set (password_credentials a)"
    "rr_PersonalSpaceID r \<notin> ps_id ` set (personal_spaces (core a))"
    "rr_UserID r \<notin> ps_owner_user_id ` set (personal_spaces (core a))"
    "a_id row \<notin> a_id ` set (audit_events (core a))"
proof -
  obtain a1 a2 a3 a4 a5 a6 la1 la2 where ins: "insert_user (new_user (rr_UserID r) (rr_Nickname r)) a = Some a1"
    "insert_identity (registered_identity r) a1 = Inr a2" "insert_credential (registered_credential r) a2 = Some a3"
    "insert_space (registered_space r) a3 = Some a4" "insert_acceptance la1 a4 = Some a5" "insert_acceptance la2 a5 = Some a6"
    "insertAuditEvent (f 8) (rr_AuditEventID r) ''account_registered'' (rr_UserID r) (rr_CreatedAt r) a6 = Inr a'"
    using assms unfolding register_rows_def registered_identity_def registered_credential_def registered_space_def InsertPersonal_def
    by (auto simp: tx_Inr insert_identity_row_def)
  obtain row where row: "a' = a6\<lparr>core := (core a6)\<lparr>audit_events := audit_events (core a6) @ [row]\<rparr>\<rparr>"
    "a_id row \<notin> a_id ` set (audit_events (core a6))"
    using ins(7) by (rule insertAuditEvent_Inr)
  note i = insert_user_Some [OF ins(1)] insert_identity_Inr [OF ins(2)] insert_credential_Some [OF ins(3)]
    insert_space_Some [OF ins(4)] insert_acceptance_Some [OF ins(5)] insert_acceptance_Some [OF ins(6)] row
  show thesis
    by (rule that [where row = row and las = "[la1, la2]"])
      (use i in \<open>auto simp: new_user_def registered_identity_def registered_credential_def registered_space_def identity_of_def\<close>)
qed

lemma Register_record_cases:
  assumes "Register_record cr ic f g r a = (x, a')"
  obtains (refused) err where "x = Some err" "a' = a"
  | (registered) a1 where "x = None" "rc_Purpose (rr_Claims r) = PurposeRegistration"
      "rr_UserID r \<noteq> Nil_uuid"
      "sealedMatchesClaims cr ic (rr_Sealed r) (rr_Claims r)"
      "rr_Direct r \<or> lockAvailableReceipt (f 1) cr ic (rr_Claims r) a = Inr ()"
      "identityExists g cr ic (rr_Claims r) a = Inr False" "register_rows f r a = Inr a1"
      "if rr_Direct r then a' = a1
       else markReceiptConsumed (f 9) (rc_ChallengeID (rr_Claims r)) (rr_CreatedAt r) a1 = Inr a'"
  using assms unfolding Register_record_def
proof (cases rule: transaction_cases)
  case committed
  from committed(2) show thesis
    by (cases "rr_Direct r") (auto simp: tx_Inr intro!: registered [OF committed(1)])
qed (rule refused)

section \<open>The invariant of the account tables\<close>

text \<open>An account can sign in: it has an identity, a password and a personal space.\<close>

definition complete_account :: "account_db \<Rightarrow> uuid \<Rightarrow> bool" where
  "complete_account a u \<longleftrightarrow> u \<in> idn_user_id ` set (identities a) \<and> u \<in> pc_user_id ` set (password_credentials a)
     \<and> u \<in> ps_owner_user_id ` set (personal_spaces (core a))"

definition accounts_ok :: "account_db \<Rightarrow> bool" where
  "accounts_ok a \<longleftrightarrow> distinct (map idn_id (identities a))
     \<and> distinct (map (\<lambda>i. (idn_kind i, idn_lookup_hmac i)) (identities a))
     \<and> distinct (map (\<lambda>i. (idn_user_id i, idn_kind i)) (identities a))
     \<and> idn_user_id ` set (identities a) \<subseteq> u_id ` set (users (core a))
     \<and> distinct (map pc_user_id (password_credentials a))
     \<and> distinct (map ch_ID (verification_challenges a))
     \<and> (\<forall>u\<in>u_id ` set (users (core a)). complete_account a u)"

text \<open>What the invariant depends on; most operations leave it alone.\<close>

definition account_shape ::
  "account_db \<Rightarrow> identity_row list \<times> uuid list \<times> uuid list \<times> uuid list \<times> uuid list" where
  "account_shape a = (identities a, map pc_user_id (password_credentials a), map ch_ID (verification_challenges a),
     map u_id (users (core a)), map ps_owner_user_id (personal_spaces (core a)))"

lemma accounts_ok_shape:
  assumes "account_shape a' = account_shape a"
  shows "accounts_ok a' = accounts_ok a"
proof -
  have "set (map pc_user_id (password_credentials a')) = set (map pc_user_id (password_credentials a))"
    "set (map u_id (users (core a'))) = set (map u_id (users (core a)))"
    "set (map ps_owner_user_id (personal_spaces (core a'))) = set (map ps_owner_user_id (personal_spaces (core a)))"
    using assms by (simp_all only: account_shape_def prod.inject)
  then show ?thesis
    using assms by (simp add: accounts_ok_def complete_account_def account_shape_def)
qed

lemma shape_simps [simp]:
  "account_shape (a\<lparr>core := (core a)\<lparr>audit_events := t\<rparr>\<rparr>) = account_shape a"
  "account_shape (a\<lparr>core := (core a)\<lparr>sessions := ss\<rparr>\<rparr>) = account_shape a"
  by (simp_all add: account_shape_def)

lemma markReceiptConsumed_shape:
  "markReceiptConsumed fails x at a = Inr a' \<Longrightarrow> account_shape a' = account_shape a \<and> core a' = core a"
  by (drule markReceiptConsumed_Inr(1)) (simp add: account_shape_def map_update_where)

lemma set_credential_shape:
  "set_credential u h v at a = Inr (n, a') \<Longrightarrow> account_shape a' = account_shape a \<and> core a' = core a"
  by (drule set_credential_Inr(1)) (simp add: account_shape_def map_update_where)

lemma audit_shape:
  "insertAuditEvent fails i t u at a = Inr a' \<Longrightarrow> account_shape a' = account_shape a"
  "insertBrowserLoginAudit fails i u at a = Inr a' \<Longrightarrow> account_shape a' = account_shape a"
  by (erule insertAuditEvent_Inr insertBrowserLoginAudit_Inr, simp)+

lemma bump_security_shape [simp]: "account_shape (bump_security u a) = account_shape a"
  by (simp add: account_shape_def bump_security_def map_update_where)

lemma revocation_shape [simp]:
  "account_shape (revoke_live_sessions u reason at a) = account_shape a"
  "account_shape (revoke_others u s dev at a) = account_shape a"
  "account_shape (suspend u at a) = account_shape a" "account_shape (restore u a) = account_shape a"
  by (simp_all add: account_shape_def revoke_live_sessions_def revoke_others_def suspend_def restore_def map_update_where)

text \<open>The shared tables.\<close>

lemma system_ok_audit:
  assumes "system_ok limit d" "a_id row \<notin> a_id ` set (audit_events d)"
  shows "system_ok limit (d\<lparr>audit_events := audit_events d @ [row]\<rparr>)"
  by (rule system_ok_frame [OF assms(1)]) (use assms in \<open>simp_all add: system_ok_def db_keys_def\<close>)

lemma audit_system_ok:
  "insertAuditEvent fails i t u at a = Inr a' \<Longrightarrow> system_ok limit (core a) \<Longrightarrow> system_ok limit (core a')"
  "insertBrowserLoginAudit fails i u at a = Inr a' \<Longrightarrow> system_ok limit (core a) \<Longrightarrow> system_ok limit (core a')"
  by (erule insertAuditEvent_Inr insertBrowserLoginAudit_Inr, simp add: system_ok_audit)+

lemma system_ok_accounts:
  assumes "system_ok limit d" "map u_id us = map u_id (users d)" "map ps_id ps = map ps_id (personal_spaces d)"
    "map ps_owner_user_id ps = map ps_owner_user_id (personal_spaces d)"
  shows "system_ok limit (d\<lparr>users := us, personal_spaces := ps\<rparr>)"
  by (rule system_ok_frame [OF assms(1)]) (use assms in \<open>simp_all add: system_ok_def db_keys_def\<close>)

lemma bump_security_ok: "system_ok limit (core a) \<Longrightarrow> system_ok limit (core (bump_security u a))"
  using system_ok_accounts [of limit "core a" "users (core (bump_security u a))" "personal_spaces (core a)"]
  by (simp add: bump_security_def map_update_where)

lemma restore_ok: "system_ok limit (core a) \<Longrightarrow> system_ok limit (core (restore u a))"
  unfolding restore_def by (simp add: system_ok_accounts map_update_where)

lemma revoke_live_sessions_ok:
  "system_ok limit (core a) \<Longrightarrow> system_ok limit (core (revoke_live_sessions u reason at a))"
  unfolding revoke_live_sessions_def by (simp, rule update_sessions_ok) simp_all

lemma revoke_many_ok:
  assumes "system_ok limit d"
    and devs: "devices d' = update_where P (\<lambda>v. v\<lparr>d_status := ''revoked'', d_revoked_at := coalesce (d_revoked_at v) at\<rparr>) (devices d)"
    and sess: "sessions d' = update_where Q (\<lambda>s. s\<lparr>s_revoked_at := coalesce (s_revoked_at s) at,
      s_revoked_reason := coalesce (s_revoked_reason s) reason\<rparr>) (sessions d)"
    and other: "map u_id (users d') = map u_id (users d)" "map ps_id (personal_spaces d') = map ps_id (personal_spaces d)"
      "map ps_owner_user_id (personal_spaces d') = map ps_owner_user_id (personal_spaces d)"
      "map i_jti (issuances d') = map i_jti (issuances d)" "oauth_requests d' = oauth_requests d"
      "authorization_codes d' = authorization_codes d" "audit_events d' = audit_events d"
    and spared: "\<And>s v. s \<in> set (sessions d) \<Longrightarrow> \<not> Q s \<Longrightarrow> v \<in> set (devices d) \<Longrightarrow> d_id v = s_device_id s
      \<Longrightarrow> d_user_id v = s_user_id s \<Longrightarrow> \<not> P v"
  shows "system_ok limit d'"
proof (rule system_okI [OF assms(1)])
  have d: "db_keys d" "within_limit limit d" using assms(1) by (simp_all add: system_ok_def)
  show "db_keys d'" using d(1) other by (simp add: db_keys_def devs sess map_update_where)
  have "length (filter (\<lambda>v. d_user_id v = u \<and> d_status v = ''active'') (devices d'))
      \<le> length (filter (\<lambda>v. d_user_id v = u \<and> d_status v = ''active'') (devices d))" for u
    unfolding devs by (rule filter_update_le) simp
  then show "within_limit limit d'" using d(2) unfolding within_limit_def active_count_def
    by (meson of_nat_mono order_trans)
  have live: "s \<in> set (sessions d) \<and> \<not> Q s" if "s \<in> set (sessions d')" "s_revoked_at s = None" for s
  proof -
    obtain r where "r \<in> set (sessions d)" "s = (if Q r then r\<lparr>s_revoked_at := coalesce (s_revoked_at r) at,
      s_revoked_reason := coalesce (s_revoked_reason r) reason\<rparr> else r)"
      using \<open>s \<in> set (sessions d')\<close> unfolding sess set_update_where by blast
    with \<open>s_revoked_at s = None\<close> show ?thesis by (cases "Q r") simp_all
  qed
  fix s assume s: "s \<in> set (sessions d')" "s_revoked_at s = None"
  show "(\<exists>r\<in>set (sessions d). s_revoked_at r = None \<and> s_device_id r = s_device_id s \<and> s_user_id r = s_user_id s)
      \<or> session_owned d s" using live [OF s] s(2) by blast
  fix v assume v: "v \<in> set (devices d)" "d_status v \<noteq> ''revoked''" "s_device_id s = d_id v"
  obtain w where w: "w \<in> set (devices d)" "d_id w = s_device_id s" "d_user_id w = s_user_id s"
    using assms(1) live [OF s] s(2) by (auto simp: system_ok_def session_owned_def)
  have "w = v" using d(1) w(1,2) v(1,3)
    by (intro distinct_key_eq [of d_id "devices d"]) (simp_all add: db_keys_def)
  then have "\<not> P v" using spared [of s v] live [OF s] v(1,3) w(3) by simp
  with v show "\<exists>v'\<in>set (devices d'). d_id v' = d_id v \<and> d_user_id v' = d_user_id v \<and> d_status v' \<noteq> ''revoked''"
    unfolding devs set_update_where by (intro bexI [of _ v]) auto
qed

lemma suspend_ok:
  assumes "system_ok limit (core a)"
  shows "system_ok limit (core (suspend u at a))"
  by (rule revoke_many_ok [OF assms, where P = "\<lambda>v. d_user_id v = u" and Q = "\<lambda>s. s_user_id s = u"])
    (simp_all add: suspend_def map_update_where)

lemma revoke_others_ok:
  assumes "system_ok limit (core a)" "s \<in> set (sessions (core a))"
  shows "system_ok limit (core (revoke_others u (s_id s) (s_device_id s) at a))"
proof (rule revoke_many_ok [OF assms(1), where P = "\<lambda>v. d_user_id v = u \<and> d_id v \<noteq> s_device_id s"
      and Q = "\<lambda>r. s_user_id r = u \<and> s_id r \<noteq> s_id s"])
  fix r v assume "r \<in> set (sessions (core a))" "\<not> (s_user_id r = u \<and> s_id r \<noteq> s_id s)" "d_id v = s_device_id r"
    "d_user_id v = s_user_id r"
  moreover have "s_id r = s_id s \<Longrightarrow> r = s" if "r \<in> set (sessions (core a))" using assms that
    by (intro distinct_key_eq [of s_id "sessions (core a)"]) (simp_all add: system_ok_def db_keys_def)
  ultimately show "\<not> (d_user_id v = u \<and> d_id v \<noteq> s_device_id s)" by auto
qed (simp_all add: revoke_others_def map_update_where)

section \<open>Every operation keeps both invariants\<close>

definition platform_ok :: "int \<Rightarrow> account_db \<Rightarrow> bool" where
  "platform_ok limit a \<longleftrightarrow> system_ok limit (core a) \<and> accounts_ok a"

lemma platform_okI:
  "platform_ok limit a \<Longrightarrow> account_shape a' = account_shape a \<Longrightarrow> system_ok limit (core a') \<Longrightarrow> platform_ok limit a'"
  using accounts_ok_shape [of a' a] by (simp add: platform_ok_def)

lemma ResetPassword_record_ok:
  assumes "platform_ok limit a" "ResetPassword_record cr ic f g r a = (x, a')"
  shows "platform_ok limit a'"
  using assms(2)
proof (cases rule: ResetPassword_record_cases)
  case (changed u status a1 a2)
  note c = set_credential_shape [OF changed(7)] and m = markReceiptConsumed_shape [OF changed(9)]
  have "system_ok limit (core a1)" using assms(1) c by (simp add: platform_ok_def)
  then have "system_ok limit (core a2)"
    by (intro audit_system_ok(1) [OF changed(8)] revoke_live_sessions_ok bump_security_ok)
  with c m audit_shape(1) [OF changed(8)] show ?thesis by (intro platform_okI [OF assms(1)]) simp_all
qed (use assms(1) in simp)

lemma ChangePassword_record_ok:
  assumes "platform_ok limit a" "ChangePassword_record f r a = (x, a')"
  shows "platform_ok limit a'"
  using assms(2)
proof (cases rule: ChangePassword_record_cases)
  case (changed s a1)
  note c = set_credential_shape [OF changed(7)]
  have s: "s \<in> set (sessions (core (bump_security (pw_UserID r) a1)))" using changed(3) c by (simp add: bump_security_def)
  have "system_ok limit (core a1)" using assms(1) c by (simp add: platform_ok_def)
  then have "system_ok limit (core a')"
    using revoke_others_ok [OF bump_security_ok s] changed(4) by (intro audit_system_ok(1) [OF changed(8)]) simp
  with c audit_shape(1) [OF changed(8)] show ?thesis by (intro platform_okI [OF assms(1)]) simp_all
qed (use assms(1) in simp)

lemma RequestDeletion_record_ok:
  assumes "platform_ok limit a" "RequestDeletion_record cr ic f g r a = (x, a')"
  shows "platform_ok limit a'"
  using assms(2)
proof (cases rule: RequestDeletion_record_cases)
  case (suspended a1)
  note m = markReceiptConsumed_shape [OF suspended(8)]
  have "system_ok limit (core a1)"
    using assms(1) by (intro audit_system_ok(1) [OF suspended(7)] suspend_ok) (simp add: platform_ok_def)
  with m audit_shape(1) [OF suspended(7)] show ?thesis by (intro platform_okI [OF assms(1)]) simp_all
qed (use assms(1) in simp)

lemma RecoverDeletion_record_ok:
  assumes "platform_ok limit a" "RecoverDeletion_record cr ic f g r a = (x, a')"
  shows "platform_ok limit a'"
  using assms(2)
proof (cases rule: RecoverDeletion_record_cases)
  case (restored u t a1)
  note m = markReceiptConsumed_shape [OF restored(11)]
  have "system_ok limit (core a1)"
    using assms(1) by (intro audit_system_ok(1) [OF restored(10)] restore_ok) (simp add: platform_ok_def)
  with m audit_shape(1) [OF restored(10)] show ?thesis by (intro platform_okI [OF assms(1)]) simp_all
qed (use assms(1) in simp)

lemma ConsumeLoginReceipt_ok:
  assumes "platform_ok limit a" "ConsumeLoginReceipt cr ic f g r a = (x, a')"
  shows "platform_ok limit a'"
  using assms(2)
proof (cases rule: ConsumeLoginReceipt_cases)
  case (consumed a1)
  note m = markReceiptConsumed_shape [OF consumed(7)]
  have "system_ok limit (core a1)" using assms(1) by (intro audit_system_ok(2) [OF consumed(6)]) (simp add: platform_ok_def)
  with m audit_shape(2) [OF consumed(6)] show ?thesis by (intro platform_okI [OF assms(1)]) simp_all
qed (use assms(1) in simp)

lemma UpdatePasswordHash_ok:
  assumes "platform_ok limit a" "UpdatePasswordHash fails u h v at a = (x, a')"
  shows "platform_ok limit a'"
  using assms(2) unfolding UpdatePasswordHash_def
proof (cases rule: transaction_cases)
  case committed
  then obtain n a1 where "set_credential u h v at a = Inr (n, a1)" "a' = a1" by (auto simp: tx_Inr)
  with set_credential_shape [of u h v at a n a1] show ?thesis
    using assms(1) by (intro platform_okI [OF assms(1)]) (auto simp: platform_ok_def)
qed (use assms(1) in simp)

lemma BindIdentity_record_ok:
  assumes "platform_ok limit a" "BindIdentity_record cr ic f g r a = (x, a')"
  shows "platform_ok limit a'"
  using assms(2)
proof (cases rule: BindIdentity_record_cases)
  case (bound a1 a2)
  note m = markReceiptConsumed_shape [OF bound(8)]
  note i = insert_identity_Inr [OF bound(6)]
  have "accounts_ok a1" using assms(1) i(2-5) unfolding i(1) platform_ok_def
    by (auto simp: accounts_ok_def complete_account_def)
  then have one: "platform_ok limit a1" using assms(1) by (simp add: platform_ok_def i(1))
  have "system_ok limit (core a2)"
    using one by (intro audit_system_ok(1) [OF bound(7)]) (simp add: platform_ok_def)
  with m audit_shape(1) [OF bound(7)] show ?thesis by (intro platform_okI [OF one]) simp_all
qed (use assms(1) in simp)

text \<open>One identity of a kind goes, another one stays.\<close>

lemma delete_one_of_two:
  assumes "1 < length (filter P t)" "length (filter (\<lambda>i. P i \<and> Q i) t) = 1"
  shows "\<exists>i\<in>set t. P i \<and> \<not> Q i"
proof (rule ccontr)
  assume "\<not> ?thesis"
  then have "filter P t = filter (\<lambda>i. P i \<and> Q i) t" by (intro filter_cong) auto
  with assms show False by simp
qed

lemma RemoveIdentity_record_ok:
  assumes "platform_ok limit a" "RemoveIdentity_record f r a = (x, a')"
  shows "platform_ok limit a'"
  using assms(2)
proof (cases rule: RemoveIdentity_record_cases)
  case removed
  let ?P = "\<lambda>i. idn_user_id i = ir_UserID r \<and> idn_kind i = ir_Kind r"
  let ?a = "a\<lparr>identities := delete_where ?P (identities a)\<rparr>"
  obtain i where i: "i \<in> set (identities a)" "idn_user_id i = ir_UserID r" "idn_kind i \<noteq> ir_Kind r"
    using delete_one_of_two [OF removed(3,4)] by blast
  have "u \<in> idn_user_id ` set (identities ?a)" if "u \<in> idn_user_id ` set (identities a)" for u
    using that i by (cases "u = ir_UserID r") (auto simp: set_delete_where intro: rev_image_eqI)
  then have "accounts_ok ?a" using assms(1) unfolding platform_ok_def accounts_ok_def complete_account_def
    by (auto simp: delete_where_def distinct_map_filter_key)
  then have one: "platform_ok limit ?a" using assms(1) by (simp add: platform_ok_def)
  show ?thesis using one audit_shape(1) [OF removed(5)]
    by (intro platform_okI [OF one]) (auto simp: platform_ok_def intro: audit_system_ok(1) [OF removed(5)])
qed (use assms(1) in simp)

lemma Register_record_ok:
  assumes "platform_ok limit a" "Register_record cr ic f g r a = (x, a')"
  shows "platform_ok limit a'"
  using assms(2)
proof (cases rule: Register_record_cases)
  case (registered a1)
  have d: "system_ok limit (core a)" and ok: "accounts_ok a" using assms(1) by (simp_all add: platform_ok_def)
  from registered(7) obtain row las where a1: "a1 = a\<lparr>core := (core a)\<lparr>users := users (core a) @ [new_user (rr_UserID r) (rr_Nickname r)],
         personal_spaces := personal_spaces (core a) @ [registered_space r],
         audit_events := audit_events (core a) @ [row]\<rparr>,
       identities := identities a @ [registered_identity r],
       password_credentials := password_credentials a @ [registered_credential r],
       legal_acceptances := legal_acceptances a @ las\<rparr>"
    and new: "rr_UserID r \<notin> u_id ` set (users (core a))" "idn_id (registered_identity r) \<notin> idn_id ` set (identities a)"
    "(rc_Kind (rr_Claims r), si_LookupHMAC (rr_Sealed r)) \<notin> (\<lambda>i. (idn_kind i, idn_lookup_hmac i)) ` set (identities a)"
    "(rr_UserID r, rc_Kind (rr_Claims r)) \<notin> (\<lambda>i. (idn_user_id i, idn_kind i)) ` set (identities a)"
    "rr_UserID r \<notin> pc_user_id ` set (password_credentials a)"
    "rr_PersonalSpaceID r \<notin> ps_id ` set (personal_spaces (core a))"
    "rr_UserID r \<notin> ps_owner_user_id ` set (personal_spaces (core a))"
    "a_id row \<notin> a_id ` set (audit_events (core a))" by (rule register_rows_Inr)
  have "system_ok limit (core a1)"
    by (rule system_ok_frame [OF d])
      (use d new in \<open>simp_all add: a1 system_ok_def db_keys_def new_user_def registered_space_def\<close>)
  moreover have "accounts_ok a1" using ok new(1-5)
    by (auto simp: a1 accounts_ok_def complete_account_def new_user_def registered_space_def registered_identity_def
        registered_credential_def identity_of_def)
  ultimately have one: "platform_ok limit a1" by (simp add: platform_ok_def)
  show ?thesis
  proof (cases "rr_Direct r")
    case False
    with registered(8) markReceiptConsumed_shape have "account_shape a' = account_shape a1 \<and> core a' = core a1" by simp
    with one show ?thesis by (intro platform_okI [OF one]) (auto simp: platform_ok_def)
  qed (use one registered(8) in simp)
qed (use assms(1) in simp)

end
