(* ===== verification/AccountSamples.thy ===== *)
theory AccountSamples
  imports AccountService
begin

text \<open>
  A concrete account service, with the sample cryptography, and one account in it: the example on
  which the properties of the account component are evaluated.
\<close>

definition sample_phone :: bytes where "sample_phone = ''+8613800138000''"

definition phone_index :: LookupIndex where
  "phone_index = lookup sample_crypto sample_identity_codec IdentityPhone sample_phone ''l2''"

definition old_phone_index :: LookupIndex where
  "old_phone_index = lookup sample_crypto sample_identity_codec IdentityPhone sample_phone ''l1''"

lemma phone_candidates:
  "LookupCandidates sample_crypto sample_identity_codec IdentityPhone sample_phone = [phone_index, old_phone_index]"
  by (simp add: LookupCandidates_def validIdentityKind_def sample_phone_def phone_index_def old_phone_index_def
      sample_identity_codec_def sample_identity_simps)

lemma phone_index_fields [simp]:
  "li_KeyID phone_index = ''l2''" "li_KeyID old_phone_index = ''l1''" "length (li_HMAC phone_index) = 32"
  "length (li_HMAC old_phone_index) = 32"
  by (simp_all add: phone_index_def old_phone_index_def lookup_def sample_crypto_correct)

lemma sample_sealed_fields [simp]:
  "si_LookupKeyID sample_sealed = ''l2''" "si_LookupHMAC sample_sealed = li_HMAC phone_index"
  "length (si_Nonce sample_sealed) = 12" "length (si_Ciphertext sample_sealed) = 30"
  by (simp_all add: sample_sealed_def Seal_def validIdentityKind_def RandomBytes_def ring_get_def aes_key_def
      sample_read_def Let_def sample_identity_codec_def sample_identity_simps phone_index_def lookup_def sample_phone_def)
    (simp add: sample_crypto_def)

lemma sample_phone_seal: "Seal sample_crypto sample_identity_codec sample_read IdentityPhone sample_phone = Inr sample_sealed"
  using sample_seal by (simp add: sample_phone_def)

lemma sample_phone_login [simp]: "identityKindForLogin sample_phone = IdentityPhone"
  by (simp add: identityKindForLogin_def sample_phone_def)

lemma sample_phone_normalized [simp]: "NormalizeIdentity tbl IdentityPhone sample_phone = Inr sample_phone"
  using sample_phone_normal [of tbl] by (simp add: sample_phone_def)

section \<open>Receipts\<close>

definition purpose_json :: "Purpose \<Rightarrow> bytes \<Rightarrow> receiptPayload option" where
  "purpose_json purpose t = (if t = ''{}'' then Some (sample_payload\<lparr>rp_Purpose := purpose\<rparr>) else None)"

definition sample_token :: bytes where
  "sample_token = encode_url ''{}'' @ ''.''
     @ encode_url (receiptSignature sample_crypto (replicate 32 (CHR ''q'')) (encode_url ''{}''))"

definition sample_claims :: "Purpose \<Rightarrow> ReceiptClaims" where
  "sample_claims purpose = \<lparr>rc_ChallengeID = 7, rc_Kind = IdentityPhone, rc_NormalizedIdentity = sample_phone,
     rc_Purpose = purpose, rc_IssuedAt = 0, rc_ExpiresAt = 600 * second\<rparr>"

lemma sample_token_parses:
  assumes "validPurpose purpose"
  shows "Parse sample_crypto sample_tbl (purpose_json purpose) sample_receipt_codec 0 sample_token purpose = Inr (sample_claims purpose)"
proof -
  let ?sig = "receiptSignature sample_crypto (replicate 32 (CHR ''q'')) (encode_url ''{}'')"
  have "length ?sig = 32" by (simp add: receiptSignature_def sample_crypto_correct)
  moreover have "length sample_token \<le> maximumReceiptTokenLength"
    using \<open>length ?sig = 32\<close> by (simp add: sample_token_def length_EncodeToString maximumReceiptTokenLength_def)
  moreover have "Open_identity sample_crypto sample_identity_codec IdentityPhone
      \<lparr>si_EncryptionKeyID = si_EncryptionKeyID sample_sealed, si_Nonce = si_Nonce sample_sealed,
       si_Ciphertext = si_Ciphertext sample_sealed, si_LookupKeyID = [], si_LookupHMAC = []\<rparr>
      = Inr ''+8613800138000''"
    by (rule Open_sealed [OF sample_crypto_correct(1) sample_identity_codecs(1) _ sample_seal])
      (auto simp: sample_read_def)
  ultimately show ?thesis
    using assms unix_expiry [of 0]
    by (simp add: Parse_def sample_token_def cut_append b64url.dec_enc purpose_json_def sample_payload_def
        receipt_payload_def sample_challenge_fields sample_receipt_codec_def sample_phone_normal sample_claims_def
        maximumReceiptTokenLength_def receipt_lifetime_exact of_unix_truncate Let_def
        truncate_second_def receiptLifetime_def of_unix_def unix_of_def time_sub_def max_duration_def sample_phone_def)
qed

section \<open>The service\<close>

definition sample_libs :: "Purpose \<Rightarrow> libraries" where
  "sample_libs purpose = \<lparr>lb_crypto = sample_crypto, lb_argon2 = sample_idkey, lb_lower = sample_tbl,
     lb_receipt_json = purpose_json purpose, lb_parse_ip = (\<lambda>ip. if ip = [] then None else Some ip),
     lb_uuid_parse = (\<lambda>_. None)\<rparr>"

definition sample_hasher :: PasswordHasher where
  "sample_hasher = \<lparr>currentVersion = 1, versions = [(1, sample_params)]\<rparr>"

definition password_hash :: "bytes \<Rightarrow> bytes" where
  "password_hash password = hash_text 1 sample_params (replicate 16 (CHR ''n''))
     (idkey_of sample_idkey password (replicate 16 (CHR ''n'')) sample_params)"

definition sample_accounts :: AccountService where
  "sample_accounts = \<lparr>as_identity = sample_identity_codec, as_receipts = sample_receipt_codec,
     as_passwords = sample_hasher, as_legal = \<lparr>ld_TermsVersion = ''1'', ld_PrivacyVersion = ''1''\<rparr>,
     as_limiter = \<lparr>ll_hmacKey = replicate 32 (CHR ''m''),
       ll_policy = \<lparr>lp_IdentityLimit = 5, lp_IPLimit = 20, lp_Window = hour\<rparr>\<rparr>,
     as_direct = None, as_dummyHash = password_hash ''dummy-password''\<rparr>"

definition sample_account_env :: account_env where
  "sample_account_env = \<lparr>ae_clock = (\<lambda>_. 10 * second), ae_receipt_now = 0, ae_redis_now = 0, ae_recorder_now = 0,
     ae_read = (\<lambda>_. sample_read), ae_uuid = (\<lambda>n. Some (word_of_nat n + 101)), ae_limit_fails = False,
     ae_lookup = no_fault, ae_audit_fails = False, ae_rehash_fails = False, ae_faults = no_fault,
     ae_queries = (\<lambda>_. no_fault)\<rparr>"

lemma sample_service_fields [simp]:
  "lb_crypto (sample_libs p) = sample_crypto" "lb_argon2 (sample_libs p) = sample_idkey" "lb_lower (sample_libs p) = sample_tbl"
  "lb_receipt_json (sample_libs p) = purpose_json p" "as_identity sample_accounts = sample_identity_codec"
  "as_receipts sample_accounts = sample_receipt_codec" "as_passwords sample_accounts = sample_hasher"
  "as_direct sample_accounts = None" "lb_uuid_parse (sample_libs p) = (\<lambda>_. None)"
  "lb_parse_ip (sample_libs p) = (\<lambda>ip. if ip = [] then None else Some ip)"
  "as_legal sample_accounts = \<lparr>ld_TermsVersion = ''1'', ld_PrivacyVersion = ''1''\<rparr>"
  "as_dummyHash sample_accounts = password_hash ''dummy-password''"
  by (simp_all add: sample_libs_def sample_accounts_def)

lemma sample_account_env_fields [simp]:
  "ae_clock sample_account_env n = 10 * second" "ae_receipt_now sample_account_env = 0" "ae_read sample_account_env n = sample_read"
  "ae_lookup sample_account_env = no_fault" "ae_faults sample_account_env = no_fault" "ae_queries sample_account_env n = no_fault"
  "ae_audit_fails sample_account_env = False" "ae_uuid sample_account_env n = Some (word_of_nat n + 101)" "ae_recorder_now sample_account_env = 0"
  "ae_limit_fails sample_account_env = False" "ae_redis_now sample_account_env = 0"
  by (simp_all add: sample_account_env_def)

lemma sample_receipt_parses:
  "validPurpose purpose \<Longrightarrow> parse_receipt (sample_libs purpose) sample_accounts sample_account_env sample_token purpose
     = Some (sample_claims purpose)"
  by (simp add: parse_receipt_def sample_token_parses)

lemma sample_purposes [simp]:
  "validPurpose PurposeRegistration" "validPurpose PurposeLogin" "validPurpose PurposePasswordReset"
  "validPurpose PurposeAccountDeletion" "validPurpose PurposeDeletionRecovery"
  by (simp_all add: validPurpose_def)

lemma sample_hash:
  "validPasswordLength password \<Longrightarrow> hash_password (sample_libs p) sample_accounts sample_account_env password = Some (password_hash password, 1)"
  by (simp add: hash_password_def Hash_def sample_hasher_def Params_def RandomBytes_def sample_read_def password_hash_def
      sample_params_def Let_def)

lemma sample_password_verify:
  assumes "validPasswordLength password" "validPasswordLength other"
    and "take 32 (password @ replicate 16 (CHR ''n'') @ replicate 32 (CHR ''d''))
      = take 32 (other @ replicate 16 (CHR ''n'') @ replicate 32 (CHR ''d'')) \<longleftrightarrow> same"
  shows "Verify sample_idkey sample_hasher password (password_hash other) = Inr (same, False)"
proof -
  have "parse sample_hasher (password_hash other) = Inr (1, sample_params, replicate 16 (CHR ''n''),
      idkey_of sample_idkey other (replicate 16 (CHR ''n'')) sample_params)"
    unfolding password_hash_def
    by (rule parse_hash_text) (simp_all add: idkey_of_def sample_idkey_def sample_params_def sample_hasher_def)
  with assms show ?thesis
    by (simp add: Verify_def idkey_of_def sample_idkey_def sample_params_def sample_hasher_def)
qed

lemma password_hash_nonempty [simp]: "password_hash password \<noteq> []"
  by (simp add: password_hash_def hash_text_def)

lemma ascii_password: "list_all (\<lambda>c. code c < 128) s \<Longrightarrow> 10 \<le> length s \<Longrightarrow> length s \<le> 128 \<Longrightarrow> validPasswordLength s"
  by (auto simp: validPasswordLength_def ValidString_def RuneCountInString_def minimumPasswordRunes_def
      maximumPasswordRunes_def pieces_ascii list_all_iff)

lemma sample_passwords_valid [simp]:
  "validPasswordLength ''correct-horse''" "validPasswordLength ''other-password''" "validPasswordLength ''dummy-password''"
  by (simp_all add: ascii_password)

lemma sample_login_verifies [simp]:
  "Verify sample_idkey sample_hasher ''correct-horse'' (password_hash ''correct-horse'') = Inr (True, False)"
  "Verify sample_idkey sample_hasher ''other-password'' (password_hash ''correct-horse'') = Inr (False, False)"
  "Verify sample_idkey sample_hasher ''other-password'' (password_hash ''dummy-password'') = Inr (False, False)"
  by (rule sample_password_verify; simp)+

section \<open>An account\<close>

text \<open>The user of the sample database with a phone number, a password, one live session, and a challenge
  whose code was entered, for any purpose.\<close>

definition entered_challenge :: "Purpose \<Rightarrow> Challenge" where
  "entered_challenge purpose = sample_challenge\<lparr>ch_Purpose := purpose, ch_TargetLookupHMAC := li_HMAC phone_index,
     ch_ConsumedAt := Some 0\<rparr>"

definition sample_identity :: identity_row where
  "sample_identity = identity_of 102 1 IdentityPhone sample_sealed (Some 0)"

definition sample_account :: "Purpose \<Rightarrow> account_db" where
  "sample_account purpose = \<lparr>core = started_db, identities = [sample_identity],
     password_credentials = [\<lparr>pc_user_id = 1, pc_password_hash = password_hash ''correct-horse'',
       pc_params_version = 1, pc_changed_at = 0\<rparr>], legal_acceptances = [],
     verification_challenges = [entered_challenge purpose]\<rparr>"

definition phone_state :: "Purpose \<Rightarrow> account_state" where
  "phone_state purpose = \<lparr>st_db = sample_account purpose, st_limits = Map.empty\<rparr>"

lemma sample_account_rows [simp]:
  "users (core (sample_account p)) = [\<lparr>u_id = 1, u_nickname = None, u_status = ''active'', u_password_security_version = 1,
     u_deletion_requested_at = None, u_deletion_finalized_at = None, u_administratively_disabled = False\<rparr>]"
  "personal_spaces (core (sample_account p)) = [\<lparr>ps_id = 4, ps_owner_user_id = 1, ps_display_name = None, ps_status = ''active''\<rparr>]"
  "identities (sample_account p) = [sample_identity]" "verification_challenges (sample_account p) = [entered_challenge p]"
  "password_credentials (sample_account p) = [\<lparr>pc_user_id = 1, pc_password_hash = password_hash ''correct-horse'',
     pc_params_version = 1, pc_changed_at = 0\<rparr>]"
  "sessions (core (sample_account p)) = sessions started_db"
  "audit_events (core (sample_account p)) = []" "organizations (core (sample_account p)) = []"
  "st_db (phone_state p) = sample_account p" "st_limits (phone_state p) = Map.empty"
  by (simp_all add: sample_account_def phone_state_def started_db_def sample_db_def empty_db_def)

lemma sample_identity_matches [simp]:
  "matches IdentityPhone phone_index sample_identity" "idn_user_id sample_identity = 1" "idn_kind sample_identity = IdentityPhone"
  by (simp_all add: matches_def sample_identity_def identity_of_def)

lemma entered_challenge_fields [simp]:
  "ch_ID (entered_challenge p) = 7" "ch_Purpose (entered_challenge p) = p" "ch_IdentityKind (entered_challenge p) = IdentityPhone"
  "ch_ConsumedAt (entered_challenge p) = Some 0" "ch_ReceiptConsumedAt (entered_challenge p) = None"
  "ch_TargetLookupKeyID (entered_challenge p) = ''l2''" "ch_TargetLookupHMAC (entered_challenge p) = li_HMAC phone_index"
  by (simp_all add: entered_challenge_def sample_challenge_def)

lemma sample_claims_fields [simp]:
  "rc_Kind (sample_claims p) = IdentityPhone" "rc_NormalizedIdentity (sample_claims p) = sample_phone"
  "rc_ChallengeID (sample_claims p) = 7" "rc_Purpose (sample_claims p) = p"
  by (simp_all add: sample_claims_def)

lemma sample_lock [simp]:
  assumes "find (\<lambda>c. ch_ID c = 7 \<and> ch_Purpose c = p) (verification_challenges a) = Some (entered_challenge p)"
  shows "lockAvailableReceipt False sample_crypto sample_identity_codec (sample_claims p) a = Inr ()"
  using assms by (simp add: lockAvailableReceipt_def phone_candidates)

lemma sample_owner [simp]:
  "identities a = [sample_identity] \<Longrightarrow>
     findUserByClaims no_fault sample_crypto sample_identity_codec (sample_claims p) a = Inr (Some 1)"
  by (simp add: findUserByClaims_def phone_candidates)

lemma sample_found [simp]:
  "identities a = [sample_identity] \<Longrightarrow> credential_join 1 a = Some c \<Longrightarrow>
     FindCredential no_fault IdentityPhone [phone_index, old_phone_index] a = Inr (Some c)"
  by simp

lemma sample_uuids_drawn [simp]:
  "randomUUIDs (ae_uuid sample_account_env) (Suc 0) = Some [101]"
  "randomUUIDs (ae_uuid sample_account_env) 2 = Some [101, 102]"
  "randomUUIDs (ae_uuid sample_account_env) 6 = Some [101, 102, 103, 104, 105, 106]"
  by (simp_all add: randomUUIDs_def upt_rec numeral_eq_Suc)

end
