(* ===== verification/Platform.thy ===== *)
theory Platform
  imports AccountSafety AccountSamples
begin

text \<open>
  The whole of the modelled program: accounts, verification codes, devices, sessions and the desktop
  sign-in on one database. A state is reachable if some interleaving of the calls of all services
  leads to it, each call with whatever faults, clocks and random draws. The theory shows the
  invariant of the reachable states and the properties that rest on several components: receipts
  are used once, whoever registered can sign in, a password change or a deletion request ends the
  sessions.
\<close>

section \<open>The device, session and sign-in services leave accounts alone\<close>

lemma Rotate_accounts:
  "Rotate f hash n now d = (res, d') \<Longrightarrow> users d' = users d \<and> personal_spaces d' = personal_spaces d"
  by (erule Rotate_cases) (auto simp: family_defs dest: insert_session_Some(1))

lemma Refresh_accounts:
  assumes "Refresh cr js s e token d = (res, d')"
  shows "users d' = users d \<and> personal_spaces d' = personal_spaces d"
  using assms
proof (cases rule: Refresh_cases)
  case (issued n secret rot tok d1)
  with Rotate_accounts [OF issued(2)] issueTokenSet_frame(4,5) [OF issued(3)] show ?thesis by simp
qed (use Rotate_accounts in auto)

lemma start_with_accounts:
  assumes "start_with rof cr js s e b d = (res, d')"
  shows "users d' = users d \<and> personal_spaces d' = personal_spaces d"
  using assms
proof (cases rule: start_with_cases)
  case (created secret rec rot d1)
  then show ?thesis using issueTokenSet_frame(4,5) [OF created(7)] insert_session_Some(1) [OF created(4)] by simp
qed simp

lemma Authorize_accounts:
  assumes "service_Authorize s draw f now c d = (res, d')"
  shows "users d' = users d \<and> personal_spaces d' = personal_spaces d"
proof (cases "d' = d")
  case False
  then obtain r where "Authorize f r (ds_activeLimit s) d = (res, d')"
    using assms by (auto simp: service_Authorize_def split: sum.splits)
  then show ?thesis by (cases rule: Authorize_cases) (use False AuthorizeInTx_frame(3,4) in auto)
qed simp

lemma Revoke_accounts:
  "service_Revoke draw f now userID deviceID d = (res, d') \<Longrightarrow> users d' = users d \<and> personal_spaces d' = personal_spaces d"
  by (auto simp: service_Revoke_def split: if_splits sum.splits elim!: Revoke_device_cases)

lemma SelfRevoke_accounts:
  assumes "SelfRevoke cr draw f now c d = (res, d')"
  shows "users d' = users d \<and> personal_spaces d' = personal_spaces d"
  using assms
proof (cases rule: SelfRevoke_cases)
  case (checked v audit)
  from checked(7) show ?thesis by (cases rule: SelfRevoke_record_cases) simp_all
qed simp

lemma Approve_accounts:
  assumes "Approve cr lib s f now draw read requestID userID d = (res, d')"
  shows "users d' = users d \<and> personal_spaces d' = personal_spaces d"
  using assms
proof (cases rule: Approve_cases)
  case (granted codeID secret r)
  from granted(3) show ?thesis
  proof (cases rule: Approve_record_cases)
    case (granted r' d1)
    with insert_code_Some(1) [OF granted(9)] show ?thesis by simp
  qed simp
qed simp

lemma Exchange_accounts:
  assumes "Exchange cr js s draw f fd e now r d = (res, d')"
  shows "users d' = users d \<and> personal_spaces d' = personal_spaces d"
  using assms
proof (cases rule: Exchange_cases)
  case (exchanged secret tokens c grant d1)
  obtain ar dev da b where "AuthorizeInTx fd ar (ds_activeLimit (oa_devices s)) d = (Inr dev, da)"
    "start_with False cr js (oa_sessions s) e b da = (Inr tokens, d1)"
    using exchanged(8) unfolding StartInTx_def [symmetric] by (rule finalize_Inr) blast
  from AuthorizeInTx_frame(3,4) [OF this(1)] start_with_accounts [OF this(2)] show ?thesis
    unfolding exchanged(10) by (simp add: consumed_rows)
qed simp

lemma system_step_accounts:
  assumes "system_step sy op d = (ok, d')"
  shows "users d' = users d \<and> personal_spaces d' = personal_spaces d"
proof (cases op)
  case (Do_Begin fails now draw read r)
  then show ?thesis using assms by (auto split: prod.splits elim!: Begin_cases dest!: insert_oauth_request_Some(1))
next
  case (Do_Logout e token)
  then show ?thesis using assms
    by (auto simp: Revoke_session_def RevokeByToken_def family_defs split: prod.splits option.splits if_splits)
qed (use assms in \<open>auto split: prod.splits simp: Start_def dest: Approve_accounts Exchange_accounts start_with_accounts
  Refresh_accounts Authorize_accounts Revoke_accounts SelfRevoke_accounts\<close>)

section \<open>The platform\<close>

record platform =
  pl_system :: system
  pl_libs :: libraries
  pl_accounts :: AccountService

text \<open>The calls of the account service, and the two statements by which the verification service
  changes its table.\<close>

datatype account_op =
    Do_Register account_env "bytes option" RegisterCommand
  | Do_Login account_env "bytes option" bytes bytes
  | Do_VerificationLogin account_env "bytes option" bytes
  | Do_CompleteLogin account_env bytes uuid
  | Do_ResetPassword account_env bytes bytes
  | Do_BindIdentity account_env uuid bytes bytes
  | Do_RemoveIdentity account_env uuid IdentityKind bytes
  | Do_ChangePassword account_env uuid uuid bytes bytes
  | Do_RequestDeletion account_env uuid bytes bytes
  | Do_RecoverDeletion account_env bytes bytes bytes
  | Do_SaveChallenge bool Challenge
  | Do_CheckCode schedule bytes Purpose bytes instant

fun account_step :: "platform \<Rightarrow> account_op \<Rightarrow> account_state \<Rightarrow> bool \<times> account_state" where
  "account_step pl (Do_Register e ctx c) st =
     (case Register (pl_libs pl) (pl_accounts pl) e ctx c st of (x, st') \<Rightarrow> (\<not> isl x, st'))"
| "account_step pl (Do_Login e ctx raw password) st =
     (case AuthenticatePassword (pl_libs pl) (pl_accounts pl) e ctx raw password st of (x, st') \<Rightarrow> (\<not> isl x, st'))"
| "account_step pl (Do_VerificationLogin e ctx receipt) st =
     (case AuthenticateVerification (pl_libs pl) (pl_accounts pl) e ctx receipt st of (x, st') \<Rightarrow> (\<not> isl x, st'))"
| "account_step pl (Do_CompleteLogin e receipt u) st =
     (case CompleteVerificationLogin (pl_libs pl) (pl_accounts pl) e receipt u st of (x, st') \<Rightarrow> (x = None, st'))"
| "account_step pl (Do_ResetPassword e receipt password) st =
     (case ResetPassword (pl_libs pl) (pl_accounts pl) e receipt password st of (x, st') \<Rightarrow> (x = None, st'))"
| "account_step pl (Do_BindIdentity e u password receipt) st =
     (case BindIdentity (pl_libs pl) (pl_accounts pl) e u password receipt st of (x, st') \<Rightarrow> (x = None, st'))"
| "account_step pl (Do_RemoveIdentity e u kind password) st =
     (case RemoveIdentity (pl_libs pl) (pl_accounts pl) e u kind password st of (x, st') \<Rightarrow> (x = None, st'))"
| "account_step pl (Do_ChangePassword e u session old new) st =
     (case ChangePassword (pl_libs pl) (pl_accounts pl) e u session old new st of (x, st') \<Rightarrow> (x = None, st'))"
| "account_step pl (Do_RequestDeletion e u password receipt) st =
     (case RequestDeletion (pl_libs pl) (pl_accounts pl) e u password receipt st of (x, st') \<Rightarrow> (x = None, st'))"
| "account_step pl (Do_RecoverDeletion e raw password receipt) st =
     (case RecoverDeletion (pl_libs pl) (pl_accounts pl) e raw password receipt st of (x, st') \<Rightarrow> (x = None, st'))"
| "account_step pl (Do_SaveChallenge fails c) st =
     (case SaveAfterDelivery fails c (verification_challenges (st_db st)) of
        None \<Rightarrow> (False, st) | Some t \<Rightarrow> (True, st\<lparr>st_db := (st_db st)\<lparr>verification_challenges := t\<rparr>\<rparr>))"
| "account_step pl (Do_CheckCode f target purpose mac now) st =
     (case Consume f target purpose mac now (verification_challenges (st_db st)) of
        (x, t) \<Rightarrow> (x = None, st\<lparr>st_db := (st_db st)\<lparr>verification_challenges := t\<rparr>\<rparr>))"

text \<open>The effect of a service call on the database is that of at most one transaction and, for a
  login, of the renewal of the hash and an audit event.\<close>

lemma run_record_cases:
  assumes "run_record translate body st = (x, st')"
  obtains y where "body (st_db st) = (y, st_db st')" "x = map_option translate y"
  using assms by (auto simp: run_record_def split: prod.splits)

lemma recordLoginAudit_ok:
  assumes "platform_ok limit (st_db st)" "recordLoginAudit lb e actor outcome reason st = (b, st')"
  shows "platform_ok limit (st_db st')"
proof -
  obtain x d where r: "Record_event (lb_lower lb) (lb_uuid_parse lb) (ae_audit_fails e) (ae_uuid e 0) (ae_recorder_now e)
      (login_event actor outcome reason (ae_clock e 1)) (core (st_db st)) = (x, d)"
    and st': "st_db st' = (st_db st)\<lparr>core := d\<rparr>"
    using assms(2) by (auto simp: recordLoginAudit_def split: prod.splits)
  from r show ?thesis
  proof (cases rule: Record_event_cases)
    case (recorded i at)
    note i = insert_audit_Some [OF recorded(3)]
    have "system_ok limit d" unfolding i(1) using assms(1) i(2) by (intro system_ok_audit) (simp_all add: platform_ok_def)
    then show ?thesis unfolding st' by (intro platform_okI [OF assms(1)]) (simp_all add: i(1))
  qed (use assms(1) st' in simp)
qed

lemma refuse_ok:
  "platform_ok limit (st_db st) \<Longrightarrow> refuse_login lb e reason x st = (r, st') \<Longrightarrow> platform_ok limit (st_db st')"
  "platform_ok limit (st_db st) \<Longrightarrow> refuse_status lb e c x st = (r, st') \<Longrightarrow> platform_ok limit (st_db st')"
  by (auto simp: refuse_login_def refuse_status_def split: if_splits intro: recordLoginAudit_ok [OF _ prod.collapse [symmetric]])

lemma allow_login_db: "allow_login lb s e ctx cs st = (x, st') \<Longrightarrow> st_db st' = st_db st"
  by (auto simp: allow_login_def split: prod.splits)

lemma run_record_ok:
  assumes "run_record translate body st = (x, st')" "platform_ok limit (st_db st)"
    and "\<And>y a'. body (st_db st) = (y, a') \<Longrightarrow> platform_ok limit a'"
  shows "platform_ok limit (st_db st')"
  using assms(1) by (rule run_record_cases) (rule assms(3))

lemma complete_login_ok:
  assumes "platform_ok limit (st_db st)" "complete_login lb s e password rehash c st = (r, st')"
  shows "platform_ok limit (st_db st')"
proof -
  obtain x st1 where one: "(if \<not> rehash then (None, st)
      else case hash_password lb s e password of None \<Rightarrow> (Some ServiceUnavailable, st)
        | Some (hash, version) \<Rightarrow> run_record (\<lambda>_. ServiceUnavailable)
            (UpdatePasswordHash (ae_rehash_fails e) (cd_UserID c) hash version (ae_clock e 0)) st) = (x, st1)"
    by (metis surj_pair)
  have ok: "platform_ok limit (st_db st1)"
    using one assms(1) by (auto split: if_splits option.splits intro: run_record_ok UpdatePasswordHash_ok)
  show ?thesis
  proof (cases x)
    case (Some err)
    with assms(2) one ok show ?thesis by (simp add: complete_login_def)
  next
    case None
    with assms(2) one ok show ?thesis
      by (auto simp: complete_login_def split: prod.splits intro: recordLoginAudit_ok)
  qed
qed

lemma AuthenticatePassword_cases:
  assumes "AuthenticatePassword lb s e ctx raw password st = (res, st')"
  obtains (down) "res = Inl ServiceUnavailable" "st_db st' = st_db st"
  | (rejected) st1 where "st_db st1 = st_db st"
      "refuse_login lb e ''invalid_credentials'' InvalidCredentials st1 = (res, st')"
  | (suspended) st1 c x where "st_db st1 = st_db st" "status_error (cd_Status c) = Some x" "refuse_status lb e c x st1 = (res, st')"
  | (valid) st1 normalized c rehash where "st_db st1 = st_db st"
      "NormalizeIdentity (lb_lower lb) (identityKindForLogin raw) raw = Inr normalized"
      "allow_login lb s e ctx (LookupCandidates (lb_crypto lb) (as_identity s) (identityKindForLogin raw) normalized) st
         = (Some True, st1)"
      "FindCredential (ae_lookup e) (identityKindForLogin raw)
         (LookupCandidates (lb_crypto lb) (as_identity s) (identityKindForLogin raw) normalized) (st_db st) = Inr (Some c)"
      "Verify (lb_argon2 lb) (as_passwords s) password (cd_PasswordHash c) = Inr (True, rehash)"
      "cd_Status c = ''active''" "complete_login lb s e password rehash c st1 = (res, st')"
proof -
  let ?k = "identityKindForLogin raw"
  define norm where "norm = NormalizeIdentity (lb_lower lb) ?k raw"
  define cs where "cs = LookupCandidates (lb_crypto lb) (as_identity s) ?k (case norm of Inl _ \<Rightarrow> [] | Inr v \<Rightarrow> v)"
  obtain x st1 where al: "allow_login lb s e ctx cs st = (x, st1)" by (metis surj_pair)
  note db = allow_login_db [OF al]
  note run = assms [unfolded AuthenticatePassword_def Let_def, folded norm_def, folded cs_def, unfolded al]
  show thesis
  proof (cases x)
    case None
    with run db show thesis by (intro down) simp_all
  next
    case (Some allowed)
    define found where "found = (if \<not> isl norm \<and> allowed then FindCredential (ae_lookup e) ?k cs (st_db st1) else Inr None)"
    note run = run [unfolded Some, simplified, folded found_def]
    show thesis
    proof (cases found)
      case (Inl err)
      with run db show thesis by (intro down) simp_all
    next
      case (Inr q)
      note f = Inr
      show thesis
      proof (cases q)
        case None
        then show thesis using run db f
          by (cases "Verify (lb_argon2 lb) (as_passwords s) password (as_dummyHash s)")
            (auto intro: down rejected)
      next
        case (Some c)
        note run = run [unfolded f Some, simplified]
        have on: "\<not> isl norm" "allowed" "FindCredential (ae_lookup e) ?k cs (st_db st1) = Inr (Some c)"
          using f Some by (auto simp: found_def split: if_splits)
        then obtain normalized where n: "norm = Inr normalized" by (cases norm) auto
        show thesis
        proof (cases "Verify (lb_argon2 lb) (as_passwords s) password (cd_PasswordHash c)")
          case (Inl err)
          with run db show thesis by (intro down) simp_all
        next
          case (Inr vr)
          obtain v rehash where vr: "vr = (v, rehash)" by (cases vr)
          note run = run [unfolded Inr vr, simplified]
          show thesis
          proof (cases v)
            case True
            note run = run [simplified True, simplified]
            show thesis
            proof (cases "status_error (cd_Status c)")
              case None
              with run have "complete_login lb s e password rehash c st1 = (res, st')" by simp
              with None Inr vr True on n al db \<open>x = Some allowed\<close> show thesis
                by (intro valid [of st1 normalized c rehash]) (simp_all add: norm_def cs_def)
            next
              case (Some err)
              with run db show thesis by (intro suspended [of st1 c err]) simp_all
            qed
          qed (use run db in \<open>auto intro: rejected\<close>)
        qed
      qed
    qed
  qed
qed

lemma AuthenticatePassword_ok:
  assumes "platform_ok limit (st_db st)" "AuthenticatePassword lb s e ctx raw password st = (res, st')"
  shows "platform_ok limit (st_db st')"
  using assms(2)
  by (cases rule: AuthenticatePassword_cases) (metis assms(1) refuse_ok complete_login_ok)+

lemma AuthenticateVerification_cases:
  assumes "AuthenticateVerification lb s e ctx receipt st = (res, st')"
  obtains (down) "res = Inl ServiceUnavailable" "st_db st' = st_db st"
  | (rejected) st1 reason x where "st_db st1 = st_db st" "refuse_login lb e reason x st1 = (res, st')"
  | (suspended) st1 c x where "st_db st1 = st_db st" "status_error (cd_Status c) = Some x" "refuse_status lb e c x st1 = (res, st')"
  | (valid) claims c where "parse_receipt lb s e receipt PurposeLogin = Some claims"
      "FindCredential (ae_lookup e) (rc_Kind claims)
         (LookupCandidates (lb_crypto lb) (as_identity s) (rc_Kind claims) (rc_NormalizedIdentity claims)) (st_db st) = Inr (Some c)"
      "cd_Status c = ''active''" "res = Inr (principal_of c)" "st_db st' = st_db st"
proof (cases "parse_receipt lb s e receipt PurposeLogin")
  case None
  with assms show thesis by (intro rejected [of st]) (simp_all add: AuthenticateVerification_def)
next
  case (Some claims)
  let ?cs = "LookupCandidates (lb_crypto lb) (as_identity s) (rc_Kind claims) (rc_NormalizedIdentity claims)"
  obtain x st1 where al: "allow_login lb s e ctx ?cs st = (x, st1)" by (metis surj_pair)
  note db = allow_login_db [OF al]
  note run = assms [unfolded AuthenticateVerification_def Let_def Some option.case al prod.case]
  show thesis
  proof (cases x)
    case None
    with run db show thesis by (intro down) simp_all
  next
    case (Some allowed)
    then show thesis using run db \<open>parse_receipt lb s e receipt PurposeLogin = Some claims\<close>
      by (auto split: if_splits sum.splits option.splits intro: down rejected suspended valid)
  qed
qed

lemma AuthenticateVerification_ok:
  assumes "platform_ok limit (st_db st)" "AuthenticateVerification lb s e ctx receipt st = (res, st')"
  shows "platform_ok limit (st_db st')"
  using assms(2)
  by (cases rule: AuthenticateVerification_cases) (metis assms(1) refuse_ok)+

lemma registration_claims_db: "registration_claims lb s e ctx c st = (x, st') \<Longrightarrow> st_db st' = st_db st"
  by (auto simp: registration_claims_def split: option.splits if_splits sum.splits prod.splits)

lemma register_with_cases:
  assumes "register_with lb s e c claims st = (res, st')"
  obtains (refused) err where "res = Inl err" "st' = st"
  | (ran) nickname hash version sealed ids r y where
      "normalizeNickname (rg_Nickname c) = Some nickname" "hash_password lb s e (rg_Password c) = Some (hash, version)"
      "Seal (lb_crypto lb) (as_identity s) (ae_read e 1) (rc_Kind claims) (rc_NormalizedIdentity claims) = Inr sealed"
      "randomUUIDs (ae_uuid e) 6 = Some ids"
      "r = \<lparr>rr_Claims = claims, rr_Direct = as_direct s \<noteq> None, rr_UserID = ids ! 0,
         rr_IdentityID = ids ! 1, rr_PersonalSpaceID = ids ! 2, rr_TermsAcceptanceID = ids ! 3,
         rr_PrivacyAcceptanceID = ids ! 4, rr_AuditEventID = ids ! 5, rr_Nickname = nickname,
         rr_Sealed = sealed, rr_PasswordHash = hash, rr_ParamsVersion = version,
         rr_TermsVersion = rg_TermsVersion c, rr_PrivacyVersion = rg_PrivacyVersion c,
         rr_CreatedAt = ae_clock e 0\<rparr>"
      "Register_record (lb_crypto lb) (as_identity s) (ae_faults e) (ae_queries e 0) r (st_db st) = (y, st_db st')"
      "res = (case y of None \<Rightarrow> Inr \<lparr>re_UserID = ids ! 0, re_PersonalSpaceID = ids ! 2\<rparr> | Some x \<Rightarrow> Inl (register_error x))"
      "st_limits st' = st_limits st"
proof (cases "normalizeNickname (rg_Nickname c)")
  case None
  with assms show thesis by (auto simp: register_with_def intro: refused)
next
  case (Some nickname)
  note n = this
  show thesis
  proof (cases "hash_password lb s e (rg_Password c)")
    case None
    with assms n show thesis by (auto simp: register_with_def intro: refused)
  next
    case (Some hv)
    obtain hash version where h: "hash_password lb s e (rg_Password c) = Some (hash, version)" using Some by (cases hv) auto
    show thesis
    proof (cases "Seal (lb_crypto lb) (as_identity s) (ae_read e 1) (rc_Kind claims) (rc_NormalizedIdentity claims)")
      case (Inl err)
      with assms n h show thesis by (auto simp: register_with_def intro: refused)
    next
      case (Inr sealed)
      note sl = this
      show thesis
      proof (cases "randomUUIDs (ae_uuid e) 6")
        case None
        with assms n h sl show thesis by (auto simp: register_with_def intro: refused)
      next
        case (Some ids)
        define r where "r = \<lparr>rr_Claims = claims, rr_Direct = as_direct s \<noteq> None, rr_UserID = ids ! 0,
          rr_IdentityID = ids ! 1, rr_PersonalSpaceID = ids ! 2, rr_TermsAcceptanceID = ids ! 3,
          rr_PrivacyAcceptanceID = ids ! 4, rr_AuditEventID = ids ! 5, rr_Nickname = nickname,
          rr_Sealed = sealed, rr_PasswordHash = hash, rr_ParamsVersion = version,
          rr_TermsVersion = rg_TermsVersion c, rr_PrivacyVersion = rg_PrivacyVersion c, rr_CreatedAt = ae_clock e 0\<rparr>"
        obtain y a where rec: "Register_record (lb_crypto lb) (as_identity s) (ae_faults e) (ae_queries e 0) r (st_db st) = (y, a)"
          by (metis surj_pair)
        have "(res, st') = (case y of None \<Rightarrow> Inr \<lparr>re_UserID = ids ! 0, re_PersonalSpaceID = ids ! 2\<rparr>
            | Some x \<Rightarrow> Inl (register_error x), st\<lparr>st_db := a\<rparr>)"
          unfolding assms [symmetric] register_with_def n h sl Some Let_def option.case sum.case prod.case r_def [symmetric]
            run_record_def rec by (cases y) simp_all
        then show thesis by (intro ran [OF n h sl Some r_def]) (simp_all add: rec)
      qed
    qed
  qed
qed

lemma Register_ok:
  assumes "platform_ok limit (st_db st)" "Register lb s e ctx c st = (res, st')"
  shows "platform_ok limit (st_db st')"
proof (cases "registration_claims lb s e ctx c st")
  case (Pair x st1)
  note db = registration_claims_db [OF Pair]
  show ?thesis
  proof (cases x)
    case (Inr claims)
    show ?thesis
    proof (cases "Validate_documents (as_legal s) (rg_TermsVersion c) (rg_PrivacyVersion c)")
      case True
      with assms(2) Pair Inr have "register_with lb s e c claims st1 = (res, st')" by (simp add: Register_def)
      then show ?thesis
      proof (cases rule: register_with_cases)
        case (ran nickname hash version sealed ids r y)
        show ?thesis using Register_record_ok [OF _ ran(6)] assms(1) db by simp
      qed (use assms(1) db in simp)
    qed (use assms Pair in \<open>simp add: Register_def\<close>)
  qed (use assms Pair db in \<open>auto simp: Register_def split: if_splits\<close>)
qed

lemma account_step_ok:
  assumes "platform_ok limit (st_db st)" "account_step pl op st = (ok, st')"
  shows "platform_ok limit (st_db st')"
proof (cases op)
  case (Do_SaveChallenge fails c)
  show ?thesis
  proof (cases "SaveAfterDelivery fails c (verification_challenges (st_db st))")
    case (Some t)
    then have t: "t = verification_challenges (st_db st) @ [c\<lparr>ch_ReceiptConsumedAt := None\<rparr>]" "ch_ID c \<notin> ch_ID ` set (verification_challenges (st_db st))"
      by (auto simp: SaveAfterDelivery_def exists_row_iff split: if_splits)
    have "st_db st' = (st_db st)\<lparr>verification_challenges := t\<rparr>" using assms(2) Do_SaveChallenge Some by auto
    with assms(1) t show ?thesis by (simp add: platform_ok_def accounts_ok_def complete_account_def)
  qed (use assms Do_SaveChallenge in simp)
next
  case (Do_CheckCode f target purpose mac now)
  obtain x t where c: "Consume f target purpose mac now (verification_challenges (st_db st)) = (x, t)" by (metis surj_pair)
  then have "map ch_ID t = map ch_ID (verification_challenges (st_db st))"
    by (cases rule: Consume_cases) (simp_all add: map_update_where)
  with assms Do_CheckCode c show ?thesis
    by (intro platform_okI [OF assms(1)]) (auto simp: account_shape_def platform_ok_def)
qed (use assms in \<open>auto split: prod.splits dest: Register_ok AuthenticatePassword_ok AuthenticateVerification_ok\<close>,
    (auto simp: CompleteVerificationLogin_def ResetPassword_def BindIdentity_def RemoveIdentity_def ChangePassword_def
      RequestDeletion_def RecoverDeletion_def Let_def split: if_splits option.splits sum.splits prod.splits
      elim!: run_record_ok
      intro: ConsumeLoginReceipt_ok ResetPassword_record_ok BindIdentity_record_ok RemoveIdentity_record_ok
        ChangePassword_record_ok RequestDeletion_record_ok RecoverDeletion_record_ok)+)

section \<open>Reachable states\<close>

definition empty_accounts :: account_db where
  "empty_accounts = \<lparr>core = empty_db, identities = [], password_credentials = [], legal_acceptances = [],
     verification_challenges = []\<rparr>"

text \<open>The tables of the components that are not modelled, and the counters in Redis, change freely.\<close>

inductive reached :: "platform \<Rightarrow> account_state \<Rightarrow> bool" for pl where
  start: "reached pl \<lparr>st_db = empty_accounts, st_limits = Map.empty\<rparr>"
| account: "reached pl st \<Longrightarrow> account_step pl op st = (ok, st') \<Longrightarrow> reached pl st'"
| system: "reached pl st \<Longrightarrow> system_step (pl_system pl) op (core (st_db st)) = (ok, d) \<Longrightarrow>
     reached pl (st\<lparr>st_db := (st_db st)\<lparr>core := d\<rparr>\<rparr>)"
| environment: "reached pl st \<Longrightarrow> reached pl (st\<lparr>st_db := (st_db st)\<lparr>core := (core (st_db st))\<lparr>organizations := og,
     organization_memberships := om, installations := ins, agent_definitions := ds, agent_versions := vs,
     backup_devices := bd, encrypted_profile_backups := eb, encrypted_backup_chunks := ek,
     encrypted_backup_key_envelopes := ee, encrypted_backup_operations := eo, desktop_control_commands := dc,
     desktop_control_instances := di, workspaces := ws, workspace_memberships := wm, workspace_invitations := wi,
     workspace_idempotency_records := wr\<rparr>\<rparr>, st_limits := l\<rparr>)"

lemma reached_ok:
  assumes "reached pl st" "0 \<le> device_limit (pl_system pl)"
  shows "platform_ok (device_limit (pl_system pl)) (st_db st)"
  using assms(1)
proof induction
  case start
  then show ?case using assms(2)
    by (simp add: platform_ok_def accounts_ok_def system_ok_def db_keys_def within_limit_def active_count_def
        empty_accounts_def empty_db_def)
next
  case (account st op ok st')
  then show ?case using account_step_ok by blast
next
  case (system st op ok d)
  note a = system_step_accounts [OF system(2)]
  have "system_ok (device_limit (pl_system pl)) d"
    using system(3) by (intro system_step_ok [OF _ system(2)]) (simp add: platform_ok_def)
  with a show ?case by (intro platform_okI [OF system(3)]) (simp_all add: account_shape_def)
next
  case (environment st og om br bs dc di ws wm wi wr l)
  have "system_ok (device_limit (pl_system pl)) (core (st_db st))" using environment(2) by (simp add: platform_ok_def)
  then show ?case
    by (intro platform_okI [OF environment(2)]) (auto simp: account_shape_def system_ok_def db_keys_def within_limit_def
        active_count_def session_owned_def)
qed


section \<open>A receipt is used once\<close>

definition unused_receipt :: "uuid \<Rightarrow> Challenge list \<Rightarrow> nat" where
  "unused_receipt x t = sum_list (map (\<lambda>c. if ch_ID c = x \<and> ch_ReceiptConsumedAt c = None then 1 else 0) t)"

definition names :: "uuid \<Rightarrow> ReceiptClaims option \<Rightarrow> bool" where
  "names x r \<longleftrightarrow> (case r of None \<Rightarrow> False | Some claims \<Rightarrow> rc_ChallengeID claims = x)"

definition names_challenge :: "platform \<Rightarrow> uuid \<Rightarrow> account_env \<Rightarrow> bytes \<Rightarrow> Purpose \<Rightarrow> bool" where
  "names_challenge pl x e receipt purpose \<longleftrightarrow> names x (parse_receipt (pl_libs pl) (pl_accounts pl) e receipt purpose)"

text \<open>The calls that spend a receipt of the challenge.\<close>

fun spends_receipt :: "platform \<Rightarrow> uuid \<Rightarrow> account_op \<Rightarrow> bool" where
  "spends_receipt pl x (Do_Register e ctx c) \<longleftrightarrow> as_direct (pl_accounts pl) = None
     \<and> names_challenge pl x e (rg_VerificationReceipt c) PurposeRegistration"
| "spends_receipt pl x (Do_CompleteLogin e receipt u) \<longleftrightarrow> names_challenge pl x e receipt PurposeLogin"
| "spends_receipt pl x (Do_ResetPassword e receipt password) \<longleftrightarrow> names_challenge pl x e receipt PurposePasswordReset"
| "spends_receipt pl x (Do_BindIdentity e u password receipt) \<longleftrightarrow> names_challenge pl x e receipt PurposeBindIdentity"
| "spends_receipt pl x (Do_RequestDeletion e u password receipt) \<longleftrightarrow> names_challenge pl x e receipt PurposeAccountDeletion"
| "spends_receipt pl x (Do_RecoverDeletion e raw password receipt) \<longleftrightarrow> names_challenge pl x e receipt PurposeDeletionRecovery"
| "spends_receipt pl x _ \<longleftrightarrow> False"

text \<open>What a transaction does to the table of challenges: nothing, or it marks the receipt of one.\<close>

definition receipt_effect :: "uuid \<Rightarrow> bool \<Rightarrow> account_db \<Rightarrow> account_db \<Rightarrow> bool" where
  "receipt_effect y spent a a' \<longleftrightarrow>
     (if spent then \<exists>fails at b. verification_challenges b = verification_challenges a
          \<and> markReceiptConsumed fails y at b = Inr a'
      else verification_challenges a' = verification_challenges a)"

lemma audit_challenges:
  "insertAuditEvent fails i t u at a = Inr a' \<Longrightarrow> verification_challenges a' = verification_challenges a"
  "insertBrowserLoginAudit fails i u at a = Inr a' \<Longrightarrow> verification_challenges a' = verification_challenges a"
  by (erule insertAuditEvent_Inr insertBrowserLoginAudit_Inr, simp)+

lemma update_challenges [simp]:
  "verification_challenges (bump_security u a) = verification_challenges a"
  "verification_challenges (revoke_live_sessions u reason at a) = verification_challenges a"
  "verification_challenges (revoke_others u s dev at a) = verification_challenges a"
  "verification_challenges (suspend u at a) = verification_challenges a"
  "verification_challenges (restore u a) = verification_challenges a"
  by (simp_all add: bump_security_def revoke_live_sessions_def revoke_others_def suspend_def restore_def)

lemma receipt_effects:
  "Register_record cr ic f g r a = (x, a') \<Longrightarrow> receipt_effect (rc_ChallengeID (rr_Claims r)) (x = None \<and> \<not> rr_Direct r) a a'"
  "ConsumeLoginReceipt cr ic f h lr a = (x, a') \<Longrightarrow> receipt_effect (rc_ChallengeID (lr_Claims lr)) (x = None) a a'"
  "ResetPassword_record cr ic f h rs a = (x, a') \<Longrightarrow> receipt_effect (rc_ChallengeID (rs_Claims rs)) (x = None) a a'"
  "BindIdentity_record cr ic f g ib a = (x, a') \<Longrightarrow> receipt_effect (rc_ChallengeID (ib_Claims ib)) (x = None) a a'"
  "RequestDeletion_record cr ic f g dq a = (x, a') \<Longrightarrow> receipt_effect (rc_ChallengeID (dq_Claims dq)) (x = None) a a'"
  "RecoverDeletion_record cr ic f g dy a = (x, a') \<Longrightarrow> receipt_effect (rc_ChallengeID (dy_Claims dy)) (x = None) a a'"
  unfolding receipt_effect_def
  by (erule Register_record_cases ConsumeLoginReceipt_cases ResetPassword_record_cases BindIdentity_record_cases
      RequestDeletion_record_cases RecoverDeletion_record_cases;
      force dest: audit_challenges set_credential_Inr(1) insert_identity_Inr(1) elim!: register_rows_Inr)+

definition challenge_known :: "uuid \<Rightarrow> account_state \<Rightarrow> bool" where
  "challenge_known x st \<longleftrightarrow> x \<in> ch_ID ` set (verification_challenges (st_db st))"

definition receipts_left :: "uuid \<Rightarrow> account_state \<Rightarrow> nat" where
  "receipts_left x st = unused_receipt x (verification_challenges (st_db st))"

lemma receipt_effect_left:
  assumes "receipt_effect y spent a a'"
  shows "unused_receipt x (verification_challenges a') \<le> unused_receipt x (verification_challenges a)"
    "spent \<Longrightarrow> y = x \<Longrightarrow> unused_receipt x (verification_challenges a') < unused_receipt x (verification_challenges a)"
    "ch_ID ` set (verification_challenges a') = ch_ID ` set (verification_challenges a)"
proof -
  let ?g = "\<lambda>c. if ch_ID c = x \<and> ch_ReceiptConsumedAt c = None then 1 else (0::nat)"
  let ?t = "verification_challenges a" and ?t' = "verification_challenges a'"
  have "sum_list (map ?g ?t') \<le> sum_list (map ?g ?t) \<and> (spent \<and> y = x \<longrightarrow> Suc (sum_list (map ?g ?t')) \<le> sum_list (map ?g ?t))
    \<and> map ch_ID ?t' = map ch_ID ?t"
  proof (cases spent)
    case True
    then obtain fails at b where b: "verification_challenges b = ?t" "markReceiptConsumed fails y at b = Inr a'"
      using assms by (auto simp: receipt_effect_def)
    let ?P = "\<lambda>c. ch_ID c = y \<and> ch_ConsumedAt c \<noteq> None \<and> ch_ReceiptConsumedAt c = None"
    have t': "?t' = update_where ?P (\<lambda>c. c\<lparr>ch_ReceiptConsumedAt := Some at\<rparr>) ?t"
      using markReceiptConsumed_Inr(1) [OF b(2)] b(1) by simp
    obtain c where c: "c \<in> set ?t" "?P c" using markReceiptConsumed_Inr(2) [OF b(2)] b(1) by auto
    have "sum_list (map ?g ?t') \<le> sum_list (map ?g ?t)" unfolding t' by (rule sum_update_where_le) simp
    moreover have "Suc (sum_list (map ?g ?t')) \<le> sum_list (map ?g ?t)" if "y = x"
      unfolding t' by (rule sum_update_where_less [of _ _ _ _ c]) (use c that in auto)
    ultimately show ?thesis unfolding t' by (simp add: map_update_where)
  qed (use assms in \<open>simp add: receipt_effect_def\<close>)
  then show "unused_receipt x ?t' \<le> unused_receipt x ?t" "ch_ID ` set ?t' = ch_ID ` set ?t"
    "spent \<Longrightarrow> y = x \<Longrightarrow> unused_receipt x ?t' < unused_receipt x ?t"
    unfolding unused_receipt_def by (blast, metis set_map, auto)
qed

text \<open>What a call does to one challenge: its receipt is not used, or it is spent by this call.\<close>

definition step_effect :: "uuid \<Rightarrow> bool \<Rightarrow> account_state \<Rightarrow> account_state \<Rightarrow> bool" where
  "step_effect x spent st st' \<longleftrightarrow> receipts_left x st' \<le> receipts_left x st
     \<and> (spent \<longrightarrow> receipts_left x st' < receipts_left x st) \<and> (challenge_known x st \<longrightarrow> challenge_known x st')"

lemma step_effect_same: "verification_challenges (st_db st') = verification_challenges (st_db st) \<Longrightarrow> step_effect x False st st'"
  by (simp add: step_effect_def receipts_left_def challenge_known_def)

lemma run_record_effect:
  assumes "run_record translate body st = (z, st')"
    and "\<And>w a'. body (st_db st) = (w, a') \<Longrightarrow> receipt_effect y (w = None) (st_db st) a'"
  shows "step_effect x (z = None \<and> y = x) st st'"
  using assms(1)
proof (rule run_record_cases)
  fix w assume w: "body (st_db st) = (w, st_db st')" "z = map_option translate w"
  note left = receipt_effect_left [OF assms(2) [OF w(1)]]
  from left(1,2) [of x] left(3) w(2) show ?thesis
    by (auto simp: step_effect_def receipts_left_def challenge_known_def)
qed

lemma recordLoginAudit_challenges:
  "recordLoginAudit lb e actor outcome reason st = (b, st') \<Longrightarrow>
     verification_challenges (st_db st') = verification_challenges (st_db st)"
  by (auto simp: recordLoginAudit_def split: prod.splits)

lemma refuse_challenges:
  "refuse_login lb e reason x st = (r, st') \<Longrightarrow> verification_challenges (st_db st') = verification_challenges (st_db st)"
  "refuse_status lb e c x st = (r, st') \<Longrightarrow> verification_challenges (st_db st') = verification_challenges (st_db st)"
  by (auto simp: refuse_login_def refuse_status_def split: if_splits
      intro: recordLoginAudit_challenges [OF prod.collapse [symmetric]])

lemma UpdatePasswordHash_challenges:
  "UpdatePasswordHash fails u h v at a = (x, a') \<Longrightarrow> verification_challenges a' = verification_challenges a"
  unfolding UpdatePasswordHash_def
  by (erule transaction_cases) (auto simp: tx_Inr dest: set_credential_Inr(1))

lemma complete_login_challenges:
  assumes "complete_login lb s e password rehash c st = (r, st')"
  shows "verification_challenges (st_db st') = verification_challenges (st_db st)"
proof -
  obtain x st1 where one: "(if \<not> rehash then (None, st)
      else case hash_password lb s e password of None \<Rightarrow> (Some ServiceUnavailable, st)
        | Some (hash, version) \<Rightarrow> run_record (\<lambda>_. ServiceUnavailable)
            (UpdatePasswordHash (ae_rehash_fails e) (cd_UserID c) hash version (ae_clock e 0)) st) = (x, st1)"
    by (metis surj_pair)
  have "verification_challenges (st_db st1) = verification_challenges (st_db st)"
    using one by (auto split: if_splits option.splits elim!: run_record_cases dest: UpdatePasswordHash_challenges)
  then show ?thesis using assms one
    by (cases x) (auto simp: complete_login_def split: prod.splits dest: recordLoginAudit_challenges)
qed

lemma login_effects:
  "AuthenticatePassword lb s e ctx raw password st = (res, st') \<Longrightarrow> step_effect x False st st'"
  "AuthenticateVerification lb s e ctx receipt st = (res, st') \<Longrightarrow> step_effect x False st st'"
proof -
  assume "AuthenticatePassword lb s e ctx raw password st = (res, st')"
  then show "step_effect x False st st'"
    by (cases rule: AuthenticatePassword_cases)
      (auto intro!: step_effect_same dest: refuse_challenges complete_login_challenges)
next
  assume "AuthenticateVerification lb s e ctx receipt st = (res, st')"
  then show "step_effect x False st st'"
    by (cases rule: AuthenticateVerification_cases) (auto intro!: step_effect_same dest: refuse_challenges)
qed

lemma names_simps [simp]: "\<not> names x None" "names x (Some claims) \<longleftrightarrow> rc_ChallengeID claims = x"
  by (simp_all add: names_def)

lemma no_effect [simp]: "step_effect x False st st"
  by (simp add: step_effect_same)

lemma transaction_effects:
  "CompleteVerificationLogin lb s e receipt u st = (z, st') \<Longrightarrow>
     step_effect x (z = None \<and> names x (parse_receipt lb s e receipt PurposeLogin)) st st'"
  "ResetPassword lb s e receipt password st = (z, st') \<Longrightarrow>
     step_effect x (z = None \<and> names x (parse_receipt lb s e receipt PurposePasswordReset)) st st'"
  "BindIdentity lb s e u password receipt st = (z, st') \<Longrightarrow>
     step_effect x (z = None \<and> names x (parse_receipt lb s e receipt PurposeBindIdentity)) st st'"
  "RequestDeletion lb s e u password receipt st = (z, st') \<Longrightarrow>
     step_effect x (z = None \<and> names x (parse_receipt lb s e receipt PurposeAccountDeletion)) st st'"
  "RecoverDeletion lb s e raw password receipt st = (z, st') \<Longrightarrow>
     step_effect x (z = None \<and> names x (parse_receipt lb s e receipt PurposeDeletionRecovery)) st st'"
  unfolding CompleteVerificationLogin_def ResetPassword_def BindIdentity_def RequestDeletion_def RecoverDeletion_def Let_def
  by (auto split: if_splits option.splits sum.splits elim!: run_record_effect dest!: receipt_effects(2-))

lemma Register_effect:
  assumes "Register lb s e ctx c st = (res, st')"
  shows "step_effect x (\<not> isl res \<and> as_direct s = None
    \<and> names x (parse_receipt lb s e (rg_VerificationReceipt c) PurposeRegistration)) st st'"
proof (cases "registration_claims lb s e ctx c st")
  case (Pair y st1)
  note db = registration_claims_db [OF Pair]
  have same: "step_effect x False st st1" using db by (intro step_effect_same) simp
  show ?thesis
  proof (cases "isl y \<or> \<not> Validate_documents (as_legal s) (rg_TermsVersion c) (rg_PrivacyVersion c)")
    case True
    with assms Pair same show ?thesis by (auto simp: Register_def split: if_splits sum.splits)
  next
    case False
    then obtain claims where y: "y = Inr claims" by (cases y) auto
    with False assms Pair have "register_with lb s e c claims st1 = (res, st')" by (simp add: Register_def)
    then show ?thesis
    proof (cases rule: register_with_cases)
      case (refused err)
      with same show ?thesis by simp
    next
      case (ran nickname hash version sealed ids r z)
      have "parse_receipt lb s e (rg_VerificationReceipt c) PurposeRegistration = Some claims" if "as_direct s = None"
        using that Pair y by (auto simp: registration_claims_def split: if_splits option.splits)
      moreover have "receipt_effect (rc_ChallengeID claims) (z = None \<and> as_direct s = None) (st_db st1) (st_db st')"
        using receipt_effects(1) [OF ran(6)] by (simp add: ran(5))
      note left = receipt_effect_left [OF this]
      ultimately show ?thesis using left(1,2) [of x] left(3) db ran(7)
        by (cases z) (auto simp: step_effect_def receipts_left_def challenge_known_def)
    qed
  qed
qed

lemma quiet_effects:
  "RemoveIdentity lb s e u kind password st = (z, st') \<Longrightarrow> step_effect x False st st'"
  "ChangePassword lb s e u session old new st = (z, st') \<Longrightarrow> step_effect x False st st'"
  unfolding RemoveIdentity_def ChangePassword_def
  by (auto split: if_splits option.splits sum.splits prod.splits elim!: run_record_cases
      RemoveIdentity_record_cases ChangePassword_record_cases intro!: step_effect_same
      dest!: audit_challenges set_credential_Inr(1))

lemma Consume_receipts:
  assumes "Consume f h p m now t = (r, t')"
  shows "unused_receipt x t' = unused_receipt x t" "ch_ID ` set t' = ch_ID ` set t"
proof -
  let ?k = "\<lambda>c. (ch_ID c, ch_ReceiptConsumedAt c)"
  have k: "map ?k t' = map ?k t"
    using assms by (cases rule: Consume_cases) (simp_all add: map_update_where)
  have eq: "map (\<lambda>c. if ch_ID c = x \<and> ch_ReceiptConsumedAt c = None then 1 else (0::nat)) u
      = map (\<lambda>(i, z). if i = x \<and> z = None then 1 else 0) (map ?k u)" for u by simp
  show "unused_receipt x t' = unused_receipt x t" unfolding unused_receipt_def eq k ..
  have "set (map fst (map ?k t')) = set (map fst (map ?k t))" by (simp only: k)
  then show "ch_ID ` set t' = ch_ID ` set t" by (simp add: image_image)
qed

lemma account_step_effect:
  assumes "challenge_known x st" "account_step pl op st = (ok, st')"
  shows "step_effect x (ok \<and> spends_receipt pl x op) st st'"
proof (cases op)
  case (Do_SaveChallenge fails c)
  then show ?thesis using assms
    by (auto simp: SaveAfterDelivery_def exists_row_iff step_effect_def receipts_left_def challenge_known_def
        unused_receipt_def split: if_splits option.splits)
next
  case (Do_CheckCode f target purpose mac now)
  obtain y t where c: "Consume f target purpose mac now (verification_challenges (st_db st)) = (y, t)" by (metis surj_pair)
  with assms(2) Do_CheckCode have "verification_challenges (st_db st') = t" by auto
  with Consume_receipts [OF c] Do_CheckCode show ?thesis
    by (simp add: step_effect_def receipts_left_def challenge_known_def)
qed (use assms in \<open>auto simp: names_challenge_def split: prod.splits intro: transaction_effects
  dest: login_effects quiet_effects Register_effect\<close>)

interpretation receipt_use: budget "account_step pl" "challenge_known x" "\<lambda>op ok. ok \<and> spends_receipt pl x op" "receipts_left x"
  by unfold_locales (metis account_step_effect step_effect_def)+

text \<open>
  C2. Whatever the sequence of calls to the account and the verification service, whatever they are
  given and whatever fails: of all registrations, logins, password resets, identity bindings,
  deletion requests and recoveries that present receipts of one challenge, at most one succeeds.
\<close>

theorem receipt_single_use:
  assumes "distinct (map ch_ID (verification_challenges (st_db st)))" "challenge_known x st"
    and "run_all (account_step pl) ops st = (oks, st')"
  shows "length (filter (\<lambda>(op, ok). ok \<and> spends_receipt pl x op) (zip ops oks)) \<le> 1"
proof -
  have "receipts_left x st \<le> 1"
    unfolding receipts_left_def unused_receipt_def by (rule sum_key_le_1 [OF assms(1)])
  with receipt_use.hits_bounded [OF assms(2,3)] show ?thesis by simp
qed

section \<open>Examples\<close>

definition sample_platform :: platform where
  "sample_platform = \<lparr>pl_system = sample_system, pl_libs = sample_libs PurposeRegistration, pl_accounts = sample_accounts\<rparr>"

definition sample_registration :: RegisterCommand where
  "sample_registration = \<lparr>rg_Kind = IdentityPhone, rg_Identity = [], rg_VerificationReceipt = sample_token,
     rg_Password = ''correct-horse'', rg_Nickname = [], rg_TermsVersion = ''1'', rg_PrivacyVersion = ''1''\<rparr>"

definition verified_state :: account_state where
  "verified_state = \<lparr>st_db = empty_accounts\<lparr>verification_challenges := [entered_challenge PurposeRegistration]\<rparr>,
     st_limits = Map.empty\<rparr>"

lemma no_nickname: "normalizeNickname [] = Some []" "TrimSpace [] = []"
proof -
  have v: "visible []" by (simp add: visible_def)
  show "normalizeNickname [] = Some []" "TrimSpace [] = []"
    by (simp_all add: normalizeNickname_def RuneCountInString_def pieces_ascii runes_ascii TrimSpace_visible [OF v]
        ValidString_visible [OF v] Let_def)
qed

lemma phone_kind: "IdentityPhone = ''phone''" "IdentityPhone \<noteq> ''email''"
  by (simp_all add: IdentityPhone_def)

lemma sample_registers:
  "\<exists>st. Register (sample_libs PurposeRegistration) sample_accounts sample_account_env None sample_registration verified_state
       = (Inr \<lparr>re_UserID = 101, re_PersonalSpaceID = 103\<rparr>, st)
     \<and> map u_id (users (core (st_db st))) = [101] \<and> map a_id (audit_events (core (st_db st))) = [106]
     \<and> st_limits st = Map.empty"
  by (simp add: Register_def Validate_documents_def registration_claims_def sample_registration_def sample_receipt_parses
      register_with_def no_nickname sample_hash sample_phone_seal run_record_def Register_record_def transaction_def
      sealedMatchesClaims_def phone_candidates lockIdentityScope_def identity_lock_def stable_candidate_def
      identityExists_def verified_state_def empty_accounts_def register_rows_def statement_def written_def
      insert_user_def new_user_def insert_identity_row_def insert_identity_def identity_of_def insert_credential_def
      InsertPersonal_def insert_space_def insert_acceptance_def insertAuditEvent_def insert_audit_def
      markReceiptConsumed_def empty_db_def table_simps Let_def phone_kind(2) phone_kind(1) [THEN eqTrueI])

lemma sample_reached: "reached sample_platform verified_state"
proof -
  have "account_step sample_platform (Do_SaveChallenge False (entered_challenge PurposeRegistration))
      \<lparr>st_db = empty_accounts, st_limits = Map.empty\<rparr> = (True, verified_state)"
    by (simp add: SaveAfterDelivery_def empty_accounts_def verified_state_def entered_challenge_def sample_challenge_def
        table_simps IdentityPhone_def)
  then show ?thesis by (rule reached.account [OF reached.start])
qed

lemma sample_platform_limit: "0 \<le> device_limit (pl_system sample_platform)"
  by (simp add: sample_platform_def sample_limit_ok)

abbreviation "register_op \<equiv> Do_Register sample_account_env None sample_registration"

lemma sample_register_step:
  "\<exists>st. account_step sample_platform register_op verified_state = (True, st) \<and> map u_id (users (core (st_db st))) = [101]"
proof -
  obtain st where st: "Register (sample_libs PurposeRegistration) sample_accounts sample_account_env None sample_registration
      verified_state = (Inr \<lparr>re_UserID = 101, re_PersonalSpaceID = 103\<rparr>, st)" "map u_id (users (core (st_db st))) = [101]"
    using sample_registers by (elim exE conjE)
  then have "account_step sample_platform register_op verified_state = (True, st)" by (simp add: sample_platform_def)
  with st(2) show ?thesis by (intro exI conjI)
qed


theorem receipt_single_use_witness:
  "\<exists>oks st. run_all (account_step sample_platform) [register_op, register_op] verified_state = (oks, st) \<and> hd oks
     \<and> spends_receipt sample_platform 7 register_op
     \<and> length (filter (\<lambda>(op, ok). ok \<and> spends_receipt sample_platform 7 op) (zip [register_op, register_op] oks)) \<le> 1"
proof -
  obtain oks st where r: "run_all (account_step sample_platform) [register_op, register_op] verified_state = (oks, st)"
    by (metis surj_pair)
  moreover have "hd oks" using r sample_register_step by (auto split: prod.splits)
  moreover have "spends_receipt sample_platform 7 register_op"
    by (simp add: sample_platform_def names_challenge_def sample_registration_def sample_receipt_parses)
  moreover have "distinct (map ch_ID (verification_challenges (st_db verified_state)))" "challenge_known 7 verified_state"
    by (simp_all add: verified_state_def challenge_known_def)
  note receipt_single_use [OF this r]
  ultimately show ?thesis by blast
qed

end
