(* ===== verification/AccountFlows.thy ===== *)
theory AccountFlows
  imports Platform
begin

text \<open>
  The flows of an account through the services: who registered can sign in, a sign-in needs the
  password and an active account and a failed one tells nothing, a new password ends the sessions,
  a deletion request suspends the account and can be recovered for seven days.
\<close>

section \<open>Signing in\<close>

lemma credential_join_Some:
  assumes "credential_join x a = Some c"
  obtains u pc p where "u \<in> set (users (core a))" "u_id u = x" "pc \<in> set (password_credentials a)" "pc_user_id pc = x"
    "p \<in> set (personal_spaces (core a))" "ps_owner_user_id p = x"
    "cd_UserID c = x" "cd_PersonalSpaceID c = ps_id p" "cd_Status c = u_status u" "cd_PasswordHash c = pc_password_hash pc"
  using assms by (auto simp: credential_join_def split: option.splits dest!: find_Some_in)

lemma FindCredential_Some:
  "FindCredential f kind cs a = Inr (Some c) \<Longrightarrow>
     \<exists>x\<in>set cs. \<exists>i\<in>set (identities a). matches kind x i \<and> credential_join (idn_user_id i) a = Some c"
proof (induction cs arbitrary: f)
  case (Cons x cs)
  show ?case
  proof (cases "find (matches kind x) (identities a)")
    case None
    with Cons.prems have "FindCredential (later 1 f) kind cs a = Inr (Some c)" by (simp split: if_splits)
    from Cons.IH [OF this] show ?thesis by auto
  next
    case (Some i)
    note i = find_Some_in [OF Some]
    show ?thesis
    proof (cases "credential_join (idn_user_id i) a")
      case None
      with Some Cons.prems have "FindCredential (later 1 f) kind cs a = Inr (Some c)" by (simp split: if_splits)
      from Cons.IH [OF this] show ?thesis by auto
    next
      case (Some c')
      with \<open>find (matches kind x) (identities a) = Some i\<close> Cons.prems have "c' = c" by (simp split: if_splits)
      with Some i show ?thesis by auto
    qed
  qed
qed simp

lemma recordLoginAudit_frame:
  assumes "recordLoginAudit lb e actor outcome reason st = (b, st')"
  shows "st_db st' = (st_db st)\<lparr>core := (core (st_db st))\<lparr>audit_events := audit_events (core (st_db st'))\<rparr>\<rparr>"
    "st_limits st' = st_limits st"
    "b \<Longrightarrow> \<exists>row. audit_events (core (st_db st')) = audit_events (core (st_db st)) @ [row] \<and> a_actor_user_id row = actor
       \<and> a_event_type row = ''browser_login'' \<and> a_outcome row = outcome"
proof -
  obtain x d where r: "Record_event (lb_lower lb) (lb_uuid_parse lb) (ae_audit_fails e) (ae_uuid e 0) (ae_recorder_now e)
      (login_event actor outcome reason (ae_clock e 1)) (core (st_db st)) = (x, d)"
    and st': "st' = st\<lparr>st_db := (st_db st)\<lparr>core := d\<rparr>\<rparr>" "b = (x = None)"
    using assms by (auto simp: recordLoginAudit_def split: prod.splits)
  show "st_limits st' = st_limits st" by (simp add: st')
  from r show "st_db st' = (st_db st)\<lparr>core := (core (st_db st))\<lparr>audit_events := audit_events (core (st_db st'))\<rparr>\<rparr>"
    by (cases rule: Record_event_cases) (auto simp: st' dest: insert_audit_Some(1))
  from r show "b \<Longrightarrow> \<exists>row. audit_events (core (st_db st')) = audit_events (core (st_db st)) @ [row] \<and> a_actor_user_id row = actor
      \<and> a_event_type row = ''browser_login'' \<and> a_outcome row = outcome"
    by (cases rule: Record_event_cases) (auto simp: st' event_row_def login_event_def dest: insert_audit_Some(1))
qed

text \<open>A completed login changes nothing but the user's password hash and the audit log.\<close>

lemma complete_login_Inr:
  assumes "complete_login lb s e password rehash c st = (Inr p, st')"
  shows "p = principal_of c" "identities (st_db st') = identities (st_db st)"
    "verification_challenges (st_db st') = verification_challenges (st_db st)"
    "core (st_db st') = (core (st_db st))\<lparr>audit_events := audit_events (core (st_db st'))\<rparr>"
    "\<exists>row. audit_events (core (st_db st')) = audit_events (core (st_db st)) @ [row]
       \<and> a_actor_user_id row = Some (cd_UserID c) \<and> a_event_type row = ''browser_login'' \<and> a_outcome row = ''success''"
    "filter (\<lambda>x. pc_user_id x \<noteq> cd_UserID c) (password_credentials (st_db st'))
       = filter (\<lambda>x. pc_user_id x \<noteq> cd_UserID c) (password_credentials (st_db st))"
proof -
  obtain x st1 where one: "(if \<not> rehash then (None, st)
      else case hash_password lb s e password of None \<Rightarrow> (Some ServiceUnavailable, st)
        | Some (hash, version) \<Rightarrow> run_record (\<lambda>_. ServiceUnavailable)
            (UpdatePasswordHash (ae_rehash_fails e) (cd_UserID c) hash version (ae_clock e 0)) st) = (x, st1)"
    by (metis surj_pair)
  have x: "x = None" using assms one by (cases x) (simp_all add: complete_login_def)
  obtain b where b: "recordLoginAudit lb e (Some (cd_UserID c)) OutcomeSuccess [] st1 = (b, st')"
    "Inr p = (if b then Inr (principal_of c) else Inl ServiceUnavailable)"
    using assms one x by (auto simp: complete_login_def split: prod.splits)
  then have "b" by (auto split: if_splits)
  have same: "identities (st_db st1) = identities (st_db st)" "core (st_db st1) = core (st_db st)"
    "verification_challenges (st_db st1) = verification_challenges (st_db st)"
    "filter (\<lambda>x. pc_user_id x \<noteq> cd_UserID c) (password_credentials (st_db st1))
       = filter (\<lambda>x. pc_user_id x \<noteq> cd_UserID c) (password_credentials (st_db st))"
    using one unfolding UpdatePasswordHash_def
    by (auto split: if_splits option.splits elim!: run_record_cases transaction_cases simp: tx_Inr
        filter_update_other [where k = pc_user_id and x = "cd_UserID c"] dest!: set_credential_Inr(1))
  note f = recordLoginAudit_frame [OF b(1)]
  show "p = principal_of c" using b(2) \<open>b\<close> by simp
  show "identities (st_db st') = identities (st_db st)" "verification_challenges (st_db st') = verification_challenges (st_db st)"
    "filter (\<lambda>x. pc_user_id x \<noteq> cd_UserID c) (password_credentials (st_db st'))
       = filter (\<lambda>x. pc_user_id x \<noteq> cd_UserID c) (password_credentials (st_db st))"
    by (subst f(1), simp add: same)+
  show "core (st_db st') = (core (st_db st))\<lparr>audit_events := audit_events (core (st_db st'))\<rparr>"
    by (subst f(1)) (simp add: same)
  show "\<exists>row. audit_events (core (st_db st')) = audit_events (core (st_db st)) @ [row]
       \<and> a_actor_user_id row = Some (cd_UserID c) \<and> a_event_type row = ''browser_login'' \<and> a_outcome row = ''success''"
    using f(3) [OF \<open>b\<close>] by (simp add: same OutcomeSuccess_def)
qed

text \<open>
  C25. A password login returns a principal only if the identity in normal form is stored for an
  account with status active, the password verifies against the hash stored for that very account,
  and the limiter admitted the attempt; it is recorded in the audit log, and apart from that log,
  the counters of the limiter and a renewed hash of the same account nothing changes.
\<close>

theorem login_sound:
  assumes "AuthenticatePassword lb s e ctx raw password st = (Inr p, st')" and "a = st_db st" "a' = st_db st'"
  shows "\<exists>normalized x i u pc rehash row. NormalizeIdentity (lb_lower lb) (identityKindForLogin raw) raw = Inr normalized
    \<and> x \<in> set (LookupCandidates (lb_crypto lb) (as_identity s) (identityKindForLogin raw) normalized)
    \<and> i \<in> set (identities a) \<and> matches (identityKindForLogin raw) x i \<and> idn_user_id i = pr_UserID p
    \<and> u \<in> set (users (core a)) \<and> u_id u = pr_UserID p \<and> u_status u = ''active''
    \<and> pc \<in> set (password_credentials a) \<and> pc_user_id pc = pr_UserID p
    \<and> Verify (lb_argon2 lb) (as_passwords s) password (pc_password_hash pc) = Inr (True, rehash)
    \<and> fst (allow_login lb s e ctx (LookupCandidates (lb_crypto lb) (as_identity s) (identityKindForLogin raw) normalized) st) = Some True
    \<and> core a' = (core a)\<lparr>audit_events := audit_events (core a) @ [row]\<rparr>
    \<and> a_actor_user_id row = Some (pr_UserID p) \<and> a_outcome row = ''success'' \<and> identities a' = identities a
    \<and> filter (\<lambda>c. pc_user_id c \<noteq> pr_UserID p) (password_credentials a')
        = filter (\<lambda>c. pc_user_id c \<noteq> pr_UserID p) (password_credentials a)"
  using assms(1)
proof (cases rule: AuthenticatePassword_cases)
  case (valid st1 normalized c rehash)
  note done' = complete_login_Inr [OF valid(7)]
  obtain x i where i: "x \<in> set (LookupCandidates (lb_crypto lb) (as_identity s) (identityKindForLogin raw) normalized)"
    "i \<in> set (identities a)" "matches (identityKindForLogin raw) x i" "credential_join (idn_user_id i) a = Some c"
    using FindCredential_Some [OF valid(4)] assms(2) by auto
  obtain u pc where "u \<in> set (users (core a))" "u_id u = idn_user_id i" "pc \<in> set (password_credentials a)"
    "pc_user_id pc = idn_user_id i" "cd_UserID c = idn_user_id i" "cd_Status c = u_status u" "cd_PasswordHash c = pc_password_hash pc"
    using i(4) by (rule credential_join_Some)
  moreover from done'(5) obtain row where "audit_events (core a') = audit_events (core a) @ [row]"
    "a_actor_user_id row = Some (cd_UserID c)" "a_outcome row = ''success''" using valid(1) assms(2,3) by auto
  moreover have "core a' = (core a)\<lparr>audit_events := audit_events (core a')\<rparr>" "identities a' = identities a"
    "filter (\<lambda>x. pc_user_id x \<noteq> cd_UserID c) (password_credentials a')
       = filter (\<lambda>x. pc_user_id x \<noteq> cd_UserID c) (password_credentials a)"
    using done'(2,4,6) valid(1) by (simp_all add: assms(2,3))
  ultimately show ?thesis using i(1-3) valid(2,3,5,6) done'(1)
    by (intro exI [of _ normalized] exI [of _ x] exI [of _ i] exI [of _ u] exI [of _ pc] exI [of _ rehash] exI [of _ row])
      (simp add: principal_of_def)
qed (auto simp: refuse_login_def refuse_status_def split: if_splits)

text \<open>The outcome of a login that fails on the credentials, whatever the reason.\<close>

definition wrong_credentials ::
  "libraries \<Rightarrow> AccountService \<Rightarrow> account_env \<Rightarrow> bytes \<Rightarrow> bytes \<Rightarrow> account_db \<Rightarrow> bool" where
  "wrong_credentials lb s e raw password a \<longleftrightarrow>
     (let kind = identityKindForLogin raw in
      case NormalizeIdentity (lb_lower lb) kind raw of
        Inl _ \<Rightarrow> True
      | Inr normalized \<Rightarrow>
          (case FindCredential (ae_lookup e) kind (LookupCandidates (lb_crypto lb) (as_identity s) kind normalized) a of
             Inr None \<Rightarrow> True
           | Inr (Some c) \<Rightarrow> (\<exists>b. Verify (lb_argon2 lb) (as_passwords s) password (cd_PasswordHash c) = Inr (False, b))
           | Inl _ \<Rightarrow> False))"

lemma wrong_credentials_result:
  assumes "wrong_credentials lb s e raw password (st_db st)"
    and "\<exists>b. Verify (lb_argon2 lb) (as_passwords s) password (as_dummyHash s) = Inr b"
    and "allow_login lb s e ctx (LookupCandidates (lb_crypto lb) (as_identity s) (identityKindForLogin raw)
      (case NormalizeIdentity (lb_lower lb) (identityKindForLogin raw) raw of Inl _ \<Rightarrow> [] | Inr v \<Rightarrow> v)) st = (x, st1)"
  shows "AuthenticatePassword lb s e ctx raw password st =
    (if x = None then (Inl ServiceUnavailable, st1)
     else refuse_login lb e ''invalid_credentials'' InvalidCredentials st1)"
proof -
  note db = allow_login_db [OF assms(3)]
  show ?thesis
  proof (cases x)
    case None
    with assms(3) show ?thesis by (simp add: AuthenticatePassword_def Let_def)
  next
    case (Some allowed)
    with assms db show ?thesis
      by (cases "NormalizeIdentity (lb_lower lb) (identityKindForLogin raw) raw")
        (auto simp: AuthenticatePassword_def Let_def wrong_credentials_def split: sum.splits option.splits)
  qed
qed


section \<open>Registration\<close>

lemma find_append_new: "(\<And>x. x \<in> set xs \<Longrightarrow> \<not> P x) \<Longrightarrow> P y \<Longrightarrow> find P (xs @ [y]) = Some y"
  by (induction xs) auto

lemma find_append_key: "v \<notin> k ` set xs \<Longrightarrow> k y = v \<Longrightarrow> find (\<lambda>x. k x = v) (xs @ [y]) = Some y"
  by (rule find_append_new) (auto intro: rev_image_eqI)

lemma Seal_index:
  "Seal cr ic read kind v = Inr sealed \<Longrightarrow> validIdentityKind kind \<and> v \<noteq> []
     \<and> si_LookupKeyID sealed = li_KeyID (lookup cr ic kind v (activeLookupKeyID ic))
     \<and> si_LookupHMAC sealed = li_HMAC (lookup cr ic kind v (activeLookupKeyID ic))"
  by (auto simp: Seal_def Let_def split: if_splits sum.splits)

text \<open>The credential of an account right after its registration.\<close>

lemma registered_credential_found:
  assumes "NewIdentityCodec cfg = Inr ic" "Seal cr ic read (rc_Kind (rr_Claims r)) (rc_NormalizedIdentity (rr_Claims r)) = Inr (rr_Sealed r)"
    and "Register_record cr ic f g r a = (None, a')"
  shows "FindCredential no_fault (rc_Kind (rr_Claims r)) (LookupCandidates cr ic (rc_Kind (rr_Claims r)) (rc_NormalizedIdentity (rr_Claims r))) a'
    = Inr (Some \<lparr>cd_UserID = rr_UserID r, cd_PersonalSpaceID = rr_PersonalSpaceID r, cd_Nickname = rr_Nickname r,
        cd_Status = ''active'', cd_PasswordHash = rr_PasswordHash r, cd_ParamsVersion = rr_ParamsVersion r\<rparr>)"
  using assms(3)
proof (cases rule: Register_record_cases)
  case (registered a1)
  let ?k = "rc_Kind (rr_Claims r)" and ?v = "rc_NormalizedIdentity (rr_Claims r)"
  from registered(7) obtain row las where a1: "a1 = a\<lparr>core := (core a)\<lparr>users := users (core a) @ [new_user (rr_UserID r) (rr_Nickname r)],
         personal_spaces := personal_spaces (core a) @ [registered_space r],
         audit_events := audit_events (core a) @ [row]\<rparr>,
       identities := identities a @ [registered_identity r],
       password_credentials := password_credentials a @ [registered_credential r],
       legal_acceptances := legal_acceptances a @ las\<rparr>"
    and new: "rr_UserID r \<notin> u_id ` set (users (core a))"
    "(?k, si_LookupHMAC (rr_Sealed r)) \<notin> (\<lambda>i. (idn_kind i, idn_lookup_hmac i)) ` set (identities a)"
    "rr_UserID r \<notin> pc_user_id ` set (password_credentials a)"
    "rr_UserID r \<notin> ps_owner_user_id ` set (personal_spaces (core a))" by (rule register_rows_Inr)
  have a': "identities a' = identities a1" "core a' = core a1" "password_credentials a' = password_credentials a1"
    using registered(8) by (auto split: if_splits dest: markReceiptConsumed_Inr(1))
  let ?c = "lookup cr ic ?k ?v (activeLookupKeyID ic)"
  obtain cs where cs: "LookupCandidates cr ic ?k ?v = ?c # cs" and ix: "si_LookupKeyID (rr_Sealed r) = li_KeyID ?c"
    "si_LookupHMAC (rr_Sealed r) = li_HMAC ?c"
    using Seal_index [OF assms(2)] NewIdentityCodec_Inr(6) [OF assms(1)] by (simp add: LookupCandidates_def)
  have "find (matches ?k ?c) (identities a') = Some (registered_identity r)"
    unfolding a'(1)
    by (simp add: a1, intro find_append_new)
      (use new(2) ix in \<open>force simp: matches_def registered_identity_def identity_of_def image_iff\<close>)+
  moreover have "find (\<lambda>u. u_id u = rr_UserID r) (users (core a')) = Some (new_user (rr_UserID r) (rr_Nickname r))"
    "find (\<lambda>c. pc_user_id c = rr_UserID r) (password_credentials a') = Some (registered_credential r)"
    "find (\<lambda>p. ps_owner_user_id p = rr_UserID r) (personal_spaces (core a')) = Some (registered_space r)"
    unfolding a' using new by (simp_all add: a1 new_user_def registered_credential_def registered_space_def find_append_key)
  ultimately show ?thesis
    by (simp add: cs credential_join_def registered_identity_def identity_of_def new_user_def registered_credential_def
        registered_space_def nullif_def)
qed simp

text \<open>
  C26. Whoever registered can sign in: once a registration returned an account, a login with the same
  identity, in any spelling with the same normal form, and the same password, that the limiter admits
  and whose calls to the stores succeed, returns exactly this account.
\<close>

theorem register_then_login:
  assumes "NewIdentityCodec cfg = Inr (as_identity s)" "NewPasswordHasher current vs = Inr (as_passwords s)" "current < 2 ^ 63"
    and "\<And>n v. ae_read e 0 n = Some v \<Longrightarrow> length v = n" "\<And>pw salt t m l k. length (lb_argon2 lb pw salt t m l k) = unat k"
    and "registration_claims lb s e ctx c st = (Inr claims, st0)" "Register lb s e ctx c st = (Inr reg, st1)"
    and "identityKindForLogin raw = rc_Kind claims"
      "NormalizeIdentity (lb_lower lb) (rc_Kind claims) raw = Inr (rc_NormalizedIdentity claims)"
    and "ae_lookup e' = no_fault" "\<not> ae_audit_fails e'" "ae_uuid e' 0 = Some i" "i \<notin> a_id ` set (audit_events (core (st_db st1)))"
    and "fst (allow_login lb s e' ctx' (LookupCandidates (lb_crypto lb) (as_identity s) (rc_Kind claims)
        (rc_NormalizedIdentity claims)) st1) = Some True"
  shows "\<exists>p st2. AuthenticatePassword lb s e' ctx' raw (rg_Password c) st1 = (Inr p, st2)
    \<and> pr_UserID p = re_UserID reg \<and> pr_PersonalSpaceID p = re_PersonalSpaceID reg"
proof -
  let ?cs = "LookupCandidates (lb_crypto lb) (as_identity s) (rc_Kind claims) (rc_NormalizedIdentity claims)"
  have "register_with lb s e c claims st0 = (Inr reg, st1)" using assms(6,7) by (simp add: Register_def split: if_splits)
  then obtain hash version sealed r where h: "hash_password lb s e (rg_Password c) = Some (hash, version)"
    and r: "rr_Claims r = claims" "rr_Sealed r = sealed" "rr_UserID r = re_UserID reg" "rr_PersonalSpaceID r = re_PersonalSpaceID reg"
      "rr_PasswordHash r = hash"
    and sl: "Seal (lb_crypto lb) (as_identity s) (ae_read e 1) (rc_Kind claims) (rc_NormalizedIdentity claims) = Inr sealed"
    and rec: "Register_record (lb_crypto lb) (as_identity s) (ae_faults e) (ae_queries e 0) r (st_db st0) = (None, st_db st1)"
  proof (cases rule: register_with_cases)
    case (ran nickname hash version sealed ids r y)
    have y: "y = None" "reg = \<lparr>re_UserID = ids ! 0, re_PersonalSpaceID = ids ! 2\<rparr>" using ran(7) by (cases y; simp)+
    show thesis by (rule that [OF ran(2) _ _ _ _ _ ran(3)]) (use ran(6) y in \<open>simp_all add: ran(5)\<close>)
  qed simp
  obtain st2 where al: "allow_login lb s e' ctx' ?cs st1 = (Some True, st2)" using assms(14) by (metis prod.collapse)
  note db = allow_login_db [OF al]
  obtain cred where cred: "FindCredential no_fault (rc_Kind claims) ?cs (st_db st2) = Inr (Some cred)"
    and cf: "cd_UserID cred = re_UserID reg" "cd_PersonalSpaceID cred = re_PersonalSpaceID reg" "cd_Status cred = ''active''"
      "cd_PasswordHash cred = hash"
    using registered_credential_found [OF assms(1) _ rec] sl r db by auto
  have "Hash (lb_argon2 lb) (as_passwords s) (ae_read e 0) (rg_Password c) = Inr (hash, version)"
    using h by (simp add: hash_password_def split: sum.splits)
  from Hash_verifies [OF assms(2,2) refl assms(3-5) this]
  have vf: "Verify (lb_argon2 lb) (as_passwords s) (rg_Password c) hash = Inr (True, False)" by simp
  have "re_UserID reg \<noteq> Nil_uuid" using rec r(3) by (cases rule: Register_record_cases) simp_all
  moreover have "re_UserID reg \<in> u_id ` set (users (core (st_db st2)))"
    using FindCredential_Some [OF cred] cf(1) by (auto elim!: credential_join_Some intro: rev_image_eqI)
  ultimately have uid: "re_UserID reg \<noteq> Nil_uuid" "re_UserID reg \<in> u_id ` set (users (core (st_db st2)))" by blast+
  have "fst (recordLoginAudit lb e' (Some (re_UserID reg)) OutcomeSuccess [] st2)"
    using assms(11-13) uid db
    by (auto simp: recordLoginAudit_def Record_event_def login_event_def validEvent_def validMetadata_def lower_letter_def
        decimal_def OutcomeSuccess_def insert_audit_def event_row_def nullif_def exists_key_iff split: prod.splits)
  then obtain st3 where "recordLoginAudit lb e' (Some (re_UserID reg)) OutcomeSuccess [] st2 = (True, st3)"
    by (metis prod.collapse)
  then show ?thesis using assms(8-10) al cred cf vf
    by (simp add: AuthenticatePassword_def Let_def status_error_def complete_login_def principal_of_def)
qed

section \<open>New passwords\<close>

lemma ball_update_where: "(\<forall>r\<in>set (update_where P f t). Q r) \<longleftrightarrow> (\<forall>r\<in>set t. Q (if P r then f r else r))"
  by (auto simp: update_where_def)

lemma find_user_Some:
  "find_user f kind cs t = Inr (Some u) \<Longrightarrow> \<exists>x\<in>set cs. \<exists>i\<in>set t. matches kind x i \<and> idn_user_id i = u"
proof (induction cs arbitrary: f)
  case (Cons x cs)
  show ?case
  proof (cases "find (matches kind x) t")
    case None
    with Cons.prems have "find_user (later 1 f) kind cs t = Inr (Some u)" by (simp split: if_splits)
    from Cons.IH [OF this] show ?thesis by auto
  next
    case (Some i)
    with Cons.prems find_Some_in [OF Some] show ?thesis by (auto split: if_splits)
  qed
qed simp

definition owns_identity :: "crypto \<Rightarrow> IdentityCodec \<Rightarrow> ReceiptClaims \<Rightarrow> uuid \<Rightarrow> account_db \<Rightarrow> bool" where
  "owns_identity cr ic claims u a \<longleftrightarrow>
     (\<exists>x\<in>set (LookupCandidates cr ic (rc_Kind claims) (rc_NormalizedIdentity claims)).
        \<exists>i\<in>set (identities a). matches (rc_Kind claims) x i \<and> idn_user_id i = u)"

lemma findUserByClaims_Some: "findUserByClaims f cr ic claims a = Inr (Some u) \<Longrightarrow> owns_identity cr ic claims u a"
  unfolding findUserByClaims_def owns_identity_def by (rule find_user_Some)

text \<open>The credential of one user replaced.\<close>

definition password_set :: "uuid \<Rightarrow> bytes \<Rightarrow> account_db \<Rightarrow> account_db \<Rightarrow> bool" where
  "password_set u hash a a' \<longleftrightarrow>
     (\<forall>c\<in>set (password_credentials a'). pc_user_id c = u \<longrightarrow> pc_password_hash c = hash)
     \<and> (\<exists>c\<in>set (password_credentials a'). pc_user_id c = u)
     \<and> filter (\<lambda>c. pc_user_id c \<noteq> u) (password_credentials a') = filter (\<lambda>c. pc_user_id c \<noteq> u) (password_credentials a)"

lemma set_credential_password_set:
  assumes "set_credential u hash v at a = Inr (1, a1)" "password_credentials a' = password_credentials a1"
  shows "password_set u hash a a'"
proof -
  note c = set_credential_Inr [OF assms(1)]
  have "filter (\<lambda>c. pc_user_id c = u) (password_credentials a) \<noteq> []" using c(2) by auto
  then obtain x where x: "x \<in> set (password_credentials a)" "pc_user_id x = u" by (auto simp: filter_empty_conv)
  let ?g = "\<lambda>c. c\<lparr>pc_password_hash := hash, pc_params_version := v, pc_changed_at := at\<rparr>"
  have t: "password_credentials a' = update_where (\<lambda>c. pc_user_id c = u) ?g (password_credentials a)"
    by (simp add: assms(2) c(1))
  have "filter (\<lambda>c. pc_user_id c \<noteq> u) (password_credentials a') = filter (\<lambda>c. pc_user_id c \<noteq> u) (password_credentials a)"
    by (simp add: t filter_update_other [where k = pc_user_id])
  moreover have "?g x \<in> set (password_credentials a')" using x by (auto simp: t set_update_where)
  then have "\<exists>c\<in>set (password_credentials a'). pc_user_id c = u" by (rule rev_bexI) (simp add: x(2))
  moreover have "\<forall>c\<in>set (password_credentials a'). pc_user_id c = u \<longrightarrow> pc_password_hash c = hash"
    unfolding t ball_update_where by simp
  ultimately show ?thesis unfolding password_set_def by blast
qed

lemma audit_credentials:
  "insertAuditEvent fails i t u at a = Inr a' \<Longrightarrow> password_credentials a' = password_credentials a"
  by (erule insertAuditEvent_Inr) simp

text \<open>
  C28. A password reset succeeds only with a reset receipt for an identity of the account; it replaces
  the password of this account, ends all of its sessions, and touches no session and no password of
  another account. When it fails, nothing changes.
\<close>

theorem password_reset_effect:
  assumes "ResetPassword lb s e receipt password st = (x, st')" and "a = st_db st" "a' = st_db st'"
  shows "if x = None
    then \<exists>claims u hash version. parse_receipt lb s e receipt PurposePasswordReset = Some claims
      \<and> owns_identity (lb_crypto lb) (as_identity s) claims u a
      \<and> hash_password lb s e password = Some (hash, version) \<and> password_set u hash a a'
      \<and> (\<forall>r\<in>set (sessions (core a')). s_user_id r = u \<longrightarrow> s_revoked_at r \<noteq> None)
      \<and> filter (\<lambda>r. s_user_id r \<noteq> u) (sessions (core a')) = filter (\<lambda>r. s_user_id r \<noteq> u) (sessions (core a))
    else st' = st"
proof (cases "parse_receipt lb s e receipt PurposePasswordReset")
  case (Some claims)
  note p = this
  show ?thesis
  proof (cases "\<exists>hash version i. hash_password lb s e password = Some (hash, version) \<and> ae_uuid e 0 = Some i")
    case True
    then obtain hash version i where h: "hash_password lb s e password = Some (hash, version)" "ae_uuid e 0 = Some i" by blast
    let ?r = "\<lparr>rs_Claims = claims, rs_PasswordHash = hash, rs_ParamsVersion = version, rs_AuditEventID = i, rs_ChangedAt = ae_clock e 0\<rparr>"
    have "run_record reset_error (ResetPassword_record (lb_crypto lb) (as_identity s) (ae_faults e) (ae_queries e) ?r) st = (x, st')"
      using assms(1) p h by (simp add: ResetPassword_def)
    then obtain y where y: "ResetPassword_record (lb_crypto lb) (as_identity s) (ae_faults e) (ae_queries e) ?r a = (y, a')"
      "x = map_option reset_error y" "st' = st\<lparr>st_db := a'\<rparr>" unfolding run_record_def assms(2,3) by (auto split: prod.splits)
    from y(1) show ?thesis
    proof (cases rule: ResetPassword_record_cases)
      case (refused err)
      with y(2,3) assms(2) show ?thesis by simp
    next
      case (changed u status a1 a2)
      note m = markReceiptConsumed_Inr(1) [OF changed(9)] and c = set_credential_Inr(1) [OF changed(7)]
      have cred: "password_credentials a' = password_credentials a1"
        using m audit_credentials [OF changed(8)] by (simp add: revoke_live_sessions_def bump_security_def)
      obtain row where "a2 = (revoke_live_sessions u ''password_reset'' (ae_clock e 0) (bump_security u a1))
          \<lparr>core := (core (revoke_live_sessions u ''password_reset'' (ae_clock e 0) (bump_security u a1)))
            \<lparr>audit_events := audit_events (core (revoke_live_sessions u ''password_reset'' (ae_clock e 0) (bump_security u a1))) @ [row]\<rparr>\<rparr>"
        using changed(8) by (auto elim: insertAuditEvent_Inr)
      then have ss: "sessions (core a') = update_where (\<lambda>r. s_user_id r = u \<and> s_revoked_at r = None)
          (\<lambda>r. r\<lparr>s_revoked_at := Some (ae_clock e 0), s_revoked_reason := Some ''password_reset''\<rparr>) (sessions (core a))"
        using m c by (simp add: revoke_live_sessions_def bump_security_def)
      have "filter (\<lambda>r. s_user_id r \<noteq> u) (sessions (core a')) = filter (\<lambda>r. s_user_id r \<noteq> u) (sessions (core a))"
        unfolding ss by (rule filter_update_other) simp_all
      moreover have "\<forall>r\<in>set (sessions (core a')). s_user_id r = u \<longrightarrow> s_revoked_at r \<noteq> None"
        unfolding ss ball_update_where by simp
      moreover have "owns_identity (lb_crypto lb) (as_identity s) claims u a"
        using findUserByClaims_Some [OF changed(4)] by simp
      moreover have "password_set u hash a a'"
        by (rule set_credential_password_set [OF _ cred]) (use changed(7) in simp)
      moreover have "x = None" using changed(1) y(2) by simp
      ultimately show ?thesis using p h(1) by simp (intro exI [of _ u], simp)
    qed
  qed (use assms p in \<open>auto simp: ResetPassword_def split: option.splits prod.splits\<close>)
qed (use assms in \<open>auto simp: ResetPassword_def\<close>)

text \<open>Re-authentication: the password of the account in the required state.\<close>

lemma reauthenticateUser_Inr:
  assumes "reauthenticateUser lb s e u password status st = Inr c"
  shows "\<exists>pc\<in>set (password_credentials (st_db st)). pc_user_id pc = u
      \<and> (\<exists>b. Verify (lb_argon2 lb) (as_passwords s) password (pc_password_hash pc) = Inr (True, b))"
    "\<exists>r\<in>set (users (core (st_db st))). u_id r = u \<and> u_status r = status"
proof -
  have c: "credential_join u (st_db st) = Some c" "cd_Status c = status"
    "\<exists>b. Verify (lb_argon2 lb) (as_passwords s) password (cd_PasswordHash c) = Inr (True, b)"
    using assms by (auto simp: reauthenticateUser_def FindCredentialByUserID_def split: if_splits sum.splits option.splits prod.splits)
  from c(1) show "\<exists>pc\<in>set (password_credentials (st_db st)). pc_user_id pc = u
      \<and> (\<exists>b. Verify (lb_argon2 lb) (as_passwords s) password (pc_password_hash pc) = Inr (True, b))"
    by (rule credential_join_Some) (use c(3) in auto)
  from c(1) show "\<exists>r\<in>set (users (core (st_db st))). u_id r = u \<and> u_status r = status"
    by (rule credential_join_Some) (use c(2) in auto)
qed

text \<open>
  A password change needs the current password and a live session of the account. It replaces
  the password, and afterwards this session is the only live session of the account and every other
  device of the account is revoked; sessions, devices and passwords of other accounts are untouched.
  When it fails, nothing changes.
\<close>

theorem password_change_effect:
  assumes "ChangePassword lb s e u sid old new st = (x, st')" and "a = st_db st" "a' = st_db st'"
  shows "if x = None
    then \<exists>hash version r pc b. hash_password lb s e new = Some (hash, version) \<and> password_set u hash a a'
      \<and> pc \<in> set (password_credentials a) \<and> pc_user_id pc = u
      \<and> Verify (lb_argon2 lb) (as_passwords s) old (pc_password_hash pc) = Inr (True, b)
      \<and> r \<in> set (sessions (core a)) \<and> s_id r = sid \<and> s_user_id r = u \<and> s_revoked_at r = None
      \<and> (\<forall>q\<in>set (sessions (core a')). s_user_id q = u \<and> s_id q \<noteq> sid \<longrightarrow> s_revoked_at q \<noteq> None)
      \<and> (\<forall>v\<in>set (devices (core a')). d_user_id v = u \<and> d_id v \<noteq> s_device_id r \<longrightarrow> d_status v = ''revoked'')
      \<and> filter (\<lambda>q. s_user_id q \<noteq> u) (sessions (core a')) = filter (\<lambda>q. s_user_id q \<noteq> u) (sessions (core a))
      \<and> filter (\<lambda>v. d_user_id v \<noteq> u) (devices (core a')) = filter (\<lambda>v. d_user_id v \<noteq> u) (devices (core a))
    else st' = st"
proof (cases "\<exists>c hash version ids. u \<noteq> Nil_uuid \<and> sid \<noteq> Nil_uuid \<and> reauthenticateUser lb s e u old ''active'' st = Inr c
    \<and> hash_password lb s e new = Some (hash, version) \<and> randomUUIDs (ae_uuid e) 1 = Some ids")
  case True
  then obtain c hash version ids where t: "u \<noteq> Nil_uuid" "sid \<noteq> Nil_uuid" "reauthenticateUser lb s e u old ''active'' st = Inr c"
    "hash_password lb s e new = Some (hash, version)" "randomUUIDs (ae_uuid e) 1 = Some ids" by blast
  let ?r = "\<lparr>pw_UserID = u, pw_CurrentSessionID = sid, pw_PasswordHash = hash, pw_ParamsVersion = version,
    pw_AuditEventID = ids ! 0, pw_ChangedAt = ae_clock e 0\<rparr>"
  have "run_record change_error (ChangePassword_record (ae_faults e) ?r) st = (x, st')"
    using assms(1) t by (simp add: ChangePassword_def)
  then obtain y where y: "ChangePassword_record (ae_faults e) ?r a = (y, a')" "x = map_option change_error y" "st' = st\<lparr>st_db := a'\<rparr>"
    unfolding run_record_def assms(2,3) by (auto split: prod.splits)
  from y(1) show ?thesis
  proof (cases rule: ChangePassword_record_cases)
    case (refused err)
    with y(2,3) assms(2) show ?thesis by simp
  next
    case (changed r a1)
    let ?b = "revoke_others u sid (s_device_id r) (ae_clock e 0) (bump_security u a1)"
    note c = set_credential_Inr(1) [OF changed(7)]
    have "insertAuditEvent (ae_faults e 9) (ids ! 0) ''password_changed'' u (ae_clock e 0) ?b = Inr a'" using changed(8) by simp
    then obtain row where a': "a' = ?b\<lparr>core := (core ?b)\<lparr>audit_events := audit_events (core ?b) @ [row]\<rparr>\<rparr>"
      by (rule insertAuditEvent_Inr)
    have ss: "sessions (core a') = update_where (\<lambda>q. s_user_id q = u \<and> s_id q \<noteq> sid)
        (\<lambda>q. q\<lparr>s_revoked_at := coalesce (s_revoked_at q) (ae_clock e 0),
          s_revoked_reason := coalesce (s_revoked_reason q) ''password_change''\<rparr>) (sessions (core a))"
      and dd: "devices (core a') = update_where (\<lambda>v. d_user_id v = u \<and> d_id v \<noteq> s_device_id r)
        (\<lambda>v. v\<lparr>d_status := ''revoked'', d_revoked_at := coalesce (d_revoked_at v) (ae_clock e 0)\<rparr>) (devices (core a))"
      using c by (simp_all add: a' revoke_others_def bump_security_def)
    have "password_set u hash a a'"
      by (rule set_credential_password_set [where v = version and at = "ae_clock e 0"])
        (use changed(7) in \<open>simp_all add: a' revoke_others_def bump_security_def\<close>)
    moreover have "filter (\<lambda>q. s_user_id q \<noteq> u) (sessions (core a')) = filter (\<lambda>q. s_user_id q \<noteq> u) (sessions (core a))"
      "filter (\<lambda>v. d_user_id v \<noteq> u) (devices (core a')) = filter (\<lambda>v. d_user_id v \<noteq> u) (devices (core a))"
      unfolding ss dd by (rule filter_update_other; simp)+
    moreover have "\<forall>q\<in>set (sessions (core a')). s_user_id q = u \<and> s_id q \<noteq> sid \<longrightarrow> s_revoked_at q \<noteq> None"
      "\<forall>v\<in>set (devices (core a')). d_user_id v = u \<and> d_id v \<noteq> s_device_id r \<longrightarrow> d_status v = ''revoked''"
      unfolding ss dd ball_update_where by auto
    moreover have "x = None" using changed(1) y(2) by simp
    moreover obtain pc b where "pc \<in> set (password_credentials a)" "pc_user_id pc = u"
      "Verify (lb_argon2 lb) (as_passwords s) old (pc_password_hash pc) = Inr (True, b)"
      using reauthenticateUser_Inr(1) [OF t(3)] assms(2) by auto
    moreover have "r \<in> set (sessions (core a))" "s_id r = sid" "s_user_id r = u" "s_revoked_at r = None"
      using changed(3-6) by simp_all
    ultimately show ?thesis using t(4) by simp blast
  qed
next
  case False
  with assms(1) show ?thesis by (auto simp: ChangePassword_def split: if_splits sum.splits option.splits prod.splits)
qed

section \<open>Deletion and recovery\<close>


text \<open>
  C30. An account is recovered only within seven days of the deletion request, with its password and
  a recovery receipt for one of its identities. It is then active again with an enabled personal
  space; no session or device comes back, and no other account changes. Otherwise nothing changes.
\<close>

theorem recovery_within_window:
  assumes "RecoverDeletion lb s e raw password receipt st = (x, st')" and "a = st_db st" "a' = st_db st'"
  shows "if x = None
    then \<exists>claims u r t pc b. parse_receipt lb s e receipt PurposeDeletionRecovery = Some claims
      \<and> owns_identity (lb_crypto lb) (as_identity s) claims u a
      \<and> r \<in> set (users (core a)) \<and> u_id r = u \<and> u_status r = ''pending_deletion'' \<and> u_deletion_requested_at r = Some t
      \<and> ae_clock e 0 < t + 7 * 24 * hour
      \<and> pc \<in> set (password_credentials a) \<and> pc_user_id pc = u
      \<and> Verify (lb_argon2 lb) (as_passwords s) password (pc_password_hash pc) = Inr (True, b)
      \<and> (\<forall>q\<in>set (users (core a')). u_id q = u \<longrightarrow> u_status q = ''active'' \<and> u_deletion_requested_at q = None)
      \<and> (\<forall>p\<in>set (personal_spaces (core a')). ps_owner_user_id p = u \<longrightarrow> ps_status p = ''active'')
      \<and> filter (\<lambda>q. u_id q \<noteq> u) (users (core a')) = filter (\<lambda>q. u_id q \<noteq> u) (users (core a))
      \<and> sessions (core a') = sessions (core a) \<and> devices (core a') = devices (core a)
    else st' = st"
proof (cases "\<exists>normalized claims c b ids. NormalizeIdentity (lb_lower lb) (identityKindForLogin raw) raw = Inr normalized
    \<and> parse_receipt lb s e receipt PurposeDeletionRecovery = Some claims \<and> rc_Kind claims = identityKindForLogin raw
    \<and> rc_NormalizedIdentity claims = normalized
    \<and> FindCredential (ae_lookup e) (identityKindForLogin raw)
        (LookupCandidates (lb_crypto lb) (as_identity s) (identityKindForLogin raw) normalized) (st_db st) = Inr (Some c)
    \<and> Verify (lb_argon2 lb) (as_passwords s) password (cd_PasswordHash c) = Inr (True, b)
    \<and> cd_Status c = ''pending_deletion'' \<and> randomUUIDs (ae_uuid e) 1 = Some ids")
  case True
  then obtain normalized claims c b ids where t: "NormalizeIdentity (lb_lower lb) (identityKindForLogin raw) raw = Inr normalized"
    "parse_receipt lb s e receipt PurposeDeletionRecovery = Some claims" "rc_Kind claims = identityKindForLogin raw"
    "rc_NormalizedIdentity claims = normalized"
    "FindCredential (ae_lookup e) (identityKindForLogin raw)
        (LookupCandidates (lb_crypto lb) (as_identity s) (identityKindForLogin raw) normalized) (st_db st) = Inr (Some c)"
    "Verify (lb_argon2 lb) (as_passwords s) password (cd_PasswordHash c) = Inr (True, b)"
    "cd_Status c = ''pending_deletion''" "randomUUIDs (ae_uuid e) 1 = Some ids" by blast
  let ?u = "cd_UserID c"
  let ?r = "\<lparr>dy_Claims = claims, dy_UserID = ?u, dy_AuditEventID = ids ! 0, dy_RecoveredAt = ae_clock e 0\<rparr>"
  have "run_record recover_error (RecoverDeletion_record (lb_crypto lb) (as_identity s) (ae_faults e) (ae_queries e 0) ?r) st = (x, st')"
    using assms(1) t by (simp add: RecoverDeletion_def Let_def)
  then obtain y where y: "RecoverDeletion_record (lb_crypto lb) (as_identity s) (ae_faults e) (ae_queries e 0) ?r a = (y, a')"
    "x = map_option recover_error y" "st' = st\<lparr>st_db := a'\<rparr>"
    unfolding run_record_def assms(2,3) by (auto split: prod.splits)
  obtain pc where pc: "pc \<in> set (password_credentials a)" "pc_user_id pc = ?u" "pc_password_hash pc = cd_PasswordHash c"
    using FindCredential_Some [OF t(5)] assms(2) by (auto elim!: credential_join_Some)
  from y(1) show ?thesis
  proof (cases rule: RecoverDeletion_record_cases)
    case (refused err)
    with y(2,3) assms(2) show ?thesis by simp
  next
    case (restored r w a1)
    let ?b = "restore ?u a"
    have "insertAuditEvent (ae_faults e 6) (ids ! 0) ''account_deletion_recovered'' ?u (ae_clock e 0) ?b = Inr a1" using restored(10) by simp
    then obtain row where "a1 = ?b\<lparr>core := (core ?b)\<lparr>audit_events := audit_events (core ?b) @ [row]\<rparr>\<rparr>"
      by (rule insertAuditEvent_Inr)
    then have core': "core a' = (core ?b)\<lparr>audit_events := audit_events (core ?b) @ [row]\<rparr>"
      using markReceiptConsumed_Inr(1) [OF restored(11)] by simp
    have "r \<in> set (users (core a))" "u_id r = ?u" using find_Some_in [OF restored(3)] by simp_all
    moreover have "owns_identity (lb_crypto lb) (as_identity s) claims ?u a" using findUserByClaims_Some [OF restored(8)] by simp
    moreover have "(\<forall>q\<in>set (users (core a')). u_id q = ?u \<longrightarrow> u_status q = ''active'' \<and> u_deletion_requested_at q = None)
      \<and> (\<forall>p\<in>set (personal_spaces (core a')). ps_owner_user_id p = ?u \<longrightarrow> ps_status p = ''active'')
      \<and> filter (\<lambda>q. u_id q \<noteq> ?u) (users (core a')) = filter (\<lambda>q. u_id q \<noteq> ?u) (users (core a))
      \<and> sessions (core a') = sessions (core a) \<and> devices (core a') = devices (core a)"
      by (simp add: core' restore_def ball_update_where filter_update_other [where k = u_id])
    moreover have "x = None" using restored(1) y(2) by simp
    ultimately show ?thesis using t(2,6) pc restored(4-6)
      by (intro if_P [THEN iffD2] exI [of _ claims] exI [of _ ?u] exI [of _ r] exI [of _ w] exI [of _ pc] exI [of _ b])
        (simp_all add: deletionRecoveryWindow_def)
  qed
next
  case False
  with assms(1) show ?thesis
    by (auto simp: RecoverDeletion_def Let_def split: if_splits sum.splits option.splits prod.splits)
qed

section \<open>Examples\<close>

lemma increment_fresh: "r k = None \<Longrightarrow> \<exists>t r'. incrementWindow now k ms r = ((1, t), r') \<and> (\<forall>k'. k' \<noteq> k \<longrightarrow> r' k' = r k')"
  by (auto simp: incrementWindow_def incr_def live_def pexpire_def Let_def)

lemma sample_admitted:
  "\<exists>l. allow_login (sample_libs p) sample_accounts sample_account_env (Some ''10.0.0.1'') [phone_index, old_phone_index]
     \<lparr>st_db = a, st_limits = Map.empty\<rparr> = (Some True, \<lparr>st_db = a, st_limits = l\<rparr>)"
proof -
  let ?l = "as_limiter sample_accounts" and ?ip = "''10.0.0.1''"
  let ?k1 = "redisLoginLimitPrefix @ ''identity:'' @ encode_url (li_HMAC phone_index)"
  let ?k2 = "redisLoginLimitPrefix @ ''ip:'' @ encode_url (login_ipHMAC sample_crypto ?l ?ip)"
  let ?w = "lp_Window (ll_policy ?l) div millisecond"
  obtain t1 r1 where one: "incrementWindow 0 ?k1 ?w Map.empty = ((1, t1), r1)" "\<forall>k. k \<noteq> ?k1 \<longrightarrow> r1 k = None"
    using increment_fresh [of Map.empty ?k1 0 ?w] by auto
  then have "r1 ?k2 = None" by simp
  then obtain t2 r2 where two: "incrementWindow 0 ?k2 ?w r1 = ((1, t2), r2)" using increment_fresh by metis
  have ip: "TrimSpace ?ip = ?ip" by (rule TrimSpace_visible) (simp add: visible_def)
  have l: "length (ll_hmacKey ?l) = 32" "lp_IdentityLimit (ll_policy ?l) = 5" "lp_IPLimit (ll_policy ?l) = 20"
    by (simp_all add: sample_accounts_def)
  show ?thesis using one(1) two
    by (simp add: allow_login_def login_Allow_def limiter_hmac_def loginIPAddress_def ip l Let_def)
qed

lemma sample_login:
  "\<exists>p st. AuthenticatePassword (sample_libs PurposeLogin) sample_accounts sample_account_env (Some ''10.0.0.1'') sample_phone
     ''correct-horse'' (phone_state PurposeLogin) = (Inr p, st) \<and> pr_UserID p = 1"
  using sample_admitted [of PurposeLogin "sample_account PurposeLogin"]
  by (auto simp: AuthenticatePassword_def Let_def phone_candidates credential_join_def status_error_def complete_login_def
      recordLoginAudit_def Record_event_def login_event_def validEvent_def validMetadata_def lower_letter_def
      decimal_def OutcomeSuccess_def insert_audit_def event_row_def nullif_def exists_key_iff principal_of_def phone_state_def)

theorem login_sound_witness:
  "\<exists>p st. AuthenticatePassword (sample_libs PurposeLogin) sample_accounts sample_account_env (Some ''10.0.0.1'') sample_phone
     ''correct-horse'' (phone_state PurposeLogin) = (Inr p, st) \<and> pr_UserID p = 1
     \<and> (\<exists>row. core (st_db st) = started_db\<lparr>audit_events := [row]\<rparr> \<and> a_actor_user_id row = Some 1)"
proof -
  obtain p st where r: "AuthenticatePassword (sample_libs PurposeLogin) sample_accounts sample_account_env (Some ''10.0.0.1'')
      sample_phone ''correct-horse'' (phone_state PurposeLogin) = (Inr p, st)" "pr_UserID p = 1" using sample_login by blast
  obtain row where "core (st_db st) = (core (st_db (phone_state PurposeLogin)))\<lparr>audit_events := audit_events (core (st_db (phone_state PurposeLogin))) @ [row]\<rparr>"
    "a_actor_user_id row = Some (pr_UserID p)" using login_sound [OF r(1) refl refl] by blast
  with r show ?thesis by (auto simp: sample_account_def phone_state_def started_db_def sample_db_def empty_db_def)
qed

text \<open>The phone number with a wrong password, and a phone number that nobody has.\<close>

definition unused_phone :: account_db where
  "unused_phone = (sample_account PurposeLogin)\<lparr>identities := []\<rparr>"

lemma sample_wrong:
  "wrong_credentials (sample_libs PurposeLogin) sample_accounts sample_account_env sample_phone ''other-password''
     (sample_account PurposeLogin)"
  "wrong_credentials (sample_libs PurposeLogin) sample_accounts sample_account_env sample_phone ''other-password'' unused_phone"
  by (auto simp: wrong_credentials_def Let_def phone_candidates credential_join_def unused_phone_def)


lemma sample_hasher_new: "NewPasswordHasher 1 [(1, sample_params)] = Inr sample_hasher"
  by (simp add: NewPasswordHasher_def sample_hasher_def sample_params_def validArgon2Params_def)

lemma sample_idkey_length: "length (sample_idkey pw salt t m l k) = unat k"
  by (simp add: sample_idkey_def)

theorem register_then_login_witness:
  "\<exists>reg st p st'. Register (sample_libs PurposeRegistration) sample_accounts sample_account_env None sample_registration
       verified_state = (Inr reg, st)
     \<and> AuthenticatePassword (sample_libs PurposeRegistration) sample_accounts sample_account_env (Some ''10.0.0.1'') sample_phone
       (rg_Password sample_registration) st = (Inr p, st')
     \<and> pr_UserID p = re_UserID reg"
proof -
  obtain st where reg: "Register (sample_libs PurposeRegistration) sample_accounts sample_account_env None sample_registration
      verified_state = (Inr \<lparr>re_UserID = 101, re_PersonalSpaceID = 103\<rparr>, st)"
    and st: "map a_id (audit_events (core (st_db st))) = [106]" "st_limits st = Map.empty"
    using sample_registers by (elim exE conjE)
  have claims: "registration_claims (sample_libs PurposeRegistration) sample_accounts sample_account_env None sample_registration
      verified_state = (Inr (sample_claims PurposeRegistration), verified_state)"
    by (simp add: registration_claims_def sample_registration_def sample_receipt_parses no_nickname)
  have ids: "101 \<notin> a_id ` set (audit_events (core (st_db st)))"
    using st(1) by (simp flip: set_map)
  have al: "fst (allow_login (sample_libs PurposeRegistration) sample_accounts sample_account_env (Some ''10.0.0.1'')
      (LookupCandidates sample_crypto sample_identity_codec IdentityPhone sample_phone) st) = Some True"
    using sample_admitted [of PurposeRegistration "st_db st"] st(2) by (cases st) (auto simp: phone_candidates)
  have "\<exists>p st2. AuthenticatePassword (sample_libs PurposeRegistration) sample_accounts sample_account_env (Some ''10.0.0.1'')
      sample_phone (rg_Password sample_registration) st = (Inr p, st2)
    \<and> pr_UserID p = re_UserID \<lparr>re_UserID = 101, re_PersonalSpaceID = 103\<rparr>
    \<and> pr_PersonalSpaceID p = re_PersonalSpaceID \<lparr>re_UserID = 101, re_PersonalSpaceID = 103\<rparr>"
    by (rule register_then_login [OF _ _ _ _ _ claims reg, where cfg = sample_identity_config and current = 1
        and vs = "[(1, sample_params)]" and i = 101])
      (use ids al sample_identity_codecs(1) in \<open>simp_all add: sample_hasher_new sample_idkey_length sample_read_def\<close>)
  with reg show ?thesis by (elim exE conjE) (intro exI conjI, assumption+)
qed

lemma sample_reset:
  "\<exists>st. ResetPassword (sample_libs PurposePasswordReset) sample_accounts sample_account_env sample_token ''other-password''
     (phone_state PurposePasswordReset) = (None, st)"
  by (simp add: ResetPassword_def sample_receipt_parses sample_hash run_record_def ResetPassword_record_def transaction_def
      accountStatusForUpdate_def set_credential_def statement_def revoke_live_sessions_def bump_security_def
      insertAuditEvent_def written_def insert_audit_def markReceiptConsumed_def table_simps Let_def)

theorem password_reset_effect_witness:
  "\<exists>st. ResetPassword (sample_libs PurposePasswordReset) sample_accounts sample_account_env sample_token ''other-password''
     (phone_state PurposePasswordReset) = (None, st)
     \<and> (\<exists>u hash version. hash_password (sample_libs PurposePasswordReset) sample_accounts sample_account_env ''other-password'' = Some (hash, version)
          \<and> password_set u hash (sample_account PurposePasswordReset) (st_db st))"
proof -
  obtain st where r: "ResetPassword (sample_libs PurposePasswordReset) sample_accounts sample_account_env sample_token
      ''other-password'' (phone_state PurposePasswordReset) = (None, st)" using sample_reset by blast
  from password_reset_effect [OF r refl refl] r show ?thesis by auto
qed

lemma sample_change:
  "\<exists>st. ChangePassword (sample_libs p) sample_accounts sample_account_env 1 2 ''correct-horse'' ''other-password''
     (phone_state p) = (None, st)"
  by (simp add: ChangePassword_def reauthenticateUser_def FindCredentialByUserID_def credential_join_def
      sample_hash run_record_def ChangePassword_record_def transaction_def
      accountStatusForUpdate_def set_credential_def statement_def revoke_others_def bump_security_def
      insertAuditEvent_def written_def insert_audit_def table_simps Let_def zero_time_def started_db_def new_session_def
      sample_device_binding_def refreshLifetime_def)

theorem password_change_effect_witness:
  "\<exists>st. ChangePassword (sample_libs PurposeLogin) sample_accounts sample_account_env 1 2 ''correct-horse'' ''other-password''
     (phone_state PurposeLogin) = (None, st)
     \<and> (\<exists>hash. password_set 1 hash (sample_account PurposeLogin) (st_db st))"
proof -
  obtain st where r: "ChangePassword (sample_libs PurposeLogin) sample_accounts sample_account_env 1 2 ''correct-horse''
      ''other-password'' (phone_state PurposeLogin) = (None, st)" using sample_change by blast
  from password_change_effect [OF r refl refl] r show ?thesis by auto
qed

lemma sample_deletion:
  "\<exists>st. RequestDeletion (sample_libs PurposeAccountDeletion) sample_accounts sample_account_env 1 ''correct-horse'' sample_token
     (phone_state PurposeAccountDeletion) = (None, st)"
  by (simp add: RequestDeletion_def reauthenticateUser_def FindCredentialByUserID_def credential_join_def sample_receipt_parses
      run_record_def RequestDeletion_record_def transaction_def lockOwnedOrganizations_def suspend_def
      accountStatusForUpdate_def statement_def markReceiptConsumed_def
      insertAuditEvent_def written_def insert_audit_def table_simps Let_def zero_time_def)


text \<open>The account a second after its deletion was requested.\<close>

definition pending_state :: account_state where
  "pending_state = \<lparr>st_db = suspend 1 0 (sample_account PurposeDeletionRecovery), st_limits = Map.empty\<rparr>"

lemma sample_recovery:
  "\<exists>st. RecoverDeletion (sample_libs PurposeDeletionRecovery) sample_accounts sample_account_env sample_phone ''correct-horse''
     sample_token pending_state = (None, st)"
  by (simp add: RecoverDeletion_def Let_def phone_candidates credential_join_def sample_receipt_parses pending_state_def
      run_record_def RecoverDeletion_record_def transaction_def suspend_def restore_def deletionRecoveryWindow_def
      statement_def markReceiptConsumed_def insertAuditEvent_def written_def insert_audit_def table_simps zero_time_def)

theorem recovery_within_window_witness:
  "\<exists>st. RecoverDeletion (sample_libs PurposeDeletionRecovery) sample_accounts sample_account_env sample_phone ''correct-horse''
     sample_token pending_state = (None, st)
     \<and> (\<exists>u. (\<exists>r\<in>set (users (core (st_db pending_state))). u_id r = u)
        \<and> (\<forall>q\<in>set (users (core (st_db st))). u_id q = u \<longrightarrow> u_status q = ''active''))"
proof -
  obtain st where r: "RecoverDeletion (sample_libs PurposeDeletionRecovery) sample_accounts sample_account_env sample_phone
      ''correct-horse'' sample_token pending_state = (None, st)" using sample_recovery by blast
  from recovery_within_window [OF r refl refl] r show ?thesis by auto
qed

end
