(* ===== verification/OneTimeCodes.thy ===== *)
theory OneTimeCodes
  imports Verification
begin

text \<open>
  The properties of \<open>internal/verification\<close>: how many wrong codes can be tried, that a code is
  redeemed once and only while it is the newest one of its target, that sending is idempotent and
  rate limited, and what a successful check of a code means. \<open>code_run\<close> is the step relation of
  the component: any interleaving of sends, checks and retention deletes.
\<close>

section \<open>The challenge a check consumes\<close>

lemma newest_refine:
  assumes "distinct (map k2 t)" "newest k1 k2 (filter P t) = Some c" "Q c" "\<And>x. Q x \<Longrightarrow> P x"
  shows "newest k1 k2 (filter Q t) = Some c"
proof -
  have c: "c \<in> set t" "P c" using newest_in [OF assms(2)] by simp_all
  then have "filter Q t \<noteq> []" using assms(3) by (auto simp: filter_empty_conv)
  then obtain d where d: "newest k1 k2 (filter Q t) = Some d"
    by (cases "newest k1 k2 (filter Q t)") simp_all
  have "d \<in> set t" "Q d" using newest_in [OF d] by simp_all
  moreover have "k1 d < k1 c \<or> k1 d = k1 c \<and> k2 d \<le> k2 c"
    using newest_max [OF assms(2), of d] assms(4) calculation by simp
  moreover have "k1 c < k1 d \<or> k1 c = k1 d \<and> k2 c \<le> k2 d"
    using newest_max [OF d, of c] assms(3) c by simp
  ultimately have "d = c" using distinct_key_eq [OF assms(1), of d c] c by auto
  with d show ?thesis by simp
qed

lemma Latest_loop_newest:
  "Latest_loop f hs p t acc = Some (Some c) \<Longrightarrow> acc = Some c \<or>
     newest ch_CreatedAt ch_ID
       (filter (\<lambda>x. ch_TargetLookupHMAC x = ch_TargetLookupHMAC c \<and> ch_Purpose x = p) t) = Some c"
proof (induction hs arbitrary: f acc)
  case Nil
  then show ?case by simp
next
  case (Cons h hs)
  let ?new = "newest ch_CreatedAt ch_ID (filter (\<lambda>x. ch_TargetLookupHMAC x = h \<and> ch_Purpose x = p) t)"
  have rest: "Latest_loop (later 1 f) hs p t (later_of acc ?new) = Some (Some c)"
    using Cons.prems by (simp add: latestForTarget_def split: if_splits)
  have "later_of acc ?new = Some c \<Longrightarrow> acc = Some c \<or> ?new = Some c"
    by (auto simp: later_of_def split: option.splits if_splits)
  moreover have "?new = Some c \<Longrightarrow> ch_TargetLookupHMAC c = h" by (drule newest_in) simp
  ultimately show ?case using Cons.IH [OF rest] by auto
qed

lemma Latest_newest_open:
  assumes "challenges_ok t" "Latest f hs p t = Some (Some c)"
    "ch_ConsumedAt c = None" "ch_InvalidatedAt c = None" "now < ch_ExpiresAt c"
  shows "newest ch_CreatedAt ch_ID (filter (open_challenge (ch_TargetLookupHMAC c) p now) t) = Some c"
proof (rule newest_refine [where P = "\<lambda>x. ch_TargetLookupHMAC x = ch_TargetLookupHMAC c \<and> ch_Purpose x = p"])
  show "distinct (map ch_ID t)" using assms(1) by (simp add: challenges_ok_def)
  show "newest ch_CreatedAt ch_ID (filter (\<lambda>x. ch_TargetLookupHMAC x = ch_TargetLookupHMAC c
      \<and> ch_Purpose x = p) t) = Some c"
    using Latest_loop_newest [of f hs p t None c] assms(2) by (simp add: Latest_def)
  show "open_challenge (ch_TargetLookupHMAC c) p now c"
    using assms(3-5) Latest_in [OF assms(2)] by (simp add: open_challenge_def)
qed (simp add: open_challenge_def)

lemma verify_code_Inr:
  assumes "verify_code cr tbl jenc s e req t = (Inr res, t')"
  obtains n cs c key where
    "prepareTarget cr tbl s (vr_Kind req) (vr_Destination req) (vr_Purpose req) = Inr (n, cs)"
    "validCode (vr_Code req)"
    "Latest (repo_fails e) (lookupHMACs cs) (vr_Purpose req) t = Some (Some c)"
    "ch_ConsumedAt c = None" "ch_InvalidatedAt c = None" "clock e < ch_ExpiresAt c"
    "map_of (v_codeKeys s) (ch_CodeKeyID c) = Some key"
    "Consume (later (length cs) (repo_fails e)) (ch_TargetLookupHMAC c) (vr_Purpose req)
       (codeHMAC cr key (vr_Purpose req) (ch_TargetLookupHMAC c) (vr_Code req)) (clock e) t = (None, t')"
    "Issue cr tbl jenc (v_receipts s) (random_read e) (release_clock e) c n
       = Inr (vres_Receipt res, vres_ExpiresAt res)"
  using assms that
  by (auto simp: verify_code_def split: sum.splits prod.splits option.splits if_splits)

lemma verify_code_cases:
  assumes "verify_code cr tbl jenc s e req t = (r, t')"
  obtains (refused) err where "t' = t" "r = Inl err"
  | (tried) f h p m now x where "Consume f h p m now t = (x, t')"
      "\<And>res. r = Inr res \<Longrightarrow> x = None"
      "r = Inl ErrInvalidVerification \<Longrightarrow> x = Some ErrChallengeNotFound \<or> x = Some ErrCodeMismatch"
proof -
  have "(\<exists>err. t' = t \<and> r = Inl err) \<or> (\<exists>f h p m now x. Consume f h p m now t = (x, t')
      \<and> (\<forall>res. r = Inr res \<longrightarrow> x = None)
      \<and> (r = Inl ErrInvalidVerification \<longrightarrow> x = Some ErrChallengeNotFound \<or> x = Some ErrCodeMismatch))"
    using assms unfolding verify_code_def
    by (auto split: sum.splits prod.splits option.splits if_splits; blast)
  then show thesis using refused tried by blast
qed

lemma Consume_not_found: "Consume f h p m now t = (Some ErrChallengeNotFound, t') \<Longrightarrow> t' = t"
  by (erule Consume_cases) auto

lemma verify_code_effect:
  assumes "challenges_ok t" "verify_code cr tbl jenc s e req t = (r, t')"
  shows "challenges_ok t'"
    "guesses_left t' + (if r = Inl ErrInvalidVerification \<and> t' \<noteq> t then 1 else 0) \<le> guesses_left t"
    "unconsumed t' + (if isl r then 0 else 1) \<le> unconsumed t"
proof -
  have "challenges_ok t' \<and>
      guesses_left t' + (if r = Inl ErrInvalidVerification \<and> t' \<noteq> t then 1 else 0) \<le> guesses_left t \<and>
      unconsumed t' + (if isl r then 0 else 1) \<le> unconsumed t"
    using assms(2)
  proof (cases rule: verify_code_cases)
    case (refused err)
    with assms(1) show ?thesis by simp
  next
    case (tried f h p m now x)
    note facts = Consume_ok [OF assms(1) tried(1)] Consume_guesses [OF assms(1) tried(1)]
      Consume_unconsumed [OF assms(1) tried(1)]
    have "r = Inl ErrInvalidVerification \<and> t' \<noteq> t \<Longrightarrow> x = Some ErrCodeMismatch"
      using tried Consume_not_found by blast
    moreover have "\<not> isl r \<Longrightarrow> x = None" using tried(2) by (cases r) auto
    ultimately show ?thesis using facts by (auto split: if_splits)
  qed
  then show "challenges_ok t'"
    "guesses_left t' + (if r = Inl ErrInvalidVerification \<and> t' \<noteq> t then 1 else 0) \<le> guesses_left t"
    "unconsumed t' + (if isl r then 0 else 1) \<le> unconsumed t" by blast+
qed

text \<open>What one send does to the table and to the list of messages.\<close>

lemma Send_effect:
  assumes "challenges_ok (challenges w)" "Send cr tbl s e req w = (r, w')"
  shows "challenges_ok (challenges w')"
    "guesses_left (challenges w') + 5 * length (sent w) \<le> guesses_left (challenges w) + 5 * length (sent w')"
    "unconsumed (challenges w') + length (sent w) \<le> unconsumed (challenges w) + length (sent w')"
proof -
  have "challenges_ok (challenges w') \<and>
    guesses_left (challenges w') + 5 * length (sent w) \<le> guesses_left (challenges w) + 5 * length (sent w') \<and>
    unconsumed (challenges w') + length (sent w) \<le> unconsumed (challenges w) + length (sent w')"
    using assms(2)
  proof (cases rule: Send_cases)
    case unsent
    with assms(1) show ?thesis by simp
  next
    case (dispatched n cs w0 w1 w2)
    have w1: "challenges w1 = challenges w" "sent w1 = sent w"
      using admit_frame [OF dispatched(6)] dispatched(4,5) by simp_all
    show ?thesis
      using dispatched(7)
    proof (cases rule: dispatch_cases)
      case quiet
      with w1 dispatched(8,9) assms(1) show ?thesis by simp
    next
      case (lost otp)
      with w1 dispatched(8,9) assms(1) show ?thesis by simp
    next
      case (saved otp cid)
      let ?c = "new_challenge cr s req (hd cs) (idempotencyHash cr s req n) otp cid (clock e)"
      have "challenges w' = challenges w @ [?c]" "length (sent w') = Suc (length (sent w))"
        using saved(3) w1 dispatched(8,9) by simp_all
      moreover have "challenge_ok ?c" "ch_FailedAttempts ?c = 0" "ch_ID ?c = cid"
        "ch_IdempotencyKeyHash ?c = idempotencyHash cr s req n"
        by (simp_all add: new_challenge_def challenge_ok_def)
      ultimately show ?thesis using assms(1) saved(4,5) w1(1)
        by (simp add: challenges_ok_def guesses_left_def unconsumed_def)
    qed
  qed
  then show "challenges_ok (challenges w')"
    "guesses_left (challenges w') + 5 * length (sent w) \<le> guesses_left (challenges w) + 5 * length (sent w')"
    "unconsumed (challenges w') + length (sent w) \<le> unconsumed (challenges w) + length (sent w')"
    by blast+
qed

lemma delete_effect:
  assumes "challenges_ok t"
  shows "challenges_ok (delete_where P t)" "guesses_left (delete_where P t) \<le> guesses_left t"
    "unconsumed (delete_where P t) \<le> unconsumed t"
proof -
  show "challenges_ok (delete_where P t)"
    using assms by (auto simp: challenges_ok_def delete_where_def distinct_map_filter_key)
  show "guesses_left (delete_where P t) \<le> guesses_left t"
    unfolding guesses_left_def by (induction t) (auto simp: delete_where_def)
  show "unconsumed (delete_where P t) \<le> unconsumed t"
    unfolding unconsumed_def by (induction t) (auto simp: delete_where_def)
qed

section \<open>Runs of the component\<close>

text \<open>
  \<open>code_run w wrong right\<close>: the world \<open>w\<close> is reached from an empty one by sends, checks and
  deletions of old challenges in any order and with any failures; \<open>wrong\<close> checks compared a wrong
  code and recorded it, \<open>right\<close> checks issued a receipt.
\<close>

inductive code_run :: "crypto \<Rightarrow> (nat \<Rightarrow> nat) \<Rightarrow> (receiptPayload \<Rightarrow> bytes option) \<Rightarrow> Service
    \<Rightarrow> world \<Rightarrow> nat \<Rightarrow> nat \<Rightarrow> bool"
  for cr tbl jenc s where
  start: "challenges w = [] \<Longrightarrow> code_run cr tbl jenc s w 0 0"
| send: "code_run cr tbl jenc s w wrong right \<Longrightarrow> Send cr tbl s e req w = (r, w')
    \<Longrightarrow> code_run cr tbl jenc s w' wrong right"
| verify: "code_run cr tbl jenc s w wrong right
    \<Longrightarrow> verify_code cr tbl jenc s e vreq (challenges w) = (v, t')
    \<Longrightarrow> code_run cr tbl jenc s (w\<lparr>challenges := t'\<rparr>)
          (wrong + (if v = Inl ErrInvalidVerification \<and> t' \<noteq> challenges w then 1 else 0))
          (right + (if isl v then 0 else 1))"
| retention: "code_run cr tbl jenc s w wrong right
    \<Longrightarrow> code_run cr tbl jenc s (w\<lparr>challenges := delete_where P (challenges w)\<rparr>) wrong right"

lemma code_run_budget:
  "code_run cr tbl jenc s w wrong right \<Longrightarrow> challenges_ok (challenges w)
     \<and> wrong + guesses_left (challenges w) \<le> 5 * length (sent w)
     \<and> right + unconsumed (challenges w) \<le> length (sent w)"
proof (induction rule: code_run.induct)
  case (start w)
  then show ?case by (simp add: challenges_ok_def guesses_left_def unconsumed_def)
next
  case (send w wrong right e req r w')
  from send.IH Send_effect [OF _ send.hyps(2)] show ?case by force
next
  case (verify w wrong right e vreq v t')
  from verify.IH verify_code_effect [OF _ verify.hyps(2)] show ?case by force
next
  case (retention w wrong right P)
  from retention.IH delete_effect [of "challenges w" P] show ?case by force
qed


text \<open>
  Over any sequence of attempts at one table, for any targets, times and failures, a
  challenge absorbs at most five wrong codes (fewer if some were already recorded) and is redeemed
  at most once.
\<close>

theorem Consume_budgets:
  assumes "challenges_ok t" "run_all attempt as t = (rs, t')"
  shows "length (filter (\<lambda>(a, r). r = Some ErrCodeMismatch) (zip as rs)) \<le> guesses_left t
    \<and> length (filter (\<lambda>(a, r). r = None) (zip as rs)) \<le> unconsumed t \<and> challenges_ok t'"
  using wrong_codes.hits_bounded [OF assms] redeemed.hits_bounded [OF assms] by linarith

section \<open>Sending\<close>

lemma hex_digit_visible: "33 \<le> code (hex_digit n) \<and> code (hex_digit n) < 127"
proof -
  have "hex_digit n \<in> set ''0123456789abcdef''" unfolding hex_digit_def by (rule nth_mem) simp
  then show ?thesis by auto
qed

lemma visible_hex: "visible (hex_encode s)"
  by (induction s) (auto simp: hex_encode_def visible_def hex_digit_visible)

lemma visible_url: "visible (encode_url s)"
proof -
  have "\<forall>c\<in>set url_alphabet. 33 \<le> code c \<and> code c < 127" by (simp add: url_alphabet_def)
  then show ?thesis using set_encode_url [of s] by (auto simp: visible_def list_all_iff)
qed

lemma hex_encode_Nil [simp]: "hex_encode s = [] \<longleftrightarrow> s = []"
  by (cases s) (simp_all add: hex_encode_def)

definition low :: "int \<Rightarrow> instant \<Rightarrow> int redis \<Rightarrow> bool" where
  "low k now r \<longleftrightarrow> (\<forall>key c e. live now r key = Some (c, e) \<longrightarrow> 0 < c \<and> c \<le> k)"

lemma Allow_low:
  assumes "low k now r" "0 \<le> k" "TrimSpace key \<noteq> []" "validPolicy p" "k + 1 \<le> CaptchaAfter p"
  obtains d r' where "Allow False now key p r = (Inr d, r')" "Allowed d" "\<not> CaptchaRequired d"
    "low (k + 1) now r'"
proof -
  let ?k = "redisLimitPrefix @ key"
  obtain count ttl r' where w: "incrementWindow now ?k (Window p div millisecond) r = ((count, ttl), r')"
    by (metis surj_pair)
  have "count \<le> k + 1 \<and> (\<exists>v. r' = r(?k := v) \<and> (\<forall>c e. v = Some (c, e) \<longrightarrow> 0 < c \<and> c \<le> k + 1))"
  proof (cases "live now r ?k")
    case None
    then have "incr now ?k r = (1, r(?k \<mapsto> (1, None)))" by (simp add: incr_def)
    with w assms(2) show ?thesis
      by (auto simp: incrementWindow_def pexpire_def live_def Let_def split: if_splits)
  next
    case (Some ce)
    obtain c e where ce: "ce = (c, e)" by (cases ce)
    with Some assms(1) have "0 < c" "c \<le> k" by (auto simp: low_def)
    moreover have "incr now ?k r = (c + 1, r(?k \<mapsto> (c + 1, e)))" using Some ce by (simp add: incr_def)
    ultimately show ?thesis using w by (auto simp: incrementWindow_def Let_def)
  qed
  then obtain v where v: "count \<le> k + 1" "r' = r(?k := v)" "\<And>c e. v = Some (c, e) \<Longrightarrow> 0 < c \<and> c \<le> k + 1"
    by blast
  have "low (k + 1) now r'" unfolding low_def
  proof (intro allI impI)
    fix key c e assume l: "live now r' key = Some (c, e)"
    show "0 < c \<and> c \<le> k + 1"
    proof (cases "key = ?k")
      case True
      with l v(2) have "\<exists>e'. v = Some (c, e')" by (auto simp: live_def split: option.splits if_splits)
      with v(3) show ?thesis by blast
    next
      case False
      with l v(2) have "live now r key = Some (c, e)" by (simp add: live_def)
      with assms(1) show ?thesis unfolding low_def by fastforce
    qed
  qed
  with v(1) assms w show thesis
    by (intro that [of "decide p count ttl" r']) (auto simp: Allow_def decide_def Let_def validPolicy_def)
qed

lemma requestHMAC_key:
  "digest_lengths cr \<Longrightarrow> TrimSpace (hex_encode (requestHMAC cr s parts)) = hex_encode (requestHMAC cr s parts)
     \<and> hex_encode (requestHMAC cr s parts) \<noteq> []"
  by (metis TrimSpace_visible visible_hex hex_encode_Nil requestHMAC_def hmac_length list.size(3) zero_neq_numeral)

text \<open>With low counters no scope refuses and none asks for a CAPTCHA.\<close>

lemma allow_scopes_low:
  assumes "digest_lengths cr" "low k now r" "0 \<le> k"
    "\<And>name val p. (name, val, p) \<in> set scopes \<Longrightarrow> validPolicy p \<and> k + int (length scopes) \<le> CaptchaAfter p"
  shows "\<exists>r'. allow_scopes cr s no_fault now scopes False r = (Inr False, r')"
  using assms(2-)
proof (induction scopes arbitrary: k r)
  case Nil
  then show ?case by simp
next
  case (Cons scope scopes)
  obtain name val p where scope: "scope = (name, val, p)" by (cases scope)
  have p: "validPolicy p" "k + 1 \<le> CaptchaAfter p" using Cons.prems(3) [of name val p] scope by simp_all
  have nonempty: "TrimSpace (hex_encode (requestHMAC cr s [''limit'', name, val])) \<noteq> []"
    using requestHMAC_key [OF assms(1)] by metis
  obtain d r' where d: "Allow False now (hex_encode (requestHMAC cr s [''limit'', name, val])) p r
      = (Inr d, r')" "Allowed d" "\<not> CaptchaRequired d" "low (k + 1) now r'"
    by (rule Allow_low [OF Cons.prems(1,2) nonempty p])
  have "\<exists>r''. allow_scopes cr s no_fault now scopes False r' = (Inr False, r'')"
  proof (rule Cons.IH [OF d(4)])
    show "0 \<le> k + 1" using Cons.prems(2) by simp
    fix name val p assume "(name, val, p) \<in> set scopes"
    then show "validPolicy p \<and> k + 1 + int (length scopes) \<le> CaptchaAfter p"
      using Cons.prems(3) [of name val p] by simp
  qed
  with d scope show ?case by (simp add: later_def)
qed

lemma admit_leases:
  "admit cr s e req cs w = (r, w') \<Longrightarrow> admit cr s e req cs (w\<lparr>leases := l\<rparr>) = (r, w'\<lparr>leases := l\<rparr>)"
  by (auto simp: admit_def split: option.splits if_splits prod.splits sum.splits)

lemma Send_served:
  assumes "digest_lengths cr"
    "prepareTarget cr tbl s (sr_Kind req) (sr_Destination req) (sr_Purpose req) = Inr (n, cs)"
    "validSendMetadata req" "repo_fails e = no_fault" "lease_fails e = no_fault"
    "idempotencyHash cr s req n \<notin> ch_IdempotencyKeyHash ` set (challenges w)"
    "random_read e 32 = Some v" "length v = 32"
    "delivery_holder (redis_clock e) (leases w) (hex_encode (idempotencyHash cr s req n)) = None"
    "redis_clock e \<le> release_clock e" "release_clock e < redis_clock e + deliveryLeaseTTL"
    "admit cr s e req cs w = (None, w1)"
    "random_code e = Some k" "k < 1000000" "random_uuid e = Some cid" "cid \<notin> ch_ID ` set (challenges w)"
    "\<And>otp. sender e n otp (sr_Purpose req) = Delivered"
    "sr_Kind req = IdentityEmail \<or> sr_Kind req = IdentityPhone" "length (li_HMAC (hd cs)) = 32"
  shows "\<exists>otp w'. Send cr tbl s e req w = (None, w') \<and> validCode otp
    \<and> sent w' = sent w @ [(n, otp, sr_Purpose req)]
    \<and> challenges w' = challenges w @ [new_challenge cr s req (hd cs) (idempotencyHash cr s req n) otp cid (clock e)]
    \<and> delivery_holder (release_clock e) (leases w') (hex_encode (idempotencyHash cr s req n)) = None"
proof -
  let ?hash = "idempotencyHash cr s req n" and ?owner = "encode_url v"
  obtain otp where otp: "randomSixDigitCode (random_code e) = Some otp"
    using assms(13) by (simp add: randomSixDigitCode_def Let_def)
  let ?c = "new_challenge cr s req (hd cs) ?hash otp cid (clock e)"
  have key: "TrimSpace (hex_encode ?hash) \<noteq> []" "length ?hash = 32"
    using requestHMAC_key [OF assms(1)] assms(1) by (metis idempotencyHash_def, simp add: idempotencyHash_def requestHMAC_def)
  have owner: "TrimSpace ?owner \<noteq> []" "RandomToken (random_read e) 32 = Inr ?owner"
    using assms(7,8) TrimSpace_visible [OF visible_url [of v]] length_EncodeToString [of url_alphabet v]
    by (auto simp: RandomToken_def RandomBytes_def)
  obtain l where acq: "delivery_acquire (redis_clock e) (hex_encode ?hash) ?owner deliveryLeaseTTL (leases w)
      = (True, l)"
    using delivery.acquire_free [OF assms(9)] by (metis prod.collapse)
  let ?w0 = "w\<lparr>leases := l\<rparr>" and ?w1 = "w1\<lparr>leases := l\<rparr>"
  have admitted: "admit cr s e req cs ?w0 = (None, ?w1)" by (rule admit_leases [OF assms(12)])
  have same: "challenges w1 = challenges w" "sent w1 = sent w" using admit_frame [OF assms(12)] by simp_all
  have save: "SaveAfterDelivery False ?c (challenges w) = Some (challenges w @ [?c])"
    using assms(1,6,16,18,19) key(2)
    by (auto simp: SaveAfterDelivery_def new_challenge_def exists_key_iff codeHMAC_def IdentityEmail_def
        IdentityPhone_def challengeLifetime_def)
  have "dispatch cr s e req n cs ?hash ?w1 = (None, ?w1\<lparr>sent := sent w @ [(n, otp, sr_Purpose req)],
      challenges := challenges w @ [?c]\<rparr>)"
    using otp assms(4,15,17) same save by (simp add: dispatch_def RandomUUID_def Let_def)
  then have "Send cr tbl s e req w = (None, ?w1\<lparr>sent := sent w @ [(n, otp, sr_Purpose req)],
      challenges := challenges w @ [?c],
      leases := delivery_release (release_clock e) (hex_encode ?hash) ?owner l\<rparr>)"
    using assms(2-6) key owner acq admitted
    by (simp add: Send_def deliver_def ExistsByIdempotency_def exists_key_iff Guard_Acquire_def
        Guard_Release_def deliveryLeaseTTL_def Let_def)
  moreover have "validCode otp" using randomSixDigitCode_valid [OF otp] assms(13,14) by simp
  moreover have "delivery_holder (release_clock e) (delivery_release (release_clock e) (hex_encode ?hash) ?owner l)
      (hex_encode ?hash) = None"
    using delivery.free_after_release [OF assms(9-11), of _ ?owner] acq by (simp add: deliveryLeaseTTL_def)
  ultimately show ?thesis by auto
qed

text \<open>
  A request that the guards admit is served: with the stores answering, the idempotency key
  unused, no lease held on it, and the sender delivering, \<open>Send\<close> succeeds, appends exactly one
  message with a six-digit code, saves the challenge for that code, and leaves the lease free.
\<close>

theorem Send_delivers:
  assumes "digest_lengths cr"
    "prepareTarget cr tbl s (sr_Kind req) (sr_Destination req) (sr_Purpose req) = Inr (n, cs)"
    "validSendMetadata req" "repo_fails e = no_fault" "lease_fails e = no_fault"
    "idempotencyHash cr s req n \<notin> ch_IdempotencyKeyHash ` set (challenges w)"
    "random_read e 32 = Some v" "length v = 32"
    "delivery_holder (redis_clock e) (leases w) (hex_encode (idempotencyHash cr s req n)) = None"
    "redis_clock e \<le> release_clock e" "release_clock e < redis_clock e + deliveryLeaseTTL"
    "admit cr s e req cs w = (None, w1)"
    "random_code e = Some k" "k < 1000000" "random_uuid e = Some cid" "cid \<notin> ch_ID ` set (challenges w)"
    "\<And>otp. sender e n otp (sr_Purpose req) = Delivered"
    "sr_Kind req = IdentityEmail \<or> sr_Kind req = IdentityPhone" "length (li_HMAC (hd cs)) = 32"
  shows "\<exists>otp w'. Send cr tbl s e req w = (None, w') \<and> validCode otp
    \<and> sent w' = sent w @ [(n, otp, sr_Purpose req)]
    \<and> challenges w' = challenges w @ [new_challenge cr s req (hd cs) (idempotencyHash cr s req n) otp cid (clock e)]
    \<and> delivery_holder (release_clock e) (leases w') (hex_encode (idempotencyHash cr s req n)) = None"
  using assms by (rule Send_served)

text \<open>
  A send changes nothing but counters and leases, or hands exactly one message with a valid
  code for the normalised destination to the sender. It sends only if the idempotency key is new
  and every earlier challenge of the target (for phones, of sign-up and login together) is at
  least the resend delay old; it reports success only with the challenge for that code saved.
\<close>

theorem Send_one_message:
  assumes "challenges_ok (challenges w)" "\<And>k. random_code e = Some k \<Longrightarrow> k < 1000000"
    "Send cr tbl s e req w = (r, w')"
  shows "sent w' = sent w \<and> challenges w' = challenges w \<or>
    (\<exists>n cs otp. prepareTarget cr tbl s (sr_Kind req) (sr_Destination req) (sr_Purpose req) = Inr (n, cs)
      \<and> validCode otp \<and> sent w' = sent w @ [(n, otp, sr_Purpose req)]
      \<and> idempotencyHash cr s req n \<notin> ch_IdempotencyKeyHash ` set (challenges w)
      \<and> (\<forall>c\<in>set (challenges w). ch_TargetLookupHMAC c \<in> set (lookupHMACs cs)
            \<and> ch_Purpose c \<in> cooldown_purposes req \<longrightarrow> ch_CreatedAt c + resendDelay \<le> clock e)
      \<and> (if r = None
         then \<exists>cid. challenges w' = challenges w
                @ [new_challenge cr s req (hd cs) (idempotencyHash cr s req n) otp cid (clock e)]
         else r = Some ErrTemporarilyUnavailable \<and> challenges w' = challenges w))"
  using assms(3)
proof (cases rule: Send_cases)
  case unsent
  then show ?thesis by simp
next
  case (dispatched n cs w0 w1 w2)
  have w1: "challenges w1 = challenges w" "sent w1 = sent w"
    using admit_frame [OF dispatched(6)] dispatched(4,5) by simp_all
  have cool: "\<forall>c\<in>set (challenges w). ch_TargetLookupHMAC c \<in> set (lookupHMACs cs)
      \<and> ch_Purpose c \<in> cooldown_purposes req \<longrightarrow> ch_CreatedAt c + resendDelay \<le> clock e"
    using admit_cooldown [OF dispatched(6)] dispatched(4) assms(1) by auto
  show ?thesis
    using dispatched(7)
  proof (cases rule: dispatch_cases)
    case quiet
    with w1 dispatched(8,9) show ?thesis by simp
  next
    case (lost otp)
    have "validCode otp" by (rule randomSixDigitCode_valid [OF lost(1) assms(2)])
    then show ?thesis using lost(2,3) w1 dispatched(1,3,8,9) cool
      by (intro disjI2 exI [of _ n] exI [of _ cs] exI [of _ otp]) simp
  next
    case (saved otp cid)
    have "validCode otp" by (rule randomSixDigitCode_valid [OF saved(1) assms(2)])
    then show ?thesis using saved(2,3) w1 dispatched(1,3,8,9) cool
      by (intro disjI2 exI [of _ n] exI [of _ cs] exI [of _ otp]) auto
  qed
qed

lemma Send_saved:
  assumes "challenges_ok (challenges w)" "Send cr tbl s e req w = (None, w')" "sent w' \<noteq> sent w"
  obtains n cs otp cid where
    "prepareTarget cr tbl s (sr_Kind req) (sr_Destination req) (sr_Purpose req) = Inr (n, cs)"
    "randomSixDigitCode (random_code e) = Some otp" "sent w' = sent w @ [(n, otp, sr_Purpose req)]"
    "challenges w' = challenges w
       @ [new_challenge cr s req (hd cs) (idempotencyHash cr s req n) otp cid (clock e)]"
    "\<And>x. x \<in> set (challenges w) \<Longrightarrow> ch_TargetLookupHMAC x \<in> set (lookupHMACs cs)
       \<Longrightarrow> ch_Purpose x = sr_Purpose req \<Longrightarrow> ch_CreatedAt x + resendDelay \<le> clock e"
  using assms(2)
proof (cases rule: Send_cases)
  case unsent
  then show thesis using assms(3) by simp
next
  case (dispatched n cs w0 w1 w2)
  have w1: "challenges w1 = challenges w" "sent w1 = sent w"
    using admit_frame [OF dispatched(6)] dispatched(4,5) by simp_all
  have own: "sr_Purpose req \<in> cooldown_purposes req"
    by (auto simp: cooldown_purposes_def phone_cooldown_def)
  have cool: "ch_CreatedAt x + resendDelay \<le> clock e"
    if "x \<in> set (challenges w)" "ch_TargetLookupHMAC x \<in> set (lookupHMACs cs)" "ch_Purpose x = sr_Purpose req" for x
    using admit_cooldown [OF dispatched(6)] dispatched(4) assms(1) own that by simp
  from dispatched(7) show thesis
  proof (cases rule: dispatch_cases)
    case (saved otp cid)
    then show thesis using that [OF dispatched(1) saved(1)] cool dispatched(8,9) w1 by simp
  qed (use assms(3) dispatched(9) w1 in auto)
qed

lemma Latest_no_fault: "\<exists>r. Latest no_fault hs p t = Some r"
proof -
  have "\<exists>r. Latest_loop no_fault hs p t acc = Some r" for acc
    by (induction hs arbitrary: acc) (simp_all add: latestForTarget_def)
  then show ?thesis by (simp add: Latest_def)
qed

lemma verify_redeems:
  assumes "digest_lengths cr" "challenges_ok (challenges w)"
    "Send cr tbl s e req w = (None, w')" "sent w' = sent w @ [(n, otp, sr_Purpose req)]"
    "random_code e = Some k" "k < 1000000"
    "map_of (v_codeKeys s) (v_activeCodeKeyID s) = Some key"
    "clock e2 < clock e + challengeLifetime" "repo_fails e2 = no_fault"
    "vr_Kind vreq = sr_Kind req" "vr_Destination vreq = sr_Destination req"
    "vr_Purpose vreq = sr_Purpose req" "vr_Code vreq = otp"
    "Issue cr tbl jenc (v_receipts s) (random_read e2) (release_clock e2) (last (challenges w')) n
       = Inr (receipt, expiresAt)"
  shows "\<exists>t'. verify_code cr tbl jenc s e2 vreq (challenges w')
    = (Inr \<lparr>vres_Receipt = receipt, vres_ExpiresAt = expiresAt\<rparr>, t')"
proof -
  obtain n' cs otp' cid where c:
    "prepareTarget cr tbl s (sr_Kind req) (sr_Destination req) (sr_Purpose req) = Inr (n', cs)"
    "randomSixDigitCode (random_code e) = Some otp'" "sent w' = sent w @ [(n', otp', sr_Purpose req)]"
    "challenges w' = challenges w
       @ [new_challenge cr s req (hd cs) (idempotencyHash cr s req n') otp' cid (clock e)]"
    "\<And>x. x \<in> set (challenges w) \<Longrightarrow> ch_TargetLookupHMAC x \<in> set (lookupHMACs cs)
       \<Longrightarrow> ch_Purpose x = sr_Purpose req \<Longrightarrow> ch_CreatedAt x + resendDelay \<le> clock e"
    by (rule Send_saved [OF assms(2,3)]) (use assms(4) in simp_all)
  let ?c = "new_challenge cr s req (hd cs) (idempotencyHash cr s req n') otp' cid (clock e)"
  have same: "n' = n" "otp' = otp" using c(3) assms(4) by simp_all
  have code_ok: "validCode otp" using randomSixDigitCode_valid [OF c(2)] assms(5,6) same by simp
  have "cs \<noteq> []" using c(1) by (auto simp: prepareTarget_def Let_def split: if_splits sum.splits)
  then have target: "ch_TargetLookupHMAC ?c \<in> set (lookupHMACs cs)"
    by (simp add: new_challenge_def lookupHMACs_def)
  have fields: "ch_Purpose ?c = sr_Purpose req" "ch_CreatedAt ?c = clock e" "ch_ConsumedAt ?c = None"
    "ch_InvalidatedAt ?c = None" "ch_ExpiresAt ?c = clock e + challengeLifetime"
    "ch_CodeKeyID ?c = v_activeCodeKeyID s"
    "ch_CodeHMAC ?c = codeHMAC cr key (sr_Purpose req) (ch_TargetLookupHMAC ?c) otp"
    using assms(7) same by (simp_all add: new_challenge_def)
  have latest: "Latest no_fault (lookupHMACs cs) (sr_Purpose req) (challenges w') = Some (Some ?c)"
  proof -
    obtain r where r: "Latest no_fault (lookupHMACs cs) (sr_Purpose req) (challenges w') = Some r"
      using Latest_no_fault by blast
    obtain d where d: "r = Some d" "ch_CreatedAt ?c \<le> ch_CreatedAt d"
      by (rule Latest_max [OF r _ target fields(1)]) (simp add: c(4))
    have "d \<in> set (challenges w') \<and> ch_TargetLookupHMAC d \<in> set (lookupHMACs cs)
        \<and> ch_Purpose d = sr_Purpose req" using Latest_in r d(1) by simp
    with c(5) [of d] d(2) have "d = ?c" by (auto simp: c(4) fields(2) resendDelay_def)
    with r d(1) show ?thesis by simp
  qed
  have ok: "challenges_ok (challenges w')" by (rule Send_effect(1) [OF assms(2,3)])
  have open_now: "newest ch_CreatedAt ch_ID (filter (open_challenge (ch_TargetLookupHMAC ?c) (sr_Purpose req) (clock e2))
      (challenges w')) = Some ?c"
    using fields assms(8) by (intro Latest_newest_open [OF ok latest]) simp_all
  have "length (ch_CodeHMAC ?c) = 32" using fields(7) assms(1) by (simp add: codeHMAC_def)
  then have "\<exists>t'. Consume no_fault (ch_TargetLookupHMAC ?c) (sr_Purpose req)
      (codeHMAC cr key (sr_Purpose req) (ch_TargetLookupHMAC ?c) otp) (clock e2) (challenges w') = (None, t')"
    using open_now fields(7) by (simp add: Consume_def sha256DigestSize_def)
  then obtain t' where "Consume no_fault (ch_TargetLookupHMAC ?c) (sr_Purpose req)
      (codeHMAC cr key (sr_Purpose req) (ch_TargetLookupHMAC ?c) otp) (clock e2) (challenges w') = (None, t')" ..
  moreover have "last (challenges w') = ?c" using c(4) by simp
  ultimately show ?thesis
    using c(1) code_ok latest fields assms(7-14) same by (simp add: verify_code_def)
qed

text \<open>
  C38. The code that was delivered works: after a send that delivered a message, a check of that
  code for the same identity and purpose within the five minutes succeeds with the receipt the
  codec issues, whatever other challenges the table holds.
\<close>

theorem verify_after_Send:
  assumes "digest_lengths cr" "challenges_ok (challenges w)"
    "Send cr tbl s e req w = (None, w')" "sent w' = sent w @ [(n, otp, sr_Purpose req)]"
    "random_code e = Some k" "k < 1000000"
    "map_of (v_codeKeys s) (v_activeCodeKeyID s) = Some key"
    "clock e2 < clock e + challengeLifetime" "repo_fails e2 = no_fault"
    "vr_Kind vreq = sr_Kind req" "vr_Destination vreq = sr_Destination req"
    "vr_Purpose vreq = sr_Purpose req" "vr_Code vreq = otp"
    "Issue cr tbl jenc (v_receipts s) (random_read e2) (release_clock e2) (last (challenges w')) n
       = Inr (receipt, expiresAt)"
  shows "\<exists>t'. verify_code cr tbl jenc s e2 vreq (challenges w')
    = (Inr \<lparr>vres_Receipt = receipt, vres_ExpiresAt = expiresAt\<rparr>, t')"
  using assms by (rule verify_redeems)

text \<open>
  Sending is idempotent per key: once a send reported success, every later request with the
  same purpose, kind, normalised destination and idempotency key succeeds without a message and
  without any change, at whatever time and with whatever CAPTCHA, IP address and device it comes.
\<close>

theorem Send_idempotent:
  assumes "Send cr tbl s e req w = (None, w1)"
    "ch_IdempotencyKeyHash ` set (challenges w1) \<subseteq> ch_IdempotencyKeyHash ` set (challenges w2)"
    "sr_Kind req2 = sr_Kind req" "sr_Destination req2 = sr_Destination req"
    "sr_Purpose req2 = sr_Purpose req" "sr_IdempotencyKey req2 = sr_IdempotencyKey req"
    "validSendMetadata req2" "\<not> repo_fails e2 0"
  shows "Send cr tbl s e2 req2 w2 = (None, w2)"
proof -
  obtain n cs where n: "prepareTarget cr tbl s (sr_Kind req) (sr_Destination req) (sr_Purpose req) = Inr (n, cs)"
    "idempotencyHash cr s req n \<in> ch_IdempotencyKeyHash ` set (challenges w1)"
    using assms(1)
  proof (cases rule: Send_cases)
    case unsent
    then show thesis using that by auto
  next
    case (dispatched n cs w0 w1' w2')
    from dispatched(7) show thesis
    proof (cases rule: dispatch_cases)
      case (saved otp cid)
      then show thesis using that [OF dispatched(1)] dispatched(8) by (simp add: new_challenge_def)
    qed (use dispatched in simp_all)
  qed
  have "idempotencyHash cr s req2 n = idempotencyHash cr s req n"
    using assms(3-6) by (simp add: idempotencyHash_def)
  with n assms(2-8) show ?thesis
    by (auto simp: Send_def ExistsByIdempotency_def exists_key_iff Let_def)
qed

text \<open>
  C34. A check succeeds only for the newest challenge of the target and purpose, and only while
  that challenge is unused, not locked and not expired, with the HMAC of the presented code under
  the challenge's own key equal to the stored one; it marks exactly that challenge as used and
  returns a receipt issued for it.
\<close>

theorem verify_code_sound:
  assumes "challenges_ok t" "verify_code cr tbl jenc s e req t = (Inr res, t')"
  shows "\<exists>n cs c key. prepareTarget cr tbl s (vr_Kind req) (vr_Destination req) (vr_Purpose req) = Inr (n, cs)
    \<and> c \<in> set t \<and> ch_TargetLookupHMAC c \<in> set (lookupHMACs cs) \<and> ch_Purpose c = vr_Purpose req
    \<and> (\<forall>x\<in>set t. ch_TargetLookupHMAC x \<in> set (lookupHMACs cs) \<and> ch_Purpose x = vr_Purpose req
          \<longrightarrow> ch_CreatedAt x \<le> ch_CreatedAt c)
    \<and> ch_ConsumedAt c = None \<and> ch_InvalidatedAt c = None \<and> ch_FailedAttempts c < 5
    \<and> clock e < ch_CreatedAt c + challengeLifetime
    \<and> map_of (v_codeKeys s) (ch_CodeKeyID c) = Some key
    \<and> ch_CodeHMAC c = codeHMAC cr key (vr_Purpose req) (ch_TargetLookupHMAC c) (vr_Code req)
    \<and> t' = update_where (\<lambda>x. ch_ID x = ch_ID c) (\<lambda>x. x\<lparr>ch_ConsumedAt := Some (clock e)\<rparr>) t
    \<and> Issue cr tbl jenc (v_receipts s) (random_read e) (release_clock e) c n
        = Inr (vres_Receipt res, vres_ExpiresAt res)"
proof -
  obtain n cs c key where v:
    "prepareTarget cr tbl s (vr_Kind req) (vr_Destination req) (vr_Purpose req) = Inr (n, cs)"
    "Latest (repo_fails e) (lookupHMACs cs) (vr_Purpose req) t = Some (Some c)"
    "ch_ConsumedAt c = None" "ch_InvalidatedAt c = None" "clock e < ch_ExpiresAt c"
    "map_of (v_codeKeys s) (ch_CodeKeyID c) = Some key"
    "Consume (later (length cs) (repo_fails e)) (ch_TargetLookupHMAC c) (vr_Purpose req)
       (codeHMAC cr key (vr_Purpose req) (ch_TargetLookupHMAC c) (vr_Code req)) (clock e) t = (None, t')"
    "Issue cr tbl jenc (v_receipts s) (random_read e) (release_clock e) c n
       = Inr (vres_Receipt res, vres_ExpiresAt res)"
    by (rule verify_code_Inr [OF assms(2)])
  have c: "c \<in> set t \<and> ch_TargetLookupHMAC c \<in> set (lookupHMACs cs) \<and> ch_Purpose c = vr_Purpose req"
    by (rule Latest_in [OF v(2)])
  have "challenge_ok c" using assms(1) c by (simp add: challenges_ok_def)
  then have ok: "ch_FailedAttempts c < 5" "clock e < ch_CreatedAt c + challengeLifetime"
    using v(4,5) by (auto simp: challenge_ok_def)
  have newer: "\<forall>x\<in>set t. ch_TargetLookupHMAC x \<in> set (lookupHMACs cs) \<and> ch_Purpose x = vr_Purpose req
      \<longrightarrow> ch_CreatedAt x \<le> ch_CreatedAt c"
    using Latest_max [OF v(2)] by blast
  note first = Latest_newest_open [OF assms(1) v(2-5)]
  have "ch_CodeHMAC c = codeHMAC cr key (vr_Purpose req) (ch_TargetLookupHMAC c) (vr_Code req)
    \<and> t' = update_where (\<lambda>x. ch_ID x = ch_ID c) (\<lambda>x. x\<lparr>ch_ConsumedAt := Some (clock e)\<rparr>) t"
    using v(7) by (cases rule: Consume_cases) (use first in auto)
  with v c ok newer show ?thesis by blast
qed

section \<open>Examples\<close>

definition sample_service :: Service where
  "sample_service = \<lparr>v_receipts = sample_receipt_codec, v_indexer = sample_identity_codec,
     v_activeCodeKeyID = ''c1'', v_codeKeys = [(''c1'', replicate 32 (CHR ''c''))],
     v_requestHMACKey = replicate 32 (CHR ''r''), v_policies = DefaultScopePolicies\<rparr>"
definition sample_env :: environment where
  "sample_env = \<lparr>clock = 1000 * second, redis_clock = 1000 * second, release_clock = 1001 * second,
     random_read = sample_read, random_code = Some 4711, random_uuid = Some 99,
     sender = (\<lambda>_ _ _. Delivered), captcha = (\<lambda>_ _. Some True),
     repo_fails = no_fault, lease_fails = no_fault, limit_fails = no_fault\<rparr>"
definition sample_send :: SendRequest where
  "sample_send = \<lparr>sr_Kind = IdentityPhone, sr_Destination = ''+8613800138000'', sr_Purpose = PurposePasswordReset,
     sr_IdempotencyKey = ''request-1'', sr_IPAddress = ''10.0.0.1'', sr_DeviceID = ''device-1'',
     sr_CaptchaToken = []\<rparr>"
definition sample_world :: world where
  "sample_world = \<lparr>challenges = [], limits = (\<lambda>_. None), leases = (\<lambda>_. None), sent = []\<rparr>"

lemma visible_sample_send: "visible ''10.0.0.1''" "visible ''device-1''"
  by (simp_all add: visible_def)


lemma sample_send_fields:
  "sr_Kind sample_send = IdentityPhone" "sr_Destination sample_send = ''+8613800138000''"
  "sr_Purpose sample_send = PurposePasswordReset" "v_indexer sample_service = sample_identity_codec"
  "v_receipts sample_service = sample_receipt_codec" "challenges sample_world = []"
  "sent sample_world = []" "limits sample_world = Map.empty" "leases sample_world = Map.empty"
  "repo_fails sample_env = no_fault" "lease_fails sample_env = no_fault"
  "limit_fails sample_env = no_fault" "clock sample_env = 1000 * second"
  "redis_clock sample_env = 1000 * second" "release_clock sample_env = 1001 * second"
  "random_read sample_env = sample_read" "random_code sample_env = Some 4711"
  "random_uuid sample_env = Some 99" "sender sample_env n otp p = Delivered"
  "map_of (v_codeKeys sample_service) (v_activeCodeKeyID sample_service) = Some (replicate 32 (CHR ''c''))"
  by (simp_all add: sample_send_def sample_service_def sample_world_def sample_env_def)

definition sample_candidates :: "LookupIndex list" where
  "sample_candidates = LookupCandidates sample_crypto sample_identity_codec IdentityPhone ''+8613800138000''"

lemma sample_candidates_ok: "sample_candidates \<noteq> []" "length (li_HMAC (hd sample_candidates)) = 32"
  by (simp_all add: sample_candidates_def LookupCandidates_def validIdentityKind_def sample_identity_codec_def
      sample_identity_simps lookup_def sample_crypto_correct Let_def)

lemma sample_target:
  "prepareTarget sample_crypto sample_tbl sample_service IdentityPhone ''+8613800138000'' PurposePasswordReset
     = Inr (''+8613800138000'', sample_candidates)"
  using sample_candidates_ok(1)
  by (simp add: prepareTarget_def validPurpose_def sample_phone_normal sample_send_fields
      sample_candidates_def Let_def)

lemma sample_metadata: "validSendMetadata sample_send"
  using visible_sample_send [THEN TrimSpace_visible] by (simp add: validSendMetadata_def sample_send_def)

lemma sample_admit:
  "\<exists>w1. admit sample_crypto sample_service sample_env sample_send sample_candidates sample_world = (None, w1)"
proof -
  have quiet: "\<not> phone_cooldown sample_send"
    by (simp add: phone_cooldown_def sample_send_fields PurposePasswordReset_def PurposeRegistration_def PurposeLogin_def)
  have none: "Latest_loop no_fault hs p [] None = Some None" for hs p
    by (induction hs) (simp_all add: latestForTarget_def later_of_def)
  have "low 0 (1000 * second) Map.empty" by (simp add: low_def live_def)
  then have "\<exists>r. allowRequest sample_crypto sample_service no_fault (1000 * second) sample_send
      (li_HMAC (hd sample_candidates)) Map.empty = (Inr False, r)"
    unfolding allowRequest_def
    by (rule allow_scopes_low [OF sample_crypto_correct(2)])
      (auto simp: sample_service_def DefaultScopePolicies_def validPolicy_def)
  then show ?thesis
    using quiet none
    by (auto simp: admit_def latestForSendCooldown_def Latest_def sample_send_fields check_captcha_def
        allowUnifiedPhoneCooldown_def)
qed

theorem Send_delivers_witness:
  "\<exists>otp w'. Send sample_crypto sample_tbl sample_service sample_env sample_send sample_world = (None, w')
     \<and> sent w' = [(''+8613800138000'', otp, PurposePasswordReset)] \<and> validCode otp"
proof -
  obtain w1 where "admit sample_crypto sample_service sample_env sample_send sample_candidates sample_world
      = (None, w1)" using sample_admit by blast
  from Send_delivers [OF sample_crypto_correct(2), of sample_tbl sample_service sample_send
      "''+8613800138000''" sample_candidates sample_env sample_world "replicate 32 (CHR ''n'')" w1 4711 99]
    this sample_target sample_metadata sample_candidates_ok
  show ?thesis
    by (auto simp: sample_send_fields sample_read_def delivery_holder_def value_at_def live_def
        deliveryLeaseTTL_def)
qed

lemma sample_sent:
  "\<exists>otp w'. Send sample_crypto sample_tbl sample_service sample_env sample_send sample_world = (None, w')
     \<and> sent w' = [(''+8613800138000'', otp, PurposePasswordReset)] \<and> validCode otp
     \<and> challenges w' = [new_challenge sample_crypto sample_service sample_send (hd sample_candidates)
         (idempotencyHash sample_crypto sample_service sample_send ''+8613800138000'') otp 99 (1000 * second)]"
proof -
  obtain w1 where "admit sample_crypto sample_service sample_env sample_send sample_candidates sample_world
      = (None, w1)" using sample_admit by blast
  from Send_served [OF sample_crypto_correct(2), of sample_tbl sample_service sample_send
      "''+8613800138000''" sample_candidates sample_env sample_world "replicate 32 (CHR ''n'')" w1 4711 99]
    this sample_target sample_metadata sample_candidates_ok
  show ?thesis
    by (auto simp: sample_send_fields sample_read_def delivery_holder_def value_at_def live_def
        deliveryLeaseTTL_def)
qed

lemma sample_world_ok: "challenges_ok (challenges sample_world)"
  by (simp add: sample_send_fields challenges_ok_def)


theorem Consume_budgets_witness:
  "let a = (no_fault, replicate 32 (CHR ''t''), PurposeLogin, ''wrong'', 0);
       rs = fst (run_all attempt (replicate 7 a) [sample_challenge])
   in length (filter (\<lambda>(a, r). r = Some ErrCodeMismatch) (zip (replicate 7 a) rs)) \<le> 5"
proof -
  let ?a = "(no_fault, replicate 32 (CHR ''t''), PurposeLogin, ''wrong'', 0) :: attempt"
  obtain rs t' where run: "run_all attempt (replicate 7 ?a) [sample_challenge] = (rs, t')" by fastforce
  have "challenges_ok [sample_challenge]" "guesses_left [sample_challenge] = 5"
    by (simp_all add: challenges_ok_def challenge_ok_def sample_challenge_def guesses_left_def
        resendDelay_def challengeLifetime_def)
  with Consume_budgets [OF _ run] run show ?thesis by (simp add: Let_def)
qed

theorem Send_one_message_witness:
  "\<exists>w'. Send sample_crypto sample_tbl sample_service sample_env sample_send sample_world = (None, w')
     \<and> (\<exists>otp. sent w' = [(''+8613800138000'', otp, PurposePasswordReset)] \<and> validCode otp)"
proof -
  obtain w' otp where w: "Send sample_crypto sample_tbl sample_service sample_env sample_send sample_world
      = (None, w')" "sent w' = [(''+8613800138000'', otp, PurposePasswordReset)]"
    using sample_sent by blast
  from Send_one_message [OF sample_world_ok _ w(1)] w(2) sample_target show ?thesis
    by (auto simp: sample_send_fields w(1))
qed

theorem Send_idempotent_witness:
  "\<exists>w'. Send sample_crypto sample_tbl sample_service sample_env sample_send sample_world = (None, w')
     \<and> length (sent w') = 1
     \<and> Send sample_crypto sample_tbl sample_service (sample_env\<lparr>clock := 1001 * second\<rparr>) sample_send w'
         = (None, w')"
proof -
  obtain w' otp where w: "Send sample_crypto sample_tbl sample_service sample_env sample_send sample_world
      = (None, w')" "sent w' = [(''+8613800138000'', otp, PurposePasswordReset)]"
    using sample_sent by blast
  from Send_idempotent [OF w(1) order_refl refl refl refl refl sample_metadata,
      of "sample_env\<lparr>clock := 1001 * second\<rparr>"] w
  show ?thesis by (auto simp: sample_send_fields)
qed

definition sample_verify :: "bytes \<Rightarrow> VerifyRequest" where
  "sample_verify otp = \<lparr>vr_Kind = IdentityPhone, vr_Destination = ''+8613800138000'',
     vr_Purpose = PurposePasswordReset, vr_Code = otp\<rparr>"

definition sample_later :: environment where
  "sample_later = sample_env\<lparr>clock := 1200 * second\<rparr>"

definition any_jenc :: "receiptPayload \<Rightarrow> bytes option" where
  "any_jenc p = Some ''{}''"

lemma sample_receipt:
  assumes "ch_ID c = 99" "ch_Purpose c = PurposePasswordReset" "ch_IdentityKind c = IdentityPhone"
  shows "\<exists>receipt expiresAt. Issue sample_crypto sample_tbl any_jenc sample_receipt_codec sample_read now c
    ''+8613800138000'' = Inr (receipt, expiresAt)"
  using assms sample_seal
  by (simp add: Issue_def validPurpose_def sample_phone_normal sample_challenge_fields any_jenc_def Let_def)

text \<open>The sample send and what the sample check of its code needs.\<close>

lemma sample_exchange:
  "\<exists>otp w' receipt expiresAt.
     Send sample_crypto sample_tbl sample_service sample_env sample_send sample_world = (None, w')
     \<and> sent w' = sent sample_world @ [(''+8613800138000'', otp, sr_Purpose sample_send)]
     \<and> Issue sample_crypto sample_tbl any_jenc (v_receipts sample_service) (random_read sample_later)
         (release_clock sample_later) (last (challenges w')) ''+8613800138000'' = Inr (receipt, expiresAt)"
proof -
  obtain otp w' where w: "Send sample_crypto sample_tbl sample_service sample_env sample_send sample_world
      = (None, w')" "sent w' = [(''+8613800138000'', otp, PurposePasswordReset)]"
    "challenges w' = [new_challenge sample_crypto sample_service sample_send (hd sample_candidates)
         (idempotencyHash sample_crypto sample_service sample_send ''+8613800138000'') otp 99 (1000 * second)]"
    using sample_sent by blast
  have "\<exists>receipt expiresAt. Issue sample_crypto sample_tbl any_jenc sample_receipt_codec sample_read
      (1001 * second) (last (challenges w')) ''+8613800138000'' = Inr (receipt, expiresAt)"
    by (rule sample_receipt) (simp_all add: w(3) new_challenge_def sample_send_fields)
  with w(1,2) show ?thesis by (simp add: sample_send_fields sample_later_def)
qed

lemma sample_later_fields:
  "clock sample_later < clock sample_env + challengeLifetime" "repo_fails sample_later = no_fault"
  "vr_Kind (sample_verify otp) = sr_Kind sample_send"
  "vr_Destination (sample_verify otp) = sr_Destination sample_send"
  "vr_Purpose (sample_verify otp) = sr_Purpose sample_send" "vr_Code (sample_verify otp) = otp"
  by (simp_all add: sample_later_def sample_verify_def sample_send_fields challengeLifetime_def)

theorem verify_after_Send_witness:
  "\<exists>otp w' res t'. Send sample_crypto sample_tbl sample_service sample_env sample_send sample_world = (None, w')
     \<and> verify_code sample_crypto sample_tbl any_jenc sample_service sample_later (sample_verify otp)
         (challenges w') = (Inr res, t')"
proof -
  obtain otp w' receipt expiresAt where w:
    "Send sample_crypto sample_tbl sample_service sample_env sample_send sample_world = (None, w')"
    "sent w' = sent sample_world @ [(''+8613800138000'', otp, sr_Purpose sample_send)]"
    "Issue sample_crypto sample_tbl any_jenc (v_receipts sample_service) (random_read sample_later)
       (release_clock sample_later) (last (challenges w')) ''+8613800138000'' = Inr (receipt, expiresAt)"
    using sample_exchange by blast
  have "\<exists>t'. verify_code sample_crypto sample_tbl any_jenc sample_service sample_later (sample_verify otp)
      (challenges w') = (Inr \<lparr>vres_Receipt = receipt, vres_ExpiresAt = expiresAt\<rparr>, t')"
    by (rule verify_after_Send [OF sample_crypto_correct(2) sample_world_ok w(1,2) sample_send_fields(17)
          _ sample_send_fields(20) sample_later_fields w(3)]) simp
  with w(1) show ?thesis by blast
qed

theorem verify_code_sound_witness:
  "\<exists>otp t res t' c. verify_code sample_crypto sample_tbl any_jenc sample_service sample_later
       (sample_verify otp) t = (Inr res, t') \<and> c \<in> set t \<and> ch_ConsumedAt c = None \<and> ch_FailedAttempts c < 5"
proof -
  obtain otp w' receipt expiresAt where w:
    "Send sample_crypto sample_tbl sample_service sample_env sample_send sample_world = (None, w')"
    "sent w' = sent sample_world @ [(''+8613800138000'', otp, sr_Purpose sample_send)]"
    "Issue sample_crypto sample_tbl any_jenc (v_receipts sample_service) (random_read sample_later)
       (release_clock sample_later) (last (challenges w')) ''+8613800138000'' = Inr (receipt, expiresAt)"
    using sample_exchange by blast
  obtain res t' where v: "verify_code sample_crypto sample_tbl any_jenc sample_service sample_later
      (sample_verify otp) (challenges w') = (Inr res, t')"
    using verify_redeems [OF sample_crypto_correct(2) sample_world_ok w(1,2) sample_send_fields(17)
          _ sample_send_fields(20) sample_later_fields w(3)] by auto
  have "challenges_ok (challenges w')" by (rule Send_effect(1) [OF sample_world_ok w(1)])
  from verify_code_sound [OF this v] v show ?thesis by blast
qed

end
