(* ===== verification/Workspaces.thy ===== *)
theory Workspaces
  imports AuditLog
begin

text \<open>
  \<open>internal/workspace\<close> without its service: the data of \<open>model.go\<close>, the invitation secrets of
  \<open>token.go\<close>, and the transactions of \<open>repository.go\<close> on the workspace tables. The argument \<open>f\<close> says
  which statement of a transaction fails, the begin and the commit included.
\<close>

section \<open>Data\<close>

text \<open>\<open>WDatabase\<close> is an error of the driver that the repository passes on as it is.\<close>

datatype workspace_error =
    WInvalidRequest | WSessionRevoked | WForbidden | WNotFound | WInvitationUnavailable | WConflict | WArchived
  | WOwnerUnavailable | WMembershipConflict | WLimitReached | WMemberLimitReached | WInvitationLimitReached
  | WIdempotencyConflict | WRateLimited duration | WServiceUnavailable | WDatabase

type_synonym Role = bytes

definition RoleOwner :: Role where "RoleOwner = ''owner''"
definition RoleAdmin :: Role where "RoleAdmin = ''admin''"
definition RoleMember :: Role where "RoleMember = ''member''"

definition WorkspaceStatusActive :: bytes where "WorkspaceStatusActive = ''active''"
definition WorkspaceStatusArchived :: bytes where "WorkspaceStatusArchived = ''archived''"

definition MutationStateWritable :: bytes where "MutationStateWritable = ''writable''"
definition MutationStateArchived :: bytes where "MutationStateArchived = ''archived''"
definition MutationStateOwnerUnavailable :: bytes where "MutationStateOwnerUnavailable = ''owner_unavailable''"

lemmas workspace_constants =
  RoleOwner_def RoleAdmin_def RoleMember_def WorkspaceStatusActive_def WorkspaceStatusArchived_def
  MutationStateWritable_def MutationStateArchived_def MutationStateOwnerUnavailable_def

record Actor =
  act_UserID :: uuid
  act_DeviceID :: uuid

definition valid_actor :: "Actor \<Rightarrow> bool" where
  "valid_actor a \<longleftrightarrow> act_UserID a \<noteq> Nil_uuid \<and> act_DeviceID a \<noteq> Nil_uuid"

record Workspace =
  wk_ID :: uuid
  wk_DisplayName :: bytes
  wk_Status :: bytes
  wk_Revision :: int
  wk_MutationState :: bytes
  wk_ActorRole :: Role
  wk_MemberCount :: int
  wk_CreatedAt :: instant
  wk_UpdatedAt :: instant
  wk_ArchivedAt :: "instant option"

definition NormalizeDisplayName :: "bytes \<Rightarrow> bytes option" where
  "NormalizeDisplayName v =
     (if \<not> ValidString v then None
      else if list_ex IsControl (runes v) then None
      else let normalized = TrimSpace v; count = RuneCountInString normalized in
        if count < 1 \<or> 80 < count then None else Some normalized)"

definition ParseRole :: "bytes \<Rightarrow> Role option" where
  "ParseRole v = (if v = RoleOwner \<or> v = RoleAdmin \<or> v = RoleMember then Some v else None)"

definition ParseWorkspaceStatus :: "bytes \<Rightarrow> bytes option" where
  "ParseWorkspaceStatus v = (if v = WorkspaceStatusActive \<or> v = WorkspaceStatusArchived then Some v else None)"

definition ParseMutationState :: "bytes \<Rightarrow> bytes option" where
  "ParseMutationState v =
     (if v = MutationStateWritable \<or> v = MutationStateArchived \<or> v = MutationStateOwnerUnavailable then Some v else None)"

definition NormalizeWorkspace :: "Workspace \<Rightarrow> Workspace option" where
  "NormalizeWorkspace w =
     (if wk_ID w = Nil_uuid then None
      else case NormalizeDisplayName (wk_DisplayName w) of
        None \<Rightarrow> None
      | Some displayName \<Rightarrow>
          if ParseWorkspaceStatus (wk_Status w) = None \<or> wk_Revision w \<le> 0
             \<or> ParseMutationState (wk_MutationState w) = None \<or> ParseRole (wk_ActorRole w) = None
             \<or> wk_MemberCount w \<le> 0 \<or> wk_CreatedAt w = zero_time \<or> wk_UpdatedAt w = zero_time
             \<or> wk_UpdatedAt w < wk_CreatedAt w
          then None
          else if wk_Status w = WorkspaceStatusActive
             \<and> (wk_ArchivedAt w \<noteq> None
                \<or> (wk_MutationState w \<noteq> MutationStateWritable \<and> wk_MutationState w \<noteq> MutationStateOwnerUnavailable))
          then None
          else if wk_Status w = WorkspaceStatusArchived
             \<and> (wk_ArchivedAt w = None \<or> wk_MutationState w \<noteq> MutationStateArchived)
          then None
          else Some (w\<lparr>wk_DisplayName := displayName\<rparr>))"

section \<open>Invitation secrets\<close>

record InvitationSecret =
  is_RawToken :: bytes
  is_Digest :: bytes

definition invitationEntropyBytes :: nat where "invitationEntropyBytes = 32"

definition NewInvitationSecret :: "crypto \<Rightarrow> (nat \<Rightarrow> bytes option) \<Rightarrow> InvitationSecret option" where
  "NewInvitationSecret cr read =
     (case read invitationEntropyBytes of
        None \<Rightarrow> None
      | Some v \<Rightarrow> Some \<lparr>is_RawToken = encode_url v, is_Digest = sha256 cr (encode_url v)\<rparr>)"

definition InvitationDigest :: "crypto \<Rightarrow> bytes \<Rightarrow> bytes option" where
  "InvitationDigest cr rawToken =
     (case DecodeCanonicalBase64URL rawToken of
        None \<Rightarrow> None
      | Some decoded \<Rightarrow> if length decoded \<noteq> invitationEntropyBytes then None else Some (sha256 cr rawToken))"

section \<open>Commands\<close>

definition operationWorkspaceCreate :: bytes where "operationWorkspaceCreate = ''workspace_create''"
definition operationInvitationCreate :: bytes where "operationInvitationCreate = ''workspace_invitation_create''"
definition operationInvitationAccept :: bytes where "operationInvitationAccept = ''workspace_invitation_accept''"

lemmas operation_names = operationWorkspaceCreate_def operationInvitationCreate_def operationInvitationAccept_def

datatype IdempotencyReplay = IdempotencyFresh | IdempotencyReplayed

record IdempotencyEvidence =
  ie_KeyDigest :: bytes
  ie_RequestDigest :: bytes
  ie_ExpiresAt :: instant

record AuditEvidence =
  aud_EventID :: uuid
  aud_RequestID :: bytes

record CreateCommand =
  cc_WorkspaceID :: uuid
  cc_DisplayName :: bytes
  cc_ActiveOwnedLimit :: int
  cc_Idempotency :: IdempotencyEvidence
  cc_Audit :: AuditEvidence
  cc_CreatedAt :: instant

record RenameCommand =
  rn_WorkspaceID :: uuid
  rn_DisplayName :: bytes
  rn_ExpectedRevision :: int
  rn_Audit :: AuditEvidence
  rn_UpdatedAt :: instant

record RevisionCommand =
  rv_WorkspaceID :: uuid
  rv_ExpectedRevision :: int
  rv_ActiveOwnedLimit :: int
  rv_Audit :: AuditEvidence
  rv_ChangedAt :: instant

record Member =
  mb_UserID :: uuid
  mb_Nickname :: bytes
  mb_Role :: Role
  mb_Revision :: int
  mb_JoinedAt :: instant

record ChangeRoleCommand =
  cm_WorkspaceID :: uuid
  cm_UserID :: uuid
  cm_Role :: Role
  cm_ExpectedRevision :: int
  cm_Audit :: AuditEvidence
  cm_ChangedAt :: instant

record RemoveMemberCommand =
  rm_WorkspaceID :: uuid
  rm_UserID :: uuid
  rm_ExpectedRevision :: int
  rm_Audit :: AuditEvidence
  rm_RemovedAt :: instant

definition InvitationStatusPending :: bytes where "InvitationStatusPending = ''pending''"
definition InvitationStatusAccepted :: bytes where "InvitationStatusAccepted = ''accepted''"
definition InvitationStatusRevoked :: bytes where "InvitationStatusRevoked = ''revoked''"
definition InvitationStatusExpired :: bytes where "InvitationStatusExpired = ''expired''"

lemmas invitation_statuses =
  InvitationStatusPending_def InvitationStatusAccepted_def InvitationStatusRevoked_def InvitationStatusExpired_def

record Invitation =
  iv_ID :: uuid
  iv_Status :: bytes
  iv_CreatedByUserID :: "uuid option"
  iv_AcceptedByUserID :: "uuid option"
  iv_CreatedAt :: instant
  iv_ExpiresAt :: instant
  iv_AcceptedAt :: "instant option"
  iv_RevokedAt :: "instant option"

record InvitationCreation =
  ivc_Invitation :: Invitation
  ivc_Secret :: "InvitationSecret option"

record Acceptance =
  ap_Workspace :: Workspace
  ap_Member :: Member

record CreateInvitationCommand =
  ci_InvitationID :: uuid
  ci_WorkspaceID :: uuid
  ci_Secret :: InvitationSecret
  ci_PendingInviteLimit :: int
  ci_Idempotency :: IdempotencyEvidence
  ci_Audit :: AuditEvidence
  ci_CreatedAt :: instant

record RevokeInvitationCommand =
  ri_WorkspaceID :: uuid
  ri_InvitationID :: uuid
  ri_Audit :: AuditEvidence
  ri_RevokedAt :: instant

record AcceptInvitationCommand =
  ai_TokenDigest :: bytes
  ai_MemberLimit :: int
  ai_Idempotency :: IdempotencyEvidence
  ai_Audit :: AuditEvidence
  ai_AcceptedAt :: instant

section \<open>Tables\<close>

text \<open>Insertions with the constraints of the schema. The triggers that compare the owner membership
  with the owner column at the commit are not part of the model: \<open>workspace_invariant\<close> shows that
  they have nothing to reject.\<close>

definition insert_workspace :: "workspace_row \<Rightarrow> db \<Rightarrow> db option" where
  "insert_workspace r d =
     (if exists_row (\<lambda>w. ws_id w = ws_id r) (workspaces d) \<or> \<not> exists_row (\<lambda>u. u_id u = ws_owner_user_id r) (users d)
      then None else Some (d\<lparr>workspaces := workspaces d @ [r]\<rparr>))"

definition insert_workspace_membership :: "workspace_membership_row \<Rightarrow> db \<Rightarrow> db option" where
  "insert_workspace_membership r d =
     (if exists_row (\<lambda>m. wm_workspace_id m = wm_workspace_id r \<and> wm_user_id m = wm_user_id r) (workspace_memberships d)
         \<or> (wm_role r = ''owner''
            \<and> exists_row (\<lambda>m. wm_workspace_id m = wm_workspace_id r \<and> wm_role m = ''owner'') (workspace_memberships d))
         \<or> \<not> exists_row (\<lambda>w. ws_id w = wm_workspace_id r) (workspaces d)
         \<or> \<not> exists_row (\<lambda>u. u_id u = wm_user_id r) (users d)
      then None else Some (d\<lparr>workspace_memberships := workspace_memberships d @ [r]\<rparr>))"

definition insert_workspace_invitation :: "workspace_invitation_row \<Rightarrow> db \<Rightarrow> db option" where
  "insert_workspace_invitation r d =
     (if length (wi_token_digest r) \<noteq> 32
         \<or> exists_row (\<lambda>i. wi_id i = wi_id r) (workspace_invitations d)
         \<or> exists_row (\<lambda>i. wi_token_digest i = wi_token_digest r) (workspace_invitations d)
         \<or> \<not> exists_row (\<lambda>w. ws_id w = wi_workspace_id r) (workspaces d)
         \<or> (case wi_created_by_user_id r of None \<Rightarrow> False | Some c \<Rightarrow> \<not> exists_row (\<lambda>u. u_id u = c) (users d))
      then None else Some (d\<lparr>workspace_invitations := workspace_invitations d @ [r]\<rparr>))"

definition insert_workspace_idempotency :: "workspace_idempotency_row \<Rightarrow> db \<Rightarrow> db option" where
  "insert_workspace_idempotency r d =
     (if length (wr_key_digest r) \<noteq> 32 \<or> length (wr_request_digest r) \<noteq> 32
         \<or> wr_expires_at r \<noteq> wr_created_at r + 24 * hour
         \<or> exists_row (\<lambda>x. wr_actor_user_id x = wr_actor_user_id r \<and> wr_operation x = wr_operation r
              \<and> wr_key_digest x = wr_key_digest r) (workspace_idempotency_records d)
         \<or> \<not> exists_row (\<lambda>u. u_id u = wr_actor_user_id r) (users d)
         \<or> \<not> exists_row (\<lambda>w. ws_id w = wr_workspace_id r) (workspaces d)
      then None else Some (d\<lparr>workspace_idempotency_records := workspace_idempotency_records d @ [r]\<rparr>))"

section \<open>Queries\<close>

definition requireActiveActor :: "bool \<Rightarrow> Actor \<Rightarrow> db \<Rightarrow> workspace_error + unit" where
  "requireActiveActor fails actor d =
     (if fails then Inl WServiceUnavailable
      else check (exists_row (\<lambda>u. u_id u = act_UserID actor \<and> u_status u = ''active'') (users d)
             \<and> exists_row (\<lambda>v. d_id v = act_DeviceID actor \<and> d_user_id v = act_UserID actor \<and> d_status v = ''active'')
                 (devices d)) WSessionRevoked)"

definition lockActiveActor :: "bool \<Rightarrow> Actor \<Rightarrow> db \<Rightarrow> workspace_error + unit" where
  "lockActiveActor fails actor d =
     (if fails then Inl WServiceUnavailable
      else case find (\<lambda>u. u_id u = act_UserID actor) (users d) of
          None \<Rightarrow> Inl WSessionRevoked
        | Some u \<Rightarrow>
            check (exists_row (\<lambda>v. d_id v = act_DeviceID actor \<and> d_user_id v = act_UserID actor \<and> d_status v = ''active'')
                     (devices d) \<and> u_status u = ''active'') WSessionRevoked)"

definition memberships_of :: "uuid \<Rightarrow> db \<Rightarrow> workspace_membership_row list" where
  "memberships_of w d = filter (\<lambda>m. wm_workspace_id m = w) (workspace_memberships d)"

text \<open>The sub-select of the fixed owner.\<close>

definition owner_matches :: "workspace_row \<Rightarrow> db \<Rightarrow> bool" where
  "owner_matches w d \<longleftrightarrow>
     length (filter (\<lambda>m. wm_workspace_id m = ws_id w \<and> wm_role m = ''owner'' \<and> wm_user_id m = ws_owner_user_id w)
       (workspace_memberships d)) = 1"

text \<open>\<open>scanWorkspace\<close> on the joined rows of the membership, the workspace and its owner.\<close>

definition scanWorkspace ::
  "db \<Rightarrow> workspace_membership_row \<Rightarrow> workspace_row \<Rightarrow> user_row \<Rightarrow> workspace_error + Workspace" where
  "scanWorkspace d m w owner =
     (if \<not> owner_matches w d then Inl WServiceUnavailable
      else present WServiceUnavailable (NormalizeWorkspace
        \<lparr>wk_ID = ws_id w, wk_DisplayName = ws_display_name w, wk_Status = ws_status w, wk_Revision = ws_revision w,
         wk_MutationState =
           (if ws_status w = WorkspaceStatusArchived then MutationStateArchived
            else if ws_status w = WorkspaceStatusActive
            then (if u_status owner = ''active'' then MutationStateWritable else MutationStateOwnerUnavailable) else []),
         wk_ActorRole = wm_role m, wk_MemberCount = int (length (memberships_of (ws_id w) d)),
         wk_CreatedAt = ws_created_at w, wk_UpdatedAt = ws_updated_at w, wk_ArchivedAt = ws_archived_at w\<rparr>))"

definition workspace_join :: "uuid \<Rightarrow> uuid \<Rightarrow> db \<Rightarrow> (workspace_membership_row \<times> workspace_row \<times> user_row) option" where
  "workspace_join userID workspaceID d =
     (case (find (\<lambda>m. wm_user_id m = userID \<and> wm_workspace_id m = workspaceID) (workspace_memberships d),
            find (\<lambda>w. ws_id w = workspaceID) (workspaces d)) of
        (Some m, Some w) \<Rightarrow>
          (case find (\<lambda>u. u_id u = ws_owner_user_id w) (users d) of None \<Rightarrow> None | Some owner \<Rightarrow> Some (m, w, owner))
      | _ \<Rightarrow> None)"

definition loadWorkspace :: "bool \<Rightarrow> Actor \<Rightarrow> uuid \<Rightarrow> db \<Rightarrow> workspace_error + Workspace" where
  "loadWorkspace fails actor workspaceID d =
     (if fails then Inl WDatabase
      else case workspace_join (act_UserID actor) workspaceID d of
          None \<Rightarrow> Inl WNotFound | Some (m, w, owner) \<Rightarrow> scanWorkspace d m w owner)"

definition nickname_of :: "user_row \<Rightarrow> bytes" where
  "nickname_of u = (case u_nickname u of None \<Rightarrow> [] | Some v \<Rightarrow> v)"

definition scanMember :: "workspace_membership_row \<Rightarrow> user_row \<Rightarrow> Member option" where
  "scanMember m u =
     (if ParseRole (wm_role m) = None \<or> wm_user_id m = Nil_uuid \<or> wm_revision m \<le> 0 \<or> wm_joined_at m = zero_time
      then None
      else Some \<lparr>mb_UserID = wm_user_id m, mb_Nickname = nickname_of u, mb_Role = wm_role m,
             mb_Revision = wm_revision m, mb_JoinedAt = wm_joined_at m\<rparr>)"

definition findMember :: "bool \<Rightarrow> uuid \<Rightarrow> uuid \<Rightarrow> db \<Rightarrow> workspace_error + Member option" where
  "findMember fails workspaceID userID d =
     (if fails then Inl WServiceUnavailable
      else case (find (\<lambda>m. wm_workspace_id m = workspaceID \<and> wm_user_id m = userID) (workspace_memberships d),
                 find (\<lambda>u. u_id u = userID) (users d)) of
          (Some m, Some u) \<Rightarrow> andthen (present WServiceUnavailable (scanMember m u)) (\<lambda>x. Inr (Some x))
        | _ \<Rightarrow> Inr None)"

definition loadMember :: "bool \<Rightarrow> uuid \<Rightarrow> uuid \<Rightarrow> db \<Rightarrow> workspace_error + Member" where
  "loadMember fails workspaceID userID d = andthen (findMember fails workspaceID userID d) (present WNotFound)"

definition scanInvitation :: "instant \<Rightarrow> workspace_invitation_row \<Rightarrow> Invitation option" where
  "scanInvitation now i =
     (if wi_id i = Nil_uuid \<or> wi_created_at i = zero_time \<or> wi_expires_at i = zero_time
         \<or> wi_expires_at i \<noteq> wi_created_at i + 7 * 24 * hour
      then None
      else if wi_status i \<notin> {InvitationStatusPending, InvitationStatusAccepted, InvitationStatusRevoked, InvitationStatusExpired}
      then None
      else if wi_created_by_user_id i = Some Nil_uuid \<or> wi_accepted_by_user_id i = Some Nil_uuid then None
      else Some \<lparr>iv_ID = wi_id i,
        iv_Status = (if wi_status i = InvitationStatusPending \<and> \<not> now < wi_expires_at i
                     then InvitationStatusExpired else wi_status i),
        iv_CreatedByUserID = wi_created_by_user_id i, iv_AcceptedByUserID = wi_accepted_by_user_id i,
        iv_CreatedAt = wi_created_at i, iv_ExpiresAt = wi_expires_at i, iv_AcceptedAt = wi_accepted_at i,
        iv_RevokedAt = wi_revoked_at i\<rparr>)"

definition loadInvitation :: "bool \<Rightarrow> uuid \<Rightarrow> uuid \<Rightarrow> instant \<Rightarrow> db \<Rightarrow> workspace_error + Invitation" where
  "loadInvitation fails workspaceID invitationID now d =
     (if fails then Inl WServiceUnavailable
      else case find (\<lambda>i. wi_workspace_id i = workspaceID \<and> wi_id i = invitationID) (workspace_invitations d) of
          None \<Rightarrow> Inl WInvitationUnavailable
        | Some i \<Rightarrow> present WServiceUnavailable (scanInvitation now i))"

definition idempotency_record :: "Actor \<Rightarrow> bytes \<Rightarrow> IdempotencyEvidence \<Rightarrow> db \<Rightarrow> workspace_idempotency_row option" where
  "idempotency_record actor operation evidence d =
     find (\<lambda>x. wr_actor_user_id x = act_UserID actor \<and> wr_operation x = operation
         \<and> wr_key_digest x = ie_KeyDigest evidence) (workspace_idempotency_records d)"

definition readWorkspaceIdempotency :: "bool \<Rightarrow> Actor \<Rightarrow> IdempotencyEvidence \<Rightarrow> db \<Rightarrow> workspace_error + uuid option" where
  "readWorkspaceIdempotency fails actor evidence d =
     (if fails then Inl WServiceUnavailable
      else case idempotency_record actor operationWorkspaceCreate evidence d of
          None \<Rightarrow> Inr None
        | Some x \<Rightarrow>
            if length (wr_request_digest x) \<noteq> 32 \<or> wr_request_digest x \<noteq> ie_RequestDigest evidence
            then Inl WIdempotencyConflict else Inr (Some (wr_resource_id x)))"

definition readOperationIdempotency ::
  "bool \<Rightarrow> Actor \<Rightarrow> bytes \<Rightarrow> IdempotencyEvidence \<Rightarrow> db \<Rightarrow> workspace_error + (uuid \<times> uuid) option" where
  "readOperationIdempotency fails actor operation evidence d =
     (if fails then Inl WServiceUnavailable
      else case idempotency_record actor operation evidence d of
          None \<Rightarrow> Inr None
        | Some x \<Rightarrow>
            if wr_workspace_id x = Nil_uuid \<or> wr_resource_id x = Nil_uuid \<or> length (wr_request_digest x) \<noteq> 32
               \<or> wr_request_digest x \<noteq> ie_RequestDigest evidence
            then (if length (wr_request_digest x) = 32 then Inl WIdempotencyConflict else Inl WServiceUnavailable)
            else Inr (Some (wr_workspace_id x, wr_resource_id x)))"

definition insertOperationIdempotency ::
  "bool \<Rightarrow> Actor \<Rightarrow> uuid \<Rightarrow> bytes \<Rightarrow> IdempotencyEvidence \<Rightarrow> bytes \<Rightarrow> uuid \<Rightarrow> instant \<Rightarrow> db \<Rightarrow> workspace_error + db" where
  "insertOperationIdempotency fails actor workspaceID operation evidence resourceType resourceID createdAt d =
     (if fails then Inl WServiceUnavailable
      else present WServiceUnavailable (insert_workspace_idempotency
        \<lparr>wr_actor_user_id = act_UserID actor, wr_workspace_id = workspaceID, wr_operation = operation,
         wr_key_digest = ie_KeyDigest evidence, wr_request_digest = ie_RequestDigest evidence,
         wr_resource_type = resourceType, wr_resource_id = resourceID, wr_created_at = createdAt,
         wr_expires_at = ie_ExpiresAt evidence\<rparr> d))"

text \<open>The advisory lock that serialises requests with one idempotency key.\<close>

definition workspaceIdempotencyLockID :: "crypto \<Rightarrow> Actor \<Rightarrow> bytes \<Rightarrow> bytes \<Rightarrow> 64 word" where
  "workspaceIdempotencyLockID cr actor operation keyDigest =
     lock_id (sha256 cr (''agentera.workspace-idempotency.v1'' @ [CHR 0x00] @ uuid_bytes (act_UserID actor)
       @ operation @ [CHR 0x00] @ keyDigest))"

section \<open>Audit\<close>

text \<open>What the package uses of other libraries: SHA-256, the case table of \<open>strings.ToLower\<close>, \<open>uuid.Parse\<close>,
  and the sort key by which the database orders the lower-case form of a text.\<close>

record workspace_libs =
  wl_crypto :: crypto
  wl_lower :: "nat \<Rightarrow> nat"
  wl_uuid_parse :: "bytes \<Rightarrow> uuid option"
  wl_collate :: "bytes \<Rightarrow> bytes"

definition workspace_event ::
  "Actor \<Rightarrow> AuditEvidence \<Rightarrow> bytes \<Rightarrow> uuid \<Rightarrow> instant \<Rightarrow> metadata \<Rightarrow> Event" where
  "workspace_event actor evidence eventType workspaceID at md = \<lparr>ev_ID = aud_EventID evidence, ev_EventType = eventType,
     ev_ActorUserID = Some (act_UserID actor), ev_DeviceID = Some (act_DeviceID actor), ev_OrganizationID = None,
     ev_ObjectType = ''workspace'', ev_ObjectID = Some workspaceID, ev_Outcome = OutcomeSuccess, ev_ReasonCode = [],
     ev_RequestID = aud_RequestID evidence, ev_IPHMAC = [], ev_Metadata = md, ev_OccurredAt = at\<rparr>"

text \<open>The identifier of the event is never nil and its time never zero, so that the recorder draws neither.\<close>

definition recordWorkspaceAudit ::
  "workspace_libs \<Rightarrow> bool \<Rightarrow> Actor \<Rightarrow> AuditEvidence \<Rightarrow> bytes \<Rightarrow> uuid \<Rightarrow> instant \<Rightarrow> metadata \<Rightarrow> db \<Rightarrow> workspace_error + db" where
  "recordWorkspaceAudit lb fails actor evidence eventType workspaceID at md d =
     (case Record_event (wl_lower lb) (wl_uuid_parse lb) fails None at
             (workspace_event actor evidence eventType workspaceID at md) d of
        (None, d') \<Rightarrow> Inr d' | (Some _, _) \<Rightarrow> Inl WServiceUnavailable)"

definition id_entry :: "bytes \<Rightarrow> uuid \<Rightarrow> bytes \<times> bytes" where
  "id_entry key i = (key, uuid_string i)"

section \<open>Validation of commands\<close>

definition validEvidence :: "AuditEvidence \<Rightarrow> bool" where
  "validEvidence a \<longleftrightarrow> aud_EventID a \<noteq> Nil_uuid \<and> aud_RequestID a \<noteq> []"

definition validCreateCommand :: "CreateCommand \<Rightarrow> bool" where
  "validCreateCommand c \<longleftrightarrow> cc_WorkspaceID c \<noteq> Nil_uuid \<and> 0 < cc_ActiveOwnedLimit c \<and> cc_CreatedAt c \<noteq> zero_time
     \<and> validEvidence (cc_Audit c) \<and> ie_ExpiresAt (cc_Idempotency c) \<noteq> zero_time
     \<and> ie_ExpiresAt (cc_Idempotency c) = cc_CreatedAt c + 24 * hour"

definition validRenameCommand :: "RenameCommand \<Rightarrow> bool" where
  "validRenameCommand c \<longleftrightarrow> rn_WorkspaceID c \<noteq> Nil_uuid \<and> 0 < rn_ExpectedRevision c \<and> rn_UpdatedAt c \<noteq> zero_time
     \<and> validEvidence (rn_Audit c)"

definition validRevisionCommand :: "Actor \<Rightarrow> RevisionCommand \<Rightarrow> bool" where
  "validRevisionCommand actor c \<longleftrightarrow> valid_actor actor \<and> rv_WorkspaceID c \<noteq> Nil_uuid \<and> 0 < rv_ExpectedRevision c
     \<and> 0 < rv_ActiveOwnedLimit c \<and> rv_ChangedAt c \<noteq> zero_time \<and> validEvidence (rv_Audit c)"

definition validChangeRoleCommand :: "Actor \<Rightarrow> ChangeRoleCommand \<Rightarrow> bool" where
  "validChangeRoleCommand actor c \<longleftrightarrow> valid_actor actor \<and> cm_WorkspaceID c \<noteq> Nil_uuid \<and> cm_UserID c \<noteq> Nil_uuid
     \<and> (cm_Role c = RoleAdmin \<or> cm_Role c = RoleMember) \<and> 0 < cm_ExpectedRevision c \<and> cm_ChangedAt c \<noteq> zero_time
     \<and> validEvidence (cm_Audit c)"

definition validRemoveMemberCommand :: "Actor \<Rightarrow> RemoveMemberCommand \<Rightarrow> bool" where
  "validRemoveMemberCommand actor c \<longleftrightarrow> valid_actor actor \<and> rm_WorkspaceID c \<noteq> Nil_uuid \<and> rm_UserID c \<noteq> Nil_uuid
     \<and> 0 < rm_ExpectedRevision c \<and> rm_RemovedAt c \<noteq> zero_time \<and> validEvidence (rm_Audit c)"

definition validCreateInvitationCommand :: "crypto \<Rightarrow> Actor \<Rightarrow> CreateInvitationCommand \<Rightarrow> bool" where
  "validCreateInvitationCommand cr actor c \<longleftrightarrow> valid_actor actor \<and> ci_InvitationID c \<noteq> Nil_uuid
     \<and> ci_WorkspaceID c \<noteq> Nil_uuid \<and> 0 < ci_PendingInviteLimit c \<and> ci_CreatedAt c \<noteq> zero_time
     \<and> validEvidence (ci_Audit c) \<and> ie_ExpiresAt (ci_Idempotency c) \<noteq> zero_time
     \<and> ie_ExpiresAt (ci_Idempotency c) = ci_CreatedAt c + 24 * hour
     \<and> InvitationDigest cr (is_RawToken (ci_Secret c)) = Some (is_Digest (ci_Secret c))"

definition validRevokeInvitationCommand :: "Actor \<Rightarrow> RevokeInvitationCommand \<Rightarrow> bool" where
  "validRevokeInvitationCommand actor c \<longleftrightarrow> valid_actor actor \<and> ri_WorkspaceID c \<noteq> Nil_uuid
     \<and> ri_InvitationID c \<noteq> Nil_uuid \<and> ri_RevokedAt c \<noteq> zero_time \<and> validEvidence (ri_Audit c)"

definition validAcceptInvitationCommand :: "Actor \<Rightarrow> AcceptInvitationCommand \<Rightarrow> bool" where
  "validAcceptInvitationCommand actor c \<longleftrightarrow> valid_actor actor \<and> 0 < ai_MemberLimit c \<and> ai_AcceptedAt c \<noteq> zero_time
     \<and> validEvidence (ai_Audit c) \<and> ie_ExpiresAt (ai_Idempotency c) \<noteq> zero_time
     \<and> ie_ExpiresAt (ai_Idempotency c) = ai_AcceptedAt c + 24 * hour"

section \<open>Workspaces\<close>

definition active_owned :: "uuid \<Rightarrow> db \<Rightarrow> nat" where
  "active_owned u d = length (filter (\<lambda>w. ws_owner_user_id w = u \<and> ws_status w = ''active'') (workspaces d))"

text \<open>The three rows of a new workspace.\<close>

definition new_workspace_rows :: "schedule \<Rightarrow> Actor \<Rightarrow> CreateCommand \<Rightarrow> bytes \<Rightarrow> db \<Rightarrow> workspace_error + db" where
  "new_workspace_rows f actor c displayName d =
     andthen (check (\<not> f 0) WServiceUnavailable) (\<lambda>_.
     andthen (present WServiceUnavailable (insert_workspace \<lparr>ws_id = cc_WorkspaceID c, ws_owner_user_id = act_UserID actor,
        ws_display_name = displayName, ws_status = ''active'', ws_revision = 1, ws_created_at = cc_CreatedAt c,
        ws_updated_at = cc_CreatedAt c, ws_archived_at = None\<rparr> d)) (\<lambda>d1.
     andthen (check (\<not> f 1) WServiceUnavailable) (\<lambda>_.
     andthen (present WServiceUnavailable (insert_workspace_membership \<lparr>wm_workspace_id = cc_WorkspaceID c,
        wm_user_id = act_UserID actor, wm_role = ''owner'', wm_revision = 1, wm_joined_at = cc_CreatedAt c\<rparr> d1)) (\<lambda>d2.
     insertOperationIdempotency (f 2) actor (cc_WorkspaceID c) operationWorkspaceCreate (cc_Idempotency c)
        ''workspace'' (cc_WorkspaceID c) (cc_CreatedAt c) d2))))"

definition CreateWorkspace_record ::
  "workspace_libs \<Rightarrow> schedule \<Rightarrow> Actor \<Rightarrow> CreateCommand \<Rightarrow> db \<Rightarrow> (workspace_error + Workspace \<times> IdempotencyReplay) \<times> db" where
  "CreateWorkspace_record lb f actor c d = returning
     (andthen (check (valid_actor actor) WInvalidRequest) (\<lambda>_.
      andthen (present WInvalidRequest (NormalizeDisplayName (cc_DisplayName c))) (\<lambda>displayName.
      andthen (check (validCreateCommand c) WInvalidRequest) (\<lambda>_.
      andthen (check (\<not> f 0) WServiceUnavailable) (\<lambda>_.
      andthen (lockActiveActor (f 1) actor d) (\<lambda>_.
      andthen (check (\<not> f 2) WServiceUnavailable) (\<lambda>_.
      andthen (readWorkspaceIdempotency (f 3) actor (cc_Idempotency c) d) (\<lambda>found.
      case found of
        Some resourceID \<Rightarrow>
          andthen (loadWorkspace (f 4) actor resourceID d) (\<lambda>w.
          andthen (check (\<not> f 5) WServiceUnavailable) (\<lambda>_. Inr ((w, IdempotencyReplayed), d)))
      | None \<Rightarrow>
          andthen (check (\<not> f 4) WServiceUnavailable) (\<lambda>_.
          andthen (check (int (active_owned (act_UserID actor) d) < cc_ActiveOwnedLimit c) WLimitReached) (\<lambda>_.
          andthen (new_workspace_rows (later 5 f) actor c displayName d) (\<lambda>d1.
          andthen (recordWorkspaceAudit lb (f 8) actor (cc_Audit c) ''workspace_created'' (cc_WorkspaceID c) (cc_CreatedAt c)
             [id_entry ''workspace_id'' (cc_WorkspaceID c)] d1) (\<lambda>d2.
          andthen (loadWorkspace (f 9) actor (cc_WorkspaceID c) d2) (\<lambda>w.
          andthen (check (\<not> f 10) WServiceUnavailable) (\<lambda>_. Inr ((w, IdempotencyFresh), d2))))))))))))))) d"

text \<open>\<open>List\<close>: the rows in the order of the query; the first row that does not scan ends it.\<close>

fun scan_all :: "('r \<Rightarrow> 'e + 'v) \<Rightarrow> 'r list \<Rightarrow> 'e + 'v list" where
  "scan_all scan [] = Inr []"
| "scan_all scan (r # rs) = andthen (scan r) (\<lambda>v. andthen (scan_all scan rs) (\<lambda>vs. Inr (v # vs)))"

definition workspace_rows :: "uuid \<Rightarrow> db \<Rightarrow> (workspace_membership_row \<times> workspace_row \<times> user_row) list" where
  "workspace_rows userID d =
     filter (\<lambda>(m, w, owner). wm_user_id m = userID \<and> ws_id w = wm_workspace_id m \<and> u_id owner = ws_owner_user_id w)
       (List.product (workspace_memberships d) (List.product (workspaces d) (users d)))"

definition ListWorkspaces_record ::
  "workspace_libs \<Rightarrow> schedule \<Rightarrow> Actor \<Rightarrow> db \<Rightarrow> workspace_error + Workspace list" where
  "ListWorkspaces_record lb f actor d =
     andthen (check (valid_actor actor) WInvalidRequest) (\<lambda>_.
     andthen (requireActiveActor (f 0) actor d) (\<lambda>_.
     andthen (check (\<not> f 1) WServiceUnavailable) (\<lambda>_.
     andthen (check (\<not> f 2) WDatabase) (\<lambda>_.
     andthen (scan_all (\<lambda>(m, w, owner). scanWorkspace d m w owner)
        (sort_key (\<lambda>(m, w, owner). (wl_collate lb (ws_display_name w), ws_id w)) (workspace_rows (act_UserID actor) d))) (\<lambda>ws.
     andthen (check (\<not> f 3) WServiceUnavailable) (\<lambda>_. Inr ws))))))"

text \<open>\<open>UPDATE workspaces \<dots> WHERE id = $1 AND revision = $n\<close>, which must hit one row.\<close>

definition revise_workspace :: "bool \<Rightarrow> uuid \<Rightarrow> int \<Rightarrow> (workspace_row \<Rightarrow> workspace_row) \<Rightarrow> db \<Rightarrow> workspace_error + db" where
  "revise_workspace fails workspaceID expected change d =
     (let target = (\<lambda>w. ws_id w = workspaceID \<and> ws_revision w = expected) in
      if fails \<or> length (filter target (workspaces d)) \<noteq> 1 then Inl WServiceUnavailable
      else Inr (d\<lparr>workspaces := update_where target (\<lambda>w. (change w)\<lparr>ws_revision := ws_revision w + 1\<rparr>) (workspaces d)\<rparr>))"

definition RenameWorkspace_record ::
  "workspace_libs \<Rightarrow> schedule \<Rightarrow> Actor \<Rightarrow> RenameCommand \<Rightarrow> db \<Rightarrow> (workspace_error + Workspace) \<times> db" where
  "RenameWorkspace_record lb f actor c d = returning
     (andthen (check (valid_actor actor) WInvalidRequest) (\<lambda>_.
      andthen (present WInvalidRequest (NormalizeDisplayName (rn_DisplayName c))) (\<lambda>displayName.
      andthen (check (validRenameCommand c) WInvalidRequest) (\<lambda>_.
      andthen (check (\<not> f 0) WServiceUnavailable) (\<lambda>_.
      andthen (requireActiveActor (f 1) actor d) (\<lambda>_.
      andthen (loadWorkspace (f 2) actor (rn_WorkspaceID c) d) (\<lambda>w.
      andthen (check (wk_MutationState w \<noteq> MutationStateOwnerUnavailable) WOwnerUnavailable) (\<lambda>_.
      andthen (check (wk_Status w \<noteq> WorkspaceStatusArchived) WArchived) (\<lambda>_.
      andthen (check (wk_ActorRole w = RoleOwner \<or> wk_ActorRole w = RoleAdmin) WForbidden) (\<lambda>_.
      andthen (check (wk_Revision w = rn_ExpectedRevision c) WConflict) (\<lambda>_.
      andthen (check (\<not> rn_UpdatedAt c < wk_UpdatedAt w) WInvalidRequest) (\<lambda>_.
      andthen (revise_workspace (f 3) (rn_WorkspaceID c) (rn_ExpectedRevision c)
         (\<lambda>x. x\<lparr>ws_display_name := displayName, ws_updated_at := rn_UpdatedAt c\<rparr>) d) (\<lambda>d1.
      andthen (recordWorkspaceAudit lb (f 4) actor (rn_Audit c) ''workspace_renamed'' (rn_WorkspaceID c) (rn_UpdatedAt c)
         [id_entry ''workspace_id'' (rn_WorkspaceID c)] d1) (\<lambda>d2.
      andthen (loadWorkspace (f 5) actor (rn_WorkspaceID c) d2) (\<lambda>w'.
      andthen (check (\<not> f 6) WServiceUnavailable) (\<lambda>_. Inr (w', d2))))))))))))))))) d"

definition ArchiveWorkspace_record ::
  "workspace_libs \<Rightarrow> schedule \<Rightarrow> Actor \<Rightarrow> RevisionCommand \<Rightarrow> db \<Rightarrow> (workspace_error + Workspace) \<times> db" where
  "ArchiveWorkspace_record lb f actor c d = returning
     (andthen (check (validRevisionCommand actor c) WInvalidRequest) (\<lambda>_.
      andthen (check (\<not> f 0) WServiceUnavailable) (\<lambda>_.
      andthen (requireActiveActor (f 1) actor d) (\<lambda>_.
      andthen (loadWorkspace (f 2) actor (rv_WorkspaceID c) d) (\<lambda>w.
      andthen (check (wk_MutationState w \<noteq> MutationStateOwnerUnavailable) WOwnerUnavailable) (\<lambda>_.
      andthen (check (wk_Status w \<noteq> WorkspaceStatusArchived) WArchived) (\<lambda>_.
      andthen (check (wk_ActorRole w = RoleOwner) WForbidden) (\<lambda>_.
      andthen (check (wk_Revision w = rv_ExpectedRevision c) WConflict) (\<lambda>_.
      andthen (check (\<not> rv_ChangedAt c < wk_UpdatedAt w) WInvalidRequest) (\<lambda>_.
      andthen (revise_workspace (f 3) (rv_WorkspaceID c) (rv_ExpectedRevision c)
         (\<lambda>x. x\<lparr>ws_status := ''archived'', ws_updated_at := rv_ChangedAt c, ws_archived_at := Some (rv_ChangedAt c)\<rparr>) d) (\<lambda>d1.
      andthen (check (\<not> f 4) WServiceUnavailable) (\<lambda>_.
      andthen (recordWorkspaceAudit lb (f 5) actor (rv_Audit c) ''workspace_archived'' (rv_WorkspaceID c) (rv_ChangedAt c)
         [id_entry ''workspace_id'' (rv_WorkspaceID c)]
         (d1\<lparr>workspace_invitations := update_where (\<lambda>i. wi_workspace_id i = rv_WorkspaceID c \<and> wi_status i = ''pending'')
             (\<lambda>i. i\<lparr>wi_status := ''revoked'', wi_revoked_at := Some (rv_ChangedAt c)\<rparr>) (workspace_invitations d1)\<rparr>)) (\<lambda>d2.
      andthen (loadWorkspace (f 6) actor (rv_WorkspaceID c) d2) (\<lambda>w'.
      andthen (check (\<not> f 7) WServiceUnavailable) (\<lambda>_. Inr (w', d2)))))))))))))))) d"

definition RestoreWorkspace_record ::
  "workspace_libs \<Rightarrow> schedule \<Rightarrow> Actor \<Rightarrow> RevisionCommand \<Rightarrow> db \<Rightarrow> (workspace_error + Workspace) \<times> db" where
  "RestoreWorkspace_record lb f actor c d = returning
     (andthen (check (validRevisionCommand actor c) WInvalidRequest) (\<lambda>_.
      andthen (check (\<not> f 0) WServiceUnavailable) (\<lambda>_.
      andthen (requireActiveActor (f 1) actor d) (\<lambda>_.
      andthen (loadWorkspace (f 2) actor (rv_WorkspaceID c) d) (\<lambda>w.
      andthen (check (wk_MutationState w \<noteq> MutationStateOwnerUnavailable) WOwnerUnavailable) (\<lambda>_.
      andthen (check (wk_Status w = WorkspaceStatusArchived) WConflict) (\<lambda>_.
      andthen (check (wk_ActorRole w = RoleOwner) WForbidden) (\<lambda>_.
      andthen (check (wk_Revision w = rv_ExpectedRevision c) WConflict) (\<lambda>_.
      andthen (check (\<not> rv_ChangedAt c < wk_UpdatedAt w) WInvalidRequest) (\<lambda>_.
      andthen (check (\<not> f 3 \<and> \<not> f 4) WServiceUnavailable) (\<lambda>_.
      andthen (check (int (active_owned (act_UserID actor) d) < rv_ActiveOwnedLimit c) WLimitReached) (\<lambda>_.
      andthen (revise_workspace (f 5) (rv_WorkspaceID c) (rv_ExpectedRevision c)
         (\<lambda>x. x\<lparr>ws_status := ''active'', ws_updated_at := rv_ChangedAt c, ws_archived_at := None\<rparr>) d) (\<lambda>d1.
      andthen (recordWorkspaceAudit lb (f 6) actor (rv_Audit c) ''workspace_restored'' (rv_WorkspaceID c) (rv_ChangedAt c)
         [id_entry ''workspace_id'' (rv_WorkspaceID c)] d1) (\<lambda>d2.
      andthen (loadWorkspace (f 7) actor (rv_WorkspaceID c) d2) (\<lambda>w'.
      andthen (check (\<not> f 8) WServiceUnavailable) (\<lambda>_. Inr (w', d2))))))))))))))))) d"

section \<open>Members\<close>

definition role_rank :: "Role \<Rightarrow> nat" where
  "role_rank role = (if role = ''owner'' then 0 else if role = ''admin'' then 1 else 2)"

definition member_rows :: "uuid \<Rightarrow> db \<Rightarrow> (workspace_membership_row \<times> user_row) list" where
  "member_rows workspaceID d =
     filter (\<lambda>(m, u). wm_workspace_id m = workspaceID \<and> u_id u = wm_user_id m)
       (List.product (workspace_memberships d) (users d))"

definition ListMembers_record ::
  "workspace_libs \<Rightarrow> schedule \<Rightarrow> Actor \<Rightarrow> uuid \<Rightarrow> db \<Rightarrow> workspace_error + Member list" where
  "ListMembers_record lb f actor workspaceID d =
     andthen (check (valid_actor actor \<and> workspaceID \<noteq> Nil_uuid) WInvalidRequest) (\<lambda>_.
     andthen (requireActiveActor (f 0) actor d) (\<lambda>_.
     andthen (loadWorkspace (f 1) actor workspaceID d) (\<lambda>_.
     andthen (check (\<not> f 2) WServiceUnavailable) (\<lambda>_.
     andthen (scan_all (\<lambda>(m, u). present WServiceUnavailable (scanMember m u))
        (sort_key (\<lambda>(m, u). (role_rank (wm_role m), wl_collate lb (nickname_of u), wm_user_id m)) (member_rows workspaceID d))) (\<lambda>ms.
     andthen (check (\<not> f 3) WServiceUnavailable) (\<lambda>_. Inr ms))))))"

definition ChangeMemberRole_record ::
  "workspace_libs \<Rightarrow> schedule \<Rightarrow> Actor \<Rightarrow> ChangeRoleCommand \<Rightarrow> db \<Rightarrow> (workspace_error + Member) \<times> db" where
  "ChangeMemberRole_record lb f actor c d = returning
     (andthen (check (validChangeRoleCommand actor c) WInvalidRequest) (\<lambda>_.
      andthen (check (\<not> f 0) WServiceUnavailable) (\<lambda>_.
      andthen (requireActiveActor (f 1) actor d) (\<lambda>_.
      andthen (loadWorkspace (f 2) actor (cm_WorkspaceID c) d) (\<lambda>w.
      andthen (check (wk_MutationState w \<noteq> MutationStateOwnerUnavailable) WOwnerUnavailable) (\<lambda>_.
      andthen (check (wk_Status w \<noteq> WorkspaceStatusArchived) WArchived) (\<lambda>_.
      andthen (check (wk_ActorRole w = RoleOwner) WForbidden) (\<lambda>_.
      andthen (loadMember (f 3) (cm_WorkspaceID c) (cm_UserID c) d) (\<lambda>target.
      andthen (check (mb_Role target \<noteq> RoleOwner) WForbidden) (\<lambda>_.
      andthen (check (mb_Revision target = cm_ExpectedRevision c \<and> mb_Role target \<noteq> cm_Role c) WMembershipConflict) (\<lambda>_.
      let hit = (\<lambda>m. wm_workspace_id m = cm_WorkspaceID c \<and> wm_user_id m = cm_UserID c \<and> wm_revision m = cm_ExpectedRevision c) in
      andthen (check (\<not> f 4 \<and> length (filter hit (workspace_memberships d)) = 1) WServiceUnavailable) (\<lambda>_.
      andthen (recordWorkspaceAudit lb (f 5) actor (cm_Audit c) ''workspace_member_role_changed'' (cm_WorkspaceID c) (cm_ChangedAt c)
         [id_entry ''workspace_id'' (cm_WorkspaceID c), id_entry ''membership_user_id'' (cm_UserID c),
          (''role'', cm_Role c), (''previous_role'', mb_Role target)]
         (d\<lparr>workspace_memberships := update_where hit (\<lambda>m. m\<lparr>wm_role := cm_Role c, wm_revision := wm_revision m + 1\<rparr>)
             (workspace_memberships d)\<rparr>)) (\<lambda>d1.
      andthen (loadMember (f 6) (cm_WorkspaceID c) (cm_UserID c) d1) (\<lambda>member.
      andthen (check (\<not> f 7) WServiceUnavailable) (\<lambda>_. Inr (member, d1)))))))))))))))) d"

definition RemoveMember_record ::
  "workspace_libs \<Rightarrow> schedule \<Rightarrow> Actor \<Rightarrow> RemoveMemberCommand \<Rightarrow> db \<Rightarrow> (workspace_error + unit) \<times> db" where
  "RemoveMember_record lb f actor c d = returning
     (andthen (check (validRemoveMemberCommand actor c) WInvalidRequest) (\<lambda>_.
      andthen (check (\<not> f 0) WServiceUnavailable) (\<lambda>_.
      andthen (requireActiveActor (f 1) actor d) (\<lambda>_.
      andthen (loadWorkspace (f 2) actor (rm_WorkspaceID c) d) (\<lambda>w.
      andthen (check (wk_MutationState w \<noteq> MutationStateOwnerUnavailable) WOwnerUnavailable) (\<lambda>_.
      andthen (check (wk_Status w \<noteq> WorkspaceStatusArchived) WArchived) (\<lambda>_.
      andthen (check (wk_ActorRole w = RoleOwner \<or> wk_ActorRole w = RoleAdmin) WForbidden) (\<lambda>_.
      andthen (loadMember (f 3) (rm_WorkspaceID c) (rm_UserID c) d) (\<lambda>target.
      andthen (check (\<not> (mb_Role target = RoleOwner \<or> (wk_ActorRole w = RoleAdmin \<and> mb_Role target \<noteq> RoleMember))) WForbidden) (\<lambda>_.
      andthen (check (mb_Revision target = rm_ExpectedRevision c) WMembershipConflict) (\<lambda>_.
      let hit = (\<lambda>m. wm_workspace_id m = rm_WorkspaceID c \<and> wm_user_id m = rm_UserID c \<and> wm_revision m = rm_ExpectedRevision c) in
      andthen (check (\<not> f 4 \<and> length (filter hit (workspace_memberships d)) = 1) WServiceUnavailable) (\<lambda>_.
      andthen (recordWorkspaceAudit lb (f 5) actor (rm_Audit c) ''workspace_member_removed'' (rm_WorkspaceID c) (rm_RemovedAt c)
         [id_entry ''workspace_id'' (rm_WorkspaceID c), id_entry ''membership_user_id'' (rm_UserID c), (''role'', mb_Role target)]
         (d\<lparr>workspace_memberships := delete_where hit (workspace_memberships d)\<rparr>)) (\<lambda>d1.
      andthen (check (\<not> f 6) WServiceUnavailable) (\<lambda>_. Inr ((), d1))))))))))))))) d"

text \<open>The repository draws the identifier of the event and reads its own clock.\<close>

definition LeaveWorkspace_record ::
  "workspace_libs \<Rightarrow> schedule \<Rightarrow> uuid option \<Rightarrow> instant \<Rightarrow> Actor \<Rightarrow> uuid \<Rightarrow> db \<Rightarrow> (workspace_error + unit) \<times> db" where
  "LeaveWorkspace_record lb f draw now actor workspaceID d = returning
     (andthen (check (valid_actor actor \<and> workspaceID \<noteq> Nil_uuid) WInvalidRequest) (\<lambda>_.
      andthen (check (\<not> f 0) WServiceUnavailable) (\<lambda>_.
      andthen (requireActiveActor (f 1) actor d) (\<lambda>_.
      andthen (loadWorkspace (f 2) actor workspaceID d) (\<lambda>w.
      andthen (check (wk_MutationState w \<noteq> MutationStateOwnerUnavailable) WOwnerUnavailable) (\<lambda>_.
      andthen (check (wk_Status w \<noteq> WorkspaceStatusArchived) WArchived) (\<lambda>_.
      andthen (check (wk_ActorRole w \<noteq> RoleOwner) WForbidden) (\<lambda>_.
      let hit = (\<lambda>m. wm_workspace_id m = workspaceID \<and> wm_user_id m = act_UserID actor) in
      andthen (check (\<not> f 3 \<and> length (filter hit (workspace_memberships d)) = 1) WServiceUnavailable) (\<lambda>_.
      andthen (present WServiceUnavailable draw) (\<lambda>eventID.
      andthen (check (eventID \<noteq> Nil_uuid) WServiceUnavailable) (\<lambda>_.
      andthen (recordWorkspaceAudit lb (f 4) actor \<lparr>aud_EventID = eventID, aud_RequestID = []\<rparr> ''workspace_member_left'' workspaceID now
         [id_entry ''workspace_id'' workspaceID, id_entry ''membership_user_id'' (act_UserID actor), (''role'', wk_ActorRole w)]
         (d\<lparr>workspace_memberships := delete_where hit (workspace_memberships d)\<rparr>)) (\<lambda>d1.
      andthen (check (\<not> f 5) WServiceUnavailable) (\<lambda>_. Inr ((), d1)))))))))))))) d"

section \<open>Invitations\<close>

definition ListInvitations_record ::
  "schedule \<Rightarrow> instant \<Rightarrow> Actor \<Rightarrow> uuid \<Rightarrow> db \<Rightarrow> workspace_error + Invitation list" where
  "ListInvitations_record f now actor workspaceID d =
     andthen (check (valid_actor actor \<and> workspaceID \<noteq> Nil_uuid) WInvalidRequest) (\<lambda>_.
     andthen (requireActiveActor (f 0) actor d) (\<lambda>_.
     andthen (loadWorkspace (f 1) actor workspaceID d) (\<lambda>w.
     andthen (check (wk_ActorRole w = RoleOwner \<or> wk_ActorRole w = RoleAdmin) WForbidden) (\<lambda>_.
     andthen (check (\<not> f 2) WServiceUnavailable) (\<lambda>_.
     andthen (scan_all (\<lambda>i. present WServiceUnavailable (scanInvitation now i))
        (sort_key (\<lambda>i. (- wi_created_at i, wi_id i)) (filter (\<lambda>i. wi_workspace_id i = workspaceID) (workspace_invitations d)))) (\<lambda>is.
     andthen (check (\<not> f 3) WServiceUnavailable) (\<lambda>_. Inr is)))))))"

definition pending_invitations :: "uuid \<Rightarrow> db \<Rightarrow> nat" where
  "pending_invitations w d =
     length (filter (\<lambda>i. wi_workspace_id i = w \<and> wi_status i = ''pending'') (workspace_invitations d))"

definition expire_invitations :: "uuid \<Rightarrow> instant \<Rightarrow> db \<Rightarrow> db" where
  "expire_invitations w at d = d\<lparr>workspace_invitations :=
     update_where (\<lambda>i. wi_workspace_id i = w \<and> wi_status i = ''pending'' \<and> wi_expires_at i \<le> at)
       (\<lambda>i. i\<lparr>wi_status := ''expired''\<rparr>) (workspace_invitations d)\<rparr>"

definition CreateInvitation_record ::
  "workspace_libs \<Rightarrow> schedule \<Rightarrow> instant \<Rightarrow> Actor \<Rightarrow> CreateInvitationCommand \<Rightarrow> db
     \<Rightarrow> (workspace_error + InvitationCreation \<times> IdempotencyReplay) \<times> db" where
  "CreateInvitation_record lb f now actor c d = returning
     (andthen (check (validCreateInvitationCommand (wl_crypto lb) actor c) WInvalidRequest) (\<lambda>_.
      andthen (check (\<not> f 0) WServiceUnavailable) (\<lambda>_.
      andthen (requireActiveActor (f 1) actor d) (\<lambda>_.
      andthen (loadWorkspace (f 2) actor (ci_WorkspaceID c) d) (\<lambda>w.
      andthen (check (wk_ActorRole w = RoleOwner \<or> wk_ActorRole w = RoleAdmin) WForbidden) (\<lambda>_.
      andthen (check (\<not> f 3) WServiceUnavailable) (\<lambda>_.
      andthen (readOperationIdempotency (f 4) actor operationInvitationCreate (ci_Idempotency c) d) (\<lambda>found.
      case found of
        Some (storedWorkspaceID, resourceID) \<Rightarrow>
          andthen (check (storedWorkspaceID = ci_WorkspaceID c) WIdempotencyConflict) (\<lambda>_.
          andthen (loadInvitation (f 5) storedWorkspaceID resourceID now d) (\<lambda>i.
          andthen (check (\<not> f 6) WServiceUnavailable) (\<lambda>_.
          Inr ((\<lparr>ivc_Invitation = i, ivc_Secret = None\<rparr>, IdempotencyReplayed), d))))
      | None \<Rightarrow>
          andthen (check (wk_MutationState w \<noteq> MutationStateOwnerUnavailable) WOwnerUnavailable) (\<lambda>_.
          andthen (check (wk_Status w \<noteq> WorkspaceStatusArchived) WArchived) (\<lambda>_.
          andthen (check (\<not> f 5 \<and> \<not> f 6) WServiceUnavailable) (\<lambda>_.
          let d1 = expire_invitations (ci_WorkspaceID c) (ci_CreatedAt c) d in
          andthen (check (int (pending_invitations (ci_WorkspaceID c) d1) < ci_PendingInviteLimit c) WInvitationLimitReached) (\<lambda>_.
          andthen (check (\<not> f 7) WServiceUnavailable) (\<lambda>_.
          andthen (present WServiceUnavailable (insert_workspace_invitation \<lparr>wi_id = ci_InvitationID c,
             wi_workspace_id = ci_WorkspaceID c, wi_token_digest = is_Digest (ci_Secret c),
             wi_created_by_user_id = Some (act_UserID actor), wi_status = ''pending'', wi_accepted_by_user_id = None,
             wi_created_at = ci_CreatedAt c, wi_expires_at = ci_CreatedAt c + 7 * 24 * hour, wi_accepted_at = None,
             wi_revoked_at = None\<rparr> d1)) (\<lambda>d2.
          andthen (insertOperationIdempotency (f 8) actor (ci_WorkspaceID c) operationInvitationCreate (ci_Idempotency c)
             ''workspace_invitation'' (ci_InvitationID c) (ci_CreatedAt c) d2) (\<lambda>d3.
          andthen (recordWorkspaceAudit lb (f 9) actor (ci_Audit c) ''workspace_invitation_created'' (ci_WorkspaceID c) (ci_CreatedAt c)
             [id_entry ''workspace_id'' (ci_WorkspaceID c), id_entry ''invitation_id'' (ci_InvitationID c)] d3) (\<lambda>d4.
          andthen (loadInvitation (f 10) (ci_WorkspaceID c) (ci_InvitationID c) (ci_CreatedAt c) d4) (\<lambda>i.
          andthen (check (\<not> f 11) WServiceUnavailable) (\<lambda>_.
          Inr ((\<lparr>ivc_Invitation = i, ivc_Secret = Some (ci_Secret c)\<rparr>, IdempotencyFresh), d4))))))))))))))))))) d"

definition RevokeInvitation_record ::
  "workspace_libs \<Rightarrow> schedule \<Rightarrow> Actor \<Rightarrow> RevokeInvitationCommand \<Rightarrow> db \<Rightarrow> (workspace_error + unit) \<times> db" where
  "RevokeInvitation_record lb f actor c d = returning
     (andthen (check (validRevokeInvitationCommand actor c) WInvalidRequest) (\<lambda>_.
      andthen (check (\<not> f 0) WServiceUnavailable) (\<lambda>_.
      andthen (requireActiveActor (f 1) actor d) (\<lambda>_.
      andthen (loadWorkspace (f 2) actor (ri_WorkspaceID c) d) (\<lambda>w.
      andthen (check (wk_MutationState w \<noteq> MutationStateOwnerUnavailable) WOwnerUnavailable) (\<lambda>_.
      andthen (check (wk_Status w \<noteq> WorkspaceStatusArchived) WArchived) (\<lambda>_.
      andthen (check (wk_ActorRole w = RoleOwner \<or> wk_ActorRole w = RoleAdmin) WForbidden) (\<lambda>_.
      andthen (check (\<not> f 3) WServiceUnavailable) (\<lambda>_.
      andthen (check (case find (\<lambda>i. wi_id i = ri_InvitationID c \<and> wi_workspace_id i = ri_WorkspaceID c) (workspace_invitations d) of
           None \<Rightarrow> False | Some i \<Rightarrow> wi_status i = InvitationStatusPending) WInvitationUnavailable) (\<lambda>_.
      andthen (check (\<not> f 4) WServiceUnavailable) (\<lambda>_.
      andthen (recordWorkspaceAudit lb (f 5) actor (ri_Audit c) ''workspace_invitation_revoked'' (ri_WorkspaceID c) (ri_RevokedAt c)
         [id_entry ''workspace_id'' (ri_WorkspaceID c), id_entry ''invitation_id'' (ri_InvitationID c)]
         (d\<lparr>workspace_invitations := update_where (\<lambda>i. wi_id i = ri_InvitationID c)
             (\<lambda>i. i\<lparr>wi_status := ''revoked'', wi_revoked_at := Some (ri_RevokedAt c)\<rparr>) (workspace_invitations d)\<rparr>)) (\<lambda>d1.
      andthen (check (\<not> f 6) WServiceUnavailable) (\<lambda>_. Inr ((), d1)))))))))))))) d"

text \<open>The invitation of a token with its workspace and owner, if it can still be accepted.\<close>

definition open_invitation :: "bytes \<Rightarrow> instant \<Rightarrow> db \<Rightarrow> workspace_invitation_row option" where
  "open_invitation digest at d =
     (case find (\<lambda>i. wi_token_digest i = digest) (workspace_invitations d) of
        None \<Rightarrow> None
      | Some i \<Rightarrow>
          (case find (\<lambda>w. ws_id w = wi_workspace_id i) (workspaces d) of
             None \<Rightarrow> None
           | Some w \<Rightarrow>
               (case find (\<lambda>u. u_id u = ws_owner_user_id w) (users d) of
                  None \<Rightarrow> None
                | Some owner \<Rightarrow>
                    if wi_status i \<noteq> InvitationStatusPending \<or> \<not> at < wi_expires_at i
                       \<or> ws_status w \<noteq> WorkspaceStatusActive \<or> u_status owner \<noteq> ''active'' \<or> \<not> owner_matches w d
                    then None else Some i)))"

text \<open>The membership of who accepts: the one there is, or a new one within the limit.\<close>

definition join_workspace ::
  "schedule \<Rightarrow> uuid \<Rightarrow> uuid \<Rightarrow> int \<Rightarrow> instant \<Rightarrow> Member option \<Rightarrow> db \<Rightarrow> workspace_error + Member \<times> db" where
  "join_workspace f workspaceID userID limit at found d =
     (case found of
        Some member \<Rightarrow> Inr (member, d)
      | None \<Rightarrow>
          andthen (check (\<not> f 0) WServiceUnavailable) (\<lambda>_.
          andthen (check (int (length (memberships_of workspaceID d)) < limit) WMemberLimitReached) (\<lambda>_.
          andthen (check (\<not> f 1) WServiceUnavailable) (\<lambda>_.
          andthen (present WServiceUnavailable (insert_workspace_membership \<lparr>wm_workspace_id = workspaceID, wm_user_id = userID,
             wm_role = ''member'', wm_revision = 1, wm_joined_at = at\<rparr> d)) (\<lambda>d1.
          andthen (loadMember (f 2) workspaceID userID d1) (\<lambda>member. Inr (member, d1)))))))"

definition AcceptInvitation_record ::
  "workspace_libs \<Rightarrow> schedule \<Rightarrow> Actor \<Rightarrow> AcceptInvitationCommand \<Rightarrow> db \<Rightarrow> (workspace_error + Acceptance) \<times> db" where
  "AcceptInvitation_record lb f actor c d = returning
     (andthen (check (validAcceptInvitationCommand actor c) WInvalidRequest) (\<lambda>_.
      andthen (check (\<not> f 0) WServiceUnavailable) (\<lambda>_.
      andthen (requireActiveActor (f 1) actor d) (\<lambda>_.
      andthen (check (\<not> f 2) WServiceUnavailable) (\<lambda>_.
      andthen (readOperationIdempotency (f 3) actor operationInvitationAccept (ai_Idempotency c) d) (\<lambda>found.
      case found of
        Some (storedWorkspaceID, _) \<Rightarrow>
          andthen (loadWorkspace (f 4) actor storedWorkspaceID d) (\<lambda>w.
          andthen (loadMember (f 5) storedWorkspaceID (act_UserID actor) d) (\<lambda>member.
          andthen (check (\<not> f 6) WServiceUnavailable) (\<lambda>_. Inr (\<lparr>ap_Workspace = w, ap_Member = member\<rparr>, d))))
      | None \<Rightarrow>
          andthen (check (\<not> f 4) WServiceUnavailable) (\<lambda>_.
          andthen (present WInvitationUnavailable (open_invitation (ai_TokenDigest c) (ai_AcceptedAt c) d)) (\<lambda>i.
          andthen (findMember (f 5) (wi_workspace_id i) (act_UserID actor) d) (\<lambda>found.
          andthen (join_workspace (later 6 f) (wi_workspace_id i) (act_UserID actor) (ai_MemberLimit c) (ai_AcceptedAt c) found d) (\<lambda>(member, d1).
          andthen (check (\<not> f 9) WServiceUnavailable) (\<lambda>_.
          andthen (insertOperationIdempotency (f 10) actor (wi_workspace_id i) operationInvitationAccept (ai_Idempotency c)
             ''workspace_membership'' (act_UserID actor) (ai_AcceptedAt c)
             (d1\<lparr>workspace_invitations := update_where (\<lambda>x. wi_id x = wi_id i)
                 (\<lambda>x. x\<lparr>wi_status := ''accepted'', wi_accepted_by_user_id := Some (act_UserID actor),
                        wi_accepted_at := Some (ai_AcceptedAt c)\<rparr>) (workspace_invitations d1)\<rparr>)) (\<lambda>d2.
          andthen (recordWorkspaceAudit lb (f 11) actor (ai_Audit c) ''workspace_invitation_accepted'' (wi_workspace_id i) (ai_AcceptedAt c)
             [id_entry ''workspace_id'' (wi_workspace_id i), id_entry ''invitation_id'' (wi_id i),
              id_entry ''membership_user_id'' (act_UserID actor), (''role'', mb_Role member)] d2) (\<lambda>d3.
          andthen (loadWorkspace (f 12) actor (wi_workspace_id i) d3) (\<lambda>w.
          andthen (check (\<not> f 13) WServiceUnavailable) (\<lambda>_.
          Inr (\<lparr>ap_Workspace = w, ap_Member = member\<rparr>, d3)))))))))))))))) d"

section \<open>Maintenance and closed accounts\<close>

text \<open>The statements of \<open>cleanupExpiredRows\<close> on the workspace tables: a batch of the rows that are due, less
  those another transaction holds locked.\<close>

definition workspaceCleanupBatchSize :: nat where "workspaceCleanupBatchSize = 500"

definition expire_due_invitations :: "(uuid \<Rightarrow> bool) \<Rightarrow> instant \<Rightarrow> db \<Rightarrow> db" where
  "expire_due_invitations locked now d =
     (let due = map wi_id (take workspaceCleanupBatchSize (sort_key (\<lambda>i. (wi_expires_at i, wi_id i))
           (filter (\<lambda>i. wi_status i = ''pending'' \<and> wi_expires_at i \<le> now \<and> \<not> locked (wi_id i)) (workspace_invitations d)))) in
      d\<lparr>workspace_invitations := update_where (\<lambda>i. wi_id i \<in> set due) (\<lambda>i. i\<lparr>wi_status := ''expired''\<rparr>)
          (workspace_invitations d)\<rparr>)"

definition idempotency_key :: "workspace_idempotency_row \<Rightarrow> uuid \<times> bytes \<times> bytes" where
  "idempotency_key x = (wr_actor_user_id x, wr_operation x, wr_key_digest x)"

definition purge_workspace_idempotency ::
  "(bytes \<Rightarrow> bytes) \<Rightarrow> (uuid \<times> bytes \<times> bytes \<Rightarrow> bool) \<Rightarrow> instant \<Rightarrow> db \<Rightarrow> db" where
  "purge_workspace_idempotency collate locked now d =
     (let due = map idempotency_key (take workspaceCleanupBatchSize
           (sort_key (\<lambda>x. (wr_expires_at x, wr_actor_user_id x, collate (wr_operation x), wr_key_digest x))
             (filter (\<lambda>x. wr_expires_at x \<le> now \<and> \<not> locked (idempotency_key x)) (workspace_idempotency_records d)))) in
      d\<lparr>workspace_idempotency_records := delete_where (\<lambda>x. idempotency_key x \<in> set due) (workspace_idempotency_records d)\<rparr>)"

text \<open>\<open>DELETE FROM workspaces\<close> with the rows that go with a workspace, and what closing an account does to
  the workspace tables.\<close>

definition delete_workspaces :: "uuid list \<Rightarrow> db \<Rightarrow> db" where
  "delete_workspaces ids d = d\<lparr>workspaces := delete_where (\<lambda>w. ws_id w \<in> set ids) (workspaces d),
     workspace_memberships := delete_where (\<lambda>m. wm_workspace_id m \<in> set ids) (workspace_memberships d),
     workspace_invitations := delete_where (\<lambda>i. wi_workspace_id i \<in> set ids) (workspace_invitations d),
     workspace_idempotency_records := delete_where (\<lambda>x. wr_workspace_id x \<in> set ids) (workspace_idempotency_records d),
     desktop_control_instances := update_where (\<lambda>r. \<exists>w\<in>set ids. di_workspace_id r = Some w) (\<lambda>r. r\<lparr>di_workspace_id := None\<rparr>)
       (desktop_control_instances d)\<rparr>"

definition owned_workspaces :: "uuid \<Rightarrow> db \<Rightarrow> uuid list" where
  "owned_workspaces u d = sort (map ws_id (filter (\<lambda>w. ws_owner_user_id w = u) (workspaces d)))"

definition clear_user :: "uuid \<Rightarrow> uuid option \<Rightarrow> uuid option" where
  "clear_user u x = (if x = Some u then None else x)"

definition leave_workspaces :: "uuid \<Rightarrow> db \<Rightarrow> db" where
  "leave_workspaces u d = d\<lparr>
     workspace_invitations := update_where (\<lambda>i. wi_created_by_user_id i = Some u \<or> wi_accepted_by_user_id i = Some u)
       (\<lambda>i. i\<lparr>wi_created_by_user_id := clear_user u (wi_created_by_user_id i),
              wi_accepted_by_user_id := clear_user u (wi_accepted_by_user_id i)\<rparr>) (workspace_invitations d),
     workspace_idempotency_records := delete_where (\<lambda>x. wr_actor_user_id x = u) (workspace_idempotency_records d),
     workspace_memberships := delete_where (\<lambda>m. wm_user_id m = u \<and> wm_role m \<noteq> ''owner'') (workspace_memberships d)\<rparr>"

definition close_workspaces :: "uuid \<Rightarrow> db \<Rightarrow> db" where
  "close_workspaces u d = delete_workspaces (owned_workspaces u d) (leave_workspaces u d)"

end
