(* ===== verification/WorkspaceService.thy ===== *)
theory WorkspaceService
  imports Workspaces Redis
begin

text \<open>
  \<open>limiter.go\<close> and \<open>service.go\<close> of \<open>internal/workspace\<close>: the limits per actor, the permissions of the
  roles, and the methods of the service, each of which authorises the actor, issues a command to the
  repository and reports a refusal to the audit log. Copies of values are values here. The service
  reports at most one refusal in a call, so that one identifier and one clock reading are enough.
\<close>

section \<open>Limits\<close>

type_synonym LimitAction = bytes

definition LimitWorkspaceCreate :: LimitAction where "LimitWorkspaceCreate = ''workspace_create''"
definition LimitInvitationCreate :: LimitAction where "LimitInvitationCreate = ''invitation_create''"
definition LimitInvitationAccept :: LimitAction where "LimitInvitationAccept = ''invitation_accept''"

lemmas limit_actions = LimitWorkspaceCreate_def LimitInvitationCreate_def LimitInvitationAccept_def

record LimitPolicy =
  lp_Limit :: int
  lp_Window :: duration

definition valid_limit :: "LimitPolicy \<Rightarrow> bool" where
  "valid_limit p \<longleftrightarrow> 0 < lp_Limit p \<and> millisecond \<le> lp_Window p"

record LimitPolicies =
  lp_WorkspaceCreate :: LimitPolicy
  lp_InvitationCreate :: LimitPolicy
  lp_InvitationAccept :: LimitPolicy

definition valid_limits :: "LimitPolicies \<Rightarrow> bool" where
  "valid_limits p \<longleftrightarrow> valid_limit (lp_WorkspaceCreate p) \<and> valid_limit (lp_InvitationCreate p)
     \<and> valid_limit (lp_InvitationAccept p)"

definition redisWorkspaceLimitPrefix :: bytes where
  "redisWorkspaceLimitPrefix = ''aera-cloud:workspace-limit:''"

definition limit_policy :: "LimitPolicies \<Rightarrow> LimitAction \<Rightarrow> workspace_error + LimitPolicy" where
  "limit_policy p action =
     (if action = LimitWorkspaceCreate then Inr (lp_WorkspaceCreate p)
      else if action = LimitInvitationCreate then Inr (lp_InvitationCreate p)
      else if action = LimitInvitationAccept then Inr (lp_InvitationAccept p)
      else Inl WInvalidRequest)"

definition limit_scope_ok :: "LimitAction \<Rightarrow> uuid option \<Rightarrow> bool" where
  "limit_scope_ok action scope =
     (if action = LimitWorkspaceCreate \<or> action = LimitInvitationAccept then scope = None
      else if action = LimitInvitationCreate then scope \<noteq> None \<and> scope \<noteq> Some Nil_uuid
      else False)"

definition workspace_redisKey ::
  "crypto \<Rightarrow> LimitAction \<Rightarrow> Actor \<Rightarrow> uuid option \<Rightarrow> workspace_error + bytes" where
  "workspace_redisKey cr action actor scope =
     andthen (check (valid_actor actor) WInvalidRequest) (\<lambda>_.
     andthen (check (limit_scope_ok action scope) WInvalidRequest) (\<lambda>_.
     Inr (redisWorkspaceLimitPrefix @ hex_encode (sha256 cr
       (''agentera.workspace-rate-limit.v1'' @ [CHR 0x00] @ action @ [CHR 0x00]
        @ uuid_bytes (act_UserID actor) @ uuid_bytes (act_DeviceID actor)
        @ (case scope of None \<Rightarrow> [CHR 0x00] | Some w \<Rightarrow> CHR 0x01 # uuid_bytes w))))))"

definition retry_after :: "LimitPolicy \<Rightarrow> int \<Rightarrow> duration" where
  "retry_after policy ttl =
     (let retryAfter = ttl * millisecond in
      if retryAfter \<le> 0 \<or> lp_Window policy < retryAfter then lp_Window policy else retryAfter)"

definition Workspace_Allow ::
  "crypto \<Rightarrow> LimitPolicies \<Rightarrow> bool \<Rightarrow> instant \<Rightarrow> LimitAction \<Rightarrow> Actor \<Rightarrow> uuid option \<Rightarrow> int redis
     \<Rightarrow> workspace_error option \<times> int redis" where
  "Workspace_Allow cr policies fails now action actor scope r =
     (case limit_policy policies action of
        Inl e \<Rightarrow> (Some e, r)
      | Inr policy \<Rightarrow>
          (case workspace_redisKey cr action actor scope of
             Inl e \<Rightarrow> (Some e, r)
           | Inr key \<Rightarrow>
               if fails then (Some WServiceUnavailable, r)
               else (case incrementWindow now key (lp_Window policy div millisecond) r of
                   ((count, ttl), r') \<Rightarrow>
                     if count \<le> lp_Limit policy then (None, r')
                     else (Some (WRateLimited (retry_after policy ttl)), r'))))"

section \<open>The service\<close>

type_synonym Operation = bytes

definition OperationRead :: Operation where "OperationRead = ''read''"
definition OperationRename :: Operation where "OperationRename = ''rename''"
definition OperationInvite :: Operation where "OperationInvite = ''invite''"
definition OperationRemoveMember :: Operation where "OperationRemoveMember = ''remove_member''"
definition OperationManageAdmin :: Operation where "OperationManageAdmin = ''manage_admin''"
definition OperationArchiveRestore :: Operation where "OperationArchiveRestore = ''archive_restore''"
definition OperationLeave :: Operation where "OperationLeave = ''leave''"

lemmas service_operations = OperationRead_def OperationRename_def OperationInvite_def OperationRemoveMember_def
  OperationManageAdmin_def OperationArchiveRestore_def OperationLeave_def

definition permissions :: "(Operation \<times> Role list) list" where
  "permissions =
     [(OperationRead, [RoleOwner, RoleAdmin, RoleMember]), (OperationRename, [RoleOwner, RoleAdmin]),
      (OperationInvite, [RoleOwner, RoleAdmin]), (OperationRemoveMember, [RoleOwner, RoleAdmin]),
      (OperationManageAdmin, [RoleOwner]), (OperationArchiveRestore, [RoleOwner]),
      (OperationLeave, [RoleAdmin, RoleMember])]"

record Quotas =
  qt_ActiveOwned :: int
  qt_Members :: int
  qt_PendingInvitations :: int

definition valid_quotas :: "Quotas \<Rightarrow> bool" where
  "valid_quotas q \<longleftrightarrow> 0 < qt_ActiveOwned q \<and> 0 < qt_Members q \<and> 0 < qt_PendingInvitations q"

record workspace_service =
  wv_libs :: workspace_libs
  wv_limits :: LimitPolicies
  wv_quotas :: Quotas

definition NewWorkspaceService :: "workspace_libs \<Rightarrow> LimitPolicies \<Rightarrow> Quotas \<Rightarrow> workspace_service option" where
  "NewWorkspaceService lb limits quotas =
     (if \<not> valid_limits limits \<or> \<not> valid_quotas quotas then None
      else Some \<lparr>wv_libs = lb, wv_limits = limits, wv_quotas = quotas\<rparr>)"

text \<open>What a call draws, reads and meets from outside.\<close>

record workspace_env =
  we_resource :: "uuid option" \<comment> \<open>identifier of a new workspace or invitation\<close>
  we_audit :: "uuid option" \<comment> \<open>identifier of the event of a success\<close>
  we_attempt :: "uuid option" \<comment> \<open>identifier of the event of a refusal\<close>
  we_leave :: "uuid option" \<comment> \<open>drawn by the repository\<close>
  we_read :: "nat \<Rightarrow> bytes option"
  we_now :: instant
  we_attempt_now :: instant
  we_store_now :: instant
  we_redis_now :: instant
  we_recorder_now :: instant
  we_limit_fails :: bool
  we_audit_fails :: bool
  we_list :: schedule
  we_members :: schedule
  we_faults :: schedule

record workspace_state =
  wz_db :: db
  wz_limits :: "int redis"

definition workspace_newUUID :: "uuid option \<Rightarrow> workspace_error + uuid" where
  "workspace_newUUID draw =
     (case draw of None \<Rightarrow> Inl WServiceUnavailable
      | Some v \<Rightarrow> if v = Nil_uuid then Inl WServiceUnavailable else Inr v)"

definition maxIdempotencyBytes :: nat where "maxIdempotencyBytes = 128"

definition idempotencyLifetime :: duration where "idempotencyLifetime = 24 * hour"

definition validOpaqueIdempotencyKey :: "bytes \<Rightarrow> bool" where
  "validOpaqueIdempotencyKey v \<longleftrightarrow> ValidString v \<and> length v \<le> maxIdempotencyBytes \<and> TrimSpace v \<noteq> []"

text \<open>\<open>^[A-Za-z0-9._:-]{1,128}$\<close>\<close>

definition validWorkspaceRequestID :: "bytes \<Rightarrow> bool" where
  "validWorkspaceRequestID v \<longleftrightarrow> requestPattern v"

definition canonicalWorkspaceDigest :: "crypto \<Rightarrow> bytes \<Rightarrow> bytes \<Rightarrow> bytes" where
  "canonicalWorkspaceDigest cr domain v = sha256 cr (domain @ [CHR 0x00] @ v)"

definition canonicalWorkspaceCreateDigest :: "crypto \<Rightarrow> bytes \<Rightarrow> bytes" where
  "canonicalWorkspaceCreateDigest cr displayName = canonicalWorkspaceDigest cr ''workspace-create-v1'' displayName"

definition canonicalInvitationCreateDigest :: "crypto \<Rightarrow> uuid \<Rightarrow> bytes" where
  "canonicalInvitationCreateDigest cr workspaceID =
     canonicalWorkspaceDigest cr ''workspace-invitation-create-v1'' (uuid_bytes workspaceID)"

definition canonicalInvitationAcceptDigest :: "crypto \<Rightarrow> bytes \<Rightarrow> bytes" where
  "canonicalInvitationAcceptDigest cr rawToken = canonicalWorkspaceDigest cr ''workspace-invitation-accept-v1'' rawToken"

section \<open>Reporting\<close>

fun workspaceReasonCode :: "workspace_error \<Rightarrow> bytes" where
  "workspaceReasonCode WInvalidRequest = ''invalid_request''"
| "workspaceReasonCode WSessionRevoked = ''session_revoked''"
| "workspaceReasonCode WForbidden = ''workspace_forbidden''"
| "workspaceReasonCode WNotFound = ''workspace_not_found''"
| "workspaceReasonCode WInvitationUnavailable = ''invitation_unavailable''"
| "workspaceReasonCode WConflict = ''workspace_conflict''"
| "workspaceReasonCode WArchived = ''workspace_archived''"
| "workspaceReasonCode WOwnerUnavailable = ''workspace_owner_unavailable''"
| "workspaceReasonCode WMembershipConflict = ''membership_conflict''"
| "workspaceReasonCode WLimitReached = ''workspace_limit_reached''"
| "workspaceReasonCode WMemberLimitReached = ''member_limit_reached''"
| "workspaceReasonCode WInvitationLimitReached = ''invitation_limit_reached''"
| "workspaceReasonCode WIdempotencyConflict = ''idempotency_conflict''"
| "workspaceReasonCode (WRateLimited _) = ''rate_limited''"
| "workspaceReasonCode WServiceUnavailable = ''service_unavailable''"
| "workspaceReasonCode WDatabase = ''service_unavailable''"

definition workspaceMetadata :: "uuid option \<Rightarrow> metadata" where
  "workspaceMetadata workspaceID =
     (case workspaceID of None \<Rightarrow> []
      | Some w \<Rightarrow> if w = Nil_uuid then [] else [id_entry ''workspace_id'' w])"

definition memberAuditMetadata :: "uuid \<Rightarrow> Member \<Rightarrow> Role \<Rightarrow> metadata" where
  "memberAuditMetadata workspaceID target desired =
     [id_entry ''workspace_id'' workspaceID, id_entry ''membership_user_id'' (mb_UserID target),
      (''previous_role'', mb_Role target)] @ (if desired = [] then [] else [(''role'', desired)])"

definition workspace_recordAttempt ::
  "workspace_service \<Rightarrow> workspace_env \<Rightarrow> Actor \<Rightarrow> bytes \<Rightarrow> bytes \<Rightarrow> bytes \<Rightarrow> bytes \<Rightarrow> uuid option \<Rightarrow> metadata
     \<Rightarrow> workspace_state \<Rightarrow> workspace_error option \<times> workspace_state" where
  "workspace_recordAttempt sv env actor eventType outcome reasonCode requestID workspaceID md s =
     (case workspace_newUUID (we_attempt env) of
        Inl _ \<Rightarrow> (Some WServiceUnavailable, s)
      | Inr eventID \<Rightarrow>
          (case Record_event (wl_lower (wv_libs sv)) (wl_uuid_parse (wv_libs sv)) (we_audit_fails env) None
              (we_recorder_now env)
              \<lparr>ev_ID = eventID, ev_EventType = eventType, ev_ActorUserID = Some (act_UserID actor),
               ev_DeviceID = Some (act_DeviceID actor), ev_OrganizationID = None,
               ev_ObjectType = (if workspaceID = None then [] else ''workspace''), ev_ObjectID = workspaceID,
               ev_Outcome = outcome, ev_ReasonCode = reasonCode, ev_RequestID = requestID, ev_IPHMAC = [],
               ev_Metadata = md, ev_OccurredAt = we_attempt_now env\<rparr> (wz_db s) of
             (Some _, _) \<Rightarrow> (Some WServiceUnavailable, s)
           | (None, d) \<Rightarrow> (None, s\<lparr>wz_db := d\<rparr>)))"

text \<open>The error a method returns after the report, with the state after it.\<close>

definition deny ::
  "workspace_service \<Rightarrow> workspace_env \<Rightarrow> Actor \<Rightarrow> bytes \<Rightarrow> bytes \<Rightarrow> uuid option \<Rightarrow> metadata option \<Rightarrow> workspace_error
     \<Rightarrow> workspace_state \<Rightarrow> (workspace_error + 'a) \<times> workspace_state" where
  "deny sv env actor eventType requestID workspaceID md err s =
     (case workspace_recordAttempt sv env actor eventType OutcomeDenied (workspaceReasonCode err) requestID workspaceID
         (case md of None \<Rightarrow> workspaceMetadata workspaceID | Some m \<Rightarrow> m) s of
        (Some _, s') \<Rightarrow> (Inl WServiceUnavailable, s') | (None, s') \<Rightarrow> (Inl err, s'))"

definition recordMutationError ::
  "workspace_service \<Rightarrow> workspace_env \<Rightarrow> Actor \<Rightarrow> bytes \<Rightarrow> bytes \<Rightarrow> uuid option \<Rightarrow> metadata option \<Rightarrow> workspace_error
     \<Rightarrow> workspace_state \<Rightarrow> (workspace_error + 'a) \<times> workspace_state" where
  "recordMutationError sv env actor eventType requestID workspaceID md err s =
     (case workspace_recordAttempt sv env actor eventType
         (if err = WServiceUnavailable then OutcomeFailure else OutcomeDenied) (workspaceReasonCode err) requestID workspaceID
         (case md of None \<Rightarrow> workspaceMetadata workspaceID | Some m \<Rightarrow> m) s of
        (Some _, s') \<Rightarrow> (Inl WServiceUnavailable, s') | (None, s') \<Rightarrow> (Inl err, s'))"

definition applyLimit ::
  "workspace_service \<Rightarrow> workspace_env \<Rightarrow> LimitAction \<Rightarrow> Actor \<Rightarrow> uuid option \<Rightarrow> bytes \<Rightarrow> uuid option
     \<Rightarrow> workspace_state \<Rightarrow> (workspace_error + unit) \<times> workspace_state" where
  "applyLimit sv env action actor scope requestID objectID s =
     (case Workspace_Allow (wl_crypto (wv_libs sv)) (wv_limits sv) (we_limit_fails env) (we_redis_now env)
         action actor scope (wz_limits s) of
        (None, r) \<Rightarrow> (Inr (), s\<lparr>wz_limits := r\<rparr>)
      | (Some (WRateLimited retryAfter), r) \<Rightarrow>
          (case workspace_recordAttempt sv env actor ''workspace_rate_limit_denied'' OutcomeDenied ''rate_limited'' requestID
              objectID (workspaceMetadata objectID) (s\<lparr>wz_limits := r\<rparr>) of
             (Some _, s') \<Rightarrow> (Inl WServiceUnavailable, s') | (None, s') \<Rightarrow> (Inl (WRateLimited retryAfter), s'))
      | (Some _, r) \<Rightarrow>
          (case workspace_recordAttempt sv env actor ''workspace_rate_limit_failed'' OutcomeFailure ''service_unavailable''
              requestID objectID (workspaceMetadata objectID) (s\<lparr>wz_limits := r\<rparr>) of
             (_, s') \<Rightarrow> (Inl WServiceUnavailable, s')))"

text \<open>A command to the repository, and the report of its error.\<close>

definition repository_call ::
  "(db \<Rightarrow> (workspace_error + 'a) \<times> db) \<Rightarrow> (workspace_error \<Rightarrow> workspace_state \<Rightarrow> (workspace_error + 'b) \<times> workspace_state)
     \<Rightarrow> ('a \<Rightarrow> workspace_state \<Rightarrow> (workspace_error + 'b) \<times> workspace_state) \<Rightarrow> workspace_state
     \<Rightarrow> (workspace_error + 'b) \<times> workspace_state" where
  "repository_call command report continue s =
     (case command (wz_db s) of
        (Inl e, d) \<Rightarrow> report e (s\<lparr>wz_db := d\<rparr>) | (Inr v, d) \<Rightarrow> continue v (s\<lparr>wz_db := d\<rparr>))"

section \<open>Authorisation\<close>

definition findWorkspace ::
  "workspace_service \<Rightarrow> workspace_env \<Rightarrow> Actor \<Rightarrow> uuid \<Rightarrow> db \<Rightarrow> workspace_error + Workspace" where
  "findWorkspace sv env actor workspaceID d =
     andthen (ListWorkspaces_record (wv_libs sv) (we_list env) actor d) (\<lambda>ws.
       present WNotFound (find (\<lambda>w. wk_ID w = workspaceID) ws))"

definition findTargetMember ::
  "workspace_service \<Rightarrow> workspace_env \<Rightarrow> Actor \<Rightarrow> Workspace \<Rightarrow> uuid \<Rightarrow> db \<Rightarrow> workspace_error + Member" where
  "findTargetMember sv env actor w targetID d =
     andthen (ListMembers_record (wv_libs sv) (we_members env) actor (wk_ID w) d) (\<lambda>ms.
       present WNotFound (find (\<lambda>m. mb_UserID m = targetID) ms))"

definition authorize ::
  "workspace_service \<Rightarrow> workspace_env \<Rightarrow> Actor \<Rightarrow> uuid \<Rightarrow> Operation \<Rightarrow> bytes \<Rightarrow> workspace_state
     \<Rightarrow> (workspace_error + Workspace) \<times> workspace_state" where
  "authorize sv env actor workspaceID operation requestID s =
     (case findWorkspace sv env actor workspaceID (wz_db s) of
        Inl e \<Rightarrow> recordMutationError sv env actor ''workspace_access_attempt'' requestID (Some workspaceID) None e s
      | Inr w \<Rightarrow>
          (case map_of permissions operation of
             None \<Rightarrow> (Inl WInvalidRequest, s)
           | Some roles \<Rightarrow>
               if wk_ActorRole w \<notin> set roles
               then deny sv env actor ''workspace_access_denied'' requestID (Some workspaceID)
                 (Some [id_entry ''workspace_id'' workspaceID, (''role'', wk_ActorRole w)]) WForbidden s
               else (Inr w, s)))"

definition authorizeMutable ::
  "workspace_service \<Rightarrow> workspace_env \<Rightarrow> Actor \<Rightarrow> uuid \<Rightarrow> Operation \<Rightarrow> bytes \<Rightarrow> workspace_state
     \<Rightarrow> (workspace_error + Workspace) \<times> workspace_state" where
  "authorizeMutable sv env actor workspaceID operation requestID s =
     proceed (authorize sv env actor workspaceID operation requestID s) (\<lambda>w s1.
       if wk_MutationState w = MutationStateOwnerUnavailable
       then deny sv env actor ''workspace_mutation_denied'' requestID (Some workspaceID) None WOwnerUnavailable s1
       else if wk_MutationState w = MutationStateArchived
       then deny sv env actor ''workspace_mutation_denied'' requestID (Some workspaceID) None WArchived s1
       else if wk_MutationState w = MutationStateWritable then (Inr w, s1)
       else (Inl WServiceUnavailable, s1))"

section \<open>Requests\<close>

record CreateWorkspaceRequest =
  cwr_DisplayName :: bytes
  cwr_IdempotencyKey :: bytes
  cwr_RequestID :: bytes

record RenameWorkspaceRequest =
  rwr_WorkspaceID :: uuid
  rwr_DisplayName :: bytes
  rwr_ExpectedRevision :: int
  rwr_RequestID :: bytes

record WorkspaceRevisionRequest =
  wrr_WorkspaceID :: uuid
  wrr_ExpectedRevision :: int
  wrr_RequestID :: bytes

record ChangeMemberRoleRequest =
  crr_WorkspaceID :: uuid
  crr_UserID :: uuid
  crr_Role :: Role
  crr_ExpectedRevision :: int
  crr_RequestID :: bytes

record RemoveMemberRequest =
  rmr_WorkspaceID :: uuid
  rmr_UserID :: uuid
  rmr_ExpectedRevision :: int
  rmr_RequestID :: bytes

record CreateInvitationRequest =
  cir_WorkspaceID :: uuid
  cir_IdempotencyKey :: bytes
  cir_RequestID :: bytes

record RevokeInvitationRequest =
  rir_WorkspaceID :: uuid
  rir_InvitationID :: uuid
  rir_RequestID :: bytes

record AcceptInvitationRequest =
  air_Token :: bytes
  air_IdempotencyKey :: bytes
  air_RequestID :: bytes

record InvitationCreationResult =
  icr_Invitation :: Invitation
  icr_Token :: bytes
  icr_InviteURL :: bytes
  icr_SecretReplayable :: bool

definition validWorkspaceRevisionRequest :: "Actor \<Rightarrow> WorkspaceRevisionRequest \<Rightarrow> bool" where
  "validWorkspaceRevisionRequest actor q \<longleftrightarrow> valid_actor actor \<and> wrr_WorkspaceID q \<noteq> Nil_uuid
     \<and> 0 < wrr_ExpectedRevision q \<and> validWorkspaceRequestID (wrr_RequestID q)"

section \<open>Methods on workspaces\<close>

type_synonym 'a workspace_method = "workspace_state \<Rightarrow> (workspace_error + 'a) \<times> workspace_state"

definition CreateWorkspace ::
  "workspace_service \<Rightarrow> workspace_env \<Rightarrow> Actor \<Rightarrow> CreateWorkspaceRequest \<Rightarrow> (Workspace \<times> IdempotencyReplay) workspace_method" where
  "CreateWorkspace sv env actor q s =
     (let cr = wl_crypto (wv_libs sv) in
      proceed (present WInvalidRequest (NormalizeDisplayName (cwr_DisplayName q)), s) (\<lambda>displayName s.
      proceed (check (valid_actor actor \<and> validOpaqueIdempotencyKey (cwr_IdempotencyKey q)
         \<and> validWorkspaceRequestID (cwr_RequestID q)) WInvalidRequest, s) (\<lambda>_ s.
      proceed (workspace_newUUID (we_resource env), s) (\<lambda>workspaceID s.
      proceed (workspace_newUUID (we_audit env), s) (\<lambda>auditID s.
      proceed (applyLimit sv env LimitWorkspaceCreate actor None (cwr_RequestID q) (Some workspaceID) s) (\<lambda>_ s.
      repository_call (CreateWorkspace_record (wv_libs sv) (we_faults env) actor
        \<lparr>cc_WorkspaceID = workspaceID, cc_DisplayName = displayName, cc_ActiveOwnedLimit = qt_ActiveOwned (wv_quotas sv),
         cc_Idempotency = \<lparr>ie_KeyDigest = sha256 cr (cwr_IdempotencyKey q),
           ie_RequestDigest = canonicalWorkspaceCreateDigest cr displayName, ie_ExpiresAt = we_now env + idempotencyLifetime\<rparr>,
         cc_Audit = \<lparr>aud_EventID = auditID, aud_RequestID = cwr_RequestID q\<rparr>, cc_CreatedAt = we_now env\<rparr>)
        (recordMutationError sv env actor ''workspace_create_attempt'' (cwr_RequestID q) (Some workspaceID) None)
        (\<lambda>v s. (Inr v, s)) s))))))"

definition ListWorkspaces :: "workspace_service \<Rightarrow> workspace_env \<Rightarrow> Actor \<Rightarrow> Workspace list workspace_method" where
  "ListWorkspaces sv env actor s =
     (andthen (check (valid_actor actor) WInvalidRequest) (\<lambda>_.
        ListWorkspaces_record (wv_libs sv) (we_list env) actor (wz_db s)), s)"

definition RenameWorkspace ::
  "workspace_service \<Rightarrow> workspace_env \<Rightarrow> Actor \<Rightarrow> RenameWorkspaceRequest \<Rightarrow> Workspace workspace_method" where
  "RenameWorkspace sv env actor q s =
     proceed (present WInvalidRequest (NormalizeDisplayName (rwr_DisplayName q)), s) (\<lambda>displayName s.
     proceed (check (valid_actor actor \<and> rwr_WorkspaceID q \<noteq> Nil_uuid \<and> 0 < rwr_ExpectedRevision q
        \<and> validWorkspaceRequestID (rwr_RequestID q)) WInvalidRequest, s) (\<lambda>_ s.
     proceed (authorizeMutable sv env actor (rwr_WorkspaceID q) OperationRename (rwr_RequestID q) s) (\<lambda>_ s.
     proceed (workspace_newUUID (we_audit env), s) (\<lambda>auditID s.
     repository_call (RenameWorkspace_record (wv_libs sv) (we_faults env) actor
       \<lparr>rn_WorkspaceID = rwr_WorkspaceID q, rn_DisplayName = displayName, rn_ExpectedRevision = rwr_ExpectedRevision q,
        rn_Audit = \<lparr>aud_EventID = auditID, aud_RequestID = rwr_RequestID q\<rparr>, rn_UpdatedAt = we_now env\<rparr>)
       (recordMutationError sv env actor ''workspace_rename_attempt'' (rwr_RequestID q) (Some (rwr_WorkspaceID q)) None)
       (\<lambda>v s. (Inr v, s)) s))))"

definition reviseWorkspace ::
  "workspace_service \<Rightarrow> workspace_env \<Rightarrow> Actor \<Rightarrow> WorkspaceRevisionRequest \<Rightarrow> bool \<Rightarrow> Workspace workspace_method" where
  "reviseWorkspace sv env actor q restore s =
     proceed (workspace_newUUID (we_audit env), s) (\<lambda>auditID s.
     let command = \<lparr>rv_WorkspaceID = wrr_WorkspaceID q, rv_ExpectedRevision = wrr_ExpectedRevision q,
           rv_ActiveOwnedLimit = qt_ActiveOwned (wv_quotas sv),
           rv_Audit = \<lparr>aud_EventID = auditID, aud_RequestID = wrr_RequestID q\<rparr>, rv_ChangedAt = we_now env\<rparr> in
     repository_call
       ((if restore then RestoreWorkspace_record else ArchiveWorkspace_record) (wv_libs sv) (we_faults env) actor command)
       (recordMutationError sv env actor (if restore then ''workspace_restore_attempt'' else ''workspace_archive_attempt'')
          (wrr_RequestID q) (Some (wrr_WorkspaceID q)) None)
       (\<lambda>v s. (Inr v, s)) s)"

definition ArchiveWorkspace ::
  "workspace_service \<Rightarrow> workspace_env \<Rightarrow> Actor \<Rightarrow> WorkspaceRevisionRequest \<Rightarrow> Workspace workspace_method" where
  "ArchiveWorkspace sv env actor q s =
     proceed (check (validWorkspaceRevisionRequest actor q) WInvalidRequest, s) (\<lambda>_ s.
     proceed (authorizeMutable sv env actor (wrr_WorkspaceID q) OperationArchiveRestore (wrr_RequestID q) s) (\<lambda>_ s.
     reviseWorkspace sv env actor q False s))"

definition RestoreWorkspace ::
  "workspace_service \<Rightarrow> workspace_env \<Rightarrow> Actor \<Rightarrow> WorkspaceRevisionRequest \<Rightarrow> Workspace workspace_method" where
  "RestoreWorkspace sv env actor q s =
     proceed (check (validWorkspaceRevisionRequest actor q) WInvalidRequest, s) (\<lambda>_ s.
     proceed (authorize sv env actor (wrr_WorkspaceID q) OperationArchiveRestore (wrr_RequestID q) s) (\<lambda>w s.
     if wk_MutationState w = MutationStateOwnerUnavailable
     then deny sv env actor ''workspace_restore_denied'' (wrr_RequestID q) (Some (wrr_WorkspaceID q)) None WOwnerUnavailable s
     else if wk_Status w \<noteq> WorkspaceStatusArchived
     then deny sv env actor ''workspace_restore_denied'' (wrr_RequestID q) (Some (wrr_WorkspaceID q)) None WConflict s
     else reviseWorkspace sv env actor q True s))"

section \<open>Methods on members\<close>

definition ListMembers ::
  "workspace_service \<Rightarrow> workspace_env \<Rightarrow> Actor \<Rightarrow> uuid \<Rightarrow> Member list workspace_method" where
  "ListMembers sv env actor workspaceID s =
     (andthen (check (valid_actor actor \<and> workspaceID \<noteq> Nil_uuid) WInvalidRequest) (\<lambda>_.
      andthen (findWorkspace sv env actor workspaceID (wz_db s)) (\<lambda>_.
      ListMembers_record (wv_libs sv) (we_members env) actor workspaceID (wz_db s))), s)"

definition ChangeMemberRole ::
  "workspace_service \<Rightarrow> workspace_env \<Rightarrow> Actor \<Rightarrow> ChangeMemberRoleRequest \<Rightarrow> Member workspace_method" where
  "ChangeMemberRole sv env actor q s =
     (let at = Some (crr_WorkspaceID q); reqID = crr_RequestID q in
      proceed (check (valid_actor actor \<and> crr_WorkspaceID q \<noteq> Nil_uuid \<and> crr_UserID q \<noteq> Nil_uuid
         \<and> (crr_Role q = RoleAdmin \<or> crr_Role q = RoleMember) \<and> 0 < crr_ExpectedRevision q
         \<and> validWorkspaceRequestID reqID) WInvalidRequest, s) (\<lambda>_ s.
      proceed (authorizeMutable sv env actor (crr_WorkspaceID q) OperationManageAdmin reqID s) (\<lambda>w s.
      case findTargetMember sv env actor w (crr_UserID q) (wz_db s) of
        Inl e \<Rightarrow> recordMutationError sv env actor ''workspace_member_role_attempt'' reqID at
          (Some [id_entry ''membership_user_id'' (crr_UserID q)]) e s
      | Inr target \<Rightarrow>
          if mb_Role target = RoleOwner \<or> mb_Role target = crr_Role q \<or> mb_Revision target \<noteq> crr_ExpectedRevision q
          then deny sv env actor ''workspace_member_role_denied'' reqID at
            (Some (memberAuditMetadata (crr_WorkspaceID q) target (crr_Role q))) WMembershipConflict s
          else
            proceed (workspace_newUUID (we_audit env), s) (\<lambda>auditID s.
            repository_call (ChangeMemberRole_record (wv_libs sv) (we_faults env) actor
              \<lparr>cm_WorkspaceID = crr_WorkspaceID q, cm_UserID = crr_UserID q, cm_Role = crr_Role q,
               cm_ExpectedRevision = crr_ExpectedRevision q,
               cm_Audit = \<lparr>aud_EventID = auditID, aud_RequestID = reqID\<rparr>, cm_ChangedAt = we_now env\<rparr>)
              (recordMutationError sv env actor ''workspace_member_role_attempt'' reqID at
                (Some (memberAuditMetadata (crr_WorkspaceID q) target (crr_Role q))))
              (\<lambda>v s. (Inr v, s)) s))))"

definition RemoveMember ::
  "workspace_service \<Rightarrow> workspace_env \<Rightarrow> Actor \<Rightarrow> RemoveMemberRequest \<Rightarrow> unit workspace_method" where
  "RemoveMember sv env actor q s =
     (let at = Some (rmr_WorkspaceID q); reqID = rmr_RequestID q in
      proceed (check (valid_actor actor \<and> rmr_WorkspaceID q \<noteq> Nil_uuid \<and> rmr_UserID q \<noteq> Nil_uuid
         \<and> 0 < rmr_ExpectedRevision q \<and> validWorkspaceRequestID reqID) WInvalidRequest, s) (\<lambda>_ s.
      proceed (authorizeMutable sv env actor (rmr_WorkspaceID q) OperationRemoveMember reqID s) (\<lambda>w s.
      case findTargetMember sv env actor w (rmr_UserID q) (wz_db s) of
        Inl e \<Rightarrow> recordMutationError sv env actor ''workspace_member_remove_attempt'' reqID at
          (Some [id_entry ''membership_user_id'' (rmr_UserID q)]) e s
      | Inr target \<Rightarrow>
          let denied = deny sv env actor ''workspace_member_remove_denied'' reqID at
                (Some (memberAuditMetadata (rmr_WorkspaceID q) target [])) in
          if mb_Role target = RoleOwner then denied WMembershipConflict s
          else if wk_ActorRole w = RoleAdmin \<and> mb_Role target \<noteq> RoleMember then denied WForbidden s
          else if mb_Revision target \<noteq> rmr_ExpectedRevision q then denied WMembershipConflict s
          else
            proceed (workspace_newUUID (we_audit env), s) (\<lambda>auditID s.
            repository_call (RemoveMember_record (wv_libs sv) (we_faults env) actor
              \<lparr>rm_WorkspaceID = rmr_WorkspaceID q, rm_UserID = rmr_UserID q, rm_ExpectedRevision = rmr_ExpectedRevision q,
               rm_Audit = \<lparr>aud_EventID = auditID, aud_RequestID = reqID\<rparr>, rm_RemovedAt = we_now env\<rparr>)
              (recordMutationError sv env actor ''workspace_member_remove_attempt'' reqID at
                (Some (memberAuditMetadata (rmr_WorkspaceID q) target [])))
              (\<lambda>v s. (Inr v, s)) s))))"

definition LeaveWorkspace ::
  "workspace_service \<Rightarrow> workspace_env \<Rightarrow> Actor \<Rightarrow> uuid \<Rightarrow> bytes \<Rightarrow> unit workspace_method" where
  "LeaveWorkspace sv env actor workspaceID requestID s =
     proceed (check (valid_actor actor \<and> workspaceID \<noteq> Nil_uuid \<and> validWorkspaceRequestID requestID) WInvalidRequest, s) (\<lambda>_ s.
     proceed (authorizeMutable sv env actor workspaceID OperationLeave requestID s) (\<lambda>_ s.
     repository_call (LeaveWorkspace_record (wv_libs sv) (we_faults env) (we_leave env) (we_store_now env) actor workspaceID)
       (recordMutationError sv env actor ''workspace_member_leave_attempt'' requestID (Some workspaceID) None)
       (\<lambda>v s. (Inr v, s)) s))"

section \<open>Methods on invitations\<close>

definition ListInvitations ::
  "workspace_service \<Rightarrow> workspace_env \<Rightarrow> Actor \<Rightarrow> uuid \<Rightarrow> bytes \<Rightarrow> Invitation list workspace_method" where
  "ListInvitations sv env actor workspaceID requestID s =
     proceed (check (valid_actor actor \<and> workspaceID \<noteq> Nil_uuid \<and> validWorkspaceRequestID requestID) WInvalidRequest, s) (\<lambda>_ s.
     proceed (authorize sv env actor workspaceID OperationInvite requestID s) (\<lambda>_ s.
     (ListInvitations_record (we_faults env) (we_store_now env) actor workspaceID (wz_db s), s)))"

definition CreateInvitation ::
  "workspace_service \<Rightarrow> workspace_env \<Rightarrow> Actor \<Rightarrow> CreateInvitationRequest
     \<Rightarrow> (InvitationCreationResult \<times> IdempotencyReplay) workspace_method" where
  "CreateInvitation sv env actor q s =
     (let cr = wl_crypto (wv_libs sv); at = Some (cir_WorkspaceID q); reqID = cir_RequestID q;
          report = recordMutationError sv env actor ''workspace_invitation_create_attempt'' reqID at None in
      proceed (check (valid_actor actor \<and> cir_WorkspaceID q \<noteq> Nil_uuid \<and> validOpaqueIdempotencyKey (cir_IdempotencyKey q)
         \<and> validWorkspaceRequestID reqID) WInvalidRequest, s) (\<lambda>_ s.
      proceed (authorizeMutable sv env actor (cir_WorkspaceID q) OperationInvite reqID s) (\<lambda>_ s.
      proceed (applyLimit sv env LimitInvitationCreate actor at reqID at s) (\<lambda>_ s.
      proceed (workspace_newUUID (we_resource env), s) (\<lambda>invitationID s.
      proceed (workspace_newUUID (we_audit env), s) (\<lambda>auditID s.
      proceed (present WServiceUnavailable (NewInvitationSecret cr (we_read env)), s) (\<lambda>secret s.
      repository_call (CreateInvitation_record (wv_libs sv) (we_faults env) (we_store_now env) actor
        \<lparr>ci_InvitationID = invitationID, ci_WorkspaceID = cir_WorkspaceID q, ci_Secret = secret,
         ci_PendingInviteLimit = qt_PendingInvitations (wv_quotas sv),
         ci_Idempotency = \<lparr>ie_KeyDigest = sha256 cr (cir_IdempotencyKey q),
           ie_RequestDigest = canonicalInvitationCreateDigest cr (cir_WorkspaceID q),
           ie_ExpiresAt = we_now env + idempotencyLifetime\<rparr>,
         ci_Audit = \<lparr>aud_EventID = auditID, aud_RequestID = reqID\<rparr>, ci_CreatedAt = we_now env\<rparr>)
        report
        (\<lambda>(creation, replay) s.
          let result = \<lparr>icr_Invitation = ivc_Invitation creation, icr_Token = [], icr_InviteURL = [], icr_SecretReplayable = False\<rparr> in
          if replay = IdempotencyFresh
          then (case ivc_Secret creation of
              None \<Rightarrow> report WServiceUnavailable s
            | Some sec \<Rightarrow>
                if is_RawToken sec = [] then report WServiceUnavailable s
                else (Inr (result\<lparr>icr_Token := is_RawToken sec,
                       icr_InviteURL := ''agentera://workspace-invitation#'' @ is_RawToken sec\<rparr>, replay), s))
          else (Inr (result, replay), s)) s)))))))"

definition RevokeInvitation ::
  "workspace_service \<Rightarrow> workspace_env \<Rightarrow> Actor \<Rightarrow> RevokeInvitationRequest \<Rightarrow> unit workspace_method" where
  "RevokeInvitation sv env actor q s =
     proceed (check (valid_actor actor \<and> rir_WorkspaceID q \<noteq> Nil_uuid \<and> rir_InvitationID q \<noteq> Nil_uuid
        \<and> validWorkspaceRequestID (rir_RequestID q)) WInvalidRequest, s) (\<lambda>_ s.
     proceed (authorizeMutable sv env actor (rir_WorkspaceID q) OperationInvite (rir_RequestID q) s) (\<lambda>_ s.
     proceed (workspace_newUUID (we_audit env), s) (\<lambda>auditID s.
     repository_call (RevokeInvitation_record (wv_libs sv) (we_faults env) actor
       \<lparr>ri_WorkspaceID = rir_WorkspaceID q, ri_InvitationID = rir_InvitationID q,
        ri_Audit = \<lparr>aud_EventID = auditID, aud_RequestID = rir_RequestID q\<rparr>, ri_RevokedAt = we_now env\<rparr>)
       (recordMutationError sv env actor ''workspace_invitation_revoke_attempt'' (rir_RequestID q) (Some (rir_WorkspaceID q))
         (Some [id_entry ''workspace_id'' (rir_WorkspaceID q), id_entry ''invitation_id'' (rir_InvitationID q)]))
       (\<lambda>v s. (Inr v, s)) s)))"

definition AcceptInvitation ::
  "workspace_service \<Rightarrow> workspace_env \<Rightarrow> Actor \<Rightarrow> AcceptInvitationRequest \<Rightarrow> Acceptance workspace_method" where
  "AcceptInvitation sv env actor q s =
     (let cr = wl_crypto (wv_libs sv) in
      proceed (check (valid_actor actor \<and> validOpaqueIdempotencyKey (air_IdempotencyKey q)
         \<and> validWorkspaceRequestID (air_RequestID q)) WInvalidRequest, s) (\<lambda>_ s.
      proceed (present WInvalidRequest (InvitationDigest cr (air_Token q)), s) (\<lambda>tokenDigest s.
      proceed (applyLimit sv env LimitInvitationAccept actor None (air_RequestID q) None s) (\<lambda>_ s.
      proceed (workspace_newUUID (we_audit env), s) (\<lambda>auditID s.
      repository_call (AcceptInvitation_record (wv_libs sv) (we_faults env) actor
        \<lparr>ai_TokenDigest = tokenDigest, ai_MemberLimit = qt_Members (wv_quotas sv),
         ai_Idempotency = \<lparr>ie_KeyDigest = sha256 cr (air_IdempotencyKey q),
           ie_RequestDigest = canonicalInvitationAcceptDigest cr (air_Token q),
           ie_ExpiresAt = we_now env + idempotencyLifetime\<rparr>,
         ai_Audit = \<lparr>aud_EventID = auditID, aud_RequestID = air_RequestID q\<rparr>, ai_AcceptedAt = we_now env\<rparr>)
        (recordMutationError sv env actor ''workspace_invitation_accept_attempt'' (air_RequestID q) None None)
        (\<lambda>v s. (Inr v, s)) s)))))"

end
