(* ===== verification/WorkspaceSpec.thy ===== *)
theory WorkspaceSpec
  imports WorkspaceService
begin

text \<open>
  The abstract specification of the workspaces: a directory of shared workspaces, each with its owner,
  members and pending invitations, and the steps an actor may take in it according to the role. The
  section \<open>What the specification keeps\<close> shows its invariant.
\<close>

section \<open>The specification\<close>

record shared_workspace =
  sw_owner :: uuid
  sw_name :: bytes
  sw_active :: bool
  sw_revision :: int
  sw_members :: "uuid \<rightharpoonup> Role"
  sw_pending :: "bytes set"

type_synonym directory = "uuid \<rightharpoonup> shared_workspace"

definition active_of :: "uuid \<Rightarrow> directory \<Rightarrow> uuid set" where
  "active_of u dir = {w. \<exists>x. dir w = Some x \<and> sw_owner x = u \<and> sw_active x}"

text \<open>Closing an account removes its workspaces and its memberships.\<close>

definition close_directory :: "uuid \<Rightarrow> directory \<Rightarrow> directory" where
  "close_directory u dir = (\<lambda>w. case dir w of
       None \<Rightarrow> None
     | Some x \<Rightarrow> if sw_owner x = u then None
         else Some (x\<lparr>sw_members := (\<lambda>v. if v = u \<and> sw_members x v \<noteq> Some RoleOwner then None else sw_members x v)\<rparr>))"

text \<open>Accepting the invitation with a token, by a new member or by one who is a member already; the other
  steps of an actor, with the token the actor's request drew; and what happens to the directory without an
  actor.\<close>

inductive directory_accept :: "Quotas \<Rightarrow> uuid \<Rightarrow> bytes \<Rightarrow> directory \<Rightarrow> directory \<Rightarrow> bool" for q a t where
  join: "\<lbrakk>dir w = Some x; sw_active x; t \<in> sw_pending x; sw_members x a = None; int (card (dom (sw_members x))) < qt_Members q\<rbrakk> \<Longrightarrow>
    directory_accept q a t dir (dir(w \<mapsto> x\<lparr>sw_members := (sw_members x)(a \<mapsto> RoleMember), sw_pending := sw_pending x - {t}\<rparr>))"
| rejoin: "\<lbrakk>dir w = Some x; sw_active x; t \<in> sw_pending x; sw_members x a \<noteq> None\<rbrakk> \<Longrightarrow>
    directory_accept q a t dir (dir(w \<mapsto> x\<lparr>sw_pending := sw_pending x - {t}\<rparr>))"

inductive directory_step :: "Quotas \<Rightarrow> uuid \<Rightarrow> bytes option \<Rightarrow> directory \<Rightarrow> directory \<Rightarrow> bool" for q a drawn where
  found: "\<lbrakk>dir w = None; int (card (active_of a dir)) < qt_ActiveOwned q\<rbrakk> \<Longrightarrow>
    directory_step q a drawn dir (dir(w \<mapsto> \<lparr>sw_owner = a, sw_name = n, sw_active = True, sw_revision = 1,
      sw_members = [a \<mapsto> RoleOwner], sw_pending = {}\<rparr>))"
| rename: "\<lbrakk>dir w = Some x; sw_active x; sw_members x a \<in> {Some RoleOwner, Some RoleAdmin}\<rbrakk> \<Longrightarrow>
    directory_step q a drawn dir (dir(w \<mapsto> x\<lparr>sw_name := n, sw_revision := sw_revision x + 1\<rparr>))"
| archive: "\<lbrakk>dir w = Some x; sw_active x; sw_members x a = Some RoleOwner\<rbrakk> \<Longrightarrow>
    directory_step q a drawn dir (dir(w \<mapsto> x\<lparr>sw_active := False, sw_revision := sw_revision x + 1, sw_pending := {}\<rparr>))"
| restore: "\<lbrakk>dir w = Some x; \<not> sw_active x; sw_members x a = Some RoleOwner;
    int (card (active_of a dir)) < qt_ActiveOwned q\<rbrakk> \<Longrightarrow>
    directory_step q a drawn dir (dir(w \<mapsto> x\<lparr>sw_active := True, sw_revision := sw_revision x + 1\<rparr>))"
| set_role: "\<lbrakk>dir w = Some x; sw_active x; sw_members x a = Some RoleOwner; sw_members x u = Some r; r \<noteq> RoleOwner;
    r' \<in> {RoleAdmin, RoleMember}\<rbrakk> \<Longrightarrow> directory_step q a drawn dir (dir(w \<mapsto> x\<lparr>sw_members := (sw_members x)(u \<mapsto> r')\<rparr>))"
| drop: "\<lbrakk>dir w = Some x; sw_active x; sw_members x a = Some ra; sw_members x u = Some r; r \<noteq> RoleOwner;
    ra = RoleOwner \<or> ra = RoleAdmin \<and> r = RoleMember \<or> a = u\<rbrakk> \<Longrightarrow>
    directory_step q a drawn dir (dir(w \<mapsto> x\<lparr>sw_members := (sw_members x)(u := None)\<rparr>))"
| invite: "\<lbrakk>dir w = Some x; sw_active x; sw_members x a \<in> {Some RoleOwner, Some RoleAdmin}; P \<subseteq> sw_pending x;
    \<forall>y\<in>ran dir. t \<notin> sw_pending y; drawn = Some t; int (card P) < qt_PendingInvitations q\<rbrakk> \<Longrightarrow>
    directory_step q a drawn dir (dir(w \<mapsto> x\<lparr>sw_pending := insert t P\<rparr>))"
| revoke: "\<lbrakk>dir w = Some x; sw_active x; sw_members x a \<in> {Some RoleOwner, Some RoleAdmin}; t \<in> sw_pending x\<rbrakk> \<Longrightarrow>
    directory_step q a drawn dir (dir(w \<mapsto> x\<lparr>sw_pending := sw_pending x - {t}\<rparr>))"
| accept: "directory_accept q a t dir dir' \<Longrightarrow> directory_step q a drawn dir dir'"

inductive directory_upkeep :: "directory \<Rightarrow> directory \<Rightarrow> bool" where
  expire: "directory_upkeep dir (\<lambda>w. map_option (\<lambda>x. x\<lparr>sw_pending := sw_pending x \<inter> keep w\<rparr>) (dir w))"
| close: "directory_upkeep dir (close_directory u dir)"

section \<open>The tables as a directory\<close>

definition find_workspace :: "uuid \<Rightarrow> db \<Rightarrow> workspace_row option" where
  "find_workspace w d = find (\<lambda>r. ws_id r = w) (workspaces d)"

definition member_key :: "workspace_membership_row \<Rightarrow> uuid \<times> uuid" where
  "member_key m = (wm_workspace_id m, wm_user_id m)"

definition find_membership :: "uuid \<Rightarrow> uuid \<Rightarrow> db \<Rightarrow> workspace_membership_row option" where
  "find_membership w u d = find (\<lambda>m. member_key m = (w, u)) (workspace_memberships d)"

definition pending_tokens :: "uuid \<Rightarrow> db \<Rightarrow> bytes set" where
  "pending_tokens w d = {wi_token_digest i |i. i \<in> set (workspace_invitations d) \<and> wi_workspace_id i = w \<and> wi_status i = ''pending''}"

definition directory_of :: "db \<Rightarrow> directory" where
  "directory_of d = (\<lambda>w. map_option (\<lambda>r. \<lparr>sw_owner = ws_owner_user_id r, sw_name = ws_display_name r,
     sw_active = (ws_status r = ''active''), sw_revision = ws_revision r,
     sw_members = (\<lambda>u. map_option wm_role (find_membership w u d)), sw_pending = pending_tokens w d\<rparr>) (find_workspace w d))"

text \<open>What the keys and the foreign keys of the schema give.\<close>

definition workspace_keys :: "db \<Rightarrow> bool" where
  "workspace_keys d \<longleftrightarrow> distinct (map ws_id (workspaces d)) \<and> distinct (map member_key (workspace_memberships d))
     \<and> distinct (map wi_id (workspace_invitations d)) \<and> distinct (map wi_token_digest (workspace_invitations d))
     \<and> wm_workspace_id ` set (workspace_memberships d) \<subseteq> ws_id ` set (workspaces d)
     \<and> wi_workspace_id ` set (workspace_invitations d) \<subseteq> ws_id ` set (workspaces d)"

section \<open>What the specification keeps\<close>

definition shared_ok :: "Quotas \<Rightarrow> shared_workspace \<Rightarrow> bool" where
  "shared_ok q x \<longleftrightarrow> (\<forall>u. sw_members x u = Some RoleOwner \<longleftrightarrow> u = sw_owner x)
     \<and> ran (sw_members x) \<subseteq> {RoleOwner, RoleAdmin, RoleMember}
     \<and> finite (dom (sw_members x)) \<and> int (card (dom (sw_members x))) \<le> qt_Members q
     \<and> finite (sw_pending x) \<and> int (card (sw_pending x)) \<le> qt_PendingInvitations q
     \<and> (sw_active x \<or> sw_pending x = {}) \<and> 0 < sw_revision x"

definition directory_ok :: "Quotas \<Rightarrow> directory \<Rightarrow> bool" where
  "directory_ok q dir \<longleftrightarrow> finite (dom dir) \<and> (\<forall>w x. dir w = Some x \<longrightarrow> shared_ok q x)
     \<and> (\<forall>u. int (card (active_of u dir)) \<le> qt_ActiveOwned q)"

lemma active_of_dom: "active_of u dir \<subseteq> dom dir"
  by (auto simp: active_of_def)

lemma active_of_update:
  "active_of u (dir(w \<mapsto> x)) = (if sw_owner x = u \<and> sw_active x then insert w (active_of u dir) else active_of u dir - {w})"
  by (auto simp: active_of_def)

lemma directory_okD:
  assumes "directory_ok q dir"
  shows "finite (active_of u dir)" "dir w = Some x \<Longrightarrow> shared_ok q x" "int (card (active_of u dir)) \<le> qt_ActiveOwned q"
  using assms finite_subset [OF active_of_dom] by (auto simp: directory_ok_def)

lemma directory_ok_update:
  assumes "directory_ok q dir" "shared_ok q x"
    "sw_active x \<Longrightarrow> int (card (insert w (active_of (sw_owner x) dir))) \<le> qt_ActiveOwned q"
  shows "directory_ok q (dir(w \<mapsto> x))"
proof -
  have "int (card (active_of u (dir(w \<mapsto> x)))) \<le> qt_ActiveOwned q" for u
  proof (cases "sw_owner x = u \<and> sw_active x")
    case True
    then show ?thesis using assms(3) by (auto simp: active_of_update)
  next
    case False
    have "card (active_of u dir - {w}) \<le> card (active_of u dir)"
      by (intro card_mono directory_okD(1) [OF assms(1)]) auto
    with False directory_okD(3) [OF assms(1), of u] show ?thesis by (simp only: active_of_update) simp
  qed
  with assms show ?thesis by (auto simp: directory_ok_def)
qed

lemma directory_ok_change:
  assumes "directory_ok q dir" "dir w = Some x" "shared_ok q y" "sw_owner y = sw_owner x" "sw_active y \<Longrightarrow> sw_active x"
  shows "directory_ok q (dir(w \<mapsto> y))"
proof (rule directory_ok_update [OF assms(1,3)])
  assume "sw_active y"
  with assms have "w \<in> active_of (sw_owner y) dir" by (simp add: active_of_def)
  then show "int (card (insert w (active_of (sw_owner y) dir))) \<le> qt_ActiveOwned q"
    using directory_okD(3) [OF assms(1)] by (simp add: insert_absorb)
qed

lemma card_insert_bound: "int (card A) < n \<Longrightarrow> int (card (insert a A)) \<le> n"
  using card_insert_le_m1 [of "nat n" A a] by (cases "finite A") (auto simp: card_insert_if)

lemma shared_ok_members:
  assumes "shared_ok q x" "u \<noteq> sw_owner x" "r \<noteq> Some RoleOwner" "set_option r \<subseteq> {RoleAdmin, RoleMember}"
    "r \<noteq> None \<Longrightarrow> sw_members x u = None \<Longrightarrow> int (card (dom (sw_members x))) < qt_Members q"
  shows "shared_ok q (x\<lparr>sw_members := (sw_members x)(u := r)\<rparr>)"
proof -
  have ok: "finite (dom (sw_members x))" "int (card (dom (sw_members x))) \<le> qt_Members q"
    using assms(1) by (auto simp: shared_ok_def)
  have "int (card (dom ((sw_members x)(u := r)))) \<le> qt_Members q"
  proof (cases r)
    case None
    have "card (dom (sw_members x) - {u}) \<le> card (dom (sw_members x))" using ok(1) by (intro card_mono) auto
    with ok None show ?thesis by (simp only: dom_fun_upd) simp
  next
    case (Some a)
    with assms(5) ok card_insert_bound [of "dom (sw_members x)" "qt_Members q" u] show ?thesis
      by (cases "sw_members x u") (auto simp: insert_absorb domI)
  qed
  moreover have "ran ((sw_members x)(u := r)) \<subseteq> {RoleOwner, RoleAdmin, RoleMember}"
    using assms(1,4) by (auto simp: shared_ok_def ran_def split: if_splits)
  ultimately show ?thesis using assms(1-3) by (auto simp: shared_ok_def)
qed

lemma shared_ok_pending:
  assumes "shared_ok q x" "finite P" "int (card P) \<le> qt_PendingInvitations q" "sw_active x \<or> P = {}"
  shows "shared_ok q (x\<lparr>sw_pending := P\<rparr>)"
  using assms by (simp add: shared_ok_def)

lemma shared_ok_fewer:
  assumes "shared_ok q x" "P \<subseteq> sw_pending x"
  shows "shared_ok q (x\<lparr>sw_pending := P\<rparr>)"
proof -
  from assms have "finite (sw_pending x)" "int (card (sw_pending x)) \<le> qt_PendingInvitations q" by (auto simp: shared_ok_def)
  with assms card_mono [OF _ assms(2)] finite_subset [OF assms(2)] show ?thesis
    by (intro shared_ok_pending) (auto simp: shared_ok_def)
qed

lemma shared_ok_not_owner:
  "shared_ok q x \<Longrightarrow> sw_members x u \<noteq> Some RoleOwner \<Longrightarrow> u \<noteq> sw_owner x"
  by (simp add: shared_ok_def)

lemma role_names [simp]: "RoleAdmin \<noteq> RoleOwner" "RoleMember \<noteq> RoleOwner" "RoleOwner \<noteq> RoleAdmin" "RoleOwner \<noteq> RoleMember"
  by (simp_all add: workspace_constants)

lemma directory_ok_sub:
  assumes "directory_ok q dir" "\<And>w y. dir' w = Some y \<Longrightarrow> \<exists>x. dir w = Some x \<and> shared_ok q y \<and> sw_owner y = sw_owner x \<and> (sw_active y \<longrightarrow> sw_active x)"
  shows "directory_ok q dir'"
proof -
  have "dom dir' \<subseteq> dom dir" using assms(2) by blast
  moreover have sub: "active_of u dir' \<subseteq> active_of u dir" for u
    using assms(2) by (force simp: active_of_def)
  have "int (card (active_of u dir')) \<le> qt_ActiveOwned q" for u
    using card_mono [OF directory_okD(1) [OF assms(1)] sub, of u] directory_okD(3) [OF assms(1), of u] by simp
  ultimately show ?thesis
    using assms finite_subset by (auto simp: directory_ok_def)
qed

lemma directory_accept_ok:
  assumes "directory_accept q a t dir dir'" "directory_ok q dir"
  shows "directory_ok q dir'"
  using assms
proof induction
  case (join dir w x)
  then have ok: "shared_ok q x" by (blast intro: directory_okD)
  then have "a \<noteq> sw_owner x" by (rule shared_ok_not_owner) (use join in simp)
  with ok join(5) have "shared_ok q (x\<lparr>sw_members := (sw_members x)(a \<mapsto> RoleMember)\<rparr>)" by (intro shared_ok_members) auto
  then have "shared_ok q (x\<lparr>sw_members := (sw_members x)(a \<mapsto> RoleMember)\<rparr>\<lparr>sw_pending := sw_pending x - {t}\<rparr>)"
    by (rule shared_ok_fewer) auto
  then show ?case by (intro directory_ok_change [OF join(6,1)]) simp_all
next
  case (rejoin dir w x)
  then have "shared_ok q (x\<lparr>sw_pending := sw_pending x - {t}\<rparr>)" by (auto intro!: shared_ok_fewer intro: directory_okD)
  then show ?case by (rule directory_ok_change [OF rejoin(5,1)]) simp_all
qed

lemma directory_step_ok:
  assumes "directory_step q a drawn dir dir'" "directory_ok q dir" "valid_quotas q"
  shows "directory_ok q dir'"
  using assms
proof induction
  case (found dir w n)
  show ?case
    by (rule directory_ok_update [OF found(3)])
      (use found card_insert_bound in \<open>auto simp: shared_ok_def valid_quotas_def\<close>)
next
  case (rename dir w x n)
  show ?case
    by (rule directory_ok_change [OF rename(4,1)]) (use rename directory_okD(2) in \<open>fastforce simp: shared_ok_def\<close>)+
next
  case (archive dir w x)
  show ?case
    by (rule directory_ok_change [OF archive(4,1)])
      (use archive directory_okD(2) [OF archive(4,1)] in \<open>auto simp: shared_ok_def valid_quotas_def\<close>)
next
  case (restore dir w x)
  then have ok: "shared_ok q x" by (blast intro: directory_okD)
  then have "sw_owner x = a" using restore(3) by (auto simp: shared_ok_def)
  with ok restore card_insert_bound show ?case
    by (intro directory_ok_update) (auto simp: shared_ok_def)
next
  case (set_role dir w x u r r')
  then have ok: "shared_ok q x" by (blast intro: directory_okD)
  then have "u \<noteq> sw_owner x" by (rule shared_ok_not_owner) (use set_role in simp)
  with ok set_role have "shared_ok q (x\<lparr>sw_members := (sw_members x)(u \<mapsto> r')\<rparr>)"
    by (intro shared_ok_members) auto
  then show ?case by (rule directory_ok_change [OF set_role(7,1)]) simp_all
next
  case (drop dir w x ra u r)
  then have ok: "shared_ok q x" by (blast intro: directory_okD)
  then have "u \<noteq> sw_owner x" by (rule shared_ok_not_owner) (use drop in simp)
  with ok have "shared_ok q (x\<lparr>sw_members := (sw_members x)(u := None)\<rparr>)" by (intro shared_ok_members) auto
  then show ?case by (rule directory_ok_change [OF drop(7,1)]) simp_all
next
  case (invite dir w x P t)
  then have ok: "shared_ok q x" by (blast intro: directory_okD)
  have "finite P" using invite(4) ok by (auto simp: shared_ok_def intro: finite_subset)
  with ok invite(2,7) card_insert_bound have "shared_ok q (x\<lparr>sw_pending := insert t P\<rparr>)" by (intro shared_ok_pending) auto
  then show ?case by (rule directory_ok_change [OF invite(8,1)]) simp_all
next
  case (revoke dir w x t)
  then have "shared_ok q (x\<lparr>sw_pending := sw_pending x - {t}\<rparr>)" by (auto intro!: shared_ok_fewer intro: directory_okD)
  then show ?case by (rule directory_ok_change [OF revoke(5,1)]) simp_all
next
  case (accept t dir dir')
  then show ?case by (blast intro: directory_accept_ok)
qed

lemma directory_upkeep_ok:
  assumes "directory_upkeep dir dir'" "directory_ok q dir"
  shows "directory_ok q dir'"
  using assms
proof induction
  case (expire dir keep)
  show ?case
    by (rule directory_ok_sub [OF expire(1)]) (auto intro!: shared_ok_fewer intro: directory_okD(2) [OF expire(1)])
next
  case (close dir u)
  show ?case
  proof (rule directory_ok_sub [OF close(1)])
    fix w y assume "close_directory u dir w = Some y"
    then obtain x where x: "dir w = Some x" "sw_owner x \<noteq> u"
      "y = x\<lparr>sw_members := (\<lambda>v. if v = u \<and> sw_members x v \<noteq> Some RoleOwner then None else sw_members x v)\<rparr>"
      by (auto simp: close_directory_def split: option.splits if_splits)
    have ok: "shared_ok q x" using x(1) close(1) by (blast intro: directory_okD)
    with x(2) have "sw_members x u \<noteq> Some RoleOwner" by (auto simp: shared_ok_def)
    then have "y = x\<lparr>sw_members := (sw_members x)(u := None)\<rparr>" using x(3) by (auto simp: fun_eq_iff)
    moreover have "shared_ok q (x\<lparr>sw_members := (sw_members x)(u := None)\<rparr>)"
      using ok x(2) by (intro shared_ok_members) auto
    ultimately show "\<exists>x. dir w = Some x \<and> shared_ok q y \<and> sw_owner y = sw_owner x \<and> (sw_active y \<longrightarrow> sw_active x)"
      using x(1) by simp
  qed
qed

end
