(* ===== verification/WorkspaceTables.thy ===== *)
theory WorkspaceTables
  imports WorkspaceSpec
begin

text \<open>
  The commands of the workspace repository take steps of the specification: how the directory changes
  under the SQL statements, and from this that every transaction of \<open>repository.go\<close>, the maintenance
  and the end of an account are steps of the directory or leave it as it is.
\<close>

section \<open>The tables under the statements\<close>

lemma find_update_key:
  "(\<And>r. k (g r) = k r) \<Longrightarrow> find (\<lambda>r. k r = v) (update_where Q g t) = map_option (\<lambda>r. if Q r then g r else r) (find (\<lambda>r. k r = v) t)"
  by (induction t) auto

lemma find_delete_key:
  "distinct (map k t) \<Longrightarrow> find (\<lambda>r. k r = v) (delete_where Q t)
     = (case find (\<lambda>r. k r = v) t of None \<Rightarrow> None | Some r \<Rightarrow> if Q r then None else Some r)"
proof (induction t)
  case Nil
  then show ?case by (simp add: delete_where_def)
next
  case (Cons a t)
  show ?case
  proof (cases "k a = v")
    case True
    with Cons.prems have "\<forall>x\<in>set t. k x \<noteq> v" by (force simp: image_iff)
    then have "find (\<lambda>r. k r = v) (delete_where Q t) = None" by (auto simp: find_None delete_where_def)
    with True show ?thesis by (simp add: delete_where_def)
  next
    case False
    with Cons show ?thesis by (simp add: delete_where_def)
  qed
qed

lemma find_append: "find P (xs @ ys) = (case find P xs of None \<Rightarrow> find P ys | Some x \<Rightarrow> Some x)"
  by (induction xs) auto

lemma card_key_filter: "distinct (map k t) \<Longrightarrow> card {k r |r. r \<in> set t \<and> P r} = length (filter P t)"
proof -
  assume "distinct (map k t)"
  then have "distinct (map k (filter P t))" by (rule distinct_map_filter_key)
  then have "card (set (map k (filter P t))) = length (filter P t)" by (simp only: distinct_card length_map)
  then show ?thesis by (simp add: setcompr_eq_image Collect_conj_eq Int_def [symmetric])
qed

lemma filter_key_one: "distinct (map k t) \<Longrightarrow> m \<in> set t \<Longrightarrow> k m = v \<Longrightarrow> length (filter (\<lambda>r. k r = v) t) = 1"
proof -
  assume a: "distinct (map k t)" "m \<in> set t" "k m = v"
  have "{k r |r. r \<in> set t \<and> k r = v} = {v}" using a by auto
  with card_key_filter [OF a(1), of "\<lambda>r. k r = v"] show ?thesis by simp
qed

lemma find_membership_code:
  "find (\<lambda>m. wm_user_id m = u \<and> wm_workspace_id m = w) (workspace_memberships d) = find_membership w u d"
  "find (\<lambda>m. wm_workspace_id m = w \<and> wm_user_id m = u) (workspace_memberships d) = find_membership w u d"
  by (simp_all add: find_membership_def member_key_def conj_commute)

lemma find_workspace_code: "find (\<lambda>r. ws_id r = w) (workspaces d) = find_workspace w d"
  by (simp add: find_workspace_def)

lemma find_workspace_Some: "find_workspace w d = Some r \<Longrightarrow> r \<in> set (workspaces d) \<and> ws_id r = w"
  by (auto simp: find_workspace_def dest: find_Some_in)

lemma find_membership_Some:
  "find_membership w u d = Some m \<Longrightarrow> m \<in> set (workspace_memberships d) \<and> wm_workspace_id m = w \<and> wm_user_id m = u"
  by (auto simp: find_membership_def member_key_def dest: find_Some_in)

lemma find_membership_iff:
  "workspace_keys d \<Longrightarrow> find_membership w u d = Some m
     \<longleftrightarrow> m \<in> set (workspace_memberships d) \<and> wm_workspace_id m = w \<and> wm_user_id m = u"
  using find_key [of member_key "workspace_memberships d" m "(w, u)"] find_membership_Some [of w u d m]
  by (auto simp: find_membership_def member_key_def workspace_keys_def)

lemma find_workspace_iff:
  "workspace_keys d \<Longrightarrow> find_workspace w d = Some r \<longleftrightarrow> r \<in> set (workspaces d) \<and> ws_id r = w"
  using find_key [of ws_id "workspaces d" r w] find_workspace_Some [of w d r]
  by (auto simp: find_workspace_def workspace_keys_def)

lemma directory_of_Some:
  "find_workspace w d = Some r \<Longrightarrow> directory_of d w = Some \<lparr>sw_owner = ws_owner_user_id r, sw_name = ws_display_name r,
     sw_active = (ws_status r = ''active''), sw_revision = ws_revision r,
     sw_members = (\<lambda>u. map_option wm_role (find_membership w u d)), sw_pending = pending_tokens w d\<rparr>"
  by (simp add: directory_of_def)

lemma active_of_directory:
  assumes "workspace_keys d"
  shows "card (active_of u (directory_of d)) = active_owned u d"
proof -
  have "active_of u (directory_of d) = {ws_id r |r. r \<in> set (workspaces d) \<and> (ws_owner_user_id r = u \<and> ws_status r = ''active'')}"
    using find_workspace_iff [OF assms] by (force simp: active_of_def directory_of_def)
  also have "card \<dots> = active_owned u d"
    unfolding active_owned_def by (rule card_key_filter) (use assms in \<open>simp add: workspace_keys_def\<close>)
  finally show ?thesis .
qed

lemma card_members:
  assumes "workspace_keys d"
  shows "card (dom (\<lambda>u. map_option wm_role (find_membership w u d))) = length (memberships_of w d)"
proof -
  let ?k = "\<lambda>m. wm_user_id m"
  have "dom (\<lambda>u. map_option wm_role (find_membership w u d)) = set (map ?k (memberships_of w d))"
    using find_membership_iff [OF assms] by (force simp: memberships_of_def dom_def)
  moreover have "distinct (map ?k (memberships_of w d))"
    using assms unfolding workspace_keys_def memberships_of_def distinct_map
    by (force simp: inj_on_def member_key_def)
  ultimately show ?thesis by (metis distinct_card length_map)
qed

lemma card_pending:
  assumes "workspace_keys d"
  shows "card (pending_tokens w d) = pending_invitations w d"
  unfolding pending_tokens_def pending_invitations_def
  by (rule card_key_filter [where k = wi_token_digest]) (use assms in \<open>simp add: workspace_keys_def\<close>)

section \<open>Commands take steps of the specification\<close>

definition implements :: "(directory \<Rightarrow> directory \<Rightarrow> bool) \<Rightarrow> db \<Rightarrow> db \<Rightarrow> bool" where
  "implements step d d' \<longleftrightarrow> workspace_keys d' \<and> (directory_of d' = directory_of d \<or> step (directory_of d) (directory_of d'))"

lemma implements_same: "workspace_keys d \<Longrightarrow> implements step d d"
  by (simp add: implements_def)

lemma other_tables [simp]:
  "directory_of (d\<lparr>audit_events := es\<rparr>) = directory_of d" "workspace_keys (d\<lparr>audit_events := es\<rparr>) = workspace_keys d"
  "directory_of (d\<lparr>workspace_idempotency_records := rs\<rparr>) = directory_of d"
  "workspace_keys (d\<lparr>workspace_idempotency_records := rs\<rparr>) = workspace_keys d"
  by (simp_all add: directory_of_def workspace_keys_def find_workspace_def find_membership_def pending_tokens_def)

lemma implements_audited [simp]: "implements step d (d'\<lparr>audit_events := es\<rparr>) = implements step d d'"
  by (simp add: implements_def)

lemma implements_recorded [simp]: "implements step d (d'\<lparr>workspace_idempotency_records := rs\<rparr>) = implements step d d'"
  by (simp add: implements_def)

lemma recordWorkspaceAudit_Inr:
  assumes "recordWorkspaceAudit lb fails actor evidence t w at md d = Inr d'"
  obtains es where "d' = d\<lparr>audit_events := audit_events d @ es\<rparr>"
proof -
  from assms obtain x where "Record_event (wl_lower lb) (wl_uuid_parse lb) fails None at
      (workspace_event actor evidence t w at md) d = (x, d')" "x = None"
    by (auto simp: recordWorkspaceAudit_def split: prod.splits option.splits)
  then show thesis
    by (cases rule: Record_event_cases) (auto dest!: insert_audit_Some(1) intro: that)
qed

lemma insertOperationIdempotency_Inr:
  assumes "insertOperationIdempotency fails actor w op ev rt ri at d = Inr d'"
  obtains rs where "d' = d\<lparr>workspace_idempotency_records := rs\<rparr>"
  using assms that by (auto simp: insertOperationIdempotency_def insert_workspace_idempotency_def split: if_splits)

text \<open>The workspace an actor may see, as the repository reads it and as the directory has it.\<close>

lemma loadWorkspace_Inr:
  assumes "loadWorkspace fails actor i d = Inr w"
  obtains r m where "find_workspace i d = Some r" "find_membership i (act_UserID actor) d = Some m"
    "wk_ID w = i" "wk_ActorRole w = wm_role m" "wk_Status w = ws_status r" "wk_Revision w = ws_revision r"
    "wk_UpdatedAt w = ws_updated_at r" "ws_status r \<in> {''active'', ''archived''}" "owner_matches r d"
proof -
  from assms obtain m r own where j: "workspace_join (act_UserID actor) i d = Some (m, r, own)"
    and s: "scanWorkspace d m r own = Inr w"
    by (auto simp: loadWorkspace_def split: if_splits option.splits)
  have f: "find_workspace i d = Some r" "find_membership i (act_UserID actor) d = Some m"
    using j by (auto simp: workspace_join_def find_membership_code find_workspace_code split: option.splits)
  from s show thesis using find_workspace_Some [OF f(1)]
    by (intro that [OF f]) (auto simp: scanWorkspace_def NormalizeWorkspace_def ParseWorkspaceStatus_def workspace_constants
        split: if_splits option.splits)
qed

lemma directory_of_loaded:
  assumes "loadWorkspace fails actor i d = Inr w"
  obtains x where "directory_of d i = Some x" "sw_members x (act_UserID actor) = Some (wk_ActorRole w)"
    "sw_active x \<longleftrightarrow> wk_Status w \<noteq> WorkspaceStatusArchived" "sw_revision x = wk_Revision w"
  using assms
proof (cases rule: loadWorkspace_Inr)
  case (1 r m)
  then show thesis by (intro that [OF directory_of_Some [OF 1(1)]]) (auto simp: workspace_constants)
qed

lemma image_of_map: "k ` set t = set (map k t)"
  by simp

lemma keys_after_update:
  "map ws_id ws = map ws_id (workspaces d) \<Longrightarrow> workspace_keys (d\<lparr>workspaces := ws\<rparr>) = workspace_keys d"
  "map member_key ms = map member_key (workspace_memberships d) \<Longrightarrow> workspace_keys (d\<lparr>workspace_memberships := ms\<rparr>) = workspace_keys d"
  "map wi_id is = map wi_id (workspace_invitations d) \<Longrightarrow> map wi_token_digest is = map wi_token_digest (workspace_invitations d)
     \<Longrightarrow> map wi_workspace_id is = map wi_workspace_id (workspace_invitations d)
     \<Longrightarrow> workspace_keys (d\<lparr>workspace_invitations := is\<rparr>) = workspace_keys d"
proof -
  show "workspace_keys (d\<lparr>workspaces := ws\<rparr>) = workspace_keys d" if "map ws_id ws = map ws_id (workspaces d)"
    using that by (simp add: workspace_keys_def image_of_map del: set_map)
  show "workspace_keys (d\<lparr>workspace_memberships := ms\<rparr>) = workspace_keys d"
    if k: "map member_key ms = map member_key (workspace_memberships d)"
  proof -
    have "map (fst \<circ> member_key) ms = map (fst \<circ> member_key) (workspace_memberships d)"
      using arg_cong [OF k, of "map fst"] by simp
    then have "map wm_workspace_id ms = map wm_workspace_id (workspace_memberships d)" by (simp add: member_key_def comp_def)
    with k show ?thesis by (simp add: workspace_keys_def image_of_map del: set_map)
  qed
  show "workspace_keys (d\<lparr>workspace_invitations := is\<rparr>) = workspace_keys d"
    if "map wi_id is = map wi_id (workspace_invitations d)" "map wi_token_digest is = map wi_token_digest (workspace_invitations d)"
      "map wi_workspace_id is = map wi_workspace_id (workspace_invitations d)"
    using that by (simp add: workspace_keys_def image_of_map del: set_map)
qed

lemma directory_of_revise:
  assumes "find_workspace i d = Some r" "ws_revision r = e" "\<And>r. ws_id (g r) = ws_id r"
  shows "directory_of (d\<lparr>workspaces := update_where (\<lambda>r. ws_id r = i \<and> ws_revision r = e) g (workspaces d)\<rparr>)
    = (directory_of d)(i \<mapsto> \<lparr>sw_owner = ws_owner_user_id (g r), sw_name = ws_display_name (g r),
        sw_active = (ws_status (g r) = ''active''), sw_revision = ws_revision (g r),
        sw_members = (\<lambda>u. map_option wm_role (find_membership i u d)), sw_pending = pending_tokens i d\<rparr>)"
proof
  fix w
  let ?d = "d\<lparr>workspaces := update_where (\<lambda>r. ws_id r = i \<and> ws_revision r = e) g (workspaces d)\<rparr>"
  have f: "find_workspace w ?d = map_option (\<lambda>r. if ws_id r = i \<and> ws_revision r = e then g r else r) (find_workspace w d)"
    using assms(3) by (simp add: find_workspace_def find_update_key [where k = ws_id])
  have same: "find_membership w u ?d = find_membership w u d" "pending_tokens w ?d = pending_tokens w d" for u
    by (simp_all add: find_membership_def pending_tokens_def)
  show "directory_of ?d w = ((directory_of d)(i \<mapsto> \<lparr>sw_owner = ws_owner_user_id (g r), sw_name = ws_display_name (g r),
        sw_active = (ws_status (g r) = ''active''), sw_revision = ws_revision (g r),
        sw_members = (\<lambda>u. map_option wm_role (find_membership i u d)), sw_pending = pending_tokens i d\<rparr>)) w"
    unfolding directory_of_def f same using assms(1,2) find_workspace_Some [of w d]
    by (cases "w = i"; cases "find_workspace w d") auto
qed

lemma directory_of_members:
  assumes "directory_of d i = Some x"
    "\<And>w u. map_option wm_role (find (\<lambda>m. member_key m = (w, u)) ms)
       = (if w = i \<and> u = v then role else map_option wm_role (find_membership w u d))"
  shows "directory_of (d\<lparr>workspace_memberships := ms\<rparr>) = (directory_of d)(i \<mapsto> x\<lparr>sw_members := (sw_members x)(v := role)\<rparr>)"
proof
  fix w
  let ?d = "d\<lparr>workspace_memberships := ms\<rparr>"
  have "(\<lambda>u. map_option wm_role (find_membership w u ?d))
      = (if w = i then (\<lambda>u. map_option wm_role (find_membership w u d))(v := role) else (\<lambda>u. map_option wm_role (find_membership w u d)))"
    using assms(2) by (auto simp: find_membership_def)
  moreover have "find_workspace w ?d = find_workspace w d" "pending_tokens w ?d = pending_tokens w d"
    by (simp_all add: find_workspace_def pending_tokens_def)
  ultimately show "directory_of ?d w = ((directory_of d)(i \<mapsto> x\<lparr>sw_members := (sw_members x)(v := role)\<rparr>)) w"
    using assms(1) by (auto simp: directory_of_def)
qed

lemma directory_of_pending:
  assumes "directory_of d i = Some x" "\<And>w. w \<noteq> i \<Longrightarrow> pending_tokens w (d\<lparr>workspace_invitations := is\<rparr>) = pending_tokens w d"
  shows "directory_of (d\<lparr>workspace_invitations := is\<rparr>)
    = (directory_of d)(i \<mapsto> x\<lparr>sw_pending := pending_tokens i (d\<lparr>workspace_invitations := is\<rparr>)\<rparr>)"
proof
  fix w
  let ?d = "d\<lparr>workspace_invitations := is\<rparr>"
  have "find_workspace w ?d = find_workspace w d" "find_membership w u ?d = find_membership w u d" for u
    by (simp_all add: find_workspace_def find_membership_def)
  with assms show "directory_of ?d w = ((directory_of d)(i \<mapsto> x\<lparr>sw_pending := pending_tokens i ?d\<rparr>)) w"
    by (auto simp: directory_of_def)
qed

lemma revise_workspace_Inr:
  assumes "revise_workspace fails i e g d = Inr d'"
  shows "d' = d\<lparr>workspaces := update_where (\<lambda>r. ws_id r = i \<and> ws_revision r = e)
      (\<lambda>r. (g r)\<lparr>ws_revision := ws_revision r + 1\<rparr>) (workspaces d)\<rparr>"
  using assms by (auto simp: revise_workspace_def Let_def split: if_splits)

lemma keys_after_revise:
  assumes "\<And>r. ws_id (g r) = ws_id r"
  shows "workspace_keys (d\<lparr>workspaces := update_where P g (workspaces d)\<rparr>) = workspace_keys d"
  by (intro keys_after_update(1) map_update_where assms)

lemma rename_implements:
  assumes k: "workspace_keys d" and "RenameWorkspace_record lb f actor c d = (x, d')"
  shows "implements (directory_step q (act_UserID actor) drawn) d d'"
  using assms(2) unfolding RenameWorkspace_record_def
proof (cases rule: returning_cases)
  case failed
  with k show ?thesis by (simp add: implements_same)
next
  case (committed v)
  then obtain n w d1 d2 where w: "loadWorkspace (f 2) actor (rn_WorkspaceID c) d = Inr w"
    "wk_Status w \<noteq> WorkspaceStatusArchived" "wk_ActorRole w = RoleOwner \<or> wk_ActorRole w = RoleAdmin" "wk_Revision w = rn_ExpectedRevision c"
    and r: "revise_workspace (f 3) (rn_WorkspaceID c) (rn_ExpectedRevision c)
         (\<lambda>x. x\<lparr>ws_display_name := n, ws_updated_at := rn_UpdatedAt c\<rparr>) d = Inr d1"
    and a: "recordWorkspaceAudit lb (f 4) actor (rn_Audit c) ''workspace_renamed'' (rn_WorkspaceID c) (rn_UpdatedAt c)
         [id_entry ''workspace_id'' (rn_WorkspaceID c)] d1 = Inr d2" and d2: "d' = d2"
    by (auto simp: andthen_Inr)
  from a obtain es where d': "d' = d1\<lparr>audit_events := audit_events d1 @ es\<rparr>" unfolding d2 by (rule recordWorkspaceAudit_Inr)
  from w(1) show ?thesis
  proof (cases rule: loadWorkspace_Inr)
    case (1 row m)
    show ?thesis
      unfolding d' implements_audited revise_workspace_Inr [OF r]
      using k 1 w directory_step.rename [where dir = "directory_of d", OF directory_of_Some [OF 1(1)], where a = "act_UserID actor" and q = q and n = n and drawn = drawn]
      by (simp add: implements_def keys_after_revise directory_of_revise [OF 1(1)] workspace_constants)
  qed
qed

lemma pending_after:
  "pending_tokens w (d\<lparr>workspace_invitations := is\<rparr>) = {wi_token_digest i |i. i \<in> set is \<and> wi_workspace_id i = w \<and> wi_status i = ''pending''}"
  by (simp add: pending_tokens_def)

lemma pending_snoc:
  "pending_tokens w (d\<lparr>workspace_invitations := workspace_invitations d @ [n]\<rparr>)
    = (if wi_workspace_id n = w \<and> wi_status n = ''pending'' then insert (wi_token_digest n) (pending_tokens w d) else pending_tokens w d)"
  unfolding pending_tokens_def setcompr_eq_image by (auto simp: Collect_disj_eq conj_disj_distribR)

lemma pending_update:
  assumes "\<And>i. wi_token_digest (g i) = wi_token_digest i" "\<And>i. wi_workspace_id (g i) = wi_workspace_id i"
    "\<And>i. Q i \<Longrightarrow> wi_status (g i) \<noteq> ''pending''"
  shows "pending_tokens w (d\<lparr>workspace_invitations := update_where Q g (workspace_invitations d)\<rparr>)
    = {wi_token_digest i |i. i \<in> set (workspace_invitations d) \<and> wi_workspace_id i = w \<and> wi_status i = ''pending'' \<and> \<not> Q i}"
proof -
  have "pending_tokens w (d\<lparr>workspace_invitations := update_where Q g (workspace_invitations d)\<rparr>)
     = wi_token_digest ` {j \<in> set (update_where Q g (workspace_invitations d)). wi_workspace_id j = w \<and> wi_status j = ''pending''}"
    by (auto simp: pending_after)
  also have "{j \<in> set (update_where Q g (workspace_invitations d)). wi_workspace_id j = w \<and> wi_status j = ''pending''}
     = {i \<in> set (workspace_invitations d). wi_workspace_id i = w \<and> wi_status i = ''pending'' \<and> \<not> Q i}"
    using assms by (fastforce simp: set_update_where split: if_splits)
  finally show ?thesis by auto
qed

lemma keys_after_invitations:
  assumes "\<And>i. wi_token_digest (g i) = wi_token_digest i" "\<And>i. wi_workspace_id (g i) = wi_workspace_id i" "\<And>i. wi_id (g i) = wi_id i"
  shows "workspace_keys (d\<lparr>workspace_invitations := update_where Q g (workspace_invitations d)\<rparr>) = workspace_keys d"
  by (intro keys_after_update(3) map_update_where assms)

lemma archive_implements:
  assumes k: "workspace_keys d" and "ArchiveWorkspace_record lb f actor c d = (x, d')"
  shows "implements (directory_step q (act_UserID actor) drawn) d d'"
  using assms(2) unfolding ArchiveWorkspace_record_def
proof (cases rule: returning_cases)
  case failed
  with k show ?thesis by (simp add: implements_same)
next
  case (committed v)
  let ?i = "rv_WorkspaceID c"
  define revoked where "revoked ts = update_where (\<lambda>i. wi_workspace_id i = ?i \<and> wi_status i = ''pending'')
      (\<lambda>i. i\<lparr>wi_status := ''revoked'', wi_revoked_at := Some (rv_ChangedAt c)\<rparr>) ts" for ts :: "workspace_invitation_row list"
  from committed obtain w d1 d2 where w: "loadWorkspace (f 2) actor ?i d = Inr w"
    "wk_Status w \<noteq> WorkspaceStatusArchived" "wk_ActorRole w = RoleOwner" "wk_Revision w = rv_ExpectedRevision c"
    and r: "revise_workspace (f 3) ?i (rv_ExpectedRevision c)
         (\<lambda>x. x\<lparr>ws_status := ''archived'', ws_updated_at := rv_ChangedAt c, ws_archived_at := Some (rv_ChangedAt c)\<rparr>) d = Inr d1"
    and a: "recordWorkspaceAudit lb (f 5) actor (rv_Audit c) ''workspace_archived'' ?i (rv_ChangedAt c)
         [id_entry ''workspace_id'' ?i] (d1\<lparr>workspace_invitations := revoked (workspace_invitations d1)\<rparr>) = Inr d2" and d2: "d' = d2"
    unfolding revoked_def by (auto simp: andthen_Inr)
  from a obtain es where d': "d' = d1\<lparr>workspace_invitations := revoked (workspace_invitations d1), audit_events := es\<rparr>"
    unfolding d2 by (rule recordWorkspaceAudit_Inr) simp
  from w(1) show ?thesis
  proof (cases rule: loadWorkspace_Inr)
    case (1 row m)
    note step = directory_step.archive [where dir = "directory_of d", OF directory_of_Some [OF 1(1)], where a = "act_UserID actor" and q = q and drawn = drawn]
    have d1: "workspace_keys d1" "directory_of d1 = (directory_of d)(?i \<mapsto> \<lparr>sw_owner = ws_owner_user_id row, sw_name = ws_display_name row,
        sw_active = False, sw_revision = ws_revision row + 1,
        sw_members = (\<lambda>u. map_option wm_role (find_membership ?i u d)), sw_pending = pending_tokens ?i d\<rparr>)"
      unfolding revise_workspace_Inr [OF r]
      using k 1 w by (simp_all add: keys_after_revise directory_of_revise [OF 1(1)])
    have p: "pending_tokens ?i (d1\<lparr>workspace_invitations := revoked (workspace_invitations d1)\<rparr>) = {}"
      "w' \<noteq> ?i \<Longrightarrow> pending_tokens w' (d1\<lparr>workspace_invitations := revoked (workspace_invitations d1)\<rparr>) = pending_tokens w' d1" for w'
      unfolding revoked_def by (simp_all add: pending_update) (auto simp: pending_tokens_def)
    have "directory_of (d1\<lparr>workspace_invitations := revoked (workspace_invitations d1)\<rparr>)
        = (directory_of d)(?i \<mapsto> \<lparr>sw_owner = ws_owner_user_id row, sw_name = ws_display_name row, sw_active = False,
            sw_revision = ws_revision row + 1, sw_members = (\<lambda>u. map_option wm_role (find_membership ?i u d)), sw_pending = {}\<rparr>)"
      by (subst directory_of_pending [OF _ p(2)]) (auto simp: d1(2) p(1))
    moreover have "workspace_keys (d1\<lparr>workspace_invitations := revoked (workspace_invitations d1)\<rparr>)"
      unfolding revoked_def using d1(1) by (subst keys_after_invitations) auto
    ultimately show ?thesis
      unfolding d' implements_audited using step 1 w by (simp add: implements_def workspace_constants)
  qed
qed

lemma restore_implements:
  assumes k: "workspace_keys d" and "RestoreWorkspace_record lb f actor c d = (x, d')"
    and q: "rv_ActiveOwnedLimit c = qt_ActiveOwned q"
  shows "implements (directory_step q (act_UserID actor) drawn) d d'"
  using assms(2) unfolding RestoreWorkspace_record_def
proof (cases rule: returning_cases)
  case failed
  with k show ?thesis by (simp add: implements_same)
next
  case (committed v)
  let ?i = "rv_WorkspaceID c"
  from committed obtain w d1 d2 where w: "loadWorkspace (f 2) actor ?i d = Inr w"
    "wk_Status w = WorkspaceStatusArchived" "wk_ActorRole w = RoleOwner" "wk_Revision w = rv_ExpectedRevision c"
    and limit: "int (active_owned (act_UserID actor) d) < rv_ActiveOwnedLimit c"
    and r: "revise_workspace (f 5) ?i (rv_ExpectedRevision c)
         (\<lambda>x. x\<lparr>ws_status := ''active'', ws_updated_at := rv_ChangedAt c, ws_archived_at := None\<rparr>) d = Inr d1"
    and a: "recordWorkspaceAudit lb (f 6) actor (rv_Audit c) ''workspace_restored'' ?i (rv_ChangedAt c)
         [id_entry ''workspace_id'' ?i] d1 = Inr d2" and d2: "d' = d2"
    by (auto simp: andthen_Inr)
  from a obtain es where d': "d' = d1\<lparr>audit_events := es\<rparr>" unfolding d2 by (rule recordWorkspaceAudit_Inr)
  from w(1) show ?thesis
  proof (cases rule: loadWorkspace_Inr)
    case (1 row m)
    have "ws_status row \<noteq> ''active''" using 1 w by (auto simp: workspace_constants)
    then show ?thesis
      unfolding d' implements_audited revise_workspace_Inr [OF r]
      using k 1 w limit q directory_step.restore [where dir = "directory_of d", OF directory_of_Some [OF 1(1)], where a = "act_UserID actor" and q = q and drawn = drawn]
      by (simp add: implements_def keys_after_revise directory_of_revise [OF 1(1)] active_of_directory [OF k] workspace_constants)
  qed
qed

lemma findMember_Inr:
  assumes "findMember fails w u d = Inr (Some t)"
  obtains m where "find_membership w u d = Some m" "mb_Role t = wm_role m" "mb_Revision t = wm_revision m"
  using assms by (auto simp: findMember_def scanMember_def find_membership_code andthen_Inr present_def split: if_splits option.splits intro: that)

lemma loadMember_Inr:
  assumes "loadMember fails w u d = Inr t"
  obtains m where "find_membership w u d = Some m" "mb_Role t = wm_role m" "mb_Revision t = wm_revision m"
  using assms by (auto simp: loadMember_def andthen_Inr elim: findMember_Inr intro: that)

lemma keys_after_removal:
  assumes "workspace_keys d"
  shows "workspace_keys (d\<lparr>workspace_memberships := delete_where Q (workspace_memberships d)\<rparr>)"
  using assms by (auto simp: workspace_keys_def delete_where_def distinct_map_filter_key)

text \<open>Changing or deleting the one membership a statement hits.\<close>

lemma change_membership:
  assumes "directory_of d w = Some x" "find_membership w u d = Some m" "Q m" "\<And>m. Q m \<Longrightarrow> member_key m = (w, u)"
    "\<And>m. member_key (g m) = member_key m"
  shows "directory_of (d\<lparr>workspace_memberships := update_where Q g (workspace_memberships d)\<rparr>)
    = (directory_of d)(w \<mapsto> x\<lparr>sw_members := (sw_members x)(u \<mapsto> wm_role (g m))\<rparr>)"
proof (rule directory_of_members [OF assms(1)])
  fix w' u'
  have "find (\<lambda>m. member_key m = (w', u')) (update_where Q g (workspace_memberships d))
      = map_option (\<lambda>m. if Q m then g m else m) (find_membership w' u' d)"
    unfolding find_membership_def by (rule find_update_key) (rule assms(5))
  moreover have "m' = m \<and> w' = w \<and> u' = u" if "find_membership w' u' d = Some m'" "Q m'" for m'
    using that assms(2,4) find_membership_Some [OF that(1)] by (auto simp: member_key_def)
  ultimately show "map_option wm_role (find (\<lambda>m. member_key m = (w', u')) (update_where Q g (workspace_memberships d)))
      = (if w' = w \<and> u' = u then Some (wm_role (g m)) else map_option wm_role (find_membership w' u' d))"
    using assms(2,3) by (cases "find_membership w' u' d") auto
qed

lemma delete_membership:
  assumes "workspace_keys d" "directory_of d w = Some x" "find_membership w u d = Some m" "Q m" "\<And>m. Q m \<Longrightarrow> member_key m = (w, u)"
  shows "directory_of (d\<lparr>workspace_memberships := delete_where Q (workspace_memberships d)\<rparr>)
    = (directory_of d)(w \<mapsto> x\<lparr>sw_members := (sw_members x)(u := None)\<rparr>)"
proof (rule directory_of_members [OF assms(2)])
  fix w' u'
  have "find (\<lambda>m. member_key m = (w', u')) (delete_where Q (workspace_memberships d))
      = (case find_membership w' u' d of None \<Rightarrow> None | Some r \<Rightarrow> if Q r then None else Some r)"
    unfolding find_membership_def by (rule find_delete_key) (use assms(1) in \<open>simp add: workspace_keys_def\<close>)
  moreover have "w' = w \<and> u' = u" if "find_membership w' u' d = Some m'" "Q m'" for m'
    using that assms(5) find_membership_Some [OF that(1)] by (auto simp: member_key_def)
  ultimately show "map_option wm_role (find (\<lambda>m. member_key m = (w', u')) (delete_where Q (workspace_memberships d)))
      = (if w' = w \<and> u' = u then None else map_option wm_role (find_membership w' u' d))"
    using assms(3,4) by (cases "find_membership w' u' d") auto
qed

lemma directory_member:
  "directory_of d w = Some x \<Longrightarrow> sw_members x u = map_option wm_role (find_membership w u d)"
  by (auto simp: directory_of_def)

lemma change_role_implements:
  assumes k: "workspace_keys d" and "ChangeMemberRole_record lb f actor c d = (x, d')"
  shows "implements (directory_step q (act_UserID actor) drawn) d d'"
  using assms(2) unfolding ChangeMemberRole_record_def Let_def
proof (cases rule: returning_cases)
  case failed
  with k show ?thesis by (simp add: implements_same)
next
  case (committed v)
  let ?hit = "\<lambda>m. wm_workspace_id m = cm_WorkspaceID c \<and> wm_user_id m = cm_UserID c \<and> wm_revision m = cm_ExpectedRevision c"
  let ?d = "d\<lparr>workspace_memberships := update_where ?hit (\<lambda>m. m\<lparr>wm_role := cm_Role c, wm_revision := wm_revision m + 1\<rparr>)
      (workspace_memberships d)\<rparr>"
  from committed obtain w t d2 where w: "validChangeRoleCommand actor c" "loadWorkspace (f 2) actor (cm_WorkspaceID c) d = Inr w"
    "wk_Status w \<noteq> WorkspaceStatusArchived" "wk_ActorRole w = RoleOwner"
    and t: "loadMember (f 3) (cm_WorkspaceID c) (cm_UserID c) d = Inr t" "mb_Role t \<noteq> RoleOwner" "mb_Revision t = cm_ExpectedRevision c"
    and a: "recordWorkspaceAudit lb (f 5) actor (cm_Audit c) ''workspace_member_role_changed'' (cm_WorkspaceID c) (cm_ChangedAt c)
         [id_entry ''workspace_id'' (cm_WorkspaceID c), id_entry ''membership_user_id'' (cm_UserID c),
          (''role'', cm_Role c), (''previous_role'', mb_Role t)] ?d = Inr d2" and d2: "d' = d2"
    by (auto simp: andthen_Inr)
  from a obtain es where d': "d' = ?d\<lparr>audit_events := es\<rparr>" unfolding d2 by (rule recordWorkspaceAudit_Inr)
  from t(1) obtain m where m: "find_membership (cm_WorkspaceID c) (cm_UserID c) d = Some m" "mb_Role t = wm_role m" "mb_Revision t = wm_revision m"
    by (rule loadMember_Inr)
  from w(2) obtain x where x: "directory_of d (cm_WorkspaceID c) = Some x" "sw_members x (act_UserID actor) = Some (wk_ActorRole w)"
    "sw_active x \<longleftrightarrow> wk_Status w \<noteq> WorkspaceStatusArchived" by (rule directory_of_loaded)
  have "directory_of ?d = (directory_of d)(cm_WorkspaceID c \<mapsto> x\<lparr>sw_members := (sw_members x)(cm_UserID c \<mapsto> cm_Role c)\<rparr>)"
    by (subst change_membership [OF x(1) m(1)]) (use m t find_membership_Some [OF m(1)] in \<open>auto simp: member_key_def\<close>)
  moreover have "directory_step q (act_UserID actor) drawn (directory_of d)
      ((directory_of d)(cm_WorkspaceID c \<mapsto> x\<lparr>sw_members := (sw_members x)(cm_UserID c \<mapsto> cm_Role c)\<rparr>))"
    by (rule directory_step.set_role [where dir = "directory_of d", OF x(1)])
      (use x w t m directory_member [OF x(1)] in \<open>auto simp: validChangeRoleCommand_def\<close>)
  moreover have "workspace_keys ?d"
    using k by (subst keys_after_update(2)) (auto intro: map_update_where simp: member_key_def)
  ultimately show ?thesis unfolding d' implements_audited by (simp add: implements_def)
qed

lemma remove_implements:
  assumes k: "workspace_keys d" and "RemoveMember_record lb f actor c d = (x, d')"
  shows "implements (directory_step q (act_UserID actor) drawn) d d'"
  using assms(2) unfolding RemoveMember_record_def Let_def
proof (cases rule: returning_cases)
  case failed
  with k show ?thesis by (simp add: implements_same)
next
  case (committed v)
  let ?hit = "\<lambda>m. wm_workspace_id m = rm_WorkspaceID c \<and> wm_user_id m = rm_UserID c \<and> wm_revision m = rm_ExpectedRevision c"
  let ?d = "d\<lparr>workspace_memberships := delete_where ?hit (workspace_memberships d)\<rparr>"
  from committed obtain w t d2 where w: "loadWorkspace (f 2) actor (rm_WorkspaceID c) d = Inr w"
    "wk_Status w \<noteq> WorkspaceStatusArchived" "wk_ActorRole w = RoleOwner \<or> wk_ActorRole w = RoleAdmin"
    and t: "loadMember (f 3) (rm_WorkspaceID c) (rm_UserID c) d = Inr t" "mb_Revision t = rm_ExpectedRevision c"
      "\<not> (mb_Role t = RoleOwner \<or> (wk_ActorRole w = RoleAdmin \<and> mb_Role t \<noteq> RoleMember))"
    and a: "recordWorkspaceAudit lb (f 5) actor (rm_Audit c) ''workspace_member_removed'' (rm_WorkspaceID c) (rm_RemovedAt c)
         [id_entry ''workspace_id'' (rm_WorkspaceID c), id_entry ''membership_user_id'' (rm_UserID c), (''role'', mb_Role t)] ?d = Inr d2"
    and d2: "d' = d2"
    by (auto simp: andthen_Inr)
  from a obtain es where d': "d' = ?d\<lparr>audit_events := es\<rparr>" unfolding d2 by (rule recordWorkspaceAudit_Inr)
  from t(1) obtain m where m: "find_membership (rm_WorkspaceID c) (rm_UserID c) d = Some m" "mb_Role t = wm_role m" "mb_Revision t = wm_revision m"
    by (rule loadMember_Inr)
  from w(1) obtain x where x: "directory_of d (rm_WorkspaceID c) = Some x" "sw_members x (act_UserID actor) = Some (wk_ActorRole w)"
    "sw_active x \<longleftrightarrow> wk_Status w \<noteq> WorkspaceStatusArchived" by (rule directory_of_loaded)
  have "directory_of ?d = (directory_of d)(rm_WorkspaceID c \<mapsto> x\<lparr>sw_members := (sw_members x)(rm_UserID c := None)\<rparr>)"
    by (rule delete_membership [OF k x(1) m(1)]) (use m t find_membership_Some [OF m(1)] in \<open>auto simp: member_key_def\<close>)
  moreover have "directory_step q (act_UserID actor) drawn (directory_of d)
      ((directory_of d)(rm_WorkspaceID c \<mapsto> x\<lparr>sw_members := (sw_members x)(rm_UserID c := None)\<rparr>))"
    by (rule directory_step.drop [where dir = "directory_of d", OF x(1)]) (use x w t m directory_member [OF x(1)] in auto)
  ultimately show ?thesis
    unfolding d' implements_audited using keys_after_removal [OF k] by (simp add: implements_def)
qed

lemma leave_implements:
  assumes k: "workspace_keys d" and "LeaveWorkspace_record lb f draw now actor i d = (x, d')"
  shows "implements (directory_step q (act_UserID actor) drawn) d d'"
  using assms(2) unfolding LeaveWorkspace_record_def Let_def
proof (cases rule: returning_cases)
  case failed
  with k show ?thesis by (simp add: implements_same)
next
  case (committed v)
  let ?d = "d\<lparr>workspace_memberships := delete_where (\<lambda>m. wm_workspace_id m = i \<and> wm_user_id m = act_UserID actor) (workspace_memberships d)\<rparr>"
  from committed obtain w e d2 where w: "loadWorkspace (f 2) actor i d = Inr w"
    "wk_Status w \<noteq> WorkspaceStatusArchived" "wk_ActorRole w \<noteq> RoleOwner"
    and a: "recordWorkspaceAudit lb (f 4) actor \<lparr>aud_EventID = e, aud_RequestID = []\<rparr> ''workspace_member_left'' i now
         [id_entry ''workspace_id'' i, id_entry ''membership_user_id'' (act_UserID actor), (''role'', wk_ActorRole w)] ?d = Inr d2"
    and d2: "d' = d2"
    by (auto simp: andthen_Inr)
  from a obtain es where d': "d' = ?d\<lparr>audit_events := es\<rparr>" unfolding d2 by (rule recordWorkspaceAudit_Inr)
  from w(1) obtain x where x: "directory_of d i = Some x" "sw_members x (act_UserID actor) = Some (wk_ActorRole w)"
    "sw_active x \<longleftrightarrow> wk_Status w \<noteq> WorkspaceStatusArchived" by (rule directory_of_loaded)
  then obtain m where m: "find_membership i (act_UserID actor) d = Some m" by (auto simp: directory_member)
  have "directory_of ?d = (directory_of d)(i \<mapsto> x\<lparr>sw_members := (sw_members x)(act_UserID actor := None)\<rparr>)"
    by (rule delete_membership [OF k x(1) m]) (use find_membership_Some [OF m] in \<open>auto simp: member_key_def\<close>)
  moreover have "directory_step q (act_UserID actor) drawn (directory_of d)
      ((directory_of d)(i \<mapsto> x\<lparr>sw_members := (sw_members x)(act_UserID actor := None)\<rparr>))"
    by (rule directory_step.drop [where dir = "directory_of d", OF x(1)]) (use x w in auto)
  ultimately show ?thesis
    unfolding d' implements_audited using keys_after_removal [OF k] by (simp add: implements_def)
qed

lemma pending_iff:
  "directory_of d w = Some x \<Longrightarrow> sw_pending x = pending_tokens w d"
  by (auto simp: directory_of_def)

lemma pending_token_key:
  assumes "workspace_keys d" "i \<in> set (workspace_invitations d)" "j \<in> set (workspace_invitations d)" "wi_token_digest i = wi_token_digest j"
  shows "i = j"
  using assms by (auto simp: workspace_keys_def intro: distinct_key_eq)

text \<open>Settling the one invitation with an identifier takes its token out of the pending ones.\<close>

lemma settle_invitation:
  assumes k: "workspace_keys d" and i: "i \<in> set (workspace_invitations d)" "wi_status i = ''pending''"
    and w: "directory_of d (wi_workspace_id i) = Some x"
    and g: "\<And>i. wi_token_digest (g i) = wi_token_digest i" "\<And>i. wi_workspace_id (g i) = wi_workspace_id i"
      "\<And>i. wi_id (g i) = wi_id i" "\<And>i. wi_status (g i) \<noteq> ''pending''"
  shows "directory_of (d\<lparr>workspace_invitations := update_where (\<lambda>j. wi_id j = wi_id i) g (workspace_invitations d)\<rparr>)
      = (directory_of d)(wi_workspace_id i \<mapsto> x\<lparr>sw_pending := sw_pending x - {wi_token_digest i}\<rparr>)"
    "workspace_keys (d\<lparr>workspace_invitations := update_where (\<lambda>j. wi_id j = wi_id i) g (workspace_invitations d)\<rparr>)"
    "wi_token_digest i \<in> sw_pending x"
proof -
  let ?d = "d\<lparr>workspace_invitations := update_where (\<lambda>j. wi_id j = wi_id i) g (workspace_invitations d)\<rparr>"
  have one: "j = i" if "j \<in> set (workspace_invitations d)" "wi_id j = wi_id i" for j
    using that i(1) k by (auto simp: workspace_keys_def intro: distinct_key_eq)
  have p: "pending_tokens v ?d = {wi_token_digest j |j. j \<in> set (workspace_invitations d) \<and> wi_workspace_id j = v \<and> wi_status j = ''pending'' \<and> wi_id j \<noteq> wi_id i}" for v
    using g by (intro pending_update) auto
  have "pending_tokens v ?d = pending_tokens v d" if "v \<noteq> wi_workspace_id i" for v
    unfolding p unfolding pending_tokens_def using that one by auto
  moreover have "pending_tokens (wi_workspace_id i) ?d = pending_tokens (wi_workspace_id i) d - {wi_token_digest i}"
    unfolding p unfolding pending_tokens_def using one pending_token_key [OF k _ i(1)] by auto
  ultimately show "directory_of ?d = (directory_of d)(wi_workspace_id i \<mapsto> x\<lparr>sw_pending := sw_pending x - {wi_token_digest i}\<rparr>)"
    by (subst directory_of_pending [OF w]) (auto simp: pending_iff [OF w])
  show "workspace_keys ?d" using g k by (subst keys_after_invitations) auto
  show "wi_token_digest i \<in> sw_pending x" using i by (auto simp: pending_iff [OF w] pending_tokens_def)
qed

lemma revoke_implements:
  assumes k: "workspace_keys d" and "RevokeInvitation_record lb f actor c d = (x, d')"
  shows "implements (directory_step q (act_UserID actor) drawn) d d'"
  using assms(2) unfolding RevokeInvitation_record_def
proof (cases rule: returning_cases)
  case failed
  with k show ?thesis by (simp add: implements_same)
next
  case (committed v)
  let ?g = "\<lambda>i. i\<lparr>wi_status := ''revoked'', wi_revoked_at := Some (ri_RevokedAt c)\<rparr>"
  let ?d = "d\<lparr>workspace_invitations := update_where (\<lambda>i. wi_id i = ri_InvitationID c) ?g (workspace_invitations d)\<rparr>"
  from committed obtain w d2 where w: "loadWorkspace (f 2) actor (ri_WorkspaceID c) d = Inr w"
    "wk_Status w \<noteq> WorkspaceStatusArchived" "wk_ActorRole w = RoleOwner \<or> wk_ActorRole w = RoleAdmin"
    and i: "case find (\<lambda>i. wi_id i = ri_InvitationID c \<and> wi_workspace_id i = ri_WorkspaceID c) (workspace_invitations d) of
           None \<Rightarrow> False | Some i \<Rightarrow> wi_status i = InvitationStatusPending"
    and a: "recordWorkspaceAudit lb (f 5) actor (ri_Audit c) ''workspace_invitation_revoked'' (ri_WorkspaceID c) (ri_RevokedAt c)
         [id_entry ''workspace_id'' (ri_WorkspaceID c), id_entry ''invitation_id'' (ri_InvitationID c)] ?d = Inr d2" and d2: "d' = d2"
    by (auto simp: andthen_Inr)
  from a obtain es where d': "d' = ?d\<lparr>audit_events := es\<rparr>" unfolding d2 by (rule recordWorkspaceAudit_Inr)
  from i obtain i where i: "i \<in> set (workspace_invitations d)" "wi_status i = ''pending''" "wi_id i = ri_InvitationID c" "wi_workspace_id i = ri_WorkspaceID c"
    by (auto simp: invitation_statuses split: option.splits dest: find_Some_in)
  from w(1) obtain x where x: "directory_of d (ri_WorkspaceID c) = Some x" "sw_members x (act_UserID actor) = Some (wk_ActorRole w)"
    "sw_active x \<longleftrightarrow> wk_Status w \<noteq> WorkspaceStatusArchived" by (rule directory_of_loaded)
  note settled = settle_invitation [OF k i(1,2) x(1) [folded i(4)], of ?g, simplified, unfolded i(3,4)]
  have "directory_step q (act_UserID actor) drawn (directory_of d)
      ((directory_of d)(ri_WorkspaceID c \<mapsto> x\<lparr>sw_pending := sw_pending x - {wi_token_digest i}\<rparr>))"
    by (rule directory_step.revoke [where dir = "directory_of d", OF x(1)]) (use x w settled(3) in auto)
  then show ?thesis unfolding d' implements_audited using settled by (simp add: implements_def)
qed

lemma invite_implements:
  assumes k: "workspace_keys d" and "CreateInvitation_record lb f now actor c d = (x, d')"
    and q: "ci_PendingInviteLimit c = qt_PendingInvitations q" "drawn = Some (is_Digest (ci_Secret c))"
  shows "implements (directory_step q (act_UserID actor) drawn) d d'"
  using assms(2) unfolding CreateInvitation_record_def Let_def
proof (cases rule: returning_cases)
  case failed
  with k show ?thesis by (simp add: implements_same)
next
  case (committed v)
  let ?w = "ci_WorkspaceID c" and ?t = "is_Digest (ci_Secret c)"
  let ?d1 = "expire_invitations ?w (ci_CreatedAt c) d"
  let ?new = "\<lparr>wi_id = ci_InvitationID c, wi_workspace_id = ?w, wi_token_digest = ?t,
     wi_created_by_user_id = Some (act_UserID actor), wi_status = ''pending'', wi_accepted_by_user_id = None,
     wi_created_at = ci_CreatedAt c, wi_expires_at = ci_CreatedAt c + 7 * 24 * hour, wi_accepted_at = None, wi_revoked_at = None\<rparr>"
  from committed(2) consider "d' = d"
    | w d2 d3 where "loadWorkspace (f 2) actor ?w d = Inr w"
    "wk_Status w \<noteq> WorkspaceStatusArchived" "wk_ActorRole w = RoleOwner \<or> wk_ActorRole w = RoleAdmin"
    "int (pending_invitations ?w ?d1) < ci_PendingInviteLimit c" "insert_workspace_invitation ?new ?d1 = Some d2"
    "insertOperationIdempotency (f 8) actor ?w operationInvitationCreate (ci_Idempotency c)
             ''workspace_invitation'' (ci_InvitationID c) (ci_CreatedAt c) d2 = Inr d3"
    "recordWorkspaceAudit lb (f 9) actor (ci_Audit c) ''workspace_invitation_created'' ?w (ci_CreatedAt c)
             [id_entry ''workspace_id'' ?w, id_entry ''invitation_id'' (ci_InvitationID c)] d3 = Inr d'"
    by (auto simp: andthen_Inr split: option.splits)
  then show ?thesis
  proof cases
    case 1
    with k show ?thesis by (simp add: implements_same)
  next
    case (2 w d2 d3)
    from 2(6) obtain rs where d3: "d3 = d2\<lparr>workspace_idempotency_records := rs\<rparr>" by (rule insertOperationIdempotency_Inr)
    from 2(7) obtain es where d': "d' = d3\<lparr>audit_events := es\<rparr>" by (rule recordWorkspaceAudit_Inr)
    from 2(1) obtain x where x: "directory_of d ?w = Some x" "sw_members x (act_UserID actor) = Some (wk_ActorRole w)"
      "sw_active x \<longleftrightarrow> wk_Status w \<noteq> WorkspaceStatusArchived" by (rule directory_of_loaded)
    have k1: "workspace_keys ?d1" unfolding expire_invitations_def using k by (subst keys_after_invitations) auto
    have p1: "pending_tokens ?w ?d1 \<subseteq> sw_pending x" "v \<noteq> ?w \<Longrightarrow> pending_tokens v ?d1 = pending_tokens v d" for v
      unfolding expire_invitations_def by (simp_all add: pending_update pending_iff [OF x(1)]) (auto simp: pending_tokens_def)
    have d2: "d2 = ?d1\<lparr>workspace_invitations := workspace_invitations ?d1 @ [?new]\<rparr>"
      and fresh: "ci_InvitationID c \<notin> wi_id ` set (workspace_invitations ?d1)" "?t \<notin> wi_token_digest ` set (workspace_invitations ?d1)"
        "?w \<in> ws_id ` set (workspaces ?d1)"
      using 2(5) by (auto simp: insert_workspace_invitation_def exists_row_iff split: if_splits intro: rev_image_eqI)
    have k2: "workspace_keys d2" unfolding d2 using k1 fresh by (auto simp: workspace_keys_def)
    have split: "d2 = d\<lparr>workspace_invitations := workspace_invitations d2\<rparr>" unfolding d2 by (simp add: expire_invitations_def)
    have p2: "pending_tokens v d2 = (if v = ?w then insert ?t (pending_tokens v ?d1) else pending_tokens v ?d1)" for v
      unfolding d2 pending_snoc by simp
    have "directory_of d2 = (directory_of d)(?w \<mapsto> x\<lparr>sw_pending := insert ?t (pending_tokens ?w ?d1)\<rparr>)"
      by (subst split, subst directory_of_pending [OF x(1)]) (simp_all add: split [symmetric] p2 p1(2))
    moreover have "wi_token_digest ` set (workspace_invitations ?d1) = wi_token_digest ` set (workspace_invitations d)"
      unfolding image_of_map expire_invitations_def by (simp add: map_update_where del: set_map)
    then have "\<forall>y\<in>ran (directory_of d). ?t \<notin> sw_pending y"
      using fresh(2) by (auto simp: ran_def directory_of_def pending_tokens_def)
    then have "directory_step q (act_UserID actor) drawn (directory_of d) ((directory_of d)(?w \<mapsto> x\<lparr>sw_pending := insert ?t (pending_tokens ?w ?d1)\<rparr>))"
      by (intro directory_step.invite [where dir = "directory_of d", OF x(1)])
        (use x 2 q p1(1) card_pending [OF k1] in auto)
    ultimately show ?thesis unfolding d' d3 implements_audited implements_recorded using k2 by (simp add: implements_def)
  qed
qed

lemma insert_membership_Some:
  assumes "insert_workspace_membership r d = Some d'"
  shows "d' = d\<lparr>workspace_memberships := workspace_memberships d @ [r]\<rparr>" "member_key r \<notin> member_key ` set (workspace_memberships d)"
    "wm_workspace_id r \<in> ws_id ` set (workspaces d)"
  using assms by (auto simp: insert_workspace_membership_def exists_row_iff member_key_def split: if_splits intro: rev_image_eqI)

lemma add_membership:
  assumes "workspace_keys d" "insert_workspace_membership r d = Some d'"
  shows "workspace_keys d'" "find_membership (wm_workspace_id r) (wm_user_id r) d = None"
    "directory_of d (wm_workspace_id r) = Some x \<Longrightarrow>
       directory_of d' = (directory_of d)(wm_workspace_id r \<mapsto> x\<lparr>sw_members := (sw_members x)(wm_user_id r \<mapsto> wm_role r)\<rparr>)"
proof -
  note ins = insert_membership_Some [OF assms(2)]
  show "workspace_keys d'" using assms(1) ins by (auto simp: workspace_keys_def)
  show none: "find_membership (wm_workspace_id r) (wm_user_id r) d = None"
    using ins(2) unfolding find_membership_def find_None member_key_def [of r, symmetric] by (auto intro: rev_image_eqI)
  show "directory_of d' = (directory_of d)(wm_workspace_id r \<mapsto> x\<lparr>sw_members := (sw_members x)(wm_user_id r \<mapsto> wm_role r)\<rparr>)"
    if "directory_of d (wm_workspace_id r) = Some x"
    unfolding ins(1)
  proof (rule directory_of_members [OF that])
    fix w u
    show "map_option wm_role (find (\<lambda>m. member_key m = (w, u)) (workspace_memberships d @ [r]))
      = (if w = wm_workspace_id r \<and> u = wm_user_id r then Some (wm_role r) else map_option wm_role (find_membership w u d))"
      using none by (auto simp: find_append find_membership_def [symmetric] member_key_def [of r] split: option.splits)
  qed
qed

lemma open_invitation_Some:
  assumes "open_invitation t at d = Some i"
  obtains r where "i \<in> set (workspace_invitations d)" "wi_token_digest i = t" "wi_status i = ''pending''" "at < wi_expires_at i"
    "find_workspace (wi_workspace_id i) d = Some r" "ws_status r = ''active''"
  using assms by (auto simp: open_invitation_def find_workspace_code invitation_statuses workspace_constants
      split: option.splits if_splits dest: find_Some_in intro: that)

lemma accept_implements:
  assumes k: "workspace_keys d" and "AcceptInvitation_record lb f actor c d = (x, d')" and q: "ai_MemberLimit c = qt_Members q"
  shows "implements (directory_accept q (act_UserID actor) (ai_TokenDigest c)) d d'"
  using assms(2) unfolding AcceptInvitation_record_def
proof (cases rule: returning_cases)
  case failed
  with k show ?thesis by (simp add: implements_same)
next
  case (committed v)
  let ?u = "act_UserID actor"
  let ?g = "\<lambda>x. x\<lparr>wi_status := ''accepted'', wi_accepted_by_user_id := Some ?u, wi_accepted_at := Some (ai_AcceptedAt c)\<rparr>"
  from committed(2) consider "d' = d"
    | i found member d1 d2 where "open_invitation (ai_TokenDigest c) (ai_AcceptedAt c) d = Some i"
      "findMember (f 5) (wi_workspace_id i) ?u d = Inr found"
      "join_workspace (later 6 f) (wi_workspace_id i) ?u (ai_MemberLimit c) (ai_AcceptedAt c) found d = Inr (member, d1)"
      "insertOperationIdempotency (f 10) actor (wi_workspace_id i) operationInvitationAccept (ai_Idempotency c)
         ''workspace_membership'' ?u (ai_AcceptedAt c)
         (d1\<lparr>workspace_invitations := update_where (\<lambda>x. wi_id x = wi_id i) ?g (workspace_invitations d1)\<rparr>) = Inr d2"
      "recordWorkspaceAudit lb (f 11) actor (ai_Audit c) ''workspace_invitation_accepted'' (wi_workspace_id i) (ai_AcceptedAt c)
             [id_entry ''workspace_id'' (wi_workspace_id i), id_entry ''invitation_id'' (wi_id i),
              id_entry ''membership_user_id'' ?u, (''role'', mb_Role member)] d2 = Inr d'"
    by (auto simp: andthen_Inr split: option.splits)
  then show ?thesis
  proof cases
    case 1
    with k show ?thesis by (simp add: implements_same)
  next
    case (2 i found member d1 d2)
    let ?w = "wi_workspace_id i"
    from 2(4) obtain rs where d2: "d2 = d1\<lparr>workspace_invitations := update_where (\<lambda>x. wi_id x = wi_id i) ?g (workspace_invitations d1),
        workspace_idempotency_records := rs\<rparr>" by (rule insertOperationIdempotency_Inr)
    from 2(5) obtain es where d': "d' = d2\<lparr>audit_events := es\<rparr>" by (rule recordWorkspaceAudit_Inr)
    from 2(1) obtain r where i: "i \<in> set (workspace_invitations d)" "wi_status i = ''pending''" and t: "ai_TokenDigest c = wi_token_digest i"
      and r: "find_workspace ?w d = Some r" "ws_status r = ''active''" by (rule open_invitation_Some) simp
    from directory_of_Some [OF r(1)] obtain x where x: "directory_of d ?w = Some x" "sw_active x" using r(2) by simp
    show ?thesis
    proof (cases found)
      case None
      let ?m = "\<lparr>wm_workspace_id = ?w, wm_user_id = ?u, wm_role = ''member'', wm_revision = 1, wm_joined_at = ai_AcceptedAt c\<rparr>"
      have m: "insert_workspace_membership ?m d = Some d1" "int (length (memberships_of ?w d)) < ai_MemberLimit c"
        using 2(3) None by (auto simp: join_workspace_def andthen_Inr)
      note added = add_membership [OF k m(1), simplified]
      have i1: "i \<in> set (workspace_invitations d1)" using i(1) insert_membership_Some(1) [OF m(1)] by simp
      let ?y = "x\<lparr>sw_members := (sw_members x)(?u \<mapsto> ''member'')\<rparr>"
      have x1: "directory_of d1 = (directory_of d)(?w \<mapsto> ?y)" by (rule added(3) [OF x(1)])
      then have y: "directory_of d1 ?w = Some ?y" by simp
      note settled = settle_invitation [OF added(1) i1 i(2) y, of ?g, simplified]
      have "directory_accept q (act_UserID actor) (wi_token_digest i) (directory_of d) ((directory_of d)(?w \<mapsto>
          x\<lparr>sw_members := (sw_members x)(?u \<mapsto> RoleMember), sw_pending := sw_pending x - {wi_token_digest i}\<rparr>))"
      proof (rule directory_accept.join [where dir = "directory_of d", OF x])
        show "wi_token_digest i \<in> sw_pending x" using settled(3) by simp
        show "sw_members x ?u = None" using added(2) by (simp add: directory_member [OF x(1)])
        have "sw_members x = (\<lambda>u. map_option wm_role (find_membership ?w u d))" using directory_member [OF x(1)] by auto
        then show "int (card (dom (sw_members x))) < qt_Members q" using m(2) q card_members [OF k, of ?w] by simp
      qed
      then show ?thesis
        unfolding d' d2 t implements_audited implements_recorded using settled(1,2) x1
        by (simp add: implements_def workspace_constants)
    next
      case (Some t)
      then have d1: "d1 = d" using 2(3) by (simp add: join_workspace_def)
      from 2(2) Some obtain m where "find_membership ?w ?u d = Some m" by (auto elim: findMember_Inr)
      then have in_ws: "sw_members x ?u \<noteq> None" by (simp add: directory_member [OF x(1)])
      note settled = settle_invitation [OF k i x(1), of ?g, simplified]
      have "directory_accept q (act_UserID actor) (wi_token_digest i) (directory_of d) ((directory_of d)(?w \<mapsto> x\<lparr>sw_pending := sw_pending x - {wi_token_digest i}\<rparr>))"
        by (rule directory_accept.rejoin [where dir = "directory_of d", OF x settled(3) in_ws])
      then show ?thesis
        unfolding d' d2 d1 t implements_audited implements_recorded using settled(1,2) by (simp add: implements_def)
    qed
  qed
qed

lemma insert_workspace_Some:
  assumes "insert_workspace r d = Some d'"
  shows "d' = d\<lparr>workspaces := workspaces d @ [r]\<rparr>" "ws_id r \<notin> ws_id ` set (workspaces d)"
  using assms by (auto simp: insert_workspace_def exists_key_iff split: if_splits)

lemma keys_references:
  assumes "workspace_keys d"
  shows "m \<in> set (workspace_memberships d) \<Longrightarrow> wm_workspace_id m \<in> ws_id ` set (workspaces d)"
    "i \<in> set (workspace_invitations d) \<Longrightarrow> wi_workspace_id i \<in> ws_id ` set (workspaces d)"
  using assms by (auto simp: workspace_keys_def)

lemma directory_of_new:
  assumes "workspace_keys d" "insert_workspace r d = Some d'"
  shows "workspace_keys d'" "directory_of d (ws_id r) = None"
    "directory_of d' = (directory_of d)(ws_id r \<mapsto> \<lparr>sw_owner = ws_owner_user_id r, sw_name = ws_display_name r,
       sw_active = (ws_status r = ''active''), sw_revision = ws_revision r, sw_members = Map.empty, sw_pending = {}\<rparr>)"
proof -
  note ins = insert_workspace_Some [OF assms(2)]
  show "workspace_keys d'" using assms(1) ins by (auto simp: workspace_keys_def)
  have none: "find_workspace (ws_id r) d = None" using ins(2) unfolding find_workspace_def find_None by (auto intro: rev_image_eqI)
  then show "directory_of d (ws_id r) = None" by (simp add: directory_of_def)
  have empty: "find_membership (ws_id r) u d = None" "pending_tokens (ws_id r) d = {}" for u
    using ins(2) keys_references [OF assms(1)] by (auto simp: find_membership_def find_None member_key_def pending_tokens_def) metis+
  have f: "find_workspace w d' = (if w = ws_id r then Some r else find_workspace w d)" for w
    unfolding ins(1) using none by (auto simp: find_workspace_def find_append split: option.splits)
  have "find_membership w u d' = find_membership w u d" "pending_tokens w d' = pending_tokens w d" for w u
    unfolding ins(1) by (simp_all add: find_membership_def pending_tokens_def)
  with empty f show "directory_of d' = (directory_of d)(ws_id r \<mapsto> \<lparr>sw_owner = ws_owner_user_id r, sw_name = ws_display_name r,
       sw_active = (ws_status r = ''active''), sw_revision = ws_revision r, sw_members = Map.empty, sw_pending = {}\<rparr>)"
    by (auto simp: directory_of_def fun_eq_iff)
qed

lemma create_implements:
  assumes k: "workspace_keys d" and "CreateWorkspace_record lb f actor c d = (x, d')" and q: "cc_ActiveOwnedLimit c = qt_ActiveOwned q"
  shows "implements (directory_step q (act_UserID actor) drawn) d d'"
  using assms(2) unfolding CreateWorkspace_record_def
proof (cases rule: returning_cases)
  case failed
  with k show ?thesis by (simp add: implements_same)
next
  case (committed v)
  let ?u = "act_UserID actor" and ?w = "cc_WorkspaceID c"
  from committed(2) consider "d' = d"
    | n d1 where "int (active_owned ?u d) < cc_ActiveOwnedLimit c" "new_workspace_rows (later 5 f) actor c n d = Inr d1"
      "recordWorkspaceAudit lb (f 8) actor (cc_Audit c) ''workspace_created'' ?w (cc_CreatedAt c) [id_entry ''workspace_id'' ?w] d1 = Inr d'"
    by (auto simp: andthen_Inr split: option.splits)
  then show ?thesis
  proof cases
    case 1
    with k show ?thesis by (simp add: implements_same)
  next
    case (2 n d1)
    let ?r = "\<lparr>ws_id = ?w, ws_owner_user_id = ?u, ws_display_name = n, ws_status = ''active'', ws_revision = 1,
       ws_created_at = cc_CreatedAt c, ws_updated_at = cc_CreatedAt c, ws_archived_at = None\<rparr>"
    let ?m = "\<lparr>wm_workspace_id = ?w, wm_user_id = ?u, wm_role = ''owner'', wm_revision = 1, wm_joined_at = cc_CreatedAt c\<rparr>"
    from 2(2) obtain e1 e2 where e: "insert_workspace ?r d = Some e1" "insert_workspace_membership ?m e1 = Some e2"
      "insertOperationIdempotency (f 7) actor ?w operationWorkspaceCreate (cc_Idempotency c) ''workspace'' ?w (cc_CreatedAt c) e2 = Inr d1"
      by (auto simp: new_workspace_rows_def andthen_Inr)
    from e(3) obtain rs where d1: "d1 = e2\<lparr>workspace_idempotency_records := rs\<rparr>" by (rule insertOperationIdempotency_Inr)
    from 2(3) obtain es where d': "d' = d1\<lparr>audit_events := es\<rparr>" by (rule recordWorkspaceAudit_Inr)
    note new = directory_of_new [OF k e(1), simplified]
    then have at: "directory_of e1 ?w = Some \<lparr>sw_owner = ?u, sw_name = n, sw_active = True, sw_revision = 1, sw_members = Map.empty, sw_pending = {}\<rparr>"
      by simp
    note added = add_membership [OF new(1) e(2), simplified]
    have "directory_step q (act_UserID actor) drawn (directory_of d) (directory_of e2)"
      unfolding added(3) [OF at] new(3) using directory_step.found [where dir = "directory_of d", OF new(2), where a = ?u and q = q and n = n and drawn = drawn] 2(1) q
      by (simp add: active_of_directory [OF k] RoleOwner_def)
    with added(1) show ?thesis unfolding d' d1 implements_audited implements_recorded by (simp add: implements_def)
  qed
qed

text \<open>Maintenance and closing an account.\<close>

lemma expire_some:
  assumes k: "workspace_keys d"
  shows "implements directory_upkeep d (d\<lparr>workspace_invitations := update_where Q (\<lambda>i. i\<lparr>wi_status := ''expired''\<rparr>) (workspace_invitations d)\<rparr>)"
proof -
  let ?d = "d\<lparr>workspace_invitations := update_where Q (\<lambda>i. i\<lparr>wi_status := ''expired''\<rparr>) (workspace_invitations d)\<rparr>"
  have "pending_tokens w ?d \<subseteq> pending_tokens w d" for w
    by (simp add: pending_update) (auto simp: pending_tokens_def)
  then have "pending_tokens w ?d = pending_tokens w d \<inter> pending_tokens w ?d" for w by blast
  then have "directory_of ?d = (\<lambda>w. map_option (\<lambda>x. x\<lparr>sw_pending := sw_pending x \<inter> pending_tokens w ?d\<rparr>) (directory_of d w))"
    by (auto simp: directory_of_def fun_eq_iff find_workspace_def find_membership_def option.map_comp comp_def)
  moreover have "workspace_keys ?d" using k by (subst keys_after_invitations) auto
  ultimately show ?thesis by (simp add: implements_def directory_upkeep.expire)
qed

lemma expire_due_implements: "workspace_keys d \<Longrightarrow> implements directory_upkeep d (expire_due_invitations locked now d)"
  unfolding expire_due_invitations_def Let_def by (rule expire_some)

lemma purge_implements: "workspace_keys d \<Longrightarrow> implements directory_upkeep d (purge_workspace_idempotency collate locked now d)"
  unfolding purge_workspace_idempotency_def Let_def by (simp add: implements_same)

lemma owned_workspaces_set: "set (owned_workspaces u d) = {ws_id r |r. r \<in> set (workspaces d) \<and> ws_owner_user_id r = u}"
  by (auto simp: owned_workspaces_def)

definition invitation_core :: "workspace_invitation_row \<Rightarrow> bytes \<times> uuid \<times> bytes" where
  "invitation_core i = (wi_token_digest i, wi_workspace_id i, wi_status i)"

lemma pending_core: "pending_tokens w d = {t. (t, w, ''pending'') \<in> invitation_core ` set (workspace_invitations d)}"
  by (auto simp: pending_tokens_def invitation_core_def)

lemma keys_after_delete:
  assumes "workspace_keys d"
  shows "workspace_keys (delete_workspaces ids d)"
  using assms keys_references [OF assms]
  by (auto simp: workspace_keys_def delete_workspaces_def delete_where_def distinct_map_filter_key)

lemma keys_after_leave:
  assumes "workspace_keys d"
  shows "workspace_keys (leave_workspaces u d)"
proof -
  have "workspace_keys (d\<lparr>workspace_memberships := delete_where Q (workspace_memberships d),
      workspace_invitations := update_where P (\<lambda>i. i\<lparr>wi_created_by_user_id := clear_user u (wi_created_by_user_id i),
         wi_accepted_by_user_id := clear_user u (wi_accepted_by_user_id i)\<rparr>) (workspace_invitations d)\<rparr>)" for P Q
    using keys_after_removal [OF assms, of Q]
      keys_after_invitations [of "\<lambda>i. i\<lparr>wi_created_by_user_id := clear_user u (wi_created_by_user_id i),
         wi_accepted_by_user_id := clear_user u (wi_accepted_by_user_id i)\<rparr>" P "d\<lparr>workspace_memberships := delete_where Q (workspace_memberships d)\<rparr>"]
    by simp
  then show ?thesis unfolding leave_workspaces_def by (simp add: workspace_keys_def)
qed

lemma close_implements:
  assumes k: "workspace_keys d"
  shows "implements directory_upkeep d (close_workspaces u d)"
proof -
  let ?d = "close_workspaces u d" and ?own = "set (owned_workspaces u d)"
  let ?clear = "\<lambda>i. i\<lparr>wi_created_by_user_id := clear_user u (wi_created_by_user_id i), wi_accepted_by_user_id := clear_user u (wi_accepted_by_user_id i)\<rparr>"
  have ws: "workspaces ?d = delete_where (\<lambda>w. ws_id w \<in> ?own) (workspaces d)"
    and ms: "workspace_memberships ?d = delete_where (\<lambda>m. wm_workspace_id m \<in> ?own \<or> wm_user_id m = u \<and> wm_role m \<noteq> ''owner'') (workspace_memberships d)"
    and inv: "workspace_invitations ?d = delete_where (\<lambda>i. wi_workspace_id i \<in> ?own)
        (update_where (\<lambda>i. wi_created_by_user_id i = Some u \<or> wi_accepted_by_user_id i = Some u) ?clear (workspace_invitations d))"
    by (auto simp: close_workspaces_def delete_workspaces_def leave_workspaces_def delete_where_def intro: filter_cong)
  have own: "w \<in> ?own \<longleftrightarrow> (\<exists>r. find_workspace w d = Some r \<and> ws_owner_user_id r = u)" for w
    using find_workspace_iff [OF k] by (auto simp: owned_workspaces_set)
  have keys: "workspace_keys ?d" using k by (simp add: close_workspaces_def keys_after_delete keys_after_leave)
  have dk: "distinct (map ws_id (workspaces d))" "distinct (map member_key (workspace_memberships d))"
    using k by (auto simp: workspace_keys_def)
  have "find_workspace w ?d = (case find_workspace w d of None \<Rightarrow> None | Some r \<Rightarrow> if ws_id r \<in> ?own then None else Some r)" for w
    unfolding find_workspace_def ws by (rule find_delete_key [OF dk(1)])
  then have fw: "find_workspace w ?d = (if w \<in> ?own then None else find_workspace w d)" for w
    using find_workspace_Some [of w d] by (cases "find_workspace w d") auto
  have "find_membership w v ?d = (case find_membership w v d of None \<Rightarrow> None
      | Some m \<Rightarrow> if wm_workspace_id m \<in> ?own \<or> wm_user_id m = u \<and> wm_role m \<noteq> ''owner'' then None else Some m)" for w v
    unfolding find_membership_def ms by (rule find_delete_key [OF dk(2)])
  then have fm: "find_membership w v ?d = (case find_membership w v d of None \<Rightarrow> None
      | Some m \<Rightarrow> if v = u \<and> wm_role m \<noteq> ''owner'' then None else Some m)" if "w \<notin> ?own" for w v
    using that find_membership_Some [of w v d] by (cases "find_membership w v d") auto
  have p: "pending_tokens w ?d = pending_tokens w d" if "w \<notin> ?own" for w
  proof -
    let ?is = "update_where (\<lambda>i. wi_created_by_user_id i = Some u \<or> wi_accepted_by_user_id i = Some u) ?clear (workspace_invitations d)"
    have "map invitation_core ?is = map invitation_core (workspace_invitations d)"
      by (intro map_update_where) (simp add: invitation_core_def)
    then have "invitation_core ` set ?is = invitation_core ` set (workspace_invitations d)" by (simp add: image_of_map del: set_map)
    moreover have "pending_tokens w ?d = {t. (t, w, ''pending'') \<in> invitation_core ` set ?is}"
      using that unfolding pending_core inv by (auto simp: set_delete_where invitation_core_def)
    ultimately show ?thesis by (simp add: pending_core)
  qed
  have "directory_of ?d = close_directory u (directory_of d)"
  proof
    fix w
    show "directory_of ?d w = close_directory u (directory_of d) w"
    proof (cases "find_workspace w d")
      case None
      then show ?thesis by (simp add: directory_of_def close_directory_def fw)
    next
      case (Some r)
      then show ?thesis
        using own [of w] fm [of w] p [of w]
        by (auto simp: directory_of_def close_directory_def fw RoleOwner_def fun_eq_iff split: option.splits)
    qed
  qed
  with keys show ?thesis by (simp add: implements_def directory_upkeep.close)
qed

end
