(* ===== verification/WorkspaceSamples.thy ===== *)
theory WorkspaceSamples
  imports WorkspaceService Lifecycle
begin

text \<open>
  When the audit log accepts the events of the workspaces, and a concrete service with two users on which
  the properties of the workspaces are evaluated: one founds a workspace and invites, the other accepts.
\<close>

section \<open>Events the recorder accepts\<close>

lemma hex_digit_ascii: "hex_digit n \<in> set ''0123456789abcdef''"
  unfolding hex_digit_def by (rule nth_mem) simp

lemma uuid_string_chars: "set (uuid_string u) \<subseteq> set ''0123456789abcdef-''"
proof -
  have "uuid_digit u i \<in> set ''0123456789abcdef-''" for i
    using hex_digit_ascii unfolding uuid_digit_def by auto
  then show ?thesis unfolding uuid_string_def by auto
qed

lemma uuid_string_length [simp]: "length (uuid_string u) = 36"
  by (simp add: uuid_string_def)

lemma has_prefix_subset: "has_prefix p s \<Longrightarrow> set p \<subseteq> set s"
  by (induction p s rule: has_prefix.induct) auto

text \<open>Visible text without the forbidden characters and without a dot is a safe value.\<close>

lemma visible_valid:
  assumes "visible v"
  shows "ValidString v"
proof -
  have ascii: "list_all (\<lambda>c. code c < 128) v" using assms by (auto simp: visible_def list_all_iff)
  then show ?thesis by (auto simp: ValidString_def pieces_ascii list_all_iff)
qed

lemma visible_count:
  assumes "visible v"
  shows "RuneCountInString v = length v"
proof -
  have "list_all (\<lambda>c. code c < 128) v" using assms by (auto simp: visible_def list_all_iff)
  then show ?thesis by (simp add: RuneCountInString_def pieces_ascii)
qed

lemma visible_safe:
  assumes "visible v" "v \<noteq> []" "length v \<le> 128" "set v \<inter> set forbidden_chars = {}" "CHR ''.'' \<notin> set v"
  shows "safeMetadataValue tbl v"
proof -
  have ascii: "list_all (\<lambda>c. code c < 128) v" using assms(1) by (auto simp: visible_def list_all_iff)
  have "\<not> has_prefix ''bearer '' (ToLower tbl v)"
  proof
    assume p: "has_prefix ''bearer '' (ToLower tbl v)"
    have "ToLower tbl v = map (\<lambda>c. char_of (lower_rune tbl (code c))) v"
      using ascii by (simp add: ToLower_def runes_ascii comp_def) (induction v; auto simp: encode_rune_def lower_rune_def)
    then have "CHR '' '' \<in> (\<lambda>c. char_of (lower_rune tbl (code c))) ` set v"
      using has_prefix_subset [OF p] by (simp del: set_map add: set_map [symmetric])
    then obtain c where c: "c \<in> set v" "CHR '' '' = char_of (lower_rune tbl (code c))" by auto
    then have "code (CHR '' '') = lower_rune tbl (code c) mod 256" by (metis of_char_of)
    with c(1) assms(1) show False by (auto simp: visible_def list_all_iff lower_rune_def split: if_splits)
  qed
  moreover have "ValidString v" using assms(1) by (rule visible_valid)
  ultimately show ?thesis
    using assms by (auto simp: safeMetadataValue_def TrimSpace_visible jwtPattern_def list_ex_iff)
qed

lemma uuid_string_safe: "safeMetadataValue tbl (uuid_string u)"
proof (rule visible_safe)
  show "visible (uuid_string u)"
    unfolding visible_def list_all_iff using uuid_string_chars [of u] by auto
  show "uuid_string u \<noteq> []" using uuid_string_length [of u] by fastforce
qed (use uuid_string_chars [of u] in \<open>auto simp: forbidden_chars_def\<close>)

definition accepts_uuids :: "(bytes \<Rightarrow> uuid option) \<Rightarrow> bool" where
  "accepts_uuids uuid_parse \<longleftrightarrow> (\<forall>u. uuid_parse (uuid_string u) \<noteq> None)"

lemma workspace_entries:
  assumes "accepts_uuids uuid_parse"
  shows "k \<in> {''workspace_id'', ''membership_user_id'', ''invitation_id''} \<Longrightarrow> workspace_entry tbl uuid_parse (id_entry k u)"
    "k \<in> {''role'', ''previous_role''} \<Longrightarrow> r \<in> {''owner'', ''admin'', ''member''} \<Longrightarrow> workspace_entry tbl uuid_parse (k, r)"
proof -
  have "safeMetadataValue tbl r" if "r \<in> {''owner'', ''admin'', ''member''}" for r
    using that by (intro visible_safe) (auto simp: visible_def forbidden_chars_def)
  then show "k \<in> {''role'', ''previous_role''} \<Longrightarrow> r \<in> {''owner'', ''admin'', ''member''} \<Longrightarrow> workspace_entry tbl uuid_parse (k, r)"
    by (elim insertE emptyE) (simp_all add: workspace_entry_def workspaceMetadataKeys_def lower_letter_def decimal_def)
  show "k \<in> {''workspace_id'', ''membership_user_id'', ''invitation_id''} \<Longrightarrow> workspace_entry tbl uuid_parse (id_entry k u)"
    using assms by (elim insertE emptyE) (simp_all add: workspace_entry_def id_entry_def uuid_string_safe accepts_uuids_def
        workspaceMetadataKeys_def lower_letter_def decimal_def)
qed

lemma validEvent_workspace:
  assumes "namePattern (ev_EventType e)" "has_prefix ''workspace_'' (ev_EventType e)"
    "ev_Outcome e \<in> {OutcomeSuccess, OutcomeFailure, OutcomeDenied}" "ev_ReasonCode e = [] \<or> namePattern (ev_ReasonCode e)"
    "ev_ObjectType e = [] \<or> namePattern (ev_ObjectType e)" "ev_RequestID e = [] \<or> requestPattern (ev_RequestID e)" "ev_IPHMAC e = []"
    "Some Nil_uuid \<notin> {ev_ActorUserID e, ev_DeviceID e, ev_ObjectID e}" "ev_OrganizationID e = None"
    "validWorkspaceMetadata tbl uuid_parse (ev_Metadata e)"
  shows "validEvent tbl uuid_parse e"
proof -
  have "\<not> has_prefix ''organization_'' (ev_EventType e)"
    using assms(2) by (cases "ev_EventType e") auto
  moreover have "length (ev_Metadata e) \<le> 12"
    using assms(10) by (simp add: validWorkspaceMetadata_def workspaceMetadataKeys_def)
  ultimately show ?thesis using assms by (auto simp: validEvent_def validMetadata_def)
qed

lemma recordWorkspaceAudit_ok:
  assumes "namePattern t" "has_prefix ''workspace_'' t" "valid_actor actor" "w \<noteq> Nil_uuid" "aud_EventID ev \<noteq> Nil_uuid"
    "aud_RequestID ev = [] \<or> requestPattern (aud_RequestID ev)" "at \<noteq> zero_time"
    "validWorkspaceMetadata (wl_lower lb) (wl_uuid_parse lb) md" "aud_EventID ev \<notin> a_id ` set (audit_events d)"
    "act_UserID actor \<in> u_id ` set (users d)" "act_DeviceID actor \<in> d_id ` set (devices d)"
  shows "recordWorkspaceAudit lb False actor ev t w at md d
    = Inr (d\<lparr>audit_events := audit_events d @ [event_row (aud_EventID ev) at (workspace_event actor ev t w at md)]\<rparr>)"
proof -
  have "validEvent (wl_lower lb) (wl_uuid_parse lb) (workspace_event actor ev t w at md)"
    using assms by (intro validEvent_workspace)
      (auto simp: workspace_event_def valid_actor_def OutcomeSuccess_def lower_letter_def decimal_def)
  moreover have "insert_audit (event_row (aud_EventID ev) at (workspace_event actor ev t w at md)) d
      = Some (d\<lparr>audit_events := audit_events d @ [event_row (aud_EventID ev) at (workspace_event actor ev t w at md)]\<rparr>)"
    using assms(9-) by (simp add: insert_audit_def event_row_def exists_key_iff workspace_event_def OutcomeSuccess_def nullif_def)
  ultimately show ?thesis
    using assms(5,7) by (simp add: recordWorkspaceAudit_def Record_event_def workspace_event_def Let_def)
qed

section \<open>A service with two users\<close>

definition sample_workspace_libs :: workspace_libs where
  "sample_workspace_libs = \<lparr>wl_crypto = sample_crypto, wl_lower = id, wl_uuid_parse = (\<lambda>_. Some 1), wl_collate = id\<rparr>"

definition sample_policy :: LimitPolicy where "sample_policy = \<lparr>lp_Limit = 5, lp_Window = second\<rparr>"

definition sample_limits :: LimitPolicies where
  "sample_limits = \<lparr>lp_WorkspaceCreate = sample_policy, lp_InvitationCreate = sample_policy, lp_InvitationAccept = sample_policy\<rparr>"

definition sample_quotas :: Quotas where
  "sample_quotas = \<lparr>qt_ActiveOwned = 1, qt_Members = 2, qt_PendingInvitations = 1\<rparr>"

definition sample_workspaces :: workspace_service where
  "sample_workspaces = \<lparr>wv_libs = sample_workspace_libs, wv_limits = sample_limits, wv_quotas = sample_quotas\<rparr>"

lemma sample_workspaces_new: "NewWorkspaceService sample_workspace_libs sample_limits sample_quotas = Some sample_workspaces"
  by (simp add: NewWorkspaceService_def sample_workspaces_def valid_limits_def valid_limit_def valid_quotas_def sample_limits_def
      sample_policy_def sample_quotas_def)

definition host :: Actor where "host = \<lparr>act_UserID = 11, act_DeviceID = 21\<rparr>"
definition guest :: Actor where "guest = \<lparr>act_UserID = 12, act_DeviceID = 22\<rparr>"

definition plain_user :: "uuid \<Rightarrow> user_row" where
  "plain_user i = \<lparr>u_id = i, u_nickname = None, u_status = ''active'', u_password_security_version = 1,
     u_deletion_requested_at = None, u_deletion_finalized_at = None, u_administratively_disabled = False\<rparr>"

definition plain_device :: "uuid \<Rightarrow> uuid \<Rightarrow> device_row" where
  "plain_device i u = \<lparr>d_id = i, d_user_id = u, d_installation_id = i, d_public_key = [], d_display_name = [], d_platform = [],
     d_app_version = [], d_status = ''active'', d_last_seen_at = 0, d_revoked_at = None\<rparr>"

definition two_users :: db where
  "two_users = empty_db\<lparr>users := [plain_user 11, plain_user 12], devices := [plain_device 21 11, plain_device 22 12]\<rparr>"

definition sample_env :: "uuid \<Rightarrow> uuid \<Rightarrow> uuid \<Rightarrow> workspace_env" where
  "sample_env resource audit attempt = \<lparr>we_resource = Some resource, we_audit = Some audit, we_attempt = Some attempt, we_leave = None,
     we_read = (\<lambda>n. Some (replicate n (CHR ''x''))), we_now = second, we_attempt_now = second, we_store_now = second, we_redis_now = 0,
     we_recorder_now = second, we_limit_fails = False, we_audit_fails = False, we_list = no_fault, we_members = no_fault, we_faults = no_fault\<rparr>"

lemma sample_env_simps [simp]:
  "we_resource (sample_env i j k) = Some i" "we_audit (sample_env i j k) = Some j" "we_attempt (sample_env i j k) = Some k"
  "we_read (sample_env i j k) n = Some (replicate n (CHR ''x''))" "we_now (sample_env i j k) = second" "we_attempt_now (sample_env i j k) = second"
  "we_store_now (sample_env i j k) = second" "we_redis_now (sample_env i j k) = 0" "we_recorder_now (sample_env i j k) = second"
  "we_limit_fails (sample_env i j k) = False" "we_audit_fails (sample_env i j k) = False" "we_list (sample_env i j k) = no_fault"
  "we_members (sample_env i j k) = no_fault" "we_faults (sample_env i j k) = no_fault"
  by (simp_all add: sample_env_def)

text \<open>With empty counters the limiter lets a call pass.\<close>

lemma limit_passes:
  assumes "valid_actor actor" "limit_scope_ok action scope" "action \<in> {LimitWorkspaceCreate, LimitInvitationCreate, LimitInvitationAccept}"
  shows "\<exists>l. applyLimit sample_workspaces (sample_env i j k) action actor scope rid obj \<lparr>wz_db = d, wz_limits = Map.empty\<rparr>
    = (Inr (), \<lparr>wz_db = d, wz_limits = l\<rparr>)"
proof -
  obtain key where key: "workspace_redisKey sample_crypto action actor scope = Inr key"
    using assms(1,2) by (simp add: workspace_redisKey_def check_def)
  have policy: "limit_policy sample_limits action = Inr sample_policy"
    using assms(3) by (auto simp: limit_policy_def sample_limits_def limit_actions)
  have "incrementWindow 0 key (second div millisecond) Map.empty
      = ((1, second div millisecond), [key \<mapsto> (1, Some (0 + second div millisecond * millisecond))])"
    by (simp add: incrementWindow_def incr_def pexpire_def live_def pttl_def Let_def)
  then show ?thesis
    by (simp add: applyLimit_def Workspace_Allow_def sample_workspaces_def sample_workspace_libs_def policy key sample_policy_def)
qed

definition create_request :: CreateWorkspaceRequest where
  "create_request = \<lparr>cwr_DisplayName = ''team'', cwr_IdempotencyKey = ''k1'', cwr_RequestID = ''r1''\<rparr>"

lemma sample_texts [simp]:
  "NormalizeDisplayName ''team'' = Some ''team''" "NormalizeDisplayName ''crew'' = Some ''crew''" "validOpaqueIdempotencyKey ''k1''" "validOpaqueIdempotencyKey ''k2''"
  "validWorkspaceRequestID ''r1''"
proof -
  have ascii: "visible ''team''" "visible ''crew''" "visible ''k1''" "visible ''k2''" by (simp_all add: visible_def)
  then have runes: "runes ''team'' = map code ''team''" "runes ''crew'' = map code ''crew''" "runes ''k1'' = map code ''k1''" "runes ''k2'' = map code ''k2''"
    by (simp_all only: visible_runes)
  have trim: "TrimSpace ''team'' = ''team''" "TrimSpace ''crew'' = ''crew''" "TrimSpace ''k1'' = ''k1''" "TrimSpace ''k2'' = ''k2''"
    using ascii by (simp_all only: TrimSpace_visible)
  show "NormalizeDisplayName ''team'' = Some ''team''" "NormalizeDisplayName ''crew'' = Some ''crew''" "validOpaqueIdempotencyKey ''k1''" "validOpaqueIdempotencyKey ''k2''"
    using ascii [THEN visible_valid] ascii [THEN visible_count]
    by (simp_all add: NormalizeDisplayName_def Let_def runes trim IsControl_def validOpaqueIdempotencyKey_def maxIdempotencyBytes_def)
  show "validWorkspaceRequestID ''r1''" by (simp add: validWorkspaceRequestID_def requestPattern_def alphanumeric_def)
qed

section \<open>The run\<close>

definition team_row :: workspace_row where
  "team_row = \<lparr>ws_id = 31, ws_owner_user_id = 11, ws_display_name = ''team'', ws_status = ''active'', ws_revision = 1,
     ws_created_at = second, ws_updated_at = second, ws_archived_at = None\<rparr>"

definition host_row :: workspace_membership_row where
  "host_row = \<lparr>wm_workspace_id = 31, wm_user_id = 11, wm_role = ''owner'', wm_revision = 1, wm_joined_at = second\<rparr>"

definition guest_row :: workspace_membership_row where
  "guest_row = \<lparr>wm_workspace_id = 31, wm_user_id = 12, wm_role = ''member'', wm_revision = 1, wm_joined_at = second\<rparr>"

definition sample_event_row :: "Actor \<Rightarrow> uuid \<Rightarrow> bytes \<Rightarrow> metadata \<Rightarrow> audit_row" where
  "sample_event_row actor i t md = event_row i second (workspace_event actor \<lparr>aud_EventID = i, aud_RequestID = ''r1''\<rparr> t 31 second md)"

definition team_key :: workspace_idempotency_row where
  "team_key = \<lparr>wr_actor_user_id = 11, wr_workspace_id = 31, wr_operation = ''workspace_create'',
     wr_key_digest = sha256 sample_crypto ''k1'', wr_request_digest = canonicalWorkspaceCreateDigest sample_crypto ''team'',
     wr_resource_type = ''workspace'', wr_resource_id = 31, wr_created_at = second, wr_expires_at = second + 24 * hour\<rparr>"

definition founded :: db where
  "founded = two_users\<lparr>workspaces := [team_row], workspace_memberships := [host_row], workspace_idempotency_records := [team_key],
     audit_events := [sample_event_row host 41 ''workspace_created'' [id_entry ''workspace_id'' 31]]\<rparr>"

abbreviation idle :: "db \<Rightarrow> workspace_state" where
  "idle d \<equiv> \<lparr>wz_db = d, wz_limits = Map.empty\<rparr>"

lemma sample_libs [simp]:
  "wl_crypto sample_workspace_libs = sample_crypto" "wl_lower sample_workspace_libs = id" "wl_collate sample_workspace_libs = id"
  "wv_libs sample_workspaces = sample_workspace_libs" "wv_quotas sample_workspaces = sample_quotas" "accepts_uuids (wl_uuid_parse sample_workspace_libs)"
  by (simp_all add: sample_workspace_libs_def sample_workspaces_def accepts_uuids_def)

lemma actors [simp]:
  "valid_actor host" "valid_actor guest" "act_UserID host = 11" "act_UserID guest = 12" "act_DeviceID host = 21" "act_DeviceID guest = 22"
  by (simp_all add: host_def guest_def valid_actor_def)

lemma sample_digests [simp]: "length (sha256 sample_crypto m) = 32" "length (canonicalWorkspaceDigest sample_crypto t v) = 32"
  by (simp_all add: sample_crypto_correct canonicalWorkspaceDigest_def)

lemma sample_audit:
  assumes "valid_actor actor" "act_UserID actor \<in> {11, 12}" "act_DeviceID actor \<in> {21, 22}" "namePattern t" "has_prefix ''workspace_'' t" "i \<noteq> 0" "i \<notin> a_id ` set (audit_events d)"
    "users d = users two_users" "devices d = devices two_users" "list_all (workspace_entry id (wl_uuid_parse sample_workspace_libs)) md" "length md \<le> 5"
  shows "recordWorkspaceAudit sample_workspace_libs False actor \<lparr>aud_EventID = i, aud_RequestID = ''r1''\<rparr> t 31 second md d
    = Inr (d\<lparr>audit_events := audit_events d @ [sample_event_row actor i t md]\<rparr>)"
  unfolding sample_event_row_def
proof (subst recordWorkspaceAudit_ok)
  show "validWorkspaceMetadata (wl_lower sample_workspace_libs) (wl_uuid_parse sample_workspace_libs) md"
    using assms by (simp add: validWorkspaceMetadata_def workspaceMetadataKeys_def)
  show "act_UserID actor \<in> u_id ` set (users d)" "act_DeviceID actor \<in> d_id ` set (devices d)"
    using assms by (simp_all add: two_users_def plain_user_def plain_device_def)
qed (use assms in \<open>simp_all add: zero_time_def requestPattern_def alphanumeric_def\<close>)

lemmas run_simps = andthen_def check_def present_def returning_def exists_row_def update_where_def delete_where_def
  validEvidence_def zero_time_def two_users_def plain_user_def plain_device_def empty_db_def sample_quotas_def

lemma founding:
  "\<exists>v l. CreateWorkspace sample_workspaces (sample_env 31 41 51) host create_request (idle two_users)
     = (Inr v, \<lparr>wz_db = founded, wz_limits = l\<rparr>)"
proof -
  obtain l where l: "applyLimit sample_workspaces (sample_env 31 41 51) LimitWorkspaceCreate host None ''r1'' (Some 31) (idle two_users)
      = (Inr (), \<lparr>wz_db = two_users, wz_limits = l\<rparr>)"
    using limit_passes [of host LimitWorkspaceCreate None 31 41 51 "''r1''" "Some 31" two_users] by (auto simp: limit_scope_ok_def)
  have rows: "new_workspace_rows no_fault host \<lparr>cc_WorkspaceID = 31, cc_DisplayName = ''team'', cc_ActiveOwnedLimit = 1,
      cc_Idempotency = \<lparr>ie_KeyDigest = sha256 sample_crypto ''k1'', ie_RequestDigest = canonicalWorkspaceCreateDigest sample_crypto ''team'',
        ie_ExpiresAt = second + 24 * hour\<rparr>, cc_Audit = \<lparr>aud_EventID = 41, aud_RequestID = ''r1''\<rparr>, cc_CreatedAt = second\<rparr> ''team'' two_users
    = Inr (founded\<lparr>audit_events := []\<rparr>)"
    by (simp add: new_workspace_rows_def insert_workspace_def insert_workspace_membership_def insertOperationIdempotency_def
        insert_workspace_idempotency_def operation_names founded_def team_row_def host_row_def team_key_def run_simps canonicalWorkspaceCreateDigest_def)
  have audit: "recordWorkspaceAudit sample_workspace_libs False host \<lparr>aud_EventID = 41, aud_RequestID = ''r1''\<rparr> ''workspace_created'' 31 second
      [id_entry ''workspace_id'' 31] (founded\<lparr>audit_events := []\<rparr>) = Inr founded"
    by (subst sample_audit) (simp_all add: founded_def workspace_entries lower_letter_def decimal_def)
  have load: "\<exists>w. loadWorkspace False host 31 founded = Inr w"
    by (simp add: loadWorkspace_def workspace_join_def scanWorkspace_def owner_matches_def memberships_of_def NormalizeWorkspace_def founded_def team_row_def
        host_row_def run_simps workspace_constants ParseWorkspaceStatus_def ParseMutationState_def ParseRole_def)
  show ?thesis
    using l rows audit load
    by (auto simp: CreateWorkspace_def Let_def create_request_def workspace_newUUID_def repository_call_def CreateWorkspace_record_def
        lockActiveActor_def readWorkspaceIdempotency_def idempotency_record_def active_owned_def validCreateCommand_def idempotencyLifetime_def
        run_simps)
qed

text \<open>The tables in which the host may act: found by the list that authorises, and loaded by a command.\<close>

definition sample_team :: "workspace_row \<Rightarrow> db \<Rightarrow> bool" where
  "sample_team row d \<longleftrightarrow> users d = users two_users \<and> devices d = devices two_users \<and> workspaces d = [row] \<and> ws_id row = 31 \<and> ws_owner_user_id row = 11
     \<and> ws_status row = ''active'' \<and> 0 < ws_revision row \<and> ws_display_name row \<in> {''team'', ''crew''} \<and> ws_created_at row = second
     \<and> ws_updated_at row = second \<and> ws_archived_at row = None \<and> workspace_memberships d \<in> {[host_row], [host_row, guest_row]}"

definition team_view :: "workspace_row \<Rightarrow> db \<Rightarrow> Workspace" where
  "team_view row d = \<lparr>wk_ID = 31, wk_DisplayName = ws_display_name row, wk_Status = ''active'', wk_Revision = ws_revision row,
     wk_MutationState = ''writable'', wk_ActorRole = ''owner'', wk_MemberCount = int (length (workspace_memberships d)), wk_CreatedAt = second,
     wk_UpdatedAt = second, wk_ArchivedAt = None\<rparr>"

lemma sample_scan:
  assumes "sample_team row d"
  shows "scanWorkspace d host_row row (plain_user 11) = Inr (team_view row d)"
proof -
  have "workspace_memberships d \<in> {[host_row], [host_row, guest_row]}" "ws_display_name row \<in> {''team'', ''crew''}"
    and row: "ws_id row = 31" "ws_owner_user_id row = 11" "ws_status row = ''active''" "\<not> ws_revision row \<le> 0"
      "ws_created_at row = second" "ws_updated_at row = second" "ws_archived_at row = None"
    using assms by (auto simp: sample_team_def)
  then show ?thesis
    by (elim insertE emptyE)
      (simp_all add: row scanWorkspace_def owner_matches_def memberships_of_def NormalizeWorkspace_def team_view_def
        host_row_def guest_row_def run_simps workspace_constants ParseWorkspaceStatus_def ParseMutationState_def ParseRole_def)
qed

lemma sample_load:
  assumes "sample_team row d"
  shows "loadWorkspace False host 31 d = Inr (team_view row d)"
proof -
  have "workspace_join 11 31 d = Some (host_row, row, plain_user 11)"
    using assms by (auto simp: workspace_join_def sample_team_def host_row_def guest_row_def two_users_def plain_user_def)
  with sample_scan [OF assms] show ?thesis by (simp add: loadWorkspace_def)
qed

lemma sample_actor:
  assumes "sample_team row d" "actor \<in> {host, guest}"
  shows "requireActiveActor False actor d = Inr ()"
  using assms by (auto simp: requireActiveActor_def sample_team_def run_simps host_def guest_def)

lemma sample_find:
  assumes "sample_team row d"
  shows "findWorkspace sample_workspaces (sample_env i j k) host 31 d = Inr (team_view row d)"
proof -
  have "workspace_rows 11 d = [(host_row, row, plain_user 11)]"
    using assms by (auto simp: workspace_rows_def sample_team_def host_row_def guest_row_def two_users_def plain_user_def)
  with sample_scan [OF assms] sample_actor [OF assms, of host] show ?thesis
    by (simp add: findWorkspace_def ListWorkspaces_record_def andthen_def check_def present_def team_view_def)
qed

lemma sample_actor_authorized:
  assumes "sample_team row (wz_db s)" "operation \<in> {OperationRename, OperationInvite, OperationRemoveMember}"
  shows "authorizeMutable sample_workspaces (sample_env i j k) host 31 operation rid s = (Inr (team_view row (wz_db s)), s)"
  using assms(2) sample_find [OF assms(1)]
  by (auto simp: authorizeMutable_def authorize_def permissions_def service_operations workspace_constants team_view_def)

section \<open>The invitation\<close>

definition sample_invite :: CreateInvitationRequest where
  "sample_invite = \<lparr>cir_WorkspaceID = 31, cir_IdempotencyKey = ''k2'', cir_RequestID = ''r1''\<rparr>"

definition sample_token_digest :: bytes where
  "sample_token_digest = sha256 sample_crypto (encode_url (replicate 32 (CHR ''x'')))"

definition open_row :: workspace_invitation_row where
  "open_row = \<lparr>wi_id = 32, wi_workspace_id = 31, wi_token_digest = sample_token_digest, wi_created_by_user_id = Some 11, wi_status = ''pending'',
     wi_accepted_by_user_id = None, wi_created_at = second, wi_expires_at = second + 7 * 24 * hour, wi_accepted_at = None, wi_revoked_at = None\<rparr>"

definition invite_key :: workspace_idempotency_row where
  "invite_key = \<lparr>wr_actor_user_id = 11, wr_workspace_id = 31, wr_operation = ''workspace_invitation_create'',
     wr_key_digest = sha256 sample_crypto ''k2'', wr_request_digest = canonicalInvitationCreateDigest sample_crypto 31,
     wr_resource_type = ''workspace_invitation'', wr_resource_id = 32, wr_created_at = second, wr_expires_at = second + 24 * hour\<rparr>"

definition invited :: db where
  "invited = founded\<lparr>workspace_invitations := [open_row], workspace_idempotency_records := [team_key, invite_key],
     audit_events := audit_events founded @ [sample_event_row host 42 ''workspace_invitation_created''
       [id_entry ''workspace_id'' 31, id_entry ''invitation_id'' 32]]\<rparr>"

lemma founded_team: "sample_team team_row founded"
  by (simp add: sample_team_def founded_def team_row_def two_users_def)

lemma sample_secret:
  "NewInvitationSecret sample_crypto (we_read (sample_env i j k))
     = Some \<lparr>is_RawToken = encode_url (replicate 32 (CHR ''x'')), is_Digest = sample_token_digest\<rparr>"
  "InvitationDigest sample_crypto (encode_url (replicate 32 (CHR ''x''))) = Some sample_token_digest"
  "encode_url (replicate 32 (CHR ''x'')) \<noteq> []"
  using length_EncodeToString [of url_alphabet "replicate 32 (CHR ''x'')"]
  by (simp_all add: NewInvitationSecret_def InvitationDigest_def DecodeCanonicalBase64URL_def DecodeString_encode_url sample_token_digest_def
      invitationEntropyBytes_def) (metis length_0_conv zero_neq_numeral)

lemma inviting:
  "\<exists>v l. CreateInvitation sample_workspaces (sample_env 32 42 52) host sample_invite (idle founded)
     = (Inr v, \<lparr>wz_db = invited, wz_limits = l\<rparr>)"
proof -
  let ?d = "founded\<lparr>workspace_invitations := [open_row], workspace_idempotency_records := [team_key, invite_key]\<rparr>"
  obtain l where l: "applyLimit sample_workspaces (sample_env 32 42 52) LimitInvitationCreate host (Some 31) ''r1'' (Some 31) (idle founded)
      = (Inr (), \<lparr>wz_db = founded, wz_limits = l\<rparr>)"
    using limit_passes [of host LimitInvitationCreate "Some 31" 32 42 52 "''r1''" "Some 31" founded] by (auto simp: limit_scope_ok_def limit_actions)
  have audit: "recordWorkspaceAudit sample_workspace_libs False host \<lparr>aud_EventID = 42, aud_RequestID = ''r1''\<rparr> ''workspace_invitation_created'' 31 second
      [id_entry ''workspace_id'' 31, id_entry ''invitation_id'' 32] ?d = Inr invited"
    by (subst sample_audit) (simp_all add: founded_def invited_def workspace_entries lower_letter_def decimal_def sample_event_row_def event_row_def)
  have load: "\<exists>v. loadInvitation False 31 32 second invited = Inr v"
    by (simp add: loadInvitation_def invited_def open_row_def scanInvitation_def invitation_statuses present_def zero_time_def)
  have nokey: "idempotency_record host operationInvitationCreate \<lparr>ie_KeyDigest = a, ie_RequestDigest = b, ie_ExpiresAt = c\<rparr> founded = None" for a b c
    by (simp add: idempotency_record_def founded_def team_key_def operation_names)
  have steps: "pending_invitations 31 (expire_invitations 31 second founded) = 0"
    "insert_workspace_invitation open_row (expire_invitations 31 second founded) = Some (founded\<lparr>workspace_invitations := [open_row]\<rparr>)"
    "insertOperationIdempotency False host 31 operationInvitationCreate \<lparr>ie_KeyDigest = sha256 sample_crypto ''k2'',
       ie_RequestDigest = canonicalInvitationCreateDigest sample_crypto 31, ie_ExpiresAt = second + 24 * hour\<rparr> ''workspace_invitation'' 32 second
       (founded\<lparr>workspace_invitations := [open_row]\<rparr>) = Inr ?d"
    by (simp_all add: pending_invitations_def expire_invitations_def founded_def insert_workspace_invitation_def insertOperationIdempotency_def
        insert_workspace_idempotency_def run_simps open_row_def team_row_def sample_token_digest_def invite_key_def team_key_def operation_names
        canonicalInvitationCreateDigest_def)
  have row: "\<lparr>wi_id = 32, wi_workspace_id = 31, wi_token_digest = sample_token_digest, wi_created_by_user_id = Some 11, wi_status = ''pending'',
     wi_accepted_by_user_id = None, wi_created_at = second, wi_expires_at = second + 7 * 24 * hour, wi_accepted_at = None, wi_revoked_at = None\<rparr> = open_row"
    by (simp add: open_row_def)
  show ?thesis
    using l audit load steps sample_actor_authorized [of team_row "idle founded" OperationInvite 32 42 52 "''r1''"] founded_team
      sample_load [OF founded_team] sample_actor [OF founded_team, of host] sample_secret(1) [of 32 42 52] sample_secret(2)
    by (auto simp: CreateInvitation_def Let_def sample_invite_def workspace_newUUID_def repository_call_def CreateInvitation_record_def
        readOperationIdempotency_def nokey validCreateInvitationCommand_def idempotencyLifetime_def team_view_def workspace_constants
        andthen_def check_def present_def returning_def validEvidence_def zero_time_def sample_quotas_def row [simplified] sample_secret(3))
qed

section \<open>The acceptance\<close>

definition sample_accept :: AcceptInvitationRequest where
  "sample_accept = \<lparr>air_Token = encode_url (replicate 32 (CHR ''x'')), air_IdempotencyKey = ''k1'', air_RequestID = ''r1''\<rparr>"

definition accept_key :: workspace_idempotency_row where
  "accept_key = \<lparr>wr_actor_user_id = 12, wr_workspace_id = 31, wr_operation = ''workspace_invitation_accept'',
     wr_key_digest = sha256 sample_crypto ''k1'', wr_request_digest = canonicalInvitationAcceptDigest sample_crypto (air_Token sample_accept),
     wr_resource_type = ''workspace_membership'', wr_resource_id = 12, wr_created_at = second, wr_expires_at = second + 24 * hour\<rparr>"

definition accepted :: db where
  "accepted = invited\<lparr>workspace_memberships := [host_row, guest_row],
     workspace_invitations := [open_row\<lparr>wi_status := ''accepted'', wi_accepted_by_user_id := Some 12, wi_accepted_at := Some second\<rparr>],
     workspace_idempotency_records := [team_key, invite_key, accept_key],
     audit_events := audit_events invited @ [sample_event_row guest 43 ''workspace_invitation_accepted''
       [id_entry ''workspace_id'' 31, id_entry ''invitation_id'' 32, id_entry ''membership_user_id'' 12, (''role'', ''member'')]]\<rparr>"

lemma accepting:
  "\<exists>v l. AcceptInvitation sample_workspaces (sample_env 33 43 53) guest sample_accept (idle invited)
     = (Inr v, \<lparr>wz_db = accepted, wz_limits = l\<rparr>)"
proof -
  let ?d1 = "invited\<lparr>workspace_memberships := [host_row, guest_row]\<rparr>"
  let ?d2 = "?d1\<lparr>workspace_invitations := [open_row\<lparr>wi_status := ''accepted'', wi_accepted_by_user_id := Some 12, wi_accepted_at := Some second\<rparr>]\<rparr>"
  let ?d3 = "?d2\<lparr>workspace_idempotency_records := [team_key, invite_key, accept_key]\<rparr>"
  obtain l where l: "applyLimit sample_workspaces (sample_env 33 43 53) LimitInvitationAccept guest None ''r1'' None (idle invited)
      = (Inr (), \<lparr>wz_db = invited, wz_limits = l\<rparr>)"
    using limit_passes [of guest LimitInvitationAccept None 33 43 53 "''r1''" None invited] by (auto simp: limit_scope_ok_def limit_actions)
  have audit: "recordWorkspaceAudit sample_workspace_libs False guest \<lparr>aud_EventID = 43, aud_RequestID = ''r1''\<rparr> ''workspace_invitation_accepted'' 31 second
      [id_entry ''workspace_id'' 31, id_entry ''invitation_id'' 32, id_entry ''membership_user_id'' 12, (''role'', ''member'')] ?d3 = Inr accepted"
    by (subst sample_audit) (simp_all add: founded_def invited_def accepted_def workspace_entries lower_letter_def decimal_def sample_event_row_def event_row_def)
  have actor: "requireActiveActor False guest invited = Inr ()"
    by (simp add: requireActiveActor_def invited_def founded_def run_simps)
  have nokey: "idempotency_record guest operationInvitationAccept \<lparr>ie_KeyDigest = a, ie_RequestDigest = b, ie_ExpiresAt = c\<rparr> invited = None" for a b c
    by (simp add: idempotency_record_def invited_def founded_def team_key_def invite_key_def operation_names)
  have opened: "open_invitation sample_token_digest second invited = Some open_row"
    by (simp add: open_invitation_def invited_def founded_def open_row_def team_row_def owner_matches_def host_row_def workspace_constants
        invitation_statuses run_simps)
  have found: "findMember False 31 12 invited = Inr None"
    by (simp add: findMember_def invited_def founded_def host_row_def)
  have joined: "join_workspace no_fault 31 12 2 second None invited
      = Inr (\<lparr>mb_UserID = 12, mb_Nickname = [], mb_Role = ''member'', mb_Revision = 1, mb_JoinedAt = second\<rparr>, ?d1)"
    by (simp add: join_workspace_def memberships_of_def invited_def founded_def insert_workspace_membership_def host_row_def team_row_def guest_row_def
        loadMember_def findMember_def scanMember_def nickname_of_def ParseRole_def workspace_constants run_simps)
  have key: "insertOperationIdempotency False guest 31 operationInvitationAccept \<lparr>ie_KeyDigest = sha256 sample_crypto ''k1'',
       ie_RequestDigest = canonicalInvitationAcceptDigest sample_crypto (air_Token sample_accept), ie_ExpiresAt = second + 24 * hour\<rparr>
       ''workspace_membership'' 12 second ?d2 = Inr ?d3"
    by (simp add: insertOperationIdempotency_def insert_workspace_idempotency_def invited_def founded_def team_key_def invite_key_def accept_key_def
        team_row_def operation_names canonicalInvitationAcceptDigest_def run_simps)
  have load: "\<exists>w. loadWorkspace False guest 31 accepted = Inr w"
    by (simp add: loadWorkspace_def workspace_join_def scanWorkspace_def owner_matches_def memberships_of_def NormalizeWorkspace_def accepted_def
        invited_def founded_def team_row_def host_row_def guest_row_def run_simps workspace_constants ParseWorkspaceStatus_def
        ParseMutationState_def ParseRole_def)
  have settle: "update_where (\<lambda>x. wi_id x = 32) g (workspace_invitations ?d1) = [g open_row]" for g
    by (simp add: invited_def open_row_def)
  have ids: "wi_workspace_id open_row = 31" "wi_id open_row = 32" by (simp_all add: open_row_def)
  note token = sample_secret(2)
  show ?thesis
    using l audit load actor opened found joined key
    by (auto simp: AcceptInvitation_def Let_def workspace_newUUID_def repository_call_def AcceptInvitation_record_def sample_accept_def
        readOperationIdempotency_def nokey validAcceptInvitationCommand_def idempotencyLifetime_def token ids settle [simplified]
        andthen_def check_def present_def returning_def validEvidence_def zero_time_def sample_quotas_def)
qed

section \<open>Renaming\<close>

definition sample_rename :: RenameWorkspaceRequest where
  "sample_rename = \<lparr>rwr_WorkspaceID = 31, rwr_DisplayName = ''crew'', rwr_ExpectedRevision = 1, rwr_RequestID = ''r1''\<rparr>"

definition renamed :: db where
  "renamed = founded\<lparr>workspaces := [team_row\<lparr>ws_display_name := ''crew'', ws_revision := 2\<rparr>],
     audit_events := audit_events founded @ [sample_event_row host 44 ''workspace_renamed'' [id_entry ''workspace_id'' 31]]\<rparr>"

lemma renaming: "\<exists>v. RenameWorkspace sample_workspaces (sample_env 34 44 54) host sample_rename (idle founded) = (Inr v, idle renamed)"
proof -
  let ?d = "founded\<lparr>workspaces := [team_row\<lparr>ws_display_name := ''crew'', ws_revision := 2\<rparr>]\<rparr>"
  have audit: "recordWorkspaceAudit sample_workspace_libs False host \<lparr>aud_EventID = 44, aud_RequestID = ''r1''\<rparr> ''workspace_renamed'' 31 second
      [id_entry ''workspace_id'' 31] ?d = Inr renamed"
    by (subst sample_audit) (simp_all add: founded_def renamed_def workspace_entries lower_letter_def decimal_def sample_event_row_def event_row_def)
  have revise: "revise_workspace False 31 1 (\<lambda>x. x\<lparr>ws_display_name := ''crew'', ws_updated_at := second\<rparr>) founded = Inr ?d"
    by (simp add: revise_workspace_def founded_def team_row_def)
  have load: "\<exists>w. loadWorkspace False host 31 renamed = Inr w"
    using sample_load [of "team_row\<lparr>ws_display_name := ''crew'', ws_revision := 2\<rparr>" renamed]
    by (auto simp: sample_team_def renamed_def founded_def team_row_def two_users_def)
  have view: "wk_Revision (team_view team_row founded) = 1" "wk_UpdatedAt (team_view team_row founded) = second"
    by (simp_all add: team_view_def team_row_def)
  show ?thesis
    using audit revise load view sample_actor_authorized [of team_row "idle founded" OperationRename 34 44 54 "''r1''"] founded_team
      sample_load [OF founded_team] sample_actor [OF founded_team, of host]
    by (auto simp: RenameWorkspace_def sample_rename_def workspace_newUUID_def repository_call_def RenameWorkspace_record_def validRenameCommand_def
        team_view_def workspace_constants andthen_def check_def present_def returning_def validEvidence_def zero_time_def)
qed

text \<open>A guest who is not a member is refused, and the refusal is recorded.\<close>

lemma refused_renaming: "\<exists>d. RenameWorkspace sample_workspaces (sample_env 34 44 54) guest sample_rename (idle founded) = (Inl WNotFound, idle d)"
proof -
  have "workspace_rows 12 founded = []" by (simp add: workspace_rows_def founded_def host_row_def two_users_def)
  then have find: "findWorkspace sample_workspaces (sample_env 34 44 54) guest 31 founded = Inl WNotFound"
    using sample_actor [OF founded_team, of guest]
    by (simp add: findWorkspace_def ListWorkspaces_record_def andthen_def check_def present_def)
  let ?e = "\<lparr>ev_ID = 54, ev_EventType = ''workspace_access_attempt'', ev_ActorUserID = Some 12, ev_DeviceID = Some 22, ev_OrganizationID = None,
     ev_ObjectType = ''workspace'', ev_ObjectID = Some 31, ev_Outcome = OutcomeDenied, ev_ReasonCode = ''workspace_not_found'', ev_RequestID = ''r1'',
     ev_IPHMAC = [], ev_Metadata = [id_entry ''workspace_id'' 31], ev_OccurredAt = second\<rparr>"
  have valid: "validEvent id (wl_uuid_parse sample_workspace_libs) ?e"
    by (rule validEvent_workspace)
      (simp_all add: validWorkspaceMetadata_def workspaceMetadataKeys_def workspace_entries lower_letter_def decimal_def requestPattern_def alphanumeric_def)
  have "\<exists>d. Record_event id (wl_uuid_parse sample_workspace_libs) False None second ?e founded = (None, d)"
    using valid by (simp add: Record_event_def Let_def insert_audit_def event_row_def nullif_def founded_def sample_event_row_def run_simps OutcomeDenied_def)
  then show ?thesis
    by (auto simp: RenameWorkspace_def sample_rename_def present_def check_def authorizeMutable_def authorize_def find recordMutationError_def
        workspace_recordAttempt_def workspace_newUUID_def workspaceMetadata_def)
qed

end
