(* ===== verification/WorkspaceSafety.thy ===== *)
theory WorkspaceSafety
  imports WorkspaceTables WorkspaceSamples
begin

text \<open>
  Correctness of the workspaces. The methods of the service authorise, command the repository and
  report; a run of them refines the directory, and what holds of the directory holds of every state
  the service reaches.
\<close>

section \<open>Methods of the service\<close>

text \<open>A report adds events to the audit log; the limiter changes its counters.\<close>

definition reported :: "workspace_state \<Rightarrow> workspace_state \<Rightarrow> bool" where
  "reported s s' \<longleftrightarrow> (\<exists>es l. s' = s\<lparr>wz_db := (wz_db s)\<lparr>audit_events := audit_events (wz_db s) @ es\<rparr>, wz_limits := l\<rparr>)"

lemma reported_same: "reported s (s\<lparr>wz_limits := l\<rparr>)"
  unfolding reported_def by (rule exI [of _ "[]"]) auto

lemma reported_refl [simp]: "reported s s"
  using reported_same [of s "wz_limits s"] by simp

lemma reported_trans: "reported s1 s2 \<Longrightarrow> reported s2 s3 \<Longrightarrow> reported s1 s3"
  unfolding reported_def by (elim exE) (auto intro!: exI)

lemma recordAttempt_reported: "reported s (snd (workspace_recordAttempt sv env actor t outcome reason rid w md s))"
proof -
  obtain x s' where run: "workspace_recordAttempt sv env actor t outcome reason rid w md s = (x, s')" by fastforce
  show ?thesis
  proof (cases "s' = s")
    case False
    with run obtain e d where "Record_event (wl_lower (wv_libs sv)) (wl_uuid_parse (wv_libs sv)) (we_audit_fails env) None
        (we_recorder_now env) e (wz_db s) = (None, d)" and s': "s' = s\<lparr>wz_db := d\<rparr>"
      by (auto simp: workspace_recordAttempt_def split: sum.splits prod.splits option.splits)
    then obtain r where "d = (wz_db s)\<lparr>audit_events := audit_events (wz_db s) @ [r]\<rparr>"
      by (cases rule: Record_event_cases) (auto dest: insert_audit_Some(1))
    with s' run show ?thesis unfolding reported_def by (intro exI [of _ "[r]"] exI [of _ "wz_limits s"]) simp
  qed (simp add: run)
qed

lemma recordAttempt_cases:
  "workspace_recordAttempt sv env actor t outcome reason rid w md s = (x, s') \<Longrightarrow> reported s s'"
  using recordAttempt_reported [of s sv env actor t outcome reason rid w md] by simp

lemma deny_refuses:
  assumes "deny sv env actor t rid w md e s = (x, s')"
  shows "reported s s' \<and> (\<exists>e'. x = Inl e')"
  using assms by (auto simp: deny_def split: prod.splits option.splits dest: recordAttempt_cases)

lemma recordMutationError_refuses:
  assumes "recordMutationError sv env actor t rid w md e s = (x, s')"
  shows "reported s s' \<and> (\<exists>e'. x = Inl e')"
  using assms by (auto simp: recordMutationError_def split: prod.splits option.splits dest: recordAttempt_cases)

lemma applyLimit_reported:
  assumes "applyLimit sv env action actor scope rid obj s = (x, s')"
  shows "reported s s' \<and> (x = Inr () \<longrightarrow> wz_db s' = wz_db s)"
proof -
  have "reported s s2" if "workspace_recordAttempt sv env actor t outcome reason rid obj md (s\<lparr>wz_limits := l\<rparr>) = (y, s2)"
    for t outcome reason md l y s2
    using recordAttempt_cases [OF that] reported_same by (rule reported_trans [rotated])
  with assms show ?thesis
    by (auto simp: applyLimit_def reported_same split: prod.splits option.splits workspace_error.splits)
qed

lemma authorize_cases:
  assumes "authorize sv env actor i op rid s = (x, s')"
  shows "reported s s' \<and> (\<forall>w. x = Inr w \<longrightarrow> s' = s \<and> findWorkspace sv env actor i (wz_db s) = Inr w
      \<and> (\<exists>roles. map_of permissions op = Some roles \<and> wk_ActorRole w \<in> set roles))"
  using assms
  by (auto simp: authorize_def split: sum.splits option.splits if_splits
      dest: deny_refuses recordMutationError_refuses)

lemma authorizeMutable_cases:
  assumes "authorizeMutable sv env actor i op rid s = (x, s')"
  shows "reported s s' \<and> (\<forall>w. x = Inr w \<longrightarrow> s' = s \<and> findWorkspace sv env actor i (wz_db s) = Inr w
      \<and> (\<exists>roles. map_of permissions op = Some roles \<and> wk_ActorRole w \<in> set roles) \<and> wk_MutationState w = MutationStateWritable)"
  using assms unfolding authorizeMutable_def
proof (cases rule: proceed_cases)
  case (stopped e)
  then show ?thesis using authorize_cases [of sv env actor i op rid s] by auto
next
  case (went w s1)
  with authorize_cases [OF went(1)] show ?thesis
    by (auto split: if_splits dest!: deny_refuses)
qed

text \<open>The state after a method: a report, or what the command to the repository did and a report.\<close>

definition keeps :: "(directory \<Rightarrow> directory \<Rightarrow> bool) \<Rightarrow> workspace_state \<Rightarrow> 'a \<times> workspace_state \<Rightarrow> bool" where
  "keeps step s r \<longleftrightarrow> (workspace_keys (wz_db s) \<longrightarrow> implements step (wz_db s) (wz_db (snd r)))"

lemma implements_reported: "reported s s' \<Longrightarrow> implements step d (wz_db s') = implements step d (wz_db s)"
  by (auto simp: reported_def)

lemma keeps_reported: "reported s (snd r) \<Longrightarrow> keeps step s r"
  by (simp add: keeps_def implements_reported implements_same)

lemma keeps_proceed:
  assumes "\<And>e s1. r = (Inl e, s1) \<Longrightarrow> reported s s1" "\<And>v s1. r = (Inr v, s1) \<Longrightarrow> keeps step s (k v s1)"
  shows "keeps step s (proceed r k)"
proof (cases r)
  case (Pair y s1)
  with assms show ?thesis by (cases y) (auto intro: keeps_reported)
qed

lemma keeps_pure: "(\<And>v. x = Inr v \<Longrightarrow> keeps step s (k v s)) \<Longrightarrow> keeps step s (proceed (x, s) k)"
  by (rule keeps_proceed) auto

lemma keeps_repository_call:
  assumes "wz_db s1 = wz_db s" "\<And>x d'. workspace_keys (wz_db s) \<Longrightarrow> command (wz_db s) = (x, d') \<Longrightarrow> implements step (wz_db s) d'"
    "\<And>e s2. reported s2 (snd (report e s2))" "\<And>v s2. reported s2 (snd (continue v s2))"
  shows "keeps step s (repository_call command report continue s1)"
proof -
  obtain y d' where run: "command (wz_db s) = (y, d')" by fastforce
  let ?s2 = "s1\<lparr>wz_db := d'\<rparr>"
  have "reported ?s2 (snd (repository_call command report continue s1))"
    using assms(1) run assms(3,4) by (cases y) (simp_all add: repository_call_def)
  then show ?thesis using assms(2) [OF _ run] by (simp add: keeps_def implements_reported)
qed

lemma refusal_reported [simp]:
  "reported s (snd (deny sv env actor t rid w md e s))" "reported s (snd (recordMutationError sv env actor t rid w md e s))"
  using deny_refuses [of sv env actor t rid w md e s] recordMutationError_refuses [of sv env actor t rid w md e s]
  by (metis prod.collapse)+

lemma keeps_authorize:
  "(\<And>w. keeps step s (k w s)) \<Longrightarrow> keeps step s (proceed (authorize sv env actor i op rid s) k)"
  by (rule keeps_proceed) (auto dest: authorize_cases)

lemma keeps_authorizeMutable:
  "(\<And>w. keeps step s (k w s)) \<Longrightarrow> keeps step s (proceed (authorizeMutable sv env actor i op rid s) k)"
  by (rule keeps_proceed) (auto dest: authorizeMutable_cases)

lemma keeps_applyLimit:
  "(\<And>s1. wz_db s1 = wz_db s \<Longrightarrow> keeps step s (k () s1)) \<Longrightarrow> keeps step s (proceed (applyLimit sv env action actor scope rid obj s) k)"
  by (rule keeps_proceed) (auto dest: applyLimit_reported)

lemma keeps_pure_after:
  "wz_db s1 = wz_db s \<Longrightarrow> (\<And>v. x = Inr v \<Longrightarrow> keeps step s (k v s1)) \<Longrightarrow> keeps step s (proceed (x, s1) k)"
  by (cases x) (simp_all add: keeps_def implements_same)

lemmas keeps_rules = keeps_pure keeps_authorize keeps_authorizeMutable keeps_applyLimit keeps_pure_after keeps_repository_call

lemma implements_weaken: "implements step d d' \<Longrightarrow> (\<And>x y. step x y \<Longrightarrow> step' x y) \<Longrightarrow> implements step' d d'"
  by (auto simp: implements_def)

lemma keeps_accept:
  assumes "InvitationDigest (wl_crypto (wv_libs sv)) (air_Token r) = Some t"
  shows "keeps (directory_accept (wv_quotas sv) (act_UserID actor) t) s (AcceptInvitation sv env actor r s)"
  unfolding AcceptInvitation_def Let_def by (intro keeps_rules) (use assms in \<open>auto dest: accept_implements\<close>)

lemma keeps_methods:
  assumes q: "step = directory_step (wv_quotas sv) (act_UserID actor)
      (map_option is_Digest (NewInvitationSecret (wl_crypto (wv_libs sv)) (we_read env)))"
  shows "keeps step s (CreateWorkspace sv env actor r1 s)" "keeps step s (ListWorkspaces sv env actor s)"
    "keeps step s (RenameWorkspace sv env actor r2 s)" "keeps step s (ArchiveWorkspace sv env actor r3 s)"
    "keeps step s (RestoreWorkspace sv env actor r3 s)" "keeps step s (ListMembers sv env actor i s)"
    "keeps step s (ChangeMemberRole sv env actor r4 s)" "keeps step s (RemoveMember sv env actor r5 s)"
    "keeps step s (LeaveWorkspace sv env actor i rid s)" "keeps step s (ListInvitations sv env actor i rid s)"
    "keeps step s (CreateInvitation sv env actor r6 s)" "keeps step s (RevokeInvitation sv env actor r7 s)"
    "keeps step s (AcceptInvitation sv env actor r8 s)"
proof -
  show "keeps step s (CreateWorkspace sv env actor r1 s)"
    unfolding CreateWorkspace_def Let_def by (intro keeps_rules) (auto elim: create_implements simp: q)
  show "keeps step s (ListWorkspaces sv env actor s)" "keeps step s (ListMembers sv env actor i s)"
    by (simp_all add: ListWorkspaces_def ListMembers_def keeps_reported)
  show "keeps step s (RenameWorkspace sv env actor r2 s)"
    unfolding RenameWorkspace_def by (intro keeps_rules) (auto elim: rename_implements simp: q)
  have revise: "keeps step s (reviseWorkspace sv env actor r3 b s)" for b
    unfolding reviseWorkspace_def Let_def
    by (intro keeps_rules) (auto elim: restore_implements archive_implements simp: q split: if_splits)
  show "keeps step s (ArchiveWorkspace sv env actor r3 s)"
    unfolding ArchiveWorkspace_def by (intro keeps_rules revise)
  show "keeps step s (RestoreWorkspace sv env actor r3 s)"
    unfolding RestoreWorkspace_def by (intro keeps_rules) (auto intro: revise keeps_reported)
  show "keeps step s (ChangeMemberRole sv env actor r4 s)"
    unfolding ChangeMemberRole_def Let_def
    by (intro keeps_rules) (auto split: sum.splits intro!: keeps_rules intro: keeps_reported elim: change_role_implements simp: q)
  show "keeps step s (RemoveMember sv env actor r5 s)"
    unfolding RemoveMember_def Let_def
    by (intro keeps_rules) (auto split: sum.splits intro!: keeps_rules intro: keeps_reported elim: remove_implements simp: q)
  show "keeps step s (LeaveWorkspace sv env actor i rid s)"
    unfolding LeaveWorkspace_def by (intro keeps_rules) (auto elim: leave_implements simp: q)
  show "keeps step s (ListInvitations sv env actor i rid s)"
    unfolding ListInvitations_def by (intro keeps_rules) (auto intro: keeps_reported)
  show "keeps step s (CreateInvitation sv env actor r6 s)"
    unfolding CreateInvitation_def Let_def
    by (intro keeps_rules) (auto elim: invite_implements simp: q split: option.splits prod.splits)
  show "keeps step s (RevokeInvitation sv env actor r7 s)"
    unfolding RevokeInvitation_def by (intro keeps_rules) (auto elim: revoke_implements simp: q)
  show "keeps step s (AcceptInvitation sv env actor r8 s)"
    unfolding AcceptInvitation_def Let_def
    by (intro keeps_rules) (auto intro: implements_weaken [OF accept_implements] directory_step.accept simp: q)
qed

section \<open>Runs of the service\<close>

datatype workspace_op =
    OpCreate CreateWorkspaceRequest | OpList | OpRename RenameWorkspaceRequest | OpArchive WorkspaceRevisionRequest
  | OpRestore WorkspaceRevisionRequest | OpMembers uuid | OpRole ChangeMemberRoleRequest | OpRemove RemoveMemberRequest
  | OpLeave uuid bytes | OpInvitations uuid bytes | OpInvite CreateInvitationRequest | OpRevoke RevokeInvitationRequest
  | OpAccept AcceptInvitationRequest

definition outcome :: "(workspace_error + 'a) \<times> workspace_state \<Rightarrow> workspace_error option \<times> workspace_state" where
  "outcome r = (case r of (Inl e, s) \<Rightarrow> (Some e, s) | (Inr _, s) \<Rightarrow> (None, s))"

fun workspace_serve ::
  "workspace_service \<Rightarrow> workspace_env \<Rightarrow> Actor \<Rightarrow> workspace_op \<Rightarrow> workspace_state \<Rightarrow> workspace_error option \<times> workspace_state" where
  "workspace_serve sv env actor (OpCreate r) s = outcome (CreateWorkspace sv env actor r s)"
| "workspace_serve sv env actor OpList s = outcome (ListWorkspaces sv env actor s)"
| "workspace_serve sv env actor (OpRename r) s = outcome (RenameWorkspace sv env actor r s)"
| "workspace_serve sv env actor (OpArchive r) s = outcome (ArchiveWorkspace sv env actor r s)"
| "workspace_serve sv env actor (OpRestore r) s = outcome (RestoreWorkspace sv env actor r s)"
| "workspace_serve sv env actor (OpMembers i) s = outcome (ListMembers sv env actor i s)"
| "workspace_serve sv env actor (OpRole r) s = outcome (ChangeMemberRole sv env actor r s)"
| "workspace_serve sv env actor (OpRemove r) s = outcome (RemoveMember sv env actor r s)"
| "workspace_serve sv env actor (OpLeave i rid) s = outcome (LeaveWorkspace sv env actor i rid s)"
| "workspace_serve sv env actor (OpInvitations i rid) s = outcome (ListInvitations sv env actor i rid s)"
| "workspace_serve sv env actor (OpInvite r) s = outcome (CreateInvitation sv env actor r s)"
| "workspace_serve sv env actor (OpRevoke r) s = outcome (RevokeInvitation sv env actor r s)"
| "workspace_serve sv env actor (OpAccept r) s = outcome (AcceptInvitation sv env actor r s)"

text \<open>A step of the system: a call, with the token its random source would give an invitation, a statement of the maintenance, the end of an account, or anything
  that leaves the tables of the workspaces alone.\<close>

definition drawn_token :: "workspace_service \<Rightarrow> workspace_env \<Rightarrow> bytes option" where
  "drawn_token sv env = map_option is_Digest (NewInvitationSecret (wl_crypto (wv_libs sv)) (we_read env))"

inductive workspace_moves :: "workspace_service \<Rightarrow> bytes option \<Rightarrow> workspace_state \<Rightarrow> workspace_state \<Rightarrow> bool" for sv drawn where
  call: "workspace_serve sv env actor op s = (x, s') \<Longrightarrow> drawn = drawn_token sv env \<Longrightarrow> workspace_moves sv drawn s s'"
| expiry: "workspace_moves sv drawn s (s\<lparr>wz_db := expire_due_invitations locked now (wz_db s)\<rparr>)"
| purge: "workspace_moves sv drawn s (s\<lparr>wz_db := purge_workspace_idempotency collate held now (wz_db s)\<rparr>)"
| closed: "workspace_moves sv drawn s (s\<lparr>wz_db := close_workspaces u (wz_db s)\<rparr>)"
| elsewhere: "\<lbrakk>workspaces d = workspaces (wz_db s); workspace_memberships d = workspace_memberships (wz_db s);
    workspace_invitations d = workspace_invitations (wz_db s)\<rbrakk> \<Longrightarrow> workspace_moves sv drawn s (s\<lparr>wz_db := d, wz_limits := l\<rparr>)"

definition workspace_step :: "workspace_service \<Rightarrow> workspace_state \<Rightarrow> workspace_state \<Rightarrow> bool" where
  "workspace_step sv s s' \<longleftrightarrow> (\<exists>drawn. workspace_moves sv drawn s s')"

definition no_workspaces :: "workspace_state \<Rightarrow> bool" where
  "no_workspaces s \<longleftrightarrow> workspaces (wz_db s) = [] \<and> workspace_memberships (wz_db s) = [] \<and> workspace_invitations (wz_db s) = []"

definition directory_moves :: "Quotas \<Rightarrow> directory \<Rightarrow> directory \<Rightarrow> bool" where
  "directory_moves q dir dir' \<longleftrightarrow> (\<exists>a drawn. directory_step q a drawn dir dir') \<or> directory_upkeep dir dir'"

lemma snd_outcome: "snd (outcome r) = snd r"
  by (auto simp: outcome_def split: prod.splits sum.splits)

lemma call_keeps:
  assumes "workspace_serve sv env actor op s = (x, s')" "workspace_keys (wz_db s)"
  shows "implements (directory_step (wv_quotas sv) (act_UserID actor) (drawn_token sv env)) (wz_db s) (wz_db s')"
proof -
  have "keeps (directory_step (wv_quotas sv) (act_UserID actor) (drawn_token sv env)) s (workspace_serve sv env actor op s)"
    by (cases op) (simp_all add: keeps_def snd_outcome keeps_methods [unfolded keeps_def] drawn_token_def)
  then show ?thesis using assms by (simp add: keeps_def)
qed

lemma elsewhere_same:
  assumes "workspaces d = workspaces d'" "workspace_memberships d = workspace_memberships d'" "workspace_invitations d = workspace_invitations d'"
  shows "workspace_keys d = workspace_keys d'" "directory_of d = directory_of d'"
  using assms by (simp_all add: workspace_keys_def directory_of_def find_workspace_def find_membership_def pending_tokens_def)

lemma upkeep_moves: "implements directory_upkeep d d' \<Longrightarrow> implements (directory_moves q) d d'"
  by (auto simp: implements_def directory_moves_def)

lemma moves_implement:
  assumes "workspace_moves sv drawn s s'" "workspace_keys (wz_db s)"
  shows "implements (directory_moves (wv_quotas sv)) (wz_db s) (wz_db s')"
  using assms
proof cases
  case (call env actor op x)
  from call_keeps [OF call(1) assms(2)] show ?thesis by (auto simp: implements_def directory_moves_def)
next
  case (expiry locked now)
  with assms(2) show ?thesis by (simp add: upkeep_moves expire_due_implements)
next
  case (purge collate held now)
  with assms(2) show ?thesis by (simp add: upkeep_moves purge_implements)
next
  case (closed u)
  with assms(2) show ?thesis by (simp add: upkeep_moves close_implements)
next
  case (elsewhere d l)
  with elsewhere_same [OF elsewhere(2-4)] assms(2) show ?thesis by (auto simp: implements_def)
qed

interpretation workspace_run: simulation no_workspaces "workspace_step sv" "directory_moves (wv_quotas sv)"
  "\<lambda>s. directory_of (wz_db s)" "\<lambda>s. workspace_keys (wz_db s)" for sv
proof
  show "workspace_keys (wz_db s)" if "no_workspaces s" for s
    using that by (simp add: no_workspaces_def workspace_keys_def)
qed (auto dest: moves_implement simp: implements_def workspace_step_def)

lemma no_workspaces_view: "no_workspaces s \<Longrightarrow> directory_of (wz_db s) = Map.empty"
  by (simp add: no_workspaces_def directory_of_def find_workspace_def fun_eq_iff)

lemma directory_reached_ok:
  assumes "(directory_moves q)\<^sup>*\<^sup>* Map.empty dir" "valid_quotas q"
  shows "directory_ok q dir"
  using assms(1)
proof (induction rule: rtranclp_induct)
  case base
  show ?case using assms(2) by (simp add: directory_ok_def active_of_def valid_quotas_def)
next
  case (step y z)
  then show ?case using directory_step_ok [OF _ _ assms(2)] directory_upkeep_ok by (auto simp: directory_moves_def)
qed

section \<open>Properties\<close>

definition shared_ok_rows :: "Quotas \<Rightarrow> workspace_row \<Rightarrow> db \<Rightarrow> bool" where
  "shared_ok_rows q r d \<longleftrightarrow> owner_matches r d
     \<and> (\<forall>m\<in>set (memberships_of (ws_id r) d). wm_role m = ''owner'' \<longleftrightarrow> wm_user_id m = ws_owner_user_id r)
     \<and> int (length (memberships_of (ws_id r) d)) \<le> qt_Members q
     \<and> int (pending_invitations (ws_id r) d) \<le> qt_PendingInvitations q
     \<and> (ws_status r \<noteq> ''active'' \<longrightarrow> pending_invitations (ws_id r) d = 0)"

lemma shared_ok_tables:
  assumes k: "workspace_keys d" and f: "find_workspace w d = Some r"
    and x: "shared_ok q \<lparr>sw_owner = ws_owner_user_id r, sw_name = ws_display_name r, sw_active = (ws_status r = ''active''),
       sw_revision = ws_revision r, sw_members = (\<lambda>u. map_option wm_role (find_membership w u d)), sw_pending = pending_tokens w d\<rparr>"
  shows "shared_ok_rows q r d"
proof -
  have w: "ws_id r = w" using find_workspace_Some [OF f] by simp
  have owner: "map_option wm_role (find_membership w u d) = Some ''owner'' \<longleftrightarrow> u = ws_owner_user_id r" for u
    using x by (simp add: shared_ok_def RoleOwner_def)
  then have roles: "wm_role m = ''owner'' \<longleftrightarrow> wm_user_id m = ws_owner_user_id r" if "m \<in> set (memberships_of w d)" for m
  proof -
    have "find_membership w (wm_user_id m) d = Some m" using that by (simp add: find_membership_iff [OF k] memberships_of_def)
    with owner [of "wm_user_id m"] show ?thesis by simp
  qed
  obtain m where m: "find_membership w (ws_owner_user_id r) d = Some m" "wm_role m = ''owner''"
    using owner [of "ws_owner_user_id r"] by auto
  have "filter (\<lambda>m. wm_workspace_id m = w \<and> wm_role m = ''owner'' \<and> wm_user_id m = ws_owner_user_id r) (workspace_memberships d)
      = filter (\<lambda>m. member_key m = (w, ws_owner_user_id r)) (workspace_memberships d)"
    using roles by (intro filter_cong) (auto simp: memberships_of_def member_key_def)
  moreover have "length (filter (\<lambda>m. member_key m = (w, ws_owner_user_id r)) (workspace_memberships d)) = 1"
    using k find_membership_Some [OF m(1)]
    by (intro filter_key_one [of _ _ m]) (simp_all add: workspace_keys_def, simp add: member_key_def)
  ultimately have "owner_matches r d" unfolding owner_matches_def w by simp
  moreover have "int (length (memberships_of w d)) \<le> qt_Members q" "int (pending_invitations w d) \<le> qt_PendingInvitations q"
    "ws_status r \<noteq> ''active'' \<longrightarrow> pending_invitations w d = 0"
    using x card_members [OF k, of w] card_pending [OF k, of w] by (auto simp: shared_ok_def)
  ultimately show ?thesis unfolding shared_ok_rows_def w using roles by blast
qed

text \<open>
  C7. Refinement. Every run of the service that starts without workspaces, with calls in any order, faults,
  maintenance and closed accounts in between, is a run of the directory: each workspace is founded by its
  owner within the quota, members are changed only by roles that may, invitations are pending until they are
  accepted, revoked, expired or the workspace is archived, and nothing else happens to it.
\<close>

theorem workspace_refines:
  assumes "NewWorkspaceService lb limits quotas = Some sv" "no_workspaces s" "(workspace_step sv)\<^sup>*\<^sup>* s s'"
  shows "(directory_moves quotas)\<^sup>*\<^sup>* Map.empty (directory_of (wz_db s'))"
proof -
  have "wv_quotas sv = quotas" using assms(1) by (auto simp: NewWorkspaceService_def split: if_splits)
  with workspace_run.reached_refines [OF assms(2,3)] no_workspaces_view [OF assms(2)] show ?thesis by simp
qed

text \<open>
  C8. Invariant. In every state the service reaches, a workspace has exactly one membership with the role of
  owner and it is that of the owner column, so the deferred triggers never reject a commit; it has no more
  members and pending invitations than the quotas allow; an archived workspace has no pending invitation; and
  nobody owns more active workspaces than the quota.
\<close>

theorem workspace_invariant:
  assumes "NewWorkspaceService lb limits quotas = Some sv" "no_workspaces s" "(workspace_step sv)\<^sup>*\<^sup>* s s'" "d = wz_db s'"
  shows "(\<forall>r\<in>set (workspaces d). owner_matches r d
      \<and> (\<forall>m\<in>set (memberships_of (ws_id r) d). wm_role m = ''owner'' \<longleftrightarrow> wm_user_id m = ws_owner_user_id r)
      \<and> int (length (memberships_of (ws_id r) d)) \<le> qt_Members quotas
      \<and> int (pending_invitations (ws_id r) d) \<le> qt_PendingInvitations quotas
      \<and> (ws_status r \<noteq> ''active'' \<longrightarrow> pending_invitations (ws_id r) d = 0))
    \<and> (\<forall>u. int (active_owned u d) \<le> qt_ActiveOwned quotas)"
proof -
  have q: "wv_quotas sv = quotas" "valid_quotas quotas" using assms(1) by (auto simp: NewWorkspaceService_def split: if_splits)
  have k: "workspace_keys d" using workspace_run.reached_inv [OF assms(2,3)] assms(4) by simp
  have ok: "directory_ok quotas (directory_of d)"
    using workspace_run.reached_refines [OF assms(2,3)] no_workspaces_view [OF assms(2)] q assms(4)
    by (intro directory_reached_ok) simp_all
  have "int (active_owned u d) \<le> qt_ActiveOwned quotas" for u
    using directory_okD(3) [OF ok, of u] by (simp add: active_of_directory [OF k])
  moreover have "find_workspace (ws_id r) d = Some r" if "r \<in> set (workspaces d)" for r
    using that by (simp add: find_workspace_iff [OF k])
  then have "shared_ok_rows quotas r d" if "r \<in> set (workspaces d)" for r
    using that shared_ok_tables [OF k _ directory_okD(2) [OF ok directory_of_Some]] by blast
  ultimately show ?thesis unfolding shared_ok_rows_def by blast
qed

text \<open>What a step of an actor can change in one workspace.\<close>

lemma accept_change:
  assumes "directory_accept q a t dir dir'"
  obtains w x y where "dir w = Some x" "sw_active x" "t \<in> sw_pending x" "dir' = dir(w \<mapsto> y)" "sw_owner y = sw_owner x" "sw_name y = sw_name x"
    "sw_active y = sw_active x" "sw_revision y = sw_revision x" "sw_pending y = sw_pending x - {t}"
    "sw_members y = sw_members x \<or> sw_members x a = None \<and> sw_members y = (sw_members x)(a \<mapsto> RoleMember)"
  using assms
proof cases
  case (join w x)
  show thesis by (rule that [OF join(2,3,4,1)]) (use join in simp_all)
next
  case (rejoin w x)
  show thesis by (rule that [OF rejoin(2,3,4,1)]) simp_all
qed

lemma step_new:
  assumes "directory_step q a drawn dir dir'" "dir w = None"
  shows "dir' w = None \<or> (\<exists>y. dir' w = Some y \<and> sw_owner y = a \<and> sw_members y = [a \<mapsto> RoleOwner] \<and> sw_pending y = {})"
  using assms(1)
proof cases
  case (accept t)
  then show ?thesis using assms(2) by cases auto
qed (use assms(2) in auto)

lemma step_change:
  assumes "directory_step q a drawn dir dir'" "dir w = Some x"
  obtains y where "dir' w = Some y" "sw_owner y = sw_owner x" "sw_revision x \<le> sw_revision y"
    "sw_name y \<noteq> sw_name x \<Longrightarrow> sw_members x a \<in> {Some RoleOwner, Some RoleAdmin}"
    "sw_active y \<noteq> sw_active x \<Longrightarrow> sw_members x a = Some RoleOwner"
    "\<And>t. t \<in> sw_pending y \<Longrightarrow> t \<in> sw_pending x \<or> drawn = Some t \<and> sw_members x a \<in> {Some RoleOwner, Some RoleAdmin}"
    "\<And>u. sw_members y u \<noteq> sw_members x u \<Longrightarrow>
       sw_members x a = Some RoleOwner \<and> sw_members x u \<notin> {None, Some RoleOwner}
       \<or> sw_members x a = Some RoleAdmin \<and> sw_members x u = Some RoleMember \<and> sw_members y u = None
       \<or> u = a \<and> sw_members x u \<notin> {None, Some RoleOwner} \<and> sw_members y u = None
       \<or> u = a \<and> sw_members x u = None \<and> sw_members y u = Some RoleMember \<and> \<not> sw_pending x \<subseteq> sw_pending y"
  using assms(1)
proof cases
  case (accept t)
  then show thesis
  proof cases
    case (join w' x')
    show thesis
      by (rule that [of "if w = w' then x'\<lparr>sw_members := (sw_members x')(a \<mapsto> RoleMember), sw_pending := sw_pending x' - {t}\<rparr> else x"])
        (use join assms(2) in \<open>auto split: if_splits\<close>)
  next
    case (rejoin w' x')
    show thesis by (rule that [of "if w = w' then x'\<lparr>sw_pending := sw_pending x' - {t}\<rparr> else x"])
        (use rejoin assms(2) in \<open>auto split: if_splits\<close>)
  qed
next
  case (found w' n)
  show thesis by (rule that [of x]) (use found assms(2) in auto)
next
  case (rename w' x' n)
  show thesis by (rule that [of "if w = w' then x'\<lparr>sw_name := n, sw_revision := sw_revision x' + 1\<rparr> else x"])
      (use rename assms(2) in \<open>auto split: if_splits\<close>)
next
  case (archive w' x')
  show thesis by (rule that [of "if w = w' then x'\<lparr>sw_active := False, sw_revision := sw_revision x' + 1, sw_pending := {}\<rparr> else x"])
      (use archive assms(2) in \<open>auto split: if_splits\<close>)
next
  case (restore w' x')
  show thesis by (rule that [of "if w = w' then x'\<lparr>sw_active := True, sw_revision := sw_revision x' + 1\<rparr> else x"])
      (use restore assms(2) in \<open>auto split: if_splits\<close>)
next
  case (set_role w' x' u r r')
  show thesis by (rule that [of "if w = w' then x'\<lparr>sw_members := (sw_members x')(u \<mapsto> r')\<rparr> else x"])
      (use set_role assms(2) in \<open>auto split: if_splits\<close>)
next
  case (drop w' x' ra u r)
  show thesis by (rule that [of "if w = w' then x'\<lparr>sw_members := (sw_members x')(u := None)\<rparr> else x"])
      (use drop assms(2) in \<open>auto split: if_splits\<close>)
next
  case (invite w' x' P t)
  show thesis by (rule that [of "if w = w' then x'\<lparr>sw_pending := insert t P\<rparr> else x"])
      (use invite assms(2) in \<open>auto split: if_splits\<close>)
next
  case (revoke w' x' t)
  show thesis by (rule that [of "if w = w' then x'\<lparr>sw_pending := sw_pending x' - {t}\<rparr> else x"])
      (use revoke assms(2) in \<open>auto split: if_splits\<close>)
qed


text \<open>Acceptance uses a token up, and it stays used up unless an invitation with the same token is drawn.\<close>

lemma accept_uses:
  assumes "workspace_keys d" "implements (directory_accept q a t) d d'" "directory_of d' \<noteq> directory_of d"
  shows "\<forall>x\<in>ran (directory_of d'). t \<notin> sw_pending x"
proof -
  from assms(2,3) have "directory_accept q a t (directory_of d) (directory_of d')" by (auto simp: implements_def)
  then obtain w x y where w: "directory_of d w = Some x" "t \<in> sw_pending x" "directory_of d' = (directory_of d)(w \<mapsto> y)"
    "sw_pending y = sw_pending x - {t}" by (rule accept_change)
  have "t \<notin> sw_pending x'" if x': "directory_of d w' = Some x'" "w' \<noteq> w" for w' x'
  proof
    assume "t \<in> sw_pending x'"
    then obtain i where "i \<in> set (workspace_invitations d)" "wi_workspace_id i = w'" "wi_token_digest i = t"
      by (auto simp: pending_iff [OF x'(1)] pending_tokens_def)
    moreover obtain j where "j \<in> set (workspace_invitations d)" "wi_workspace_id j = w" "wi_token_digest j = t"
      using w(2) by (auto simp: pending_iff [OF w(1)] pending_tokens_def)
    ultimately show False using x'(2) pending_token_key [OF assms(1)] by metis
  qed
  with w(3,4) show ?thesis by (auto simp: ran_def)
qed

lemma upkeep_pending:
  assumes "implements directory_upkeep d d'" "directory_of d' w = Some y"
  obtains x where "directory_of d w = Some x" "sw_pending y \<subseteq> sw_pending x"
proof -
  from assms(1) consider "directory_of d' = directory_of d" | "directory_upkeep (directory_of d) (directory_of d')"
    by (auto simp: implements_def)
  then show thesis
  proof cases
    case 2
    then show thesis using assms(2) by cases (auto simp: close_directory_def split: option.splits if_splits intro: that)
  qed (use assms(2) that in simp)
qed

lemma token_stays_used:
  assumes "workspace_moves sv drawn s s'" "workspace_keys (wz_db s)" "drawn \<noteq> Some t" "\<forall>x\<in>ran (directory_of (wz_db s)). t \<notin> sw_pending x"
  shows "\<forall>x\<in>ran (directory_of (wz_db s')). t \<notin> sw_pending x"
proof -
  let ?dir = "directory_of (wz_db s)" and ?dir' = "directory_of (wz_db s')"
  have "t \<notin> sw_pending y" if y: "?dir' w = Some y" for w y
    using assms(1)
  proof cases
    case (call env actor op x)
    from call_keeps [OF call(1) assms(2)] consider "?dir' = ?dir" | "directory_step (wv_quotas sv) (act_UserID actor) drawn ?dir ?dir'"
      unfolding implements_def call(2) by blast
    then show ?thesis
    proof cases
      case 1
      then show ?thesis using y assms(4) by (auto simp: ran_def)
    next
      case 2
      show ?thesis
      proof (cases "?dir w")
        case None
        with step_new [OF 2 None] y show ?thesis by auto
      next
        case (Some x)
        have "t \<notin> sw_pending x" using Some assms(4) by (auto simp: ran_def)
        moreover from 2 Some have "\<exists>y. ?dir' w = Some y \<and> (t \<in> sw_pending y \<longrightarrow> t \<in> sw_pending x \<or> drawn = Some t)"
          by (rule step_change) blast
        ultimately show ?thesis using y assms(3) by auto
      qed
    qed
  next
    case (elsewhere d l)
    with elsewhere_same [OF elsewhere(2-4)] y assms(4) show ?thesis by (auto simp: ran_def)
  qed (use assms(2,4) y in \<open>auto dest: upkeep_pending [OF expire_due_implements] upkeep_pending [OF purge_implements] upkeep_pending [OF close_implements] simp: ran_def\<close>)
  then show ?thesis by (auto simp: ran_def)
qed

text \<open>
  C10. An invitation is used once. After a call with a token changed the directory, no later call with this
  token, by whomever and with whatever idempotency key, changes it, as long as the random source does not give
  the same token to a new invitation.
\<close>

theorem invitation_single_use:
  assumes "no_workspaces s0" "(workspace_step sv)\<^sup>*\<^sup>* s0 s"
    and token: "InvitationDigest (wl_crypto (wv_libs sv)) (air_Token r) = Some t"
      "InvitationDigest (wl_crypto (wv_libs sv)) (air_Token r') = Some t"
    and first: "AcceptInvitation sv env actor r s = (x, s1)" "directory_of (wz_db s1) \<noteq> directory_of (wz_db s)"
    and later: "(\<lambda>s s'. \<exists>drawn. drawn \<noteq> Some t \<and> workspace_moves sv drawn s s')\<^sup>*\<^sup>* s1 s2"
    and second: "AcceptInvitation sv env' actor' r' s2 = (y, s3)"
  shows "directory_of (wz_db s3) = directory_of (wz_db s2)"
proof -
  have k: "workspace_keys (wz_db s)" using workspace_run.reached_inv [OF assms(1,2)] .
  have acc: "implements (directory_accept (wv_quotas sv) (act_UserID actor) t) (wz_db s) (wz_db s1)"
    using keeps_accept [OF token(1), of actor s env] k first(1) by (simp add: keeps_def)
  have used: "workspace_keys (wz_db s1)" "\<forall>x\<in>ran (directory_of (wz_db s1)). t \<notin> sw_pending x"
    using acc accept_uses [OF k acc first(2)] by (simp_all add: implements_def)
  from later have "workspace_keys (wz_db s2) \<and> (\<forall>x\<in>ran (directory_of (wz_db s2)). t \<notin> sw_pending x)"
  proof (induction rule: rtranclp_induct)
    case base
    show ?case using used by blast
  next
    case (step u v)
    then show ?case using token_stays_used moves_implement by (auto simp: implements_def)
  qed
  moreover from this have "implements (directory_accept (wv_quotas sv) (act_UserID actor') t) (wz_db s2) (wz_db s3)"
    using keeps_accept [OF token(2), of actor' s2 env'] second by (simp add: keeps_def)
  ultimately show ?thesis by (auto simp: implements_def ran_def elim!: accept_change)
qed

section \<open>Revisions\<close>

definition revised :: "uuid \<Rightarrow> int \<Rightarrow> db \<Rightarrow> db \<Rightarrow> bool" where
  "revised w e d d' \<longleftrightarrow> (\<exists>x y. directory_of d w = Some x \<and> sw_revision x = e
     \<and> directory_of d' w = Some y \<and> sw_revision y = e + 1)"

lemma revised_audited [simp]: "revised w e d (d'\<lparr>audit_events := es\<rparr>) = revised w e d d'"
  by (simp add: revised_def)

lemma revise_revised:
  assumes "loadWorkspace fails actor i d = Inr w" "wk_Revision w = e" "revise_workspace b i e g d = Inr d'" "\<And>r. ws_id (g r) = ws_id r"
  shows "revised i e d d'"
  using assms(1)
proof (cases rule: loadWorkspace_Inr)
  case (1 r m)
  have "directory_of d' i = Some (the (directory_of d' i)) \<and> sw_revision (the (directory_of d' i)) = e + 1"
    unfolding revise_workspace_Inr [OF assms(3)] using 1(6) assms(2,4)
    by (simp add: directory_of_revise [OF 1(1)])
  with directory_of_Some [OF 1(1)] 1(6) assms(2) show ?thesis by (auto simp: revised_def)
qed

lemma revise_then_audit:
  assumes "revised i e d d1" "recordWorkspaceAudit lb fails actor ev t w at md d1 = Inr d2"
  shows "revised i e d d2"
  using assms by (auto elim!: recordWorkspaceAudit_Inr)

lemma pending_keeps_revision:
  "revised i e d d1 \<Longrightarrow> revised i e d (d1\<lparr>workspace_invitations := is\<rparr>)"
  by (auto simp: revised_def directory_of_def find_workspace_def)

lemma commands_revise:
  shows "RenameWorkspace_record lb f actor c1 d = (Inr v, d') \<Longrightarrow> revised (rn_WorkspaceID c1) (rn_ExpectedRevision c1) d d'"
    "ArchiveWorkspace_record lb f actor c2 d = (Inr v, d') \<Longrightarrow> revised (rv_WorkspaceID c2) (rv_ExpectedRevision c2) d d'"
    "RestoreWorkspace_record lb f actor c2 d = (Inr v, d') \<Longrightarrow> revised (rv_WorkspaceID c2) (rv_ExpectedRevision c2) d d'"
proof -
  assume "RenameWorkspace_record lb f actor c1 d = (Inr v, d')"
  then show "revised (rn_WorkspaceID c1) (rn_ExpectedRevision c1) d d'"
    unfolding RenameWorkspace_record_def
    by (cases rule: returning_cases) (auto simp: andthen_Inr intro: revise_then_audit [OF revise_revised])
next
  assume "ArchiveWorkspace_record lb f actor c2 d = (Inr v, d')"
  then show "revised (rv_WorkspaceID c2) (rv_ExpectedRevision c2) d d'"
    unfolding ArchiveWorkspace_record_def
    by (cases rule: returning_cases)
      (auto simp: andthen_Inr intro: revise_then_audit [OF pending_keeps_revision [OF revise_revised]])
next
  assume "RestoreWorkspace_record lb f actor c2 d = (Inr v, d')"
  then show "revised (rv_WorkspaceID c2) (rv_ExpectedRevision c2) d d'"
    unfolding RestoreWorkspace_record_def
    by (cases rule: returning_cases) (auto simp: andthen_Inr intro: revise_then_audit [OF revise_revised])
qed

text \<open>The calls that name a revision, with the workspace and the revision.\<close>

fun revision_call :: "workspace_op \<Rightarrow> (uuid \<times> int) option" where
  "revision_call (OpRename r) = Some (rwr_WorkspaceID r, rwr_ExpectedRevision r)"
| "revision_call (OpArchive r) = Some (wrr_WorkspaceID r, wrr_ExpectedRevision r)"
| "revision_call (OpRestore r) = Some (wrr_WorkspaceID r, wrr_ExpectedRevision r)"
| "revision_call _ = None"

lemma repository_call_Inr:
  assumes "repository_call command report (\<lambda>v s. (Inr v, s)) s = (Inr v, s')" "\<And>e s x s'. report e s = (x, s') \<Longrightarrow> \<exists>e'. x = Inl e'"
  shows "command (wz_db s) = (Inr v, wz_db s')"
  using assms by (auto simp: repository_call_def split: prod.splits sum.splits)

lemma reviseWorkspace_Inr:
  assumes "reviseWorkspace sv env actor r b s = (Inr v, s')"
  shows "revised (wrr_WorkspaceID r) (wrr_ExpectedRevision r) (wz_db s) (wz_db s')"
  using assms unfolding reviseWorkspace_def Let_def
  by (elim proceed_cases; auto dest!: repository_call_Inr commands_revise(2,3) recordMutationError_refuses split: if_splits)

lemma call_revises:
  assumes "workspace_serve sv env actor op s = (None, s')" "revision_call op = Some (w, e)"
  shows "revised w e (wz_db s) (wz_db s')"
proof -
  have fin: "\<exists>v. r = (Inr v, s')" if "outcome r = (None, s')" for r :: "(workspace_error + Workspace) \<times> workspace_state"
    using that by (auto simp: outcome_def split: prod.splits sum.splits)
  show ?thesis
    using assms
    by (cases op)
      (auto dest!: fin simp: RenameWorkspace_def ArchiveWorkspace_def RestoreWorkspace_def
        elim!: proceed_cases dest!: authorizeMutable_cases authorize_cases repository_call_Inr commands_revise(1) reviseWorkspace_Inr
          recordMutationError_refuses deny_refuses split: if_splits)
qed

text \<open>
  C36. No lost update. When a rename, an archiving or a restoring that names the revision of a workspace has
  succeeded, no later call that names the same revision of it succeeds, whatever calls come in between.
\<close>

theorem lost_update_prevented:
  assumes "no_workspaces s0" "(workspace_step sv)\<^sup>*\<^sup>* s0 s"
    and first: "workspace_serve sv env actor op s = (None, s1)" "revision_call op = Some (w, e)"
    and later: "(\<lambda>s s'. \<exists>env actor op x. workspace_serve sv env actor op s = (x, s'))\<^sup>*\<^sup>* s1 s2"
    and second: "workspace_serve sv env' actor' op' s2 = (y, s3)" "revision_call op' = Some (w, e)"
  shows "y \<noteq> None"
proof
  assume "y = None"
  have k: "workspace_keys (wz_db s)" using workspace_run.reached_inv [OF assms(1,2)] .
  from later have "workspace_keys (wz_db s2) \<and> (\<exists>x. directory_of (wz_db s2) w = Some x \<and> e < sw_revision x)"
  proof (induction rule: rtranclp_induct)
    case base
    show ?case using call_revises [OF first] call_keeps [OF first(1) k] by (auto simp: revised_def implements_def)
  next
    case (step u v)
    then obtain env actor op x where call: "workspace_serve sv env actor op u = (x, v)" by blast
    from step obtain x where x: "workspace_keys (wz_db u)" "directory_of (wz_db u) w = Some x" "e < sw_revision x" by blast
    have "\<exists>y. directory_of (wz_db v) w = Some y \<and> e < sw_revision y"
      if "directory_step (wv_quotas sv) (act_UserID actor) (drawn_token sv env) (directory_of (wz_db u)) (directory_of (wz_db v))"
      using that x(2) by (rule step_change) (use x(3) in auto)
    with x call_keeps [OF call x(1)] show ?case by (auto simp: implements_def)
  qed
  with call_revises [OF second(1) [unfolded \<open>y = None\<close>] second(2)] show False by (auto simp: revised_def)
qed

section \<open>Refusals\<close>

definition refused :: "Actor \<Rightarrow> workspace_error \<Rightarrow> db \<Rightarrow> db \<Rightarrow> bool" where
  "refused actor e d d' \<longleftrightarrow> (\<exists>es. d' = d\<lparr>audit_events := audit_events d @ es\<rparr>
     \<and> (e \<in> {WInvalidRequest, WServiceUnavailable}
        \<or> (\<exists>r. es = [r] \<and> a_actor_user_id r = Some (act_UserID actor) \<and> a_device_id r = Some (act_DeviceID actor)
            \<and> a_reason_code r = Some (workspaceReasonCode e) \<and> a_outcome r \<in> {OutcomeDenied, OutcomeFailure})))"

definition refuses :: "Actor \<Rightarrow> workspace_state \<Rightarrow> (workspace_error + 'a) \<times> workspace_state \<Rightarrow> bool" where
  "refuses actor s r \<longleftrightarrow> (\<forall>e s'. r = (Inl e, s') \<longrightarrow> refused actor e (wz_db s) (wz_db s'))"

lemma reported_db: "reported s s' \<Longrightarrow> \<exists>es. wz_db s' = (wz_db s)\<lparr>audit_events := audit_events (wz_db s) @ es\<rparr>"
  by (auto simp: reported_def)

lemma refused_plain:
  "e \<in> {WInvalidRequest, WServiceUnavailable} \<Longrightarrow> reported s s' \<Longrightarrow> refused actor e (wz_db s) (wz_db s')"
  unfolding refused_def by (drule reported_db) blast

lemma refused_same: "e \<in> {WInvalidRequest, WServiceUnavailable} \<Longrightarrow> refused actor e d d"
  unfolding refused_def by (intro exI [of _ "[]"]) auto

lemma reason_codes [simp]: "workspaceReasonCode e \<noteq> []"
  by (cases e) simp_all

lemma recordAttempt_row:
  assumes "workspace_recordAttempt sv env actor t result reason rid w md s = (None, s')" "reason \<noteq> []"
  obtains r where "wz_db s' = (wz_db s)\<lparr>audit_events := audit_events (wz_db s) @ [r]\<rparr>" "a_actor_user_id r = Some (act_UserID actor)"
    "a_device_id r = Some (act_DeviceID actor)" "a_reason_code r = Some reason" "a_outcome r = result"
proof -
  from assms(1) obtain e d where "Record_event (wl_lower (wv_libs sv)) (wl_uuid_parse (wv_libs sv)) (we_audit_fails env) None
        (we_recorder_now env) e (wz_db s) = (None, d)" and s': "s' = s\<lparr>wz_db := d\<rparr>"
      and e: "ev_ActorUserID e = Some (act_UserID actor)" "ev_DeviceID e = Some (act_DeviceID actor)" "ev_ReasonCode e = reason" "ev_Outcome e = result"
    by (auto simp: workspace_recordAttempt_def split: sum.splits prod.splits option.splits)
  then show thesis
    using assms(2) by (cases rule: Record_event_cases)
      (auto dest!: insert_audit_Some(1) simp: event_row_def nullif_def intro!: that)
qed

lemma refuses_report:
  "refuses actor s (deny sv env actor t rid w md e s)" "refuses actor s (recordMutationError sv env actor t rid w md e s)"
proof -
  have row: "refused actor e (wz_db s) (wz_db s')"
    if "workspace_recordAttempt sv env actor t result (workspaceReasonCode e) rid w md' s = (None, s')" "result \<in> {OutcomeDenied, OutcomeFailure}"
    for result md' s'
    using that(1) by (rule recordAttempt_row) (use that(2) in \<open>auto simp: refused_def\<close>)
  have none: "refused actor WServiceUnavailable (wz_db s) (wz_db s')"
    if "workspace_recordAttempt sv env actor t result reason rid w md' s = (y, s')" for result reason md' y s'
    using recordAttempt_cases [OF that] by (intro refused_plain) simp_all
  show "refuses actor s (deny sv env actor t rid w md e s)" "refuses actor s (recordMutationError sv env actor t rid w md e s)"
    unfolding refuses_def deny_def recordMutationError_def
    by (auto split: prod.splits option.splits if_splits dest: row none)
qed

lemma refuses_Inr [simp]: "refuses actor s (Inr v, s')"
  by (simp add: refuses_def)

lemma refuses_stop: "refuses actor s (Inl WInvalidRequest, s)" "refuses actor s (Inl WServiceUnavailable, s)"
  by (simp_all add: refuses_def refused_same)

lemma refuses_proceed:
  assumes "refuses actor s r" "\<And>v s1. r = (Inr v, s1) \<Longrightarrow> wz_db s1 = wz_db s \<and> refuses actor s1 (k v s1)"
  shows "refuses actor s (proceed r k)"
proof (cases r)
  case (Pair y s1)
  show ?thesis
  proof (cases y)
    case (Inl e)
    with Pair assms(1) show ?thesis by (simp add: refuses_def)
  next
    case (Inr v)
    with assms(2) [of v s1] Pair show ?thesis by (auto simp: refuses_def)
  qed
qed

lemma refuses_pure:
  assumes "\<And>e. x = Inl e \<Longrightarrow> e \<in> {WInvalidRequest, WServiceUnavailable}" "\<And>v. x = Inr v \<Longrightarrow> refuses actor s (k v s)"
  shows "refuses actor s (proceed (x, s) k)"
  using assms by (intro refuses_proceed) (auto simp: refuses_def refused_same)

lemma pure_errors:
  "check b e = Inl e' \<Longrightarrow> e' = e" "present e y = Inl e' \<Longrightarrow> e' = e" "workspace_newUUID dr = Inl e' \<Longrightarrow> e' = WServiceUnavailable"
  by (auto simp: check_def present_def workspace_newUUID_def split: if_splits option.splits)

lemma refuses_authorize: "refuses actor s (authorize sv env actor i op rid s)"
  unfolding authorize_def
  by (auto split: sum.splits option.splits intro: refuses_report refuses_stop)

lemma refuses_authorizeMutable: "refuses actor s (authorizeMutable sv env actor i op rid s)"
  unfolding authorizeMutable_def
  by (rule refuses_proceed [OF refuses_authorize])
    (auto dest!: authorize_cases intro: refuses_report refuses_stop)

lemma refuses_applyLimit: "refuses actor s (applyLimit sv env action actor scope rid obj s)"
proof -
  have plain: "refused actor WServiceUnavailable (wz_db s) (wz_db s')"
    if "workspace_recordAttempt sv env actor t result reason rid obj md (s\<lparr>wz_limits := l\<rparr>) = (y, s')" for t result reason md l y s'
    using refused_plain [of WServiceUnavailable "s\<lparr>wz_limits := l\<rparr>" s' actor] recordAttempt_cases [OF that] by simp
  have limited: "refused actor (WRateLimited n) (wz_db s) (wz_db s')"
    if "workspace_recordAttempt sv env actor t OutcomeDenied ''rate_limited'' rid obj md (s\<lparr>wz_limits := l\<rparr>) = (None, s')" for t md l s' n
    using that by (rule recordAttempt_row) (auto simp: refused_def)
  show ?thesis
    unfolding refuses_def applyLimit_def
    by (auto split: prod.splits option.splits workspace_error.splits dest: plain limited)
qed

lemma refuses_repository_call:
  assumes "\<And>e d'. command (wz_db s) = (Inl e, d') \<Longrightarrow> d' = wz_db s" "\<And>e s. refuses actor s (report e s)"
    "\<And>v d' s. command (wz_db s) = (Inr v, d') \<Longrightarrow> refuses actor s (continue v (s\<lparr>wz_db := d'\<rparr>))"
  shows "refuses actor s (repository_call command report continue s)"
proof (cases "command (wz_db s)")
  case (Pair y d')
  then show ?thesis
    using assms(1) [of _ d'] assms(2) [of s] assms(3) [of s _ d'] by (cases y) (auto simp: repository_call_def)
qed

lemma returning_Inl: "returning body d = (Inl e, d') \<Longrightarrow> d' = d"
  by (auto elim: returning_cases)

lemmas command_defs = CreateWorkspace_record_def RenameWorkspace_record_def ArchiveWorkspace_record_def RestoreWorkspace_record_def
  ChangeMemberRole_record_def RemoveMember_record_def LeaveWorkspace_record_def CreateInvitation_record_def
  RevokeInvitation_record_def AcceptInvitation_record_def

lemma failed_commands:
  "CreateWorkspace_record lb f actor c1 d = (Inl e, d') \<Longrightarrow> d' = d"
  "RenameWorkspace_record lb f actor c2 d = (Inl e, d') \<Longrightarrow> d' = d"
  "ArchiveWorkspace_record lb f actor c3 d = (Inl e, d') \<Longrightarrow> d' = d"
  "RestoreWorkspace_record lb f actor c3 d = (Inl e, d') \<Longrightarrow> d' = d"
  "ChangeMemberRole_record lb f actor c4 d = (Inl e, d') \<Longrightarrow> d' = d"
  "RemoveMember_record lb f actor c5 d = (Inl e, d') \<Longrightarrow> d' = d"
  "LeaveWorkspace_record lb f draw now actor i d = (Inl e, d') \<Longrightarrow> d' = d"
  "CreateInvitation_record lb f now actor c6 d = (Inl e, d') \<Longrightarrow> d' = d"
  "RevokeInvitation_record lb f actor c7 d = (Inl e, d') \<Longrightarrow> d' = d"
  "AcceptInvitation_record lb f actor c8 d = (Inl e, d') \<Longrightarrow> d' = d"
  unfolding command_defs by (rule returning_Inl, assumption)+

lemmas refuses_rules = refuses_pure refuses_report refuses_stop
  refuses_proceed [OF refuses_authorizeMutable] refuses_proceed [OF refuses_authorize] refuses_proceed [OF refuses_applyLimit]
  refuses_repository_call

lemma fresh_invitation_secret:
  assumes "CreateInvitation_record lb f now actor c d = (Inr (creation, IdempotencyFresh), d')"
  shows "\<exists>sec. ivc_Secret creation = Some sec \<and> is_RawToken sec \<noteq> []"
  using assms unfolding CreateInvitation_record_def Let_def
proof (cases rule: returning_cases)
  case (committed v)
  then have "ivc_Secret creation = Some (ci_Secret c)" and valid: "validCreateInvitationCommand (wl_crypto lb) actor c"
    by (auto simp: andthen_Inr split: option.splits)
  moreover have "is_RawToken (ci_Secret c) \<noteq> []"
  proof
    assume "is_RawToken (ci_Secret c) = []"
    moreover have "DecodeString url_alphabet True [] = Some []" by (simp add: DecodeString_def)
    ultimately show False using valid
      by (auto simp: validCreateInvitationCommand_def InvitationDigest_def invitationEntropyBytes_def DecodeCanonicalBase64URL_def
          split: option.splits if_splits)
  qed
  ultimately show ?thesis by blast
qed simp

lemma refuses_methods:
  "refuses actor s (CreateWorkspace sv env actor r1 s)" "refuses actor s (RenameWorkspace sv env actor r2 s)"
  "refuses actor s (ArchiveWorkspace sv env actor r3 s)" "refuses actor s (RestoreWorkspace sv env actor r3 s)"
  "refuses actor s (ChangeMemberRole sv env actor r4 s)" "refuses actor s (RemoveMember sv env actor r5 s)"
  "refuses actor s (LeaveWorkspace sv env actor i rid s)" "refuses actor s (CreateInvitation sv env actor r6 s)"
  "refuses actor s (RevokeInvitation sv env actor r7 s)" "refuses actor s (AcceptInvitation sv env actor r8 s)"
proof -
  note outs = authorizeMutable_cases authorize_cases applyLimit_reported failed_commands pure_errors
  show "refuses actor s (CreateWorkspace sv env actor r1 s)"
    unfolding CreateWorkspace_def Let_def by (intro refuses_rules conjI) (auto dest: outs)
  show "refuses actor s (RenameWorkspace sv env actor r2 s)"
    unfolding RenameWorkspace_def by (intro refuses_rules conjI) (auto dest: outs)
  have revise: "refuses actor s (reviseWorkspace sv env actor r3 b s)" for b s
    unfolding reviseWorkspace_def Let_def by (intro refuses_rules conjI) (auto dest: outs split: if_splits)
  show "refuses actor s (ArchiveWorkspace sv env actor r3 s)"
    unfolding ArchiveWorkspace_def by (intro refuses_rules conjI) (auto dest: outs intro: revise)
  show "refuses actor s (RestoreWorkspace sv env actor r3 s)"
    unfolding RestoreWorkspace_def by (intro refuses_rules conjI) (auto dest: outs intro: revise refuses_report)
  show "refuses actor s (ChangeMemberRole sv env actor r4 s)"
    unfolding ChangeMemberRole_def Let_def
    by (intro refuses_rules conjI) (auto dest: outs split: sum.splits intro!: refuses_rules)
  show "refuses actor s (RemoveMember sv env actor r5 s)"
    unfolding RemoveMember_def Let_def
    by (intro refuses_rules conjI) (auto dest: outs split: sum.splits intro!: refuses_rules)
  show "refuses actor s (LeaveWorkspace sv env actor i rid s)"
    unfolding LeaveWorkspace_def by (intro refuses_rules conjI) (auto dest: outs)
  show "refuses actor s (CreateInvitation sv env actor r6 s)"
    unfolding CreateInvitation_def Let_def
    by (intro refuses_rules conjI) (auto dest: outs dest!: fresh_invitation_secret split: option.splits)
  show "refuses actor s (RevokeInvitation sv env actor r7 s)"
    unfolding RevokeInvitation_def by (intro refuses_rules conjI) (auto dest: outs)
  show "refuses actor s (AcceptInvitation sv env actor r8 s)"
    unfolding AcceptInvitation_def Let_def by (intro refuses_rules conjI) (auto dest: outs)
qed

fun changing :: "workspace_op \<Rightarrow> bool" where
  "changing OpList = False"
| "changing (OpMembers i) = False"
| "changing (OpInvitations i rid) = False"
| "changing _ = True"

text \<open>
  C37. Refusals are accounted for. A call that is to change something and returns an error leaves every table
  but the audit log as it was. Unless the error is that of a malformed request or of a failing service, the
  log has exactly one new row, which names the actor, the device and the reason.
\<close>

theorem refusal_recorded:
  assumes "workspace_serve sv env actor op s = (Some e, s')" "changing op"
  shows "\<exists>es. wz_db s' = (wz_db s)\<lparr>audit_events := audit_events (wz_db s) @ es\<rparr>
    \<and> (e \<in> {WInvalidRequest, WServiceUnavailable}
       \<or> (\<exists>r. es = [r] \<and> a_actor_user_id r = Some (act_UserID actor) \<and> a_device_id r = Some (act_DeviceID actor)
           \<and> a_reason_code r = Some (workspaceReasonCode e) \<and> a_outcome r \<in> {OutcomeDenied, OutcomeFailure}))"
proof -
  have fin: "refused actor e (wz_db s) (wz_db s')" if "outcome r = (Some e, s')" "refuses actor s r"
    for r :: "(workspace_error + 'x) \<times> workspace_state"
    using that by (auto simp: outcome_def refuses_def split: prod.splits sum.splits)
  have "refused actor e (wz_db s) (wz_db s')"
    using assms by (cases op) (auto dest: fin intro: refuses_methods)
  then show ?thesis by (simp add: refused_def)
qed

section \<open>Examples\<close>

lemma reset_limits: "workspace_step sv \<lparr>wz_db = d, wz_limits = l\<rparr> (idle d)"
  using workspace_moves.elsewhere [of d "\<lparr>wz_db = d, wz_limits = l\<rparr>" sv None Map.empty] by (auto simp: workspace_step_def)

lemma call_steps: "workspace_serve sv env actor op s = (x, s') \<Longrightarrow> workspace_step sv s s'"
  unfolding workspace_step_def by (blast intro: workspace_moves.call)

lemma call_then_reset:
  assumes "workspace_serve sv env actor op (idle d) = (x, \<lparr>wz_db = d', wz_limits = l\<rparr>)" "(workspace_step sv)\<^sup>*\<^sup>* s (idle d)"
  shows "(workspace_step sv)\<^sup>*\<^sup>* s (idle d')"
  using assms(2) call_steps [OF assms(1)] reset_limits [of sv d' l] by (meson rtranclp.rtrancl_into_rtrancl)

lemma sample_calls:
  "\<exists>l. workspace_serve sample_workspaces (sample_env 31 41 51) host (OpCreate create_request) (idle two_users) = (None, \<lparr>wz_db = founded, wz_limits = l\<rparr>)"
  "\<exists>l. workspace_serve sample_workspaces (sample_env 32 42 52) host (OpInvite sample_invite) (idle founded) = (None, \<lparr>wz_db = invited, wz_limits = l\<rparr>)"
  "\<exists>l. workspace_serve sample_workspaces (sample_env 33 43 53) guest (OpAccept sample_accept) (idle invited) = (None, \<lparr>wz_db = accepted, wz_limits = l\<rparr>)"
  "workspace_serve sample_workspaces (sample_env 34 44 54) host (OpRename sample_rename) (idle founded) = (None, idle renamed)"
  using founding inviting accepting renaming by (auto simp: outcome_def)

lemma workspaces_reached:
  "no_workspaces (idle two_users)" "(workspace_step sample_workspaces)\<^sup>*\<^sup>* (idle two_users) (idle founded)"
  "(workspace_step sample_workspaces)\<^sup>*\<^sup>* (idle two_users) (idle invited)" "(workspace_step sample_workspaces)\<^sup>*\<^sup>* (idle two_users) (idle accepted)"
proof -
  show "no_workspaces (idle two_users)" by (simp add: no_workspaces_def two_users_def empty_db_def)
  show 1: "(workspace_step sample_workspaces)\<^sup>*\<^sup>* (idle two_users) (idle founded)"
    using sample_calls(1) by (blast intro: call_then_reset)
  show 2: "(workspace_step sample_workspaces)\<^sup>*\<^sup>* (idle two_users) (idle invited)"
    using sample_calls(2) 1 by (blast intro: call_then_reset)
  show "(workspace_step sample_workspaces)\<^sup>*\<^sup>* (idle two_users) (idle accepted)"
    using sample_calls(3) 2 by (blast intro: call_then_reset)
qed

lemma sample_directory:
  "sw_members (the (directory_of accepted 31)) 12 = Some RoleMember" "directory_of invited 31 \<noteq> None"
  "sw_members (the (directory_of invited 31)) 12 = None"
  by (simp_all add: directory_of_def find_workspace_def find_membership_def member_key_def accepted_def invited_def founded_def team_row_def host_row_def
      guest_row_def workspace_constants)

theorem workspace_refines_witness:
  "(directory_moves sample_quotas)\<^sup>*\<^sup>* Map.empty (directory_of accepted) \<and> sw_members (the (directory_of accepted 31)) 12 = Some RoleMember"
  using workspace_refines [OF sample_workspaces_new workspaces_reached(1,4)] sample_directory by simp

theorem workspace_invariant_witness:
  "workspaces accepted = [team_row] \<and> owner_matches team_row accepted \<and> int (length (memberships_of 31 accepted)) \<le> 2
   \<and> int (active_owned 11 accepted) \<le> 1"
  using workspace_invariant [OF sample_workspaces_new workspaces_reached(1,4) refl]
  by (simp add: accepted_def invited_def founded_def team_row_def sample_quotas_def)


theorem invitation_single_use_witness:
  "directory_of accepted \<noteq> directory_of invited
   \<and> directory_of (wz_db (snd (AcceptInvitation sample_workspaces (sample_env 35 45 55) host sample_accept (idle accepted)))) = directory_of accepted"
proof -
  obtain v l where first: "AcceptInvitation sample_workspaces (sample_env 33 43 53) guest sample_accept (idle invited) = (Inr v, \<lparr>wz_db = accepted, wz_limits = l\<rparr>)"
    using accepting by blast
  have changed: "directory_of accepted \<noteq> directory_of invited" using sample_directory by auto
  have token: "InvitationDigest (wl_crypto (wv_libs sample_workspaces)) (air_Token sample_accept) = Some sample_token_digest"
    by (simp add: sample_accept_def sample_secret)
  have "(\<lambda>s s'. \<exists>drawn. drawn \<noteq> Some sample_token_digest \<and> workspace_moves sample_workspaces drawn s s')\<^sup>*\<^sup>* \<lparr>wz_db = accepted, wz_limits = l\<rparr> (idle accepted)"
    using workspace_moves.elsewhere [of accepted "\<lparr>wz_db = accepted, wz_limits = l\<rparr>" sample_workspaces None Map.empty]
    by (intro r_into_rtranclp exI [of _ None]) simp
  from invitation_single_use [OF workspaces_reached(1,3) token token first _ this] changed show ?thesis
    by (metis prod.collapse workspace_state.simps(1))
qed

theorem lost_update_prevented_witness:
  "fst (workspace_serve sample_workspaces (sample_env 34 44 54) host (OpRename sample_rename) (idle founded)) = None
   \<and> fst (workspace_serve sample_workspaces (sample_env 36 46 56) host (OpRename sample_rename) (idle renamed)) \<noteq> None"
proof -
  have rev: "revision_call (OpRename sample_rename) = Some (31, 1)" by (simp add: sample_rename_def)
  obtain y s3 where second: "workspace_serve sample_workspaces (sample_env 36 46 56) host (OpRename sample_rename) (idle renamed) = (y, s3)" by fastforce
  from lost_update_prevented [OF workspaces_reached(1,2) sample_calls(4) rev rtranclp.rtrancl_refl second rev]
  show ?thesis using second sample_calls(4) by simp
qed

theorem refusal_recorded_witness:
  "\<exists>d. workspace_serve sample_workspaces (sample_env 34 44 54) guest (OpRename sample_rename) (idle founded) = (Some WNotFound, idle d)
     \<and> length (audit_events d) = Suc (length (audit_events founded))"
proof -
  obtain d where call: "workspace_serve sample_workspaces (sample_env 34 44 54) guest (OpRename sample_rename) (idle founded) = (Some WNotFound, idle d)"
    using refused_renaming by (auto simp: outcome_def)
  from refusal_recorded [OF call] have "length (audit_events d) = Suc (length (audit_events founded))" by auto
  with call show ?thesis by blast
qed

end
