(* ===== verification/Backups.thy ===== *)
theory Backups
  imports AuditLog
begin

text \<open>
  \<open>internal/encryptedbackup\<close> without its service: the data of \<open>model.go\<close>, the references of
  \<open>object_store.go\<close>, the signed texts of \<open>signature.go\<close> and the transactions of \<open>repository.go\<close> on the
  tables of migration 18. The constraints and triggers of these tables are part of the statements: an
  insertion or an update first passes the trigger, then the CHECK constraints, the unique indexes and the
  foreign keys. The server stores ciphertext only; a device signs what it uploads.
\<close>

section \<open>Data\<close>

definition BackupFormatVersion :: int where "BackupFormatVersion = 1"

definition BackupCipherSuite :: bytes where
  "BackupCipherSuite = ''HPKE-X25519-HKDF-SHA256-AES256GCM+ARGON2ID+AES256GCM''"

definition RecoveryMemoryKiB :: int where "RecoveryMemoryKiB = 65536"
definition RecoveryIterations :: int where "RecoveryIterations = 3"
definition RecoveryParallelism :: int where "RecoveryParallelism = 1"

definition maximumChunkCount :: int where "maximumChunkCount = 131072"
definition maximumChunkCiphertextSize :: int where "maximumChunkCiphertextSize = 9437200"
definition maximumManifestBytes :: int where "maximumManifestBytes = 16777216"
definition minimumCiphertextBytes :: int where "minimumCiphertextBytes = 17"
definition maximumEnvelopeBytes :: nat where "maximumEnvelopeBytes = 4096"
definition minimumEnvelopeBytes :: nat where "minimumEnvelopeBytes = 48"

datatype ciphertext_error =
    CiphertextNotFound | CiphertextAlreadyExists | CiphertextMismatch | ObjectStoreUnavailable

text \<open>\<open>BStore\<close> is an error of the object store that the service passes on.\<close>

datatype backup_error =
    BInvalidRequest | BInvalidSignature | BUnauthorized | BDeviceRevoked | BNotFound | BConflict | BExpired
  | BIncomplete | BQuotaExceeded | BUnavailable | BStore ciphertext_error

record Principal =
  pr_UserID :: uuid
  pr_DeviceID :: uuid

definition valid_principal :: "Principal \<Rightarrow> bool" where
  "valid_principal p \<longleftrightarrow> pr_UserID p \<noteq> Nil_uuid \<and> pr_DeviceID p \<noteq> Nil_uuid"

record ObjectSpec =
  os_ObjectID :: bytes
  os_CiphertextDigest :: bytes
  os_CiphertextSize :: int

record ChunkSpec =
  ck_Index :: int
  ck_Object :: ObjectSpec

record PublicEnvelope =
  pe_FormatVersion :: int
  pe_CipherSuite :: bytes
  pe_BackupID :: uuid
  pe_ProfileLineageID :: uuid
  pe_ParentBackupID :: "uuid option"
  pe_SourceDeviceID :: uuid
  pe_SourceInstallationID :: uuid
  pe_SourceDefinitionID :: uuid
  pe_SourceVersionID :: uuid
  pe_BaseOwnerScope :: bytes
  pe_KeyEpoch :: int
  pe_CreatedAt :: instant
  pe_CreatedAt_is_UTC :: bool \<comment> \<open>the location of \<open>CreatedAt\<close>\<close>
  pe_Manifest :: ObjectSpec
  pe_Chunks :: "ChunkSpec list"
  pe_TotalCiphertextSize :: int
  pe_RecoveryEnvelopeDigest :: bytes
  pe_WrappedDataKeyDigest :: bytes
  pe_SourceDeviceEnvelopeDigest :: bytes

text \<open>\<open>^[0-9a-f]{64}$\<close>\<close>

definition ciphertextObjectIDPattern :: "bytes \<Rightarrow> bool" where
  "ciphertextObjectIDPattern s \<longleftrightarrow> length s = 64 \<and> list_all (\<lambda>c. c \<in> set ''0123456789abcdef'') s"

definition validObjectSpec :: "ObjectSpec \<Rightarrow> int \<Rightarrow> bool" where
  "validObjectSpec spec maximum \<longleftrightarrow> ciphertextObjectIDPattern (os_ObjectID spec)
     \<and> minimumCiphertextBytes \<le> os_CiphertextSize spec \<and> os_CiphertextSize spec \<le> maximum"

text \<open>The loop over the chunks: the next index and the running total; \<open>None\<close> is an early return.\<close>

fun chunks_total :: "int \<Rightarrow> int \<Rightarrow> int \<Rightarrow> ChunkSpec list \<Rightarrow> int option" where
  "chunks_total maxBackupBytes index acc [] = Some acc"
| "chunks_total maxBackupBytes index acc (chunk # chunks) =
     (if ck_Index chunk \<noteq> index \<or> \<not> validObjectSpec (ck_Object chunk) maximumChunkCiphertextSize then None
      else let sum = acc + os_CiphertextSize (ck_Object chunk) in
           if sum < 0 \<or> sum > maxBackupBytes then None
           else chunks_total maxBackupBytes (index + 1) sum chunks)"

definition valid_envelope :: "int \<Rightarrow> PublicEnvelope \<Rightarrow> bool" where
  "valid_envelope maxBackupBytes e \<longleftrightarrow>
     \<not> (pe_FormatVersion e \<noteq> BackupFormatVersion \<or> pe_CipherSuite e \<noteq> BackupCipherSuite
        \<or> pe_BackupID e = Nil_uuid \<or> pe_ProfileLineageID e = Nil_uuid \<or> pe_SourceDeviceID e = Nil_uuid
        \<or> pe_SourceInstallationID e = Nil_uuid \<or> pe_SourceDefinitionID e = Nil_uuid \<or> pe_SourceVersionID e = Nil_uuid
        \<or> pe_BaseOwnerScope e \<noteq> ''USER'' \<or> pe_KeyEpoch e \<le> 0 \<or> pe_CreatedAt e = zero_time \<or> \<not> pe_CreatedAt_is_UTC e
        \<or> pe_TotalCiphertextSize e < minimumCiphertextBytes \<or> pe_TotalCiphertextSize e > maxBackupBytes
        \<or> length (pe_Chunks e) < 1 \<or> int (length (pe_Chunks e)) > maximumChunkCount
        \<or> \<not> validObjectSpec (pe_Manifest e) maximumManifestBytes)
     \<and> (case pe_ParentBackupID e of None \<Rightarrow> True | Some p \<Rightarrow> p \<noteq> Nil_uuid \<and> p \<noteq> pe_BackupID e)
     \<and> chunks_total maxBackupBytes 0 0 (pe_Chunks e) = Some (pe_TotalCiphertextSize e)"

record BackupDeviceRegistration =
  rg_UserID :: uuid
  rg_DeviceID :: uuid
  rg_KeyEpoch :: int
  rg_Revision :: int
  rg_PublicKey :: bytes

record RegisterDeviceCommand =
  rd_KeyEpoch :: int
  rd_Revision :: int
  rd_PublicKey :: bytes
  rd_Signature :: bytes

record RegistrationRecord =
  rr_Registration :: BackupDeviceRegistration
  rr_Signature :: bytes
  rr_RecordedAt :: instant

record BackupDevice =
  bv_ID :: uuid
  bv_UserID :: uuid
  bv_DeviceID :: uuid
  bv_KeyEpoch :: int
  bv_PublicKey :: bytes
  bv_Revision :: int
  bv_Status :: bytes
  bv_CreatedAt :: instant
  bv_UpdatedAt :: instant
  bv_RevokedAt :: "instant option"

record AuthenticationDevice =
  au_UserID :: uuid
  au_DeviceID :: uuid
  au_PublicKey :: bytes
  au_Status :: bytes

record RecoveryParameters =
  rp_Salt :: bytes
  rp_MemoryKiB :: int
  rp_Iterations :: int
  rp_Parallelism :: int

record InitiateCommand =
  ic_Principal :: Principal
  ic_Envelope :: PublicEnvelope
  ic_Signature :: bytes
  ic_Recovery :: RecoveryParameters
  ic_RecoveryRootKeyEnvelope :: bytes
  ic_WrappedDataKey :: bytes
  ic_SourceDeviceRootKeyEnvelope :: bytes

record InitiateResult =
  ir_BackupID :: uuid
  ir_State :: BackupState
  ir_UploadExpiresAt :: instant
  ir_Replayed :: bool

record Backup =
  bk_ID :: uuid
  bk_UserID :: uuid
  bk_SourceDeviceID :: uuid
  bk_SourceInstallationID :: uuid
  bk_SourceDefinitionID :: uuid
  bk_SourceVersionID :: uuid
  bk_ProfileLineageID :: uuid
  bk_ParentBackupID :: "uuid option"
  bk_FormatVersion :: int
  bk_CipherSuite :: bytes
  bk_State :: BackupState
  bk_KeyEpoch :: int
  bk_ChunkCount :: int
  bk_TotalCiphertextSize :: int
  bk_Manifest :: ObjectSpec
  bk_PublicEnvelopeDigest :: bytes
  bk_PublicSignature :: bytes
  bk_Recovery :: RecoveryParameters
  bk_RecoveryRootKeyEnvelope :: bytes
  bk_WrappedDataKey :: bytes
  bk_CreatedAt :: instant
  bk_UpdatedAt :: instant
  bk_UploadExpiresAt :: instant
  bk_SealedAt :: "instant option"
  bk_DeletionStartedAt :: "instant option"
  bk_DeletedAt :: "instant option"

record KeyEnvelope =
  ke_ID :: uuid
  ke_BackupID :: uuid
  ke_BackupDeviceID :: uuid
  ke_DeviceID :: uuid
  ke_KeyEpoch :: int
  ke_RootKeyEnvelope :: bytes
  ke_RootKeyEnvelopeDigest :: bytes
  ke_CreatedAt :: instant

record BackupDetail =
  dt_Backup :: Backup
  dt_Chunks :: "ChunkSpec list"
  dt_SourceDevicePublicKey :: bytes
  dt_SourceDeviceEnvelopeDigest :: bytes
  dt_CurrentDeviceKey :: "KeyEnvelope option"

record UploadTarget =
  ut_BackupID :: uuid
  ut_UserID :: uuid
  ut_SourceDeviceID :: uuid
  ut_State :: BackupState
  ut_UploadExpiresAt :: instant
  ut_Object :: ObjectSpec

record EnvelopeRecord =
  er_ID :: uuid
  er_BackupID :: uuid
  er_BackupDeviceID :: uuid
  er_KeyEpoch :: int
  er_RootKeyEnvelope :: bytes
  er_RootKeyEnvelopeDigest :: bytes
  er_CreatedAt :: instant

record InitiateRecord =
  ird_Backup :: Backup
  ird_Chunks :: "ChunkSpec list"
  ird_SourceDeviceEnvelope :: EnvelopeRecord
  ird_PublicEnvelopeDigest :: bytes

record SealResult =
  sr_BackupID :: uuid
  sr_State :: BackupState
  sr_SealedAt :: "instant option"
  sr_Replayed :: bool

record DeletionRecord =
  dr_BackupID :: uuid
  dr_UserID :: uuid
  dr_State :: BackupState
  dr_ObjectIDs :: "bytes list"

section \<open>References to objects\<close>

record CiphertextObjectRef =
  co_userID :: uuid
  co_backupID :: uuid
  co_objectID :: bytes

definition NewCiphertextObjectRef :: "uuid \<Rightarrow> uuid \<Rightarrow> bytes \<Rightarrow> CiphertextObjectRef option" where
  "NewCiphertextObjectRef userID backupID objectID =
     (if userID = Nil_uuid \<or> backupID = Nil_uuid \<or> \<not> ciphertextObjectIDPattern objectID then None
      else Some \<lparr>co_userID = userID, co_backupID = backupID, co_objectID = objectID\<rparr>)"

definition objectKey :: "CiphertextObjectRef \<Rightarrow> bytes" where
  "objectKey ref = ''users/'' @ uuid_string (co_userID ref) @ ''/backups/'' @ uuid_string (co_backupID ref)
     @ ''/'' @ co_objectID ref"

section \<open>Signed texts\<close>

text \<open>The canonical structs are what \<open>json.Marshal\<close> is called on; the marshaller and the format of the
  creation time are parameters.\<close>

record canonicalObjectSpec =
  cn_ObjectID :: bytes
  cn_CiphertextDigest :: bytes
  cn_CiphertextSize :: int

record canonicalPublicEnvelope =
  ce_FormatVersion :: int
  ce_CipherSuite :: bytes
  ce_BackupID :: bytes
  ce_ProfileLineageID :: bytes
  ce_ParentBackupID :: "bytes option"
  ce_SourceDeviceID :: bytes
  ce_SourceInstallationID :: bytes
  ce_SourceDefinitionID :: bytes
  ce_SourceVersionID :: bytes
  ce_BaseOwnerScope :: bytes
  ce_KeyEpoch :: int
  ce_CreatedAt :: bytes
  ce_Manifest :: canonicalObjectSpec
  ce_Chunks :: "(int \<times> canonicalObjectSpec) list"
  ce_TotalCiphertextSize :: int
  ce_RecoveryEnvelopeDigest :: bytes
  ce_WrappedDataKeyDigest :: bytes
  ce_SourceDeviceEnvelopeDigest :: bytes

record canonicalBackupDeviceRegistration =
  cb_UserID :: bytes
  cb_DeviceID :: bytes
  cb_KeyEpoch :: int
  cb_Revision :: int
  cb_PublicKey :: bytes

record backup_libs =
  bl_crypto :: crypto
  bl_marshal_envelope :: "canonicalPublicEnvelope \<Rightarrow> bytes"
  bl_marshal_registration :: "canonicalBackupDeviceRegistration \<Rightarrow> bytes"
  bl_format_time :: "instant \<Rightarrow> bytes"

definition publicEnvelopeSignatureDomain :: bytes where
  "publicEnvelopeSignatureDomain = ''agentera-encrypted-profile-backup-public-envelope.v1'' @ [CHR 0x00]"

definition backupDeviceRegistrationDomain :: bytes where
  "backupDeviceRegistrationDomain = ''agentera-encrypted-profile-backup-device-registration.v1'' @ [CHR 0x00]"

definition canonicalizeObjectSpec :: "ObjectSpec \<Rightarrow> canonicalObjectSpec" where
  "canonicalizeObjectSpec spec = \<lparr>cn_ObjectID = os_ObjectID spec,
     cn_CiphertextDigest = encode_url (os_CiphertextDigest spec), cn_CiphertextSize = os_CiphertextSize spec\<rparr>"

definition canonical_envelope :: "backup_libs \<Rightarrow> PublicEnvelope \<Rightarrow> canonicalPublicEnvelope" where
  "canonical_envelope lb e =
     \<lparr>ce_FormatVersion = pe_FormatVersion e, ce_CipherSuite = pe_CipherSuite e,
      ce_BackupID = uuid_string (pe_BackupID e), ce_ProfileLineageID = uuid_string (pe_ProfileLineageID e),
      ce_ParentBackupID = map_option uuid_string (pe_ParentBackupID e),
      ce_SourceDeviceID = uuid_string (pe_SourceDeviceID e),
      ce_SourceInstallationID = uuid_string (pe_SourceInstallationID e),
      ce_SourceDefinitionID = uuid_string (pe_SourceDefinitionID e), ce_SourceVersionID = uuid_string (pe_SourceVersionID e),
      ce_BaseOwnerScope = pe_BaseOwnerScope e, ce_KeyEpoch = pe_KeyEpoch e,
      ce_CreatedAt = bl_format_time lb (pe_CreatedAt e), ce_Manifest = canonicalizeObjectSpec (pe_Manifest e),
      ce_Chunks = zip (map int [0..<length (pe_Chunks e)]) (map (canonicalizeObjectSpec \<circ> ck_Object) (pe_Chunks e)),
      ce_TotalCiphertextSize = pe_TotalCiphertextSize e,
      ce_RecoveryEnvelopeDigest = encode_url (pe_RecoveryEnvelopeDigest e),
      ce_WrappedDataKeyDigest = encode_url (pe_WrappedDataKeyDigest e),
      ce_SourceDeviceEnvelopeDigest = encode_url (pe_SourceDeviceEnvelopeDigest e)\<rparr>"

definition PublicEnvelopeSigningDigest :: "backup_libs \<Rightarrow> PublicEnvelope \<Rightarrow> bytes" where
  "PublicEnvelopeSigningDigest lb e =
     sha256 (bl_crypto lb) (publicEnvelopeSignatureDomain @ bl_marshal_envelope lb (canonical_envelope lb e))"

definition VerifyPublicEnvelopeSignature ::
  "backup_libs \<Rightarrow> bytes \<Rightarrow> PublicEnvelope \<Rightarrow> bytes \<Rightarrow> backup_error + unit" where
  "VerifyPublicEnvelopeSignature lb publicKey e signature =
     check (\<not> (length publicKey \<noteq> 32 \<or> length signature \<noteq> 64
        \<or> \<not> ed25519_verify (bl_crypto lb) publicKey (PublicEnvelopeSigningDigest lb e) signature)) BInvalidSignature"

definition BackupDeviceRegistrationSigningDigest :: "backup_libs \<Rightarrow> BackupDeviceRegistration \<Rightarrow> bytes" where
  "BackupDeviceRegistrationSigningDigest lb r =
     sha256 (bl_crypto lb) (backupDeviceRegistrationDomain @ bl_marshal_registration lb
       \<lparr>cb_UserID = uuid_string (rg_UserID r), cb_DeviceID = uuid_string (rg_DeviceID r), cb_KeyEpoch = rg_KeyEpoch r,
        cb_Revision = rg_Revision r, cb_PublicKey = encode_url (rg_PublicKey r)\<rparr>)"

definition VerifyBackupDeviceRegistrationSignature ::
  "backup_libs \<Rightarrow> bytes \<Rightarrow> BackupDeviceRegistration \<Rightarrow> bytes \<Rightarrow> backup_error + unit" where
  "VerifyBackupDeviceRegistrationSignature lb publicKey r signature =
     check (\<not> (length publicKey \<noteq> 32 \<or> length (rg_PublicKey r) \<noteq> 32 \<or> length signature \<noteq> 64
        \<or> \<not> ed25519_verify (bl_crypto lb) publicKey (BackupDeviceRegistrationSigningDigest lb r) signature)) BInvalidSignature"

definition digestMatches :: "crypto \<Rightarrow> bytes \<Rightarrow> bytes \<Rightarrow> bool" where
  "digestMatches cr v expected \<longleftrightarrow> sha256 cr v = expected"

definition validRecovery :: "RecoveryParameters \<Rightarrow> bool" where
  "validRecovery r \<longleftrightarrow> 16 \<le> length (rp_Salt r) \<and> length (rp_Salt r) \<le> 32 \<and> rp_MemoryKiB r = RecoveryMemoryKiB
     \<and> rp_Iterations r = RecoveryIterations \<and> rp_Parallelism r = RecoveryParallelism"

definition validEnvelope :: "bytes \<Rightarrow> bool" where
  "validEnvelope v \<longleftrightarrow> minimumEnvelopeBytes \<le> length v \<and> length v \<le> maximumEnvelopeBytes"

section \<open>Constraints and triggers\<close>

text \<open>An UPDATE whose rows have to pass constraints: the first violation, or the number of rows and the new table.\<close>

fun first_error :: "('e + unit) list \<Rightarrow> 'e option" where
  "first_error [] = None"
| "first_error (Inl e # rs) = Some e"
| "first_error (Inr _ # rs) = first_error rs"

definition update_checked ::
  "('r \<Rightarrow> 'r \<Rightarrow> 'v + unit) \<Rightarrow> ('r \<Rightarrow> bool) \<Rightarrow> ('r \<Rightarrow> 'r) \<Rightarrow> 'r list \<Rightarrow> 'v + nat \<times> 'r list" where
  "update_checked ok P g t =
     (case first_error (map (\<lambda>r. ok r (g r)) (filter P t)) of
        Some v \<Rightarrow> Inl v
      | None \<Rightarrow> Inr (length (filter P t), update_where P g t))"

lemma first_error_None [simp]: "first_error rs = None \<longleftrightarrow> (\<forall>r\<in>set rs. r = Inr ())"
  by (induction rs rule: first_error.induct) auto

lemma update_checked_Inr:
  "update_checked ok P g t = Inr x \<longleftrightarrow>
     (\<forall>r\<in>set t. P r \<longrightarrow> ok r (g r) = Inr ()) \<and> x = (length (filter P t), update_where P g t)"
proof -
  have "first_error (map (\<lambda>r. ok r (g r)) (filter P t)) = None \<longleftrightarrow> (\<forall>r\<in>set t. P r \<longrightarrow> ok r (g r) = Inr ())"
    by auto
  then show ?thesis
    by (cases "first_error (map (\<lambda>r. ok r (g r)) (filter P t))") (auto simp: update_checked_def simp del: first_error_None)
qed

datatype backup_violation =
    NotFoundViolation | QuotaViolation | ProvenanceViolation | CheckViolation | UniqueViolation | ForeignKeyViolation

text \<open>\<open>None\<close> is an error that is not one of PostgreSQL.\<close>

definition classifyBackupWriteError :: "backup_violation option \<Rightarrow> backup_error" where
  "classifyBackupWriteError v = (case v of
       None \<Rightarrow> BUnavailable
     | Some NotFoundViolation \<Rightarrow> BNotFound
     | Some QuotaViolation \<Rightarrow> BQuotaExceeded
     | Some ProvenanceViolation \<Rightarrow> BUnauthorized
     | Some ForeignKeyViolation \<Rightarrow> BUnauthorized
     | Some UniqueViolation \<Rightarrow> BConflict
     | Some CheckViolation \<Rightarrow> BConflict)"

text \<open>The outcome of a write: a failed call, or the violation, as the error the repository returns.\<close>

definition written_row :: "bool \<Rightarrow> backup_violation + 'a \<Rightarrow> backup_error + 'a" where
  "written_row fails r = (if fails then Inl (classifyBackupWriteError None)
     else case r of Inl v \<Rightarrow> Inl (classifyBackupWriteError (Some v)) | Inr x \<Rightarrow> Inr x)"

definition stored_row :: "bool \<Rightarrow> 'v + 'a \<Rightarrow> backup_error + 'a" where
  "stored_row fails r = (if fails then Inl BUnavailable else case r of Inl _ \<Rightarrow> Inl BUnavailable | Inr x \<Rightarrow> Inr x)"

subsection \<open>Backups\<close>

definition uploading_state :: "BackupState \<Rightarrow> bool" where
  "uploading_state s \<longleftrightarrow> s = Initiated \<or> s = Uploading"

definition provenance_matches :: "backup_row \<Rightarrow> db \<Rightarrow> bool" where
  "provenance_matches r d \<longleftrightarrow> exists_row (\<lambda>i. in_id i = eb_source_installation_id r \<and> in_owner_scope i = ''USER''
       \<and> in_owner_id i = eb_user_id r \<and> in_device_id i = eb_source_device_id r
       \<and> in_definition_id i = eb_source_definition_id r \<and> in_selected_version_id i = eb_source_version_id r
       \<and> exists_row (\<lambda>q. ad_id q = in_definition_id i \<and> ad_owner_scope q = ''USER'' \<and> ad_owner_id q = eb_user_id r)
           (agent_definitions d)
       \<and> exists_row (\<lambda>v. av_id v = in_selected_version_id i \<and> av_owner_scope v = ''USER'' \<and> av_owner_id v = eb_user_id r
              \<and> av_definition_id v = eb_source_definition_id r) (agent_versions d)
       \<and> exists_row (\<lambda>v. d_id v = in_device_id i \<and> d_user_id v = eb_user_id r) (devices d)) (installations d)"

definition parent_matches :: "backup_row \<Rightarrow> db \<Rightarrow> bool" where
  "parent_matches r d \<longleftrightarrow> (case eb_parent_backup_id r of
       None \<Rightarrow> True
     | Some p \<Rightarrow> exists_row (\<lambda>q. eb_id q = p \<and> eb_user_id q = eb_user_id r
         \<and> eb_profile_lineage_id q = eb_profile_lineage_id r \<and> eb_state q = Sealed) (encrypted_profile_backups d))"

definition lineage_sealed :: "uuid \<Rightarrow> uuid \<Rightarrow> db \<Rightarrow> backup_row list" where
  "lineage_sealed userID lineageID d =
     filter (\<lambda>q. eb_user_id q = userID \<and> eb_profile_lineage_id q = lineageID \<and> eb_state q = Sealed) (encrypted_profile_backups d)"

definition sealed_bytes :: "uuid \<Rightarrow> backup_row list \<Rightarrow> int" where
  "sealed_bytes userID t = sum_list (map eb_total_ciphertext_size (filter (\<lambda>q. eb_user_id q = userID \<and> eb_state q = Sealed) t))"

definition lineage_quota :: nat where "lineage_quota = 3"

definition account_quota :: int where "account_quota = 5368709120"

text \<open>What a row whose upload ended may still become.\<close>

definition frozen_transition :: "backup_row \<Rightarrow> backup_row \<Rightarrow> bool" where
  "frozen_transition old new \<longleftrightarrow>
     (if uploading_state (eb_state old) then True
      else if eb_state old = Sealed \<and> eb_state new = Deleting
      then new = old\<lparr>eb_state := eb_state new, eb_updated_at := eb_updated_at new,
               eb_deletion_started_at := eb_deletion_started_at new,
               eb_recovery_root_key_envelope := None, eb_wrapped_data_key := None\<rparr>
           \<and> eb_deletion_started_at new \<noteq> None
      else if eb_state old = Deleting \<and> eb_state new = Deleted
      then new = old\<lparr>eb_state := eb_state new, eb_updated_at := eb_updated_at new, eb_deleted_at := eb_deleted_at new\<rparr>
           \<and> eb_deleted_at new \<noteq> None
      else False)"

definition enforce_encrypted_profile_backup_guard ::
  "backup_row option \<Rightarrow> backup_row \<Rightarrow> db \<Rightarrow> backup_violation + unit" where
  "enforce_encrypted_profile_backup_guard old new d =
     andthen (check (case old of None \<Rightarrow> True | Some q \<Rightarrow> frozen_transition q new) CheckViolation) (\<lambda>_.
     andthen (check (provenance_matches new d) ProvenanceViolation) (\<lambda>_.
     andthen (check (parent_matches new d) CheckViolation) (\<lambda>_.
     if eb_state new = Sealed \<and> (case old of None \<Rightarrow> True | Some q \<Rightarrow> eb_state q \<noteq> Sealed)
     then let others = filter (\<lambda>q. eb_id q \<noteq> eb_id new) (encrypted_profile_backups d) in
          andthen (check (length (filter (\<lambda>q. eb_user_id q = eb_user_id new
              \<and> eb_profile_lineage_id q = eb_profile_lineage_id new \<and> eb_state q = Sealed) others) < lineage_quota)
            QuotaViolation) (\<lambda>_.
          check (sealed_bytes (eb_user_id new) others + eb_total_ciphertext_size new \<le> account_quota) QuotaViolation)
     else Inr ())))"

definition within :: "nat \<Rightarrow> nat \<Rightarrow> bytes option \<Rightarrow> bool" where
  "within lo hi v = (case v of None \<Rightarrow> True | Some s \<Rightarrow> lo \<le> length s \<and> length s \<le> hi)"

definition not_before :: "instant \<Rightarrow> instant option \<Rightarrow> bool" where
  "not_before t v = (case v of None \<Rightarrow> True | Some u \<Rightarrow> t \<le> u)"

definition lifecycle_check :: "backup_row \<Rightarrow> bool" where
  "lifecycle_check r \<longleftrightarrow> (case eb_state r of
       Initiated \<Rightarrow> eb_sealed_at r = None \<and> eb_deletion_started_at r = None \<and> eb_deleted_at r = None
         \<and> eb_recovery_root_key_envelope r \<noteq> None \<and> eb_wrapped_data_key r \<noteq> None
     | Uploading \<Rightarrow> eb_sealed_at r = None \<and> eb_deletion_started_at r = None \<and> eb_deleted_at r = None
         \<and> eb_recovery_root_key_envelope r \<noteq> None \<and> eb_wrapped_data_key r \<noteq> None
     | Sealed \<Rightarrow> eb_sealed_at r \<noteq> None \<and> eb_deletion_started_at r = None \<and> eb_deleted_at r = None
         \<and> eb_manifest_object_key r \<noteq> None \<and> eb_manifest_ciphertext_digest r \<noteq> None \<and> eb_manifest_ciphertext_size r \<noteq> None
         \<and> eb_recovery_root_key_envelope r \<noteq> None \<and> eb_wrapped_data_key r \<noteq> None
     | Deleting \<Rightarrow> eb_sealed_at r \<noteq> None \<and> eb_deletion_started_at r \<noteq> None \<and> eb_deleted_at r = None
         \<and> eb_recovery_root_key_envelope r = None \<and> eb_wrapped_data_key r = None
     | Deleted \<Rightarrow> eb_sealed_at r \<noteq> None \<and> eb_deletion_started_at r \<noteq> None \<and> eb_deleted_at r \<noteq> None
         \<and> eb_recovery_root_key_envelope r = None \<and> eb_wrapped_data_key r = None
     | Expired \<Rightarrow> eb_sealed_at r = None \<and> eb_deletion_started_at r \<noteq> None \<and> eb_deleted_at r \<noteq> None
         \<and> eb_recovery_root_key_envelope r = None \<and> eb_wrapped_data_key r = None)"

definition backup_checks :: "backup_row \<Rightarrow> bool" where
  "backup_checks r \<longleftrightarrow> eb_parent_backup_id r \<noteq> Some (eb_id r) \<and> eb_format_version r = 1
     \<and> eb_cipher_suite r = BackupCipherSuite \<and> 1 \<le> eb_chunk_count r \<and> eb_chunk_count r \<le> 131072
     \<and> 17 \<le> eb_total_ciphertext_size r \<and> eb_total_ciphertext_size r \<le> 1073741824
     \<and> (case eb_manifest_object_key r of None \<Rightarrow> True | Some k \<Rightarrow> ciphertextObjectIDPattern k)
     \<and> within 32 32 (eb_manifest_ciphertext_digest r)
     \<and> (case eb_manifest_ciphertext_size r of None \<Rightarrow> True | Some n \<Rightarrow> 17 \<le> n \<and> n \<le> 16777216)
     \<and> length (eb_public_envelope_digest r) = 32 \<and> length (eb_public_signature r) = 64
     \<and> within 16 32 (Some (eb_recovery_salt r))
     \<and> eb_recovery_memory_kib r = 65536 \<and> eb_recovery_iterations r = 3 \<and> eb_recovery_parallelism r = 1
     \<and> within 48 4096 (eb_recovery_root_key_envelope r) \<and> within 48 4096 (eb_wrapped_data_key r)
     \<and> eb_created_at r < eb_upload_expires_at r \<and> eb_upload_expires_at r \<le> eb_created_at r + 24 * hour
     \<and> eb_created_at r \<le> eb_updated_at r \<and> not_before (eb_created_at r) (eb_sealed_at r)
     \<and> not_before (eb_created_at r) (eb_deletion_started_at r) \<and> not_before (eb_created_at r) (eb_deleted_at r)
     \<and> lifecycle_check r"

text \<open>The unique index on the running upload of a lineage.\<close>

definition upload_conflict :: "backup_row \<Rightarrow> backup_row list \<Rightarrow> bool" where
  "upload_conflict r t \<longleftrightarrow> uploading_state (eb_state r)
     \<and> exists_row (\<lambda>q. eb_id q \<noteq> eb_id r \<and> uploading_state (eb_state q) \<and> eb_user_id q = eb_user_id r
         \<and> eb_profile_lineage_id q = eb_profile_lineage_id r) t"

definition insert_backup :: "backup_row \<Rightarrow> db \<Rightarrow> backup_violation + db" where
  "insert_backup r d =
     andthen (enforce_encrypted_profile_backup_guard None r d) (\<lambda>_.
     andthen (check (backup_checks r) CheckViolation) (\<lambda>_.
     andthen (check (\<not> exists_row (\<lambda>q. eb_id q = eb_id r) (encrypted_profile_backups d)
        \<and> \<not> upload_conflict r (encrypted_profile_backups d)) UniqueViolation) (\<lambda>_.
     andthen (check (exists_row (\<lambda>u. u_id u = eb_user_id r) (users d)
        \<and> exists_row (\<lambda>v. d_id v = eb_source_device_id r \<and> d_user_id v = eb_user_id r) (devices d)
        \<and> exists_row (\<lambda>i. in_id i = eb_source_installation_id r) (installations d)
        \<and> exists_row (\<lambda>q. ad_id q = eb_source_definition_id r) (agent_definitions d)
        \<and> exists_row (\<lambda>v. av_id v = eb_source_version_id r) (agent_versions d)
        \<and> (case eb_parent_backup_id r of None \<Rightarrow> True
             | Some p \<Rightarrow> exists_row (\<lambda>q. eb_id q = p) (encrypted_profile_backups d))) ForeignKeyViolation) (\<lambda>_.
     Inr (d\<lparr>encrypted_profile_backups := encrypted_profile_backups d @ [r]\<rparr>)))))"

definition update_backups ::
  "(backup_row \<Rightarrow> bool) \<Rightarrow> (backup_row \<Rightarrow> backup_row) \<Rightarrow> db \<Rightarrow> backup_violation + nat \<times> db" where
  "update_backups P g d = andthen (update_checked (\<lambda>old new.
       andthen (enforce_encrypted_profile_backup_guard (Some old) new d) (\<lambda>_.
       andthen (check (backup_checks new) CheckViolation) (\<lambda>_.
       check (\<not> upload_conflict new (encrypted_profile_backups d)) UniqueViolation))) P g (encrypted_profile_backups d)) (\<lambda>(n, t).
     Inr (n, d\<lparr>encrypted_profile_backups := t\<rparr>))"

subsection \<open>Chunks, key envelopes, operations and devices\<close>

definition insert_chunk :: "chunk_row \<Rightarrow> db \<Rightarrow> backup_violation + db" where
  "insert_chunk r d =
     andthen (check (case find (\<lambda>q. eb_id q = ek_backup_id r) (encrypted_profile_backups d) of
         None \<Rightarrow> True | Some q \<Rightarrow> uploading_state (eb_state q)) CheckViolation) (\<lambda>_.
     andthen (check (0 \<le> ek_chunk_index r \<and> ek_chunk_index r \<le> 131071 \<and> ciphertextObjectIDPattern (ek_object_key r)
        \<and> length (ek_ciphertext_digest r) = 32 \<and> 17 \<le> ek_ciphertext_size r \<and> ek_ciphertext_size r \<le> 9437200) CheckViolation) (\<lambda>_.
     andthen (check (\<not> exists_row (\<lambda>q. ek_backup_id q = ek_backup_id r \<and> ek_chunk_index q = ek_chunk_index r)
          (encrypted_backup_chunks d)
        \<and> \<not> exists_row (\<lambda>q. ek_object_key q = ek_object_key r) (encrypted_backup_chunks d)) UniqueViolation) (\<lambda>_.
     andthen (check (exists_row (\<lambda>q. eb_id q = ek_backup_id r) (encrypted_profile_backups d)) ForeignKeyViolation) (\<lambda>_.
     Inr (d\<lparr>encrypted_backup_chunks := encrypted_backup_chunks d @ [r]\<rparr>)))))"

definition insert_envelope :: "envelope_row \<Rightarrow> db \<Rightarrow> backup_violation + db" where
  "insert_envelope r d =
     andthen (check (0 < ee_key_epoch r \<and> within 48 4096 (ee_root_key_envelope r) \<and> length (ee_root_key_envelope_digest r) = 32
        \<and> ((ee_root_key_envelope r = None) = (ee_destroyed_at r \<noteq> None))) CheckViolation) (\<lambda>_.
     andthen (check (\<not> exists_row (\<lambda>q. ee_id q = ee_id r) (encrypted_backup_key_envelopes d)
        \<and> \<not> exists_row (\<lambda>q. ee_backup_id q = ee_backup_id r \<and> ee_backup_device_id q = ee_backup_device_id r
              \<and> ee_key_epoch q = ee_key_epoch r) (encrypted_backup_key_envelopes d)) UniqueViolation) (\<lambda>_.
     andthen (check (exists_row (\<lambda>q. eb_id q = ee_backup_id r) (encrypted_profile_backups d)
        \<and> exists_row (\<lambda>q. bd_id q = ee_backup_device_id r) (backup_devices d)) ForeignKeyViolation) (\<lambda>_.
     Inr (d\<lparr>encrypted_backup_key_envelopes := encrypted_backup_key_envelopes d @ [r]\<rparr>))))"

definition destroy_envelopes :: "(envelope_row \<Rightarrow> bool) \<Rightarrow> instant \<Rightarrow> db \<Rightarrow> db" where
  "destroy_envelopes P at d = d\<lparr>encrypted_backup_key_envelopes :=
     update_where (\<lambda>e. P e \<and> ee_root_key_envelope e \<noteq> None)
       (\<lambda>e. e\<lparr>ee_root_key_envelope := None, ee_destroyed_at := coalesce (ee_destroyed_at e) at\<rparr>)
       (encrypted_backup_key_envelopes d)\<rparr>"

definition open_operation :: "operation_row \<Rightarrow> bool" where
  "open_operation r \<longleftrightarrow> eo_state r = Op_pending \<or> eo_state r = Op_running"

definition operation_checks :: "operation_row \<Rightarrow> bool" where
  "operation_checks r \<longleftrightarrow> length (eo_object_keys r) \<le> 131073 \<and> 0 \<le> eo_attempt_count r
     \<and> (case eo_last_error_code r of None \<Rightarrow> True | Some c \<Rightarrow> 1 \<le> length c \<and> length c \<le> 64
          \<and> list_all (\<lambda>x. lower_letter x \<or> decimal x \<or> x = CHR ''_'') c)
     \<and> eo_created_at r \<le> eo_updated_at r \<and> not_before (eo_created_at r) (eo_completed_at r)
     \<and> ((eo_state r = Op_completed) = (eo_completed_at r \<noteq> None))"

definition operation_conflict :: "operation_row \<Rightarrow> operation_row list \<Rightarrow> bool" where
  "operation_conflict r t \<longleftrightarrow> open_operation r \<and> exists_row (\<lambda>q. eo_id q \<noteq> eo_id r \<and> open_operation q
     \<and> eo_backup_id q = eo_backup_id r \<and> eo_operation q = eo_operation r) t"

definition insert_operation :: "operation_row \<Rightarrow> db \<Rightarrow> backup_violation + db" where
  "insert_operation r d =
     andthen (check (operation_checks r) CheckViolation) (\<lambda>_.
     andthen (check (\<not> exists_row (\<lambda>q. eo_id q = eo_id r) (encrypted_backup_operations d)
        \<and> \<not> operation_conflict r (encrypted_backup_operations d)) UniqueViolation) (\<lambda>_.
     andthen (check (exists_row (\<lambda>u. u_id u = eo_user_id r) (users d)
        \<and> exists_row (\<lambda>q. eb_id q = eo_backup_id r) (encrypted_profile_backups d)) ForeignKeyViolation) (\<lambda>_.
     Inr (d\<lparr>encrypted_backup_operations := encrypted_backup_operations d @ [r]\<rparr>))))"

definition update_operations ::
  "(operation_row \<Rightarrow> bool) \<Rightarrow> (operation_row \<Rightarrow> operation_row) \<Rightarrow> db \<Rightarrow> backup_violation + nat \<times> db" where
  "update_operations P g d = andthen (update_checked (\<lambda>old new.
       andthen (check (operation_checks new) CheckViolation) (\<lambda>_.
       check (\<not> operation_conflict new (encrypted_backup_operations d)) UniqueViolation)) P g (encrypted_backup_operations d)) (\<lambda>(n, t).
     Inr (n, d\<lparr>encrypted_backup_operations := t\<rparr>))"

definition backup_device_checks :: "backup_device_row \<Rightarrow> bool" where
  "backup_device_checks r \<longleftrightarrow> 0 < bd_key_epoch r \<and> length (bd_public_key r) = 32
     \<and> length (bd_registration_signature r) = 64 \<and> 0 < bd_revision r
     \<and> (bd_status r = ''active'' \<or> bd_status r = ''revoked'') \<and> bd_created_at r \<le> bd_updated_at r
     \<and> not_before (bd_created_at r) (bd_revoked_at r)
     \<and> (bd_status r = ''active'' \<and> bd_revoked_at r = None \<or> bd_status r = ''revoked'' \<and> bd_revoked_at r \<noteq> None)"

definition insert_backup_device :: "backup_device_row \<Rightarrow> db \<Rightarrow> backup_violation + db" where
  "insert_backup_device r d =
     andthen (check (backup_device_checks r) CheckViolation) (\<lambda>_.
     andthen (check (\<not> exists_row (\<lambda>q. bd_id q = bd_id r) (backup_devices d)
        \<and> \<not> exists_row (\<lambda>q. bd_user_id q = bd_user_id r \<and> bd_device_id q = bd_device_id r \<and> bd_key_epoch q = bd_key_epoch r)
              (backup_devices d)
        \<and> \<not> exists_row (\<lambda>q. bd_public_key q = bd_public_key r) (backup_devices d)) UniqueViolation) (\<lambda>_.
     andthen (check (exists_row (\<lambda>u. u_id u = bd_user_id r) (users d)
        \<and> exists_row (\<lambda>v. d_id v = bd_device_id r \<and> d_user_id v = bd_user_id r) (devices d)) ForeignKeyViolation) (\<lambda>_.
     Inr (d\<lparr>backup_devices := backup_devices d @ [r]\<rparr>))))"

definition update_backup_devices ::
  "(backup_device_row \<Rightarrow> bool) \<Rightarrow> (backup_device_row \<Rightarrow> backup_device_row) \<Rightarrow> db \<Rightarrow> backup_violation + nat \<times> db" where
  "update_backup_devices P g d = andthen (update_checked (\<lambda>old new.
       andthen (check (backup_device_checks new) CheckViolation) (\<lambda>_.
       check (\<not> exists_row (\<lambda>q. bd_id q \<noteq> bd_id new \<and> bd_public_key q = bd_public_key new) (backup_devices d)) UniqueViolation))
         P g (backup_devices d)) (\<lambda>(n, t).
     Inr (n, d\<lparr>backup_devices := t\<rparr>))"

text \<open>The function of the schema by which a backup becomes unavailable: it returns the names of the objects.\<close>

definition object_keys :: "uuid \<Rightarrow> db \<Rightarrow> bytes list" where
  "object_keys backupID d =
     sort (concat (map (\<lambda>q. case eb_manifest_object_key q of None \<Rightarrow> [] | Some k \<Rightarrow> [k])
           (filter (\<lambda>q. eb_id q = backupID) (encrypted_profile_backups d)))
         @ map ek_object_key (filter (\<lambda>c. ek_backup_id c = backupID) (encrypted_backup_chunks d)))"

definition begin_encrypted_profile_backup_deletion ::
  "uuid \<Rightarrow> uuid \<Rightarrow> instant \<Rightarrow> db \<Rightarrow> backup_violation + bytes list \<times> db" where
  "begin_encrypted_profile_backup_deletion backupID userID at d =
     (case find (\<lambda>q. eb_id q = backupID \<and> eb_user_id q = userID) (encrypted_profile_backups d) of
        None \<Rightarrow> Inl NotFoundViolation
      | Some q \<Rightarrow>
          andthen (check (eb_state q = Sealed \<or> eb_state q = Deleting) CheckViolation) (\<lambda>_.
          andthen (if eb_state q = Sealed
             then update_backups (\<lambda>q. eb_id q = backupID \<and> eb_user_id q = userID)
               (\<lambda>q. q\<lparr>eb_state := Deleting, eb_recovery_root_key_envelope := None, eb_wrapped_data_key := None,
                      eb_deletion_started_at := Some at, eb_updated_at := at\<rparr>) d
             else Inr (0, d)) (\<lambda>(_, d1).
          Inr (object_keys backupID d1, destroy_envelopes (\<lambda>e. ee_backup_id e = backupID) at d1))))"

section \<open>Reading rows\<close>

definition read_AuthenticationDevice :: "bool \<Rightarrow> uuid \<Rightarrow> uuid \<Rightarrow> db \<Rightarrow> backup_error + AuthenticationDevice" where
  "read_AuthenticationDevice fails userID deviceID d =
     andthen (check (userID \<noteq> Nil_uuid \<and> deviceID \<noteq> Nil_uuid) BInvalidRequest) (\<lambda>_.
     andthen (check (\<not> fails) BUnavailable) (\<lambda>_.
     andthen (present BUnauthorized (find (\<lambda>v. d_user_id v = userID \<and> d_id v = deviceID) (devices d))) (\<lambda>v.
     Inr \<lparr>au_UserID = d_user_id v, au_DeviceID = d_id v, au_PublicKey = d_public_key v, au_Status = d_status v\<rparr>)))"

definition scanBackupDevice :: "backup_device_row \<Rightarrow> BackupDevice" where
  "scanBackupDevice r = \<lparr>bv_ID = bd_id r, bv_UserID = bd_user_id r, bv_DeviceID = bd_device_id r,
     bv_KeyEpoch = bd_key_epoch r, bv_PublicKey = bd_public_key r, bv_Revision = bd_revision r, bv_Status = bd_status r,
     bv_CreatedAt = bd_created_at r, bv_UpdatedAt = bd_updated_at r, bv_RevokedAt = bd_revoked_at r\<rparr>"

definition latest_backup_device :: "uuid \<Rightarrow> uuid \<Rightarrow> db \<Rightarrow> backup_device_row option" where
  "latest_backup_device userID deviceID d =
     newest bd_revision bd_key_epoch (filter (\<lambda>r. bd_user_id r = userID \<and> bd_device_id r = deviceID) (backup_devices d))"

definition findLatestBackupDeviceForUpdate ::
  "bool \<Rightarrow> uuid \<Rightarrow> uuid \<Rightarrow> db \<Rightarrow> backup_error + (BackupDevice \<times> bytes) option" where
  "findLatestBackupDeviceForUpdate fails userID deviceID d =
     (if fails then Inl BUnavailable
      else Inr (map_option (\<lambda>r. (scanBackupDevice r, bd_registration_signature r)) (latest_backup_device userID deviceID d)))"

definition read_BackupDevice :: "bool \<Rightarrow> uuid \<Rightarrow> uuid \<Rightarrow> int \<Rightarrow> db \<Rightarrow> backup_error + BackupDevice" where
  "read_BackupDevice fails userID deviceID keyEpoch d =
     andthen (check (\<not> (userID = Nil_uuid \<or> deviceID = Nil_uuid \<or> keyEpoch \<le> 0)) BInvalidRequest) (\<lambda>_.
     andthen (check (\<not> fails) BUnavailable) (\<lambda>_.
     andthen (present BUnauthorized (find (\<lambda>r. bd_user_id r = userID \<and> bd_device_id r = deviceID \<and> bd_key_epoch r = keyEpoch)
        (backup_devices d))) (\<lambda>r. Inr (scanBackupDevice r))))"

definition LatestBackupDeviceStatus :: "bool \<Rightarrow> uuid \<Rightarrow> uuid \<Rightarrow> db \<Rightarrow> backup_error + bytes" where
  "LatestBackupDeviceStatus fails userID deviceID d =
     andthen (check (\<not> (userID = Nil_uuid \<or> deviceID = Nil_uuid)) BInvalidRequest) (\<lambda>_.
     andthen (check (\<not> fails) BUnavailable) (\<lambda>_.
     Inr (case latest_backup_device userID deviceID d of None \<Rightarrow> [] | Some r \<Rightarrow> bd_status r)))"

text \<open>\<open>SELECT DISTINCT ON (device_id)\<close>: of each device the row that comes first in the order.\<close>

definition ListBackupDevices :: "bool \<Rightarrow> uuid \<Rightarrow> db \<Rightarrow> backup_error + BackupDevice list" where
  "ListBackupDevices fails userID d =
     andthen (check (userID \<noteq> Nil_uuid) BInvalidRequest) (\<lambda>_.
     andthen (check (\<not> fails) BUnavailable) (\<lambda>_.
     Inr (concat (map (\<lambda>i. case latest_backup_device userID i d of None \<Rightarrow> [] | Some r \<Rightarrow> [scanBackupDevice r])
       (sort (remdups (map bd_device_id (filter (\<lambda>r. bd_user_id r = userID) (backup_devices d)))))))))"

definition copyDigest :: "bytes \<Rightarrow> bytes option" where
  "copyDigest source = (if length source \<noteq> 32 then None else Some source)"

text \<open>The key epoch of a backup: the newest one of a key envelope for the source device.\<close>

definition backup_key_epoch :: "backup_row \<Rightarrow> db \<Rightarrow> int" where
  "backup_key_epoch r d = (case newest ee_key_epoch ee_id (filter (\<lambda>e. ee_backup_id e = eb_id r
       \<and> exists_row (\<lambda>v. bd_id v = ee_backup_device_id e \<and> bd_device_id v = eb_source_device_id r) (backup_devices d))
         (encrypted_backup_key_envelopes d)) of None \<Rightarrow> 0 | Some e \<Rightarrow> ee_key_epoch e)"

text \<open>A NULL cannot be scanned into a string or a number; into a byte slice it gives the empty one.\<close>

definition scanBackupCore :: "db \<Rightarrow> backup_row \<Rightarrow> backup_error + Backup" where
  "scanBackupCore d r =
     (case (eb_manifest_object_key r, eb_manifest_ciphertext_size r,
            copyDigest (case eb_manifest_ciphertext_digest r of None \<Rightarrow> [] | Some x \<Rightarrow> x), copyDigest (eb_public_envelope_digest r)) of
        (Some key, Some bytes, Some manifestDigest, Some publicDigest) \<Rightarrow>
          Inr \<lparr>bk_ID = eb_id r, bk_UserID = eb_user_id r, bk_SourceDeviceID = eb_source_device_id r,
               bk_SourceInstallationID = eb_source_installation_id r, bk_SourceDefinitionID = eb_source_definition_id r,
               bk_SourceVersionID = eb_source_version_id r, bk_ProfileLineageID = eb_profile_lineage_id r,
               bk_ParentBackupID = eb_parent_backup_id r, bk_FormatVersion = eb_format_version r,
               bk_CipherSuite = eb_cipher_suite r, bk_State = eb_state r, bk_KeyEpoch = backup_key_epoch r d,
               bk_ChunkCount = eb_chunk_count r, bk_TotalCiphertextSize = eb_total_ciphertext_size r,
               bk_Manifest = \<lparr>os_ObjectID = key, os_CiphertextDigest = manifestDigest, os_CiphertextSize = bytes\<rparr>,
               bk_PublicEnvelopeDigest = publicDigest, bk_PublicSignature = eb_public_signature r,
               bk_Recovery = \<lparr>rp_Salt = eb_recovery_salt r, rp_MemoryKiB = eb_recovery_memory_kib r,
                  rp_Iterations = eb_recovery_iterations r, rp_Parallelism = eb_recovery_parallelism r\<rparr>,
               bk_RecoveryRootKeyEnvelope = (case eb_recovery_root_key_envelope r of None \<Rightarrow> [] | Some x \<Rightarrow> x),
               bk_WrappedDataKey = (case eb_wrapped_data_key r of None \<Rightarrow> [] | Some x \<Rightarrow> x),
               bk_CreatedAt = eb_created_at r, bk_UpdatedAt = eb_updated_at r, bk_UploadExpiresAt = eb_upload_expires_at r,
               bk_SealedAt = eb_sealed_at r, bk_DeletionStartedAt = eb_deletion_started_at r, bk_DeletedAt = eb_deleted_at r\<rparr>
      | _ \<Rightarrow> Inl BUnavailable)"

definition find_backup :: "uuid \<Rightarrow> uuid \<Rightarrow> db \<Rightarrow> backup_row option" where
  "find_backup userID backupID d = find (\<lambda>r. eb_user_id r = userID \<and> eb_id r = backupID) (encrypted_profile_backups d)"

definition readBackupCore :: "bool \<Rightarrow> uuid \<Rightarrow> uuid \<Rightarrow> bool \<Rightarrow> db \<Rightarrow> backup_error + Backup" where
  "readBackupCore fails userID backupID sealedOnly d =
     andthen (check (\<not> fails) BUnavailable) (\<lambda>_.
     andthen (present BNotFound (find (\<lambda>r. eb_user_id r = userID \<and> eb_id r = backupID \<and> (sealedOnly \<longrightarrow> eb_state r = Sealed))
        (encrypted_profile_backups d))) (\<lambda>r. scanBackupCore d r))"

fun scan_chunks :: "chunk_row list \<Rightarrow> backup_error + ChunkSpec list" where
  "scan_chunks [] = Inr []"
| "scan_chunks (r # rs) = (case copyDigest (ek_ciphertext_digest r) of
       None \<Rightarrow> Inl BUnavailable
     | Some digest \<Rightarrow> andthen (scan_chunks rs) (\<lambda>cs. Inr (\<lparr>ck_Index = ek_chunk_index r,
         ck_Object = \<lparr>os_ObjectID = ek_object_key r, os_CiphertextDigest = digest, os_CiphertextSize = ek_ciphertext_size r\<rparr>\<rparr> # cs)))"

text \<open>The key envelopes of a backup for a device of the account that still hold a key.\<close>

definition live_envelopes :: "uuid \<Rightarrow> uuid \<Rightarrow> uuid \<Rightarrow> (backup_device_row \<Rightarrow> bool) \<Rightarrow> db \<Rightarrow> envelope_row list" where
  "live_envelopes backupID userID deviceID P d = filter (\<lambda>e. ee_backup_id e = backupID \<and> ee_root_key_envelope e \<noteq> None
     \<and> exists_row (\<lambda>v. bd_id v = ee_backup_device_id e \<and> bd_user_id v = userID \<and> bd_device_id v = deviceID \<and> P v)
         (backup_devices d)) (encrypted_backup_key_envelopes d)"

definition source_key :: "uuid \<Rightarrow> Backup \<Rightarrow> db \<Rightarrow> (bytes \<times> bytes) option" where
  "source_key userID found d =
     (case find (\<lambda>v. d_user_id v = userID \<and> d_id v = bk_SourceDeviceID found) (devices d) of
        None \<Rightarrow> None
      | Some v \<Rightarrow>
         (case filter (\<lambda>e. ee_key_epoch e = bk_KeyEpoch found)
             (live_envelopes (bk_ID found) userID (bk_SourceDeviceID found) (\<lambda>_. True) d) of
            [] \<Rightarrow> None
          | e # _ \<Rightarrow> if length (d_public_key v) \<noteq> 32 then None
              else map_option (\<lambda>digest. (d_public_key v, digest)) (copyDigest (ee_root_key_envelope_digest e))))"

definition current_key :: "uuid \<Rightarrow> uuid \<Rightarrow> uuid \<Rightarrow> db \<Rightarrow> backup_error + KeyEnvelope option" where
  "current_key userID backupID currentDeviceID d =
     (case newest ee_key_epoch ee_id (live_envelopes backupID userID currentDeviceID (\<lambda>v. bd_status v = ''active'') d) of
        None \<Rightarrow> Inr None
      | Some e \<Rightarrow> (case copyDigest (ee_root_key_envelope_digest e) of
            None \<Rightarrow> Inl BUnavailable
          | Some digest \<Rightarrow> Inr (Some \<lparr>ke_ID = ee_id e, ke_BackupID = ee_backup_id e, ke_BackupDeviceID = ee_backup_device_id e,
              ke_DeviceID = currentDeviceID, ke_KeyEpoch = ee_key_epoch e,
              ke_RootKeyEnvelope = (case ee_root_key_envelope e of None \<Rightarrow> [] | Some x \<Rightarrow> x),
              ke_RootKeyEnvelopeDigest = digest, ke_CreatedAt = ee_created_at e\<rparr>)))"

definition readBackupDetail ::
  "schedule \<Rightarrow> uuid \<Rightarrow> uuid \<Rightarrow> uuid \<Rightarrow> bool \<Rightarrow> db \<Rightarrow> backup_error + BackupDetail" where
  "readBackupDetail f userID backupID currentDeviceID sealedOnly d =
     andthen (check (\<not> (userID = Nil_uuid \<or> backupID = Nil_uuid)) BInvalidRequest) (\<lambda>_.
     andthen (check (\<not> f 0) BUnavailable) (\<lambda>_.
     andthen (readBackupCore (f 1) userID backupID sealedOnly d) (\<lambda>found.
     andthen (check (\<not> f 2) BUnavailable) (\<lambda>_.
     andthen (scan_chunks (sort_key ek_chunk_index (filter (\<lambda>c. ek_backup_id c = backupID) (encrypted_backup_chunks d)))) (\<lambda>chunks.
     andthen (check (\<not> f 3) BUnavailable) (\<lambda>_.
     andthen (present BUnavailable (source_key userID found d)) (\<lambda>(publicKey, envelopeDigest).
     andthen (if currentDeviceID = Nil_uuid then Inr None
        else andthen (check (\<not> f 4) BUnavailable) (\<lambda>_. current_key userID backupID currentDeviceID d)) (\<lambda>current.
     andthen (check (\<not> f (if currentDeviceID = Nil_uuid then 4 else 5)) BUnavailable) (\<lambda>_.
     Inr \<lparr>dt_Backup = found, dt_Chunks = chunks, dt_SourceDevicePublicKey = publicKey,
          dt_SourceDeviceEnvelopeDigest = envelopeDigest, dt_CurrentDeviceKey = current\<rparr>)))))))))"

definition BackupForSeal :: "schedule \<Rightarrow> uuid \<Rightarrow> uuid \<Rightarrow> db \<Rightarrow> backup_error + BackupDetail" where
  "BackupForSeal f userID backupID d = readBackupDetail f userID backupID Nil_uuid False d"

definition GetSealed :: "schedule \<Rightarrow> uuid \<Rightarrow> uuid \<Rightarrow> uuid \<Rightarrow> db \<Rightarrow> backup_error + BackupDetail" where
  "GetSealed f userID backupID currentDeviceID d = readBackupDetail f userID backupID currentDeviceID True d"

fun scan_backups :: "db \<Rightarrow> backup_row list \<Rightarrow> backup_error + Backup list" where
  "scan_backups d [] = Inr []"
| "scan_backups d (r # rs) = andthen (scanBackupCore d r) (\<lambda>b. andthen (scan_backups d rs) (\<lambda>bs. Inr (b # bs)))"

definition sealed_order :: "backup_row \<Rightarrow> int \<times> uuid" where
  "sealed_order r = (- (case eb_sealed_at r of None \<Rightarrow> 0 | Some t \<Rightarrow> t), eb_id r)"

definition ListSealed :: "bool \<Rightarrow> uuid \<Rightarrow> db \<Rightarrow> backup_error + Backup list" where
  "ListSealed fails userID d =
     andthen (check (userID \<noteq> Nil_uuid) BInvalidRequest) (\<lambda>_.
     andthen (check (\<not> fails) BUnavailable) (\<lambda>_.
     scan_backups d (sort_key sealed_order
       (filter (\<lambda>r. eb_user_id r = userID \<and> eb_state r = Sealed) (encrypted_profile_backups d)))))"

definition ChunkUploadTarget :: "bool \<Rightarrow> uuid \<Rightarrow> uuid \<Rightarrow> int \<Rightarrow> db \<Rightarrow> backup_error + UploadTarget" where
  "ChunkUploadTarget fails userID backupID index d =
     andthen (check (\<not> (userID = Nil_uuid \<or> backupID = Nil_uuid \<or> index < 0 \<or> index \<ge> maximumChunkCount)) BInvalidRequest) (\<lambda>_.
     andthen (check (\<not> fails) BUnavailable) (\<lambda>_.
     andthen (present BNotFound (find_backup userID backupID d)) (\<lambda>r.
     andthen (present BNotFound (find (\<lambda>c. ek_backup_id c = backupID \<and> ek_chunk_index c = index) (encrypted_backup_chunks d))) (\<lambda>c.
     andthen (present BUnavailable (copyDigest (ek_ciphertext_digest c))) (\<lambda>digest.
     Inr \<lparr>ut_BackupID = eb_id r, ut_UserID = eb_user_id r, ut_SourceDeviceID = eb_source_device_id r, ut_State = eb_state r,
          ut_UploadExpiresAt = eb_upload_expires_at r, ut_Object = \<lparr>os_ObjectID = ek_object_key c,
            os_CiphertextDigest = digest, os_CiphertextSize = ek_ciphertext_size c\<rparr>\<rparr>)))))"

definition ManifestUploadTarget :: "bool \<Rightarrow> uuid \<Rightarrow> uuid \<Rightarrow> db \<Rightarrow> backup_error + UploadTarget" where
  "ManifestUploadTarget fails userID backupID d =
     andthen (check (\<not> (userID = Nil_uuid \<or> backupID = Nil_uuid)) BInvalidRequest) (\<lambda>_.
     andthen (check (\<not> fails) BUnavailable) (\<lambda>_.
     andthen (present BNotFound (find_backup userID backupID d)) (\<lambda>r.
     case (eb_manifest_object_key r, eb_manifest_ciphertext_size r,
           copyDigest (case eb_manifest_ciphertext_digest r of None \<Rightarrow> [] | Some x \<Rightarrow> x)) of
       (Some key, Some bytes, Some digest) \<Rightarrow>
         Inr \<lparr>ut_BackupID = eb_id r, ut_UserID = eb_user_id r, ut_SourceDeviceID = eb_source_device_id r, ut_State = eb_state r,
              ut_UploadExpiresAt = eb_upload_expires_at r,
              ut_Object = \<lparr>os_ObjectID = key, os_CiphertextDigest = digest, os_CiphertextSize = bytes\<rparr>\<rparr>
     | _ \<Rightarrow> Inl BUnavailable)))"

section \<open>Transactions\<close>

text \<open>Registration of a backup key: the first has revision 1, every other one revision after the newest, at the
  same epoch or the next. Calls: begin, device, newest registration, write, commit.\<close>

definition register_row :: "uuid \<Rightarrow> RegistrationRecord \<Rightarrow> backup_device_row" where
  "register_row i r = \<lparr>bd_id = i, bd_user_id = rg_UserID (rr_Registration r), bd_device_id = rg_DeviceID (rr_Registration r),
     bd_key_epoch = rg_KeyEpoch (rr_Registration r), bd_public_key = rg_PublicKey (rr_Registration r),
     bd_registration_signature = rr_Signature r, bd_revision = rg_Revision (rr_Registration r), bd_status = ''active'',
     bd_created_at = rr_RecordedAt r, bd_updated_at = rr_RecordedAt r, bd_revoked_at = None\<rparr>"

definition save_registration ::
  "uuid option \<Rightarrow> schedule \<Rightarrow> RegistrationRecord \<Rightarrow> BackupDevice option \<Rightarrow> db \<Rightarrow> backup_error + BackupDevice \<times> db" where
  "save_registration draw f r latest d =
     (let fresh = (case RandomUUID draw of
            Inl _ \<Rightarrow> Inl BUnavailable
          | Inr i \<Rightarrow> andthen (written_row (f 0) (insert_backup_device (register_row i r) d)) (\<lambda>d1.
              Inr (scanBackupDevice (register_row i r), d1))) in
      case latest of
        None \<Rightarrow> fresh
      | Some l \<Rightarrow>
          if rg_KeyEpoch (rr_Registration r) = bv_KeyEpoch l
          then andthen (check (bv_Status l = ''active'') BDeviceRevoked) (\<lambda>_.
               andthen (written_row (f 0) (update_backup_devices (\<lambda>q. bd_id q = bv_ID l)
                  (\<lambda>q. q\<lparr>bd_public_key := rg_PublicKey (rr_Registration r), bd_registration_signature := rr_Signature r,
                         bd_revision := rg_Revision (rr_Registration r), bd_updated_at := rr_RecordedAt r\<rparr>) d)) (\<lambda>(_, d1).
               Inr (l\<lparr>bv_PublicKey := rg_PublicKey (rr_Registration r), bv_Revision := rg_Revision (rr_Registration r),
                      bv_UpdatedAt := rr_RecordedAt r\<rparr>, d1)))
          else fresh)"

definition registration_follows :: "BackupDeviceRegistration \<Rightarrow> BackupDevice option \<Rightarrow> bool" where
  "registration_follows r latest \<longleftrightarrow> (case latest of
       None \<Rightarrow> rg_Revision r = 1
     | Some l \<Rightarrow> rg_Revision r = bv_Revision l + 1 \<and> bv_KeyEpoch l \<le> rg_KeyEpoch r \<and> rg_KeyEpoch r \<le> bv_KeyEpoch l + 1)"

definition registration_replayed :: "RegistrationRecord \<Rightarrow> BackupDevice \<times> bytes \<Rightarrow> bool" where
  "registration_replayed r l \<longleftrightarrow> bv_KeyEpoch (fst l) = rg_KeyEpoch (rr_Registration r)
     \<and> bv_Revision (fst l) = rg_Revision (rr_Registration r) \<and> bv_PublicKey (fst l) = rg_PublicKey (rr_Registration r)
     \<and> snd l = rr_Signature r"

definition RegisterBackupDevice ::
  "uuid option \<Rightarrow> schedule \<Rightarrow> RegistrationRecord \<Rightarrow> db \<Rightarrow> (backup_error + BackupDevice \<times> bool) \<times> db" where
  "RegisterBackupDevice draw f r d = returning
     (let g = rr_Registration r in
      andthen (check (\<not> (rg_UserID g = Nil_uuid \<or> rg_DeviceID g = Nil_uuid \<or> rg_KeyEpoch g \<le> 0 \<or> rg_Revision g \<le> 0
         \<or> length (rg_PublicKey g) \<noteq> 32 \<or> length (rr_Signature r) \<noteq> 64 \<or> rr_RecordedAt r = zero_time)) BInvalidRequest) (\<lambda>_.
      andthen (check (\<not> f 0) BUnavailable) (\<lambda>_.
      andthen (check (\<not> f 1) BUnavailable) (\<lambda>_.
      andthen (present BUnauthorized (find (\<lambda>v. d_user_id v = rg_UserID g \<and> d_id v = rg_DeviceID g) (devices d))) (\<lambda>v.
      andthen (check (d_status v = ''active'') BDeviceRevoked) (\<lambda>_.
      andthen (findLatestBackupDeviceForUpdate (f 2) (rg_UserID g) (rg_DeviceID g) d) (\<lambda>latest.
      if (case latest of None \<Rightarrow> False | Some l \<Rightarrow> registration_replayed r l)
      then andthen (check (\<not> f 3) BUnavailable) (\<lambda>_. Inr ((fst (the latest), True), d))
      else
      andthen (check (registration_follows g (map_option fst latest)) BConflict) (\<lambda>_.
      andthen (save_registration draw (later 3 f) r (map_option fst latest) d) (\<lambda>(saved, d1).
      andthen (written_row (f 4) (Inr ())) (\<lambda>_. Inr ((saved, False), d1))))))))))) d"

definition RevokeBackupDevice :: "schedule \<Rightarrow> uuid \<Rightarrow> uuid \<Rightarrow> instant \<Rightarrow> db \<Rightarrow> backup_error option \<times> db" where
  "RevokeBackupDevice f userID deviceID revokedAt d = transaction
     (andthen (check (\<not> (userID = Nil_uuid \<or> deviceID = Nil_uuid \<or> revokedAt = zero_time)) BInvalidRequest) (\<lambda>_.
      andthen (check (\<not> f 0) BUnavailable) (\<lambda>_.
      let target = (\<lambda>q. bd_user_id q = userID \<and> bd_device_id q = deviceID \<and> bd_status q = ''active'');
          ids = map bd_id (filter target (backup_devices d)) in
      andthen (stored_row (f 1) (update_backup_devices target
         (\<lambda>q. q\<lparr>bd_status := ''revoked'', bd_revoked_at := Some revokedAt, bd_updated_at := revokedAt\<rparr>) d)) (\<lambda>(n, d1).
      andthen (check (n \<noteq> 0) BNotFound) (\<lambda>_.
      andthen (check (\<not> f 2) BUnavailable) (\<lambda>_.
      andthen (check (\<not> f 3) BUnavailable) (\<lambda>_.
      Inr (destroy_envelopes (\<lambda>e. ee_backup_device_id e \<in> set ids) revokedAt d1)))))))) d"

text \<open>The rows of a new backup.\<close>

definition backup_of_record :: "InitiateRecord \<Rightarrow> backup_row" where
  "backup_of_record r = (let b = ird_Backup r in
     \<lparr>eb_id = bk_ID b, eb_user_id = bk_UserID b, eb_source_device_id = bk_SourceDeviceID b,
      eb_source_installation_id = bk_SourceInstallationID b, eb_source_definition_id = bk_SourceDefinitionID b,
      eb_source_version_id = bk_SourceVersionID b, eb_profile_lineage_id = bk_ProfileLineageID b,
      eb_parent_backup_id = bk_ParentBackupID b, eb_format_version = bk_FormatVersion b, eb_cipher_suite = bk_CipherSuite b,
      eb_state = bk_State b, eb_chunk_count = bk_ChunkCount b, eb_total_ciphertext_size = bk_TotalCiphertextSize b,
      eb_manifest_object_key = Some (os_ObjectID (bk_Manifest b)),
      eb_manifest_ciphertext_digest = Some (os_CiphertextDigest (bk_Manifest b)),
      eb_manifest_ciphertext_size = Some (os_CiphertextSize (bk_Manifest b)),
      eb_public_envelope_digest = ird_PublicEnvelopeDigest r, eb_public_signature = bk_PublicSignature b,
      eb_recovery_salt = rp_Salt (bk_Recovery b), eb_recovery_memory_kib = rp_MemoryKiB (bk_Recovery b),
      eb_recovery_iterations = rp_Iterations (bk_Recovery b), eb_recovery_parallelism = rp_Parallelism (bk_Recovery b),
      eb_recovery_root_key_envelope = Some (bk_RecoveryRootKeyEnvelope b), eb_wrapped_data_key = Some (bk_WrappedDataKey b),
      eb_created_at = bk_CreatedAt b, eb_updated_at = bk_UpdatedAt b, eb_upload_expires_at = bk_UploadExpiresAt b,
      eb_sealed_at = None, eb_deletion_started_at = None, eb_deleted_at = None\<rparr>)"

definition chunk_of :: "uuid \<Rightarrow> ChunkSpec \<Rightarrow> chunk_row" where
  "chunk_of backupID c = \<lparr>ek_backup_id = backupID, ek_chunk_index = ck_Index c, ek_object_key = os_ObjectID (ck_Object c),
     ek_ciphertext_digest = os_CiphertextDigest (ck_Object c), ek_ciphertext_size = os_CiphertextSize (ck_Object c)\<rparr>"

definition envelope_of :: "EnvelopeRecord \<Rightarrow> envelope_row" where
  "envelope_of r = \<lparr>ee_id = er_ID r, ee_backup_id = er_BackupID r, ee_backup_device_id = er_BackupDeviceID r,
     ee_key_epoch = er_KeyEpoch r, ee_root_key_envelope = Some (er_RootKeyEnvelope r),
     ee_root_key_envelope_digest = er_RootKeyEnvelopeDigest r, ee_created_at = er_CreatedAt r, ee_destroyed_at = None\<rparr>"

fun insert_chunks :: "schedule \<Rightarrow> uuid \<Rightarrow> ChunkSpec list \<Rightarrow> db \<Rightarrow> backup_error + db" where
  "insert_chunks f backupID [] d = Inr d"
| "insert_chunks f backupID (c # cs) d =
     andthen (written_row (f 0) (insert_chunk (chunk_of backupID c) d)) (insert_chunks (later 1 f) backupID cs)"

definition object_ids :: "InitiateRecord \<Rightarrow> bytes list" where
  "object_ids r = os_ObjectID (bk_Manifest (ird_Backup r)) # map (os_ObjectID \<circ> ck_Object) (ird_Chunks r)"

definition Initiate_record :: "schedule \<Rightarrow> InitiateRecord \<Rightarrow> db \<Rightarrow> (backup_error + Backup \<times> bool) \<times> db" where
  "Initiate_record f r d = returning
     (let b = ird_Backup r; n = length (ird_Chunks r) in
      andthen (check (\<not> (bk_ID b = Nil_uuid \<or> bk_UserID b = Nil_uuid \<or> int n \<noteq> bk_ChunkCount b
         \<or> er_ID (ird_SourceDeviceEnvelope r) = Nil_uuid)) BInvalidRequest) (\<lambda>_.
      andthen (check (\<not> f 0) BUnavailable) (\<lambda>_.
      andthen (check (\<not> f 1) BUnavailable) (\<lambda>_.
      case find (\<lambda>q. eb_id q = bk_ID b) (encrypted_profile_backups d) of
        Some q \<Rightarrow>
          andthen (check (eb_user_id q = bk_UserID b) BConflict) (\<lambda>_.
          andthen (check (eb_public_envelope_digest q = ird_PublicEnvelopeDigest r) BConflict) (\<lambda>_.
          andthen (check (\<not> f 2) BUnavailable) (\<lambda>_.
          Inr ((b\<lparr>bk_State := eb_state q, bk_UploadExpiresAt := eb_upload_expires_at q\<rparr>, True), d))))
      | None \<Rightarrow>
          andthen (check (distinct (object_ids r)) BInvalidRequest) (\<lambda>_.
          andthen (written_row (f 2) (insert_backup (backup_of_record r) d)) (\<lambda>d1.
          andthen (insert_chunks (later 3 f) (bk_ID b) (ird_Chunks r) d1) (\<lambda>d2.
          andthen (written_row (f (3 + n)) (insert_envelope (envelope_of (ird_SourceDeviceEnvelope r)) d2)) (\<lambda>d3.
          andthen (written_row (f (4 + n)) (Inr ())) (\<lambda>_. Inr ((b, False), d3)))))))))) d"

definition MarkUploading :: "bool \<Rightarrow> uuid \<Rightarrow> uuid \<Rightarrow> instant \<Rightarrow> db \<Rightarrow> backup_error option \<times> db" where
  "MarkUploading fails userID backupID updatedAt d = transaction
     (andthen (check (\<not> (userID = Nil_uuid \<or> backupID = Nil_uuid \<or> updatedAt = zero_time)) BInvalidRequest) (\<lambda>_.
      andthen (written_row fails (update_backups (\<lambda>q. eb_id q = backupID \<and> eb_user_id q = userID \<and> uploading_state (eb_state q))
         (\<lambda>q. q\<lparr>eb_state := (if eb_state q = Initiated then Uploading else eb_state q), eb_updated_at := updatedAt\<rparr>) d)) (\<lambda>(n, d1).
      andthen (check (n = 1) BConflict) (\<lambda>_. Inr d1)))) d"

definition Seal_record :: "schedule \<Rightarrow> uuid \<Rightarrow> uuid \<Rightarrow> instant \<Rightarrow> db \<Rightarrow> (backup_error + Backup \<times> bool) \<times> db" where
  "Seal_record f userID backupID sealedAt d = returning
     (andthen (check (\<not> (userID = Nil_uuid \<or> backupID = Nil_uuid \<or> sealedAt = zero_time)) BInvalidRequest) (\<lambda>_.
      andthen (check (\<not> f 0) BUnavailable) (\<lambda>_.
      andthen (check (\<not> f 1) BUnavailable) (\<lambda>_.
      andthen (present BNotFound (find_backup userID backupID d)) (\<lambda>q.
      if eb_state q = Sealed
      then andthen (readBackupCore (f 2) userID backupID False d) (\<lambda>found.
           andthen (check (\<not> f 3) BUnavailable) (\<lambda>_. Inr ((found, True), d)))
      else
      andthen (check (uploading_state (eb_state q)) BConflict) (\<lambda>_.
      andthen (written_row (f 2) (update_backups (\<lambda>q. eb_id q = backupID \<and> eb_user_id q = userID)
         (\<lambda>q. q\<lparr>eb_state := Sealed, eb_sealed_at := Some sealedAt, eb_updated_at := sealedAt\<rparr>) d)) (\<lambda>(_, d1).
      andthen (readBackupCore (f 3) userID backupID False d1) (\<lambda>found.
      andthen (written_row (f 4) (Inr ())) (\<lambda>_. Inr ((found, False), d1)))))))))) d"

definition AddDeviceEnvelope_record ::
  "crypto \<Rightarrow> schedule \<Rightarrow> uuid \<Rightarrow> uuid \<Rightarrow> EnvelopeRecord \<Rightarrow> db \<Rightarrow> (backup_error + bool) \<times> db" where
  "AddDeviceEnvelope_record cr f userID backupID r d = returning
     (andthen (check (\<not> (userID = Nil_uuid \<or> backupID = Nil_uuid \<or> er_ID r = Nil_uuid \<or> er_BackupID r \<noteq> backupID
         \<or> er_BackupDeviceID r = Nil_uuid \<or> er_KeyEpoch r \<le> 0 \<or> \<not> validEnvelope (er_RootKeyEnvelope r)
         \<or> \<not> digestMatches cr (er_RootKeyEnvelope r) (er_RootKeyEnvelopeDigest r))) BInvalidRequest) (\<lambda>_.
      andthen (check (\<not> f 0) BUnavailable) (\<lambda>_.
      andthen (check (\<not> f 1) BUnavailable) (\<lambda>_.
      andthen (present BNotFound (find_backup userID backupID d)) (\<lambda>q.
      andthen (present BNotFound (find (\<lambda>v. bd_id v = er_BackupDeviceID r) (backup_devices d))) (\<lambda>v.
      andthen (check (eb_state q = Sealed) BConflict) (\<lambda>_.
      andthen (check (bd_user_id v = userID \<and> bd_key_epoch v = er_KeyEpoch r) BUnauthorized) (\<lambda>_.
      andthen (check (bd_status v = ''active'') BDeviceRevoked) (\<lambda>_.
      andthen (check (\<not> f 2) BUnavailable) (\<lambda>_.
      case find (\<lambda>e. ee_backup_id e = backupID \<and> ee_backup_device_id e = er_BackupDeviceID r \<and> ee_key_epoch e = er_KeyEpoch r)
          (encrypted_backup_key_envelopes d) of
        Some e \<Rightarrow>
          andthen (check (ee_root_key_envelope e = Some (er_RootKeyEnvelope r)
             \<and> ee_root_key_envelope_digest e = er_RootKeyEnvelopeDigest r) BConflict) (\<lambda>_.
          andthen (check (\<not> f 3) BUnavailable) (\<lambda>_. Inr (True, d)))
      | None \<Rightarrow>
          andthen (written_row (f 3) (insert_envelope (envelope_of r) d)) (\<lambda>d1.
          andthen (written_row (f 4) (Inr ())) (\<lambda>_. Inr (False, d1))))))))))))) d"

text \<open>An error that the function raises is reported when the rows are read, not by the call that sends the query.\<close>

definition new_operation ::
  "uuid \<Rightarrow> uuid \<Rightarrow> uuid \<Rightarrow> BackupOperation \<Rightarrow> bytes list \<Rightarrow> instant \<Rightarrow> operation_row" where
  "new_operation i userID backupID operation objectIDs now = \<lparr>eo_id = i, eo_user_id = userID, eo_backup_id = backupID,
     eo_operation = operation, eo_state = Op_pending, eo_object_keys = objectIDs, eo_attempt_count = 0,
     eo_next_attempt_at = Some now, eo_last_error_code = None, eo_created_at = now, eo_updated_at = now, eo_completed_at = None\<rparr>"

definition find_open_operation :: "uuid \<Rightarrow> BackupOperation \<Rightarrow> db \<Rightarrow> operation_row option" where
  "find_open_operation backupID operation d =
     find (\<lambda>q. eo_backup_id q = backupID \<and> eo_operation q = operation \<and> open_operation q) (encrypted_backup_operations d)"

definition reopen_operation :: "uuid \<Rightarrow> bytes list \<Rightarrow> instant \<Rightarrow> db \<Rightarrow> backup_violation + nat \<times> db" where
  "reopen_operation i objectIDs now d = update_operations (\<lambda>q. eo_id q = i)
     (\<lambda>q. q\<lparr>eo_object_keys := objectIDs, eo_state := Op_pending, eo_next_attempt_at := Some now, eo_updated_at := now\<rparr>) d"

definition BeginDeletion ::
  "uuid option \<Rightarrow> schedule \<Rightarrow> uuid \<Rightarrow> uuid \<Rightarrow> instant \<Rightarrow> db \<Rightarrow> (backup_error + DeletionRecord) \<times> db" where
  "BeginDeletion draw f userID backupID startedAt d = returning
     (andthen (check (\<not> (userID = Nil_uuid \<or> backupID = Nil_uuid \<or> startedAt = zero_time)) BInvalidRequest) (\<lambda>_.
      andthen (check (\<not> f 0) BUnavailable) (\<lambda>_.
      andthen (stored_row (f 1) (begin_encrypted_profile_backup_deletion backupID userID startedAt d)) (\<lambda>(objectIDs, d1).
      case RandomUUID draw of
        Inl _ \<Rightarrow> Inl BUnavailable
      | Inr operationID \<Rightarrow>
          andthen (check (\<not> f 2) BUnavailable) (\<lambda>_.
          andthen (case find_open_operation backupID Delete_backup d1 of
              None \<Rightarrow> written_row (f 3) (insert_operation (new_operation operationID userID backupID Delete_backup objectIDs startedAt) d1)
            | Some q \<Rightarrow> andthen (written_row (f 3) (reopen_operation (eo_id q) objectIDs startedAt d1)) (\<lambda>(_, d2). Inr d2)) (\<lambda>d2.
          andthen (check (\<not> f 4) BUnavailable) (\<lambda>_.
          Inr (\<lparr>dr_BackupID = backupID, dr_UserID = userID, dr_State = Deleting, dr_ObjectIDs = objectIDs\<rparr>, d2)))))))) d"

definition finish_deletion :: "uuid \<Rightarrow> uuid \<Rightarrow> instant \<Rightarrow> db \<Rightarrow> backup_violation + nat \<times> db" where
  "finish_deletion userID backupID at d =
     update_backups (\<lambda>q. eb_id q = backupID \<and> eb_user_id q = userID \<and> eb_state q = Deleting)
       (\<lambda>q. q\<lparr>eb_state := Deleted, eb_deleted_at := Some at, eb_updated_at := at\<rparr>) d"

definition completed :: "instant \<Rightarrow> operation_row \<Rightarrow> operation_row" where
  "completed at q = q\<lparr>eo_state := Op_completed, eo_completed_at := Some at, eo_next_attempt_at := None,
     eo_last_error_code := None, eo_updated_at := at\<rparr>"

definition CompleteDeletion :: "schedule \<Rightarrow> uuid \<Rightarrow> uuid \<Rightarrow> instant \<Rightarrow> db \<Rightarrow> backup_error option \<times> db" where
  "CompleteDeletion f userID backupID completedAt d = transaction
     (andthen (check (\<not> (userID = Nil_uuid \<or> backupID = Nil_uuid \<or> completedAt = zero_time)) BInvalidRequest) (\<lambda>_.
      andthen (check (\<not> f 0) BUnavailable) (\<lambda>_.
      andthen (written_row (f 1) (finish_deletion userID backupID completedAt d)) (\<lambda>(n, d1).
      andthen (if n = 1 then Inr ()
         else andthen (check (\<not> f 2) BUnavailable) (\<lambda>_.
              andthen (present BNotFound (find_backup userID backupID d1)) (\<lambda>q. check (eb_state q = Deleted) BConflict))) (\<lambda>_.
      let g = later (if n = 1 then 2 else 3) f in
      andthen (stored_row (g 0) (update_operations (\<lambda>q. eo_backup_id q = backupID \<and> eo_user_id q = userID
          \<and> eo_operation q = Delete_backup \<and> open_operation q) (completed completedAt) d1)) (\<lambda>(_, d2).
      andthen (check (\<not> g 1) BUnavailable) (\<lambda>_. Inr d2))))))) d"

end
