(* ===== verification/ObjectStore.thy ===== *)
theory ObjectStore
  imports Backups
begin

text \<open>
  \<open>minio_store.go\<close> of \<open>internal/encryptedbackup\<close>: ciphertext objects in a bucket, never overwritten, with the
  digest as metadata of the object. The S3 client library is a parameter, with the state of the bucket; what is
  relied on of it is \<open>s3_laws\<close>. Shown: what an upload stored is read back, and an object whose content does not
  have its digest is left behind only when its removal failed.
\<close>

section \<open>Client library\<close>

text \<open>A body as \<open>io.Reader\<close>: its bytes, and whether reading fails after them instead of ending.\<close>

record reader =
  rd_content :: bytes
  rd_broken :: bool

text \<open>An error of the library: the code of the response, and whether it is an end of the body.\<close>

record s3_error =
  se_Code :: bytes
  se_eof :: bool

record s3_info =
  si_Size :: int
  si_Metadata :: "(bytes \<times> bytes list) list"
  si_UserMetadata :: "(bytes \<times> bytes) list"

text \<open>\<open>PutObject\<close> gets the key, the limited reader, the size and the user metadata; it reports the stored size or
  an error, and how many bytes it read. Uploads are conditional: they fail if the key exists.\<close>

record 's s3_client =
  s3_PutObject :: "bytes \<Rightarrow> reader \<Rightarrow> int \<Rightarrow> bytes \<times> bytes \<Rightarrow> 's \<Rightarrow> ((s3_error + int) \<times> nat) \<times> 's"
  s3_StatObject :: "bytes \<Rightarrow> 's \<Rightarrow> (s3_error + s3_info) \<times> 's"
  s3_GetObject :: "bytes \<Rightarrow> 's \<Rightarrow> (s3_error + bytes) \<times> 's"
  s3_RemoveObject :: "bytes \<Rightarrow> 's \<Rightarrow> s3_error option \<times> 's"

record 's MinIOStore =
  ms_client :: "'s s3_client"
  ms_crypto :: crypto
  ms_lower :: "nat \<Rightarrow> nat" \<comment> \<open>lower case of a rune\<close>

section \<open>The store\<close>

definition maxCiphertextObjectBytes :: int where "maxCiphertextObjectBytes = 1073741824"

definition ciphertextDigestMetadataKey :: bytes where "ciphertextDigestMetadataKey = ''ciphertext-sha256''"

record CiphertextMetadata =
  cm_Key :: bytes
  cm_Size :: int
  cm_SHA256 :: bytes

record CiphertextDownload =
  cd_Body :: bytes
  cd_Metadata :: CiphertextMetadata

definition isMinIONotFound :: "s3_error \<Rightarrow> bool" where
  "isMinIONotFound e \<longleftrightarrow> se_Code e = ''NoSuchKey'' \<or> se_Code e = ''NoSuchObject'' \<or> se_Code e = ''NotFound''
     \<or> se_Code e = ''NoSuchBucket''"

definition isMinIOPreconditionFailure :: "s3_error \<Rightarrow> bool" where
  "isMinIOPreconditionFailure e \<longleftrightarrow> se_Code e = ''PreconditionFailed''"

definition mapMinIOReadError :: "s3_error \<Rightarrow> ciphertext_error" where
  "mapMinIOReadError e = (if isMinIONotFound e then CiphertextNotFound else ObjectStoreUnavailable)"

text \<open>The two loops over the metadata of an object.\<close>

definition minioUserMetadata :: "(nat \<Rightarrow> nat) \<Rightarrow> s3_info \<Rightarrow> bytes \<Rightarrow> bytes" where
  "minioUserMetadata lower info name =
     (let named = (\<lambda>key. trim_prefix ''x-amz-meta-'' (ToLower lower key) = name) in
      case find (\<lambda>(key, vs). named key \<and> vs \<noteq> []) (si_Metadata info) of
        Some (_, vs) \<Rightarrow> hd vs
      | None \<Rightarrow> (case find (\<lambda>(key, _). named key) (si_UserMetadata info) of Some (_, v) \<Rightarrow> v | None \<Rightarrow> []))"

definition removeCiphertext ::
  "'s MinIOStore \<Rightarrow> CiphertextObjectRef \<Rightarrow> 's \<Rightarrow> ciphertext_error option \<times> 's" where
  "removeCiphertext st ref s = (case s3_RemoveObject (ms_client st) (objectKey ref) s of
       (None, s') \<Rightarrow> (None, s')
     | (Some e, s') \<Rightarrow> (if isMinIONotFound e then None else Some ObjectStoreUnavailable, s'))"

definition HeadCiphertext ::
  "'s MinIOStore \<Rightarrow> CiphertextObjectRef \<Rightarrow> 's \<Rightarrow> (ciphertext_error + CiphertextMetadata) \<times> 's" where
  "HeadCiphertext st ref s = (case s3_StatObject (ms_client st) (objectKey ref) s of
       (Inl e, s') \<Rightarrow> (Inl (mapMinIOReadError e), s')
     | (Inr info, s') \<Rightarrow>
         (case hex_decode (minioUserMetadata (ms_lower st) info ciphertextDigestMetadataKey) of
            None \<Rightarrow> (Inl CiphertextMismatch, s')
          | Some digest \<Rightarrow> if length digest \<noteq> 32 then (Inl CiphertextMismatch, s')
              else (Inr \<lparr>cm_Key = objectKey ref, cm_Size = si_Size info, cm_SHA256 = digest\<rparr>, s')))"

text \<open>An upload that went wrong is removed again; an error of the removal takes precedence.\<close>

definition discard ::
  "'s MinIOStore \<Rightarrow> CiphertextObjectRef \<Rightarrow> 's \<Rightarrow> (ciphertext_error + 'a) \<times> 's" where
  "discard st ref s = (case removeCiphertext st ref s of
       (Some e, s') \<Rightarrow> (Inl e, s') | (None, s') \<Rightarrow> (Inl CiphertextMismatch, s'))"

definition limited :: "reader \<Rightarrow> int \<Rightarrow> reader" where
  "limited body n = \<lparr>rd_content = take (nat n) (rd_content body),
     rd_broken = (rd_broken body \<and> int (length (rd_content body)) < n)\<rparr>"

text \<open>\<open>canceled\<close>: the context of the request has ended. The bytes the client read went through the hash.\<close>

definition PutCiphertext ::
  "'s MinIOStore \<Rightarrow> bool \<Rightarrow> CiphertextObjectRef \<Rightarrow> reader option \<Rightarrow> int \<Rightarrow> bytes \<Rightarrow> 's
     \<Rightarrow> (ciphertext_error + CiphertextMetadata) \<times> 's" where
  "PutCiphertext st canceled ref body bytes digest s = (case body of
       None \<Rightarrow> (Inl CiphertextMismatch, s)
     | Some b \<Rightarrow>
         if bytes \<le> 0 \<or> bytes > maxCiphertextObjectBytes then (Inl CiphertextMismatch, s)
         else (case s3_PutObject (ms_client st) (objectKey ref) (limited b bytes) bytes
                    (ciphertextDigestMetadataKey, hex_encode digest) s of ((reply, n), s1) \<Rightarrow>
           let seen = take n (rd_content (limited b bytes)); rest = drop (length seen) (rd_content b) in
           case reply of
             Inl e \<Rightarrow>
               if isMinIOPreconditionFailure e then (Inl CiphertextAlreadyExists, s1)
               else if canceled then (Inl ObjectStoreUnavailable, s1)
               else if int (length seen) \<noteq> bytes \<or> se_eof e
               then (case removeCiphertext st ref s1 of (_, s2) \<Rightarrow> (Inl CiphertextMismatch, s2))
               else (Inl ObjectStoreUnavailable, s1)
           | Inr stored \<Rightarrow>
               if stored \<noteq> bytes \<or> int (length seen) \<noteq> bytes then discard st ref s1
               else if rest \<noteq> [] \<or> rd_broken b then discard st ref s1
               else if sha256 (ms_crypto st) seen \<noteq> digest then discard st ref s1
               else (case HeadCiphertext st ref s1 of
                   (Inl e, s2) \<Rightarrow> (case removeCiphertext st ref s2 of (_, s3) \<Rightarrow> (Inl e, s3))
                 | (Inr metadata, s2) \<Rightarrow>
                     if cm_Size metadata \<noteq> bytes \<or> cm_SHA256 metadata \<noteq> digest then discard st ref s2
                     else (Inr metadata, s2))))"

definition GetCiphertext ::
  "'s MinIOStore \<Rightarrow> CiphertextObjectRef \<Rightarrow> 's \<Rightarrow> (ciphertext_error + CiphertextDownload) \<times> 's" where
  "GetCiphertext st ref s = (case HeadCiphertext st ref s of
       (Inl e, s1) \<Rightarrow> (Inl e, s1)
     | (Inr metadata, s1) \<Rightarrow> (case s3_GetObject (ms_client st) (objectKey ref) s1 of
           (Inl e, s2) \<Rightarrow> (Inl (mapMinIOReadError e), s2)
         | (Inr body, s2) \<Rightarrow> (Inr \<lparr>cd_Body = body, cd_Metadata = metadata\<rparr>, s2)))"

text \<open>\<open>removeCiphertext\<close> never answers that the object is missing, so the branch that skips such an answer is not taken.\<close>

fun DeleteCiphertexts ::
  "'s MinIOStore \<Rightarrow> CiphertextObjectRef list \<Rightarrow> 's \<Rightarrow> ciphertext_error option \<times> 's" where
  "DeleteCiphertexts st [] s = (None, s)"
| "DeleteCiphertexts st (ref # refs) s = (case removeCiphertext st ref s of
       (None, s') \<Rightarrow> DeleteCiphertexts st refs s'
     | (Some e, s') \<Rightarrow> if e = CiphertextNotFound then DeleteCiphertexts st refs s' else (Some e, s'))"

section \<open>What is relied on of the client\<close>

record stored_object =
  so_content :: bytes
  so_digest :: bytes \<comment> \<open>text of the digest metadata\<close>

text \<open>\<open>bucket\<close> is the content of the bucket in a state of the client. Calls that report an error may or may not have
  had their effect, except for a refused condition; reading changes nothing.\<close>

definition s3_laws :: "'s s3_client \<Rightarrow> (nat \<Rightarrow> nat) \<Rightarrow> ('s \<Rightarrow> bytes \<rightharpoonup> stored_object) \<Rightarrow> bool" where
  "s3_laws c lower bucket \<longleftrightarrow>
     (\<forall>key body bytes md s reply n s'. s3_PutObject c key body bytes md s = ((reply, n), s') \<longrightarrow>
        (case reply of
           Inr stored \<Rightarrow> bucket s key = None \<and> stored = int (length (take n (rd_content body)))
             \<and> bucket s' = (bucket s)(key \<mapsto> \<lparr>so_content = take n (rd_content body), so_digest = snd md\<rparr>)
         | Inl e \<Rightarrow> if se_Code e = ''PreconditionFailed'' then bucket s key \<noteq> None \<and> bucket s' = bucket s
             else bucket s' = bucket s \<or> bucket s key = None
               \<and> bucket s' = (bucket s)(key \<mapsto> \<lparr>so_content = take n (rd_content body), so_digest = snd md\<rparr>)))
   \<and> (\<forall>key s reply s'. s3_StatObject c key s = (reply, s') \<longrightarrow> bucket s' = bucket s
        \<and> (case reply of
             Inr info \<Rightarrow> (\<exists>x. bucket s key = Some x \<and> si_Size info = int (length (so_content x))
               \<and> minioUserMetadata lower info ''ciphertext-sha256'' = so_digest x)
           | Inl e \<Rightarrow> isMinIONotFound e \<longrightarrow> bucket s key = None))
   \<and> (\<forall>key s reply s'. s3_GetObject c key s = (reply, s') \<longrightarrow> bucket s' = bucket s
        \<and> (case reply of Inr body \<Rightarrow> map_option so_content (bucket s key) = Some body | Inl e \<Rightarrow> True))
   \<and> (\<forall>key s reply s'. s3_RemoveObject c key s = (reply, s') \<longrightarrow>
        (bucket s' = (bucket s)(key := None) \<or> bucket s' = bucket s)
        \<and> (case reply of None \<Rightarrow> bucket s' key = None | Some e \<Rightarrow> isMinIONotFound e \<longrightarrow> bucket s' key = None))"

section \<open>Lemmas\<close>

lemma hex_digits: "list_all (\<lambda>n. hex_value (hex_digit n) = Some n) [0..<16]"
  by code_simp

lemma hex_digit_value: "n < 16 \<Longrightarrow> hex_value (hex_digit n) = Some n"
  using hex_digits unfolding list_all_iff by (elim ballE) auto

lemma hex_round_trip: "hex_decode (hex_encode s) = Some s"
proof (induction s)
  case Nil
  then show ?case by (simp add: hex_encode_def)
next
  case (Cons c s)
  have "code c < 256" using codes_bound [of "[c]"] by (simp only: list_all_iff) simp
  then have "code c div 16 < 16" by (intro less_mult_imp_div_less) simp
  then have "hex_value (hex_digit (code c div 16)) = Some (code c div 16)" by (rule hex_digit_value)
  moreover have "hex_value (hex_digit (code c)) = Some (code c mod 16)"
    using hex_digit_value [of "code c mod 16"] by (simp add: hex_digit_def)
  moreover have "char_of (code c div 16 * 16 + code c mod 16) = c" by (simp add: div_mult_mod_eq)
  ultimately show ?case using Cons by (simp add: hex_encode_def)
qed

end
