(* ===== verification/BackupService.thy ===== *)
theory BackupService
  imports ObjectStore
begin

text \<open>
  \<open>service.go\<close> of \<open>internal/encryptedbackup\<close>: every method of the service, on the repository of \<open>Backups\<close> and the
  object store of \<open>ObjectStore\<close>. The state has the database and the bucket.
\<close>

section \<open>The service\<close>

record 's backup_state =
  bz_db :: db
  bz_objects :: 's

text \<open>What a call meets from outside: faults of its database calls, the clock (read twice by some methods), random
  identifiers, and whether the context of the request ends during an upload.\<close>

record backup_env =
  be_identity :: bool \<comment> \<open>reading the device of the session\<close>
  be_status :: bool \<comment> \<open>reading the newest registration\<close>
  be_device :: bool \<comment> \<open>reading a registration\<close>
  be_caller :: bool \<comment> \<open>reading the registration of the caller\<close>
  be_read :: schedule
  be_write :: schedule
  be_finish :: schedule
  be_now :: instant
  be_end :: instant
  be_draw :: "uuid option"
  be_canceled :: bool

record 's backup_service =
  bs_libs :: backup_libs
  bs_objects :: "'s MinIOStore"
  bs_maxBackupBytes :: int
  bs_uploadTTL :: duration

definition maximumEnvelopeClockSkew :: duration where "maximumEnvelopeClockSkew = 5 * minute"

definition NewBackupService ::
  "backup_libs \<Rightarrow> 's MinIOStore \<Rightarrow> int \<Rightarrow> duration \<Rightarrow> 's backup_service option" where
  "NewBackupService lb objects maxBackupBytes uploadTTL =
     (if maxBackupBytes < minimumCiphertextBytes \<or> maxBackupBytes > maxCiphertextObjectBytes
         \<or> uploadTTL \<le> 0 \<or> uploadTTL > 24 * hour then None
      else Some \<lparr>bs_libs = lb, bs_objects = objects, bs_maxBackupBytes = maxBackupBytes, bs_uploadTTL = uploadTTL\<rparr>)"

text \<open>A read of the database, a transaction on it, and a call of the object store, as steps of a method.\<close>

definition reads :: "'e + 'a \<Rightarrow> 's \<Rightarrow> ('e + 'a) \<times> 's" where
  "reads r z = (r, z)"

definition commits :: "('e + 'a) \<times> db \<Rightarrow> 's backup_state \<Rightarrow> ('e + 'a) \<times> 's backup_state" where
  "commits r z = (case r of (x, d) \<Rightarrow> (x, z\<lparr>bz_db := d\<rparr>))"

definition commits_unit :: "'e option \<times> db \<Rightarrow> 's backup_state \<Rightarrow> ('e + unit) \<times> 's backup_state" where
  "commits_unit r z = (case r of (None, d) \<Rightarrow> (Inr (), z\<lparr>bz_db := d\<rparr>) | (Some e, d) \<Rightarrow> (Inl e, z\<lparr>bz_db := d\<rparr>))"

definition stores ::
  "(ciphertext_error + 'a) \<times> 's \<Rightarrow> 's backup_state \<Rightarrow> (ciphertext_error + 'a) \<times> 's backup_state" where
  "stores r z = (case r of (x, o') \<Rightarrow> (x, z\<lparr>bz_objects := o'\<rparr>))"

section \<open>Access\<close>

definition activeAuthenticationDevice :: "backup_env \<Rightarrow> Principal \<Rightarrow> db \<Rightarrow> backup_error + AuthenticationDevice" where
  "activeAuthenticationDevice env p d =
     andthen (check (valid_principal p) BInvalidRequest) (\<lambda>_.
     andthen (read_AuthenticationDevice (be_identity env) (pr_UserID p) (pr_DeviceID p) d) (\<lambda>found.
     andthen (check (au_UserID found = pr_UserID p \<and> au_DeviceID found = pr_DeviceID p) BUnauthorized) (\<lambda>_.
     andthen (check (au_Status found = ''active'') BDeviceRevoked) (\<lambda>_.
     andthen (check (length (au_PublicKey found) = 32) BUnavailable) (\<lambda>_. Inr found)))))"

definition ensureBackupDeviceNotRevoked :: "backup_env \<Rightarrow> Principal \<Rightarrow> db \<Rightarrow> backup_error + unit" where
  "ensureBackupDeviceNotRevoked env p d =
     andthen (LatestBackupDeviceStatus (be_status env) (pr_UserID p) (pr_DeviceID p) d) (\<lambda>status.
     if status = [] \<or> status = ''active'' then Inr ()
     else if status = ''revoked'' then Inl BDeviceRevoked else Inl BUnavailable)"

section \<open>Devices\<close>

definition RegisterDevice ::
  "'s backup_service \<Rightarrow> backup_env \<Rightarrow> Principal \<Rightarrow> RegisterDeviceCommand \<Rightarrow> 's backup_state
     \<Rightarrow> (backup_error + BackupDevice \<times> bool) \<times> 's backup_state" where
  "RegisterDevice sv env p c z =
     proceed (reads (check (\<not> (\<not> valid_principal p \<or> rd_KeyEpoch c \<le> 0 \<or> rd_Revision c \<le> 0 \<or> length (rd_PublicKey c) \<noteq> 32
        \<or> length (rd_Signature c) \<noteq> 64)) BInvalidRequest) z) (\<lambda>_ z.
     proceed (reads (activeAuthenticationDevice env p (bz_db z)) z) (\<lambda>identity z.
     let registration = \<lparr>rg_UserID = pr_UserID p, rg_DeviceID = pr_DeviceID p, rg_KeyEpoch = rd_KeyEpoch c,
           rg_Revision = rd_Revision c, rg_PublicKey = rd_PublicKey c\<rparr> in
     proceed (reads (VerifyBackupDeviceRegistrationSignature (bs_libs sv) (au_PublicKey identity) registration (rd_Signature c)) z) (\<lambda>_ z.
     commits (RegisterBackupDevice (be_draw env) (be_write env)
       \<lparr>rr_Registration = registration, rr_Signature = rd_Signature c, rr_RecordedAt = be_now env\<rparr> (bz_db z)) z)))"

definition RevokeDevice ::
  "backup_env \<Rightarrow> Principal \<Rightarrow> uuid \<Rightarrow> 's backup_state \<Rightarrow> (backup_error + unit) \<times> 's backup_state" where
  "RevokeDevice env p targetDeviceID z =
     proceed (reads (check (valid_principal p \<and> targetDeviceID \<noteq> Nil_uuid) BInvalidRequest) z) (\<lambda>_ z.
     proceed (reads (activeAuthenticationDevice env p (bz_db z)) z) (\<lambda>_ z.
     commits_unit (RevokeBackupDevice (be_write env) (pr_UserID p) targetDeviceID (be_now env) (bz_db z)) z))"

definition listable :: "uuid \<Rightarrow> BackupDevice \<Rightarrow> bool" where
  "listable userID v \<longleftrightarrow> bv_UserID v = userID \<and> bv_DeviceID v \<noteq> Nil_uuid \<and> 0 < bv_KeyEpoch v \<and> 0 < bv_Revision v
     \<and> length (bv_PublicKey v) = 32 \<and> (bv_Status v = ''active'' \<or> bv_Status v = ''revoked'')"

definition ListDevices :: "backup_env \<Rightarrow> Principal \<Rightarrow> db \<Rightarrow> backup_error + BackupDevice list" where
  "ListDevices env p d =
     andthen (check (valid_principal p) BInvalidRequest) (\<lambda>_.
     andthen (activeAuthenticationDevice env p d) (\<lambda>_.
     andthen (ensureBackupDeviceNotRevoked env p d) (\<lambda>_.
     andthen (ListBackupDevices (be_read env 0) (pr_UserID p) d) (\<lambda>vs.
     andthen (check (list_all (listable (pr_UserID p)) vs) BUnavailable) (\<lambda>_. Inr vs)))))"

section \<open>Uploading\<close>

definition initiate_ok :: "'s backup_service \<Rightarrow> InitiateCommand \<Rightarrow> bool" where
  "initiate_ok sv c \<longleftrightarrow> (let e = ic_Envelope c; cr = bl_crypto (bs_libs sv) in
     valid_principal (ic_Principal c) \<and> pe_SourceDeviceID e = pr_DeviceID (ic_Principal c)
     \<and> valid_envelope (bs_maxBackupBytes sv) e \<and> length (ic_Signature c) = 64 \<and> validRecovery (ic_Recovery c)
     \<and> validEnvelope (ic_RecoveryRootKeyEnvelope c) \<and> validEnvelope (ic_WrappedDataKey c)
     \<and> validEnvelope (ic_SourceDeviceRootKeyEnvelope c)
     \<and> digestMatches cr (ic_RecoveryRootKeyEnvelope c) (pe_RecoveryEnvelopeDigest e)
     \<and> digestMatches cr (ic_WrappedDataKey c) (pe_WrappedDataKeyDigest e)
     \<and> digestMatches cr (ic_SourceDeviceRootKeyEnvelope c) (pe_SourceDeviceEnvelopeDigest e))"

definition initiate_record :: "'s backup_service \<Rightarrow> instant \<Rightarrow> uuid \<Rightarrow> BackupDevice \<Rightarrow> InitiateCommand \<Rightarrow> InitiateRecord" where
  "initiate_record sv now envelopeID device c =
     (let e = ic_Envelope c; digest = PublicEnvelopeSigningDigest (bs_libs sv) e; recordedAt = max now (pe_CreatedAt e) in
      \<lparr>ird_Backup = \<lparr>bk_ID = pe_BackupID e, bk_UserID = pr_UserID (ic_Principal c), bk_SourceDeviceID = pe_SourceDeviceID e,
         bk_SourceInstallationID = pe_SourceInstallationID e, bk_SourceDefinitionID = pe_SourceDefinitionID e,
         bk_SourceVersionID = pe_SourceVersionID e, bk_ProfileLineageID = pe_ProfileLineageID e,
         bk_ParentBackupID = pe_ParentBackupID e, bk_FormatVersion = pe_FormatVersion e, bk_CipherSuite = pe_CipherSuite e,
         bk_State = Initiated, bk_KeyEpoch = pe_KeyEpoch e, bk_ChunkCount = int (length (pe_Chunks e)),
         bk_TotalCiphertextSize = pe_TotalCiphertextSize e, bk_Manifest = pe_Manifest e, bk_PublicEnvelopeDigest = digest,
         bk_PublicSignature = ic_Signature c, bk_Recovery = ic_Recovery c,
         bk_RecoveryRootKeyEnvelope = ic_RecoveryRootKeyEnvelope c, bk_WrappedDataKey = ic_WrappedDataKey c,
         bk_CreatedAt = pe_CreatedAt e, bk_UpdatedAt = recordedAt, bk_UploadExpiresAt = pe_CreatedAt e + bs_uploadTTL sv,
         bk_SealedAt = None, bk_DeletionStartedAt = None, bk_DeletedAt = None\<rparr>,
       ird_Chunks = pe_Chunks e,
       ird_SourceDeviceEnvelope = \<lparr>er_ID = envelopeID, er_BackupID = pe_BackupID e, er_BackupDeviceID = bv_ID device,
         er_KeyEpoch = bv_KeyEpoch device, er_RootKeyEnvelope = ic_SourceDeviceRootKeyEnvelope c,
         er_RootKeyEnvelopeDigest = pe_SourceDeviceEnvelopeDigest e, er_CreatedAt = recordedAt\<rparr>,
       ird_PublicEnvelopeDigest = digest\<rparr>)"

definition Initiate ::
  "'s backup_service \<Rightarrow> backup_env \<Rightarrow> InitiateCommand \<Rightarrow> 's backup_state \<Rightarrow> (backup_error + InitiateResult) \<times> 's backup_state" where
  "Initiate sv env c z =
     (let p = ic_Principal c; e = ic_Envelope c; now = be_now env; delta = time_sub now (pe_CreatedAt e) in
     proceed (reads (check (initiate_ok sv c) BInvalidRequest) z) (\<lambda>_ z.
     proceed (reads (check (\<not> (delta < - maximumEnvelopeClockSkew \<or> delta > maximumEnvelopeClockSkew)) BInvalidRequest) z) (\<lambda>_ z.
     proceed (reads (activeAuthenticationDevice env p (bz_db z)) z) (\<lambda>identity z.
     proceed (reads (VerifyPublicEnvelopeSignature (bs_libs sv) (au_PublicKey identity) e (ic_Signature c)) z) (\<lambda>_ z.
     proceed (reads (read_BackupDevice (be_device env) (pr_UserID p) (pr_DeviceID p) (pe_KeyEpoch e) (bz_db z)) z) (\<lambda>device z.
     proceed (reads (check (bv_Status device = ''active'') BDeviceRevoked) z) (\<lambda>_ z.
     case RandomUUID (be_draw env) of
       Inl _ \<Rightarrow> (Inl BUnavailable, z)
     | Inr envelopeID \<Rightarrow>
         proceed (commits (Initiate_record (be_write env) (initiate_record sv now envelopeID device c) (bz_db z)) z) (\<lambda>(created, replayed) z.
         (Inr \<lparr>ir_BackupID = bk_ID created, ir_State = bk_State created, ir_UploadExpiresAt = bk_UploadExpiresAt created,
               ir_Replayed = replayed\<rparr>, z)))))))))"

text \<open>The object that exists already counts as uploaded if its metadata are the ones of this upload.\<close>

definition put_or_same ::
  "'s MinIOStore \<Rightarrow> bool \<Rightarrow> CiphertextObjectRef \<Rightarrow> reader option \<Rightarrow> int \<Rightarrow> bytes \<Rightarrow> 's
     \<Rightarrow> (ciphertext_error + unit) \<times> 's" where
  "put_or_same st canceled ref body bytes digest o1 =
     (case PutCiphertext st canceled ref body bytes digest o1 of
        (Inr _, o2) \<Rightarrow> (Inr (), o2)
      | (Inl e, o2) \<Rightarrow>
          if e = CiphertextAlreadyExists
          then (case HeadCiphertext st ref o2 of
              (Inr metadata, o3) \<Rightarrow> (if cm_Size metadata = bytes \<and> cm_SHA256 metadata = digest then Inr () else Inl e, o3)
            | (Inl _, o3) \<Rightarrow> (Inl e, o3))
          else (Inl e, o2))"

definition upload ::
  "'s backup_service \<Rightarrow> backup_env \<Rightarrow> Principal \<Rightarrow> UploadTarget \<Rightarrow> reader option \<Rightarrow> int \<Rightarrow> bytes \<Rightarrow> 's backup_state
     \<Rightarrow> (backup_error + unit) \<times> 's backup_state" where
  "upload sv env p target body bytes digest z =
     proceed (reads (check (\<not> (ut_BackupID target = Nil_uuid \<or> ut_UserID target \<noteq> pr_UserID p
        \<or> ut_SourceDeviceID target \<noteq> pr_DeviceID p)) BUnauthorized) z) (\<lambda>_ z.
     proceed (reads (check (\<not> (body = None \<or> bytes < minimumCiphertextBytes)) BInvalidRequest) z) (\<lambda>_ z.
     proceed (reads (check (bytes = os_CiphertextSize (ut_Object target) \<and> digest = os_CiphertextDigest (ut_Object target))
        (BStore CiphertextMismatch)) z) (\<lambda>_ z.
     proceed (reads (check (uploading_state (ut_State target)) (if ut_State target = Sealed then BConflict else BNotFound)) z) (\<lambda>_ z.
     proceed (reads (check (be_now env < ut_UploadExpiresAt target) BExpired) z) (\<lambda>_ z.
     proceed (reads (activeAuthenticationDevice env p (bz_db z)) z) (\<lambda>_ z.
     case NewCiphertextObjectRef (ut_UserID target) (ut_BackupID target) (os_ObjectID (ut_Object target)) of
       None \<Rightarrow> (Inl BInvalidRequest, z)
     | Some ref \<Rightarrow>
         (case stores (put_or_same (bs_objects sv) (be_canceled env) ref body bytes digest (bz_objects z)) z of
            (Inl e, z1) \<Rightarrow> (Inl (BStore e), z1)
          | (Inr _, z1) \<Rightarrow>
              commits_unit (MarkUploading (be_write env 0) (ut_UserID target) (ut_BackupID target) (be_now env) (bz_db z1)) z1)))))))"

definition UploadChunk ::
  "'s backup_service \<Rightarrow> backup_env \<Rightarrow> Principal \<Rightarrow> uuid \<Rightarrow> int \<Rightarrow> reader option \<Rightarrow> int \<Rightarrow> bytes \<Rightarrow> 's backup_state
     \<Rightarrow> (backup_error + unit) \<times> 's backup_state" where
  "UploadChunk sv env p backupID index body bytes digest z =
     proceed (reads (check (\<not> (\<not> valid_principal p \<or> backupID = Nil_uuid \<or> index < 0 \<or> index \<ge> maximumChunkCount)) BInvalidRequest) z) (\<lambda>_ z.
     proceed (reads (ChunkUploadTarget (be_read env 0) (pr_UserID p) backupID index (bz_db z)) z) (\<lambda>target z.
     upload sv env p target body bytes digest z))"

definition UploadManifest ::
  "'s backup_service \<Rightarrow> backup_env \<Rightarrow> Principal \<Rightarrow> uuid \<Rightarrow> reader option \<Rightarrow> int \<Rightarrow> bytes \<Rightarrow> 's backup_state
     \<Rightarrow> (backup_error + unit) \<times> 's backup_state" where
  "UploadManifest sv env p backupID body bytes digest z =
     proceed (reads (check (valid_principal p \<and> backupID \<noteq> Nil_uuid) BInvalidRequest) z) (\<lambda>_ z.
     proceed (reads (ManifestUploadTarget (be_read env 0) (pr_UserID p) backupID (bz_db z)) z) (\<lambda>target z.
     upload sv env p target body bytes digest z))"

section \<open>Sealing\<close>

definition verifyObject ::
  "'s MinIOStore \<Rightarrow> uuid \<Rightarrow> uuid \<Rightarrow> ObjectSpec \<Rightarrow> 's \<Rightarrow> (backup_error + unit) \<times> 's" where
  "verifyObject st userID backupID spec o1 =
     (case NewCiphertextObjectRef userID backupID (os_ObjectID spec) of
        None \<Rightarrow> (Inl BUnavailable, o1)
      | Some ref \<Rightarrow> (case HeadCiphertext st ref o1 of
            (Inl e, o2) \<Rightarrow> (Inl (if e = CiphertextNotFound then BIncomplete else BStore e), o2)
          | (Inr metadata, o2) \<Rightarrow>
              (check (cm_Size metadata = os_CiphertextSize spec \<and> cm_SHA256 metadata = os_CiphertextDigest spec)
                 (BStore CiphertextMismatch), o2)))"

fun verifyObjects ::
  "'s MinIOStore \<Rightarrow> uuid \<Rightarrow> uuid \<Rightarrow> ObjectSpec list \<Rightarrow> 's \<Rightarrow> (backup_error + unit) \<times> 's" where
  "verifyObjects st userID backupID [] o1 = (Inr (), o1)"
| "verifyObjects st userID backupID (spec # specs) o1 =
     proceed (verifyObject st userID backupID spec o1) (\<lambda>_ o2. verifyObjects st userID backupID specs o2)"

definition sealing :: "(backup_error + unit) \<times> 's \<Rightarrow> 's backup_state \<Rightarrow> (backup_error + unit) \<times> 's backup_state" where
  "sealing r z = (case r of (x, o') \<Rightarrow> (x, z\<lparr>bz_objects := o'\<rparr>))"

definition Seal_backup ::
  "'s backup_service \<Rightarrow> backup_env \<Rightarrow> Principal \<Rightarrow> uuid \<Rightarrow> 's backup_state \<Rightarrow> (backup_error + SealResult) \<times> 's backup_state" where
  "Seal_backup sv env p backupID z =
     proceed (reads (check (valid_principal p \<and> backupID \<noteq> Nil_uuid) BInvalidRequest) z) (\<lambda>_ z.
     proceed (reads (activeAuthenticationDevice env p (bz_db z)) z) (\<lambda>_ z.
     proceed (reads (BackupForSeal (be_read env) (pr_UserID p) backupID (bz_db z)) z) (\<lambda>detail z.
     let b = dt_Backup detail in
     proceed (reads (check (bk_SourceDeviceID b = pr_DeviceID p) BUnauthorized) z) (\<lambda>_ z.
     if bk_State b = Sealed
     then (Inr \<lparr>sr_BackupID = bk_ID b, sr_State = bk_State b, sr_SealedAt = bk_SealedAt b, sr_Replayed = True\<rparr>, z)
     else
     proceed (reads (check (uploading_state (bk_State b)) BConflict) z) (\<lambda>_ z.
     proceed (reads (read_BackupDevice (be_device env) (pr_UserID p) (pr_DeviceID p) (bk_KeyEpoch b) (bz_db z)) z) (\<lambda>sourceDevice z.
     proceed (reads (check (bv_Status sourceDevice = ''active'') BDeviceRevoked) z) (\<lambda>_ z.
     proceed (reads (check (be_now env < bk_UploadExpiresAt b) BExpired) z) (\<lambda>_ z.
     proceed (reads (check (int (length (dt_Chunks detail)) = bk_ChunkCount b) BIncomplete) z) (\<lambda>_ z.
     proceed (sealing (verifyObjects (bs_objects sv) (bk_UserID b) (bk_ID b)
        (bk_Manifest b # map ck_Object (dt_Chunks detail)) (bz_objects z)) z) (\<lambda>_ z.
     proceed (commits (Seal_record (be_write env) (pr_UserID p) backupID (be_end env) (bz_db z)) z) (\<lambda>(sealed, replayed) z.
     (Inr \<lparr>sr_BackupID = bk_ID sealed, sr_State = bk_State sealed, sr_SealedAt = bk_SealedAt sealed, sr_Replayed = replayed\<rparr>, z))))))))))))"

section \<open>Restoring\<close>

definition List_backups :: "backup_env \<Rightarrow> Principal \<Rightarrow> db \<Rightarrow> backup_error + Backup list" where
  "List_backups env p d =
     andthen (check (valid_principal p) BInvalidRequest) (\<lambda>_.
     andthen (activeAuthenticationDevice env p d) (\<lambda>_.
     andthen (ensureBackupDeviceNotRevoked env p d) (\<lambda>_.
     ListSealed (be_read env 0) (pr_UserID p) d)))"

definition Get_backup :: "backup_env \<Rightarrow> Principal \<Rightarrow> uuid \<Rightarrow> db \<Rightarrow> backup_error + BackupDetail" where
  "Get_backup env p backupID d =
     andthen (check (valid_principal p \<and> backupID \<noteq> Nil_uuid) BInvalidRequest) (\<lambda>_.
     andthen (activeAuthenticationDevice env p d) (\<lambda>_.
     andthen (ensureBackupDeviceNotRevoked env p d) (\<lambda>_.
     GetSealed (be_read env) (pr_UserID p) backupID (pr_DeviceID p) d)))"

definition Download ::
  "'s backup_service \<Rightarrow> backup_env \<Rightarrow> Principal \<Rightarrow> uuid \<Rightarrow> bytes \<Rightarrow> 's backup_state
     \<Rightarrow> (backup_error + CiphertextDownload) \<times> 's backup_state" where
  "Download sv env p backupID objectID z =
     proceed (reads (Get_backup env p backupID (bz_db z)) z) (\<lambda>detail z.
     proceed (reads (check (bk_State (dt_Backup detail) = Sealed) BNotFound) z) (\<lambda>_ z.
     proceed (reads (check (objectID = os_ObjectID (bk_Manifest (dt_Backup detail))
        \<or> list_ex (\<lambda>c. objectID = os_ObjectID (ck_Object c)) (dt_Chunks detail)) BNotFound) z) (\<lambda>_ z.
     case NewCiphertextObjectRef (pr_UserID p) backupID objectID of
       None \<Rightarrow> (Inl BInvalidRequest, z)
     | Some ref \<Rightarrow> (case stores (GetCiphertext (bs_objects sv) ref (bz_objects z)) z of
           (Inl e, z1) \<Rightarrow> (Inl (BStore e), z1) | (Inr x, z1) \<Rightarrow> (Inr x, z1)))))"

section \<open>Sharing and deleting\<close>

definition AddDeviceEnvelope ::
  "'s backup_service \<Rightarrow> backup_env \<Rightarrow> Principal \<Rightarrow> uuid \<Rightarrow> uuid \<Rightarrow> int \<Rightarrow> bytes \<Rightarrow> bytes \<Rightarrow> 's backup_state
     \<Rightarrow> (backup_error + bool) \<times> 's backup_state" where
  "AddDeviceEnvelope sv env p backupID targetDeviceID keyEpoch envelope digest z =
     (let cr = bl_crypto (bs_libs sv) in
     proceed (reads (check (\<not> (\<not> valid_principal p \<or> backupID = Nil_uuid \<or> targetDeviceID = Nil_uuid \<or> keyEpoch \<le> 0
        \<or> \<not> validEnvelope envelope \<or> \<not> digestMatches cr envelope digest)) BInvalidRequest) z) (\<lambda>_ z.
     proceed (reads (activeAuthenticationDevice env p (bz_db z)) z) (\<lambda>_ z.
     proceed (reads (GetSealed (be_read env) (pr_UserID p) backupID (pr_DeviceID p) (bz_db z)) z) (\<lambda>detail z.
     proceed (reads (check (\<not> (bk_KeyEpoch (dt_Backup detail) \<noteq> 0 \<and> bk_KeyEpoch (dt_Backup detail) \<noteq> keyEpoch)) BConflict) z) (\<lambda>_ z.
     proceed (reads (read_BackupDevice (be_device env) (pr_UserID p) targetDeviceID keyEpoch (bz_db z)) z) (\<lambda>target z.
     proceed (reads (check (bv_Status target = ''active'') BDeviceRevoked) z) (\<lambda>_ z.
     proceed (reads (if targetDeviceID = pr_DeviceID p then Inr ()
        else andthen (read_BackupDevice (be_caller env) (pr_UserID p) (pr_DeviceID p) keyEpoch (bz_db z)) (\<lambda>caller.
             check (bv_Status caller = ''active'') BDeviceRevoked)) z) (\<lambda>_ z.
     case RandomUUID (be_draw env) of
       Inl _ \<Rightarrow> (Inl BUnavailable, z)
     | Inr envelopeID \<Rightarrow>
         commits (AddDeviceEnvelope_record cr (be_write env) (pr_UserID p) backupID
           \<lparr>er_ID = envelopeID, er_BackupID = backupID, er_BackupDeviceID = bv_ID target, er_KeyEpoch = keyEpoch,
            er_RootKeyEnvelope = envelope, er_RootKeyEnvelopeDigest = digest, er_CreatedAt = be_now env\<rparr> (bz_db z)) z))))))))"

fun object_refs :: "uuid \<Rightarrow> uuid \<Rightarrow> bytes list \<Rightarrow> CiphertextObjectRef list option" where
  "object_refs userID backupID [] = Some []"
| "object_refs userID backupID (i # is) = (case NewCiphertextObjectRef userID backupID i of
       None \<Rightarrow> None | Some ref \<Rightarrow> map_option ((#) ref) (object_refs userID backupID is))"

definition Delete_service ::
  "'s backup_service \<Rightarrow> backup_env \<Rightarrow> Principal \<Rightarrow> uuid \<Rightarrow> 's backup_state \<Rightarrow> (backup_error + unit) \<times> 's backup_state" where
  "Delete_service sv env p backupID z =
     proceed (reads (check (valid_principal p \<and> backupID \<noteq> Nil_uuid) BInvalidRequest) z) (\<lambda>_ z.
     proceed (reads (activeAuthenticationDevice env p (bz_db z)) z) (\<lambda>_ z.
     proceed (reads (ensureBackupDeviceNotRevoked env p (bz_db z)) z) (\<lambda>_ z.
     proceed (commits (BeginDeletion (be_draw env) (be_write env) (pr_UserID p) backupID (be_now env) (bz_db z)) z) (\<lambda>deletion z.
     case object_refs (pr_UserID p) backupID (dr_ObjectIDs deletion) of
       None \<Rightarrow> (Inl BUnavailable, z)
     | Some refs \<Rightarrow>
         (case DeleteCiphertexts (bs_objects sv) refs (bz_objects z) of
            (Some e, o') \<Rightarrow> (Inl (BStore e), z\<lparr>bz_objects := o'\<rparr>)
          | (None, o') \<Rightarrow>
              let z1 = z\<lparr>bz_objects := o'\<rparr> in
              commits_unit (CompleteDeletion (be_finish env) (pr_UserID p) backupID (be_end env) (bz_db z1)) z1)))))"

end
