(* ===== verification/Jobs.thy ===== *)
theory Jobs
  imports BackupService Redis
begin

text \<open>
  \<open>internal/jobs\<close>: the lease in Redis (\<open>lease.go\<close>), the runner (\<open>runner.go\<close>), stages in sequence
  (\<open>sequence.go\<close>) and the maintenance of encrypted backups (\<open>postgres.go\<close>): uploads that expired, lineages with
  too many backups, and the deletion of their objects with retries.
\<close>

datatype maintenance_error = LeaseUnavailable | MaintenanceUnavailable

section \<open>The lease\<close>

definition redisMaintenanceLeasePrefix :: bytes where
  "redisMaintenanceLeasePrefix = ''aera-cloud:maintenance:lease:''"

definition maintenance_acquire :: "instant \<Rightarrow> bytes \<Rightarrow> bytes \<Rightarrow> duration \<Rightarrow> bytes redis \<Rightarrow> bool \<times> bytes redis" where
  "maintenance_acquire now key owner ttl r = setnx now (redisMaintenanceLeasePrefix @ key) owner ttl r"

definition maintenance_release :: "instant \<Rightarrow> bytes \<Rightarrow> bytes \<Rightarrow> bytes redis \<Rightarrow> bytes redis" where
  "maintenance_release now key owner r = delete_if_owner now (redisMaintenanceLeasePrefix @ key) owner r"

definition maintenance_holder :: "instant \<Rightarrow> bytes redis \<Rightarrow> bytes \<Rightarrow> bytes option" where
  "maintenance_holder now r key = value_at now r (redisMaintenanceLeasePrefix @ key)"

definition Lease_Acquire ::
  "bool \<Rightarrow> instant \<Rightarrow> bytes \<Rightarrow> bytes \<Rightarrow> duration \<Rightarrow> bytes redis \<Rightarrow> (maintenance_error + bool) \<times> bytes redis" where
  "Lease_Acquire fails now key owner ttl r =
     (if TrimSpace key = [] \<or> TrimSpace owner = [] \<or> ttl \<le> 0 then (Inl LeaseUnavailable, r)
      else if fails then (Inl LeaseUnavailable, r)
      else (case maintenance_acquire now key owner ttl r of (acquired, r') \<Rightarrow> (Inr acquired, r')))"

definition Lease_Release ::
  "bool \<Rightarrow> instant \<Rightarrow> bytes \<Rightarrow> bytes \<Rightarrow> bytes redis \<Rightarrow> maintenance_error option \<times> bytes redis" where
  "Lease_Release fails now key owner r =
     (if TrimSpace key = [] \<or> TrimSpace owner = [] then (Some LeaseUnavailable, r)
      else if fails then (Some LeaseUnavailable, r)
      else (None, maintenance_release now key owner r))"

interpretation maintenance: lease maintenance_acquire maintenance_release maintenance_holder
  unfolding maintenance_acquire_def maintenance_release_def maintenance_holder_def
  by unfold_locales (auto intro: prefixed_lease_laws)

section \<open>The runner\<close>

text \<open>A stage of maintenance at an instant: its error or none, and the new state.\<close>

type_synonym 's stage = "instant \<Rightarrow> 's \<Rightarrow> maintenance_error option \<times> 's"

definition maintenanceLeaseName :: bytes where "maintenanceLeaseName = ''account-maintenance-v1''"

record runner =
  ru_owner :: bytes
  ru_leaseTTL :: duration
  ru_interval :: duration

definition NewRunner :: "bytes \<Rightarrow> duration \<Rightarrow> duration \<Rightarrow> runner option" where
  "NewRunner owner leaseTTL interval =
     (if TrimSpace owner = [] \<or> leaseTTL \<le> 0 \<or> interval \<le> 0 then None
      else Some \<lparr>ru_owner = owner, ru_leaseTTL = leaseTTL, ru_interval = interval\<rparr>)"

text \<open>One pass: whether Redis fails, its clock at both calls, and the clock of the process.\<close>

record pass_env =
  pv_acquire_fails :: bool
  pv_release_fails :: bool
  pv_acquired_at :: instant
  pv_released_at :: instant
  pv_now :: instant

definition RunOnce ::
  "runner \<Rightarrow> 's stage \<Rightarrow> pass_env \<Rightarrow> bytes redis \<times> 's \<Rightarrow> maintenance_error option \<times> bytes redis \<times> 's" where
  "RunOnce ru stage env rs = (case rs of (r, s) \<Rightarrow>
     (case Lease_Acquire (pv_acquire_fails env) (pv_acquired_at env) maintenanceLeaseName (ru_owner ru) (ru_leaseTTL ru) r of
        (Inl _, r1) \<Rightarrow> (Some LeaseUnavailable, r1, s)
      | (Inr False, r1) \<Rightarrow> (None, r1, s)
      | (Inr True, r1) \<Rightarrow>
          (case stage (pv_now env) s of (e, s1) \<Rightarrow>
             (case Lease_Release (pv_release_fails env) (pv_released_at env) maintenanceLeaseName (ru_owner ru) r1 of
                (_, r2) \<Rightarrow> (e, r2, s1)))))"

text \<open>The loop of the process: the first pass at once and one more at every tick until the context ends.\<close>

fun Run_runner :: "runner \<Rightarrow> 's stage \<Rightarrow> pass_env list \<Rightarrow> bytes redis \<times> 's \<Rightarrow> bytes redis \<times> 's" where
  "Run_runner ru stage [] rs = rs"
| "Run_runner ru stage (env # envs) rs = Run_runner ru stage envs (snd (RunOnce ru stage env rs))"

section \<open>Stages in sequence\<close>

definition NewSequentialMaintenance :: "'s stage list \<Rightarrow> 's stage list option" where
  "NewSequentialMaintenance stages = (if stages = [] then None else Some stages)"

fun run_stages :: "'s stage list \<Rightarrow> instant \<Rightarrow> 's \<Rightarrow> maintenance_error option \<times> 's" where
  "run_stages [] now s = (None, s)"
| "run_stages (stage # stages) now s = (case stage now s of
       (Some e, s') \<Rightarrow> (Some e, s') | (None, s') \<Rightarrow> run_stages stages now s')"

definition Sequential_Run :: "'s stage list \<Rightarrow> 's stage" where
  "Sequential_Run stages now s =
     (if stages = [] \<or> now = zero_time then (Some MaintenanceUnavailable, s) else run_stages stages now s)"

section \<open>Maintenance of encrypted backups\<close>

definition encryptedBackupCleanupBatchSize :: nat where "encryptedBackupCleanupBatchSize = 25"
definition encryptedBackupRetentionCount :: nat where "encryptedBackupRetentionCount = 3"
definition encryptedBackupOperationLease :: duration where "encryptedBackupOperationLease = 10 * minute"
definition encryptedBackupRetryBase :: duration where "encryptedBackupRetryBase = 5 * minute"
definition encryptedBackupRetryMaximum :: duration where "encryptedBackupRetryMaximum = hour"

text \<open>The loop that doubles the delay.\<close>

function retry_delay :: "int \<Rightarrow> int \<Rightarrow> duration \<Rightarrow> duration" where
  "retry_delay index attempt delay =
     (if index < attempt \<and> delay < encryptedBackupRetryMaximum then retry_delay (index + 1) attempt (delay * 2) else delay)"
  by pat_completeness auto
termination
  by (relation "measure (\<lambda>(index, attempt, delay). nat (attempt - index))") auto

declare retry_delay.simps [simp del]

definition encryptedBackupRetryDelay :: "int \<Rightarrow> duration" where
  "encryptedBackupRetryDelay attempt =
     (let delay = retry_delay 1 (if attempt < 1 then 1 else attempt) encryptedBackupRetryBase in
      if delay > encryptedBackupRetryMaximum then encryptedBackupRetryMaximum else delay)"

definition saved :: "bool \<Rightarrow> 'v + 'a \<Rightarrow> maintenance_error + 'a" where
  "saved fails r = (if fails then Inl MaintenanceUnavailable else case r of Inl _ \<Rightarrow> Inl MaintenanceUnavailable | Inr x \<Rightarrow> Inr x)"

definition backupObjectIDs :: "bool \<Rightarrow> uuid \<Rightarrow> db \<Rightarrow> maintenance_error + bytes list" where
  "backupObjectIDs fails backupID d = (if fails then Inl MaintenanceUnavailable else Inr (object_keys backupID d))"

definition stageBackupOperation ::
  "uuid option \<Rightarrow> schedule \<Rightarrow> uuid \<Rightarrow> uuid \<Rightarrow> BackupOperation \<Rightarrow> bytes list \<Rightarrow> instant \<Rightarrow> db \<Rightarrow> maintenance_error + db" where
  "stageBackupOperation draw f userID backupID operation objectIDs now d =
     andthen (check (\<not> f 0) MaintenanceUnavailable) (\<lambda>_.
     case find_open_operation backupID operation d of
       Some q \<Rightarrow> andthen (saved (f 1) (reopen_operation (eo_id q) objectIDs now d)) (\<lambda>(_, d1). Inr d1)
     | None \<Rightarrow> (case RandomUUID draw of
           Inl _ \<Rightarrow> Inl MaintenanceUnavailable
         | Inr operationID \<Rightarrow> saved (f 1) (insert_operation (new_operation operationID userID backupID operation objectIDs now) d)))"

definition expired_at :: "instant \<Rightarrow> backup_row \<Rightarrow> backup_row" where
  "expired_at now q = q\<lparr>eb_state := Expired, eb_recovery_root_key_envelope := None, eb_wrapped_data_key := None,
     eb_deletion_started_at := Some now, eb_deleted_at := Some now, eb_updated_at := now\<rparr>"

text \<open>The uploads that are due, oldest first, without those another transaction holds locked; five calls for each.\<close>

definition due_uploads :: "(uuid \<Rightarrow> bool) \<Rightarrow> instant \<Rightarrow> db \<Rightarrow> (uuid \<times> uuid) list" where
  "due_uploads locked now d = map (\<lambda>q. (eb_id q, eb_user_id q)) (take encryptedBackupCleanupBatchSize
     (sort_key (\<lambda>q. (eb_upload_expires_at q, eb_id q))
       (filter (\<lambda>q. uploading_state (eb_state q) \<and> eb_upload_expires_at q \<le> now \<and> \<not> locked (eb_id q)) (encrypted_profile_backups d))))"

fun expire_uploads :: "uuid draws \<Rightarrow> schedule \<Rightarrow> instant \<Rightarrow> (uuid \<times> uuid) list \<Rightarrow> db \<Rightarrow> maintenance_error + db" where
  "expire_uploads draw f now [] d = Inr d"
| "expire_uploads draw f now ((backupID, userID) # due) d =
     andthen (backupObjectIDs (f 0) backupID d) (\<lambda>objectIDs.
     andthen (saved (f 1) (update_backups (\<lambda>q. eb_id q = backupID \<and> uploading_state (eb_state q)) (expired_at now) d)) (\<lambda>(_, d1).
     andthen (check (\<not> f 2) MaintenanceUnavailable) (\<lambda>_.
     andthen (stageBackupOperation (draw 0) (later 3 f) userID backupID Expire_upload objectIDs now
        (destroy_envelopes (\<lambda>e. ee_backup_id e = backupID) now d1)) (\<lambda>d2.
     expire_uploads (\<lambda>k. draw (Suc k)) (later 5 f) now due d2))))"

definition stageExpiredUploads ::
  "(uuid \<Rightarrow> bool) \<Rightarrow> uuid draws \<Rightarrow> schedule \<Rightarrow> instant \<Rightarrow> db \<Rightarrow> maintenance_error option \<times> db" where
  "stageExpiredUploads locked draw f now d = transaction
     (andthen (check (\<not> f 0) MaintenanceUnavailable) (\<lambda>_.
      andthen (check (\<not> f 1) MaintenanceUnavailable) (\<lambda>_.
      andthen (expire_uploads draw (later 2 f) now (due_uploads locked now d) d) (\<lambda>d1.
      andthen (check (\<not> f (2 + 5 * length (due_uploads locked now d))) MaintenanceUnavailable) (\<lambda>_. Inr d1))))) d"

text \<open>\<open>row_number\<close> over the sealed backups of a lineage, newest first.\<close>

definition sealed_time :: "backup_row \<Rightarrow> instant" where
  "sealed_time q = (case eb_sealed_at q of None \<Rightarrow> 0 | Some t \<Rightarrow> t)"

definition retention_rank :: "backup_row \<Rightarrow> db \<Rightarrow> nat" where
  "retention_rank r d = Suc (length (filter (\<lambda>q. (sealed_time r, eb_id r) < (sealed_time q, eb_id q))
     (lineage_sealed (eb_user_id r) (eb_profile_lineage_id r) d)))"

definition prunable :: "db \<Rightarrow> (uuid \<times> uuid) list" where
  "prunable d = map (\<lambda>q. (eb_id q, eb_user_id q)) (take encryptedBackupCleanupBatchSize
     (sort_key (\<lambda>q. (sealed_time q, eb_id q))
       (filter (\<lambda>q. eb_state q = Sealed \<and> retention_rank q d > encryptedBackupRetentionCount) (encrypted_profile_backups d))))"

fun prune_backups :: "uuid draws \<Rightarrow> schedule \<Rightarrow> instant \<Rightarrow> (uuid \<times> uuid) list \<Rightarrow> db \<Rightarrow> maintenance_error + db" where
  "prune_backups draw f now [] d = Inr d"
| "prune_backups draw f now ((backupID, userID) # due) d =
     andthen (saved (f 0) (begin_encrypted_profile_backup_deletion backupID userID now d)) (\<lambda>(objectIDs, d1).
     andthen (stageBackupOperation (draw 0) (later 1 f) userID backupID Prune_lineage objectIDs now d1) (\<lambda>d2.
     prune_backups (\<lambda>k. draw (Suc k)) (later 3 f) now due d2))"

definition stageRetentionPruning ::
  "uuid draws \<Rightarrow> schedule \<Rightarrow> instant \<Rightarrow> db \<Rightarrow> maintenance_error option \<times> db" where
  "stageRetentionPruning draw f now d = transaction
     (andthen (check (\<not> f 0) MaintenanceUnavailable) (\<lambda>_.
      andthen (check (\<not> f 1) MaintenanceUnavailable) (\<lambda>_.
      andthen (prune_backups draw (later 2 f) now (prunable d) d) (\<lambda>d1.
      andthen (check (\<not> f (2 + 3 * length (prunable d))) MaintenanceUnavailable) (\<lambda>_. Inr d1))))) d"

section \<open>Deletion of objects\<close>

record dueBackupOperation =
  du_id :: uuid
  du_userID :: uuid
  du_backupID :: uuid
  du_operation :: BackupOperation
  du_objectIDs :: "bytes list"

definition operation_due :: "instant \<Rightarrow> operation_row \<Rightarrow> bool" where
  "operation_due now q \<longleftrightarrow>
     eo_state q = Op_pending \<and> (case eo_next_attempt_at q of None \<Rightarrow> True | Some t \<Rightarrow> t \<le> now)
     \<or> eo_state q = Op_running \<and> eo_updated_at q \<le> now - encryptedBackupOperationLease"

definition dueBackupOperations :: "bool \<Rightarrow> instant \<Rightarrow> db \<Rightarrow> maintenance_error + dueBackupOperation list" where
  "dueBackupOperations fails now d =
     (if fails then Inl MaintenanceUnavailable
      else Inr (map (\<lambda>q. \<lparr>du_id = eo_id q, du_userID = eo_user_id q, du_backupID = eo_backup_id q,
             du_operation = eo_operation q, du_objectIDs = eo_object_keys q\<rparr>)
           (take encryptedBackupCleanupBatchSize (sort_key (\<lambda>q. (eo_created_at q, eo_id q))
             (filter (operation_due now) (encrypted_backup_operations d))))))"

definition beginBackupOperationAttempt :: "bool \<Rightarrow> uuid \<Rightarrow> instant \<Rightarrow> db \<Rightarrow> (maintenance_error + int) \<times> db" where
  "beginBackupOperationAttempt fails operationID now d = returning
     (andthen (saved fails (update_operations (\<lambda>q. eo_id q = operationID \<and> open_operation q)
        (\<lambda>q. q\<lparr>eo_state := Op_running, eo_attempt_count := eo_attempt_count q + 1, eo_next_attempt_at := None,
               eo_updated_at := now\<rparr>) d)) (\<lambda>(_, d1).
      andthen (present MaintenanceUnavailable (find (\<lambda>q. eo_id q = operationID \<and> open_operation q) (encrypted_backup_operations d1)))
        (\<lambda>q. Inr (eo_attempt_count q, d1)))) d"

definition failBackupOperation ::
  "bool \<Rightarrow> uuid \<Rightarrow> int \<Rightarrow> instant \<Rightarrow> bytes \<Rightarrow> db \<Rightarrow> maintenance_error option \<times> db" where
  "failBackupOperation fails operationID attempt now errorCode d = transaction
     (andthen (saved fails (update_operations (\<lambda>q. eo_id q = operationID \<and> eo_state q = Op_running)
        (\<lambda>q. q\<lparr>eo_state := Op_pending, eo_next_attempt_at := Some (now + encryptedBackupRetryDelay attempt),
               eo_last_error_code := Some errorCode, eo_updated_at := now\<rparr>) d)) (\<lambda>(n, d1).
      andthen (check (n = 1) MaintenanceUnavailable) (\<lambda>_. Inr d1))) d"

definition completeBackupOperation ::
  "schedule \<Rightarrow> dueBackupOperation \<Rightarrow> instant \<Rightarrow> db \<Rightarrow> maintenance_error option \<times> db" where
  "completeBackupOperation f operation now d = transaction
     (andthen (check (\<not> f 0) MaintenanceUnavailable) (\<lambda>_.
      let deletes = (du_operation operation = Delete_backup \<or> du_operation operation = Prune_lineage);
          g = later (if deletes then 2 else 1) f in
      andthen (if deletes then saved (f 1) (finish_deletion (du_userID operation) (du_backupID operation) now d) else Inr (0, d)) (\<lambda>(_, d1).
      andthen (saved (g 0) (update_operations (\<lambda>q. eo_id q = du_id operation \<and> eo_state q = Op_running) (completed now) d1)) (\<lambda>(n, d2).
      andthen (check (n = 1) MaintenanceUnavailable) (\<lambda>_.
      andthen (check (\<not> g 1) MaintenanceUnavailable) (\<lambda>_. Inr d2)))))) d"

record operation_env =
  oe_begin :: bool
  oe_fail :: bool
  oe_complete :: schedule

text \<open>One operation: an attempt, the objects, and either the completion or the next attempt.\<close>

definition process_operation ::
  "'s MinIOStore \<Rightarrow> operation_env \<Rightarrow> instant \<Rightarrow> dueBackupOperation \<Rightarrow> 's backup_state \<Rightarrow> maintenance_error option \<times> 's backup_state" where
  "process_operation st env now operation z =
     (case beginBackupOperationAttempt (oe_begin env) (du_id operation) now (bz_db z) of
        (Inl e, d) \<Rightarrow> (Some e, z\<lparr>bz_db := d\<rparr>)
      | (Inr attempt, d) \<Rightarrow>
          let failed = (\<lambda>code z. case failBackupOperation (oe_fail env) (du_id operation) attempt now code (bz_db z) of
                (_, d') \<Rightarrow> (Some MaintenanceUnavailable, z\<lparr>bz_db := d'\<rparr>)); z1 = z\<lparr>bz_db := d\<rparr> in
          (case object_refs (du_userID operation) (du_backupID operation) (du_objectIDs operation) of
             None \<Rightarrow> failed ''invalid_object_reference'' z1
           | Some refs \<Rightarrow> (case DeleteCiphertexts st refs (bz_objects z1) of
                 (Some _, o') \<Rightarrow> failed ''object_store_unavailable'' (z1\<lparr>bz_objects := o'\<rparr>)
               | (None, o') \<Rightarrow> (case completeBackupOperation (oe_complete env) operation now (bz_db z1) of
                     (x, d') \<Rightarrow> (x, z1\<lparr>bz_objects := o', bz_db := d'\<rparr>)))))"

fun process_operations ::
  "'s MinIOStore \<Rightarrow> (nat \<Rightarrow> operation_env) \<Rightarrow> instant \<Rightarrow> dueBackupOperation list \<Rightarrow> 's backup_state
     \<Rightarrow> maintenance_error option \<times> 's backup_state" where
  "process_operations st env now [] z = (None, z)"
| "process_operations st env now (operation # operations) z = (case process_operation st (env 0) now operation z of
       (Some e, z') \<Rightarrow> (Some e, z')
     | (None, z') \<Rightarrow> process_operations st (\<lambda>k. env (Suc k)) now operations z')"

definition processObjectCleanup ::
  "'s MinIOStore \<Rightarrow> bool \<Rightarrow> (nat \<Rightarrow> operation_env) \<Rightarrow> instant \<Rightarrow> 's backup_state \<Rightarrow> maintenance_error option \<times> 's backup_state" where
  "processObjectCleanup st fails env now z = (case dueBackupOperations fails now (bz_db z) of
       Inl e \<Rightarrow> (Some e, z) | Inr operations \<Rightarrow> process_operations st env now operations z)"

text \<open>What the stages of one pass meet from outside.\<close>

record backup_pass =
  bp_locked :: "uuid \<Rightarrow> bool"
  bp_expire_draws :: "uuid draws"
  bp_expire :: schedule
  bp_prune_draws :: "uuid draws"
  bp_prune :: schedule
  bp_due :: bool
  bp_operations :: "nat \<Rightarrow> operation_env"

definition EncryptedBackup_Run :: "'s MinIOStore \<Rightarrow> backup_pass \<Rightarrow> 's backup_state stage" where
  "EncryptedBackup_Run st env now z =
     (if now = zero_time then (Some MaintenanceUnavailable, z)
      else case stageExpiredUploads (bp_locked env) (bp_expire_draws env) (bp_expire env) now (bz_db z) of
          (Some e, d) \<Rightarrow> (Some e, z\<lparr>bz_db := d\<rparr>)
        | (None, d) \<Rightarrow> (case stageRetentionPruning (bp_prune_draws env) (bp_prune env) now d of
              (Some e, d') \<Rightarrow> (Some e, z\<lparr>bz_db := d'\<rparr>)
            | (None, d') \<Rightarrow> processObjectCleanup st (bp_due env) (bp_operations env) now (z\<lparr>bz_db := d'\<rparr>)))"

end
