(* ===== verification/BackupSamples.thy ===== *)
theory BackupSamples
  imports Jobs Entitlement
begin

text \<open>
  A bucket in memory as an instance of the client of the object store, and a service with one user and one device on
  which the properties of the backups are evaluated: the device registers a key, uploads a backup of one chunk and
  seals it.
\<close>

section \<open>A bucket in memory\<close>

type_synonym bucket = "(bytes \<times> stored_object) list"

definition memory_client :: "bucket s3_client" where
  "memory_client =
     \<lparr>s3_PutObject = (\<lambda>key body n md s. case map_of s key of
          Some _ \<Rightarrow> ((Inl \<lparr>se_Code = ''PreconditionFailed'', se_eof = False\<rparr>, 0), s)
        | None \<Rightarrow> ((Inr (int (length (rd_content body))), length (rd_content body)),
            (key, \<lparr>so_content = rd_content body, so_digest = snd md\<rparr>) # s)),
      s3_StatObject = (\<lambda>key s. (case map_of s key of
          None \<Rightarrow> Inl \<lparr>se_Code = ''NoSuchKey'', se_eof = False\<rparr>
        | Some x \<Rightarrow> Inr \<lparr>si_Size = int (length (so_content x)), si_Metadata = [],
            si_UserMetadata = [(''ciphertext-sha256'', so_digest x)]\<rparr>, s)),
      s3_GetObject = (\<lambda>key s. (case map_of s key of
          None \<Rightarrow> Inl \<lparr>se_Code = ''NoSuchKey'', se_eof = False\<rparr> | Some x \<Rightarrow> Inr (so_content x), s)),
      s3_RemoveObject = (\<lambda>key s. (None, filter (\<lambda>(k, _). k \<noteq> key) s))\<rparr>"

definition sample_store :: "bucket MinIOStore" where
  "sample_store = \<lparr>ms_client = memory_client, ms_crypto = sample_crypto, ms_lower = id\<rparr>"

section \<open>A service\<close>

definition sample_backup_libs :: backup_libs where
  "sample_backup_libs = \<lparr>bl_crypto = sample_crypto, bl_marshal_envelope = (\<lambda>e. ce_BackupID e @ ce_CipherSuite e),
     bl_marshal_registration = (\<lambda>r. cb_DeviceID r @ cb_PublicKey r), bl_format_time = (\<lambda>_. ''t'')\<rparr>"

definition sample_backups :: "bucket backup_service" where
  "sample_backups = \<lparr>bs_libs = sample_backup_libs, bs_objects = sample_store, bs_maxBackupBytes = 1000, bs_uploadTTL = hour\<rparr>"

definition sample_principal :: Principal where
  "sample_principal = \<lparr>pr_UserID = 1, pr_DeviceID = 3\<rparr>"

definition sample_backup_env :: backup_env where
  "sample_backup_env = \<lparr>be_identity = False, be_status = False, be_device = False, be_caller = False, be_read = no_fault,
     be_write = no_fault, be_finish = no_fault, be_now = 1000, be_end = 1000, be_draw = Some 40, be_canceled = False\<rparr>"

definition sample_register :: RegisterDeviceCommand where
  "sample_register = (let c = \<lparr>rd_KeyEpoch = 1, rd_Revision = 1, rd_PublicKey = replicate 32 (CHR ''b''), rd_Signature = []\<rparr> in
     c\<lparr>rd_Signature := fit 64 (replicate 32 (CHR ''k'') @ BackupDeviceRegistrationSigningDigest sample_backup_libs
       \<lparr>rg_UserID = 1, rg_DeviceID = 3, rg_KeyEpoch = 1, rg_Revision = 1, rg_PublicKey = rd_PublicKey c\<rparr>)\<rparr>)"

definition sample_object :: "char \<Rightarrow> ObjectSpec" where
  "sample_object c = \<lparr>os_ObjectID = replicate 64 c, os_CiphertextDigest = fit 32 (replicate 20 c), os_CiphertextSize = 20\<rparr>"

definition sample_body :: "char \<Rightarrow> reader" where
  "sample_body c = \<lparr>rd_content = replicate 20 c, rd_broken = False\<rparr>"

definition sample_envelope :: PublicEnvelope where
  "sample_envelope = \<lparr>pe_FormatVersion = 1, pe_CipherSuite = BackupCipherSuite, pe_BackupID = 50, pe_ProfileLineageID = 51,
     pe_ParentBackupID = None, pe_SourceDeviceID = 3, pe_SourceInstallationID = 60, pe_SourceDefinitionID = 61,
     pe_SourceVersionID = 62, pe_BaseOwnerScope = ''USER'', pe_KeyEpoch = 1, pe_CreatedAt = 1000, pe_CreatedAt_is_UTC = True,
     pe_Manifest = sample_object (CHR ''a''), pe_Chunks = [\<lparr>ck_Index = 0, ck_Object = sample_object (CHR ''c'')\<rparr>],
     pe_TotalCiphertextSize = 20, pe_RecoveryEnvelopeDigest = fit 32 (replicate 48 (CHR ''r'')),
     pe_WrappedDataKeyDigest = fit 32 (replicate 48 (CHR ''w'')), pe_SourceDeviceEnvelopeDigest = fit 32 (replicate 48 (CHR ''d''))\<rparr>"

definition sample_initiate :: InitiateCommand where
  "sample_initiate = \<lparr>ic_Principal = sample_principal, ic_Envelope = sample_envelope,
     ic_Signature = fit 64 (replicate 32 (CHR ''k'') @ PublicEnvelopeSigningDigest sample_backup_libs sample_envelope),
     ic_Recovery = \<lparr>rp_Salt = replicate 16 (CHR ''s''), rp_MemoryKiB = 65536, rp_Iterations = 3, rp_Parallelism = 1\<rparr>,
     ic_RecoveryRootKeyEnvelope = replicate 48 (CHR ''r''), ic_WrappedDataKey = replicate 48 (CHR ''w''),
     ic_SourceDeviceRootKeyEnvelope = replicate 48 (CHR ''d'')\<rparr>"

definition sample_vault :: "bucket backup_state" where
  "sample_vault = \<lparr>bz_db = sample_db\<lparr>
       installations := [\<lparr>in_id = 60, in_owner_scope = ''USER'', in_owner_id = 1, in_device_id = 3, in_definition_id = 61, in_selected_version_id = 62\<rparr>],
       agent_definitions := [\<lparr>ad_id = 61, ad_owner_scope = ''USER'', ad_owner_id = 1\<rparr>],
       agent_versions := [\<lparr>av_id = 62, av_owner_scope = ''USER'', av_owner_id = 1, av_definition_id = 61\<rparr>]\<rparr>,
     bz_objects = []\<rparr>"

section \<open>A backup of one chunk\<close>

definition sample_device_row :: backup_device_row where
  "sample_device_row = register_row 40 \<lparr>rr_Registration = \<lparr>rg_UserID = 1, rg_DeviceID = 3, rg_KeyEpoch = 1, rg_Revision = 1,
     rg_PublicKey = replicate 32 (CHR ''b'')\<rparr>, rr_Signature = rd_Signature sample_register, rr_RecordedAt = 1000\<rparr>"

definition registered_vault :: "bucket backup_state" where
  "registered_vault = sample_vault\<lparr>bz_db := (bz_db sample_vault)\<lparr>backup_devices := [sample_device_row]\<rparr>\<rparr>"

lemma sample_users [simp]:
  "users (bz_db sample_vault) = users sample_db" "devices (bz_db sample_vault) = devices sample_db"
  "backup_devices (bz_db sample_vault) = []" "encrypted_profile_backups (bz_db sample_vault) = []"
  by (simp_all add: sample_vault_def sample_db_def empty_db_def)

lemma sample_identity_ok:
  assumes "users d = users sample_db" "devices d = devices sample_db"
  shows "activeAuthenticationDevice sample_backup_env sample_principal d
    = Inr \<lparr>au_UserID = 1, au_DeviceID = 3, au_PublicKey = replicate 32 (CHR ''k''), au_Status = ''active''\<rparr>"
  using assms by (simp add: activeAuthenticationDevice_def valid_principal_def sample_principal_def sample_backup_env_def
      read_AuthenticationDevice_def sample_db_def andthen_def check_def present_def)

lemma run_simps [simp]: "check True e = Inr ()" "andthen (Inr v) k = k v" "reads (Inr v) z = (Inr v, z)"
  by (simp_all add: check_def andthen_def reads_def)

lemma sample_verify_registration:
  "VerifyBackupDeviceRegistrationSignature sample_backup_libs (replicate 32 (CHR ''k''))
     \<lparr>rg_UserID = 1, rg_DeviceID = 3, rg_KeyEpoch = 1, rg_Revision = 1, rg_PublicKey = replicate 32 (CHR ''b'')\<rparr>
     (rd_Signature sample_register) = Inr ()"
  by (simp add: VerifyBackupDeviceRegistrationSignature_def sample_register_def sample_backup_libs_def sample_crypto_def)

lemma sample_register_fields:
  "rd_KeyEpoch sample_register = 1" "rd_Revision sample_register = 1" "rd_PublicKey sample_register = replicate 32 (CHR ''b'')"
  "length (rd_Signature sample_register) = 64"
  by (simp_all add: sample_register_def)

lemma sample_fields [simp]:
  "pr_UserID sample_principal = 1" "pr_DeviceID sample_principal = 3" "valid_principal sample_principal"
  "bs_libs sample_backups = sample_backup_libs" "bs_objects sample_backups = sample_store"
  "bs_maxBackupBytes sample_backups = 1000" "bs_uploadTTL sample_backups = hour"
  "be_identity sample_backup_env = False" "be_status sample_backup_env = False" "be_device sample_backup_env = False"
  "be_caller sample_backup_env = False" "be_read sample_backup_env = no_fault" "be_write sample_backup_env = no_fault"
  "be_finish sample_backup_env = no_fault" "be_now sample_backup_env = 1000" "be_end sample_backup_env = 1000"
  "be_draw sample_backup_env = Some 40" "be_canceled sample_backup_env = False"
  by (simp_all add: sample_principal_def valid_principal_def sample_backups_def sample_backup_env_def)

lemma sample_backup_owner:
  "exists_row (\<lambda>u. u_id u = 1) (users sample_db)" "exists_row (\<lambda>v. d_id v = 3 \<and> d_user_id v = 1) (devices sample_db)"
  "\<exists>v. find (\<lambda>v. d_user_id v = 1 \<and> d_id v = 3) (devices sample_db) = Some v \<and> d_status v = ''active'' \<and> length (d_public_key v) = 32"
  by (simp_all add: sample_db_def exists_row_def)

lemma sample_device_fields:
  "bd_id sample_device_row = 40" "bd_user_id sample_device_row = 1" "bd_device_id sample_device_row = 3"
  "bd_key_epoch sample_device_row = 1" "bd_status sample_device_row = ''active''" "backup_device_checks sample_device_row"
  by (simp_all add: sample_device_row_def register_row_def backup_device_checks_def sample_register_fields not_before_def)

lemma late [simp]: "zero_time \<noteq> 1000"
  by (simp add: zero_time_def)

lemma sample_registered:
  "RegisterDevice sample_backups sample_backup_env sample_principal sample_register sample_vault
     = (Inr (scanBackupDevice sample_device_row, False), registered_vault)"
proof -
  have "users (bz_db sample_vault) = users sample_db" "devices (bz_db sample_vault) = devices sample_db" by simp_all
  note i = sample_identity_ok [OF this]
  obtain v where v: "find (\<lambda>v. d_user_id v = 1 \<and> d_id v = 3) (devices sample_db) = Some v" "d_status v = ''active''"
    using sample_backup_owner(3) by blast
  have "RegisterBackupDevice (Some 40) no_fault \<lparr>rr_Registration = \<lparr>rg_UserID = 1, rg_DeviceID = 3, rg_KeyEpoch = 1,
       rg_Revision = 1, rg_PublicKey = replicate 32 (CHR ''b'')\<rparr>, rr_Signature = rd_Signature sample_register, rr_RecordedAt = 1000\<rparr>
       (bz_db sample_vault) = (Inr (scanBackupDevice sample_device_row, False), bz_db registered_vault)"
    by (simp add: RegisterBackupDevice_def returning_def sample_register_fields findLatestBackupDeviceForUpdate_def v present_def
        latest_backup_device_def registration_follows_def save_registration_def RandomUUID_def written_row_def
        insert_backup_device_def sample_device_row_def [symmetric] registered_vault_def sample_device_fields sample_backup_owner [unfolded exists_row_def] exists_row_def)
  then show ?thesis
    by (simp add: RegisterDevice_def i sample_register_fields sample_verify_registration commits_def registered_vault_def)
qed

definition sample_record :: InitiateRecord where
  "sample_record = initiate_record sample_backups 1000 40 (scanBackupDevice sample_device_row) sample_initiate"

definition initiated_vault :: "bucket backup_state" where
  "initiated_vault = registered_vault\<lparr>bz_db := (bz_db registered_vault)\<lparr>
     encrypted_profile_backups := [backup_of_record sample_record],
     encrypted_backup_chunks := [chunk_of 50 \<lparr>ck_Index = 0, ck_Object = sample_object (CHR ''c'')\<rparr>],
     encrypted_backup_key_envelopes := [envelope_of (ird_SourceDeviceEnvelope sample_record)]\<rparr>\<rparr>"

lemma sample_digest_length [simp]: "length (PublicEnvelopeSigningDigest sample_backup_libs e) = 32"
  by (simp add: PublicEnvelopeSigningDigest_def sample_backup_libs_def sample_crypto_correct)

lemma sample_pattern: "ciphertextObjectIDPattern (replicate 64 (CHR ''a''))" "ciphertextObjectIDPattern (replicate 64 (CHR ''c''))"
  by (simp_all add: ciphertextObjectIDPattern_def list_all_iff)

lemma sample_spec: "validObjectSpec (sample_object (CHR ''a'')) maximumManifestBytes" "validObjectSpec (sample_object (CHR ''c'')) maximumChunkCiphertextSize"
  by (simp_all add: validObjectSpec_def sample_object_def sample_pattern minimumCiphertextBytes_def maximumManifestBytes_def maximumChunkCiphertextSize_def)

lemma sample_initiate_ok: "initiate_ok sample_backups sample_initiate"
proof -
  have "valid_envelope 1000 sample_envelope"
    by (simp add: valid_envelope_def sample_envelope_def sample_spec BackupFormatVersion_def minimumCiphertextBytes_def maximumChunkCount_def)
      (simp add: sample_object_def zero_time_def)
  moreover have "fit 32 (replicate 48 c) = replicate 32 c" for c
    by (simp add: fit_def numeral_eq_Suc)
  ultimately show ?thesis
    by (simp add: initiate_ok_def sample_initiate_def Let_def validRecovery_def validEnvelope_def digestMatches_def
        minimumEnvelopeBytes_def maximumEnvelopeBytes_def RecoveryMemoryKiB_def RecoveryIterations_def RecoveryParallelism_def)
      (simp add: sample_envelope_def sample_backup_libs_def sample_crypto_def)
qed

lemma sample_backup_checks: "backup_checks (backup_of_record sample_record)"
  by (simp add: backup_checks_def backup_of_record_def sample_record_def initiate_record_def Let_def sample_initiate_def within_def
      not_before_def lifecycle_check_def)
    (simp add: sample_envelope_def sample_pattern sample_object_def)

lemma sample_record_fields:
  "bk_ID (ird_Backup sample_record) = 50" "bk_UserID (ird_Backup sample_record) = 1" "bk_ChunkCount (ird_Backup sample_record) = 1"
  "ird_Chunks sample_record = [\<lparr>ck_Index = 0, ck_Object = sample_object (CHR ''c'')\<rparr>]"
  "er_ID (ird_SourceDeviceEnvelope sample_record) = 40" "object_ids sample_record = [replicate 64 (CHR ''a''), replicate 64 (CHR ''c'')]"
  by (simp_all add: sample_record_def initiate_record_def Let_def sample_initiate_def sample_envelope_def object_ids_def sample_object_def)

lemma sample_row_fields:
  "eb_id (backup_of_record sample_record) = 50" "eb_user_id (backup_of_record sample_record) = 1"
  "eb_source_device_id (backup_of_record sample_record) = 3" "eb_source_installation_id (backup_of_record sample_record) = 60"
  "eb_source_definition_id (backup_of_record sample_record) = 61" "eb_source_version_id (backup_of_record sample_record) = 62"
  "eb_parent_backup_id (backup_of_record sample_record) = None" "eb_state (backup_of_record sample_record) = Initiated"
  by (simp_all add: backup_of_record_def sample_record_def initiate_record_def Let_def sample_initiate_def sample_envelope_def)

lemma sample_created:
  "eb_created_at (backup_of_record sample_record) = 1000"
  "eb_manifest_object_key (backup_of_record sample_record) = Some (replicate 64 (CHR ''a''))"
  "eb_manifest_ciphertext_digest (backup_of_record sample_record) = Some (fit 32 (replicate 20 (CHR ''a'')))"
  "eb_manifest_ciphertext_size (backup_of_record sample_record) = Some 20"
  by (simp_all add: backup_of_record_def sample_record_def initiate_record_def Let_def sample_initiate_def sample_envelope_def sample_object_def)

lemma sample_provenance:
  assumes "installations d = installations (bz_db sample_vault)" "agent_definitions d = agent_definitions (bz_db sample_vault)"
    "agent_versions d = agent_versions (bz_db sample_vault)" "devices d = devices sample_db" "eb_user_id r = 1" "eb_source_device_id r = 3"
    "eb_source_installation_id r = 60" "eb_source_definition_id r = 61" "eb_source_version_id r = 62"
  shows "provenance_matches r d"
  using assms by (simp add: provenance_matches_def exists_row_def sample_vault_def) (simp add: sample_db_def)

lemma sample_insert:
  "insert_backup (backup_of_record sample_record) (bz_db registered_vault)
     = Inr ((bz_db registered_vault)\<lparr>encrypted_profile_backups := [backup_of_record sample_record]\<rparr>)"
proof -
  have "provenance_matches (backup_of_record sample_record) (bz_db registered_vault)"
    by (rule sample_provenance) (simp_all add: registered_vault_def sample_row_fields)
  then show ?thesis
    by (simp add: insert_backup_def enforce_encrypted_profile_backup_guard_def parent_matches_def sample_row_fields sample_backup_checks
        upload_conflict_def exists_row_def registered_vault_def sample_backup_owner [unfolded exists_row_def])
      (simp add: sample_vault_def)
qed

lemma sample_inserts:
  "insert_chunk (chunk_of 50 \<lparr>ck_Index = 0, ck_Object = sample_object (CHR ''c'')\<rparr>)
     ((bz_db registered_vault)\<lparr>encrypted_profile_backups := [backup_of_record sample_record]\<rparr>)
   = Inr ((bz_db registered_vault)\<lparr>encrypted_profile_backups := [backup_of_record sample_record],
       encrypted_backup_chunks := [chunk_of 50 \<lparr>ck_Index = 0, ck_Object = sample_object (CHR ''c'')\<rparr>]\<rparr>)"
  "insert_envelope (envelope_of (ird_SourceDeviceEnvelope sample_record)) ((bz_db registered_vault)\<lparr>
       encrypted_profile_backups := [backup_of_record sample_record],
       encrypted_backup_chunks := [chunk_of 50 \<lparr>ck_Index = 0, ck_Object = sample_object (CHR ''c'')\<rparr>]\<rparr>)
   = Inr (bz_db initiated_vault)"
proof -
  show "insert_chunk (chunk_of 50 \<lparr>ck_Index = 0, ck_Object = sample_object (CHR ''c'')\<rparr>)
     ((bz_db registered_vault)\<lparr>encrypted_profile_backups := [backup_of_record sample_record]\<rparr>)
   = Inr ((bz_db registered_vault)\<lparr>encrypted_profile_backups := [backup_of_record sample_record],
       encrypted_backup_chunks := [chunk_of 50 \<lparr>ck_Index = 0, ck_Object = sample_object (CHR ''c'')\<rparr>]\<rparr>)"
    by (simp add: insert_chunk_def chunk_of_def sample_row_fields uploading_state_def sample_object_def sample_pattern registered_vault_def exists_row_def)
      (simp add: sample_vault_def sample_db_def empty_db_def)
  show "insert_envelope (envelope_of (ird_SourceDeviceEnvelope sample_record)) ((bz_db registered_vault)\<lparr>
       encrypted_profile_backups := [backup_of_record sample_record],
       encrypted_backup_chunks := [chunk_of 50 \<lparr>ck_Index = 0, ck_Object = sample_object (CHR ''c'')\<rparr>]\<rparr>)
   = Inr (bz_db initiated_vault)"
    by (simp add: insert_envelope_def envelope_of_def sample_record_def initiate_record_def Let_def within_def scanBackupDevice_def
        sample_device_fields sample_initiate_def registered_vault_def exists_row_def initiated_vault_def)
      (simp add: sample_vault_def sample_db_def empty_db_def sample_envelope_def backup_of_record_def)
qed

lemma sample_initiated:
  "\<exists>x. Initiate sample_backups sample_backup_env sample_initiate registered_vault = (Inr x, initiated_vault)"
proof -
  have i: "activeAuthenticationDevice sample_backup_env sample_principal (bz_db registered_vault)
    = Inr \<lparr>au_UserID = 1, au_DeviceID = 3, au_PublicKey = replicate 32 (CHR ''k''), au_Status = ''active''\<rparr>"
    by (rule sample_identity_ok) (simp_all add: registered_vault_def)
  have sg: "VerifyPublicEnvelopeSignature sample_backup_libs (replicate 32 (CHR ''k'')) sample_envelope (ic_Signature sample_initiate) = Inr ()"
    by (simp add: VerifyPublicEnvelopeSignature_def sample_initiate_def) (simp add: sample_backup_libs_def sample_crypto_def)
  have dv: "read_BackupDevice False 1 3 1 (bz_db registered_vault) = Inr (scanBackupDevice sample_device_row)"
    by (simp add: read_BackupDevice_def registered_vault_def sample_device_fields present_def)
  have st: "bv_Status (scanBackupDevice sample_device_row) = ''active''" by (simp add: scanBackupDevice_def sample_device_fields)
  have fields: "ic_Principal sample_initiate = sample_principal" "ic_Envelope sample_initiate = sample_envelope"
    "pe_KeyEpoch sample_envelope = 1" "pe_CreatedAt sample_envelope = 1000"
    by (simp_all add: sample_initiate_def sample_envelope_def)
  have "Initiate_record no_fault sample_record (bz_db registered_vault) = (Inr (ird_Backup sample_record, False), bz_db initiated_vault)"
  proof -
    have "encrypted_profile_backups (bz_db registered_vault) = []" by (simp add: registered_vault_def)
    then show ?thesis
      by (simp add: Initiate_record_def returning_def Let_def sample_record_fields sample_insert written_row_def sample_inserts)
  qed
  then show ?thesis
    by (simp add: Initiate_def fields sample_initiate_ok i sg dv st RandomUUID_def commits_def sample_record_def [symmetric] initiated_vault_def
       time_sub_def max_duration_def maximumEnvelopeClockSkew_def)
qed

text \<open>An upload to the bucket in memory.\<close>

lemma memory_metadata: "minioUserMetadata id \<lparr>si_Size = n, si_Metadata = [], si_UserMetadata = [(''ciphertext-sha256'', v)]\<rparr> ciphertextDigestMetadataKey = v"
proof -
  have "ToLower id ''ciphertext-sha256'' = ''ciphertext-sha256''" by code_simp
  then show ?thesis by (simp add: minioUserMetadata_def ciphertextDigestMetadataKey_def trim_prefix_def)
qed

lemma memory_head:
  assumes "map_of s (objectKey ref) = Some \<lparr>so_content = content, so_digest = hex_encode digest\<rparr>" "length digest = 32"
  shows "HeadCiphertext sample_store ref s
    = (Inr \<lparr>cm_Key = objectKey ref, cm_Size = int (length content), cm_SHA256 = digest\<rparr>, s)"
  using assms by (simp add: HeadCiphertext_def sample_store_def memory_client_def memory_metadata hex_round_trip)

lemma memory_put:
  assumes "map_of s (objectKey ref) = None" "17 \<le> length content" "length content \<le> 1000" "sha256 sample_crypto content = digest"
  shows "PutCiphertext sample_store False ref (Some \<lparr>rd_content = content, rd_broken = False\<rparr>) (int (length content)) digest s
    = (Inr \<lparr>cm_Key = objectKey ref, cm_Size = int (length content), cm_SHA256 = digest\<rparr>,
       (objectKey ref, \<lparr>so_content = content, so_digest = hex_encode digest\<rparr>) # s)"
proof -
  let ?s = "(objectKey ref, \<lparr>so_content = content, so_digest = hex_encode digest\<rparr>) # s"
  have "length digest = 32" unfolding assms(4) [symmetric] by (rule sha_length [OF sample_crypto_correct(2)])
  then have head: "HeadCiphertext sample_store ref ?s
      = (Inr \<lparr>cm_Key = objectKey ref, cm_Size = int (length content), cm_SHA256 = digest\<rparr>, ?s)" by (intro memory_head) simp_all
  have "ms_crypto sample_store = sample_crypto" by (simp add: sample_store_def)
  moreover have "s3_PutObject (ms_client sample_store) (objectKey ref) \<lparr>rd_content = content, rd_broken = False\<rparr> (int (length content))
      (ciphertextDigestMetadataKey, hex_encode digest) s = ((Inr (int (length content)), length content), ?s)"
    using assms(1) by (simp add: sample_store_def memory_client_def)
  moreover have "\<not> (int (length content) \<le> 0 \<or> int (length content) > maxCiphertextObjectBytes)"
    using assms(2,3) by (auto simp: maxCiphertextObjectBytes_def)
  ultimately show ?thesis using head assms(4) by (simp add: PutCiphertext_def limited_def)
qed

lemma single_update:
  assumes "encrypted_profile_backups d = [q]" "P q" "frozen_transition q (g q)" "provenance_matches (g q) d" "eb_parent_backup_id (g q) = None"
    "eb_id (g q) = eb_id q" "eb_total_ciphertext_size (g q) \<le> 1000" "backup_checks (g q)"
  shows "update_backups P g d = Inr (1, d\<lparr>encrypted_profile_backups := [g q]\<rparr>)"
  using assms by (simp add: update_backups_def update_checked_def enforce_encrypted_profile_backup_guard_def parent_matches_def
      sealed_bytes_def lineage_quota_def account_quota_def upload_conflict_def exists_row_def)

definition sample_row :: "BackupState \<Rightarrow> backup_row" where
  "sample_row st = (let q = (backup_of_record sample_record)\<lparr>eb_state := st, eb_updated_at := 1000\<rparr> in
     if uploading_state st then q
     else if st = Sealed then q\<lparr>eb_sealed_at := Some 1000\<rparr>
     else let r = q\<lparr>eb_sealed_at := Some 1000, eb_deletion_started_at := Some 1000, eb_recovery_root_key_envelope := None,
            eb_wrapped_data_key := None\<rparr> in if st = Deleted then r\<lparr>eb_deleted_at := Some 1000\<rparr> else r)"

lemma sample_row_initiated: "sample_row Initiated = backup_of_record sample_record"
  by (simp add: sample_row_def uploading_state_def backup_of_record_def sample_record_def initiate_record_def Let_def sample_initiate_def
      sample_envelope_def)

lemma sample_row_simps [simp]:
  "eb_id (sample_row st) = 50" "eb_user_id (sample_row st) = 1" "eb_state (sample_row st) = st" "eb_source_device_id (sample_row st) = 3"
  "eb_source_installation_id (sample_row st) = 60" "eb_source_definition_id (sample_row st) = 61" "eb_source_version_id (sample_row st) = 62"
  "eb_parent_backup_id (sample_row st) = None" "eb_total_ciphertext_size (sample_row st) = 20"
  "eb_manifest_object_key (sample_row st) = Some (replicate 64 (CHR ''a''))"
  "eb_manifest_ciphertext_digest (sample_row st) = Some (fit 32 (replicate 20 (CHR ''a'')))"
  "eb_manifest_ciphertext_size (sample_row st) = Some 20" "eb_upload_expires_at (sample_row st) = 3600000001000"
  by (simp_all add: sample_row_def Let_def sample_row_fields)
    (simp_all add: backup_of_record_def sample_record_def initiate_record_def Let_def sample_initiate_def sample_envelope_def sample_object_def)

lemma sample_row_checks: "st \<noteq> Expired \<Longrightarrow> backup_checks (sample_row st)"
  using sample_backup_checks
  by (cases st) (simp_all add: backup_checks_def sample_row_def uploading_state_def lifecycle_check_def sample_row_fields not_before_def within_def
      sample_created)

definition vault_in :: "BackupState \<Rightarrow> bucket \<Rightarrow> bucket backup_state" where
  "vault_in st objects = initiated_vault\<lparr>bz_db := (bz_db initiated_vault)\<lparr>encrypted_profile_backups := [sample_row st]\<rparr>, bz_objects := objects\<rparr>"

lemma vault_in_simps [simp]:
  "encrypted_profile_backups (bz_db (vault_in st s)) = [sample_row st]" "bz_objects (vault_in st s) = s"
  "encrypted_backup_chunks (bz_db (vault_in st s)) = [chunk_of 50 \<lparr>ck_Index = 0, ck_Object = sample_object (CHR ''c'')\<rparr>]"
  "encrypted_backup_key_envelopes (bz_db (vault_in st s)) = [envelope_of (ird_SourceDeviceEnvelope sample_record)]"
  "backup_devices (bz_db (vault_in st s)) = [sample_device_row]" "users (bz_db (vault_in st s)) = users sample_db"
  "devices (bz_db (vault_in st s)) = devices sample_db" "encrypted_backup_operations (bz_db (vault_in st s)) = []"
  "(vault_in st s)\<lparr>bz_objects := s'\<rparr> = vault_in st s'"
  by (simp_all add: vault_in_def initiated_vault_def registered_vault_def) (simp add: sample_vault_def sample_db_def empty_db_def)

lemma initiated_vault_in: "initiated_vault = vault_in Initiated []"
  by (simp add: vault_in_def sample_row_initiated initiated_vault_def registered_vault_def sample_vault_def)

lemma vault_update:
  assumes "P (sample_row st)" "g (sample_row st) = sample_row st'" "frozen_transition (sample_row st) (sample_row st')" "st' \<noteq> Expired"
  shows "update_backups P g (bz_db (vault_in st s)) = Inr (1, bz_db (vault_in st' s))"
proof -
  have "provenance_matches (sample_row st') (bz_db (vault_in st s))"
    by (rule sample_provenance) (simp_all add: vault_in_def initiated_vault_def registered_vault_def)
  with assms have "update_backups P g (bz_db (vault_in st s)) = Inr (1, (bz_db (vault_in st s))\<lparr>encrypted_profile_backups := [sample_row st']\<rparr>)"
    using sample_row_checks [of st'] by (subst single_update [of _ "sample_row st"]) simp_all
  then show ?thesis by (simp add: vault_in_def)
qed

definition sample_ref :: "char \<Rightarrow> CiphertextObjectRef" where
  "sample_ref c = \<lparr>co_userID = 1, co_backupID = 50, co_objectID = replicate 64 c\<rparr>"

definition sample_item :: "char \<Rightarrow> bytes \<times> stored_object" where
  "sample_item c = (objectKey (sample_ref c), \<lparr>so_content = replicate 20 c, so_digest = hex_encode (fit 32 (replicate 20 c))\<rparr>)"

lemma sample_refs:
  "NewCiphertextObjectRef 1 50 (replicate 64 (CHR ''a'')) = Some (sample_ref (CHR ''a''))"
  "NewCiphertextObjectRef 1 50 (replicate 64 (CHR ''c'')) = Some (sample_ref (CHR ''c''))"
  "objectKey (sample_ref c) = objectKey (sample_ref c') \<longleftrightarrow> c = c'"
  by (simp_all add: NewCiphertextObjectRef_def sample_pattern sample_ref_def objectKey_def)

lemma sample_upload:
  assumes "st = Initiated \<or> st = Uploading" "c = CHR ''a'' \<or> c = CHR ''c''" "map_of s (objectKey (sample_ref c)) = None"
  shows "upload sample_backups sample_backup_env sample_principal
     \<lparr>ut_BackupID = 50, ut_UserID = 1, ut_SourceDeviceID = 3, ut_State = st, ut_UploadExpiresAt = 3600000001000, ut_Object = sample_object c\<rparr>
     (Some (sample_body c)) 20 (fit 32 (replicate 20 c)) (vault_in st s) = (Inr (), vault_in Uploading (sample_item c # s))"
proof -
  have put: "PutCiphertext sample_store False (sample_ref c) (Some (sample_body c)) 20 (fit 32 (replicate 20 c)) s
      = (Inr \<lparr>cm_Key = objectKey (sample_ref c), cm_Size = 20, cm_SHA256 = fit 32 (replicate 20 c)\<rparr>, sample_item c # s)"
    using memory_put [OF assms(3), of "replicate 20 c" "fit 32 (replicate 20 c)"]
    by (simp add: sample_body_def sample_crypto_def sample_item_def)
  have mark: "MarkUploading False 1 50 1000 (bz_db (vault_in st s')) = (None, bz_db (vault_in Uploading s'))" for s'
  proof -
    have "(sample_row st)\<lparr>eb_state := Uploading, eb_updated_at := 1000\<rparr> = sample_row Uploading"
      using assms(1) by (auto simp: sample_row_def uploading_state_def)
    then have "update_backups (\<lambda>q. eb_id q = 50 \<and> eb_user_id q = 1 \<and> uploading_state (eb_state q))
        (\<lambda>q. q\<lparr>eb_state := (if eb_state q = Initiated then Uploading else eb_state q), eb_updated_at := 1000\<rparr>) (bz_db (vault_in st s'))
        = Inr (1, bz_db (vault_in Uploading s'))"
      using assms(1) by (intro vault_update) (auto simp: uploading_state_def frozen_transition_def)
    then show ?thesis by (simp add: MarkUploading_def transaction_def written_row_def)
  qed
  have i: "activeAuthenticationDevice sample_backup_env sample_principal (bz_db (vault_in st s))
      = Inr \<lparr>au_UserID = 1, au_DeviceID = 3, au_PublicKey = replicate 32 (CHR ''k''), au_Status = ''active''\<rparr>"
    by (rule sample_identity_ok) simp_all
  have st: "uploading_state st" using assms(1) by (simp add: uploading_state_def)
  have ref: "NewCiphertextObjectRef 1 50 (replicate 64 c) = Some (sample_ref c)" using assms(2) sample_refs by auto
  show ?thesis
    by (simp add: upload_def minimumCiphertextBytes_def sample_object_def st i ref put_or_same_def put stores_def commits_unit_def mark)
qed

definition full_bucket :: bucket where
  "full_bucket = [sample_item (CHR ''a''), sample_item (CHR ''c'')]"

lemma sample_chunk_uploaded:
  "UploadChunk sample_backups sample_backup_env sample_principal 50 0 (Some (sample_body (CHR ''c''))) 20 (fit 32 (replicate 20 (CHR ''c'')))
     (vault_in Initiated []) = (Inr (), vault_in Uploading [sample_item (CHR ''c'')])"
proof -
  have "ChunkUploadTarget False 1 50 0 (bz_db (vault_in Initiated [])) = Inr \<lparr>ut_BackupID = 50, ut_UserID = 1, ut_SourceDeviceID = 3,
      ut_State = Initiated, ut_UploadExpiresAt = 3600000001000, ut_Object = sample_object (CHR ''c'')\<rparr>"
    by (simp add: ChunkUploadTarget_def maximumChunkCount_def find_backup_def present_def chunk_of_def sample_object_def copyDigest_def)
  then show ?thesis by (simp add: UploadChunk_def maximumChunkCount_def sample_upload)
qed

lemma sample_manifest_uploaded:
  "UploadManifest sample_backups sample_backup_env sample_principal 50 (Some (sample_body (CHR ''a''))) 20 (fit 32 (replicate 20 (CHR ''a'')))
     (vault_in Uploading [sample_item (CHR ''c'')]) = (Inr (), vault_in Uploading full_bucket)"
proof -
  have "ManifestUploadTarget False 1 50 (bz_db (vault_in Uploading [sample_item (CHR ''c'')])) = Inr \<lparr>ut_BackupID = 50, ut_UserID = 1,
      ut_SourceDeviceID = 3, ut_State = Uploading, ut_UploadExpiresAt = 3600000001000, ut_Object = sample_object (CHR ''a'')\<rparr>"
    by (simp add: ManifestUploadTarget_def find_backup_def present_def sample_object_def copyDigest_def)
  moreover have "map_of [sample_item (CHR ''c'')] (objectKey (sample_ref (CHR ''a''))) = None"
    by (simp add: sample_item_def sample_refs)
  ultimately show ?thesis by (simp add: UploadManifest_def sample_upload full_bucket_def del: map_of.simps)
qed

lemma sample_head:
  assumes "c = CHR ''a'' \<or> c = CHR ''c''"
  shows "verifyObject sample_store 1 50 (sample_object c) full_bucket = (Inr (), full_bucket)"
proof -
  have "HeadCiphertext sample_store (sample_ref c) full_bucket
      = (Inr \<lparr>cm_Key = objectKey (sample_ref c), cm_Size = int (length (replicate 20 c)), cm_SHA256 = fit 32 (replicate 20 c)\<rparr>, full_bucket)"
    using assms by (intro memory_head) (auto simp: full_bucket_def sample_item_def sample_refs)
  with assms show ?thesis by (auto simp: verifyObject_def sample_object_def sample_refs)
qed

lemma sample_core:
  "st \<noteq> Expired \<Longrightarrow> \<exists>b. scanBackupCore (bz_db (vault_in st s)) (sample_row st) = Inr b \<and> bk_SourceDeviceID b = 3 \<and> bk_State b = st \<and> bk_KeyEpoch b = 1
     \<and> bk_UploadExpiresAt b = 3600000001000 \<and> bk_ChunkCount b = 1 \<and> bk_UserID b = 1 \<and> bk_ID b = 50 \<and> bk_Manifest b = sample_object (CHR ''a'')"
proof -
  assume "st \<noteq> Expired"
  have e: "backup_key_epoch (sample_row st) (bz_db (vault_in st s)) = 1"
    by (simp add: backup_key_epoch_def envelope_of_def sample_record_def initiate_record_def Let_def scanBackupDevice_def sample_device_fields
        exists_row_def sample_initiate_def sample_envelope_def)
  have "length (eb_public_envelope_digest (sample_row st)) = 32" "eb_chunk_count (sample_row st) = 1"
    using sample_row_checks [of st] \<open>st \<noteq> Expired\<close>
    by (simp_all add: backup_checks_def) (simp add: sample_row_def Let_def backup_of_record_def sample_record_def initiate_record_def sample_initiate_def sample_envelope_def)
  with e show ?thesis by (simp add: scanBackupCore_def copyDigest_def sample_object_def)
qed

lemma sample_detail:
  assumes "st \<noteq> Expired"
  shows "\<exists>r. BackupForSeal no_fault 1 50 (bz_db (vault_in st s)) = Inr r \<and> bk_SourceDeviceID (dt_Backup r) = 3 \<and> bk_State (dt_Backup r) = st
    \<and> bk_KeyEpoch (dt_Backup r) = 1 \<and> bk_UploadExpiresAt (dt_Backup r) = 3600000001000 \<and> bk_ChunkCount (dt_Backup r) = 1
    \<and> bk_UserID (dt_Backup r) = 1 \<and> bk_ID (dt_Backup r) = 50 \<and> bk_Manifest (dt_Backup r) = sample_object (CHR ''a'')
    \<and> dt_Chunks r = [\<lparr>ck_Index = 0, ck_Object = sample_object (CHR ''c'')\<rparr>]"
proof -
  obtain b where b: "scanBackupCore (bz_db (vault_in st s)) (sample_row st) = Inr b" "bk_SourceDeviceID b = 3" "bk_State b = st" "bk_KeyEpoch b = 1"
     "bk_UploadExpiresAt b = 3600000001000" "bk_ChunkCount b = 1" "bk_UserID b = 1" "bk_ID b = 50" "bk_Manifest b = sample_object (CHR ''a'')"
    using sample_core [OF assms] by blast
  obtain v where v: "find (\<lambda>v. d_user_id v = 1 \<and> d_id v = 3) (devices sample_db) = Some v" "length (d_public_key v) = 32"
    using sample_backup_owner(3) by blast
  have "\<exists>k. source_key 1 b (bz_db (vault_in st s)) = Some k"
    using b v by (simp add: source_key_def live_envelopes_def exists_row_def envelope_of_def sample_record_def initiate_record_def Let_def
        scanBackupDevice_def sample_device_fields sample_initiate_def copyDigest_def) (simp add: sample_envelope_def)
  then obtain k where "source_key 1 b (bz_db (vault_in st s)) = Some k" by blast
  moreover have "scan_chunks (sort_key ek_chunk_index [chunk_of 50 \<lparr>ck_Index = 0, ck_Object = sample_object (CHR ''c'')\<rparr>])
      = Inr [\<lparr>ck_Index = 0, ck_Object = sample_object (CHR ''c'')\<rparr>]"
    by (simp add: chunk_of_def copyDigest_def sample_object_def)
  moreover have "ek_backup_id (chunk_of 50 \<lparr>ck_Index = 0, ck_Object = sample_object (CHR ''c'')\<rparr>) = 50" by (simp add: chunk_of_def)
  ultimately show ?thesis using b
    by (cases k) (simp add: BackupForSeal_def readBackupDetail_def readBackupCore_def present_def del: scan_chunks.simps)
qed

lemma sample_sealed:
  "\<exists>x. Seal_backup sample_backups sample_backup_env sample_principal 50 (vault_in Uploading full_bucket) = (Inr x, vault_in Sealed full_bucket)
     \<and> \<not> sr_Replayed x"
proof -
  have i: "activeAuthenticationDevice sample_backup_env sample_principal (bz_db (vault_in Uploading full_bucket))
      = Inr \<lparr>au_UserID = 1, au_DeviceID = 3, au_PublicKey = replicate 32 (CHR ''k''), au_Status = ''active''\<rparr>"
    by (rule sample_identity_ok) simp_all
  obtain r where r: "BackupForSeal no_fault 1 50 (bz_db (vault_in Uploading full_bucket)) = Inr r" "bk_SourceDeviceID (dt_Backup r) = 3"
     "bk_State (dt_Backup r) = Uploading" "bk_KeyEpoch (dt_Backup r) = 1" "bk_UploadExpiresAt (dt_Backup r) = 3600000001000"
     "bk_ChunkCount (dt_Backup r) = 1" "bk_UserID (dt_Backup r) = 1" "bk_ID (dt_Backup r) = 50" "bk_Manifest (dt_Backup r) = sample_object (CHR ''a'')"
     "dt_Chunks r = [\<lparr>ck_Index = 0, ck_Object = sample_object (CHR ''c'')\<rparr>]"
    using sample_detail [of Uploading full_bucket] by auto
  have dv: "read_BackupDevice False 1 3 1 (bz_db (vault_in Uploading full_bucket)) = Inr (scanBackupDevice sample_device_row)"
    by (simp add: read_BackupDevice_def sample_device_fields present_def)
  obtain b where b: "scanBackupCore (bz_db (vault_in Sealed full_bucket)) (sample_row Sealed) = Inr b" using sample_core [of Sealed] by auto
  have up: "update_backups (\<lambda>q. eb_id q = 50 \<and> eb_user_id q = 1) (\<lambda>q. q\<lparr>eb_state := Sealed, eb_sealed_at := Some 1000, eb_updated_at := 1000\<rparr>)
      (bz_db (vault_in Uploading full_bucket)) = Inr (1, bz_db (vault_in Sealed full_bucket))"
    by (intro vault_update) (simp_all add: frozen_transition_def uploading_state_def sample_row_def Let_def sample_row_fields)
  have "Seal_record no_fault 1 50 1000 (bz_db (vault_in Uploading full_bucket)) = (Inr (b, False), bz_db (vault_in Sealed full_bucket))"
    using b by (simp add: Seal_record_def returning_def find_backup_def present_def uploading_state_def up written_row_def readBackupCore_def)
  moreover have "(vault_in Uploading full_bucket)\<lparr>bz_db := bz_db (vault_in Sealed full_bucket)\<rparr> = vault_in Sealed full_bucket"
    by (simp add: vault_in_def)
  ultimately show ?thesis
    by (simp add: Seal_backup_def i r dv uploading_state_def scanBackupDevice_def sample_device_fields sample_head sealing_def commits_def)
qed

definition sample_operation :: operation_row where
  "sample_operation = new_operation 40 1 50 Delete_backup [replicate 64 (CHR ''a''), replicate 64 (CHR ''c'')] 1000"

definition without_keys :: "BackupState \<Rightarrow> db" where
  "without_keys st = destroy_envelopes (\<lambda>e. ee_backup_id e = 50) 1000 (bz_db (vault_in st full_bucket))"

lemma without_keys_simps [simp]:
  "encrypted_profile_backups (without_keys st) = [sample_row st]" "users (without_keys st) = users sample_db"
  "devices (without_keys st) = devices sample_db" "encrypted_backup_operations (without_keys st) = []"
  by (simp_all add: without_keys_def destroy_envelopes_def)

lemma without_keys_update:
  assumes "P (sample_row st)" "g (sample_row st) = sample_row st'" "frozen_transition (sample_row st) (sample_row st')" "st' \<noteq> Expired"
  shows "update_backups P g ((without_keys st)\<lparr>encrypted_backup_operations := os\<rparr>) = Inr (1, (without_keys st')\<lparr>encrypted_backup_operations := os\<rparr>)"
proof -
  let ?d = "(without_keys st)\<lparr>encrypted_backup_operations := os\<rparr>"
  have "provenance_matches (sample_row st') ?d"
    by (rule sample_provenance) (simp_all add: without_keys_def destroy_envelopes_def vault_in_def initiated_vault_def registered_vault_def)
  with assms have "update_backups P g ?d = Inr (1, ?d\<lparr>encrypted_profile_backups := [sample_row st']\<rparr>)"
    using sample_row_checks [of st'] by (subst single_update [of _ "sample_row st"]) simp_all
  then show ?thesis by (simp add: without_keys_def destroy_envelopes_def vault_in_def)
qed

lemma sample_begin_deletion:
  "BeginDeletion (Some 40) no_fault 1 50 1000 (bz_db (vault_in Sealed full_bucket))
     = (Inr \<lparr>dr_BackupID = 50, dr_UserID = 1, dr_State = Deleting, dr_ObjectIDs = [replicate 64 (CHR ''a''), replicate 64 (CHR ''c'')]\<rparr>,
        (without_keys Deleting)\<lparr>encrypted_backup_operations := [sample_operation]\<rparr>)"
proof -
  have "update_backups (\<lambda>q. eb_id q = 50 \<and> eb_user_id q = 1) (\<lambda>q. q\<lparr>eb_state := Deleting, eb_recovery_root_key_envelope := None,
        eb_wrapped_data_key := None, eb_deletion_started_at := Some 1000, eb_updated_at := 1000\<rparr>) (bz_db (vault_in Sealed full_bucket))
      = Inr (1, bz_db (vault_in Deleting full_bucket))"
    by (intro vault_update) (simp_all add: frozen_transition_def uploading_state_def sample_row_def Let_def sample_row_fields)
  moreover have "object_keys 50 (bz_db (vault_in Deleting full_bucket)) = [replicate 64 (CHR ''a''), replicate 64 (CHR ''c'')]"
    by (simp add: object_keys_def chunk_of_def sample_object_def) (simp add: numeral_eq_Suc)
  moreover have "insert_operation sample_operation (without_keys Deleting) = Inr ((without_keys Deleting)\<lparr>encrypted_backup_operations := [sample_operation]\<rparr>)"
    by (simp add: insert_operation_def exists_row_def operation_conflict_def sample_backup_owner [unfolded exists_row_def])
      (simp add: sample_operation_def new_operation_def operation_checks_def not_before_def sample_backup_owner [unfolded exists_row_def])
  ultimately show ?thesis
    by (simp add: BeginDeletion_def returning_def begin_encrypted_profile_backup_deletion_def stored_row_def RandomUUID_def find_open_operation_def
        written_row_def without_keys_def [symmetric] sample_operation_def [symmetric])
qed

lemma sample_deleted:
  "\<exists>z. Delete_service sample_backups sample_backup_env sample_principal 50 (vault_in Sealed full_bucket) = (Inr (), z)
     \<and> encrypted_profile_backups (bz_db z) = [sample_row Deleted] \<and> bz_objects z = []"
proof -
  let ?z = "vault_in Sealed full_bucket" and ?d = "\<lambda>st os. (without_keys st)\<lparr>encrypted_backup_operations := os\<rparr>"
  have i: "activeAuthenticationDevice sample_backup_env sample_principal (bz_db ?z)
      = Inr \<lparr>au_UserID = 1, au_DeviceID = 3, au_PublicKey = replicate 32 (CHR ''k''), au_Status = ''active''\<rparr>"
    by (rule sample_identity_ok) simp_all
  have e: "ensureBackupDeviceNotRevoked sample_backup_env sample_principal (bz_db ?z) = Inr ()"
    by (simp add: ensureBackupDeviceNotRevoked_def LatestBackupDeviceStatus_def latest_backup_device_def sample_device_fields)
  have refs: "object_refs 1 50 [replicate 64 (CHR ''a''), replicate 64 (CHR ''c'')] = Some [sample_ref (CHR ''a''), sample_ref (CHR ''c'')]"
    by (simp add: sample_refs)
  have del: "DeleteCiphertexts sample_store [sample_ref (CHR ''a''), sample_ref (CHR ''c'')] full_bucket = (None, [])"
    by (simp add: removeCiphertext_def sample_store_def memory_client_def full_bucket_def sample_item_def sample_refs)
  have fin: "finish_deletion 1 50 1000 (?d Deleting [sample_operation]) = Inr (1, ?d Deleted [sample_operation])"
    unfolding finish_deletion_def by (intro without_keys_update) (simp_all add: frozen_transition_def uploading_state_def sample_row_def Let_def sample_row_fields)
  have "update_operations (\<lambda>q. eo_backup_id q = 50 \<and> eo_user_id q = 1 \<and> eo_operation q = Delete_backup \<and> open_operation q) (completed 1000)
      (?d Deleted [sample_operation]) = Inr (1, ?d Deleted [completed 1000 sample_operation])"
    by (simp add: update_operations_def update_checked_def sample_operation_def new_operation_def open_operation_def completed_def operation_checks_def
        operation_conflict_def exists_row_def not_before_def)
  then have "CompleteDeletion no_fault 1 50 1000 (?d Deleting [sample_operation]) = (None, ?d Deleted [completed 1000 sample_operation])"
    by (simp add: CompleteDeletion_def transaction_def written_row_def stored_row_def fin)
  then show ?thesis
    by (simp add: Delete_service_def i e sample_begin_deletion commits_def commits_unit_def refs del del: object_refs.simps DeleteCiphertexts.simps)
qed

lemma sample_revoked:
  "\<exists>z'. RevokeDevice sample_backup_env sample_principal 3 (vault_in Sealed full_bucket) = (Inr (), z') \<and> encrypted_profile_backups (bz_db z') = [sample_row Sealed]"
proof -
  let ?z = "vault_in Sealed full_bucket"
  have i: "activeAuthenticationDevice sample_backup_env sample_principal (bz_db ?z)
      = Inr \<lparr>au_UserID = 1, au_DeviceID = 3, au_PublicKey = replicate 32 (CHR ''k''), au_Status = ''active''\<rparr>"
    by (rule sample_identity_ok) simp_all
  have "backup_device_checks (sample_device_row\<lparr>bd_status := ''revoked'', bd_revoked_at := Some 1000, bd_updated_at := 1000\<rparr>)"
    by (simp add: backup_device_checks_def sample_device_row_def register_row_def sample_register_fields not_before_def)
  then show ?thesis
    by (simp add: RevokeDevice_def i commits_unit_def RevokeBackupDevice_def transaction_def stored_row_def update_backup_devices_def
        update_checked_def sample_device_fields exists_row_def destroy_envelopes_def)
qed

end
