(* ===== verification/BackupSafety.thy ===== *)
theory BackupSafety
  imports BackupSamples
begin

text \<open>
  Properties of the encrypted backups. Every transaction is a sequence of a few kinds of writes; what each kind
  keeps holds in every state the service and the maintenance reach.
\<close>

section \<open>Outcomes of writes\<close>

lemma written_row_Inr [simp]: "written_row fails r = Inr x \<longleftrightarrow> \<not> fails \<and> r = Inr x"
  by (cases r) (auto simp: written_row_def)

lemma stored_row_Inr [simp]: "stored_row fails r = Inr x \<longleftrightarrow> \<not> fails \<and> r = Inr x"
  by (cases r) (auto simp: stored_row_def)

lemma saved_Inr [simp]: "saved fails r = Inr x \<longleftrightarrow> \<not> fails \<and> r = Inr x"
  by (cases r) (auto simp: saved_def)

lemma update_backups_Inr:
  assumes "update_backups P g d = Inr (n, d')"
  shows "d' = d\<lparr>encrypted_profile_backups := update_where P g (encrypted_profile_backups d)\<rparr>"
    "n = length (filter P (encrypted_profile_backups d))"
    "\<And>q. q \<in> set (encrypted_profile_backups d) \<Longrightarrow> P q \<Longrightarrow>
       enforce_encrypted_profile_backup_guard (Some q) (g q) d = Inr () \<and> backup_checks (g q)
         \<and> \<not> upload_conflict (g q) (encrypted_profile_backups d)"
  using assms by (auto simp: update_backups_def andthen_Inr update_checked_Inr)

lemma update_backups_cong:
  assumes "\<And>r. r \<in> set (encrypted_profile_backups d) \<Longrightarrow> P r = Q r"
  shows "update_backups P g d = update_backups Q g d"
proof -
  have f: "filter P (encrypted_profile_backups d) = filter Q (encrypted_profile_backups d)"
    using assms by (rule filter_cong [OF refl])
  have u: "update_where P g (encrypted_profile_backups d) = update_where Q g (encrypted_profile_backups d)"
    unfolding update_where_def using assms by (intro map_cong refl) simp
  show ?thesis unfolding update_backups_def update_checked_def f u ..
qed

lemma update_operations_Inr:
  assumes "update_operations P g d = Inr (n, d')"
  shows "d' = d\<lparr>encrypted_backup_operations := update_where P g (encrypted_backup_operations d)\<rparr>"
    "n = length (filter P (encrypted_backup_operations d))"
  using assms by (auto simp: update_operations_def andthen_Inr update_checked_Inr)

lemma update_backup_devices_Inr:
  assumes "update_backup_devices P g d = Inr (n, d')"
  shows "d' = d\<lparr>backup_devices := update_where P g (backup_devices d)\<rparr>" "n = length (filter P (backup_devices d))"
  using assms by (auto simp: update_backup_devices_def andthen_Inr update_checked_Inr)

section \<open>Kinds of writes\<close>

definition same_identity :: "backup_row \<Rightarrow> backup_row \<Rightarrow> bool" where
  "same_identity q q' \<longleftrightarrow> q' = q\<lparr>eb_state := eb_state q', eb_updated_at := eb_updated_at q', eb_sealed_at := eb_sealed_at q',
     eb_deletion_started_at := eb_deletion_started_at q', eb_deleted_at := eb_deleted_at q',
     eb_recovery_root_key_envelope := eb_recovery_root_key_envelope q', eb_wrapped_data_key := eb_wrapped_data_key q'\<rparr>"

definition erased :: "BackupState \<Rightarrow> bool" where
  "erased s \<longleftrightarrow> s = Deleting \<or> s = Deleted \<or> s = Expired"

definition alive :: "uuid \<Rightarrow> db \<Rightarrow> bool" where
  "alive i d \<longleftrightarrow> (\<exists>q\<in>set (encrypted_profile_backups d). eb_id q = i \<and> \<not> erased (eb_state q))"

definition enrolled :: "uuid \<Rightarrow> db \<Rightarrow> bool" where
  "enrolled i d \<longleftrightarrow> (\<exists>v\<in>set (backup_devices d). bd_id v = i \<and> bd_status v = ''active'')"

inductive backup_write :: "db \<Rightarrow> db \<Rightarrow> bool" where
  new_backup: "insert_backup r d = Inr d' \<Longrightarrow> eb_state r = Initiated \<Longrightarrow> backup_write d d'"
| new_chunk: "insert_chunk c d = Inr d' \<Longrightarrow> backup_write d d'"
| new_envelope: "insert_envelope e d = Inr d' \<Longrightarrow> alive (ee_backup_id e) d \<Longrightarrow> enrolled (ee_backup_device_id e) d
    \<Longrightarrow> backup_write d d'"
| progress: "update_backups P g d = Inr (n, d') \<Longrightarrow> (\<And>q. P q \<Longrightarrow> eb_id q = i) \<Longrightarrow> (\<And>q. same_identity q (g q))
    \<Longrightarrow> (\<And>q. P q \<Longrightarrow> uploading_state (eb_state q) \<and> (eb_state (g q) = Uploading \<or> eb_state (g q) = Sealed)
         \<or> eb_state q = Deleting \<and> eb_state (g q) = Deleted) \<Longrightarrow> backup_write d d'"
| erasure: "update_backups P g d = Inr (n, d') \<Longrightarrow> (\<And>q. P q \<Longrightarrow> eb_id q = i) \<Longrightarrow> (\<And>q. same_identity q (g q))
    \<Longrightarrow> (\<And>q. P q \<Longrightarrow> eb_state (g q) = Deleting \<or> eb_state (g q) = Expired)
    \<Longrightarrow> backup_write d (destroy_envelopes (\<lambda>e. ee_backup_id e = i) at d')"
| destruction: "backup_write d (destroy_envelopes P at d)"
| new_operation: "insert_operation q d = Inr d' \<Longrightarrow> backup_write d d'"
| operation: "update_operations P g d = Inr (n, d') \<Longrightarrow> backup_write d d'"
| new_device: "insert_backup_device v d = Inr d' \<Longrightarrow> backup_write d d'"
| rekey: "update_backup_devices P g d = Inr (n, d') \<Longrightarrow> (\<And>v. bd_id (g v) = bd_id v \<and> bd_status (g v) = bd_status v)
    \<Longrightarrow> backup_write d d'"
| revocation: "update_backup_devices P g d = Inr (n, d') \<Longrightarrow> (\<And>v. bd_id (g v) = bd_id v)
    \<Longrightarrow> backup_write d (destroy_envelopes (\<lambda>e. ee_backup_device_id e \<in> set (map bd_id (filter P (backup_devices d)))) at d')"

text \<open>What the writes keep.\<close>

definition backups_ok :: "backup_row list \<Rightarrow> bool" where
  "backups_ok t \<longleftrightarrow> distinct (map eb_id t) \<and> (\<forall>q\<in>set t. backup_checks q) \<and> (\<forall>q\<in>set t. \<not> upload_conflict q t)
     \<and> (\<forall>u l. length (filter (\<lambda>q. eb_user_id q = u \<and> eb_profile_lineage_id q = l \<and> eb_state q = Sealed) t) \<le> lineage_quota)
     \<and> (\<forall>u. sealed_bytes u t \<le> account_quota)"

definition envelopes_ok :: "db \<Rightarrow> bool" where
  "envelopes_ok d \<longleftrightarrow> (\<forall>e\<in>set (encrypted_backup_key_envelopes d). ee_root_key_envelope e \<noteq> None
     \<longrightarrow> alive (ee_backup_id e) d \<and> enrolled (ee_backup_device_id e) d)"

definition vault_ok :: "db \<Rightarrow> bool" where
  "vault_ok d \<longleftrightarrow> backups_ok (encrypted_profile_backups d) \<and> distinct (map bd_id (backup_devices d)) \<and> envelopes_ok d"

text \<open>An update of at most one row.\<close>

lemma update_one:
  assumes "distinct (map k t)" "\<And>q. P q \<Longrightarrow> k q = i"
  obtains (none) "\<forall>q\<in>set t. \<not> P q" "update_where P g t = t"
  | (one) a v b where "t = a @ v # b" "P v" "update_where P g t = a @ g v # b" "filter (\<lambda>q. k q \<noteq> k v) t = a @ b"
      "\<forall>q\<in>set a \<union> set b. k q \<noteq> k v"
proof (cases "\<exists>v\<in>set t. P v")
  case False
  with none show thesis by (simp add: update_where_none)
next
  case True
  then obtain v where v: "v \<in> set t" "P v" by blast
  then obtain a b where t: "t = a @ v # b" by (auto dest: split_list)
  have others: "\<forall>q\<in>set a \<union> set b. k q \<noteq> k v" using assms(1) by (auto simp: t image_iff)
  then have "\<forall>q\<in>set a \<union> set b. \<not> P q" using assms(2) v(2) by metis
  then have "update_where P g t = a @ g v # b" using v(2) by (simp add: t update_where_none)
  moreover have "filter (\<lambda>q. k q \<noteq> k v) t = a @ b" using others by (simp add: t filter_id_conv)
  ultimately show thesis using one t v(2) others by blast
qed

lemma guard_Inr:
  assumes "enforce_encrypted_profile_backup_guard old r d = Inr ()"
  shows "case old of None \<Rightarrow> True | Some q \<Rightarrow> frozen_transition q r" "provenance_matches r d" "parent_matches r d"
    "eb_state r = Sealed \<Longrightarrow> (case old of None \<Rightarrow> True | Some q \<Rightarrow> eb_state q \<noteq> Sealed) \<Longrightarrow>
       length (filter (\<lambda>q. eb_user_id q = eb_user_id r \<and> eb_profile_lineage_id q = eb_profile_lineage_id r \<and> eb_state q = Sealed)
         (filter (\<lambda>q. eb_id q \<noteq> eb_id r) (encrypted_profile_backups d))) < lineage_quota
       \<and> sealed_bytes (eb_user_id r) (filter (\<lambda>q. eb_id q \<noteq> eb_id r) (encrypted_profile_backups d)) + eb_total_ciphertext_size r
           \<le> account_quota"
  using assms by (auto simp: enforce_encrypted_profile_backup_guard_def andthen_Inr Let_def split: if_splits)

lemma same_identity_fields:
  assumes "same_identity q q'"
  shows "eb_id q' = eb_id q" "eb_user_id q' = eb_user_id q" "eb_profile_lineage_id q' = eb_profile_lineage_id q"
    "eb_total_ciphertext_size q' = eb_total_ciphertext_size q"
  using arg_cong [OF assms [unfolded same_identity_def], of eb_id] arg_cong [OF assms [unfolded same_identity_def], of eb_user_id]
    arg_cong [OF assms [unfolded same_identity_def], of eb_profile_lineage_id]
    arg_cong [OF assms [unfolded same_identity_def], of eb_total_ciphertext_size] by simp_all

lemma sealed_bytes_append [simp]: "sealed_bytes u (a @ b) = sealed_bytes u a + sealed_bytes u b"
  by (simp add: sealed_bytes_def)

lemma sealed_bytes_Cons [simp]:
  "sealed_bytes u (q # t) = (if eb_user_id q = u \<and> eb_state q = Sealed then eb_total_ciphertext_size q else 0) + sealed_bytes u t"
  by (simp add: sealed_bytes_def)

lemma uploading_not: "uploading_state Uploading" "uploading_state Initiated" "\<not> uploading_state Sealed"
  "\<not> uploading_state Deleting" "\<not> uploading_state Deleted" "\<not> uploading_state Expired"
  by (simp_all add: uploading_state_def)

lemma upload_conflict_iff:
  "upload_conflict r t \<longleftrightarrow> uploading_state (eb_state r) \<and> (\<exists>q\<in>set t. eb_id q \<noteq> eb_id r \<and> uploading_state (eb_state q)
     \<and> eb_user_id q = eb_user_id r \<and> eb_profile_lineage_id q = eb_profile_lineage_id r)"
  by (simp add: upload_conflict_def exists_row_iff)

lemma backups_ok_append:
  assumes "backups_ok t" "insert_backup r d = Inr d'" "t = encrypted_profile_backups d" "eb_state r = Initiated"
  shows "backups_ok (t @ [r])" "d' = d\<lparr>encrypted_profile_backups := t @ [r]\<rparr>" "eb_id r \<notin> eb_id ` set t"
proof -
  have r: "backup_checks r" "eb_id r \<notin> eb_id ` set t" "\<not> upload_conflict r t" "d' = d\<lparr>encrypted_profile_backups := t @ [r]\<rparr>"
    using assms(2,3) by (auto simp: insert_backup_def andthen_Inr exists_row_iff)
  have "\<forall>q\<in>set t. \<not> upload_conflict q (t @ [r])"
    using assms(1,4) r(3) by (fastforce simp: backups_ok_def upload_conflict_iff uploading_not)
  moreover have "\<not> upload_conflict r (t @ [r])" using r(3) by (simp add: upload_conflict_iff)
  ultimately show "backups_ok (t @ [r])" using assms(1,4) r(1,2) by (auto simp: backups_ok_def sealed_bytes_def)
qed (use assms(2,3) in \<open>auto simp: insert_backup_def andthen_Inr exists_row_iff\<close>)

lemma backups_ok_update:
  assumes ok: "backups_ok t" and upd: "update_backups P g d = Inr (n, d')" and t: "t = encrypted_profile_backups d"
    and one: "\<And>q. P q \<Longrightarrow> eb_id q = i" and same: "\<And>q. same_identity q (g q)"
    and moved: "\<And>q. P q \<Longrightarrow> eb_state (g q) = Sealed \<Longrightarrow> eb_state q \<noteq> Sealed"
  shows "backups_ok (update_where P g t)"
proof -
  have dist: "distinct (map eb_id t)" using ok by (simp add: backups_ok_def)
  show ?thesis
  proof (rule update_one [where k = eb_id and t = t and P = P and i = i and g = g, OF dist one])
    assume "update_where P g t = t"
    with ok show ?thesis by simp
  next
    fix a v b
    assume s: "t = a @ v # b" "P v" "update_where P g t = a @ g v # b" "filter (\<lambda>q. eb_id q \<noteq> eb_id v) t = a @ b"
      "\<forall>q\<in>set a \<union> set b. eb_id q \<noteq> eb_id v"
    note f = same_identity_fields [OF same]
    have g: "enforce_encrypted_profile_backup_guard (Some v) (g v) d = Inr ()" "backup_checks (g v)" "\<not> upload_conflict (g v) t"
      using update_backups_Inr(3) [OF upd, of v] s(1,2) t by auto
    have sealed: "length (filter (\<lambda>q. eb_user_id q = eb_user_id v \<and> eb_profile_lineage_id q = eb_profile_lineage_id v
          \<and> eb_state q = Sealed) (a @ b)) < lineage_quota
        \<and> sealed_bytes (eb_user_id v) (a @ b) + eb_total_ciphertext_size v \<le> account_quota" if "eb_state (g v) = Sealed"
      using guard_Inr(4) [OF g(1) that] moved [OF s(2) that] s(4) [unfolded t] by (simp add: f del: filter_filter)
    have quota: "length (filter (\<lambda>q. eb_user_id q = u \<and> eb_profile_lineage_id q = l \<and> eb_state q = Sealed) (a @ g v # b)) \<le> lineage_quota"
      for u l
    proof (cases "eb_state (g v) = Sealed \<and> eb_user_id v = u \<and> eb_profile_lineage_id v = l")
      case True
      with sealed show ?thesis by (auto simp: f)
    next
      case False
      have "length (filter (\<lambda>q. eb_user_id q = u \<and> eb_profile_lineage_id q = l \<and> eb_state q = Sealed) t) \<le> lineage_quota"
        using ok by (auto simp: backups_ok_def)
      with False show ?thesis by (auto simp: s(1) f split: if_splits)
    qed
    have bytes: "sealed_bytes u (a @ g v # b) \<le> account_quota" for u
    proof (cases "eb_state (g v) = Sealed \<and> eb_user_id v = u")
      case True
      with sealed show ?thesis by (auto simp: f)
    next
      case False
      have "sealed_bytes u t \<le> account_quota" "17 \<le> eb_total_ciphertext_size v"
        using ok by (auto simp: backups_ok_def backup_checks_def s(1))
      with False show ?thesis by (auto simp: s(1) f split: if_splits)
    qed
    have free: "\<not> upload_conflict q t" if "q \<in> set (a @ b)" for q using ok that by (auto simp: backups_ok_def s(1))
    have "\<not> upload_conflict q (a @ g v # b)" if q: "q \<in> set (a @ b)" for q
    proof
      assume "upload_conflict q (a @ g v # b)"
      then obtain r where r: "uploading_state (eb_state q)" "r \<in> set (a @ g v # b)" "eb_id r \<noteq> eb_id q"
          "uploading_state (eb_state r)" "eb_user_id r = eb_user_id q" "eb_profile_lineage_id r = eb_profile_lineage_id q"
        by (auto simp only: upload_conflict_iff)
      have "q \<in> set t" "eb_id q \<noteq> eb_id v" using q s(1,5) by auto
      show False
      proof (cases "r = g v")
        case True
        then have "upload_conflict (g v) t" using r \<open>q \<in> set t\<close> unfolding upload_conflict_iff by metis
        with g(3) show False by simp
      next
        case False
        then have "r \<in> set t" using r(2) s(1) by auto
        then have "upload_conflict q t" using r unfolding upload_conflict_iff by metis
        with free [OF q] show False by simp
      qed
    qed
    moreover have "\<not> upload_conflict (g v) (a @ g v # b)"
      using g(3) by (auto simp: upload_conflict_iff s(1))
    moreover have "distinct (map eb_id (a @ g v # b))" using dist by (simp add: s(1) f)
    ultimately show ?thesis
      using quota bytes g(2) ok unfolding s(3) backups_ok_def by (simp del: filter_append add: s(1))
  qed
qed

text \<open>Only the tables of backups and devices decide whether a backup is alive and a device enrolled.\<close>

lemma alive_cong: "encrypted_profile_backups d' = encrypted_profile_backups d \<Longrightarrow> alive i d' = alive i d"
  by (simp add: alive_def)

lemma enrolled_cong: "backup_devices d' = backup_devices d \<Longrightarrow> enrolled i d' = enrolled i d"
  by (simp add: enrolled_def)

lemma destroy_tables [simp]:
  "encrypted_profile_backups (destroy_envelopes P at d) = encrypted_profile_backups d"
  "backup_devices (destroy_envelopes P at d) = backup_devices d"
  "encrypted_backup_chunks (destroy_envelopes P at d) = encrypted_backup_chunks d"
  "encrypted_backup_operations (destroy_envelopes P at d) = encrypted_backup_operations d"
  "devices (destroy_envelopes P at d) = devices d" "users (destroy_envelopes P at d) = users d"
  by (simp_all add: destroy_envelopes_def)

lemma destroyed_envelope:
  assumes "e \<in> set (encrypted_backup_key_envelopes (destroy_envelopes P at d))" "ee_root_key_envelope e \<noteq> None"
  shows "e \<in> set (encrypted_backup_key_envelopes d)" "\<not> P e"
proof -
  from assms(1) obtain r where r: "r \<in> set (encrypted_backup_key_envelopes d)"
      "e = (if P r \<and> ee_root_key_envelope r \<noteq> None
            then r\<lparr>ee_root_key_envelope := None, ee_destroyed_at := coalesce (ee_destroyed_at r) at\<rparr> else r)"
    by (auto simp: destroy_envelopes_def set_update_where)
  with assms(2) have "\<not> (P r \<and> ee_root_key_envelope r \<noteq> None)" by (auto split: if_splits)
  with r assms(2) show "e \<in> set (encrypted_backup_key_envelopes d)" "\<not> P e" by auto
qed

lemma envelopes_ok_destroy:
  assumes "envelopes_ok d"
    and "\<And>e. e \<in> set (encrypted_backup_key_envelopes d) \<Longrightarrow> \<not> P e \<Longrightarrow> alive (ee_backup_id e) d \<Longrightarrow> alive (ee_backup_id e) d'"
    and "\<And>e. e \<in> set (encrypted_backup_key_envelopes d) \<Longrightarrow> \<not> P e \<Longrightarrow> enrolled (ee_backup_device_id e) d \<Longrightarrow> enrolled (ee_backup_device_id e) d'"
    and "encrypted_backup_key_envelopes d' = encrypted_backup_key_envelopes d"
  shows "envelopes_ok (destroy_envelopes P at d')"
proof -
  have "alive (ee_backup_id e) d' \<and> enrolled (ee_backup_device_id e) d'"
    if "e \<in> set (encrypted_backup_key_envelopes (destroy_envelopes P at d'))" "ee_root_key_envelope e \<noteq> None" for e
    using destroyed_envelope [OF that] assms that(2) by (auto simp: envelopes_ok_def)
  then show ?thesis by (auto simp: envelopes_ok_def alive_cong [of "destroy_envelopes P at d'" d'] enrolled_cong [of "destroy_envelopes P at d'" d'])
qed

lemma alive_update:
  assumes "update_backups P g d = Inr (n, d')" "alive j d" "\<And>q. same_identity q (g q)"
    "\<And>q. P q \<Longrightarrow> eb_id q = j \<Longrightarrow> \<not> erased (eb_state q) \<Longrightarrow> \<not> erased (eb_state (g q))"
  shows "alive j d'"
proof -
  from assms(2) obtain q where q: "q \<in> set (encrypted_profile_backups d)" "eb_id q = j" "\<not> erased (eb_state q)" by (auto simp: alive_def)
  let ?q = "if P q then g q else q"
  have "?q \<in> set (encrypted_profile_backups d')" using q(1) update_backups_Inr(1) [OF assms(1)] by (auto simp: set_update_where)
  moreover have "eb_id ?q = j" "\<not> erased (eb_state ?q)" using q assms(4) same_identity_fields(1) [OF assms(3), of q] by auto
  ultimately show ?thesis unfolding alive_def by blast
qed

lemma write_keeps_vault:
  assumes "backup_write d d'" "vault_ok d"
  shows "vault_ok d'"
  using assms
proof (induction rule: backup_write.induct)
  case (new_backup r d d')
  note b = backups_ok_append [OF _ new_backup(1) refl new_backup(2)]
  have "alive j d \<Longrightarrow> alive j d'" for j using b(2) new_backup(3) by (auto simp: alive_def vault_ok_def)
  with new_backup b show ?case by (auto simp: vault_ok_def envelopes_ok_def enrolled_def)
next
  case (new_chunk c d d')
  then have "d' = d\<lparr>encrypted_backup_chunks := encrypted_backup_chunks d @ [c]\<rparr>" by (auto simp: insert_chunk_def andthen_Inr)
  with new_chunk(2) show ?case by (simp add: vault_ok_def envelopes_ok_def alive_def enrolled_def)
next
  case (new_envelope e d d')
  then have "d' = d\<lparr>encrypted_backup_key_envelopes := encrypted_backup_key_envelopes d @ [e]\<rparr>" by (auto simp: insert_envelope_def andthen_Inr)
  with new_envelope(2-4) show ?case by (auto simp: vault_ok_def envelopes_ok_def alive_def enrolled_def)
next
  case (progress P g d n d' i)
  note u = update_backups_Inr [OF progress(1)]
  have "backups_ok (encrypted_profile_backups d')"
    using backups_ok_update [OF _ progress(1) refl progress(2,3)] progress(4,5) u(1) by (force simp: vault_ok_def uploading_not)
  moreover have "envelopes_ok d'"
  proof -
    have "alive j d \<Longrightarrow> alive j d'" for j
      by (rule alive_update [OF progress(1) _ progress(3)], simp)
        (metis progress(4) BackupState.distinct erased_def)
    with progress(5) u(1) show ?thesis by (auto simp: vault_ok_def envelopes_ok_def enrolled_def)
  qed
  ultimately show ?case using progress(5) u(1) by (simp add: vault_ok_def)
next
  case (erasure P g d n d' i at)
  note u = update_backups_Inr [OF erasure(1)]
  have "backups_ok (encrypted_profile_backups d')"
    using backups_ok_update [OF _ erasure(1) refl erasure(2,3)] erasure(4,5) u(1) by (force simp: vault_ok_def)
  moreover have "envelopes_ok (destroy_envelopes (\<lambda>e. ee_backup_id e = i) at d')"
  proof (rule envelopes_ok_destroy)
    show "alive (ee_backup_id e) d'" if "\<not> ee_backup_id e = i" "alive (ee_backup_id e) d" for e
      by (rule alive_update [OF erasure(1) that(2) erasure(3)]) (use erasure(2) that(1) in auto)
  qed (use erasure(5) u(1) in \<open>auto simp: vault_ok_def enrolled_def\<close>)
  ultimately show ?case using erasure(5) u(1) by (simp add: vault_ok_def)
next
  case (destruction d P at)
  then show ?case by (auto simp: vault_ok_def intro: envelopes_ok_destroy)
next
  case (new_operation q d d')
  then have "d' = d\<lparr>encrypted_backup_operations := encrypted_backup_operations d @ [q]\<rparr>" by (auto simp: insert_operation_def andthen_Inr)
  with new_operation(2) show ?case by (simp add: vault_ok_def envelopes_ok_def alive_def enrolled_def)
next
  case (operation P g d n d')
  with update_operations_Inr(1) [OF operation(1)] show ?case by (simp add: vault_ok_def envelopes_ok_def alive_def enrolled_def)
next
  case (new_device v d d')
  then have "d' = d\<lparr>backup_devices := backup_devices d @ [v]\<rparr>" "bd_id v \<notin> bd_id ` set (backup_devices d)"
    by (auto simp: insert_backup_device_def andthen_Inr exists_row_iff)
  with new_device(2) show ?case by (auto simp: vault_ok_def envelopes_ok_def alive_def enrolled_def)
next
  case (rekey P g d n d')
  note u = update_backup_devices_Inr(1) [OF rekey(1)]
  have "enrolled j d \<Longrightarrow> enrolled j d'" for j using rekey(2) by (auto simp: u enrolled_def set_update_where; metis)
  moreover have "map bd_id (update_where P g (backup_devices d)) = map bd_id (backup_devices d)"
    using rekey(2) by (simp add: map_update_where)
  ultimately show ?case using rekey(3) by (simp add: vault_ok_def envelopes_ok_def alive_def u)
next
  case (revocation P g d n d' at)
  note u = update_backup_devices_Inr(1) [OF revocation(1)]
  have "map bd_id (update_where P g (backup_devices d)) = map bd_id (backup_devices d)"
    using revocation(2) by (simp add: map_update_where)
  moreover have "enrolled j d'" if "j \<notin> set (map bd_id (filter P (backup_devices d)))" "enrolled j d" for j
  proof -
    from that(2) obtain v where v: "v \<in> set (backup_devices d)" "bd_id v = j" "bd_status v = ''active''" by (auto simp: enrolled_def)
    with that(1) have "\<not> P v" by auto
    with v show ?thesis by (auto simp: u enrolled_def set_update_where)
  qed
  ultimately show ?case using revocation(3)
    by (auto simp: vault_ok_def u alive_def intro!: envelopes_ok_destroy [where d = d])
qed

section \<open>The life of a backup\<close>

definition leads :: "BackupState \<Rightarrow> BackupState \<Rightarrow> bool" where
  "leads s t \<longleftrightarrow> s = t \<or> (case s of Initiated \<Rightarrow> True | Uploading \<Rightarrow> t \<noteq> Initiated | Sealed \<Rightarrow> t = Deleting \<or> t = Deleted
     | Deleting \<Rightarrow> t = Deleted | Deleted \<Rightarrow> False | Expired \<Rightarrow> False)"

definition evolves :: "backup_row \<Rightarrow> backup_row \<Rightarrow> bool" where
  "evolves q q' \<longleftrightarrow> same_identity q q' \<and> leads (eb_state q) (eb_state q')
     \<and> (\<not> uploading_state (eb_state q) \<and> eb_state q' = eb_state q \<longrightarrow> q' = q)"

definition chunks_of :: "uuid \<Rightarrow> db \<Rightarrow> chunk_row list" where
  "chunks_of i d = filter (\<lambda>c. ek_backup_id c = i) (encrypted_backup_chunks d)"

lemma same_identity_refl [simp]: "same_identity q q"
  by (simp add: same_identity_def)

lemma same_identity_trans:
  assumes "same_identity q r" "same_identity r s"
  shows "same_identity q s"
proof -
  obtain a b c x y z w where r: "r = q\<lparr>eb_state := a, eb_updated_at := b, eb_sealed_at := c, eb_deletion_started_at := x,
      eb_deleted_at := y, eb_recovery_root_key_envelope := z, eb_wrapped_data_key := w\<rparr>"
    using assms(1) unfolding same_identity_def by metis
  obtain a' b' c' x' y' z' w' where s: "s = r\<lparr>eb_state := a', eb_updated_at := b', eb_sealed_at := c', eb_deletion_started_at := x',
      eb_deleted_at := y', eb_recovery_root_key_envelope := z', eb_wrapped_data_key := w'\<rparr>"
    using assms(2) unfolding same_identity_def by metis
  show ?thesis unfolding same_identity_def by (simp add: s r)
qed

lemma leads_trans: "leads s t \<Longrightarrow> leads t u \<Longrightarrow> leads s u"
  by (cases s; cases t; cases u) (simp_all add: leads_def)

lemma leads_back: "leads s t \<Longrightarrow> leads t s \<Longrightarrow> s = t"
  by (cases s; cases t) (simp_all add: leads_def)

lemma leads_uploading: "leads s t \<Longrightarrow> uploading_state t \<Longrightarrow> uploading_state s"
  by (cases s; cases t) (simp_all add: leads_def uploading_state_def)

lemma leads_erased: "leads s t \<Longrightarrow> erased s \<Longrightarrow> erased t"
  by (cases s; cases t) (simp_all add: leads_def erased_def)

lemma evolves_refl [simp]: "evolves q q"
  by (simp add: evolves_def leads_def)

lemma evolves_member [intro]: "q \<in> t \<Longrightarrow> \<exists>q'\<in>t. evolves q q'"
  using evolves_refl by blast

lemma evolves_trans:
  assumes "evolves q r" "evolves r s"
  shows "evolves q s"
proof -
  have "s = q" if "\<not> uploading_state (eb_state q)" "eb_state s = eb_state q"
  proof -
    have "eb_state r = eb_state q" using assms that(2) leads_back by (auto simp: evolves_def)
    with assms that show ?thesis by (auto simp: evolves_def)
  qed
  with assms show ?thesis by (auto simp: evolves_def intro: same_identity_trans leads_trans)
qed

lemma frozen_evolves:
  assumes "frozen_transition q r" "same_identity q r" "uploading_state (eb_state q) \<Longrightarrow> leads (eb_state q) (eb_state r)"
  shows "evolves q r"
  using assms by (auto simp: frozen_transition_def evolves_def leads_def split: if_splits)

lemma update_evolves:
  assumes "update_backups P g d = Inr (n, d')" "q \<in> set (encrypted_profile_backups d)" "\<And>q. same_identity q (g q)"
    and "\<And>q. P q \<Longrightarrow> uploading_state (eb_state q) \<Longrightarrow> eb_state (g q) \<noteq> Initiated"
  shows "\<exists>q'\<in>set (encrypted_profile_backups d'). evolves q q'"
proof -
  note u = update_backups_Inr [OF assms(1)]
  have "evolves q (g q)" if "P q"
  proof (rule frozen_evolves)
    show "frozen_transition q (g q)" using guard_Inr(1) [of "Some q" "g q" d] u(3) [OF assms(2) that] by simp
    show "leads (eb_state q) (eb_state (g q))" if "uploading_state (eb_state q)"
      using assms(4) [OF \<open>P q\<close> that] that by (auto simp: leads_def uploading_state_def)
  qed (rule assms(3))
  then have "evolves q (if P q then g q else q)" by simp
  moreover have "(if P q then g q else q) \<in> set (encrypted_profile_backups d')" using assms(2) by (auto simp: u(1) set_update_where)
  ultimately show ?thesis by blast
qed

lemma write_evolves:
  assumes "backup_write d d'" "q \<in> set (encrypted_profile_backups d)"
  shows "\<exists>q'\<in>set (encrypted_profile_backups d'). evolves q q'"
  using assms
proof (induction rule: backup_write.induct)
  case (new_backup r d d')
  then have "encrypted_profile_backups d' = encrypted_profile_backups d @ [r]" by (auto simp: insert_backup_def andthen_Inr)
  with new_backup(3) show ?case by (auto intro: bexI [of _ q])
next
  case (progress P g d n d' i)
  then show ?case by (intro update_evolves [OF progress(1,5,3)]) (fastforce simp: uploading_state_def)
next
  case (erasure P g d n d' i at)
  then show ?case using update_evolves [OF erasure(1,5,3)] by (fastforce simp: uploading_state_def)
qed (auto simp: insert_chunk_def insert_envelope_def insert_operation_def insert_backup_device_def andthen_Inr
  dest!: update_operations_Inr(1) update_backup_devices_Inr(1) intro: bexI [of _ q])

lemma write_keeps_chunks:
  assumes "backup_write d d'" "vault_ok d" "q \<in> set (encrypted_profile_backups d)" "\<not> uploading_state (eb_state q)"
  shows "chunks_of (eb_id q) d' = chunks_of (eb_id q) d"
  using assms
proof (induction rule: backup_write.induct)
  case (new_chunk c d d')
  have "distinct (map eb_id (encrypted_profile_backups d))" using new_chunk(2) by (simp add: vault_ok_def backups_ok_def)
  from find_key [OF this new_chunk(3) refl] new_chunk(1,4) have "ek_backup_id c \<noteq> eb_id q"
    by (auto simp: insert_chunk_def andthen_Inr)
  with new_chunk(1) show ?case by (auto simp: insert_chunk_def andthen_Inr chunks_of_def)
qed (auto simp: insert_backup_def insert_envelope_def insert_operation_def insert_backup_device_def andthen_Inr chunks_of_def
  dest!: update_operations_Inr(1) update_backup_devices_Inr(1) update_backups_Inr(1))

lemma writes_keep:
  assumes "backup_write\<^sup>*\<^sup>* d d'" "vault_ok d"
  shows "vault_ok d'" "q \<in> set (encrypted_profile_backups d) \<Longrightarrow> \<exists>q'\<in>set (encrypted_profile_backups d'). evolves q q'"
    "q \<in> set (encrypted_profile_backups d) \<Longrightarrow> \<not> uploading_state (eb_state q) \<Longrightarrow> chunks_of (eb_id q) d' = chunks_of (eb_id q) d"
proof -
  have "vault_ok d' \<and> (\<forall>q\<in>set (encrypted_profile_backups d). (\<exists>q'\<in>set (encrypted_profile_backups d'). evolves q q')
      \<and> (\<not> uploading_state (eb_state q) \<longrightarrow> chunks_of (eb_id q) d' = chunks_of (eb_id q) d))"
    using assms
  proof (induction rule: rtranclp_induct)
    case base
    then show ?case using evolves_refl by blast
  next
    case (step b c)
    then have b: "vault_ok b" by simp
    have "(\<exists>q'\<in>set (encrypted_profile_backups c). evolves q q')
        \<and> (\<not> uploading_state (eb_state q) \<longrightarrow> chunks_of (eb_id q) c = chunks_of (eb_id q) d)"
      if q: "q \<in> set (encrypted_profile_backups d)" for q
    proof -
      from step q obtain r where r: "r \<in> set (encrypted_profile_backups b)" "evolves q r" by blast
      from write_evolves [OF step(2) r(1)] r(2) have "\<exists>q'\<in>set (encrypted_profile_backups c). evolves q q'" by (blast intro: evolves_trans)
      moreover have "chunks_of (eb_id q) c = chunks_of (eb_id q) b" if "\<not> uploading_state (eb_state q)"
      proof -
        have "\<not> uploading_state (eb_state r)" "eb_id r = eb_id q"
          using r(2) that leads_uploading same_identity_fields(1) by (auto simp: evolves_def)
        with write_keeps_chunks [OF step(2) b r(1)] show ?thesis by simp
      qed
      ultimately show ?thesis using step q by auto
    qed
    with write_keeps_vault [OF step(2) b] show ?case by blast
  qed
  then show "vault_ok d'" "q \<in> set (encrypted_profile_backups d) \<Longrightarrow> \<exists>q'\<in>set (encrypted_profile_backups d'). evolves q q'"
    "q \<in> set (encrypted_profile_backups d) \<Longrightarrow> \<not> uploading_state (eb_state q) \<Longrightarrow> chunks_of (eb_id q) d' = chunks_of (eb_id q) d"
    by auto
qed

section \<open>Transactions are sequences of writes\<close>

lemma writes_trans [trans]: "backup_write\<^sup>*\<^sup>* a b \<Longrightarrow> backup_write\<^sup>*\<^sup>* b c \<Longrightarrow> backup_write\<^sup>*\<^sup>* a c"
  by (rule rtranclp_trans)

lemmas write_once = r_into_rtranclp [of backup_write]

lemma register_writes:
  assumes "RegisterBackupDevice draw f r d = (x, d')"
  shows "backup_write\<^sup>*\<^sup>* d d'"
  using assms [unfolded RegisterBackupDevice_def]
proof (cases rule: returning_cases)
  case (committed v)
  have "backup_write\<^sup>*\<^sup>* d d1" if "save_registration draw g r latest d = Inr (b, d1)" for g latest b d1
    using that unfolding save_registration_def
    by (auto simp: andthen_Inr Let_def RandomUUID_def split: option.splits if_splits
        intro!: write_once intro: backup_write.new_device backup_write.rekey)
  with committed show ?thesis by (auto simp: andthen_Inr Let_def split: if_splits)
qed simp

lemma revoke_device_writes:
  assumes "RevokeBackupDevice f userID deviceID at d = (x, d')"
  shows "backup_write\<^sup>*\<^sup>* d d'"
  using assms [unfolded RevokeBackupDevice_def]
proof (cases rule: transaction_cases)
  case committed
  let ?P = "\<lambda>q. bd_user_id q = userID \<and> bd_device_id q = deviceID \<and> bd_status q = ''active''"
  let ?g = "\<lambda>q. q\<lparr>bd_status := ''revoked'', bd_revoked_at := Some at, bd_updated_at := at\<rparr>"
  from committed obtain n d1 where u: "update_backup_devices ?P ?g d = Inr (n, d1)"
    and d': "d' = destroy_envelopes (\<lambda>e. ee_backup_device_id e \<in> set (map bd_id (filter ?P (backup_devices d)))) at d1"
    by (auto simp: andthen_Inr Let_def)
  show ?thesis unfolding d' by (intro write_once backup_write.revocation [OF u]) simp
qed simp

lemma insert_chunks_writes: "insert_chunks f i cs d = Inr d' \<Longrightarrow> backup_write\<^sup>*\<^sup>* d d'
    \<and> encrypted_profile_backups d' = encrypted_profile_backups d \<and> backup_devices d' = backup_devices d"
proof (induction cs arbitrary: f d)
  case Nil
  then show ?case by simp
next
  case (Cons c cs)
  from Cons.prems obtain d1 where d1: "insert_chunk (chunk_of i c) d = Inr d1" "insert_chunks (later 1 f) i cs d1 = Inr d'"
    by (auto simp: andthen_Inr)
  have "encrypted_profile_backups d1 = encrypted_profile_backups d" "backup_devices d1 = backup_devices d"
    using d1(1) by (auto simp: insert_chunk_def andthen_Inr)
  with Cons.IH [OF d1(2)] backup_write.new_chunk [OF d1(1)] show ?case by (metis converse_rtranclp_into_rtranclp)
qed

lemma initiate_writes:
  assumes "Initiate_record f r d = (x, d')" "bk_State (ird_Backup r) = Initiated"
    and "er_BackupID (ird_SourceDeviceEnvelope r) = bk_ID (ird_Backup r)" "enrolled (er_BackupDeviceID (ird_SourceDeviceEnvelope r)) d"
  shows "backup_write\<^sup>*\<^sup>* d d'"
  using assms(1) [unfolded Initiate_record_def]
proof (cases rule: returning_cases)
  case (committed v)
  show ?thesis
  proof (cases "find (\<lambda>q. eb_id q = bk_ID (ird_Backup r)) (encrypted_profile_backups d)")
    case (Some q)
    with committed show ?thesis by (auto simp: andthen_Inr Let_def)
  next
    case None
    with committed obtain d1 d2 where w: "insert_backup (backup_of_record r) d = Inr d1"
        "insert_chunks (later 3 f) (bk_ID (ird_Backup r)) (ird_Chunks r) d1 = Inr d2"
        "insert_envelope (envelope_of (ird_SourceDeviceEnvelope r)) d2 = Inr d'"
      by (auto simp: andthen_Inr Let_def)
    note c = insert_chunks_writes [OF w(2)]
    have d1: "d1 = d\<lparr>encrypted_profile_backups := encrypted_profile_backups d @ [backup_of_record r]\<rparr>"
      using w(1) by (auto simp: insert_backup_def andthen_Inr)
    have new: "eb_id (backup_of_record r) = bk_ID (ird_Backup r)" "eb_state (backup_of_record r) = Initiated"
      using assms(2) by (simp_all add: backup_of_record_def Let_def)
    have "backup_write d d1" using w(1) new(2) by (rule backup_write.new_backup)
    also have "backup_write\<^sup>*\<^sup>* d1 d2" using c by simp
    also have "backup_write d2 d'"
      using w(3)
    proof (rule backup_write.new_envelope)
      show "alive (ee_backup_id (envelope_of (ird_SourceDeviceEnvelope r))) d2"
        using c new assms(3) by (auto simp: alive_def d1 envelope_of_def erased_def)
      show "enrolled (ee_backup_device_id (envelope_of (ird_SourceDeviceEnvelope r))) d2"
        using c assms(4) by (simp add: enrolled_def d1 envelope_of_def)
    qed
    finally show ?thesis by simp
  qed
qed simp

lemma mark_uploading_writes:
  assumes "MarkUploading fails userID backupID at d = (x, d')"
  shows "backup_write\<^sup>*\<^sup>* d d'"
  using assms [unfolded MarkUploading_def]
proof (cases rule: transaction_cases)
  case committed
  then obtain n where u: "update_backups (\<lambda>q. eb_id q = backupID \<and> eb_user_id q = userID \<and> uploading_state (eb_state q))
      (\<lambda>q. q\<lparr>eb_state := (if eb_state q = Initiated then Uploading else eb_state q), eb_updated_at := at\<rparr>) d = Inr (n, d')"
    by (auto simp: andthen_Inr)
  show ?thesis by (intro write_once backup_write.progress [OF u]) (auto simp: same_identity_def uploading_state_def)
qed simp

lemma seal_writes:
  assumes "Seal_record f userID backupID at d = (x, d')" "vault_ok d"
  shows "backup_write\<^sup>*\<^sup>* d d'"
  using assms(1) [unfolded Seal_record_def]
proof (cases rule: returning_cases)
  case (committed v)
  then obtain q where q: "find_backup userID backupID d = Some q" by (auto simp: andthen_Inr)
  show ?thesis
  proof (cases "eb_state q = Sealed")
    case True
    with committed q show ?thesis by (auto simp: andthen_Inr)
  next
    case False
    let ?P = "\<lambda>q. eb_id q = backupID \<and> eb_user_id q = userID"
    let ?g = "\<lambda>q. q\<lparr>eb_state := Sealed, eb_sealed_at := Some at, eb_updated_at := at\<rparr>"
    from False committed q obtain n where u: "update_backups ?P ?g d = Inr (n, d')" and up: "uploading_state (eb_state q)"
      by (auto simp: andthen_Inr)
    have only: "?P r \<Longrightarrow> r = q" if "r \<in> set (encrypted_profile_backups d)" for r
      using that q assms(2) by (auto simp: find_backup_def vault_ok_def backups_ok_def dest!: find_Some_in dest: distinct_key_eq)
    have "update_backups (\<lambda>r. ?P r \<and> r = q) ?g d = update_backups ?P ?g d"
      by (rule update_backups_cong) (use only in blast)
    with u have u': "update_backups (\<lambda>r. ?P r \<and> r = q) ?g d = Inr (n, d')" by simp
    show ?thesis
    proof (rule write_once, rule backup_write.progress [OF u', where i = backupID])
      show "same_identity r (?g r)" for r by (simp add: same_identity_def)
    qed (use up in simp_all)
  qed
qed simp

lemma add_envelope_writes:
  assumes "AddDeviceEnvelope_record cr f userID backupID r d = (x, d')"
  shows "backup_write\<^sup>*\<^sup>* d d'"
  using assms [unfolded AddDeviceEnvelope_record_def]
proof (cases rule: returning_cases)
  case (committed v)
  then obtain q v where q: "find_backup userID backupID d = Some q" "eb_state q = Sealed" "er_BackupID r = backupID"
      "find (\<lambda>v. bd_id v = er_BackupDeviceID r) (backup_devices d) = Some v" "bd_status v = ''active''"
    by (auto simp: andthen_Inr)
  show ?thesis
  proof (cases "find (\<lambda>e. ee_backup_id e = backupID \<and> ee_backup_device_id e = er_BackupDeviceID r \<and> ee_key_epoch e = er_KeyEpoch r)
      (encrypted_backup_key_envelopes d)")
    case (Some e)
    with committed show ?thesis by (auto simp: andthen_Inr)
  next
    case None
    with committed have i: "insert_envelope (envelope_of r) d = Inr d'" by (auto simp: andthen_Inr)
    have "alive backupID d" using q(1,2) by (auto simp: alive_def find_backup_def erased_def dest!: find_Some_in)
    moreover have "enrolled (er_BackupDeviceID r) d" using q(4,5) by (auto simp: enrolled_def dest!: find_Some_in)
    ultimately show ?thesis using q(3) by (intro write_once backup_write.new_envelope [OF i]) (simp_all add: envelope_of_def)
  qed
qed simp

lemma close_writes:
  assumes "begin_encrypted_profile_backup_deletion backupID userID at d = Inr (ks, d')"
  shows "backup_write\<^sup>*\<^sup>* d d'"
proof -
  let ?P = "\<lambda>q. eb_id q = backupID \<and> eb_user_id q = userID"
  let ?g = "\<lambda>q. q\<lparr>eb_state := Deleting, eb_recovery_root_key_envelope := None, eb_wrapped_data_key := None,
    eb_deletion_started_at := Some at, eb_updated_at := at\<rparr>"
  from assms obtain q where q: "find ?P (encrypted_profile_backups d) = Some q" "eb_state q = Sealed \<or> eb_state q = Deleting"
    by (auto simp: begin_encrypted_profile_backup_deletion_def andthen_Inr split: option.splits)
  show ?thesis
  proof (cases "eb_state q = Sealed")
    case True
    then obtain n d1 where u: "update_backups ?P ?g d = Inr (n, d1)" "d' = destroy_envelopes (\<lambda>e. ee_backup_id e = backupID) at d1"
      using assms q by (auto simp: begin_encrypted_profile_backup_deletion_def andthen_Inr)
    show ?thesis unfolding u(2)
    proof (rule write_once, rule backup_write.erasure [OF u(1)])
      show "same_identity r (?g r)" for r by (simp add: same_identity_def)
    qed simp_all
  next
    case False
    then have "d' = destroy_envelopes (\<lambda>e. ee_backup_id e = backupID) at d"
      using assms q by (auto simp: begin_encrypted_profile_backup_deletion_def andthen_Inr)
    then show ?thesis by (auto intro: write_once backup_write.destruction)
  qed
qed

lemma reopen_writes: "reopen_operation i ks at d = Inr (n, d') \<Longrightarrow> backup_write d d'"
  unfolding reopen_operation_def by (rule backup_write.operation)

lemma begin_deletion_writes:
  assumes "BeginDeletion draw f userID backupID at d = (x, d')"
  shows "backup_write\<^sup>*\<^sup>* d d'"
  using assms [unfolded BeginDeletion_def]
proof (cases rule: returning_cases)
  case (committed v)
  then obtain ks d1 where c: "begin_encrypted_profile_backup_deletion backupID userID at d = Inr (ks, d1)"
    and "backup_write d1 d'"
    by (auto simp: andthen_Inr RandomUUID_def split: option.splits dest!: backup_write.new_operation reopen_writes)
  with close_writes [OF c] show ?thesis by (rule_tac rtranclp.rtrancl_into_rtrancl)
qed simp

lemma finish_writes:
  assumes "finish_deletion userID backupID at d = Inr (n, d')"
  shows "backup_write d d'"
  using assms unfolding finish_deletion_def
proof (rule backup_write.progress)
  show "same_identity r (r\<lparr>eb_state := Deleted, eb_deleted_at := Some at, eb_updated_at := at\<rparr>)" for r
    by (simp add: same_identity_def)
qed simp_all

lemma complete_deletion_writes:
  assumes "CompleteDeletion f userID backupID at d = (x, d')"
  shows "backup_write\<^sup>*\<^sup>* d d'"
  using assms [unfolded CompleteDeletion_def]
proof (cases rule: transaction_cases)
  case committed
  then obtain n d1 where "finish_deletion userID backupID at d = Inr (n, d1)" "backup_write d1 d'"
    by (auto simp: andthen_Inr Let_def intro: backup_write.operation)
  with finish_writes show ?thesis by (metis r_into_rtranclp rtranclp.rtrancl_into_rtrancl)
qed simp

lemmas transaction_writes = register_writes revoke_device_writes mark_uploading_writes add_envelope_writes
  begin_deletion_writes complete_deletion_writes

section \<open>Maintenance\<close>

lemma stage_operation_writes:
  "stageBackupOperation draw f userID backupID operation ks now d = Inr d' \<Longrightarrow> backup_write d d'"
  by (auto simp: stageBackupOperation_def andthen_Inr RandomUUID_def split: option.splits intro: backup_write.new_operation dest: reopen_writes)

lemma expire_uploads_writes: "expire_uploads draw f now due d = Inr d' \<Longrightarrow> backup_write\<^sup>*\<^sup>* d d'"
proof (induction due arbitrary: draw f d)
  case Nil
  then show ?case by simp
next
  case (Cons x due)
  obtain i u where x: "x = (i, u)" by (cases x)
  from Cons.prems obtain ks n d1 d2 where u: "update_backups (\<lambda>q. eb_id q = i \<and> uploading_state (eb_state q)) (expired_at now) d = Inr (n, d1)"
    and s: "stageBackupOperation (draw 0) (later 3 f) u i Expire_upload ks now (destroy_envelopes (\<lambda>e. ee_backup_id e = i) now d1) = Inr d2"
    and r: "expire_uploads (\<lambda>k. draw (Suc k)) (later 5 f) now due d2 = Inr d'"
    by (auto simp: x andthen_Inr)
  have "backup_write d (destroy_envelopes (\<lambda>e. ee_backup_id e = i) now d1)"
  proof (rule backup_write.erasure [OF u])
    show "same_identity r (expired_at now r)" for r by (simp add: same_identity_def expired_at_def)
  qed (simp_all add: expired_at_def)
  with stage_operation_writes [OF s] Cons.IH [OF r] show ?case by (meson converse_rtranclp_into_rtranclp)
qed

lemma prune_backups_writes: "prune_backups draw f now due d = Inr d' \<Longrightarrow> backup_write\<^sup>*\<^sup>* d d'"
proof (induction due arbitrary: draw f d)
  case Nil
  then show ?case by simp
next
  case (Cons x due)
  obtain i u where x: "x = (i, u)" by (cases x)
  from Cons.prems obtain ks d1 d2 where c: "begin_encrypted_profile_backup_deletion i u now d = Inr (ks, d1)"
    and s: "stageBackupOperation (draw 0) (later 1 f) u i Prune_lineage ks now d1 = Inr d2"
    and r: "prune_backups (\<lambda>k. draw (Suc k)) (later 3 f) now due d2 = Inr d'"
    by (auto simp: x andthen_Inr)
  from close_writes [OF c] stage_operation_writes [OF s] Cons.IH [OF r] show ?case
    by (meson converse_rtranclp_into_rtranclp rtranclp_trans)
qed

lemma stages_writes:
  "stageExpiredUploads locked draw f now d = (x, d') \<Longrightarrow> backup_write\<^sup>*\<^sup>* d d'"
  "stageRetentionPruning draw f now d = (x, d') \<Longrightarrow> backup_write\<^sup>*\<^sup>* d d'"
  by (auto simp: stageExpiredUploads_def stageRetentionPruning_def andthen_Inr elim!: transaction_cases
      intro: expire_uploads_writes prune_backups_writes)

lemma attempt_writes: "beginBackupOperationAttempt fails i now d = (x, d') \<Longrightarrow> backup_write\<^sup>*\<^sup>* d d'"
  by (auto simp: beginBackupOperationAttempt_def andthen_Inr elim!: returning_cases dest!: backup_write.operation)

lemma fail_writes: "failBackupOperation fails i attempt now why d = (x, d') \<Longrightarrow> backup_write\<^sup>*\<^sup>* d d'"
  by (auto simp: failBackupOperation_def andthen_Inr elim!: transaction_cases dest!: backup_write.operation)

lemma complete_operation_writes:
  assumes "completeBackupOperation f operation now d = (x, d')"
  shows "backup_write\<^sup>*\<^sup>* d d'"
  using assms [unfolded completeBackupOperation_def]
proof (cases rule: transaction_cases)
  case committed
  then obtain m n d1 where "d1 = d \<or> finish_deletion (du_userID operation) (du_backupID operation) now d = Inr (m, d1)"
    and o: "update_operations (\<lambda>q. eo_id q = du_id operation \<and> eo_state q = Op_running) (completed now) d1 = Inr (n, d')"
    by (auto simp: andthen_Inr Let_def split: if_splits)
  then have "backup_write\<^sup>*\<^sup>* d d1" by (auto dest: finish_writes)
  with backup_write.operation [OF o] show ?thesis by (rule_tac rtranclp.rtrancl_into_rtrancl)
qed simp

lemma process_operation_writes:
  assumes "process_operation st env now operation z = (x, z')"
  shows "backup_write\<^sup>*\<^sup>* (bz_db z) (bz_db z')"
proof -
  obtain y d where a: "beginBackupOperationAttempt (oe_begin env) (du_id operation) now (bz_db z) = (y, d)"
    by (cases "beginBackupOperationAttempt (oe_begin env) (du_id operation) now (bz_db z)")
  have w: "backup_write\<^sup>*\<^sup>* (bz_db z) d" using attempt_writes [OF a] .
  moreover have "backup_write\<^sup>*\<^sup>* d (bz_db z')"
    using assms a
    by (auto simp: process_operation_def Let_def split: sum.splits option.splits prod.splits
        dest!: fail_writes complete_operation_writes)
  ultimately show ?thesis by (rule rtranclp_trans)
qed

lemma process_operations_writes:
  "process_operations st env now operations z = (x, z') \<Longrightarrow> backup_write\<^sup>*\<^sup>* (bz_db z) (bz_db z')"
proof (induction operations arbitrary: env z)
  case Nil
  then show ?case by simp
next
  case (Cons operation operations)
  obtain y z1 where one: "process_operation st (env 0) now operation z = (y, z1)"
    by (cases "process_operation st (env 0) now operation z")
  from process_operation_writes [OF one] Cons.IH [of "\<lambda>k. env (Suc k)" z1] Cons.prems one show ?case
    by (auto split: option.splits intro: rtranclp_trans)
qed

lemma maintenance_writes:
  assumes "EncryptedBackup_Run st env now z = (x, z')"
  shows "backup_write\<^sup>*\<^sup>* (bz_db z) (bz_db z')"
proof -
  obtain a d1 where e: "stageExpiredUploads (bp_locked env) (bp_expire_draws env) (bp_expire env) now (bz_db z) = (a, d1)"
    by (cases "stageExpiredUploads (bp_locked env) (bp_expire_draws env) (bp_expire env) now (bz_db z)")
  obtain b d2 where p: "stageRetentionPruning (bp_prune_draws env) (bp_prune env) now d1 = (b, d2)"
    by (cases "stageRetentionPruning (bp_prune_draws env) (bp_prune env) now d1")
  note w = stages_writes(1) [OF e] stages_writes(2) [OF p]
  show ?thesis using assms e p w
    by (auto simp: EncryptedBackup_Run_def processObjectCleanup_def split: if_splits option.splits sum.splits
        dest!: process_operations_writes intro: rtranclp_trans)
qed

section \<open>The service\<close>

datatype backup_op =
    BRegister RegisterDeviceCommand | BRevoke uuid | BInitiate InitiateCommand | BUploadChunk uuid int "reader option" int bytes
  | BUploadManifest uuid "reader option" int bytes | BSeal uuid | BDownload uuid bytes | BShare uuid uuid int bytes bytes | BDelete uuid

definition answer :: "(backup_error + 'a) \<times> 's \<Rightarrow> backup_error option \<times> 's" where
  "answer r = (case r of (Inl e, z) \<Rightarrow> (Some e, z) | (Inr _, z) \<Rightarrow> (None, z))"

fun backup_serve ::
  "'s backup_service \<Rightarrow> backup_env \<Rightarrow> Principal \<Rightarrow> backup_op \<Rightarrow> 's backup_state \<Rightarrow> backup_error option \<times> 's backup_state" where
  "backup_serve sv env p (BRegister c) z = answer (RegisterDevice sv env p c z)"
| "backup_serve sv env p (BRevoke i) z = answer (RevokeDevice env p i z)"
| "backup_serve sv env p (BInitiate c) z = answer (Initiate sv env (c\<lparr>ic_Principal := p\<rparr>) z)"
| "backup_serve sv env p (BUploadChunk i k body n h) z = answer (UploadChunk sv env p i k body n h z)"
| "backup_serve sv env p (BUploadManifest i body n h) z = answer (UploadManifest sv env p i body n h z)"
| "backup_serve sv env p (BSeal i) z = answer (Seal_backup sv env p i z)"
| "backup_serve sv env p (BDownload i ob) z = answer (Download sv env p i ob z)"
| "backup_serve sv env p (BShare i v k x h) z = answer (AddDeviceEnvelope sv env p i v k x h z)"
| "backup_serve sv env p (BDelete i) z = answer (Delete_service sv env p i z)"

lemma reads_simp [simp]: "reads r z = (x, z') \<longleftrightarrow> r = x \<and> z = z'"
  by (auto simp: reads_def)

lemma commits_iff: "commits r z = (x, z') \<longleftrightarrow> (\<exists>d. r = (x, d) \<and> z' = z\<lparr>bz_db := d\<rparr>)"
  by (cases r) (auto simp: commits_def)

lemma commits_unit_cases:
  assumes "commits_unit r z = (x, z')"
  obtains y d where "r = (y, d)" "z' = z\<lparr>bz_db := d\<rparr>" "x = (case y of None \<Rightarrow> Inr () | Some e \<Rightarrow> Inl e)"
  using assms by (cases r) (auto simp: commits_unit_def split: option.splits)

lemma upload_writes:
  assumes "upload sv env p target body n h z = (x, z')"
  shows "backup_write\<^sup>*\<^sup>* (bz_db z) (bz_db z')"
  using assms unfolding upload_def
  by (auto elim!: proceed_cases commits_unit_cases dest!: mark_uploading_writes simp: stores_def
      split: option.splits sum.splits prod.splits)

lemma initiate_service_writes:
  assumes "Initiate sv env c z = (x, z')"
  shows "backup_write\<^sup>*\<^sup>* (bz_db z) (bz_db z')"
proof -
  have "backup_write\<^sup>*\<^sup>* (bz_db z) d" if "read_BackupDevice (be_device env) u v k (bz_db z) = Inr device" "bv_Status device = ''active''"
      "Initiate_record f (initiate_record sv now i device c) (bz_db z) = (y, d)" for u v k device f now i y d
  proof (rule initiate_writes [OF that(3)])
    show "enrolled (er_BackupDeviceID (ird_SourceDeviceEnvelope (initiate_record sv now i device c))) (bz_db z)"
      using that(1,2) by (auto simp: read_BackupDevice_def andthen_Inr initiate_record_def Let_def enrolled_def scanBackupDevice_def dest!: find_Some_in)
  qed (simp_all add: initiate_record_def Let_def)
  then show ?thesis using assms
    by (auto simp: Initiate_def Let_def commits_iff RandomUUID_def elim!: proceed_cases split: option.splits)
qed

lemma serve_writes:
  assumes "backup_serve sv env p op z = (x, z')" "vault_ok (bz_db z)"
  shows "backup_write\<^sup>*\<^sup>* (bz_db z) (bz_db z')"
proof -
  have fin: "\<exists>y. r = (y, z')" if "answer r = (x, z')" for r :: "(backup_error + 'b) \<times> 'a backup_state"
    using that by (cases r) (auto simp: answer_def split: sum.splits)
  show ?thesis
  proof (cases op)
    case (BRegister c)
    with assms fin [of "RegisterDevice sv env p c z"] show ?thesis
      by (auto simp: RegisterDevice_def Let_def commits_iff elim!: proceed_cases dest!: register_writes)
  next
    case (BRevoke i)
    with assms fin [of "RevokeDevice env p i z"] show ?thesis
      by (auto simp: RevokeDevice_def elim!: proceed_cases commits_unit_cases dest!: revoke_device_writes)
  next
    case (BInitiate c)
    with assms fin [of "Initiate sv env (c\<lparr>ic_Principal := p\<rparr>) z"] show ?thesis by (auto dest: initiate_service_writes)
  next
    case (BUploadChunk i k body n h)
    with assms fin [of "UploadChunk sv env p i k body n h z"] show ?thesis
      by (auto simp: UploadChunk_def elim!: proceed_cases dest!: upload_writes)
  next
    case (BUploadManifest i body n h)
    with assms fin [of "UploadManifest sv env p i body n h z"] show ?thesis
      by (auto simp: UploadManifest_def elim!: proceed_cases dest!: upload_writes)
  next
    case (BSeal i)
    have sealing: "bz_db z'' = bz_db z" if "sealing r z = (y, z'')" for r y and z'' :: "'a backup_state"
      using that by (auto simp: sealing_def split: prod.splits)
    from BSeal assms fin [of "Seal_backup sv env p i z"] show ?thesis
      by (auto simp: Seal_backup_def Let_def commits_iff elim!: proceed_cases split: if_splits dest!: seal_writes sealing)
  next
    case (BDownload i ob)
    with assms fin [of "Download sv env p i ob z"] show ?thesis
      by (auto simp: Download_def stores_def elim!: proceed_cases split: option.splits sum.splits prod.splits)
  next
    case (BShare i v k e h)
    with assms fin [of "AddDeviceEnvelope sv env p i v k e h z"] show ?thesis
      by (auto simp: AddDeviceEnvelope_def Let_def commits_iff RandomUUID_def elim!: proceed_cases split: option.splits dest!: add_envelope_writes)
  next
    case (BDelete i)
    with assms fin [of "Delete_service sv env p i z"] show ?thesis
      by (auto simp: Delete_service_def Let_def commits_iff elim!: proceed_cases commits_unit_cases split: option.splits prod.splits
          dest!: begin_deletion_writes complete_deletion_writes intro: rtranclp_trans)
  qed
qed

section \<open>Reachable states\<close>

text \<open>A step is a call of the service or a pass of the maintenance, with whatever it meets; a change of other tables by
  other components; or the loss of registrations without key envelopes, when their device is deleted.\<close>

definition same_backup_tables :: "db \<Rightarrow> db \<Rightarrow> bool" where
  "same_backup_tables d d' \<longleftrightarrow> encrypted_profile_backups d' = encrypted_profile_backups d \<and> backup_devices d' = backup_devices d
     \<and> encrypted_backup_chunks d' = encrypted_backup_chunks d
     \<and> encrypted_backup_key_envelopes d' = encrypted_backup_key_envelopes d
     \<and> encrypted_backup_operations d' = encrypted_backup_operations d"

inductive backup_step :: "'s backup_service \<Rightarrow> 's backup_state \<Rightarrow> 's backup_state \<Rightarrow> bool" for sv where
  call: "backup_serve sv env p op z = (x, z') \<Longrightarrow> backup_step sv z z'"
| maintain: "EncryptedBackup_Run (bs_objects sv) env now z = (y, z') \<Longrightarrow> backup_step sv z z'"
| elsewhere: "same_backup_tables (bz_db z) d \<Longrightarrow> backup_step sv z (z\<lparr>bz_db := d\<rparr>)"
| forget: "(\<And>v e. P v \<Longrightarrow> e \<in> set (encrypted_backup_key_envelopes (bz_db z)) \<Longrightarrow> ee_backup_device_id e \<noteq> bd_id v) \<Longrightarrow>
    backup_step sv z (z\<lparr>bz_db := (bz_db z)\<lparr>backup_devices := delete_where P (backup_devices (bz_db z))\<rparr>\<rparr>)"

definition no_backups :: "'s backup_state \<Rightarrow> bool" where
  "no_backups z \<longleftrightarrow> encrypted_profile_backups (bz_db z) = [] \<and> backup_devices (bz_db z) = [] \<and> encrypted_backup_chunks (bz_db z) = []
     \<and> encrypted_backup_key_envelopes (bz_db z) = [] \<and> encrypted_backup_operations (bz_db z) = []"

lemma no_backups_ok: "no_backups z \<Longrightarrow> vault_ok (bz_db z)"
  by (simp add: no_backups_def vault_ok_def backups_ok_def envelopes_ok_def sealed_bytes_def account_quota_def)

lemma step_keeps:
  assumes "backup_step sv z z'" "vault_ok (bz_db z)"
  shows "vault_ok (bz_db z')" "q \<in> set (encrypted_profile_backups (bz_db z)) \<Longrightarrow> \<exists>q'\<in>set (encrypted_profile_backups (bz_db z')). evolves q q'"
    "q \<in> set (encrypted_profile_backups (bz_db z)) \<Longrightarrow> \<not> uploading_state (eb_state q) \<Longrightarrow>
       chunks_of (eb_id q) (bz_db z') = chunks_of (eb_id q) (bz_db z)"
proof -
  have "vault_ok (bz_db z') \<and> (\<forall>q\<in>set (encrypted_profile_backups (bz_db z)). (\<exists>q'\<in>set (encrypted_profile_backups (bz_db z')). evolves q q')
      \<and> (\<not> uploading_state (eb_state q) \<longrightarrow> chunks_of (eb_id q) (bz_db z') = chunks_of (eb_id q) (bz_db z)))"
    using assms
  proof (induction rule: backup_step.induct)
    case (call env p op z x z')
    from writes_keep [OF serve_writes [OF call]] call(2) show ?case by blast
  next
    case (maintain env now z y z')
    from writes_keep [OF maintenance_writes [OF maintain(1)] maintain(2)] show ?case by blast
  next
    case (elsewhere z d)
    then show ?case
      by (auto simp: same_backup_tables_def vault_ok_def envelopes_ok_def alive_def enrolled_def chunks_of_def)
  next
    case (forget P z)
    let ?d = "(bz_db z)\<lparr>backup_devices := delete_where P (backup_devices (bz_db z))\<rparr>"
    have "enrolled (ee_backup_device_id e) ?d" if "e \<in> set (encrypted_backup_key_envelopes (bz_db z))" "enrolled (ee_backup_device_id e) (bz_db z)" for e
      using that forget(1) by (force simp: enrolled_def set_delete_where)
    moreover have "distinct (map bd_id (delete_where P (backup_devices (bz_db z))))"
      using forget(2) by (simp add: vault_ok_def delete_where_def distinct_map_filter_key)
    ultimately show ?case using forget(2)
      by (auto simp: vault_ok_def envelopes_ok_def alive_def chunks_of_def)
  qed
  then show "vault_ok (bz_db z')" "q \<in> set (encrypted_profile_backups (bz_db z)) \<Longrightarrow> \<exists>q'\<in>set (encrypted_profile_backups (bz_db z')). evolves q q'"
    "q \<in> set (encrypted_profile_backups (bz_db z)) \<Longrightarrow> \<not> uploading_state (eb_state q) \<Longrightarrow>
       chunks_of (eb_id q) (bz_db z') = chunks_of (eb_id q) (bz_db z)"
    by auto
qed

lemma run_keeps:
  assumes "(backup_step sv)\<^sup>*\<^sup>* z z'" "vault_ok (bz_db z)"
  shows "vault_ok (bz_db z')"
    "q \<in> set (encrypted_profile_backups (bz_db z)) \<Longrightarrow> \<exists>q'\<in>set (encrypted_profile_backups (bz_db z')). evolves q q'
       \<and> (\<not> uploading_state (eb_state q) \<longrightarrow> chunks_of (eb_id q) (bz_db z') = chunks_of (eb_id q) (bz_db z))"
proof -
  have "vault_ok (bz_db z') \<and> (\<forall>q\<in>set (encrypted_profile_backups (bz_db z)). \<exists>q'\<in>set (encrypted_profile_backups (bz_db z')). evolves q q'
      \<and> (\<not> uploading_state (eb_state q) \<longrightarrow> chunks_of (eb_id q) (bz_db z') = chunks_of (eb_id q) (bz_db z)))"
    using assms
  proof (induction rule: rtranclp_induct)
    case base
    then show ?case using evolves_refl by blast
  next
    case (step b c)
    then have b: "vault_ok (bz_db b)" by simp
    have "\<exists>q'\<in>set (encrypted_profile_backups (bz_db c)). evolves q q'
        \<and> (\<not> uploading_state (eb_state q) \<longrightarrow> chunks_of (eb_id q) (bz_db c) = chunks_of (eb_id q) (bz_db z))"
      if q: "q \<in> set (encrypted_profile_backups (bz_db z))" for q
    proof -
      from step q obtain r where r: "r \<in> set (encrypted_profile_backups (bz_db b))" "evolves q r"
          "\<not> uploading_state (eb_state q) \<Longrightarrow> chunks_of (eb_id q) (bz_db b) = chunks_of (eb_id q) (bz_db z)" by blast
      from step_keeps(2) [OF step(2) b r(1)] obtain q' where q': "q' \<in> set (encrypted_profile_backups (bz_db c))" "evolves r q'" by blast
      have "eb_id r = eb_id q" "uploading_state (eb_state r) \<Longrightarrow> uploading_state (eb_state q)"
        using r(2) leads_uploading same_identity_fields(1) by (auto simp: evolves_def)
      with step_keeps(3) [OF step(2) b r(1)] r(3) have
        "\<not> uploading_state (eb_state q) \<longrightarrow> chunks_of (eb_id q) (bz_db c) = chunks_of (eb_id q) (bz_db z)" by metis
      with q' evolves_trans [OF r(2) q'(2)] show ?thesis by blast
    qed
    with step_keeps(1) [OF step(2) b] show ?case by blast
  qed
  then show "vault_ok (bz_db z')"
    "q \<in> set (encrypted_profile_backups (bz_db z)) \<Longrightarrow> \<exists>q'\<in>set (encrypted_profile_backups (bz_db z')). evolves q q'
       \<and> (\<not> uploading_state (eb_state q) \<longrightarrow> chunks_of (eb_id q) (bz_db z') = chunks_of (eb_id q) (bz_db z))"
    by auto
qed

lemma live_columns:
  "lifecycle_check q \<Longrightarrow> \<not> erased (eb_state q) \<Longrightarrow> eb_recovery_root_key_envelope q \<noteq> None \<and> eb_wrapped_data_key q \<noteq> None"
  by (cases "eb_state q") (simp_all add: lifecycle_check_def erased_def)

lemma erased_columns:
  assumes "vault_ok d" "q \<in> set (encrypted_profile_backups d)" "erased (eb_state q)"
  shows "eb_recovery_root_key_envelope q = None" "eb_wrapped_data_key q = None"
    "\<forall>e\<in>set (encrypted_backup_key_envelopes d). ee_backup_id e = eb_id q \<longrightarrow> ee_root_key_envelope e = None"
proof -
  have "lifecycle_check q" using assms(1,2) by (auto simp: vault_ok_def backups_ok_def backup_checks_def)
  with assms(3) show "eb_recovery_root_key_envelope q = None" "eb_wrapped_data_key q = None"
    by (auto simp: lifecycle_check_def erased_def)
  have "\<not> alive (eb_id q) d"
  proof
    assume "alive (eb_id q) d"
    then obtain r where "r \<in> set (encrypted_profile_backups d)" "eb_id r = eb_id q" "\<not> erased (eb_state r)" by (auto simp: alive_def)
    moreover have "distinct (map eb_id (encrypted_profile_backups d))" using assms(1) by (simp add: vault_ok_def backups_ok_def)
    ultimately show False using assms(2,3) by (metis distinct_key_eq)
  qed
  with assms(1) show "\<forall>e\<in>set (encrypted_backup_key_envelopes d). ee_backup_id e = eb_id q \<longrightarrow> ee_root_key_envelope e = None"
    by (auto simp: vault_ok_def envelopes_ok_def)
qed

text \<open>
  C11. Invariant of the backups. In every state the service and the maintenance reach, whatever other components do
  to the other tables: a lineage has at most one running upload and at most three sealed backups, the sealed
  backups of an account have at most 5 GiB, a backup that is deleted, being deleted or expired has no recovery
  material left in any table, one that is not has it, and a key envelope that still holds a key is for a
  registered device that is not revoked.
\<close>

theorem backup_invariant:
  assumes "no_backups z0" "(backup_step sv)\<^sup>*\<^sup>* z0 z" "d = bz_db z"
  shows "(\<forall>q\<in>set (encrypted_profile_backups d). \<forall>r\<in>set (encrypted_profile_backups d).
        eb_state q \<in> {Initiated, Uploading} \<and> eb_state r \<in> {Initiated, Uploading} \<and> eb_user_id q = eb_user_id r
        \<and> eb_profile_lineage_id q = eb_profile_lineage_id r \<longrightarrow> eb_id q = eb_id r)
    \<and> (\<forall>u l. length (lineage_sealed u l d) \<le> 3) \<and> (\<forall>u. sealed_bytes u (encrypted_profile_backups d) \<le> 5 * 2 ^ 30)
    \<and> (\<forall>q\<in>set (encrypted_profile_backups d). if eb_state q \<in> {Deleting, Deleted, Expired}
        then eb_recovery_root_key_envelope q = None \<and> eb_wrapped_data_key q = None
          \<and> (\<forall>e\<in>set (encrypted_backup_key_envelopes d). ee_backup_id e = eb_id q \<longrightarrow> ee_root_key_envelope e = None)
        else eb_recovery_root_key_envelope q \<noteq> None \<and> eb_wrapped_data_key q \<noteq> None)
    \<and> (\<forall>e\<in>set (encrypted_backup_key_envelopes d). ee_root_key_envelope e \<noteq> None
        \<longrightarrow> (\<exists>v\<in>set (backup_devices d). bd_id v = ee_backup_device_id e \<and> bd_status v = ''active''))"
proof -
  have ok: "vault_ok d" using run_keeps(1) [OF assms(2) no_backups_ok [OF assms(1)]] assms(3) by simp
  then have b: "backups_ok (encrypted_profile_backups d)" by (simp add: vault_ok_def)
  have upload: "\<forall>q\<in>set (encrypted_profile_backups d). \<forall>r\<in>set (encrypted_profile_backups d).
      eb_state q \<in> {Initiated, Uploading} \<and> eb_state r \<in> {Initiated, Uploading} \<and> eb_user_id q = eb_user_id r
      \<and> eb_profile_lineage_id q = eb_profile_lineage_id r \<longrightarrow> eb_id q = eb_id r"
  proof (intro ballI impI, rule ccontr)
    fix q r
    assume a: "q \<in> set (encrypted_profile_backups d)" "r \<in> set (encrypted_profile_backups d)"
      "eb_state q \<in> {Initiated, Uploading} \<and> eb_state r \<in> {Initiated, Uploading} \<and> eb_user_id q = eb_user_id r
        \<and> eb_profile_lineage_id q = eb_profile_lineage_id r" "eb_id q \<noteq> eb_id r"
    then have "upload_conflict r (encrypted_profile_backups d)" unfolding upload_conflict_iff uploading_state_def by blast
    with b a(2) show False by (simp add: backups_ok_def)
  qed
  have "lifecycle_check q" if "q \<in> set (encrypted_profile_backups d)" for q
    using b that by (auto simp: backups_ok_def backup_checks_def)
  then have keys: "\<forall>q\<in>set (encrypted_profile_backups d). if eb_state q \<in> {Deleting, Deleted, Expired}
      then eb_recovery_root_key_envelope q = None \<and> eb_wrapped_data_key q = None
        \<and> (\<forall>e\<in>set (encrypted_backup_key_envelopes d). ee_backup_id e = eb_id q \<longrightarrow> ee_root_key_envelope e = None)
      else eb_recovery_root_key_envelope q \<noteq> None \<and> eb_wrapped_data_key q \<noteq> None"
    using erased_columns [OF ok] live_columns by (simp add: erased_def)
  have quota: "length (lineage_sealed u l d) \<le> 3" "sealed_bytes u (encrypted_profile_backups d) \<le> 5 * 2 ^ 30" for u l
    using b by (auto simp: backups_ok_def lineage_sealed_def lineage_quota_def account_quota_def)
  have "\<forall>e\<in>set (encrypted_backup_key_envelopes d). ee_root_key_envelope e \<noteq> None
      \<longrightarrow> (\<exists>v\<in>set (backup_devices d). bd_id v = ee_backup_device_id e \<and> bd_status v = ''active'')"
    using ok by (simp add: vault_ok_def envelopes_ok_def enrolled_def)
  with upload keys quota show ?thesis by (intro conjI allI) blast+
qed

text \<open>
  C12. Erasure is final. Once a backup is being deleted, deleted or expired, it stays so whatever calls and
  maintenance follow, and neither its row nor any key envelope of it ever holds recovery material again.
\<close>

theorem backup_erasure_final:
  assumes "no_backups z0" "(backup_step sv)\<^sup>*\<^sup>* z0 z" "q \<in> set (encrypted_profile_backups (bz_db z))"
    and "eb_state q \<in> {Deleting, Deleted, Expired}" "(backup_step sv)\<^sup>*\<^sup>* z z'"
  shows "\<exists>q'\<in>set (encrypted_profile_backups (bz_db z')). eb_id q' = eb_id q \<and> eb_state q' \<in> {Deleting, Deleted, Expired}
    \<and> eb_recovery_root_key_envelope q' = None \<and> eb_wrapped_data_key q' = None
    \<and> (\<forall>e\<in>set (encrypted_backup_key_envelopes (bz_db z')). ee_backup_id e = eb_id q \<longrightarrow> ee_root_key_envelope e = None)"
proof -
  have ok: "vault_ok (bz_db z)" using run_keeps(1) [OF assms(2) no_backups_ok [OF assms(1)]] .
  obtain q' where q': "q' \<in> set (encrypted_profile_backups (bz_db z'))" "evolves q q'"
    using run_keeps(2) [OF assms(5) ok assms(3)] by blast
  have e: "erased (eb_state q')" using q'(2) assms(4) leads_erased by (auto simp: evolves_def erased_def)
  have i: "eb_id q' = eb_id q" using q'(2) by (simp add: evolves_def same_identity_fields)
  from erased_columns [OF run_keeps(1) [OF assms(5) ok] q'(1) e] e q'(1) i show ?thesis by (auto simp: erased_def)
qed

text \<open>
  C13. A sealed backup is immutable. Whatever calls and maintenance follow the sealing of a backup, its row is the
  same in every column as long as it is sealed; afterwards it is being deleted or deleted, with the signed columns
  unchanged; and its inventory of ciphertext objects never changes.
\<close>

theorem sealed_backup_immutable:
  assumes "no_backups z0" "(backup_step sv)\<^sup>*\<^sup>* z0 z" "q \<in> set (encrypted_profile_backups (bz_db z))"
    and "eb_state q = Sealed" "(backup_step sv)\<^sup>*\<^sup>* z z'"
  shows "\<exists>q'\<in>set (encrypted_profile_backups (bz_db z')). (eb_state q' = Sealed \<and> q' = q \<or> eb_state q' \<in> {Deleting, Deleted})
    \<and> eb_id q' = eb_id q \<and> eb_user_id q' = eb_user_id q \<and> eb_public_envelope_digest q' = eb_public_envelope_digest q
    \<and> eb_public_signature q' = eb_public_signature q \<and> eb_manifest_object_key q' = eb_manifest_object_key q
    \<and> eb_manifest_ciphertext_digest q' = eb_manifest_ciphertext_digest q
    \<and> chunks_of (eb_id q) (bz_db z') = chunks_of (eb_id q) (bz_db z)"
proof -
  have ok: "vault_ok (bz_db z)" using run_keeps(1) [OF assms(2) no_backups_ok [OF assms(1)]] .
  obtain q' where q': "q' \<in> set (encrypted_profile_backups (bz_db z'))" "evolves q q'"
      "chunks_of (eb_id q) (bz_db z') = chunks_of (eb_id q) (bz_db z)"
    using run_keeps(2) [OF assms(5) ok assms(3)] assms(4) by (auto simp: uploading_not)
  have same: "same_identity q q'" using q'(2) by (simp add: evolves_def)
  note c = arg_cong [OF same [unfolded same_identity_def]]
  have "eb_public_envelope_digest q' = eb_public_envelope_digest q" "eb_public_signature q' = eb_public_signature q"
    "eb_manifest_object_key q' = eb_manifest_object_key q" "eb_manifest_ciphertext_digest q' = eb_manifest_ciphertext_digest q"
    using c [of eb_public_envelope_digest] c [of eb_public_signature] c [of eb_manifest_object_key] c [of eb_manifest_ciphertext_digest]
    by simp_all
  moreover have "eb_state q' = Sealed \<and> q' = q \<or> eb_state q' \<in> {Deleting, Deleted}"
    using q'(2) assms(4) by (auto simp: evolves_def leads_def uploading_not)
  ultimately show ?thesis using q'(1,3) same_identity_fields [OF same] by auto
qed

section \<open>Examples\<close>

lemma sample_empty: "no_backups sample_vault"
  by (simp add: no_backups_def sample_vault_def sample_db_def empty_db_def)

lemma sample_step:
  "backup_serve sample_backups env p op z = (x, z') \<Longrightarrow> (backup_step sample_backups)\<^sup>*\<^sup>* z0 z \<Longrightarrow> (backup_step sample_backups)\<^sup>*\<^sup>* z0 z'"
  by (rule rtranclp.rtrancl_into_rtrancl) (auto intro: backup_step.call)

lemma sample_run: "(backup_step sample_backups)\<^sup>*\<^sup>* sample_vault (vault_in Sealed full_bucket)"
proof -
  obtain x y where x: "Initiate sample_backups sample_backup_env sample_initiate registered_vault = (Inr x, initiated_vault)"
    and y: "Seal_backup sample_backups sample_backup_env sample_principal 50 (vault_in Uploading full_bucket) = (Inr y, vault_in Sealed full_bucket)"
    using sample_initiated sample_sealed by blast
  have p: "sample_initiate\<lparr>ic_Principal := sample_principal\<rparr> = sample_initiate" by (simp add: sample_initiate_def)
  have "(backup_step sample_backups)\<^sup>*\<^sup>* sample_vault registered_vault"
    by (rule sample_step [of sample_backup_env sample_principal "BRegister sample_register" sample_vault None]) (simp_all add: answer_def sample_registered)
  then have "(backup_step sample_backups)\<^sup>*\<^sup>* sample_vault (vault_in Initiated [])"
    by (rule sample_step [of sample_backup_env sample_principal "BInitiate sample_initiate", rotated]) (simp add: answer_def p x initiated_vault_in)
  then have "(backup_step sample_backups)\<^sup>*\<^sup>* sample_vault (vault_in Uploading [sample_item (CHR ''c'')])"
    by (rule sample_step [of sample_backup_env sample_principal "BUploadChunk 50 0 (Some (sample_body (CHR ''c''))) 20 (fit 32 (replicate 20 (CHR ''c'')))", rotated])
      (simp add: answer_def sample_chunk_uploaded)
  then have "(backup_step sample_backups)\<^sup>*\<^sup>* sample_vault (vault_in Uploading full_bucket)"
    by (rule sample_step [of sample_backup_env sample_principal "BUploadManifest 50 (Some (sample_body (CHR ''a''))) 20 (fit 32 (replicate 20 (CHR ''a'')))", rotated])
      (simp add: answer_def sample_manifest_uploaded)
  then show ?thesis
    by (rule sample_step [of sample_backup_env sample_principal "BSeal 50", rotated]) (simp add: answer_def y)
qed

lemma sample_backup_deletion:
  obtains z where "(backup_step sample_backups)\<^sup>*\<^sup>* (vault_in Sealed full_bucket) z" "encrypted_profile_backups (bz_db z) = [sample_row Deleted]"
proof -
  obtain z where z: "Delete_service sample_backups sample_backup_env sample_principal 50 (vault_in Sealed full_bucket) = (Inr (), z)"
    "encrypted_profile_backups (bz_db z) = [sample_row Deleted]" using sample_deleted by blast
  have "(backup_step sample_backups)\<^sup>*\<^sup>* (vault_in Sealed full_bucket) z"
    by (rule sample_step [of sample_backup_env sample_principal "BDelete 50" "vault_in Sealed full_bucket" None]) (simp_all add: answer_def z)
  with z(2) show thesis using that by blast
qed

theorem backup_invariant_witness:
  "eb_state (sample_row Sealed) = Sealed \<and> length (lineage_sealed 1 51 (bz_db (vault_in Sealed full_bucket))) \<le> 3
   \<and> sealed_bytes 1 (encrypted_profile_backups (bz_db (vault_in Sealed full_bucket))) \<le> 5 * 2 ^ 30"
  using backup_invariant [OF sample_empty sample_run refl] by (intro conjI) (simp, blast+)

theorem backup_erasure_final_witness:
  "\<exists>z q'. (backup_step sample_backups)\<^sup>*\<^sup>* sample_vault z \<and> encrypted_profile_backups (bz_db z) = [sample_row Deleted]
     \<and> q' \<in> set (encrypted_profile_backups (bz_db z)) \<and> eb_id q' = 50 \<and> eb_state q' \<in> {Deleting, Deleted, Expired} \<and> eb_wrapped_data_key q' = None"
proof -
  obtain z where z: "(backup_step sample_backups)\<^sup>*\<^sup>* (vault_in Sealed full_bucket) z" "encrypted_profile_backups (bz_db z) = [sample_row Deleted]"
    by (rule sample_backup_deletion)
  have r: "(backup_step sample_backups)\<^sup>*\<^sup>* sample_vault z" using sample_run z(1) by (rule rtranclp_trans)
  have "\<exists>q'\<in>set (encrypted_profile_backups (bz_db z)). eb_id q' = 50 \<and> eb_state q' \<in> {Deleting, Deleted, Expired} \<and> eb_wrapped_data_key q' = None"
    using backup_erasure_final [OF sample_empty r, of "sample_row Deleted" z] z(2) by auto
  with r z(2) show ?thesis by blast
qed

theorem sealed_backup_immutable_witness:
  "\<exists>z q'. (backup_step sample_backups)\<^sup>*\<^sup>* (vault_in Sealed full_bucket) z \<and> q' \<in> set (encrypted_profile_backups (bz_db z))
     \<and> eb_state q' \<in> {Deleting, Deleted} \<and> eb_public_signature q' = eb_public_signature (sample_row Sealed)
     \<and> chunks_of 50 (bz_db z) = chunks_of 50 (bz_db (vault_in Sealed full_bucket))"
proof -
  obtain z where z: "(backup_step sample_backups)\<^sup>*\<^sup>* (vault_in Sealed full_bucket) z" "encrypted_profile_backups (bz_db z) = [sample_row Deleted]"
    by (rule sample_backup_deletion)
  have q: "sample_row Sealed \<in> set (encrypted_profile_backups (bz_db (vault_in Sealed full_bucket)))" by simp
  from sealed_backup_immutable [OF sample_empty sample_run q sample_row_simps(3) z(1)] z(2)
  have "eb_public_signature (sample_row Deleted) = eb_public_signature (sample_row Sealed)"
    "chunks_of 50 (bz_db z) = chunks_of 50 (bz_db (vault_in Sealed full_bucket))" by simp_all
  with z show ?thesis by (intro exI [of _ z] exI [of _ "sample_row Deleted"]) simp
qed

end
