(* ===== verification/BackupFlows.thy ===== *)
theory BackupFlows
  imports BackupSafety
begin

text \<open>
  Properties of single calls of the backup service and of the maintenance: what an upload stored, what a seal
  verified, what a revocation ends, and how interrupted deletions are completed.
\<close>

lemma proceed_Inr: "proceed r k = (Inr v, s') \<longleftrightarrow> (\<exists>x s. r = (Inr x, s) \<and> k x s = (Inr v, s'))"
  by (cases r) (auto simp: proceed_def split: sum.splits)

section \<open>The object store\<close>

lemma s3_put:
  assumes "s3_laws c lower bucket" "s3_PutObject c key body bytes md s = ((Inr stored, n), s')"
  shows "bucket s key = None" "stored = int (length (take n (rd_content body)))"
    "bucket s' = (bucket s)(key \<mapsto> \<lparr>so_content = take n (rd_content body), so_digest = snd md\<rparr>)"
  using assms(1) [unfolded s3_laws_def, THEN conjunct1, rule_format, OF assms(2)] by simp_all

lemma s3_stat:
  assumes "s3_laws c lower bucket" "s3_StatObject c key s = (reply, s')"
  shows "bucket s' = bucket s"
    "reply = Inr info \<Longrightarrow> \<exists>x. bucket s key = Some x \<and> si_Size info = int (length (so_content x))
       \<and> minioUserMetadata lower info ''ciphertext-sha256'' = so_digest x"
  using assms(1) [unfolded s3_laws_def, THEN conjunct2, THEN conjunct1, rule_format, OF assms(2)] by simp_all

lemma s3_get:
  assumes "s3_laws c lower bucket" "s3_GetObject c key s = (reply, s')"
  shows "bucket s' = bucket s" "reply = Inr body \<Longrightarrow> map_option so_content (bucket s key) = Some body"
  using assms(1) [unfolded s3_laws_def, THEN conjunct2, THEN conjunct2, THEN conjunct1, rule_format, OF assms(2)] by simp_all

lemma s3_remove:
  assumes "s3_laws c lower bucket" "s3_RemoveObject c key s = (reply, s')"
  shows "bucket s' = (bucket s)(key := None) \<or> bucket s' = bucket s"
    "reply = None \<Longrightarrow> bucket s' key = None" "reply = Some e \<Longrightarrow> isMinIONotFound e \<Longrightarrow> bucket s' key = None"
  using assms(1) [unfolded s3_laws_def, THEN conjunct2, THEN conjunct2, THEN conjunct2, rule_format, OF assms(2)] by simp_all

lemma Head_Inr:
  assumes "s3_laws (ms_client st) (ms_lower st) bucket" "HeadCiphertext st ref s = (x, s')"
  shows "bucket s' = bucket s"
    "x = Inr m \<Longrightarrow> cm_Key m = objectKey ref \<and> length (cm_SHA256 m) = 32
       \<and> (\<exists>y. bucket s (objectKey ref) = Some y \<and> cm_Size m = int (length (so_content y)) \<and> hex_decode (so_digest y) = Some (cm_SHA256 m))"
proof -
  obtain reply s1 where stat: "s3_StatObject (ms_client st) (objectKey ref) s = (reply, s1)"
    by (cases "s3_StatObject (ms_client st) (objectKey ref) s")
  note l = s3_stat [OF assms(1) stat]
  from assms(2) stat have s: "s' = s1"
    by (auto simp: HeadCiphertext_def split: sum.splits option.splits if_splits)
  with l(1) show "bucket s' = bucket s" by simp
  assume "x = Inr m"
  with assms(2) stat obtain info digest where i: "reply = Inr info"
      "hex_decode (minioUserMetadata (ms_lower st) info ciphertextDigestMetadataKey) = Some digest" "length digest = 32"
      "m = \<lparr>cm_Key = objectKey ref, cm_Size = si_Size info, cm_SHA256 = digest\<rparr>"
    by (auto simp: HeadCiphertext_def split: sum.splits option.splits if_splits)
  with l(2) [OF i(1)] show "cm_Key m = objectKey ref \<and> length (cm_SHA256 m) = 32
      \<and> (\<exists>y. bucket s (objectKey ref) = Some y \<and> cm_Size m = int (length (so_content y)) \<and> hex_decode (so_digest y) = Some (cm_SHA256 m))"
    by (auto simp: ciphertextDigestMetadataKey_def)
qed

lemma Put_Inr:
  assumes "s3_laws (ms_client st) (ms_lower st) bucket" "PutCiphertext st canceled ref body n digest s = (Inr m, s')"
  obtains b where "body = Some b" "n = int (length (rd_content b))" "\<not> rd_broken b" "sha256 (ms_crypto st) (rd_content b) = digest"
    "bucket s (objectKey ref) = None" "n \<le> maxCiphertextObjectBytes" "cm_Size m = n" "cm_SHA256 m = digest"
    "bucket s' = (bucket s)(objectKey ref \<mapsto> \<lparr>so_content = rd_content b, so_digest = hex_encode digest\<rparr>)"
proof -
  obtain b where b: "body = Some b" using assms(2) by (auto simp: PutCiphertext_def split: option.splits)
  obtain reply k s1 where put: "s3_PutObject (ms_client st) (objectKey ref) (limited b n) n (ciphertextDigestMetadataKey, hex_encode digest) s
      = ((reply, k), s1)" by (metis prod.exhaust)
  have size: "0 < n" "n \<le> maxCiphertextObjectBytes" using assms(2) b by (auto simp: PutCiphertext_def split: if_splits)
  have inr: "\<exists>stored. reply = Inr stored"
    using assms(2) b put size by (auto simp: PutCiphertext_def Let_def split: if_splits sum.splits prod.splits)
  then obtain stored where r: "reply = Inr stored" by blast
  let ?seen = "take k (rd_content (limited b n))"
  obtain h s2 where head: "HeadCiphertext st ref s1 = (h, s2)" by (cases "HeadCiphertext st ref s1")
  have facts: "stored = n" "int (length ?seen) = n" "drop (length ?seen) (rd_content b) = []" "\<not> rd_broken b"
      "sha256 (ms_crypto st) ?seen = digest" "h = Inr m" "s2 = s'" "cm_Size m = n" "cm_SHA256 m = digest"
    using assms(2) b put size r head
    by (auto simp: PutCiphertext_def Let_def discard_def split: if_splits sum.splits prod.splits option.splits)
  have "length ?seen \<ge> length (rd_content b)" using facts(3) by simp
  moreover have "?seen = take (min k (nat n)) (rd_content b)" by (simp add: limited_def min.commute)
  ultimately have seen: "?seen = rd_content b" by (auto simp: min_def split: if_splits)
  note l = s3_put [OF assms(1) put [unfolded r]]
  have "bucket s' = bucket s1" using Head_Inr(1) [OF assms(1) head] facts(7) by simp
  with l(3) seen have "bucket s' = (bucket s)(objectKey ref \<mapsto> \<lparr>so_content = rd_content b, so_digest = hex_encode digest\<rparr>)" by simp
  moreover have "n = int (length (rd_content b))" "sha256 (ms_crypto st) (rd_content b) = digest" using facts(2,5) seen by simp_all
  ultimately show thesis using that [OF b] facts(4,8,9) l(1) size(2) by blast
qed

text \<open>
  C15. Ciphertext is stored intact. A successful upload stored the whole body and nothing else under its own key,
  which was free before, and the body has the declared size and digest; every other object is as it was. A
  successful download afterwards returns exactly this body with this size and digest.
\<close>

theorem upload_download:
  assumes "s3_laws (ms_client st) (ms_lower st) bucket" "PutCiphertext st canceled ref body n digest s = (Inr m, s1)"
  shows "\<exists>b. body = Some b \<and> n = int (length (rd_content b)) \<and> sha256 (ms_crypto st) (rd_content b) = digest
    \<and> bucket s (objectKey ref) = None
    \<and> bucket s1 = (bucket s)(objectKey ref \<mapsto> \<lparr>so_content = rd_content b, so_digest = hex_encode digest\<rparr>)
    \<and> (\<forall>s2 x s3. bucket s2 = bucket s1 \<longrightarrow> GetCiphertext st ref s2 = (Inr x, s3) \<longrightarrow> bucket s3 = bucket s1
         \<and> cd_Body x = rd_content b \<and> cm_Size (cd_Metadata x) = n \<and> cm_SHA256 (cd_Metadata x) = digest)"
proof -
  obtain b where b: "body = Some b" "n = int (length (rd_content b))" "sha256 (ms_crypto st) (rd_content b) = digest"
      "bucket s (objectKey ref) = None" "bucket s1 = (bucket s)(objectKey ref \<mapsto> \<lparr>so_content = rd_content b, so_digest = hex_encode digest\<rparr>)"
    by (rule Put_Inr [OF assms]) blast
  have "bucket s3 = bucket s1 \<and> cd_Body x = rd_content b \<and> cm_Size (cd_Metadata x) = n \<and> cm_SHA256 (cd_Metadata x) = digest"
    if same: "bucket s2 = bucket s1" and get: "GetCiphertext st ref s2 = (Inr x, s3)" for s2 x s3
  proof -
    obtain h s4 where head: "HeadCiphertext st ref s2 = (h, s4)" by (cases "HeadCiphertext st ref s2")
    from get head obtain m' body' where g: "h = Inr m'" "s3_GetObject (ms_client st) (objectKey ref) s4 = (Inr body', s3)"
        "x = \<lparr>cd_Body = body', cd_Metadata = m'\<rparr>"
      by (auto simp: GetCiphertext_def split: sum.splits prod.splits)
    note hd = Head_Inr [OF assms(1) head] and gt = s3_get [OF assms(1) g(2)]
    from hd(1) same b(5) have "bucket s4 (objectKey ref) = Some \<lparr>so_content = rd_content b, so_digest = hex_encode digest\<rparr>" by simp
    with gt(2) [OF refl] have "body' = rd_content b" by simp
    moreover have "cm_Size m' = n \<and> cm_SHA256 m' = digest"
      using hd(2) [OF g(1)] same b(2,5) by (auto simp: hex_round_trip)
    moreover have "bucket s3 = bucket s1" using gt(1) hd(1) same by simp
    ultimately show ?thesis using g(3) by simp
  qed
  with b show ?thesis by blast
qed

section \<open>The delay between attempts\<close>

lemma retry_delay_closed:
  assumes "0 < delay"
  shows "min encryptedBackupRetryMaximum (retry_delay index attempt delay)
    = min encryptedBackupRetryMaximum (delay * 2 ^ nat (attempt - index))"
  using assms
proof (induction index attempt delay rule: retry_delay.induct)
  case (1 index attempt delay)
  show ?case
  proof (cases "index < attempt \<and> delay < encryptedBackupRetryMaximum")
    case True
    then have "nat (attempt - index) = Suc (nat (attempt - (index + 1)))" by linarith
    with True 1 show ?thesis by (simp add: retry_delay.simps [of index] mult.assoc)
  next
    case False
    have "(1::int) \<le> 2 ^ nat (attempt - index)" by simp
    then have "delay \<le> delay * 2 ^ nat (attempt - index)" using \<open>0 < delay\<close> mult_left_mono [of 1 _ delay] by simp
    with False show ?thesis by (auto simp: retry_delay.simps [of index] min_def)
  qed
qed

lemma retry_delay_bound:
  assumes "0 < delay" "delay \<le> encryptedBackupRetryMaximum"
  shows "delay \<le> retry_delay index attempt delay \<and> retry_delay index attempt delay < 2 * encryptedBackupRetryMaximum"
  using assms
proof (induction index attempt delay rule: retry_delay.induct)
  case (1 index attempt delay)
  then show ?case
    by (cases "delay * 2 \<le> encryptedBackupRetryMaximum")
      (auto simp: retry_delay.simps [of index] retry_delay.simps [of "index + 1"] encryptedBackupRetryMaximum_def)
qed

text \<open>
  C17. The delay between attempts. The loop that doubles the delay ends for every number of attempts: the delay
  before attempt \<open>n + 1\<close> is five minutes doubled \<open>n - 1\<close> times, but at most an hour, and for numbers below one it is
  five minutes; no value the loop computes reaches two hours, so nothing overflows.
\<close>

theorem retry_delay_total:
  "encryptedBackupRetryDelay attempt = min hour (5 * minute * 2 ^ nat (attempt - 1))
   \<and> 5 * minute \<le> encryptedBackupRetryDelay attempt \<and> encryptedBackupRetryDelay attempt \<le> hour
   \<and> retry_delay 1 (if attempt < 1 then 1 else attempt) encryptedBackupRetryBase < 2 * hour"
proof -
  let ?n = "if attempt < 1 then 1 else attempt"
  have base: "0 < encryptedBackupRetryBase" "encryptedBackupRetryBase \<le> encryptedBackupRetryMaximum"
    by (simp_all add: encryptedBackupRetryBase_def encryptedBackupRetryMaximum_def)
  have e: "encryptedBackupRetryDelay attempt = min encryptedBackupRetryMaximum (retry_delay 1 ?n encryptedBackupRetryBase)"
    by (simp add: encryptedBackupRetryDelay_def Let_def min_def)
  also have "\<dots> = min encryptedBackupRetryMaximum (encryptedBackupRetryBase * 2 ^ nat (?n - 1))"
    by (rule retry_delay_closed [OF base(1)])
  also have "nat (?n - 1) = nat (attempt - 1)" by simp
  finally have c: "encryptedBackupRetryDelay attempt = min hour (5 * minute * 2 ^ nat (attempt - 1))"
    by (simp add: encryptedBackupRetryBase_def encryptedBackupRetryMaximum_def)
  have b: "encryptedBackupRetryBase \<le> retry_delay 1 ?n encryptedBackupRetryBase"
      "retry_delay 1 ?n encryptedBackupRetryBase < 2 * encryptedBackupRetryMaximum"
    using retry_delay_bound [OF base] by blast+
  have "5 * minute \<le> encryptedBackupRetryDelay attempt" "encryptedBackupRetryDelay attempt \<le> hour"
    unfolding e using b(1) base(2) by (simp_all add: encryptedBackupRetryBase_def encryptedBackupRetryMaximum_def)
  with b(2) c show ?thesis by (simp add: encryptedBackupRetryMaximum_def)
qed

section \<open>The maintenance lease\<close>

lemma Lease_Acquire_True:
  assumes "Lease_Acquire fails now key owner ttl r = (Inr True, r')"
  shows "fst (maintenance_acquire now key owner ttl r)" "r' = snd (maintenance_acquire now key owner ttl r)"
    "TrimSpace key \<noteq> []" "TrimSpace owner \<noteq> []" "0 < ttl"
  using assms by (auto simp: Lease_Acquire_def split: if_splits prod.splits)

text \<open>
  C16. Maintenance is exclusive. A pass changes the state of the maintenance only when nobody held the lease. While
  the lease of a runner lasts every pass of any runner ends at once without an effect. After a pass whose release
  reached Redis within the lease, the lease is free again.
\<close>

theorem maintenance_exclusive:
  assumes "Lease_Acquire fails t0 maintenanceLeaseName (ru_owner ru) (ru_leaseTTL ru) r = (Inr True, r1)" "ru_leaseTTL ru mod millisecond = 0"
  shows "maintenance_holder t0 r maintenanceLeaseName = None
    \<and> (\<forall>other (stage :: 's stage) env s. t0 \<le> pv_acquired_at env \<longrightarrow> pv_acquired_at env < t0 + ru_leaseTTL ru \<longrightarrow>
         RunOnce other stage env (r1, s) \<in> {(None, r1, s), (Some LeaseUnavailable, r1, s)})
    \<and> (\<forall>(stage :: 's stage) env s t. pv_acquired_at env = t0 \<longrightarrow> \<not> pv_acquire_fails env \<longrightarrow> \<not> pv_release_fails env \<longrightarrow>
         t0 \<le> pv_released_at env \<longrightarrow> pv_released_at env < t0 + ru_leaseTTL ru \<longrightarrow>
         RunOnce ru stage env (r, s) = (fst (stage (pv_now env) s), maintenance_release (pv_released_at env) maintenanceLeaseName (ru_owner ru) r1,
           snd (stage (pv_now env) s))
         \<and> maintenance_holder t (fst (snd (RunOnce ru stage env (r, s)))) maintenanceLeaseName = None)"
proof -
  note a = Lease_Acquire_True [OF assms(1)]
  have free: "maintenance_holder t0 r maintenanceLeaseName = None"
    using a(1) maintenance.acquire_held by (cases "maintenance_holder t0 r maintenanceLeaseName") auto
  have others: "RunOnce other stage env (r1, s) \<in> {(None, r1, s), (Some LeaseUnavailable, r1, s)}"
    if "t0 \<le> pv_acquired_at env" "pv_acquired_at env < t0 + ru_leaseTTL ru"
    for other :: runner and stage :: "'s stage" and env s
    using maintenance.exclusive [OF a(1) that assms(2)] a(2) by (auto simp: RunOnce_def Lease_Acquire_def)
  have own: "RunOnce ru stage env (r, s) = (fst (stage (pv_now env) s),
        maintenance_release (pv_released_at env) maintenanceLeaseName (ru_owner ru) r1, snd (stage (pv_now env) s))
      \<and> maintenance_holder t (fst (snd (RunOnce ru stage env (r, s)))) maintenanceLeaseName = None"
    if "pv_acquired_at env = t0" "\<not> pv_acquire_fails env" "\<not> pv_release_fails env" "t0 \<le> pv_released_at env"
      "pv_released_at env < t0 + ru_leaseTTL ru" for stage :: "'s stage" and env s t
  proof -
    have acq: "Lease_Acquire (pv_acquire_fails env) (pv_acquired_at env) maintenanceLeaseName (ru_owner ru) (ru_leaseTTL ru) r = (Inr True, r1)"
      using a that(1,2) by (auto simp: Lease_Acquire_def split: prod.splits)
    then have run: "RunOnce ru stage env (r, s) = (fst (stage (pv_now env) s),
        maintenance_release (pv_released_at env) maintenanceLeaseName (ru_owner ru) r1, snd (stage (pv_now env) s))"
      using a(3,4) that(3) by (simp add: RunOnce_def Lease_Release_def split: prod.splits)
    have "maintenance_holder (pv_released_at env) r1 maintenanceLeaseName = Some (ru_owner ru)"
      unfolding a(2) by (rule maintenance.acquired_holds [OF free that(4,5) assms(2)])
    then have "maintenance_holder t (maintenance_release (pv_released_at env) maintenanceLeaseName (ru_owner ru) r1) maintenanceLeaseName = None"
      by (rule maintenance.release_own)
    with run show ?thesis by simp
  qed
  from free others own show ?thesis by blast
qed

section \<open>Revocation and retention\<close>

lemma RevokeDevice_Inr:
  assumes "RevokeDevice env p v z = (Inr (), z')" "w \<in> set (backup_devices (bz_db z'))" "bd_user_id w = pr_UserID p" "bd_device_id w = v"
  shows "bd_status w \<noteq> ''active''"
proof -
  obtain d where d: "RevokeBackupDevice (be_write env) (pr_UserID p) v (be_now env) (bz_db z) = (None, d)" "z' = z\<lparr>bz_db := d\<rparr>"
    using assms(1) by (auto simp: RevokeDevice_def elim!: proceed_cases commits_unit_cases split: option.splits)
  let ?target = "\<lambda>q. bd_user_id q = pr_UserID p \<and> bd_device_id q = v \<and> bd_status q = ''active''"
  let ?g = "\<lambda>q. q\<lparr>bd_status := ''revoked'', bd_revoked_at := Some (be_now env), bd_updated_at := be_now env\<rparr>"
  have "backup_devices d = update_where ?target ?g (backup_devices (bz_db z))"
    using d(1) [unfolded RevokeBackupDevice_def]
  proof (cases rule: transaction_cases)
    case committed
    then obtain n d1 where u: "update_backup_devices ?target ?g (bz_db z) = Inr (n, d1)"
      and d1: "d = destroy_envelopes (\<lambda>e. ee_backup_device_id e \<in> set (map bd_id (filter ?target (backup_devices (bz_db z))))) (be_now env) d1"
      by (auto simp: andthen_Inr Let_def)
    show ?thesis unfolding d1 destroy_envelopes_def update_backup_devices_Inr(1) [OF u] by simp
  qed simp
  with d(2) assms(2) have "w \<in> (\<lambda>q. if ?target q then ?g q else q) ` set (backup_devices (bz_db z))" by (simp add: update_where_def)
  then obtain w0 where w0: "w = (if ?target w0 then ?g w0 else w0)" by blast
  show ?thesis
  proof (cases "?target w0")
    case False
    with w0 assms(3,4) show ?thesis by simp
  qed (simp add: w0)
qed

lemma live_source_key:
  assumes "vault_ok d" "source_key u b d = Some k"
  shows "\<exists>w\<in>set (backup_devices d). bd_user_id w = u \<and> bd_device_id w = bk_SourceDeviceID b \<and> bd_status w = ''active''"
proof -
  let ?l = "live_envelopes (bk_ID b) u (bk_SourceDeviceID b) (\<lambda>_. True) d"
  obtain e es where "filter (\<lambda>e. ee_key_epoch e = bk_KeyEpoch b) ?l = e # es"
    using assms(2) by (auto simp: source_key_def split: option.splits list.splits)
  then have "e \<in> set (filter (\<lambda>e. ee_key_epoch e = bk_KeyEpoch b) ?l)" by simp
  then have "e \<in> set ?l" by simp
  then obtain w where w: "e \<in> set (encrypted_backup_key_envelopes d)" "ee_root_key_envelope e \<noteq> None" "w \<in> set (backup_devices d)"
      "bd_id w = ee_backup_device_id e" "bd_user_id w = u" "bd_device_id w = bk_SourceDeviceID b"
    by (auto simp: live_envelopes_def exists_row_iff)
  then obtain w' where "w' \<in> set (backup_devices d)" "bd_id w' = ee_backup_device_id e" "bd_status w' = ''active''"
    using assms(1) by (auto simp: vault_ok_def envelopes_ok_def enrolled_def)
  moreover have "distinct (map bd_id (backup_devices d))" using assms(1) by (simp add: vault_ok_def)
  ultimately have "w' = w" using w(3,4) by (metis distinct_key_eq)
  with w(3,5,6) \<open>bd_status w' = ''active''\<close> show ?thesis by auto
qed


text \<open>
  C19. Retention never prunes. In every reachable state the query of the retention stage finds no backup, since the
  trigger refuses to seal a fourth backup of a lineage; a pass of the stage changes nothing.
\<close>

theorem retention_never_prunes:
  assumes "no_backups z0" "(backup_step sv)\<^sup>*\<^sup>* z0 z"
  shows "prunable (bz_db z) = [] \<and> snd (stageRetentionPruning draw f now (bz_db z)) = bz_db z"
proof -
  have ok: "backups_ok (encrypted_profile_backups (bz_db z))"
    using run_keeps(1) [OF assms(2) no_backups_ok [OF assms(1)]] by (simp add: vault_ok_def)
  have "retention_rank r (bz_db z) \<le> encryptedBackupRetentionCount" if "r \<in> set (encrypted_profile_backups (bz_db z))" "eb_state r = Sealed" for r
  proof -
    let ?l = "lineage_sealed (eb_user_id r) (eb_profile_lineage_id r) (bz_db z)"
    have "length (filter (\<lambda>q. (sealed_time r, eb_id r) < (sealed_time q, eb_id q)) ?l) < length ?l"
      by (rule length_filter_less [of r]) (use that in \<open>auto simp: lineage_sealed_def\<close>)
    moreover have "length ?l \<le> lineage_quota" using ok by (auto simp: backups_ok_def lineage_sealed_def)
    ultimately show ?thesis by (simp add: retention_rank_def lineage_quota_def encryptedBackupRetentionCount_def)
  qed
  then have none: "prunable (bz_db z) = []" by (auto simp: prunable_def filter_empty_conv not_less)
  then show ?thesis by (auto simp: stageRetentionPruning_def transaction_def andthen_def check_def)
qed

section \<open>Sealing\<close>

definition object_name :: "backup_row \<Rightarrow> bytes \<Rightarrow> bytes" where
  "object_name q k = objectKey \<lparr>co_userID = eb_user_id q, co_backupID = eb_id q, co_objectID = k\<rparr>"

text \<open>An object of the bucket with a declared size and digest.\<close>

definition holds :: "(bytes \<rightharpoonup> stored_object) \<Rightarrow> bytes \<Rightarrow> int \<Rightarrow> bytes \<Rightarrow> bool" where
  "holds b key n digest \<longleftrightarrow> (\<exists>x. b key = Some x \<and> int (length (so_content x)) = n \<and> hex_decode (so_digest x) = Some digest)"

lemma verifyObject_Inr:
  assumes "s3_laws (ms_client st) (ms_lower st) bucket" "verifyObject st u i spec s = (Inr (), s')"
  shows "bucket s' = bucket s"
    "holds (bucket s) (objectKey \<lparr>co_userID = u, co_backupID = i, co_objectID = os_ObjectID spec\<rparr>) (os_CiphertextSize spec) (os_CiphertextDigest spec)"
proof -
  obtain ref where ref: "NewCiphertextObjectRef u i (os_ObjectID spec) = Some ref"
    using assms(2) by (auto simp: verifyObject_def split: option.splits)
  then have r: "ref = \<lparr>co_userID = u, co_backupID = i, co_objectID = os_ObjectID spec\<rparr>"
    by (simp add: NewCiphertextObjectRef_def split: if_splits)
  obtain h s1 where head: "HeadCiphertext st ref s = (h, s1)" by (cases "HeadCiphertext st ref s")
  note hd = Head_Inr [OF assms(1) head]
  from assms(2) ref head obtain m where m: "h = Inr m" "s' = s1" "cm_Size m = os_CiphertextSize spec" "cm_SHA256 m = os_CiphertextDigest spec"
    by (auto simp: verifyObject_def check_def split: sum.splits if_splits)
  from hd(1) m(2) show "bucket s' = bucket s" by simp
  from hd(2) [OF m(1)] m(3,4) r show "holds (bucket s) (objectKey \<lparr>co_userID = u, co_backupID = i, co_objectID = os_ObjectID spec\<rparr>)
      (os_CiphertextSize spec) (os_CiphertextDigest spec)" by (auto simp: holds_def)
qed

lemma verifyObjects_Inr:
  assumes "s3_laws (ms_client st) (ms_lower st) bucket" "verifyObjects st u i specs s = (Inr (), s')"
  shows "bucket s' = bucket s \<and> (\<forall>spec\<in>set specs. holds (bucket s) (objectKey \<lparr>co_userID = u, co_backupID = i, co_objectID = os_ObjectID spec\<rparr>)
    (os_CiphertextSize spec) (os_CiphertextDigest spec))"
  using assms(2)
proof (induction specs arbitrary: s)
  case Nil
  then show ?case by simp
next
  case (Cons spec specs)
  from Cons.prems obtain s1 where s1: "verifyObject st u i spec s = (Inr (), s1)" "verifyObjects st u i specs s1 = (Inr (), s')"
    by (auto elim!: proceed_cases)
  from verifyObject_Inr [OF assms(1) s1(1)] Cons.IH [OF s1(2)] show ?case by simp
qed

lemma scan_chunks_Inr:
  "scan_chunks rs = Inr cs \<Longrightarrow> map ck_Object cs = map (\<lambda>r. \<lparr>os_ObjectID = ek_object_key r, os_CiphertextDigest = ek_ciphertext_digest r,
     os_CiphertextSize = ek_ciphertext_size r\<rparr>) rs"
  by (induction rs arbitrary: cs) (auto simp: copyDigest_def andthen_Inr split: option.splits if_splits)

lemma BackupForSeal_Inr:
  assumes "BackupForSeal f u i d = Inr r"
  obtains q where "q \<in> set (encrypted_profile_backups d)" "eb_user_id q = u" "eb_id q = i" "scanBackupCore d q = Inr (dt_Backup r)"
    "set (map ck_Object (dt_Chunks r)) = (\<lambda>c. \<lparr>os_ObjectID = ek_object_key c, os_CiphertextDigest = ek_ciphertext_digest c,
       os_CiphertextSize = ek_ciphertext_size c\<rparr>) ` set (chunks_of i d)" "length (dt_Chunks r) = length (chunks_of i d)"
proof -
  from assms obtain q b chunks k1 k2 where *: "find (\<lambda>r. eb_user_id r = u \<and> eb_id r = i \<and> (False \<longrightarrow> eb_state r = Sealed)) (encrypted_profile_backups d) = Some q"
      "scanBackupCore d q = Inr b" "scan_chunks (sort_key ek_chunk_index (filter (\<lambda>c. ek_backup_id c = i) (encrypted_backup_chunks d))) = Inr chunks"
      "dt_Backup r = b" "dt_Chunks r = chunks"
    by (auto simp: BackupForSeal_def readBackupDetail_def readBackupCore_def andthen_Inr)
  note sc = scan_chunks_Inr [OF *(3)]
  have "set (map ck_Object (dt_Chunks r)) = (\<lambda>c. \<lparr>os_ObjectID = ek_object_key c, os_CiphertextDigest = ek_ciphertext_digest c,
       os_CiphertextSize = ek_ciphertext_size c\<rparr>) ` set (chunks_of i d)"
    unfolding *(5) sc by (simp add: chunks_of_def)
  moreover have "length (dt_Chunks r) = length (chunks_of i d)" using arg_cong [OF sc, of length] *(5) by (simp add: chunks_of_def)
  moreover have "q \<in> set (encrypted_profile_backups d)" "eb_user_id q = u" "eb_id q = i" using find_Some_in [OF *(1)] by auto
  ultimately show thesis using that *(2,4) by blast
qed

lemma scanBackupCore_Inr:
  assumes "scanBackupCore d q = Inr b"
  shows "bk_ID b = eb_id q" "bk_UserID b = eb_user_id q" "bk_SourceDeviceID b = eb_source_device_id q" "bk_State b = eb_state q"
    "bk_UploadExpiresAt b = eb_upload_expires_at q" "bk_ChunkCount b = eb_chunk_count q"
    "\<exists>k n h. eb_manifest_object_key q = Some k \<and> eb_manifest_ciphertext_size q = Some n \<and> eb_manifest_ciphertext_digest q = Some h
       \<and> bk_Manifest b = \<lparr>os_ObjectID = k, os_CiphertextDigest = h, os_CiphertextSize = n\<rparr>"
  using assms by (auto simp: scanBackupCore_def copyDigest_def split: option.splits if_splits)

lemma Seal_record_Inr:
  assumes "Seal_record f u i at d = (Inr (b, False), d')" "q \<in> set (encrypted_profile_backups d)" "eb_id q = i" "eb_user_id q = u"
  shows "q\<lparr>eb_state := Sealed, eb_sealed_at := Some at, eb_updated_at := at\<rparr> \<in> set (encrypted_profile_backups d')"
  using assms(1) [unfolded Seal_record_def]
proof (cases rule: returning_cases)
  case (committed x)
  let ?P = "\<lambda>q. eb_id q = i \<and> eb_user_id q = u" and ?g = "\<lambda>q. q\<lparr>eb_state := Sealed, eb_sealed_at := Some at, eb_updated_at := at\<rparr>"
  from committed obtain n where u: "update_backups ?P ?g d = Inr (n, d')"
    by (auto simp: andthen_Inr split: if_splits)
  have "encrypted_profile_backups d' = update_where ?P ?g (encrypted_profile_backups d)"
    using update_backups_Inr(1) [OF u] by simp
  moreover have "?P q" using assms(3,4) by simp
  ultimately show ?thesis using assms(2) by (force simp: update_where_def)
qed simp

lemma Seal_backup_Inr:
  assumes "Seal_backup sv env p i z = (Inr r, z')" "\<not> sr_Replayed r"
  obtains identity detail source o1 sealed d where "activeAuthenticationDevice env p (bz_db z) = Inr identity"
      "BackupForSeal (be_read env) (pr_UserID p) i (bz_db z) = Inr detail" "bk_SourceDeviceID (dt_Backup detail) = pr_DeviceID p"
      "uploading_state (bk_State (dt_Backup detail))"
      "read_BackupDevice (be_device env) (pr_UserID p) (pr_DeviceID p) (bk_KeyEpoch (dt_Backup detail)) (bz_db z) = Inr source"
      "bv_Status source = ''active''" "be_now env < bk_UploadExpiresAt (dt_Backup detail)"
      "int (length (dt_Chunks detail)) = bk_ChunkCount (dt_Backup detail)"
      "verifyObjects (bs_objects sv) (bk_UserID (dt_Backup detail)) (bk_ID (dt_Backup detail))
         (bk_Manifest (dt_Backup detail) # map ck_Object (dt_Chunks detail)) (bz_objects z) = (Inr (), o1)"
      "Seal_record (be_write env) (pr_UserID p) i (be_end env) (bz_db z) = (Inr (sealed, False), d)" "z' = z\<lparr>bz_objects := o1, bz_db := d\<rparr>"
proof -
  let ?d = "bz_db z"
  from assms(1) obtain identity detail where a: "activeAuthenticationDevice env p ?d = Inr identity"
      "BackupForSeal (be_read env) (pr_UserID p) i ?d = Inr detail" "bk_SourceDeviceID (dt_Backup detail) = pr_DeviceID p"
    by (auto simp: Seal_backup_def proceed_Inr Let_def)
  have st: "uploading_state (bk_State (dt_Backup detail))" "bk_State (dt_Backup detail) \<noteq> Sealed"
    using assms a by (auto simp: Seal_backup_def proceed_Inr Let_def split: if_splits)
  obtain source where b: "read_BackupDevice (be_device env) (pr_UserID p) (pr_DeviceID p) (bk_KeyEpoch (dt_Backup detail)) ?d = Inr source"
      "bv_Status source = ''active''" "be_now env < bk_UploadExpiresAt (dt_Backup detail)"
      "int (length (dt_Chunks detail)) = bk_ChunkCount (dt_Backup detail)"
    using assms(1) a st by (auto simp: Seal_backup_def proceed_Inr Let_def)
  let ?v = "verifyObjects (bs_objects sv) (bk_UserID (dt_Backup detail)) (bk_ID (dt_Backup detail))
      (bk_Manifest (dt_Backup detail) # map ck_Object (dt_Chunks detail)) (bz_objects z)"
  obtain x o1 where v: "?v = (x, o1)" by (cases ?v)
  obtain sealed replayed d where c: "x = Inr ()" "Seal_record (be_write env) (pr_UserID p) i (be_end env) ?d = (Inr (sealed, replayed), d)"
      "z' = z\<lparr>bz_objects := o1, bz_db := d\<rparr>" "sr_Replayed r = replayed"
    using assms(1) a st b v by (auto simp: Seal_backup_def proceed_Inr Let_def commits_iff sealing_def simp del: verifyObjects.simps)
  show thesis
  proof (rule that [OF a st(1) b])
    show "?v = (Inr (), o1)" using v c(1) by simp
    show "Seal_record (be_write env) (pr_UserID p) i (be_end env) ?d = (Inr (sealed, False), d)" using c(2,4) assms(2) by simp
  qed (rule c(3))
qed

text \<open>
  C14. A seal is complete. When sealing succeeds for the first time, the caller's device is active and is the source
  of the backup with an active registration, the upload was running and not expired, as many chunks are declared as the signed
  count says, and the manifest and every chunk is in the bucket with the declared size and digest; then the
  backup is sealed at this instant and the bucket is as it was.
\<close>

theorem seal_complete:
  assumes "s3_laws (ms_client (bs_objects sv)) (ms_lower (bs_objects sv)) bucket"
    and "Seal_backup sv env p i z = (Inr r, z')" "\<not> sr_Replayed r"
  shows "\<exists>q\<in>set (encrypted_profile_backups (bz_db z)). eb_id q = i \<and> eb_user_id q = pr_UserID p \<and> eb_source_device_id q = pr_DeviceID p
    \<and> eb_state q \<in> {Initiated, Uploading} \<and> be_now env < eb_upload_expires_at q
    \<and> (\<exists>v\<in>set (devices (bz_db z)). d_id v = pr_DeviceID p \<and> d_user_id v = pr_UserID p \<and> d_status v = ''active'')
    \<and> (\<exists>v\<in>set (backup_devices (bz_db z)). bd_user_id v = pr_UserID p \<and> bd_device_id v = pr_DeviceID p \<and> bd_status v = ''active'')
    \<and> int (length (chunks_of i (bz_db z))) = eb_chunk_count q
    \<and> (\<exists>k n h. eb_manifest_object_key q = Some k \<and> eb_manifest_ciphertext_size q = Some n \<and> eb_manifest_ciphertext_digest q = Some h
         \<and> holds (bucket (bz_objects z)) (object_name q k) n h)
    \<and> (\<forall>c\<in>set (chunks_of i (bz_db z)). holds (bucket (bz_objects z)) (object_name q (ek_object_key c)) (ek_ciphertext_size c) (ek_ciphertext_digest c))
    \<and> q\<lparr>eb_state := Sealed, eb_sealed_at := Some (be_end env), eb_updated_at := be_end env\<rparr> \<in> set (encrypted_profile_backups (bz_db z'))
    \<and> bucket (bz_objects z') = bucket (bz_objects z)"
proof -
  obtain identity detail source o1 sealed d where s: "activeAuthenticationDevice env p (bz_db z) = Inr identity"
      "BackupForSeal (be_read env) (pr_UserID p) i (bz_db z) = Inr detail" "bk_SourceDeviceID (dt_Backup detail) = pr_DeviceID p"
      "uploading_state (bk_State (dt_Backup detail))"
      "read_BackupDevice (be_device env) (pr_UserID p) (pr_DeviceID p) (bk_KeyEpoch (dt_Backup detail)) (bz_db z) = Inr source"
      "bv_Status source = ''active''" "be_now env < bk_UploadExpiresAt (dt_Backup detail)"
      "int (length (dt_Chunks detail)) = bk_ChunkCount (dt_Backup detail)"
      "verifyObjects (bs_objects sv) (bk_UserID (dt_Backup detail)) (bk_ID (dt_Backup detail))
         (bk_Manifest (dt_Backup detail) # map ck_Object (dt_Chunks detail)) (bz_objects z) = (Inr (), o1)"
      "Seal_record (be_write env) (pr_UserID p) i (be_end env) (bz_db z) = (Inr (sealed, False), d)" "z' = z\<lparr>bz_objects := o1, bz_db := d\<rparr>"
    using assms(2,3) by (rule Seal_backup_Inr)
  obtain q where q: "q \<in> set (encrypted_profile_backups (bz_db z))" "eb_user_id q = pr_UserID p" "eb_id q = i"
      "scanBackupCore (bz_db z) q = Inr (dt_Backup detail)"
      "set (map ck_Object (dt_Chunks detail)) = (\<lambda>c. \<lparr>os_ObjectID = ek_object_key c, os_CiphertextDigest = ek_ciphertext_digest c,
         os_CiphertextSize = ek_ciphertext_size c\<rparr>) ` set (chunks_of i (bz_db z))" "length (dt_Chunks detail) = length (chunks_of i (bz_db z))"
    by (rule BackupForSeal_Inr [OF s(2)])
  note core = scanBackupCore_Inr [OF q(4)] and v = verifyObjects_Inr [OF assms(1) s(9)]
  obtain k n h where m: "eb_manifest_object_key q = Some k" "eb_manifest_ciphertext_size q = Some n" "eb_manifest_ciphertext_digest q = Some h"
      "bk_Manifest (dt_Backup detail) = \<lparr>os_ObjectID = k, os_CiphertextDigest = h, os_CiphertextSize = n\<rparr>"
    using core(7) by blast
  have "holds (bucket (bz_objects z)) (object_name q k) n h"
    using v m(4) core(1,2) by (simp add: object_name_def)
  moreover have "\<forall>c\<in>set (chunks_of i (bz_db z)). holds (bucket (bz_objects z)) (object_name q (ek_object_key c)) (ek_ciphertext_size c) (ek_ciphertext_digest c)"
  proof
    fix c assume "c \<in> set (chunks_of i (bz_db z))"
    then have "\<lparr>os_ObjectID = ek_object_key c, os_CiphertextDigest = ek_ciphertext_digest c, os_CiphertextSize = ek_ciphertext_size c\<rparr>
        \<in> set (map ck_Object (dt_Chunks detail))" unfolding q(5) by (rule imageI)
    from v [THEN conjunct2, THEN bspec, OF list.set_intros(2), OF this] core(1,2)
    show "holds (bucket (bz_objects z)) (object_name q (ek_object_key c)) (ek_ciphertext_size c) (ek_ciphertext_digest c)"
      by (simp add: object_name_def)
  qed
  moreover have "q\<lparr>eb_state := Sealed, eb_sealed_at := Some (be_end env), eb_updated_at := be_end env\<rparr> \<in> set (encrypted_profile_backups d)"
    by (rule Seal_record_Inr [OF s(10) q(1,3,2)])
  moreover have "\<exists>v\<in>set (devices (bz_db z)). d_id v = pr_DeviceID p \<and> d_user_id v = pr_UserID p \<and> d_status v = ''active''"
    using s(1) by (auto simp: activeAuthenticationDevice_def read_AuthenticationDevice_def andthen_Inr dest!: find_Some_in)
  moreover have "\<exists>v\<in>set (backup_devices (bz_db z)). bd_user_id v = pr_UserID p \<and> bd_device_id v = pr_DeviceID p \<and> bd_status v = ''active''"
    using s(5,6) by (auto simp: read_BackupDevice_def andthen_Inr scanBackupDevice_def dest!: find_Some_in)
  moreover have "eb_source_device_id q = pr_DeviceID p" "eb_state q \<in> {Initiated, Uploading}" "be_now env < eb_upload_expires_at q"
      "int (length (chunks_of i (bz_db z))) = eb_chunk_count q"
    using s(3,4,7,8) core q(6) by (simp_all add: uploading_state_def)
  moreover have "bucket (bz_objects z') = bucket (bz_objects z)" using v s(11) by simp
  ultimately show ?thesis using q(1-3) m(1-3) s(11) by (intro bexI [of _ q]) simp_all
qed

section \<open>Deleting\<close>

lemma DeleteCiphertexts_None:
  assumes "s3_laws (ms_client st) (ms_lower st) bucket" "DeleteCiphertexts st refs s = (None, s')"
  shows "(\<forall>ref\<in>set refs. bucket s' (objectKey ref) = None) \<and> (\<forall>key. key \<notin> objectKey ` set refs \<longrightarrow> bucket s' key = bucket s key)
    \<and> (\<forall>key. bucket s key = None \<longrightarrow> bucket s' key = None)"
  using assms(2)
proof (induction refs arbitrary: s)
  case Nil
  then show ?case by simp
next
  case (Cons ref refs)
  obtain reply s1 where rm: "s3_RemoveObject (ms_client st) (objectKey ref) s = (reply, s1)" by (cases "s3_RemoveObject (ms_client st) (objectKey ref) s")
  note l = s3_remove [OF assms(1) rm]
  have next1: "DeleteCiphertexts st refs s1 = (None, s')" and gone: "bucket s1 (objectKey ref) = None"
    using Cons.prems rm l(2,3) by (auto simp: removeCiphertext_def split: option.splits if_splits)
  have "bucket s1 key = bucket s key" if "key \<noteq> objectKey ref" for key using l(1) that by auto
  moreover have "bucket s key = None \<Longrightarrow> bucket s1 key = None" for key using l(1) by auto
  ultimately show ?case using Cons.IH [OF next1] gone by auto
qed

lemma object_refs_Some:
  "object_refs u i ks = Some refs \<Longrightarrow> refs = map (\<lambda>k. \<lparr>co_userID = u, co_backupID = i, co_objectID = k\<rparr>) ks"
  by (induction ks arbitrary: refs) (auto simp: NewCiphertextObjectRef_def split: option.splits if_splits)

lemma object_keys_update:
  assumes "update_backups P g d = Inr (n, d')" "\<And>q. eb_id (g q) = eb_id q \<and> eb_manifest_object_key (g q) = eb_manifest_object_key q"
  shows "object_keys i d' = object_keys i d"
proof -
  let ?h = "\<lambda>q. if P q then g q else q" and ?F = "\<lambda>q. case eb_manifest_object_key q of None \<Rightarrow> [] | Some k \<Rightarrow> [k]"
  have "eb_id (?h q) = eb_id q" "?F (?h q) = ?F q" for q using assms(2) by simp_all
  then have "map ?F (filter (\<lambda>q. eb_id q = i) (map ?h t)) = map ?F (filter (\<lambda>q. eb_id q = i) t)" for t
    by (simp add: filter_map comp_def del: option.case_cong)
  then show ?thesis by (simp add: object_keys_def update_backups_Inr(1) [OF assms(1)] update_where_def)
qed

lemma set_object_keys:
  "set (object_keys i d) = {k. \<exists>q\<in>set (encrypted_profile_backups d). eb_id q = i \<and> eb_manifest_object_key q = Some k} \<union> ek_object_key ` set (chunks_of i d)"
  by (auto simp: object_keys_def chunks_of_def split: option.splits)

lemma BeginDeletion_Inr:
  assumes "BeginDeletion draw f u i at d = (Inr rec, d')"
  shows "dr_ObjectIDs rec = object_keys i d"
    "\<exists>q\<in>set (encrypted_profile_backups d). eb_id q = i \<and> eb_user_id q = u \<and> (eb_state q = Sealed \<or> eb_state q = Deleting)"
proof -
  from assms [unfolded BeginDeletion_def] obtain ks d1 where c: "begin_encrypted_profile_backup_deletion i u at d = Inr (ks, d1)" "dr_ObjectIDs rec = ks"
    by (cases rule: returning_cases) (auto simp: andthen_Inr RandomUUID_def split: option.splits)
  obtain q where q: "find (\<lambda>q. eb_id q = i \<and> eb_user_id q = u) (encrypted_profile_backups d) = Some q" "eb_state q = Sealed \<or> eb_state q = Deleting"
    using c(1) by (auto simp: begin_encrypted_profile_backup_deletion_def andthen_Inr split: option.splits)
  then show "\<exists>q\<in>set (encrypted_profile_backups d). eb_id q = i \<and> eb_user_id q = u \<and> (eb_state q = Sealed \<or> eb_state q = Deleting)"
    using find_Some_in [OF q(1)] by blast
  let ?P = "\<lambda>q. eb_id q = i \<and> eb_user_id q = u"
  let ?g = "\<lambda>q. q\<lparr>eb_state := Deleting, eb_recovery_root_key_envelope := None, eb_wrapped_data_key := None,
      eb_deletion_started_at := Some at, eb_updated_at := at\<rparr>"
  have "ks = object_keys i d"
  proof (cases "eb_state q = Sealed")
    case True
    with c(1) q(1) obtain n d2 where u: "update_backups ?P ?g d = Inr (n, d2)" and ks: "ks = object_keys i d2"
      by (auto simp: begin_encrypted_profile_backup_deletion_def andthen_Inr)
    show ?thesis unfolding ks by (rule object_keys_update [OF u]) simp
  next
    case False
    with c(1) q show ?thesis by (auto simp: begin_encrypted_profile_backup_deletion_def andthen_Inr)
  qed
  with c(2) show "dr_ObjectIDs rec = object_keys i d" by simp
qed

lemma CompleteDeletion_None:
  assumes "CompleteDeletion f u i at d = (None, d')"
  shows "\<exists>q\<in>set (encrypted_profile_backups d'). eb_id q = i \<and> eb_user_id q = u \<and> eb_state q = Deleted"
  using assms [unfolded CompleteDeletion_def]
proof (cases rule: transaction_cases)
  case committed
  let ?P = "\<lambda>q. eb_id q = i \<and> eb_user_id q = u \<and> eb_state q = Deleting" and ?g = "\<lambda>q. q\<lparr>eb_state := Deleted, eb_deleted_at := Some at, eb_updated_at := at\<rparr>"
  from committed obtain n d1 m where fin: "finish_deletion u i at d = Inr (n, d1)"
    and op: "update_operations (\<lambda>q. eo_backup_id q = i \<and> eo_user_id q = u \<and> eo_operation q = Delete_backup \<and> open_operation q) (completed at) d1 = Inr (m, d')"
    by (auto simp: andthen_Inr Let_def)
  have same: "encrypted_profile_backups d' = encrypted_profile_backups d1" using update_operations_Inr(1) [OF op] by simp
  from committed fin have found: "n = 1 \<or> (\<exists>q. find_backup u i d1 = Some q \<and> eb_state q = Deleted)"
    by (cases "n = 1") (auto simp: andthen_Inr Let_def)
  note up = update_backups_Inr [OF fin [unfolded finish_deletion_def]]
  from found show ?thesis
  proof
    assume "n = 1"
    with up(2) have "filter ?P (encrypted_profile_backups d) \<noteq> []" by auto
    then obtain q where q: "q \<in> set (encrypted_profile_backups d)" "?P q" by (auto simp: filter_empty_conv)
    then have "?g q \<in> set (encrypted_profile_backups d1)" using up(1) by (force simp: update_where_def)
    moreover have "eb_id (?g q) = i" "eb_user_id (?g q) = u" "eb_state (?g q) = Deleted" using q(2) by simp_all
    ultimately show ?thesis unfolding same by blast
  next
    assume "\<exists>q. find_backup u i d1 = Some q \<and> eb_state q = Deleted"
    then show ?thesis unfolding same by (auto simp: find_backup_def dest!: find_Some_in)
  qed
qed simp

lemma Delete_service_Inr:
  assumes "Delete_service sv env p i z = (Inr (), z')"
  obtains rec d1 refs o1 d2 where "BeginDeletion (be_draw env) (be_write env) (pr_UserID p) i (be_now env) (bz_db z) = (Inr rec, d1)"
      "object_refs (pr_UserID p) i (dr_ObjectIDs rec) = Some refs" "DeleteCiphertexts (bs_objects sv) refs (bz_objects z) = (None, o1)"
      "CompleteDeletion (be_finish env) (pr_UserID p) i (be_end env) d1 = (None, d2)" "z' = z\<lparr>bz_db := d2, bz_objects := o1\<rparr>"
proof -
  obtain x d1 where b: "BeginDeletion (be_draw env) (be_write env) (pr_UserID p) i (be_now env) (bz_db z) = (x, d1)"
    by (cases "BeginDeletion (be_draw env) (be_write env) (pr_UserID p) i (be_now env) (bz_db z)")
  from assms b obtain rec refs where r: "x = Inr rec" "object_refs (pr_UserID p) i (dr_ObjectIDs rec) = Some refs"
    by (auto simp: Delete_service_def proceed_Inr commits_def split: option.splits)
  obtain y o1 where d: "DeleteCiphertexts (bs_objects sv) refs (bz_objects z) = (y, o1)" by (cases "DeleteCiphertexts (bs_objects sv) refs (bz_objects z)")
  obtain w d2 where c: "CompleteDeletion (be_finish env) (pr_UserID p) i (be_end env) d1 = (w, d2)"
    by (cases "CompleteDeletion (be_finish env) (pr_UserID p) i (be_end env) d1")
  have "y = None" "w = None" "z' = z\<lparr>bz_db := d2, bz_objects := o1\<rparr>"
    using assms b r d c by (auto simp: Delete_service_def proceed_Inr commits_def commits_unit_def Let_def split: option.splits)
  with that b r d c show thesis by blast
qed

text \<open>
  A deletion is complete. In every reachable state, when a deletion succeeds the backup is deleted, no table
  holds recovery material of it, its manifest and all its chunks are gone from the bucket, and every object that is
  not one of them is as it was.
\<close>

theorem deletion_effect:
  assumes "no_backups z0" "(backup_step sv)\<^sup>*\<^sup>* z0 z" "s3_laws (ms_client (bs_objects sv)) (ms_lower (bs_objects sv)) bucket"
    and "Delete_service sv env p i z = (Inr (), z')"
  shows "\<exists>q\<in>set (encrypted_profile_backups (bz_db z')). eb_id q = i \<and> eb_user_id q = pr_UserID p \<and> eb_state q = Deleted
    \<and> eb_recovery_root_key_envelope q = None \<and> eb_wrapped_data_key q = None
    \<and> (\<forall>e\<in>set (encrypted_backup_key_envelopes (bz_db z')). ee_backup_id e = i \<longrightarrow> ee_root_key_envelope e = None)
    \<and> (\<forall>k. eb_manifest_object_key q = Some k \<longrightarrow> bucket (bz_objects z') (object_name q k) = None)
    \<and> (\<forall>c\<in>set (chunks_of i (bz_db z')). bucket (bz_objects z') (object_name q (ek_object_key c)) = None)
    \<and> (\<forall>key. key \<notin> object_name q ` set (object_keys i (bz_db z)) \<longrightarrow> bucket (bz_objects z') key = bucket (bz_objects z) key)"
proof -
  have "backup_step sv z z'" by (rule backup_step.call [of sv env p "BDelete i" z None]) (simp add: answer_def assms(4))
  with assms(2) have step: "(backup_step sv)\<^sup>*\<^sup>* z z'" and run: "(backup_step sv)\<^sup>*\<^sup>* z0 z'" by auto
  have ok: "vault_ok (bz_db z)" "vault_ok (bz_db z')" using run_keeps(1) assms(2) run no_backups_ok [OF assms(1)] by blast+
  obtain rec d1 refs o1 d2 where b: "BeginDeletion (be_draw env) (be_write env) (pr_UserID p) i (be_now env) (bz_db z) = (Inr rec, d1)"
      "object_refs (pr_UserID p) i (dr_ObjectIDs rec) = Some refs" "DeleteCiphertexts (bs_objects sv) refs (bz_objects z) = (None, o1)"
      "CompleteDeletion (be_finish env) (pr_UserID p) i (be_end env) d1 = (None, d2)" "z' = z\<lparr>bz_db := d2, bz_objects := o1\<rparr>"
    by (rule Delete_service_Inr [OF assms(4)])
  note bg = BeginDeletion_Inr [OF b(1)] and del = DeleteCiphertexts_None [OF assms(3) b(3)]
  obtain q0 where q0: "q0 \<in> set (encrypted_profile_backups (bz_db z))" "eb_id q0 = i" "eb_user_id q0 = pr_UserID p" "\<not> uploading_state (eb_state q0)"
    using bg(2) by (auto simp: uploading_not)
  obtain q where q: "q \<in> set (encrypted_profile_backups (bz_db z'))" "eb_id q = i" "eb_user_id q = pr_UserID p" "eb_state q = Deleted"
    using CompleteDeletion_None [OF b(4)] b(5) by auto
  obtain q' where q': "q' \<in> set (encrypted_profile_backups (bz_db z'))" "evolves q0 q'" "chunks_of i (bz_db z') = chunks_of i (bz_db z)"
    using run_keeps(2) [OF step ok(1) q0(1)] q0(2,4) by blast
  have same: "same_identity q0 q'" using q'(2) by (simp add: evolves_def)
  have "distinct (map eb_id (encrypted_profile_backups (bz_db z')))" using ok(2) by (simp add: vault_ok_def backups_ok_def)
  then have "q' = q" using q(1,2) q'(1) same_identity_fields(1) [OF same] q0(2) by (metis distinct_key_eq)
  then have man: "eb_manifest_object_key q = eb_manifest_object_key q0"
    using arg_cong [OF same [unfolded same_identity_def], of eb_manifest_object_key] by simp
  have refs: "objectKey ` set refs = object_name q ` set (object_keys i (bz_db z))"
    using object_refs_Some [OF b(2)] bg(1) q(2,3) by (auto simp: object_name_def)
  have gone: "bucket (bz_objects z') (object_name q k) = None" if "k \<in> set (object_keys i (bz_db z))" for k
  proof -
    from that refs have "object_name q k \<in> objectKey ` set refs" by blast
    with del b(5) show ?thesis by auto
  qed
  have "\<forall>k. eb_manifest_object_key q = Some k \<longrightarrow> bucket (bz_objects z') (object_name q k) = None"
    using gone q0(1,2) man by (auto simp: set_object_keys)
  moreover have "\<forall>c\<in>set (chunks_of i (bz_db z')). bucket (bz_objects z') (object_name q (ek_object_key c)) = None"
    using gone q'(3) by (auto simp: set_object_keys)
  moreover have "\<forall>key. key \<notin> object_name q ` set (object_keys i (bz_db z)) \<longrightarrow> bucket (bz_objects z') key = bucket (bz_objects z) key"
    using del refs b(5) by simp
  moreover note erased_columns [OF ok(2) q(1)] q
  ultimately show ?thesis by (intro bexI [OF _ q(1)]) (simp add: erased_def)
qed

section \<open>Examples\<close>

lemma memory_laws: "s3_laws (ms_client sample_store) (ms_lower sample_store) map_of"
proof -
  have rm: "map_of (filter (\<lambda>(k, _). k \<noteq> key) s) = (map_of s)(key := None)" for key and s :: bucket
    by (induction s) auto
  show ?thesis
    using memory_metadata
    by (auto simp: s3_laws_def sample_store_def memory_client_def ciphertextDigestMetadataKey_def isMinIONotFound_def rm
        split: option.splits)
qed

theorem upload_download_witness:
  "\<exists>m s1. PutCiphertext sample_store False (sample_ref (CHR ''a'')) (Some (sample_body (CHR ''a''))) 20 (fit 32 (replicate 20 (CHR ''a''))) [] = (Inr m, s1)
     \<and> map_of s1 (objectKey (sample_ref (CHR ''a''))) \<noteq> None
     \<and> (\<exists>x s3. GetCiphertext sample_store (sample_ref (CHR ''a'')) s1 = (Inr x, s3) \<and> cd_Body x = replicate 20 (CHR ''a''))"
proof -
  let ?s1 = "[sample_item (CHR ''a'')]" and ?d = "fit 32 (replicate 20 (CHR ''a''))" and ?ref = "sample_ref (CHR ''a'')"
  obtain m where put: "PutCiphertext sample_store False ?ref (Some (sample_body (CHR ''a''))) 20 ?d [] = (Inr m, ?s1)"
    using memory_put [of "[]" ?ref "replicate 20 (CHR ''a'')" ?d] by (auto simp: sample_body_def sample_item_def sample_crypto_def)
  have st: "map_of ?s1 (objectKey ?ref) = Some \<lparr>so_content = replicate 20 (CHR ''a''), so_digest = hex_encode ?d\<rparr>" by (simp add: sample_item_def)
  have "\<exists>x s3. GetCiphertext sample_store ?ref ?s1 = (Inr x, s3)"
    using memory_head [OF st] st by (simp add: GetCiphertext_def) (simp add: sample_store_def memory_client_def)
  then obtain x s3 where get: "GetCiphertext sample_store ?ref ?s1 = (Inr x, s3)" by blast
  obtain b where b: "Some (sample_body (CHR ''a'')) = Some b" and all: "\<And>s2 x s3. map_of s2 = map_of ?s1 \<Longrightarrow> GetCiphertext sample_store ?ref s2 = (Inr x, s3)
      \<Longrightarrow> cd_Body x = rd_content b"
    using upload_download [OF memory_laws put] by blast
  have "cd_Body x = replicate 20 (CHR ''a'')" using all [OF refl get] b by (auto simp: sample_body_def)
  with put st get show ?thesis by blast
qed

definition sample_runner :: runner where
  "sample_runner = \<lparr>ru_owner = ''a'', ru_leaseTTL = minute, ru_interval = hour\<rparr>"

lemma sample_lease: "Lease_Acquire False 0 maintenanceLeaseName (ru_owner sample_runner) (ru_leaseTTL sample_runner) (\<lambda>_. None)
    = (Inr True, snd (maintenance_acquire 0 maintenanceLeaseName ''a'' minute (\<lambda>_. None)))"
proof -
  have "maintenance_holder 0 (\<lambda>_. None) maintenanceLeaseName = None" by (simp add: maintenance_holder_def value_at_def live_def)
  then have "fst (maintenance_acquire 0 maintenanceLeaseName ''a'' minute (\<lambda>_. None))" by (rule maintenance.acquire_free)
  moreover have "TrimSpace maintenanceLeaseName \<noteq> []" "TrimSpace ''a'' \<noteq> []"
    by (simp_all add: maintenanceLeaseName_def TrimSpace_visible visible_def)
  ultimately show ?thesis by (auto simp: Lease_Acquire_def sample_runner_def split: prod.splits)
qed

theorem maintenance_exclusive_witness:
  "RunOnce sample_runner (\<lambda>_ n. (None, Suc n)) \<lparr>pv_acquire_fails = False, pv_release_fails = False, pv_acquired_at = 1, pv_released_at = 2, pv_now = 1\<rparr>
     (snd (maintenance_acquire 0 maintenanceLeaseName ''a'' minute (\<lambda>_. None)), 5)
   \<in> {(None, snd (maintenance_acquire 0 maintenanceLeaseName ''a'' minute (\<lambda>_. None)), 5),
       (Some LeaseUnavailable, snd (maintenance_acquire 0 maintenanceLeaseName ''a'' minute (\<lambda>_. None)), 5)}"
proof -
  have "ru_leaseTTL sample_runner mod millisecond = 0" by (simp add: sample_runner_def)
  then show ?thesis
    by (intro maintenance_exclusive [OF sample_lease, THEN conjunct2, THEN conjunct1, rule_format]) (simp_all add: sample_runner_def)
qed

theorem retention_never_prunes_witness: "prunable (bz_db (vault_in Sealed full_bucket)) = []"
  using retention_never_prunes [OF sample_empty sample_run] by simp

theorem seal_complete_witness:
  "\<exists>r. Seal_backup sample_backups sample_backup_env sample_principal 50 (vault_in Uploading full_bucket) = (Inr r, vault_in Sealed full_bucket)
     \<and> holds (map_of full_bucket) (object_name (sample_row Uploading) (replicate 64 (CHR ''a''))) 20 (fit 32 (replicate 20 (CHR ''a'')))"
proof -
  obtain r where r: "Seal_backup sample_backups sample_backup_env sample_principal 50 (vault_in Uploading full_bucket) = (Inr r, vault_in Sealed full_bucket)"
    "\<not> sr_Replayed r" using sample_sealed by blast
  have laws: "s3_laws (ms_client (bs_objects sample_backups)) (ms_lower (bs_objects sample_backups)) map_of" using memory_laws by simp
  from seal_complete [OF laws r] have "holds (map_of full_bucket) (object_name (sample_row Uploading) (replicate 64 (CHR ''a''))) 20 (fit 32 (replicate 20 (CHR ''a'')))"
    by simp
  with r(1) show ?thesis by blast
qed


theorem deletion_effect_witness:
  "\<exists>z'. Delete_service sample_backups sample_backup_env sample_principal 50 (vault_in Sealed full_bucket) = (Inr (), z')
     \<and> map_of (bz_objects z') (object_name (sample_row Deleted) (replicate 64 (CHR ''a''))) = None"
proof -
  obtain z' where z': "Delete_service sample_backups sample_backup_env sample_principal 50 (vault_in Sealed full_bucket) = (Inr (), z')"
      "encrypted_profile_backups (bz_db z') = [sample_row Deleted]" using sample_deleted by blast
  have laws: "s3_laws (ms_client (bs_objects sample_backups)) (ms_lower (bs_objects sample_backups)) map_of" using memory_laws by simp
  from deletion_effect [OF sample_empty sample_run laws z'(1)] z'(2)
  have "map_of (bz_objects z') (object_name (sample_row Deleted) (replicate 64 (CHR ''a''))) = None" by simp
  with z'(1) show ?thesis by blast
qed

end
