(* ===== verification/DesktopControl.thy ===== *)
theory DesktopControl
  imports AuditLog
begin

text \<open>
  \<open>internal/desktopcontrol\<close>: desktops report themselves and their health, operators queue health checks for
  them, and a desktop fetches a check with its next heartbeat, runs it and reports the result. The theory has
  the data and its validation (\<open>model.go\<close>), the transactions (\<open>repository.go\<close>) on the tables of migration 23
  with their constraints and the trigger, the limiter (\<open>limiter.go\<close>) and the service (\<open>service.go\<close>). The
  decoding of requests from JSON is left out; the columns of type \<open>jsonb\<close> hold the values themselves.
\<close>

section \<open>Data\<close>

definition CapabilityHealthRead :: bytes where "CapabilityHealthRead = ''diagnostics.health.read''"
definition CommandHealthCheck :: bytes where "CommandHealthCheck = ''health_check''"

datatype EffectiveStatus = EffectivePending | EffectiveRevoked | EffectiveDisabled | EffectiveOnline | EffectiveOffline
  | OtherStatus bytes

datatype desktop_error = CInvalidInput | CNotFound | CConflict | CInvalidTransition | CRateLimited | CUnavailable

fun state_text :: "CommandState \<Rightarrow> bytes" where
  "state_text CommandQueued = ''queued''"
| "state_text CommandClaimed = ''claimed''"
| "state_text CommandRunning = ''running''"
| "state_text CommandSucceeded = ''succeeded''"
| "state_text CommandFailed = ''failed''"
| "state_text CommandExpired = ''expired''"
| "state_text (OtherCommandState s) = s"

fun code_text :: "HealthCode \<Rightarrow> bytes" where
  "code_text HealthCodeHealthy = ''HEALTHY''"
| "code_text HealthCodeDesktopUnhealthy = ''DESKTOP_UNHEALTHY''"
| "code_text HealthCodeRuntimeUnavailable = ''RUNTIME_UNAVAILABLE''"
| "code_text HealthCodeGatewayUnavailable = ''GATEWAY_UNAVAILABLE''"
| "code_text HealthCodeTimeout = ''HEALTH_CHECK_TIMEOUT''"
| "code_text HealthCodeClientInterrupted = ''CLIENT_INTERRUPTED''"
| "code_text (OtherHealthCode s) = s"

record DevicePrincipal =
  dp_UserID :: uuid
  dp_DeviceID :: uuid
  dp_OrganizationID :: "uuid option"
  dp_WorkspaceID :: "uuid option"

record Heartbeat =
  hb_DisplayName :: bytes
  hb_ClientVersion :: bytes
  hb_Platform :: bytes
  hb_Arch :: bytes
  hb_Capabilities :: "bytes list"
  hb_UptimeSeconds :: int
  hb_Health :: "HealthSummary option"

record Instance =
  inst_DeviceID :: uuid
  inst_UserID :: uuid
  inst_OrganizationID :: "uuid option"
  inst_WorkspaceID :: "uuid option"
  inst_DisplayName :: bytes
  inst_ClientVersion :: bytes
  inst_Platform :: bytes
  inst_Arch :: bytes
  inst_Capabilities :: "bytes list"
  inst_LastHeartbeatAt :: "instant option"
  inst_HealthStatus :: HealthStatus
  inst_HealthSummary :: "HealthSummary option"
  inst_CreatedAt :: instant
  inst_UpdatedAt :: instant
  inst_UserStatus :: bytes
  inst_DeviceStatus :: bytes
  inst_EffectiveStatusValue :: EffectiveStatus \<comment> \<open>\<open>OtherStatus []\<close> is the zero value\<close>

definition heartbeatExpiry :: duration where "heartbeatExpiry = 150 * second"

definition effective_status :: "instant \<Rightarrow> Instance \<Rightarrow> EffectiveStatus" where
  "effective_status now i =
     (if inst_UserStatus i = ''disabled'' then EffectiveDisabled
      else if inst_UserStatus i = ''pending_deletion'' then EffectivePending
      else if inst_DeviceStatus i = ''revoked'' then EffectiveRevoked
      else if inst_DeviceStatus i = ''inactive'' then EffectivePending
      else (case inst_LastHeartbeatAt i of
              None \<Rightarrow> EffectiveOffline
            | Some at \<Rightarrow> if time_sub now at > heartbeatExpiry then EffectiveOffline else EffectiveOnline))"

record AdminActor =
  aa_AdminID :: uuid
  aa_ServiceSubject :: bytes
  aa_RequestID :: bytes

record QueueHealthCheckCommand =
  qh_DeviceID :: uuid
  qh_IdempotencyKeyHash :: bytes
  qh_Actor :: AdminActor

record CommandResult =
  rs_State :: CommandState
  rs_Code :: HealthCode
  rs_Summary :: "HealthSummary option"

record Command =
  cm_ID :: uuid
  cm_DeviceID :: uuid
  cm_Type :: bytes
  cm_RequiredCapability :: bytes
  cm_IdempotencyKeyHash :: bytes
  cm_State :: CommandState
  cm_ExpiresAt :: instant
  cm_ClaimedAt :: "instant option"
  cm_StartedAt :: "instant option"
  cm_CompletedAt :: "instant option"
  cm_ResultCode :: "HealthCode option"
  cm_ResultSummary :: "HealthSummary option"
  cm_CreatedByAdminID :: uuid
  cm_RequestID :: bytes
  cm_CreatedAt :: instant
  cm_UpdatedAt :: instant
  cm_Replayed :: bool

record InstanceFilter =
  if_DeviceID :: "uuid option"
  if_UserID :: "uuid option"
  if_OrganizationID :: "uuid option"
  if_Platform :: bytes
  if_ClientVersion :: bytes
  if_EffectiveStatus :: "EffectiveStatus option"
  if_Limit :: int
  if_Offset :: int

record InstancePage =
  pg_Items :: "Instance list"
  pg_Total :: int
  pg_ServerTime :: instant

fun CanTransition :: "CommandState \<Rightarrow> CommandState \<Rightarrow> bool" where
  "CanTransition CommandQueued to \<longleftrightarrow> to = CommandClaimed \<or> to = CommandExpired"
| "CanTransition CommandClaimed to \<longleftrightarrow> to = CommandRunning \<or> to = CommandExpired"
| "CanTransition CommandRunning to \<longleftrightarrow> to = CommandSucceeded \<or> to = CommandFailed \<or> to = CommandExpired"
| "CanTransition _ to \<longleftrightarrow> False"

section \<open>Validation\<close>

text \<open>\<open>strings.ContainsAny\<close> of three ASCII characters looks for these bytes.\<close>

definition boundedText :: "bytes \<Rightarrow> nat \<Rightarrow> bool" where
  "boundedText v limit \<longleftrightarrow> v = TrimSpace v \<and> v \<noteq> [] \<and> length v \<le> limit
     \<and> CHR 0x0D \<notin> set v \<and> CHR 0x0A \<notin> set v \<and> CHR 0x00 \<notin> set v"

definition boundedOptionalText :: "bytes \<Rightarrow> nat \<Rightarrow> bool" where
  "boundedOptionalText v limit \<longleftrightarrow> v = [] \<or> boundedText v limit"

definition validatePrincipal :: "DevicePrincipal \<Rightarrow> bool" where
  "validatePrincipal p \<longleftrightarrow> dp_UserID p \<noteq> Nil_uuid \<and> dp_DeviceID p \<noteq> Nil_uuid"

fun validHealthCode :: "HealthCode \<Rightarrow> bool" where
  "validHealthCode (OtherHealthCode _) = False"
| "validHealthCode _ = True"

definition validHealthSummary :: "HealthSummary \<Rightarrow> bool" where
  "validHealthSummary v \<longleftrightarrow> 0 \<le> hs_DurationMS v \<and> hs_DurationMS v \<le> 2 * minute div millisecond \<and> validHealthCode (hs_Code v)
     \<and> list_all (\<lambda>s. s \<in> {''unknown'', ''healthy'', ''degraded'', ''unhealthy''})
         [hs_DesktopStatus v, hs_RuntimeStatus v, hs_GatewayStatus v]"

text \<open>The loop over the capabilities admits one name and no repetition.\<close>

definition validateHeartbeat :: "Heartbeat \<Rightarrow> bool" where
  "validateHeartbeat v \<longleftrightarrow> boundedText (hb_DisplayName v) 100 \<and> boundedText (hb_ClientVersion v) 64
     \<and> 0 \<le> hb_UptimeSeconds v \<and> hb_UptimeSeconds v \<le> 7 * 24 * 60 * 60 \<and> length (hb_Capabilities v) \<le> 8
     \<and> hb_Platform v \<in> {''darwin'', ''windows'', ''linux''}
     \<and> hb_Arch v \<in> {''arm64'', ''x64''}
     \<and> list_all (\<lambda>c. c = CapabilityHealthRead) (hb_Capabilities v) \<and> distinct (hb_Capabilities v)
     \<and> (case hb_Health v of None \<Rightarrow> True | Some s \<Rightarrow> validHealthSummary s)"

text \<open>\<open>^[a-z][a-z0-9._-]{2,63}$\<close> and \<open>^[A-Za-z0-9][A-Za-z0-9._:-]{0,127}$\<close>\<close>

fun serviceSubjectPattern :: "bytes \<Rightarrow> bool" where
  "serviceSubjectPattern [] = False"
| "serviceSubjectPattern (c # s) \<longleftrightarrow> lower_letter c \<and> 2 \<le> length s \<and> length s \<le> 63
     \<and> list_all (\<lambda>x. lower_letter x \<or> decimal x \<or> x \<in> set ''._-'') s"

fun idempotencyKeyPattern :: "bytes \<Rightarrow> bool" where
  "idempotencyKeyPattern [] = False"
| "idempotencyKeyPattern (c # s) \<longleftrightarrow> alphanumeric c \<and> length s \<le> 127
     \<and> list_all (\<lambda>x. alphanumeric x \<or> x \<in> set ''._:-'') s"

definition validateQueue :: "QueueHealthCheckCommand \<Rightarrow> bool" where
  "validateQueue v \<longleftrightarrow> qh_DeviceID v \<noteq> Nil_uuid \<and> aa_AdminID (qh_Actor v) \<noteq> Nil_uuid \<and> length (qh_IdempotencyKeyHash v) = 32
     \<and> serviceSubjectPattern (aa_ServiceSubject (qh_Actor v)) \<and> boundedText (aa_RequestID (qh_Actor v)) 128"

definition validateResult :: "CommandResult \<Rightarrow> bool" where
  "validateResult v \<longleftrightarrow> (case rs_State v of
       CommandRunning \<Rightarrow> rs_Code v = OtherHealthCode [] \<and> rs_Summary v = None
     | CommandSucceeded \<Rightarrow> (case rs_Summary v of None \<Rightarrow> False
         | Some s \<Rightarrow> validHealthSummary s \<and> rs_Code v = hs_Code s) \<and> rs_Code v = HealthCodeHealthy
     | CommandFailed \<Rightarrow> (case rs_Summary v of None \<Rightarrow> False
         | Some s \<Rightarrow> validHealthSummary s \<and> rs_Code v = hs_Code s) \<and> rs_Code v \<noteq> HealthCodeHealthy
     | _ \<Rightarrow> False)"

fun known_status :: "EffectiveStatus \<Rightarrow> bool" where
  "known_status (OtherStatus _) = False"
| "known_status _ = True"

definition maxPageSize :: int where "maxPageSize = 100"
definition defaultPageSize :: int where "defaultPageSize = 50"
definition commandLifetime :: duration where "commandLifetime = 10 * minute"

definition validateInstanceFilter :: "InstanceFilter \<Rightarrow> bool" where
  "validateInstanceFilter v \<longleftrightarrow> 0 \<le> if_Limit v \<and> if_Limit v \<le> maxPageSize \<and> 0 \<le> if_Offset v
     \<and> boundedOptionalText (if_Platform v) 16 \<and> boundedOptionalText (if_ClientVersion v) 64
     \<and> (case if_EffectiveStatus v of None \<Rightarrow> True | Some s \<Rightarrow> known_status s)"

definition healthStatusFor :: "HealthSummary option \<Rightarrow> HealthStatus" where
  "healthStatusFor summary = (case summary of
       None \<Rightarrow> HealthUnknown
     | Some s \<Rightarrow> if hs_Code s = HealthCodeHealthy then HealthHealthy
         else if hs_Code s = HealthCodeDesktopUnhealthy then HealthDegraded else HealthUnhealthy)"

section \<open>Tables\<close>

text \<open>What the component uses of its surroundings: SHA-256, the time format of the audit log, and which
  characters the locale of the database has in the class \<open>cntrl\<close>.\<close>

record desktop_libs =
  dl_crypto :: crypto
  dl_format_time :: "instant \<Rightarrow> bytes"
  dl_cntrl :: "nat \<Rightarrow> bool"

text \<open>A column of type \<open>TEXT\<close> holds valid UTF-8 without zero bytes; \<open>v = btrim(v)\<close> says that no space leads or trails.\<close>

definition text_column :: "nat \<Rightarrow> bytes \<Rightarrow> bool" where
  "text_column limit v \<longleftrightarrow> ValidString v \<and> CHR 0x00 \<notin> set v \<and> v \<noteq> [] \<and> RuneCountInString v \<le> limit
     \<and> hd v \<noteq> CHR '' '' \<and> last v \<noteq> CHR '' ''"

definition instance_checks :: "desktop_libs \<Rightarrow> desktop_instance_row \<Rightarrow> bool" where
  "instance_checks lb r \<longleftrightarrow>
     text_column 100 (di_display_name r) \<and> list_all (\<lambda>c. \<not> dl_cntrl lb c) (runes (di_display_name r))
     \<and> di_instance_type r = ''desktop''
     \<and> text_column 64 (di_client_version r) \<and> list_all (\<lambda>c. \<not> dl_cntrl lb c) (runes (di_client_version r))
     \<and> di_platform r \<in> {''darwin'', ''windows'', ''linux''} \<and> di_arch r \<in> {''arm64'', ''x64''}
     \<and> list_all (\<lambda>c. c = CapabilityHealthRead) (di_capabilities r)
     \<and> ((di_health_status r = HealthUnknown) = (di_health_summary r = None))
     \<and> di_created_at r \<le> di_updated_at r"

definition instance_references :: "desktop_instance_row \<Rightarrow> db \<Rightarrow> bool" where
  "instance_references r d \<longleftrightarrow>
     exists_row (\<lambda>v. d_id v = di_device_id r \<and> d_user_id v = di_user_id r) (devices d)
     \<and> (case di_organization_id r of None \<Rightarrow> True | Some i \<Rightarrow> exists_row (\<lambda>g. og_id g = i) (organizations d))
     \<and> (case di_workspace_id r of None \<Rightarrow> True | Some w \<Rightarrow> exists_row (\<lambda>x. ws_id x = w) (workspaces d))"

text \<open>\<open>INSERT ... ON CONFLICT (device_id) DO UPDATE\<close>: a known device keeps its row, the time of its creation and,
  when the heartbeat reports no health, its health.\<close>

definition merge_instance :: "desktop_instance_row \<Rightarrow> desktop_instance_row \<Rightarrow> desktop_instance_row" where
  "merge_instance new old = old\<lparr>di_user_id := di_user_id new, di_organization_id := di_organization_id new,
     di_workspace_id := di_workspace_id new, di_display_name := di_display_name new,
     di_client_version := di_client_version new, di_platform := di_platform new, di_arch := di_arch new,
     di_capabilities := di_capabilities new, di_last_heartbeat_at := di_last_heartbeat_at new,
     di_health_status := (if di_health_summary new = None then di_health_status old else di_health_status new),
     di_health_summary := (if di_health_summary new = None then di_health_summary old else di_health_summary new),
     di_updated_at := di_updated_at new\<rparr>"

definition upsert_instance :: "desktop_libs \<Rightarrow> desktop_instance_row \<Rightarrow> db \<Rightarrow> db option" where
  "upsert_instance lb new d =
     (if \<not> instance_checks lb new then None
      else (case find (\<lambda>r. di_device_id r = di_device_id new) (desktop_control_instances d) of
          None \<Rightarrow> if \<not> instance_references new d then None
            else Some (d\<lparr>desktop_control_instances := desktop_control_instances d @ [new]\<rparr>)
        | Some old \<Rightarrow> let r = merge_instance new old in
            if \<not> instance_checks lb r \<or> \<not> instance_references r d then None
            else Some (d\<lparr>desktop_control_instances :=
              update_where (\<lambda>r. di_device_id r = di_device_id new) (merge_instance new) (desktop_control_instances d)\<rparr>)))"

definition update_instances ::
  "desktop_libs \<Rightarrow> (desktop_instance_row \<Rightarrow> bool) \<Rightarrow> (desktop_instance_row \<Rightarrow> desktop_instance_row) \<Rightarrow> db \<Rightarrow> db option" where
  "update_instances lb P g d =
     (if exists_row (\<lambda>r. P r \<and> \<not> instance_checks lb (g r)) (desktop_control_instances d) then None
      else Some (d\<lparr>desktop_control_instances := update_where P g (desktop_control_instances d)\<rparr>))"

definition live_state :: "CommandState \<Rightarrow> bool" where
  "live_state s \<longleftrightarrow> s = CommandQueued \<or> s = CommandClaimed \<or> s = CommandRunning"

definition terminal_result :: "CommandState \<Rightarrow> bool" where
  "terminal_result s \<longleftrightarrow> s = CommandSucceeded \<or> s = CommandFailed"

definition lifecycle_check :: "desktop_command_row \<Rightarrow> bool" where
  "lifecycle_check r \<longleftrightarrow> (case dc_state r of
       CommandQueued \<Rightarrow> dc_claimed_at r = None \<and> dc_started_at r = None \<and> dc_completed_at r = None
         \<and> dc_result_code r = None \<and> dc_result_summary r = None
     | CommandClaimed \<Rightarrow> dc_claimed_at r \<noteq> None \<and> dc_started_at r = None \<and> dc_completed_at r = None
         \<and> dc_result_code r = None \<and> dc_result_summary r = None
     | CommandRunning \<Rightarrow> dc_claimed_at r \<noteq> None \<and> dc_started_at r \<noteq> None \<and> dc_completed_at r = None
         \<and> dc_result_code r = None \<and> dc_result_summary r = None
     | CommandSucceeded \<Rightarrow> dc_claimed_at r \<noteq> None \<and> dc_started_at r \<noteq> None \<and> dc_completed_at r \<noteq> None
         \<and> dc_result_code r \<noteq> None \<and> dc_result_summary r \<noteq> None
     | CommandFailed \<Rightarrow> dc_claimed_at r \<noteq> None \<and> dc_started_at r \<noteq> None \<and> dc_completed_at r \<noteq> None
         \<and> dc_result_code r \<noteq> None \<and> dc_result_summary r \<noteq> None
     | CommandExpired \<Rightarrow> dc_completed_at r \<noteq> None \<and> dc_result_code r = None \<and> dc_result_summary r = None
     | OtherCommandState _ \<Rightarrow> False)"

text \<open>A comparison with a missing time is not false; \<open>started_at >= claimed_at\<close> holds then too.\<close>

definition at_least :: "instant option \<Rightarrow> instant option \<Rightarrow> bool" where
  "at_least low t = (case (low, t) of (Some a, Some b) \<Rightarrow> a \<le> b | _ \<Rightarrow> True)"

definition command_checks :: "desktop_command_row \<Rightarrow> bool" where
  "command_checks r \<longleftrightarrow> dc_type r = CommandHealthCheck \<and> dc_required_capability r = CapabilityHealthRead
     \<and> length (dc_idempotency_key_hash r) = 32
     \<and> (case dc_result_code r of None \<Rightarrow> True | Some c \<Rightarrow> validHealthCode c)
     \<and> text_column 128 (dc_request_id r)
     \<and> lifecycle_check r
     \<and> dc_expires_at r = dc_created_at r + 10 * minute \<and> dc_created_at r \<le> dc_updated_at r
     \<and> at_least (Some (dc_created_at r)) (dc_claimed_at r) \<and> at_least (dc_claimed_at r) (dc_started_at r)
     \<and> at_least (Some (dc_created_at r)) (dc_completed_at r)"

definition enforce_desktop_control_command_transition :: "desktop_command_row \<Rightarrow> desktop_command_row \<Rightarrow> bool" where
  "enforce_desktop_control_command_transition old new \<longleftrightarrow>
     dc_id new = dc_id old \<and> dc_device_id new = dc_device_id old \<and> dc_type new = dc_type old
     \<and> dc_required_capability new = dc_required_capability old
     \<and> dc_idempotency_key_hash new = dc_idempotency_key_hash old \<and> dc_expires_at new = dc_expires_at old
     \<and> dc_created_by_admin_id new = dc_created_by_admin_id old \<and> dc_request_id new = dc_request_id old
     \<and> dc_created_at new = dc_created_at old
     \<and> (if dc_state new = dc_state old
        then dc_claimed_at new = dc_claimed_at old \<and> dc_started_at new = dc_started_at old
          \<and> dc_completed_at new = dc_completed_at old \<and> dc_result_code new = dc_result_code old
          \<and> dc_result_summary new = dc_result_summary old
        else dc_state old = CommandQueued \<and> dc_state new \<in> {CommandClaimed, CommandExpired}
          \<or> dc_state old = CommandClaimed \<and> dc_state new \<in> {CommandRunning, CommandExpired}
          \<or> dc_state old = CommandRunning \<and> dc_state new \<in> {CommandSucceeded, CommandFailed, CommandExpired})"

definition update_commands ::
  "(desktop_command_row \<Rightarrow> bool) \<Rightarrow> (desktop_command_row \<Rightarrow> desktop_command_row) \<Rightarrow> db \<Rightarrow> db option" where
  "update_commands P g d =
     (if exists_row (\<lambda>r. P r \<and> \<not> (enforce_desktop_control_command_transition r (g r) \<and> command_checks (g r)))
           (desktop_control_commands d) then None
      else Some (d\<lparr>desktop_control_commands := update_where P g (desktop_control_commands d)\<rparr>))"

text \<open>\<open>INSERT ... ON CONFLICT (device_id, idempotency_key_hash) DO NOTHING\<close>; the flag says whether a row was inserted.\<close>

definition insert_command :: "desktop_command_row \<Rightarrow> db \<Rightarrow> (bool \<times> db) option" where
  "insert_command r d =
     (if \<not> command_checks r then None
      else if exists_row (\<lambda>q. dc_device_id q = dc_device_id r \<and> dc_idempotency_key_hash q = dc_idempotency_key_hash r)
           (desktop_control_commands d) then Some (False, d)
      else if exists_row (\<lambda>q. dc_id q = dc_id r) (desktop_control_commands d)
         \<or> \<not> exists_row (\<lambda>v. d_id v = dc_device_id r) (devices d) then None
      else Some (True, d\<lparr>desktop_control_commands := desktop_control_commands d @ [r]\<rparr>))"

section \<open>Repository\<close>

text \<open>What a transaction meets: the time, the statements that fail (in source order, with the begin and the commit;
  those of \<open>expireOverdueCommands\<close> counted apart), the new identifiers, and the rows that other transactions hold locked.\<close>

record desktop_env =
  dv_now :: instant
  dv_faults :: schedule
  dv_expiry_faults :: schedule
  dv_expiry_ids :: "nat \<Rightarrow> uuid"
  dv_command_id :: uuid
  dv_event_id :: uuid
  dv_locked :: "uuid \<Rightarrow> bool"

definition statement :: "bool \<Rightarrow> 'a option \<Rightarrow> desktop_error + 'a" where
  "statement fails x = (if fails then Inl CUnavailable else present CUnavailable x)"

definition requireActiveDevice :: "bool \<Rightarrow> DevicePrincipal \<Rightarrow> db \<Rightarrow> desktop_error + unit" where
  "requireActiveDevice fails p d =
     (if fails then Inl CUnavailable
      else (case (find (\<lambda>u. u_id u = dp_UserID p) (users d),
                  find (\<lambda>v. d_id v = dp_DeviceID p \<and> d_user_id v = dp_UserID p) (devices d)) of
          (Some u, Some v) \<Rightarrow> check (u_status u = ''active'' \<and> d_status v = ''active'') CConflict
        | _ \<Rightarrow> Inl CNotFound))"

definition scanInstance :: "desktop_instance_row \<Rightarrow> user_row \<Rightarrow> device_row \<Rightarrow> Instance" where
  "scanInstance r u v = \<lparr>inst_DeviceID = di_device_id r, inst_UserID = di_user_id r, inst_OrganizationID = di_organization_id r,
     inst_WorkspaceID = di_workspace_id r, inst_DisplayName = di_display_name r, inst_ClientVersion = di_client_version r,
     inst_Platform = di_platform r, inst_Arch = di_arch r, inst_Capabilities = di_capabilities r,
     inst_LastHeartbeatAt = di_last_heartbeat_at r, inst_HealthStatus = di_health_status r,
     inst_HealthSummary = di_health_summary r, inst_CreatedAt = di_created_at r, inst_UpdatedAt = di_updated_at r,
     inst_UserStatus = u_status u, inst_DeviceStatus = d_status v, inst_EffectiveStatusValue = OtherStatus []\<rparr>"

text \<open>The join of \<open>instanceQuery\<close>, for one row of the instances.\<close>

definition join_instance :: "db \<Rightarrow> desktop_instance_row \<Rightarrow> Instance option" where
  "join_instance d r =
     (case (find (\<lambda>u. u_id u = di_user_id r) (users d),
            find (\<lambda>v. d_id v = di_device_id r \<and> d_user_id v = di_user_id r) (devices d)) of
        (Some u, Some v) \<Rightarrow> Some (scanInstance r u v) | _ \<Rightarrow> None)"

definition readInstance :: "bool \<Rightarrow> uuid \<Rightarrow> db \<Rightarrow> desktop_error + Instance" where
  "readInstance fails deviceID d =
     (if fails then Inl CUnavailable
      else present CNotFound (Option.bind (find (\<lambda>r. di_device_id r = deviceID) (desktop_control_instances d)) (join_instance d)))"

definition scanCommand :: "desktop_command_row \<Rightarrow> Command" where
  "scanCommand r = \<lparr>cm_ID = dc_id r, cm_DeviceID = dc_device_id r, cm_Type = dc_type r,
     cm_RequiredCapability = dc_required_capability r, cm_IdempotencyKeyHash = dc_idempotency_key_hash r,
     cm_State = dc_state r, cm_ExpiresAt = dc_expires_at r, cm_ClaimedAt = dc_claimed_at r, cm_StartedAt = dc_started_at r,
     cm_CompletedAt = dc_completed_at r, cm_ResultCode = dc_result_code r, cm_ResultSummary = dc_result_summary r,
     cm_CreatedByAdminID = dc_created_by_admin_id r, cm_RequestID = dc_request_id r, cm_CreatedAt = dc_created_at r,
     cm_UpdatedAt = dc_updated_at r, cm_Replayed = False\<rparr>"

definition findCommandByIdempotency :: "bool \<Rightarrow> uuid \<Rightarrow> bytes \<Rightarrow> db \<Rightarrow> desktop_error + Command option" where
  "findCommandByIdempotency fails deviceID keyHash d =
     (if fails then Inl CUnavailable
      else Inr (map_option scanCommand (find (\<lambda>c. dc_device_id c = deviceID \<and> dc_idempotency_key_hash c = keyHash)
        (desktop_control_commands d))))"

definition readCommand :: "bool \<Rightarrow> uuid \<Rightarrow> db \<Rightarrow> desktop_error + Command" where
  "readCommand fails commandID d =
     (if fails then Inl CUnavailable
      else present CNotFound (map_option scanCommand (find (\<lambda>c. dc_id c = commandID) (desktop_control_commands d))))"

definition readCommandForDevice :: "bool \<Rightarrow> uuid \<Rightarrow> uuid \<Rightarrow> uuid \<Rightarrow> db \<Rightarrow> desktop_error + Command" where
  "readCommandForDevice fails commandID deviceID userID d =
     (if fails then Inl CUnavailable
      else present CNotFound (map_option scanCommand (find (\<lambda>c. dc_id c = commandID \<and> dc_device_id c = deviceID
        \<and> exists_row (\<lambda>v. d_id v = dc_device_id c \<and> d_user_id v = userID) (devices d)) (desktop_control_commands d))))"

definition recordCommandAudit ::
  "desktop_libs \<Rightarrow> bool \<Rightarrow> uuid \<Rightarrow> Command \<Rightarrow> bytes \<Rightarrow> bytes \<Rightarrow> HealthCode option \<Rightarrow> instant \<Rightarrow> db \<Rightarrow> desktop_error + db" where
  "recordCommandAudit lb fails eventID c eventType operator resultCode now d =
     statement fails (insert_audit \<lparr>a_id = eventID, a_event_type = eventType, a_actor_user_id = None,
       a_device_id = Some (cm_DeviceID c), a_object_type = Some ''desktop_control_command'', a_object_id = Some (cm_ID c),
       a_outcome = ''success'', a_reason_code = None, a_request_id = Some (cm_RequestID c), a_ip_hmac = None,
       a_metadata = [(''admin_id'', uuid_string (cm_CreatedByAdminID c)), (''device_id'', uuid_string (cm_DeviceID c)),
         (''command_id'', uuid_string (cm_ID c)), (''request_id'', cm_RequestID c), (''state'', state_text (cm_State c)),
         (''at'', dl_format_time lb now)]
         @ (case resultCode of None \<Rightarrow> [] | Some rc \<Rightarrow> [(''result_code'', code_text rc)]),
       a_created_at = now, a_organization_id = None, a_operator_identity = Some operator\<rparr> d)"

definition overdue :: "instant \<Rightarrow> uuid option \<Rightarrow> desktop_command_row \<Rightarrow> bool" where
  "overdue now deviceID r \<longleftrightarrow> live_state (dc_state r) \<and> dc_expires_at r \<le> now
     \<and> (case deviceID of None \<Rightarrow> True | Some i \<Rightarrow> dc_device_id r = i)"

definition expire :: "instant \<Rightarrow> desktop_command_row \<Rightarrow> desktop_command_row" where
  "expire now r = r\<lparr>dc_state := CommandExpired, dc_completed_at := Some now, dc_updated_at := now\<rparr>"

fun record_expiries :: "desktop_libs \<Rightarrow> schedule \<Rightarrow> (nat \<Rightarrow> uuid) \<Rightarrow> instant \<Rightarrow> nat \<Rightarrow> Command list \<Rightarrow> db \<Rightarrow> desktop_error + db" where
  "record_expiries lb f ids now k [] d = Inr d"
| "record_expiries lb f ids now k (c # cs) d =
     andthen (recordCommandAudit lb (f (Suc k)) (ids k) c ''desktop_health_check_completed'' ''aera-cloud-desktop-control'' None now d)
       (record_expiries lb f ids now (Suc k) cs)"

definition expireOverdueCommands :: "desktop_libs \<Rightarrow> desktop_env \<Rightarrow> uuid option \<Rightarrow> db \<Rightarrow> desktop_error + db" where
  "expireOverdueCommands lb e deviceID d =
     (let now = dv_now e; due = filter (overdue now deviceID) (desktop_control_commands d) in
      andthen (statement (dv_expiry_faults e 0) (update_commands (overdue now deviceID) (expire now) d))
        (record_expiries lb (dv_expiry_faults e) (dv_expiry_ids e) now 0
          (map (\<lambda>r. (scanCommand r)\<lparr>cm_State := CommandExpired\<rparr>) due)))"

definition hasCapability :: "bytes list \<Rightarrow> bytes \<Rightarrow> bool" where
  "hasCapability capabilities target \<longleftrightarrow> list_ex (\<lambda>c. c = target) capabilities"

text \<open>The stored summary has only the words that \<open>validHealthSummary\<close> lists, so that its JSON text is that of
  another summary exactly if both are equal.\<close>

definition sameCommandResult :: "Command \<Rightarrow> CommandResult \<Rightarrow> bool" where
  "sameCommandResult c r \<longleftrightarrow> cm_State c = rs_State r \<and> cm_ResultCode c = Some (rs_Code r) \<and> cm_ResultSummary c = rs_Summary r"

definition heartbeat_row :: "DevicePrincipal \<Rightarrow> Heartbeat \<Rightarrow> instant \<Rightarrow> desktop_instance_row" where
  "heartbeat_row p h now = \<lparr>di_device_id = dp_DeviceID p, di_user_id = dp_UserID p, di_organization_id = dp_OrganizationID p,
     di_workspace_id = dp_WorkspaceID p, di_display_name = hb_DisplayName h, di_instance_type = ''desktop'',
     di_client_version = hb_ClientVersion h, di_platform = hb_Platform h, di_arch = hb_Arch h,
     di_capabilities = hb_Capabilities h, di_last_heartbeat_at = Some now, di_health_status = healthStatusFor (hb_Health h),
     di_health_summary = hb_Health h, di_created_at = now, di_updated_at = now\<rparr>"

text \<open>Calls: begin, join, upsert, select, commit.\<close>

definition AcceptHeartbeat ::
  "desktop_libs \<Rightarrow> desktop_env \<Rightarrow> DevicePrincipal \<Rightarrow> Heartbeat \<Rightarrow> db \<Rightarrow> (desktop_error + Instance) \<times> db" where
  "AcceptHeartbeat lb e p h d = returning (
     andthen (check (validatePrincipal p \<and> validateHeartbeat h) CInvalidInput) (\<lambda>_.
     andthen (check (\<not> dv_faults e 0) CUnavailable) (\<lambda>_.
     andthen (requireActiveDevice (dv_faults e 1) p d) (\<lambda>_.
     andthen (statement (dv_faults e 2) (upsert_instance lb (heartbeat_row p h (dv_now e)) d)) (\<lambda>d1.
     andthen (readInstance (dv_faults e 3) (dp_DeviceID p) d1) (\<lambda>i.
     andthen (check (\<not> dv_faults e 4) CUnavailable) (\<lambda>_. Inr (i, d1)))))))) d"

definition new_command :: "desktop_env \<Rightarrow> QueueHealthCheckCommand \<Rightarrow> desktop_command_row" where
  "new_command e q = \<lparr>dc_id = dv_command_id e, dc_device_id = qh_DeviceID q, dc_type = CommandHealthCheck,
     dc_required_capability = CapabilityHealthRead, dc_idempotency_key_hash = qh_IdempotencyKeyHash q,
     dc_state = CommandQueued, dc_expires_at = dv_now e + commandLifetime, dc_claimed_at = None, dc_started_at = None,
     dc_completed_at = None, dc_result_code = None, dc_result_summary = None,
     dc_created_by_admin_id = aa_AdminID (qh_Actor q), dc_request_id = aa_RequestID (qh_Actor q),
     dc_created_at = dv_now e, dc_updated_at = dv_now e\<rparr>"

definition replay :: "bool \<Rightarrow> Command \<Rightarrow> db \<Rightarrow> desktop_error + Command \<times> db" where
  "replay fails c d = andthen (check (\<not> fails) CUnavailable) (\<lambda>_. Inr (c\<lparr>cm_Replayed := True\<rparr>, d))"

definition commandable :: "instant \<Rightarrow> Instance \<Rightarrow> bool" where
  "commandable now i \<longleftrightarrow> inst_UserStatus i = ''active'' \<and> inst_DeviceStatus i = ''active''
     \<and> effective_status now i = EffectiveOnline \<and> hasCapability (inst_Capabilities i) CapabilityHealthRead"

text \<open>The insertion of the command with its audit event. Calls: insert, then either a second select or the event, commit.\<close>

definition enqueue :: "desktop_libs \<Rightarrow> desktop_env \<Rightarrow> QueueHealthCheckCommand \<Rightarrow> db \<Rightarrow> desktop_error + Command \<times> db" where
  "enqueue lb e q d1 =
     andthen (statement (dv_faults e 3) (insert_command (new_command e q) d1)) (\<lambda>(inserted, d2).
     if \<not> inserted
     then (case findCommandByIdempotency (dv_faults e 4) (qh_DeviceID q) (qh_IdempotencyKeyHash q) d2 of
         Inr (Some c) \<Rightarrow> replay (dv_faults e 5) c d2
       | _ \<Rightarrow> Inl CUnavailable)
     else
       andthen (recordCommandAudit lb (dv_faults e 4) (dv_event_id e) (scanCommand (new_command e q))
         ''desktop_health_check_requested'' (aa_ServiceSubject (qh_Actor q)) None (dv_now e) d2) (\<lambda>d3.
       andthen (check (\<not> dv_faults e 5) CUnavailable) (\<lambda>_. Inr (scanCommand (new_command e q), d3))))"

text \<open>Calls: begin, the expiry, select, select of the instance, then those of \<open>enqueue\<close>.\<close>

definition QueueHealthCheck ::
  "desktop_libs \<Rightarrow> desktop_env \<Rightarrow> QueueHealthCheckCommand \<Rightarrow> db \<Rightarrow> (desktop_error + Command) \<times> db" where
  "QueueHealthCheck lb e q d = returning (
     andthen (check (validateQueue q) CInvalidInput) (\<lambda>_.
     andthen (check (\<not> dv_faults e 0) CUnavailable) (\<lambda>_.
     andthen (expireOverdueCommands lb e None d) (\<lambda>d1.
     andthen (findCommandByIdempotency (dv_faults e 1) (qh_DeviceID q) (qh_IdempotencyKeyHash q) d1) (\<lambda>found.
     case found of
       Some c \<Rightarrow> replay (dv_faults e 2) c d1
     | None \<Rightarrow>
         andthen (readInstance (dv_faults e 2) (qh_DeviceID q) d1) (\<lambda>i.
         andthen (check (commandable (dv_now e) i) CConflict) (\<lambda>_. enqueue lb e q d1))))))) d"

text \<open>The queued commands of a device, oldest first, without those another transaction holds locked.\<close>

definition claimable :: "desktop_env \<Rightarrow> uuid \<Rightarrow> db \<Rightarrow> desktop_command_row list" where
  "claimable e deviceID d = sort_key (\<lambda>c. (dc_created_at c, dc_id c))
     (filter (\<lambda>c. dc_device_id c = deviceID \<and> dc_state c = CommandQueued \<and> dv_now e < dc_expires_at c
        \<and> \<not> dv_locked e (dc_id c)) (desktop_control_commands d))"

text \<open>Calls: begin, join, select of the instance, the expiry, select, update, select, commit.\<close>

definition ClaimNextCommand ::
  "desktop_libs \<Rightarrow> desktop_env \<Rightarrow> DevicePrincipal \<Rightarrow> db \<Rightarrow> (desktop_error + Command option) \<times> db" where
  "ClaimNextCommand lb e p d = returning (
     andthen (check (validatePrincipal p) CInvalidInput) (\<lambda>_.
     andthen (check (\<not> dv_faults e 0) CUnavailable) (\<lambda>_.
     andthen (requireActiveDevice (dv_faults e 1) p d) (\<lambda>_.
     andthen (readInstance (dv_faults e 2) (dp_DeviceID p) d) (\<lambda>i.
     if \<not> hasCapability (inst_Capabilities i) CapabilityHealthRead
     then andthen (check (\<not> dv_faults e 3) CUnavailable) (\<lambda>_. Inr (None, d))
     else
       andthen (expireOverdueCommands lb e (Some (dp_DeviceID p)) d) (\<lambda>d1.
       andthen (check (\<not> dv_faults e 3) CUnavailable) (\<lambda>_.
       case claimable e (dp_DeviceID p) d1 of
         [] \<Rightarrow> andthen (check (\<not> dv_faults e 4) CUnavailable) (\<lambda>_. Inr (None, d1))
       | c # _ \<Rightarrow>
           andthen (statement (dv_faults e 4) (update_commands (\<lambda>r. dc_id r = dc_id c)
             (\<lambda>r. r\<lparr>dc_state := CommandClaimed, dc_claimed_at := Some (dv_now e), dc_updated_at := dv_now e\<rparr>) d1)) (\<lambda>d2.
           andthen (readCommand (dv_faults e 5) (dc_id c) d2) (\<lambda>command.
           andthen (check (\<not> dv_faults e 6) CUnavailable) (\<lambda>_. Inr (Some command, d2))))))))))) d"

definition advanced :: "instant \<Rightarrow> CommandResult \<Rightarrow> desktop_command_row \<Rightarrow> desktop_command_row" where
  "advanced now result r =
     (if rs_State result = CommandRunning
      then r\<lparr>dc_state := CommandRunning, dc_started_at := Some now, dc_updated_at := now\<rparr>
      else r\<lparr>dc_state := rs_State result, dc_completed_at := Some now, dc_result_code := Some (rs_Code result),
             dc_result_summary := rs_Summary result, dc_updated_at := now\<rparr>)"

definition with_health :: "instant \<Rightarrow> CommandResult \<Rightarrow> desktop_instance_row \<Rightarrow> desktop_instance_row" where
  "with_health now result r = r\<lparr>di_health_status := healthStatusFor (rs_Summary result), di_health_summary := rs_Summary result,
     di_updated_at := now\<rparr>"

text \<open>The report of a result: the health of the instance and an audit event. Calls: update, insert.\<close>

definition report_result ::
  "desktop_libs \<Rightarrow> desktop_env \<Rightarrow> uuid \<Rightarrow> Command \<Rightarrow> CommandResult \<Rightarrow> db \<Rightarrow> desktop_error + db" where
  "report_result lb e deviceID command result d =
     andthen (statement (dv_faults e 4) (update_instances lb (\<lambda>r. di_device_id r = deviceID) (with_health (dv_now e) result) d)) (\<lambda>d1.
     recordCommandAudit lb (dv_faults e 5) (dv_event_id e) (command\<lparr>cm_State := rs_State result\<rparr>)
       ''desktop_health_check_completed'' ''aera-cloud-desktop-control'' (Some (rs_Code result)) (dv_now e) d1)"

text \<open>Calls: begin, join, the expiry, select, update, those of \<open>report_result\<close>, select, commit.\<close>

definition AdvanceCommand ::
  "desktop_libs \<Rightarrow> desktop_env \<Rightarrow> DevicePrincipal \<Rightarrow> uuid \<Rightarrow> CommandResult \<Rightarrow> db \<Rightarrow> (desktop_error + Command) \<times> db" where
  "AdvanceCommand lb e p commandID result d = returning (
     andthen (check (validatePrincipal p \<and> commandID \<noteq> Nil_uuid) CInvalidInput) (\<lambda>_.
     andthen (check (\<not> dv_faults e 0) CUnavailable) (\<lambda>_.
     andthen (requireActiveDevice (dv_faults e 1) p d) (\<lambda>_.
     andthen (expireOverdueCommands lb e (Some (dp_DeviceID p)) d) (\<lambda>d1.
     andthen (readCommandForDevice (dv_faults e 2) commandID (dp_DeviceID p) (dp_UserID p) d1) (\<lambda>command.
     if terminal_result (cm_State command)
     then (if sameCommandResult command result then replay (dv_faults e 3) command d1 else Inl CConflict)
     else
       andthen (check (CanTransition (cm_State command) (rs_State result)) CInvalidTransition) (\<lambda>_.
       andthen (check (validateResult result) CInvalidInput) (\<lambda>_.
       andthen (statement (dv_faults e 3) (update_commands (\<lambda>r. dc_id r = commandID) (advanced (dv_now e) result) d1)) (\<lambda>d2.
       andthen (if terminal_result (rs_State result) then report_result lb e (dp_DeviceID p) command result d2 else Inr d2) (\<lambda>d3.
       andthen (readCommand (dv_faults e 6) commandID d3) (\<lambda>updated.
       andthen (check (\<not> dv_faults e 7) CUnavailable) (\<lambda>_. Inr (updated, d3))))))))))))) d"

text \<open>The effective status as the query of the list computes it.\<close>

definition projected_status :: "instant \<Rightarrow> Instance \<Rightarrow> EffectiveStatus" where
  "projected_status now i =
     (if inst_UserStatus i = ''disabled'' then EffectiveDisabled
      else if inst_UserStatus i = ''pending_deletion'' then EffectivePending
      else if inst_DeviceStatus i = ''revoked'' then EffectiveRevoked
      else if inst_DeviceStatus i = ''inactive'' then EffectivePending
      else if (case inst_LastHeartbeatAt i of None \<Rightarrow> True | Some at \<Rightarrow> at < now - 150 * second) then EffectiveOffline
      else EffectiveOnline)"

definition selected :: "instant \<Rightarrow> InstanceFilter \<Rightarrow> Instance \<Rightarrow> bool" where
  "selected now v i \<longleftrightarrow>
     (if_DeviceID v = None \<or> if_DeviceID v = Some (inst_DeviceID i))
     \<and> (if_UserID v = None \<or> if_UserID v = Some (inst_UserID i))
     \<and> (if_OrganizationID v = None \<or> if_OrganizationID v = inst_OrganizationID i)
     \<and> (if_Platform v = [] \<or> if_Platform v = inst_Platform i)
     \<and> (if_ClientVersion v = [] \<or> if_ClientVersion v = inst_ClientVersion i)
     \<and> (if_EffectiveStatus v = None \<or> if_EffectiveStatus v = Some (projected_status now i))"

definition listed :: "instant \<Rightarrow> InstanceFilter \<Rightarrow> db \<Rightarrow> Instance list" where
  "listed now v d = sort_key (\<lambda>i. (- inst_UpdatedAt i, inst_DeviceID i))
     (filter (selected now v) (List.map_filter (join_instance d) (desktop_control_instances d)))"

text \<open>Every row of the page carries the number of all rows; without a row the total stays zero.\<close>

definition Repository_ListInstances :: "bool \<Rightarrow> instant \<Rightarrow> InstanceFilter \<Rightarrow> db \<Rightarrow> desktop_error + InstancePage" where
  "Repository_ListInstances fails now v d =
     andthen (check (validateInstanceFilter v) CInvalidInput) (\<lambda>_.
     andthen (check (\<not> fails) CUnavailable) (\<lambda>_.
     (let limit = (if if_Limit v = 0 then defaultPageSize else if_Limit v);
          rows = listed now v d; items = take (nat limit) (drop (nat (if_Offset v)) rows) in
      Inr \<lparr>pg_Items = items, pg_Total = (if items = [] then 0 else int (length rows)), pg_ServerTime = zero_time\<rparr>)))"

definition Repository_ListUserInstances ::
  "bool \<Rightarrow> instant \<Rightarrow> uuid \<Rightarrow> InstanceFilter \<Rightarrow> db \<Rightarrow> desktop_error + InstancePage" where
  "Repository_ListUserInstances fails now userID v d =
     andthen (check (userID \<noteq> Nil_uuid \<and> (if_UserID v = None \<or> if_UserID v = Some userID)) CInvalidInput) (\<lambda>_.
     Repository_ListInstances fails now (v\<lparr>if_UserID := Some userID\<rparr>) d)"

definition Repository_GetInstance :: "bool \<Rightarrow> uuid \<Rightarrow> db \<Rightarrow> desktop_error + Instance" where
  "Repository_GetInstance fails deviceID d =
     andthen (check (deviceID \<noteq> Nil_uuid) CInvalidInput) (\<lambda>_. readInstance fails deviceID d)"

text \<open>Calls: begin, the expiry, select, commit.\<close>

definition Repository_GetCommand :: "desktop_libs \<Rightarrow> desktop_env \<Rightarrow> uuid \<Rightarrow> db \<Rightarrow> (desktop_error + Command) \<times> db" where
  "Repository_GetCommand lb e commandID d = returning (
     andthen (check (commandID \<noteq> Nil_uuid) CInvalidInput) (\<lambda>_.
     andthen (check (\<not> dv_faults e 0) CUnavailable) (\<lambda>_.
     andthen (expireOverdueCommands lb e None d) (\<lambda>d1.
     andthen (readCommand (dv_faults e 1) commandID d1) (\<lambda>command.
     andthen (check (\<not> dv_faults e 2) CUnavailable) (\<lambda>_. Inr (command, d1))))))) d"

section \<open>Limiter\<close>

definition redisDesktopControlLimitPrefix :: bytes where
  "redisDesktopControlLimitPrefix = ''aera-cloud:desktop-control-limit:''"

datatype DesktopLimitAction = LimitHeartbeat | LimitCommandResult | OtherLimit bytes

fun limit_action_text :: "DesktopLimitAction \<Rightarrow> bytes" where
  "limit_action_text LimitHeartbeat = ''heartbeat''"
| "limit_action_text LimitCommandResult = ''command_result''"
| "limit_action_text (OtherLimit s) = s"

record DesktopLimitPolicy =
  dk_Limit :: int
  dk_Window :: duration

definition valid_desktop_policy :: "DesktopLimitPolicy \<Rightarrow> bool" where
  "valid_desktop_policy p \<longleftrightarrow> 0 < dk_Limit p \<and> second \<le> dk_Window p"

record DesktopLimitPolicies =
  dk_Heartbeat :: DesktopLimitPolicy
  dk_CommandResult :: DesktopLimitPolicy

definition valid_desktop_policies :: "DesktopLimitPolicies \<Rightarrow> bool" where
  "valid_desktop_policies p \<longleftrightarrow> valid_desktop_policy (dk_Heartbeat p) \<and> valid_desktop_policy (dk_CommandResult p)"

definition DefaultDesktopLimitPolicies :: DesktopLimitPolicies where
  "DefaultDesktopLimitPolicies = \<lparr>dk_Heartbeat = \<lparr>dk_Limit = 120, dk_Window = 10 * minute\<rparr>,
     dk_CommandResult = \<lparr>dk_Limit = 120, dk_Window = 10 * minute\<rparr>\<rparr>"

definition NewDesktopLimiter :: "DesktopLimitPolicies \<Rightarrow> DesktopLimitPolicies option" where
  "NewDesktopLimiter p = (if valid_desktop_policies p then Some p else None)"

fun desktop_policy :: "DesktopLimitPolicies \<Rightarrow> DesktopLimitAction \<Rightarrow> desktop_error + DesktopLimitPolicy" where
  "desktop_policy p LimitHeartbeat = Inr (dk_Heartbeat p)"
| "desktop_policy p LimitCommandResult = Inr (dk_CommandResult p)"
| "desktop_policy p (OtherLimit _) = Inl CInvalidInput"

definition desktopControlLimitKey :: "crypto \<Rightarrow> DesktopLimitAction \<Rightarrow> DevicePrincipal \<Rightarrow> bytes" where
  "desktopControlLimitKey cr action p = redisDesktopControlLimitPrefix @ hex_encode (sha256 cr
     (''aera.desktop-control-rate-limit.v1'' @ [CHR 0x00] @ limit_action_text action @ [CHR 0x00]
      @ uuid_bytes (dp_UserID p) @ uuid_bytes (dp_DeviceID p)))"

text \<open>The time to wait, and the error if there is one.\<close>

definition Desktop_Allow ::
  "crypto \<Rightarrow> DesktopLimitPolicies \<Rightarrow> bool \<Rightarrow> instant \<Rightarrow> DesktopLimitAction \<Rightarrow> DevicePrincipal \<Rightarrow> int redis
     \<Rightarrow> (duration \<times> desktop_error option) \<times> int redis" where
  "Desktop_Allow cr policies fails now action p r =
     (if \<not> validatePrincipal p then ((0, Some CInvalidInput), r)
      else (case desktop_policy policies action of
          Inl e \<Rightarrow> ((0, Some e), r)
        | Inr policy \<Rightarrow>
            if fails then ((0, Some CUnavailable), r)
            else (case incrementWindow now (desktopControlLimitKey cr action p) (dk_Window policy div millisecond) r of
                ((count, ttl), r') \<Rightarrow>
                  if count \<le> dk_Limit policy then ((0, None), r')
                  else (let retryAfter = ttl * millisecond in
                    ((if retryAfter \<le> 0 \<or> dk_Window policy < retryAfter then dk_Window policy else retryAfter, Some CRateLimited), r')))))"

section \<open>Service\<close>

record HeartbeatReceipt =
  hr_Instance :: Instance
  hr_AcceptedAt :: instant
  hr_NextHeartbeatSeconds :: int
  hr_Command :: "Command option"
  hr_ServerTime :: instant

fun serviceError :: "desktop_error \<Rightarrow> desktop_error" where
  "serviceError CRateLimited = CUnavailable"
| "serviceError e = e"

definition service_result :: "(desktop_error + 'a) \<times> db \<Rightarrow> (desktop_error + 'a) \<times> db" where
  "service_result r = (case r of (Inl e, d) \<Rightarrow> (Inl (serviceError e), d) | (Inr v, d) \<Rightarrow> (Inr v, d))"

text \<open>The two transactions of a heartbeat have their own surroundings; \<open>clock\<close> is the time of the service.\<close>

definition Service_Heartbeat ::
  "desktop_libs \<Rightarrow> instant \<Rightarrow> desktop_env \<Rightarrow> desktop_env \<Rightarrow> DevicePrincipal \<Rightarrow> Heartbeat \<Rightarrow> db
     \<Rightarrow> (desktop_error + HeartbeatReceipt) \<times> db" where
  "Service_Heartbeat lb clock e1 e2 p h d =
     proceed (check (validatePrincipal p \<and> validateHeartbeat h) CInvalidInput, d) (\<lambda>_ d.
     proceed (service_result (AcceptHeartbeat lb e1 p h d)) (\<lambda>i d.
     proceed (check (inst_DeviceID i = dp_DeviceID p \<and> inst_UserID i = dp_UserID p) CUnavailable, d) (\<lambda>_ d.
     proceed (service_result (ClaimNextCommand lb e2 p d)) (\<lambda>command d.
     (Inr \<lparr>hr_Instance = i\<lparr>inst_EffectiveStatusValue := effective_status clock i\<rparr>, hr_AcceptedAt = clock,
        hr_NextHeartbeatSeconds = 60, hr_Command = command, hr_ServerTime = clock\<rparr>, d)))))"

definition Service_SubmitResult ::
  "desktop_libs \<Rightarrow> desktop_env \<Rightarrow> DevicePrincipal \<Rightarrow> uuid \<Rightarrow> CommandResult \<Rightarrow> db \<Rightarrow> (desktop_error + Command) \<times> db" where
  "Service_SubmitResult lb e p commandID result d =
     proceed (check (validatePrincipal p \<and> commandID \<noteq> Nil_uuid) CInvalidInput, d) (\<lambda>_ d.
     proceed (check (validateResult result) CInvalidInput, d) (\<lambda>_ d.
     service_result (AdvanceCommand lb e p commandID result d)))"

definition decoratePage :: "instant \<Rightarrow> InstancePage \<Rightarrow> InstancePage" where
  "decoratePage now page = page\<lparr>pg_Items := map (\<lambda>i. i\<lparr>inst_EffectiveStatusValue := effective_status now i\<rparr>) (pg_Items page),
     pg_ServerTime := now\<rparr>"

definition Service_ListInstances ::
  "instant \<Rightarrow> bool \<Rightarrow> instant \<Rightarrow> InstanceFilter \<Rightarrow> db \<Rightarrow> desktop_error + InstancePage" where
  "Service_ListInstances clock fails now v d =
     (case Repository_ListInstances fails now v d of Inl e \<Rightarrow> Inl (serviceError e) | Inr page \<Rightarrow> Inr (decoratePage clock page))"

definition Service_ListUserInstances ::
  "instant \<Rightarrow> bool \<Rightarrow> instant \<Rightarrow> uuid \<Rightarrow> InstanceFilter \<Rightarrow> db \<Rightarrow> desktop_error + InstancePage" where
  "Service_ListUserInstances clock fails now userID v d =
     andthen (check (userID \<noteq> Nil_uuid) CInvalidInput) (\<lambda>_.
     case Repository_ListUserInstances fails now userID v d of Inl e \<Rightarrow> Inl (serviceError e) | Inr page \<Rightarrow> Inr (decoratePage clock page))"

definition Service_GetInstance :: "instant \<Rightarrow> bool \<Rightarrow> uuid \<Rightarrow> db \<Rightarrow> desktop_error + Instance" where
  "Service_GetInstance clock fails deviceID d =
     andthen (check (deviceID \<noteq> Nil_uuid) CInvalidInput) (\<lambda>_.
     case Repository_GetInstance fails deviceID d of
       Inl e \<Rightarrow> Inl (serviceError e)
     | Inr i \<Rightarrow> Inr (i\<lparr>inst_EffectiveStatusValue := effective_status clock i\<rparr>))"

definition Service_QueueHealthCheck ::
  "desktop_libs \<Rightarrow> desktop_env \<Rightarrow> AdminActor \<Rightarrow> uuid \<Rightarrow> bytes \<Rightarrow> db \<Rightarrow> (desktop_error + Command) \<times> db" where
  "Service_QueueHealthCheck lb e actor deviceID idempotencyKey d =
     proceed (check (deviceID \<noteq> Nil_uuid \<and> idempotencyKeyPattern idempotencyKey) CInvalidInput, d) (\<lambda>_ d.
     (let q = \<lparr>qh_DeviceID = deviceID, qh_IdempotencyKeyHash = sha256 (dl_crypto lb) idempotencyKey, qh_Actor = actor\<rparr> in
      proceed (check (validateQueue q) CInvalidInput, d) (\<lambda>_ d. service_result (QueueHealthCheck lb e q d))))"

definition Service_GetCommand :: "desktop_libs \<Rightarrow> desktop_env \<Rightarrow> uuid \<Rightarrow> db \<Rightarrow> (desktop_error + Command) \<times> db" where
  "Service_GetCommand lb e commandID d =
     proceed (check (commandID \<noteq> Nil_uuid) CInvalidInput, d) (\<lambda>_ d. service_result (Repository_GetCommand lb e commandID d))"

end
