(* ===== verification/DesktopSafety.thy ===== *)
theory DesktopSafety
  imports DesktopControl Workspaces
begin

text \<open>
  Correctness of the control of desktops. The abstract specification is a board of orders; every call of the
  service lets orders lapse and then takes at most one step that its caller may take. From this follow what holds
  in every reachable state, that a command is handed out once, and that requests are idempotent.
\<close>

section \<open>Specification\<close>

datatype stage = Pending | Delivered | Started | Reported "HealthSummary option" | Lapsed

record order =
  or_device :: uuid
  or_key :: bytes
  or_stage :: stage

type_synonym board = "uuid \<rightharpoonup> order"

datatype party = Operator uuid | Desktop uuid | NewOwner uuid | Nobody

definition open_stage :: "stage \<Rightarrow> bool" where
  "open_stage s \<longleftrightarrow> s = Pending \<or> s = Delivered \<or> s = Started"

definition lapses :: "board \<Rightarrow> board \<Rightarrow> bool" where
  "lapses b b' \<longleftrightarrow> (\<forall>i. b' i = b i \<or> (\<exists>q. b i = Some q \<and> open_stage (or_stage q) \<and> b' i = Some (q\<lparr>or_stage := Lapsed\<rparr>)))"

inductive party_move :: "party \<Rightarrow> board \<Rightarrow> board \<Rightarrow> bool" where
  request: "b i = None \<Longrightarrow> (\<And>j q. b j = Some q \<Longrightarrow> or_device q \<noteq> v \<or> or_key q \<noteq> k) \<Longrightarrow>
     party_move (Operator i) b (b(i \<mapsto> \<lparr>or_device = v, or_key = k, or_stage = Pending\<rparr>))"
| deliver: "b i = Some q \<Longrightarrow> or_stage q = Pending \<Longrightarrow> or_device q = v \<Longrightarrow> party_move (Desktop v) b (b(i \<mapsto> q\<lparr>or_stage := Delivered\<rparr>))"
| start: "b i = Some q \<Longrightarrow> or_stage q = Delivered \<Longrightarrow> or_device q = v \<Longrightarrow> party_move (Desktop v) b (b(i \<mapsto> q\<lparr>or_stage := Started\<rparr>))"
| report: "b i = Some q \<Longrightarrow> or_stage q = Started \<Longrightarrow> or_device q = v \<Longrightarrow> validHealthSummary s \<Longrightarrow>
     party_move (Desktop v) b (b(i \<mapsto> q\<lparr>or_stage := Reported (Some s)\<rparr>))"
| withdraw: "party_move (NewOwner v) b (\<lambda>i. case b i of None \<Rightarrow> None | Some q \<Rightarrow> if or_device q = v then None else Some q)"

definition turn :: "party \<Rightarrow> board \<Rightarrow> board \<Rightarrow> bool" where
  "turn p b b' \<longleftrightarrow> (\<exists>b1. lapses b b1 \<and> (b' = b1 \<or> party_move p b1 b'))"

definition some_turn :: "board \<Rightarrow> board \<Rightarrow> bool" where
  "some_turn b b' \<longleftrightarrow> (\<exists>p. turn p b b')"

lemma lapses_refl [simp]: "lapses b b"
  by (simp add: lapses_def)

lemma turn_refl [simp]: "turn p b b"
  by (auto simp: turn_def intro: exI [of _ b])

lemma turn_lapses: "lapses b b' \<Longrightarrow> turn p b b'"
  by (auto simp: turn_def)

section \<open>The calls\<close>

datatype desktop_op =
    Do_Heartbeat instant desktop_env desktop_env DevicePrincipal Heartbeat
  | Do_Queue desktop_env AdminActor uuid bytes
  | Do_Result desktop_env DevicePrincipal uuid CommandResult
  | Do_GetCommand desktop_env uuid
  | Do_Transfer schedule uuid
  | Do_DeleteWorkspaces "uuid list"
  | Do_Environment "user_row list" "device_row list" "organization_row list" "workspace_row list" "audit_row list"

datatype desktop_reply = Beat_Reply "desktop_error + HeartbeatReceipt" | Command_Reply "desktop_error + Command" | No_Reply

text \<open>The calls of the service, the removal when a device gets a new owner, deleted workspaces, and
  arbitrary changes of the tables of other components.\<close>

fun desktop_call :: "desktop_libs \<Rightarrow> desktop_op \<Rightarrow> db \<Rightarrow> desktop_reply \<times> db" where
  "desktop_call lb (Do_Heartbeat clock e1 e2 p h) d = map_prod Beat_Reply id (Service_Heartbeat lb clock e1 e2 p h d)"
| "desktop_call lb (Do_Queue e actor deviceID key) d = map_prod Command_Reply id (Service_QueueHealthCheck lb e actor deviceID key d)"
| "desktop_call lb (Do_Result e p commandID result) d = map_prod Command_Reply id (Service_SubmitResult lb e p commandID result d)"
| "desktop_call lb (Do_GetCommand e commandID) d = map_prod Command_Reply id (Service_GetCommand lb e commandID d)"
| "desktop_call lb (Do_Transfer f deviceID) d = (No_Reply, case clearDesktopControlState f deviceID d of Inl _ \<Rightarrow> d | Inr d' \<Rightarrow> d')"
| "desktop_call lb (Do_DeleteWorkspaces ids) d = (No_Reply, delete_workspaces ids d)"
| "desktop_call lb (Do_Environment us vs os ws as) d = (No_Reply, d\<lparr>users := us, devices := vs, organizations := os,
     workspaces := ws, audit_events := as\<rparr>)"

fun party_of :: "desktop_op \<Rightarrow> party" where
  "party_of (Do_Heartbeat clock e1 e2 p h) = Desktop (dp_DeviceID p)"
| "party_of (Do_Queue e actor deviceID key) = Operator (dv_command_id e)"
| "party_of (Do_Result e p commandID result) = Desktop (dp_DeviceID p)"
| "party_of (Do_Transfer f deviceID) = NewOwner deviceID"
| "party_of _ = Nobody"

definition desktop_step :: "desktop_libs \<Rightarrow> db \<Rightarrow> db \<Rightarrow> bool" where
  "desktop_step lb d d' \<longleftrightarrow> (\<exists>op r. desktop_call lb op d = (r, d'))"

definition no_desktops :: "db \<Rightarrow> bool" where
  "no_desktops d \<longleftrightarrow> desktop_control_commands d = [] \<and> desktop_control_instances d = []"

section \<open>The invariant\<close>

definition stage_of :: "desktop_command_row \<Rightarrow> stage" where
  "stage_of r = (case dc_state r of
       CommandQueued \<Rightarrow> Pending | CommandClaimed \<Rightarrow> Delivered | CommandRunning \<Rightarrow> Started
     | CommandSucceeded \<Rightarrow> Reported (dc_result_summary r) | CommandFailed \<Rightarrow> Reported (dc_result_summary r)
     | CommandExpired \<Rightarrow> Lapsed | OtherCommandState _ \<Rightarrow> Lapsed)"

definition order_of :: "desktop_command_row \<Rightarrow> order" where
  "order_of r = \<lparr>or_device = dc_device_id r, or_key = dc_idempotency_key_hash r, or_stage = stage_of r\<rparr>"

definition board_of :: "db \<Rightarrow> board" where
  "board_of d i = map_option order_of (find (\<lambda>r. dc_id r = i) (desktop_control_commands d))"

text \<open>A reported result names the code of its summary and succeeded exactly if the desktop is healthy.\<close>

definition result_ok :: "desktop_command_row \<Rightarrow> bool" where
  "result_ok r \<longleftrightarrow> (terminal_result (dc_state r) \<longrightarrow> (\<exists>s. dc_result_summary r = Some s \<and> validHealthSummary s
     \<and> dc_result_code r = Some (hs_Code s) \<and> (dc_state r = CommandSucceeded) = (hs_Code s = HealthCodeHealthy)))"

definition request_key :: "desktop_command_row \<Rightarrow> uuid \<times> bytes" where
  "request_key r = (dc_device_id r, dc_idempotency_key_hash r)"

definition commands_ok :: "desktop_command_row list \<Rightarrow> bool" where
  "commands_ok t \<longleftrightarrow> distinct (map dc_id t) \<and> distinct (map request_key t) \<and> (\<forall>r\<in>set t. command_checks r \<and> result_ok r)"

definition desktops_ok :: "desktop_libs \<Rightarrow> db \<Rightarrow> bool" where
  "desktops_ok lb d \<longleftrightarrow> commands_ok (desktop_control_commands d) \<and> distinct (map di_device_id (desktop_control_instances d))
     \<and> (\<forall>r\<in>set (desktop_control_instances d). instance_checks lb r)"

text \<open>What an accepted update may do to a row.\<close>

definition moved :: "desktop_command_row \<Rightarrow> desktop_command_row \<Rightarrow> bool" where
  "moved r r' \<longleftrightarrow> enforce_desktop_control_command_transition r r' \<and> command_checks r' \<and> result_ok r'"

lemma moved_keys: "moved r r' \<Longrightarrow> dc_id r' = dc_id r \<and> request_key r' = request_key r"
  by (simp add: moved_def enforce_desktop_control_command_transition_def request_key_def)

lemma commands_ok_update:
  assumes "commands_ok t" "\<And>r. r \<in> set t \<Longrightarrow> P r \<Longrightarrow> moved r (g r)"
  shows "commands_ok (update_where P g t)"
proof -
  have "map dc_id (update_where P g t) = map dc_id t" "map request_key (update_where P g t) = map request_key t"
    using assms(2) moved_keys by (auto simp: update_where_def)
  with assms show ?thesis by (auto simp: commands_ok_def set_update_where moved_def)
qed

lemma find_update_where:
  "(\<And>r. r \<in> set t \<Longrightarrow> P r \<Longrightarrow> k (g r) = k r) \<Longrightarrow>
   find (\<lambda>r. k r = i) (update_where P g t) = map_option (\<lambda>r. if P r then g r else r) (find (\<lambda>r. k r = i) t)"
  by (induction t) auto

lemma update_commands_Some:
  assumes "update_commands P g d = Some d'"
  shows "d' = d\<lparr>desktop_control_commands := update_where P g (desktop_control_commands d)\<rparr>"
    "\<And>r. r \<in> set (desktop_control_commands d) \<Longrightarrow> P r \<Longrightarrow>
       enforce_desktop_control_command_transition r (g r) \<and> command_checks (g r)"
  using assms by (auto simp: update_commands_def exists_row_iff split: if_splits)

lemma desktop_statement_Inr [simp]: "statement fails x = Inr v \<longleftrightarrow> \<not> fails \<and> x = Some v"
  by (simp add: statement_def)

section \<open>Expiry\<close>

lemma record_expiries_Inr:
  "record_expiries lb f ids now k cs d = Inr d' \<Longrightarrow>
     \<exists>es. d' = d\<lparr>audit_events := audit_events d @ es\<rparr> \<and> map a_object_id es = map (\<lambda>c. Some (cm_ID c)) cs"
proof (induction cs arbitrary: k d)
  case Nil
  then show ?case by (auto intro: exI [of _ "[]"])
next
  case (Cons c cs)
  then obtain d1 where one: "recordCommandAudit lb (f (Suc k)) (ids k) c ''desktop_health_check_completed''
      ''aera-cloud-desktop-control'' None now d = Inr d1" and rest: "record_expiries lb f ids now (Suc k) cs d1 = Inr d'"
    by (auto simp: andthen_Inr)
  obtain row where row: "d1 = d\<lparr>audit_events := audit_events d @ [row]\<rparr>" "a_object_id row = Some (cm_ID c)"
    using one by (auto simp: recordCommandAudit_def dest: insert_audit_Some(1))
  from Cons.IH [OF rest] obtain es where "d' = d1\<lparr>audit_events := audit_events d1 @ es\<rparr>"
    "map a_object_id es = map (\<lambda>c. Some (cm_ID c)) cs" by blast
  with row show ?case by (intro exI [of _ "row # es"]) simp
qed

lemma expire_Inr:
  assumes "expireOverdueCommands lb e v d = Inr d'"
  obtains es where "d' = d\<lparr>desktop_control_commands := update_where (overdue (dv_now e) v) (expire (dv_now e)) (desktop_control_commands d),
      audit_events := audit_events d @ es\<rparr>"
    "map a_object_id es = map (\<lambda>r. Some (dc_id r)) (filter (overdue (dv_now e) v) (desktop_control_commands d))"
    "\<And>r. r \<in> set (desktop_control_commands d) \<Longrightarrow> overdue (dv_now e) v r \<Longrightarrow>
       enforce_desktop_control_command_transition r (expire (dv_now e) r) \<and> command_checks (expire (dv_now e) r)"
proof -
  obtain d1 where d1: "update_commands (overdue (dv_now e) v) (expire (dv_now e)) d = Some d1"
    and rest: "record_expiries lb (dv_expiry_faults e) (dv_expiry_ids e) (dv_now e) 0
      (map (\<lambda>r. (scanCommand r)\<lparr>cm_State := CommandExpired\<rparr>) (filter (overdue (dv_now e) v) (desktop_control_commands d))) d1 = Inr d'"
    using assms by (auto simp: expireOverdueCommands_def Let_def andthen_Inr)
  from record_expiries_Inr [OF rest] obtain es where "d' = d1\<lparr>audit_events := audit_events d1 @ es\<rparr>"
    "map a_object_id es = map (\<lambda>r. Some (dc_id r)) (filter (overdue (dv_now e) v) (desktop_control_commands d))"
    by (auto simp: comp_def scanCommand_def)
  with update_commands_Some [OF d1] that show thesis by auto
qed

lemma expire_fields [simp]:
  "dc_id (expire now r) = dc_id r" "dc_device_id (expire now r) = dc_device_id r" "dc_state (expire now r) = CommandExpired"
  "dc_idempotency_key_hash (expire now r) = dc_idempotency_key_hash r" "request_key (expire now r) = request_key r"
  by (simp_all add: expire_def request_key_def)

lemma expired_order: "overdue now v r \<Longrightarrow> open_stage (or_stage (order_of r)) \<and> order_of (expire now r) = (order_of r)\<lparr>or_stage := Lapsed\<rparr>"
  by (auto simp: overdue_def live_state_def open_stage_def order_of_def stage_of_def)

lemma expire_ok:
  assumes "desktops_ok lb d" "expireOverdueCommands lb e v d = Inr d'"
  shows "desktops_ok lb d'" "lapses (board_of d) (board_of d')"
proof -
  obtain es where d': "d' = d\<lparr>desktop_control_commands := update_where (overdue (dv_now e) v) (expire (dv_now e)) (desktop_control_commands d),
      audit_events := audit_events d @ es\<rparr>"
    and allowed: "\<And>r. r \<in> set (desktop_control_commands d) \<Longrightarrow> overdue (dv_now e) v r \<Longrightarrow>
       enforce_desktop_control_command_transition r (expire (dv_now e) r) \<and> command_checks (expire (dv_now e) r)"
    using expire_Inr [OF assms(2)] by metis
  have "moved r (expire (dv_now e) r)" if "r \<in> set (desktop_control_commands d)" "overdue (dv_now e) v r" for r
    using allowed [OF that] by (simp add: moved_def result_ok_def terminal_result_def)
  with assms(1) show "desktops_ok lb d'" by (simp add: desktops_ok_def d' commands_ok_update)
  show "lapses (board_of d) (board_of d')"
    unfolding lapses_def
  proof
    fix i
    have "board_of d' i = map_option order_of (map_option (\<lambda>r. if overdue (dv_now e) v r then expire (dv_now e) r else r)
        (find (\<lambda>r. dc_id r = i) (desktop_control_commands d)))"
      by (simp add: board_of_def d' find_update_where)
    then show "board_of d' i = board_of d i \<or> (\<exists>q. board_of d i = Some q \<and> open_stage (or_stage q)
        \<and> board_of d' i = Some (q\<lparr>or_stage := Lapsed\<rparr>))"
      using expired_order by (cases "find (\<lambda>r. dc_id r = i) (desktop_control_commands d)") (auto simp: board_of_def split: if_splits)
  qed
qed

section \<open>What the transactions did\<close>

lemma AcceptHeartbeat_Inr:
  assumes "AcceptHeartbeat lb e p h d = (Inr i, d')"
  shows "validatePrincipal p" "requireActiveDevice False p d = Inr ()" "upsert_instance lb (heartbeat_row p h (dv_now e)) d = Some d'"
    "readInstance False (dp_DeviceID p) d' = Inr i"
proof -
  obtain v where "requireActiveDevice (dv_faults e 1) p d = Inr v" "readInstance (dv_faults e 3) (dp_DeviceID p) d' = Inr i"
    and "validatePrincipal p" "upsert_instance lb (heartbeat_row p h (dv_now e)) d = Some d'"
    using assms by (auto simp: AcceptHeartbeat_def andthen_Inr elim!: returning_cases)
  then show "validatePrincipal p" "requireActiveDevice False p d = Inr ()" "upsert_instance lb (heartbeat_row p h (dv_now e)) d = Some d'"
    "readInstance False (dp_DeviceID p) d' = Inr i"
    by (auto simp: requireActiveDevice_def readInstance_def split: if_splits option.splits)
qed

lemma AcceptHeartbeat_Inl: "AcceptHeartbeat lb e p h d = (Inl x, d') \<Longrightarrow> d' = d"
  by (auto simp: AcceptHeartbeat_def elim: returning_cases)

lemma upsert_Some:
  assumes "upsert_instance lb new d = Some d'" "distinct (map di_device_id (desktop_control_instances d))"
    "\<forall>r\<in>set (desktop_control_instances d). instance_checks lb r"
  obtains t where "d' = d\<lparr>desktop_control_instances := t\<rparr>" "distinct (map di_device_id t)" "\<forall>r\<in>set t. instance_checks lb r"
proof (cases "find (\<lambda>r. di_device_id r = di_device_id new) (desktop_control_instances d)")
  case None
  then have "di_device_id new \<notin> di_device_id ` set (desktop_control_instances d)" by (auto simp: find_None)
  moreover have "instance_checks lb new" "d' = d\<lparr>desktop_control_instances := desktop_control_instances d @ [new]\<rparr>"
    using assms(1) None by (auto simp: upsert_instance_def split: if_splits)
  ultimately show thesis using assms(2,3) that [of "desktop_control_instances d @ [new]"] by auto
next
  case (Some old)
  let ?t = "update_where (\<lambda>r. di_device_id r = di_device_id new) (merge_instance new) (desktop_control_instances d)"
  have "map di_device_id ?t = map di_device_id (desktop_control_instances d)"
    by (rule map_update_where) (simp add: merge_instance_def)
  moreover have "instance_checks lb (merge_instance new r)" if "r \<in> set (desktop_control_instances d)" "di_device_id r = di_device_id new" for r
  proof -
    have "r = old" using that find_Some_in [OF Some] assms(2) by (metis distinct_key_eq)
    with assms(1) Some show ?thesis by (auto simp: upsert_instance_def Let_def split: if_splits)
  qed
  ultimately have "\<forall>r\<in>set ?t. instance_checks lb r" "distinct (map di_device_id ?t)"
    using assms(2,3) by (auto simp: set_update_where)
  moreover have "d' = d\<lparr>desktop_control_instances := ?t\<rparr>"
    using assms(1) Some by (auto simp: upsert_instance_def Let_def split: if_splits)
  ultimately show thesis using that [of ?t] by blast
qed

definition claim :: "instant \<Rightarrow> desktop_command_row \<Rightarrow> desktop_command_row" where
  "claim now r = r\<lparr>dc_state := CommandClaimed, dc_claimed_at := Some now, dc_updated_at := now\<rparr>"

lemma ClaimNextCommand_cases:
  assumes "ClaimNextCommand lb e p d = (x, d')"
  obtains (failed) err where "x = Inl err" "d' = d"
  | (incapable) "x = Inr None" "d' = d"
  | (none) "x = Inr None" "expireOverdueCommands lb e (Some (dp_DeviceID p)) d = Inr d'"
  | (claimed) d1 c rest command where "expireOverdueCommands lb e (Some (dp_DeviceID p)) d = Inr d1"
      "requireActiveDevice False p d = Inr ()"
      "claimable e (dp_DeviceID p) d1 = c # rest" "update_commands (\<lambda>r. dc_id r = dc_id c) (claim (dv_now e)) d1 = Some d'"
      "readCommand False (dc_id c) d' = Inr command" "x = Inr (Some command)"
  using assms unfolding ClaimNextCommand_def
proof (cases rule: returning_cases)
  case (failed err)
  then show thesis using that(1) by blast
next
  case (committed y)
  obtain u i where act: "requireActiveDevice (dv_faults e 1) p d = Inr u" and i: "readInstance (dv_faults e 2) (dp_DeviceID p) d = Inr i"
    using committed(2) by (auto simp: andthen_Inr)
  have act': "requireActiveDevice False p d = Inr ()"
    using act by (auto simp: requireActiveDevice_def split: if_splits option.splits)
  show thesis
  proof (cases "hasCapability (inst_Capabilities i) CapabilityHealthRead")
    case False
    with committed act i show thesis by (intro that(2)) (auto simp: andthen_Inr)
  next
    case True
    obtain d1 where d1: "expireOverdueCommands lb e (Some (dp_DeviceID p)) d = Inr d1"
      using committed(2) act i True by (auto simp: andthen_Inr)
    show thesis
    proof (cases "claimable e (dp_DeviceID p) d1")
      case Nil
      with committed act i True d1 show thesis by (intro that(3)) (auto simp: andthen_Inr)
    next
      case (Cons c rest)
      with committed(2) act i True d1 obtain command where
        "update_commands (\<lambda>r. dc_id r = dc_id c) (claim (dv_now e)) d1 = Some d'" "readCommand (dv_faults e 5) (dc_id c) d' = Inr command"
        "y = Some command"
        by (auto simp: andthen_Inr claim_def [abs_def])
      with that(4) [OF d1 act' Cons] committed(1) show thesis by (auto simp: readCommand_def split: if_splits)
    qed
  qed
qed

lemma AdvanceCommand_cases:
  assumes "AdvanceCommand lb e p commandID result d = (x, d')"
  obtains (failed) err where "x = Inl err" "d' = d"
  | (replayed) command where "requireActiveDevice False p d = Inr ()" "expireOverdueCommands lb e (Some (dp_DeviceID p)) d = Inr d'"
      "readCommandForDevice False commandID (dp_DeviceID p) (dp_UserID p) d' = Inr command"
      "terminal_result (cm_State command)" "sameCommandResult command result" "x = Inr (command\<lparr>cm_Replayed := True\<rparr>)"
  | (moved) d1 command d2 updated where "requireActiveDevice False p d = Inr ()"
      "expireOverdueCommands lb e (Some (dp_DeviceID p)) d = Inr d1"
      "readCommandForDevice False commandID (dp_DeviceID p) (dp_UserID p) d1 = Inr command"
      "CanTransition (cm_State command) (rs_State result)" "validateResult result"
      "update_commands (\<lambda>r. dc_id r = commandID) (advanced (dv_now e) result) d1 = Some d2"
      "if terminal_result (rs_State result) then report_result lb e (dp_DeviceID p) command result d2 = Inr d' else d' = d2"
      "readCommand False commandID d' = Inr updated" "x = Inr updated"
  using assms unfolding AdvanceCommand_def
proof (cases rule: returning_cases)
  case (failed err)
  then show thesis using that(1) by blast
next
  case (committed y)
  obtain u d1 command where act: "requireActiveDevice (dv_faults e 1) p d = Inr u"
    and d1: "expireOverdueCommands lb e (Some (dp_DeviceID p)) d = Inr d1"
    and c: "readCommandForDevice (dv_faults e 2) commandID (dp_DeviceID p) (dp_UserID p) d1 = Inr command"
    using committed(2) by (auto simp: andthen_Inr)
  have act': "requireActiveDevice False p d = Inr ()"
    using act by (auto simp: requireActiveDevice_def split: if_splits option.splits)
  have c': "readCommandForDevice False commandID (dp_DeviceID p) (dp_UserID p) d1 = Inr command"
    using c by (auto simp: readCommandForDevice_def split: if_splits)
  show thesis
  proof (cases "terminal_result (cm_State command)")
    case True
    with committed act d1 c have "sameCommandResult command result" "y = command\<lparr>cm_Replayed := True\<rparr>" "d' = d1"
      by (auto simp: andthen_Inr replay_def split: if_splits)
    with that(2) act' d1 c' True committed(1) show thesis by simp
  next
    case False
    with committed(2) act d1 c obtain d2 where "CanTransition (cm_State command) (rs_State result)" "validateResult result"
      "update_commands (\<lambda>r. dc_id r = commandID) (advanced (dv_now e) result) d1 = Some d2"
      "if terminal_result (rs_State result) then report_result lb e (dp_DeviceID p) command result d2 = Inr d' else d' = d2"
      "readCommand (dv_faults e 6) commandID d' = Inr y"
      by (auto simp: andthen_Inr split: if_splits)
    with that(3) [OF act' d1 c'] committed(1) show thesis by (auto simp: readCommand_def split: if_splits)
  qed
qed

lemma QueueHealthCheck_cases:
  assumes "QueueHealthCheck lb e q d = (x, d')"
  obtains (failed) err where "x = Inl err" "d' = d"
  | (replayed) r where "expireOverdueCommands lb e None d = Inr d'"
      "find (\<lambda>c. dc_device_id c = qh_DeviceID q \<and> dc_idempotency_key_hash c = qh_IdempotencyKeyHash q) (desktop_control_commands d') = Some r"
      "x = Inr ((scanCommand r)\<lparr>cm_Replayed := True\<rparr>)"
  | (queued) d1 i d2 row where "expireOverdueCommands lb e None d = Inr d1"
      "find (\<lambda>c. dc_device_id c = qh_DeviceID q \<and> dc_idempotency_key_hash c = qh_IdempotencyKeyHash q) (desktop_control_commands d1) = None"
      "readInstance False (qh_DeviceID q) d1 = Inr i" "commandable (dv_now e) i"
      "insert_command (new_command e q) d1 = Some (True, d2)" "d' = d2\<lparr>audit_events := audit_events d2 @ [row]\<rparr>"
      "x = Inr (scanCommand (new_command e q))"
  using assms unfolding QueueHealthCheck_def
proof (cases rule: returning_cases)
  case (failed err)
  then show thesis using that(1) by blast
next
  case (committed y)
  obtain d1 found where d1: "expireOverdueCommands lb e None d = Inr d1"
    and found: "findCommandByIdempotency (dv_faults e 1) (qh_DeviceID q) (qh_IdempotencyKeyHash q) d1 = Inr found"
    using committed(2) by (auto simp: andthen_Inr)
  have f: "found = map_option scanCommand (find (\<lambda>c. dc_device_id c = qh_DeviceID q \<and> dc_idempotency_key_hash c = qh_IdempotencyKeyHash q)
      (desktop_control_commands d1))"
    using found by (auto simp: findCommandByIdempotency_def split: if_splits)
  show thesis
  proof (cases "find (\<lambda>c. dc_device_id c = qh_DeviceID q \<and> dc_idempotency_key_hash c = qh_IdempotencyKeyHash q) (desktop_control_commands d1)")
    case (Some r)
    with committed d1 found f have "d' = d1" "y = (scanCommand r)\<lparr>cm_Replayed := True\<rparr>"
      by (auto simp: andthen_Inr replay_def)
    with that(2) d1 Some committed(1) show thesis by simp
  next
    case None
    with committed(2) d1 found f obtain i where i: "readInstance (dv_faults e 2) (qh_DeviceID q) d1 = Inr i" "commandable (dv_now e) i"
      and en: "enqueue lb e q d1 = Inr (y, d')" by (auto simp: andthen_Inr)
    from i(1) have i': "readInstance False (qh_DeviceID q) d1 = Inr i" by (auto simp: readInstance_def split: if_splits)
    obtain b d2 where ins: "insert_command (new_command e q) d1 = Some (b, d2)" using en by (auto simp: enqueue_def andthen_Inr)
    have b: b using ins None by (auto simp: insert_command_def new_command_def exists_row_iff find_None split: if_splits)
    with en ins obtain row where "d' = d2\<lparr>audit_events := audit_events d2 @ [row]\<rparr>" "y = scanCommand (new_command e q)"
      by (auto simp: enqueue_def andthen_Inr recordCommandAudit_def dest!: insert_audit_Some(1))
    with that(3) [OF d1 None i' i(2)] ins b committed(1) show thesis by simp
  qed
qed

lemma GetCommand_cases:
  assumes "Repository_GetCommand lb e commandID d = (x, d')"
  obtains (failed) err where "x = Inl err" "d' = d"
  | (read) c where "expireOverdueCommands lb e None d = Inr d'" "readCommand False commandID d' = Inr c" "x = Inr c"
  using assms that unfolding Repository_GetCommand_def
  by (auto simp: andthen_Inr readCommand_def split: if_splits elim!: returning_cases)

section \<open>Every call is a turn\<close>

lemma board_row: "commands_ok (desktop_control_commands d) \<Longrightarrow> r \<in> set (desktop_control_commands d) \<Longrightarrow> board_of d (dc_id r) = Some (order_of r)"
  by (simp add: board_of_def commands_ok_def find_key)

lemma board_same: "desktop_control_commands d' = desktop_control_commands d \<Longrightarrow> board_of d' = board_of d"
  by (simp add: board_of_def fun_eq_iff)

lemma board_key:
  assumes "board_of d i = Some q"
  obtains r where "r \<in> set (desktop_control_commands d)" "dc_id r = i" "q = order_of r"
  using assms by (auto simp: board_of_def dest!: find_Some_in)

lemma one_update:
  assumes "desktops_ok lb d" "update_commands (\<lambda>q. dc_id q = dc_id r) g d = Some d'" "r \<in> set (desktop_control_commands d)"
    "result_ok (g r)"
  shows "desktops_ok lb d'" "board_of d' = (board_of d)(dc_id r \<mapsto> order_of (g r))" "g r \<in> set (desktop_control_commands d')"
    "dc_id (g r) = dc_id r" "readCommand False (dc_id r) d' = Inr (scanCommand (g r))"
proof -
  note u = update_commands_Some [OF assms(2)]
  have ok: "commands_ok (desktop_control_commands d)" using assms(1) by (simp add: desktops_ok_def)
  have only: "q = r" if "q \<in> set (desktop_control_commands d)" "dc_id q = dc_id r" for q
    using ok that assms(3) by (auto simp: commands_ok_def dest: distinct_key_eq)
  have move: "moved q (g q)" if "q \<in> set (desktop_control_commands d)" "dc_id q = dc_id r" for q
    using u(2) [OF that] only [OF that] assms(4) by (simp add: moved_def)
  show ok': "desktops_ok lb d'" using assms(1) move by (simp add: u(1) desktops_ok_def commands_ok_update)
  show g: "g r \<in> set (desktop_control_commands d')" using assms(3) by (auto simp: u(1) set_update_where)
  show id: "dc_id (g r) = dc_id r" using moved_keys [OF move [OF assms(3) refl]] by simp
  have find: "find (\<lambda>q. dc_id q = i) (desktop_control_commands d') = map_option (\<lambda>q. if dc_id q = dc_id r then g q else q)
      (find (\<lambda>q. dc_id q = i) (desktop_control_commands d))" for i
    using moved_keys move by (simp add: u(1) find_update_where)
  have row: "find (\<lambda>q. dc_id q = dc_id r) (desktop_control_commands d) = Some r"
    using ok assms(3) by (simp add: commands_ok_def find_key)
  show "board_of d' = (board_of d)(dc_id r \<mapsto> order_of (g r))"
  proof
    fix i
    show "board_of d' i = ((board_of d)(dc_id r \<mapsto> order_of (g r))) i"
    proof (cases "i = dc_id r")
      case True
      then show ?thesis by (simp add: board_of_def find row)
    next
      case False
      then show ?thesis by (cases "find (\<lambda>q. dc_id q = i) (desktop_control_commands d)") (auto simp: board_of_def find dest!: find_Some_in)
    qed
  qed
  show "readCommand False (dc_id r) d' = Inr (scanCommand (g r))" by (simp add: readCommand_def find row present_def)
qed

lemma claimable_head:
  assumes "claimable e v d = c # rest"
  shows "c \<in> set (desktop_control_commands d)" "dc_device_id c = v" "dc_state c = CommandQueued" "dv_now e < dc_expires_at c"
    "\<And>q. q \<in> set rest \<Longrightarrow> (dc_created_at c, dc_id c) \<le> (dc_created_at q, dc_id q)"
proof -
  have "c \<in> set (claimable e v d)" by (simp add: assms)
  then show "c \<in> set (desktop_control_commands d)" "dc_device_id c = v" "dc_state c = CommandQueued" "dv_now e < dc_expires_at c"
    by (auto simp: claimable_def)
  have "sorted (map (\<lambda>c. (dc_created_at c, dc_id c)) (c # rest))" unfolding assms [symmetric] claimable_def by (rule sorted_sort_key)
  then show "(dc_created_at c, dc_id c) \<le> (dc_created_at q, dc_id q)" if "q \<in> set rest" for q using that by auto
qed

lemma claim_order: "dc_state c = CommandQueued \<Longrightarrow> order_of (claim now c) = (order_of c)\<lparr>or_stage := Delivered\<rparr>"
  by (simp add: claim_def order_of_def stage_of_def)

lemma ClaimNextCommand_turn:
  assumes "desktops_ok lb d" "ClaimNextCommand lb e p d = (x, d')"
  shows "desktops_ok lb d' \<and> turn (Desktop (dp_DeviceID p)) (board_of d) (board_of d')"
  using assms(2)
proof (cases rule: ClaimNextCommand_cases)
  case none
  with expire_ok [OF assms(1)] show ?thesis by (auto intro: turn_lapses)
next
  case (claimed d1 c rest command)
  note ex = expire_ok [OF assms(1) claimed(1)] and c = claimable_head [OF claimed(3)]
  have "result_ok (claim (dv_now e) c)" by (simp add: result_ok_def claim_def terminal_result_def)
  note up = one_update [OF ex(1) claimed(4) c(1) this]
  have "board_of d1 (dc_id c) = Some (order_of c)" using ex(1) c(1) by (simp add: board_row desktops_ok_def)
  moreover have "or_stage (order_of c) = Pending" "or_device (order_of c) = dp_DeviceID p"
    using c(2,3) by (simp_all add: order_of_def stage_of_def)
  ultimately have "party_move (Desktop (dp_DeviceID p)) (board_of d1) (board_of d')"
    unfolding up(2) claim_order [OF c(3)] by (rule party_move.deliver)
  with ex(2) up(1) show ?thesis by (auto simp: turn_def)
qed (use assms(1) in simp_all)

lemma readCommandForDevice_Inr:
  assumes "readCommandForDevice False i v u d = Inr command"
  obtains r where "r \<in> set (desktop_control_commands d)" "dc_id r = i" "dc_device_id r = v" "command = scanCommand r"
    "exists_row (\<lambda>w. d_id w = v \<and> d_user_id w = u) (devices d)"
  using assms that by (auto simp: readCommandForDevice_def dest!: find_Some_in)

lemma result_health: "validateResult result \<Longrightarrow> terminal_result (rs_State result) \<Longrightarrow>
    \<exists>s. rs_Summary result = Some s \<and> validHealthSummary s \<and> rs_Code result = hs_Code s
      \<and> (rs_State result = CommandSucceeded) = (hs_Code s = HealthCodeHealthy)"
  by (auto simp: validateResult_def terminal_result_def split: option.splits)

lemma advanced_order:
  assumes "CanTransition (dc_state r) (rs_State result)" "validateResult result"
  obtains (start) "dc_state r = CommandClaimed" "rs_State result = CommandRunning" "order_of (advanced now result r) = (order_of r)\<lparr>or_stage := Started\<rparr>"
      "result_ok (advanced now result r)"
  | (report) s where "dc_state r = CommandRunning" "terminal_result (rs_State result)" "rs_Summary result = Some s" "validHealthSummary s"
      "order_of (advanced now result r) = (order_of r)\<lparr>or_stage := Reported (Some s)\<rparr>" "result_ok (advanced now result r)"
proof -
  consider "dc_state r = CommandClaimed" "rs_State result = CommandRunning" | "dc_state r = CommandRunning" "terminal_result (rs_State result)"
    using assms by (cases "dc_state r") (auto simp: validateResult_def terminal_result_def)
  then show thesis
  proof cases
    case 1
    with that(1) show thesis by (simp add: advanced_def order_of_def stage_of_def result_ok_def terminal_result_def)
  next
    case 2
    with result_health [OF assms(2)] obtain s where s: "rs_Summary result = Some s" "validHealthSummary s" "rs_Code result = hs_Code s"
      "(rs_State result = CommandSucceeded) = (hs_Code s = HealthCodeHealthy)" by blast
    show thesis
    proof (rule that(2) [OF 2 s(1,2)])
      show "order_of (advanced now result r) = (order_of r)\<lparr>or_stage := Reported (Some s)\<rparr>" "result_ok (advanced now result r)"
        using 2 s by (auto simp: advanced_def order_of_def stage_of_def result_ok_def terminal_result_def)
    qed
  qed
qed

lemma report_result_Inr:
  assumes "report_result lb e v command result d = Inr d'"
  obtains row where "d' = d\<lparr>desktop_control_instances := update_where (\<lambda>r. di_device_id r = v) (with_health (dv_now e) result)
      (desktop_control_instances d), audit_events := audit_events d @ [row]\<rparr>"
    "a_object_id row = Some (cm_ID command)" "a_event_type row = ''desktop_health_check_completed''"
    "\<forall>r\<in>set (desktop_control_instances d). di_device_id r = v \<longrightarrow> instance_checks lb (with_health (dv_now e) result r)"
proof -
  obtain d1 where d1: "update_instances lb (\<lambda>r. di_device_id r = v) (with_health (dv_now e) result) d = Some d1"
    and rec: "recordCommandAudit lb (dv_faults e 5) (dv_event_id e) (command\<lparr>cm_State := rs_State result\<rparr>)
       ''desktop_health_check_completed'' ''aera-cloud-desktop-control'' (Some (rs_Code result)) (dv_now e) d1 = Inr d'"
    using assms unfolding report_result_def andthen_Inr desktop_statement_Inr by blast
  obtain row where "d' = d1\<lparr>audit_events := audit_events d1 @ [row]\<rparr>" "a_object_id row = Some (cm_ID command)"
    "a_event_type row = ''desktop_health_check_completed''"
    using rec unfolding recordCommandAudit_def desktop_statement_Inr by (auto dest: insert_audit_Some(1))
  moreover have "d1 = d\<lparr>desktop_control_instances := update_where (\<lambda>r. di_device_id r = v) (with_health (dv_now e) result) (desktop_control_instances d)\<rparr>"
    "\<forall>r\<in>set (desktop_control_instances d). di_device_id r = v \<longrightarrow> instance_checks lb (with_health (dv_now e) result r)"
    using d1 by (auto simp: update_instances_def exists_row_iff split: if_splits)
  ultimately show thesis by (intro that [of row]) simp_all
qed

lemma report_result_ok:
  assumes "desktops_ok lb d" "report_result lb e v command result d = Inr d'"
  shows "desktops_ok lb d'" "desktop_control_commands d' = desktop_control_commands d"
proof -
  obtain row where d': "d' = d\<lparr>desktop_control_instances := update_where (\<lambda>r. di_device_id r = v) (with_health (dv_now e) result)
      (desktop_control_instances d), audit_events := audit_events d @ [row]\<rparr>"
    and allowed: "\<forall>r\<in>set (desktop_control_instances d). di_device_id r = v \<longrightarrow> instance_checks lb (with_health (dv_now e) result r)"
    using report_result_Inr [OF assms(2)] by blast
  show "desktop_control_commands d' = desktop_control_commands d" by (simp add: d')
  have "map di_device_id (desktop_control_instances d') = map di_device_id (desktop_control_instances d)"
    unfolding d' by (simp add: map_update_where with_health_def)
  with assms(1) allowed show "desktops_ok lb d'" by (auto simp: desktops_ok_def d' set_update_where)
qed

lemma AdvanceCommand_turn:
  assumes "desktops_ok lb d" "AdvanceCommand lb e p i result d = (x, d')"
  shows "desktops_ok lb d' \<and> turn (Desktop (dp_DeviceID p)) (board_of d) (board_of d')"
  using assms(2)
proof (cases rule: AdvanceCommand_cases)
  case (replayed command)
  with expire_ok [OF assms(1)] show ?thesis by (auto intro: turn_lapses)
next
  case (moved d1 command d2 updated)
  note ex = expire_ok [OF assms(1) moved(2)]
  obtain r where r: "r \<in> set (desktop_control_commands d1)" "dc_id r = i" "dc_device_id r = dp_DeviceID p" "command = scanCommand r"
    using moved(3) by (rule readCommandForDevice_Inr)
  have can: "CanTransition (dc_state r) (rs_State result)" using moved(4) r(4) by (simp add: scanCommand_def)
  have row: "board_of d1 i = Some (order_of r)" using ex(1) r(1,2) board_row by (auto simp: desktops_ok_def)
  have dev: "or_device (order_of r) = dp_DeviceID p" by (simp add: order_of_def r(3))
  have upd: "update_commands (\<lambda>q. dc_id q = dc_id r) (advanced (dv_now e) result) d1 = Some d2"
    using moved(6) unfolding r(2) .
  have up: "desktops_ok lb d2 \<and> board_of d2 = (board_of d1)(i \<mapsto> order_of (advanced (dv_now e) result r))"
    if "result_ok (advanced (dv_now e) result r)"
    using one_update(1,2) [OF ex(1) upd r(1) that] by (simp only: r(2) simp_thms)
  have last: "desktops_ok lb d' \<and> board_of d' = board_of d2" if "desktops_ok lb d2"
  proof (cases "terminal_result (rs_State result)")
    case True
    with moved(7) have "report_result lb e (dp_DeviceID p) command result d2 = Inr d'" by simp
    note told = report_result_ok [OF that this]
    from told(1) board_same [OF told(2)] show ?thesis by blast
  next
    case False
    with moved(7) that show ?thesis by simp
  qed
  from can moved(5) show ?thesis
  proof (cases rule: advanced_order [where now = "dv_now e"])
    case start
    have "party_move (Desktop (dp_DeviceID p)) (board_of d1) ((board_of d1)(i \<mapsto> (order_of r)\<lparr>or_stage := Started\<rparr>))"
      using row dev start(1) by (intro party_move.start) (simp_all add: order_of_def stage_of_def)
    with up [OF start(4)] last ex(2) start(3) show ?thesis by (auto simp: turn_def)
  next
    case (report s)
    have "party_move (Desktop (dp_DeviceID p)) (board_of d1) ((board_of d1)(i \<mapsto> (order_of r)\<lparr>or_stage := Reported (Some s)\<rparr>))"
      using row dev report(1,4) by (intro party_move.report) (simp_all add: order_of_def stage_of_def)
    with up [OF report(6)] last ex(2) report(5) show ?thesis by (auto simp: turn_def)
  qed
qed (use assms(1) in simp)

lemma insert_command_True:
  assumes "insert_command r d = Some (True, d')"
  shows "d' = d\<lparr>desktop_control_commands := desktop_control_commands d @ [r]\<rparr>" "command_checks r"
    "request_key r \<notin> request_key ` set (desktop_control_commands d)" "dc_id r \<notin> dc_id ` set (desktop_control_commands d)"
  using assms by (auto simp: insert_command_def exists_row_iff request_key_def split: if_splits)

lemma find_of_append: "find P (xs @ ys) = (case find P xs of None \<Rightarrow> find P ys | Some x \<Rightarrow> Some x)"
  by (induction xs) auto

lemma QueueHealthCheck_turn:
  assumes "desktops_ok lb d" "QueueHealthCheck lb e q d = (x, d')"
  shows "desktops_ok lb d' \<and> turn (Operator (dv_command_id e)) (board_of d) (board_of d')"
  using assms(2)
proof (cases rule: QueueHealthCheck_cases)
  case (replayed r)
  with expire_ok [OF assms(1)] show ?thesis by (auto intro: turn_lapses)
next
  case (queued d1 i d2 row)
  note ex = expire_ok [OF assms(1) queued(1)] and ins = insert_command_True [OF queued(5)]
  let ?c = "new_command e q"
  have ok: "desktops_ok lb d'"
    using ex(1) ins by (auto simp: queued(6) desktops_ok_def commands_ok_def result_ok_def terminal_result_def new_command_def)
  have none: "board_of d1 (dc_id ?c) = None" using ins(4) by (simp add: board_of_def find_None) (metis image_eqI)
  have fresh: "or_device o' \<noteq> qh_DeviceID q \<or> or_key o' \<noteq> qh_IdempotencyKeyHash q" if "board_of d1 j = Some o'" for j o'
    using that queued(2) by (elim board_key) (auto simp: find_None order_of_def)
  have "board_of d' = (board_of d1)(dc_id ?c \<mapsto> \<lparr>or_device = qh_DeviceID q, or_key = qh_IdempotencyKeyHash q, or_stage = Pending\<rparr>)"
  proof
    fix j
    show "board_of d' j = ((board_of d1)(dc_id ?c \<mapsto> \<lparr>or_device = qh_DeviceID q, or_key = qh_IdempotencyKeyHash q, or_stage = Pending\<rparr>)) j"
      using none by (auto simp: board_of_def queued(6) ins(1) find_of_append order_of_def stage_of_def new_command_def split: option.splits)
  qed
  moreover from none fresh have "party_move (Operator (dc_id ?c)) (board_of d1)
      ((board_of d1)(dc_id ?c \<mapsto> \<lparr>or_device = qh_DeviceID q, or_key = qh_IdempotencyKeyHash q, or_stage = Pending\<rparr>))"
    by (rule party_move.request)
  ultimately show ?thesis using ex(2) ok by (auto simp: turn_def new_command_def)
qed (use assms(1) in simp)

lemma AcceptHeartbeat_ok:
  assumes "desktops_ok lb d" "AcceptHeartbeat lb e p h d = (x, d')"
  shows "desktops_ok lb d'" "desktop_control_commands d' = desktop_control_commands d"
proof -
  have "desktops_ok lb d' \<and> desktop_control_commands d' = desktop_control_commands d"
  proof (cases x)
    case (Inl err)
    with AcceptHeartbeat_Inl assms(2) have "d' = d" by blast
    with assms(1) show ?thesis by simp
  next
    case (Inr i)
    note up = AcceptHeartbeat_Inr(3) [OF assms(2) [unfolded Inr]]
    have "distinct (map di_device_id (desktop_control_instances d))" "\<forall>r\<in>set (desktop_control_instances d). instance_checks lb r"
      using assms(1) by (simp_all add: desktops_ok_def)
    from upsert_Some [OF up this] obtain t where "d' = d\<lparr>desktop_control_instances := t\<rparr>" "distinct (map di_device_id t)"
      "\<forall>r\<in>set t. instance_checks lb r" by blast
    with assms(1) show ?thesis by (simp add: desktops_ok_def)
  qed
  then show "desktops_ok lb d'" "desktop_control_commands d' = desktop_control_commands d" by simp_all
qed

lemma service_result_cases:
  assumes "service_result r = (x, d')"
  obtains (error) err where "r = (Inl err, d')" "x = Inl (serviceError err)" | (fine) v where "r = (Inr v, d')" "x = Inr v"
  using assms that by (auto simp: service_result_def split: prod.splits sum.splits)

lemma service_result_snd: "service_result r = (x, d') \<Longrightarrow> \<exists>y. r = (y, d')"
  by (auto elim: service_result_cases)

text \<open>A heartbeat that was accepted and whose receipt was built.\<close>

lemma Heartbeat_cases:
  assumes "Service_Heartbeat lb clock e1 e2 p h d = (x, d')"
  obtains (refused) err where "x = Inl err" "d' = d"
  | (accepted) i err where "AcceptHeartbeat lb e1 p h d = (Inr i, d')" "x = Inl err"
  | (served) i d1 y where "AcceptHeartbeat lb e1 p h d = (Inr i, d1)" "ClaimNextCommand lb e2 p d1 = (y, d')"
      "\<forall>err. y = Inl err \<longrightarrow> isl x" "\<forall>c. y = Inr c \<longrightarrow> (\<exists>rc. x = Inr rc \<and> hr_Command rc = c \<and> hr_AcceptedAt rc = clock
         \<and> hr_Instance rc = i\<lparr>inst_EffectiveStatusValue := effective_status clock i\<rparr>)"
  using assms unfolding Service_Heartbeat_def
proof (cases rule: proceed_cases)
  case (stopped err)
  then show thesis using that(1) by (auto simp: check_def)
next
  case (went v1 d0)
  then have d0: "d0 = d" by (auto simp: check_def split: if_splits)
  from went(2) show thesis
  proof (cases rule: proceed_cases)
    case (stopped err)
    from stopped(1) show thesis
      by (cases rule: service_result_cases) (use that(1) stopped(2) AcceptHeartbeat_Inl d0 in auto)
  next
    case (went i d1)
    from went(1) have acc: "AcceptHeartbeat lb e1 p h d = (Inr i, d1)"
      by (cases rule: service_result_cases) (auto simp: d0)
    from went(2) show thesis
    proof (cases rule: proceed_cases)
      case (stopped err)
      with acc that(2) show thesis by (auto simp: check_def)
    next
      case (went v3 d2)
      then have d2: "d2 = d1" by (auto simp: check_def split: if_splits)
      from went(2) show thesis
      proof (cases rule: proceed_cases)
        case (stopped err)
        from stopped(1) obtain y where y: "ClaimNextCommand lb e2 p d1 = (Inl y, d')" "x = Inl (serviceError y)"
          by (cases rule: service_result_cases) (auto simp: d2 stopped(2))
        from that(3) [OF acc y(1)] y(2) show thesis by simp
      next
        case (went c d3)
        from went(1) have y: "ClaimNextCommand lb e2 p d1 = (Inr c, d3)" by (cases rule: service_result_cases) (auto simp: d2)
        with went(2) have "d' = d3" by simp
        with that(3) [OF acc, of "Inr c"] y went(2) show thesis by auto
      qed
    qed
  qed
qed

lemma Heartbeat_turn:
  assumes "desktops_ok lb d" "Service_Heartbeat lb clock e1 e2 p h d = (x, d')"
  shows "desktops_ok lb d' \<and> turn (Desktop (dp_DeviceID p)) (board_of d) (board_of d')"
  using assms(2)
proof (cases rule: Heartbeat_cases)
  case (refused err)
  with assms(1) show ?thesis by simp
next
  case (accepted i err)
  note a = AcceptHeartbeat_ok [OF assms(1) accepted(1)]
  from a(1) board_same [OF a(2)] show ?thesis by simp
next
  case (served i d1 y)
  note a = AcceptHeartbeat_ok [OF assms(1) served(1)]
  from ClaimNextCommand_turn [OF a(1) served(2)] show ?thesis by (simp add: board_same [OF a(2)])
qed

lemma Queue_service_cases:
  assumes "Service_QueueHealthCheck lb e actor v key d = (x, d')"
  obtains (refused) err where "x = Inl err" "d' = d"
  | (repository) y where "QueueHealthCheck lb e \<lparr>qh_DeviceID = v, qh_IdempotencyKeyHash = sha256 (dl_crypto lb) key, qh_Actor = actor\<rparr> d = (y, d')"
      "\<forall>c. x = Inr c \<longrightarrow> y = Inr c"
  using assms that unfolding Service_QueueHealthCheck_def Let_def
  by (auto simp: check_def elim!: proceed_cases service_result_cases split: if_splits)

lemma Result_service_cases:
  assumes "Service_SubmitResult lb e p i result d = (x, d')"
  obtains (refused) err where "x = Inl err" "d' = d"
  | (repository) y where "AdvanceCommand lb e p i result d = (y, d')" "\<forall>c. x = Inr c \<longrightarrow> y = Inr c"
  using assms that unfolding Service_SubmitResult_def
  by (auto simp: check_def elim!: proceed_cases service_result_cases split: if_splits)

lemma Get_service_cases:
  assumes "Service_GetCommand lb e i d = (x, d')"
  obtains (refused) err where "x = Inl err" "d' = d"
  | (repository) y where "Repository_GetCommand lb e i d = (y, d')" "\<forall>c. x = Inr c \<longrightarrow> y = Inr c"
  using assms that unfolding Service_GetCommand_def
  by (auto simp: check_def elim!: proceed_cases service_result_cases split: if_splits)

lemma delete_keeps_commands_ok: "commands_ok t \<Longrightarrow> commands_ok (delete_where P t)"
  by (auto simp: commands_ok_def delete_where_def distinct_map_filter_key)

lemma find_delete_where:
  "distinct (map k t) \<Longrightarrow> find (\<lambda>r. k r = i) (delete_where P t)
     = (case find (\<lambda>r. k r = i) t of None \<Rightarrow> None | Some r \<Rightarrow> if P r then None else Some r)"
proof (induction t)
  case Nil
  then show ?case by (simp add: delete_where_def)
next
  case (Cons a t)
  have "find (\<lambda>r. k r = k a) (filter (\<lambda>r. \<not> P r) t) = None" using Cons.prems by (auto simp: find_None image_iff)
  with Cons show ?case by (auto simp: delete_where_def)
qed

lemma Transfer_turn:
  assumes "desktops_ok lb d" "clearDesktopControlState f v d = Inr d'"
  shows "desktops_ok lb d'" "turn (NewOwner v) (board_of d) (board_of d')"
proof -
  have d': "d' = d\<lparr>desktop_control_commands := delete_where (\<lambda>x. dc_device_id x = v) (desktop_control_commands d),
      desktop_control_instances := delete_where (\<lambda>x. di_device_id x = v) (desktop_control_instances d)\<rparr>"
    using assms(2) by (auto simp: clearDesktopControlState_def split: if_splits)
  show "desktops_ok lb d'"
    using assms(1) by (simp add: desktops_ok_def d' delete_keeps_commands_ok) (auto simp: delete_where_def distinct_map_filter_key)
  have "board_of d' = (\<lambda>i. case board_of d i of None \<Rightarrow> None | Some q \<Rightarrow> if or_device q = v then None else Some q)"
    using assms(1) by (auto simp: fun_eq_iff board_of_def d' desktops_ok_def commands_ok_def find_delete_where order_of_def split: option.splits)
  with party_move.withdraw [of v "board_of d"] show "turn (NewOwner v) (board_of d) (board_of d')"
    by (auto simp: turn_def intro: exI [of _ "board_of d"])
qed

lemma delete_workspaces_turn:
  assumes "desktops_ok lb d"
  shows "desktops_ok lb (delete_workspaces ids d)" "board_of (delete_workspaces ids d) = board_of d"
proof -
  have "map di_device_id (desktop_control_instances (delete_workspaces ids d)) = map di_device_id (desktop_control_instances d)"
    by (simp add: delete_workspaces_def map_update_where)
  moreover have "instance_checks lb (r\<lparr>di_workspace_id := None\<rparr>) = instance_checks lb r" for r by (simp add: instance_checks_def)
  then have "\<forall>r\<in>set (desktop_control_instances (delete_workspaces ids d)). instance_checks lb r"
    using assms by (auto simp: desktops_ok_def delete_workspaces_def set_update_where)
  moreover have "desktop_control_commands (delete_workspaces ids d) = desktop_control_commands d" by (simp add: delete_workspaces_def)
  ultimately show "desktops_ok lb (delete_workspaces ids d)" using assms by (simp only: desktops_ok_def simp_thms)
  show "board_of (delete_workspaces ids d) = board_of d" by (rule board_same) (simp add: delete_workspaces_def)
qed

lemma call_turn:
  assumes "desktops_ok lb d" "desktop_call lb op d = (r, d')"
  shows "desktops_ok lb d' \<and> turn (party_of op) (board_of d) (board_of d')"
proof (cases op)
  case (Do_Heartbeat clock e1 e2 p h)
  with assms Heartbeat_turn show ?thesis by (auto simp: map_prod_def split: prod.splits)
next
  case (Do_Queue e actor v key)
  with assms(2) obtain x where "Service_QueueHealthCheck lb e actor v key d = (x, d')" by (auto simp: map_prod_def split: prod.splits)
  then show ?thesis by (cases rule: Queue_service_cases) (use assms(1) QueueHealthCheck_turn Do_Queue in auto)
next
  case (Do_Result e p i result)
  with assms(2) obtain x where "Service_SubmitResult lb e p i result d = (x, d')" by (auto simp: map_prod_def split: prod.splits)
  then show ?thesis by (cases rule: Result_service_cases) (use assms(1) AdvanceCommand_turn Do_Result in auto)
next
  case (Do_GetCommand e i)
  with assms(2) obtain x where "Service_GetCommand lb e i d = (x, d')" by (auto simp: map_prod_def split: prod.splits)
  then show ?thesis
  proof (cases rule: Get_service_cases)
    case (repository y)
    from repository(1) show ?thesis
      by (cases rule: GetCommand_cases) (use assms(1) expire_ok [OF assms(1)] Do_GetCommand turn_lapses in auto)
  qed (use assms(1) in simp)
next
  case (Do_Transfer f v)
  then show ?thesis using assms Transfer_turn [OF assms(1)] by (auto split: sum.splits)
next
  case (Do_DeleteWorkspaces ids)
  then show ?thesis using assms(2) delete_workspaces_turn [OF assms(1), of ids] by simp
next
  case (Do_Environment us vs os ws as)
  with assms(2) have d': "d' = d\<lparr>users := us, devices := vs, organizations := os, workspaces := ws, audit_events := as\<rparr>" by simp
  have "board_of d' = board_of d" by (rule board_same) (simp add: d')
  moreover have "desktops_ok lb d'" using assms(1) by (simp add: desktops_ok_def d')
  ultimately show ?thesis by simp
qed

interpretation desktop_run: simulation no_desktops "desktop_step lb" some_turn board_of "desktops_ok lb" for lb
proof
  show "desktops_ok lb d" if "no_desktops d" for d
    using that by (simp add: no_desktops_def desktops_ok_def commands_ok_def)
  show "desktops_ok lb d'" if "desktops_ok lb d" "desktop_step lb d d'" for d d'
    using call_turn [OF that(1)] that(2) by (auto simp: desktop_step_def)
  show "board_of d' = board_of d \<or> some_turn (board_of d) (board_of d')" if "desktops_ok lb d" "desktop_step lb d d'" for d d'
    using call_turn [OF that(1)] that(2) by (auto simp: desktop_step_def some_turn_def)
qed

end
