(* ===== verification/DesktopFlows.thy ===== *)
theory DesktopFlows
  imports DesktopSafety
begin

text \<open>
  Properties of the control of desktops over runs of the service and of single calls, with a desktop on which they
  are evaluated: it reports itself, an operator queues a check, the desktop fetches, starts and completes it.
\<close>

section \<open>What a turn can do to an order\<close>

definition waiting :: "uuid \<Rightarrow> board \<Rightarrow> nat" where
  "waiting i b = (case b i of None \<Rightarrow> 0 | Some q \<Rightarrow> if or_stage q = Pending then 1 else 0)"

lemma lapses_waiting: "lapses b b' \<Longrightarrow> waiting i b' \<le> waiting i b"
  unfolding lapses_def waiting_def by (drule spec [of _ i]) (auto split: option.splits)

lemma party_move_waiting:
  assumes "party_move p b b'" "p \<noteq> Operator i"
  shows "waiting i b' \<le> waiting i b"
  using assms by cases (auto simp: waiting_def split: option.splits)

lemma turn_waiting: "turn p b b' \<Longrightarrow> p \<noteq> Operator i \<Longrightarrow> waiting i b' \<le> waiting i b"
  using lapses_waiting party_move_waiting unfolding turn_def by (metis order_trans)

definition same_request :: "order \<Rightarrow> order \<Rightarrow> bool" where
  "same_request q q' \<longleftrightarrow> or_device q' = or_device q \<and> or_key q' = or_key q"

lemma turn_keeps:
  assumes "turn p b b'" "b i = Some q" "p \<noteq> NewOwner (or_device q)"
  shows "\<exists>q'. b' i = Some q' \<and> same_request q q'"
proof -
  obtain b1 where b1: "lapses b b1" "b' = b1 \<or> party_move p b1 b'" using assms(1) by (auto simp: turn_def)
  have "b1 i = b i \<or> (\<exists>q. b i = Some q \<and> open_stage (or_stage q) \<and> b1 i = Some (q\<lparr>or_stage := Lapsed\<rparr>))"
    using b1(1) by (simp add: lapses_def)
  with assms(2) obtain q1 where q1: "b1 i = Some q1" "same_request q q1" by (auto simp: same_request_def)
  from b1(2) show ?thesis
  proof
    assume "party_move p b1 b'"
    then show ?thesis using q1 assms(3) by cases (auto simp: same_request_def)
  qed (use q1 in blast)
qed

lemma desktop_run_ok:
  "desktops_ok lb d \<Longrightarrow> run_all (desktop_call lb) ops d = (rs, d') \<Longrightarrow> desktops_ok lb d'"
proof (induction ops arbitrary: d rs)
  case (Cons op ops)
  obtain r d1 where one: "desktop_call lb op d = (r, d1)" by (cases "desktop_call lb op d")
  with Cons.prems(2) obtain rs1 where "run_all (desktop_call lb) ops d1 = (rs1, d')" by (auto split: prod.splits)
  with Cons.IH call_turn [OF Cons.prems(1) one] show ?case by blast
qed simp

lemma desktop_run_keeps:
  "desktops_ok lb d \<Longrightarrow> run_all (desktop_call lb) ops d = (rs, d') \<Longrightarrow> board_of d i = Some q \<Longrightarrow>
     \<forall>op\<in>set ops. party_of op \<noteq> NewOwner (or_device q) \<Longrightarrow> \<exists>q'. board_of d' i = Some q' \<and> same_request q q'"
proof (induction ops arbitrary: d rs q)
  case (Cons op ops)
  obtain r d1 where one: "desktop_call lb op d = (r, d1)" by (cases "desktop_call lb op d")
  with Cons.prems(2) obtain rs1 where rest: "run_all (desktop_call lb) ops d1 = (rs1, d')" by (auto split: prod.splits)
  note t = call_turn [OF Cons.prems(1) one]
  obtain q1 where q1: "board_of d1 i = Some q1" "same_request q q1"
    using turn_keeps [OF conjunct2 [OF t] Cons.prems(3)] Cons.prems(4) by auto
  from Cons.IH [OF conjunct1 [OF t] rest q1(1)] Cons.prems(4) q1(2) show ?case by (auto simp: same_request_def)
qed (auto simp: same_request_def)

section \<open>Runs of the service\<close>

text \<open>
  C20. Refinement. Every run of the service that starts without desktops, with calls in any order and any faults,
  devices that change their owner and arbitrary changes of the other tables, is a run of the board of orders: an
  order is requested once per device and key, delivered, started and reported in this sequence by its own desktop
  only, and may lapse before it is reported. Moreover each single call lets orders lapse and then takes at
  most one step, which its caller may take.
\<close>

theorem desktop_refines:
  assumes "no_desktops d0" "(desktop_step lb)\<^sup>*\<^sup>* d0 d" "desktop_call lb op d = (r, d')"
  shows "some_turn\<^sup>*\<^sup>* Map.empty (board_of d) \<and> turn (party_of op) (board_of d) (board_of d')"
proof
  have "board_of d0 = Map.empty" using assms(1) by (simp add: no_desktops_def board_of_def fun_eq_iff)
  with desktop_run.reached_refines [OF assms(1,2)] show "some_turn\<^sup>*\<^sup>* Map.empty (board_of d)" by simp
  show "turn (party_of op) (board_of d) (board_of d')"
    using call_turn [OF desktop_run.reached_inv [OF assms(1,2)] assms(3)] by simp
qed

definition hands :: "uuid \<Rightarrow> desktop_reply \<Rightarrow> bool" where
  "hands i r \<longleftrightarrow> (\<exists>rc c. r = Beat_Reply (Inr rc) \<and> hr_Command rc = Some c \<and> cm_ID c = i)"

lemma hands_spends:
  assumes "desktops_ok lb d" "desktop_call lb op d = (r, d')" "hands i r"
  shows "waiting i (board_of d') < waiting i (board_of d)"
proof -
  obtain clock e1 e2 p h x rc c where op: "Service_Heartbeat lb clock e1 e2 p h d = (Inr rc, d')" "hr_Command rc = Some c" "cm_ID c = i"
    using assms(2,3) by (cases op) (auto simp: hands_def map_prod_def split: prod.splits)
  from op(1) show ?thesis
  proof (cases rule: Heartbeat_cases)
    case (served i' d1 y)
    with op(2) have y: "y = Inr (Some c)" by (cases y) auto
    note a = AcceptHeartbeat_ok [OF assms(1) served(1)]
    from served(2) show ?thesis
    proof (cases rule: ClaimNextCommand_cases)
      case (claimed d2 r rest command)
      note ex = expire_ok [OF a(1) claimed(1)] and h = claimable_head [OF claimed(3)]
      have "result_ok (claim (dv_now e2) r)" by (simp add: result_ok_def claim_def terminal_result_def)
      note up = one_update [OF ex(1) claimed(4) h(1) this]
      have id: "dc_id r = i" using up(5) claimed(5,6) y op(3) up(4) by (simp add: scanCommand_def)
      have "waiting i (board_of d2) = 1"
        using ex(1) h(1,3) id board_row by (auto simp: waiting_def desktops_ok_def order_of_def stage_of_def)
      moreover have "waiting i (board_of d') = 0" by (simp add: waiting_def up(2) id claim_order [OF h(3)])
      moreover have "waiting i (board_of d2) \<le> waiting i (board_of d)"
        using lapses_waiting [OF ex(2)] board_same [OF a(2)] by simp
      ultimately show ?thesis by simp
    qed (simp_all add: y)
  qed simp_all
qed

definition guarded_call :: "desktop_libs \<Rightarrow> uuid \<Rightarrow> desktop_op \<Rightarrow> db \<Rightarrow> desktop_reply \<times> db" where
  "guarded_call lb i op d = (if party_of op = Operator i then (No_Reply, d) else desktop_call lb op d)"

interpretation handing: budget "guarded_call lb i" "desktops_ok lb" "\<lambda>_. hands i" "\<lambda>d. waiting i (board_of d)" for lb i
proof
  fix d op r d'
  assume ok: "desktops_ok lb d" and call: "guarded_call lb i op d = (r, d')"
  show "desktops_ok lb d'" using ok call call_turn by (auto simp: guarded_call_def split: if_splits)
  show "waiting i (board_of d') \<le> waiting i (board_of d)"
  proof (cases "party_of op = Operator i")
    case False
    with call have "desktop_call lb op d = (r, d')" by (simp add: guarded_call_def)
    from turn_waiting [OF conjunct2 [OF call_turn [OF ok this]] False] show ?thesis .
  qed (use call in \<open>simp add: guarded_call_def\<close>)
  show "waiting i (board_of d') < waiting i (board_of d)" if "hands i r"
    using ok call hands_spends that by (auto simp: guarded_call_def hands_def split: if_splits)
qed

lemma guarded_run:
  "\<forall>op\<in>set ops. party_of op \<noteq> Operator i \<Longrightarrow> run_all (guarded_call lb i) ops d = run_all (desktop_call lb) ops d"
  by (induction ops arbitrary: d) (auto simp: guarded_call_def split: prod.splits)

text \<open>
  C21. A command is handed out at most once. From any state the service reaches, however heartbeats, results,
  requests for other commands, faults, changes of owner and of the other tables follow, at most one heartbeat
  returns the command with a given identifier, and none if it was not waiting at the beginning.
\<close>

theorem command_handed_once:
  assumes "no_desktops d0" "(desktop_step lb)\<^sup>*\<^sup>* d0 d" "run_all (desktop_call lb) ops d = (rs, d')"
    "\<forall>op\<in>set ops. party_of op \<noteq> Operator i"
  shows "length (filter (hands i) rs) \<le> waiting i (board_of d) \<and> waiting i (board_of d) \<le> 1"
proof -
  have run: "run_all (guarded_call lb i) ops d = (rs, d')" using guarded_run [OF assms(4)] assms(3) by simp
  have len: "length rs = length ops" using assms(3) by (induction ops arbitrary: d rs) (auto split: prod.splits)
  have "filter (hands i) rs = filter (hands i) (map snd (zip ops rs))" using len by simp
  then have "length (filter (hands i) rs) = length (filter (\<lambda>(a, r). hands i r) (zip ops rs))"
    by (simp add: filter_map comp_def case_prod_unfold)
  with handing.hits_bounded [OF desktop_run.reached_inv [OF assms(1,2)] run] show ?thesis
    by (auto simp: waiting_def split: option.splits)
qed

lemma scan_fields [simp]:
  "cm_ID (scanCommand r) = dc_id r" "cm_State (scanCommand r) = dc_state r" "cm_Replayed (scanCommand r) = False"
  "cm_ResultCode (scanCommand r) = dc_result_code r" "cm_ResultSummary (scanCommand r) = dc_result_summary r"
  by (simp_all add: scanCommand_def)

lemma persisting_row:
  assumes "lapses (board_of d) (board_of d')" "board_of d i = Some q"
  obtains r where "r \<in> set (desktop_control_commands d')" "dc_id r = i" "request_key r = (or_device q, or_key q)"
proof -
  obtain q' where q': "board_of d' i = Some q'" "same_request q q'"
    using turn_keeps [OF turn_lapses [OF assms(1), of Nobody] assms(2)] by blast
  from q'(1) obtain r where "r \<in> set (desktop_control_commands d')" "dc_id r = i" "q' = order_of r" by (rule board_key)
  with q'(2) that show thesis by (simp add: same_request_def order_of_def request_key_def)
qed

text \<open>What an accepted request leaves behind.\<close>

lemma queued_row:
  assumes "desktops_ok lb d" "Service_QueueHealthCheck lb e actor v key d = (Inr c, d')"
  obtains q where "board_of d' (cm_ID c) = Some q" "or_device q = v" "or_key q = sha256 (dl_crypto lb) key"
  using assms(2)
proof (cases rule: Queue_service_cases)
  case (repository y)
  let ?q = "\<lparr>qh_DeviceID = v, qh_IdempotencyKeyHash = sha256 (dl_crypto lb) key, qh_Actor = actor\<rparr>"
  have y: "y = Inr c" using repository(2) by simp
  note t = QueueHealthCheck_turn [OF assms(1) repository(1)]
  have rows: "commands_ok (desktop_control_commands d')" using t by (simp add: desktops_ok_def)
  from repository(1) show thesis
  proof (cases rule: QueueHealthCheck_cases)
    case (replayed r)
    with y have "cm_ID c = dc_id r" by auto
    with find_Some_in [OF replayed(2)] board_row [OF rows, of r] show thesis by (intro that [of "order_of r"]) (auto simp: order_of_def)
  next
    case (queued d1 i d2 row)
    let ?r = "new_command e ?q"
    have "?r \<in> set (desktop_control_commands d')" using insert_command_True(1) [OF queued(5)] by (simp add: queued(6))
    moreover have "cm_ID c = dc_id ?r" using y queued(7) by auto
    ultimately show thesis using board_row [OF rows, of ?r] by (intro that [of "order_of ?r"]) (auto simp: order_of_def new_command_def)
  qed (simp add: y)
qed simp

text \<open>
  C22. Requests are idempotent. After an operator's request succeeded, a request for the same device with the same
  key, by whatever operator, at whatever time and after whatever calls except a change of the owner of this device, never
  adds a second command: if it succeeds, it returns the command of the first request, marked as a replay.
\<close>

theorem queue_idempotent:
  assumes "no_desktops d0" "(desktop_step lb)\<^sup>*\<^sup>* d0 d" "Service_QueueHealthCheck lb e actor v key d = (Inr c, d1)"
    "run_all (desktop_call lb) ops d1 = (rs, d2)" "\<forall>op\<in>set ops. party_of op \<noteq> NewOwner v"
    "Service_QueueHealthCheck lb e' actor' v key d2 = (x, d3)"
  shows "map dc_id (desktop_control_commands d3) = map dc_id (desktop_control_commands d2)
    \<and> (\<forall>c'. x = Inr c' \<longrightarrow> cm_ID c' = cm_ID c \<and> cm_Replayed c')"
proof -
  have ok: "desktops_ok lb d" using desktop_run.reached_inv [OF assms(1,2)] .
  have ok1: "desktops_ok lb d1" using call_turn [OF ok, of "Do_Queue e actor v key"] assms(3) by simp
  have ok2: "desktops_ok lb d2" using desktop_run_ok [OF ok1 assms(4)] .
  obtain q where q: "board_of d1 (cm_ID c) = Some q" "or_device q = v" "or_key q = sha256 (dl_crypto lb) key"
    using queued_row [OF ok assms(3)] by blast
  obtain q' where q': "board_of d2 (cm_ID c) = Some q'" "same_request q q'" using desktop_run_keeps [OF ok1 assms(4) q(1)] assms(5) q(2) by auto
  have key': "(or_device q', or_key q') = (v, sha256 (dl_crypto lb) key)" using q(2,3) q'(2) by (simp add: same_request_def)
  show ?thesis
    using assms(6)
  proof (cases rule: Queue_service_cases)
    case (repository y)
    from repository(1) show ?thesis
    proof (cases rule: QueueHealthCheck_cases)
      case (failed err)
      with repository(2) show ?thesis by auto
    next
      case (replayed r)
      have "map dc_id (desktop_control_commands d3) = map dc_id (desktop_control_commands d2)"
        by (rule expire_Inr [OF replayed(1)]) (simp add: map_update_where)
      moreover have id: "dc_id r = cm_ID c"
      proof -
        note ex = expire_ok [OF ok2 replayed(1)]
        obtain r' where r': "r' \<in> set (desktop_control_commands d3)" "dc_id r' = cm_ID c" "request_key r' = (v, sha256 (dl_crypto lb) key)"
          using persisting_row [OF ex(2) q'(1)] key' by metis
        have "request_key r = request_key r'" using find_Some_in [OF replayed(2)] r'(3) by (simp add: request_key_def)
        then have "r = r'" using ex(1) find_Some_in [OF replayed(2)] r'(1)
          by (auto simp: desktops_ok_def commands_ok_def dest: distinct_key_eq)
        with r'(2) show ?thesis by simp
      qed
      moreover have "cm_ID c' = cm_ID c \<and> cm_Replayed c'" if "x = Inr c'" for c'
      proof -
        have "Inr c' = (Inr ((scanCommand r)\<lparr>cm_Replayed := True\<rparr>) :: desktop_error + Command)"
          using repository(2) that replayed(3) by metis
        then have "c' = (scanCommand r)\<lparr>cm_Replayed := True\<rparr>" by (simp only: sum.inject)
        then show ?thesis by (simp add: id)
      qed
      ultimately show ?thesis by blast
    next
      case (queued d1' i d2' row)
      note ex = expire_ok [OF ok2 queued(1)]
      obtain r' where "r' \<in> set (desktop_control_commands d1')" "request_key r' = (v, sha256 (dl_crypto lb) key)"
        using persisting_row [OF ex(2) q'(1)] key' by metis
      with queued(2) show ?thesis by (auto simp: find_None request_key_def)
    qed
  qed simp
qed

section \<open>Results\<close>

lemma expiry_rows:
  assumes "expireOverdueCommands lb e v d = Inr d1" "r \<in> set (desktop_control_commands d1)"
  obtains (kept) "r \<in> set (desktop_control_commands d)" "\<not> overdue (dv_now e) v r"
  | (expired) r0 where "r0 \<in> set (desktop_control_commands d)" "overdue (dv_now e) v r0" "r = expire (dv_now e) r0"
proof -
  obtain es where "d1 = d\<lparr>desktop_control_commands := update_where (overdue (dv_now e) v) (expire (dv_now e)) (desktop_control_commands d),
      audit_events := audit_events d @ es\<rparr>"
    using expire_Inr [OF assms(1)] by blast
  then have "r \<in> set (update_where (overdue (dv_now e) v) (expire (dv_now e)) (desktop_control_commands d))" using assms(2) by simp
  with that show thesis by (auto simp: set_update_where split: if_splits)
qed

lemma moved_rows:
  assumes "desktops_ok lb d1" "r \<in> set (desktop_control_commands d1)"
    "update_commands (\<lambda>q. dc_id q = dc_id r) g d1 = Some d2" "q \<in> set (desktop_control_commands d2)"
  shows "q = g r \<or> q \<in> set (desktop_control_commands d1)"
proof -
  have "q = (if dc_id x = dc_id r then g x else x)" if "x \<in> set (desktop_control_commands d1)" "q = (if dc_id x = dc_id r then g x else x)" for x
    using that by simp
  moreover have "x = r" if "x \<in> set (desktop_control_commands d1)" "dc_id x = dc_id r" for x
    using assms(1,2) that by (auto simp: desktops_ok_def commands_ok_def dest: distinct_key_eq)
  ultimately show ?thesis
    using assms(4) unfolding update_commands_Some(1) [OF assms(3)] by (auto simp: set_update_where split: if_splits)
qed

text \<open>What an accepted result did, before the effect on the instance.\<close>

definition accepted_result :: "instant \<Rightarrow> CommandResult \<Rightarrow> Command \<Rightarrow> desktop_command_row \<Rightarrow> db \<Rightarrow> bool" where
  "accepted_result now result c r d' \<longleftrightarrow>
     (if cm_Replayed c
      then terminal_result (dc_state r) \<and> dc_state r = rs_State result \<and> dc_result_code r = Some (rs_Code result)
        \<and> dc_result_summary r = rs_Summary result \<and> r \<in> set (desktop_control_commands d')
      else CanTransition (dc_state r) (rs_State result) \<and> validateResult result \<and> now < dc_expires_at r
        \<and> advanced now result r \<in> set (desktop_control_commands d')
        \<and> (terminal_result (rs_State result) \<longrightarrow> (\<forall>x\<in>set (desktop_control_instances d'). di_device_id x = dc_device_id r \<longrightarrow>
             di_health_summary x = rs_Summary result \<and> di_health_status x = healthStatusFor (rs_Summary result))))"

lemma with_health_fields [simp]:
  "di_device_id (with_health now result x) = di_device_id x" "di_health_summary (with_health now result x) = rs_Summary result"
  "di_health_status (with_health now result x) = healthStatusFor (rs_Summary result)"
  by (simp_all add: with_health_def)

lemma advance_commands:
  assumes "desktops_ok lb d" "AdvanceCommand lb e p i result d = (Inr c, d')"
  obtains r where "r \<in> set (desktop_control_commands d)" "dc_id r = i" "dc_device_id r = dp_DeviceID p"
    "accepted_result (dv_now e) result c r d'"
    "\<forall>q\<in>set (desktop_control_commands d'). dc_device_id q \<noteq> dp_DeviceID p \<longrightarrow> q \<in> set (desktop_control_commands d)"
  using assms(2)
proof (cases rule: AdvanceCommand_cases)
  case (replayed command)
  obtain r where r: "r \<in> set (desktop_control_commands d')" "dc_id r = i" "dc_device_id r = dp_DeviceID p" "command = scanCommand r"
    using replayed(3) by (rule readCommandForDevice_Inr)
  have old: "r \<in> set (desktop_control_commands d)"
    by (rule expiry_rows [OF replayed(2) r(1)]) (use replayed(4) r(4) in \<open>auto simp: terminal_result_def\<close>)
  have "cm_Replayed c" using replayed(6) by simp
  then have "accepted_result (dv_now e) result c r d'"
    using replayed(4,5) r(1,4) by (simp add: accepted_result_def sameCommandResult_def)
  moreover have "q \<in> set (desktop_control_commands d)" if "q \<in> set (desktop_control_commands d')" "dc_device_id q \<noteq> dp_DeviceID p" for q
    by (rule expiry_rows [OF replayed(2) that(1)]) (use that(2) in \<open>auto simp: overdue_def\<close>)
  ultimately show thesis using that old r(2,3) by blast
next
  case (moved d1 command d2 updated)
  note ex = expire_ok [OF assms(1) moved(2)]
  obtain r where r: "r \<in> set (desktop_control_commands d1)" "dc_id r = i" "dc_device_id r = dp_DeviceID p" "command = scanCommand r"
    using moved(3) by (rule readCommandForDevice_Inr)
  have can: "CanTransition (dc_state r) (rs_State result)" using moved(4) r(4) by simp
  then have live: "live_state (dc_state r)" by (cases "dc_state r") (auto simp: live_state_def)
  have old: "r \<in> set (desktop_control_commands d) \<and> \<not> overdue (dv_now e) (Some (dp_DeviceID p)) r"
    by (rule expiry_rows [OF moved(2) r(1)]) (use live in \<open>auto simp: live_state_def\<close>)
  have upd: "update_commands (\<lambda>q. dc_id q = dc_id r) (advanced (dv_now e) result) d1 = Some d2" using moved(6) unfolding r(2) .
  have rok: "result_ok (advanced (dv_now e) result r)" by (rule advanced_order [OF can moved(5)]) assumption+
  note up = one_update [OF ex(1) upd r(1) rok]
  have same: "desktop_control_commands d' = desktop_control_commands d2"
    using moved(7) report_result_ok(2) [OF up(1)] by (cases "terminal_result (rs_State result)") auto
  have "updated = scanCommand (advanced (dv_now e) result r)"
    using moved(8) up(5) same by (auto simp: readCommand_def r(2))
  then have fresh: "\<not> cm_Replayed c" using moved(9) by simp
  have health: "di_health_summary x = rs_Summary result \<and> di_health_status x = healthStatusFor (rs_Summary result)"
    if t: "terminal_result (rs_State result)" and x: "x \<in> set (desktop_control_instances d')" "di_device_id x = dp_DeviceID p" for x
  proof -
    from t moved(7) have "report_result lb e (dp_DeviceID p) command result d2 = Inr d'" by simp
    from report_result_Inr [OF this] obtain row where "d' = d2\<lparr>desktop_control_instances := update_where (\<lambda>r. di_device_id r = dp_DeviceID p)
        (with_health (dv_now e) result) (desktop_control_instances d2), audit_events := audit_events d2 @ [row]\<rparr>" by blast
    then have "x \<in> set (update_where (\<lambda>r. di_device_id r = dp_DeviceID p) (with_health (dv_now e) result) (desktop_control_instances d2))"
      using x(1) by simp
    then obtain x0 where "x = (if di_device_id x0 = dp_DeviceID p then with_health (dv_now e) result x0 else x0)"
      unfolding set_update_where by blast
    with x(2) show ?thesis by (metis with_health_fields)
  qed
  have "dv_now e < dc_expires_at r" using old live r(3) by (auto simp: overdue_def)
  then have "accepted_result (dv_now e) result c r d'"
    using fresh can moved(5) up(3) same health r(3) by (simp add: accepted_result_def)
  moreover have "q \<in> set (desktop_control_commands d)" if "q \<in> set (desktop_control_commands d')" "dc_device_id q \<noteq> dp_DeviceID p" for q
  proof -
    have "dc_device_id (advanced (dv_now e) result r) = dp_DeviceID p" by (simp add: advanced_def r(3))
    with moved_rows [OF ex(1) r(1) upd, of q] that same have "q \<in> set (desktop_control_commands d1)" by auto
    then show ?thesis by (rule expiry_rows [OF moved(2)]) (use that(2) in \<open>auto simp: overdue_def\<close>)
  qed
  ultimately show thesis using that old r(2,3) by blast
qed simp

text \<open>
  C23. Results are accepted only from the desktop that has the command. When a result is accepted, the user and
  the device are active, the command is addressed to this device, and either it already has exactly this result, or it
  has not expired, the reported state follows its state, the row holds the report, and a final report is the health
  shown for the device. The commands of all other devices are untouched.
\<close>

theorem result_sound:
  assumes "no_desktops d0" "(desktop_step lb)\<^sup>*\<^sup>* d0 d" "Service_SubmitResult lb e p i result d = (Inr c, d')"
  shows "(\<exists>u\<in>set (users d). u_id u = dp_UserID p \<and> u_status u = ''active'')
    \<and> (\<exists>v\<in>set (devices d). d_id v = dp_DeviceID p \<and> d_user_id v = dp_UserID p \<and> d_status v = ''active'')
    \<and> (\<exists>r\<in>set (desktop_control_commands d). dc_id r = i \<and> dc_device_id r = dp_DeviceID p \<and> accepted_result (dv_now e) result c r d')
    \<and> (\<forall>q\<in>set (desktop_control_commands d'). dc_device_id q \<noteq> dp_DeviceID p \<longrightarrow> q \<in> set (desktop_control_commands d))"
proof -
  have ok: "desktops_ok lb d" using desktop_run.reached_inv [OF assms(1,2)] .
  have adv: "AdvanceCommand lb e p i result d = (Inr c, d')"
    using assms(3) by (cases rule: Result_service_cases) auto
  have "requireActiveDevice False p d = Inr ()" using adv by (cases rule: AdvanceCommand_cases) simp_all
  then have active: "(\<exists>u\<in>set (users d). u_id u = dp_UserID p \<and> u_status u = ''active'')
    \<and> (\<exists>v\<in>set (devices d). d_id v = dp_DeviceID p \<and> d_user_id v = dp_UserID p \<and> d_status v = ''active'')"
    by (auto simp: requireActiveDevice_def split: option.splits dest!: find_Some_in)
  from advance_commands [OF ok adv] obtain r where "r \<in> set (desktop_control_commands d)" "dc_id r = i" "dc_device_id r = dp_DeviceID p"
    "accepted_result (dv_now e) result c r d'"
    "\<forall>q\<in>set (desktop_control_commands d'). dc_device_id q \<noteq> dp_DeviceID p \<longrightarrow> q \<in> set (desktop_control_commands d)" by blast
  with active show ?thesis by blast
qed

section \<open>Lists\<close>

lemma projected_effective: "projected_status now i = effective_status now i"
proof -
  have "at < now - 150 * second \<longleftrightarrow> time_sub now at > heartbeatExpiry" for at
    by (auto simp: time_sub_def heartbeatExpiry_def max_duration_def)
  then show ?thesis by (simp add: projected_status_def effective_status_def split: option.splits)
qed

definition decorated :: "instant \<Rightarrow> Instance \<Rightarrow> Instance" where
  "decorated now i = i\<lparr>inst_EffectiveStatusValue := effective_status now i\<rparr>"

definition page_items :: "desktop_error + InstancePage \<Rightarrow> Instance list" where
  "page_items r = (case r of Inl _ \<Rightarrow> [] | Inr page \<Rightarrow> pg_Items page)"

lemma concat_pages: "length xs \<le> m * n \<Longrightarrow> concat (map (\<lambda>k. take n (drop (k * n) xs)) [0..<m]) = xs"
proof -
  have "concat (map (\<lambda>k. take n (drop (k * n) xs)) [0..<m]) = take (m * n) xs" for m
    by (induction m) (simp_all add: take_add [symmetric] add.commute [of n])
  then show "length xs \<le> m * n \<Longrightarrow> ?thesis" by simp
qed

lemma offset_listed: "listed now (v\<lparr>if_Offset := k\<rparr>) d = listed now v d"
proof -
  have "selected now (v\<lparr>if_Offset := k\<rparr>) = selected now v" by (simp add: selected_def fun_eq_iff)
  then show ?thesis by (simp add: listed_def)
qed

lemma pages_facts:
  assumes "validateInstanceFilter v" "0 < if_Limit v" "length (listed now v d) \<le> m * nat (if_Limit v)"
    "no_desktops d0" "(desktop_step lb)\<^sup>*\<^sup>* d0 d"
  shows "concat (map (\<lambda>k. page_items (Service_ListInstances now False now (v\<lparr>if_Offset := int k * if_Limit v\<rparr>) d)) [0..<m])
      = map (decorated now) (listed now v d)"
    "distinct (map inst_DeviceID (listed now v d))"
    "\<forall>i. i \<in> set (listed now v d) \<longleftrightarrow> (\<exists>r\<in>set (desktop_control_instances d). join_instance d r = Some i) \<and> selected now v i"
    "\<forall>i\<in>set (map (decorated now) (listed now v d)). \<forall>s. if_EffectiveStatus v = Some s \<longrightarrow> inst_EffectiveStatusValue i = s"
proof -
  let ?n = "nat (if_Limit v)"
  have page: "page_items (Service_ListInstances now False now (v\<lparr>if_Offset := int k * if_Limit v\<rparr>) d)
      = map (decorated now) (take ?n (drop (k * ?n) (listed now v d)))" for k
  proof -
    have "validateInstanceFilter (v\<lparr>if_Offset := int k * if_Limit v\<rparr>)" using assms(1,2) by (simp add: validateInstanceFilter_def)
    moreover have "nat (int k * if_Limit v) = k * ?n" using assms(2) by (simp add: nat_mult_distrib)
    ultimately show ?thesis using assms(2)
      by (simp add: page_items_def Service_ListInstances_def Repository_ListInstances_def check_def Let_def decoratePage_def
          offset_listed decorated_def [abs_def])
  qed
  show "concat (map (\<lambda>k. page_items (Service_ListInstances now False now (v\<lparr>if_Offset := int k * if_Limit v\<rparr>) d)) [0..<m])
      = map (decorated now) (listed now v d)"
  proof -
    have "concat (map (\<lambda>k. map (decorated now) (take ?n (drop (k * ?n) (listed now v d)))) [0..<m])
      = map (decorated now) (concat (map (\<lambda>k. take ?n (drop (k * ?n) (listed now v d))) [0..<m]))"
      by (simp add: map_concat comp_def)
    then show ?thesis unfolding page concat_pages [OF assms(3)] .
  qed
  show sel: "\<forall>i. i \<in> set (listed now v d) \<longleftrightarrow> (\<exists>r\<in>set (desktop_control_instances d). join_instance d r = Some i) \<and> selected now v i"
    by (force simp: listed_def List.map_filter_def)
  show "\<forall>i\<in>set (map (decorated now) (listed now v d)). \<forall>s. if_EffectiveStatus v = Some s \<longrightarrow> inst_EffectiveStatusValue i = s"
    using sel by (auto simp: selected_def decorated_def projected_effective)
  have id: "inst_DeviceID i = di_device_id r" if "join_instance d r = Some i" for r i
    using that by (auto simp: join_instance_def scanInstance_def split: option.splits)
  have "distinct (map inst_DeviceID (List.map_filter (join_instance d) t)) \<and>
      inst_DeviceID ` set (List.map_filter (join_instance d) t) \<subseteq> di_device_id ` set t" if "distinct (map di_device_id t)" for t
    using that id by (induction t) (auto simp: List.map_filter_simps split: option.splits)
  then have "distinct (map inst_DeviceID (filter (selected now v) (List.map_filter (join_instance d) (desktop_control_instances d))))"
    using desktop_run.reached_inv [OF assms(4,5)] distinct_map_filter_key unfolding desktops_ok_def by blast
  then show "distinct (map inst_DeviceID (listed now v d))" by (simp add: listed_def distinct_map)
qed


section \<open>A desktop\<close>

definition desk_libs :: desktop_libs where
  "desk_libs = \<lparr>dl_crypto = sample_crypto, dl_format_time = (\<lambda>_. ''t''), dl_cntrl = (\<lambda>c. c < 32)\<rparr>"

definition desk_base :: db where
  "desk_base = empty_db\<lparr>users := [\<lparr>u_id = 1, u_nickname = None, u_status = ''active'', u_password_security_version = 1,
       u_deletion_requested_at = None, u_deletion_finalized_at = None, u_administratively_disabled = False\<rparr>],
     devices := [\<lparr>d_id = 2, d_user_id = 1, d_installation_id = 3, d_public_key = replicate 32 CHR 0x07, d_display_name = ''laptop'',
       d_platform = ''darwin'', d_app_version = ''1.0'', d_status = ''active'', d_last_seen_at = 0, d_revoked_at = None\<rparr>]\<rparr>"

definition desk :: DevicePrincipal where
  "desk = \<lparr>dp_UserID = 1, dp_DeviceID = 2, dp_OrganizationID = None, dp_WorkspaceID = None\<rparr>"

definition desk_beat :: Heartbeat where
  "desk_beat = \<lparr>hb_DisplayName = ''laptop'', hb_ClientVersion = ''1.0'', hb_Platform = ''darwin'', hb_Arch = ''arm64'',
     hb_Capabilities = [CapabilityHealthRead], hb_UptimeSeconds = 5, hb_Health = None\<rparr>"

definition desk_env :: "instant \<Rightarrow> uuid \<Rightarrow> uuid \<Rightarrow> desktop_env" where
  "desk_env t command event = \<lparr>dv_now = t, dv_faults = no_fault, dv_expiry_faults = no_fault, dv_expiry_ids = of_nat,
     dv_command_id = command, dv_event_id = event, dv_locked = (\<lambda>_. False)\<rparr>"

definition desk_admin :: AdminActor where
  "desk_admin = \<lparr>aa_AdminID = 9, aa_ServiceSubject = ''console'', aa_RequestID = ''r1''\<rparr>"

definition desk_row :: "instant \<Rightarrow> desktop_instance_row" where
  "desk_row t = (heartbeat_row desk desk_beat 1)\<lparr>di_last_heartbeat_at := Some t, di_updated_at := t\<rparr>"

definition desk_request :: QueueHealthCheckCommand where
  "desk_request = \<lparr>qh_DeviceID = 2, qh_IdempotencyKeyHash = sha256 sample_crypto ''k1'', qh_Actor = desk_admin\<rparr>"

definition desk_command :: desktop_command_row where
  "desk_command = new_command (desk_env 2 7 8) desk_request"

definition desk_state :: "desktop_instance_row list \<Rightarrow> desktop_command_row list \<Rightarrow> audit_row list \<Rightarrow> db" where
  "desk_state is cs es = desk_base\<lparr>desktop_control_instances := is, desktop_control_commands := cs, audit_events := es\<rparr>"

lemma visible_text:
  assumes "visible v" "v \<noteq> []" "length v \<le> n"
  shows "boundedText v n" "text_column n v"
proof -
  have ascii: "list_all (\<lambda>c. code c < 128) v" using assms(1) by (auto simp: visible_def list_all_iff)
  have no: "CHR 0x0D \<notin> set v" "CHR 0x0A \<notin> set v" "CHR 0x00 \<notin> set v" "CHR '' '' \<notin> set v"
    using assms(1) by (auto simp: visible_def list_all_iff)
  show "boundedText v n" using assms no TrimSpace_visible [OF assms(1)] by (simp add: boundedText_def)
  have "ValidString v" using ascii by (auto simp: ValidString_def pieces_ascii list_all_iff)
  moreover have "RuneCountInString v = length v" by (simp add: RuneCountInString_def runes_ascii [OF ascii] pieces_ascii [OF ascii])
  moreover have "hd v \<noteq> CHR '' ''" "last v \<noteq> CHR '' ''" using no(4) assms(2) by (metis hd_in_set last_in_set)+
  ultimately show "text_column n v" using assms no by (simp add: text_column_def)
qed

lemma desk_words: "visible ''laptop''" "visible ''1.0''" "visible ''r1''"
  by code_simp+

lemma desk_texts:
  "validatePrincipal desk" "validateHeartbeat desk_beat" "instance_checks desk_libs (heartbeat_row desk desk_beat t)"
  "serviceSubjectPattern ''console''" "idempotencyKeyPattern ''k1''"
proof -
  show "validatePrincipal desk" by (simp add: validatePrincipal_def desk_def)
  show "validateHeartbeat desk_beat" by (simp add: validateHeartbeat_def desk_beat_def visible_text desk_words)
  show "serviceSubjectPattern ''console''" by code_simp
  show "idempotencyKeyPattern ''k1''" by code_simp
  have "list_all (\<lambda>c. \<not> c < 32) (runes ''laptop'')" "list_all (\<lambda>c. \<not> c < 32) (runes ''1.0'')"
    by (simp_all add: visible_runes desk_words)
  then show "instance_checks desk_libs (heartbeat_row desk desk_beat t)"
    by (simp add: instance_checks_def heartbeat_row_def desk_beat_def desk_libs_def healthStatusFor_def visible_text desk_words)
qed

lemma desk_state_fields [simp]:
  "desktop_control_instances (desk_state is cs es) = is" "desktop_control_commands (desk_state is cs es) = cs"
  "audit_events (desk_state is cs es) = es" "(desk_state is cs es)\<lparr>desktop_control_instances := is'\<rparr> = desk_state is' cs es"
  "(desk_state is cs es)\<lparr>desktop_control_commands := cs'\<rparr> = desk_state is cs' es"
  "(desk_state is cs es)\<lparr>audit_events := es'\<rparr> = desk_state is cs es'"
  by (simp_all add: desk_state_def)

lemma desk_env_fields [simp]:
  "dv_now (desk_env t i k) = t" "dv_faults (desk_env t i k) = no_fault" "dv_expiry_faults (desk_env t i k) = no_fault"
  "dv_command_id (desk_env t i k) = i" "dv_event_id (desk_env t i k) = k" "dv_locked (desk_env t i k) = (\<lambda>_. False)"
  by (simp_all add: desk_env_def)

lemma desk_fields [simp]: "dp_UserID desk = 1" "dp_DeviceID desk = 2"
  by (simp_all add: desk_def)

lemma desk_row_fields [simp]:
  "di_device_id (desk_row t) = 2" "di_user_id (desk_row t) = 1" "di_capabilities (desk_row t) = [CapabilityHealthRead]"
  "di_last_heartbeat_at (desk_row t) = Some t"
  by (simp_all add: desk_row_def heartbeat_row_def desk_def desk_beat_def)

lemma desk_active: "requireActiveDevice False desk (desk_state is cs es) = Inr ()"
  by (simp add: requireActiveDevice_def desk_def desk_base_def desk_state_def check_def)

definition desk_instance :: "instant \<Rightarrow> Instance" where
  "desk_instance t = scanInstance (desk_row t) (hd (users desk_base)) (hd (devices desk_base))"

lemma desk_read: "readInstance False 2 (desk_state [desk_row t] cs es) = Inr (desk_instance t)"
  by (simp add: readInstance_def desk_state_def join_instance_def desk_base_def present_def desk_instance_def)

lemma desk_instance_fields [simp]:
  "inst_Capabilities (desk_instance t) = [CapabilityHealthRead]" "inst_UserStatus (desk_instance t) = ''active''"
  "inst_DeviceStatus (desk_instance t) = ''active''" "inst_LastHeartbeatAt (desk_instance t) = Some t"
  "inst_DeviceID (desk_instance t) = 2" "inst_UserID (desk_instance t) = 1"
  by (simp_all add: desk_instance_def scanInstance_def desk_base_def)

lemma desk_row_checks: "1 \<le> t \<Longrightarrow> instance_checks desk_libs (desk_row t)"
  using desk_texts(3) [of 1] by (simp add: instance_checks_def desk_row_def heartbeat_row_def)

lemma desk_first_beat: "AcceptHeartbeat desk_libs (desk_env 1 i k) desk desk_beat (desk_state [] cs es) = (Inr (desk_instance 1), desk_state [desk_row 1] cs es)"
proof -
  have row: "heartbeat_row desk desk_beat 1 = desk_row 1" by (simp add: desk_row_def heartbeat_row_def)
  have "instance_references (desk_row 1) (desk_state [] cs es)"
    by (simp add: instance_references_def exists_row_def desk_state_def desk_base_def) (simp add: desk_row_def heartbeat_row_def desk_def)
  then have "upsert_instance desk_libs (desk_row 1) (desk_state [] cs es) = Some (desk_state [desk_row 1] cs es)"
    by (simp add: upsert_instance_def desk_row_checks)
  then show ?thesis using desk_texts(1,2) desk_active desk_read
    by (simp add: AcceptHeartbeat_def check_def row statement_def present_def returning_def)
qed

lemma desk_next_beat:
  assumes "1 \<le> t"
  shows "AcceptHeartbeat desk_libs (desk_env t i k) desk desk_beat (desk_state [desk_row 1] cs es) = (Inr (desk_instance t), desk_state [desk_row t] cs es)"
proof -
  have merge: "merge_instance (heartbeat_row desk desk_beat t) (desk_row 1) = desk_row t"
    by (simp add: merge_instance_def desk_row_def heartbeat_row_def desk_beat_def)
  have "instance_references (desk_row t) (desk_state [desk_row 1] cs es)"
    by (simp add: instance_references_def exists_row_def desk_state_def desk_base_def) (simp add: desk_row_def heartbeat_row_def desk_def)
  then have "upsert_instance desk_libs (heartbeat_row desk desk_beat t) (desk_state [desk_row 1] cs es) = Some (desk_state [desk_row t] cs es)"
    using desk_texts(3) [of t] assms by (simp add: upsert_instance_def desk_row_checks merge Let_def) (simp add: heartbeat_row_def)
  then show ?thesis using desk_texts(1,2) desk_active desk_read
    by (simp add: AcceptHeartbeat_def check_def statement_def present_def returning_def)
qed

lemma nothing_overdue:
  assumes "\<forall>r\<in>set (desktop_control_commands d). \<not> overdue (dv_now e) v r" "\<not> dv_expiry_faults e 0"
  shows "expireOverdueCommands lb e v d = Inr d"
proof -
  have "update_commands (overdue (dv_now e) v) (expire (dv_now e)) d = Some d"
    using assms(1) by (simp add: update_commands_def exists_row_iff update_where_none)
  moreover have "filter (overdue (dv_now e) v) (desktop_control_commands d) = []" using assms(1) by (simp add: filter_empty_conv)
  ultimately show ?thesis using assms(2) by (simp add: expireOverdueCommands_def Let_def statement_def present_def)
qed

lemma desk_record:
  assumes "cm_DeviceID c = 2" "operator \<noteq> []" "visible operator" "length operator \<le> 128" "\<forall>x\<in>set es. a_id x \<noteq> k"
  shows "\<exists>row. recordCommandAudit desk_libs False k c t operator rc now (desk_state is cs es) = Inr (desk_state is cs (es @ [row])) \<and> a_id row = k"
proof -
  have "RuneCountInString operator \<le> 128"
    using visible_text(2) [OF assms(3,2,4)] by (simp add: text_column_def)
  moreover have "devices (desk_state is cs es) = devices desk_base" by (simp add: desk_state_def)
  moreover have "exists_row (\<lambda>v. d_id v = 2) (devices desk_base)" by (simp add: desk_base_def exists_row_def)
  ultimately show ?thesis using assms(1,2,5)
    by (simp add: recordCommandAudit_def insert_audit_def statement_def present_def exists_row_iff)
      (rule exI, rule conjI, rule refl, simp)
qed

lemma desk_hash [simp]: "length (sha256 sample_crypto m) = 32"
  by (simp add: sample_crypto_def)

lemma desk_request_id: "boundedText ''r1'' 128" "text_column 128 ''r1''"
  by (rule visible_text [OF desk_words(3)]; simp)+

lemma desk_command_fields [simp]:
  "dc_id desk_command = 7" "dc_device_id desk_command = 2" "dc_state desk_command = CommandQueued" "dc_created_at desk_command = 2"
  "dc_expires_at desk_command = 2 + 10 * minute" "dc_idempotency_key_hash desk_command = sha256 sample_crypto ''k1''"
  by (simp_all add: desk_command_def new_command_def desk_request_def commandLifetime_def)

lemma desk_command_checks: "command_checks desk_command"
  by (simp add: command_checks_def desk_command_def new_command_def desk_request_def desk_admin_def commandLifetime_def
      lifecycle_check_def at_least_def desk_request_id)

lemma desk_queue:
  "\<exists>row. Service_QueueHealthCheck desk_libs (desk_env 2 7 8) desk_admin 2 ''k1'' (desk_state [desk_row 1] [] [])
     = (Inr (scanCommand desk_command), desk_state [desk_row 1] [desk_command] [row]) \<and> a_id row = 8"
proof -
  have q: "validateQueue desk_request"
    by (simp add: validateQueue_def desk_request_def desk_admin_def desk_texts(4) desk_request_id
        del: serviceSubjectPattern.simps)
  have ex: "expireOverdueCommands desk_libs (desk_env 2 7 8) None (desk_state [desk_row 1] [] []) = Inr (desk_state [desk_row 1] [] [])"
    by (rule nothing_overdue) simp_all
  have can: "commandable 2 (desk_instance 1)"
    by (simp add: commandable_def effective_status_def hasCapability_def time_sub_def max_duration_def heartbeatExpiry_def)
  have "devices (desk_state is cs es) = devices desk_base" for "is" cs es by (simp add: desk_state_def)
  moreover have "exists_row (\<lambda>v. d_id v = 2) (devices desk_base)" by (simp add: desk_base_def exists_row_def)
  ultimately have ins: "insert_command desk_command (desk_state [desk_row 1] [] []) = Some (True, desk_state [desk_row 1] [desk_command] [])"
    by (simp add: insert_command_def desk_command_checks exists_row_def)
  have "cm_DeviceID (scanCommand desk_command) = 2" by (simp add: scanCommand_def)
  from desk_record [OF this, of "''console''" "[]" 8 "''desktop_health_check_requested''" None 2 "[desk_row 1]" "[desk_command]"] obtain row where
    row: "recordCommandAudit desk_libs False 8 (scanCommand desk_command) ''desktop_health_check_requested'' ''console'' None 2 (desk_state [desk_row 1] [desk_command] [])
      = Inr (desk_state [desk_row 1] [desk_command] [row])" "a_id row = 8"
    by (auto simp: visible_def)
  have "enqueue desk_libs (desk_env 2 7 8) desk_request (desk_state [desk_row 1] [] []) = Inr (scanCommand desk_command, desk_state [desk_row 1] [desk_command] [row])"
    using ins row(1) unfolding desk_command_def by (simp add: enqueue_def statement_def present_def desk_request_def desk_admin_def check_def)
  then have "QueueHealthCheck desk_libs (desk_env 2 7 8) desk_request (desk_state [desk_row 1] [] [])
      = (Inr (scanCommand desk_command), desk_state [desk_row 1] [desk_command] [row])"
    using q ex can desk_read [of 1 "[]" "[]"]
    by (simp add: QueueHealthCheck_def check_def findCommandByIdempotency_def returning_def desk_request_def [THEN arg_cong, of qh_DeviceID])
  then show ?thesis using row(2) q desk_texts(5)
    by (intro exI [of _ row]) (simp add: Service_QueueHealthCheck_def check_def Let_def desk_request_def [symmetric] desk_libs_def [THEN arg_cong, of dl_crypto] service_result_def)
qed

lemma desk_idle_claim: "ClaimNextCommand desk_libs (desk_env t i k) desk (desk_state [desk_row t] [] es) = (Inr None, desk_state [desk_row t] [] es)"
proof -
  have "expireOverdueCommands desk_libs (desk_env t i k) (Some 2) (desk_state [desk_row t] [] es) = Inr (desk_state [desk_row t] [] es)"
    by (rule nothing_overdue) simp_all
  then show ?thesis using desk_texts(1) desk_active desk_read
    by (simp add: ClaimNextCommand_def check_def hasCapability_def claimable_def returning_def)
qed

definition desk_claimed :: desktop_command_row where
  "desk_claimed = claim 3 desk_command"

lemma desk_claim: "ClaimNextCommand desk_libs (desk_env 3 i k) desk (desk_state [desk_row 3] [desk_command] es)
    = (Inr (Some (scanCommand desk_claimed)), desk_state [desk_row 3] [desk_claimed] es)"
proof -
  have ex: "expireOverdueCommands desk_libs (desk_env 3 i k) (Some 2) (desk_state [desk_row 3] [desk_command] es) = Inr (desk_state [desk_row 3] [desk_command] es)"
    by (rule nothing_overdue) (simp_all add: overdue_def)
  have checks: "enforce_desktop_control_command_transition desk_command desk_claimed" "command_checks desk_claimed"
    using desk_command_checks
    by (simp_all add: enforce_desktop_control_command_transition_def desk_claimed_def claim_def command_checks_def lifecycle_check_def at_least_def
        desk_command_def new_command_def)
  then have up: "update_commands (\<lambda>r. dc_id r = 7) (claim 3) (desk_state [desk_row 3] [desk_command] es) = Some (desk_state [desk_row 3] [desk_claimed] es)"
    by (simp add: update_commands_def exists_row_def desk_claimed_def)
  have claimable: "claimable (desk_env 3 i k) 2 (desk_state [desk_row 3] [desk_command] es) = [desk_command]"
    by (simp add: claimable_def)
  have id: "dc_id desk_claimed = 7" by (simp add: desk_claimed_def claim_def)
  show ?thesis using desk_texts(1) desk_active desk_read ex claimable up [unfolded claim_def [abs_def]]
    by (simp add: ClaimNextCommand_def check_def hasCapability_def returning_def statement_def present_def readCommand_def id)
qed

definition healthy :: HealthSummary where
  "healthy = \<lparr>hs_DesktopStatus = ''healthy'', hs_RuntimeStatus = ''healthy'', hs_GatewayStatus = ''healthy'', hs_Code = HealthCodeHealthy, hs_DurationMS = 20\<rparr>"

definition running_result :: CommandResult where
  "running_result = \<lparr>rs_State = CommandRunning, rs_Code = OtherHealthCode [], rs_Summary = None\<rparr>"

definition healthy_result :: CommandResult where
  "healthy_result = \<lparr>rs_State = CommandSucceeded, rs_Code = HealthCodeHealthy, rs_Summary = Some healthy\<rparr>"

definition desk_started :: desktop_command_row where
  "desk_started = advanced 4 running_result desk_claimed"

lemma desk_results: "validateResult running_result" "validateResult healthy_result"
  by (simp_all add: validateResult_def running_result_def healthy_result_def validHealthSummary_def healthy_def)

lemma desk_claimed_fields [simp]:
  "dc_id desk_claimed = 7" "dc_device_id desk_claimed = 2" "dc_state desk_claimed = CommandClaimed" "dc_expires_at desk_claimed = 2 + 10 * minute"
  by (simp_all add: desk_claimed_def claim_def)

lemma desk_start: "Service_SubmitResult desk_libs (desk_env 4 i k) desk 7 running_result (desk_state [desk_row 3] [desk_claimed] es)
    = (Inr (scanCommand desk_started), desk_state [desk_row 3] [desk_started] es)"
proof -
  have ex: "expireOverdueCommands desk_libs (desk_env 4 i k) (Some 2) (desk_state [desk_row 3] [desk_claimed] es) = Inr (desk_state [desk_row 3] [desk_claimed] es)"
    by (rule nothing_overdue) (simp_all add: overdue_def)
  have checks: "enforce_desktop_control_command_transition desk_claimed desk_started" "command_checks desk_started"
    using desk_command_checks
    by (simp_all add: enforce_desktop_control_command_transition_def desk_started_def advanced_def running_result_def desk_claimed_def claim_def
        command_checks_def lifecycle_check_def at_least_def desk_command_def new_command_def)
  then have up: "update_commands (\<lambda>r. dc_id r = 7) (advanced 4 running_result) (desk_state [desk_row 3] [desk_claimed] es)
      = Some (desk_state [desk_row 3] [desk_started] es)"
    by (simp add: update_commands_def exists_row_def desk_started_def)
  have "devices (desk_state is cs es) = devices desk_base" for "is" cs es by (simp add: desk_state_def)
  then have "readCommandForDevice False 7 2 1 (desk_state [desk_row 3] [desk_claimed] es) = Inr (scanCommand desk_claimed)"
    by (simp add: readCommandForDevice_def present_def desk_base_def exists_row_def)
  moreover have "rs_State running_result = CommandRunning" "dc_id desk_started = 7"
    by (simp_all add: running_result_def desk_started_def advanced_def)
  ultimately have "AdvanceCommand desk_libs (desk_env 4 i k) desk 7 running_result (desk_state [desk_row 3] [desk_claimed] es)
      = (Inr (scanCommand desk_started), desk_state [desk_row 3] [desk_started] es)"
    using desk_texts(1) desk_active ex up desk_results(1)
    by (simp add: AdvanceCommand_def check_def returning_def statement_def present_def readCommand_def terminal_result_def)
  then show ?thesis using desk_texts(1) desk_results(1)
    by (simp add: Service_SubmitResult_def check_def service_result_def)
qed

lemma desk_empty: "no_desktops (desk_state [] [] [])"
  by (simp add: no_desktops_def)

lemma desk_beats:
  "\<exists>rc. Service_Heartbeat desk_libs 1 (desk_env 1 0 0) (desk_env 1 0 0) desk desk_beat (desk_state [] [] []) = (Inr rc, desk_state [desk_row 1] [] [])"
  "\<exists>rc. Service_Heartbeat desk_libs 3 (desk_env 3 0 0) (desk_env 3 0 0) desk desk_beat (desk_state [desk_row 1] [desk_command] es)
     = (Inr rc, desk_state [desk_row 3] [desk_claimed] es) \<and> hr_Command rc = Some (scanCommand desk_claimed)"
  using desk_texts(1,2)
  by (simp_all add: Service_Heartbeat_def check_def desk_first_beat desk_next_beat desk_idle_claim desk_claim service_result_def)

lemma desk_run:
  obtains row where
    "Service_QueueHealthCheck desk_libs (desk_env 2 7 8) desk_admin 2 ''k1'' (desk_state [desk_row 1] [] [])
       = (Inr (scanCommand desk_command), desk_state [desk_row 1] [desk_command] [row])"
    "(desktop_step desk_libs)\<^sup>*\<^sup>* (desk_state [] [] []) (desk_state [desk_row 1] [] [])"
    "(desktop_step desk_libs)\<^sup>*\<^sup>* (desk_state [] [] []) (desk_state [desk_row 1] [desk_command] [row])"
    "(desktop_step desk_libs)\<^sup>*\<^sup>* (desk_state [] [] []) (desk_state [desk_row 3] [desk_claimed] [row])"
proof -
  obtain row where q: "Service_QueueHealthCheck desk_libs (desk_env 2 7 8) desk_admin 2 ''k1'' (desk_state [desk_row 1] [] [])
       = (Inr (scanCommand desk_command), desk_state [desk_row 1] [desk_command] [row])" using desk_queue by blast
  obtain r1 r3 where b: "Service_Heartbeat desk_libs 1 (desk_env 1 0 0) (desk_env 1 0 0) desk desk_beat (desk_state [] [] []) = (Inr r1, desk_state [desk_row 1] [] [])"
    "Service_Heartbeat desk_libs 3 (desk_env 3 0 0) (desk_env 3 0 0) desk desk_beat (desk_state [desk_row 1] [desk_command] [row])
     = (Inr r3, desk_state [desk_row 3] [desk_claimed] [row])" using desk_beats by metis
  have s1: "desktop_step desk_libs (desk_state [] [] []) (desk_state [desk_row 1] [] [])"
    unfolding desktop_step_def by (rule exI [of _ "Do_Heartbeat 1 (desk_env 1 0 0) (desk_env 1 0 0) desk desk_beat"]) (simp add: b(1))
  have s2: "desktop_step desk_libs (desk_state [desk_row 1] [] []) (desk_state [desk_row 1] [desk_command] [row])"
    unfolding desktop_step_def by (rule exI [of _ "Do_Queue (desk_env 2 7 8) desk_admin 2 ''k1''"]) (simp add: q)
  have s3: "desktop_step desk_libs (desk_state [desk_row 1] [desk_command] [row]) (desk_state [desk_row 3] [desk_claimed] [row])"
    unfolding desktop_step_def by (rule exI [of _ "Do_Heartbeat 3 (desk_env 3 0 0) (desk_env 3 0 0) desk desk_beat"]) (simp add: b(2))
  have a1: "(desktop_step desk_libs)\<^sup>*\<^sup>* (desk_state [] [] []) (desk_state [desk_row 1] [] [])" using s1 by (rule r_into_rtranclp)
  have a2: "(desktop_step desk_libs)\<^sup>*\<^sup>* (desk_state [] [] []) (desk_state [desk_row 1] [desk_command] [row])" using a1 s2 by (rule rtranclp.rtrancl_into_rtrancl)
  have a3: "(desktop_step desk_libs)\<^sup>*\<^sup>* (desk_state [] [] []) (desk_state [desk_row 3] [desk_claimed] [row])" using a2 s3 by (rule rtranclp.rtrancl_into_rtrancl)
  from q a1 a2 a3 show thesis by (rule that)
qed

theorem desktop_refines_witness:
  "\<exists>row. some_turn\<^sup>*\<^sup>* Map.empty (board_of (desk_state [desk_row 3] [desk_claimed] [row]))
     \<and> turn (Desktop 2) (board_of (desk_state [desk_row 3] [desk_claimed] [row])) (board_of (desk_state [desk_row 3] [desk_started] [row]))"
proof -
  obtain row where run: "(desktop_step desk_libs)\<^sup>*\<^sup>* (desk_state [] [] []) (desk_state [desk_row 3] [desk_claimed] [row])"
    using desk_run by blast
  have call: "desktop_call desk_libs (Do_Result (desk_env 4 0 0) desk 7 running_result) (desk_state [desk_row 3] [desk_claimed] [row])
      = (Command_Reply (Inr (scanCommand desk_started)), desk_state [desk_row 3] [desk_started] [row])"
    by (simp add: desk_start)
  from desktop_refines [OF desk_empty run call] show ?thesis by auto
qed

theorem command_handed_once_witness:
  "\<exists>row rs d'. run_all (desktop_call desk_libs) [Do_Heartbeat 3 (desk_env 3 0 0) (desk_env 3 0 0) desk desk_beat]
       (desk_state [desk_row 1] [desk_command] [row]) = (rs, d') \<and> length (filter (hands 7) rs) = 1"
proof -
  obtain row where run: "(desktop_step desk_libs)\<^sup>*\<^sup>* (desk_state [] [] []) (desk_state [desk_row 1] [desk_command] [row])"
    using desk_run by blast
  obtain rc where "Service_Heartbeat desk_libs 3 (desk_env 3 0 0) (desk_env 3 0 0) desk desk_beat (desk_state [desk_row 1] [desk_command] [row])
     = (Inr rc, desk_state [desk_row 3] [desk_claimed] [row])" "hr_Command rc = Some (scanCommand desk_claimed)" using desk_beats(2) by blast
  then have all: "run_all (desktop_call desk_libs) [Do_Heartbeat 3 (desk_env 3 0 0) (desk_env 3 0 0) desk desk_beat]
       (desk_state [desk_row 1] [desk_command] [row]) = ([Beat_Reply (Inr rc)], desk_state [desk_row 3] [desk_claimed] [row])"
    and hands: "hands 7 (Beat_Reply (Inr rc))" by (simp_all add: hands_def)
  have "length (filter (hands 7) [Beat_Reply (Inr rc)]) \<le> 1"
    using command_handed_once [OF desk_empty run all, of 7] by simp
  with hands have "length (filter (hands 7) [Beat_Reply (Inr rc)]) = 1" by simp
  with all show ?thesis by (intro exI conjI)
qed

lemma desk_again: "Service_QueueHealthCheck desk_libs (desk_env 4 11 12) desk_admin 2 ''k1'' (desk_state [desk_row 3] [desk_claimed] es)
    = (Inr ((scanCommand desk_claimed)\<lparr>cm_Replayed := True\<rparr>), desk_state [desk_row 3] [desk_claimed] es)"
proof -
  have q: "validateQueue desk_request"
    by (simp add: validateQueue_def desk_request_def desk_admin_def desk_texts(4) desk_request_id del: serviceSubjectPattern.simps)
  have ex: "expireOverdueCommands desk_libs (desk_env 4 11 12) None (desk_state [desk_row 3] [desk_claimed] es) = Inr (desk_state [desk_row 3] [desk_claimed] es)"
    by (rule nothing_overdue) (simp_all add: overdue_def)
  have key: "qh_DeviceID desk_request = 2" "qh_IdempotencyKeyHash desk_request = dc_idempotency_key_hash desk_claimed"
    by (simp_all add: desk_request_def desk_claimed_def claim_def)
  have "QueueHealthCheck desk_libs (desk_env 4 11 12) desk_request (desk_state [desk_row 3] [desk_claimed] es)
      = (Inr ((scanCommand desk_claimed)\<lparr>cm_Replayed := True\<rparr>), desk_state [desk_row 3] [desk_claimed] es)"
    using q ex by (simp add: QueueHealthCheck_def check_def findCommandByIdempotency_def key replay_def returning_def)
  then show ?thesis using q desk_texts(5)
    by (simp add: Service_QueueHealthCheck_def check_def Let_def desk_request_def [symmetric] desk_libs_def [THEN arg_cong, of dl_crypto] service_result_def)
qed

theorem queue_idempotent_witness:
  "\<exists>row c' d'. Service_QueueHealthCheck desk_libs (desk_env 4 11 12) desk_admin 2 ''k1'' (desk_state [desk_row 3] [desk_claimed] [row]) = (Inr c', d')
     \<and> cm_ID c' = 7 \<and> cm_Replayed c' \<and> map dc_id (desktop_control_commands d') = [7]"
proof -
  obtain row where first: "Service_QueueHealthCheck desk_libs (desk_env 2 7 8) desk_admin 2 ''k1'' (desk_state [desk_row 1] [] [])
       = (Inr (scanCommand desk_command), desk_state [desk_row 1] [desk_command] [row])"
    and run: "(desktop_step desk_libs)\<^sup>*\<^sup>* (desk_state [] [] []) (desk_state [desk_row 1] [] [])" using desk_run by blast
  obtain rc where "Service_Heartbeat desk_libs 3 (desk_env 3 0 0) (desk_env 3 0 0) desk desk_beat (desk_state [desk_row 1] [desk_command] [row])
     = (Inr rc, desk_state [desk_row 3] [desk_claimed] [row])" using desk_beats(2) by blast
  then have all: "run_all (desktop_call desk_libs) [Do_Heartbeat 3 (desk_env 3 0 0) (desk_env 3 0 0) desk desk_beat]
       (desk_state [desk_row 1] [desk_command] [row]) = ([Beat_Reply (Inr rc)], desk_state [desk_row 3] [desk_claimed] [row])" by simp
  have other: "\<forall>op\<in>set [Do_Heartbeat 3 (desk_env 3 0 0) (desk_env 3 0 0) desk desk_beat]. party_of op \<noteq> NewOwner 2" by simp
  note same = queue_idempotent [OF desk_empty run first all other desk_again]
  have "map dc_id (desktop_control_commands (desk_state [desk_row 3] [desk_claimed] [row])) = [7]" using same by simp
  with same [THEN conjunct2, rule_format, OF refl] desk_again [of "[row]"] show ?thesis by (intro exI conjI) (assumption, simp_all)
qed

theorem result_sound_witness:
  "\<exists>row. Service_SubmitResult desk_libs (desk_env 4 0 0) desk 7 running_result (desk_state [desk_row 3] [desk_claimed] [row])
       = (Inr (scanCommand desk_started), desk_state [desk_row 3] [desk_started] [row])
     \<and> accepted_result 4 running_result (scanCommand desk_started) desk_claimed (desk_state [desk_row 3] [desk_started] [row])"
proof -
  obtain row where run: "(desktop_step desk_libs)\<^sup>*\<^sup>* (desk_state [] [] []) (desk_state [desk_row 3] [desk_claimed] [row])"
    using desk_run by blast
  from result_sound [OF desk_empty run desk_start [of 0 0 "[row]"]] desk_start [of 0 0 "[row]"] show ?thesis by auto
qed

definition online_filter :: InstanceFilter where
  "online_filter = \<lparr>if_DeviceID = None, if_UserID = Some 1, if_OrganizationID = None, if_Platform = [], if_ClientVersion = [],
     if_EffectiveStatus = Some EffectiveOnline, if_Limit = 1, if_Offset = 0\<rparr>"

lemma desk_listed: "listed 2 online_filter (desk_state [desk_row 1] [] []) = [desk_instance 1]"
proof -
  have "join_instance (desk_state [desk_row 1] [] []) (desk_row 1) = Some (desk_instance 1)"
    using desk_read [of 1 "[]" "[]"] by (simp add: readInstance_def)
  moreover have "selected 2 online_filter (desk_instance 1)"
    by (simp add: selected_def online_filter_def projected_status_def)
  ultimately show ?thesis by (simp add: listed_def List.map_filter_simps)
qed


end
