(* ===== verification/Spec2Isabelle.thy ===== *)
theory Spec2Isabelle
  imports AccountFlows OneTimeCodes WorkspaceSafety BackupFlows DesktopFlows
begin

text \<open>
  A verification of the core of the account cloud of the desktop application: the services under
  \<open>src/internal\<close> that keep accounts, devices, sessions, one-time codes, shared workspaces, encrypted backups
  and the control of desktops. The theories read like the Go packages they model; this theory imports them all.

  \<^bold>\<open>The program.\<close> A person registers with an e-mail address or a phone number that a one-time code proves
  (\<open>verification\<close>), and signs in with a password or a code (\<open>account\<close>). The desktop application signs in through
  the browser: it begins a request with a PKCE challenge and its device key, the user approves, and the desktop
  exchanges the code for an access token, a rotating refresh token and an offline entitlement (\<open>oauth\<close>,
  \<open>device\<close>, \<open>session\<close>, \<open>entitlement\<close>). Users share workspaces by invitation (\<open>workspace\<close>); devices upload
  ciphertext of profiles to an object store (\<open>encryptedbackup\<close>); desktops send heartbeats and run the health
  checks operators queue (\<open>desktopcontrol\<close>); a runner under a lease cleans up (\<open>jobs\<close>). All share one
  PostgreSQL database and one Redis, use the primitives of \<open>secure\<close> and write to one audit log (\<open>audit\<close>).

  \<^bold>\<open>The theories.\<close>
  \<^item> \<open>Prelude\<close>, \<open>GoText\<close>, \<open>Crypto\<close>, \<open>Store\<close>, \<open>Redis\<close>: what the services share. Types of Go, schedules of
    failures, SQL statements on lists of rows, transactions and methods as sequences that stop at the first
    error; text functions of Go's library; the cryptographic primitives as a parameter with named laws; the
    tables of the migrations with the checks of insertions; keys in Redis with expiry. The locales are here:
    \<open>simulation\<close> (refinement of an abstract system), \<open>budget\<close> (a number that never grows bounds how often
    something happens), \<open>lease\<close> (mutual exclusion).
  \<^item> \<open>Codec\<close>, \<open>Identity\<close>, \<open>Password\<close>: \<open>internal/secure\<close>. The locale \<open>canonical_codec\<close> is the contract of a
    decoder that accepts exactly what the encoder writes.
  \<^item> \<open>Limiter\<close>, \<open>Receipt\<close>, \<open>Verification\<close>, \<open>OneTimeCodes\<close>: \<open>internal/verification\<close>. The number of guesses and of
    receipts is bounded per message sent, through \<open>budget\<close>; a delivered code works.
  \<^item> \<open>Tokens\<close>, \<open>Access\<close>, \<open>Session\<close>, \<open>SessionSafety\<close>, \<open>Entitlement\<close>: \<open>internal/session\<close> and
    \<open>internal/entitlement\<close>. The locale \<open>timed_token\<close> is what the two signers and the receipts have in common.
    A refresh token is exchanged once, a replay ends the family, a logout is final.
  \<^item> \<open>Device\<close>, \<open>DeviceSafety\<close>: \<open>internal/device\<close>; \<open>OAuth\<close>, \<open>OAuthSafety\<close>: \<open>internal/oauth\<close>; \<open>Lifecycle\<close>: these
    with the sessions on one database, in any interleaving.
  \<^item> \<open>AuditLog\<close>: \<open>internal/audit\<close>, with what a recorded event can contain.
  \<^item> \<open>Account\<close>, \<open>AccountService\<close>, \<open>AccountSafety\<close>, \<open>AccountSamples\<close>, \<open>Platform\<close>, \<open>AccountFlows\<close>: \<open>internal/account\<close>.
    \<open>Platform\<close> is all identity services together and has the invariant of every state they reach; \<open>AccountFlows\<close>
    follows an account from registration to deletion.
  \<^item> \<open>Workspaces\<close>, \<open>WorkspaceService\<close>: \<open>internal/workspace\<close>. \<open>WorkspaceSpec\<close> is an abstract directory of
    workspaces; \<open>WorkspaceTables\<close> and \<open>WorkspaceSafety\<close> show that the service refines it, an instance of
    \<open>simulation\<close>, and what follows; \<open>WorkspaceSamples\<close> is an example.
  \<^item> \<open>Backups\<close>, \<open>ObjectStore\<close>, \<open>BackupService\<close>: \<open>internal/encryptedbackup\<close> with the constraints and triggers of
    migration 18; \<open>Jobs\<close>: \<open>internal/jobs\<close>. \<open>BackupSafety\<close> has the invariant of all states the service and the
    maintenance reach, \<open>BackupFlows\<close> the effect of single calls, \<open>BackupSamples\<close> an example.
  \<^item> \<open>DesktopControl\<close>: \<open>internal/desktopcontrol\<close> with the constraints and the trigger of migration 23.
    \<open>DesktopSafety\<close> has an abstract board of orders and shows that every call of the service is a turn on it,
    another instance of \<open>simulation\<close>; \<open>DesktopFlows\<close> has what follows for runs, results and lists, and an example.

  \<^bold>\<open>How code becomes a definition.\<close> A struct is a record, a row of a table is a record with the columns of the
  migration, a table is the list of its rows. A method has the name of the Go method, with the package in front
  where two packages share it; its arguments come first and the state last; the result is a pair of a sum
  (\<open>Inl\<close> an error, \<open>Inr\<close> a value) and the new state. Every error return is a branch. Each call to PostgreSQL,
  Redis or the object store may fail: an argument \<open>f\<close> of type \<open>schedule\<close> says which calls of an operation do, so
  that a property proved for every \<open>f\<close> holds for every pattern of failures. Time, random draws and new
  identifiers are arguments too. A transaction that returns an error or whose commit fails leaves the tables as they
  were. The constraints and triggers of the schema are part of the statements.

  Code outside the repository is a parameter: cryptography (\<open>crypto\<close>), JSON and the canonical text of signed
  values, \<open>net/url\<close>, \<open>net.ParseIP\<close>, \<open>uuid.Parse\<close>, the lower-case table of Unicode, collation and character classes
  of the database, mail, SMS and CAPTCHA services, the S3 client. What a property needs of them is among its
  hypotheses (for example \<open>gcm_correct\<close>, \<open>signature_correct\<close>, \<open>s3_laws\<close>), and each such property is applied to a
  concrete instance in a theorem with the suffix \<open>_witness\<close>.

  \<^bold>\<open>What is abstracted.\<close> Transactions run one after the other; the row locks and advisory locks the code takes
  are what makes this so, and rows that \<open>SKIP LOCKED\<close> passes over are an argument. Times are exact, while PostgreSQL
  keeps microseconds. Checks of nil receivers and nil dependencies, contexts that end between calls, and logging
  are left out, and so is the column \<open>workspace_memberships.updated_at\<close>, which nothing reads. Integers of Go are
  \<open>int\<close>, with their bounds where the code checks them; hashes, lock numbers and UUIDs are words.

  \<^bold>\<open>Termination and bounds.\<close> Every definition is a total function; loops over data recurse on it, the loop of
  \<open>encryptedBackupRetryDelay\<close> and the decoder of UTF-8 have measures. There is no fuel. The loop of the maintenance
  runner, which never ends by itself, is a sequence of passes.

  \<^bold>\<open>What the properties show.\<close> Each is numbered where it stands. The main groups: credentials work once
  (receipts, authorization codes, refresh tokens, invitations, self-revocation nonces); what one may do needs the
  right proof (login, exchange, authentication, workspace roles, sealing); what is ended stays ended (logout,
  password change, deletion of accounts and backups); what is stored comes back (identities, passwords, states,
  ciphertext); invariants of all reachable states; refinement of abstract specifications; limits and quotas under any
  interleaving; failures change nothing or leave what the next pass completes.

  \<^bold>\<open>Not modelled.\<close> Organizations, the catalogue of agents and their releases (\<open>agentcontrol\<close>), quality feedback
  (\<open>officialquality\<close>) and the operators' side (\<open>admin\<close>, \<open>adminapi\<close>) are separate subsystems on tables of their own;
  where a modelled statement reads such a table (installations, definitions, versions, organizations), its rows are in
  the database and change freely. Of \<open>jobs\<close> the deletion of expired rows outside workspaces and backups is not
  modelled, of the finalization of an account only what it does to workspaces. Handlers of HTTP, decoding of
  requests, cookies (\<open>browser\<close>), configuration, clients of mail, SMS and CAPTCHA services, connection set-up and
  the commands under \<open>src/cmd\<close> are input and output around the modelled services.
\<close>

end
